(* ===== verification/Prelude.thy ===== *)
theory Prelude
  imports Main "HOL-Library.Word" "HOL-Library.Monad_Syntax"
begin

text \<open>
  Shared vocabulary of the development: the C integer types of the sources as words, the
  little-endian memory image of integers on the Cortex-M0+, checked accesses to C arrays
  (an access outside the array is \<open>None\<close>, since it is undefined behaviour in C), and the
  generic lemmas on lists, options and words that the component theories use.
\<close>

unbundle bit_operations_syntax

type_synonym u8 = "8 word"
type_synonym u16 = "16 word"
type_synonym u32 = "32 word"

named_theorems mem_simps \<open>checked memory accesses that are in range\<close>
named_theorems le_simps \<open>little-endian encoding and decoding of integers\<close>

subsection \<open>Checked accesses to C arrays\<close>

definition mem_read :: "'a list \<Rightarrow> nat \<Rightarrow> 'a option" where
  "mem_read xs i = (if i < length xs then Some (xs ! i) else None)"

definition mem_write :: "'a list \<Rightarrow> nat \<Rightarrow> 'a \<Rightarrow> 'a list option" where
  "mem_write xs i v = (if i < length xs then Some (xs[i := v]) else None)"

definition mem_slice :: "'a list \<Rightarrow> nat \<Rightarrow> nat \<Rightarrow> 'a list option" where
  "mem_slice xs i n = (if i + n \<le> length xs then Some (take n (drop i xs)) else None)"

lemma mem_read_Some [mem_simps]: "i < length xs \<Longrightarrow> mem_read xs i = Some (xs ! i)"
  by (simp add: mem_read_def)

lemma mem_write_Some [mem_simps]: "i < length xs \<Longrightarrow> mem_write xs i v = Some (xs[i := v])"
  by (simp add: mem_write_def)

lemma mem_slice_Some [mem_simps]:
  "i + n \<le> length xs \<Longrightarrow> mem_slice xs i n = Some (take n (drop i xs))"
  by (simp add: mem_slice_def)

lemma mem_slice_eq_Some_iff:
  "mem_slice xs i n = Some ys \<longleftrightarrow> i + n \<le> length xs \<and> ys = take n (drop i xs)"
  by (auto simp: mem_slice_def)

lemma mem_slice_length: "mem_slice xs i n = Some ys \<Longrightarrow> length ys = n"
  by (auto simp: mem_slice_def split: if_splits)

text \<open>A slice that lies inside the middle part of a concatenation is that part.\<close>

lemma mem_slice_append [mem_simps]:
  "length xs = i \<Longrightarrow> length ys = n \<Longrightarrow> mem_slice (xs @ ys @ zs) i n = Some ys"
  by (simp add: mem_slice_def)

lemma mem_slice_append_last [mem_simps]:
  "length xs = i \<Longrightarrow> length ys = n \<Longrightarrow> mem_slice (xs @ ys) i n = Some ys"
  by (simp add: mem_slice_def)

subsection \<open>Total correctness of functions that may not return\<close>

text \<open>\<open>returns r Q\<close>: the call returns and its result satisfies \<open>Q\<close>.\<close>

definition returns :: "'a option \<Rightarrow> ('a \<Rightarrow> bool) \<Rightarrow> bool" where
  "returns r Q \<longleftrightarrow> (\<exists>x. r = Some x \<and> Q x)"

lemma returns_Some [simp]: "returns (Some x) Q \<longleftrightarrow> Q x"
  by (simp add: returns_def)

lemma returns_map [simp]: "returns (map_option f r) Q \<longleftrightarrow> returns r (\<lambda>x. Q (f x))"
  by (auto simp: returns_def)

lemma returns_bind: "returns r (\<lambda>x. returns (k x) Q) \<Longrightarrow> returns (Option.bind r k) Q"
  by (auto simp: returns_def)

lemma returns_mono: "returns r P \<Longrightarrow> (\<And>x. P x \<Longrightarrow> Q x) \<Longrightarrow> returns r Q"
  by (auto simp: returns_def)

lemma returns_if:
  "(c \<Longrightarrow> returns a Q) \<Longrightarrow> (\<not> c \<Longrightarrow> returns b Q) \<Longrightarrow> returns (if c then a else b) Q"
  by simp

subsection \<open>Little-endian images of integers\<close>

lemma bit_u8_high [simp]: "8 \<le> n \<Longrightarrow> \<not> bit (w :: u8) n"
  using bit_imp_le_length [of w n] by auto

lemma bit_u16_high [simp]: "16 \<le> n \<Longrightarrow> \<not> bit (w :: u16) n"
  using bit_imp_le_length [of w n] by auto

definition le16 :: "u16 \<Rightarrow> u8 list" where
  "le16 w = [ucast w, ucast (drop_bit 8 w)]"

definition le32 :: "u32 \<Rightarrow> u8 list" where
  "le32 w = [ucast w, ucast (drop_bit 8 w), ucast (drop_bit 16 w), ucast (drop_bit 24 w)]"

definition of_le16 :: "u8 list \<Rightarrow> u16" where
  "of_le16 bs = ucast (bs ! 0) OR push_bit 8 (ucast (bs ! 1))"

definition of_le32 :: "u8 list \<Rightarrow> u32" where
  "of_le32 bs = ucast (bs ! 0) OR push_bit 8 (ucast (bs ! 1))
     OR push_bit 16 (ucast (bs ! 2)) OR push_bit 24 (ucast (bs ! 3))"

lemma length_le16 [simp]: "length (le16 w) = 2"
  by (simp add: le16_def)

lemma length_le32 [simp]: "length (le32 w) = 4"
  by (simp add: le32_def)

lemma of_le16_le16 [le_simps, simp]: "of_le16 (le16 w) = w"
proof (rule bit_word_eqI)
  fix n
  assume "n < LENGTH(16)"
  then show "bit (of_le16 (le16 w)) n \<longleftrightarrow> bit w n"
    by (auto simp: of_le16_def le16_def bit_simps)
qed

lemma of_le32_le32 [le_simps, simp]: "of_le32 (le32 w) = w"
proof (rule bit_word_eqI)
  fix n
  assume "n < LENGTH(32)"
  then consider "n < 8" | "8 \<le> n \<and> n < 16" | "16 \<le> n \<and> n < 24" | "24 \<le> n \<and> n < 32"
    by fastforce
  then show "bit (of_le32 (le32 w)) n \<longleftrightarrow> bit w n"
    by cases (auto simp: of_le32_def le32_def bit_simps)
qed

lemma le16_of_le16 [le_simps]: "length bs = 2 \<Longrightarrow> le16 (of_le16 bs) = bs"
proof -
  assume "length bs = 2"
  then obtain a b where bs: "bs = [a, b]"
    by (metis (no_types, lifting) One_nat_def Suc_1 length_0_conv length_Suc_conv)
  have "ucast (of_le16 [a, b]) = a" and "ucast (drop_bit 8 (of_le16 [a, b])) = b"
    by (auto simp: of_le16_def bit_simps bit_u8_high intro!: bit_word_eqI)
  then show ?thesis by (simp add: bs le16_def)
qed

lemma le16_inject [simp]: "le16 v = le16 w \<longleftrightarrow> v = w"
  by (metis of_le16_le16)

subsection \<open>Signed readings of machine words\<close>

text \<open>The cast of an unsigned difference to a signed type, as in \<open>(int32_t)(a - b) < 0\<close>.\<close>

abbreviation s32 :: "u32 \<Rightarrow> int" where "s32 w \<equiv> sint w"

lemma word_less_eq_unat_simps:
  fixes a b :: "'a::len word"
  shows "a < b \<longleftrightarrow> unat a < unat b" and "a \<le> b \<longleftrightarrow> unat a \<le> unat b"
  by (simp_all add: word_less_nat_alt word_le_nat_alt)

subsection \<open>Lists\<close>

lemma take_Suc_update:
  "i < length xs \<Longrightarrow> take (Suc i) (xs[i := v]) = take i xs @ [v]"
  by (simp add: take_Suc_conv_app_nth)

lemma drop_update_low: "i < j \<Longrightarrow> drop j (xs[i := v]) = drop j xs"
  by simp

end
