(* ===== verification/Ringbuf.thy ===== *)
theory Ringbuf
  imports Prelude
begin

text \<open>
  The byte ring buffer of \<open>libs/espduino/src/ringbuf.c\<close>. The three pointers of the C struct
  point into one byte array: \<open>p_o\<close> to its start, so the model keeps the array itself
  (\<open>rb_mem\<close>) and the offsets of \<open>p_r\<close> and \<open>p_w\<close> from \<open>p_o\<close>. A dereference outside the
  array is \<open>None\<close>. The interface \<open>bounded_fifo\<close> states what the driver relies on, and the
  interpretation \<open>rb\<close> shows that the C operations provide it.
\<close>

record RINGBUF =
  rb_mem :: "u8 list"
  p_r :: nat
  p_w :: nat
  fill_cnt :: int
  rb_size :: int

subsection \<open>Operations\<close>

text \<open>\<open>None\<close> for a pointer argument is the null pointer; an \<open>int16_t\<close> result is an \<open>int\<close>.\<close>

definition RINGBUF_Init ::
    "RINGBUF option \<Rightarrow> u8 list option \<Rightarrow> int \<Rightarrow> int \<times> RINGBUF option" where
  "RINGBUF_Init r buf sz =
     (case (r, buf) of
        (Some r', Some b) \<Rightarrow>
          if sz < 2 then (-1, r)
          else (0, Some (r'\<lparr>rb_mem := b, p_r := 0, p_w := 0, fill_cnt := 0, rb_size := sz\<rparr>))
      | _ \<Rightarrow> (-1, r))"

definition RINGBUF_Put :: "RINGBUF \<Rightarrow> u8 \<Rightarrow> (int \<times> RINGBUF) option" where
  "RINGBUF_Put r c =
     (if fill_cnt r \<ge> rb_size r then Some (-1, r)
      else
        let r1 = r\<lparr>fill_cnt := fill_cnt r + 1\<rparr>
        in case mem_write (rb_mem r1) (p_w r1) c of
             None \<Rightarrow> None
           | Some m \<Rightarrow>
               let r2 = r1\<lparr>rb_mem := m, p_w := p_w r1 + 1\<rparr>;
                   r3 = (if int (p_w r2) \<ge> rb_size r2 then r2\<lparr>p_w := 0\<rparr> else r2)
               in Some (0, r3))"

definition RINGBUF_Get :: "RINGBUF \<Rightarrow> (int \<times> u8 option \<times> RINGBUF) option" where
  "RINGBUF_Get r =
     (if fill_cnt r \<le> 0 then Some (-1, None, r)
      else
        let r1 = r\<lparr>fill_cnt := fill_cnt r - 1\<rparr>
        in case mem_read (rb_mem r1) (p_r r1) of
             None \<Rightarrow> None
           | Some c \<Rightarrow>
               let r2 = r1\<lparr>p_r := p_r r1 + 1\<rparr>;
                   r3 = (if int (p_r r2) \<ge> rb_size r2 then r2\<lparr>p_r := 0\<rparr> else r2)
               in Some (0, Some c, r3))"

subsection \<open>Invariant and abstraction\<close>

definition rb_inv :: "RINGBUF \<Rightarrow> bool" where
  "rb_inv r \<longleftrightarrow>
     2 \<le> rb_size r \<and> rb_size r \<le> int (length (rb_mem r)) \<and>
     int (p_r r) < rb_size r \<and> 0 \<le> fill_cnt r \<and> fill_cnt r \<le> rb_size r \<and>
     p_w r = (p_r r + nat (fill_cnt r)) mod nat (rb_size r)"

text \<open>The bytes stored in the buffer, oldest first.\<close>

definition rb_list :: "RINGBUF \<Rightarrow> u8 list" where
  "rb_list r = map (\<lambda>i. rb_mem r ! ((p_r r + i) mod nat (rb_size r))) [0..<nat (fill_cnt r)]"

definition rb_cap :: "RINGBUF \<Rightarrow> nat" where
  "rb_cap r = nat (rb_size r)"

lemma length_rb_list [simp]: "length (rb_list r) = nat (fill_cnt r)"
  by (simp add: rb_list_def)

text \<open>Advancing an offset and rolling it back at the end is addition modulo the size.\<close>

lemma rollback_mod:
  assumes "p < n"
  shows "int n \<le> 1 + int p \<Longrightarrow> Suc p mod n = 0" and "\<not> int n \<le> 1 + int p \<Longrightarrow> Suc p mod n = Suc p"
proof -
  assume "int n \<le> 1 + int p"
  with assms have "n = Suc p" by linarith
  then show "Suc p mod n = 0" by simp
qed (use assms in auto)

lemma slot_distinct:
  fixes p i j n :: nat
  assumes "i < n" and "j < n" and "i \<noteq> j"
  shows "(p + i) mod n \<noteq> (p + j) mod n"
proof
  assume eq: "(p + i) mod n = (p + j) mod n"
  show False
  proof (cases "i \<le> j")
    case True
    with eq have "n dvd (p + j) - (p + i)"
      by (metis add_le_cancel_left mod_eq_dvd_iff_nat)
    with True assms show False
      by (auto dest: dvd_imp_le)
  next
    case False
    with eq have "n dvd (p + i) - (p + j)"
      by (metis add_le_cancel_left mod_eq_dvd_iff_nat nat_le_linear)
    with False assms show False
      by (auto dest: dvd_imp_le)
  qed
qed

lemma rb_inv_iff:
  "rb_inv r \<longleftrightarrow> 2 \<le> rb_size r \<and> rb_cap r \<le> length (rb_mem r) \<and> p_r r < rb_cap r \<and>
     0 \<le> fill_cnt r \<and> nat (fill_cnt r) \<le> rb_cap r \<and>
     p_w r = (p_r r + nat (fill_cnt r)) mod rb_cap r"
  by (auto simp: rb_inv_def rb_cap_def)

lemma rb_invD:
  assumes "rb_inv r"
  shows "0 < rb_cap r" and "rb_cap r \<le> length (rb_mem r)" and "p_r r < rb_cap r"
    and "p_w r < rb_cap r" and "nat (fill_cnt r) \<le> rb_cap r" and "0 \<le> fill_cnt r"
    and "rb_size r = int (rb_cap r)" and "p_w r = (p_r r + nat (fill_cnt r)) mod rb_cap r"
  using assms by (auto simp: rb_inv_def rb_cap_def)

lemma Put_spec:
  assumes inv: "rb_inv r" and room: "length (rb_list r) < rb_cap r"
  shows "\<exists>r'. RINGBUF_Put r c = Some (0, r') \<and> rb_inv r' \<and>
     rb_list r' = rb_list r @ [c] \<and> rb_cap r' = rb_cap r"
proof -
  note D = rb_invD [OF inv]
  let ?n = "rb_cap r" and ?k = "nat (fill_cnt r)"
  from room have k: "?k < ?n" by simp
  with D have nfull: "\<not> fill_cnt r \<ge> rb_size r" by linarith
  define r' where "r' = r\<lparr>fill_cnt := fill_cnt r + 1, rb_mem := (rb_mem r)[p_w r := c],
     p_w := Suc (p_w r) mod ?n\<rparr>"
  have put: "RINGBUF_Put r c = Some (0, r')"
    using D(1-7) nfull
    by (simp add: rollback_mod [OF D(4)] RINGBUF_Put_def r'_def Let_def mem_simps)
  have wr: "(p_r r + ?k) mod ?n = p_w r" using D by simp
  have old: "(rb_mem r)[p_w r := c] ! ((p_r r + i) mod ?n) = rb_mem r ! ((p_r r + i) mod ?n)"
    if "i < ?k" for i
    using slot_distinct [of i ?n ?k "p_r r"] that k wr by simp
  have k': "nat (fill_cnt r + 1) = Suc ?k" using D(6) by simp
  have lst: "rb_list r' = rb_list r @ [c]"
  proof -
    have "rb_list r' = map (\<lambda>i. (rb_mem r)[p_w r := c] ! ((p_r r + i) mod ?n)) [0..<?k]
        @ [(rb_mem r)[p_w r := c] ! p_w r]"
      using wr by (simp add: rb_list_def r'_def rb_cap_def k')
    also have "\<dots> = rb_list r @ [c]"
      using old D(2,4) by (simp add: rb_list_def rb_cap_def)
    finally show ?thesis .
  qed
  have "rb_inv r'"
    using inv Suc_leI [OF k] unfolding rb_inv_iff r'_def
    by (simp add: k' mod_Suc_eq rb_cap_def)
  with put lst show ?thesis by (auto simp: r'_def rb_cap_def)
qed

lemma Get_spec:
  assumes inv: "rb_inv r" and ne: "rb_list r = c # cs"
  shows "\<exists>r'. RINGBUF_Get r = Some (0, Some c, r') \<and> rb_inv r' \<and>
     rb_list r' = cs \<and> rb_cap r' = rb_cap r"
proof -
  note D = rb_invD [OF inv]
  let ?n = "rb_cap r" and ?k = "nat (fill_cnt r)"
  from ne have "length (rb_list r) = Suc (length cs)" by simp
  then have k: "?k = Suc (length cs)" by simp
  then have pos: "\<not> fill_cnt r \<le> 0" by simp
  define r' where "r' = r\<lparr>fill_cnt := fill_cnt r - 1, p_r := Suc (p_r r) mod ?n\<rparr>"
  have up: "[0..<?k] = 0 # map Suc [0..<length cs]"
    by (simp add: k upt_conv_Cons map_Suc_upt del: upt_Suc)
  have c: "rb_mem r ! p_r r = c" and cs: "cs = map (\<lambda>i. rb_mem r ! ((p_r r + Suc i) mod ?n)) [0..<length cs]"
    using ne D unfolding rb_list_def up rb_cap_def by (auto simp: comp_def)
  have get: "RINGBUF_Get r = Some (0, Some c, r')"
    using D(1-7) pos c
    by (simp add: rollback_mod [OF D(3)] RINGBUF_Get_def r'_def Let_def mem_simps)
  have k': "nat (fill_cnt r - 1) = length cs" using k by simp
  have lst: "rb_list r' = cs"
  proof -
    have "rb_list r' = map (\<lambda>i. rb_mem r ! ((Suc (p_r r) mod ?n + i) mod ?n)) [0..<length cs]"
      using k' by (simp add: rb_list_def r'_def rb_cap_def)
    also have "\<dots> = cs"
      by (subst (2) cs) (simp add: mod_add_left_eq)
    finally show ?thesis .
  qed
  have "rb_inv r'"
  proof -
    have "p_w r = (p_r r + Suc (length cs)) mod ?n" using D k by simp
    also have "\<dots> = (Suc (p_r r) mod ?n + length cs) mod ?n" by (simp add: mod_add_left_eq)
    finally show ?thesis
      using inv pos k k' unfolding rb_inv_iff r'_def by (simp add: rb_cap_def)
  qed
  with get lst show ?thesis by (auto simp: r'_def rb_cap_def)
qed

lemma Put_full:
  "rb_inv r \<Longrightarrow> length (rb_list r) = rb_cap r \<Longrightarrow> RINGBUF_Put r c = Some (-1, r)"
  by (auto simp: RINGBUF_Put_def rb_inv_def rb_cap_def)

lemma Get_empty: "rb_inv r \<Longrightarrow> rb_list r = [] \<Longrightarrow> RINGBUF_Get r = Some (-1, None, r)"
  by (auto simp: RINGBUF_Get_def rb_inv_def rb_list_def)

lemma Init_spec:
  assumes "2 \<le> sz" and "sz \<le> int (length buf)"
  shows "\<exists>r'. RINGBUF_Init (Some r) (Some buf) sz = (0, Some r') \<and> rb_inv r' \<and>
     rb_list r' = [] \<and> rb_cap r' = nat sz"
  using assms by (auto simp: RINGBUF_Init_def rb_inv_def rb_list_def rb_cap_def)

subsection \<open>The interface the UART driver relies on\<close>

text \<open>
  A bounded first-in first-out byte queue. \<open>put\<close> and \<open>get\<close> have the shape of the C calls:
  \<open>None\<close> is a fault, a result code other than 0 means that nothing was done.
\<close>

datatype fifo_op = FPut u8 | FGet
datatype fifo_reply = PutReply int | GetReply int "u8 option"

text \<open>The specification: a queue of at most \<open>cap\<close> bytes, with the answer to each call.\<close>

fun fifo_run :: "nat \<Rightarrow> fifo_op list \<Rightarrow> u8 list \<Rightarrow> fifo_reply list \<times> u8 list" where
  "fifo_run cap [] q = ([], q)"
| "fifo_run cap (FPut c # ops) q =
     (if length q < cap
      then case fifo_run cap ops (q @ [c]) of (rs, q') \<Rightarrow> (PutReply 0 # rs, q')
      else case fifo_run cap ops q of (rs, q') \<Rightarrow> (PutReply (-1) # rs, q'))"
| "fifo_run cap (FGet # ops) [] = (case fifo_run cap ops [] of (rs, q') \<Rightarrow> (GetReply (-1) None # rs, q'))"
| "fifo_run cap (FGet # ops) (c # q) = (case fifo_run cap ops q of (rs, q') \<Rightarrow> (GetReply 0 (Some c) # rs, q'))"

locale bounded_fifo =
  fixes put :: "'q \<Rightarrow> u8 \<Rightarrow> (int \<times> 'q) option"
    and get :: "'q \<Rightarrow> (int \<times> u8 option \<times> 'q) option"
    and contents :: "'q \<Rightarrow> u8 list" and capacity :: "'q \<Rightarrow> nat" and inv :: "'q \<Rightarrow> bool"
  assumes put_room: "inv q \<Longrightarrow> length (contents q) < capacity q \<Longrightarrow>
      \<exists>q'. put q c = Some (0, q') \<and> inv q' \<and> contents q' = contents q @ [c] \<and>
        capacity q' = capacity q"
    and put_full: "inv q \<Longrightarrow> length (contents q) = capacity q \<Longrightarrow> put q c = Some (-1, q)"
    and get_some: "inv q \<Longrightarrow> contents q = c # cs \<Longrightarrow>
      \<exists>q'. get q = Some (0, Some c, q') \<and> inv q' \<and> contents q' = cs \<and> capacity q' = capacity q"
    and get_none: "inv q \<Longrightarrow> contents q = [] \<Longrightarrow> get q = Some (-1, None, q)"
    and bounded: "inv q \<Longrightarrow> length (contents q) \<le> capacity q"
begin

text \<open>A history: what each call returns, and the queue at the end.\<close>

fun run :: "fifo_op list \<Rightarrow> 'q \<Rightarrow> (fifo_reply list \<times> 'q) option" where
  "run [] q = Some ([], q)"
| "run (FPut c # ops) q =
     (case put q c of None \<Rightarrow> None
      | Some (rc, q') \<Rightarrow> map_option (\<lambda>(rs, q''). (PutReply rc # rs, q'')) (run ops q'))"
| "run (FGet # ops) q =
     (case get q of None \<Rightarrow> None
      | Some (rc, oc, q') \<Rightarrow> map_option (\<lambda>(rs, q''). (GetReply rc oc # rs, q'')) (run ops q'))"

lemma put_cases:
  assumes "inv q"
  obtains (room) q' where "put q c = Some (0, q')" "inv q'" "contents q' = contents q @ [c]"
      "capacity q' = capacity q" "length (contents q) < capacity q"
  | (full) "put q c = Some (-1, q)" "length (contents q) = capacity q"
  using assms put_room [of q c] put_full [of q c] bounded [of q]
  by (metis le_neq_implies_less)

lemma get_cases:
  assumes "inv q"
  obtains (some) c q' where "get q = Some (0, Some c, q')" "inv q'" "contents q = c # contents q'"
      "capacity q' = capacity q"
  | (none) "get q = Some (-1, None, q)" "contents q = []"
  using assms get_some [of q] get_none [of q] by (cases "contents q") auto

text \<open>Every interleaving of \<open>put\<close> and \<open>get\<close> runs without a fault and answers as the specification does.\<close>

lemma run_fifo:
  "inv q \<Longrightarrow> \<exists>q'. run ops q = Some (fst (fifo_run (capacity q) ops (contents q)), q') \<and> inv q' \<and>
     contents q' = snd (fifo_run (capacity q) ops (contents q)) \<and> capacity q' = capacity q"
proof (induction ops arbitrary: q)
  case Nil
  then show ?case by simp
next
  case (Cons op ops)
  show ?case
  proof (cases op)
    case (FPut c)
    from Cons.prems show ?thesis
    proof (cases rule: put_cases [of q c])
      case (room q')
      with Cons.IH [of q'] FPut show ?thesis by (fastforce simp: case_prod_unfold)
    next
      case full
      with Cons.IH [of q] Cons.prems FPut show ?thesis by (fastforce simp: case_prod_unfold)
    qed
  next
    case FGet
    from Cons.prems show ?thesis
    proof (cases rule: get_cases)
      case (some c q')
      with Cons.IH [of q'] FGet show ?thesis by (fastforce simp: case_prod_unfold)
    next
      case none
      with Cons.IH [of q] Cons.prems FGet show ?thesis by (fastforce simp: case_prod_unfold)
    qed
  qed
qed

end

interpretation rb: bounded_fifo RINGBUF_Put RINGBUF_Get rb_list rb_cap rb_inv
proof unfold_locales
  show "rb_inv q \<Longrightarrow> length (rb_list q) \<le> rb_cap q" for q
    using rb_invD(5) by simp
qed (simp_all add: Put_spec Put_full Get_spec Get_empty)

text \<open>
  C23: \<open>RINGBUF_Init\<close> succeeds for a size of at least 2 on an array of at least that size, and then every sequence of
  \<open>RINGBUF_Put\<close> and \<open>RINGBUF_Get\<close> calls is answered exactly as a queue of at most \<open>sz\<close> bytes answers it: a byte is
  refused if and only if \<open>sz\<close> bytes are stored, a call of \<open>RINGBUF_Get\<close> fails if and only if none is, and otherwise returns the
  oldest one. No call accesses anything outside the array, and what is stored at the end is the content of that queue.
\<close>

theorem ringbuf_is_fifo:
  assumes "2 \<le> sz" and "sz \<le> int (length buf)"
  shows "\<exists>r r'. RINGBUF_Init (Some r0) (Some buf) sz = (0, Some r) \<and>
    rb.run ops r = Some (fst (fifo_run (nat sz) ops []), r') \<and> rb_list r' = snd (fifo_run (nat sz) ops [])"
proof -
  obtain r where "RINGBUF_Init (Some r0) (Some buf) sz = (0, Some r)" "rb_inv r" "rb_list r = []" "rb_cap r = nat sz"
    using Init_spec [OF assms, of r0] by auto
  with rb.run_fifo [of r ops] show ?thesis by auto
qed

theorem ringbuf_is_fifo_witness:
  "\<exists>r r'. RINGBUF_Init (Some \<lparr>rb_mem = [], p_r = 0, p_w = 0, fill_cnt = 0, rb_size = 0\<rparr>) (Some [0, 0]) 2 = (0, Some r) \<and>
    rb.run [FGet, FPut 1, FPut 2, FPut 3, FGet, FPut 4, FGet, FGet] r =
      Some ([GetReply (-1) None, PutReply 0, PutReply 0, PutReply (-1), GetReply 0 (Some 1), PutReply 0, GetReply 0 (Some 2),
        GetReply 0 (Some 4)], r') \<and> rb_list r' = []"
  using ringbuf_is_fifo [of 2 "[0, 0]" "\<lparr>rb_mem = [], p_r = 0, p_w = 0, fill_cnt = 0, rb_size = 0\<rparr>"
      "[FGet, FPut 1, FPut 2, FPut 3, FGet, FPut 4, FGet, FGet]"]
  by simp

end
