(* ===== verification/Crc16.thy ===== *)
theory Crc16
  imports Prelude
begin

text \<open>
  The CRC of \<open>libs/espduino/src/crc16.c\<close> (the one of Contiki). \<open>crc16_add\<close> is the shift and
  xor form of the C code; the reference definition divides bit by bit by the reflected
  CCITT polynomial. The lemmas give their equality, linearity, and which errors are detected.
\<close>

subsection \<open>The C functions\<close>

text \<open>
  Each C statement computes in \<open>int\<close> and truncates to \<open>unsigned short\<close> when it assigns, which
  is the 16-bit word operation.
\<close>

definition crc16_add :: "u8 \<Rightarrow> u16 \<Rightarrow> u16" where
  "crc16_add b acc =
     (let acc = acc XOR ucast b;
          acc = drop_bit 8 acc OR push_bit 8 acc;
          acc = acc XOR push_bit 4 (acc AND 0xff00);
          acc = acc XOR drop_bit 4 (drop_bit 8 acc);
          acc = acc XOR drop_bit 5 (acc AND 0xff00)
      in acc)"

fun crc16_data :: "u8 list \<Rightarrow> u16 \<Rightarrow> u16" where
  "crc16_data [] acc = acc"
| "crc16_data (b # bs) acc = crc16_data bs (crc16_add b acc)"

subsection \<open>Reference: division bit by bit\<close>

text \<open>One step of the reflected CCITT register: polynomial \<open>x^16 + x^12 + x^5 + 1\<close>, so 0x8408.\<close>

definition ccitt_bit :: "u16 \<Rightarrow> u16" where
  "ccitt_bit r = (if bit r 0 then drop_bit 1 r XOR 0x8408 else drop_bit 1 r)"

definition ccitt_byte :: "u8 \<Rightarrow> u16 \<Rightarrow> u16" where
  "ccitt_byte b acc = (ccitt_bit ^^ 8) (acc XOR ucast b)"

definition ccitt :: "u8 list \<Rightarrow> u16 \<Rightarrow> u16" where
  "ccitt bs acc = fold ccitt_byte bs acc"

subsection \<open>The table-free update is a linear map\<close>

definition crc_mix :: "u16 \<Rightarrow> u16" where
  "crc_mix x =
     (let acc = drop_bit 8 x OR push_bit 8 x;
          acc = acc XOR push_bit 4 (acc AND 0xff00);
          acc = acc XOR drop_bit 4 (drop_bit 8 acc);
          acc = acc XOR drop_bit 5 (acc AND 0xff00)
      in acc)"

lemma crc16_add_mix: "crc16_add b acc = crc_mix (acc XOR ucast b)"
  by (simp add: crc16_add_def crc_mix_def Let_def)

lemma all_less_16: "(\<forall>n<16. P n) \<longleftrightarrow> P 0 \<and> P 1 \<and> P 2 \<and> P 3 \<and> P 4 \<and> P 5 \<and> P 6 \<and> P 7 \<and>
    P 8 \<and> P 9 \<and> P 10 \<and> P 11 \<and> P 12 \<and> P 13 \<and> P 14 \<and> P (15::nat)"
  by (simp add: numeral_eq_Suc All_less_Suc conj_ac)

lemma bit_ccitt_bit: "bit (ccitt_bit r) n \<longleftrightarrow> (bit r (Suc n) \<noteq> (bit r 0 \<and> bit (0x8408 :: u16) n))"
  by (auto simp: ccitt_bit_def bit_simps)

lemma bit_8408: "n < 16 \<Longrightarrow> bit (0x8408 :: u16) n \<longleftrightarrow> n = 3 \<or> n = 10 \<or> n = 15"
proof -
  have "\<forall>n<16. bit (0x8408 :: u16) n \<longleftrightarrow> n = 3 \<or> n = 10 \<or> n = 15"
    unfolding all_less_16 by simp
  then show "n < 16 \<Longrightarrow> ?thesis" by blast
qed

lemma bit_ff00: "n < 16 \<Longrightarrow> bit (0xff00 :: u16) n \<longleftrightarrow> 8 \<le> n"
proof -
  have "\<forall>n<16. bit (0xff00 :: u16) n \<longleftrightarrow> 8 \<le> n"
    unfolding all_less_16 by simp
  then show "n < 16 \<Longrightarrow> ?thesis" by blast
qed

lemma funpow_8: "(f ^^ 8) x = f (f (f (f (f (f (f (f x)))))))"
  by (simp add: numeral_eq_Suc)

lemma crc_mix_eq: "crc_mix x = (ccitt_bit ^^ 8) x"
proof (rule bit_word_eqI)
  fix n
  assume "n < LENGTH(16)"
  moreover have "\<forall>n<16. bit (crc_mix x) n = bit ((ccitt_bit ^^ 8) x) n"
    unfolding all_less_16
    by (intro conjI;
        simp add: crc_mix_def Let_def funpow_8 bit_simps bit_ff00 bit_ccitt_bit bit_8408;
        (simp only: numeral_nat)?; sat)
  ultimately show "bit (crc_mix x) n = bit ((ccitt_bit ^^ 8) x) n" by simp
qed

lemma crc16_add_ccitt: "crc16_add b acc = ccitt_byte b acc"
  by (simp add: crc16_add_mix crc_mix_eq ccitt_byte_def)

lemma crc16_data_fold: "crc16_data bs acc = fold crc16_add bs acc"
  by (induction bs arbitrary: acc) auto

lemma crc16_data_append: "crc16_data (xs @ ys) acc = crc16_data ys (crc16_data xs acc)"
  by (simp add: crc16_data_fold)

text \<open>
  C33: The shift-and-xor form of \<open>crc16_data\<close> computes the CCITT CRC (polynomial
  \<open>x^16 + x^12 + x^5 + 1\<close>, reflected) of every byte sequence from every starting value: it
  equals the bit by bit division.
\<close>

theorem crc16_data_ccitt: "crc16_data bs acc = ccitt bs acc"
proof -
  have "crc16_add = ccitt_byte" by (intro ext) (rule crc16_add_ccitt)
  then show ?thesis by (simp add: crc16_data_fold ccitt_def)
qed

subsection \<open>Linearity and injectivity\<close>

lemma ccitt_bit_xor: "ccitt_bit (x XOR y) = ccitt_bit x XOR ccitt_bit y"
  by (rule bit_word_eqI) (auto simp: bit_ccitt_bit bit_simps)

lemma ccitt_bit_inj: "inj ccitt_bit"
proof (rule injI)
  fix x y assume eq: "ccitt_bit x = ccitt_bit y"
  then have "bit (ccitt_bit x) 15 = bit (ccitt_bit y) 15" by simp
  then have b0: "bit x 0 = bit y 0" by (simp add: bit_ccitt_bit bit_8408)
  show "x = y"
  proof (rule bit_word_eqI)
    fix n
    have "bit (ccitt_bit x) m = bit (ccitt_bit y) m" for m using eq by simp
    then have "bit x (Suc m) = bit y (Suc m)" for m
      unfolding bit_ccitt_bit using b0 by blast
    with b0 show "bit x n = bit y n" by (cases n) auto
  qed
qed

lemma crc_mix_xor: "crc_mix (x XOR y) = crc_mix x XOR crc_mix y"
  unfolding crc_mix_eq funpow_8 by (simp only: ccitt_bit_xor)

lemma crc_mix_inject: "crc_mix x = crc_mix y \<longleftrightarrow> x = y"
  unfolding crc_mix_eq using inj_fn [OF ccitt_bit_inj, of 8] by (auto dest: injD)

lemma xor_left_cancel: "(x :: 'a::len word) XOR y = x XOR z \<longleftrightarrow> y = z"
  by (metis xor.assoc xor.left_neutral xor_self_eq)

lemma xor_right_cancel: "(y :: 'a::len word) XOR x = z XOR x \<longleftrightarrow> y = z"
  by (metis xor.commute xor_left_cancel)

lemma xor_eq_0: "x XOR y = 0 \<longleftrightarrow> (x :: 'a::len word) = y"
  by (metis xor_left_cancel xor_self_eq)

lemma xor_exchange: "a XOR b = c XOR d \<longleftrightarrow> a XOR c = b XOR (d :: 'a::len word)"
  unfolding xor_eq_0 [of "a XOR b", symmetric] xor_eq_0 [of "a XOR c", symmetric]
  by (simp add: ac_simps)

lemma ucast_u8_u16_inject: "(ucast (a :: u8) :: u16) = ucast b \<longleftrightarrow> a = b"
proof
  assume "(ucast a :: u16) = ucast b"
  then have eq: "bit (ucast a :: u16) n = bit (ucast b :: u16) n" for n by simp
  show "a = b"
  proof (rule bit_word_eqI)
    show "bit a n = bit b n" if "n < LENGTH(8)" for n
      using eq [of n] that by (simp add: bit_simps)
  qed
qed simp

lemma crc16_add_inject_acc: "crc16_add b x = crc16_add b y \<longleftrightarrow> x = y"
  by (simp add: crc16_add_mix crc_mix_inject xor_right_cancel)

lemma crc16_data_inject_acc: "crc16_data bs x = crc16_data bs y \<longleftrightarrow> x = y"
  by (induction bs arbitrary: x y) (auto simp: crc16_add_inject_acc)

lemma crc16_add_inject_byte: "crc16_add a x = crc16_add b x \<longleftrightarrow> a = b"
  by (simp add: crc16_add_mix crc_mix_inject xor_left_cancel ucast_u8_u16_inject)

subsection \<open>Two adjacent bytes\<close>

text \<open>The register cannot keep a one-byte difference inside its low byte.\<close>

lemma crc_mix_low_byte:
  assumes hx: "\<forall>n. 8 \<le> n \<longrightarrow> \<not> bit x n" and hm: "\<forall>n. 8 \<le> n \<longrightarrow> \<not> bit (crc_mix x) n"
  shows "x = 0"
proof (rule bit_word_eqI)
  fix n assume "n < LENGTH(16)"
  have h: "\<not> bit x 8" "\<not> bit x 9" "\<not> bit x 10" "\<not> bit x 11" "\<not> bit x 12" "\<not> bit x 13"
      "\<not> bit x 14" "\<not> bit x 15" using hx by simp_all
  have "\<not> bit (crc_mix x) 8" "\<not> bit (crc_mix x) 9" "\<not> bit (crc_mix x) 10"
      "\<not> bit (crc_mix x) 11" "\<not> bit (crc_mix x) 12" "\<not> bit (crc_mix x) 13"
      "\<not> bit (crc_mix x) 14" "\<not> bit (crc_mix x) 15" using hm by simp_all
  then have "\<not> bit x 0 \<and> \<not> bit x 1 \<and> \<not> bit x 2 \<and> \<not> bit x 3 \<and> \<not> bit x 4 \<and> \<not> bit x 5 \<and>
      \<not> bit x 6 \<and> \<not> bit x 7"
    using h by (simp add: crc_mix_def Let_def bit_simps bit_ff00)
  then have "n < 8 \<Longrightarrow> \<not> bit x n"
    by (auto simp: less_Suc_eq numeral_eq_Suc)
  with hx show "bit x n = bit 0 n" by (cases "8 \<le> n") auto
qed

lemma crc16_pair_inject:
  "crc16_add b (crc16_add a x) = crc16_add d (crc16_add c x) \<longleftrightarrow> a = c \<and> b = d"
proof
  assume eq: "crc16_add b (crc16_add a x) = crc16_add d (crc16_add c x)"
  let ?u = "(ucast a :: u16) XOR ucast c" and ?v = "(ucast b :: u16) XOR ucast d"
  from eq have "crc_mix (x XOR ucast a) XOR ucast b = crc_mix (x XOR ucast c) XOR ucast d"
    by (simp add: crc16_add_mix crc_mix_inject)
  then have "crc_mix (x XOR ucast a) XOR crc_mix (x XOR ucast c) = ?v"
    by (simp only: xor_exchange)
  then have "crc_mix ?u = ?v" by (simp add: ac_simps flip: crc_mix_xor)
  then have "?u = 0" by (intro crc_mix_low_byte) (auto simp: bit_simps)
  then have "a = c" by (simp add: xor_eq_0 ucast_u8_u16_inject)
  with eq show "a = c \<and> b = d" by (simp add: crc16_add_inject_byte)
qed simp

lemma crc16_window_inject:
  assumes "length p = length q" and "length p \<le> 2"
  shows "crc16_data p x = crc16_data q x \<longleftrightarrow> p = q"
proof -
  consider "p = [] \<and> q = []" | a b where "p = [a] \<and> q = [b]"
    | a b c d where "p = [a, b] \<and> q = [c, d]"
    using assms by (cases p; cases q; cases "tl p"; cases "tl q") auto
  then show ?thesis
    by cases (auto simp: crc16_add_inject_byte crc16_pair_inject)
qed

lemma crc16_damage:
  assumes "length p = length q" and "length p \<le> 2" and "p \<noteq> q"
  shows "crc16_data (xs @ p @ ys) x \<noteq> crc16_data (xs @ q @ ys) x"
  using crc16_window_inject [OF assms(1,2)] assms(3)
  by (simp add: crc16_data_append crc16_data_inject_acc)

text \<open>A message with its CRC behind it, low byte first, has the CRC 0.\<close>

lemma crc_mix_high: "x AND 0xff = 0 \<Longrightarrow> crc_mix x = drop_bit 8 x"
proof (rule bit_word_eqI)
  fix n assume x: "x AND 0xff = 0" and n: "n < LENGTH(16)"
  have lo: "k < 8 \<Longrightarrow> \<not> bit x k" for k
    using x bit_and_iff [of x "0xff" k] bit_mask_iff [of 8 k, where 'a = u16] by (auto simp: mask_eq_exp_minus_1)
  have "\<forall>n<16. bit (crc_mix x) n = bit (drop_bit 8 x) n"
    unfolding all_less_16
    by (intro conjI; simp add: crc_mix_def Let_def bit_simps bit_ff00 lo)
  with n show "bit (crc_mix x) n = bit (drop_bit 8 x) n" by simp
qed

lemma crc16_data_self: "crc16_data (le16 c) c = 0"
proof -
  have "bit (0xff :: u16) k \<longleftrightarrow> k < 8" for k
    using bit_mask_iff [of 8 k, where 'a = u16] by (auto simp: mask_eq_exp_minus_1)
  then have "(c XOR ucast (ucast c :: u8)) AND 0xff = 0"
    by (intro bit_word_eqI) (auto simp: bit_simps)
  then have "crc16_add (ucast c) c = drop_bit 8 (c XOR ucast (ucast c :: u8))" by (simp add: crc16_add_mix crc_mix_high)
  also have "\<dots> = ucast (ucast (drop_bit 8 c) :: u8)" by (rule bit_word_eqI) (auto simp: bit_simps dest: bit_imp_le_length)
  finally show ?thesis by (simp add: le16_def crc16_add_mix crc_mix_high)
qed

text \<open>
  A change confined to at most two adjacent bytes of a message of any length always changes
  its CRC.
\<close>

theorem crc16_detects_burst:
  assumes "length p = length q" and "length p \<le> 2" and "p \<noteq> q"
  shows "crc16_data (xs @ p @ ys) acc \<noteq> crc16_data (xs @ q @ ys) acc"
  using assms by (rule crc16_damage)

theorem crc16_detects_burst_witness:
  "crc16_data ([1, 2] @ [3, 4] @ [5]) 0 \<noteq> crc16_data ([1, 2] @ [3, 5] @ [5]) 0"
  by (rule crc16_detects_burst) simp_all

end
