(* ===== verification/Espduino.thy ===== *)
theory Espduino
  imports Ringbuf Crc16 "HOL-Library.Signed_Division"
begin

text \<open>
  The ESP8266 bridge driver of \<open>libs/espduino/src/espduino.c\<close>: SLIP-framed command packets
  with a CRC over a UART. \<open>espduino\<close> is the C struct; three fields are not of the struct but
  record the surroundings of the driver: \<open>e_wire\<close> (the bytes the UART has fetched through
  \<open>espduino_uart_tx\<close>), \<open>e_sched\<close> (how many bytes the UART fetches at each coming point
  where the driver waits or starts transmission) and \<open>e_calls\<close> (the client callbacks made,
  with the packet each was given). A function returns \<open>None\<close> when it reads or writes outside
  an array or never returns.
\<close>

subsection \<open>Data\<close>

definition SLIP_START :: u8 where "SLIP_START = 0x7E"
definition SLIP_END :: u8 where "SLIP_END = 0x7F"
definition SLIP_REPL :: u8 where "SLIP_REPL = 0x7D"
definition SLIP_ESC :: "u8 \<Rightarrow> u8" where "SLIP_ESC x = x XOR 0x20"

datatype CMD_NAME = CMD_NULL | CMD_RESET | CMD_IS_READY | CMD_WIFI_CONNECT | CMD_MQTT_SETUP
  | CMD_MQTT_CONNECT | CMD_MQTT_DISCONNECT | CMD_MQTT_PUBLISH | CMD_MQTT_SUBSCRIBE | CMD_MQTT_LWT
  | CMD_MQTT_EVENTS | CMD_REST_SETUP | CMD_REST_REQUEST | CMD_REST_SETHEADER | CMD_REST_EVENTS

fun cmd_num :: "CMD_NAME \<Rightarrow> u16" where
  "cmd_num CMD_NULL = 0" | "cmd_num CMD_RESET = 1" | "cmd_num CMD_IS_READY = 2"
| "cmd_num CMD_WIFI_CONNECT = 3" | "cmd_num CMD_MQTT_SETUP = 4" | "cmd_num CMD_MQTT_CONNECT = 5"
| "cmd_num CMD_MQTT_DISCONNECT = 6" | "cmd_num CMD_MQTT_PUBLISH = 7"
| "cmd_num CMD_MQTT_SUBSCRIBE = 8" | "cmd_num CMD_MQTT_LWT = 9" | "cmd_num CMD_MQTT_EVENTS = 10"
| "cmd_num CMD_REST_SETUP = 11" | "cmd_num CMD_REST_REQUEST = 12"
| "cmd_num CMD_REST_SETHEADER = 13" | "cmd_num CMD_REST_EVENTS = 14"

record PROTO =
  pr_buf :: "u8 list"
  bufSize :: u16
  dataLen :: u16
  isEsc :: u8
  isBegin :: u8

record espduino =
  e_uart :: bool
  e_is_return :: u8
  e_cur_cmd :: u16
  e_cur_cb :: u32
  e_return_value :: u32
  e_rx :: RINGBUF
  e_tx :: RINGBUF
  e_proto :: PROTO
  e_wire :: "u8 list"
  e_sched :: "nat list"
  e_calls :: "(u32 \<times> u8 list) list"

subsection \<open>Initialisation\<close>

definition RINGBUF_zero :: RINGBUF where
  "RINGBUF_zero = \<lparr>rb_mem = [], p_r = 0, p_w = 0, fill_cnt = 0, rb_size = 0\<rparr>"

text \<open>\<open>memset(e, 0, sizeof(*e))\<close>: the fields of the C struct.\<close>

definition esp_memset :: "espduino \<Rightarrow> espduino" where
  "esp_memset e = e\<lparr>e_uart := False, e_is_return := 0, e_cur_cmd := 0, e_cur_cb := 0,
     e_return_value := 0, e_rx := RINGBUF_zero, e_tx := RINGBUF_zero,
     e_proto := \<lparr>pr_buf = [], bufSize = 0, dataLen = 0, isEsc = 0, isBegin = 0\<rparr>\<rparr>"

text \<open>\<open>opened\<close>: whether \<open>os_dev_open\<close> returned a device.\<close>

definition espduino_init :: "bool \<Rightarrow> espduino \<Rightarrow> int \<times> espduino" where
  "espduino_init opened e =
     (let e = esp_memset e in
      if \<not> opened then (-1, e)
      else
        let e = e\<lparr>e_uart := True,
              e_proto := (e_proto e)\<lparr>pr_buf := replicate 512 0, bufSize := 512, dataLen := 0,
                isEsc := 0\<rparr>\<rparr>;
            rx = snd (RINGBUF_Init (Some (e_rx e)) (Some (replicate 128 0)) 128);
            tx = snd (RINGBUF_Init (Some (e_tx e)) (Some (replicate 32 0)) 32)
        in (0, e\<lparr>e_rx := the rx, e_tx := the tx\<rparr>))"

subsection \<open>UART callbacks and byte transmission\<close>

definition espduino_uart_tx :: "espduino \<Rightarrow> (int \<times> espduino) option" where
  "espduino_uart_tx e =
     (case RINGBUF_Get (e_tx e) of
        None \<Rightarrow> None
      | Some (rc, byte, tx) \<Rightarrow>
          if rc \<noteq> 0 then Some (-1, e\<lparr>e_tx := tx\<rparr>) else Some (uint (the byte), e\<lparr>e_tx := tx\<rparr>))"

definition espduino_uart_rx :: "u8 \<Rightarrow> espduino \<Rightarrow> (int \<times> espduino) option" where
  "espduino_uart_rx byte e =
     (case RINGBUF_Put (e_rx e) byte of
        None \<Rightarrow> None
      | Some (rc, rx) \<Rightarrow> Some (if rc \<noteq> 0 then -1 else 0, e\<lparr>e_rx := rx\<rparr>))"

text \<open>The UART driver fetches up to \<open>n\<close> bytes and stops at a negative result.\<close>

fun uart_fetch :: "nat \<Rightarrow> espduino \<Rightarrow> espduino option" where
  "uart_fetch 0 e = Some e"
| "uart_fetch (Suc n) e =
     (case espduino_uart_tx e of
        None \<Rightarrow> None
      | Some (v, e') \<Rightarrow>
          if v < 0 then Some e' else uart_fetch n (e'\<lparr>e_wire := e_wire e' @ [word_of_int v]\<rparr>))"

text \<open>The UART driver delivers received bytes.\<close>

fun uart_deliver :: "u8 list \<Rightarrow> espduino \<Rightarrow> espduino option" where
  "uart_deliver [] e = Some e"
| "uart_deliver (b # bs) e =
     (case espduino_uart_rx b e of None \<Rightarrow> None | Some (_, e') \<Rightarrow> uart_deliver bs e')"

definition uart_start_tx :: "espduino \<Rightarrow> espduino option" where
  "uart_start_tx e =
     (case e_sched e of [] \<Rightarrow> Some e | n # ns \<Rightarrow> uart_fetch n (e\<lparr>e_sched := ns\<rparr>))"

text \<open>The loop of \<open>esp_uart_write\<close>: it waits, and the UART drains the buffer meanwhile.\<close>

fun esp_uart_put :: "nat list \<Rightarrow> u8 \<Rightarrow> espduino \<Rightarrow> espduino option" where
  "esp_uart_put sched data e =
     (case RINGBUF_Put (e_tx e) data of
        None \<Rightarrow> None
      | Some (rc, tx) \<Rightarrow>
          if rc = 0 then Some (e\<lparr>e_tx := tx, e_sched := sched\<rparr>)
          else
            (case sched of
               [] \<Rightarrow> None
             | n # ns \<Rightarrow>
                 (case uart_fetch n (e\<lparr>e_tx := tx\<rparr>) of
                    None \<Rightarrow> None
                  | Some e' \<Rightarrow> esp_uart_put ns data e')))"

definition esp_uart_write :: "u8 \<Rightarrow> espduino \<Rightarrow> espduino option" where
  "esp_uart_write data e =
     (case esp_uart_put (e_sched e) data e of None \<Rightarrow> None | Some e' \<Rightarrow> uart_start_tx e')"

definition esp_uart_available :: "espduino \<Rightarrow> bool" where
  "esp_uart_available e \<longleftrightarrow> fill_cnt (e_rx e) \<noteq> 0"

definition esp_uart_read :: "espduino \<Rightarrow> (u8 \<times> espduino) option" where
  "esp_uart_read e =
     (case RINGBUF_Get (e_rx e) of
        None \<Rightarrow> None
      | Some (rc, data, rx) \<Rightarrow> Some (if rc \<noteq> 0 then 0 else the data, e\<lparr>e_rx := rx\<rparr>))"

definition esp_write_byte :: "u8 \<Rightarrow> espduino \<Rightarrow> espduino option" where
  "esp_write_byte data e =
     (if data = SLIP_START \<or> data = SLIP_END \<or> data = SLIP_REPL
      then do { e \<leftarrow> esp_uart_write SLIP_REPL e; esp_uart_write (SLIP_ESC data) e }
      else esp_uart_write data e)"

fun esp_write_bytes :: "u8 list \<Rightarrow> espduino \<Rightarrow> espduino option" where
  "esp_write_bytes [] e = Some e"
| "esp_write_bytes (d # ds) e = do { e \<leftarrow> esp_write_byte d e; esp_write_bytes ds e }"

definition esp_write_crc :: "u8 list \<Rightarrow> u16 \<Rightarrow> u16 \<Rightarrow> espduino \<Rightarrow> (u16 \<times> espduino) option" where
  "esp_write_crc data_v len crc e = do {
     data \<leftarrow> mem_slice data_v 0 (unat len);
     let crc = crc16_data data crc;
     e \<leftarrow> esp_write_bytes data e;
     Some (crc, e) }"

subsection \<open>Requests\<close>

definition esp_request_start ::
    "u16 \<Rightarrow> u32 \<Rightarrow> u32 \<Rightarrow> u16 \<Rightarrow> espduino \<Rightarrow> (u16 \<times> espduino) option" where
  "esp_request_start cmd callback ret argc e = do {
     e \<leftarrow> esp_uart_write 0x7e e;
     (crc, e) \<leftarrow> esp_write_crc (le16 cmd) 2 0 e;
     (crc, e) \<leftarrow> esp_write_crc (le32 callback) 4 crc e;
     (crc, e) \<leftarrow> esp_write_crc (le32 ret) 4 crc e;
     (crc, e) \<leftarrow> esp_write_crc (le16 argc) 2 crc e;
     Some (crc, e\<lparr>e_cur_cmd := cmd, e_cur_cb := callback\<rparr>) }"

definition esp_request_cont ::
    "u16 \<Rightarrow> u8 list \<Rightarrow> u16 \<Rightarrow> espduino \<Rightarrow> (u16 \<times> espduino) option" where
  "esp_request_cont crc data_v len e = do {
     let pad_len = (len + 3) AND NOT 3;
     (crc, e) \<leftarrow> esp_write_crc (le16 pad_len) 2 crc e;
     (crc, e) \<leftarrow> esp_write_crc data_v len crc e;
     let pad_len = pad_len - len;
     esp_write_crc (le32 0) pad_len crc e }"

definition esp_request_end :: "u16 \<Rightarrow> espduino \<Rightarrow> espduino option" where
  "esp_request_end crc e = do {
     e \<leftarrow> esp_write_byte (le16 crc ! 0) e;
     e \<leftarrow> esp_write_byte (le16 crc ! 1) e;
     esp_uart_write 0x7F e }"

definition esp_reset :: "espduino \<Rightarrow> espduino option" where
  "esp_reset e = do {
     (crc, e) \<leftarrow> esp_request_start (cmd_num CMD_RESET) 0 0 0 e;
     esp_request_end crc e }"

subsection \<open>Packet reception\<close>

text \<open>The loop over the arguments: position in the buffer and CRC after \<open>argc\<close> arguments.\<close>

fun walk_args :: "nat \<Rightarrow> u8 list \<Rightarrow> nat \<Rightarrow> u16 \<Rightarrow> (nat \<times> u16) option" where
  "walk_args 0 buf p crc = Some (p, crc)"
| "walk_args (Suc n) buf p crc = do {
     l \<leftarrow> mem_slice buf p 2;
     let len = of_le16 l;
     let crc = crc16_data l crc;
     d \<leftarrow> mem_slice buf (p + 2) (unat len);
     walk_args n buf (p + 2 + unat len) (crc16_data d crc) }"

definition esp_proto_completed_cb :: "espduino \<Rightarrow> espduino option" where
  "esp_proto_completed_cb e = do {
     let buf = pr_buf (e_proto e);
     argc \<leftarrow> mem_slice buf 10 2;
     hdr \<leftarrow> mem_slice buf 0 12;
     (p, crc) \<leftarrow> walk_args (unat (of_le16 argc)) buf 12 (crc16_data hdr 0);
     resp \<leftarrow> mem_slice buf p 2;
     cmd \<leftarrow> mem_slice buf 0 2;
     ret \<leftarrow> mem_slice buf 6 4;
     if crc \<noteq> of_le16 resp then Some e
     else if e_cur_cmd e \<noteq> of_le16 cmd then Some e
     else
       let e = e\<lparr>e_is_return := 1, e_return_value := of_le32 ret\<rparr>
       in if e_cur_cb e \<noteq> 0
          then Some (e\<lparr>e_calls := e_calls e @ [(e_cur_cb e, buf)]\<rparr>)
          else Some e }"

text \<open>One iteration of the loop of \<open>esp_process\<close>: the \<open>switch\<close> on a received byte.\<close>

definition esp_process_byte :: "u8 \<Rightarrow> espduino \<Rightarrow> espduino option" where
  "esp_process_byte val e =
     (let pr = e_proto e in
      if val = 0x7D then Some (e\<lparr>e_proto := pr\<lparr>isEsc := 1\<rparr>\<rparr>)
      else if val = 0x7E then Some (e\<lparr>e_proto := pr\<lparr>dataLen := 0, isEsc := 0, isBegin := 1\<rparr>\<rparr>)
      else if val = 0x7F then
        map_option (\<lambda>e. e\<lparr>e_proto := (e_proto e)\<lparr>isBegin := 0\<rparr>\<rparr>) (esp_proto_completed_cb e)
      else
        let (val, pr) = (if isEsc pr \<noteq> 0 then (val XOR 0x20, pr\<lparr>isEsc := 0\<rparr>) else (val, pr))
        in if dataLen pr < bufSize pr
           then map_option
                  (\<lambda>buf. e\<lparr>e_proto := pr\<lparr>pr_buf := buf, dataLen := dataLen pr + 1\<rparr>\<rparr>)
                  (mem_write (pr_buf pr) (unat (dataLen pr)) val)
           else Some (e\<lparr>e_proto := pr\<rparr>))"

partial_function (option) esp_process :: "espduino \<Rightarrow> espduino option" where
  "esp_process e =
     (if esp_uart_available e
      then Option.bind (esp_uart_read e)
             (\<lambda>(val, e). Option.bind (esp_process_byte val e) (\<lambda>e. esp_process e))
      else Some e)"

subsection \<open>Waiting for a response\<close>

text \<open>
  The surroundings of a waiting loop: for each test of the loop condition the value of
  \<open>os_time_get\<close> and the bytes received since the last one. The list running out means that
  the loop is still waiting. \<open>tps\<close> is \<open>OS_TICKS_PER_SEC\<close>.
\<close>

type_synonym esp_env = "(u32 \<times> u8 list) list"

fun esp_wait_loop :: "(u32 \<Rightarrow> bool) \<Rightarrow> esp_env \<Rightarrow> espduino \<Rightarrow> (espduino \<times> esp_env) option" where
  "esp_wait_loop go env e =
     (if e_is_return e \<noteq> 0 then Some (e, env)
      else
        (case env of
           [] \<Rightarrow> None
         | (t, bs) # env' \<Rightarrow>
             if go t
             then Option.bind (uart_deliver bs e)
                    (\<lambda>e. Option.bind (esp_process e) (\<lambda>e. esp_wait_loop go env' e))
             else Some (e, env')))"

text \<open>The product is of 32 bits, as both factors are: with 1000 ticks in a second it overflows from 2147484 milliseconds on. The
  overflow, which C leaves open, wraps here.\<close>

definition timeo_ticks :: "int \<Rightarrow> u32 \<Rightarrow> u32" where
  "timeo_ticks tps timeout = word_of_int (sint (timeout * word_of_int tps) sdiv 1000)"

text \<open>\<open>t0\<close>: the value of \<open>os_time_get\<close> when the function is entered.\<close>

definition esp_wait_return_timo ::
    "int \<Rightarrow> u32 \<Rightarrow> esp_env \<Rightarrow> u32 \<Rightarrow> espduino \<Rightarrow> (bool \<times> u32 option \<times> espduino \<times> esp_env) option" where
  "esp_wait_return_timo tps t0 env timeout e =
     (let tend = t0 + timeo_ticks tps timeout;
          e = e\<lparr>e_is_return := 0\<rparr>
      in map_option
           (\<lambda>(e, env). if e_is_return e \<noteq> 0 then (True, Some (e_return_value e), e, env)
                        else (False, None, e, env))
           (esp_wait_loop (\<lambda>t. sint (tend - t) > 0) env e))"

definition ESP_TIMEOUT :: u32 where "ESP_TIMEOUT = 2000"

definition esp_wait_return ::
    "int \<Rightarrow> u32 \<Rightarrow> esp_env \<Rightarrow> espduino \<Rightarrow> (bool \<times> u32 option \<times> espduino \<times> esp_env) option" where
  "esp_wait_return tps t0 env e = esp_wait_return_timo tps t0 env ESP_TIMEOUT e"

definition esp_wait_for :: "u16 \<Rightarrow> u32 \<Rightarrow> espduino \<Rightarrow> espduino" where
  "esp_wait_for cmd cb e = e\<lparr>e_cur_cmd := cmd, e_cur_cb := cb\<rparr>"

text \<open>
  \<open>esp_ready\<close>: five attempts. Here the loop test is \<open>end - os_time_get() > 0\<close> without a
  cast, so the subtraction and the comparison are unsigned. The first entry of the
  surroundings of each attempt is the reading that sets \<open>end\<close>.
\<close>

fun esp_ready_loop :: "int \<Rightarrow> nat \<Rightarrow> esp_env \<Rightarrow> espduino \<Rightarrow> (bool \<times> espduino \<times> esp_env) option" where
  "esp_ready_loop tps 0 env e = Some (False, e, env)"
| "esp_ready_loop tps (Suc n) env e = do {
     let e = e\<lparr>e_is_return := 0\<rparr>;
     (crc, e) \<leftarrow> esp_request_start (cmd_num CMD_IS_READY) 0 1 0 e;
     e \<leftarrow> esp_request_end crc e;
     (case env of
        [] \<Rightarrow> None
      | (t0, _) # env \<Rightarrow> do {
          let tend = t0 + word_of_int tps;
          (e, env) \<leftarrow> esp_wait_loop (\<lambda>t. tend - t > 0) env e;
          if e_is_return e \<noteq> 0 \<and> e_return_value e \<noteq> 0 then Some (True, e, env)
          else esp_ready_loop tps n env e }) }"

definition esp_ready :: "int \<Rightarrow> esp_env \<Rightarrow> espduino \<Rightarrow> (bool \<times> espduino \<times> esp_env) option" where
  "esp_ready tps env e = esp_ready_loop tps 5 env e"

declare esp_uart_put.simps [simp del] esp_wait_loop.simps [simp del]

end
