(* ===== verification/Esp_Tx.thy ===== *)
theory Esp_Tx
  imports Espduino
begin

text \<open>
  What the transmit side of \<open>espduino.c\<close> puts on the wire. The abstract view of a driver
  state is \<open>tx_stream\<close>, the bytes the UART has fetched followed by those still in the ring
  buffer; every transmit function extends it by exactly the bytes of the frame it stands for.
  \<open>tx_step\<close> is the contract that all of them share.
\<close>

subsection \<open>The abstract stream\<close>

definition tx_stream :: "espduino \<Rightarrow> u8 list" where
  "tx_stream e = e_wire e @ rb_list (e_tx e)"

text \<open>How many of the coming scheduling points let the UART fetch something.\<close>

definition drains :: "espduino \<Rightarrow> nat" where
  "drains e = length (filter (\<lambda>n. 0 < n) (e_sched e))"

definition same_but_tx :: "espduino \<Rightarrow> espduino \<Rightarrow> bool" where
  "same_but_tx e e' \<longleftrightarrow> e_uart e' = e_uart e \<and> e_is_return e' = e_is_return e \<and>
     e_cur_cmd e' = e_cur_cmd e \<and> e_cur_cb e' = e_cur_cb e \<and>
     e_return_value e' = e_return_value e \<and> e_rx e' = e_rx e \<and> e_proto e' = e_proto e \<and>
     e_calls e' = e_calls e"

text \<open>The ring buffer is in order and at least two useful scheduling points are left per byte.\<close>

definition tx_ready :: "nat \<Rightarrow> espduino \<Rightarrow> bool" where
  "tx_ready n e \<longleftrightarrow> rb_inv (e_tx e) \<and> 2 * n \<le> drains e"

definition tx_step :: "u8 list \<Rightarrow> espduino \<Rightarrow> espduino \<Rightarrow> bool" where
  "tx_step bs e e' \<longleftrightarrow> rb_inv (e_tx e') \<and> tx_stream e' = tx_stream e @ bs \<and>
     drains e \<le> drains e' + 2 * length bs \<and> same_but_tx e e'"

lemma tx_readyD: "tx_ready n e \<Longrightarrow> m \<le> n \<Longrightarrow> tx_ready m e"
  by (auto simp: tx_ready_def)

lemma tx_step_refl: "rb_inv (e_tx e) \<Longrightarrow> tx_step [] e e"
  by (simp add: tx_step_def same_but_tx_def)

lemma tx_step_trans: "tx_step xs e f \<Longrightarrow> tx_step ys f g \<Longrightarrow> tx_step (xs @ ys) e g"
  by (auto simp: tx_step_def same_but_tx_def)

lemma tx_step_ready: "tx_step bs e e' \<Longrightarrow> tx_ready (length bs + n) e \<Longrightarrow> tx_ready n e'"
  by (auto simp: tx_step_def tx_ready_def)

lemma tx_step_fields:
  assumes "tx_step bs e e'"
  shows "e_rx e' = e_rx e" "e_proto e' = e_proto e" "e_cur_cmd e' = e_cur_cmd e"
    "e_cur_cb e' = e_cur_cb e" "e_is_return e' = e_is_return e"
    "e_return_value e' = e_return_value e" "e_calls e' = e_calls e" "rb_inv (e_tx e')"
    "tx_stream e' = tx_stream e @ bs"
  using assms unfolding tx_step_def same_but_tx_def by blast+

subsection \<open>The UART fetching bytes\<close>

lemma uart_fetch_spec:
  "rb_inv (e_tx e) \<Longrightarrow> \<exists>e'. uart_fetch n e = Some e' \<and> rb_inv (e_tx e') \<and>
     tx_stream e' = tx_stream e \<and> e_sched e' = e_sched e \<and> same_but_tx e e' \<and>
     (0 < n \<longrightarrow> length (rb_list (e_tx e')) < rb_cap (e_tx e'))"
proof (induction n arbitrary: e)
  case 0
  then show ?case by (simp add: same_but_tx_def)
next
  case (Suc n)
  from Suc.prems show ?case
  proof (cases rule: rb.get_cases)
    case (some c q')
    let ?f = "e\<lparr>e_tx := q', e_wire := e_wire e @ [c]\<rparr>"
    have fetch: "uart_fetch (Suc n) e = uart_fetch n ?f"
      using some by (simp add: espduino_uart_tx_def word_of_int_uint)
    have room: "length (rb_list q') < rb_cap q'"
      using rb.bounded [OF Suc.prems] some by simp
    show ?thesis
    proof (cases n)
      case 0
      then show ?thesis using fetch some room by (simp add: same_but_tx_def tx_stream_def)
    next
      case (Suc m)
      from Suc.IH [of ?f] some obtain e' where "uart_fetch n ?f = Some e'" "rb_inv (e_tx e')"
        "tx_stream e' = tx_stream ?f" "e_sched e' = e_sched ?f" "same_but_tx ?f e'"
        "0 < n \<longrightarrow> length (rb_list (e_tx e')) < rb_cap (e_tx e')" by auto
      with fetch some Suc show ?thesis by (auto simp: same_but_tx_def tx_stream_def)
    qed
  next
    case none
    have "length (rb_list (e_tx e)) < rb_cap (e_tx e)"
      using rb_invD(1) [OF Suc.prems] none(2) by (metis list.size(3))
    with none Suc.prems show ?thesis
      by (simp add: espduino_uart_tx_def same_but_tx_def tx_stream_def del: length_rb_list)
  qed
qed

subsection \<open>Writing bytes\<close>

lemma esp_uart_put_spec:
  assumes "rb_inv (e_tx e)" and "filter (\<lambda>n. 0 < n) sched \<noteq> []"
  shows "\<exists>e'. esp_uart_put sched c e = Some e' \<and> rb_inv (e_tx e') \<and>
     tx_stream e' = tx_stream e @ [c] \<and> same_but_tx e e' \<and>
     length (filter (\<lambda>n. 0 < n) sched) \<le> Suc (drains e')"
  using assms
proof (induction sched arbitrary: e)
  case Nil
  then show ?case by simp
next
  case (Cons n ns)
  from Cons.prems(1) show ?case
  proof (cases rule: rb.put_cases [of _ c])
    case (room q')
    then show ?thesis
      by (subst esp_uart_put.simps) (auto simp: same_but_tx_def tx_stream_def drains_def)
  next
    case full
    obtain f where f: "uart_fetch n e = Some f" "rb_inv (e_tx f)" "tx_stream f = tx_stream e"
      "same_but_tx e f" "0 < n \<longrightarrow> length (rb_list (e_tx f)) < rb_cap (e_tx f)"
      using uart_fetch_spec [OF Cons.prems(1), of n] by blast
    have unfold: "esp_uart_put (n # ns) c e = esp_uart_put ns c f"
      using full f by (subst esp_uart_put.simps) simp
    show ?thesis
    proof (cases "n = 0")
      case True
      with Cons.prems(2) have "filter (\<lambda>n. 0 < n) ns \<noteq> []" by simp
      with Cons.IH [OF f(2)] unfold True f(3,4) show ?thesis by (auto simp: same_but_tx_def)
    next
      case False
      with f have "length (rb_list (e_tx f)) < rb_cap (e_tx f)" by simp
      from rb.put_room [OF f(2) this, of c] unfold f(3,4) show ?thesis
        by (subst (asm) esp_uart_put.simps)
           (auto simp: same_but_tx_def tx_stream_def drains_def)
    qed
  qed
qed

lemma uart_start_tx_spec:
  assumes "rb_inv (e_tx e)"
  shows "\<exists>e'. uart_start_tx e = Some e' \<and> rb_inv (e_tx e') \<and> tx_stream e' = tx_stream e \<and>
     same_but_tx e e' \<and> drains e \<le> Suc (drains e')"
proof (cases "e_sched e")
  case Nil
  with assms show ?thesis by (simp add: uart_start_tx_def same_but_tx_def)
next
  case (Cons n ns)
  from assms have "rb_inv (e_tx (e\<lparr>e_sched := ns\<rparr>))" by simp
  from uart_fetch_spec [OF this, of n] Cons show ?thesis
    by (fastforce simp: uart_start_tx_def same_but_tx_def tx_stream_def drains_def)
qed

lemma esp_uart_write_step:
  assumes "tx_ready 1 e"
  shows "\<exists>e'. esp_uart_write c e = Some e' \<and> tx_step [c] e e'"
proof -
  from assms have "filter (\<lambda>n. 0 < n) (e_sched e) \<noteq> []" and inv: "rb_inv (e_tx e)"
    by (auto simp: tx_ready_def drains_def)
  from esp_uart_put_spec [OF inv this(1), of c] obtain f where
    f: "esp_uart_put (e_sched e) c e = Some f" "rb_inv (e_tx f)" "tx_stream f = tx_stream e @ [c]"
      "same_but_tx e f" "drains e \<le> Suc (drains f)"
    by (auto simp: drains_def)
  from uart_start_tx_spec [OF f(2)] f show ?thesis
    by (fastforce simp: esp_uart_write_def tx_step_def same_but_tx_def)
qed

subsection \<open>Escaped bytes and whole requests\<close>

text \<open>The SLIP encoding, as a function on byte lists.\<close>

definition slip_byte :: "u8 \<Rightarrow> u8 list" where
  "slip_byte d = (if d \<in> {0x7D, 0x7E, 0x7F} then [0x7D, d XOR 0x20] else [d])"

definition slip :: "u8 list \<Rightarrow> u8 list" where
  "slip ds = concat (map slip_byte ds)"

text \<open>The packet that a request builds, and its frame on the wire.\<close>

definition arg_bytes :: "u8 list \<Rightarrow> u8 list" where
  "arg_bytes d = le16 ((of_nat (length d) + 3) AND NOT 3) @ d @
     replicate (unat (((of_nat (length d) + 3) AND NOT 3) - of_nat (length d) :: u16)) 0"

definition req_bytes :: "u16 \<Rightarrow> u32 \<Rightarrow> u32 \<Rightarrow> u16 \<Rightarrow> u8 list list \<Rightarrow> u8 list" where
  "req_bytes cmd cb ret argc args =
     le16 cmd @ le32 cb @ le32 ret @ le16 argc @ concat (map arg_bytes args)"

definition esp_frame :: "u8 list \<Rightarrow> u8 list" where
  "esp_frame pkt = [0x7E] @ slip (pkt @ le16 (crc16_data pkt 0)) @ [0x7F]"

lemma slip_simps [simp]: "slip [] = []" "slip (d # ds) = slip_byte d @ slip ds"
    "slip (xs @ ys) = slip xs @ slip ys"
  by (simp_all add: slip_def)

lemma length_slip_byte: "1 \<le> length (slip_byte d)" "length (slip_byte d) \<le> 2"
  by (simp_all add: slip_byte_def)

lemma length_slip: "length (slip ds) \<le> 2 * length ds"
proof (induction ds)
  case (Cons d ds)
  then show ?case using length_slip_byte(2) [of d] by simp
qed simp

lemma length_esp_frame: "length (esp_frame pkt) \<le> 2 * length pkt + 6"
  using length_slip [of "pkt @ le16 (crc16_data pkt 0)"] by (simp add: esp_frame_def)

text \<open>Composition of steps: the next call gets the state and what is left of the budget.\<close>

lemma tx_step_bind:
  assumes "\<exists>e'. f e = Some e' \<and> tx_step xs e e'"
    and "\<And>e'. tx_ready n e' \<Longrightarrow> \<exists>e''. g e' = Some e'' \<and> tx_step ys e' e''"
    and "tx_ready (length xs + n) e"
  shows "\<exists>e''. Option.bind (f e) g = Some e'' \<and> tx_step (xs @ ys) e e''"
  using assms by (metis bind.bind_lunit tx_step_ready tx_step_trans)

lemma esp_write_byte_step:
  assumes "tx_ready (length (slip_byte d)) e"
  shows "\<exists>e'. esp_write_byte d e = Some e' \<and> tx_step (slip_byte d) e e'"
proof (cases "d \<in> {0x7D, 0x7E, 0x7F}")
  case True
  with assms have "tx_ready 1 e" "tx_ready (length [0x7D :: u8] + 1) e"
    by (auto simp: slip_byte_def intro: tx_readyD)
  from tx_step_bind [where f = "esp_uart_write 0x7D" and g = "esp_uart_write (d XOR 0x20)",
      OF esp_uart_write_step [OF this(1)] esp_uart_write_step this(2)] True
  show ?thesis
    by (auto simp: esp_write_byte_def slip_byte_def SLIP_REPL_def SLIP_START_def SLIP_END_def SLIP_ESC_def)
next
  case False
  with assms esp_uart_write_step [of e d] show ?thesis
    by (auto simp: esp_write_byte_def slip_byte_def SLIP_REPL_def SLIP_START_def SLIP_END_def)
qed

lemma esp_write_bytes_step:
  "tx_ready (length (slip ds)) e \<Longrightarrow>
     \<exists>e'. esp_write_bytes ds e = Some e' \<and> tx_step (slip ds) e e'"
proof (induction ds arbitrary: e)
  case Nil
  then show ?case using tx_step_refl by (auto simp: tx_ready_def)
next
  case (Cons d ds)
  then have "tx_ready (length (slip_byte d)) e" by (auto intro: tx_readyD)
  from tx_step_bind [where f = "esp_write_byte d" and g = "esp_write_bytes ds",
      OF esp_write_byte_step [OF this] Cons.IH] Cons.prems
  show ?case by simp
qed

lemma esp_write_crc_step:
  assumes "tx_ready (length (slip ds)) e" and "mem_slice v 0 (unat len) = Some ds"
  shows "\<exists>e'. esp_write_crc v len crc e = Some (crc16_data ds crc, e') \<and> tx_step (slip ds) e e'"
  using esp_write_bytes_step [OF assms(1)] assms(2) by (auto simp: esp_write_crc_def)

lemma pad_len_eq: "((n + 3) AND NOT 3) - n = (3 :: u16) - ((n + 3) AND 3)"
proof -
  have "((n + 3) AND NOT 3) + ((n + 3) AND 3) = ((n + 3) AND NOT 3) OR ((n + 3) AND (3::u16))"
    by (rule disjunctive_add) (auto simp: bit_simps)
  also have "\<dots> = n + 3" by (auto intro!: bit_word_eqI simp: bit_simps)
  finally show ?thesis by (simp add: algebra_simps)
qed

lemma pad_len_le: "unat (((n + 3) AND NOT 3) - n :: u16) \<le> 3"
proof -
  have "(n + 3) AND 3 \<le> (3 :: u16)" by (rule word_and_le1)
  then have "(3 :: u16) - ((n + 3) AND 3) \<le> 3" by (simp add: word_le_sub1 word_sub_le)
  then show ?thesis unfolding pad_len_eq by (simp add: word_le_nat_alt)
qed
text \<open>A function that sends bytes and returns the updated CRC: the contract of
  \<open>esp_write_crc\<close> and of everything built from it.\<close>

definition crc_step :: "(u16 \<Rightarrow> espduino \<Rightarrow> (u16 \<times> espduino) option) \<Rightarrow> u8 list \<Rightarrow> bool" where
  "crc_step f ds \<longleftrightarrow> (\<forall>crc e. tx_ready (length (slip ds)) e \<longrightarrow>
     (\<exists>e'. f crc e = Some (crc16_data ds crc, e') \<and> tx_step (slip ds) e e'))"

lemma crc_step_comp:
  assumes "crc_step f xs" and "crc_step g ys"
  shows "crc_step (\<lambda>crc e. Option.bind (f crc e) (\<lambda>(crc, e). g crc e)) (xs @ ys)"
  unfolding crc_step_def
proof (intro allI impI)
  fix crc e
  assume r: "tx_ready (length (slip (xs @ ys))) e"
  then have "tx_ready (length (slip xs)) e" by (auto intro: tx_readyD)
  with assms(1) obtain e' where e': "f crc e = Some (crc16_data xs crc, e')" "tx_step (slip xs) e e'"
    unfolding crc_step_def by blast
  from tx_step_ready [OF this(2)] r have "tx_ready (length (slip ys)) e'" by simp
  with assms(2) obtain e'' where "g (crc16_data xs crc) e' = Some (crc16_data ys (crc16_data xs crc), e'')"
     "tx_step (slip ys) e' e''" unfolding crc_step_def by blast
  with e' show "\<exists>e''. Option.bind (f crc e) (\<lambda>(crc, e). g crc e) = Some (crc16_data (xs @ ys) crc, e'') \<and>
      tx_step (slip (xs @ ys)) e e''"
    by (auto simp: crc16_data_append intro: tx_step_trans)
qed

lemma crc_step_write:
  "mem_slice v 0 (unat len) = Some ds \<Longrightarrow> crc_step (esp_write_crc v len) ds"
  by (simp add: crc_step_def esp_write_crc_step)

lemma crc_step_cont:
  assumes "length d < 65536"
  shows "crc_step (\<lambda>crc. esp_request_cont crc d (of_nat (length d))) (arg_bytes d)"
proof -
  let ?n = "of_nat (length d) :: u16" let ?p = "(?n + 3) AND NOT 3"
  have "unat ?n = length d" using assms by (simp add: unat_of_nat take_bit_nat_eq_self)
  then have 1: "crc_step (esp_write_crc (le16 ?p) 2) (le16 ?p)" "crc_step (esp_write_crc d ?n) d"
    by (auto intro!: crc_step_write simp: mem_slice_def)
  have "le32 0 = replicate 4 0" by (simp add: le32_def numeral_eq_Suc)
  then have "crc_step (esp_write_crc (le32 0) (?p - ?n)) (replicate (unat (?p - ?n)) 0)"
    using pad_len_le [of ?n] by (auto intro!: crc_step_write simp: mem_slice_def)
  from crc_step_comp [OF 1(1) crc_step_comp [OF 1(2) this]] show ?thesis
    unfolding crc_step_def arg_bytes_def by (simp add: esp_request_cont_def Let_def)
qed

lemma crc_step_hdr:
  "crc_step (\<lambda>crc e. do {
     (crc, e) \<leftarrow> esp_write_crc (le16 cmd) 2 crc e;
     (crc, e) \<leftarrow> esp_write_crc (le32 cb) 4 crc e;
     (crc, e) \<leftarrow> esp_write_crc (le32 ret) 4 crc e;
     esp_write_crc (le16 argc) 2 crc e }) (le16 cmd @ le32 cb @ le32 ret @ le16 argc)"
  by (intro crc_step_comp crc_step_write) (auto simp: mem_slice_def)

text \<open>How clients compose the calls: start, one call per argument, end.\<close>

fun esp_conts :: "u8 list list \<Rightarrow> u16 \<Rightarrow> espduino \<Rightarrow> (u16 \<times> espduino) option" where
  "esp_conts [] crc e = Some (crc, e)"
| "esp_conts (d # ds) crc e = do {
     (crc, e) \<leftarrow> esp_request_cont crc d (of_nat (length d)) e;
     esp_conts ds crc e }"

definition esp_request ::
    "u16 \<Rightarrow> u32 \<Rightarrow> u32 \<Rightarrow> u16 \<Rightarrow> u8 list list \<Rightarrow> espduino \<Rightarrow> espduino option" where
  "esp_request cmd cb ret argc args e = do {
     (crc, e) \<leftarrow> esp_request_start cmd cb ret argc e;
     (crc, e) \<leftarrow> esp_conts args crc e;
     esp_request_end crc e }"

lemma crc_step_conts:
  "\<forall>d\<in>set ds. length d < 65536 \<Longrightarrow> crc_step (esp_conts ds) (concat (map arg_bytes ds))"
proof (induction ds)
  case Nil
  then show ?case by (auto simp: crc_step_def tx_ready_def intro: tx_step_refl)
next
  case (Cons d ds)
  then have "crc_step (\<lambda>crc e. Option.bind (esp_request_cont crc d (of_nat (length d)) e)
      (\<lambda>(crc, e). esp_conts ds crc e)) (arg_bytes d @ concat (map arg_bytes ds))"
    by (intro crc_step_comp crc_step_cont) auto
  then show ?case by (simp add: crc_step_def)
qed

lemma esp_request_end_step:
  assumes "tx_ready (length (slip (le16 crc)) + 1) e"
  shows "\<exists>e'. esp_request_end crc e = Some e' \<and> tx_step (slip (le16 crc) @ [0x7F]) e e'"
proof -
  from assms have "tx_ready (length (slip (le16 crc))) e" by (auto intro: tx_readyD)
  from tx_step_bind [where f = "esp_write_bytes (le16 crc)" and g = "esp_uart_write 0x7F",
      OF esp_write_bytes_step [OF this] esp_uart_write_step assms]
  show ?thesis by (simp add: esp_request_end_def le16_def)
qed

lemma esp_request_start_step:
  assumes "tx_ready (Suc (length (slip (req_bytes cmd cb ret argc [])))) e"
  shows "\<exists>e'. esp_request_start cmd cb ret argc e =
      Some (crc16_data (req_bytes cmd cb ret argc []) 0, e'\<lparr>e_cur_cmd := cmd, e_cur_cb := cb\<rparr>) \<and>
      tx_step (0x7E # slip (req_bytes cmd cb ret argc [])) e e'"
proof -
  from assms have "tx_ready 1 e" by (auto intro: tx_readyD)
  then obtain f where f: "esp_uart_write 0x7E e = Some f" "tx_step [0x7E] e f"
    using esp_uart_write_step by blast
  from tx_step_ready [OF this(2)] assms
  have "tx_ready (length (slip (req_bytes cmd cb ret argc []))) f" by simp
  with crc_step_hdr [of cmd cb ret argc] obtain g where
    g: "(do { (crc, e) \<leftarrow> esp_write_crc (le16 cmd) 2 0 f;
       (crc, e) \<leftarrow> esp_write_crc (le32 cb) 4 crc e;
       (crc, e) \<leftarrow> esp_write_crc (le32 ret) 4 crc e;
       esp_write_crc (le16 argc) 2 crc e }) = Some (crc16_data (req_bytes cmd cb ret argc []) 0, g)"
    "tx_step (slip (req_bytes cmd cb ret argc [])) f g"
    by (auto simp: crc_step_def req_bytes_def)
  from g(1) f(1) have "esp_request_start cmd cb ret argc e =
      Some (crc16_data (req_bytes cmd cb ret argc []) 0, g\<lparr>e_cur_cmd := cmd, e_cur_cb := cb\<rparr>)"
    by (auto simp: esp_request_start_def bind_eq_Some_conv)
  with tx_step_trans [OF f(2) g(2)] show ?thesis by auto
qed

lemma tx_step_cur:
  "tx_step bs (e\<lparr>e_cur_cmd := c, e_cur_cb := b\<rparr>) e' \<Longrightarrow>
     e_cur_cmd e' = c \<and> e_cur_cb e' = b \<and>
     tx_step bs e (e'\<lparr>e_cur_cmd := e_cur_cmd e, e_cur_cb := e_cur_cb e\<rparr>)"
  by (auto simp: tx_step_def same_but_tx_def tx_stream_def drains_def)

lemma tx_ready_cur [simp]: "tx_ready n (e\<lparr>e_cur_cmd := c, e_cur_cb := b\<rparr>) = tx_ready n e"
  by (simp add: tx_ready_def drains_def)

text \<open>A whole request puts exactly its frame on the wire and registers what it waits for.\<close>

lemma esp_request_spec:
  assumes ready: "tx_ready (length (esp_frame (req_bytes cmd cb ret argc args))) e"
    and small: "\<forall>d\<in>set args. length d < 65536"
  shows "\<exists>e'. esp_request cmd cb ret argc args e = Some e' \<and>
    tx_stream e' = tx_stream e @ esp_frame (req_bytes cmd cb ret argc args) \<and>
    e_cur_cmd e' = cmd \<and> e_cur_cb e' = cb \<and> rb_inv (e_tx e') \<and> e_rx e' = e_rx e \<and>
    e_proto e' = e_proto e \<and> e_is_return e' = e_is_return e \<and> e_calls e' = e_calls e"
proof -
  let ?h = "req_bytes cmd cb ret argc []" and ?as = "concat (map arg_bytes args)"
  have pkt: "req_bytes cmd cb ret argc args = ?h @ ?as" by (simp add: req_bytes_def)
  have crc: "crc16_data ?as (crc16_data ?h 0) = crc16_data (?h @ ?as) 0"
    by (simp add: crc16_data_append)
  let ?crc = "crc16_data (?h @ ?as) 0"
  from ready have "tx_ready (Suc (length (slip ?h))) e"
    by (auto simp: pkt esp_frame_def intro: tx_readyD)
  from esp_request_start_step [OF this] obtain f where
    f: "esp_request_start cmd cb ret argc e =
          Some (crc16_data ?h 0, f\<lparr>e_cur_cmd := cmd, e_cur_cb := cb\<rparr>)"
       "tx_step (0x7E # slip ?h) e f" by blast
  let ?f = "f\<lparr>e_cur_cmd := cmd, e_cur_cb := cb\<rparr>"
  from tx_step_ready [OF f(2), of "length (slip ?as) + (length (slip (le16 ?crc)) + 1)"] ready
  have rf: "tx_ready (length (slip ?as) + (length (slip (le16 ?crc)) + 1)) ?f"
    by (simp add: pkt esp_frame_def add.assoc)
  then have "tx_ready (length (slip ?as)) ?f" by (rule tx_readyD) simp
  then obtain g where g: "esp_conts args (crc16_data ?h 0) ?f = Some (?crc, g)"
      "tx_step (slip ?as) ?f g"
    using crc_step_conts [OF small] crc unfolding crc_step_def by metis
  from esp_request_end_step [OF tx_step_ready [OF g(2) rf]] obtain h where
    h: "esp_request_end ?crc g = Some h" "tx_step (slip (le16 ?crc) @ [0x7F]) g h" by blast
  from tx_step_cur [OF tx_step_trans [OF g(2) h(2)]]
  have "tx_step (slip ?as @ slip (le16 ?crc) @ [0x7F]) f
        (h\<lparr>e_cur_cmd := e_cur_cmd f, e_cur_cb := e_cur_cb f\<rparr>)"
    and cur: "e_cur_cmd h = cmd" "e_cur_cb h = cb" by auto
  from tx_step_fields [OF tx_step_trans [OF f(2) this(1)]] f(1) g(1) h(1) cur show ?thesis
    by (simp add: esp_request_def pkt esp_frame_def tx_stream_def)
qed

text \<open>Once nothing more is written, the UART empties the buffer.\<close>

lemma uart_fetch_all:
  "rb_inv (e_tx e) \<Longrightarrow> length (rb_list (e_tx e)) \<le> n \<Longrightarrow>
     \<exists>e'. uart_fetch n e = Some e' \<and> e_wire e' = tx_stream e \<and> same_but_tx e e'"
proof (induction n arbitrary: e)
  case 0
  then have "rb_list (e_tx e) = []" by (metis le_zero_eq length_0_conv)
  then show ?case by (simp add: same_but_tx_def tx_stream_def)
next
  case (Suc n)
  from Suc.prems(1) show ?case
  proof (cases rule: rb.get_cases)
    case (some c q')
    let ?f = "e\<lparr>e_tx := q', e_wire := e_wire e @ [c]\<rparr>"
    have "uart_fetch (Suc n) e = uart_fetch n ?f" "tx_stream ?f = tx_stream e" "same_but_tx e ?f"
      using some by (simp_all add: espduino_uart_tx_def word_of_int_uint tx_stream_def same_but_tx_def)
    moreover have "length (rb_list q') \<le> n" using Suc.prems(2) unfolding some(3) by simp
    ultimately show ?thesis using Suc.IH [of ?f] some(2) by (auto simp: same_but_tx_def)
  next
    case none
    then show ?thesis by (simp add: espduino_uart_tx_def same_but_tx_def tx_stream_def)
  qed
qed

lemma esp_request_drained:
  assumes "tx_ready (length (esp_frame (req_bytes cmd cb ret argc args))) e"
    and "\<forall>d\<in>set args. length d < 65536"
  shows "\<exists>e1 e2. esp_request cmd cb ret argc args e = Some e1 \<and>
    uart_fetch (rb_cap (e_tx e1)) e1 = Some e2 \<and>
    e_wire e2 = tx_stream e @ esp_frame (req_bytes cmd cb ret argc args) \<and>
    e_cur_cmd e2 = cmd \<and> e_cur_cb e2 = cb"
proof -
  from esp_request_spec [OF assms] obtain e1 where
    e1: "esp_request cmd cb ret argc args e = Some e1" "rb_inv (e_tx e1)"
      "tx_stream e1 = tx_stream e @ esp_frame (req_bytes cmd cb ret argc args)"
      "e_cur_cmd e1 = cmd" "e_cur_cb e1 = cb" by blast
  from uart_fetch_all [OF e1(2) rb.bounded [OF e1(2)]] e1 show ?thesis
    by (auto simp: same_but_tx_def)
qed

end
