(* ===== verification/Esp_Rx.thy ===== *)
theory Esp_Rx
  imports Esp_Tx
begin

text \<open>
  The receive side of \<open>espduino.c\<close>: \<open>esp_process\<close> is the byte-wise state machine applied to
  the contents of the receive ring buffer; a SLIP frame is decoded to the packet it encodes;
  a well-formed packet with a correct CRC is accepted and a damaged one is not; the waiting
  loops and their deadlines.
\<close>

subsection \<open>Feeding bytes to the state machine\<close>

primrec feed :: "u8 list \<Rightarrow> espduino \<Rightarrow> espduino option" where
  "feed [] e = Some e"
| "feed (b # bs) e = Option.bind (esp_process_byte b e) (feed bs)"

lemma feed_append: "feed (xs @ ys) e = Option.bind (feed xs e) (feed ys)"
proof (induction xs arbitrary: e)
  case (Cons x xs)
  then show ?case by (cases "esp_process_byte x e") auto
qed simp

lemma completed_cb_rx:
  "esp_proto_completed_cb (e\<lparr>e_rx := q\<rparr>) = map_option (\<lambda>e. e\<lparr>e_rx := q\<rparr>) (esp_proto_completed_cb e)"
  by (auto simp: esp_proto_completed_cb_def Let_def bind_eq_None_conv split: Option.bind_split)

lemma process_byte_rx:
  "esp_process_byte b (e\<lparr>e_rx := q\<rparr>) = map_option (\<lambda>e. e\<lparr>e_rx := q\<rparr>) (esp_process_byte b e)"
  by (auto simp: esp_process_byte_def Let_def completed_cb_rx map_option_case
      split: if_splits option.splits)

lemma feed_rx: "feed bs (e\<lparr>e_rx := q\<rparr>) = map_option (\<lambda>e. e\<lparr>e_rx := q\<rparr>) (feed bs e)"
proof (induction bs arbitrary: e)
  case (Cons b bs)
  then show ?case by (cases "esp_process_byte b e") (auto simp: process_byte_rx)
qed simp

lemma esp_process_feed:
  assumes "rb_inv (e_rx e)"
  shows "case feed (rb_list (e_rx e)) e of
      None \<Rightarrow> esp_process e = None
    | Some e' \<Rightarrow> \<exists>q. rb_inv q \<and> rb_list q = [] \<and> rb_cap q = rb_cap (e_rx e) \<and>
        esp_process e = Some (e'\<lparr>e_rx := q\<rparr>)"
  using assms
proof (induction "rb_list (e_rx e)" arbitrary: e)
  case Nil
  then have "fill_cnt (e_rx e) = 0"
    using rb_invD(6) by (fastforce simp: rb_list_def)
  then have "esp_process e = Some e"
    by (subst esp_process.simps) (simp add: esp_uart_available_def)
  with Nil(1) [symmetric] Nil(2) show ?case by (auto intro!: exI [of _ "e_rx e"])
next
  case (Cons b bs)
  from Get_spec [OF Cons.prems, of b bs] Cons.hyps(2) obtain q where
    q: "RINGBUF_Get (e_rx e) = Some (0, Some b, q)" "rb_inv q" "rb_list q = bs"
      "rb_cap q = rb_cap (e_rx e)" by auto
  have "fill_cnt (e_rx e) \<noteq> 0" using Cons.hyps(2) by (auto simp: rb_list_def)
  then have step: "esp_process e =
      Option.bind (map_option (\<lambda>e. e\<lparr>e_rx := q\<rparr>) (esp_process_byte b e)) esp_process"
    using q by (subst esp_process.simps)
      (simp add: esp_uart_available_def esp_uart_read_def process_byte_rx)
  show ?case
  proof (cases "esp_process_byte b e")
    case None
    with step Cons.hyps(2) [symmetric] show ?thesis by simp
  next
    case (Some e')
    with step Cons.hyps(1) [of "e'\<lparr>e_rx := q\<rparr>"] Cons.hyps(2) [symmetric] q show ?thesis
      by (auto simp: feed_rx split: option.splits)
  qed
qed

subsection \<open>Decoding a frame\<close>

text \<open>The buffer after \<open>ds\<close> has been stored at offset \<open>n\<close>.\<close>

definition store :: "nat \<Rightarrow> u8 list \<Rightarrow> u8 list \<Rightarrow> u8 list" where
  "store n ds buf = take n buf @ ds @ drop (n + length ds) buf"

definition proto_inv :: "PROTO \<Rightarrow> bool" where
  "proto_inv pr \<longleftrightarrow> bufSize pr = 512 \<and> length (pr_buf pr) = 512 \<and> dataLen pr \<le> 512"

lemma xor_20_cancel [simp]: "(d XOR 0x20) XOR 0x20 = (d :: u8)"
  by (simp add: xor.assoc)

lemma feed_slip_byte:
  assumes inv: "proto_inv (e_proto e)" and "isEsc (e_proto e) = 0" and room: "dataLen (e_proto e) < 512"
  shows "feed (slip_byte d) e = Some (e\<lparr>e_proto := (e_proto e)
     \<lparr>pr_buf := (pr_buf (e_proto e))[unat (dataLen (e_proto e)) := d],
      dataLen := dataLen (e_proto e) + 1\<rparr>\<rparr>)"
proof -
  have "unat (dataLen (e_proto e)) < length (pr_buf (e_proto e))"
    using inv room by (simp add: proto_inv_def word_less_nat_alt)
  moreover have "d XOR 0x20 \<notin> {0x7D, 0x7E, 0x7F}" if "d \<in> {0x7D, 0x7E, 0x7F}"
    using that by auto
  ultimately show ?thesis
    using assms by (auto simp: slip_byte_def esp_process_byte_def proto_inv_def mem_simps Let_def)
qed

lemma feed_slip:
  assumes "proto_inv (e_proto e)" and "isEsc (e_proto e) = 0"
    and "unat (dataLen (e_proto e)) + length ds \<le> 512"
  shows "feed (slip ds) e = Some (e\<lparr>e_proto := (e_proto e)
     \<lparr>pr_buf := store (unat (dataLen (e_proto e))) ds (pr_buf (e_proto e)),
      dataLen := dataLen (e_proto e) + of_nat (length ds)\<rparr>\<rparr>)"
  using assms
proof (induction ds arbitrary: e)
  case Nil
  then show ?case by (simp add: store_def)
next
  case (Cons d ds)
  let ?pr = "e_proto e"
  let ?n = "unat (dataLen ?pr)"
  have n: "?n < 512" "?n < length (pr_buf ?pr)" using Cons.prems by (auto simp: proto_inv_def)
  then have lt: "dataLen ?pr < 512" and suc: "unat (dataLen ?pr + 1) = Suc ?n"
    by (simp_all add: word_less_nat_alt unat_word_ariths)
  let ?e = "e\<lparr>e_proto := ?pr\<lparr>pr_buf := (pr_buf ?pr)[?n := d], dataLen := dataLen ?pr + 1\<rparr>\<rparr>"
  have "proto_inv (e_proto ?e)"
    using Cons.prems(1) n suc by (simp add: proto_inv_def word_le_nat_alt)
  with Cons.IH [of ?e] Cons.prems suc have "feed (slip ds) ?e = Some (?e\<lparr>e_proto := (e_proto ?e)
     \<lparr>pr_buf := store (Suc ?n) ds ((pr_buf ?pr)[?n := d]),
      dataLen := dataLen ?pr + 1 + of_nat (length ds)\<rparr>\<rparr>)" by simp
  moreover have "store (Suc ?n) ds ((pr_buf ?pr)[?n := d]) = store ?n (d # ds) (pr_buf ?pr)"
    using n by (simp add: store_def take_Suc_update)
  ultimately show ?case
    using feed_slip_byte [OF Cons.prems(1,2) lt] by (simp add: feed_append add.assoc)
qed

text \<open>Whatever was received before, a frame leaves its packet and CRC at the start of the
  buffer and hands it to the completion routine.\<close>

lemma feed_frame:
  assumes "proto_inv (e_proto e)" and len: "length pkt + 2 \<le> 512"
  shows "feed (esp_frame pkt) e =
    map_option (\<lambda>e. e\<lparr>e_proto := (e_proto e)\<lparr>isBegin := 0\<rparr>\<rparr>)
      (esp_proto_completed_cb (e\<lparr>e_proto := (e_proto e)
         \<lparr>isEsc := 0, isBegin := 1,
          pr_buf := pkt @ le16 (crc16_data pkt 0) @ drop (length pkt + 2) (pr_buf (e_proto e)),
          dataLen := of_nat (length pkt + 2)\<rparr>\<rparr>))"
proof -
  let ?ds = "pkt @ le16 (crc16_data pkt 0)"
  let ?e = "e\<lparr>e_proto := (e_proto e)\<lparr>dataLen := 0, isEsc := 0, isBegin := 1\<rparr>\<rparr>"
  have frame: "esp_frame pkt = 0x7E # slip ?ds @ [0x7F]" by (simp add: esp_frame_def)
  have "feed (slip ?ds) ?e = Some (?e\<lparr>e_proto := (e_proto ?e)\<lparr>
      pr_buf := store 0 ?ds (pr_buf (e_proto e)), dataLen := of_nat (length ?ds)\<rparr>\<rparr>)"
    using assms feed_slip [of ?e ?ds] by (simp add: proto_inv_def)
  then show ?thesis
    unfolding frame
    by (simp add: feed_append esp_process_byte_def store_def map_conv_bind_option comp_def
        del: slip_simps(3))
qed

subsection \<open>Accepting and rejecting packets\<close>

text \<open>A packet with the arguments \<open>ds\<close>, each preceded by its length.\<close>

definition arg_image :: "u8 list \<Rightarrow> u8 list" where
  "arg_image d = le16 (of_nat (length d)) @ d"

definition pkt_image :: "u16 \<Rightarrow> u32 \<Rightarrow> u32 \<Rightarrow> u8 list list \<Rightarrow> u8 list" where
  "pkt_image cmd cb ret ds =
     le16 cmd @ le32 cb @ le32 ret @ le16 (of_nat (length ds)) @ concat (map arg_image ds)"

lemma walk_args_image:
  assumes "\<forall>d\<in>set ds. length d < 65536"
  shows "walk_args (length ds) (pre @ concat (map arg_image ds) @ rest) (length pre) crc =
    Some (length pre + length (concat (map arg_image ds)), crc16_data (concat (map arg_image ds)) crc)"
  using assms
proof (induction ds arbitrary: pre crc)
  case (Cons d ds)
  have len: "unat (of_nat (length d) :: u16) = length d"
    using Cons.prems by (simp add: unat_of_nat take_bit_nat_eq_self)
  let ?l = "le16 (of_nat (length d))"
  have sl: "mem_slice (pre @ ?l @ d @ zs) (length pre) 2 = Some ?l"
    "mem_slice (pre @ ?l @ d @ zs) (Suc (Suc (length pre))) (length d) = Some d" for zs
    by (simp_all add: mem_slice_def)
  from Cons.IH [of "pre @ arg_image d"] Cons.prems show ?case
    by (simp add: sl len arg_image_def crc16_data_append add.assoc)
qed simp

lemma completed_cb_image:
  assumes buf: "pr_buf (e_proto e) = pkt_image cmd cb ret ds @ le16 crc @ rest"
    and small: "\<forall>d\<in>set ds. length d < 65536" "length ds < 65536"
  shows "esp_proto_completed_cb e =
    (if crc \<noteq> crc16_data (pkt_image cmd cb ret ds) 0 \<or> e_cur_cmd e \<noteq> cmd then Some e
     else Some (e\<lparr>e_is_return := 1, e_return_value := ret,
       e_calls := e_calls e @ (if e_cur_cb e \<noteq> 0 then [(e_cur_cb e, pr_buf (e_proto e))] else [])\<rparr>))"
proof -
  let ?h = "le16 cmd @ le32 cb @ le32 ret @ le16 (of_nat (length ds))"
  let ?as = "concat (map arg_image ds)"
  let ?buf = "pr_buf (e_proto e)"
  have argc: "unat (of_nat (length ds) :: u16) = length ds"
    using small(2) by (simp add: unat_of_nat take_bit_nat_eq_self)
  have b: "?buf = ?h @ ?as @ le16 crc @ rest" "?h @ ?as = pkt_image cmd cb ret ds"
    using buf by (simp_all add: pkt_image_def)
  have sl: "mem_slice ?buf 10 2 = Some (le16 (of_nat (length ds)))" "mem_slice ?buf 0 12 = Some ?h"
      "mem_slice ?buf 0 2 = Some (le16 cmd)" "mem_slice ?buf 6 4 = Some (le32 ret)"
      "mem_slice ?buf (12 + length ?as) 2 = Some (le16 crc)"
    unfolding b(1) by (simp_all add: mem_slice_def)
  have w: "walk_args (length ds) ?buf 12 (crc16_data ?h 0) =
      Some (12 + length ?as, crc16_data (pkt_image cmd cb ret ds) 0)"
    using walk_args_image [OF small(1), of ?h "le16 crc @ rest" "crc16_data ?h 0"]
    unfolding b(1) b(2) [symmetric] by (simp add: crc16_data_append)
  show ?thesis
    by (auto simp: esp_proto_completed_cb_def Let_def sl w argc)
qed

subsection \<open>Reception in pieces\<close>

text \<open>Bytes arrive in pieces; after each piece the client calls \<open>esp_process\<close>.\<close>

fun rx_rounds :: "u8 list list \<Rightarrow> espduino \<Rightarrow> espduino option" where
  "rx_rounds [] e = Some e"
| "rx_rounds (c # cs) e = do { e \<leftarrow> uart_deliver c e; e \<leftarrow> esp_process e; rx_rounds cs e }"

definition rx_idle :: "espduino \<Rightarrow> bool" where
  "rx_idle e \<longleftrightarrow> rb_inv (e_rx e) \<and> rb_list (e_rx e) = []"

lemma uart_deliver_spec:
  "rb_inv (e_rx e) \<Longrightarrow> length (rb_list (e_rx e)) + length bs \<le> rb_cap (e_rx e) \<Longrightarrow>
     \<exists>q. uart_deliver bs e = Some (e\<lparr>e_rx := q\<rparr>) \<and> rb_inv q \<and>
       rb_list q = rb_list (e_rx e) @ bs \<and> rb_cap q = rb_cap (e_rx e)"
proof (induction bs arbitrary: e)
  case (Cons b bs)
  from Cons.prems(2) have "length (rb_list (e_rx e)) < rb_cap (e_rx e)" by simp
  from rb.put_room [OF Cons.prems(1) this] obtain q where q: "RINGBUF_Put (e_rx e) b = Some (0, q)"
    "rb_inv q" "rb_list q = rb_list (e_rx e) @ [b]" "rb_cap q = rb_cap (e_rx e)" by blast
  have "length (rb_list q) + length bs \<le> rb_cap q" unfolding q(3,4) using Cons.prems(2) by simp
  with Cons.IH [of "e\<lparr>e_rx := q\<rparr>"] q show ?case by (auto simp: espduino_uart_rx_def)
next
  case Nil
  then show ?case by (auto intro!: exI [of _ "e_rx e"])
qed

lemma rx_rounds_feed:
  assumes "rx_idle e" and "\<forall>c\<in>set cs. length c \<le> rb_cap (e_rx e)"
    and "feed (concat cs) e = Some e'"
  shows "\<exists>q. rx_rounds cs e = Some (e'\<lparr>e_rx := q\<rparr>) \<and> rb_inv q \<and> rb_list q = []"
  using assms
proof (induction cs arbitrary: e e')
  case Nil
  then show ?case by (auto simp: rx_idle_def intro!: exI [of _ "e_rx e'"])
next
  case (Cons c cs)
  from Cons.prems(3) obtain f where f: "feed c e = Some f" "feed (concat cs) f = Some e'"
    by (auto simp: feed_append bind_eq_Some_conv)
  have "length (rb_list (e_rx e)) + length c \<le> rb_cap (e_rx e)"
    using Cons.prems(1,2) unfolding rx_idle_def by (metis add_0 list.set_intros(1) list.size(3))
  from uart_deliver_spec [OF _ this] Cons.prems(1) obtain q where
    q: "uart_deliver c e = Some (e\<lparr>e_rx := q\<rparr>)" "rb_inv q" "rb_list q = c" "rb_cap q = rb_cap (e_rx e)"
    by (auto simp: rx_idle_def)
  from esp_process_feed [of "e\<lparr>e_rx := q\<rparr>"] q f(1) obtain q' where
    q': "esp_process (e\<lparr>e_rx := q\<rparr>) = Some (f\<lparr>e_rx := q'\<rparr>)" "rb_inv q'" "rb_list q' = []"
      "rb_cap q' = rb_cap (e_rx e)" by (auto simp: feed_rx)
  have "feed (concat cs) (f\<lparr>e_rx := q'\<rparr>) = Some (e'\<lparr>e_rx := q'\<rparr>)"
    using f(2) by (simp add: feed_rx)
  with Cons.IH [of "f\<lparr>e_rx := q'\<rparr>"] Cons.prems(2) q' show ?case
    using q(1) by (auto simp: rx_idle_def)
qed

text \<open>An accepted response: the receiver that waits for \<open>cmd\<close> gets the return value and the
  packet, however the frame is cut into pieces.\<close>

definition accepted :: "u32 \<Rightarrow> u8 list \<Rightarrow> espduino \<Rightarrow> espduino \<Rightarrow> bool" where
  "accepted ret pkt e e' \<longleftrightarrow> e_is_return e' = 1 \<and> e_return_value e' = ret \<and>
     take (length pkt) (pr_buf (e_proto e')) = pkt \<and>
     e_calls e' = e_calls e @
       (if e_cur_cb e \<noteq> 0 then [(e_cur_cb e, pr_buf (e_proto e'))] else [])"

lemma small_args:
  assumes "length (pkt_image cmd cb ret ds) < 65536"
  shows "\<forall>d\<in>set ds. length d < 65536" and "length ds < 65536"
proof -
  have "length ds \<le> length (concat (map arg_image ds))"
    by (induction ds) (auto simp: arg_image_def)
  with assms show "length ds < 65536" by (simp add: pkt_image_def)
  have "length d \<le> length (concat (map arg_image ds))" if "d \<in> set ds" for d
    using that by (induction ds) (auto simp: arg_image_def)
  with assms show "\<forall>d\<in>set ds. length d < 65536" by (fastforce simp: pkt_image_def)
qed

lemma feed_image:
  assumes "proto_inv (e_proto e)" and len: "length (pkt_image cmd cb ret ds) \<le> 510"
    and "e_cur_cmd e = cmd"
  shows "\<exists>e'. feed (esp_frame (pkt_image cmd cb ret ds)) e = Some e' \<and>
     accepted ret (pkt_image cmd cb ret ds) e e' \<and> e_rx e' = e_rx e \<and> proto_inv (e_proto e')"
proof -
  let ?p = "pkt_image cmd cb ret ds"
  have len': "length ?p + 2 \<le> 512" "length ?p < 65536" using len by simp_all
  note small = small_args [OF len'(2)]
  have "2 + of_nat (length ?p) \<le> (512 :: u16)"
    using len by (simp add: word_le_nat_alt unat_word_ariths unat_of_nat take_bit_nat_eq_self)
  then show ?thesis
    using assms(1,3) len' unfolding feed_frame [OF assms(1) len'(1)]
    by (subst completed_cb_image [OF _ small]) (auto simp: accepted_def proto_inv_def)
qed

text \<open>What a request sends is such a packet, with the arguments padded to words.\<close>

definition pad_arg :: "u8 list \<Rightarrow> u8 list" where
  "pad_arg d = d @ replicate (unat (((of_nat (length d) + 3) AND NOT 3) - of_nat (length d) :: u16)) 0"

lemma arg_bytes_image: "arg_bytes = arg_image \<circ> pad_arg"
  by (simp add: fun_eq_iff arg_bytes_def arg_image_def pad_arg_def)

lemma req_bytes_image:
  "argc = of_nat (length args) \<Longrightarrow>
     req_bytes cmd cb ret argc args = pkt_image cmd cb ret (map pad_arg args)"
  by (simp add: req_bytes_def pkt_image_def arg_bytes_image)

subsection \<open>Waiting\<close>

lemma process_idle: "rx_idle e \<Longrightarrow> esp_process e = Some e"
  using rb_invD(6) [of "e_rx e"]
  by (subst esp_process.simps) (fastforce simp: rx_idle_def esp_uart_available_def rb_list_def)

lemma idle_upd [simp]: "rx_idle (e\<lparr>e_is_return := r\<rparr>) = rx_idle e"
  by (simp add: rx_idle_def)

text \<open>Nothing arrives and the test stays true: the loop goes on with the next readings.\<close>

lemma wait_loop_silent:
  assumes "rx_idle e" and "e_is_return e = 0" and "\<forall>(t, bs)\<in>set env. go t \<and> bs = []"
  shows "esp_wait_loop go (env @ env') e = esp_wait_loop go env' e"
  using assms(3)
proof (induction env)
  case (Cons r env)
  then show ?case
    using assms(1,2) by (cases r, subst esp_wait_loop.simps) (simp add: process_idle)
qed simp

lemma feed_no_end:
  "0x7F \<notin> set bs \<Longrightarrow> feed bs e = Some e' \<Longrightarrow> e_is_return e' = e_is_return e"
proof (induction bs arbitrary: e)
  case (Cons b bs)
  then obtain f where f: "esp_process_byte b e = Some f" "feed bs f = Some e'"
    by (auto simp: bind_eq_Some_conv)
  then have "e_is_return f = e_is_return e"
    using Cons.prems(1) by (auto simp: esp_process_byte_def Let_def split: if_splits)
  with Cons f(2) show ?case by simp
qed simp

text \<open>One turn of the loop: the piece that arrived is fed to the state machine.\<close>

lemma wait_loop_turn:
  assumes "rx_idle e" and "e_is_return e = 0" and "go t" and "length c \<le> rb_cap (e_rx e)"
    and "feed c e = Some f"
  shows "\<exists>q. rb_inv q \<and> rb_list q = [] \<and> rb_cap q = rb_cap (e_rx e) \<and>
    esp_wait_loop go ((t, c) # env) e = esp_wait_loop go env (f\<lparr>e_rx := q\<rparr>)"
proof -
  have "length (rb_list (e_rx e)) + length c \<le> rb_cap (e_rx e)"
    using assms(1,4) unfolding rx_idle_def by (metis add_0 list.size(3))
  from uart_deliver_spec [OF _ this] assms(1) obtain q where
    q: "uart_deliver c e = Some (e\<lparr>e_rx := q\<rparr>)" "rb_inv q" "rb_list q = c" "rb_cap q = rb_cap (e_rx e)"
    by (auto simp: rx_idle_def)
  from esp_process_feed [of "e\<lparr>e_rx := q\<rparr>"] q assms(5) obtain q' where
    "esp_process (e\<lparr>e_rx := q\<rparr>) = Some (f\<lparr>e_rx := q'\<rparr>)" "rb_inv q'" "rb_list q' = []"
      "rb_cap q' = rb_cap (e_rx e)" by (auto simp: feed_rx)
  with q(1) assms(2,3) show ?thesis
    by (subst esp_wait_loop.simps) auto
qed

lemma wait_loop_frame:
  assumes "rx_idle e" and "e_is_return e = 0"
    and "\<forall>(t, c)\<in>set env. go t \<and> length c \<le> rb_cap (e_rx e)"
    and "concat (map snd env) = bs @ [0x7F]" and "0x7F \<notin> set bs"
    and "feed (bs @ [0x7F]) e = Some e'" and "e_is_return e' \<noteq> 0"
  shows "\<exists>q env'. esp_wait_loop go (env @ rest) e = Some (e'\<lparr>e_rx := q\<rparr>, env')"
  using assms
proof (induction env arbitrary: e bs e')
  case (Cons r env)
  obtain t c where r: "r = (t, c)" by (cases r)
  from Cons.prems(3) r have tc: "go t" "length c \<le> rb_cap (e_rx e)" by auto
  show ?case
  proof (cases "\<exists>bs'. bs = c @ bs'")
    case True
    then obtain bs' where bs': "bs = c @ bs'" ..
    with Cons.prems(6) obtain f where f: "feed c e = Some f" "feed (bs' @ [0x7F]) f = Some e'"
      by (auto simp: feed_append bind_eq_Some_conv)
    from wait_loop_turn [where go = go, OF Cons.prems(1,2) tc f(1)] obtain q where
      q: "rb_inv q" "rb_list q = []" "rb_cap q = rb_cap (e_rx e)"
        "esp_wait_loop go ((t, c) # env @ rest) e = esp_wait_loop go (env @ rest) (f\<lparr>e_rx := q\<rparr>)"
      by blast
    from feed_no_end [OF _ f(1)] Cons.prems(2,5) bs' have "e_is_return f = 0" by simp
    with Cons.IH [of "f\<lparr>e_rx := q\<rparr>" bs' "e'\<lparr>e_rx := q\<rparr>"] q f(2) Cons.prems(3-7) bs' r
    show ?thesis by (simp add: rx_idle_def feed_rx)
  next
    case False
    from Cons.prems(4) r have split: "c @ concat (map snd env) = bs @ [0x7F]" by simp
    with False have c: "c = bs @ [0x7F]" by (auto simp: append_eq_append_conv2 append_eq_Cons_conv)
    from wait_loop_turn [where go = go and f = e', OF Cons.prems(1,2) tc] Cons.prems(6) c obtain q where
      "esp_wait_loop go ((t, c) # env @ rest) e = esp_wait_loop go (env @ rest) (e'\<lparr>e_rx := q\<rparr>)"
      by blast
    moreover have "esp_wait_loop go (env @ rest) (e'\<lparr>e_rx := q\<rparr>) = Some (e'\<lparr>e_rx := q\<rparr>, env @ rest)"
      using Cons.prems(7) by (subst esp_wait_loop.simps) simp
    ultimately show ?thesis using r by auto
  qed
qed simp

lemma slip_no_end: "0x7F \<notin> set (slip ds)"
proof (induction ds)
  case (Cons d ds)
  have "d XOR 0x20 \<noteq> 0x7F" if "d \<in> {0x7D, 0x7E, 0x7F}" using that by auto
  with Cons show ?case by (auto simp: slip_byte_def)
qed simp

lemma wait_timo_response:
  assumes "rx_idle e" and "proto_inv (e_proto e)" and "e_cur_cmd e = cmd"
    and "length (pkt_image cmd cb ret ds) \<le> 510"
    and "concat (map snd env) = esp_frame (pkt_image cmd cb ret ds)"
    and "\<forall>(t, c)\<in>set env. sint (t0 + timeo_ticks tps timeout - t) > 0 \<and> length c \<le> rb_cap (e_rx e)"
  shows "\<exists>e' env'. esp_wait_return_timo tps t0 (env @ rest) timeout e = Some (True, Some ret, e', env') \<and>
    accepted ret (pkt_image cmd cb ret ds) e e'"
proof -
  let ?p = "pkt_image cmd cb ret ds" and ?e = "e\<lparr>e_is_return := 0\<rparr>"
  let ?bs = "0x7E # slip (?p @ le16 (crc16_data ?p 0))"
  have fr: "esp_frame ?p = ?bs @ [0x7F]" by (simp add: esp_frame_def)
  from feed_image [of ?e cmd cb ret ds] assms(2-4) obtain e' where
    e': "feed (?bs @ [0x7F]) ?e = Some e'" "accepted ret ?p ?e e'" by (auto simp: fr)
  have "\<exists>q env'. esp_wait_loop (\<lambda>t. sint (t0 + timeo_ticks tps timeout - t) > 0) (env @ rest) ?e =
      Some (e'\<lparr>e_rx := q\<rparr>, env')"
    by (rule wait_loop_frame [where bs = ?bs])
       (use assms e' fr slip_no_end in \<open>auto simp: accepted_def\<close>)
  then obtain q env' where "esp_wait_return_timo tps t0 (env @ rest) timeout e =
      Some (True, Some ret, e'\<lparr>e_rx := q\<rparr>, env')"
    using e'(2) by (auto simp: esp_wait_return_timo_def accepted_def)
  moreover have "accepted ret ?p e (e'\<lparr>e_rx := q\<rparr>)" using e'(2) by (simp add: accepted_def)
  ultimately show ?thesis by blast
qed

end
