(* ===== verification/Esp_Props.thy ===== *)
theory Esp_Props
  imports Esp_Rx
begin

text \<open>
  The properties of the ESP8266 bridge: what a request puts on the wire, that the receive side
  accepts exactly the undamaged answers, that requests survive the round trip through the
  receive side whatever the sizes of the pieces, and the deadlines of the waiting loops.
\<close>

subsection \<open>A driver after start-up\<close>

definition esp_blank :: "nat list \<Rightarrow> espduino" where
  "esp_blank sched = \<lparr>e_uart = False, e_is_return = 0, e_cur_cmd = 0, e_cur_cb = 0,
     e_return_value = 0, e_rx = RINGBUF_zero, e_tx = RINGBUF_zero,
     e_proto = \<lparr>pr_buf = [], bufSize = 0, dataLen = 0, isEsc = 0, isBegin = 0\<rparr>,
     e_wire = [], e_sched = sched, e_calls = []\<rparr>"

definition esp_boot :: "nat list \<Rightarrow> espduino" where
  "esp_boot sched = snd (espduino_init True (esp_blank sched))"

lemma boot_rx: "rx_idle (esp_boot sched)" "rb_cap (e_rx (esp_boot sched)) = 128"
  by (simp_all add: esp_boot_def espduino_init_def esp_blank_def esp_memset_def RINGBUF_Init_def
      rx_idle_def rb_inv_def rb_list_def rb_cap_def)

lemma boot_tx: "rb_inv (e_tx (esp_boot sched))" "tx_stream (esp_boot sched) = []"
    "e_sched (esp_boot sched) = sched"
  by (simp_all add: esp_boot_def espduino_init_def esp_blank_def esp_memset_def RINGBUF_Init_def
      tx_stream_def rb_inv_def rb_list_def rb_cap_def)

lemma boot_proto: "proto_inv (e_proto (esp_boot sched))" "e_is_return (esp_boot sched) = 0"
    "length (pr_buf (e_proto (esp_boot sched))) = 512"
  by (simp_all add: esp_boot_def espduino_init_def esp_blank_def esp_memset_def RINGBUF_Init_def
      proto_inv_def)

lemma boot_ready:
  assumes "4 * length pkt + 12 \<le> length (filter (\<lambda>n. 0 < n) sched)"
  shows "tx_ready (length (esp_frame pkt)) (esp_boot sched)"
  using assms length_esp_frame [of pkt] by (simp add: tx_ready_def drains_def boot_tx)

text \<open>
  C34: A request written by \<open>esp_request_start\<close>, one \<open>esp_request_cont\<close> per argument and
  \<open>esp_request_end\<close> reaches the wire as one SLIP frame: start byte, escaped packet with every
  argument padded to a multiple of four and preceded by its length, escaped CRC of the packet,
  end byte. This holds however slowly the UART fetches the bytes from the 32 byte buffer, as
  long as it goes on fetching.
\<close>

theorem esp_request_on_wire:
  assumes "tx_ready (length (esp_frame (req_bytes cmd cb ret argc args))) e"
    and "\<forall>d\<in>set args. length d < 65536"
  shows "\<exists>e1 e2. esp_request cmd cb ret argc args e = Some e1 \<and>
    uart_fetch (rb_cap (e_tx e1)) e1 = Some e2 \<and>
    e_wire e2 = tx_stream e @ esp_frame (req_bytes cmd cb ret argc args) \<and>
    e_cur_cmd e2 = cmd \<and> e_cur_cb e2 = cb"
  using assms by (rule esp_request_drained)

theorem esp_request_on_wire_witness:
  "\<exists>e1 e2. esp_request 5 0 1 1 [[0x7E, 1, 2]] (esp_boot (replicate 100 1)) = Some e1 \<and>
    uart_fetch (rb_cap (e_tx e1)) e1 = Some e2 \<and>
    e_wire e2 = tx_stream (esp_boot (replicate 100 1)) @ esp_frame (req_bytes 5 0 1 1 [[0x7E, 1, 2]]) \<and>
    e_cur_cmd e2 = 5 \<and> e_cur_cb e2 = 0"
  by (rule esp_request_on_wire) (auto intro!: boot_ready simp: req_bytes_def arg_bytes_def)

text \<open>
  A response frame for the awaited command is accepted however its bytes are split into
  deliveries that fit the receive buffer, whatever the decoder had seen before: the return
  value is stored, the client callback gets the packet.
\<close>

theorem esp_response_accepted:
  assumes "rx_idle e" and "proto_inv (e_proto e)" and "e_cur_cmd e = cmd"
    and "length (pkt_image cmd cb ret ds) \<le> 510"
    and "concat cs = esp_frame (pkt_image cmd cb ret ds)"
    and "\<forall>c\<in>set cs. length c \<le> rb_cap (e_rx e)"
  shows "\<exists>e'. rx_rounds cs e = Some e' \<and> accepted ret (pkt_image cmd cb ret ds) e e' \<and> rx_idle e'"
proof -
  from feed_image [OF assms(2,4,3)] obtain e' where
    e': "feed (concat cs) e = Some e'" "accepted ret (pkt_image cmd cb ret ds) e e'"
    unfolding assms(5) by blast
  from rx_rounds_feed [OF assms(1,6) this(1)] this(2) show ?thesis
    by (auto simp: accepted_def rx_idle_def)
qed

theorem esp_response_accepted_witness:
  "\<exists>e'. rx_rounds [[0x7E], slip (pkt_image 0 0 7 [[1,2]] @ le16 (crc16_data (pkt_image 0 0 7 [[1,2]]) 0)), [0x7F]]
      (esp_boot []) = Some e' \<and> accepted 7 (pkt_image 0 0 7 [[1,2]]) (esp_boot []) e' \<and> rx_idle e'"
proof (rule esp_response_accepted)
  show "e_cur_cmd (esp_boot []) = 0"
    by (simp add: esp_boot_def espduino_init_def esp_memset_def)
qed (auto simp: boot_rx boot_proto pkt_image_def arg_image_def esp_frame_def le16_def le32_def
    slip_byte_def)

text \<open>
  C2: What the transmit side writes, the receive side decodes: the wire bytes of a request,
  delivered in any pieces to a second driver that waits for the same command, are accepted
  there with the request's return field and its arguments (padded).
\<close>

theorem esp_request_loopback:
  assumes "tx_ready (length (esp_frame (req_bytes cmd cb ret argc args))) a" and "tx_stream a = []"
    and "argc = of_nat (length args)" and "length (req_bytes cmd cb ret argc args) \<le> 510"
    and "rx_idle b" and "proto_inv (e_proto b)" and "e_cur_cmd b = cmd"
  shows "\<exists>a1 a2. esp_request cmd cb ret argc args a = Some a1 \<and>
    uart_fetch (rb_cap (e_tx a1)) a1 = Some a2 \<and>
    (\<forall>cs. concat cs = e_wire a2 \<and> (\<forall>c\<in>set cs. length c \<le> rb_cap (e_rx b)) \<longrightarrow>
      (\<exists>b'. rx_rounds cs b = Some b' \<and> accepted ret (req_bytes cmd cb ret argc args) b b'))"
proof -
  note img = req_bytes_image [OF assms(3), of cmd cb ret]
  have len: "length (pkt_image cmd cb ret (map pad_arg args)) \<le> 510" using assms(4) img by simp
  then have "\<forall>d\<in>set (map pad_arg args). length d < 65536"
    by (intro small_args [of cmd cb ret]) simp
  then have "\<forall>d\<in>set args. length d < 65536" by (auto simp: pad_arg_def)
  from esp_request_drained [OF assms(1) this] assms(2) obtain a1 a2 where
    a: "esp_request cmd cb ret argc args a = Some a1" "uart_fetch (rb_cap (e_tx a1)) a1 = Some a2"
      "e_wire a2 = esp_frame (pkt_image cmd cb ret (map pad_arg args))" by (auto simp: img)
  from feed_image [OF assms(6) len assms(7)] rx_rounds_feed [OF assms(5)] a(3)
  have "\<exists>b'. rx_rounds cs b = Some b' \<and> accepted ret (req_bytes cmd cb ret argc args) b b'"
    if "concat cs = e_wire a2" "\<forall>c\<in>set cs. length c \<le> rb_cap (e_rx b)" for cs
    using that by (fastforce simp: accepted_def img)
  with a show ?thesis by blast
qed

theorem esp_request_loopback_witness:
  "\<exists>a1 a2. esp_request 0 3 9 1 [[0x7F, 4]] (esp_boot (replicate 100 3)) = Some a1 \<and>
    uart_fetch (rb_cap (e_tx a1)) a1 = Some a2 \<and>
    (\<forall>cs. concat cs = e_wire a2 \<and> (\<forall>c\<in>set cs. length c \<le> rb_cap (e_rx (esp_boot []))) \<longrightarrow>
      (\<exists>b'. rx_rounds cs (esp_boot []) = Some b' \<and>
        accepted 9 (req_bytes 0 3 9 1 [[0x7F, 4]]) (esp_boot []) b'))"
proof (rule esp_request_loopback)
  show "e_cur_cmd (esp_boot []) = 0"
    by (simp add: esp_boot_def espduino_init_def esp_memset_def)
qed (auto intro!: boot_ready simp: boot_rx boot_tx boot_proto req_bytes_def arg_bytes_def)

text \<open>
  C35: Damage confined to two adjacent bytes of a packet and its CRC is noticed: as long as the damaged bytes still have the
  form of a packet (the argument count and the lengths fit together; damage to a length field can make the
  routine look elsewhere), the packet is dropped, the driver state does not change and the client is not called.
\<close>

theorem esp_damaged_rejected:
  assumes "pr_buf (e_proto e) = pkt_image cmd' cb' ret' ds' @ crc' @ rest" and "length crc' = 2"
    and "pkt @ le16 (crc16_data pkt 0) = xs @ w @ ys" and "pkt_image cmd' cb' ret' ds' @ crc' = xs @ w' @ ys"
    and "w' \<noteq> w" and "length w' = length w" and "length w \<le> 2" and "length pkt \<le> 510"
  shows "esp_proto_completed_cb e = Some e"
proof -
  let ?img = "pkt_image cmd' cb' ret' ds'"
  have "length (?img @ crc') = length (pkt @ le16 (crc16_data pkt 0))" using assms(3,4,6) by simp
  then have len: "length ?img < 65536" using assms(2,8) by (simp add: le16_def)
  have crc: "crc' = le16 (of_le16 crc')" using assms(2) by (simp add: le16_of_le16)
  have "crc16_data (?img @ crc') 0 \<noteq> crc16_data (pkt @ le16 (crc16_data pkt 0)) 0"
    unfolding assms(3,4) using assms(5,6,7) by (intro crc16_damage) simp_all
  then have "of_le16 crc' \<noteq> crc16_data ?img 0"
    using crc by (metis crc16_data_append crc16_data_self)
  then show ?thesis
    using completed_cb_image [of e cmd' cb' ret' ds' "of_le16 crc'" rest, folded crc, OF assms(1) small_args [OF len]] by simp
qed

text \<open>
  The completion routine trusts the length field of the first argument: when it points
  past the 512 byte buffer the routine reads outside the buffer before it has compared any
  CRC, whatever the rest of the frame.
\<close>

theorem esp_completed_reads_outside:
  assumes "length (pr_buf (e_proto e)) = 512" and "of_le16 (take 2 (drop 10 (pr_buf (e_proto e)))) \<noteq> 0"
    and "of_le16 (take 2 (drop 12 (pr_buf (e_proto e)))) > 498"
  shows "esp_proto_completed_cb e = None"
proof -
  let ?b = "pr_buf (e_proto e)"
  let ?argc = "of_le16 (take 2 (drop 10 ?b))" and ?len = "of_le16 (take 2 (drop 12 ?b))"
  from assms(2) obtain n where n: "unat ?argc = Suc n" by (cases "unat ?argc") (auto simp: unat_eq_0)
  have "498 < unat ?len" using assms(3) by (simp add: word_less_nat_alt)
  then have "walk_args (Suc n) ?b 12 crc = None" for crc
    using assms(1) by (simp add: mem_slice_def)
  with n show ?thesis
    using assms(1) by (simp add: esp_proto_completed_cb_def mem_slice_def)
qed

theorem esp_damaged_rejected_witness:
  "esp_proto_completed_cb (esp_boot [] \<lparr>e_proto := (e_proto (esp_boot []))
      \<lparr>pr_buf := pkt_image 1 0 2 [] @ le16 (crc16_data (pkt_image 3 0 2 []) 0) @ replicate 498 0\<rparr>\<rparr>)
   = Some (esp_boot [] \<lparr>e_proto := (e_proto (esp_boot []))
      \<lparr>pr_buf := pkt_image 1 0 2 [] @ le16 (crc16_data (pkt_image 3 0 2 []) 0) @ replicate 498 0\<rparr>\<rparr>)"
  by (rule esp_damaged_rejected [where xs = "[]" and w = "le16 3" and w' = "le16 1" and
      pkt = "pkt_image 3 0 2 []" and cmd' = 1 and cb' = 0 and ret' = 2 and ds' = "[]" and
      crc' = "le16 (crc16_data (pkt_image 3 0 2 []) 0)" and
      rest = "replicate 498 0" and ys = "le32 0 @ le32 2 @ le16 0 @ le16 (crc16_data (pkt_image 3 0 2 []) 0)"])
     (auto simp: pkt_image_def le16_def)

theorem esp_completed_reads_outside_witness:
  "esp_proto_completed_cb (esp_boot [] \<lparr>e_proto := (e_proto (esp_boot []))
      \<lparr>pr_buf := replicate 10 0 @ le16 1 @ le16 499 @ replicate 498 0\<rparr>\<rparr>) = None"
  by (rule esp_completed_reads_outside) (simp_all)

lemma timeo_ticks_exact:
  assumes "0 \<le> sint timeout * tps" "sint timeout * tps < 2 ^ 31"
  shows "timeo_ticks tps timeout = word_of_int (sint timeout * tps div 1000)"
proof -
  have "timeout * word_of_int tps = (word_of_int (sint timeout * tps) :: u32)" by simp
  then have "sint (timeout * word_of_int tps) = sint timeout * tps"
    using assms by (simp only: signed_of_int) (simp add: signed_take_bit_int_eq_self)
  moreover have "x sdiv 1000 = x div 1000" if "0 \<le> x" for x :: int
    using that by (cases "x = 0") (simp_all add: signed_divide_int_def)
  ultimately show ?thesis using assms(1) by (simp add: timeo_ticks_def)
qed

text \<open>
  C36: With a time-out whose product with the ticks of a second fits into 32 bits (the code multiplies without a check),
  \<open>esp_wait_return_timo\<close> waits for that many milliseconds: when nothing is received it gives up at the first reading of the
  clock that is at or past the deadline (in the signed 32 bit comparison), not earlier and not later.
\<close>

theorem esp_wait_times_out:
  assumes "rx_idle e" and "0 \<le> sint timeout * tps" "sint timeout * tps < 2 ^ 31"
    and "tend = t0 + word_of_int (sint timeout * tps div 1000)"
    and "\<forall>(u, bs)\<in>set before. sint (tend - u) > 0 \<and> bs = []" and "sint (tend - t) \<le> 0"
  shows "esp_wait_return_timo tps t0 (before @ (t, bs) # after) timeout e =
    Some (False, None, e\<lparr>e_is_return := 0\<rparr>, after)"
proof -
  have "esp_wait_loop (\<lambda>t. sint (tend - t) > 0) ((t, bs) # after) (e\<lparr>e_is_return := 0\<rparr>) =
      Some (e\<lparr>e_is_return := 0\<rparr>, after)"
    using assms(6) by (subst esp_wait_loop.simps) simp
  moreover have "t0 + timeo_ticks tps timeout = tend" by (simp only: timeo_ticks_exact [OF assms(2,3)] assms(4))
  ultimately show ?thesis
    using wait_loop_silent [of "e\<lparr>e_is_return := 0\<rparr>" before "\<lambda>t. sint (tend - t) > 0"] assms(1,5)
    by (simp add: esp_wait_return_timo_def)
qed

theorem esp_wait_times_out_witness:
  "esp_wait_return_timo 1000 0xFFFFFFF0 ([(0xFFFFFFFF, []), (3, [])] @ (4, []) # []) 20 (esp_boot []) =
    Some (False, None, (esp_boot [])\<lparr>e_is_return := 0\<rparr>, [])"
  by (rule esp_wait_times_out [where tend = 4]) (auto simp: boot_rx timeo_ticks_def)

text \<open>
  A response to the awaited command whose pieces all arrive while the clock is before the
  deadline makes \<open>esp_wait_return_timo\<close> return true with the value of the response.
\<close>

theorem esp_wait_gets_response:
  assumes "rx_idle e" and "proto_inv (e_proto e)" and "e_cur_cmd e = cmd"
    and "length (pkt_image cmd cb ret ds) \<le> 510"
    and "concat (map snd env) = esp_frame (pkt_image cmd cb ret ds)"
    and "\<forall>(t, c)\<in>set env. sint (t0 + timeo_ticks tps timeout - t) > 0 \<and> length c \<le> rb_cap (e_rx e)"
  shows "\<exists>e' env'. esp_wait_return_timo tps t0 (env @ rest) timeout e = Some (True, Some ret, e', env') \<and>
    accepted ret (pkt_image cmd cb ret ds) e e'"
  using assms by (rule wait_timo_response)

theorem esp_wait_gets_response_witness:
  "\<exists>e' env'. esp_wait_return_timo 1000 0 ([(5, [0x7E]), (5, []), (6, slip (pkt_image 0 0 7 [] @
        le16 (crc16_data (pkt_image 0 0 7 []) 0)) @ [0x7F])] @ []) 20 (esp_boot []) =
      Some (True, Some 7, e', env') \<and> accepted 7 (pkt_image 0 0 7 []) (esp_boot []) e'"
proof (rule esp_wait_gets_response [where cmd = 0 and cb = 0 and ds = "[]"])
  show "e_cur_cmd (esp_boot []) = 0"
    by (simp add: esp_boot_def espduino_init_def esp_memset_def)
  show "\<forall>(t, c)\<in>set [(5, [0x7E]), (5, []), (6, slip (pkt_image 0 0 7 [] @
        le16 (crc16_data (pkt_image 0 0 7 []) 0)) @ [0x7F])].
      0 < sint (0 + timeo_ticks 1000 20 - t) \<and> length c \<le> rb_cap (e_rx (esp_boot []))"
    using length_slip [of "pkt_image 0 0 7 [] @ le16 (crc16_data (pkt_image 0 0 7 []) 0)"]
    by (auto simp: boot_rx timeo_ticks_def pkt_image_def)
qed (auto simp: boot_rx boot_proto pkt_image_def esp_frame_def)

text \<open>
  The deadline of \<open>esp_ready\<close> is only noticed when the clock is read at exactly the tick of
  the deadline, because its loop test compares an unsigned difference with zero: without a
  response and without such a reading the first attempt goes on waiting, however far the clock
  has run past the deadline.
\<close>

theorem esp_ready_misses_deadline:
  assumes "rx_idle e" and "tx_ready 34 e"
    and "\<forall>(t, bs)\<in>set env. t \<noteq> t0 + word_of_int tps \<and> bs = []"
  shows "esp_ready tps ((t0, []) # env) e = None"
proof -
  let ?e = "e\<lparr>e_is_return := 0\<rparr>" and ?p = "req_bytes (cmd_num CMD_IS_READY) 0 1 0 []"
  have "length (esp_frame ?p) \<le> 34" using length_esp_frame [of ?p] by (simp add: req_bytes_def)
  moreover have "tx_ready 34 ?e" using assms(2) by (simp add: tx_ready_def drains_def)
  ultimately have "tx_ready (length (esp_frame ?p)) ?e" by (rule tx_readyD [rotated])
  from esp_request_spec [OF this] obtain f where
    f: "esp_request (cmd_num CMD_IS_READY) 0 1 0 [] ?e = Some f" "e_rx f = e_rx e" "e_is_return f = 0"
    by auto
  have "rx_idle f" using assms(1) f(2) by (simp add: rx_idle_def)
  moreover have "\<forall>(t, bs)\<in>set env. 0 < t0 + word_of_int tps - t \<and> bs = []"
    using assms(3) by (auto simp: word_greater_zero_iff)
  ultimately have "esp_wait_loop (\<lambda>t. t0 + word_of_int tps - t > 0) (env @ []) f =
      esp_wait_loop (\<lambda>t. t0 + word_of_int tps - t > 0) [] f"
    using f(3) by (intro wait_loop_silent) auto
  also have "\<dots> = None" using f(3) by (simp add: esp_wait_loop.simps)
  finally have "esp_wait_loop (\<lambda>t. t0 + word_of_int tps - t > 0) env f = None" by simp
  with f(1) show ?thesis
    by (auto simp: esp_ready_def numeral_eq_Suc esp_request_def bind_eq_Some_conv)
qed

theorem esp_ready_misses_deadline_witness:
  "esp_ready 1000 ((0, []) # [(999, []), (1001, []), (5000, [])]) (esp_boot (replicate 68 1)) = None"
  by (rule esp_ready_misses_deadline) (auto simp: boot_rx tx_ready_def drains_def boot_tx)

end
