(* ===== verification/Esp_Rest.thy ===== *)
theory Esp_Rest
  imports Esp_Props
begin

text \<open>
  The REST client of \<open>libs/espduino/src/rest.c\<close> on top of the bridge driver. C strings are byte
  lists without the terminating zero, so \<open>strlen\<close> is the length. The functions take the
  driver state next to the client object; those that wait also take the clock reading at the
  start of the wait and the surroundings of the loop. \<open>cb\<close> is the address of \<open>esp_rest_cb\<close>;
  \<open>res\<close> points into the packet buffer of the driver, so it is a flag here and a read through
  it reads that buffer.
\<close>

record esp_rest =
  remote_instance :: u32
  timeout :: u32
  res :: bool

definition DEFAULT_REST_TIMEOUT :: u32 where "DEFAULT_REST_TIMEOUT = 5000"

datatype HEADER_TYPE = HEADER_GENERIC | HEADER_CONTENT_TYPE | HEADER_USER_AGENT

fun header_num :: "HEADER_TYPE \<Rightarrow> u8" where
  "header_num HEADER_GENERIC = 0" | "header_num HEADER_CONTENT_TYPE = 1"
| "header_num HEADER_USER_AGENT = 2"

definition esp_rest_init :: "esp_rest \<Rightarrow> esp_rest" where
  "esp_rest_init er = er\<lparr>remote_instance := 0, timeout := DEFAULT_REST_TIMEOUT, res := False\<rparr>"

definition esp_rest_begin :: "int \<Rightarrow> u32 \<Rightarrow> esp_env \<Rightarrow> u8 list \<Rightarrow> u16 \<Rightarrow> bool \<Rightarrow> esp_rest \<Rightarrow> espduino \<Rightarrow>
    (bool \<times> esp_rest \<times> espduino \<times> esp_env) option" where
  "esp_rest_begin tps t0 env host port security er e = do {
     let sec = (if security then 1 else 0);
     (crc, e) \<leftarrow> esp_request_start (cmd_num CMD_REST_SETUP) 0 1 3 e;
     (crc, e) \<leftarrow> esp_request_cont crc host (of_nat (length host)) e;
     (crc, e) \<leftarrow> esp_request_cont crc (le16 port) 2 e;
     (crc, e) \<leftarrow> esp_request_cont crc [sec] 1 e;
     e \<leftarrow> esp_request_end crc e;
     (rc, v, e, env) \<leftarrow> esp_wait_return_timo tps t0 env (timeout er) e;
     let er = (case v of Some r \<Rightarrow> er\<lparr>remote_instance := r\<rparr> | None \<Rightarrow> er);
     Some (rc \<and> remote_instance er \<noteq> 0, er, e, env) }"

text \<open>\<open>len\<close> is a C \<open>int\<close>; its first two bytes in memory are sent, and as the length of the data
  it is converted to \<open>uint16_t\<close>.\<close>

definition esp_rest_request ::
    "u8 list \<Rightarrow> u8 list \<Rightarrow> u8 list \<Rightarrow> u32 \<Rightarrow> esp_rest \<Rightarrow> espduino \<Rightarrow> espduino option" where
  "esp_rest_request path method data len er e =
     (if remote_instance er = 0 then Some e
      else do {
        (crc, e) \<leftarrow> esp_request_start (cmd_num CMD_REST_REQUEST) 0 0 (if sint len > 0 then 5 else 3) e;
        (crc, e) \<leftarrow> esp_request_cont crc (le32 (remote_instance er)) 4 e;
        (crc, e) \<leftarrow> esp_request_cont crc method (of_nat (length method)) e;
        (crc, e) \<leftarrow> esp_request_cont crc path (of_nat (length path)) e;
        (crc, e) \<leftarrow>
          (if sint len > 0
           then do { (crc, e) \<leftarrow> esp_request_cont crc (le32 len) 2 e;
                     esp_request_cont crc data (ucast len) e }
           else Some (crc, e));
        esp_request_end crc e })"

definition ascii :: "string \<Rightarrow> u8 list" where
  "ascii s = map (of_char :: char \<Rightarrow> u8) s"

definition esp_rest_get :: "u8 list \<Rightarrow> u8 list \<Rightarrow> esp_rest \<Rightarrow> espduino \<Rightarrow> espduino option" where
  "esp_rest_get path data = esp_rest_request path (ascii ''GET'') data (of_nat (length data))"

definition esp_rest_post :: "u8 list \<Rightarrow> u8 list \<Rightarrow> esp_rest \<Rightarrow> espduino \<Rightarrow> espduino option" where
  "esp_rest_post path data = esp_rest_request path (ascii ''POST'') data (of_nat (length data))"

definition esp_rest_put :: "u8 list \<Rightarrow> u8 list \<Rightarrow> esp_rest \<Rightarrow> espduino \<Rightarrow> espduino option" where
  "esp_rest_put path data = esp_rest_request path (ascii ''PUT'') data (of_nat (length data))"

definition esp_rest_del :: "u8 list \<Rightarrow> u8 list \<Rightarrow> esp_rest \<Rightarrow> espduino \<Rightarrow> espduino option" where
  "esp_rest_del path data = esp_rest_request path (ascii ''DELETE'') data (of_nat (length data))"

text \<open>The three setters differ in the header index only.\<close>

definition rest_header :: "HEADER_TYPE \<Rightarrow> int \<Rightarrow> u32 \<Rightarrow> esp_env \<Rightarrow> u8 list \<Rightarrow> esp_rest \<Rightarrow> espduino \<Rightarrow>
    (bool \<times> espduino \<times> esp_env) option" where
  "rest_header h tps t0 env val er e = do {
     let header_index = header_num h;
     (crc, e) \<leftarrow> esp_request_start (cmd_num CMD_REST_SETHEADER) 0 0 3 e;
     (crc, e) \<leftarrow> esp_request_cont crc (le32 (remote_instance er)) 4 e;
     (crc, e) \<leftarrow> esp_request_cont crc [header_index] 1 e;
     (crc, e) \<leftarrow> esp_request_cont crc val (of_nat (length val)) e;
     e \<leftarrow> esp_request_end crc e;
     (rc, _, e, env) \<leftarrow> esp_wait_return_timo tps t0 env (timeout er) e;
     Some (rc, e, env) }"

definition esp_rest_set_header :: "int \<Rightarrow> u32 \<Rightarrow> esp_env \<Rightarrow> u8 list \<Rightarrow> esp_rest \<Rightarrow> espduino \<Rightarrow>
    (bool \<times> espduino \<times> esp_env) option" where
  "esp_rest_set_header = rest_header HEADER_GENERIC"

definition esp_rest_set_content_type :: "int \<Rightarrow> u32 \<Rightarrow> esp_env \<Rightarrow> u8 list \<Rightarrow> esp_rest \<Rightarrow> espduino \<Rightarrow>
    (bool \<times> espduino \<times> esp_env) option" where
  "esp_rest_set_content_type = rest_header HEADER_CONTENT_TYPE"

definition esp_rest_set_user_agent :: "int \<Rightarrow> u32 \<Rightarrow> esp_env \<Rightarrow> u8 list \<Rightarrow> esp_rest \<Rightarrow> espduino \<Rightarrow>
    (bool \<times> espduino \<times> esp_env) option" where
  "esp_rest_set_user_agent = rest_header HEADER_USER_AGENT"

definition esp_rest_set_timeout :: "u32 \<Rightarrow> esp_rest \<Rightarrow> esp_rest" where
  "esp_rest_set_timeout ms er = er\<lparr>timeout := ms\<rparr>"

text \<open>\<open>esp_rest_cb\<close> sets \<open>res\<close>; it is called when the driver records a call of its address.\<close>

definition esp_rest_cb :: "u32 \<Rightarrow> (u32 \<times> u8 list) list \<Rightarrow> esp_rest \<Rightarrow> esp_rest" where
  "esp_rest_cb cb calls er = (if \<exists>c\<in>set calls. fst c = cb then er\<lparr>res := True\<rparr> else er)"

text \<open>\<open>data\<close> is the caller's array and \<open>lenp\<close> the length it gives; the results are the status,
  the new \<open>*lenp\<close> and the array.\<close>

definition esp_rest_get_response ::
    "u32 \<Rightarrow> int \<Rightarrow> u32 \<Rightarrow> esp_env \<Rightarrow> u8 list \<Rightarrow> u16 \<Rightarrow> esp_rest \<Rightarrow> espduino \<Rightarrow>
      (u16 \<times> u16 \<times> u8 list \<times> esp_rest \<times> espduino \<times> esp_env) option" where
  "esp_rest_get_response cb tps t0 env data lenp er e = do {
     let er = er\<lparr>res := False\<rparr>;
     let n = length (e_calls e);
     let e = esp_wait_for (cmd_num CMD_REST_EVENTS) cb e;
     (rc, http_rc, e, env) \<leftarrow> esp_wait_return_timo tps t0 env (timeout er) e;
     let er = esp_rest_cb cb (drop n (e_calls e)) er;
     (if \<not> rc \<or> \<not> res er then Some (0, lenp, data, er, e, env)
      else do {
        alen \<leftarrow> mem_slice (pr_buf (e_proto e)) 12 2;
        let len = (if lenp > of_le16 alen then of_le16 alen else lenp);
        bytes \<leftarrow> mem_slice (pr_buf (e_proto e)) 14 (unat len);
        _ \<leftarrow> mem_slice data 0 (unat len);
        Some (ucast (the http_rc), len, bytes @ drop (unat len) data, er, e, env) }) }"

subsection \<open>Requests\<close>

text \<open>The arguments of a request; their number is the argument count that is announced.\<close>

definition rest_args :: "u8 list \<Rightarrow> u8 list \<Rightarrow> u8 list \<Rightarrow> esp_rest \<Rightarrow> u8 list list" where
  "rest_args path method data er = [le32 (remote_instance er), method, path] @
     (if data = [] then [] else [take 2 (le32 (of_nat (length data))), data])"

lemma cont_exact:
  "length v < 65536 \<Longrightarrow> n \<le> length v \<Longrightarrow>
     esp_request_cont crc v (of_nat n) e = esp_request_cont crc (take n v) (of_nat n) e"
  by (simp add: esp_request_cont_def esp_write_crc_def mem_slice_def unat_of_nat take_bit_nat_eq_self)

lemma rest_request_esp_request:
  assumes "remote_instance er \<noteq> 0" and "length data < 65536"
  shows "esp_rest_request path method data (of_nat (length data)) er e =
    esp_request (cmd_num CMD_REST_REQUEST) 0 0 (of_nat (length (rest_args path method data er)))
      (rest_args path method data er) e"
proof -
  have pos: "sint (of_nat (length data) :: u32) > 0 \<longleftrightarrow> data \<noteq> []"
  proof -
    have "sint (of_nat (length data) :: u32) = int (length data)"
      using assms(2) by (simp add: sint_uint uint_nat unat_of_nat take_bit_nat_eq_self signed_take_bit_int_eq_self)
    then show ?thesis by simp
  qed
  have cut: "(ucast (of_nat (length data) :: u32) :: u16) = of_nat (length data)"
    using assms(2) by (simp add: unsigned_of_nat take_bit_nat_eq_self)
  have two: "esp_request_cont crc (le32 w) 2 f = esp_request_cont crc (take 2 (le32 w)) 2 f" for crc w f
    using cont_exact [of "le32 w" 2 crc f] by simp
  show ?thesis
    using assms(1) pos cut two
    by (auto simp: esp_rest_request_def esp_request_def rest_args_def case_prod_unfold)
qed

text \<open>
  A REST request with a live remote instance puts one frame on the wire, whose announced
  argument count is the number of its arguments: the instance, the method and the path, and
  for a non-empty body its length and the body. Without a remote instance nothing is sent.
\<close>

theorem esp_rest_request_frame:
  assumes "args = rest_args path method data er" and "length data < 65536"
    and "length method < 65536" and "length path < 65536"
    and "tx_ready (length (esp_frame (pkt_image (cmd_num CMD_REST_REQUEST) 0 0 (map pad_arg args)))) e"
  shows "\<exists>e'. esp_rest_request path method data (of_nat (length data)) er e = Some e' \<and>
    tx_stream e' = tx_stream e @
      (if remote_instance er = 0 then []
       else esp_frame (pkt_image (cmd_num CMD_REST_REQUEST) 0 0 (map pad_arg args)))"
proof (cases "remote_instance er = 0")
  case True
  then show ?thesis by (simp add: esp_rest_request_def)
next
  case False
  have "\<forall>d\<in>set args. length d < 65536" using assms(1-4) by (auto simp: rest_args_def)
  with esp_request_spec [of "cmd_num CMD_REST_REQUEST" 0 0 "of_nat (length args)" args e]
    rest_request_esp_request [OF False assms(2)] assms(1,5) False
  show ?thesis by (auto simp: req_bytes_image)
qed

theorem esp_rest_request_frame_witness:
  "\<exists>e'. esp_rest_request (ascii ''/x'') (ascii ''PUT'') [1, 2, 3] (of_nat (length [1 :: u8, 2, 3]))
      \<lparr>remote_instance = 4, timeout = 0, res = False\<rparr> (esp_boot (replicate 300 1)) = Some e' \<and>
    tx_stream e' = tx_stream (esp_boot (replicate 300 1)) @
      (if remote_instance \<lparr>remote_instance = 4, timeout = 0, res = False\<rparr> = 0 then []
       else esp_frame (pkt_image (cmd_num CMD_REST_REQUEST) 0 0 (map pad_arg
         (rest_args (ascii ''/x'') (ascii ''PUT'') [1, 2, 3] \<lparr>remote_instance = 4, timeout = 0, res = False\<rparr>))))"
  by (rule esp_rest_request_frame [OF refl])
     (auto intro!: boot_ready simp: ascii_def rest_args_def pkt_image_def arg_image_def pad_arg_def)

text \<open>
  \<open>esp_rest_get_response\<close>, for a response with at least one argument that arrives in time,
  gives the HTTP status, copies the first argument cut to the caller's length and stores the
  number of bytes copied; it does not read outside the packet or write outside the caller's
  array.
\<close>

theorem esp_rest_response_copied:
  assumes "rx_idle e" and "proto_inv (e_proto e)" and "cb \<noteq> 0" and "unat lenp \<le> length data"
    and "length (pkt_image (cmd_num CMD_REST_EVENTS) cb' ret (d # ds)) \<le> 510"
    and "concat (map snd env) = esp_frame (pkt_image (cmd_num CMD_REST_EVENTS) cb' ret (d # ds))"
    and "\<forall>(t, c)\<in>set env. sint (t0 + timeo_ticks tps (timeout er) - t) > 0 \<and>
           length c \<le> rb_cap (e_rx e)"
  shows "\<exists>er' e' env'. esp_rest_get_response cb tps t0 (env @ rest) data lenp er e =
    Some (ucast ret, min lenp (of_nat (length d)), take (unat lenp) d @
      drop (min (unat lenp) (length d)) data, er', e', env')"
proof -
  let ?e = "esp_wait_for (cmd_num CMD_REST_EVENTS) cb e"
  let ?p = "pkt_image (cmd_num CMD_REST_EVENTS) cb' ret (d # ds)"
  have "rx_idle ?e" "proto_inv (e_proto ?e)" "e_cur_cmd ?e = cmd_num CMD_REST_EVENTS" "e_rx ?e = e_rx e"
    using assms(1,2) by (simp_all add: esp_wait_for_def rx_idle_def)
  with wait_timo_response [of ?e _ cb' ret "d # ds" env t0 tps "timeout er" rest] assms(5-7)
  obtain e' env' where w: "esp_wait_return_timo tps t0 (env @ rest) (timeout er) ?e =
      Some (True, Some ret, e', env')" "accepted ret ?p ?e e'" by auto
  let ?b = "pr_buf (e_proto e')"
  have calls: "e_calls e' = e_calls e @ [(cb, ?b)]"
    using w(2) assms(3) by (simp add: accepted_def esp_wait_for_def)
  have "?b = ?p @ drop (length ?p) ?b"
    using w(2) by (metis accepted_def append_take_drop_id)
  then obtain z where b: "?b = (le16 (cmd_num CMD_REST_EVENTS) @ le32 cb' @ le32 ret @
      le16 (of_nat (length (d # ds)))) @ le16 (of_nat (length d)) @ d @ z"
    by (simp add: pkt_image_def arg_image_def)
  have small: "unat (of_nat (length d) :: u16) = length d"
    using small_args(1) [of "cmd_num CMD_REST_EVENTS" cb' ret "d # ds"] assms(5)
    by (simp add: unat_of_nat take_bit_nat_eq_self)
  have sl: "mem_slice ?b 12 2 = Some (le16 (of_nat (length d)))"
      "n \<le> length d \<Longrightarrow> mem_slice ?b 14 n = Some (take n d)" for n
    unfolding b by (simp_all add: mem_slice_def)
  define L where "L = (if lenp > of_nat (length d) then of_nat (length d) else lenp)"
  have len: "unat L = min (unat lenp) (length d)" "L = min lenp (of_nat (length d))"
    using small by (auto simp: L_def word_less_nat_alt min_def word_le_nat_alt)
  have sl': "mem_slice ?b 14 (unat L) = Some (take (unat L) d)"
      "mem_slice data 0 (unat L) = Some (take (unat L) data)"
    using len(1) assms(4) by (simp_all add: sl(2) mem_slice_Some)
  have "esp_rest_get_response cb tps t0 (env @ rest) data lenp er e =
    Some (ucast ret, L, take (unat L) d @ drop (unat L) data, er\<lparr>res := True\<rparr>, e', env')"
    using w(1) calls sl(1) sl'
    by (cases "lenp > of_nat (length d)")
       (simp_all add: esp_rest_get_response_def esp_rest_cb_def L_def Let_def del: cmd_num.simps)
  moreover have "take (unat L) d = take (unat lenp) d" using len(1) by (simp add: min_def)
  ultimately show ?thesis using len by metis
qed

theorem esp_rest_response_copied_witness:
  "\<exists>er' e' env'. esp_rest_get_response 0x2000 1000 0 ([(1, [0x7E]), (2, slip (pkt_image (cmd_num CMD_REST_EVENTS)
        0 200 [[5, 6, 7, 8]] @ le16 (crc16_data (pkt_image (cmd_num CMD_REST_EVENTS) 0 200 [[5, 6, 7, 8]]) 0)) @ [0x7F])] @ [])
      [0, 0, 0] 3 (esp_rest_init \<lparr>remote_instance = 4, timeout = 0, res = False\<rparr>) (esp_boot []) =
    Some (ucast (200 :: u32), min 3 (of_nat (length [5 :: u8, 6, 7, 8])), take (unat (3 :: u16)) [5, 6, 7, 8] @
      drop (min (unat (3 :: u16)) (length [5 :: u8, 6, 7, 8])) [0, 0, 0], er', e', env')"
proof (rule esp_rest_response_copied [where cb' = 0 and ds = "[]"])
  let ?p = "pkt_image (cmd_num CMD_REST_EVENTS) 0 200 [[5, 6, 7, 8]]"
  show "\<forall>(t, c)\<in>set [(1, [0x7E]), (2, slip (?p @ le16 (crc16_data ?p 0)) @ [0x7F])].
      0 < sint (0 + timeo_ticks 1000 (timeout (esp_rest_init \<lparr>remote_instance = 4, timeout = 0, res = False\<rparr>)) - t)
      \<and> length c \<le> rb_cap (e_rx (esp_boot []))"
    using length_slip [of "?p @ le16 (crc16_data ?p 0)"]
    by (auto simp: boot_rx timeo_ticks_def pkt_image_def arg_image_def esp_rest_init_def
        DEFAULT_REST_TIMEOUT_def)
qed (auto simp: boot_rx boot_proto pkt_image_def arg_image_def esp_frame_def)

end
