(* ===== verification/Hal_Timer.thy ===== *)
theory Hal_Timer
  imports Prelude
begin

text \<open>
  The timers of \<open>hw/mcu/atmel/samd21xx/src/hal_timer.c\<close>: a 16 bit hardware counter extended to
  32 bits by its overflow interrupt, and per device a queue of software timers ordered by
  expiry. \<open>samd21_hal_timer\<close> and \<open>hal_timer\<close> are the C structs; a \<open>TAILQ\<close> is the list of its
  timers (a timer is named by a number, its address), and \<open>linked\<close> says that the \<open>tqe_prev\<close>
  pointer is not null. The hardware counter runs on between any two accesses: \<open>tc_sched\<close> gives
  the ticks that pass before each coming access and \<open>tc_now\<close> counts all ticks so far. Interrupts
  are disabled in the critical sections, so a handler never runs inside one.
\<close>

subsection \<open>The timer counter peripheral\<close>

record Tc =
  tc_count :: u16
  tc_ovf :: bool
  tc_mc0 :: bool
  tc_cc0 :: u16
  tc_inten_mc0 :: bool
  tc_inten_ovf :: bool
  tc_enabled :: bool
  tc_prescaler :: u16
  tc_now :: nat
  tc_sched :: "nat list"

definition tc_advance :: "nat \<Rightarrow> Tc \<Rightarrow> Tc" where
  "tc_advance d hw =
     hw\<lparr>tc_count := of_nat (unat (tc_count hw) + d),
        tc_ovf := tc_ovf hw \<or> 65536 \<le> unat (tc_count hw) + d,
        tc_mc0 := tc_mc0 hw \<or> (\<exists>i\<in>{1..d}. (of_nat (unat (tc_count hw) + i) :: u16) = tc_cc0 hw),
        tc_now := tc_now hw + d\<rparr>"

definition tc_pass :: "Tc \<Rightarrow> Tc" where
  "tc_pass hw = (case tc_sched hw of [] \<Rightarrow> hw | d # ds \<Rightarrow> (tc_advance d hw)\<lparr>tc_sched := ds\<rparr>)"

text \<open>Register accesses: a read gives the value at that moment.\<close>

definition tc_get_count_value :: "Tc \<Rightarrow> u16 \<times> Tc" where
  "tc_get_count_value hw = (let hw = tc_pass hw in (tc_count hw, hw))"

definition tc_get_ovf :: "Tc \<Rightarrow> bool \<times> Tc" where
  "tc_get_ovf hw = (let hw = tc_pass hw in (tc_ovf hw, hw))"

definition tc_get_mc0 :: "Tc \<Rightarrow> bool \<times> Tc" where
  "tc_get_mc0 hw = (let hw = tc_pass hw in (tc_mc0 hw, hw))"

definition tc_clear_ovf :: "Tc \<Rightarrow> Tc" where
  "tc_clear_ovf hw = (tc_pass hw)\<lparr>tc_ovf := False\<rparr>"

definition tc_clear_mc0 :: "Tc \<Rightarrow> Tc" where
  "tc_clear_mc0 hw = (tc_pass hw)\<lparr>tc_mc0 := False\<rparr>"

definition tc_set_compare_value :: "u16 \<Rightarrow> Tc \<Rightarrow> Tc" where
  "tc_set_compare_value v hw = (tc_pass hw)\<lparr>tc_cc0 := v\<rparr>"

definition tc_set_inten_mc0 :: "bool \<Rightarrow> Tc \<Rightarrow> Tc" where
  "tc_set_inten_mc0 b hw = (tc_pass hw)\<lparr>tc_inten_mc0 := b\<rparr>"

subsection \<open>The driver's data\<close>

record samd21_hal_timer =
  tmr_enabled :: bool
  tmr_irq_num :: u8
  tmr_srcclk :: u8
  tmr_initialized :: bool
  tmr_cntr :: u32
  timer_isrs :: u32
  tmr_freq :: u32
  hal_timer_q :: "nat list"
  tc_mod :: Tc
  tmr_clkgen :: u8
  irq_pending :: bool

record hal_timer =
  expiry :: u32
  cb_func :: u32
  cb_arg :: u32
  bsp_timer :: nat
  linked :: bool

text \<open>All timers of the program, the devices by number and the callbacks made so far.\<close>

record timer_hal =
  bsp :: "nat \<Rightarrow> samd21_hal_timer option"
  tmrs :: "nat \<Rightarrow> hal_timer"
  fired :: "(u32 \<times> u32) list"

definition EINVAL :: int where "EINVAL = 22"

definition SAMD21_HAL_TIMER_MAX :: int where "SAMD21_HAL_TIMER_MAX = 3"

text \<open>\<open>None\<close>: a read outside the table of devices; \<open>Some None\<close>: the macro leaves with \<open>EINVAL\<close>.\<close>

definition SAMD21_HAL_TIMER_RESOLVE :: "int \<Rightarrow> timer_hal \<Rightarrow> samd21_hal_timer option option" where
  "SAMD21_HAL_TIMER_RESOLVE n st =
     (if n \<ge> SAMD21_HAL_TIMER_MAX then Some None
      else if n < 0 then None
      else Some (bsp st (nat n)))"

subsection \<open>Reading the clock and setting the compare register\<close>

definition samd21_timer_set_ocmp :: "u32 \<Rightarrow> samd21_hal_timer \<Rightarrow> samd21_hal_timer" where
  "samd21_timer_set_ocmp ex b =
     (let hw = tc_set_inten_mc0 False (tc_mod b);
          temp = ex AND 0xffff0000;
          delta_t = sint (temp - tmr_cntr b)
      in if delta_t < 0 then b\<lparr>tc_mod := hw, irq_pending := True\<rparr>
         else if delta_t = 0 then
           let expiry16 = ucast ex;
               hw = tc_set_compare_value expiry16 hw;
               hw = tc_clear_mc0 hw;
               hw = tc_set_inten_mc0 True hw;
               (cnt, hw) = tc_get_count_value hw
           in if cnt \<ge> expiry16 then b\<lparr>tc_mod := hw, irq_pending := True\<rparr>
              else b\<lparr>tc_mod := hw\<rparr>
         else b\<lparr>tc_mod := hw\<rparr>)"

definition samd21_timer_disable_ocmp :: "samd21_hal_timer \<Rightarrow> samd21_hal_timer" where
  "samd21_timer_disable_ocmp b = b\<lparr>tc_mod := tc_set_inten_mc0 False (tc_mod b)\<rparr>"

definition hal_timer_read_bsptimer :: "samd21_hal_timer \<Rightarrow> u32 \<times> samd21_hal_timer" where
  "hal_timer_read_bsptimer b =
     (let tcntr = tmr_cntr b;
          (low, hw) = tc_get_count_value (tc_mod b);
          (ovf, hw) = tc_get_ovf hw
      in if ovf then
           let tcntr = tcntr + 65536;
               b = b\<lparr>tmr_cntr := tcntr\<rparr>;
               (low, hw) = tc_get_count_value hw;
               hw = tc_clear_ovf hw
           in (tcntr OR ucast low, b\<lparr>tc_mod := hw, irq_pending := True\<rparr>)
         else (tcntr OR ucast low, b\<lparr>tc_mod := hw\<rparr>))"

subsection \<open>The interrupt handler\<close>

type_synonym timer_cb = "u32 \<Rightarrow> u32 \<Rightarrow> timer_hal \<Rightarrow> timer_hal"

text \<open>\<open>cb f a\<close> is the effect of calling the function at \<open>f\<close> with argument \<open>a\<close>.\<close>

partial_function (option) chk_queue_loop :: "timer_cb \<Rightarrow> nat \<Rightarrow> timer_hal \<Rightarrow> timer_hal option" where
  "chk_queue_loop cb i st =
     (case bsp st i of
        None \<Rightarrow> None
      | Some b \<Rightarrow>
          (case hal_timer_q b of
             [] \<Rightarrow> Some st
           | t # ts \<Rightarrow>
               (case hal_timer_read_bsptimer b of
                  (tcntr, b) \<Rightarrow>
                    let tm = tmrs st t
                    in if sint (tcntr - expiry tm) \<ge> 0
                       then
                         let st = st\<lparr>bsp := (bsp st)(i := Some (b\<lparr>hal_timer_q := ts\<rparr>)),
                                     tmrs := (tmrs st)(t := tm\<lparr>linked := False\<rparr>)\<rparr>
                         in chk_queue_loop cb i (cb (cb_func tm) (cb_arg tm) st)
                       else Some (st\<lparr>bsp := (bsp st)(i := Some b)\<rparr>))))"

definition hal_timer_chk_queue :: "timer_cb \<Rightarrow> nat \<Rightarrow> timer_hal \<Rightarrow> timer_hal option" where
  "hal_timer_chk_queue cb i st = do {
     st \<leftarrow> chk_queue_loop cb i st;
     b \<leftarrow> bsp st i;
     let b = (case hal_timer_q b of
                t # ts \<Rightarrow> samd21_timer_set_ocmp (expiry (tmrs st t)) b
              | [] \<Rightarrow> samd21_timer_disable_ocmp b);
     Some (st\<lparr>bsp := (bsp st)(i := Some b)\<rparr>) }"

text \<open>Entering the handler clears the pending bit. The handler's last statement, a read of the
  flag register into an unused variable, is left out.\<close>

definition hal_timer_irq_handler :: "timer_cb \<Rightarrow> nat \<Rightarrow> timer_hal \<Rightarrow> timer_hal option" where
  "hal_timer_irq_handler cb i st = do {
     b \<leftarrow> bsp st i;
     let b = b\<lparr>irq_pending := False\<rparr>;
     let (compare, hw) = tc_get_mc0 (tc_mod b);
     let hw = (if compare then tc_clear_mc0 hw else hw);
     let (ovf_int, hw) = tc_get_ovf hw;
     let b = (if ovf_int then b\<lparr>tc_mod := tc_clear_ovf hw, tmr_cntr := tmr_cntr b + 65536\<rparr>
              else b\<lparr>tc_mod := hw\<rparr>);
     let b = b\<lparr>timer_isrs := timer_isrs b + 1\<rparr>;
     hal_timer_chk_queue cb i (st\<lparr>bsp := (bsp st)(i := Some b)\<rparr>) }"

subsection \<open>Set-up\<close>

record samd21_timer_cfg =
  src_clock :: u8
  irq_num :: int
  clkgen :: u8
  hwtimer :: Tc

definition tc_disable :: "Tc \<Rightarrow> Tc" where
  "tc_disable hw = hw\<lparr>tc_enabled := False\<rparr>"

definition hal_timer_init :: "int \<Rightarrow> samd21_timer_cfg \<Rightarrow> timer_hal \<Rightarrow> (int \<times> timer_hal) option" where
  "hal_timer_init n cfg st = do {
     r \<leftarrow> SAMD21_HAL_TIMER_RESOLVE n st;
     (case r of
        None \<Rightarrow> Some (EINVAL, st)
      | Some b \<Rightarrow>
          if tmr_enabled b then Some (EINVAL, st)
          else
            let b = b\<lparr>tmr_irq_num := word_of_int (irq_num cfg), tmr_srcclk := src_clock cfg,
                      tmr_clkgen := clkgen cfg, tc_mod := tc_disable (hwtimer cfg),
                      tmr_initialized := True\<rparr>
            in Some (0, st\<lparr>bsp := (bsp st)(nat n := Some b)\<rparr>)) }"

definition GCLK_SOURCE_OSCULP32K :: u8 where "GCLK_SOURCE_OSCULP32K = 3"
definition GCLK_SOURCE_OSC32K :: u8 where "GCLK_SOURCE_OSC32K = 4"
definition GCLK_SOURCE_XOSC32K :: u8 where "GCLK_SOURCE_XOSC32K = 5"
definition GCLK_SOURCE_OSC8M :: u8 where "GCLK_SOURCE_OSC8M = 6"
definition GCLK_SOURCE_DFLL48M :: u8 where "GCLK_SOURCE_DFLL48M = 7"
definition GCLK_SOURCE_FDPLL :: u8 where "GCLK_SOURCE_FDPLL = 8"

text \<open>The \<open>switch\<close> on the clock source: result code and maximal frequency.\<close>

definition clock_frequency :: "u8 \<Rightarrow> int \<times> u32" where
  "clock_frequency src =
     (if src = GCLK_SOURCE_DFLL48M then (0, 48000000)
      else if src = GCLK_SOURCE_FDPLL then (0, 96000000)
      else if src \<in> {GCLK_SOURCE_OSCULP32K, GCLK_SOURCE_OSC32K, GCLK_SOURCE_XOSC32K} then (0, 32768)
      else if src = GCLK_SOURCE_OSC8M then (0, 8000000)
      else (-1, 0))"

text \<open>The search loop; the \<open>uint8_t\<close> exponent stays below 13 and is a \<open>nat\<close>, the differences
  are \<open>uint32_t\<close> and may wrap.\<close>

function find_prescaler :: "u32 \<Rightarrow> nat \<Rightarrow> u16 \<Rightarrow> nat \<times> u16" where
  "find_prescaler dv prescaler prescaler_reg =
     (if prescaler < 11 then
        if dv \<le> push_bit prescaler 1 then
          let min_delta = dv - push_bit (prescaler - 1) 1;
              max_delta = push_bit prescaler 1 - dv
          in (if min_delta < max_delta then prescaler - 1 else prescaler, prescaler_reg)
        else find_prescaler dv (if prescaler < 4 then prescaler + 1 else prescaler + 2) (prescaler_reg + 1)
      else (prescaler, prescaler_reg))"
  by auto
termination by (relation "measure (\<lambda>(d, p, r). 11 - p)") auto

declare find_prescaler.simps [simp del]

definition choose_prescaler :: "u32 \<Rightarrow> nat \<times> u16" where
  "choose_prescaler dv = (if dv = 1 then (0, 0) else find_prescaler dv 1 1)"

text \<open>\<open>tc_ok\<close>: whether \<open>tc_init\<close> returned \<open>STATUS_OK\<close>.\<close>

definition hal_timer_config :: "bool \<Rightarrow> int \<Rightarrow> u32 \<Rightarrow> timer_hal \<Rightarrow> (int \<times> timer_hal) option" where
  "hal_timer_config tc_ok n freq_hz st = do {
     r \<leftarrow> SAMD21_HAL_TIMER_RESOLVE n st;
     (case r of
        None \<Rightarrow> Some (EINVAL, st)
      | Some b \<Rightarrow>
          if tmr_enabled b \<or> \<not> tmr_initialized b \<or> freq_hz = 0 then Some (EINVAL, st)
          else
            let (rc, max_frequency) = clock_frequency (tmr_srcclk b);
                dv = max_frequency div freq_hz
            in if rc \<noteq> 0 \<or> freq_hz > max_frequency \<or> dv = 0 \<or> dv > 1024 then Some (rc, st)
               else
                 let (prescaler, prescaler_reg) = choose_prescaler dv
                 in if \<not> tc_ok then Some (EINVAL, st)
                    else
                      let hw = (tc_mod b)\<lparr>tc_prescaler := prescaler_reg, tc_inten_ovf := True,
                                 tc_enabled := True\<rparr>;
                          b = b\<lparr>tc_mod := hw, tmr_freq := max_frequency div push_bit prescaler 1,
                                tmr_enabled := True\<rparr>
                      in Some (0, st\<lparr>bsp := (bsp st)(nat n := Some b)\<rparr>)) }"

text \<open>\<open>rc\<close> is not assigned before the successful return: \<open>junk\<close> is the value it happens to have.\<close>

definition hal_timer_deinit :: "int \<Rightarrow> int \<Rightarrow> timer_hal \<Rightarrow> (int \<times> timer_hal) option" where
  "hal_timer_deinit junk n st = do {
     r \<leftarrow> SAMD21_HAL_TIMER_RESOLVE n st;
     (case r of
        None \<Rightarrow> Some (EINVAL, st)
      | Some b \<Rightarrow>
          Some (junk, st\<lparr>bsp := (bsp st)(nat n := Some (b\<lparr>tc_mod := tc_disable (tc_mod b),
            tmr_enabled := False, tmr_initialized := False\<rparr>))\<rparr>)) }"

text \<open>\<open>None\<close> also for the division by a frequency of 0.\<close>

definition hal_timer_get_resolution :: "int \<Rightarrow> timer_hal \<Rightarrow> u32 option" where
  "hal_timer_get_resolution n st = do {
     r \<leftarrow> SAMD21_HAL_TIMER_RESOLVE n st;
     (case r of
        None \<Rightarrow> Some 0
      | Some b \<Rightarrow> if tmr_freq b = 0 then None else Some (1000000000 div tmr_freq b)) }"

text \<open>\<open>None\<close> also for the failing assertion.\<close>

definition hal_timer_read :: "int \<Rightarrow> timer_hal \<Rightarrow> (u32 \<times> timer_hal) option" where
  "hal_timer_read n st = do {
     r \<leftarrow> SAMD21_HAL_TIMER_RESOLVE n st;
     b \<leftarrow> r;
     let (tcntr, b) = hal_timer_read_bsptimer b;
     Some (tcntr, st\<lparr>bsp := (bsp st)(nat n := Some b)\<rparr>) }"

partial_function (option) delay_loop :: "int \<Rightarrow> u32 \<Rightarrow> timer_hal \<Rightarrow> timer_hal option" where
  "delay_loop n until st =
     Option.bind (hal_timer_read n st)
       (\<lambda>(t, st). if sint (t - until) \<le> 0 then delay_loop n until st else Some st)"

definition hal_timer_delay :: "int \<Rightarrow> u32 \<Rightarrow> timer_hal \<Rightarrow> (int \<times> timer_hal) option" where
  "hal_timer_delay n ticks st = do {
     (t, st) \<leftarrow> hal_timer_read n st;
     let until = t + ticks;
     st \<leftarrow> delay_loop n until st;
     Some (0, st) }"

subsection \<open>Starting and stopping timers\<close>

definition hal_timer_set_cb :: "int \<Rightarrow> nat \<Rightarrow> u32 \<Rightarrow> u32 \<Rightarrow> timer_hal \<Rightarrow> (int \<times> timer_hal) option" where
  "hal_timer_set_cb n timer f arg st = do {
     r \<leftarrow> SAMD21_HAL_TIMER_RESOLVE n st;
     (case r of
        None \<Rightarrow> Some (EINVAL, st)
      | Some b \<Rightarrow>
          Some (0, st\<lparr>tmrs := (tmrs st)(timer := (tmrs st timer)
            \<lparr>cb_func := f, cb_arg := arg, linked := False, bsp_timer := nat n\<rparr>)\<rparr>)) }"

text \<open>The walk over the queue: insert before the first entry that expires later.\<close>

fun q_insert :: "(nat \<Rightarrow> u32) \<Rightarrow> nat \<Rightarrow> nat list \<Rightarrow> nat list" where
  "q_insert ex timer [] = [timer]"
| "q_insert ex timer (entry # es) =
     (if sint (ex timer - ex entry) < 0 then timer # entry # es
      else entry # q_insert ex timer es)"

definition hal_timer_start_at :: "nat option \<Rightarrow> u32 \<Rightarrow> timer_hal \<Rightarrow> (int \<times> timer_hal) option" where
  "hal_timer_start_at timer tick st =
     (case timer of
        None \<Rightarrow> Some (EINVAL, st)
      | Some t \<Rightarrow>
          if linked (tmrs st t) \<or> cb_func (tmrs st t) = 0 then Some (EINVAL, st)
          else do {
            let i = bsp_timer (tmrs st t);
            b \<leftarrow> bsp st i;
            let ts = (tmrs st)(t := (tmrs st t)\<lparr>expiry := tick, linked := True\<rparr>);
            let q = q_insert (\<lambda>t. expiry (ts t)) t (hal_timer_q b);
            let b = b\<lparr>hal_timer_q := q\<rparr>;
            let b = (if t = hd q then samd21_timer_set_ocmp (expiry (ts t)) b else b);
            Some (0, st\<lparr>bsp := (bsp st)(i := Some b), tmrs := ts\<rparr>) })"

text \<open>\<open>timer\<close> is dereferenced here without a test for null.\<close>

definition hal_timer_start :: "nat \<Rightarrow> u32 \<Rightarrow> timer_hal \<Rightarrow> (int \<times> timer_hal) option" where
  "hal_timer_start t ticks st = do {
     let i = bsp_timer (tmrs st t);
     b \<leftarrow> bsp st i;
     let (now, b) = hal_timer_read_bsptimer b;
     hal_timer_start_at (Some t) (now + ticks) (st\<lparr>bsp := (bsp st)(i := Some b)\<rparr>) }"

definition hal_timer_stop :: "nat option \<Rightarrow> timer_hal \<Rightarrow> (int \<times> timer_hal) option" where
  "hal_timer_stop timer st =
     (case timer of
        None \<Rightarrow> Some (EINVAL, st)
      | Some t \<Rightarrow>
          if \<not> linked (tmrs st t) then Some (0, st)
          else do {
            let i = bsp_timer (tmrs st t);
            b \<leftarrow> bsp st i;
            let first = (hal_timer_q b \<noteq> [] \<and> t = hd (hal_timer_q b));
            let q = remove1 t (hal_timer_q b);
            let st = st\<lparr>bsp := (bsp st)(i := Some (b\<lparr>hal_timer_q := q\<rparr>)),
                        tmrs := (tmrs st)(t := (tmrs st t)\<lparr>linked := False\<rparr>)\<rparr>;
            (if \<not> first then Some (0, st)
             else
               (case q of
                  entry # _ \<Rightarrow> do {
                    let j = bsp_timer (tmrs st entry);
                    c \<leftarrow> bsp st j;
                    Some (0, st\<lparr>bsp := (bsp st)(j := Some
                      (samd21_timer_set_ocmp (expiry (tmrs st entry)) c))\<rparr>) }
                | [] \<Rightarrow> do {
                    b \<leftarrow> bsp st i;
                    Some (0, st\<lparr>bsp := (bsp st)(i := Some (samd21_timer_disable_ocmp b))\<rparr>) })) })"

end
