(* ===== verification/Hal_Timer_Clock.thy ===== *)
theory Hal_Timer_Clock
  imports Hal_Timer
begin

text \<open>
  The 32 bit clock that \<open>hal_timer.c\<close> builds from the 16 bit counter, and the compare register.
  \<open>clock_inv\<close> ties the two parts of the clock to the number of ticks that have really passed;
  it holds as long as an overflow is handled before the next one. \<open>wakes_by\<close> says that the
  interrupt line becomes active no later than a given tick.
\<close>

subsection \<open>Ticks\<close>

text \<open>Ticks since the time in \<open>tmr_cntr\<close>.\<close>

definition tc_pending :: "Tc \<Rightarrow> nat" where
  "tc_pending hw = unat (tc_count hw) + (if tc_ovf hw then 65536 else 0)"

definition clock_inv :: "samd21_hal_timer \<Rightarrow> bool" where
  "clock_inv b \<longleftrightarrow> (of_nat (tc_now (tc_mod b)) :: u32) = tmr_cntr b + of_nat (tc_pending (tc_mod b)) \<and>
     65536 dvd unat (tmr_cntr b) \<and>
     tc_pending (tc_mod b) + sum_list (tc_sched (tc_mod b)) < 131072"

definition runs :: "Tc \<Rightarrow> Tc \<Rightarrow> bool" where
  "runs hw hw' \<longleftrightarrow> (\<exists>d. tc_pending hw' = tc_pending hw + d \<and> tc_now hw' = tc_now hw + d \<and>
     sum_list (tc_sched hw') + d = sum_list (tc_sched hw)) \<and> (tc_ovf hw \<longrightarrow> tc_ovf hw') \<and>
     tc_inten_ovf hw' = tc_inten_ovf hw"

lemma runs_refl [simp]: "runs hw hw"
  by (simp add: runs_def)

lemma runs_trans: "runs a b \<Longrightarrow> runs b c \<Longrightarrow> runs a c"
  unfolding runs_def by fastforce

lemma runs_slack:
  "runs hw hw' \<Longrightarrow> tc_pending hw + sum_list (tc_sched hw) < 131072 \<Longrightarrow>
     tc_pending hw' + sum_list (tc_sched hw') < 131072"
  unfolding runs_def by auto

lemma u16_bound: "unat (w :: u16) < 65536"
  using unsigned_less [of w] by simp

lemma unat_of_nat16: "unat (of_nat n :: u16) = n mod 65536"
  by (simp add: unat_of_nat take_bit_eq_mod)

lemma advance_pending:
  assumes "tc_pending hw + d < 131072"
  shows "tc_pending (tc_advance d hw) = tc_pending hw + d"
  using assms u16_bound [of "tc_count hw"]
  by (auto simp: tc_pending_def tc_advance_def unat_of_nat16 mod_if simp del: of_nat_add
      split: if_splits)

lemma pass_runs:
  assumes "tc_pending hw + sum_list (tc_sched hw) < 131072"
  shows "runs hw (tc_pass hw)" and "tc_cc0 (tc_pass hw) = tc_cc0 hw"
    and "tc_inten_mc0 (tc_pass hw) = tc_inten_mc0 hw"
proof -
  show "runs hw (tc_pass hw)"
  proof (cases "tc_sched hw")
    case (Cons d ds)
    with assms advance_pending [of hw d] show ?thesis
      by (auto simp: runs_def tc_pass_def tc_pending_def tc_advance_def)
  qed (simp add: tc_pass_def)
qed (auto simp: tc_pass_def tc_advance_def split: list.splits)

lemma low_or_add:
  assumes "65536 dvd unat (c :: u32)"
  shows "c OR ucast (l :: u16) = c + of_nat (unat l)"
proof -
  from assms have "take_bit 16 (unat c) = 0" by (simp add: take_bit_eq_mod)
  then have "\<not> bit c n" if "n < 16" for n
    using that by (metis bit_0_eq bit_take_bit_iff bit_unsigned_iff bot_apply bot_bool_def
        possible_bit_nat)
  then have "c + ucast l = c OR ucast l"
    by (intro disjunctive_add) (metis bit_u16_high bit_ucast_iff linorder_not_less)
  then show ?thesis by simp
qed

lemma low_next: "65536 dvd unat (c :: u32) \<Longrightarrow> 65536 dvd unat (c + 65536)"
  by (auto simp: unat_word_ariths dvd_mod)

subsection \<open>Reading the clock\<close>

lemma get_count_spec:
  assumes "tc_get_count_value hw = (v, hw')" and "tc_pending hw + sum_list (tc_sched hw) < 131072"
  shows "runs hw hw'" and "v = tc_count hw'"
  using assms pass_runs(1) by (auto simp: tc_get_count_value_def Let_def)

lemma get_ovf_spec:
  assumes "tc_get_ovf hw = (v, hw')" and "tc_pending hw + sum_list (tc_sched hw) < 131072"
  shows "runs hw hw'" and "v = tc_ovf hw'"
  using assms pass_runs(1) by (auto simp: tc_get_ovf_def Let_def)

text \<open>Clearing an overflow moves 65536 ticks from the hardware to \<open>tmr_cntr\<close>.\<close>

lemma clear_ovf_inv:
  assumes inv: "clock_inv (b\<lparr>tc_mod := hw\<rparr>)" and "tc_ovf hw"
  shows "clock_inv (b\<lparr>tmr_cntr := tmr_cntr b + 65536, tc_mod := tc_clear_ovf hw\<rparr>)"
    and "tc_now hw \<le> tc_now (tc_clear_ovf hw)"
    and "tc_now (tc_clear_ovf hw) + sum_list (tc_sched (tc_clear_ovf hw)) = tc_now hw + sum_list (tc_sched hw)"
proof -
  from inv have slack: "tc_pending hw + sum_list (tc_sched hw) < 131072" by (simp add: clock_inv_def)
  from pass_runs(1) [OF this] assms(2) obtain d where
    d: "tc_pending (tc_pass hw) = tc_pending hw + d" "tc_now (tc_pass hw) = tc_now hw + d"
      "sum_list (tc_sched (tc_pass hw)) + d = sum_list (tc_sched hw)" "tc_ovf (tc_pass hw)"
    by (auto simp: runs_def)
  from d(4) have p: "tc_pending (tc_clear_ovf hw) + 65536 = tc_pending (tc_pass hw)"
    by (simp add: tc_pending_def tc_clear_ovf_def)
  have "of_nat (tc_now hw) = tmr_cntr b + of_nat (tc_pending hw)"
    using inv by (simp add: clock_inv_def)
  with d have "of_nat (tc_now (tc_pass hw)) = tmr_cntr b + of_nat (tc_pending (tc_pass hw))" by simp
  with p have "(of_nat (tc_now (tc_pass hw)) :: u32) =
      tmr_cntr b + 65536 + of_nat (tc_pending (tc_clear_ovf hw))"
    by (metis (no_types, opaque_lifting) add.assoc add.commute of_nat_add of_nat_numeral)
  with inv p d slack low_next show "clock_inv (b\<lparr>tmr_cntr := tmr_cntr b + 65536, tc_mod := tc_clear_ovf hw\<rparr>)"
    by (auto simp: clock_inv_def tc_clear_ovf_def)
  show "tc_now hw \<le> tc_now (tc_clear_ovf hw)"
    "tc_now (tc_clear_ovf hw) + sum_list (tc_sched (tc_clear_ovf hw)) = tc_now hw + sum_list (tc_sched hw)"
    using d by (simp_all add: tc_clear_ovf_def)
qed

lemma runs_inv:
  assumes "clock_inv b" and "runs (tc_mod b) hw"
  shows "clock_inv (b\<lparr>tc_mod := hw\<rparr>)" and "tc_now (tc_mod b) \<le> tc_now hw"
    and "tc_now hw + sum_list (tc_sched hw) = tc_now (tc_mod b) + sum_list (tc_sched (tc_mod b))"
  using assms by (auto simp: clock_inv_def runs_def)

text \<open>Every field but the clock is kept by a reading.\<close>

definition same_queue :: "samd21_hal_timer \<Rightarrow> samd21_hal_timer \<Rightarrow> bool" where
  "same_queue b b' \<longleftrightarrow> hal_timer_q b' = hal_timer_q b \<and> (irq_pending b \<longrightarrow> irq_pending b') \<and>
     tc_inten_ovf (tc_mod b') = tc_inten_ovf (tc_mod b)"

definition clock_run :: "samd21_hal_timer \<Rightarrow> samd21_hal_timer \<Rightarrow> bool" where
  "clock_run b b' \<longleftrightarrow> clock_inv b' \<and> tc_now (tc_mod b) \<le> tc_now (tc_mod b') \<and>
     tc_now (tc_mod b') + sum_list (tc_sched (tc_mod b')) =
     tc_now (tc_mod b) + sum_list (tc_sched (tc_mod b))"

lemma clock_run_refl: "clock_inv b \<Longrightarrow> clock_run b b"
  by (simp add: clock_run_def)

lemma clock_run_trans: "clock_run a b \<Longrightarrow> clock_run b c \<Longrightarrow> clock_run a c"
  by (auto simp: clock_run_def)

lemma read_bsptimer_spec:
  assumes inv: "clock_inv b" and rd: "hal_timer_read_bsptimer b = (v, b')"
  shows "\<exists>n. v = of_nat n \<and> tc_now (tc_mod b) \<le> n \<and> n \<le> tc_now (tc_mod b')"
    and "clock_run b b'" and "same_queue b b'"
proof -
  let ?slack = "\<lambda>hw. tc_pending hw + sum_list (tc_sched hw) < 131072"
  obtain l1 h1 where g1: "tc_get_count_value (tc_mod b) = (l1, h1)" by fastforce
  obtain f h2 where g2: "tc_get_ovf h1 = (f, h2)" by fastforce
  obtain l3 h3 where g3: "tc_get_count_value h2 = (l3, h3)" by fastforce
  from inv have s0: "?slack (tc_mod b)" and low: "65536 dvd unat (tmr_cntr b)"
    by (simp_all add: clock_inv_def)
  note r1 = get_count_spec [OF g1 s0]
  note s1 = runs_slack [OF r1(1) s0]
  note r2 = get_ovf_spec [OF g2 s1]
  note s2 = runs_slack [OF r2(1) s1]
  note r3 = get_count_spec [OF g3 s2]
  note r02 = runs_trans [OF r1(1) r2(1)]
  note r03 = runs_trans [OF r02 r3(1)]
  have at: "of_nat (tc_now hw) = tmr_cntr b + of_nat (tc_pending hw)" if "runs (tc_mod b) hw" for hw
    using runs_inv(1) [OF inv that] by (simp add: clock_inv_def)
  have "(\<exists>n. v = of_nat n \<and> tc_now (tc_mod b) \<le> n \<and> n \<le> tc_now (tc_mod b')) \<and> clock_run b b' \<and>
      same_queue b b'"
  proof (cases f)
    case False
    then have "\<not> tc_ovf h1" using r2 by (auto simp: runs_def)
    then have "of_nat (tc_now h1) = tmr_cntr b OR ucast l1"
      using at [OF r1(1)] r1(2) low_or_add [OF low] by (simp add: tc_pending_def)
    moreover have "v = tmr_cntr b OR ucast l1" "b' = b\<lparr>tc_mod := h2\<rparr>"
      using rd g1 g2 False by (simp_all add: hal_timer_read_bsptimer_def)
    moreover have "tc_now (tc_mod b) \<le> tc_now h1" "tc_now h1 \<le> tc_now h2"
      using r1(1) r2(1) by (auto simp: runs_def)
    moreover have "clock_run b (b\<lparr>tc_mod := h2\<rparr>) \<and> same_queue b (b\<lparr>tc_mod := h2\<rparr>)"
      using runs_inv [OF inv r02] r02 by (auto simp: clock_run_def same_queue_def runs_def)
    ultimately show ?thesis by (intro conjI exI [of _ "tc_now h1"]) auto
  next
    case True
    then have ovf: "tc_ovf h3" using r2 r3 by (auto simp: runs_def)
    have p3: "tc_pending h3 = 65536 + unat l3" using ovf r3(2) by (simp add: tc_pending_def)
    have "of_nat (tc_now h3) = tmr_cntr b + 65536 + of_nat (unat l3)"
      unfolding at [OF r03] p3 by simp
    then have "of_nat (tc_now h3) = (tmr_cntr b + 65536) OR ucast l3"
      using low_or_add [OF low_next [OF low]] by simp
    moreover have "v = (tmr_cntr b + 65536) OR ucast l3"
        "b' = b\<lparr>tmr_cntr := tmr_cntr b + 65536, tc_mod := tc_clear_ovf h3, irq_pending := True\<rparr>"
      using rd g1 g2 g3 True by (simp_all add: hal_timer_read_bsptimer_def Let_def)
    moreover have "tc_inten_ovf (tc_clear_ovf h3) = tc_inten_ovf h3"
      by (simp add: tc_clear_ovf_def tc_pass_def tc_advance_def split: list.splits)
    ultimately have "clock_run b b' \<and> same_queue b b' \<and> v = of_nat (tc_now h3) \<and>
        tc_now h3 \<le> tc_now (tc_mod b')"
      using clear_ovf_inv [OF runs_inv(1) [OF inv r03] ovf] runs_inv [OF inv r03] r03
      by (auto simp: clock_run_def same_queue_def clock_inv_def runs_def)
    with runs_inv(2) [OF inv r03] show ?thesis by blast
  qed
  then show "\<exists>n. v = of_nat n \<and> tc_now (tc_mod b) \<le> n \<and> n \<le> tc_now (tc_mod b')"
    "clock_run b b'" "same_queue b b'" by blast+
qed

subsection \<open>Signed differences of ticks\<close>

lemma sint_of_int32: "- (2 ^ 31) \<le> k \<Longrightarrow> k < 2 ^ 31 \<Longrightarrow> sint (of_int k :: u32) = k"
  by (simp add: signed_of_int signed_take_bit_int_eq_self)

lemma sint_of_span:
  "0 \<le> D \<Longrightarrow> D \<le> 2 ^ 31 - 65536 \<Longrightarrow> 0 \<le> l \<Longrightarrow> l < 65536 \<Longrightarrow> 0 \<le> p \<Longrightarrow> p < 131072 \<Longrightarrow>
     sint (of_int (D + l - p) :: u32) = D + l - p"
  by (rule sint_of_int32) auto

lemma sint_tick_diff:
  assumes "- (2 ^ 31) \<le> int m - int n" and "int m - int n < 2 ^ 31"
  shows "sint (of_nat m - of_nat n :: u32) = int m - int n"
  using sint_of_int32 [OF assms] by simp

lemma sint_dvd:
  assumes "65536 dvd unat (w :: u32)"
  shows "65536 dvd sint w"
proof -
  have "65536 dvd uint w" using assms by (metis of_nat_numeral of_nat_dvd_iff uint_nat)
  then show ?thesis
    by (simp add: sint_uint signed_take_bit_eq_take_bit_minus take_bit_eq_mod dvd_mod dvd_diff)
qed

subsection \<open>The interrupt comes in time\<close>

definition irq_active :: "samd21_hal_timer \<Rightarrow> bool" where
  "irq_active b \<longleftrightarrow> irq_pending b \<or> (tc_ovf (tc_mod b) \<and> tc_inten_ovf (tc_mod b)) \<or>
     (tc_mc0 (tc_mod b) \<and> tc_inten_mc0 (tc_mod b))"

text \<open>Left alone, the hardware raises the interrupt at tick \<open>x\<close> or earlier.\<close>

definition wakes_by :: "nat \<Rightarrow> samd21_hal_timer \<Rightarrow> bool" where
  "wakes_by x b \<longleftrightarrow> irq_active b \<or>
     (\<exists>d. tc_now (tc_mod b) + d \<le> x \<and> irq_active (b\<lparr>tc_mod := tc_advance d (tc_mod b)\<rparr>))"

definition near :: "nat \<Rightarrow> samd21_hal_timer \<Rightarrow> bool" where
  "near x b \<longleftrightarrow> x < tc_now (tc_mod b) + 2 ^ 30 \<and>
     tc_now (tc_mod b) + sum_list (tc_sched (tc_mod b)) < x + 2 ^ 30"

lemma near_run: "near x b \<Longrightarrow> clock_run b b' \<Longrightarrow> near x b'"
  by (auto simp: near_def clock_run_def)

lemma high_part:
  fixes w :: u32
  shows "65536 dvd unat (w AND 0xffff0000)" and "w = (w AND 0xffff0000) + of_nat (unat (ucast w :: u16))"
proof -
  have m: "0xffff0000 = (NOT (mask 16) :: u32)" by (simp add: mask_eq_exp_minus_1)
  have "take_bit 16 (unat (w AND 0xffff0000)) = 0"
    unfolding m by (rule bit_eqI) (auto simp: bit_simps)
  then show d: "65536 dvd unat (w AND 0xffff0000)" by (simp add: take_bit_eq_mod dvd_eq_mod_eq_0)
  have "w = (w AND 0xffff0000) OR ucast (ucast w :: u16)"
    unfolding m by (rule bit_word_eqI) (auto simp: bit_simps)
  with low_or_add [OF d] show "w = (w AND 0xffff0000) + of_nat (unat (ucast w :: u16))" by metis
qed

lemma runs_upd [simp]:
  "runs hw (h\<lparr>tc_cc0 := v\<rparr>) = runs hw h" "runs hw (h\<lparr>tc_mc0 := m\<rparr>) = runs hw h"
  "runs hw (h\<lparr>tc_inten_mc0 := m\<rparr>) = runs hw h"
  by (simp_all add: runs_def tc_pending_def)

lemma set_runs:
  assumes "tc_pending hw + sum_list (tc_sched hw) < 131072"
  shows "runs hw (tc_set_inten_mc0 m hw)" "runs hw (tc_set_compare_value v hw)" "runs hw (tc_clear_mc0 hw)"
  using pass_runs(1) [OF assms]
  by (simp_all add: tc_set_inten_mc0_def tc_set_compare_value_def tc_clear_mc0_def)

text \<open>The distance to a tick in the same or in a later period of the counter.\<close>

lemma distance:
  assumes inv: "clock_inv b" and "near x b" and ex: "ex = of_nat x"
    and D: "sint ((ex AND 0xffff0000) - tmr_cntr b) = D" "0 \<le> D"
  shows "int x - int (tc_now (tc_mod b)) = D + int (unat (ucast ex :: u16)) - int (tc_pending (tc_mod b))"
    and "D = 0 \<or> 65536 \<le> D"
proof -
  let ?lo = "int (unat (ucast ex :: u16))" and ?p = "int (tc_pending (tc_mod b))"
  have low: "65536 dvd unat (tmr_cntr b)" using inv by (simp add: clock_inv_def)
  have "65536 dvd sint (ex AND 0xffff0000) - sint (tmr_cntr b)"
    by (intro dvd_diff sint_dvd high_part(1) low)
  moreover have "65536 dvd D"
  proof -
    have "D = signed_take_bit 31 (sint (ex AND 0xffff0000) - sint (tmr_cntr b))"
      using D(1) by (simp add: sint_word_ariths)
    with calculation show ?thesis
      by (simp add: signed_take_bit_eq_take_bit_minus take_bit_eq_mod dvd_mod dvd_diff)
  qed
  ultimately show D0: "D = 0 \<or> 65536 \<le> D" using D(2) by (auto dest: zdvd_imp_le)
  have Dmax: "D \<le> 2 ^ 31 - 65536"
  proof -
    have "D < 2 ^ 31" using sint_lt [of "(ex AND 0xffff0000) - tmr_cntr b"] D(1) by simp
    with \<open>65536 dvd D\<close> show ?thesis by (elim dvdE) simp
  qed
  have lo: "?lo < 65536" using u16_bound [of "ucast ex"] by linarith
  have p: "?p < 131072" using inv by (simp add: clock_inv_def)
  have "(of_nat x - of_nat (tc_now (tc_mod b)) :: u32) =
      ((ex AND 0xffff0000) + of_nat (unat (ucast ex :: u16))) - (tmr_cntr b + of_nat (tc_pending (tc_mod b)))"
    using high_part(2) [of ex] inv unfolding ex clock_inv_def by metis
  also have "\<dots> =
      ((ex AND 0xffff0000) - tmr_cntr b) + (of_nat (unat (ucast ex :: u16)) - of_nat (tc_pending (tc_mod b)))"
    by (simp only: diff_conv_add_uminus minus_add_distrib add.assoc add.left_commute add.commute)
  also have "(ex AND 0xffff0000) - tmr_cntr b = of_int D" using D(1) [symmetric] by simp
  finally have eq: "(of_nat x - of_nat (tc_now (tc_mod b)) :: u32) = of_int (D + ?lo - ?p)" by simp
  have "sint (of_nat x - of_nat (tc_now (tc_mod b)) :: u32) = int x - int (tc_now (tc_mod b))"
    using assms(2) by (intro sint_tick_diff) (auto simp: near_def)
  moreover have "sint (of_int (D + ?lo - ?p) :: u32) = D + ?lo - ?p"
    using Dmax lo p D(2) by (intro sint_of_span) (simp_all only: of_nat_0_le_iff)
  ultimately show "int x - int (tc_now (tc_mod b)) = D + ?lo - ?p" using eq by metis
qed

lemma advance_match:
  assumes "tc_count hw < tc_cc0 hw"
  shows "tc_mc0 (tc_advance (unat (tc_cc0 hw) - unat (tc_count hw)) hw)"
proof -
  let ?d = "unat (tc_cc0 hw) - unat (tc_count hw)"
  have "(of_nat (unat (tc_count hw) + ?d) :: u16) = tc_cc0 hw" "1 \<le> ?d"
    using assms by (simp_all add: word_less_nat_alt)
  then show ?thesis by (auto simp: tc_advance_def simp del: of_nat_add intro!: bexI [of _ ?d])
qed

lemma set_ocmp_spec:
  assumes inv: "clock_inv b" and near: "near x b" and en: "tc_inten_ovf (tc_mod b)"
  shows "clock_run b (samd21_timer_set_ocmp (of_nat x) b)"
    and "same_queue b (samd21_timer_set_ocmp (of_nat x) b)"
    and "wakes_by x (samd21_timer_set_ocmp (of_nat x) b)"
proof -
  let ?ex = "of_nat x :: u32"
  let ?D = "sint ((?ex AND 0xffff0000) - tmr_cntr b)"
  let ?ok = "\<lambda>b'. clock_run b b' \<and> same_queue b b' \<and> wakes_by x b'"
  define h1 where "h1 = tc_set_inten_mc0 False (tc_mod b)"
  define h2 where "h2 = tc_set_compare_value (ucast ?ex) h1"
  define h3 where "h3 = tc_set_inten_mc0 True (tc_clear_mc0 h2)"
  define h4 where "h4 = tc_pass h3"
  have s0: "tc_pending (tc_mod b) + sum_list (tc_sched (tc_mod b)) < 131072"
    using inv by (simp add: clock_inv_def)
  have r1: "runs (tc_mod b) h1" unfolding h1_def by (rule set_runs(1) [OF s0])
  have r2: "runs (tc_mod b) h2"
    using runs_trans [OF r1 set_runs(2) [OF runs_slack [OF r1 s0]]] by (simp add: h2_def)
  note s2 = runs_slack [OF r2 s0]
  have r3: "runs (tc_mod b) h3"
    using runs_trans [OF runs_trans [OF r2 set_runs(3) [OF s2]]
        set_runs(1) [OF runs_slack [OF set_runs(3) [OF s2] s2]]] by (simp add: h3_def)
  note s3 = runs_slack [OF r3 s0]
  have r4: "runs (tc_mod b) h4" using runs_trans [OF r3 pass_runs(1) [OF s3]] by (simp add: h4_def)
  have cmp: "tc_cc0 h4 = ucast ?ex" "tc_inten_mc0 h4"
    using pass_runs(2,3) [OF s3] by (simp_all add: h4_def h3_def tc_set_inten_mc0_def tc_clear_mc0_def
        tc_pass_def tc_advance_def h2_def tc_set_compare_value_def split: list.splits)
  have cr: "clock_run b (b\<lparr>tc_mod := h\<rparr>)" "same_queue b (b\<lparr>tc_mod := h\<rparr>)"
      "clock_run b (b\<lparr>tc_mod := h, irq_pending := True\<rparr>)"
      "same_queue b (b\<lparr>tc_mod := h, irq_pending := True\<rparr>)" if "runs (tc_mod b) h" for h
    using runs_inv [OF inv that] that
    by (auto simp: clock_run_def same_queue_def clock_inv_def runs_def)
  have late: "?ok (b\<lparr>tc_mod := h, irq_pending := True\<rparr>)" if "runs (tc_mod b) h" for h
    using cr [OF that] by (simp add: wakes_by_def irq_active_def)
  have ovf: "wakes_by x (b\<lparr>tc_mod := h\<rparr>)" if "runs (tc_mod b) h" "tc_ovf h" for h
    using that en by (auto simp: wakes_by_def irq_active_def runs_def)
  have dist: "int x - int (tc_now h) = ?D + int (unat (ucast ?ex :: u16)) - int (unat (tc_count h))"
    if "runs (tc_mod b) h" "0 \<le> ?D" "\<not> tc_ovf h" for h
    using distance(1) [of "b\<lparr>tc_mod := h\<rparr>" x ?ex ?D] near_run [OF near cr(1)] runs_inv(1) [OF inv] that
    by (simp add: tc_pending_def)
  consider "?D < 0" | "?D = 0" | "?D > 0" by linarith
  then have "?ok (samd21_timer_set_ocmp ?ex b)"
  proof cases
    case 1
    then show ?thesis
      using late [OF r1] by (simp add: samd21_timer_set_ocmp_def Let_def h1_def)
  next
    case 2
    have eq: "samd21_timer_set_ocmp ?ex b =
        (if tc_count h4 \<ge> ucast ?ex then b\<lparr>tc_mod := h4, irq_pending := True\<rparr> else b\<lparr>tc_mod := h4\<rparr>)"
      using 2 by (simp add: samd21_timer_set_ocmp_def Let_def h1_def h2_def h3_def h4_def
          tc_get_count_value_def)
    have "wakes_by x (b\<lparr>tc_mod := h4\<rparr>)" if "tc_count h4 < ucast ?ex"
    proof (cases "tc_ovf h4")
      case False
      have "tc_now h4 + (unat (ucast ?ex :: u16) - unat (tc_count h4)) \<le> x"
        using dist [OF r4 _ False] 2 that unfolding word_less_nat_alt by linarith
      moreover have "tc_inten_mc0 (tc_advance d h4)" for d using cmp by (simp add: tc_advance_def)
      ultimately show ?thesis
        using advance_match [of h4] cmp that unfolding wakes_by_def irq_active_def by auto
    qed (use ovf [OF r4] in simp)
    with cr [OF r4] late [OF r4] eq show ?thesis by auto
  next
    case 3
    then have eq: "samd21_timer_set_ocmp ?ex b = b\<lparr>tc_mod := h1\<rparr>"
      by (simp add: samd21_timer_set_ocmp_def Let_def h1_def)
    have "wakes_by x (b\<lparr>tc_mod := h1\<rparr>)"
    proof (cases "tc_ovf h1")
      case False
      let ?d = "65536 - unat (tc_count h1)"
      have "65536 \<le> ?D" using distance(2) [OF inv near refl refl] 3 by simp
      then have "tc_now h1 + ?d \<le> x"
        using dist [OF r1 _ False] 3 u16_bound [of "tc_count h1"] by linarith
      moreover have "tc_ovf (tc_advance ?d h1)" "tc_inten_ovf (tc_advance ?d h1)"
        using en r1 u16_bound [of "tc_count h1"] by (simp_all add: tc_advance_def runs_def)
      ultimately show ?thesis unfolding wakes_by_def irq_active_def by auto
    qed (use ovf [OF r1] in simp)
    with cr [OF r1] eq show ?thesis by simp
  qed
  then show "clock_run b (samd21_timer_set_ocmp ?ex b)" "same_queue b (samd21_timer_set_ocmp ?ex b)"
    "wakes_by x (samd21_timer_set_ocmp ?ex b)" by blast+
qed

end
