(* ===== verification/Hal_Timer_Queue.thy ===== *)
theory Hal_Timer_Queue
  imports Hal_Timer_Clock
begin

text \<open>
  The timer queue of \<open>hal_timer.c\<close>: it stays ordered by expiry, the interrupt for its head is
  always on its way, and the interrupt handler calls exactly the timers that are due, in order.
  The expiry of a timer is a 32 bit tick; \<open>x\<close> gives the real tick it stands for, which lies
  within \<open>2 ^ 30\<close> ticks of the present.
\<close>

subsection \<open>What the queue needs from the clock\<close>

text \<open>\<open>left\<close> bounds the ticks that may still pass during the operations under way.\<close>

locale tick_source =
  fixes read :: "'c \<Rightarrow> u32 \<times> 'c" and now :: "'c \<Rightarrow> nat" and left :: "'c \<Rightarrow> nat" and inv :: "'c \<Rightarrow> bool"
  assumes read_tick: "inv c \<Longrightarrow> read c = (v, c') \<Longrightarrow> \<exists>n. v = of_nat n \<and> now c \<le> n \<and> n \<le> now c'"
    and read_left: "inv c \<Longrightarrow> read c = (v, c') \<Longrightarrow> now c' + left c' = now c + left c"
    and read_inv: "inv c \<Longrightarrow> read c = (v, c') \<Longrightarrow> inv c'"
begin

text \<open>The signed comparison of a reading with an expiry decides what it is meant to.\<close>

lemma due:
  assumes "inv c" "read c = (v, c')" "x < now c + 2 ^ 30" "now c + left c < x + 2 ^ 30"
  shows "sint (v - of_nat x) \<ge> 0 \<Longrightarrow> x \<le> now c'" and "\<not> sint (v - of_nat x) \<ge> 0 \<Longrightarrow> now c < x"
proof -
  from read_tick [OF assms(1,2)] obtain n where n: "v = of_nat n" "now c \<le> n" "n \<le> now c'" by blast
  from read_left [OF assms(1,2)] n assms(3,4) have "sint (of_nat n - of_nat x :: u32) = int n - int x"
    by (intro sint_tick_diff) auto
  with n show "sint (v - of_nat x) \<ge> 0 \<Longrightarrow> x \<le> now c'" "\<not> sint (v - of_nat x) \<ge> 0 \<Longrightarrow> now c < x"
    by auto
qed

end

interpretation bt: tick_source hal_timer_read_bsptimer "\<lambda>b. tc_now (tc_mod b)"
  "\<lambda>b. sum_list (tc_sched (tc_mod b))" clock_inv
  using read_bsptimer_spec by unfold_locales (fastforce simp: clock_run_def)+

subsection \<open>Order\<close>

lemma insert_ordered:
  assumes "sorted (map x q)" and "\<forall>e\<in>set q. ex e = of_nat (x e)" and "ex t = of_nat (x t)"
    and "\<forall>e\<in>set q. \<bar>int (x t) - int (x e)\<bar> < 2 ^ 31"
  shows "q_insert ex t q = takeWhile (\<lambda>e. x e \<le> x t) q @ t # dropWhile (\<lambda>e. x e \<le> x t) q"
  using assms
proof (induction q)
  case (Cons e q)
  have "sint (ex t - ex e) = int (x t) - int (x e)"
    using Cons.prems sint_tick_diff [of "x t" "x e"] by auto
  then have "sint (ex t - ex e) < 0 \<longleftrightarrow> \<not> x e \<le> x t" by linarith
  with Cons show ?case by auto
qed simp

lemma sorted_insert:
  assumes "sorted (map x q)"
  shows "sorted (map x (takeWhile (\<lambda>e. x e \<le> x t) q @ t # dropWhile (\<lambda>e. x e \<le> x t) q))"
proof -
  define A B where "A = takeWhile (\<lambda>e. x e \<le> x t) q" and "B = dropWhile (\<lambda>e. x e \<le> x t) q"
  have q: "q = A @ B" by (simp add: A_def B_def)
  with assms have s: "sorted (map x A)" "sorted (map x B)" "\<forall>a\<in>set A. \<forall>b\<in>set B. x a \<le> x b"
    by (auto simp: sorted_append)
  have A: "\<forall>a\<in>set A. x a \<le> x t" using set_takeWhileD unfolding A_def by fastforce
  have B: "\<forall>b\<in>set B. x t \<le> x b"
  proof (cases B)
    case (Cons d ds)
    then have "\<not> x d \<le> x t" unfolding B_def by (metis dropWhile_eq_Cons_conv)
    with s(2) Cons show ?thesis by auto
  qed simp
  show ?thesis using s A B unfolding A_def [symmetric] B_def [symmetric] by (auto simp: sorted_append)
qed

lemma set_insert_parts:
  "set (takeWhile P q @ t # dropWhile P q) = insert t (set q)"
  by (metis Un_insert_right list.simps(15) set_append takeWhile_dropWhile_id)

lemma distinct_insert_parts:
  "distinct q \<Longrightarrow> t \<notin> set q \<Longrightarrow> distinct (takeWhile P q @ t # dropWhile P q)"
  by (metis distinct.simps(2) distinct_append disjoint_insert(2) distinct_takeWhile distinct_dropWhile
      list.simps(15) set_append takeWhile_dropWhile_id Un_iff)

subsection \<open>The invariant of a device and its timers\<close>

definition timers_ok :: "(nat \<Rightarrow> nat) \<Rightarrow> nat \<Rightarrow> timer_hal \<Rightarrow> samd21_hal_timer \<Rightarrow> bool" where
  "timers_ok x i st b \<longleftrightarrow> bsp st i = Some b \<and> clock_inv b \<and> tc_inten_ovf (tc_mod b) \<and>
     distinct (hal_timer_q b) \<and> sorted (map x (hal_timer_q b)) \<and>
     (\<forall>t\<in>set (hal_timer_q b). expiry (tmrs st t) = of_nat (x t) \<and> near (x t) b) \<and>
     (\<forall>t. linked (tmrs st t) \<and> bsp_timer (tmrs st t) = i \<longleftrightarrow> t \<in> set (hal_timer_q b))"

text \<open>The interrupt for the head of the queue comes in time.\<close>

definition guarded :: "(nat \<Rightarrow> nat) \<Rightarrow> samd21_hal_timer \<Rightarrow> bool" where
  "guarded x b \<longleftrightarrow> (hal_timer_q b \<noteq> [] \<longrightarrow> wakes_by (x (hd (hal_timer_q b))) b)"

lemma clock_run_ok:
  assumes "clock_run b b'" and "same_queue b b'" and "timers_ok x i st b"
  shows "timers_ok x i (st\<lparr>bsp := (bsp st)(i := Some b')\<rparr>) b'"
proof -
  from assms(1,2) have b': "clock_inv b'" "hal_timer_q b' = hal_timer_q b"
      "tc_inten_ovf (tc_mod b') = tc_inten_ovf (tc_mod b)"
    by (simp_all add: clock_run_def same_queue_def)
  show ?thesis using assms(3) near_run [OF _ assms(1)] by (simp add: timers_ok_def b')
qed

lemma timers_ok_pop:
  assumes "timers_ok x i st b" and "hal_timer_q b = t # ts"
  shows "timers_ok x i (st\<lparr>bsp := (bsp st)(i := Some (b\<lparr>hal_timer_q := ts\<rparr>)),
      tmrs := (tmrs st)(t := (tmrs st t)\<lparr>linked := False\<rparr>)\<rparr>) (b\<lparr>hal_timer_q := ts\<rparr>)"
  using assms unfolding timers_ok_def by (auto simp: near_def clock_inv_def)

lemma disable_ocmp_run:
  assumes "clock_inv b"
  shows "clock_run b (samd21_timer_disable_ocmp b)" and "same_queue b (samd21_timer_disable_ocmp b)"
proof -
  have r: "runs (tc_mod b) (tc_set_inten_mc0 False (tc_mod b))"
    using assms set_runs(1) by (auto simp: clock_inv_def)
  from runs_inv [OF assms r] r
  show "clock_run b (samd21_timer_disable_ocmp b)" "same_queue b (samd21_timer_disable_ocmp b)"
    by (auto simp: samd21_timer_disable_ocmp_def clock_run_def same_queue_def runs_def)
qed

text \<open>Re-arming for the head of the queue, as all three operations end with it.\<close>

definition rearm :: "timer_hal \<Rightarrow> samd21_hal_timer \<Rightarrow> samd21_hal_timer" where
  "rearm st b = (case hal_timer_q b of
     t # ts \<Rightarrow> samd21_timer_set_ocmp (expiry (tmrs st t)) b | [] \<Rightarrow> samd21_timer_disable_ocmp b)"

lemma rearm_ok:
  assumes ok: "timers_ok x i st b"
  shows "timers_ok x i (st\<lparr>bsp := (bsp st)(i := Some (rearm st b))\<rparr>) (rearm st b)"
    and "guarded x (rearm st b)" and "clock_run b (rearm st b)" and "hal_timer_q (rearm st b) = hal_timer_q b"
proof -
  from ok have inv: "clock_inv b" "tc_inten_ovf (tc_mod b)" by (auto simp: timers_ok_def)
  have *: "clock_run b (rearm st b) \<and> same_queue b (rearm st b) \<and> guarded x (rearm st b)"
  proof (cases "hal_timer_q b")
    case Nil
    with disable_ocmp_run [OF inv(1)] show ?thesis
      by (simp add: rearm_def guarded_def same_queue_def)
  next
    case (Cons t ts)
    with ok have "expiry (tmrs st t) = of_nat (x t)" "near (x t) b" by (auto simp: timers_ok_def)
    with set_ocmp_spec [OF inv(1) this(2) inv(2)] Cons show ?thesis
      by (auto simp: rearm_def guarded_def same_queue_def)
  qed
  with clock_run_ok [OF _ _ ok] show "timers_ok x i (st\<lparr>bsp := (bsp st)(i := Some (rearm st b))\<rparr>) (rearm st b)"
    "guarded x (rearm st b)" "clock_run b (rearm st b)" "hal_timer_q (rearm st b) = hal_timer_q b"
    by (auto simp: same_queue_def)
qed

subsection \<open>An example device\<close>

text \<open>The clock is 16 ticks before the 32 bit wrap, timer 1 is queued for a tick after it.\<close>

definition demo_dev :: samd21_hal_timer where
  "demo_dev = \<lparr>tmr_enabled = True, tmr_irq_num = 15, tmr_srcclk = 7, tmr_initialized = True,
     tmr_cntr = 0xFFFF0000, timer_isrs = 0, tmr_freq = 1000000, hal_timer_q = [1],
     tc_mod = \<lparr>tc_count = 0xFFF0, tc_ovf = False, tc_mc0 = False, tc_cc0 = 0, tc_inten_mc0 = False,
       tc_inten_ovf = True, tc_enabled = True, tc_prescaler = 0, tc_now = 0xFFFFFFF0, tc_sched = [5, 20, 3]\<rparr>,
     tmr_clkgen = 0, irq_pending = True\<rparr>"

definition demo_hal :: timer_hal where
  "demo_hal = \<lparr>bsp = (\<lambda>_. None)(0 := Some demo_dev),
     tmrs = (\<lambda>_. \<lparr>expiry = 0, cb_func = 0x100, cb_arg = 0, bsp_timer = 0, linked = False\<rparr>)
       (1 := \<lparr>expiry = 5, cb_func = 0x100, cb_arg = 1, bsp_timer = 0, linked = True\<rparr>),
     fired = []\<rparr>"

definition demo_x :: "nat \<Rightarrow> nat" where
  "demo_x t = 0x100000005"

lemma demo_ok: "timers_ok demo_x 0 demo_hal demo_dev" "guarded demo_x demo_dev"
  by (auto simp: timers_ok_def demo_hal_def demo_dev_def demo_x_def clock_inv_def tc_pending_def
      near_def guarded_def wakes_by_def irq_active_def)

subsection \<open>The interrupt handler\<close>

text \<open>A callback that leaves the timers alone; the calls are recorded.\<close>

definition log_cb :: timer_cb where
  "log_cb f a st = st\<lparr>fired := fired st @ [(f, a)]\<rparr>"

definition call_of :: "timer_hal \<Rightarrow> nat \<Rightarrow> u32 \<times> u32" where
  "call_of st t = (cb_func (tmrs st t), cb_arg (tmrs st t))"

lemma timers_ok_log [simp]: "timers_ok x i (log_cb f a st) b = timers_ok x i st b"
  by (simp add: log_cb_def timers_ok_def)

lemma chk_queue_loop_spec:
  assumes "timers_ok x i st b"
  shows "\<exists>st' b' k. chk_queue_loop log_cb i st = Some st' \<and> timers_ok x i st' b' \<and>
    hal_timer_q b' = drop k (hal_timer_q b) \<and> clock_run b b' \<and>
    fired st' = fired st @ map (call_of st) (take k (hal_timer_q b)) \<and>
    (\<forall>t\<in>set (take k (hal_timer_q b)). x t \<le> tc_now (tc_mod b')) \<and>
    (\<forall>t\<in>set (drop k (hal_timer_q b)). tc_now (tc_mod b) < x t)"
  using assms
proof (induction "hal_timer_q b" arbitrary: st b)
  case Nil
  then have "chk_queue_loop log_cb i st = Some st"
    by (subst chk_queue_loop.simps) (simp add: timers_ok_def)
  with Nil show ?case by (auto simp: timers_ok_def clock_run_def intro!: exI [of _ st] exI [of _ b])
next
  case (Cons t ts)
  note q = Cons.hyps(2) [symmetric]
  obtain v b1 where rd: "hal_timer_read_bsptimer b = (v, b1)" by fastforce
  have ok: "bsp st i = Some b" "clock_inv b" "expiry (tmrs st t) = of_nat (x t)" "near (x t) b"
    using Cons.prems q by (auto simp: timers_ok_def)
  note spec = read_bsptimer_spec [OF ok(2) rd]
  note ok1 = clock_run_ok [OF spec(2,3) Cons.prems]
  have q1: "hal_timer_q b1 = t # ts" using spec(3) q by (simp add: same_queue_def)
  have due: "0 \<le> sint (v - of_nat (x t)) \<Longrightarrow> x t \<le> tc_now (tc_mod b1)"
    "\<not> 0 \<le> sint (v - of_nat (x t)) \<Longrightarrow> tc_now (tc_mod b) < x t"
    using bt.due [OF ok(2) rd, of "x t"] ok(4) unfolding near_def by auto
  show ?case
  proof (cases "0 \<le> sint (v - of_nat (x t))")
    case False
    then have "chk_queue_loop log_cb i st = Some (st\<lparr>bsp := (bsp st)(i := Some b1)\<rparr>)"
      using ok q rd by (subst chk_queue_loop.simps) simp
    moreover have "\<forall>u\<in>set (t # ts). tc_now (tc_mod b) < x u"
      using due(2) [OF False] Cons.prems q by (auto simp: timers_ok_def)
    ultimately show ?thesis
      using ok1 spec(2) q q1 by (intro exI [of _ "st\<lparr>bsp := (bsp st)(i := Some b1)\<rparr>"] exI [of _ b1]
          exI [of _ 0]) auto
  next
    case True
    let ?b = "b1\<lparr>hal_timer_q := ts\<rparr>"
    let ?s = "(st\<lparr>bsp := (bsp st)(i := Some ?b),
        tmrs := (tmrs st)(t := (tmrs st t)\<lparr>linked := False\<rparr>)\<rparr>)"
    let ?st = "log_cb (cb_func (tmrs st t)) (cb_arg (tmrs st t)) ?s"
    have step: "chk_queue_loop log_cb i st = chk_queue_loop log_cb i ?st"
      using ok q rd True by (subst chk_queue_loop.simps) (simp add: Let_def)
    have "timers_ok x i ?st ?b" using timers_ok_pop [OF ok1 q1] by simp
    from Cons.hyps(1) [OF _ this] obtain st' b' k where
      IH: "chk_queue_loop log_cb i ?st = Some st'" "timers_ok x i st' b'" "hal_timer_q b' = drop k ts"
        "clock_run ?b b'" "fired st' = fired ?st @ map (call_of ?st) (take k ts)"
        "\<forall>u\<in>set (take k ts). x u \<le> tc_now (tc_mod b')" "\<forall>u\<in>set (drop k ts). tc_now (tc_mod b1) < x u"
      by auto
    have run: "clock_run b b'" using spec(2) IH(4) by (auto simp: clock_run_def)
    have "call_of ?st u = call_of st u" for u by (simp add: call_of_def log_cb_def)
    then have "fired st' = fired st @ map (call_of st) (take (Suc k) (t # ts))"
      using IH(5) by (simp add: log_cb_def call_of_def)
    moreover have "x t \<le> tc_now (tc_mod b')" "tc_now (tc_mod b) \<le> tc_now (tc_mod b1)"
      using due(1) [OF True] IH(4) spec(2) by (auto simp: clock_run_def)
    ultimately show ?thesis
      using IH step run unfolding q by (intro exI [of _ st'] exI [of _ b'] exI [of _ "Suc k"]) fastforce
  qed
qed

lemma chk_queue_rearm:
  "hal_timer_chk_queue cb i st = do { st \<leftarrow> chk_queue_loop cb i st; b \<leftarrow> bsp st i;
     Some (st\<lparr>bsp := (bsp st)(i := Some (rearm st b))\<rparr>) }"
  by (simp add: hal_timer_chk_queue_def rearm_def)

text \<open>Acknowledging the two interrupt sources keeps the clock right.\<close>

definition irq_ack :: "samd21_hal_timer \<Rightarrow> samd21_hal_timer" where
  "irq_ack b =
     (let b = b\<lparr>irq_pending := False\<rparr>;
          (compare, hw) = tc_get_mc0 (tc_mod b);
          hw = (if compare then tc_clear_mc0 hw else hw);
          (ovf_int, hw) = tc_get_ovf hw;
          b = (if ovf_int then b\<lparr>tc_mod := tc_clear_ovf hw, tmr_cntr := tmr_cntr b + 65536\<rparr>
               else b\<lparr>tc_mod := hw\<rparr>)
      in b\<lparr>timer_isrs := timer_isrs b + 1\<rparr>)"

lemma irq_handler_ack:
  "bsp st i = Some b \<Longrightarrow> hal_timer_irq_handler cb i st =
     hal_timer_chk_queue cb i (st\<lparr>bsp := (bsp st)(i := Some (irq_ack b))\<rparr>)"
  by (simp add: hal_timer_irq_handler_def irq_ack_def Let_def case_prod_unfold)

lemma irq_ack_ok:
  assumes "timers_ok x i st b"
  shows "timers_ok x i (st\<lparr>bsp := (bsp st)(i := Some (irq_ack b))\<rparr>) (irq_ack b)"
    and "clock_run b (irq_ack b)" and "hal_timer_q (irq_ack b) = hal_timer_q b"
proof -
  have inv: "clock_inv b" using assms by (simp add: timers_ok_def)
  then have s0: "tc_pending (tc_mod b) + sum_list (tc_sched (tc_mod b)) < 131072"
    by (simp add: clock_inv_def)
  define h1 where "h1 = tc_pass (tc_mod b)"
  define h2 where "h2 = (if tc_mc0 h1 then tc_clear_mc0 h1 else h1)"
  define h3 where "h3 = tc_pass h2"
  have r1: "runs (tc_mod b) h1" unfolding h1_def by (rule pass_runs(1) [OF s0])
  have r2: "runs (tc_mod b) h2"
    using runs_trans [OF r1 set_runs(3) [OF runs_slack [OF r1 s0]]] r1 by (simp add: h2_def)
  have r3: "runs (tc_mod b) h3"
    using runs_trans [OF r2 pass_runs(1) [OF runs_slack [OF r2 s0]]] by (simp add: h3_def)
  have eq: "irq_ack b = (if tc_ovf h3 then b\<lparr>irq_pending := False, tc_mod := tc_clear_ovf h3,
        tmr_cntr := tmr_cntr b + 65536, timer_isrs := timer_isrs b + 1\<rparr>
      else b\<lparr>irq_pending := False, tc_mod := h3, timer_isrs := timer_isrs b + 1\<rparr>)"
    by (simp add: irq_ack_def Let_def tc_get_mc0_def tc_get_ovf_def h1_def h2_def h3_def)
  have en: "tc_inten_ovf (tc_clear_ovf h3) = tc_inten_ovf h3"
    by (simp add: tc_clear_ovf_def tc_pass_def tc_advance_def split: list.splits)
  show run: "clock_run b (irq_ack b)"
    using runs_inv [OF inv r3] clear_ovf_inv [OF runs_inv(1) [OF inv r3]]
    by (auto simp: eq clock_run_def clock_inv_def)
  show q: "hal_timer_q (irq_ack b) = hal_timer_q b" by (simp add: eq)
  have "tc_inten_ovf (tc_mod (irq_ack b)) = tc_inten_ovf (tc_mod b)"
    using r3 en by (simp add: eq runs_def)
  then show "timers_ok x i (st\<lparr>bsp := (bsp st)(i := Some (irq_ack b))\<rparr>) (irq_ack b)"
    using assms near_run [OF _ run] run q by (simp add: timers_ok_def clock_run_def)
qed

text \<open>
  C4: The timer interrupt handler calls exactly a leading part of the queue, in the order of the
  expiry ticks: every timer that is called has reached its expiry, every timer that was due
  when the handler started is called, the others stay queued, and the interrupt for the new
  head will come no later than its expiry. The handler returns, and the clock, the order of the
  queue and the link marks are intact. Callbacks here do not start or stop timers.
\<close>

theorem timer_irq_fires_due:
  assumes "timers_ok x i st b"
  shows "\<exists>st' b' k. hal_timer_irq_handler log_cb i st = Some st' \<and> timers_ok x i st' b' \<and> guarded x b' \<and>
    hal_timer_q b' = drop k (hal_timer_q b) \<and>
    fired st' = fired st @ map (call_of st) (take k (hal_timer_q b)) \<and>
    (\<forall>t\<in>set (take k (hal_timer_q b)). x t \<le> tc_now (tc_mod b')) \<and>
    (\<forall>t\<in>set (drop k (hal_timer_q b)). tc_now (tc_mod b) < x t)"
proof -
  note ack = irq_ack_ok [OF assms]
  let ?st = "st\<lparr>bsp := (bsp st)(i := Some (irq_ack b))\<rparr>"
  from chk_queue_loop_spec [OF ack(1)] obtain st' b' k where
    L: "chk_queue_loop log_cb i ?st = Some st'" "timers_ok x i st' b'"
      "hal_timer_q b' = drop k (hal_timer_q b)" "clock_run (irq_ack b) b'"
      "fired st' = fired st @ map (call_of ?st) (take k (hal_timer_q b))"
      "\<forall>t\<in>set (take k (hal_timer_q b)). x t \<le> tc_now (tc_mod b')"
      "\<forall>t\<in>set (drop k (hal_timer_q b)). tc_now (tc_mod (irq_ack b)) < x t"
    unfolding ack(3) by auto
  note re = rearm_ok [OF L(2)]
  have b: "bsp st i = Some b" "bsp st' i = Some b'" using assms L(2) by (simp_all add: timers_ok_def)
  have "hal_timer_irq_handler log_cb i st = Some (st'\<lparr>bsp := (bsp st')(i := Some (rearm st' b'))\<rparr>)"
    using irq_handler_ack [OF b(1)] L(1) b(2) by (simp add: chk_queue_rearm)
  moreover have "call_of ?st = call_of st" by (simp add: call_of_def fun_eq_iff)
  moreover have "tc_now (tc_mod b') \<le> tc_now (tc_mod (rearm st' b'))"
      "tc_now (tc_mod b) \<le> tc_now (tc_mod (irq_ack b))"
    using re(3) ack(2) by (simp_all add: clock_run_def)
  ultimately show ?thesis
    using L re by (intro exI [of _ "st'\<lparr>bsp := (bsp st')(i := Some (rearm st' b'))\<rparr>"]
        exI [of _ "rearm st' b'"] exI [of _ k]) (auto intro: order_trans le_less_trans)
qed

theorem timer_irq_fires_due_witness:
  "\<exists>st' b' k. hal_timer_irq_handler log_cb 0 demo_hal = Some st' \<and> timers_ok demo_x 0 st' b' \<and>
    guarded demo_x b' \<and> hal_timer_q b' = drop k (hal_timer_q demo_dev) \<and>
    fired st' = fired demo_hal @ map (call_of demo_hal) (take k (hal_timer_q demo_dev)) \<and>
    (\<forall>t\<in>set (take k (hal_timer_q demo_dev)). demo_x t \<le> tc_now (tc_mod b')) \<and>
    (\<forall>t\<in>set (drop k (hal_timer_q demo_dev)). tc_now (tc_mod demo_dev) < demo_x t)"
  by (rule timer_irq_fires_due [OF demo_ok(1)])

subsection \<open>Starting and stopping\<close>

lemma wakes_by_queue [simp]: "wakes_by x (b\<lparr>hal_timer_q := q\<rparr>) = wakes_by x b"
  by (simp add: wakes_by_def irq_active_def)

lemma near_queue [simp]: "near x (b\<lparr>hal_timer_q := q\<rparr>) = near x b"
  by (simp add: near_def)

lemma clock_inv_queue [simp]: "clock_inv (b\<lparr>hal_timer_q := q\<rparr>) = clock_inv b"
  by (simp add: clock_inv_def)

text \<open>
  C21: Starting a timer puts it behind all timers that expire no later and before all that expire
  later (across the wrap of the 32 bit clock), marks it as linked, leaves the others in place,
  and makes sure that the interrupt for the head of the queue comes no later than its expiry.
\<close>

theorem timer_start_ordered:
  assumes ok: "timers_ok x i st b" and "guarded x b" and "\<not> linked (tmrs st t)"
    and "cb_func (tmrs st t) \<noteq> 0" and dev: "bsp_timer (tmrs st t) = i" and near: "near n b"
  shows "\<exists>st' b'. hal_timer_start_at (Some t) (of_nat n) st = Some (0, st') \<and>
    timers_ok (x(t := n)) i st' b' \<and> guarded (x(t := n)) b' \<and>
    hal_timer_q b' = takeWhile (\<lambda>e. x e \<le> n) (hal_timer_q b) @ t # dropWhile (\<lambda>e. x e \<le> n) (hal_timer_q b)"
proof -
  let ?q = "hal_timer_q b" and ?y = "x(t := n)"
  let ?q' = "takeWhile (\<lambda>e. x e \<le> n) ?q @ t # dropWhile (\<lambda>e. x e \<le> n) ?q"
  let ?ts = "(tmrs st)(t := (tmrs st t)\<lparr>expiry := of_nat n, linked := True\<rparr>)"
  let ?b = "b\<lparr>hal_timer_q := ?q'\<rparr>"
  let ?st = "st\<lparr>bsp := (bsp st)(i := Some ?b), tmrs := ?ts\<rparr>"
  have b: "bsp st i = Some b" using ok by (simp add: timers_ok_def)
  have t: "t \<notin> set ?q" using ok assms(3) by (auto simp: timers_ok_def)
  then have y: "map ?y ?q = map x ?q" "takeWhile (\<lambda>e. ?y e \<le> ?y t) ?q = takeWhile (\<lambda>e. x e \<le> n) ?q"
      "dropWhile (\<lambda>e. ?y e \<le> ?y t) ?q = dropWhile (\<lambda>e. x e \<le> n) ?q"
    by (auto intro!: takeWhile_cong dropWhile_cong)
  have srt: "sorted (map ?y ?q)" using ok unfolding y(1) timers_ok_def by blast
  have "\<bar>int n - int (x e)\<bar> < 2 ^ 31" if "e \<in> set ?q" for e
    using ok that near by (auto simp: timers_ok_def near_def)
  then have ins: "q_insert (\<lambda>t. expiry (?ts t)) t ?q = ?q'"
    using insert_ordered [OF srt, of "\<lambda>t. expiry (?ts t)" t] t ok y by (auto simp: timers_ok_def)
  have ok': "timers_ok ?y i ?st ?b"
  proof -
    have "set ?q' = insert t (set ?q)" by (rule set_insert_parts)
    moreover have "distinct ?q'"
      using ok by (intro distinct_insert_parts t) (simp add: timers_ok_def)
    moreover have "sorted (map ?y ?q')" using sorted_insert [OF srt, of t] unfolding y(2,3) .
    ultimately show ?thesis
      using ok t near dev unfolding timers_ok_def
      by (simp del: map_append set_append distinct_append)
  qed
  show ?thesis
  proof (cases "t = hd ?q'")
    case True
    then have "hal_timer_start_at (Some t) (of_nat n) st =
        Some (0, ?st\<lparr>bsp := (bsp ?st)(i := Some (rearm ?st ?b))\<rparr>)"
      using b assms(3,4) dev ins
      by (cases ?q') (simp_all add: hal_timer_start_at_def Let_def rearm_def)
    with rearm_ok [OF ok'] show ?thesis by auto
  next
    case False
    then have "hal_timer_start_at (Some t) (of_nat n) st = Some (0, ?st)"
      using b assms(3,4) dev ins by (simp add: hal_timer_start_at_def Let_def)
    moreover have "hd ?q' = hd ?q \<and> ?q \<noteq> [] \<and> hd ?q \<noteq> t"
      using False t by (cases ?q) (auto split: if_splits)
    ultimately have "guarded ?y ?b" using assms(2) by (auto simp: guarded_def)
    with ok' \<open>hal_timer_start_at (Some t) (of_nat n) st = Some (0, ?st)\<close> show ?thesis
      by (intro exI [of _ ?st] exI [of _ ?b]) simp
  qed
qed

theorem timer_start_ordered_witness:
  "\<exists>st' b'. hal_timer_start_at (Some 2) (of_nat 0xFFFFFFF8) demo_hal = Some (0, st') \<and>
    timers_ok (demo_x(2 := 0xFFFFFFF8)) 0 st' b' \<and> guarded (demo_x(2 := 0xFFFFFFF8)) b' \<and>
    hal_timer_q b' = takeWhile (\<lambda>e. demo_x e \<le> 0xFFFFFFF8) (hal_timer_q demo_dev) @ 2 #
      dropWhile (\<lambda>e. demo_x e \<le> 0xFFFFFFF8) (hal_timer_q demo_dev)"
  by (rule timer_start_ordered [OF demo_ok])
     (simp_all add: demo_hal_def near_def demo_dev_def)

text \<open>
  Stopping a timer takes it out of the queue and nothing else, clears its mark, and leaves
  the interrupt for the remaining head on its way; stopping a timer that is not queued
  changes nothing.
\<close>

theorem timer_stop_removes:
  assumes ok: "timers_ok x i st b" and g: "guarded x b" and dev: "bsp_timer (tmrs st t) = i"
  shows "\<exists>st' b'. hal_timer_stop (Some t) st = Some (0, st') \<and> timers_ok x i st' b' \<and> guarded x b' \<and>
    hal_timer_q b' = remove1 t (hal_timer_q b) \<and> \<not> linked (tmrs st' t)"
proof (cases "linked (tmrs st t)")
  case False
  with ok dev have "t \<notin> set (hal_timer_q b)" by (auto simp: timers_ok_def)
  with False ok g show ?thesis by (auto simp: hal_timer_stop_def remove1_idem)
next
  case True
  let ?q = "hal_timer_q b" and ?b = "b\<lparr>hal_timer_q := remove1 t (hal_timer_q b)\<rparr>"
  let ?st = "st\<lparr>bsp := (bsp st)(i := Some ?b), tmrs := (tmrs st)(t := (tmrs st t)\<lparr>linked := False\<rparr>)\<rparr>"
  have t: "t \<in> set ?q" and d: "distinct ?q" and s: "sorted (map x ?q)" and b: "bsp st i = Some b"
    using ok True dev by (auto simp: timers_ok_def)
  have "sorted (map x (remove1 t ?q))" using s by (simp add: sorted_map_remove1)
  with ok d t have ok': "timers_ok x i ?st ?b" unfolding timers_ok_def by (auto simp: set_remove1_eq)
  show ?thesis
  proof (cases "t = hd ?q")
    case first: True
    have "\<forall>e\<in>set (remove1 t ?q). bsp_timer (tmrs ?st e) = i"
      using ok' by (auto simp: timers_ok_def)
    then have "hal_timer_stop (Some t) st = Some (0, ?st\<lparr>bsp := (bsp ?st)(i := Some (rearm ?st ?b))\<rparr>)"
      using True first t b dev
      by (auto simp: hal_timer_stop_def Let_def rearm_def split: list.splits)
    with rearm_ok [OF ok'] show ?thesis by (auto simp: timers_ok_def)
  next
    case False
    with True t b dev have "hal_timer_stop (Some t) st = Some (0, ?st)"
      by (simp add: hal_timer_stop_def Let_def)
    moreover have "hd (remove1 t ?q) = hd ?q" using False t by (cases ?q) auto
    moreover have "?q \<noteq> []" using t by auto
    ultimately show ?thesis using ok' g by (auto simp: guarded_def)
  qed
qed

theorem timer_stop_removes_witness:
  "\<exists>st' b'. hal_timer_stop (Some 1) demo_hal = Some (0, st') \<and> timers_ok demo_x 0 st' b' \<and>
    guarded demo_x b' \<and> hal_timer_q b' = remove1 1 (hal_timer_q demo_dev) \<and> \<not> linked (tmrs st' 1)"
  by (rule timer_stop_removes [OF demo_ok]) (simp add: demo_hal_def)

text \<open>
  C22: A reading of the clock is the number of ticks at some moment between the start and the end
  of the read, modulo \<open>2 ^ 32\<close>, also when the 16 bit counter overflows between the register
  accesses; the clock stays right afterwards.
\<close>

theorem timer_read_exact:
  assumes "clock_inv b" and "hal_timer_read_bsptimer b = (v, b')"
  shows "(\<exists>n. v = of_nat n \<and> tc_now (tc_mod b) \<le> n \<and> n \<le> tc_now (tc_mod b')) \<and> clock_inv b'"
  using read_bsptimer_spec [OF assms] by (simp add: clock_run_def)

theorem timer_read_exact_witness:
  "(\<exists>n. fst (hal_timer_read_bsptimer demo_dev) = of_nat n \<and> tc_now (tc_mod demo_dev) \<le> n \<and>
      n \<le> tc_now (tc_mod (snd (hal_timer_read_bsptimer demo_dev)))) \<and>
    clock_inv (snd (hal_timer_read_bsptimer demo_dev))"
  by (rule timer_read_exact) (use demo_ok in \<open>simp_all add: timers_ok_def\<close>)

end
