(* ===== verification/Hal_Timer_Config.thy ===== *)
theory Hal_Timer_Config
  imports Hal_Timer_Queue
begin

text \<open>
  Configuration of a timer device of \<open>hal_timer.c\<close>: which prescaler is chosen for a wanted
  frequency, and which frequency is recorded.
\<close>

text \<open>The power of two by which the hardware divides, by the value of the prescaler field.\<close>

definition hw_shift :: "u16 \<Rightarrow> nat" where
  "hw_shift r = [0, 1, 2, 3, 4, 6, 8, 10] ! unat r"

lemma small_of_nat:
  assumes "a \<le> 2048" "b \<le> 2048"
  shows "(of_nat a :: u32) \<le> of_nat b \<longleftrightarrow> a \<le> b" "(of_nat a :: u32) < of_nat b \<longleftrightarrow> a < b"
  using assms by (simp_all add: word_le_nat_alt word_less_nat_alt unat_of_nat take_bit_nat_eq_self)

lemma delta_less:
  assumes "n \<le> m" "m \<le> 1024" "k \<le> 1024"
  shows "(of_nat n - of_nat k :: u32) < of_nat m - of_nat n \<longleftrightarrow> k \<le> n \<and> n - k < m - n"
proof -
  have r: "(of_nat m - of_nat n :: u32) = of_nat (m - n)" using assms by (simp add: of_nat_diff)
  show ?thesis
  proof (cases "k \<le> n")
    case True
    then show ?thesis unfolding r using assms by (simp add: small_of_nat(2) flip: of_nat_diff)
  next
    case False
    then have "(of_nat n - of_nat k :: u32) = of_nat (4294967296 - (k - n))"
      using assms by (simp add: of_nat_diff)
    moreover have "unat (of_nat (4294967296 - (k - n)) :: u32) = 4294967296 - (k - n)"
      using False assms by (subst unat_of_nat) (simp add: take_bit_nat_eq_self)
    moreover have "unat (of_nat (m - n) :: u32) = m - n"
      using assms by (subst unat_of_nat) (simp add: take_bit_nat_eq_self)
    ultimately have "unat (of_nat n - of_nat k :: u32) = 4294967296 - (k - n)"
        "unat (of_nat (m - n) :: u32) = m - n" by metis+
    then show ?thesis unfolding r word_less_nat_alt using False assms by linarith
  qed
qed

lemma find_step:
  "prescaler < 11 \<Longrightarrow> n \<le> 1024 \<Longrightarrow> 1 \<le> prescaler \<Longrightarrow> find_prescaler (of_nat n) prescaler r =
    (if n \<le> 2 ^ prescaler
     then (if 2 ^ (prescaler - 1) \<le> n \<and> n - 2 ^ (prescaler - 1) < 2 ^ prescaler - n then prescaler - 1 else prescaler, r)
     else find_prescaler (of_nat n) (if prescaler < 4 then prescaler + 1 else prescaler + 2) (r + 1))"
proof -
  assume p: "prescaler < 11" "n \<le> 1024" "1 \<le> prescaler"
  have pw: "push_bit k (1 :: u32) = of_nat (2 ^ k)" for k by (simp add: push_bit_eq_mult)
  have le: "(2::nat) ^ k \<le> 1024" if "k \<le> 10" for k
    using power_increasing [OF that, of "2::nat"] by simp
  have 1: "of_nat n \<le> push_bit prescaler (1 :: u32) \<longleftrightarrow> n \<le> 2 ^ prescaler"
    unfolding pw by (rule small_of_nat(1)) (use p le [of prescaler] in auto)
  have 2: "of_nat n - push_bit (prescaler - 1) 1 < push_bit prescaler (1 :: u32) - of_nat n \<longleftrightarrow>
      2 ^ (prescaler - 1) \<le> n \<and> n - 2 ^ (prescaler - 1) < 2 ^ prescaler - n" if "n \<le> 2 ^ prescaler"
    unfolding pw by (rule delta_less) (use p that le [of prescaler] le [of "prescaler - 1"] in auto)
  show ?thesis
    using p 1 2 by (subst find_prescaler.simps) (simp add: Let_def)
qed

lemma choose_prescaler_cases:
  assumes "1 \<le> n" and "n \<le> 1024"
  shows "choose_prescaler (of_nat n) =
    (if n = 1 then (0, 0) else if n \<le> 2 then (1, 1)
     else if n \<le> 4 then (2, 2)
     else if n \<le> 8 then (if n < 6 then 2 else 3, 3)
     else if n \<le> 16 then (if n < 12 then 3 else 4, 4)
     else if n \<le> 64 then (if 32 \<le> n \<and> n < 48 then 5 else 6, 5)
     else if n \<le> 256 then (if 128 \<le> n \<and> n < 192 then 7 else 8, 6)
     else (if 512 \<le> n \<and> n < 768 then 9 else 10, 7))"
proof -
  have "(of_nat n :: u32) = 1 \<longleftrightarrow> n = 1"
    using small_of_nat(1) [of n 1] assms by auto
  moreover have "find_prescaler (of_nat n) 1 1 = (if n \<le> 2 then (1, 1)
     else if n \<le> 4 then (2, 2)
     else if n \<le> 8 then (if n < 6 then 2 else 3, 3)
     else if n \<le> 16 then (if n < 12 then 3 else 4, 4)
     else if n \<le> 64 then (if 32 \<le> n \<and> n < 48 then 5 else 6, 5)
     else if n \<le> 256 then (if 128 \<le> n \<and> n < 192 then 7 else 8, 6)
     else (if 512 \<le> n \<and> n < 768 then 9 else 10, 7))" if "n \<noteq> 1"
  proof -
    consider "n \<le> 2" | "2 < n" "n \<le> 4" | "4 < n" "n \<le> 8" | "8 < n" "n \<le> 16" | "16 < n" "n \<le> 64"
      | "64 < n" "n \<le> 256" | "256 < n" by linarith
    then show ?thesis using assms that by cases (simp_all add: find_step, arith+)
  qed
  ultimately show ?thesis using assms by (simp add: choose_prescaler_def)
qed

text \<open>
  For every divisor up to 1024 the search ends with a prescaler value of the hardware, and it
  is the smallest one that divides by at least the wanted divisor. The exponent kept for the
  recorded frequency is the one of the hardware or one less.
\<close>

theorem prescaler_is_smallest:
  assumes "1 \<le> n" and "n \<le> 1024" and "choose_prescaler (of_nat n) = (p, r)"
  shows "r \<le> 7 \<and> n \<le> 2 ^ hw_shift r \<and> (r \<noteq> 0 \<longrightarrow> 2 ^ hw_shift (r - 1) < n) \<and>
    (p = hw_shift r \<or> p + 1 = hw_shift r)"
  using assms(3) unfolding choose_prescaler_cases [OF assms(1,2)]
  using assms(1,2) by (auto simp: hw_shift_def split: if_splits)

theorem prescaler_is_smallest_witness:
  "(3 :: u16) \<le> 7 \<and> (5 :: nat) \<le> 2 ^ hw_shift 3 \<and> 2 ^ hw_shift (3 - 1) < (5 :: nat) \<and>
    (2 = hw_shift 3 \<or> 2 + 1 = hw_shift 3)"
  using prescaler_is_smallest [of 5 2 3] choose_prescaler_cases [of 5] by simp

text \<open>
  When the wanted divisor is nearer to half the prescaler than to the prescaler (here: a
  divisor of 5), \<open>hal_timer_config\<close> succeeds, but the frequency it records is the source
  divided by 4 while the hardware is set to divide by 8.
\<close>

theorem config_records_other_frequency:
  assumes "SAMD21_HAL_TIMER_RESOLVE num st = Some (Some b)" and "\<not> tmr_enabled b" and "tmr_initialized b"
    and "clock_frequency (tmr_srcclk b) = (0, maxf)" and "freq \<noteq> 0" and "freq \<le> maxf"
    and "maxf div freq = 5"
  shows "\<exists>b'. hal_timer_config True num freq st = Some (0, st\<lparr>bsp := (bsp st)(nat num := Some b')\<rparr>) \<and>
    tmr_freq b' = maxf div 4 \<and> 2 ^ hw_shift (tc_prescaler (tc_mod b')) = (8 :: nat)"
proof -
  have "choose_prescaler 5 = (2, 3)" using choose_prescaler_cases [of 5] by simp
  then show ?thesis using assms
    by (auto simp: hal_timer_config_def Let_def hw_shift_def push_bit_eq_mult)
qed

text \<open>
  \<open>hal_timer_config\<close> reports success for a frequency that it cannot produce: for one above
  that of the source, or one that needs a divisor above 1024, it returns 0 and leaves the timer
  unconfigured and disabled.
\<close>

theorem config_unreachable_frequency:
  assumes "SAMD21_HAL_TIMER_RESOLVE num st = Some (Some b)" and "\<not> tmr_enabled b" and "tmr_initialized b"
    and "clock_frequency (tmr_srcclk b) = (0, maxf)" and "freq \<noteq> 0"
    and "freq > maxf \<or> maxf div freq > 1024"
  shows "hal_timer_config ok num freq st = Some (0, st)"
  using assms by (auto simp: hal_timer_config_def Let_def)

definition demo_idle :: timer_hal where
  "demo_idle = demo_hal\<lparr>bsp := (\<lambda>_. None)(0 := Some (demo_dev\<lparr>tmr_enabled := False\<rparr>))\<rparr>"

theorem config_records_other_frequency_witness:
  "\<exists>b'. hal_timer_config True 0 9600000 demo_idle =
      Some (0, demo_idle\<lparr>bsp := (bsp demo_idle)(nat 0 := Some b')\<rparr>) \<and>
    tmr_freq b' = 48000000 div 4 \<and> 2 ^ hw_shift (tc_prescaler (tc_mod b')) = (8 :: nat)"
  by (rule config_records_other_frequency [where b = "demo_dev\<lparr>tmr_enabled := False\<rparr>"])
     (simp_all add: SAMD21_HAL_TIMER_RESOLVE_def SAMD21_HAL_TIMER_MAX_def demo_idle_def demo_dev_def
       clock_frequency_def GCLK_SOURCE_DFLL48M_def)

theorem config_unreachable_frequency_witness:
  "hal_timer_config True 0 1000 demo_idle = Some (0, demo_idle)"
  by (rule config_unreachable_frequency [where b = "demo_dev\<lparr>tmr_enabled := False\<rparr>" and maxf = 48000000])
     (simp_all add: SAMD21_HAL_TIMER_RESOLVE_def SAMD21_HAL_TIMER_MAX_def demo_idle_def demo_dev_def
       clock_frequency_def GCLK_SOURCE_DFLL48M_def)

end
