(* ===== verification/Nm_Spi.thy ===== *)
theory Nm_Spi
  imports Prelude
begin

text \<open>
  The SPI transport to the WINC1500 Wi-Fi chip: \<open>nm_spi_rw\<close> and \<open>nm_bus_ioctl\<close> of
  \<open>libs/winc1500/src/winc1500_spi.c\<close>, the command protocol of \<open>driver/nmspi.c\<close> and the bus layer
  of \<open>driver/nmbus.c\<close>. The chip and the SPI hardware are not part of the sources: a \<open>spi_dev\<close>
  gives for every byte sent the result code of \<open>hal_spi_txrx\<close>, the byte received and the next
  state of the chip. A function that reads or writes outside a buffer is \<open>None\<close>.
\<close>

subsection \<open>Codes\<close>

definition M2M_SUCCESS :: int where "M2M_SUCCESS = 0"
definition M2M_ERR_SEND :: int where "M2M_ERR_SEND = -1"
definition M2M_ERR_RCV :: int where "M2M_ERR_RCV = -2"
definition M2M_ERR_MEM_ALLOC :: int where "M2M_ERR_MEM_ALLOC = -3"
definition M2M_ERR_BUS_FAIL :: int where "M2M_ERR_BUS_FAIL = -6"
definition M2M_ERR_FAIL :: int where "M2M_ERR_FAIL = -12"

definition CMD_DMA_WRITE :: u8 where "CMD_DMA_WRITE = 0xc1"
definition CMD_DMA_READ :: u8 where "CMD_DMA_READ = 0xc2"
definition CMD_INTERNAL_WRITE :: u8 where "CMD_INTERNAL_WRITE = 0xc3"
definition CMD_INTERNAL_READ :: u8 where "CMD_INTERNAL_READ = 0xc4"
definition CMD_TERMINATE :: u8 where "CMD_TERMINATE = 0xc5"
definition CMD_REPEAT :: u8 where "CMD_REPEAT = 0xc6"
definition CMD_DMA_EXT_WRITE :: u8 where "CMD_DMA_EXT_WRITE = 0xc7"
definition CMD_DMA_EXT_READ :: u8 where "CMD_DMA_EXT_READ = 0xc8"
definition CMD_SINGLE_WRITE :: u8 where "CMD_SINGLE_WRITE = 0xc9"
definition CMD_SINGLE_READ :: u8 where "CMD_SINGLE_READ = 0xca"
definition CMD_RESET :: u8 where "CMD_RESET = 0xcf"

definition N_OK :: int where "N_OK = 1"
definition N_FAIL :: int where "N_FAIL = 0"

lemmas cmd_defs = CMD_DMA_WRITE_def CMD_DMA_READ_def CMD_INTERNAL_WRITE_def CMD_INTERNAL_READ_def
  CMD_TERMINATE_def CMD_REPEAT_def CMD_DMA_EXT_WRITE_def CMD_DMA_EXT_READ_def CMD_SINGLE_WRITE_def
  CMD_SINGLE_READ_def CMD_RESET_def

lemmas code_defs = M2M_SUCCESS_def M2M_ERR_BUS_FAIL_def N_OK_def N_FAIL_def

definition DATA_PKT_SZ :: nat where "DATA_PKT_SZ = 8192"

subsection \<open>Byte exchange\<close>

record 'w spi_dev =
  txrx :: "u8 \<Rightarrow> 'w \<Rightarrow> int \<times> u8 \<times> 'w"
  ssn :: "bool \<Rightarrow> 'w \<Rightarrow> 'w"

text \<open>The state: the chip and the flag \<open>gu8Crc_off\<close>.\<close>

record 'w nmspi =
  chip :: 'w
  gu8Crc_off :: bool

fun rw_loop :: "'w spi_dev \<Rightarrow> u8 list \<Rightarrow> 'w \<Rightarrow> int \<times> u8 list \<times> 'w" where
  "rw_loop dev [] w = (M2M_SUCCESS, [], w)"
| "rw_loop dev (tx # txs) w =
     (let (rc, rx, w) = txrx dev tx w
      in if rc \<noteq> 0 then (M2M_ERR_BUS_FAIL, [], w)
         else let (rc, rxs, w) = rw_loop dev txs w in (rc, rx # rxs, w))"

text \<open>Without an output buffer the byte sent is 0. The bytes received are returned.\<close>

definition nm_spi_rw :: "'w spi_dev \<Rightarrow> u8 list option \<Rightarrow> nat \<Rightarrow> 'w \<Rightarrow> int \<times> u8 list \<times> 'w" where
  "nm_spi_rw dev mosi sz w =
     (let w = ssn dev False w;
          (rc, rxs, w) = rw_loop dev (case mosi of Some m \<Rightarrow> take sz m | None \<Rightarrow> replicate sz 0) w
      in (rc, rxs, ssn dev True w))"

definition nmi_spi_read :: "'w spi_dev \<Rightarrow> nat \<Rightarrow> 'w nmspi \<Rightarrow> int \<times> u8 list \<times> 'w nmspi" where
  "nmi_spi_read dev sz s =
     (let (rc, rxs, w) = nm_spi_rw dev None sz (chip s) in (rc, rxs, s\<lparr>chip := w\<rparr>))"

definition nmi_spi_write :: "'w spi_dev \<Rightarrow> u8 list \<Rightarrow> 'w nmspi \<Rightarrow> int \<times> 'w nmspi" where
  "nmi_spi_write dev b s =
     (let (rc, _, w) = nm_spi_rw dev (Some b) (length b) (chip s) in (rc, s\<lparr>chip := w\<rparr>))"

subsection \<open>The 7 bit CRC\<close>

definition crc7_syndrome_table :: "u8 list" where
  "crc7_syndrome_table =
    [0x00, 0x09, 0x12, 0x1b, 0x24, 0x2d, 0x36, 0x3f, 0x48, 0x41, 0x5a, 0x53, 0x6c, 0x65, 0x7e, 0x77,
     0x19, 0x10, 0x0b, 0x02, 0x3d, 0x34, 0x2f, 0x26, 0x51, 0x58, 0x43, 0x4a, 0x75, 0x7c, 0x67, 0x6e,
     0x32, 0x3b, 0x20, 0x29, 0x16, 0x1f, 0x04, 0x0d, 0x7a, 0x73, 0x68, 0x61, 0x5e, 0x57, 0x4c, 0x45,
     0x2b, 0x22, 0x39, 0x30, 0x0f, 0x06, 0x1d, 0x14, 0x63, 0x6a, 0x71, 0x78, 0x47, 0x4e, 0x55, 0x5c,
     0x64, 0x6d, 0x76, 0x7f, 0x40, 0x49, 0x52, 0x5b, 0x2c, 0x25, 0x3e, 0x37, 0x08, 0x01, 0x1a, 0x13,
     0x7d, 0x74, 0x6f, 0x66, 0x59, 0x50, 0x4b, 0x42, 0x35, 0x3c, 0x27, 0x2e, 0x11, 0x18, 0x03, 0x0a,
     0x56, 0x5f, 0x44, 0x4d, 0x72, 0x7b, 0x60, 0x69, 0x1e, 0x17, 0x0c, 0x05, 0x3a, 0x33, 0x28, 0x21,
     0x4f, 0x46, 0x5d, 0x54, 0x6b, 0x62, 0x79, 0x70, 0x07, 0x0e, 0x15, 0x1c, 0x23, 0x2a, 0x31, 0x38,
     0x41, 0x48, 0x53, 0x5a, 0x65, 0x6c, 0x77, 0x7e, 0x09, 0x00, 0x1b, 0x12, 0x2d, 0x24, 0x3f, 0x36,
     0x58, 0x51, 0x4a, 0x43, 0x7c, 0x75, 0x6e, 0x67, 0x10, 0x19, 0x02, 0x0b, 0x34, 0x3d, 0x26, 0x2f,
     0x73, 0x7a, 0x61, 0x68, 0x57, 0x5e, 0x45, 0x4c, 0x3b, 0x32, 0x29, 0x20, 0x1f, 0x16, 0x0d, 0x04,
     0x6a, 0x63, 0x78, 0x71, 0x4e, 0x47, 0x5c, 0x55, 0x22, 0x2b, 0x30, 0x39, 0x06, 0x0f, 0x14, 0x1d,
     0x25, 0x2c, 0x37, 0x3e, 0x01, 0x08, 0x13, 0x1a, 0x6d, 0x64, 0x7f, 0x76, 0x49, 0x40, 0x5b, 0x52,
     0x3c, 0x35, 0x2e, 0x27, 0x18, 0x11, 0x0a, 0x03, 0x74, 0x7d, 0x66, 0x6f, 0x50, 0x59, 0x42, 0x4b,
     0x17, 0x1e, 0x05, 0x0c, 0x33, 0x3a, 0x21, 0x28, 0x5f, 0x56, 0x4d, 0x44, 0x7b, 0x72, 0x69, 0x60,
     0x0e, 0x07, 0x1c, 0x15, 0x2a, 0x23, 0x38, 0x31, 0x46, 0x4f, 0x54, 0x5d, 0x62, 0x6b, 0x70, 0x79]"

text \<open>The index is computed as an \<open>int\<close>; \<open>None\<close> for an index outside the table.\<close>

definition crc7_byte :: "u8 \<Rightarrow> u8 \<Rightarrow> u8 option" where
  "crc7_byte crc data = mem_read crc7_syndrome_table (unat (push_bit 1 (ucast crc :: u32) XOR ucast data))"

fun crc7 :: "u8 \<Rightarrow> u8 list \<Rightarrow> u8 option" where
  "crc7 crc [] = Some crc"
| "crc7 crc (d # ds) = do { c \<leftarrow> crc7_byte crc d; crc7 c ds }"

subsection \<open>Commands and their responses\<close>

text \<open>The bytes \<open>bc[0]\<close> to \<open>bc[len-2]\<close>; \<open>None\<close> for an unknown command.\<close>

definition cmd_bytes :: "u8 \<Rightarrow> u32 \<Rightarrow> u32 \<Rightarrow> u32 \<Rightarrow> bool \<Rightarrow> u8 list option" where
  "cmd_bytes cmd adr u32data sz clockless =
     (let b = (\<lambda>w n. ucast (drop_bit n w) :: u8);
          a1 = (if clockless then b adr 8 OR push_bit 7 1 else b adr 8)
      in if cmd = CMD_SINGLE_READ then Some [cmd, b adr 16, b adr 8, b adr 0]
         else if cmd = CMD_INTERNAL_READ then Some [cmd, a1, b adr 0, 0]
         else if cmd = CMD_TERMINATE \<or> cmd = CMD_REPEAT then Some [cmd, 0, 0, 0]
         else if cmd = CMD_RESET then Some [cmd, 0xff, 0xff, 0xff]
         else if cmd = CMD_DMA_WRITE \<or> cmd = CMD_DMA_READ
           then Some [cmd, b adr 16, b adr 8, b adr 0, b sz 8, b sz 0]
         else if cmd = CMD_DMA_EXT_WRITE \<or> cmd = CMD_DMA_EXT_READ
           then Some [cmd, b adr 16, b adr 8, b adr 0, b sz 16, b sz 8, b sz 0]
         else if cmd = CMD_INTERNAL_WRITE
           then Some [cmd, a1, b adr 0, b u32data 24, b u32data 16, b u32data 8, b u32data 0]
         else if cmd = CMD_SINGLE_WRITE
           then Some [cmd, b adr 16, b adr 8, b adr 0, b u32data 24, b u32data 16, b u32data 8, b u32data 0]
         else None)"

definition spi_cmd :: "'w spi_dev \<Rightarrow> u8 \<Rightarrow> u32 \<Rightarrow> u32 \<Rightarrow> u32 \<Rightarrow> bool \<Rightarrow> 'w nmspi \<Rightarrow> (int \<times> 'w nmspi) option" where
  "spi_cmd dev cmd adr u32data sz clockless s =
     (case cmd_bytes cmd adr u32data sz clockless of
        None \<Rightarrow> Some (N_FAIL, s)
      | Some bc \<Rightarrow> do {
          bc \<leftarrow> (if gu8Crc_off s then Some bc
                 else do { c \<leftarrow> crc7 0x7f bc; Some (bc @ [push_bit 1 c]) });
          let (rc, s) = nmi_spi_write dev bc s;
          Some (if rc \<noteq> M2M_SUCCESS then N_FAIL else N_OK, s) })"

text \<open>The two waiting loops: read until the byte is the expected one, or \<open>n\<close> retries are used up.\<close>

fun rsp_loop :: "'w spi_dev \<Rightarrow> u8 \<Rightarrow> nat \<Rightarrow> 'w nmspi \<Rightarrow> int \<times> 'w nmspi" where
  "rsp_loop dev want n s =
     (let (rc, rsp, s) = nmi_spi_read dev 1 s
      in if rc \<noteq> M2M_SUCCESS then (N_FAIL, s)
         else if hd rsp = want then (N_OK, s)
         else (case n of 0 \<Rightarrow> (N_OK, s) | Suc m \<Rightarrow> rsp_loop dev want m s))"

definition spi_cmd_rsp :: "'w spi_dev \<Rightarrow> u8 \<Rightarrow> 'w nmspi \<Rightarrow> int \<times> 'w nmspi" where
  "spi_cmd_rsp dev cmd s =
     (let (ok, s) =
        (if cmd = CMD_RESET \<or> cmd = CMD_TERMINATE \<or> cmd = CMD_REPEAT
         then let (rc, _, s) = nmi_spi_read dev 1 s in (rc = M2M_SUCCESS, s)
         else (True, s))
      in if \<not> ok then (N_FAIL, s)
         else
           let (result, s) = rsp_loop dev cmd 10 s
           in if result \<noteq> N_OK then (result, s) else rsp_loop dev 0x00 10 s)"

declare rsp_loop.simps [simp del]

subsection \<open>Data packets\<close>

text \<open>Waiting for the data header: the value of \<open>retry\<close> after the loop, \<open>None\<close> for a bus error.\<close>

fun hdr_loop :: "'w spi_dev \<Rightarrow> nat \<Rightarrow> 'w nmspi \<Rightarrow> int option \<times> 'w nmspi" where
  "hdr_loop dev retry s =
     (let (rc, rsp, s) = nmi_spi_read dev 1 s
      in if rc \<noteq> M2M_SUCCESS then (None, s)
         else if drop_bit 4 (hd rsp) AND 0xf = 0xf then (Some (int retry), s)
         else (case retry of 0 \<Rightarrow> (Some (-1), s) | Suc m \<Rightarrow> hdr_loop dev m s))"

declare hdr_loop.simps [simp del]

text \<open>One packet: header, \<open>nbytes\<close> bytes, and the CRC when it is on (it is not checked). The bytes
  that arrived are returned also with an error.\<close>

definition data_read_pkt :: "'w spi_dev \<Rightarrow> nat \<Rightarrow> bool \<Rightarrow> 'w nmspi \<Rightarrow> int \<times> u8 list \<times> 'w nmspi" where
  "data_read_pkt dev nbytes clockless s =
     (let (h, s) = hdr_loop dev 10 s
      in case h of
           None \<Rightarrow> (N_FAIL, [], s)
         | Some retry \<Rightarrow>
             if retry \<le> 0 then (N_FAIL, [], s)
             else
               let (rc, bs, s) = nmi_spi_read dev nbytes s
               in if rc \<noteq> M2M_SUCCESS then (N_FAIL, bs, s)
                  else if \<not> clockless \<and> \<not> gu8Crc_off s then
                    let (rc, _, s) = nmi_spi_read dev 2 s
                    in (if rc \<noteq> M2M_SUCCESS then N_FAIL else N_OK, bs, s)
                  else (N_OK, bs, s))"

text \<open>The index into the caller's buffer is a \<open>sint16\<close>.\<close>

definition idx16 :: "nat \<Rightarrow> int" where
  "idx16 ix = sint (of_nat ix :: u16)"

definition buf_store :: "u8 list \<Rightarrow> int \<Rightarrow> u8 list \<Rightarrow> u8 list option" where
  "buf_store b i ds =
     (if 0 \<le> i \<and> nat i + length ds \<le> length b
      then Some (take (nat i) b @ ds @ drop (nat i + length ds) b) else None)"

function data_read_loop ::
    "'w spi_dev \<Rightarrow> u8 list \<Rightarrow> nat \<Rightarrow> nat \<Rightarrow> bool \<Rightarrow> 'w nmspi \<Rightarrow> (int \<times> u8 list \<times> 'w nmspi) option" where
  "data_read_loop dev b ix sz clockless s =
     (let nbytes = (if sz \<le> DATA_PKT_SZ then sz else DATA_PKT_SZ);
          (result, bs, s) = data_read_pkt dev nbytes clockless s
      in case buf_store b (idx16 ix) bs of
           None \<Rightarrow> None
         | Some b \<Rightarrow>
             if result = N_FAIL then Some (result, b, s)
             else if sz \<le> DATA_PKT_SZ then Some (result, b, s)
             else data_read_loop dev b (ix + nbytes) (sz - nbytes) clockless s)"
  by pat_completeness auto
termination by (relation "measure (\<lambda>(dev, b, ix, sz, c, s). sz)") (auto simp: DATA_PKT_SZ_def)

declare data_read_loop.simps [simp del]

definition spi_data_read ::
    "'w spi_dev \<Rightarrow> u8 list \<Rightarrow> u16 \<Rightarrow> bool \<Rightarrow> 'w nmspi \<Rightarrow> (int \<times> u8 list \<times> 'w nmspi) option" where
  "spi_data_read dev b sz clockless s = data_read_loop dev b 0 (unat sz) clockless s"

text \<open>One packet of a block write: command byte with the position of the packet, data, and a CRC
  of zeros when the CRC is on.\<close>

definition data_write_pkt :: "'w spi_dev \<Rightarrow> u8 \<Rightarrow> u8 list \<Rightarrow> 'w nmspi \<Rightarrow> int \<times> 'w nmspi" where
  "data_write_pkt dev order bs s =
     (let (rc, s) = nmi_spi_write dev [0xf0 OR order] s
      in if rc \<noteq> M2M_SUCCESS then (N_FAIL, s)
         else
           let (rc, s) = nmi_spi_write dev bs s
           in if rc \<noteq> M2M_SUCCESS then (N_FAIL, s)
              else if \<not> gu8Crc_off s then
                let (rc, s) = nmi_spi_write dev [0, 0] s
                in (if rc \<noteq> M2M_SUCCESS then N_FAIL else N_OK, s)
              else (N_OK, s))"

function data_write_loop :: "'w spi_dev \<Rightarrow> u8 list \<Rightarrow> nat \<Rightarrow> nat \<Rightarrow> 'w nmspi \<Rightarrow> (int \<times> 'w nmspi) option" where
  "data_write_loop dev b ix sz s =
     (let nbytes = (if sz \<le> DATA_PKT_SZ then sz else DATA_PKT_SZ);
          order = (if ix = 0 then if sz \<le> DATA_PKT_SZ then 0x3 else 0x1
                   else if sz \<le> DATA_PKT_SZ then 0x3 else 0x2)
      in if idx16 ix < 0 then None
         else
           case mem_slice b (nat (idx16 ix)) nbytes of
             None \<Rightarrow> None
           | Some bs \<Rightarrow>
               (case data_write_pkt dev order bs s of
                  (result, s) \<Rightarrow>
                    if result = N_FAIL then Some (result, s)
                    else if sz \<le> DATA_PKT_SZ then Some (result, s)
                    else data_write_loop dev b (ix + nbytes) (sz - nbytes) s))"
  by pat_completeness auto
termination by (relation "measure (\<lambda>(dev, b, ix, sz, s). sz)") (auto simp: DATA_PKT_SZ_def)

declare data_write_loop.simps [simp del]

definition spi_data_write :: "'w spi_dev \<Rightarrow> u8 list \<Rightarrow> u16 \<Rightarrow> 'w nmspi \<Rightarrow> (int \<times> 'w nmspi) option" where
  "spi_data_write dev b sz s = data_write_loop dev b 0 (unat sz) s"

subsection \<open>Registers and blocks\<close>

text \<open>The command and its response; when the response fails, the chip gets a reset command.\<close>

definition cmd_phase :: "'w spi_dev \<Rightarrow> u8 \<Rightarrow> u32 \<Rightarrow> u32 \<Rightarrow> u32 \<Rightarrow> bool \<Rightarrow> 'w nmspi \<Rightarrow> (bool \<times> 'w nmspi) option" where
  "cmd_phase dev cmd adr u32data sz clockless s = do {
     (result, s) \<leftarrow> spi_cmd dev cmd adr u32data sz clockless s;
     (if result \<noteq> N_OK then Some (False, s)
      else
        let (result, s) = spi_cmd_rsp dev cmd s
        in if result \<noteq> N_OK then do { (_, s) \<leftarrow> spi_cmd dev CMD_RESET 0 0 0 False s; Some (False, s) }
           else Some (True, s)) }"

definition spi_write_reg :: "'w spi_dev \<Rightarrow> u32 \<Rightarrow> u32 \<Rightarrow> 'w nmspi \<Rightarrow> (int \<times> 'w nmspi) option" where
  "spi_write_reg dev addr u32data s = do {
     let (cmd, clockless) = (if addr \<le> 0x30 then (CMD_INTERNAL_WRITE, True) else (CMD_SINGLE_WRITE, False));
     (ok, s) \<leftarrow> cmd_phase dev cmd addr u32data 4 clockless s;
     Some (if ok then N_OK else N_FAIL, s) }"

text \<open>The result of the data phase is not returned.\<close>

definition nm_spi_write :: "'w spi_dev \<Rightarrow> u32 \<Rightarrow> u8 list \<Rightarrow> u16 \<Rightarrow> 'w nmspi \<Rightarrow> (int \<times> 'w nmspi) option" where
  "nm_spi_write dev addr buf sz s = do {
     (ok, s) \<leftarrow> cmd_phase dev CMD_DMA_EXT_WRITE addr 0 (ucast sz) False s;
     (if \<not> ok then Some (N_FAIL, s)
      else do {
        (result, s) \<leftarrow> spi_data_write dev buf sz s;
        (_, s) \<leftarrow> (if result \<noteq> N_OK then spi_cmd dev CMD_RESET 0 0 0 False s else Some (N_OK, s));
        Some (N_OK, s) }) }"

text \<open>\<open>None\<close> for the value: the variable of the caller is not written.\<close>

definition spi_read_reg :: "'w spi_dev \<Rightarrow> u32 \<Rightarrow> 'w nmspi \<Rightarrow> (int \<times> u32 option \<times> 'w nmspi) option" where
  "spi_read_reg dev addr s = do {
     let (cmd, clockless) = (if addr \<le> 0xff then (CMD_INTERNAL_READ, True) else (CMD_SINGLE_READ, False));
     (ok, s) \<leftarrow> cmd_phase dev cmd addr 0 4 clockless s;
     (if \<not> ok then Some (N_FAIL, None, s)
      else do {
        (result, tmp, s) \<leftarrow> spi_data_read dev [0, 0, 0, 0] 4 clockless s;
        (if result \<noteq> N_OK
         then do { (_, s) \<leftarrow> spi_cmd dev CMD_RESET 0 0 0 False s; Some (N_FAIL, None, s) }
         else Some (N_OK, Some (of_le32 tmp), s)) }) }"

definition nm_spi_read ::
    "'w spi_dev \<Rightarrow> u32 \<Rightarrow> u8 list \<Rightarrow> u16 \<Rightarrow> 'w nmspi \<Rightarrow> (int \<times> u8 list \<times> 'w nmspi) option" where
  "nm_spi_read dev addr buf sz s = do {
     (ok, s) \<leftarrow> cmd_phase dev CMD_DMA_EXT_READ addr 0 (ucast sz) False s;
     (if \<not> ok then Some (N_FAIL, buf, s)
      else do {
        (result, buf, s) \<leftarrow> spi_data_read dev buf sz False s;
        (if result \<noteq> N_OK
         then do { (_, s) \<leftarrow> spi_cmd dev CMD_RESET 0 0 0 False s; Some (N_FAIL, buf, s) }
         else Some (N_OK, buf, s)) }) }"

text \<open>\<open>junk\<close>: the value of the uninitialised variable that is returned when the read fails.\<close>

definition nm_spi_read_reg :: "'w spi_dev \<Rightarrow> u32 \<Rightarrow> u32 \<Rightarrow> 'w nmspi \<Rightarrow> (u32 \<times> 'w nmspi) option" where
  "nm_spi_read_reg dev junk addr s = do {
     (_, v, s) \<leftarrow> spi_read_reg dev addr s;
     Some (case v of Some x \<Rightarrow> x | None \<Rightarrow> junk, s) }"

definition to_m2m :: "int \<Rightarrow> int" where
  "to_m2m r = (if r = N_OK then M2M_SUCCESS else M2M_ERR_BUS_FAIL)"

definition nm_spi_read_reg_with_ret :: "'w spi_dev \<Rightarrow> u32 \<Rightarrow> 'w nmspi \<Rightarrow> (int \<times> u32 option \<times> 'w nmspi) option" where
  "nm_spi_read_reg_with_ret dev addr s = do { (r, v, s) \<leftarrow> spi_read_reg dev addr s; Some (to_m2m r, v, s) }"

definition nm_spi_write_reg :: "'w spi_dev \<Rightarrow> u32 \<Rightarrow> u32 \<Rightarrow> 'w nmspi \<Rightarrow> (int \<times> 'w nmspi) option" where
  "nm_spi_write_reg dev addr v s = do { (r, s) \<leftarrow> spi_write_reg dev addr v s; Some (to_m2m r, s) }"

definition nm_spi_read_block ::
    "'w spi_dev \<Rightarrow> u32 \<Rightarrow> u8 list \<Rightarrow> u16 \<Rightarrow> 'w nmspi \<Rightarrow> (int \<times> u8 list \<times> 'w nmspi) option" where
  "nm_spi_read_block dev addr buf sz s = do {
     (r, buf, s) \<leftarrow> nm_spi_read dev addr buf sz s; Some (to_m2m r, buf, s) }"

definition nm_spi_write_block :: "'w spi_dev \<Rightarrow> u32 \<Rightarrow> u8 list \<Rightarrow> u16 \<Rightarrow> 'w nmspi \<Rightarrow> (int \<times> 'w nmspi) option" where
  "nm_spi_write_block dev addr buf sz s = do {
     (r, s) \<leftarrow> nm_spi_write dev addr buf sz s; Some (to_m2m r, s) }"

subsection \<open>Initialisation\<close>

definition NMI_SPI_PROTOCOL_CONFIG :: u32 where "NMI_SPI_PROTOCOL_CONFIG = 0xe824"

definition spi_init_pkt_sz :: "'w spi_dev \<Rightarrow> u32 \<Rightarrow> 'w nmspi \<Rightarrow> 'w nmspi option" where
  "spi_init_pkt_sz dev junk s = do {
     (v, s) \<leftarrow> nm_spi_read_reg dev junk NMI_SPI_PROTOCOL_CONFIG s;
     let v = v AND NOT (push_bit 4 0x7);
     let v = v OR push_bit 4 5;
     (_, s) \<leftarrow> nm_spi_write_reg dev NMI_SPI_PROTOCOL_CONFIG v s;
     Some s }"

definition nm_spi_init :: "'w spi_dev \<Rightarrow> u32 \<Rightarrow> 'w nmspi \<Rightarrow> (int \<times> 'w nmspi) option" where
  "nm_spi_init dev junk s = do {
     let s = s\<lparr>gu8Crc_off := False\<rparr>;
     (r1, v1, s) \<leftarrow> spi_read_reg dev NMI_SPI_PROTOCOL_CONFIG s;
     (r, v, s) \<leftarrow> (if r1 = N_FAIL
                   then spi_read_reg dev NMI_SPI_PROTOCOL_CONFIG (s\<lparr>gu8Crc_off := True\<rparr>)
                   else Some (r1, v1, s));
     (if r = N_FAIL then Some (0, s)
      else do {
        let reg = (case v of Some x \<Rightarrow> x | None \<Rightarrow> 0);
        (w, s) \<leftarrow>
          (if \<not> gu8Crc_off s
           then do {
             let reg = ((reg AND NOT 0xc) AND NOT 0x70) OR push_bit 4 0x5;
             (w, s) \<leftarrow> spi_write_reg dev NMI_SPI_PROTOCOL_CONFIG reg s;
             Some (w, if w = N_FAIL then s else s\<lparr>gu8Crc_off := True\<rparr>) }
           else Some (N_OK, s));
        (if w = N_FAIL then Some (0, s)
         else do {
           (c, _, s) \<leftarrow> spi_read_reg dev 0x1000 s;
           (if c = N_FAIL then Some (M2M_ERR_BUS_FAIL, s)
            else do { s \<leftarrow> spi_init_pkt_sz dev junk s; Some (M2M_SUCCESS, s) }) }) }) }"

definition nm_spi_deinit :: "'w nmspi \<Rightarrow> int \<times> 'w nmspi" where
  "nm_spi_deinit s = (M2M_SUCCESS, s\<lparr>gu8Crc_off := False\<rparr>)"

end
