(* ===== verification/Nm_Crc7.thy ===== *)
theory Nm_Crc7
  imports Nm_Spi
begin

text \<open>
  The CRC of the WINC1500 command frames: the table of \<open>nmspi.c\<close> is the one of the polynomial
  \<open>x^7 + x^3 + 1\<close>, and the table is never read outside.
\<close>

text \<open>One step of the division; the remainder is kept in the upper seven bits.\<close>

definition crc7_step :: "u8 \<Rightarrow> u8" where
  "crc7_step r = (if bit r 7 then push_bit 1 r XOR 0x12 else push_bit 1 r)"

definition crc7_div :: "u8 \<Rightarrow> u8" where
  "crc7_div r = drop_bit 1 ((crc7_step ^^ 8) r)"

definition crc7_ref :: "u8 \<Rightarrow> u8 list \<Rightarrow> u8" where
  "crc7_ref crc ds = fold (\<lambda>d c. crc7_div (push_bit 1 c XOR d)) ds crc"

subsection \<open>The table\<close>

lemma table_length: "length crc7_syndrome_table = 256"
  by (simp add: crc7_syndrome_table_def)

lemma step_xor: "crc7_step (a XOR b) = crc7_step a XOR crc7_step b"
  by (simp add: crc7_step_def push_bit_xor bit_simps xor.assoc xor.left_commute xor.commute)

lemma steps_xor: "(crc7_step ^^ n) (a XOR b) = (crc7_step ^^ n) a XOR (crc7_step ^^ n) b"
  by (induction n) (simp_all add: step_xor)

lemma div_xor: "crc7_div (a XOR b) = crc7_div a XOR crc7_div b"
  by (simp add: crc7_div_def steps_xor drop_bit_xor)

lemma funpow8: "(f ^^ 8) x = f (f (f (f (f (f (f (f x)))))))"
  by (simp add: numeral_eq_Suc)

lemma div_basis: "crc7_div 0 = 0" "crc7_div 1 = 0x09" "crc7_div 2 = 0x12" "crc7_div 4 = 0x24"
    "crc7_div 8 = 0x48" "crc7_div 16 = 0x19" "crc7_div 32 = 0x32" "crc7_div 64 = 0x64"
    "crc7_div 128 = 0x41"
  by (simp_all add: crc7_div_def funpow8 crc7_step_def)

lemma of_nat_split:
  assumes "n < 2 ^ k"
  shows "(of_nat (2 ^ k + n) :: u8) = of_nat (2 ^ k) XOR of_nat n"
proof -
  have d: "\<not> bit (2 ^ k :: u8) i \<or> \<not> bit (of_nat n :: u8) i" for i
  proof (cases "i = k")
    case True
    have "take_bit k n = n" using assms by (simp add: take_bit_nat_eq_self)
    then have "\<not> bit n k" by (metis bit_take_bit_iff less_irrefl)
    then show ?thesis using True by (simp add: bit_of_nat_iff)
  qed (simp add: bit_exp_iff)
  have "(2 ^ k :: u8) + of_nat n = 2 ^ k OR of_nat n" by (rule disjunctive_add) (rule d)
  also have "\<dots> = 2 ^ k XOR of_nat n" using d by (auto intro!: bit_word_eqI simp: bit_or_iff bit_xor_iff)
  finally show ?thesis by simp
qed

definition crc7_tab :: "nat \<Rightarrow> u8 list" where
  "crc7_tab k = map (\<lambda>n. crc7_div (of_nat n)) [0..<2 ^ k]"

lemma upt_double: "[0..<2 ^ Suc k] = [0..<2 ^ k] @ map (\<lambda>n. n + 2 ^ k) [0..<2 ^ k]"
  by (metis add_0 map_add_upt mult_2 power_Suc upt_add_eq_append zero_le)

lemma tab_Suc: "crc7_tab (Suc k) = crc7_tab k @ map ((XOR) (crc7_div (2 ^ k))) (crc7_tab k)"
proof -
  have "crc7_div (of_nat (n + 2 ^ k)) = crc7_div (2 ^ k) XOR crc7_div (of_nat n)" if "n < 2 ^ k" for n
    using of_nat_split [OF that] div_xor [of "of_nat (2 ^ k)" "of_nat n"] by (simp only: add.commute of_nat_power of_nat_numeral)
  then have "map (\<lambda>n. crc7_div (of_nat n)) (map (\<lambda>n. n + 2 ^ k) [0..<2 ^ k]) = map ((XOR) (crc7_div (2 ^ k))) (crc7_tab k)"
    unfolding crc7_tab_def map_map by (intro map_cong) (auto simp only: comp_apply set_upt atLeastLessThan_iff)
  then show ?thesis unfolding crc7_tab_def upt_double map_append by simp
qed

lemma tab_0: "crc7_tab 0 = [0]"
  by (simp add: crc7_tab_def div_basis)

lemma tab_1: "crc7_tab 1 =
   [0x00, 0x09]"
  using tab_Suc [of 0] by (simp add: tab_0 div_basis)

lemma tab_2: "crc7_tab 2 =
   [0x00, 0x09, 0x12, 0x1b]"
  using tab_Suc [of 1] by (simp add: tab_1 [simplified] div_basis numeral_2_eq_2)

lemma tab_3: "crc7_tab 3 =
   [0x00, 0x09, 0x12, 0x1b, 0x24, 0x2d, 0x36, 0x3f]"
  using tab_Suc [of 2] by (simp add: tab_2 div_basis)

lemma tab_4: "crc7_tab 4 =
   [0x00, 0x09, 0x12, 0x1b, 0x24, 0x2d, 0x36, 0x3f, 0x48, 0x41, 0x5a, 0x53, 0x6c, 0x65, 0x7e, 0x77]"
  using tab_Suc [of 3] by (simp add: tab_3 div_basis)

lemma tab_5: "crc7_tab 5 =
   [0x00, 0x09, 0x12, 0x1b, 0x24, 0x2d, 0x36, 0x3f, 0x48, 0x41, 0x5a, 0x53, 0x6c, 0x65, 0x7e, 0x77,
    0x19, 0x10, 0x0b, 0x02, 0x3d, 0x34, 0x2f, 0x26, 0x51, 0x58, 0x43, 0x4a, 0x75, 0x7c, 0x67, 0x6e]"
  using tab_Suc [of 4] by (simp add: tab_4 div_basis)

lemma tab_6: "crc7_tab 6 =
   [0x00, 0x09, 0x12, 0x1b, 0x24, 0x2d, 0x36, 0x3f, 0x48, 0x41, 0x5a, 0x53, 0x6c, 0x65, 0x7e, 0x77,
    0x19, 0x10, 0x0b, 0x02, 0x3d, 0x34, 0x2f, 0x26, 0x51, 0x58, 0x43, 0x4a, 0x75, 0x7c, 0x67, 0x6e,
    0x32, 0x3b, 0x20, 0x29, 0x16, 0x1f, 0x04, 0x0d, 0x7a, 0x73, 0x68, 0x61, 0x5e, 0x57, 0x4c, 0x45,
    0x2b, 0x22, 0x39, 0x30, 0x0f, 0x06, 0x1d, 0x14, 0x63, 0x6a, 0x71, 0x78, 0x47, 0x4e, 0x55, 0x5c]"
  using tab_Suc [of 5] by (simp add: tab_5 div_basis)

lemma tab_7: "crc7_tab 7 =
   [0x00, 0x09, 0x12, 0x1b, 0x24, 0x2d, 0x36, 0x3f, 0x48, 0x41, 0x5a, 0x53, 0x6c, 0x65, 0x7e, 0x77,
    0x19, 0x10, 0x0b, 0x02, 0x3d, 0x34, 0x2f, 0x26, 0x51, 0x58, 0x43, 0x4a, 0x75, 0x7c, 0x67, 0x6e,
    0x32, 0x3b, 0x20, 0x29, 0x16, 0x1f, 0x04, 0x0d, 0x7a, 0x73, 0x68, 0x61, 0x5e, 0x57, 0x4c, 0x45,
    0x2b, 0x22, 0x39, 0x30, 0x0f, 0x06, 0x1d, 0x14, 0x63, 0x6a, 0x71, 0x78, 0x47, 0x4e, 0x55, 0x5c,
    0x64, 0x6d, 0x76, 0x7f, 0x40, 0x49, 0x52, 0x5b, 0x2c, 0x25, 0x3e, 0x37, 0x08, 0x01, 0x1a, 0x13,
    0x7d, 0x74, 0x6f, 0x66, 0x59, 0x50, 0x4b, 0x42, 0x35, 0x3c, 0x27, 0x2e, 0x11, 0x18, 0x03, 0x0a,
    0x56, 0x5f, 0x44, 0x4d, 0x72, 0x7b, 0x60, 0x69, 0x1e, 0x17, 0x0c, 0x05, 0x3a, 0x33, 0x28, 0x21,
    0x4f, 0x46, 0x5d, 0x54, 0x6b, 0x62, 0x79, 0x70, 0x07, 0x0e, 0x15, 0x1c, 0x23, 0x2a, 0x31, 0x38]"
  using tab_Suc [of 6] by (simp add: tab_6 div_basis)

lemma table_ref: "crc7_tab 8 = crc7_syndrome_table"
  using tab_Suc [of 7] by (simp add: tab_7 div_basis crc7_syndrome_table_def)

subsection \<open>The routine\<close>

lemma u8_bound: "unat (w :: u8) < 256"
  using unsigned_less [of w] by simp

lemma crc7_div_small: "crc7_div r \<le> 0x7f"
proof -
  let ?w = "(crc7_step ^^ 8) r"
  have "unat (drop_bit 1 ?w) = drop_bit 1 (unat ?w)" by (rule unat_drop_bit_eq)
  then have "unat (drop_bit 1 ?w) = unat ?w div 2" by (simp only: drop_bit_eq_div power_one_right)
  with u8_bound [of ?w] show ?thesis unfolding crc7_div_def word_le_nat_alt by simp
qed

lemma crc7_index:
  assumes "crc \<le> (0x7f :: u8)"
  shows "push_bit 1 (ucast crc :: u32) XOR ucast d = ucast (push_bit 1 crc XOR d :: u8)"
proof (rule bit_word_eqI)
  fix n
  have "\<not> bit crc 7"
  proof -
    have "take_bit 7 (unat crc) = unat crc" using assms by (simp add: word_le_nat_alt take_bit_nat_eq_self)
    then have "\<not> bit (unat crc) 7" by (metis bit_take_bit_iff less_irrefl)
    then show ?thesis by (simp add: bit_unsigned_iff)
  qed
  then show "bit (push_bit 1 (ucast crc :: u32) XOR ucast d) n \<longleftrightarrow> bit (ucast (push_bit 1 crc XOR d) :: u32) n"
    unfolding bit_xor_iff bit_ucast_iff bit_push_bit_iff
    by (cases "n = 8") (auto dest: bit_imp_le_length)
qed

lemma crc7_byte_ref:
  assumes "crc \<le> 0x7f"
  shows "crc7_byte crc d = Some (crc7_div (push_bit 1 crc XOR d))"
proof -
  let ?x = "push_bit 1 crc XOR d"
  have x: "unat ?x < 256" using unsigned_less [of ?x] by simp
  have "crc7_byte crc d = mem_read crc7_syndrome_table (unat ?x)"
    unfolding crc7_byte_def crc7_index [OF assms] using x
    by (simp add: unsigned_ucast_eq take_bit_nat_eq_self del: push_bit_of_1)
  also have "\<dots> = Some (crc7_tab 8 ! unat ?x)" using x table_length by (simp add: mem_read_def table_ref)
  also have "crc7_tab 8 ! unat ?x = crc7_div ?x" using x by (simp add: crc7_tab_def)
  finally show ?thesis .
qed

text \<open>
  C32: Starting from a value of seven bits, \<open>crc7\<close> never reads outside its table and computes the
  remainder of the bit by bit division by \<open>x^7 + x^3 + 1\<close>; the result has seven bits again.
\<close>

theorem crc7_is_division:
  assumes "crc \<le> 0x7f"
  shows "crc7 crc ds = Some (crc7_ref crc ds) \<and> crc7_ref crc ds \<le> 0x7f"
  using assms
proof (induction ds arbitrary: crc)
  case (Cons d ds)
  then show ?case
    using crc7_byte_ref [of crc d] crc7_div_small [of "push_bit 1 crc XOR d"] by (simp add: crc7_ref_def)
qed (simp add: crc7_ref_def)

theorem crc7_is_division_witness:
  "crc7 0x7f [0xc9, 0, 1] = Some (crc7_ref 0x7f [0xc9, 0, 1]) \<and> crc7_ref 0x7f [0xc9, 0, 1] \<le> 0x7f"
  by (rule crc7_is_division) simp

end
