(* ===== verification/Nm_Bus.thy ===== *)
theory Nm_Bus
  imports Nm_Crc7
begin

text \<open>
  The bus layer of \<open>driver/nmbus.c\<close>, compiled for SPI: registers are passed through, blocks are
  cut into pieces of at most 248 bytes. The lemmas follow the protocol of \<open>nmspi.c\<close> on a scripted
  chip (one that answers with a given sequence of bytes, which every run of a real chip is).
\<close>

definition NM_BUS_MAX_TRX_SZ :: nat where "NM_BUS_MAX_TRX_SZ = 256"
definition MAX_TRX_CFG_SZ :: nat where "MAX_TRX_CFG_SZ = 8"

definition u16MaxTrxSz :: nat where "u16MaxTrxSz = NM_BUS_MAX_TRX_SZ - MAX_TRX_CFG_SZ"

definition nm_read_reg :: "'w spi_dev \<Rightarrow> u32 \<Rightarrow> u32 \<Rightarrow> 'w nmspi \<Rightarrow> (u32 \<times> 'w nmspi) option" where
  "nm_read_reg dev junk addr s = nm_spi_read_reg dev junk addr s"

definition nm_read_reg_with_ret :: "'w spi_dev \<Rightarrow> u32 \<Rightarrow> 'w nmspi \<Rightarrow> (int \<times> u32 option \<times> 'w nmspi) option" where
  "nm_read_reg_with_ret dev addr s = nm_spi_read_reg_with_ret dev addr s"

definition nm_write_reg :: "'w spi_dev \<Rightarrow> u32 \<Rightarrow> u32 \<Rightarrow> 'w nmspi \<Rightarrow> (int \<times> 'w nmspi) option" where
  "nm_write_reg dev addr v s = nm_spi_write_reg dev addr v s"

text \<open>The loops over the pieces; \<open>&puBuf[off]\<close> is the rest of the buffer.\<close>

function read_block_loop ::
    "'w spi_dev \<Rightarrow> u32 \<Rightarrow> u8 list \<Rightarrow> nat \<Rightarrow> nat \<Rightarrow> 'w nmspi \<Rightarrow> (int \<times> u8 list \<times> 'w nmspi) option" where
  "read_block_loop dev addr buf off sz s =
     (if sz \<le> u16MaxTrxSz
      then map_option (\<lambda>(r, sub, s). (r, take off buf @ sub, s))
             (nm_spi_read_block dev addr (drop off buf) (of_nat sz) s)
      else
        case nm_spi_read_block dev addr (drop off buf) (of_nat u16MaxTrxSz) s of
          None \<Rightarrow> None
        | Some (r, sub, s) \<Rightarrow>
            if r \<noteq> M2M_SUCCESS then Some (r, take off buf @ sub, s)
            else read_block_loop dev (addr + of_nat u16MaxTrxSz) (take off buf @ sub) (off + u16MaxTrxSz)
                   (sz - u16MaxTrxSz) s)"
  by pat_completeness auto
termination by (relation "measure (\<lambda>(dev, addr, buf, off, sz, s). sz)")
   (auto simp: u16MaxTrxSz_def NM_BUS_MAX_TRX_SZ_def MAX_TRX_CFG_SZ_def)

function write_block_loop ::
    "'w spi_dev \<Rightarrow> u32 \<Rightarrow> u8 list \<Rightarrow> nat \<Rightarrow> nat \<Rightarrow> 'w nmspi \<Rightarrow> (int \<times> 'w nmspi) option" where
  "write_block_loop dev addr buf off sz s =
     (if sz \<le> u16MaxTrxSz then nm_spi_write_block dev addr (drop off buf) (of_nat sz) s
      else
        case nm_spi_write_block dev addr (drop off buf) (of_nat u16MaxTrxSz) s of
          None \<Rightarrow> None
        | Some (r, s) \<Rightarrow>
            if r \<noteq> M2M_SUCCESS then Some (r, s)
            else write_block_loop dev (addr + of_nat u16MaxTrxSz) buf (off + u16MaxTrxSz)
                   (sz - u16MaxTrxSz) s)"
  by pat_completeness auto
termination by (relation "measure (\<lambda>(dev, addr, buf, off, sz, s). sz)")
   (auto simp: u16MaxTrxSz_def NM_BUS_MAX_TRX_SZ_def MAX_TRX_CFG_SZ_def)

declare read_block_loop.simps [simp del] write_block_loop.simps [simp del]

definition nm_read_block ::
    "'w spi_dev \<Rightarrow> u32 \<Rightarrow> u8 list \<Rightarrow> u32 \<Rightarrow> 'w nmspi \<Rightarrow> (int \<times> u8 list \<times> 'w nmspi) option" where
  "nm_read_block dev addr buf sz s = read_block_loop dev addr buf 0 (unat sz) s"

definition nm_write_block :: "'w spi_dev \<Rightarrow> u32 \<Rightarrow> u8 list \<Rightarrow> u32 \<Rightarrow> 'w nmspi \<Rightarrow> (int \<times> 'w nmspi) option" where
  "nm_write_block dev addr buf sz s = write_block_loop dev addr buf 0 (unat sz) s"

subsection \<open>A scripted chip\<close>

text \<open>State: the bytes sent to the chip so far and the answers to come.\<close>

type_synonym script = "u8 list \<times> u8 list"

definition script_dev :: "script spi_dev" where
  "script_dev = \<lparr>txrx = (\<lambda>tx (log, rs). (0, if rs = [] then 0xff else hd rs, (log @ [tx], tl rs))),
     ssn = (\<lambda>_ w. w)\<rparr>"

definition zeros :: "nat \<Rightarrow> u8 list" where
  "zeros n = replicate n 0"

lemma zeros_simps [simp]:
  "zeros m @ zeros n = zeros (m + n)" "zeros m @ zeros n @ xs = zeros (m + n) @ xs"
  "length (zeros n) = n" "zeros 0 = []"
  by (simp_all add: zeros_def replicate_add)

lemma zeros_Suc: "[0] @ zeros n = zeros (Suc n)" "0 # zeros n = zeros (Suc n)" "[0] = zeros 1" "[0, 0] = zeros 2"
  by (simp_all add: zeros_def numeral_2_eq_2)

lemma rw_script:
  "length txs \<le> length rs \<Longrightarrow>
     rw_loop script_dev txs (log, rs) = (M2M_SUCCESS, take (length txs) rs, (log @ txs, drop (length txs) rs))"
proof (induction txs arbitrary: log rs)
  case (Cons tx txs)
  then obtain r rs' where "rs = r # rs'" by (cases rs) auto
  with Cons show ?case by (simp add: script_dev_def)
qed simp

lemma read_script:
  assumes "chip s = (log, xs @ rs)" and "length xs = n"
  shows "nmi_spi_read script_dev n s = (M2M_SUCCESS, xs, s\<lparr>chip := (log @ zeros n, rs)\<rparr>)"
  using assms rw_script [of "replicate n 0" "xs @ rs" log]
  by (simp add: nmi_spi_read_def nm_spi_rw_def zeros_def) (simp add: script_dev_def)

lemma write_script:
  assumes "chip s = (log, xs @ rs)" and "length xs = length b"
  shows "nmi_spi_write script_dev b s = (M2M_SUCCESS, s\<lparr>chip := (log @ b, rs)\<rparr>)"
  using assms rw_script [of b "xs @ rs" log]
  by (simp add: nmi_spi_write_def nm_spi_rw_def) (simp add: script_dev_def)

lemma rsp_script:
  "chip s = (log, js @ want # rs) \<Longrightarrow> want \<notin> set js \<Longrightarrow> length js \<le> n \<Longrightarrow>
     rsp_loop script_dev want n s = (N_OK, s\<lparr>chip := (log @ zeros (Suc (length js)), rs)\<rparr>)"
proof (induction js arbitrary: n s log)
  case Nil
  then show ?case using read_script [of s log "[want]" rs 1]
    by (subst rsp_loop.simps) (simp add: code_defs)
next
  case (Cons j js)
  then obtain m where n: "n = Suc m" by (cases n) auto
  let ?s = "s\<lparr>chip := (log @ zeros 1, js @ want # rs)\<rparr>"
  have "rsp_loop script_dev want n s = rsp_loop script_dev want m ?s"
    using read_script [of s log "[j]" "js @ want # rs" 1] Cons.prems n
    by (subst rsp_loop.simps) (auto simp: code_defs)
  with Cons.IH [of ?s "log @ zeros 1" m] Cons.prems n show ?case by simp
qed

definition is_hdr :: "u8 \<Rightarrow> bool" where
  "is_hdr h \<longleftrightarrow> drop_bit 4 h AND 0xf = 0xf"

lemma hdr_script:
  "chip s = (log, js @ h # rs) \<Longrightarrow> \<forall>j\<in>set js. \<not> is_hdr j \<Longrightarrow> is_hdr h \<Longrightarrow> length js \<le> n \<Longrightarrow>
     hdr_loop script_dev n s = (Some (int (n - length js)), s\<lparr>chip := (log @ zeros (Suc (length js)), rs)\<rparr>)"
proof (induction js arbitrary: n s log)
  case Nil
  then show ?case using read_script [of s log "[h]" rs 1]
    by (subst hdr_loop.simps) (simp add: code_defs is_hdr_def)
next
  case (Cons j js)
  then obtain m where n: "n = Suc m" by (cases n) auto
  let ?s = "s\<lparr>chip := (log @ zeros 1, js @ h # rs)\<rparr>"
  have "hdr_loop script_dev n s = hdr_loop script_dev m ?s"
    using read_script [of s log "[j]" "js @ h # rs" 1] Cons.prems n
    by (subst hdr_loop.simps) (auto simp: code_defs is_hdr_def)
  with Cons.IH [of ?s "log @ zeros 1" m] Cons.prems n show ?case by simp
qed

text \<open>The command frame on the wire.\<close>

definition cmd_frame :: "bool \<Rightarrow> u8 list \<Rightarrow> u8 list" where
  "cmd_frame crc_off bc = bc @ (if crc_off then [] else [push_bit 1 (crc7_ref 0x7f bc)])"

lemma crc7_total: "crc7 0x7f bc = Some (crc7_ref 0x7f bc)"
proof -
  have "crc7 crc bc = Some (crc7_ref crc bc)" if "crc \<le> 0x7f" for crc
    using that
  proof (induction bc arbitrary: crc)
    case (Cons d ds)
    then show ?case
      using crc7_byte_ref [of crc d] crc7_div_small [of "push_bit 1 crc XOR d"] by (simp add: crc7_ref_def)
  qed (simp add: crc7_ref_def)
  then show ?thesis by simp
qed

lemma spi_cmd_frame:
  "cmd_bytes cmd adr d sz cl = Some bc \<Longrightarrow> spi_cmd dev cmd adr d sz cl s =
     (let (rc, s') = nmi_spi_write dev (cmd_frame (gu8Crc_off s) bc) s
      in Some (if rc \<noteq> M2M_SUCCESS then N_FAIL else N_OK, s'))"
  by (simp add: spi_cmd_def cmd_frame_def crc7_total case_prod_unfold)

lemma cmd_phase_script:
  assumes cmd: "cmd_bytes cmd adr d sz cl = Some bc" "cmd \<notin> {CMD_RESET, CMD_TERMINATE, CMD_REPEAT}"
    and chip: "chip s = (log, xs @ js @ cmd # ks @ 0 # rs)"
    and len: "length xs = length (cmd_frame (gu8Crc_off s) bc)" "length js \<le> 10" "length ks \<le> 10"
    and new: "cmd \<notin> set js" "0 \<notin> set ks"
  shows "cmd_phase script_dev cmd adr d sz cl s = Some (True, s\<lparr>chip := (log @
      cmd_frame (gu8Crc_off s) bc @ zeros (length js + length ks + 2), rs)\<rparr>)"
proof -
  let ?f = "cmd_frame (gu8Crc_off s) bc"
  let ?s1 = "s\<lparr>chip := (log @ ?f, js @ cmd # ks @ 0 # rs)\<rparr>"
  let ?s2 = "s\<lparr>chip := (log @ ?f @ zeros (Suc (length js)), ks @ 0 # rs)\<rparr>"
  have 1: "spi_cmd script_dev cmd adr d sz cl s = Some (N_OK, ?s1)"
    using write_script [OF chip len(1)] by (simp add: spi_cmd_frame [OF cmd(1)])
  have 2: "rsp_loop script_dev cmd 10 ?s1 = (N_OK, ?s2)"
    using rsp_script [of ?s1 "log @ ?f" js cmd "ks @ 0 # rs" 10] len(2) new(1) by simp
  have 3: "rsp_loop script_dev 0 10 ?s2 =
      (N_OK, s\<lparr>chip := (log @ ?f @ zeros (length js + length ks + 2), rs)\<rparr>)"
    using rsp_script [of ?s2 "log @ ?f @ zeros (Suc (length js))" ks 0 rs 10] len(3) new(2)
    by simp
  show ?thesis
    using 1 2 3 cmd(2) by (simp add: cmd_phase_def spi_cmd_rsp_def)
qed

end
