(* ===== verification/Nm_Props.thy ===== *)
theory Nm_Props
  imports Nm_Bus
begin

text \<open>
  The properties of the SPI transport: reads and writes against a chip that answers as the
  protocol asks, what happens with a chip that does not, and the cutting of blocks into pieces.
\<close>

lemma idx16_0: "idx16 0 = 0"
  by (simp add: idx16_def)

lemma data_read_script:
  assumes chip: "chip s = (log, hs @ h # ds @ cs @ rs)"
    and hdr: "\<forall>j\<in>set hs. \<not> is_hdr j" "is_hdr h" "length hs < 10"
    and len: "length ds = unat sz" "unat sz \<le> 8192" "unat sz \<le> length buf"
      "length cs = (if cl \<or> gu8Crc_off s then 0 else 2)"
  shows "spi_data_read script_dev buf sz cl s = Some (N_OK, ds @ drop (unat sz) buf,
     s\<lparr>chip := (log @ zeros (Suc (length hs) + unat sz + length cs), rs)\<rparr>)"
proof -
  let ?l1 = "log @ zeros (Suc (length hs))"
  let ?s1 = "s\<lparr>chip := (?l1, ds @ cs @ rs)\<rparr>"
  let ?s2 = "s\<lparr>chip := (?l1 @ zeros (unat sz), cs @ rs)\<rparr>"
  have 1: "hdr_loop script_dev 10 s = (Some (int (10 - length hs)), ?s1)"
    using hdr_script [OF chip hdr(1,2)] hdr(3) by simp
  have 2: "nmi_spi_read script_dev (unat sz) ?s1 = (M2M_SUCCESS, ds, ?s2)"
    using read_script [of ?s1 ?l1 ds "cs @ rs" "unat sz"] len(1) by simp
  have 3: "nmi_spi_read script_dev 2 ?s2 = (M2M_SUCCESS, cs, s\<lparr>chip := (?l1 @ zeros (unat sz + 2), rs)\<rparr>)"
    if "\<not> (cl \<or> gu8Crc_off s)"
    using read_script [of ?s2 "?l1 @ zeros (unat sz)" cs rs 2] len(4) that by simp
  have "data_read_pkt script_dev (unat sz) cl s = (N_OK, ds,
      s\<lparr>chip := (log @ zeros (Suc (length hs) + unat sz + length cs), rs)\<rparr>)"
  proof (cases "cl \<or> gu8Crc_off s")
    case True
    then show ?thesis using 1 2 hdr(3) len(4) by (auto simp: data_read_pkt_def)
  next
    case False
    then show ?thesis using 1 2 3 hdr(3) len(4) by (simp add: data_read_pkt_def)
  qed
  with len(1-3) show ?thesis
    by (simp add: spi_data_read_def data_read_loop.simps [of _ _ _ "unat sz"] DATA_PKT_SZ_def buf_store_def
        idx16_0 N_OK_def N_FAIL_def Let_def)
qed

text \<open>The command used for a register, by its address.\<close>

definition read_cmd :: "u32 \<Rightarrow> u8 \<times> bool" where
  "read_cmd addr = (if addr \<le> 0xff then (CMD_INTERNAL_READ, True) else (CMD_SINGLE_READ, False))"

text \<open>
  Reading a register sends exactly the command frame (with its CRC when the CRC is on) and
  then zeros, and returns the little-endian value that the chip answers, when the chip echoes
  the command within eleven bytes, gives the zero status within eleven and the data header
  within ten.
\<close>

theorem spi_read_reg_value:
  assumes "read_cmd addr = (cmd, cl)" and "cmd_bytes cmd addr 0 4 cl = Some bc"
    and "chip s = (log, xs @ js @ cmd # ks @ 0 # hs @ h # le32 v @ cs @ rs)"
    and "length xs = length (cmd_frame (gu8Crc_off s) bc)" "length js \<le> 10" "length ks \<le> 10"
    and "cmd \<notin> set js" "0 \<notin> set ks" "\<forall>j\<in>set hs. \<not> is_hdr j" "is_hdr h" "length hs < 10"
    and "length cs = (if cl \<or> gu8Crc_off s then 0 else 2)"
  shows "\<exists>n. spi_read_reg script_dev addr s =
    Some (N_OK, Some v, s\<lparr>chip := (log @ cmd_frame (gu8Crc_off s) bc @ zeros n, rs)\<rparr>)"
proof -
  have c: "cmd \<notin> {CMD_RESET, CMD_TERMINATE, CMD_REPEAT}"
    using assms(1) by (auto simp: read_cmd_def cmd_defs split: if_splits)
  let ?f = "cmd_frame (gu8Crc_off s) bc"
  let ?n = "length js + length ks + 2"
  let ?s1 = "s\<lparr>chip := (log @ ?f @ zeros ?n, hs @ h # le32 v @ cs @ rs)\<rparr>"
  have 1: "cmd_phase script_dev cmd addr 0 4 cl s = Some (True, ?s1)"
    by (rule cmd_phase_script [OF assms(2) c assms(3,4,5,6,7,8)])
  have 2: "spi_data_read script_dev [0, 0, 0, 0] 4 cl ?s1 = Some (N_OK, le32 v, s\<lparr>chip :=
      (log @ ?f @ zeros (?n + (Suc (length hs) + 4 + length cs)), rs)\<rparr>)"
    using data_read_script [of ?s1 "log @ ?f @ zeros ?n" hs h "le32 v" cs rs 4 "[0, 0, 0, 0]" cl]
      assms(9-12) by simp
  show ?thesis
    using 1 2 assms(1) by (auto simp: spi_read_reg_def read_cmd_def split: if_splits)
qed

theorem spi_read_reg_value_witness:
  "\<exists>n. spi_read_reg script_dev 0x1000 \<lparr>chip = ([], replicate 5 0xff @ [0xff] @ 0xca # [] @ 0 # [] @ 0xf3 #
        le32 0x1002b0 @ [1, 2] @ []), gu8Crc_off = False\<rparr> =
    Some (N_OK, Some 0x1002b0, \<lparr>chip = ([], replicate 5 0xff @ [0xff] @ 0xca # [] @ 0 # [] @ 0xf3 #
        le32 0x1002b0 @ [1, 2] @ []), gu8Crc_off = False\<rparr>
      \<lparr>chip := ([] @ cmd_frame (gu8Crc_off \<lparr>chip = ([] :: u8 list, replicate 5 0xff @ [0xff] @ 0xca # [] @ 0 #
        [] @ 0xf3 # le32 0x1002b0 @ [1, 2] @ []), gu8Crc_off = False\<rparr>) [0xca, 0, 0x10, 0] @ zeros n, [])\<rparr>)"
  by (rule spi_read_reg_value [where xs = "replicate 5 0xff" and js = "[0xff]" and ks = "[]" and
      hs = "[]" and h = "0xf3" and cs = "[1, 2]" and rs = "[]" and log = "[]" and cmd = "0xca" and cl = False])
     (auto simp: read_cmd_def cmd_bytes_def cmd_defs cmd_frame_def is_hdr_def)

text \<open>
  Writing a block of up to 8192 bytes puts on the wire the extended DMA write command with
  address and size, then (after the answer of the chip) one packet with the marker for the only
  packet, the bytes of the buffer in order and, with the CRC on, two CRC bytes; nothing else.
\<close>

theorem nm_spi_write_block_wire:
  assumes "cmd_bytes CMD_DMA_EXT_WRITE addr 0 (ucast sz) False = Some bc"
    and "chip s = (log, xs @ js @ CMD_DMA_EXT_WRITE # ks @ 0 # ys @ rs)"
    and "length xs = length (cmd_frame (gu8Crc_off s) bc)" "length js \<le> 10" "length ks \<le> 10"
    and "CMD_DMA_EXT_WRITE \<notin> set js" "0 \<notin> set ks" "unat sz \<le> length buf" "unat sz \<le> 8192"
    and "length ys = 1 + unat sz + (if gu8Crc_off s then 0 else 2)"
  shows "\<exists>n. nm_spi_write_block script_dev addr buf sz s = Some (M2M_SUCCESS, s\<lparr>chip :=
    (log @ cmd_frame (gu8Crc_off s) bc @ zeros n @ [0xf3] @ take (unat sz) buf @
     (if gu8Crc_off s then [] else [0, 0]), rs)\<rparr>)"
proof -
  let ?f = "cmd_frame (gu8Crc_off s) bc" and ?n = "length js + length ks + 2"
  let ?d = "take (unat sz) buf" and ?l = "log @ cmd_frame (gu8Crc_off s) bc @ zeros (length js + length ks + 2)"
  from assms(10) obtain y ds cs where y: "ys = [y] @ ds @ cs" "length ds = unat sz"
      "length cs = (if gu8Crc_off s then 0 else 2)"
  proof (cases ys)
    case (Cons y zs)
    with assms(10) that [of y "take (unat sz) zs" "drop (unat sz) zs"] show ?thesis by auto
  qed (use assms(10) in simp)
  let ?s1 = "s\<lparr>chip := (?l, [y] @ ds @ cs @ rs)\<rparr>"
  let ?s2 = "s\<lparr>chip := (?l @ [0xf3], ds @ cs @ rs)\<rparr>"
  let ?s3 = "s\<lparr>chip := (?l @ [0xf3] @ ?d, cs @ rs)\<rparr>"
  have 1: "cmd_phase script_dev CMD_DMA_EXT_WRITE addr 0 (ucast sz) False s = Some (True, ?s1)"
    using cmd_phase_script [OF assms(1) _ assms(2-7)] y(1) by (simp add: cmd_defs)
  have 2: "nmi_spi_write script_dev [0xf3] ?s1 = (M2M_SUCCESS, ?s2)"
    using write_script [of ?s1 ?l "[y]" "ds @ cs @ rs" "[0xf3]"] by simp
  have 3: "nmi_spi_write script_dev ?d ?s2 = (M2M_SUCCESS, ?s3)"
    using write_script [of ?s2 "?l @ [0xf3]" ds "cs @ rs" ?d] y(2) assms(8) by simp
  have 4: "nmi_spi_write script_dev [0, 0] ?s3 = (M2M_SUCCESS, s\<lparr>chip := (?l @ [0xf3] @ ?d @ [0, 0], rs)\<rparr>)"
    if "\<not> gu8Crc_off s"
    using write_script [of ?s3 "?l @ [0xf3] @ ?d" cs rs "[0, 0]"] y(3) that by simp
  have "data_write_pkt script_dev 3 ?d ?s1 = (N_OK, s\<lparr>chip :=
      (?l @ [0xf3] @ ?d @ (if gu8Crc_off s then [] else [0, 0]), rs)\<rparr>)"
  proof (cases "gu8Crc_off s")
    case True
    with 2 3 y(3) show ?thesis by (simp add: data_write_pkt_def)
  next
    case False
    with 2 3 4 show ?thesis by (simp add: data_write_pkt_def)
  qed
  then have "spi_data_write script_dev buf sz ?s1 = Some (N_OK, s\<lparr>chip :=
      (?l @ [0xf3] @ ?d @ (if gu8Crc_off s then [] else [0, 0]), rs)\<rparr>)"
    using assms(8,9) by (simp add: spi_data_write_def data_write_loop.simps [of _ _ _ "unat sz"]
        DATA_PKT_SZ_def idx16_0 mem_slice_def N_OK_def N_FAIL_def Let_def)
  with 1 show ?thesis
    by (auto simp: nm_spi_write_block_def nm_spi_write_def to_m2m_def)
qed

theorem nm_spi_write_block_wire_witness:
  "\<exists>n. nm_spi_write_block script_dev 0x1234 [7, 8, 9] 2 \<lparr>chip = ([], replicate 7 0 @ [] @ CMD_DMA_EXT_WRITE # [1] @ 0 #
        [0, 0, 0] @ []), gu8Crc_off = True\<rparr> = Some (M2M_SUCCESS, \<lparr>chip = ([], replicate 7 0 @ [] @
        CMD_DMA_EXT_WRITE # [1] @ 0 # [0, 0, 0] @ []), gu8Crc_off = True\<rparr>\<lparr>chip :=
    ([] @ cmd_frame (gu8Crc_off \<lparr>chip = ([] :: u8 list, replicate 7 0 @ [] @ CMD_DMA_EXT_WRITE # [1] @ 0 #
        [0, 0, 0] @ []), gu8Crc_off = True\<rparr>) [CMD_DMA_EXT_WRITE, 0, 0x12, 0x34, 0, 0, 2] @ zeros n @ [0xf3] @
     take (unat (2 :: u16)) [7, 8, 9] @ (if gu8Crc_off \<lparr>chip = ([] :: u8 list, replicate 7 0 @ [] @
        CMD_DMA_EXT_WRITE # [1] @ 0 # [0, 0, 0] @ []), gu8Crc_off = True\<rparr> then [] else [0, 0]), [])\<rparr>)"
  by (rule nm_spi_write_block_wire [where xs = "replicate 7 0" and js = "[]" and ks = "[1]" and
      ys = "[0, 0, 0]" and log = "[]"])
     (auto simp: cmd_bytes_def cmd_defs cmd_frame_def)

subsection \<open>A chip that does not answer as it should\<close>

text \<open>Byte exchange that never fails, whatever is received.\<close>

definition bus_works :: "'w spi_dev \<Rightarrow> bool" where
  "bus_works dev \<longleftrightarrow> (\<forall>tx w. fst (txrx dev tx w) = 0)"

lemma rw_works: "bus_works dev \<Longrightarrow> fst (rw_loop dev txs w) = M2M_SUCCESS"
  by (induction txs arbitrary: w) (auto simp: case_prod_unfold Let_def bus_works_def)

lemma read_works: "bus_works dev \<Longrightarrow> fst (nmi_spi_read dev k s) = M2M_SUCCESS"
  by (simp add: nmi_spi_read_def nm_spi_rw_def case_prod_unfold Let_def rw_works)

lemma write_works: "bus_works dev \<Longrightarrow> \<exists>s'. nmi_spi_write dev b s = (M2M_SUCCESS, s')"
  by (simp add: nmi_spi_write_def nm_spi_rw_def case_prod_unfold Let_def rw_works)

lemma rsp_loop_ok:
  assumes "bus_works dev"
  shows "\<exists>s'. rsp_loop dev want n s = (N_OK, s')"
proof (induction n arbitrary: s)
  case 0
  show ?case using read_works [OF assms] by (subst rsp_loop.simps) (simp add: case_prod_unfold Let_def)
next
  case (Suc n)
  then show ?case using read_works [OF assms]
    by (subst rsp_loop.simps) (auto simp: case_prod_unfold Let_def)
qed

lemma cmd_phase_works:
  assumes "bus_works dev" and bc: "cmd_bytes cmd addr v sz cl = Some bc"
    and nr: "cmd \<notin> {CMD_RESET, CMD_TERMINATE, CMD_REPEAT}"
  shows "\<exists>s'. cmd_phase dev cmd addr v sz cl s = Some (True, s')"
proof -
  obtain s1 where s1: "spi_cmd dev cmd addr v sz cl s = Some (N_OK, s1)"
    using write_works [OF assms(1), of "cmd_frame (gu8Crc_off s) bc" s]
    by (auto simp: spi_cmd_frame [OF bc])
  obtain s2 where s2: "rsp_loop dev cmd 10 s1 = (N_OK, s2)" using rsp_loop_ok [OF assms(1)] by blast
  obtain s3 where s3: "rsp_loop dev 0 10 s2 = (N_OK, s3)" using rsp_loop_ok [OF assms(1)] by blast
  have "spi_cmd_rsp dev cmd s1 = (N_OK, s3)" using s2 s3 nr by (simp add: spi_cmd_rsp_def)
  then show ?thesis using s1 by (simp add: cmd_phase_def)
qed

text \<open>
  A register write is reported as successful whenever every byte could be exchanged, whatever
  the chip answered: when the echo of the command or the status never arrives, the waiting
  loops of \<open>spi_cmd_rsp\<close> just end.
\<close>

theorem spi_write_reg_ignores_answer:
  assumes "bus_works dev"
  shows "\<exists>s'. nm_spi_write_reg dev addr v s = Some (M2M_SUCCESS, s')"
proof -
  have 1: "\<exists>s'. cmd_phase dev CMD_INTERNAL_WRITE addr v 4 True s = Some (True, s')"
    by (rule cmd_phase_works [OF assms]) (simp_all add: cmd_bytes_def cmd_defs Let_def)
  have 2: "\<exists>s'. cmd_phase dev CMD_SINGLE_WRITE addr v 4 False s = Some (True, s')"
    by (rule cmd_phase_works [OF assms]) (simp_all add: cmd_bytes_def cmd_defs Let_def)
  from 1 2 show ?thesis
    by (cases "addr \<le> 0x30") (auto simp: nm_spi_write_reg_def spi_write_reg_def to_m2m_def)
qed

theorem spi_write_reg_ignores_answer_witness:
  "\<exists>s'. nm_spi_write_reg script_dev 0x1000 5 \<lparr>chip = ([], replicate 60 0xff), gu8Crc_off = False\<rparr> =
     Some (M2M_SUCCESS, s')"
  by (rule spi_write_reg_ignores_answer) (auto simp: bus_works_def script_dev_def split: prod.splits)

text \<open>
  A block write is reported as successful although its data phase failed: \<open>nm_spi_write\<close>
  sends a reset to the chip and returns the success code.
\<close>

theorem nm_spi_write_hides_failure:
  assumes "cmd_phase dev CMD_DMA_EXT_WRITE addr 0 (ucast sz) False s = Some (True, s1)"
    and "spi_data_write dev buf sz s1 = Some (N_FAIL, s2)"
  shows "\<exists>s'. nm_spi_write_block dev addr buf sz s = Some (M2M_SUCCESS, s')"
proof -
  obtain bc where "cmd_bytes CMD_RESET 0 0 0 False = Some bc" by (simp add: cmd_bytes_def cmd_defs)
  from spi_cmd_frame [OF this, of dev s2] obtain r s3 where
    "spi_cmd dev CMD_RESET 0 0 0 False s2 = Some (r, s3)" by (auto simp: case_prod_unfold Let_def)
  with assms show ?thesis
    by (simp add: nm_spi_write_block_def nm_spi_write_def to_m2m_def N_OK_def N_FAIL_def)
qed

text \<open>A chip behind a bus that fails after a number of bytes.\<close>

definition cut_dev :: "script spi_dev" where
  "cut_dev = \<lparr>txrx = (\<lambda>tx (log, rs). case rs of [] \<Rightarrow> (-1, 0, (log, [])) | r # rs' \<Rightarrow> (0, r, (log @ [tx], rs'))),
     ssn = (\<lambda>_ w. w)\<rparr>"

theorem nm_spi_write_hides_failure_witness:
  "\<exists>s'. nm_spi_write_block cut_dev 0 [1, 2, 3] 3 \<lparr>chip = ([], [0, 0, 0, 0, 0, 0, 0, 0xc7, 0, 0]), gu8Crc_off = True\<rparr> =
    Some (M2M_SUCCESS, s')"
  by (rule nm_spi_write_hides_failure [where ?s1.0 = "\<lparr>chip = ([0xc7, 0, 0, 0, 0, 0, 3, 0, 0], [0]), gu8Crc_off = True\<rparr>"
      and ?s2.0 = "\<lparr>chip = ([0xc7, 0, 0, 0, 0, 0, 3, 0, 0, 0xf3], []), gu8Crc_off = True\<rparr>"])
     (simp_all add: cmd_phase_def spi_cmd_def cmd_bytes_def cmd_defs nmi_spi_write_def nm_spi_rw_def
       spi_cmd_rsp_def nmi_spi_read_def rsp_loop.simps cut_dev_def code_defs
       spi_data_write_def data_write_loop.simps data_write_pkt_def DATA_PKT_SZ_def idx16_0 mem_slice_def)

text \<open>Byte exchange that always fails.\<close>

definition bus_dead :: "'w spi_dev \<Rightarrow> bool" where
  "bus_dead dev \<longleftrightarrow> (\<forall>tx w. fst (txrx dev tx w) \<noteq> 0)"

lemma write_dead:
  assumes "bus_dead dev" and "b \<noteq> []"
  shows "\<exists>s'. nmi_spi_write dev b s = (M2M_ERR_BUS_FAIL, s')"
proof (cases b)
  case (Cons c cs)
  have "fst (txrx dev c w) \<noteq> 0" for w using assms(1) by (simp add: bus_dead_def)
  then have "fst (rw_loop dev b w) = M2M_ERR_BUS_FAIL" for w
    by (simp add: Cons case_prod_unfold Let_def)
  then show ?thesis by (simp add: nmi_spi_write_def nm_spi_rw_def case_prod_unfold Let_def)
qed (use assms(2) in simp)

lemma cmd_phase_dead:
  assumes "bus_dead dev" and bc: "cmd_bytes cmd addr v sz cl = Some bc" and "bc \<noteq> []"
  shows "\<exists>s'. cmd_phase dev cmd addr v sz cl s = Some (False, s')"
proof -
  have "cmd_frame (gu8Crc_off s) bc \<noteq> []" using assms(3) by (simp add: cmd_frame_def)
  from write_dead [OF assms(1) this, of s] obtain s1 where
    "spi_cmd dev cmd addr v sz cl s = Some (N_FAIL, s1)"
    by (auto simp: spi_cmd_frame [OF bc] code_defs)
  then show ?thesis by (simp add: cmd_phase_def code_defs)
qed

text \<open>
  When no byte can be exchanged at all, \<open>nm_spi_init\<close> returns \<open>M2M_SUCCESS\<close>: its two exits
  for a failing register access return 0.
\<close>

theorem nm_spi_init_dead_bus:
  assumes "bus_dead dev"
  shows "\<exists>s'. nm_spi_init dev junk s = Some (M2M_SUCCESS, s')"
proof -
  have dead: "\<exists>s'. spi_read_reg dev NMI_SPI_PROTOCOL_CONFIG s = Some (N_FAIL, None, s')" for s
  proof -
    have "\<exists>s'. cmd_phase dev CMD_SINGLE_READ NMI_SPI_PROTOCOL_CONFIG 0 4 False s = Some (False, s')"
      by (rule cmd_phase_dead [OF assms, where bc = "[CMD_SINGLE_READ, 0, 0xe8, 0x24]"])
         (simp_all add: cmd_bytes_def cmd_defs Let_def NMI_SPI_PROTOCOL_CONFIG_def)
    then show ?thesis by (auto simp: spi_read_reg_def NMI_SPI_PROTOCOL_CONFIG_def)
  qed
  obtain s1 where 1: "spi_read_reg dev NMI_SPI_PROTOCOL_CONFIG (s\<lparr>gu8Crc_off := False\<rparr>) = Some (N_FAIL, None, s1)"
    using dead by blast
  obtain s2 where 2: "spi_read_reg dev NMI_SPI_PROTOCOL_CONFIG (s1\<lparr>gu8Crc_off := True\<rparr>) = Some (N_FAIL, None, s2)"
    using dead by blast
  show ?thesis by (simp add: nm_spi_init_def 1 2 M2M_SUCCESS_def)
qed

definition dead_dev :: "unit spi_dev" where
  "dead_dev = \<lparr>txrx = (\<lambda>_ w. (-1, 0, w)), ssn = (\<lambda>_ w. w)\<rparr>"

theorem nm_spi_init_dead_bus_witness:
  "\<exists>s'. nm_spi_init dead_dev 0 \<lparr>chip = (), gu8Crc_off = False\<rparr> = Some (M2M_SUCCESS, s')"
  by (rule nm_spi_init_dead_bus) (simp add: bus_dead_def dead_dev_def)

subsection \<open>Blocks in pieces\<close>

text \<open>Write the pieces one after the other, until one fails.\<close>

fun write_pieces :: "'w spi_dev \<Rightarrow> (u32 \<times> u8 list) list \<Rightarrow> 'w nmspi \<Rightarrow> (int \<times> 'w nmspi) option" where
  "write_pieces dev [] s = Some (M2M_SUCCESS, s)"
| "write_pieces dev ((a, d) # ps) s =
     (case nm_spi_write_block dev a d (of_nat (length d)) s of
        None \<Rightarrow> None
      | Some (r, s) \<Rightarrow> if r \<noteq> M2M_SUCCESS then Some (r, s) else write_pieces dev ps s)"

text \<open>The pieces lie behind each other from address \<open>a\<close> on.\<close>

fun contiguous :: "u32 \<Rightarrow> (u32 \<times> u8 list) list \<Rightarrow> bool" where
  "contiguous a [] = True"
| "contiguous a ((b, d) # ps) = (b = a \<and> length d \<le> 248 \<and> contiguous (a + of_nat (length d)) ps)"

lemma max_trx: "u16MaxTrxSz = 248"
  by (simp add: u16MaxTrxSz_def NM_BUS_MAX_TRX_SZ_def MAX_TRX_CFG_SZ_def)

lemma write_block_take:
  assumes "n \<le> 248" and "n \<le> length b"
  shows "nm_spi_write_block dev a b (of_nat n) s = nm_spi_write_block dev a (take n b) (of_nat n) s"
proof -
  have n: "unat (of_nat n :: u16) = n" using assms(1) by (simp add: unat_of_nat take_bit_nat_eq_self)
  have "spi_data_write dev b (of_nat n) s = spi_data_write dev (take n b) (of_nat n) s" for s
    using assms by (simp add: spi_data_write_def data_write_loop.simps [of _ _ _ n] case_prod_unfold
        n DATA_PKT_SZ_def idx16_0 mem_slice_def)
  then have eq: "spi_data_write dev b (of_nat n) = spi_data_write dev (take n b) (of_nat n)" by (rule ext)
  show ?thesis unfolding nm_spi_write_block_def nm_spi_write_def eq ..
qed

lemma write_block_pieces:
  "off + sz \<le> length buf \<Longrightarrow> \<exists>ps. contiguous addr ps \<and> concat (map snd ps) = take sz (drop off buf) \<and>
     (\<forall>s. write_block_loop dev addr buf off sz s = write_pieces dev ps s)"
proof (induction sz arbitrary: addr off rule: less_induct)
  case (less sz)
  show ?case
  proof (cases "sz \<le> 248")
    case True
    with less.prems have "nm_spi_write_block dev addr (drop off buf) (of_nat sz) s =
        nm_spi_write_block dev addr (take sz (drop off buf)) (of_nat sz) s" for s
      by (intro write_block_take) auto
    with True less.prems show ?thesis
      by (intro exI [of _ "[(addr, take sz (drop off buf))]"])
         (auto simp: write_block_loop.simps [of _ _ _ _ sz] max_trx split: option.splits)
  next
    case False
    let ?d = "take 248 (drop off buf)"
    from less.IH [of "sz - 248" "off + 248" "addr + 248"] False less.prems obtain ps where
      ps: "contiguous (addr + 248) ps" "concat (map snd ps) = take (sz - 248) (drop (off + 248) buf)"
        "\<And>s. write_block_loop dev (addr + 248) buf (off + 248) (sz - 248) s = write_pieces dev ps s"
      by auto
    have len: "length ?d = 248" using False less.prems by simp
    have "nm_spi_write_block dev addr (drop off buf) (of_nat 248) s = nm_spi_write_block dev addr ?d (of_nat 248) s" for s
      using False less.prems by (intro write_block_take) auto
    then have "write_block_loop dev addr buf off sz s = write_pieces dev ((addr, ?d) # ps) s" for s
      using False len ps(3) by (subst write_block_loop.simps) (auto simp: max_trx split: option.splits)
    moreover have "concat (map snd ((addr, ?d) # ps)) = take sz (drop off buf)"
      using ps(2) False take_add [of 248 "sz - 248" "drop off buf"] by (simp add: add.commute)
    moreover have "contiguous addr ((addr, ?d) # ps)" using ps(1) len by simp
    ultimately show ?thesis by blast
  qed
qed

text \<open>
  C24: \<open>nm_write_block\<close> writes the buffer as a sequence of contiguous pieces of at most 248 bytes
  that together are exactly the first bytes of the buffer, in order and without gaps in the
  addresses, and stops at the first piece that fails.
\<close>

theorem nm_write_block_in_pieces:
  assumes "unat sz \<le> length buf"
  shows "\<exists>ps. contiguous addr ps \<and> concat (map snd ps) = take (unat sz) buf \<and>
    nm_write_block dev addr buf sz s = write_pieces dev ps s"
  using write_block_pieces [of 0 "unat sz" buf addr dev] assms by (auto simp: nm_write_block_def)

theorem nm_write_block_in_pieces_witness:
  "\<exists>ps. contiguous 0x100 ps \<and> concat (map snd ps) = take (unat (600 :: u32)) (replicate 700 7) \<and>
    nm_write_block script_dev 0x100 (replicate 700 7) 600 \<lparr>chip = ([], []), gu8Crc_off = True\<rparr> =
      write_pieces script_dev ps \<lparr>chip = ([], []), gu8Crc_off = True\<rparr>"
  by (rule nm_write_block_in_pieces) simp

end
