(* ===== verification/M2m_Hif.thy ===== *)
theory M2m_Hif
  imports Nm_Bus
begin

text \<open>
  The host interface of \<open>driver/m2m_hif.c\<close>: packets to and from the WINC1500 firmware over the bus
  layer, with the wake counter, the interrupt counter and the callbacks by group. The bus layer
  is a record of operations, so that the lemmas hold for every chip; \<open>spi_bus\<close> is the one of
  \<open>nmbus.c\<close>. \<open>None\<close> is a fault or a function that does not return. The wake-up through the
  clockless registers is \<open>nm_clkless_wake\<close> of \<open>driver/nmasic.c\<close>.
\<close>

record 'w nm_bus =
  b_rreg :: "u32 \<Rightarrow> 'w \<Rightarrow> (int \<times> u32 option \<times> 'w) option"
  b_wreg :: "u32 \<Rightarrow> u32 \<Rightarrow> 'w \<Rightarrow> (int \<times> 'w) option"
  b_rblk :: "u32 \<Rightarrow> u8 list \<Rightarrow> u32 \<Rightarrow> 'w \<Rightarrow> (int \<times> u8 list \<times> 'w) option"
  b_wblk :: "u32 \<Rightarrow> u8 list \<Rightarrow> u32 \<Rightarrow> 'w \<Rightarrow> (int \<times> 'w) option"

definition spi_bus :: "'w spi_dev \<Rightarrow> 'w nmspi nm_bus" where
  "spi_bus dev = \<lparr>b_rreg = nm_read_reg_with_ret dev, b_wreg = nm_write_reg dev,
     b_rblk = nm_read_block dev, b_wblk = nm_write_block dev\<rparr>"

text \<open>The state of the driver: the static variables of \<open>m2m_hif.c\<close>, and behind \<open>irq_on\<close> those of \<open>nmasic.c\<close> and
  \<open>m2m_wifi.c\<close>, whose functions run on the same state.\<close>

record 'w hif =
  bus_st :: 'w
  gu8ChipMode :: u8
  gu8ChipSleep :: u8
  gu8HifSizeDone :: bool
  gu8Interrupt :: u8
  gu8FlowCtrl :: bool
  pfWifiCb :: u32
  pfIpCb :: u32
  pfOtaCb :: u32
  pfSigmaCb :: u32
  pfHifCb :: u32
  pfCryptoCb :: u32
  irq_on :: bool
  clk_status_reg_adr :: u32
  nmi_chipid :: u32
  gu8ChNum :: u8
  gu8scanInProgress :: u8
  gpfAppWifiCb :: u32

definition M2M_NO_PS :: u8 where "M2M_NO_PS = 0"
definition M2M_PS_DEEP_AUTOMATIC :: u8 where "M2M_PS_DEEP_AUTOMATIC = 3"
definition M2M_PS_MANUAL :: u8 where "M2M_PS_MANUAL = 4"

definition M2M_REQ_GROUP_WIFI :: u8 where "M2M_REQ_GROUP_WIFI = 1"
definition M2M_REQ_GROUP_IP :: u8 where "M2M_REQ_GROUP_IP = 2"
definition M2M_REQ_GROUP_HIF :: u8 where "M2M_REQ_GROUP_HIF = 3"
definition M2M_REQ_GROUP_OTA :: u8 where "M2M_REQ_GROUP_OTA = 4"
definition M2M_REQ_GROUP_CRYPTO :: u8 where "M2M_REQ_GROUP_CRYPTO = 6"
definition M2M_REQ_GROUP_SIGMA :: u8 where "M2M_REQ_GROUP_SIGMA = 7"

lemmas group_defs = M2M_REQ_GROUP_WIFI_def M2M_REQ_GROUP_IP_def M2M_REQ_GROUP_HIF_def
  M2M_REQ_GROUP_OTA_def M2M_REQ_GROUP_CRYPTO_def M2M_REQ_GROUP_SIGMA_def

definition WIFI_HOST_RCV_CTRL_0 :: u32 where "WIFI_HOST_RCV_CTRL_0 = 0x1070"
definition WIFI_HOST_RCV_CTRL_1 :: u32 where "WIFI_HOST_RCV_CTRL_1 = 0x1084"
definition WIFI_HOST_RCV_CTRL_2 :: u32 where "WIFI_HOST_RCV_CTRL_2 = 0x1078"
definition WIFI_HOST_RCV_CTRL_3 :: u32 where "WIFI_HOST_RCV_CTRL_3 = 0x106c"
definition WAKE_VALUE :: u32 where "WAKE_VALUE = 0x5678"
definition SLEEP_VALUE :: u32 where "SLEEP_VALUE = 0x4321"
definition WAKE_REG :: u32 where "WAKE_REG = 0x1074"
definition NMI_STATE_REG :: u32 where "NMI_STATE_REG = 0x108c"

definition M2M_ERR_INVALID_ARG :: int where "M2M_ERR_INVALID_ARG = -15"

definition M2M_HIF_HDR_OFFSET :: nat where "M2M_HIF_HDR_OFFSET = 8"

subsection \<open>Bus accesses of the layer\<close>

definition rd_reg :: "'w nm_bus \<Rightarrow> u32 \<Rightarrow> ('w, 'z) hif_scheme \<Rightarrow> (int \<times> u32 option \<times> ('w, 'z) hif_scheme) option" where
  "rd_reg bus a h = map_option (\<lambda>(r, v, w). (r, v, h\<lparr>bus_st := w\<rparr>)) (b_rreg bus a (bus_st h))"

definition wr_reg :: "'w nm_bus \<Rightarrow> u32 \<Rightarrow> u32 \<Rightarrow> ('w, 'z) hif_scheme \<Rightarrow> (int \<times> ('w, 'z) hif_scheme) option" where
  "wr_reg bus a v h = map_option (\<lambda>(r, w). (r, h\<lparr>bus_st := w\<rparr>)) (b_wreg bus a v (bus_st h))"

definition rd_block :: "'w nm_bus \<Rightarrow> u32 \<Rightarrow> u8 list \<Rightarrow> nat \<Rightarrow> ('w, 'z) hif_scheme \<Rightarrow> (int \<times> u8 list \<times> ('w, 'z) hif_scheme) option" where
  "rd_block bus a buf n h =
     map_option (\<lambda>(r, b, w). (r, b, h\<lparr>bus_st := w\<rparr>)) (b_rblk bus a buf (of_nat n) (bus_st h))"

definition wr_block :: "'w nm_bus \<Rightarrow> u32 \<Rightarrow> u8 list \<Rightarrow> nat \<Rightarrow> ('w, 'z) hif_scheme \<Rightarrow> (int \<times> ('w, 'z) hif_scheme) option" where
  "wr_block bus a buf n h = map_option (\<lambda>(r, w). (r, h\<lparr>bus_st := w\<rparr>)) (b_wblk bus a buf (of_nat n) (bus_st h))"

text \<open>\<open>if (ret != M2M_SUCCESS) goto ERR1;\<close> where \<open>ERR1\<close> returns \<open>ret\<close>.\<close>

definition on_ok :: "(int \<times> 'h) option \<Rightarrow> ('h \<Rightarrow> (int \<times> 'h) option) \<Rightarrow> (int \<times> 'h) option" where
  "on_ok r k = (case r of None \<Rightarrow> None
     | Some (ret, h) \<Rightarrow> if ret \<noteq> M2M_SUCCESS then Some (ret, h) else k h)"

text \<open>The same after a read; a successful read has written the value.\<close>

definition on_val :: "(int \<times> 'v option \<times> 'h) option \<Rightarrow> ('v \<Rightarrow> 'h \<Rightarrow> (int \<times> 'h) option) \<Rightarrow> (int \<times> 'h) option" where
  "on_val r k = (case r of None \<Rightarrow> None
     | Some (ret, v, h) \<Rightarrow> if ret \<noteq> M2M_SUCCESS then Some (ret, h)
         else (case v of None \<Rightarrow> None | Some x \<Rightarrow> k x h))"

subsection \<open>Wake and sleep\<close>

text \<open>Read of a variable that keeps its old value when the bus fails.\<close>

definition keep :: "u32 \<Rightarrow> u32 option \<Rightarrow> u32" where
  "keep old v = (case v of Some x \<Rightarrow> x | None \<Rightarrow> old)"

text \<open>The status register is looked for at three addresses.\<close>

definition clk_status :: "'w nm_bus \<Rightarrow> u32 \<Rightarrow> ('w, 'z) hif_scheme \<Rightarrow> (int \<times> u32 \<times> ('w, 'z) hif_scheme) option" where
  "clk_status bus st h = do {
     (ret, v, h) \<leftarrow> rd_reg bus (clk_status_reg_adr h) h;
     let st = keep st v;
     (if ret \<noteq> M2M_SUCCESS \<or> st = 0
      then do {
        let h = h\<lparr>clk_status_reg_adr := 0xe\<rparr>;
        (ret, v, h) \<leftarrow> rd_reg bus 0xe h;
        let st = keep st v;
        (if ret \<noteq> M2M_SUCCESS \<or> st = 0
         then do {
           let h = h\<lparr>clk_status_reg_adr := 0x13\<rparr>;
           (ret, v, h) \<leftarrow> rd_reg bus 0x13 h;
           Some (ret, keep st v, h) }
         else Some (ret, st, h)) }
      else Some (ret, st, h)) }"

partial_function (option) wake_loop ::
    "'w nm_bus \<Rightarrow> u32 \<Rightarrow> u32 \<Rightarrow> nat \<Rightarrow> ('w, 'z) hif_scheme \<Rightarrow> (int \<times> ('w, 'z) hif_scheme) option" where
  "wake_loop bus reg st trials h =
     Option.bind (wr_reg bus 0x1 (reg OR push_bit 1 1) h) (\<lambda>(_, h).
     Option.bind (clk_status bus st h) (\<lambda>(ret, st, h).
       if ret \<noteq> M2M_SUCCESS then Some (ret, h)
       else
         Option.bind
           (if st AND 0x4 = 0
            then (if Suc trials mod 3 = 0
                  then Option.bind (rd_reg bus (clk_status_reg_adr h) h) (\<lambda>(_, v, h).
                         Some (keep st v, if keep st v AND 0x4 = 0 then trials + 2 else trials + 1, h))
                  else Some (st, trials + 1, h))
            else Some (st, trials, h)) (\<lambda>(st, trials, h).
           if st AND 0x4 = 0
           then Option.bind (wr_reg bus 0x1 (reg OR push_bit 1 1) h) (\<lambda>(_, h). wake_loop bus reg st trials h)
           else Some (ret, h))))"

text \<open>\<open>junk\<close>: the value of the status variable before it is first read.\<close>

definition nm_clkless_wake :: "'w nm_bus \<Rightarrow> u32 \<Rightarrow> ('w, 'z) hif_scheme \<Rightarrow> (int \<times> ('w, 'z) hif_scheme) option" where
  "nm_clkless_wake bus junk h = on_val (rd_reg bus 0x1 h) (\<lambda>reg h. wake_loop bus reg junk 0 h)"

definition deep_sleep_mode :: "('w, 'z) hif_scheme \<Rightarrow> bool" where
  "deep_sleep_mode h \<longleftrightarrow> gu8ChipMode h = M2M_PS_DEEP_AUTOMATIC \<or> gu8ChipMode h = M2M_PS_MANUAL"

definition hif_chip_wake :: "'w nm_bus \<Rightarrow> u32 \<Rightarrow> ('w, 'z) hif_scheme \<Rightarrow> (int \<times> ('w, 'z) hif_scheme) option" where
  "hif_chip_wake bus junk h =
     on_ok
       (if gu8ChipSleep h = 0 \<and> deep_sleep_mode h
        then on_ok (nm_clkless_wake bus junk h) (\<lambda>h. wr_reg bus WAKE_REG WAKE_VALUE h)
        else Some (M2M_SUCCESS, h))
       (\<lambda>h. Some (M2M_SUCCESS, h\<lparr>gu8ChipSleep := gu8ChipSleep h + 1\<rparr>))"

definition hif_set_sleep_mode :: "u8 \<Rightarrow> ('w, 'z) hif_scheme \<Rightarrow> ('w, 'z) hif_scheme" where
  "hif_set_sleep_mode m h = h\<lparr>gu8ChipMode := m\<rparr>"

definition hif_get_sleep_mode :: "('w, 'z) hif_scheme \<Rightarrow> u8" where
  "hif_get_sleep_mode h = gu8ChipMode h"

definition hif_chip_sleep :: "'w nm_bus \<Rightarrow> ('w, 'z) hif_scheme \<Rightarrow> (int \<times> ('w, 'z) hif_scheme) option" where
  "hif_chip_sleep bus h =
     (let h = (if gu8ChipSleep h \<ge> 1 then h\<lparr>gu8ChipSleep := gu8ChipSleep h - 1\<rparr> else h)
      in if gu8ChipSleep h = 0 \<and> deep_sleep_mode h
         then on_ok (wr_reg bus WAKE_REG SLEEP_VALUE h) (\<lambda>h.
                on_val (rd_reg bus 0x1 h) (\<lambda>reg h.
                  if reg AND 0x2 \<noteq> 0 then wr_reg bus 0x1 (reg AND NOT (push_bit 1 1)) h
                  else Some (M2M_SUCCESS, h)))
         else Some (M2M_SUCCESS, h))"

subsection \<open>Set-up\<close>

definition isr :: "('w, 'z) hif_scheme \<Rightarrow> ('w, 'z) hif_scheme" where
  "isr h = h\<lparr>gu8Interrupt := gu8Interrupt h + 1, irq_on := False\<rparr>"

definition hif_register_cb :: "u8 \<Rightarrow> u32 \<Rightarrow> ('w, 'z) hif_scheme \<Rightarrow> int \<times> ('w, 'z) hif_scheme" where
  "hif_register_cb grp fn h =
     (if grp = M2M_REQ_GROUP_IP then (M2M_SUCCESS, h\<lparr>pfIpCb := fn\<rparr>)
      else if grp = M2M_REQ_GROUP_WIFI then (M2M_SUCCESS, h\<lparr>pfWifiCb := fn\<rparr>)
      else if grp = M2M_REQ_GROUP_OTA then (M2M_SUCCESS, h\<lparr>pfOtaCb := fn\<rparr>)
      else if grp = M2M_REQ_GROUP_HIF then (M2M_SUCCESS, h\<lparr>pfHifCb := fn\<rparr>)
      else if grp = M2M_REQ_GROUP_CRYPTO then (M2M_SUCCESS, h\<lparr>pfCryptoCb := fn\<rparr>)
      else if grp = M2M_REQ_GROUP_SIGMA then (M2M_SUCCESS, h\<lparr>pfSigmaCb := fn\<rparr>)
      else (M2M_ERR_FAIL, h))"

text \<open>\<open>m2m_hif_cb\<close>: the address of the empty callback; registering the handler enables the pin
  interrupt.\<close>

definition hif_init :: "u32 \<Rightarrow> ('w, 'z) hif_scheme \<Rightarrow> int \<times> ('w, 'z) hif_scheme" where
  "hif_init m2m_hif_cb h =
     (let h = h\<lparr>pfWifiCb := 0, pfIpCb := 0, gu8ChipSleep := 0, gu8ChipMode := M2M_NO_PS,
               gu8Interrupt := 0, irq_on := True\<rparr>
      in (M2M_SUCCESS, snd (hif_register_cb M2M_REQ_GROUP_HIF m2m_hif_cb h)))"

definition hif_deinit :: "'w nm_bus \<Rightarrow> u32 \<Rightarrow> ('w, 'z) hif_scheme \<Rightarrow> (int \<times> ('w, 'z) hif_scheme) option" where
  "hif_deinit bus junk h = do {
     (ret, h) \<leftarrow> hif_chip_wake bus junk h;
     Some (ret, h\<lparr>gu8ChipMode := 0, gu8ChipSleep := 0, gu8HifSizeDone := False, gu8Interrupt := 0,
       pfWifiCb := 0, pfIpCb := 0, pfOtaCb := 0, pfHifCb := 0\<rparr>) }"

definition hif_flow_ctrl :: "bool \<Rightarrow> ('w, 'z) hif_scheme \<Rightarrow> ('w, 'z) hif_scheme" where
  "hif_flow_ctrl stop h = h\<lparr>gu8FlowCtrl := stop\<rparr>"

subsection \<open>Sending\<close>

text \<open>The polling loop: the DMA address granted by the chip, 0 when there is none.\<close>

fun dma_poll :: "'w nm_bus \<Rightarrow> nat \<Rightarrow> ('w, 'z) hif_scheme \<Rightarrow> (u32 \<times> ('w, 'z) hif_scheme) option" where
  "dma_poll bus 0 h = Some (0, h)"
| "dma_poll bus (Suc n) h =
     (case rd_reg bus WIFI_HOST_RCV_CTRL_2 h of
        None \<Rightarrow> None
      | Some (ret, v, h) \<Rightarrow>
          if ret \<noteq> M2M_SUCCESS then Some (0, h)
          else
            (case v of
               None \<Rightarrow> None
             | Some reg \<Rightarrow>
                 if reg AND 0x2 = 0
                 then
                   (case rd_reg bus 0x150400 h of
                      None \<Rightarrow> None
                    | Some (ret, v, h) \<Rightarrow> Some (if ret \<noteq> M2M_SUCCESS then 0 else keep 0 v, h))
                 else dma_poll bus n h))"

definition hif_length :: "u16 \<Rightarrow> u8 list option \<Rightarrow> u16 \<Rightarrow> u16 \<Rightarrow> u16" where
  "hif_length ctrlsz data datasz dataoff =
     (case data of Some _ \<Rightarrow> of_nat M2M_HIF_HDR_OFFSET + (dataoff + datasz)
      | None \<Rightarrow> of_nat M2M_HIF_HDR_OFFSET + ctrlsz)"

text \<open>The header struct has four bytes, but eight are written from its address: \<open>stack\<close> are the
  four bytes that happen to follow it in memory.\<close>

definition hif_header :: "u8 list \<Rightarrow> u8 \<Rightarrow> u8 \<Rightarrow> u16 \<Rightarrow> u8 list" where
  "hif_header stack gid opcode len = [gid, opcode AND NOT 0x80] @ le16 len @ stack"

definition hif_send :: "'w nm_bus \<Rightarrow> u32 \<Rightarrow> u8 list \<Rightarrow> u8 \<Rightarrow> u8 \<Rightarrow> u8 list option \<Rightarrow> u16 \<Rightarrow> u8 list option \<Rightarrow>
    u16 \<Rightarrow> u16 \<Rightarrow> ('w, 'z) hif_scheme \<Rightarrow> (int \<times> ('w, 'z) hif_scheme) option" where
  "hif_send bus junk stack gid opcode ctrl ctrlsz data datasz dataoff h =
     (let len = hif_length ctrlsz data datasz dataoff in
      on_ok (hif_chip_wake bus junk h) (\<lambda>h.
      on_ok (wr_reg bus NMI_STATE_REG (ucast gid OR push_bit 8 (ucast opcode) OR push_bit 16 (ucast len)) h) (\<lambda>h.
      on_ok (wr_reg bus WIFI_HOST_RCV_CTRL_2 (push_bit 1 1) h) (\<lambda>h.
        (case dma_poll bus 1000 h of
           None \<Rightarrow> None
         | Some (dma_addr, h) \<Rightarrow>
             if dma_addr = 0 then Some (M2M_ERR_MEM_ALLOC, h)
             else
               on_ok (wr_block bus dma_addr (hif_header stack gid opcode len) M2M_HIF_HDR_OFFSET h) (\<lambda>h.
               let cur = dma_addr + of_nat M2M_HIF_HDR_OFFSET in
               on_ok (case ctrl of Some c \<Rightarrow> wr_block bus cur c (unat ctrlsz) h | None \<Rightarrow> Some (M2M_SUCCESS, h)) (\<lambda>h.
               let cur = (case ctrl of Some _ \<Rightarrow> cur + ucast ctrlsz | None \<Rightarrow> cur) in
               on_ok (case data of
                        Some d \<Rightarrow> wr_block bus (cur + (ucast dataoff - ucast ctrlsz)) d (unat datasz) h
                      | None \<Rightarrow> Some (M2M_SUCCESS, h)) (\<lambda>h.
               on_ok (wr_reg bus WIFI_HOST_RCV_CTRL_3 (push_bit 2 dma_addr OR push_bit 1 1) h) (\<lambda>h.
                 hif_chip_sleep bus h)))))))))"

subsection \<open>Receiving\<close>

definition hif_set_rx_done :: "'w nm_bus \<Rightarrow> ('w, 'z) hif_scheme \<Rightarrow> (int \<times> ('w, 'z) hif_scheme) option" where
  "hif_set_rx_done bus h =
     on_val (rd_reg bus WIFI_HOST_RCV_CTRL_0 h) (\<lambda>reg h.
     on_ok (wr_reg bus WIFI_HOST_RCV_CTRL_0 (reg OR push_bit 1 1) h) (\<lambda>h.
       Some (M2M_SUCCESS, h\<lparr>irq_on := True\<rparr>)))"

text \<open>\<open>cb f op sz addr\<close>: the effect of the callback function at address \<open>f\<close>.\<close>

type_synonym ('w, 'z) hif_cb = "u32 \<Rightarrow> u8 \<Rightarrow> u16 \<Rightarrow> u32 \<Rightarrow> ('w, 'z) hif_scheme \<Rightarrow> ('w, 'z) hif_scheme option"

text \<open>The callback registered for a group; \<open>None\<close> for an invalid group.\<close>

definition group_cb :: "u8 \<Rightarrow> ('w, 'z) hif_scheme \<Rightarrow> u32 option" where
  "group_cb gid h =
     (if gid = M2M_REQ_GROUP_WIFI then Some (pfWifiCb h)
      else if gid = M2M_REQ_GROUP_IP then Some (pfIpCb h)
      else if gid = M2M_REQ_GROUP_OTA then Some (pfOtaCb h)
      else if gid = M2M_REQ_GROUP_CRYPTO then Some (pfCryptoCb h)
      else if gid = M2M_REQ_GROUP_SIGMA then Some (pfSigmaCb h)
      else None)"

definition hif_dispatch :: "'w nm_bus \<Rightarrow> ('w, 'z) hif_cb \<Rightarrow> u32 \<Rightarrow> u8 list \<Rightarrow> ('w, 'z) hif_scheme \<Rightarrow> (int \<times> ('w, 'z) hif_scheme) option" where
  "hif_dispatch bus cb address hdr h =
     (case group_cb (hdr ! 0) h of
        None \<Rightarrow> Some (M2M_ERR_BUS_FAIL, h)
      | Some f \<Rightarrow> do {
          h \<leftarrow> (if f = 0 then Some h
               else cb f (hdr ! 1) (of_le16 (drop 2 hdr) - of_nat M2M_HIF_HDR_OFFSET)
                      (address + of_nat M2M_HIF_HDR_OFFSET) h);
          (if \<not> gu8HifSizeDone h then hif_set_rx_done bus h else Some (M2M_SUCCESS, h)) })"

text \<open>The handling of one interrupt. The result of \<open>hif_set_rx_done\<close> after the callback is
  overwritten by that of \<open>hif_chip_sleep\<close>, an error of the dispatch is not.\<close>

definition hif_isr_body :: "'w nm_bus \<Rightarrow> ('w, 'z) hif_cb \<Rightarrow> ('w, 'z) hif_scheme \<Rightarrow> (int \<times> ('w, 'z) hif_scheme) option" where
  "hif_isr_body bus cb h =
     on_val (rd_reg bus WIFI_HOST_RCV_CTRL_0 h) (\<lambda>reg h.
       if reg AND 0x1 = 0 then Some (M2M_SUCCESS, h)
       else
         let h = h\<lparr>irq_on := False\<rparr>;
             reg = reg AND NOT 1
         in on_ok (wr_reg bus WIFI_HOST_RCV_CTRL_0 reg h) (\<lambda>h.
           let h = h\<lparr>gu8HifSizeDone := False\<rparr>;
               size = drop_bit 2 reg AND 0xfff
           in if size = 0 then Some (M2M_ERR_RCV, h)
              else
                (case rd_reg bus WIFI_HOST_RCV_CTRL_1 h of
                   None \<Rightarrow> None
                 | Some (ret, v, h) \<Rightarrow>
                     if ret \<noteq> M2M_SUCCESS then Some (ret, h\<lparr>irq_on := True\<rparr>)
                     else
                       let address = keep 0 v
                       in (case rd_block bus address [0, 0, 0, 0] 4 h of
                             None \<Rightarrow> None
                           | Some (ret, hdr, h) \<Rightarrow>
                               if ret \<noteq> M2M_SUCCESS then Some (ret, h\<lparr>irq_on := True\<rparr>)
                               else if uint size - uint (of_le16 (drop 2 hdr)) > 4
                               then Some (M2M_ERR_BUS_FAIL, h\<lparr>irq_on := True\<rparr>)
                               else
                                 (case hif_dispatch bus cb address hdr h of
                                    None \<Rightarrow> None
                                  | Some (ret, h') \<Rightarrow>
                                      if group_cb (hdr ! 0) h = None then Some (ret, h')
                                      else Some (M2M_SUCCESS, h'))))))"

definition hif_isr :: "'w nm_bus \<Rightarrow> u32 \<Rightarrow> ('w, 'z) hif_cb \<Rightarrow> ('w, 'z) hif_scheme \<Rightarrow> (int \<times> ('w, 'z) hif_scheme) option" where
  "hif_isr bus junk cb h =
     on_ok (hif_chip_wake bus junk h) (\<lambda>h. on_ok (hif_isr_body bus cb h) (\<lambda>h. hif_chip_sleep bus h))"

partial_function (option) isr_retry ::
    "'w nm_bus \<Rightarrow> u32 \<Rightarrow> ('w, 'z) hif_cb \<Rightarrow> ('w, 'z) hif_scheme \<Rightarrow> ('w, 'z) hif_scheme option" where
  "isr_retry bus junk cb h =
     Option.bind (hif_isr bus junk cb h)
       (\<lambda>(ret, h). if ret = M2M_SUCCESS then Some h else isr_retry bus junk cb h)"

partial_function (option) hif_handle_isr ::
    "'w nm_bus \<Rightarrow> u32 \<Rightarrow> ('w, 'z) hif_cb \<Rightarrow> ('w, 'z) hif_scheme \<Rightarrow> (int \<times> ('w, 'z) hif_scheme) option" where
  "hif_handle_isr bus junk cb h =
     (if gu8Interrupt h \<noteq> 0 \<and> \<not> gu8FlowCtrl h
      then Option.bind (isr_retry bus junk cb (h\<lparr>gu8Interrupt := gu8Interrupt h - 1\<rparr>))
             (\<lambda>h. hif_handle_isr bus junk cb h)
      else Some (M2M_SUCCESS, h))"

text \<open>\<open>buf\<close> is \<open>None\<close> for a null pointer; the result carries the buffer after the call.\<close>

definition hif_receive :: "'w nm_bus \<Rightarrow> u32 \<Rightarrow> u8 list option \<Rightarrow> u16 \<Rightarrow> bool \<Rightarrow> ('w, 'z) hif_scheme \<Rightarrow>
    (int \<times> u8 list option \<times> ('w, 'z) hif_scheme) option" where
  "hif_receive bus addr buf sz isDone h =
     (let rx_done = (\<lambda>buf h. map_option (\<lambda>(r, h). (r, buf, h)) (hif_set_rx_done bus (h\<lparr>gu8HifSizeDone := True\<rparr>)))
      in case buf of
        None \<Rightarrow> if isDone then rx_done buf h else Some (M2M_ERR_FAIL, buf, h)
      | Some b \<Rightarrow>
          if addr = 0 \<or> sz = 0 then (if isDone then rx_done buf h else Some (M2M_ERR_FAIL, buf, h))
          else
            (case rd_reg bus WIFI_HOST_RCV_CTRL_0 h of
               None \<Rightarrow> None
             | Some (ret, v, h) \<Rightarrow>
                 if ret \<noteq> M2M_SUCCESS then Some (ret, buf, h)
                 else
                   let size = drop_bit 2 (keep 0 v) AND 0xfff
                   in (case rd_reg bus WIFI_HOST_RCV_CTRL_1 h of
                         None \<Rightarrow> None
                       | Some (ret, v, h) \<Rightarrow>
                           if ret \<noteq> M2M_SUCCESS then Some (ret, buf, h)
                           else
                             let address = keep 0 v
                             in if ucast sz > size then Some (M2M_ERR_FAIL, buf, h)
                                else if addr < address \<or> addr + ucast sz > address + size
                                then Some (M2M_ERR_FAIL, buf, h)
                                else
                                  (case rd_block bus addr b (unat sz) h of
                                     None \<Rightarrow> None
                                   | Some (ret, b, h) \<Rightarrow>
                                       if ret \<noteq> M2M_SUCCESS then Some (ret, Some b, h)
                                       else if (address + size) - (addr + ucast sz) \<le> 0 \<or> isDone
                                       then rx_done (Some b) h
                                       else Some (M2M_SUCCESS, Some b, h)))))"

end
