(* ===== verification/Nm_Common.thy ===== *)
theory Nm_Common
  imports Prelude "HOL-Library.Sublist"
begin

text \<open>
  The memory and string helpers of \<open>common/nm_common.c\<close>. A pointer is the rest of the memory object
  it points into, so that reading past the end is \<open>None\<close>.
\<close>

fun m2m_memcpy :: "u8 list \<Rightarrow> u8 list \<Rightarrow> nat \<Rightarrow> u8 list option" where
  "m2m_memcpy dst src 0 = Some dst"
| "m2m_memcpy (_ # dst) (x # src) (Suc n) = map_option ((#) x) (m2m_memcpy dst src n)"
| "m2m_memcpy _ _ _ = None"

fun m2m_memset :: "u8 list \<Rightarrow> u8 \<Rightarrow> nat \<Rightarrow> u8 list option" where
  "m2m_memset buf v 0 = Some buf"
| "m2m_memset (_ # buf) v (Suc n) = map_option ((#) v) (m2m_memset buf v n)"
| "m2m_memset _ _ _ = None"

text \<open>\<open>while (--sz)\<close>: one byte less than \<open>sz\<close>; a size of 0 or less runs off the memory.\<close>

fun checksum_loop :: "u8 \<Rightarrow> u8 list \<Rightarrow> nat \<Rightarrow> u8 option" where
  "checksum_loop cs _ 0 = Some cs"
| "checksum_loop cs (x # buf) (Suc n) = checksum_loop (cs XOR x) buf n"
| "checksum_loop _ _ _ = None"

definition m2m_checksum :: "u8 list \<Rightarrow> int \<Rightarrow> u8 option" where
  "m2m_checksum buf sz = (if sz \<le> 0 then None else checksum_loop 0 buf (nat (sz - 1)))"

fun strlen_loop :: "u16 \<Rightarrow> u8 list \<Rightarrow> u16 option" where
  "strlen_loop n [] = None"
| "strlen_loop n (c # cs) = (if c = 0 then Some n else strlen_loop (n + 1) cs)"

definition m2m_strlen :: "u8 list \<Rightarrow> u16 option" where
  "m2m_strlen = strlen_loop 0"

fun m2m_strncmp :: "u8 list \<Rightarrow> u8 list \<Rightarrow> nat \<Rightarrow> u8 option" where
  "m2m_strncmp _ _ 0 = Some 0"
| "m2m_strncmp (a # as) (b # bs) (Suc n) =
     (if a \<noteq> b then Some (if a < b then - 1 else 1) else if a = 0 then Some 0 else m2m_strncmp as bs n)"
| "m2m_strncmp _ _ _ = None"

text \<open>\<open>Some None\<close>: the null pointer; \<open>Some (Some i)\<close>: the pointer \<open>pcIn + i\<close>. The two nested loops
  both advance \<open>pcIn\<close>.\<close>

fun strstr_loop :: "u8 \<Rightarrow> u8 list \<Rightarrow> nat \<Rightarrow> u8 list \<Rightarrow> nat \<Rightarrow> nat option option" where
  "strstr_loop c str len [] i = None"
| "strstr_loop c str len (x # xs) i =
     (if x = 0 then Some None
      else if x \<noteq> c then strstr_loop c str len xs (Suc i)
      else
        (case m2m_strncmp xs str len of
           None \<Rightarrow> None
         | Some r \<Rightarrow> if r \<noteq> 0 then strstr_loop c str len xs (Suc i) else Some (Some i)))"

definition m2m_strstr :: "u8 list \<Rightarrow> u8 list \<Rightarrow> nat option option" where
  "m2m_strstr pcIn pcStr =
     (case pcStr of
        [] \<Rightarrow> None
      | c # str \<Rightarrow>
          if c = 0 then Some (Some 0)
          else do { len \<leftarrow> m2m_strlen str; strstr_loop c str (unat len) pcIn 0 })"

fun m2m_memcmp :: "u8 list \<Rightarrow> u8 list \<Rightarrow> nat \<Rightarrow> int option" where
  "m2m_memcmp _ _ 0 = Some 0"
| "m2m_memcmp (a # as) (b # bs) (Suc n) = (if a \<noteq> b then Some 1 else m2m_memcmp as bs n)"
| "m2m_memcmp _ _ _ = None"

subsection \<open>Strings\<close>

lemma strlen_loop_string:
  "0 \<notin> set s \<Longrightarrow> strlen_loop n (s @ 0 # r) = Some (n + of_nat (length s))"
  by (induction s arbitrary: n) (auto simp: algebra_simps)

lemma m2m_strlen_string: "0 \<notin> set s \<Longrightarrow> m2m_strlen (s @ 0 # r) = Some (of_nat (length s))"
  by (simp add: m2m_strlen_def strlen_loop_string)

lemma strncmp_prefix:
  "0 \<notin> set xs \<Longrightarrow> 0 \<notin> set ys \<Longrightarrow>
     \<exists>r. m2m_strncmp (xs @ 0 # p) (ys @ 0 # q) (length ys) = Some r \<and> (r = 0 \<longleftrightarrow> prefix ys xs)"
proof (induction ys arbitrary: xs)
  case (Cons y ys)
  then show ?case by (cases xs) (auto simp: eq_commute [of 0])
qed simp

text \<open>\<open>r\<close> is the position of the first occurrence, \<open>None\<close> when there is none.\<close>

definition first_at :: "u8 list \<Rightarrow> u8 list \<Rightarrow> nat option \<Rightarrow> bool" where
  "first_at needle hay r \<longleftrightarrow>
     (case r of
        Some j \<Rightarrow> prefix needle (drop j hay) \<and> (\<forall>k<j. \<not> prefix needle (drop k hay))
      | None \<Rightarrow> \<forall>k. \<not> prefix needle (drop k hay))"

lemma first_at_Cons:
  assumes "\<not> prefix needle (x # hay)" "first_at needle hay r"
  shows "first_at needle (x # hay) (map_option Suc r)"
proof -
  have "\<not> prefix needle (drop k (x # hay)) \<longleftrightarrow> k = 0 \<or> \<not> prefix needle (drop (k - 1) hay)" for k
    using assms(1) by (cases k) auto
  with assms(2) show ?thesis
    by (cases r) (auto simp: first_at_def less_Suc_eq_0_disj)
qed

lemma strstr_loop_string:
  assumes "0 \<notin> set str" "c \<noteq> 0" "0 \<notin> set hay"
  shows "\<exists>r. strstr_loop c (str @ 0 # q) (length str) (hay @ 0 # p) i = Some (map_option (\<lambda>j. i + j) r) \<and>
    first_at (c # str) hay r"
  using assms
proof (induction hay arbitrary: i)
  case Nil
  then show ?case by (auto simp: first_at_def intro: exI [of _ None])
next
  case (Cons x hay)
  obtain r where r: "m2m_strncmp (hay @ 0 # p) (str @ 0 # q) (length str) = Some r" "r = 0 \<longleftrightarrow> prefix str hay"
    using strncmp_prefix [of hay str p q] Cons.prems by auto
  show ?case
  proof (cases "prefix (c # str) (x # hay)")
    case True
    then show ?thesis using r Cons.prems by (auto simp: first_at_def intro!: exI [of _ "Some 0"])
  next
    case False
    with r Cons.prems have "strstr_loop c (str @ 0 # q) (length str) ((x # hay) @ 0 # p) i =
        strstr_loop c (str @ 0 # q) (length str) (hay @ 0 # p) (Suc i)"
      by auto
    moreover obtain r' where "strstr_loop c (str @ 0 # q) (length str) (hay @ 0 # p) (Suc i) =
        Some (map_option (\<lambda>j. Suc i + j) r')" "first_at (c # str) hay r'"
      using Cons.IH [of "Suc i"] Cons.prems by (auto simp del: add_Suc)
    ultimately show ?thesis
      using first_at_Cons [OF False] by (intro exI [of _ "map_option Suc r'"]) (simp add: option.map_comp comp_def)
  qed
qed

text \<open>
  For two strings terminated by a zero byte, the second shorter than 64 KiB, \<open>m2m_strstr\<close>
  returns the position of the first occurrence of the second in the first, or the null pointer
  if there is none, and reads nothing behind the terminators.
\<close>

theorem m2m_strstr_first:
  assumes "0 \<notin> set hay" "0 \<notin> set needle" "length needle \<le> 2 ^ 16"
  shows "\<exists>r. m2m_strstr (hay @ 0 # p) (needle @ 0 # q) = Some r \<and> first_at needle hay r"
proof (cases needle)
  case Nil
  then show ?thesis by (auto simp: m2m_strstr_def first_at_def)
next
  case (Cons c str)
  with assms(3) have "unat (of_nat (length str) :: u16) = length str" by (simp add: unat_of_nat)
  with Cons assms strstr_loop_string [of str c hay q p 0] show ?thesis
    by (auto simp: m2m_strstr_def m2m_strlen_string option.map_ident [unfolded id_def])
qed

theorem m2m_strstr_first_witness:
  "\<exists>r. m2m_strstr ([97, 97, 98] @ 0 # [1]) ([97, 98] @ 0 # []) = Some r \<and> first_at [97, 98] [97, 97, 98] r"
  using m2m_strstr_first [of "[97, 97, 98]" "[97, 98]" "[1]" "[]"] by simp

end
