(* ===== verification/Socket.thy ===== *)
theory Socket
  imports M2m_Hif Nm_Common
begin

text \<open>
  The socket layer of \<open>socket/socket.c\<close>: the table of sockets, the requests sent through the host
  interface, and the callback that takes the replies of the firmware apart. The globals of the
  layer extend the state of the host interface, since a callback runs inside \<open>hif_isr\<close>. An index
  outside the table is the fault \<open>None\<close>. A socket number is the signed 8 bit integer of the source
  as an \<open>int\<close>; pointers are 32 bit numbers with 0 for \<open>NULL\<close>.
\<close>

record tstrSocket =
  pu8UserBuffer :: u32
  u16UserBufferSize :: u16
  u16SessionID :: u16
  u16DataOffset :: u16
  bIsUsed :: u8
  u8SSLFlags :: u8
  bIsRecvPending :: u8

definition zero_socket :: tstrSocket where
  "zero_socket = \<lparr>pu8UserBuffer = 0, u16UserBufferSize = 0, u16SessionID = 0, u16DataOffset = 0,
     bIsUsed = 0, u8SSLFlags = 0, bIsRecvPending = 0\<rparr>"

record sockaddr_in =
  sin_family :: u16
  sin_port :: u16
  s_addr :: u32

record tstrSocketRecvMsg =
  pu8Buffer :: u32
  s16BufferSize :: int
  u16RemainingSize :: u16
  strRemoteAddr :: sockaddr_in

datatype sock_msg =
    SOCKET_MSG_BIND int
  | SOCKET_MSG_LISTEN int
  | SOCKET_MSG_ACCEPT int sockaddr_in
  | SOCKET_MSG_CONNECT int int
  | SOCKET_MSG_RECV tstrSocketRecvMsg
  | SOCKET_MSG_SEND int
  | SOCKET_MSG_SENDTO int
  | SOCKET_MSG_RECVFROM tstrSocketRecvMsg

text \<open>\<open>user_mem p\<close>: the bytes of the application's buffer at \<open>p\<close>; \<open>app_st\<close>: the rest of the
  application.\<close>

record ('w, 'a) sk = "'w hif" +
  gastrSockets :: "tstrSocket list"
  gu16SessionID :: u16
  gpfAppSocketCb :: u32
  gpfAppResolveCb :: u32
  gbSocketInit :: u8
  gfpPingCb :: u32
  user_mem :: "u32 \<Rightarrow> u8 list"
  app_st :: 'a

text \<open>Surroundings: the bus, and the indeterminate values that the code reads (the status variable
  of the wake-up, the bytes behind the header struct, the bytes of a command struct that are
  not assigned).\<close>

record 'w env =
  ev_bus :: "'w nm_bus"
  ev_junk :: u32
  ev_stack :: "u8 list"
  ev_uninit :: "nat \<Rightarrow> u8"
  ev_recvmsg :: tstrSocketRecvMsg

text \<open>The application's callback functions by address.\<close>

record ('w, 'a) sock_cbs =
  app_cb :: "u32 \<Rightarrow> int \<Rightarrow> sock_msg \<Rightarrow> ('w, 'a) sk \<Rightarrow> ('w, 'a) sk option"
  resolve_cb :: "u32 \<Rightarrow> u8 list \<Rightarrow> u32 \<Rightarrow> ('w, 'a) sk \<Rightarrow> ('w, 'a) sk option"
  ping_cb :: "u32 \<Rightarrow> u32 \<Rightarrow> u32 \<Rightarrow> u8 \<Rightarrow> ('w, 'a) sk \<Rightarrow> ('w, 'a) sk option"

definition HOSTNAME_MAX_SIZE :: nat where "HOSTNAME_MAX_SIZE = 64"
definition SOCKET_BUFFER_MAX_LENGTH :: u16 where "SOCKET_BUFFER_MAX_LENGTH = 1400"
definition AF_INET :: u16 where "AF_INET = 2"
definition SOCK_STREAM :: u8 where "SOCK_STREAM = 1"
definition SOCK_DGRAM :: u8 where "SOCK_DGRAM = 2"
definition SOCKET_FLAGS_SSL :: u8 where "SOCKET_FLAGS_SSL = 1"
definition TCP_SOCK_MAX :: nat where "TCP_SOCK_MAX = 7"
definition UDP_SOCK_MAX :: nat where "UDP_SOCK_MAX = 4"
definition MAX_SOCKET :: nat where "MAX_SOCKET = TCP_SOCK_MAX + UDP_SOCK_MAX"
definition SOL_SSL_SOCKET :: u8 where "SOL_SSL_SOCKET = 2"
definition SO_SSL_BYPASS_X509_VERIF :: u8 where "SO_SSL_BYPASS_X509_VERIF = 1"
definition SO_SSL_SNI :: u8 where "SO_SSL_SNI = 2"
definition SO_SSL_ENABLE_SESSION_CACHING :: u8 where "SO_SSL_ENABLE_SESSION_CACHING = 3"

definition SOCK_ERR_NO_ERROR :: int where "SOCK_ERR_NO_ERROR = 0"
definition SOCK_ERR_INVALID_ARG :: int where "SOCK_ERR_INVALID_ARG = -6"
definition SOCK_ERR_INVALID :: int where "SOCK_ERR_INVALID = -9"
definition SOCK_ERR_BUFFER_FULL :: int where "SOCK_ERR_BUFFER_FULL = -14"

definition SOCKET_CMD_BIND :: u8 where "SOCKET_CMD_BIND = 0x41"
definition SOCKET_CMD_LISTEN :: u8 where "SOCKET_CMD_LISTEN = 0x42"
definition SOCKET_CMD_ACCEPT :: u8 where "SOCKET_CMD_ACCEPT = 0x43"
definition SOCKET_CMD_CONNECT :: u8 where "SOCKET_CMD_CONNECT = 0x44"
definition SOCKET_CMD_SEND :: u8 where "SOCKET_CMD_SEND = 0x45"
definition SOCKET_CMD_RECV :: u8 where "SOCKET_CMD_RECV = 0x46"
definition SOCKET_CMD_SENDTO :: u8 where "SOCKET_CMD_SENDTO = 0x47"
definition SOCKET_CMD_RECVFROM :: u8 where "SOCKET_CMD_RECVFROM = 0x48"
definition SOCKET_CMD_CLOSE :: u8 where "SOCKET_CMD_CLOSE = 0x49"
definition SOCKET_CMD_DNS_RESOLVE :: u8 where "SOCKET_CMD_DNS_RESOLVE = 0x4a"
definition SOCKET_CMD_SSL_CONNECT :: u8 where "SOCKET_CMD_SSL_CONNECT = 0x4b"
definition SOCKET_CMD_SSL_SEND :: u8 where "SOCKET_CMD_SSL_SEND = 0x4c"
definition SOCKET_CMD_SSL_RECV :: u8 where "SOCKET_CMD_SSL_RECV = 0x4d"
definition SOCKET_CMD_SSL_CLOSE :: u8 where "SOCKET_CMD_SSL_CLOSE = 0x4e"
definition SOCKET_CMD_SET_SOCKET_OPTION :: u8 where "SOCKET_CMD_SET_SOCKET_OPTION = 0x4f"
definition SOCKET_CMD_SSL_CREATE :: u8 where "SOCKET_CMD_SSL_CREATE = 0x50"
definition SOCKET_CMD_SSL_SET_SOCK_OPT :: u8 where "SOCKET_CMD_SSL_SET_SOCK_OPT = 0x51"
definition SOCKET_CMD_PING :: u8 where "SOCKET_CMD_PING = 0x52"
definition SOCKET_CMD_SSL_SET_CS_LIST :: u8 where "SOCKET_CMD_SSL_SET_CS_LIST = 0x53"
definition M2M_REQ_DATA_PKT :: u8 where "M2M_REQ_DATA_PKT = 0x80"

lemmas cmd_defs = SOCKET_CMD_BIND_def SOCKET_CMD_LISTEN_def SOCKET_CMD_ACCEPT_def SOCKET_CMD_CONNECT_def
  SOCKET_CMD_SEND_def SOCKET_CMD_RECV_def SOCKET_CMD_SENDTO_def SOCKET_CMD_RECVFROM_def SOCKET_CMD_CLOSE_def
  SOCKET_CMD_DNS_RESOLVE_def SOCKET_CMD_SSL_CONNECT_def SOCKET_CMD_SSL_SEND_def SOCKET_CMD_SSL_RECV_def
  SOCKET_CMD_SSL_CLOSE_def SOCKET_CMD_SET_SOCKET_OPTION_def SOCKET_CMD_SSL_CREATE_def
  SOCKET_CMD_SSL_SET_SOCK_OPT_def SOCKET_CMD_PING_def SOCKET_CMD_SSL_SET_CS_LIST_def M2M_REQ_DATA_PKT_def

lemmas sock_err_defs = SOCK_ERR_NO_ERROR_def SOCK_ERR_INVALID_ARG_def SOCK_ERR_INVALID_def SOCK_ERR_BUFFER_FULL_def
lemmas sock_max_defs = MAX_SOCKET_def TCP_SOCK_MAX_def UDP_SOCK_MAX_def

definition SSL_FLAGS_ACTIVE :: u8 where "SSL_FLAGS_ACTIVE = 0x01"
definition SSL_FLAGS_BYPASS_X509 :: u8 where "SSL_FLAGS_BYPASS_X509 = 0x02"
definition SSL_FLAGS_CACHE_SESSION :: u8 where "SSL_FLAGS_CACHE_SESSION = 0x10"
definition SSL_FLAGS_NO_TX_COPY :: u8 where "SSL_FLAGS_NO_TX_COPY = 0x20"

definition IP_PACKET_OFFSET :: u16 where "IP_PACKET_OFFSET = 14 + 34 - of_nat M2M_HIF_HDR_OFFSET"
definition TCP_TX_PACKET_OFFSET :: u16 where "TCP_TX_PACKET_OFFSET = IP_PACKET_OFFSET + 40"
definition UDP_TX_PACKET_OFFSET :: u16 where "UDP_TX_PACKET_OFFSET = IP_PACKET_OFFSET + 28"

subsection \<open>The table of sockets\<close>

definition get_sock :: "int \<Rightarrow> ('w, 'a) sk \<Rightarrow> tstrSocket option" where
  "get_sock sock s = (if sock < 0 then None else mem_read (gastrSockets s) (nat sock))"

definition upd_sock :: "int \<Rightarrow> (tstrSocket \<Rightarrow> tstrSocket) \<Rightarrow> ('w, 'a) sk \<Rightarrow> ('w, 'a) sk option" where
  "upd_sock sock f s = do {
     x \<leftarrow> get_sock sock s;
     Some (s\<lparr>gastrSockets := (gastrSockets s)[nat sock := f x]\<rparr>) }"

text \<open>The guard \<open>(sock >= 0) && (gastrSockets[sock].bIsUsed == 1)\<close> of the requests.\<close>

definition if_used :: "int \<Rightarrow> (int \<times> ('w, 'a) sk) option \<Rightarrow> (tstrSocket \<Rightarrow> (int \<times> ('w, 'a) sk) option) \<Rightarrow>
    ('w, 'a) sk \<Rightarrow> (int \<times> ('w, 'a) sk) option" where
  "if_used sock no yes s =
     (if sock < 0 then no
      else do { x \<leftarrow> get_sock sock s; (if bIsUsed x = 1 then yes x else no) })"

definition next_session :: "u16 \<Rightarrow> u16" where
  "next_session i = (if i + 1 = 0 then i + 1 + 1 else i + 1)"

definition SOCKET_REQUEST :: "'w env \<Rightarrow> u8 \<Rightarrow> u8 list \<Rightarrow> u8 list option \<Rightarrow> u16 \<Rightarrow> u16 \<Rightarrow> ('w, 'a) sk \<Rightarrow>
    (int \<times> ('w, 'a) sk) option" where
  "SOCKET_REQUEST e op args payload payloadsz payloadoff s =
     hif_send (ev_bus e) (ev_junk e) (ev_stack e) M2M_REQ_GROUP_IP op (Some args) (of_nat (length args))
       payload payloadsz payloadoff s"

text \<open>A request whose failure is reported with the code \<open>err\<close>.\<close>

definition request :: "'w env \<Rightarrow> int \<Rightarrow> u8 \<Rightarrow> u8 list \<Rightarrow> u8 list option \<Rightarrow> u16 \<Rightarrow> u16 \<Rightarrow> ('w, 'a) sk \<Rightarrow>
    (int \<times> ('w, 'a) sk) option" where
  "request e err op args payload payloadsz payloadoff s =
     map_option (\<lambda>(r, s). (if r \<noteq> SOCK_ERR_NO_ERROR then err else r, s))
       (SOCKET_REQUEST e op args payload payloadsz payloadoff s)"

definition addr_bytes :: "sockaddr_in \<Rightarrow> u8 list" where
  "addr_bytes a = le16 (sin_family a) @ le16 (sin_port a) @ le32 (s_addr a)"

subsection \<open>Set-up\<close>

definition socketInit :: "u32 \<Rightarrow> ('w, 'a) sk \<Rightarrow> ('w, 'a) sk" where
  "socketInit m2m_ip_cb_ptr s =
     (if gbSocketInit s = 0
      then (snd (hif_register_cb M2M_REQ_GROUP_IP m2m_ip_cb_ptr (s\<lparr>gastrSockets := replicate MAX_SOCKET zero_socket\<rparr>)))
             \<lparr>gbSocketInit := 1, gu16SessionID := 0\<rparr>
      else s)"

definition socketDeinit :: "('w, 'a) sk \<Rightarrow> ('w, 'a) sk" where
  "socketDeinit s =
     (snd (hif_register_cb M2M_REQ_GROUP_IP 0 (s\<lparr>gastrSockets := replicate MAX_SOCKET zero_socket\<rparr>)))
       \<lparr>gpfAppSocketCb := 0, gpfAppResolveCb := 0, gbSocketInit := 0\<rparr>"

definition registerSocketCallback :: "u32 \<Rightarrow> u32 \<Rightarrow> ('w, 'a) sk \<Rightarrow> ('w, 'a) sk" where
  "registerSocketCallback pfAppSocketCb pfAppResolveCb s =
     s\<lparr>gpfAppSocketCb := pfAppSocketCb, gpfAppResolveCb := pfAppResolveCb\<rparr>"

subsection \<open>Requests\<close>

function find_free :: "tstrSocket list \<Rightarrow> nat \<Rightarrow> nat \<Rightarrow> nat option" where
  "find_free xs i n = (if i < n then (if bIsUsed (xs ! i) = 0 then Some i else find_free xs (Suc i) n) else None)"
  by pat_completeness auto
termination by (relation "measure (\<lambda>(xs, i, n). n - i)") auto

declare find_free.simps [simp del]

definition open_socket :: "'w env \<Rightarrow> nat \<Rightarrow> u8 \<Rightarrow> ('w, 'a) sk \<Rightarrow> (int \<times> ('w, 'a) sk) option" where
  "open_socket e i flags s =
     (let sid = next_session (gu16SessionID s);
          x = zero_socket\<lparr>bIsUsed := 1, u16SessionID := sid\<rparr>
      in if flags AND SOCKET_FLAGS_SSL \<noteq> 0
         then map_option (\<lambda>(_, s). (int i, s))
                (SOCKET_REQUEST e SOCKET_CMD_SSL_CREATE ([of_nat i] @ map (ev_uninit e) [1..<4]) None 0 0
                  (s\<lparr>gu16SessionID := sid,
                     gastrSockets := (gastrSockets s)[i := x\<lparr>u8SSLFlags := SSL_FLAGS_ACTIVE OR SSL_FLAGS_NO_TX_COPY\<rparr>]\<rparr>))
         else Some (int i, s\<lparr>gu16SessionID := sid, gastrSockets := (gastrSockets s)[i := x]\<rparr>))"

definition socket :: "'w env \<Rightarrow> u16 \<Rightarrow> u8 \<Rightarrow> u8 \<Rightarrow> ('w, 'a) sk \<Rightarrow> (int \<times> ('w, 'a) sk) option" where
  "socket e domain ty flags s =
     (if domain = AF_INET
      then
        if ty \<noteq> SOCK_STREAM \<and> ty \<noteq> SOCK_DGRAM then Some (-1, s)
        else
          (case (if ty = SOCK_STREAM then find_free (gastrSockets s) 0 TCP_SOCK_MAX
                 else find_free (gastrSockets s) TCP_SOCK_MAX MAX_SOCKET) of
             None \<Rightarrow> Some (-1, s)
           | Some i \<Rightarrow> open_socket e i flags s)
      else Some (-1, s))"

definition bind_sock :: "'w env \<Rightarrow> int \<Rightarrow> sockaddr_in option \<Rightarrow> u8 \<Rightarrow> ('w, 'a) sk \<Rightarrow> (int \<times> ('w, 'a) sk) option" where
  "bind_sock e sock addr addrlen s =
     (case addr of
        None \<Rightarrow> Some (SOCK_ERR_INVALID_ARG, s)
      | Some a \<Rightarrow>
          if_used sock (Some (SOCK_ERR_INVALID_ARG, s))
            (\<lambda>x. if addrlen = 0 then Some (SOCK_ERR_INVALID_ARG, s)
                 else request e SOCK_ERR_INVALID SOCKET_CMD_BIND
                        (addr_bytes a @ [of_int sock, ev_uninit e 9] @ le16 (u16SessionID x)) None 0 0 s) s)"

definition listen :: "'w env \<Rightarrow> int \<Rightarrow> u8 \<Rightarrow> ('w, 'a) sk \<Rightarrow> (int \<times> ('w, 'a) sk) option" where
  "listen e sock backlog s =
     if_used sock (Some (SOCK_ERR_INVALID_ARG, s))
       (\<lambda>x. request e SOCK_ERR_INVALID SOCKET_CMD_LISTEN ([of_int sock, backlog] @ le16 (u16SessionID x)) None 0 0 s) s"

definition accept :: "int \<Rightarrow> ('w, 'a) sk \<Rightarrow> (int \<times> ('w, 'a) sk) option" where
  "accept sock s = if_used sock (Some (SOCK_ERR_INVALID_ARG, s)) (\<lambda>x. Some (SOCK_ERR_NO_ERROR, s)) s"

definition ssl_active :: "tstrSocket \<Rightarrow> bool" where
  "ssl_active x \<longleftrightarrow> u8SSLFlags x AND SSL_FLAGS_ACTIVE \<noteq> 0"

definition connect :: "'w env \<Rightarrow> int \<Rightarrow> sockaddr_in option \<Rightarrow> u8 \<Rightarrow> ('w, 'a) sk \<Rightarrow> (int \<times> ('w, 'a) sk) option" where
  "connect e sock addr addrlen s =
     (case addr of
        None \<Rightarrow> Some (SOCK_ERR_INVALID_ARG, s)
      | Some a \<Rightarrow>
          if_used sock (Some (SOCK_ERR_INVALID_ARG, s))
            (\<lambda>x. if addrlen = 0 then Some (SOCK_ERR_INVALID_ARG, s)
                 else request e SOCK_ERR_INVALID (if ssl_active x then SOCKET_CMD_SSL_CONNECT else SOCKET_CMD_CONNECT)
                        (addr_bytes a @ [of_int sock, if ssl_active x then u8SSLFlags x else ev_uninit e 9]
                           @ le16 (u16SessionID x)) None 0 0 s) s)"

text \<open>Buffers passed for sending are lists of bytes, \<open>None\<close> for \<open>NULL\<close>.\<close>

definition send :: "'w env \<Rightarrow> int \<Rightarrow> u8 list option \<Rightarrow> u16 \<Rightarrow> ('w, 'a) sk \<Rightarrow> (int \<times> ('w, 'a) sk) option" where
  "send e sock buf len s =
     (if buf = None \<or> len > SOCKET_BUFFER_MAX_LENGTH then Some (SOCK_ERR_INVALID_ARG, s)
      else
        if_used sock (Some (SOCK_ERR_INVALID_ARG, s))
          (\<lambda>x. request e SOCK_ERR_BUFFER_FULL
                 ((if ssl_active x then SOCKET_CMD_SSL_SEND else SOCKET_CMD_SEND) OR M2M_REQ_DATA_PKT)
                 ([of_int sock, ev_uninit e 1] @ le16 len @ map (ev_uninit e) [4..<12] @ le16 (u16SessionID x)
                    @ map (ev_uninit e) [14..<16])
                 buf len
                 (if ssl_active x then u16DataOffset x
                  else if sock \<ge> int TCP_SOCK_MAX then UDP_TX_PACKET_OFFSET else TCP_TX_PACKET_OFFSET) s) s)"

definition sendto :: "'w env \<Rightarrow> int \<Rightarrow> u8 list option \<Rightarrow> u16 \<Rightarrow> sockaddr_in option \<Rightarrow> ('w, 'a) sk \<Rightarrow>
    (int \<times> ('w, 'a) sk) option" where
  "sendto e sock buf len dest s =
     (if buf = None \<or> len > SOCKET_BUFFER_MAX_LENGTH then Some (SOCK_ERR_INVALID_ARG, s)
      else
        if_used sock (Some (SOCK_ERR_INVALID_ARG, s))
          (\<lambda>x. request e SOCK_ERR_BUFFER_FULL (SOCKET_CMD_SENDTO OR M2M_REQ_DATA_PKT)
                 ([of_int sock, 0] @ le16 len
                    @ (case dest of Some a \<Rightarrow> addr_bytes a | None \<Rightarrow> replicate 8 0) @ le16 (u16SessionID x) @ [0, 0])
                 buf len UDP_TX_PACKET_OFFSET s) s)"

definition recv_cmd :: "int \<Rightarrow> u32 \<Rightarrow> u8 \<Rightarrow> u16 \<Rightarrow> u8 list" where
  "recv_cmd sock timeout void sid = le32 (if timeout = 0 then 0xffffffff else timeout) @ [of_int sock, void] @ le16 sid"

text \<open>The common body of \<open>recv\<close> and \<open>recvfrom\<close>; they differ in the command.\<close>

definition recv_with :: "'w env \<Rightarrow> (tstrSocket \<Rightarrow> u8) \<Rightarrow> int \<Rightarrow> u32 \<Rightarrow> u16 \<Rightarrow> u32 \<Rightarrow> ('w, 'a) sk \<Rightarrow>
    (int \<times> ('w, 'a) sk) option" where
  "recv_with e cmd sock buf buflen timeout s =
     (if sock < 0 \<or> buf = 0 \<or> buflen = 0 then Some (SOCK_ERR_INVALID_ARG, s)
      else
        if_used sock (Some (SOCK_ERR_INVALID_ARG, s))
          (\<lambda>x. let y = x\<lparr>pu8UserBuffer := buf, u16UserBufferSize := buflen\<rparr>
               in if bIsRecvPending x = 0
                  then request e SOCK_ERR_BUFFER_FULL (cmd x) (recv_cmd sock timeout (ev_uninit e 5) (u16SessionID x)) None 0 0
                         (s\<lparr>gastrSockets := (gastrSockets s)[nat sock := y\<lparr>bIsRecvPending := 1\<rparr>]\<rparr>)
                  else Some (SOCK_ERR_NO_ERROR, s\<lparr>gastrSockets := (gastrSockets s)[nat sock := y]\<rparr>)) s)"

definition recv :: "'w env \<Rightarrow> int \<Rightarrow> u32 \<Rightarrow> u16 \<Rightarrow> u32 \<Rightarrow> ('w, 'a) sk \<Rightarrow> (int \<times> ('w, 'a) sk) option" where
  "recv e = recv_with e (\<lambda>x. if ssl_active x then SOCKET_CMD_SSL_RECV else SOCKET_CMD_RECV)"

definition recvfrom :: "'w env \<Rightarrow> int \<Rightarrow> u32 \<Rightarrow> u16 \<Rightarrow> u32 \<Rightarrow> ('w, 'a) sk \<Rightarrow> (int \<times> ('w, 'a) sk) option" where
  "recvfrom e = recv_with e (\<lambda>x. SOCKET_CMD_RECVFROM)"

definition close :: "'w env \<Rightarrow> int \<Rightarrow> ('w, 'a) sk \<Rightarrow> (int \<times> ('w, 'a) sk) option" where
  "close e sock s =
     if_used sock (Some (SOCK_ERR_INVALID_ARG, s))
       (\<lambda>x. do {
          (r, s) \<leftarrow> request e SOCK_ERR_INVALID (if ssl_active x then SOCKET_CMD_SSL_CLOSE else SOCKET_CMD_CLOSE)
                     ([of_int sock, ev_uninit e 1] @ le16 (u16SessionID x)) None 0 0
                     (s\<lparr>gastrSockets := (gastrSockets s)[nat sock := x\<lparr>bIsUsed := 0, u16SessionID := 0\<rparr>]\<rparr>);
          s \<leftarrow> upd_sock sock (\<lambda>_. zero_socket) s;
          Some (r, s) }) s"

subsection \<open>Names, options and ping\<close>

text \<open>One number of a dotted address: outer \<open>None\<close> is a read past the end of the string object,
  inner \<open>None\<close> the \<open>return 0\<close>. \<open>n\<close> counts the characters still allowed; the character is read
  before the count is tested.\<close>

fun inet_field :: "nat \<Rightarrow> u8 \<Rightarrow> u8 list \<Rightarrow> (u8 \<times> u8 list) option option" where
  "inet_field n tmp [] = None"
| "inet_field 0 tmp (c # cs) = Some None"
| "inet_field (Suc n) tmp (c # cs) =
     (if c = 46 \<or> c = 0 then Some (Some (tmp, cs))
      else if 48 \<le> c \<and> c \<le> 57 then inet_field n (tmp * 10 + (c - 48)) cs
      else Some None)"

fun inet_fields :: "nat \<Rightarrow> u8 list \<Rightarrow> u8 list option option" where
  "inet_fields 0 cs = Some (Some [])"
| "inet_fields (Suc i) cs =
     (case inet_field 4 0 cs of
        None \<Rightarrow> None
      | Some None \<Rightarrow> Some None
      | Some (Some (b, cs)) \<Rightarrow> map_option (map_option ((#) b)) (inet_fields i cs))"

definition nmi_inet_addr :: "u8 list \<Rightarrow> u32 option" where
  "nmi_inet_addr cs = map_option (\<lambda>r. case r of None \<Rightarrow> 0 | Some bs \<Rightarrow> of_le32 bs) (inet_fields 4 cs)"

definition gethostbyname :: "'w env \<Rightarrow> u8 list \<Rightarrow> ('w, 'a) sk \<Rightarrow> (int \<times> ('w, 'a) sk) option" where
  "gethostbyname e name s = do {
     len \<leftarrow> m2m_strlen name;
     let n = unat (ucast len :: u8);
     (if n \<le> HOSTNAME_MAX_SIZE
      then request e SOCK_ERR_INVALID (SOCKET_CMD_DNS_RESOLVE OR M2M_REQ_DATA_PKT) (take (n + 1) name) None 0 0 s
      else Some (SOCK_ERR_INVALID_ARG, s)) }"

text \<open>\<open>val\<close>: the memory at \<open>pvOptVal\<close>. The server name is copied with a fixed length of 64 bytes; the
  results of the two requests are discarded.\<close>

definition sslSetSockOpt :: "'w env \<Rightarrow> int \<Rightarrow> u8 \<Rightarrow> u8 list \<Rightarrow> u16 \<Rightarrow> ('w, 'a) sk \<Rightarrow> (int \<times> ('w, 'a) sk) option" where
  "sslSetSockOpt e sock opt val optlen s =
     (if sock < int TCP_SOCK_MAX
      then do {
        x \<leftarrow> get_sock sock s;
        (if ssl_active x
         then
           if opt = SO_SSL_BYPASS_X509_VERIF then do {
             v \<leftarrow> mem_slice val 0 4;
             s \<leftarrow> upd_sock sock (u8SSLFlags_update (\<lambda>f. if of_le32 v \<noteq> 0 then f OR SSL_FLAGS_BYPASS_X509
                                                       else f AND NOT SSL_FLAGS_BYPASS_X509)) s;
             Some (SOCK_ERR_NO_ERROR, s) }
           else if opt = SO_SSL_ENABLE_SESSION_CACHING then do {
             v \<leftarrow> mem_slice val 0 4;
             s \<leftarrow> upd_sock sock (u8SSLFlags_update (\<lambda>f. if of_le32 v \<noteq> 0 then f OR SSL_FLAGS_CACHE_SESSION
                                                       else f AND NOT SSL_FLAGS_CACHE_SESSION)) s;
             Some (SOCK_ERR_NO_ERROR, s) }
           else if opt = SO_SSL_SNI then
             (if unat optlen < HOSTNAME_MAX_SIZE
              then do {
                sni \<leftarrow> mem_slice val 0 HOSTNAME_MAX_SIZE;
                let cmd = [of_int sock, opt] @ le16 (u16SessionID x) @ le32 (ucast optlen) @ sni;
                (r, s) \<leftarrow> SOCKET_REQUEST e SOCKET_CMD_SSL_SET_SOCK_OPT cmd None 0 0 s;
                (_, s) \<leftarrow> (if r = M2M_ERR_MEM_ALLOC
                          then SOCKET_REQUEST e (SOCKET_CMD_SSL_SET_SOCK_OPT OR M2M_REQ_DATA_PKT) cmd None 0 0 s
                          else Some (r, s));
                Some (SOCK_ERR_NO_ERROR, s) }
              else Some (SOCK_ERR_INVALID_ARG, s))
           else Some (SOCK_ERR_INVALID_ARG, s)
         else Some (SOCK_ERR_INVALID_ARG, s)) }
      else Some (SOCK_ERR_INVALID_ARG, s))"

definition setsockopt :: "'w env \<Rightarrow> int \<Rightarrow> u8 \<Rightarrow> u8 \<Rightarrow> u8 list option \<Rightarrow> u16 \<Rightarrow> ('w, 'a) sk \<Rightarrow>
    (int \<times> ('w, 'a) sk) option" where
  "setsockopt e sock level opt val optlen s =
     (case val of
        None \<Rightarrow> Some (SOCK_ERR_INVALID_ARG, s)
      | Some v \<Rightarrow>
          if_used sock (Some (SOCK_ERR_INVALID_ARG, s))
            (\<lambda>x. if level = SOL_SSL_SOCKET then sslSetSockOpt e sock opt v optlen s
                 else do {
                   w \<leftarrow> mem_slice v 0 4;
                   request e SOCK_ERR_INVALID SOCKET_CMD_SET_SOCKET_OPTION
                     (w @ [of_int sock, opt] @ le16 (u16SessionID x)) None 0 0 s }) s)"

definition getsockopt :: "int" where "getsockopt = M2M_SUCCESS"

definition m2m_ping_req :: "'w env \<Rightarrow> u32 \<Rightarrow> u8 \<Rightarrow> u32 \<Rightarrow> ('w, 'a) sk \<Rightarrow> (int \<times> ('w, 'a) sk) option" where
  "m2m_ping_req e ip ttl cb s =
     (if ip \<noteq> 0 \<and> cb \<noteq> 0
      then SOCKET_REQUEST e SOCKET_CMD_PING (le32 ip @ le32 cb @ le16 1 @ [ttl, ev_uninit e 11]) None 0 0 s
      else Some (M2M_ERR_INVALID_ARG, s))"

definition sslSetActiveCipherSuites :: "'w env \<Rightarrow> u32 \<Rightarrow> ('w, 'a) sk \<Rightarrow> (int \<times> ('w, 'a) sk) option" where
  "sslSetActiveCipherSuites e bmp s =
     (if bmp \<noteq> 0 then SOCKET_REQUEST e SOCKET_CMD_SSL_SET_CS_LIST (le32 bmp) None 0 0 s
      else Some (SOCK_ERR_INVALID_ARG, s))"

subsection \<open>Delivery of received data\<close>

definition call_app :: "('w, 'a) sock_cbs \<Rightarrow> int \<Rightarrow> sock_msg \<Rightarrow> ('w, 'a) sk \<Rightarrow> ('w, 'a) sk option" where
  "call_app cbs sock msg s =
     (if gpfAppSocketCb s \<noteq> 0 then app_cb cbs (gpfAppSocketCb s) sock msg s else Some s)"

definition recv_msg :: "bool \<Rightarrow> tstrSocketRecvMsg \<Rightarrow> sock_msg" where
  "recv_msg from = (if from then SOCKET_MSG_RECVFROM else SOCKET_MSG_RECV)"

text \<open>\<open>hif_receive\<close> into the application's buffer at a pointer.\<close>

definition hif_receive_user :: "'w env \<Rightarrow> u32 \<Rightarrow> u32 \<Rightarrow> u16 \<Rightarrow> bool \<Rightarrow> ('w, 'a) sk \<Rightarrow> (int \<times> ('w, 'a) sk) option" where
  "hif_receive_user e addr p sz isDone s = do {
     (r, b, s) \<leftarrow> hif_receive (ev_bus e) addr (if p = 0 then None else Some (user_mem s p)) sz isDone s;
     Some (r, case b of Some bs \<Rightarrow> s\<lparr>user_mem := (user_mem s)(p := bs)\<rparr> | None \<Rightarrow> s) }"

lemma hif_receive_partial:
  "hif_receive bus addr buf sz False s = Some (M2M_SUCCESS, b, s') \<Longrightarrow> sz \<noteq> 0 \<and> unat sz \<le> 0xfff"
proof -
  assume r: "hif_receive bus addr buf sz False s = Some (M2M_SUCCESS, b, s')"
  then have "sz \<noteq> 0 \<and> (\<exists>v. \<not> (ucast sz :: u32) > (v AND 0xfff))"
    by (auto simp: hif_receive_def Let_def code_defs M2M_ERR_FAIL_def split: option.splits if_splits) (rule exI, assumption)+
  then obtain v :: u32 where nz: "sz \<noteq> 0" and le: "(ucast sz :: u32) \<le> v AND 0xfff" by (auto simp: not_less)
  have "v AND 0xfff \<le> 0xfff" by (simp add: word_and_le1)
  with le have "(ucast sz :: u32) \<le> 0xfff" by (rule order_trans)
  then show ?thesis using nz unsigned_less [of sz, where 'a = nat]
    by (simp add: word_le_nat_alt unsigned_ucast_eq take_bit_nat_eq_self)
qed

lemma sint_u16: "sint (w :: u16) = uint w - 65536 * of_bool (bit (uint w) 15)"
proof -
  have "uint w < 65536" using unsigned_less [of w, where 'a = int] by simp
  then have t: "take_bit 16 (uint w) = uint w" by (intro take_bit_int_eq_self) simp_all
  have "sint w = signed_take_bit 15 (uint w)" by (simp add: sint_uint)
  also have "\<dots> = take_bit 16 (uint w) - 2 ^ 16 * of_bool (bit (uint w) 15)"
    unfolding signed_take_bit_eq_take_bit_minus by simp
  finally show ?thesis by (simp only: t) simp
qed

lemma pos_diff_u16:
  fixes w :: u16
  assumes "sint w > 0"
  shows "unat w < 2 ^ 15"
proof -
  have lt: "uint w < 65536" using unsigned_less [of w, where 'a = int] by simp
  have "sint w = uint w" using assms lt unfolding sint_u16 by (cases "bit (uint w) 15") simp_all
  moreover have "sint w < 2 ^ 15" using sint_lt [of w] by simp
  ultimately have "int (unat w) < 32768" by simp
  then have "unat w < 32768" by linarith
  then show ?thesis by simp
qed

lemma chunk_decreases:
  fixes c u :: u16
  assumes "u \<noteq> 0" "unat u \<le> 0xfff" "sint (c - u) > 0"
  shows "unat (c - u) < unat c" "u \<le> c"
proof -
  have "unat ((c - u) + u) = unat (c - u) + unat u"
    using pos_diff_u16 [OF assms(3)] assms(2) by (intro unat_add_lem [THEN iffD1]) simp
  then have "unat c = unat (c - u) + unat u" by simp
  moreover have "unat u \<noteq> 0" using assms(1) by (simp add: unat_eq_0)
  ultimately show "unat (c - u) < unat c" "u \<le> c" by (simp_all add: word_le_nat_alt)
qed

text \<open>One pass of the loop of \<open>Socket_ReadSocketData\<close>: the size to read and whether it is the last.\<close>

definition chunk :: "u16 \<Rightarrow> u16 \<Rightarrow> u16 \<times> bool" where
  "chunk count bufsize = (if sint (count - bufsize) > 0 then (bufsize, False) else (count, True))"

function read_loop :: "'w env \<Rightarrow> ('w, 'a) sock_cbs \<Rightarrow> int \<Rightarrow> bool \<Rightarrow> tstrSocketRecvMsg \<Rightarrow> u32 \<Rightarrow> u16 \<Rightarrow>
    ('w, 'a) sk \<Rightarrow> ('w, 'a) sk option" where
  "read_loop e cbs sock from m addr count s =
     (case get_sock sock s of
        None \<Rightarrow> None
      | Some x \<Rightarrow>
          (case hif_receive_user e addr (pu8UserBuffer x) (fst (chunk count (u16UserBufferSize x)))
                  (snd (chunk count (u16UserBufferSize x))) s of
             None \<Rightarrow> None
           | Some (r, s1) \<Rightarrow>
               if r = M2M_SUCCESS
               then
                 (case get_sock sock s1 of
                    None \<Rightarrow> None
                  | Some y \<Rightarrow>
                      let n = fst (chunk count (u16UserBufferSize x));
                          m = m\<lparr>pu8Buffer := pu8UserBuffer y, s16BufferSize := sint n,
                                u16RemainingSize := u16RemainingSize m - n\<rparr>
                      in (case call_app cbs sock (recv_msg from m) s1 of
                            None \<Rightarrow> None
                          | Some s2 \<Rightarrow>
                              if count - n \<noteq> 0 then read_loop e cbs sock from m (addr + ucast n) (count - n) s2
                              else Some s2))
               else Some s1))"
  by pat_completeness auto
lemma receive_user_partial:
  "hif_receive_user e addr p sz False s = Some (M2M_SUCCESS, s') \<Longrightarrow> sz \<noteq> 0 \<and> unat sz \<le> 0xfff"
  by (auto simp: hif_receive_user_def bind_eq_Some_conv dest: hif_receive_partial)

lemma chunk_measure:
  assumes "hif_receive_user e addr p (fst (chunk c u)) (snd (chunk c u)) s = Some (M2M_SUCCESS, s1)"
    and "c - fst (chunk c u) \<noteq> 0"
  shows "unat (c - fst (chunk c u)) < unat c"
  using assms chunk_decreases(1) [of u c] receive_user_partial [of e addr p u s s1]
  by (auto simp: chunk_def split: if_splits)

termination read_loop
  by (relation "measure (\<lambda>(e, cbs, sock, from, m, addr, count, s). unat count)") (auto intro!: chunk_measure)

declare read_loop.simps [simp del]

definition Socket_ReadSocketData :: "'w env \<Rightarrow> ('w, 'a) sock_cbs \<Rightarrow> int \<Rightarrow> tstrSocketRecvMsg \<Rightarrow> bool \<Rightarrow> u32 \<Rightarrow>
    u16 \<Rightarrow> ('w, 'a) sk \<Rightarrow> ('w, 'a) sk option" where
  "Socket_ReadSocketData e cbs sock m from addr count s =
     (if count = 0 then Some s
      else do {
        x \<leftarrow> get_sock sock s;
        (if pu8UserBuffer x \<noteq> 0 \<and> u16UserBufferSize x > 0 \<and> bIsUsed x = 1
         then read_loop e cbs sock from (m\<lparr>u16RemainingSize := count\<rparr>) addr count s
         else Some s) })"

subsection \<open>The replies of the firmware\<close>

text \<open>Reading a reply struct of \<open>n\<close> bytes and going on with its bytes if that succeeded.\<close>

definition with_reply :: "'w env \<Rightarrow> u32 \<Rightarrow> nat \<Rightarrow> bool \<Rightarrow> (u8 list \<Rightarrow> ('w, 'a) sk \<Rightarrow> ('w, 'a) sk option) \<Rightarrow>
    ('w, 'a) sk \<Rightarrow> ('w, 'a) sk option" where
  "with_reply e addr n isDone k s = do {
     (r, b, s) \<leftarrow> hif_receive (ev_bus e) addr (Some (replicate n 0)) (of_nat n) isDone s;
     (if r = M2M_SUCCESS then Option.bind b (\<lambda>bs. k bs s) else Some s) }"

abbreviation s8_at :: "u8 list \<Rightarrow> nat \<Rightarrow> int" where "s8_at b i \<equiv> sint (b ! i)"
abbreviation u16_at :: "u8 list \<Rightarrow> nat \<Rightarrow> u16" where "u16_at b i \<equiv> of_le16 (drop i b)"
abbreviation u32_at :: "u8 list \<Rightarrow> nat \<Rightarrow> u32" where "u32_at b i \<equiv> of_le32 (drop i b)"

definition ip_bind_reply :: "'w env \<Rightarrow> ('w, 'a) sock_cbs \<Rightarrow> u32 \<Rightarrow> ('w, 'a) sk \<Rightarrow> ('w, 'a) sk option" where
  "ip_bind_reply e cbs addr =
     with_reply e addr 4 False (\<lambda>b. call_app cbs (s8_at b 0) (SOCKET_MSG_BIND (s8_at b 1)))"

definition ip_listen_reply :: "'w env \<Rightarrow> ('w, 'a) sock_cbs \<Rightarrow> u32 \<Rightarrow> ('w, 'a) sk \<Rightarrow> ('w, 'a) sk option" where
  "ip_listen_reply e cbs addr =
     with_reply e addr 4 False (\<lambda>b. call_app cbs (s8_at b 0) (SOCKET_MSG_LISTEN (s8_at b 1)))"

definition ip_accept_reply :: "'w env \<Rightarrow> ('w, 'a) sock_cbs \<Rightarrow> u32 \<Rightarrow> ('w, 'a) sk \<Rightarrow> ('w, 'a) sk option" where
  "ip_accept_reply e cbs addr =
     with_reply e addr 12 False (\<lambda>b s.
       let listen_sock = s8_at b 8; sock = s8_at b 9;
           msg = SOCKET_MSG_ACCEPT sock \<lparr>sin_family = AF_INET, sin_port = u16_at b 2, s_addr = u32_at b 4\<rparr>
       in do {
         s \<leftarrow> (if sock \<ge> 0
              then let sid = next_session (gu16SessionID s)
                   in upd_sock sock (\<lambda>x. x\<lparr>u8SSLFlags := 0, bIsUsed := 1, u16SessionID := sid\<rparr>)
                        (s\<lparr>gu16SessionID := sid\<rparr>)
              else Some s);
         call_app cbs listen_sock msg s })"

definition ip_connect_reply :: "'w env \<Rightarrow> ('w, 'a) sock_cbs \<Rightarrow> u32 \<Rightarrow> ('w, 'a) sk \<Rightarrow> ('w, 'a) sk option" where
  "ip_connect_reply e cbs addr =
     with_reply e addr 4 False (\<lambda>b s. do {
       s \<leftarrow> (if s8_at b 1 = SOCK_ERR_NO_ERROR
            then upd_sock (s8_at b 0) (\<lambda>x. x\<lparr>u16DataOffset := u16_at b 2 - of_nat M2M_HIF_HDR_OFFSET\<rparr>) s
            else Some s);
       call_app cbs (s8_at b 0) (SOCKET_MSG_CONNECT (s8_at b 0) (s8_at b 1)) s })"

definition ip_dns_reply :: "'w env \<Rightarrow> ('w, 'a) sock_cbs \<Rightarrow> u32 \<Rightarrow> ('w, 'a) sk \<Rightarrow> ('w, 'a) sk option" where
  "ip_dns_reply e cbs addr =
     with_reply e addr (HOSTNAME_MAX_SIZE + 4) False (\<lambda>b s.
       if gpfAppResolveCb s \<noteq> 0
       then resolve_cb cbs (gpfAppResolveCb s) (take HOSTNAME_MAX_SIZE b) (u32_at b HOSTNAME_MAX_SIZE) s
       else Some s)"

definition ip_recv_reply :: "'w env \<Rightarrow> ('w, 'a) sock_cbs \<Rightarrow> bool \<Rightarrow> u16 \<Rightarrow> u32 \<Rightarrow> ('w, 'a) sk \<Rightarrow>
    ('w, 'a) sk option" where
  "ip_recv_reply e cbs from bufsize addr =
     with_reply e addr 16 False (\<lambda>b s.
       let sock = s8_at b 12; sid = u16_at b 14; status = sint (u16_at b 8); off = u16_at b 10;
           remote = (strRemoteAddr (ev_recvmsg e))\<lparr>sin_port := u16_at b 2, s_addr := u32_at b 4\<rparr>;
           m = (ev_recvmsg e)\<lparr>strRemoteAddr := remote\<rparr>
       in do {
         s \<leftarrow> upd_sock sock (\<lambda>x. x\<lparr>bIsRecvPending := 0\<rparr>) s;
         x \<leftarrow> get_sock sock s;
         (if sid = u16SessionID x
          then
            if status > 0 \<and> status < uint bufsize
            then Socket_ReadSocketData e cbs sock m from (addr + ucast off) (of_int status) s
            else call_app cbs sock (recv_msg from (m\<lparr>s16BufferSize := status, pu8Buffer := 0\<rparr>)) s
          else if 16 < bufsize
          then map_option (\<lambda>(_, _, s). s) (hif_receive (ev_bus e) 0 None 0 True s)
          else Some s) })"

definition ip_send_reply :: "'w env \<Rightarrow> ('w, 'a) sock_cbs \<Rightarrow> bool \<Rightarrow> u32 \<Rightarrow> ('w, 'a) sk \<Rightarrow> ('w, 'a) sk option" where
  "ip_send_reply e cbs to addr =
     with_reply e addr 8 False (\<lambda>b s. do {
       x \<leftarrow> get_sock (s8_at b 0) s;
       (if u16_at b 4 = u16SessionID x
        then call_app cbs (s8_at b 0) ((if to then SOCKET_MSG_SENDTO else SOCKET_MSG_SEND) (sint (u16_at b 2))) s
        else Some s) })"

definition ip_ping_reply :: "'w env \<Rightarrow> ('w, 'a) sock_cbs \<Rightarrow> u32 \<Rightarrow> ('w, 'a) sk \<Rightarrow> ('w, 'a) sk option" where
  "ip_ping_reply e cbs addr =
     with_reply e addr 20 True (\<lambda>b s.
       let s = s\<lparr>gfpPingCb := u32_at b 4\<rparr>
       in if gfpPingCb s \<noteq> 0 then ping_cb cbs (gfpPingCb s) (u32_at b 0) (u32_at b 8) (b ! 16) s else Some s)"

definition m2m_ip_cb :: "'w env \<Rightarrow> ('w, 'a) sock_cbs \<Rightarrow> u8 \<Rightarrow> u16 \<Rightarrow> u32 \<Rightarrow> ('w, 'a) sk \<Rightarrow> ('w, 'a) sk option" where
  "m2m_ip_cb e cbs op bufsize addr s =
     (if op = SOCKET_CMD_BIND then ip_bind_reply e cbs addr s
      else if op = SOCKET_CMD_LISTEN then ip_listen_reply e cbs addr s
      else if op = SOCKET_CMD_ACCEPT then ip_accept_reply e cbs addr s
      else if op = SOCKET_CMD_CONNECT \<or> op = SOCKET_CMD_SSL_CONNECT then ip_connect_reply e cbs addr s
      else if op = SOCKET_CMD_DNS_RESOLVE then ip_dns_reply e cbs addr s
      else if op = SOCKET_CMD_RECV \<or> op = SOCKET_CMD_RECVFROM \<or> op = SOCKET_CMD_SSL_RECV
      then ip_recv_reply e cbs (op = SOCKET_CMD_RECVFROM) bufsize addr s
      else if op = SOCKET_CMD_SEND \<or> op = SOCKET_CMD_SENDTO \<or> op = SOCKET_CMD_SSL_SEND
      then ip_send_reply e cbs (op = SOCKET_CMD_SENDTO) addr s
      else if op = SOCKET_CMD_PING then ip_ping_reply e cbs addr s
      else Some s)"

end
