(* ===== verification/Hif_Props.thy ===== *)
theory Hif_Props
  imports M2m_Hif
begin

text \<open>
  Properties of the host interface for every bus: \<open>logged bus\<close> is the given bus with a record of
  the accesses made through it.
\<close>

datatype access = RReg u32 "u32 option" | WReg u32 u32 | RBlk u32 nat | WBlk u32 "u8 list"

primrec is_write :: "access \<Rightarrow> bool" where
  "is_write (RReg _ _) = False"
| "is_write (WReg _ _) = True"
| "is_write (RBlk _ _) = False"
| "is_write (WBlk _ _) = True"

definition logged :: "'w nm_bus \<Rightarrow> ('w \<times> access list) nm_bus" where
  "logged bus = \<lparr>
     b_rreg = (\<lambda>a (w, l). map_option (\<lambda>(r, v, w). (r, v, (w, l @ [RReg a v]))) (b_rreg bus a w)),
     b_wreg = (\<lambda>a v (w, l). map_option (\<lambda>(r, w). (r, (w, l @ [WReg a v]))) (b_wreg bus a v w)),
     b_rblk = (\<lambda>a buf n (w, l). map_option (\<lambda>(r, b, w). (r, b, (w, l @ [RBlk a (unat n)]))) (b_rblk bus a buf n w)),
     b_wblk = (\<lambda>a buf n (w, l). map_option (\<lambda>(r, w). (r, (w, l @ [WBlk a (take (unat n) buf)]))) (b_wblk bus a buf n w))\<rparr>"

text \<open>From \<open>h\<close> to \<open>h'\<close> only the bus has moved, and the accesses \<open>l\<close> were made.\<close>

definition adds :: "('w \<times> access list, 'z) hif_scheme \<Rightarrow> access list \<Rightarrow> ('w \<times> access list, 'z) hif_scheme \<Rightarrow> bool" where
  "adds h l h' \<longleftrightarrow> h' = h\<lparr>bus_st := (fst (bus_st h'), snd (bus_st h) @ l)\<rparr>"

lemma adds_trans: "adds h l h1 \<Longrightarrow> adds h1 l' h2 \<Longrightarrow> adds h (l @ l') h2"
  by (cases h; cases h1; cases h2) (auto simp: adds_def)

lemma adds_refl: "adds h [] h"
  by (cases h) (auto simp: adds_def)

lemma adds_keeps:
  assumes "adds h l h'"
  shows "gu8ChipSleep h' = gu8ChipSleep h" "gu8ChipMode h' = gu8ChipMode h"
    "deep_sleep_mode h' = deep_sleep_mode h" "snd (bus_st h') = snd (bus_st h) @ l"
  using assms by (cases h; cases h'; auto simp: adds_def deep_sleep_mode_def)+

subsection \<open>Accesses keep the rest of the state\<close>

lemma on_ok_Some [simp]: "on_ok (Some (M2M_SUCCESS, h)) k = k h"
  by (simp add: on_ok_def)

lemma on_ok_SuccessE:
  assumes "on_ok r k = Some (M2M_SUCCESS, h')"
  obtains h where "r = Some (M2M_SUCCESS, h)" "k h = Some (M2M_SUCCESS, h')"
  using assms by (auto simp: on_ok_def split: option.splits if_splits)

lemma granted_SuccessE:
  assumes "(case r of None \<Rightarrow> None | Some (d, h) \<Rightarrow> if d = 0 then Some (M2M_ERR_MEM_ALLOC, h) else k d h) =
      Some (M2M_SUCCESS, h')"
  obtains d h where "r = Some (d, h)" "d \<noteq> (0 :: u32)" "k d h = Some (M2M_SUCCESS, h')"
  using assms by (auto simp: code_defs M2M_ERR_MEM_ALLOC_def split: option.splits if_splits)

lemma wr_reg_logged: "wr_reg (logged bus) a v h = Some (r, h1) \<Longrightarrow> adds h [WReg a v] h1"
  by (cases "bus_st h") (auto simp: wr_reg_def logged_def adds_def)

lemma wr_block_logged:
  "wr_block (logged bus) a b n h = Some (r, h1) \<Longrightarrow> n < 2 ^ 32 \<Longrightarrow> adds h [WBlk a (take n b)] h1"
  by (cases "bus_st h") (auto simp: wr_block_def logged_def unat_of_nat adds_def)

lemma rd_reg_logged: "rd_reg (logged bus) a h = Some (r, v, h1) \<Longrightarrow> adds h [RReg a v] h1"
  by (cases "bus_st h") (auto simp: rd_reg_def logged_def adds_def)

lemma rd_block_logged:
  "rd_block (logged bus) a b n h = Some (r, b', h1) \<Longrightarrow> n < 2 ^ 32 \<Longrightarrow> adds h [RBlk a n] h1"
  by (cases "bus_st h") (auto simp: rd_block_def logged_def unat_of_nat adds_def)

lemma dma_poll_SucE:
  assumes "dma_poll bus (Suc n) h = Some (d, h1)"
  obtains r v h2 where "rd_reg bus WIFI_HOST_RCV_CTRL_2 h = Some (r, v, h2)"
    "h1 = h2 \<or> (\<exists>r' v'. rd_reg bus 0x150400 h2 = Some (r', v', h1)) \<or> dma_poll bus n h2 = Some (d, h1)"
  using assms by (auto split: option.splits if_splits)

lemma dma_poll_logged:
  "dma_poll (logged bus) n h = Some (d, h1) \<Longrightarrow> \<exists>l. adds h l h1 \<and> filter is_write l = []"
proof (induction n arbitrary: h)
  case 0
  then show ?case by (auto intro: exI [of _ "[]"] simp: adds_refl)
next
  case (Suc n)
  from Suc.prems obtain r v h2 where rd: "rd_reg (logged bus) WIFI_HOST_RCV_CTRL_2 h = Some (r, v, h2)"
    and "h1 = h2 \<or> (\<exists>r' v'. rd_reg (logged bus) 0x150400 h2 = Some (r', v', h1)) \<or>
      dma_poll (logged bus) n h2 = Some (d, h1)"
    by (rule dma_poll_SucE)
  then obtain l where "adds h2 l h1" "filter is_write l = []"
    using adds_refl rd_reg_logged Suc.IH
    by (metis filter.simps(1) filter.simps(2) is_write.simps(1))
  with adds_trans [OF rd_reg_logged [OF rd] this(1)] show ?case by (auto intro!: exI)
qed

subsection \<open>Sending\<close>

text \<open>A wake request that finds the chip awake only counts.\<close>

definition stays_awake :: "('w, 'z) hif_scheme \<Rightarrow> bool" where
  "stays_awake h \<longleftrightarrow> gu8ChipSleep h \<noteq> 0xff \<and> (gu8ChipSleep h \<noteq> 0 \<or> \<not> deep_sleep_mode h)"

lemma wake_awake:
  "stays_awake h \<Longrightarrow> hif_chip_wake bus junk h = Some (M2M_SUCCESS, h\<lparr>gu8ChipSleep := gu8ChipSleep h + 1\<rparr>)"
  by (auto simp: hif_chip_wake_def stays_awake_def on_ok_def)

lemma u8_plus1: "(x :: u8) \<noteq> 0xff \<Longrightarrow> x + 1 \<noteq> 0 \<and> 1 \<le> x + 1"
proof -
  assume x: "x \<noteq> 0xff"
  have "(- 1 :: u8) = 0xff" by simp
  with x have "x \<noteq> - 1" by metis
  then have "x + 1 \<noteq> 0" by (simp add: eq_neg_iff_add_eq_0 [symmetric])
  then show ?thesis by (simp add: word_neq_0_conv [symmetric] linorder_not_less [symmetric])
qed

lemma sleep_awake:
  assumes "gu8ChipSleep h = c + 1" "c \<noteq> 0xff" "c \<noteq> 0 \<or> \<not> deep_sleep_mode h"
  shows "hif_chip_sleep bus h = Some (M2M_SUCCESS, h\<lparr>gu8ChipSleep := c\<rparr>)"
  using assms u8_plus1 [of c] by (auto simp: hif_chip_sleep_def deep_sleep_mode_def)

definition hif_send_writes :: "u8 list \<Rightarrow> u8 \<Rightarrow> u8 \<Rightarrow> u8 list option \<Rightarrow> u16 \<Rightarrow> u8 list option \<Rightarrow> u16 \<Rightarrow> u16 \<Rightarrow>
    u32 \<Rightarrow> access list" where
  "hif_send_writes stack gid opcode ctrl ctrlsz data datasz dataoff dma =
     (let len = hif_length ctrlsz data datasz dataoff in
      [WReg NMI_STATE_REG (ucast gid OR push_bit 8 (ucast opcode) OR push_bit 16 (ucast len)),
       WReg WIFI_HOST_RCV_CTRL_2 2,
       WBlk dma (take 8 (hif_header stack gid opcode len))]
      @ (case ctrl of Some c \<Rightarrow> [WBlk (dma + 8) (take (unat ctrlsz) c)] | None \<Rightarrow> [])
      @ (case data of Some d \<Rightarrow> [WBlk (dma + 8 + ucast dataoff) (take (unat datasz) d)] | None \<Rightarrow> [])
      @ [WReg WIFI_HOST_RCV_CTRL_3 (push_bit 2 dma OR 2)])"

lemma opt_block_logged:
  assumes "(case b of Some x \<Rightarrow> wr_block (logged bus) a x n h | None \<Rightarrow> Some (M2M_SUCCESS, h)) = Some (r, h1)" "n < 2 ^ 32"
  shows "adds h (case b of Some x \<Rightarrow> [WBlk a (take n x)] | None \<Rightarrow> []) h1"
  using assms by (auto split: option.splits simp: adds_refl wr_block_logged)

lemma u16_lt: "unat (x :: u16) < 2 ^ 32"
  using unsigned_less [of x, where 'a = nat] by simp

lemma hif_send_logged:
  assumes awake: "stays_awake h" and null: "ctrl = None \<longrightarrow> ctrlsz = 0"
    and ok: "hif_send (logged bus) junk stack gid opcode ctrl ctrlsz data datasz dataoff h = Some (M2M_SUCCESS, h')"
  shows "\<exists>dma. dma \<noteq> 0 \<and> gu8ChipSleep h' = gu8ChipSleep h \<and> gu8ChipMode h' = gu8ChipMode h \<and>
    filter is_write (snd (bus_st h')) = filter is_write (snd (bus_st h)) @
      hif_send_writes stack gid opcode ctrl ctrlsz data datasz dataoff dma"
proof -
  let ?len = "hif_length ctrlsz data datasz dataoff"
  let ?h0 = "h\<lparr>gu8ChipSleep := gu8ChipSleep h + 1\<rparr>"
  from ok obtain h1 h2 dma h3 h4 h5 h6 h7 where
    1: "wr_reg (logged bus) NMI_STATE_REG (ucast gid OR push_bit 8 (ucast opcode) OR push_bit 16 (ucast ?len)) ?h0
        = Some (M2M_SUCCESS, h1)"
    and 2: "wr_reg (logged bus) WIFI_HOST_RCV_CTRL_2 (push_bit 1 1) h1 = Some (M2M_SUCCESS, h2)"
    and 3: "dma_poll (logged bus) 1000 h2 = Some (dma, h3)" and dma: "dma \<noteq> 0"
    and 4: "wr_block (logged bus) dma (hif_header stack gid opcode ?len) M2M_HIF_HDR_OFFSET h3 = Some (M2M_SUCCESS, h4)"
    and 5: "(case ctrl of Some c \<Rightarrow> wr_block (logged bus) (dma + of_nat M2M_HIF_HDR_OFFSET) c (unat ctrlsz) h4
        | None \<Rightarrow> Some (M2M_SUCCESS, h4)) = Some (M2M_SUCCESS, h5)"
    and 6: "(case data of Some d \<Rightarrow> wr_block (logged bus) ((case ctrl of Some _ \<Rightarrow> dma + of_nat M2M_HIF_HDR_OFFSET + ucast ctrlsz
          | None \<Rightarrow> dma + of_nat M2M_HIF_HDR_OFFSET) + (ucast dataoff - ucast ctrlsz)) d (unat datasz) h5
        | None \<Rightarrow> Some (M2M_SUCCESS, h5)) = Some (M2M_SUCCESS, h6)"
    and 7: "wr_reg (logged bus) WIFI_HOST_RCV_CTRL_3 (push_bit 2 dma OR push_bit 1 1) h6 = Some (M2M_SUCCESS, h7)"
    and 8: "hif_chip_sleep (logged bus) h7 = Some (M2M_SUCCESS, h')"
    unfolding hif_send_def Let_def wake_awake [OF awake] on_ok_Some
    by (elim on_ok_SuccessE granted_SuccessE) (rule that; assumption)
  obtain l where l: "adds h2 l h3" "filter is_write l = []" using dma_poll_logged [OF 3] by blast
  note a = adds_trans [OF wr_reg_logged [OF 1] adds_trans [OF wr_reg_logged [OF 2] adds_trans [OF l(1)
    adds_trans [OF wr_block_logged [OF 4] adds_trans [OF opt_block_logged [OF 5 u16_lt]
    adds_trans [OF opt_block_logged [OF 6 u16_lt] wr_reg_logged [OF 7]]]]]]]
  have mode: "gu8ChipMode h7 = gu8ChipMode h" and "gu8ChipSleep h7 = gu8ChipSleep h + 1" "deep_sleep_mode h7 = deep_sleep_mode h"
    using adds_keeps(1,2) [OF a] by (simp_all add: deep_sleep_mode_def M2M_HIF_HDR_OFFSET_def)
  with 8 awake have h': "h' = h7\<lparr>gu8ChipSleep := gu8ChipSleep h\<rparr>"
    using sleep_awake [of h7 "gu8ChipSleep h" "logged bus"] by (auto simp: stays_awake_def)
  show ?thesis
    using a null l(2) dma mode by (auto simp: h' hif_send_writes_def Let_def M2M_HIF_HDR_OFFSET_def split: option.splits
      dest!: adds_keeps(4))
qed

text \<open>
  C25: For every bus, when the chip is awake and \<open>hif_send\<close> reports success, then the chip has
  granted a nonzero address and exactly these writes were made, in this order: the state
  register, the request, the packet header at the granted address, the control part 8 bytes
  after it, the payload at 8 plus its offset, and the register that hands the packet over.
  The wake counter is as before.
\<close>

theorem hif_send_trace:
  assumes awake: "stays_awake h" and null: "ctrl = None \<longrightarrow> ctrlsz = 0"
    and ok: "hif_send (logged bus) junk stack gid opcode ctrl ctrlsz data datasz dataoff h = Some (M2M_SUCCESS, h')"
  shows "\<exists>dma. dma \<noteq> 0 \<and> gu8ChipSleep h' = gu8ChipSleep h \<and>
    filter is_write (snd (bus_st h')) = filter is_write (snd (bus_st h)) @
      hif_send_writes stack gid opcode ctrl ctrlsz data datasz dataoff dma"
  using hif_send_logged [OF assms] by blast

text \<open>A bus that answers register reads from a table, accepts all writes and counts the accesses.\<close>

definition table_bus :: "(u32 \<Rightarrow> u32) \<Rightarrow> u8 list \<Rightarrow> nat nm_bus" where
  "table_bus regs mem = \<lparr>b_rreg = (\<lambda>a w. Some (M2M_SUCCESS, Some (regs a), Suc w)),
     b_wreg = (\<lambda>a v w. Some (M2M_SUCCESS, Suc w)),
     b_rblk = (\<lambda>a buf n w. Some (M2M_SUCCESS, take (length buf) mem, Suc w)),
     b_wblk = (\<lambda>a buf n w. Some (M2M_SUCCESS, Suc w))\<rparr>"

definition hif0 :: "'w \<Rightarrow> 'w hif" where
  "hif0 w = \<lparr>bus_st = w, gu8ChipMode = 0, gu8ChipSleep = 0, gu8HifSizeDone = False, gu8Interrupt = 0,
     gu8FlowCtrl = False, pfWifiCb = 0, pfIpCb = 0x100, pfOtaCb = 0, pfSigmaCb = 0, pfHifCb = 0, pfCryptoCb = 0,
     irq_on = True, clk_status_reg_adr = 0xf, nmi_chipid = 0, gu8ChNum = 0, gu8scanInProgress = 0, gpfAppWifiCb = 0\<rparr>"

lemma hif0_awake: "stays_awake (hif0 w)"
  by (simp add: stays_awake_def hif0_def deep_sleep_mode_def M2M_PS_DEEP_AUTOMATIC_def M2M_PS_MANUAL_def)

subsection \<open>The wake counter after a failure\<close>

definition all_in :: "('h \<Rightarrow> bool) \<Rightarrow> ('c \<times> 'h) option \<Rightarrow> bool" where
  "all_in S r \<longleftrightarrow> (\<forall>ret h. r = Some (ret, h) \<longrightarrow> S h)"

definition errs_in :: "('h \<Rightarrow> bool) \<Rightarrow> (int \<times> 'h) option \<Rightarrow> bool" where
  "errs_in S r \<longleftrightarrow> (\<forall>ret h. r = Some (ret, h) \<longrightarrow> ret \<noteq> M2M_SUCCESS \<longrightarrow> S h)"

lemma errs_in_on_ok:
  "all_in S r \<Longrightarrow> (\<And>h. S h \<Longrightarrow> errs_in S (k h)) \<Longrightarrow> errs_in S (on_ok r k)"
  by (auto simp: all_in_def errs_in_def on_ok_def split: option.splits)

definition counted :: "u8 \<Rightarrow> u8 \<Rightarrow> ('w, 'z) hif_scheme \<Rightarrow> bool" where
  "counted c m h \<longleftrightarrow> gu8ChipSleep h = c \<and> gu8ChipMode h = m"

lemma counted_reg: "counted c m h \<Longrightarrow> all_in (counted c m) (wr_reg bus a v h)"
  and counted_block: "counted c m h \<Longrightarrow> all_in (counted c m) (wr_block bus a b n h)"
  by (auto simp: all_in_def counted_def wr_reg_def wr_block_def)

lemma counted_opt:
  "counted c m h \<Longrightarrow> all_in (counted c m) (case b of Some x \<Rightarrow> wr_block bus a x n h | None \<Rightarrow> Some (M2M_SUCCESS, h))"
  using counted_block [of c m h bus a _ n] by (cases b) (simp_all add: all_in_def)

lemma counted_rd: "counted c m h \<Longrightarrow> rd_reg bus a h = Some (r, v, h1) \<Longrightarrow> counted c m h1"
  by (auto simp: rd_reg_def counted_def)

lemma counted_poll: "counted c m h \<Longrightarrow> dma_poll bus n h = Some (d, h1) \<Longrightarrow> counted c m h1"
proof (induction n arbitrary: h)
  case (Suc n)
  from Suc.prems(2) obtain r v h2 where rd: "rd_reg bus WIFI_HOST_RCV_CTRL_2 h = Some (r, v, h2)"
    and "h1 = h2 \<or> (\<exists>r' v'. rd_reg bus 0x150400 h2 = Some (r', v', h1)) \<or> dma_poll bus n h2 = Some (d, h1)"
    by (rule dma_poll_SucE)
  then show ?case
    using counted_rd [OF Suc.prems(1) rd] counted_rd Suc.IH by metis
qed simp

lemma counted_sleep:
  assumes "counted (c + 1) m h" "c \<noteq> 0xff" "c \<noteq> 0 \<or> m \<noteq> M2M_PS_DEEP_AUTOMATIC \<and> m \<noteq> M2M_PS_MANUAL"
  shows "errs_in S (hif_chip_sleep bus h)"
  using assms sleep_awake [of h c bus] by (auto simp: counted_def errs_in_def deep_sleep_mode_def)

text \<open>A run that succeeds and ends in a state of \<open>S\<close>.\<close>

definition ok_in :: "('h \<Rightarrow> bool) \<Rightarrow> (int \<times> 'h) option \<Rightarrow> bool" where
  "ok_in S r \<longleftrightarrow> (\<exists>h. r = Some (M2M_SUCCESS, h) \<and> S h)"

lemma ok_in_on_ok: "ok_in S r \<Longrightarrow> (\<And>h. S h \<Longrightarrow> ok_in T (k h)) \<Longrightarrow> ok_in T (on_ok r k)"
  by (auto simp: ok_in_def)

lemma table_wr: "counted c m h \<Longrightarrow> ok_in (counted c m) (wr_reg (logged (table_bus regs mem)) a v h)"
  and table_wrb: "counted c m h \<Longrightarrow> ok_in (counted c m) (wr_block (logged (table_bus regs mem)) a b n h)"
  by (cases "bus_st h"; auto simp: ok_in_def counted_def wr_reg_def wr_block_def logged_def table_bus_def)+

lemma table_opt:
  "counted c m h \<Longrightarrow> ok_in (counted c m)
     (case b of Some x \<Rightarrow> wr_block (logged (table_bus regs mem)) a x n h | None \<Rightarrow> Some (M2M_SUCCESS, h))"
  using table_wrb [of c m h regs mem a _ n] by (cases b) (auto simp: ok_in_def)

lemma table_poll:
  "counted c m h \<Longrightarrow> regs WIFI_HOST_RCV_CTRL_2 AND 2 = 0 \<Longrightarrow>
     \<exists>h'. dma_poll (logged (table_bus regs mem)) (Suc n) h = Some (regs 0x150400, h') \<and> counted c m h'"
  by (cases "bus_st h") (auto simp: rd_reg_def logged_def table_bus_def keep_def counted_def)

lemma hif_send_table:
  assumes awake: "stays_awake h" and r: "regs WIFI_HOST_RCV_CTRL_2 AND 2 = 0" "regs 0x150400 \<noteq> 0"
  shows "\<exists>h'. hif_send (logged (table_bus regs mem)) junk stack gid op ctrl csz data dsz off h = Some (M2M_SUCCESS, h')"
proof -
  let ?b = "logged (table_bus regs mem)"
  let ?S = "counted (gu8ChipSleep h + 1) (gu8ChipMode h)"
  have sleep: "ok_in (\<lambda>_. True) (hif_chip_sleep ?b h1)" if "?S h1" for h1
    using sleep_awake [of h1 "gu8ChipSleep h" ?b] awake that
    by (auto simp: ok_in_def stays_awake_def deep_sleep_mode_def counted_def)
  have grant: "ok_in T (case dma_poll ?b 1000 h1 of None \<Rightarrow> None | Some (d, h) \<Rightarrow>
      if d = 0 then Some (M2M_ERR_MEM_ALLOC, h) else k d h)"
    if "?S h1" "\<And>d h. ?S h \<Longrightarrow> ok_in T (k d h)" for T h1 k
    using table_poll [where regs = regs and mem = mem and n = 999, OF that(1) r(1)] r(2) that(2) by auto
  have "?S (h\<lparr>gu8ChipSleep := gu8ChipSleep h + 1\<rparr>)" by (simp add: counted_def)
  then have "ok_in (\<lambda>_. True) (hif_send ?b junk stack gid op ctrl csz data dsz off h)"
    unfolding hif_send_def Let_def wake_awake [OF awake] on_ok_Some
    by (intro ok_in_on_ok grant) (blast intro: table_wr table_wrb table_opt sleep)+
  then show ?thesis by (auto simp: ok_in_def)
qed

lemma hif_send_example:
  "\<exists>h'. hif_send (logged (table_bus (\<lambda>_. 0x30000) [])) 0 [9, 9, 9, 9] M2M_REQ_GROUP_IP 0x45 (Some [1, 2]) 2 (Some [7]) 1 0x50
     (hif0 (0, [])) = Some (M2M_SUCCESS, h')"
  by (rule hif_send_table [OF hif0_awake]) simp_all

theorem hif_send_trace_witness:
  "\<exists>h' dma. dma \<noteq> 0 \<and>
     hif_send (logged (table_bus (\<lambda>_. 0x30000) [])) 0 [9, 9, 9, 9] M2M_REQ_GROUP_IP 0x45 (Some [1, 2]) 2 (Some [7]) 1 0x50
       (hif0 (0, [])) = Some (M2M_SUCCESS, h') \<and>
     filter is_write (snd (bus_st h')) =
       hif_send_writes [9, 9, 9, 9] M2M_REQ_GROUP_IP 0x45 (Some [1, 2]) 2 (Some [7]) 1 0x50 dma"
proof -
  obtain h' where h': "hif_send (logged (table_bus (\<lambda>_. 0x30000) [])) 0 [9, 9, 9, 9] M2M_REQ_GROUP_IP 0x45
     (Some [1, 2]) 2 (Some [7]) 1 0x50 (hif0 (0, [])) = Some (M2M_SUCCESS, h')"
    using hif_send_example by blast
  from hif_send_trace [OF hif0_awake _ this] show ?thesis using h' by (auto simp: hif0_def)
qed

text \<open>
  Every failure of \<open>hif_send\<close> leaves the wake counter one higher than before, since the error
  exits skip \<open>hif_chip_sleep\<close>: after one failed request the counter never returns to 0, and the
  chip is not put to sleep again.
\<close>

theorem hif_send_error_keeps_awake:
  assumes "stays_awake h"
    and "hif_send bus junk stack gid opcode ctrl ctrlsz data datasz dataoff h = Some (ret, h')" "ret \<noteq> M2M_SUCCESS"
  shows "gu8ChipSleep h' = gu8ChipSleep h + 1"
proof -
  let ?S = "counted (gu8ChipSleep h + 1) (gu8ChipMode h)"
  have poll: "errs_in ?S (case r of None \<Rightarrow> None | Some (d, h) \<Rightarrow> if d = 0 then Some (M2M_ERR_MEM_ALLOC, h) else k d h)"
    if "\<And>d h. r = Some (d, h) \<Longrightarrow> ?S h" "\<And>d h. ?S h \<Longrightarrow> errs_in ?S (k d h)"
    for r :: "(u32 \<times> ('a, 'b) hif_scheme) option" and k
    using that by (auto simp: errs_in_def split: option.splits if_splits)
  have "?S (h\<lparr>gu8ChipSleep := gu8ChipSleep h + 1\<rparr>)" by (simp add: counted_def)
  then have "errs_in ?S (hif_send bus junk stack gid opcode ctrl ctrlsz data datasz dataoff h)"
    unfolding hif_send_def Let_def wake_awake [OF assms(1)] on_ok_Some
    using assms(1) by (intro errs_in_on_ok poll counted_reg counted_block counted_opt counted_sleep)
      (auto simp: stays_awake_def deep_sleep_mode_def intro: counted_poll)
  with assms(2,3) show ?thesis by (auto simp: errs_in_def counted_def)
qed

theorem hif_send_error_keeps_awake_witness:
  "\<exists>h'. hif_send ((table_bus (\<lambda>_. 0) [])\<lparr>b_wreg := \<lambda>a v w. Some (M2M_ERR_BUS_FAIL, w)\<rparr>) 0 [0, 0, 0, 0] M2M_REQ_GROUP_IP
     0x45 (Some [1, 2]) 2 None 0 0 (hif0 0) = Some (M2M_ERR_BUS_FAIL, h') \<and> gu8ChipSleep h' = 1"
proof -
  let ?bus = "(table_bus (\<lambda>_. 0) [])\<lparr>b_wreg := \<lambda>a v w. Some (M2M_ERR_BUS_FAIL, w)\<rparr>"
  have r: "hif_send ?bus 0 [0, 0, 0, 0] M2M_REQ_GROUP_IP 0x45 (Some [1, 2]) 2 None 0 0 (hif0 0) =
     Some (M2M_ERR_BUS_FAIL, (hif0 0)\<lparr>gu8ChipSleep := gu8ChipSleep (hif0 0) + 1\<rparr>)"
    unfolding hif_send_def wake_awake [OF hif0_awake] on_ok_Some Let_def
    by (simp add: on_ok_def wr_reg_def code_defs hif0_def)
  from hif_send_error_keeps_awake [OF hif0_awake r] r show ?thesis
    by (simp add: code_defs hif0_def)
qed

subsection \<open>Receiving\<close>

lemma set_rx_done_logged:
  "hif_set_rx_done (logged bus) h = Some (r, h') \<Longrightarrow>
     \<exists>l. snd (bus_st h') = snd (bus_st h) @ l \<and> (\<forall>a n. RBlk a n \<notin> set l)"
  unfolding hif_set_rx_done_def on_val_def on_ok_def
  by (auto split: option.splits if_splits dest!: rd_reg_logged wr_reg_logged adds_keeps(4))

text \<open>What the chip announces: the size of the packet in the control register.\<close>

abbreviation rx_size :: "u32 option \<Rightarrow> u32" where
  "rx_size v \<equiv> drop_bit 2 (keep 0 v) AND 0xfff"

lemma window_nat:
  fixes addr address size :: u32 and sz :: u16
  assumes "unat addr + unat sz < 2 ^ 32" "\<not> (addr < address \<or> addr + ucast sz > address + size)"
  shows "unat address \<le> unat addr" "unat addr + unat sz \<le> unat address + unat size"
proof -
  have "unat sz < 2 ^ 32" by (rule u16_lt)
  then have sz: "unat (ucast sz :: u32) = unat sz" by (simp add: unsigned_ucast_eq take_bit_nat_eq_self)
  have "unat (addr + ucast sz) = unat addr + unat sz"
    using assms(1) by (simp add: unat_add_lem [THEN iffD1] sz)
  moreover have "unat (address + size) \<le> unat address + unat size" by (simp add: unat_word_ariths)
  ultimately show "unat address \<le> unat addr" "unat addr + unat sz \<le> unat address + unat size"
    using assms(2) by (simp_all add: word_less_nat_alt)
qed

text \<open>
  C30: For every bus, \<open>hif_receive\<close> reads at most one block, the requested one, and only if it lies
  inside the window that the chip announced in its two registers just before (for a request
  that does not run past the end of the address space).
\<close>

theorem hif_receive_window:
  assumes range: "unat addr + unat sz < 2 ^ 32" and log: "snd (bus_st h) = []"
    and run: "hif_receive (logged bus) addr buf sz isDone h = Some (ret, buf', h')"
    and blk: "RBlk a n \<in> set (snd (bus_st h'))"
  shows "a = addr \<and> n = unat sz \<and>
    (\<exists>v0 v1 l. snd (bus_st h') = [RReg WIFI_HOST_RCV_CTRL_0 v0, RReg WIFI_HOST_RCV_CTRL_1 v1, RBlk a n] @ l \<and>
       (\<forall>a n. RBlk a n \<notin> set l) \<and>
       unat (keep 0 v1) \<le> unat a \<and>
       unat a + n \<le> unat (keep 0 v1) + unat (drop_bit 2 (keep 0 v0) AND 0xfff))"
proof -
  show ?thesis
  proof (cases "buf = None \<or> addr = 0 \<or> sz = 0")
    case True
    then show ?thesis using run blk log
      by (auto simp: hif_receive_def Let_def split: option.splits if_splits dest!: set_rx_done_logged)
  next
    case False
    then obtain b where b: "buf = Some b" and nz: "addr \<noteq> 0" "sz \<noteq> 0" by auto
    obtain r0 v0 h0 where rd0: "rd_reg (logged bus) WIFI_HOST_RCV_CTRL_0 h = Some (r0, v0, h0)"
      using run b nz by (auto simp: hif_receive_def Let_def split: option.splits)
    have l0: "snd (bus_st h0) = [RReg WIFI_HOST_RCV_CTRL_0 v0]"
      using adds_keeps(4) [OF rd_reg_logged [OF rd0]] log by simp
    have r0: "r0 = M2M_SUCCESS" using run b nz rd0 l0 blk by - (rule ccontr, auto simp: hif_receive_def Let_def)
    obtain r1 v1 h1 where rd1: "rd_reg (logged bus) WIFI_HOST_RCV_CTRL_1 h0 = Some (r1, v1, h1)"
      using run b nz rd0 r0 by (auto simp: hif_receive_def Let_def split: option.splits)
    have l1: "snd (bus_st h1) = [RReg WIFI_HOST_RCV_CTRL_0 v0, RReg WIFI_HOST_RCV_CTRL_1 v1]"
      using adds_keeps(4) [OF rd_reg_logged [OF rd1]] l0 by simp
    have r1: "r1 = M2M_SUCCESS" using run b nz rd0 r0 rd1 l1 blk by - (rule ccontr, auto simp: hif_receive_def Let_def)
    have in_win: "\<not> (addr < keep 0 v1 \<or> addr + ucast sz > keep 0 v1 + rx_size v0)"
      using run b nz rd0 r0 rd1 r1 l1 blk by (auto simp: hif_receive_def Let_def split: if_splits)
    obtain r2 b2 h2 where rd2: "rd_block (logged bus) addr b (unat sz) h1 = Some (r2, b2, h2)"
      using run b nz rd0 r0 rd1 r1 l1 blk
      by (auto simp: hif_receive_def Let_def split: option.splits if_splits)
    have l2: "snd (bus_st h2) = snd (bus_st h1) @ [RBlk addr (unat sz)]"
      by (rule adds_keeps(4) [OF rd_block_logged [OF rd2 u16_lt]])
    obtain l where l: "snd (bus_st h') = snd (bus_st h2) @ l" "\<forall>a n. RBlk a n \<notin> set l"
      using run b nz rd0 r0 rd1 r1 in_win rd2 l1 blk
      by (auto simp: hif_receive_def Let_def split: option.splits if_splits dest!: set_rx_done_logged)
    have "a = addr" "n = unat sz" using blk l l2 l1 by auto
    then show ?thesis using l l2 l1 window_nat [OF range in_win] by auto
  qed
qed

definition rx_regs :: "u32 \<Rightarrow> u32" where
  "rx_regs a = (if a = WIFI_HOST_RCV_CTRL_0 then 0x401 else if a = WIFI_HOST_RCV_CTRL_1 then 0x3000 else 0)"

lemma hif_receive_example:
  "hif_receive (logged (table_bus rx_regs [7, 8])) 0x3008 (Some [0, 0]) 2 False (hif0 (0, [])) =
     Some (M2M_SUCCESS, Some [7, 8], hif0 (3, [RReg WIFI_HOST_RCV_CTRL_0 (Some 0x401),
       RReg WIFI_HOST_RCV_CTRL_1 (Some 0x3000), RBlk 0x3008 2]))"
  by (simp add: hif_receive_def rd_reg_def rd_block_def logged_def table_bus_def hif0_def rx_regs_def keep_def
      WIFI_HOST_RCV_CTRL_0_def WIFI_HOST_RCV_CTRL_1_def)

theorem hif_receive_window_witness:
  "\<exists>h'. hif_receive (logged (table_bus rx_regs [7, 8])) 0x3008 (Some [0, 0]) 2 False (hif0 (0, [])) =
     Some (M2M_SUCCESS, Some [7, 8], h') \<and> RBlk 0x3008 2 \<in> set (snd (bus_st h')) \<and>
     (\<exists>v0 v1 l. snd (bus_st h') = [RReg WIFI_HOST_RCV_CTRL_0 v0, RReg WIFI_HOST_RCV_CTRL_1 v1, RBlk 0x3008 2] @ l \<and>
       unat (0x3008 :: u32) + 2 \<le> unat (keep 0 v1) + unat (drop_bit 2 (keep 0 v0) AND 0xfff))"
  using hif_receive_window [OF _ _ hif_receive_example, where a = "0x3008" and n = 2]
  by (auto simp: hif_receive_example) (auto simp: hif0_def)

subsection \<open>Dispatching\<close>

text \<open>
  C31: \<open>hif_isr\<close> hands a packet to the callback of its group (1: Wi-Fi, 2: sockets, 4: updates, 6: cryptography,
  7: the sigma group) with the opcode, the length of the
  header minus 8 and the address after the header, and returns the wake counter to its old value.
  The length is only compared with the announced size from one side: it may exceed the size,
  and one below 8 wraps round to a payload of almost 64 KiB.
\<close>

theorem hif_isr_dispatches:
  assumes awake: "stays_awake h" and sz: "psize = drop_bit 2 (reg AND NOT 1) AND 0xfff"
    and bus: "b_rreg bus WIFI_HOST_RCV_CTRL_0 (bus_st h) = Some (M2M_SUCCESS, Some reg, w1)"
      "b_wreg bus WIFI_HOST_RCV_CTRL_0 (reg AND NOT 1) w1 = Some (M2M_SUCCESS, w2)"
      "b_rreg bus WIFI_HOST_RCV_CTRL_1 w2 = Some (M2M_SUCCESS, Some address, w3)"
      "b_rblk bus address [0, 0, 0, 0] 4 w3 = Some (M2M_SUCCESS, [gid, opcode] @ le16 len, w4)"
    and packet: "reg AND 1 \<noteq> 0" "psize \<noteq> 0" "uint psize - uint len \<le> 4"
    and grp: "(gid, f) \<in> {(1, pfWifiCb h), (2, pfIpCb h), (4, pfOtaCb h), (6, pfCryptoCb h), (7, pfSigmaCb h)}" "f \<noteq> 0"
    and cb: "cb f opcode (len - 8) (address + 8)
        (h\<lparr>gu8ChipSleep := gu8ChipSleep h + 1, irq_on := False, gu8HifSizeDone := False, bus_st := w4\<rparr>) = Some h5"
      "gu8HifSizeDone h5" "gu8ChipSleep h5 = gu8ChipSleep h + 1" "gu8ChipMode h5 = gu8ChipMode h"
  shows "hif_isr bus junk cb h = Some (M2M_SUCCESS, h5\<lparr>gu8ChipSleep := gu8ChipSleep h\<rparr>)"
proof -
  let ?h4 = "h\<lparr>gu8ChipSleep := gu8ChipSleep h + 1, irq_on := False, gu8HifSizeDone := False, bus_st := w4\<rparr>"
  have "group_cb gid ?h4 = Some f" using grp(1) by (auto simp: group_cb_def group_defs)
  then have "hif_dispatch bus cb address ([gid, opcode] @ le16 len) ?h4 = Some (M2M_SUCCESS, h5)"
    using grp(2) cb by (simp add: hif_dispatch_def M2M_HIF_HDR_OFFSET_def)
  then have "hif_isr_body bus cb (h\<lparr>gu8ChipSleep := gu8ChipSleep h + 1\<rparr>) = Some (M2M_SUCCESS, h5)"
    using bus packet \<open>group_cb gid ?h4 = Some f\<close>
    by (simp add: hif_isr_body_def on_val_def on_ok_def rd_reg_def wr_reg_def rd_block_def keep_def Let_def
        sz)
  moreover have "hif_chip_sleep bus h5 = Some (M2M_SUCCESS, h5\<lparr>gu8ChipSleep := gu8ChipSleep h\<rparr>)"
    using sleep_awake [of h5 "gu8ChipSleep h" bus] cb(3,4) awake by (auto simp: stays_awake_def deep_sleep_mode_def)
  ultimately show ?thesis
    by (simp add: hif_isr_def wake_awake [OF awake])
qed

definition short_regs :: "u32 \<Rightarrow> u32" where
  "short_regs a = (if a = WIFI_HOST_RCV_CTRL_0 then 0x11 else 0x3000)"

text \<open>A callback that accepts just the wrapped size.\<close>

definition wrapped_cb :: "(nat, unit) hif_cb" where
  "wrapped_cb f op sz adr h =
     (if f = 0x100 \<and> op = 0x46 \<and> sz = 0xfffa \<and> adr = 0x3008 then Some (h\<lparr>gu8HifSizeDone := True\<rparr>) else None)"

theorem hif_isr_dispatches_witness:
  "hif_isr (table_bus short_regs [M2M_REQ_GROUP_IP, 0x46, 2, 0]) 0 wrapped_cb (hif0 0) =
     Some (M2M_SUCCESS, ((hif0 (4 :: nat))\<lparr>gu8ChipSleep := 1, irq_on := False, gu8HifSizeDone := True\<rparr>)
       \<lparr>gu8ChipSleep := gu8ChipSleep (hif0 (0 :: nat))\<rparr>)"
proof (rule hif_isr_dispatches [OF hif0_awake refl, where reg = "0x11" and address = "0x3000" and len = 2
      and gid = M2M_REQ_GROUP_IP and opcode = "0x46" and f = "0x100" and ?w1.0 = 1 and ?w2.0 = 2 and ?w3.0 = 3 and ?w4.0 = 4
      and ?h5.0 = "(hif0 (4 :: nat))\<lparr>gu8ChipSleep := 1, irq_on := False, gu8HifSizeDone := True\<rparr>"])
  show "wrapped_cb 0x100 0x46 (2 - 8) (0x3000 + 8) ((hif0 0)\<lparr>gu8ChipSleep := gu8ChipSleep (hif0 (0 :: nat)) + 1,
      irq_on := False, gu8HifSizeDone := False, bus_st := 4\<rparr>) =
    Some ((hif0 (4 :: nat))\<lparr>gu8ChipSleep := 1, irq_on := False, gu8HifSizeDone := True\<rparr>)"
    by (simp add: wrapped_cb_def hif0_def)
qed (simp_all add: table_bus_def short_regs_def hif0_def WIFI_HOST_RCV_CTRL_0_def WIFI_HOST_RCV_CTRL_1_def
      le16_def group_cb_def group_defs)

end
