(* ===== verification/Sock_Props.thy ===== *)
theory Sock_Props
  imports Socket Hif_Props
begin

text \<open>
  Properties of the socket layer: the host interface does not touch the socket table, the
  invariant of the table, allocation of sockets, discarding of stale replies, delivery of
  received data in pieces, and parsing of dotted addresses.
\<close>

subsection \<open>The host interface leaves the socket layer alone\<close>

lemma all_in_on_ok:
  "all_in S r \<Longrightarrow> (\<And>h. S h \<Longrightarrow> all_in S (k h)) \<Longrightarrow> all_in S (on_ok r k)"
  by (auto simp: all_in_def on_ok_def split: option.splits if_splits)

lemma all_in_Some [simp]: "all_in S (Some (r, h)) \<longleftrightarrow> S h"
  and all_in_None [simp]: "all_in S None"
  by (simp_all add: all_in_def)

lemma rd_reg_more: "rd_reg bus a h = Some (r, v, h') \<Longrightarrow> hif.more h' = hif.more h"
  and wr_reg_more: "wr_reg bus a x h = Some (r, h') \<Longrightarrow> hif.more h' = hif.more h"
  and wr_block_more: "wr_block bus a b n h = Some (r, h') \<Longrightarrow> hif.more h' = hif.more h"
  and rd_block_more: "rd_block bus a b n h = Some (r, b', h') \<Longrightarrow> hif.more h' = hif.more h"
  by (auto simp: rd_reg_def wr_reg_def wr_block_def rd_block_def)

lemmas access_more = rd_reg_more wr_reg_more wr_block_more rd_block_more

lemma clk_status_more: "clk_status bus st h = Some (r, v, h') \<Longrightarrow> hif.more h' = hif.more h"
  by (auto simp: clk_status_def Let_def bind_eq_Some_conv rd_reg_def split: if_splits)

lemma bind_SomeE:
  assumes "Option.bind r k = Some y"
  obtains x where "r = Some x" "k x = Some y"
  using assms by (auto simp: bind_eq_Some_conv)

lemma wake_loop_more:
  assumes loop: "wake_loop bus reg st n h = Some y"
  shows "hif.more (snd y) = hif.more h"
proof (rule wake_loop.raw_induct [OF _ loop], goal_cases)
  case (1 f bus reg st n h y)
  note IH = 1(1)
  from 1(2) obtain r1 h1 where 1: "wr_reg bus 1 (reg OR push_bit 1 1) h = Some (r1, h1)"
    and b: "Option.bind (clk_status bus st h1) (\<lambda>(ret, st, h).
       if ret \<noteq> M2M_SUCCESS then Some (ret, h)
       else
         Option.bind
           (if st AND 0x4 = 0
            then (if Suc n mod 3 = 0
                  then Option.bind (rd_reg bus (clk_status_reg_adr h) h) (\<lambda>(_, v, h).
                         Some (keep st v, if keep st v AND 0x4 = 0 then n + 2 else n + 1, h))
                  else Some (st, n + 1, h))
            else Some (st, n, h)) (\<lambda>(st, n, h).
           if st AND 0x4 = 0
           then Option.bind (wr_reg bus 0x1 (reg OR push_bit 1 1) h) (\<lambda>(_, h). f bus reg st n h)
           else Some (ret, h))) = Some y"
    by (elim bind_SomeE) auto
  from b obtain r2 st2 h2 where 2: "clk_status bus st h1 = Some (r2, st2, h2)"
    by (elim bind_SomeE) auto
  have h2: "hif.more h2 = hif.more h" using 1 2 access_more clk_status_more by metis
  show ?case
  proof (cases "r2 = M2M_SUCCESS")
    case False
    with b 2 h2 show ?thesis by auto
  next
    case True
    with b 2 obtain st3 n3 h3 where mid: "(if st2 AND 0x4 = 0
            then (if Suc n mod 3 = 0
                  then Option.bind (rd_reg bus (clk_status_reg_adr h2) h2) (\<lambda>(_, v, h).
                         Some (keep st2 v, if keep st2 v AND 0x4 = 0 then n + 2 else n + 1, h))
                  else Some (st2, n + 1, h2))
            else Some (st2, n, h2)) = Some (st3, n3, h3)"
      and rest: "(if st3 AND 0x4 = 0 then Option.bind (wr_reg bus 0x1 (reg OR push_bit 1 1) h3) (\<lambda>(_, h). f bus reg st3 n3 h)
           else Some (r2, h3)) = Some y"
      by (elim bind_SomeE) (auto elim!: bind_SomeE)
    from mid have "hif.more h3 = hif.more h2"
      by (auto split: if_splits elim!: bind_SomeE dest: access_more)
    with rest IH h2 show ?thesis
      by (cases "st3 AND 4 = 0"; cases y) (auto elim!: bind_SomeE dest!: access_more(2))
  qed
qed

lemma more_wr: "hif.more h = z \<Longrightarrow> all_in (\<lambda>h'. hif.more h' = z) (wr_reg bus a v h)"
  and more_wrb: "hif.more h = z \<Longrightarrow> all_in (\<lambda>h'. hif.more h' = z) (wr_block bus a b n h)"
  by (auto simp: all_in_def dest: access_more)

lemma more_clkless_wake: "all_in (\<lambda>h'. hif.more h' = hif.more h) (nm_clkless_wake bus junk h)"
proof (cases "rd_reg bus 1 h")
  case (Some x)
  obtain r v h1 where x: "x = (r, v, h1)" by (cases x)
  then have "hif.more h1 = hif.more h" using Some access_more by blast
  then show ?thesis using wake_loop_more [of bus _ junk 0 h1]
    by (cases v) (auto simp: all_in_def nm_clkless_wake_def on_val_def Some x)
qed (simp add: nm_clkless_wake_def on_val_def)

lemma more_wake: "all_in (\<lambda>h'. hif.more h' = hif.more h) (hif_chip_wake bus junk h)"
proof -
  have "all_in (\<lambda>h'. hif.more h' = hif.more h) (on_ok (nm_clkless_wake bus junk h) (wr_reg bus WAKE_REG WAKE_VALUE))"
    by (intro all_in_on_ok more_clkless_wake more_wr)
  then show ?thesis
    unfolding hif_chip_wake_def by (intro all_in_on_ok) auto
qed

lemma more_on_val:
  "(\<And>v h1. hif.more h1 = z \<Longrightarrow> all_in (\<lambda>h'. hif.more h' = z) (k v h1)) \<Longrightarrow> hif.more h = z \<Longrightarrow>
     all_in (\<lambda>h'. hif.more h' = z) (on_val (rd_reg bus a h) k)"
  by (auto simp: on_val_def split: option.splits if_splits dest: access_more)

lemma more_sleep: "all_in (\<lambda>h'. hif.more h' = hif.more h) (hif_chip_sleep bus h)"
proof -
  have *: "all_in (\<lambda>h'. hif.more h' = hif.more h) (on_ok (wr_reg bus WAKE_REG SLEEP_VALUE h1) (\<lambda>h.
                on_val (rd_reg bus 0x1 h) (\<lambda>reg h.
                  if reg AND 0x2 \<noteq> 0 then wr_reg bus 0x1 (reg AND NOT (push_bit 1 1)) h
                  else Some (M2M_SUCCESS, h))))" if "hif.more h1 = hif.more h" for h1
    using that by (intro all_in_on_ok more_on_val more_wr) (auto intro: more_wr)
  show ?thesis
    unfolding hif_chip_sleep_def Let_def using * by simp
qed

lemma dma_poll_more: "dma_poll bus n h = Some (d, h1) \<Longrightarrow> hif.more h1 = hif.more h"
proof (induction n arbitrary: h)
  case (Suc n)
  from Suc.prems show ?case
    by (rule dma_poll_SucE) (metis access_more(1) Suc.IH)
qed simp

lemma hif_send_more:
  "all_in (\<lambda>h'. hif.more h' = hif.more h) (hif_send bus junk stack gid op ctrl csz data dsz off h)"
proof -
  let ?S = "\<lambda>h'. hif.more h' = hif.more h"
  have *: "all_in ?S (wr_reg bus a v h1)" "all_in ?S (wr_block bus a b n h1)" "all_in ?S (hif_chip_sleep bus h1)"
    "all_in ?S (case b' of Some x \<Rightarrow> wr_block bus a x n h1 | None \<Rightarrow> Some (M2M_SUCCESS, h1))"
    if "?S h1" for a v b n h1 b'
    using that more_wr [of h1 _ bus a v] more_wrb [of h1 _ bus a _ n] more_sleep [of h1 bus]
    by (auto split: option.splits)
  have poll: "all_in ?S (case r of None \<Rightarrow> None | Some (d, h) \<Rightarrow> if d = 0 then Some (M2M_ERR_MEM_ALLOC, h) else k d h)"
    if "\<And>d h. r = Some (d, h) \<Longrightarrow> ?S h" "\<And>d h. ?S h \<Longrightarrow> all_in ?S (k d h)" for r :: "(u32 \<times> _) option" and k
    using that by (auto split: option.splits)
  show ?thesis
    unfolding hif_send_def Let_def
    by (intro all_in_on_ok poll more_wake * impI) (auto dest: dma_poll_more)
qed

lemma hif_set_rx_done_more: "all_in (\<lambda>h'. hif.more h' = hif.more h) (hif_set_rx_done bus h)"
  unfolding hif_set_rx_done_def by (intro more_on_val all_in_on_ok more_wr) auto

lemma hif_receive_more: "hif_receive bus addr buf sz isDone h = Some (r, b, h') \<Longrightarrow> hif.more h' = hif.more h"
proof -
  have rx: "hif.more h2 = hif.more h1"
    if "map_option (\<lambda>(r, h). (r, b', h)) (hif_set_rx_done bus (h1\<lparr>gu8HifSizeDone := True\<rparr>)) = Some (r2, b2, h2)"
    for b' r2 b2 h1 h2
    using that hif_set_rx_done_more [of "h1\<lparr>gu8HifSizeDone := True\<rparr>" bus] by (auto simp: all_in_def)
  assume "hif_receive bus addr buf sz isDone h = Some (r, b, h')"
  then show ?thesis
    unfolding hif_receive_def Let_def
    by (auto split: option.splits if_splits dest!: access_more rx simp del: option.map_disc_iff map_option_eq_Some)
qed

lemma sk_more:
  fixes s s' :: "('w, 'a) sk"
  assumes "hif.more s' = hif.more s"
  shows "gastrSockets s' = gastrSockets s" "gu16SessionID s' = gu16SessionID s" "app_st s' = app_st s"
    "gpfAppSocketCb s' = gpfAppSocketCb s" "user_mem s' = user_mem s"
  using assms by (cases s; cases s'; simp)+

lemmas receive_keeps = sk_more [OF hif_receive_more]

lemma request_keeps:
  assumes "SOCKET_REQUEST e op args p n off s = Some (r, s')"
  shows "gastrSockets s' = gastrSockets s" "gu16SessionID s' = gu16SessionID s" "app_st s' = app_st s"
    "gpfAppSocketCb s' = gpfAppSocketCb s" "user_mem s' = user_mem s"
  using assms sk_more hif_send_more [of s "ev_bus e" "ev_junk e" "ev_stack e" M2M_REQ_GROUP_IP op "Some args"
      "of_nat (length args)" p n off]
  by (fastforce simp: SOCKET_REQUEST_def all_in_def)+

subsection \<open>The invariant of the table\<close>

definition good :: "tstrSocket \<Rightarrow> bool" where
  "good x \<longleftrightarrow> bIsUsed x = 0 \<or> bIsUsed x = 1 \<and> u16SessionID x \<noteq> 0"

definition sock_inv :: "('w, 'a) sk \<Rightarrow> bool" where
  "sock_inv s \<longleftrightarrow> length (gastrSockets s) = MAX_SOCKET \<and> list_all good (gastrSockets s)"

lemma next_session_nonzero: "next_session i \<noteq> 0"
  by (simp add: next_session_def)

lemma all_inD: "r = Some (c, s) \<Longrightarrow> all_in S r \<Longrightarrow> S s"
  by (auto simp: all_in_def)

lemma all_in_bind: "(\<And>x. r = Some x \<Longrightarrow> all_in S (k x)) \<Longrightarrow> all_in S (Option.bind r k)"
  by (cases r) simp_all

lemma all_in_bind_pair:
  "all_in S r \<Longrightarrow> (\<And>c s. S s \<Longrightarrow> all_in S (k c s)) \<Longrightarrow> all_in S (Option.bind r (\<lambda>(c, s). k c s))"
  by (cases r) (auto simp: all_in_def)

lemma all_in_if: "(c \<Longrightarrow> all_in S a) \<Longrightarrow> (\<not> c \<Longrightarrow> all_in S b) \<Longrightarrow> all_in S (if c then a else b)"
  by simp

definition opt_in :: "('s \<Rightarrow> bool) \<Rightarrow> 's option \<Rightarrow> bool" where
  "opt_in S r \<longleftrightarrow> (\<forall>s. r = Some s \<longrightarrow> S s)"

lemma opt_in_simps [simp]: "opt_in S None" "opt_in S (Some s) \<longleftrightarrow> S s"
  by (simp_all add: opt_in_def)

lemma opt_inD: "r = Some s \<Longrightarrow> opt_in S r \<Longrightarrow> S s"
  by (simp add: opt_in_def)

lemma opt_in_bind: "(\<And>x. r = Some x \<Longrightarrow> opt_in S (k x)) \<Longrightarrow> opt_in S (Option.bind r k)"
  by (cases r) simp_all

lemma opt_in_seq: "opt_in S r \<Longrightarrow> (\<And>s. S s \<Longrightarrow> opt_in S (k s)) \<Longrightarrow> opt_in S (Option.bind r k)"
  by (cases r) simp_all

lemma opt_in_if: "(c \<Longrightarrow> opt_in S a) \<Longrightarrow> (\<not> c \<Longrightarrow> opt_in S b) \<Longrightarrow> opt_in S (if c then a else b)"
  by simp

text \<open>The application's callbacks keep an invariant, as they do when they only use the socket
  functions.\<close>

definition cbs_keep :: "(('w, 'a) sk \<Rightarrow> bool) \<Rightarrow> ('w, 'a) sock_cbs \<Rightarrow> bool" where
  "cbs_keep S cbs \<longleftrightarrow>
     (\<forall>s. S s \<longrightarrow>
        (\<forall>f sock msg. opt_in S (app_cb cbs f sock msg s)) \<and>
        (\<forall>f name ip. opt_in S (resolve_cb cbs f name ip s)) \<and>
        (\<forall>f ip rtt err. opt_in S (ping_cb cbs f ip rtt err s)))"

lemma receive_user_keeps:
  assumes "hif_receive_user e addr p sz isDone s = Some (r, s')"
  shows "gastrSockets s' = gastrSockets s" "app_st s' = app_st s"
  using assms receive_keeps(1,3)
  by (fastforce simp: hif_receive_user_def bind_eq_Some_conv split: option.splits)+

subsection \<open>Steps of the layer\<close>

text \<open>Everything that can change the state of the layer: the functions the application calls and
  the replies of the firmware.\<close>

inductive sk_step :: "'w env \<Rightarrow> ('w, 'a) sock_cbs \<Rightarrow> ('w, 'a) sk \<Rightarrow> ('w, 'a) sk \<Rightarrow> bool" for e cbs where
  st_init: "sk_step e cbs s (socketInit p s)"
| st_deinit: "sk_step e cbs s (socketDeinit s)"
| st_register: "sk_step e cbs s (registerSocketCallback p q s)"
| st_socket: "socket e domain ty flags s = Some (r, s') \<Longrightarrow> sk_step e cbs s s'"
| st_bind: "bind_sock e sock a n s = Some (r, s') \<Longrightarrow> sk_step e cbs s s'"
| st_listen: "listen e sock n s = Some (r, s') \<Longrightarrow> sk_step e cbs s s'"
| st_accept: "accept sock s = Some (r, s') \<Longrightarrow> sk_step e cbs s s'"
| st_connect: "connect e sock a n s = Some (r, s') \<Longrightarrow> sk_step e cbs s s'"
| st_send: "send e sock buf len s = Some (r, s') \<Longrightarrow> sk_step e cbs s s'"
| st_sendto: "sendto e sock buf len dest s = Some (r, s') \<Longrightarrow> sk_step e cbs s s'"
| st_recv: "recv e sock p len t s = Some (r, s') \<Longrightarrow> sk_step e cbs s s'"
| st_recvfrom: "recvfrom e sock p len t s = Some (r, s') \<Longrightarrow> sk_step e cbs s s'"
| st_close: "close e sock s = Some (r, s') \<Longrightarrow> sk_step e cbs s s'"
| st_resolve: "gethostbyname e name s = Some (r, s') \<Longrightarrow> sk_step e cbs s s'"
| st_setsockopt: "setsockopt e sock level opt v len s = Some (r, s') \<Longrightarrow> sk_step e cbs s s'"
| st_ping: "m2m_ping_req e ip ttl p s = Some (r, s') \<Longrightarrow> sk_step e cbs s s'"
| st_ciphers: "sslSetActiveCipherSuites e bmp s = Some (r, s') \<Longrightarrow> sk_step e cbs s s'"
| st_reply: "m2m_ip_cb e cbs op bufsize addr s = Some s' \<Longrightarrow> sk_step e cbs s s'"

subsection \<open>Invariants that the layer keeps\<close>

text \<open>
  What an invariant \<open>S\<close> of the layer and its application must satisfy to be kept by everything the layer
  does: it depends on the table and the state of the application alone, every entry of the table is
  good, and the update of an entry to a good one and the reset of the table keep it.
\<close>

locale sk_inv =
  fixes S :: "('w, 'a) sk \<Rightarrow> bool"
  assumes S_frame: "S s \<Longrightarrow> gastrSockets s' = gastrSockets s \<Longrightarrow> app_st s' = app_st s \<Longrightarrow> S s'"
    and S_good: "S s \<Longrightarrow> x \<in> set (gastrSockets s) \<Longrightarrow> good x"
    and S_update: "S s \<Longrightarrow> good x \<Longrightarrow> S (s\<lparr>gastrSockets := (gastrSockets s)[i := x]\<rparr>)"
    and S_zero: "S s \<Longrightarrow> S (s\<lparr>gastrSockets := replicate MAX_SOCKET zero_socket\<rparr>)"
begin

lemma S_same: "gastrSockets s' = gastrSockets s \<Longrightarrow> app_st s' = app_st s \<Longrightarrow> S s' = S s"
  using S_frame by metis

lemma S_upd [simp]:
  "S (s\<lparr>gu16SessionID := n\<rparr>) = S s" "S (s\<lparr>gfpPingCb := p\<rparr>) = S s" "S (s\<lparr>gpfAppSocketCb := p\<rparr>) = S s"
  "S (s\<lparr>gpfAppResolveCb := p\<rparr>) = S s" "S (s\<lparr>gbSocketInit := b\<rparr>) = S s" "S (snd (hif_register_cb g f s)) = S s"
  by (rule S_same; simp add: hif_register_cb_def)+

lemma S_get: "S s \<Longrightarrow> get_sock sock s = Some x \<Longrightarrow> good x"
  by (auto simp: get_sock_def mem_read_def intro: S_good split: if_splits)

lemma inv_request: "S s \<Longrightarrow> all_in S (SOCKET_REQUEST e op args p n off s)"
  by (auto simp: all_in_def intro: S_frame request_keeps(1) request_keeps(3))

lemma inv_request_err: "S s \<Longrightarrow> all_in S (request e err op args p n off s)"
  using inv_request by (fastforce simp: all_in_def request_def)

lemma inv_if_used:
  "S s \<Longrightarrow> (\<And>x. good x \<Longrightarrow> bIsUsed x = 1 \<Longrightarrow> get_sock sock s = Some x \<Longrightarrow> all_in S (yes x)) \<Longrightarrow>
     all_in S (if_used sock (Some (err, s)) yes s)"
  using S_get by (fastforce simp: if_used_def bind_eq_Some_conv all_in_def split: if_splits)

lemma inv_open_socket: "S s \<Longrightarrow> all_in S (open_socket e i flags s)"
proof -
  let ?sid = "next_session (gu16SessionID s)"
  let ?x = "\<lambda>fl. zero_socket\<lparr>bIsUsed := 1, u16SessionID := ?sid, u8SSLFlags := fl\<rparr>"
  assume "S s"
  then have "S (s\<lparr>gu16SessionID := ?sid, gastrSockets := (gastrSockets s)[i := ?x fl]\<rparr>)" for fl
    using S_update [of "s\<lparr>gu16SessionID := ?sid\<rparr>" "?x fl" i] next_session_nonzero
    by (simp add: good_def)
  from this [of 0] this [THEN inv_request] show ?thesis
    by (simp add: open_socket_def Let_def all_in_def zero_socket_def) (fastforce simp: all_in_def)
qed

lemma inv_socket: "S s \<Longrightarrow> all_in S (socket e domain ty flags s)"
  by (auto simp: socket_def inv_open_socket split: option.splits)

lemma inv_upd_sock:
  assumes "S s" "upd_sock sock f s = Some s'" "\<And>x. good x \<Longrightarrow> good (f x)"
  shows "S s'"
  using assms(1,2) S_update [OF assms(1) assms(3)] S_get [OF assms(1)]
  by (auto simp: upd_sock_def bind_eq_Some_conv)

lemma inv_recv_with: "S s \<Longrightarrow> all_in S (recv_with e cmd sock buf n t s)"
  unfolding recv_with_def Let_def
  by (auto intro!: inv_if_used inv_request_err S_update simp: good_def)

lemma inv_close: "S s \<Longrightarrow> all_in S (close e sock s)"
proof (unfold close_def, rule inv_if_used)
  fix x
  assume inv: "S s"
  let ?s = "s\<lparr>gastrSockets := (gastrSockets s)[nat sock := x\<lparr>bIsUsed := 0, u16SessionID := 0\<rparr>]\<rparr>"
  have "S ?s" by (intro S_update inv) (simp add: good_def)
  then have *: "all_in S (request e err op args p n off ?s)" for err op args p n off
    by (rule inv_request_err)
  show "all_in S (do {
          (r, s) \<leftarrow> request e SOCK_ERR_INVALID (if ssl_active x then SOCKET_CMD_SSL_CLOSE else SOCKET_CMD_CLOSE)
                     ([of_int sock, ev_uninit e 1] @ le16 (u16SessionID x)) None 0 0 ?s;
          s \<leftarrow> upd_sock sock (\<lambda>_. zero_socket) s;
          Some (r, s) })"
    using * inv_upd_sock [of _ sock "\<lambda>_. zero_socket"]
    by (fastforce simp: all_in_def bind_eq_Some_conv good_def zero_socket_def)
qed

lemma inv_ssl_opt: "S s \<Longrightarrow> all_in S (sslSetSockOpt e sock opt val len s)"
  unfolding sslSetSockOpt_def Let_def
  apply (intro all_in_if all_in_bind_pair all_in_bind inv_request; (assumption | simp)?)
   apply (erule (1) inv_upd_sock, simp add: good_def)+
  done

lemma inv_call_app: "cbs_keep S cbs \<Longrightarrow> S s \<Longrightarrow> opt_in S (call_app cbs sock msg s)"
  by (auto simp: call_app_def cbs_keep_def)

lemma inv_receive: "S s \<Longrightarrow> hif_receive bus addr buf sz isDone s = Some (r, b, s') \<Longrightarrow> S s'"
  using receive_keeps(1,3) S_frame by metis

lemma inv_with_reply:
  assumes "S s" "\<And>b s. S s \<Longrightarrow> opt_in S (k b s)"
  shows "opt_in S (with_reply e addr n d k s)"
proof (unfold with_reply_def, rule opt_in_bind)
  fix x
  assume r: "hif_receive (ev_bus e) addr (Some (replicate n 0)) (of_nat n) d s = Some x"
  obtain r' b s' where x: "x = (r', b, s')" by (cases x)
  have "S s'" using inv_receive assms(1) r x by blast
  then show "opt_in S (case x of (r, b, s) \<Rightarrow> if r = M2M_SUCCESS then Option.bind b (\<lambda>bs. k bs s) else Some s)"
    using assms(2) by (auto simp: x intro: opt_in_bind)
qed

lemma inv_read_loop:
  "S s \<Longrightarrow> cbs_keep S cbs \<Longrightarrow> opt_in S (read_loop e cbs sock frm m addr count s)"
proof (induction e cbs sock frm m addr count s rule: read_loop.induct)
  case (1 e cbs sock frm m addr count s)
  show ?case
  proof (cases "get_sock sock s")
    case x: (Some x)
    let ?n = "fst (chunk count (u16UserBufferSize x))"
    let ?recv = "hif_receive_user e addr (pu8UserBuffer x) ?n (snd (chunk count (u16UserBufferSize x))) s"
    show ?thesis
    proof (cases ?recv)
      case (Some rs)
      then obtain r s1 where r: "?recv = Some (r, s1)" by (cases rs) auto
      have s1: "S s1" by (rule S_frame [OF "1.prems"(1) receive_user_keeps [OF r]])
      have y: "get_sock sock s1 = Some x" using x receive_user_keeps(1) [OF r] by (simp add: get_sock_def split: if_splits)
      let ?m = "m\<lparr>pu8Buffer := pu8UserBuffer x, s16BufferSize := sint ?n, u16RemainingSize := u16RemainingSize m - ?n\<rparr>"
      have cb: "opt_in S (call_app cbs sock (recv_msg frm ?m) s1)" by (rule inv_call_app [OF "1.prems"(2) s1])
      show ?thesis
      proof (cases "r = M2M_SUCCESS")
        case True
        show ?thesis
        proof (cases "call_app cbs sock (recv_msg frm ?m) s1")
          case s2: (Some s2)
          with cb have "S s2" by simp
          with "1.IH" [OF x r refl True y refl refl s2] "1.prems"(2) show ?thesis
            by (subst read_loop.simps) (simp add: x r y True s2 Let_def)
        qed (subst read_loop.simps, simp add: x r y True Let_def)
      qed (subst read_loop.simps, simp add: x r s1)
    qed (subst read_loop.simps, simp add: x)
  qed (subst read_loop.simps, simp)
qed

lemma inv_read: 
  "S s \<Longrightarrow> cbs_keep S cbs \<Longrightarrow> opt_in S (Socket_ReadSocketData e cbs sock m frm addr count s)"
  unfolding Socket_ReadSocketData_def by (intro opt_in_if opt_in_bind inv_read_loop) auto

lemma inv_upd_opt: "S s \<Longrightarrow> (\<And>x. good x \<Longrightarrow> good (f x)) \<Longrightarrow> opt_in S (upd_sock sock f s)"
  by (auto simp: opt_in_def intro: inv_upd_sock)

lemma inv_discard: "S s \<Longrightarrow> opt_in S (map_option (\<lambda>(_, _, s). s) (hif_receive bus addr buf sz d s))"
  using inv_receive by (auto simp: opt_in_def)

lemma inv_recv_reply: "S s \<Longrightarrow> cbs_keep S cbs \<Longrightarrow> opt_in S (ip_recv_reply e cbs frm bufsize addr s)"
  unfolding ip_recv_reply_def Let_def
  by (erule inv_with_reply, intro opt_in_seq opt_in_bind opt_in_if)
    (auto intro: inv_upd_opt inv_read inv_call_app inv_discard simp: good_def)

lemma inv_accept_reply: "S s \<Longrightarrow> cbs_keep S cbs \<Longrightarrow> opt_in S (ip_accept_reply e cbs addr s)"
  unfolding ip_accept_reply_def Let_def
  by (erule inv_with_reply, intro opt_in_seq opt_in_if)
    (auto intro!: inv_upd_opt inv_call_app next_session_nonzero simp: good_def)

lemma inv_ip_cb: "S s \<Longrightarrow> cbs_keep S cbs \<Longrightarrow> opt_in S (m2m_ip_cb e cbs op bufsize addr s)"
  unfolding m2m_ip_cb_def ip_bind_reply_def ip_listen_reply_def ip_connect_reply_def ip_dns_reply_def
    ip_send_reply_def ip_ping_reply_def Let_def
  by (intro opt_in_if inv_with_reply inv_recv_reply inv_accept_reply opt_in_seq opt_in_bind)
    (auto intro!: inv_call_app inv_upd_opt simp: good_def, auto simp: cbs_keep_def)

lemma inv_simple_requests:
  assumes "S s"
  shows "all_in S (bind_sock e sock a n s)" "all_in S (listen e sock n s)" "all_in S (accept sock s)"
    "all_in S (connect e sock a n s)" "all_in S (send e sock buf len s)"
    "all_in S (sendto e sock buf len dest s)" "all_in S (recv e sock p len t s)"
    "all_in S (recvfrom e sock p len t s)" "all_in S (gethostbyname e name s)"
    "all_in S (setsockopt e sock level opt v len s)" "all_in S (m2m_ping_req e ip ttl p s)"
    "all_in S (sslSetActiveCipherSuites e bmp s)"
  unfolding bind_sock_def listen_def accept_def connect_def send_def sendto_def recv_def recvfrom_def
    gethostbyname_def setsockopt_def m2m_ping_req_def sslSetActiveCipherSuites_def Let_def
  using assms
  by (auto intro!: inv_if_used inv_request_err inv_request inv_recv_with inv_ssl_opt all_in_bind split: option.split)

lemma inv_setup:
  assumes "S s"
  shows "S (socketInit p s)" "S (socketDeinit s)" "S (registerSocketCallback p q s)"
  using assms S_zero [OF assms] by (simp_all add: socketInit_def socketDeinit_def registerSocketCallback_def)

lemma sk_step_inv: "sk_step e cbs s s' \<Longrightarrow> cbs_keep S cbs \<Longrightarrow> S s \<Longrightarrow> S s'"
proof (induction rule: sk_step.induct)
qed ((rule inv_setup | erule all_inD, rule inv_socket inv_close inv_simple_requests | erule opt_inD, rule inv_ip_cb);
    assumption)+

end

interpretation table: sk_inv "sock_inv :: ('w, 'a) sk \<Rightarrow> bool"
proof
  show "sock_inv s' " if "sock_inv s" "gastrSockets s' = gastrSockets s" "app_st s' = app_st s" for s s' :: "('w, 'a) sk"
    using that by (simp add: sock_inv_def)
  show "good x" if "sock_inv s" "x \<in> set (gastrSockets s)" for s :: "('w, 'a) sk" and x
    using that by (simp add: sock_inv_def list_all_iff)
  show "sock_inv (s\<lparr>gastrSockets := (gastrSockets s)[i := x]\<rparr>)" if "sock_inv s" "good x" for s :: "('w, 'a) sk" and i x
    using that by (auto simp: sock_inv_def list_all_iff dest: set_update_subset_insert [THEN subsetD])
  show "sock_inv (s\<lparr>gastrSockets := replicate MAX_SOCKET zero_socket\<rparr>)" for s :: "('w, 'a) sk"
    by (simp add: sock_inv_def list_all_iff good_def zero_socket_def)
qed

text \<open>
  C20: From the first initialisation on, whatever the application calls and whatever the firmware
  replies, the table keeps its eleven entries, every socket is either free or used, and every
  used one has a nonzero session number (provided the application's own callbacks keep this
  invariant, as they do when they use the socket functions).
\<close>

theorem sock_inv_reachable:
  assumes "cbs_keep sock_inv cbs" "gbSocketInit s0 = 0" "(sk_step e cbs)\<^sup>*\<^sup>* (socketInit p s0) s"
  shows "length (gastrSockets s) = MAX_SOCKET \<and>
    (\<forall>x\<in>set (gastrSockets s). bIsUsed x = 0 \<or> bIsUsed x = 1 \<and> u16SessionID x \<noteq> 0)"
proof -
  have "sock_inv (socketInit p s0)"
    using assms(2) by (simp add: socketInit_def hif_register_cb_def sock_inv_def list_all_iff good_def zero_socket_def)
  with assms(3) have "sock_inv s"
    by (induction rule: rtranclp_induct) (auto intro: table.sk_step_inv assms(1))
  then show ?thesis by (simp add: sock_inv_def list_all_iff good_def)
qed

subsection \<open>Concrete surroundings for the examples\<close>

definition sk0 :: "'w \<Rightarrow> 'a \<Rightarrow> ('w, 'a) sk" where
  "sk0 w a = \<lparr>bus_st = w, gu8ChipMode = 0, gu8ChipSleep = 0, gu8HifSizeDone = False, gu8Interrupt = 0,
     gu8FlowCtrl = False, pfWifiCb = 0, pfIpCb = 0, pfOtaCb = 0, pfSigmaCb = 0, pfHifCb = 0, pfCryptoCb = 0,
     irq_on = True, clk_status_reg_adr = 0xf, nmi_chipid = 0, gu8ChNum = 0, gu8scanInProgress = 0, gpfAppWifiCb = 0, gastrSockets = [], gu16SessionID = 0,
     gpfAppSocketCb = 0, gpfAppResolveCb = 0, gbSocketInit = 0, gfpPingCb = 0, user_mem = \<lambda>_. [], app_st = a\<rparr>"

definition env0 :: "'w nm_bus \<Rightarrow> 'w env" where
  "env0 bus = \<lparr>ev_bus = bus, ev_junk = 0, ev_stack = [0, 0, 0, 0], ev_uninit = \<lambda>_. 0,
     ev_recvmsg = \<lparr>pu8Buffer = 0, s16BufferSize = 0, u16RemainingSize = 0,
       strRemoteAddr = \<lparr>sin_family = 0, sin_port = 0, s_addr = 0\<rparr>\<rparr>\<rparr>"

definition quiet_cbs :: "('w, 'a) sock_cbs" where
  "quiet_cbs = \<lparr>app_cb = \<lambda>_ _ _ s. Some s, resolve_cb = \<lambda>_ _ _ s. Some s, ping_cb = \<lambda>_ _ _ _ s. Some s\<rparr>"

lemma quiet_cbs_keep: "cbs_keep S quiet_cbs"
  by (simp add: cbs_keep_def quiet_cbs_def)

lemma find_free_hd: "bIsUsed (xs ! i) = 0 \<Longrightarrow> i < n \<Longrightarrow> find_free xs i n = Some i"
  by (simp add: find_free.simps)

lemma socket_fresh:
  assumes t: "gastrSockets s = replicate MAX_SOCKET zero_socket" "gu16SessionID s = 0"
  shows "socket e AF_INET SOCK_STREAM 0 s = Some (0, s\<lparr>gu16SessionID := 1,
       gastrSockets := (replicate MAX_SOCKET zero_socket)[0 := zero_socket\<lparr>bIsUsed := 1, u16SessionID := 1\<rparr>]\<rparr>)"
proof -
  have "find_free (replicate MAX_SOCKET zero_socket) 0 TCP_SOCK_MAX = Some 0"
    by (rule find_free_hd) (simp_all add: sock_max_defs zero_socket_def)
  then show ?thesis
    by (simp add: socket_def open_socket_def t Let_def next_session_def SOCK_STREAM_def)
qed

lemma socket_example:
  "socket e AF_INET SOCK_STREAM 0 (socketInit 1 (sk0 w a)) =
     Some (0, (socketInit 1 (sk0 w a))\<lparr>gu16SessionID := 1,
       gastrSockets := (replicate MAX_SOCKET zero_socket)[0 := zero_socket\<lparr>bIsUsed := 1, u16SessionID := 1\<rparr>]\<rparr>)"
  by (rule socket_fresh) (simp_all add: socketInit_def sk0_def hif_register_cb_def)

theorem sock_inv_reachable_witness:
  "\<exists>s. socket (env0 (table_bus (\<lambda>_. 0) [])) AF_INET SOCK_STREAM 0 (socketInit 1 (sk0 0 ())) = Some (0, s) \<and>
     length (gastrSockets s) = MAX_SOCKET \<and> u16SessionID (gastrSockets s ! 0) \<noteq> 0"
proof -
  let ?e = "env0 (table_bus (\<lambda>_. 0) [])"
  let ?i = "socketInit 1 (sk0 0 ())"
  obtain s where s: "socket ?e AF_INET SOCK_STREAM 0 ?i = Some (0, s)" and u: "bIsUsed (gastrSockets s ! 0) = 1"
    using socket_example [of ?e 0 "()"] by (auto simp: sock_max_defs)
  have "(sk_step ?e quiet_cbs)\<^sup>*\<^sup>* ?i s" by (intro r_into_rtranclp st_socket [OF s])
  from sock_inv_reachable [OF quiet_cbs_keep _ this] have inv: "length (gastrSockets s) = MAX_SOCKET"
    "\<forall>x\<in>set (gastrSockets s). bIsUsed x = 0 \<or> bIsUsed x = 1 \<and> u16SessionID x \<noteq> 0"
    by (simp_all add: sk0_def)
  then have "gastrSockets s ! 0 \<in> set (gastrSockets s)" by (simp add: sock_max_defs)
  with inv s u show ?thesis by auto
qed

end
