(* ===== verification/Sock_Data.thy ===== *)
theory Sock_Data
  imports Sock_Props
begin

text \<open>
  What the application sees of the socket layer: received data arrives complete and in order
  whatever the size of its buffer, replies of closed connections are dropped, sockets are
  allocated in the range of their type, and dotted addresses are read back.
\<close>

subsection \<open>Delivery of data in pieces\<close>

definition chip_bytes :: "(u32 \<Rightarrow> u8) \<Rightarrow> u32 \<Rightarrow> nat \<Rightarrow> u8 list" where
  "chip_bytes mem a n = map (\<lambda>i. mem (a + of_nat i)) [0..<n]"

lemma length_chip_bytes [simp]: "length (chip_bytes mem a n) = n"
  by (simp add: chip_bytes_def)

lemma chip_bytes_add: "chip_bytes mem a (m + n) = chip_bytes mem a m @ chip_bytes mem (a + of_nat m) n"
proof -
  have "[m..<m + n] = map (\<lambda>i. i + m) [0..<n]" using map_add_upt [of m n] by (simp add: add.commute)
  then show ?thesis
    using upt_add_eq_append [of 0 m n] by (simp add: chip_bytes_def comp_def algebra_simps)
qed

text \<open>A chip that announces a packet of \<open>size\<close> bytes at \<open>start\<close> and serves its memory.\<close>

definition serves :: "'w nm_bus \<Rightarrow> (u32 \<Rightarrow> u8) \<Rightarrow> u32 \<Rightarrow> u32 \<Rightarrow> bool" where
  "serves bus mem start sz \<longleftrightarrow>
     (\<forall>w. (\<exists>v w'. b_rreg bus WIFI_HOST_RCV_CTRL_0 w = Some (M2M_SUCCESS, Some v, w') \<and> drop_bit 2 v AND 0xfff = sz) \<and>
        (\<exists>w'. b_rreg bus WIFI_HOST_RCV_CTRL_1 w = Some (M2M_SUCCESS, Some start, w')) \<and>
        (\<forall>v. \<exists>w'. b_wreg bus WIFI_HOST_RCV_CTRL_0 v w = Some (M2M_SUCCESS, w')) \<and>
        (\<forall>a buf n. \<exists>w'. b_rblk bus a buf n w =
           Some (M2M_SUCCESS, chip_bytes mem a (unat n) @ drop (unat n) buf, w')))"

lemma serves_size:
  assumes "serves bus mem start sz"
  shows "\<exists>v w. rd_reg bus WIFI_HOST_RCV_CTRL_0 h = Some (M2M_SUCCESS, Some v, h\<lparr>bus_st := w\<rparr>) \<and> drop_bit 2 v AND 0xfff = sz"
proof -
  from assms obtain v w' where "b_rreg bus WIFI_HOST_RCV_CTRL_0 (bus_st h) = Some (M2M_SUCCESS, Some v, w')"
      "drop_bit 2 v AND 0xfff = sz"
    unfolding serves_def by blast
  then show ?thesis by (auto simp: rd_reg_def)
qed

lemma serves_start:
  assumes "serves bus mem start sz"
  shows "\<exists>w. rd_reg bus WIFI_HOST_RCV_CTRL_1 h = Some (M2M_SUCCESS, Some start, h\<lparr>bus_st := w\<rparr>)"
proof -
  from assms obtain w' where "b_rreg bus WIFI_HOST_RCV_CTRL_1 (bus_st h) = Some (M2M_SUCCESS, Some start, w')"
    unfolding serves_def by blast
  then show ?thesis by (auto simp: rd_reg_def)
qed

lemma serves_block:
  fixes n :: u16
  assumes "serves bus mem start sz"
  shows "\<exists>w. rd_block bus a buf (unat n) h =
    Some (M2M_SUCCESS, chip_bytes mem a (unat n) @ drop (unat n) buf, h\<lparr>bus_st := w\<rparr>)"
proof -
  from assms obtain w' where "b_rblk bus a buf (of_nat (unat n)) (bus_st h) =
      Some (M2M_SUCCESS, chip_bytes mem a (unat (of_nat (unat n) :: u32)) @ drop (unat (of_nat (unat n) :: u32)) buf, w')"
    unfolding serves_def by blast
  moreover have "unat (of_nat (unat n) :: u32) = unat n" using u16_lt [of n]
    by (simp add: unsigned_ucast_eq take_bit_nat_eq_self)
  ultimately show ?thesis by (auto simp: rd_block_def)
qed

lemma serves_done:
  assumes "serves bus mem start sz"
  shows "\<exists>w. hif_set_rx_done bus h = Some (M2M_SUCCESS, h\<lparr>bus_st := w, irq_on := True\<rparr>)"
proof -
  obtain v w where rd: "rd_reg bus WIFI_HOST_RCV_CTRL_0 h = Some (M2M_SUCCESS, Some v, h\<lparr>bus_st := w\<rparr>)"
    using serves_size [OF assms] by blast
  from assms obtain w' where "b_wreg bus WIFI_HOST_RCV_CTRL_0 (v OR push_bit 1 1) w = Some (M2M_SUCCESS, w')"
    unfolding serves_def by blast
  then show ?thesis
    by (auto simp: hif_set_rx_done_def on_val_def on_ok_def rd wr_reg_def)
qed

lemma hif_receive_serves:
  assumes srv: "serves bus mem start sz" and nz: "addr \<noteq> 0" "n \<noteq> 0"
    and win: "\<not> ucast n > sz" "\<not> (addr < start \<or> addr + ucast n > start + sz)"
  shows "\<exists>h'. hif_receive bus addr (Some buf) n isDone h =
      Some (M2M_SUCCESS, Some (chip_bytes mem addr (unat n) @ drop (unat n) buf), h') \<and>
    (isDone \<longrightarrow> gu8HifSizeDone h')"
proof -
  obtain v w1 where 1: "rd_reg bus WIFI_HOST_RCV_CTRL_0 h = Some (M2M_SUCCESS, Some v, h\<lparr>bus_st := w1\<rparr>)"
    and v: "drop_bit 2 v AND 0xfff = sz"
    using serves_size [OF srv] by blast
  obtain w2 where 2: "rd_reg bus WIFI_HOST_RCV_CTRL_1 (h\<lparr>bus_st := w1\<rparr>) = Some (M2M_SUCCESS, Some start, h\<lparr>bus_st := w2\<rparr>)"
    using serves_start [OF srv, of "h\<lparr>bus_st := w1\<rparr>"] by auto
  obtain w3 where 3: "rd_block bus addr buf (unat n) (h\<lparr>bus_st := w2\<rparr>) =
      Some (M2M_SUCCESS, chip_bytes mem addr (unat n) @ drop (unat n) buf, h\<lparr>bus_st := w3\<rparr>)"
    using serves_block [OF srv, of addr buf n "h\<lparr>bus_st := w2\<rparr>"] by auto
  obtain w4 where 4: "hif_set_rx_done bus (h\<lparr>bus_st := w3, gu8HifSizeDone := True\<rparr>) =
      Some (M2M_SUCCESS, h\<lparr>gu8HifSizeDone := True, bus_st := w4, irq_on := True\<rparr>)"
    using serves_done [OF srv, of "h\<lparr>bus_st := w3, gu8HifSizeDone := True\<rparr>"] by auto
  show ?thesis
    unfolding hif_receive_def Let_def using nz win v by (simp add: 1 2 3 4 keep_def)
qed

lemma sint_of_int16: "- 32768 \<le> k \<Longrightarrow> k < 32768 \<Longrightarrow> sint (of_int k :: u16) = k"
  by (simp add: signed_of_int signed_take_bit_int_eq_self)

lemma chunk_small:
  assumes "unat count \<le> 0xfff" "unat ubs < 32768"
  shows "chunk count ubs = (if ubs < count then (ubs, False) else (count, True))"
proof -
  have "sint (of_int (int (unat count) - int (unat ubs)) :: u16) = int (unat count) - int (unat ubs)"
    using assms by (intro sint_of_int16) linarith+
  then have "sint (count - ubs) = int (unat count) - int (unat ubs)" by simp
  then show ?thesis by (auto simp: chunk_def word_less_def)
qed

text \<open>An application that only keeps what is delivered.\<close>

definition delivered :: "tstrSocketRecvMsg \<Rightarrow> ('w, u8 list list) sk \<Rightarrow> ('w, u8 list list) sk" where
  "delivered m s = s\<lparr>app_st := app_st s @ [take (nat (s16BufferSize m)) (user_mem s (pu8Buffer m))]\<rparr>"

definition record_cbs :: "('w, u8 list list) sock_cbs" where
  "record_cbs = \<lparr>
     app_cb = \<lambda>_ _ msg s. Some (case msg of SOCKET_MSG_RECV m \<Rightarrow> delivered m s | SOCKET_MSG_RECVFROM m \<Rightarrow> delivered m s
       | _ \<Rightarrow> s),
     resolve_cb = \<lambda>_ _ _ s. Some s, ping_cb = \<lambda>_ _ _ _ s. Some s\<rparr>"

lemma call_record: "gpfAppSocketCb s \<noteq> 0 \<Longrightarrow> call_app record_cbs sock (recv_msg frm m) s = Some (delivered m s)"
  by (simp add: call_app_def record_cbs_def recv_msg_def)

lemma receive_user_serves:
  assumes "serves (ev_bus e) mem start sz" "addr \<noteq> 0" "n \<noteq> 0" "p \<noteq> 0"
    and "\<not> ucast n > sz" "\<not> (addr < start \<or> addr + ucast n > start + sz)"
  shows "\<exists>s'. hif_receive_user e addr p n isDone s = Some (M2M_SUCCESS, s') \<and>
    gastrSockets s' = gastrSockets s \<and> app_st s' = app_st s \<and> gpfAppSocketCb s' = gpfAppSocketCb s \<and>
    take (unat n) (user_mem s' p) = chip_bytes mem addr (unat n) \<and> (isDone \<longrightarrow> gu8HifSizeDone s')"
proof -
  obtain h' where r: "hif_receive (ev_bus e) addr (Some (user_mem s p)) n isDone s =
      Some (M2M_SUCCESS, Some (chip_bytes mem addr (unat n) @ drop (unat n) (user_mem s p)), h')"
    and d: "isDone \<longrightarrow> gu8HifSizeDone h'"
    using hif_receive_serves [OF assms(1-3,5,6), of "user_mem s p" isDone s] by blast
  show ?thesis
    using receive_keeps [OF r] d assms(4) by (simp add: hif_receive_user_def r)
qed

lemma read_loop_delivers:
  assumes srv: "serves (ev_bus e) mem start sz" and "sz \<le> 0xfff"
    and x: "pu8UserBuffer x \<noteq> 0" "u16UserBufferSize x \<noteq> 0" "unat (u16UserBufferSize x) < 32768"
    and "unat start + unat sz < 2 ^ 32"
  shows "get_sock sock s = Some x \<Longrightarrow> gpfAppSocketCb s \<noteq> 0 \<Longrightarrow> count \<noteq> 0 \<Longrightarrow> addr \<noteq> 0 \<Longrightarrow>
    unat start \<le> unat addr \<Longrightarrow> unat addr + unat count \<le> unat start + unat sz \<Longrightarrow>
    \<exists>s'. read_loop e record_cbs sock frm m addr count s = Some s' \<and> gu8HifSizeDone s' \<and>
      (\<exists>cs. app_st s' = app_st s @ cs \<and> concat cs = chip_bytes mem addr (unat count) \<and>
        (\<forall>c\<in>set cs. length c \<le> unat (u16UserBufferSize x)))"
proof (induction "unat count" arbitrary: count addr s m rule: less_induct)
  case less
  let ?u = "u16UserBufferSize x" and ?p = "pu8UserBuffer x"
  define n where "n = fst (chunk count ?u)"
  have count: "unat count \<le> 0xfff" using less.prems(5,6) assms(2) by (simp add: word_le_nat_alt)
  note ch = chunk_small [OF count x(3)]
  have n: "n \<noteq> 0" "unat n \<le> unat count" "unat n \<le> unat ?u" "snd (chunk count ?u) \<longleftrightarrow> n = count" "sint n = int (unat n)"
  proof -
    show "n \<noteq> 0" using ch x(2) less.prems(3) by (simp add: n_def)
    show le: "unat n \<le> unat count" using ch by (auto simp: n_def word_less_nat_alt split: if_splits)
    show "unat n \<le> unat ?u" "snd (chunk count ?u) \<longleftrightarrow> n = count"
      using ch by (auto simp: n_def word_less_nat_alt)
    have "sint (of_int (int (unat n)) :: u16) = int (unat n)" using le count by (intro sint_of_int16) linarith+
    then show "sint n = int (unat n)" by simp
  qed
  have window: "\<not> (ucast n :: u32) > sz" "\<not> (addr < start \<or> addr + ucast n > start + sz)"
    "unat (addr + ucast n) = unat addr + unat n"
  proof -
    have un: "unat (ucast n :: u32) = unat n" using u16_lt [of n] by (simp add: unsigned_ucast_eq take_bit_nat_eq_self)
    show a: "unat (addr + ucast n) = unat addr + unat n"
      using un n(2) less.prems(6) assms(6) by (simp add: unat_add_lem [THEN iffD1])
    have "unat (start + sz) = unat start + unat sz" using assms(6) by (simp add: unat_add_lem [THEN iffD1])
    then show "\<not> (ucast n :: u32) > sz" "\<not> (addr < start \<or> addr + ucast n > start + sz)"
      using un a n(2) less.prems(5,6) by (auto simp: word_less_nat_alt)
  qed
  obtain s1 where r: "hif_receive_user e addr ?p n (snd (chunk count ?u)) s = Some (M2M_SUCCESS, s1)"
    and s1: "gastrSockets s1 = gastrSockets s" "app_st s1 = app_st s" "gpfAppSocketCb s1 = gpfAppSocketCb s"
      "take (unat n) (user_mem s1 ?p) = chip_bytes mem addr (unat n)" "snd (chunk count ?u) \<longrightarrow> gu8HifSizeDone s1"
    using receive_user_serves [OF srv less.prems(4) n(1) x(1) window(1,2), of "snd (chunk count ?u)" s] by blast
  have y: "get_sock sock s1 = Some x" using less.prems(1) s1(1) by (simp add: get_sock_def split: if_splits)
  define m' where "m' = m\<lparr>pu8Buffer := ?p, s16BufferSize := sint n, u16RemainingSize := u16RemainingSize m - n\<rparr>"
  let ?s2 = "delivered m' s1"
  have s2: "app_st ?s2 = app_st s @ [chip_bytes mem addr (unat n)]" "get_sock sock ?s2 = Some x"
      "gpfAppSocketCb ?s2 \<noteq> 0" "gu8HifSizeDone ?s2 = gu8HifSizeDone s1"
    using s1 y n(5) less.prems(2) by (simp_all add: delivered_def m'_def get_sock_def split: if_splits)
  have step: "read_loop e record_cbs sock frm m addr count s =
      (if n = count then Some ?s2 else read_loop e record_cbs sock frm m' (addr + ucast n) (count - n) ?s2)"
    using less.prems(1,2) r y s1(3)
    by (subst read_loop.simps) (auto simp: Let_def n_def [symmetric] call_record m'_def)
  show ?case
  proof (cases "n = count")
    case True
    then show ?thesis using step s2 s1(5) n by auto
  next
    case False
    have c: "unat (count - n) = unat count - unat n" using n(2) by (simp add: unat_sub word_le_nat_alt)
    have "unat n \<noteq> 0" using n(1) by (simp add: unat_eq_0)
    then have lt: "unat (count - n) < unat count" using c n(2) by linarith
    have "unat addr \<noteq> 0" using less.prems(4) by (simp add: unat_eq_0)
    then have "unat (addr + ucast n) \<noteq> unat (0 :: u32)" using window(3) by simp
    then have "addr + ucast n \<noteq> 0" by metis
    then obtain s' cs where rest: "read_loop e record_cbs sock frm m' (addr + ucast n) (count - n) ?s2 = Some s'"
        "gu8HifSizeDone s'" "app_st s' = app_st ?s2 @ cs" "concat cs = chip_bytes mem (addr + ucast n) (unat (count - n))"
        "\<forall>c\<in>set cs. length c \<le> unat ?u"
      using less.hyps [OF lt s2(2,3), of "addr + ucast n" m'] False less.prems(5,6) window(3) c n(2)
      by (auto simp: unat_eq_0)
    have "chip_bytes mem addr (unat count) = chip_bytes mem addr (unat n) @ chip_bytes mem (addr + ucast n) (unat (count - n))"
      using chip_bytes_add [of mem addr "unat n" "unat (count - n)"] n(2) c by (simp add: unsigned_of_nat)
    then show ?thesis using step False rest s2(1) n(3)
      by (intro exI [of _ s'] conjI exI [of _ "chip_bytes mem addr (unat n) # cs"]) auto
  qed
qed

text \<open>
  C5: When the chip serves a received packet, \<open>Socket_ReadSocketData\<close> hands all its bytes to the
  application, in order and without gaps, in pieces no longer than the buffer the application
  gave to \<open>recv\<close>, and tells the chip that the packet has been taken.
\<close>

theorem read_delivers_all:
  assumes "serves (ev_bus e) mem start sz" "sz \<le> 0xfff" "unat start + unat sz < 2 ^ 32"
    and "get_sock sock s = Some x" "bIsUsed x = 1" "pu8UserBuffer x \<noteq> 0" "u16UserBufferSize x \<noteq> 0"
    and "unat (u16UserBufferSize x) < 32768" "gpfAppSocketCb s \<noteq> 0" "app_st s = []"
    and "count \<noteq> 0" "addr \<noteq> 0" "unat start \<le> unat addr" "unat addr + unat count \<le> unat start + unat sz"
  shows "\<exists>s'. Socket_ReadSocketData e record_cbs sock m frm addr count s = Some s' \<and> gu8HifSizeDone s' \<and>
    concat (app_st s') = chip_bytes mem addr (unat count) \<and>
    (\<forall>c\<in>set (app_st s'). length c \<le> unat (u16UserBufferSize x))"
proof -
  have "0 < u16UserBufferSize x" using assms(7) by (simp add: word_neq_0_conv)
  moreover obtain s' cs where "read_loop e record_cbs sock frm (m\<lparr>u16RemainingSize := count\<rparr>) addr count s = Some s'"
      "gu8HifSizeDone s'" "app_st s' = app_st s @ cs" "concat cs = chip_bytes mem addr (unat count)"
      "\<forall>c\<in>set cs. length c \<le> unat (u16UserBufferSize x)"
    using read_loop_delivers [OF assms(1,2,6,7,8,3,4,9,11,12,13,14)] by blast
  ultimately show ?thesis using assms(4-6,10,11) by (simp add: Socket_ReadSocketData_def)
qed

text \<open>A chip with a packet of 16 bytes at \<open>0x3000\<close>.\<close>

definition packet_bus :: "nat nm_bus" where
  "packet_bus = \<lparr>
     b_rreg = \<lambda>a w. Some (M2M_SUCCESS, Some (if a = WIFI_HOST_RCV_CTRL_0 then 0x40 else 0x3000), Suc w),
     b_wreg = \<lambda>a v w. Some (M2M_SUCCESS, Suc w),
     b_rblk = \<lambda>a buf n w. Some (M2M_SUCCESS, chip_bytes ucast a (unat n) @ drop (unat n) buf, Suc w),
     b_wblk = \<lambda>a buf n w. Some (M2M_SUCCESS, Suc w)\<rparr>"

lemma packet_bus_serves: "serves packet_bus ucast 0x3000 0x10"
  by (simp add: serves_def packet_bus_def WIFI_HOST_RCV_CTRL_0_def WIFI_HOST_RCV_CTRL_1_def)

definition rx_sock :: tstrSocket where
  "rx_sock = zero_socket\<lparr>bIsUsed := 1, u16SessionID := 7, pu8UserBuffer := 0x100, u16UserBufferSize := 3\<rparr>"

definition rx_state :: "(nat, u8 list list) sk" where
  "rx_state = (sk0 0 [])\<lparr>gastrSockets := rx_sock # replicate 10 zero_socket, gpfAppSocketCb := 1, user_mem := \<lambda>_. [0, 0, 0]\<rparr>"

theorem read_delivers_all_witness:
  "\<exists>s'. Socket_ReadSocketData (env0 packet_bus) record_cbs 0 (ev_recvmsg (env0 packet_bus)) False 0x3008 5 rx_state = Some s' \<and>
     concat (app_st s') = [8, 9, 10, 11, 12]"
proof -
  have "chip_bytes ucast 0x3008 5 = [8, 9, 10, 11, 12]"
    by (simp add: chip_bytes_def upt_rec)
  moreover have "\<exists>s'. Socket_ReadSocketData (env0 packet_bus) record_cbs 0 (ev_recvmsg (env0 packet_bus)) False 0x3008 5 rx_state =
      Some s' \<and> gu8HifSizeDone s' \<and> concat (app_st s') = chip_bytes ucast 0x3008 (unat (5 :: u16)) \<and>
      (\<forall>c\<in>set (app_st s'). length c \<le> unat (u16UserBufferSize rx_sock))"
    by (rule read_delivers_all [where start = "0x3000" and sz = "0x10"])
      (simp_all add: env0_def packet_bus_serves rx_state_def rx_sock_def zero_socket_def sk0_def get_sock_def mem_read_def)
  ultimately show ?thesis by auto
qed

subsection \<open>Stale replies\<close>

lemma upd_sock_keeps:
  "upd_sock sock f s = Some s' \<Longrightarrow> app_st s' = app_st s \<and> user_mem s' = user_mem s"
  by (auto simp: upd_sock_def bind_eq_Some_conv)

text \<open>
  C27: A reply to a receive or a send request (the replies whose session number the code compares; those to bind, listen and
  connect are not checked) whose session number is not the one of the socket (the connection it belongs to has
  been closed) neither reaches the application nor touches its buffers, whatever the application's callbacks do.
\<close>

theorem recv_stale_discarded:
  assumes op: "op \<in> {SOCKET_CMD_RECV, SOCKET_CMD_RECVFROM, SOCKET_CMD_SSL_RECV} \<and> (n, i, j) = (16, 12, 14) \<or>
      op \<in> {SOCKET_CMD_SEND, SOCKET_CMD_SENDTO, SOCKET_CMD_SSL_SEND} \<and> (n, i, j) = (8, 0, 4)"
    and rep: "hif_receive (ev_bus e) addr (Some (replicate n 0)) (of_nat n) False s = Some (M2M_SUCCESS, Some b, s1)"
    and x: "get_sock (sint (b ! i)) s = Some x" and stale: "of_le16 (drop j b) \<noteq> u16SessionID x"
    and run: "m2m_ip_cb e cbs op bufsize addr s = Some s'"
  shows "app_st s' = app_st s \<and> user_mem s' = user_mem s"
proof -
  have x1: "get_sock (sint (b ! i)) s1 = Some x"
    using x receive_keeps(1) [OF rep] by (simp add: get_sock_def split: if_splits)
  from op show ?thesis
  proof
    assume op: "op \<in> {SOCKET_CMD_RECV, SOCKET_CMD_RECVFROM, SOCKET_CMD_SSL_RECV} \<and> (n, i, j) = (16, 12, 14)"
    then have "ip_recv_reply e cbs (op = SOCKET_CMD_RECVFROM) bufsize addr s = Some s'"
      using run by (auto simp: m2m_ip_cb_def cmd_defs)
    with op x1 obtain s2 y where s2: "upd_sock (sint (b ! 12)) (\<lambda>x. x\<lparr>bIsRecvPending := 0\<rparr>) s1 = Some s2"
      and y: "get_sock (sint (b ! 12)) s2 = Some y" "u16SessionID y = u16SessionID x"
      and fin: "(if 16 < bufsize then map_option (\<lambda>(_, _, s). s) (hif_receive (ev_bus e) 0 None 0 True s2) else Some s2) = Some s'"
      using stale rep
      by (auto simp: ip_recv_reply_def with_reply_def Let_def upd_sock_def get_sock_def mem_read_def split: if_splits)
    have "app_st s' = app_st s2 \<and> user_mem s' = user_mem s2"
      using fin receive_keeps(3,5) by (auto split: if_splits)
    with upd_sock_keeps [OF s2] receive_keeps(3,5) [OF rep] show ?thesis by simp
  next
    assume op: "op \<in> {SOCKET_CMD_SEND, SOCKET_CMD_SENDTO, SOCKET_CMD_SSL_SEND} \<and> (n, i, j) = (8, 0, 4)"
    then have "ip_send_reply e cbs (op = SOCKET_CMD_SENDTO) addr s = Some s'"
      using run by (auto simp: m2m_ip_cb_def cmd_defs)
    with op x1 stale rep have "s' = s1" by (auto simp: ip_send_reply_def with_reply_def)
    with receive_keeps(3,5) [OF rep] show ?thesis by simp
  qed
qed

text \<open>A chip with the reply of a receive request in session 6 on socket 0, which is in session 7.\<close>

definition stale_reply :: "u8 list" where
  "stale_reply = [2, 0, 0, 80, 10, 0, 0, 1, 5, 0, 16, 0, 0, 0, 6, 0]"

definition stale_bus :: "nat nm_bus" where
  "stale_bus = table_bus (\<lambda>a. if a = WIFI_HOST_RCV_CTRL_0 then 0x80 else 0x3000) stale_reply"

theorem recv_stale_discarded_witness:
  "\<exists>s'. m2m_ip_cb (env0 stale_bus) record_cbs SOCKET_CMD_RECV 0x20 0x3008 rx_state = Some s' \<and>
     app_st s' = app_st rx_state \<and> user_mem s' = user_mem rx_state"
proof -
  have rep: "hif_receive (ev_bus (env0 stale_bus)) 0x3008 (Some (replicate 16 0)) 16 False rx_state =
      Some (M2M_SUCCESS, Some stale_reply, rx_state\<lparr>bus_st := 3\<rparr>)"
    by (simp add: env0_def stale_bus_def table_bus_def hif_receive_def rd_reg_def rd_block_def rx_state_def sk0_def
        keep_def WIFI_HOST_RCV_CTRL_0_def WIFI_HOST_RCV_CTRL_1_def stale_reply_def)
  have x: "get_sock (sint (stale_reply ! 12)) rx_state = Some rx_sock"
    by (simp add: stale_reply_def rx_state_def get_sock_def mem_read_def)
  have sid: "of_le16 (drop 14 stale_reply) \<noteq> u16SessionID rx_sock"
    by (simp add: stale_reply_def of_le16_def rx_sock_def)
  obtain s' where run: "m2m_ip_cb (env0 stale_bus) record_cbs SOCKET_CMD_RECV 0x20 0x3008 rx_state = Some s'"
    using rep x sid
    by (simp add: m2m_ip_cb_def cmd_defs ip_recv_reply_def with_reply_def Let_def upd_sock_def get_sock_def mem_read_def
        stale_reply_def rx_state_def hif_receive_def hif_set_rx_done_def on_val_def on_ok_def rd_reg_def wr_reg_def
        env0_def stale_bus_def table_bus_def)
  from recv_stale_discarded [of _ 16 12 14, simplified, OF _ rep x sid run] run show ?thesis by auto
qed

subsection \<open>Allocation\<close>

lemma find_free_cases:
  "case find_free xs i n of
     Some k \<Rightarrow> i \<le> k \<and> k < n \<and> bIsUsed (xs ! k) = 0 \<and> (\<forall>j. i \<le> j \<longrightarrow> j < k \<longrightarrow> bIsUsed (xs ! j) \<noteq> 0)
   | None \<Rightarrow> \<forall>j. i \<le> j \<longrightarrow> j < n \<longrightarrow> bIsUsed (xs ! j) \<noteq> 0"
proof (induction xs i n rule: find_free.induct)
  case (1 xs i n)
  show ?case
  proof (cases "i < n \<and> bIsUsed (xs ! i) \<noteq> 0")
    case True
    have le: "i \<le> j \<longleftrightarrow> j = i \<or> Suc i \<le> j" for j by auto
    from True have "find_free xs i n = find_free xs (Suc i) n" by (subst find_free.simps) simp
    moreover note "1.IH" [OF conjunct1 [OF True] conjunct2 [OF True]]
    ultimately show ?thesis using True by (auto simp: le split: option.splits)
  next
    case False
    then show ?thesis by (subst find_free.simps) (auto simp: find_free_hd)
  qed
qed

text \<open>The entries of a type: 0 to 6 for TCP, 7 to 10 for UDP.\<close>

definition sock_range :: "u8 \<Rightarrow> nat set" where
  "sock_range ty = (if ty = SOCK_STREAM then {0..<7} else {7..<11})"

text \<open>
  \<open>socket\<close> takes the first free entry in the range of its type, clears it and gives it a
  session number that is not zero and not the one given before; when the range is full it
  returns -1 and changes nothing. All other entries stay as they are.
\<close>

theorem socket_allocates:
  assumes ty: "ty \<in> {SOCK_STREAM, SOCK_DGRAM}" and ssl: "flags AND SOCKET_FLAGS_SSL = 0"
  shows "(\<forall>i\<in>sock_range ty. bIsUsed (gastrSockets s ! i) \<noteq> 0) \<and> socket e AF_INET ty flags s = Some (-1, s) \<or>
    (\<exists>i\<in>sock_range ty. \<exists>sid. bIsUsed (gastrSockets s ! i) = 0 \<and>
       (\<forall>j\<in>sock_range ty. j < i \<longrightarrow> bIsUsed (gastrSockets s ! j) \<noteq> 0) \<and> sid \<noteq> 0 \<and> sid \<noteq> gu16SessionID s \<and>
       socket e AF_INET ty flags s = Some (int i, s\<lparr>gu16SessionID := sid,
         gastrSockets := (gastrSockets s)[i := zero_socket\<lparr>bIsUsed := 1, u16SessionID := sid\<rparr>]\<rparr>))"
proof -
  define r where "r = (if ty = SOCK_STREAM then find_free (gastrSockets s) 0 TCP_SOCK_MAX
    else find_free (gastrSockets s) TCP_SOCK_MAX MAX_SOCKET)"
  have sock: "socket e AF_INET ty flags s = (case r of None \<Rightarrow> Some (-1, s) | Some i \<Rightarrow> open_socket e i flags s)"
    using ty by (auto simp: socket_def r_def)
  have sid: "next_session (gu16SessionID s) \<noteq> gu16SessionID s"
    by (auto simp: next_session_def)
  show ?thesis
  proof (cases r)
    case None
    then show ?thesis using sock find_free_cases [where xs = "gastrSockets s" and i = 0 and n = TCP_SOCK_MAX]
        find_free_cases [where xs = "gastrSockets s" and i = TCP_SOCK_MAX and n = MAX_SOCKET]
      by (auto simp: r_def sock_range_def sock_max_defs split: if_splits)
  next
    case (Some i)
    have "i \<in> sock_range ty" "bIsUsed (gastrSockets s ! i) = 0"
      "\<forall>j\<in>sock_range ty. j < i \<longrightarrow> bIsUsed (gastrSockets s ! j) \<noteq> 0"
      using Some find_free_cases [where xs = "gastrSockets s" and i = 0 and n = TCP_SOCK_MAX]
        find_free_cases [where xs = "gastrSockets s" and i = TCP_SOCK_MAX and n = MAX_SOCKET]
      by (auto simp: r_def sock_range_def sock_max_defs split: if_splits)
    moreover have "socket e AF_INET ty flags s = Some (int i, s\<lparr>gu16SessionID := next_session (gu16SessionID s),
         gastrSockets := (gastrSockets s)[i := zero_socket\<lparr>bIsUsed := 1, u16SessionID := next_session (gu16SessionID s)\<rparr>]\<rparr>)"
      using sock Some ssl by (simp add: open_socket_def Let_def)
    ultimately show ?thesis using next_session_nonzero [of "gu16SessionID s"] sid by blast
  qed
qed

theorem socket_allocates_witness:
  "\<exists>i\<in>sock_range SOCK_STREAM. \<exists>s'. socket (env0 packet_bus) AF_INET SOCK_STREAM 0 (socketInit 1 (sk0 0 ())) = Some (int i, s')"
proof -
  let ?r = "socket (env0 packet_bus) AF_INET SOCK_STREAM 0 (socketInit 1 (sk0 0 ()))"
  have "\<exists>s. ?r = Some (0, s)" using socket_example [of "env0 packet_bus" 0 "()"] by simp
  moreover have z: "(0 :: u8) AND SOCKET_FLAGS_SSL = 0" by simp
  moreover have "?r = Some (- 1, socketInit 1 (sk0 0 ())) \<or> (\<exists>i\<in>sock_range SOCK_STREAM. \<exists>s'. ?r = Some (int i, s'))"
    using socket_allocates [OF insertI1 z, where s = "socketInit 1 (sk0 0 ())" and e = "env0 packet_bus"] by blast
  ultimately show ?thesis by auto
qed

subsection \<open>Dotted addresses\<close>

text \<open>The decimal digits of a byte.\<close>

definition dec :: "u8 \<Rightarrow> u8 list" where
  "dec b = (let n = unat b in
     (if 100 \<le> n then [48 + of_nat (n div 100)] else []) @
     (if 10 \<le> n then [48 + of_nat (n div 10 mod 10)] else []) @ [48 + of_nat (n mod 10)])"

lemma inet_digit:
  assumes "d < 10"
  shows "inet_field (Suc n) t ((48 + of_nat d) # cs) = inet_field n (t * 10 + of_nat d) cs"
proof -
  have "d \<in> {0, 1, 2, 3, 4, 5, 6, 7, 8, 9}" using assms by auto
  then have "48 + of_nat d \<noteq> (46 :: u8) \<and> 48 + of_nat d \<noteq> (0 :: u8) \<and> (48 :: u8) \<le> 48 + of_nat d \<and> 48 + of_nat d \<le> (57 :: u8)"
    by auto
  then show ?thesis by simp
qed

lemma four: "(4 :: nat) = Suc (Suc (Suc (Suc 0)))"
  by simp

lemma inet_field_dec:
  assumes "c = 46 \<or> c = 0"
  shows "inet_field (Suc (Suc (Suc (Suc 0)))) 0 (dec b @ c # cs) = Some (Some (b, cs))"
proof -
  have fin: "inet_field (Suc n) t (c # cs) = Some (Some (t, cs))" for n t using assms by auto
  have n: "unat b < 256" using unsigned_less [of b, where 'a = nat] by simp
  have b: "of_nat n = b" if "n = unat b" for n using that by simp
  have dig: "of_nat p * 10 + of_nat q = (of_nat (p * 10 + q) :: u8)" for p q
    by (simp only: of_nat_add of_nat_mult of_nat_numeral)
  have 0: "0 * 10 + of_nat q = (of_nat q :: u8)" for q by simp
  consider "unat b < 10" | "10 \<le> unat b" "unat b < 100" | "100 \<le> unat b" by linarith
  then show ?thesis
  proof cases
    case 1
    then have "dec b = [48 + of_nat (unat b)]" by (simp add: dec_def Let_def)
    then show ?thesis using inet_digit [OF 1, of "Suc (Suc (Suc 0))" 0 "c # cs"] fin [of "Suc (Suc 0)"] by simp
  next
    case 2
    let ?p = "unat b div 10" and ?q = "unat b mod 10"
    have d: "dec b = [48 + of_nat ?p, 48 + of_nat ?q]" using 2 by (simp add: dec_def Let_def)
    have lt: "?p < 10" "?q < 10" using 2 by auto
    have sum: "of_nat ?p * 10 + of_nat ?q = b" unfolding dig by (rule b) (simp add: div_mult_mod_eq)
    show ?thesis
      unfolding d append.simps inet_digit [OF lt(1)] inet_digit [OF lt(2)] 0 sum fin ..
  next
    case 3
    let ?p = "unat b div 100" and ?q = "unat b div 10 mod 10" and ?r = "unat b mod 10"
    have d: "dec b = [48 + of_nat ?p, 48 + of_nat ?q, 48 + of_nat ?r]" using 3 by (simp add: dec_def Let_def)
    have lt: "?p < 10" "?q < 10" "?r < 10" using n by auto
    have "?p = unat b div 10 div 10" by (simp add: div_mult2_eq [symmetric])
    then have "(?p * 10 + ?q) * 10 + ?r = unat b" by (simp only: div_mult_mod_eq)
    then have sum: "(of_nat ?p * 10 + of_nat ?q) * 10 + of_nat ?r = b" unfolding dig by (rule b)
    show ?thesis
      unfolding d append.simps inet_digit [OF lt(1)] inet_digit [OF lt(2)] inet_digit [OF lt(3)] 0 sum fin ..
  qed
qed

lemma inet_fields_dec:
  "c = 46 \<or> c = 0 \<Longrightarrow> inet_fields (Suc i) (dec b @ c # cs) = map_option (map_option ((#) b)) (inet_fields i cs)"
  using inet_field_dec [of c b cs] unfolding four [symmetric] by simp

text \<open>
  \<open>nmi_inet_addr\<close> reads a dotted decimal address back to the four bytes it was printed from,
  in network order in memory.
\<close>

theorem inet_addr_dotted:
  "nmi_inet_addr (dec a @ [46] @ dec b @ [46] @ dec c @ [46] @ dec d @ [0] @ r) = Some (of_le32 [a, b, c, d])"
  unfolding nmi_inet_addr_def four by (simp add: inet_fields_dec del: inet_fields.simps(2))

text \<open>
  \<open>nmi_inet_addr\<close> reads behind the end of a string with fewer than four numbers: a terminating
  zero is taken for a dot.
\<close>

theorem inet_addr_short_overreads: "nmi_inet_addr (dec a @ [46] @ dec b @ [0]) = None"
proof -
  have "inet_fields (Suc (Suc 0)) [] = None" by simp
  then show ?thesis
    unfolding nmi_inet_addr_def four by (simp add: inet_fields_dec del: inet_fields.simps(2))
qed

end
