(* ===== verification/Sock_Wire.thy ===== *)
theory Sock_Wire
  imports Sock_Props
begin

text \<open>
  What a socket operation puts on the bus: the writes of a successful \<open>send\<close> on a plain TCP socket,
  and that everything but the transport stays as it was.
\<close>

text \<open>The command that \<open>send\<close> puts before the data.\<close>

definition tcp_send_cmd :: "'w env \<Rightarrow> int \<Rightarrow> u16 \<Rightarrow> u16 \<Rightarrow> u8 list" where
  "tcp_send_cmd e sock len sid = [of_int sock, ev_uninit e 1] @ le16 len @ map (ev_uninit e) [4..<12] @ le16 sid
     @ map (ev_uninit e) [14..<16]"

text \<open>The writes of one \<open>send\<close> that was granted the address \<open>dma\<close>.\<close>

definition tcp_send_writes :: "'w env \<Rightarrow> int \<Rightarrow> u16 \<Rightarrow> u8 list \<Rightarrow> u16 \<Rightarrow> u32 \<Rightarrow> access list" where
  "tcp_send_writes e sock sid data len dma =
     [WReg NMI_STATE_REG (ucast M2M_REQ_GROUP_IP OR push_bit 8 (ucast (SOCKET_CMD_SEND OR M2M_REQ_DATA_PKT))
        OR push_bit 16 (ucast (8 + (80 + len)))),
      WReg WIFI_HOST_RCV_CTRL_2 2,
      WBlk dma (take 8 (hif_header (ev_stack e) M2M_REQ_GROUP_IP (SOCKET_CMD_SEND OR M2M_REQ_DATA_PKT) (8 + (80 + len)))),
      WBlk (dma + 8) (tcp_send_cmd e sock len sid),
      WBlk (dma + 8 + 80) (take (unat len) data),
      WReg WIFI_HOST_RCV_CTRL_3 (push_bit 2 dma OR 2)]"

text \<open>Whatever the result, \<open>send\<close> changes nothing but the transport.\<close>

lemma request_frame:
  "SOCKET_REQUEST e op args p n off s = Some (r, s') \<Longrightarrow>
     gastrSockets s' = gastrSockets s \<and> app_st s' = app_st s \<and> user_mem s' = user_mem s"
  by (intro conjI; erule request_keeps)

lemma send_keeps:
  assumes "send e sock buf len s = Some (rc, s')"
  shows "gastrSockets s' = gastrSockets s \<and> app_st s' = app_st s \<and> user_mem s' = user_mem s"
  using assms
  by (auto simp: send_def if_used_def request_def bind_eq_Some_conv dest!: request_frame split: if_splits option.splits)

lemma tcp_send_logged:
  assumes awake: "stays_awake s" and bus: "ev_bus e = logged bus"
    and x: "get_sock sock s = Some x" "bIsUsed x = 1" "\<not> ssl_active x" "sock < int TCP_SOCK_MAX"
    and ok: "send e sock (Some data) len s = Some (SOCK_ERR_NO_ERROR, s')"
  shows "\<exists>dma. dma \<noteq> 0 \<and>
    filter is_write (snd (bus_st s')) = filter is_write (snd (bus_st s)) @ tcp_send_writes e sock (u16SessionID x) data len dma"
    and "stays_awake s'"
proof -
  let ?cmd = "tcp_send_cmd e sock len (u16SessionID x)"
  let ?op = "SOCKET_CMD_SEND OR M2M_REQ_DATA_PKT"
  have "0 \<le> sock" using x(1) by (auto simp: get_sock_def split: if_splits)
  then have "request e SOCK_ERR_BUFFER_FULL ?op ?cmd (Some data) len TCP_TX_PACKET_OFFSET s = Some (SOCK_ERR_NO_ERROR, s')"
    using ok x by (auto simp: send_def if_used_def tcp_send_cmd_def sock_err_defs split: if_splits)
  then have req: "SOCKET_REQUEST e ?op ?cmd (Some data) len TCP_TX_PACKET_OFFSET s = Some (M2M_SUCCESS, s')"
    by (auto simp: request_def sock_err_defs code_defs split: if_splits)
  have len: "length ?cmd = 16" by (simp add: tcp_send_cmd_def)
  have off: "TCP_TX_PACKET_OFFSET = 80"
    by (simp add: TCP_TX_PACKET_OFFSET_def IP_PACKET_OFFSET_def M2M_HIF_HDR_OFFSET_def)
  from req have "hif_send (logged bus) (ev_junk e) (ev_stack e) M2M_REQ_GROUP_IP ?op (Some ?cmd) 16 (Some data) len 80 s =
      Some (M2M_SUCCESS, s')"
    by (simp add: SOCKET_REQUEST_def bus len off)
  from hif_send_logged [OF awake _ this] obtain dma where dma: "dma \<noteq> 0" and
      sleep: "gu8ChipSleep s' = gu8ChipSleep s" "gu8ChipMode s' = gu8ChipMode s" and
      "filter is_write (snd (bus_st s')) = filter is_write (snd (bus_st s)) @
        hif_send_writes (ev_stack e) M2M_REQ_GROUP_IP ?op (Some ?cmd) 16 (Some data) len 80 dma"
    by auto
  with len dma show "\<exists>dma. dma \<noteq> 0 \<and>
    filter is_write (snd (bus_st s')) = filter is_write (snd (bus_st s)) @ tcp_send_writes e sock (u16SessionID x) data len dma"
    by (intro exI [of _ dma]) (simp add: hif_send_writes_def hif_length_def tcp_send_writes_def M2M_HIF_HDR_OFFSET_def Let_def)
  show "stays_awake s'"
    using sleep awake by (simp add: stays_awake_def deep_sleep_mode_def)
qed

end
