(* ===== verification/Status_Codes.thy ===== *)
theory Status_Codes
  imports Prelude
begin

text \<open>
  The status codes of \<open>sam0/utils/status_codes.h\<close> with their numbers, which some functions of the hardware
  layer hand on as an \<open>int\<close>.
\<close>

datatype status_code = STATUS_OK | STATUS_VALID_DATA | STATUS_NO_CHANGE | STATUS_ABORTED | STATUS_BUSY | STATUS_SUSPEND
  | STATUS_ERR_IO | STATUS_ERR_REQ_FLUSHED | STATUS_ERR_TIMEOUT | STATUS_ERR_BAD_DATA | STATUS_ERR_NOT_FOUND
  | STATUS_ERR_UNSUPPORTED_DEV | STATUS_ERR_NO_MEMORY | STATUS_ERR_INVALID_ARG | STATUS_ERR_BAD_ADDRESS
  | STATUS_ERR_BAD_FORMAT | STATUS_ERR_BAD_FRQ | STATUS_ERR_DENIED | STATUS_ERR_ALREADY_INITIALIZED
  | STATUS_ERR_OVERFLOW | STATUS_ERR_NOT_INITIALIZED | STATUS_ERR_SAMPLERATE_UNAVAILABLE
  | STATUS_ERR_RESOLUTION_UNAVAILABLE | STATUS_ERR_BAUDRATE_UNAVAILABLE | STATUS_ERR_PACKET_COLLISION
  | STATUS_ERR_PROTOCOL | STATUS_ERR_PIN_MUX_INVALID

fun status_num :: "status_code \<Rightarrow> int" where
  "status_num STATUS_OK = 0x00"
| "status_num STATUS_VALID_DATA = 0x01"
| "status_num STATUS_NO_CHANGE = 0x02"
| "status_num STATUS_ABORTED = 0x04"
| "status_num STATUS_BUSY = 0x05"
| "status_num STATUS_SUSPEND = 0x06"
| "status_num STATUS_ERR_IO = 0x10"
| "status_num STATUS_ERR_REQ_FLUSHED = 0x11"
| "status_num STATUS_ERR_TIMEOUT = 0x12"
| "status_num STATUS_ERR_BAD_DATA = 0x13"
| "status_num STATUS_ERR_NOT_FOUND = 0x14"
| "status_num STATUS_ERR_UNSUPPORTED_DEV = 0x15"
| "status_num STATUS_ERR_NO_MEMORY = 0x16"
| "status_num STATUS_ERR_INVALID_ARG = 0x17"
| "status_num STATUS_ERR_BAD_ADDRESS = 0x18"
| "status_num STATUS_ERR_BAD_FORMAT = 0x1a"
| "status_num STATUS_ERR_BAD_FRQ = 0x1b"
| "status_num STATUS_ERR_DENIED = 0x1c"
| "status_num STATUS_ERR_ALREADY_INITIALIZED = 0x1d"
| "status_num STATUS_ERR_OVERFLOW = 0x1e"
| "status_num STATUS_ERR_NOT_INITIALIZED = 0x1f"
| "status_num STATUS_ERR_SAMPLERATE_UNAVAILABLE = 0x30"
| "status_num STATUS_ERR_RESOLUTION_UNAVAILABLE = 0x31"
| "status_num STATUS_ERR_BAUDRATE_UNAVAILABLE = 0x40"
| "status_num STATUS_ERR_PACKET_COLLISION = 0x41"
| "status_num STATUS_ERR_PROTOCOL = 0x42"
| "status_num STATUS_ERR_PIN_MUX_INVALID = 0x50"

lemma status_num_0 [simp]: "status_num s = 0 \<longleftrightarrow> s = STATUS_OK"
  by (cases s) auto

end
