(* ===== verification/Nvm.thy ===== *)
theory Nvm
  imports Status_Codes
begin

text \<open>
  The driver of the flash controller, \<open>sam0/drivers/nvm/nvm.c\<close> and the inline functions of
  \<open>nvm.h\<close>, as compiled for the SAMD21G18A (\<open>FEATURE_NVM_RWWEE\<close> is not defined). The
  controller is not code of the repository: its registers and the memory it maps are the
  operations of a record \<open>nvm_hw\<close> on an opaque state, and every definition takes that record as an
  argument. A poll of the ready flag may change the state of the controller, since time passes.
  \<open>None\<close> is a function that does not return or an access outside an array. The critical section
  is the one of \<open>common/utils/interrupt/interrupt_sam_nvic.c\<close>.
\<close>

record 'w nvm_hw =
  hw_ready :: "'w \<Rightarrow> bool \<times> 'w"
  hw_ctrla :: "u16 \<Rightarrow> 'w \<Rightarrow> 'w"
  hw_ctrlb :: "'w \<Rightarrow> u32"
  hw_set_ctrlb :: "u32 \<Rightarrow> 'w \<Rightarrow> 'w"
  hw_status :: "'w \<Rightarrow> u16"
  hw_set_status :: "u16 \<Rightarrow> 'w \<Rightarrow> 'w"
  hw_set_addr :: "u32 \<Rightarrow> 'w \<Rightarrow> 'w"
  hw_param :: u32
  hw_lock :: "'w \<Rightarrow> u16"
  hw_ld16 :: "u32 \<Rightarrow> 'w \<Rightarrow> u16 \<times> 'w"
  hw_st16 :: "u32 \<Rightarrow> u16 \<Rightarrow> 'w \<Rightarrow> 'w"

record 'w nvm =
  hw_st :: 'w
  page_size :: u16
  number_of_pages :: u16
  manual_page_write :: bool
  apbb_mask :: u32
  cpu_irq_enabled :: bool
  cpu_irq_critical_section_counter :: u32
  cpu_irq_prev_interrupt_state :: bool

subsection \<open>Constants\<close>

definition NVM_COMMAND_ERASE_ROW :: u16 where "NVM_COMMAND_ERASE_ROW = 0x2"
definition NVM_COMMAND_WRITE_PAGE :: u16 where "NVM_COMMAND_WRITE_PAGE = 0x4"
definition NVM_COMMAND_ERASE_AUX_ROW :: u16 where "NVM_COMMAND_ERASE_AUX_ROW = 0x5"
definition NVM_COMMAND_WRITE_AUX_ROW :: u16 where "NVM_COMMAND_WRITE_AUX_ROW = 0x6"
definition NVM_COMMAND_LOCK_REGION :: u16 where "NVM_COMMAND_LOCK_REGION = 0x40"
definition NVM_COMMAND_UNLOCK_REGION :: u16 where "NVM_COMMAND_UNLOCK_REGION = 0x41"
definition NVM_COMMAND_ENTER_LOW_POWER_MODE :: u16 where "NVM_COMMAND_ENTER_LOW_POWER_MODE = 0x42"
definition NVM_COMMAND_EXIT_LOW_POWER_MODE :: u16 where "NVM_COMMAND_EXIT_LOW_POWER_MODE = 0x43"
definition NVM_COMMAND_PAGE_BUFFER_CLEAR :: u16 where "NVM_COMMAND_PAGE_BUFFER_CLEAR = 0x44"
definition NVM_COMMAND_SET_SECURITY_BIT :: u16 where "NVM_COMMAND_SET_SECURITY_BIT = 0x45"

lemmas nvm_command_defs = NVM_COMMAND_ERASE_ROW_def NVM_COMMAND_WRITE_PAGE_def
  NVM_COMMAND_ERASE_AUX_ROW_def NVM_COMMAND_WRITE_AUX_ROW_def NVM_COMMAND_LOCK_REGION_def
  NVM_COMMAND_UNLOCK_REGION_def NVM_COMMAND_ENTER_LOW_POWER_MODE_def
  NVM_COMMAND_EXIT_LOW_POWER_MODE_def NVM_COMMAND_PAGE_BUFFER_CLEAR_def
  NVM_COMMAND_SET_SECURITY_BIT_def

definition NVMCTRL_CTRLA_CMDEX_KEY :: u16 where "NVMCTRL_CTRLA_CMDEX_KEY = 0xa500"
definition NVMCTRL_STATUS_MASK :: u16 where "NVMCTRL_STATUS_MASK = 0x11f"
definition NVMCTRL_STATUS_SB :: u16 where "NVMCTRL_STATUS_SB = 0x100"
definition NVMCTRL_CTRLB_MANW_Pos :: nat where "NVMCTRL_CTRLB_MANW_Pos = 7"
definition NVMCTRL_CTRLB_CACHEDIS_Pos :: nat where "NVMCTRL_CTRLB_CACHEDIS_Pos = 18"
definition NVMCTRL_CTRLB_CACHEDIS :: u32 where "NVMCTRL_CTRLB_CACHEDIS = 0x40000"
definition NVMCTRL_PAGE_SIZE :: nat where "NVMCTRL_PAGE_SIZE = 64"
definition NVMCTRL_ROW_PAGES :: nat where "NVMCTRL_ROW_PAGES = 4"
definition NVMCTRL_USER :: u32 where "NVMCTRL_USER = 0x804000"
definition NVMCTRL_AUX0_ADDRESS :: u32 where "NVMCTRL_AUX0_ADDRESS = 0x804000"
definition NVMCTRL_AUX1_ADDRESS :: u32 where "NVMCTRL_AUX1_ADDRESS = 0x806000"
definition PM_APBBMASK_NVMCTRL :: u32 where "PM_APBBMASK_NVMCTRL = 0x4"

subsection \<open>Register accesses\<close>

definition nvm_is_ready :: "'w nvm_hw \<Rightarrow> 'w nvm \<Rightarrow> bool \<times> 'w nvm" where
  "nvm_is_ready hw s = (case hw_ready hw (hw_st s) of (r, w) \<Rightarrow> (r, s\<lparr>hw_st := w\<rparr>))"

text \<open>\<open>while (!nvm_is_ready()) { }\<close>\<close>

partial_function (option) wait_ready :: "'w nvm_hw \<Rightarrow> 'w nvm \<Rightarrow> 'w nvm option" where
  "wait_ready hw s = (case nvm_is_ready hw s of (r, s') \<Rightarrow> if r then Some s' else wait_ready hw s')"

definition upd_hw :: "('w \<Rightarrow> 'w) \<Rightarrow> 'w nvm \<Rightarrow> 'w nvm" where
  "upd_hw f s = s\<lparr>hw_st := f (hw_st s)\<rparr>"

text \<open>\<open>nvm_module->STATUS.reg |= NVMCTRL_STATUS_MASK\<close>\<close>

definition clear_errors :: "'w nvm_hw \<Rightarrow> 'w nvm \<Rightarrow> 'w nvm" where
  "clear_errors hw = upd_hw (\<lambda>w. hw_set_status hw (hw_status hw w OR NVMCTRL_STATUS_MASK) w)"

text \<open>\<open>(uint32_t)_nvm_dev.page_size * _nvm_dev.number_of_pages\<close>\<close>

definition nvm_limit :: "'w nvm \<Rightarrow> u32" where
  "nvm_limit s = ucast (page_size s) * ucast (number_of_pages s)"

text \<open>\<open>(uintptr_t)&NVM_MEMORY[address / 4]\<close>, the address of a 16-bit element.\<close>

definition nvm_element :: "u32 \<Rightarrow> u32" where
  "nvm_element address = 2 * (address div 4)"

definition system_apb_clock_set_mask :: "u32 \<Rightarrow> 'w nvm \<Rightarrow> 'w nvm" where
  "system_apb_clock_set_mask m s = s\<lparr>apbb_mask := apbb_mask s OR m\<rparr>"

definition cpu_irq_enter_critical :: "'w nvm \<Rightarrow> 'w nvm" where
  "cpu_irq_enter_critical s =
     (let s = (if cpu_irq_critical_section_counter s = 0
               then (if cpu_irq_enabled s
                     then s\<lparr>cpu_irq_enabled := False, cpu_irq_prev_interrupt_state := True\<rparr>
                     else s\<lparr>cpu_irq_prev_interrupt_state := False\<rparr>)
               else s)
      in s\<lparr>cpu_irq_critical_section_counter := cpu_irq_critical_section_counter s + 1\<rparr>)"

definition cpu_irq_leave_critical :: "'w nvm \<Rightarrow> 'w nvm option" where
  "cpu_irq_leave_critical s =
     (if \<not> cpu_irq_critical_section_counter s > 0 then None
      else let s = s\<lparr>cpu_irq_critical_section_counter := cpu_irq_critical_section_counter s - 1\<rparr>
           in Some (if cpu_irq_critical_section_counter s = 0 \<and> cpu_irq_prev_interrupt_state s
                    then s\<lparr>cpu_irq_enabled := True\<rparr> else s))"

subsection \<open>Configuration\<close>

record nvm_config =
  sleep_power_mode :: u32
  cfg_manual_page_write :: bool
  wait_states :: u8
  disable_cache :: bool
  cache_readmode :: u32

definition NVM_SLEEP_POWER_MODE_WAKEONACCESS :: u32 where "NVM_SLEEP_POWER_MODE_WAKEONACCESS = 0"
definition NVM_CACHE_READMODE_NO_MISS_PENALTY :: u32 where "NVM_CACHE_READMODE_NO_MISS_PENALTY = 0"

definition nvm_get_config_defaults :: "'w nvm_hw \<Rightarrow> 'w nvm \<Rightarrow> nvm_config" where
  "nvm_get_config_defaults hw s =
     \<lparr>sleep_power_mode = NVM_SLEEP_POWER_MODE_WAKEONACCESS, cfg_manual_page_write = True,
      wait_states = ucast (drop_bit 1 (hw_ctrlb hw (hw_st s)) AND 0xf), disable_cache = False,
      cache_readmode = NVM_CACHE_READMODE_NO_MISS_PENALTY\<rparr>"

definition ctrlb_of :: "nvm_config \<Rightarrow> u32" where
  "ctrlb_of c = (push_bit 8 (sleep_power_mode c) AND 0x300)
     OR push_bit NVMCTRL_CTRLB_MANW_Pos (of_bool (cfg_manual_page_write c))
     OR (push_bit 1 (ucast (wait_states c)) AND 0x1e)
     OR push_bit NVMCTRL_CTRLB_CACHEDIS_Pos (of_bool (disable_cache c))
     OR (push_bit 16 (cache_readmode c) AND 0x30000)"

definition nvm_set_config :: "'w nvm_hw \<Rightarrow> nvm_config \<Rightarrow> 'w nvm \<Rightarrow> status_code \<times> 'w nvm" where
  "nvm_set_config hw config s =
     (let s = system_apb_clock_set_mask PM_APBBMASK_NVMCTRL s;
          s = clear_errors hw s;
          (r, s) = nvm_is_ready hw s
      in if \<not> r then (STATUS_BUSY, s)
         else let s = upd_hw (hw_set_ctrlb hw (ctrlb_of config)) s;
                  s = s\<lparr>page_size := push_bit (unat (drop_bit 16 (hw_param hw) AND 0x7)) 8,
                        number_of_pages := ucast (hw_param hw),
                        manual_page_write := cfg_manual_page_write config\<rparr>
              in if hw_status hw (hw_st s) AND NVMCTRL_STATUS_SB \<noteq> 0 then (STATUS_ERR_IO, s)
                 else (STATUS_OK, s))"

record nvm_parameters =
  par_page_size :: u8
  nvm_number_of_pages :: u16
  eeprom_number_of_pages :: u32
  bootloader_number_of_pages :: u32

text \<open>\<open>8 << PSZ\<close> is stored in a \<open>uint8_t\<close>, so a page size of 256 bytes or more reads as 0.\<close>

definition nvm_get_parameters :: "'w nvm_hw \<Rightarrow> 'w nvm \<Rightarrow> nvm_parameters \<times> 'w nvm" where
  "nvm_get_parameters hw s =
     (let s = clear_errors hw s;
          param_reg = hw_param hw;
          (u, w) = hw_ld16 hw NVMCTRL_USER (hw_st s);
          eeprom_fuse_value = drop_bit 4 (u AND 0x70);
          (v, w) = hw_ld16 hw NVMCTRL_USER w;
          boot_fuse_value = v AND 0x7
      in (\<lparr>par_page_size = push_bit (unat (drop_bit 16 (param_reg AND 0x70000))) 8,
           nvm_number_of_pages = ucast (param_reg AND 0xffff),
           eeprom_number_of_pages =
             (if eeprom_fuse_value = 7 then 0 else push_bit (6 - unat eeprom_fuse_value) 4),
           bootloader_number_of_pages =
             (if boot_fuse_value = 7 then 0 else push_bit (7 - unat boot_fuse_value) 4)\<rparr>,
          s\<lparr>hw_st := w\<rparr>))"

text \<open>\<open>None\<close> where the code divides by zero (fewer than 16 pages) or shifts by 32 or more.\<close>

definition nvm_is_page_locked :: "'w nvm_hw \<Rightarrow> u16 \<Rightarrow> 'w nvm \<Rightarrow> bool option" where
  "nvm_is_page_locked hw page_number s =
     (let pages_in_region = number_of_pages s div 16
      in if pages_in_region = 0 then None
         else let region_number = page_number div pages_in_region
              in if unat region_number \<ge> 32 then None
                 else Some (ucast (hw_lock hw (hw_st s)) AND push_bit (unat region_number) (1 :: u32) = 0))"

subsection \<open>Commands\<close>

definition nvm_execute_command ::
    "'w nvm_hw \<Rightarrow> u16 \<Rightarrow> u32 \<Rightarrow> u32 \<Rightarrow> 'w nvm \<Rightarrow> (status_code \<times> 'w nvm) option" where
  "nvm_execute_command hw command address parameter s =
     (if address > nvm_limit s \<and> \<not> (address \<ge> NVMCTRL_AUX0_ADDRESS \<and> address \<le> NVMCTRL_AUX1_ADDRESS)
      then Some (STATUS_ERR_BAD_ADDRESS, s)
      else
        let ctrlb_bak = hw_ctrlb hw (hw_st s);
            restore = upd_hw (hw_set_ctrlb hw ctrlb_bak);
            s = upd_hw (hw_set_ctrlb hw (ctrlb_bak OR NVMCTRL_CTRLB_CACHEDIS)) s;
            s = clear_errors hw s;
            (r, s) = nvm_is_ready hw s;
            set_addr = upd_hw (hw_set_addr hw (nvm_element address));
            issue = (\<lambda>s. map_option (\<lambda>s. (STATUS_OK, restore s))
                      (wait_ready hw (upd_hw (hw_ctrla hw (command OR NVMCTRL_CTRLA_CMDEX_KEY)) s)))
        in if \<not> r then Some (STATUS_BUSY, restore s)
           else if command \<in> {NVM_COMMAND_ERASE_AUX_ROW, NVM_COMMAND_WRITE_AUX_ROW}
           then (if hw_status hw (hw_st s) AND NVMCTRL_STATUS_SB \<noteq> 0 then Some (STATUS_ERR_IO, restore s)
                 else issue (set_addr s))
           else if command \<in> {NVM_COMMAND_ERASE_ROW, NVM_COMMAND_WRITE_PAGE, NVM_COMMAND_LOCK_REGION,
                              NVM_COMMAND_UNLOCK_REGION}
           then issue (set_addr s)
           else if command \<in> {NVM_COMMAND_PAGE_BUFFER_CLEAR, NVM_COMMAND_SET_SECURITY_BIT,
                              NVM_COMMAND_ENTER_LOW_POWER_MODE, NVM_COMMAND_EXIT_LOW_POWER_MODE}
           then issue s
           else Some (STATUS_ERR_INVALID_ARG, restore s))"

subsection \<open>Reading, writing and erasing\<close>

text \<open>
  The copy loops. \<open>i\<close> is the loop counter; the guard \<open>length <= page_size\<close> of the callers keeps it
  far below \<open>2 ^ 16\<close>. \<open>a\<close> is the index of the next 16-bit element.
\<close>

function store_words :: "'w nvm_hw \<Rightarrow> u8 list \<Rightarrow> nat \<Rightarrow> nat \<Rightarrow> u32 \<Rightarrow> 'w \<Rightarrow> 'w option" where
  "store_words hw buffer len i a w =
     (if i < len
      then Option.bind (mem_read buffer i) (\<lambda>lo.
           Option.bind (if i + 1 < len then map_option (\<lambda>hi. ucast lo OR push_bit 8 (ucast hi)) (mem_read buffer (i + 1))
                        else Some (ucast lo)) (\<lambda>data.
             store_words hw buffer len (i + 2) (a + 1) (hw_st16 hw (2 * a) data w)))
      else Some w)"
  by pat_completeness auto
termination by (relation "measure (\<lambda>(_, _, len, i, _). len - i)") auto

function load_words :: "'w nvm_hw \<Rightarrow> u8 list \<Rightarrow> nat \<Rightarrow> nat \<Rightarrow> u32 \<Rightarrow> 'w \<Rightarrow> (u8 list \<times> 'w) option" where
  "load_words hw buffer len i a w =
     (if i < len
      then (case hw_ld16 hw (2 * a) w of (data, w) \<Rightarrow>
           Option.bind (mem_write buffer i (ucast data)) (\<lambda>buffer.
           Option.bind (if i + 1 < len then mem_write buffer (i + 1) (ucast (drop_bit 8 data)) else Some buffer) (\<lambda>buffer.
             load_words hw buffer len (i + 2) (a + 1) w)))
      else Some (buffer, w))"
  by pat_completeness auto
termination by (relation "measure (\<lambda>(_, _, len, i, _). len - i)") auto

declare store_words.simps [simp del] load_words.simps [simp del]

definition nvm_write_buffer ::
    "'w nvm_hw \<Rightarrow> u32 \<Rightarrow> u8 list \<Rightarrow> u16 \<Rightarrow> 'w nvm \<Rightarrow> (status_code \<times> 'w nvm) option" where
  "nvm_write_buffer hw destination_address buffer len s =
     (if destination_address > nvm_limit s then Some (STATUS_ERR_BAD_ADDRESS, s)
      else if destination_address AND (ucast (page_size s) - 1) \<noteq> 0 then Some (STATUS_ERR_BAD_ADDRESS, s)
      else if len > page_size s then Some (STATUS_ERR_INVALID_ARG, s)
      else case nvm_is_ready hw s of (r, s) \<Rightarrow>
        if \<not> r then Some (STATUS_BUSY, s)
        else do {
          s \<leftarrow> wait_ready hw (upd_hw (hw_ctrla hw (NVM_COMMAND_PAGE_BUFFER_CLEAR OR NVMCTRL_CTRLA_CMDEX_KEY)) s);
          let s = clear_errors hw s;
          w \<leftarrow> store_words hw buffer (unat len) 0 (destination_address div 2) (hw_st s);
          let s = s\<lparr>hw_st := w\<rparr>;
          (if \<not> manual_page_write s \<and> unat len < NVMCTRL_PAGE_SIZE
           then nvm_execute_command hw NVM_COMMAND_WRITE_PAGE destination_address 0 s
           else Some (STATUS_OK, s)) })"

definition nvm_read_buffer ::
    "'w nvm_hw \<Rightarrow> u32 \<Rightarrow> u8 list \<Rightarrow> u16 \<Rightarrow> 'w nvm \<Rightarrow> (status_code \<times> u8 list \<times> 'w nvm) option" where
  "nvm_read_buffer hw source_address buffer len s =
     (if source_address > nvm_limit s then Some (STATUS_ERR_BAD_ADDRESS, buffer, s)
      else if source_address AND (ucast (page_size s) - 1) \<noteq> 0 then Some (STATUS_ERR_BAD_ADDRESS, buffer, s)
      else if len > page_size s then Some (STATUS_ERR_INVALID_ARG, buffer, s)
      else case nvm_is_ready hw s of (r, s) \<Rightarrow>
        if \<not> r then Some (STATUS_BUSY, buffer, s)
        else do {
          let s = clear_errors hw s;
          (buffer, w) \<leftarrow> load_words hw buffer (unat len) 0 (source_address div 2) (hw_st s);
          Some (STATUS_OK, buffer, s\<lparr>hw_st := w\<rparr>) })"

definition nvm_erase_row :: "'w nvm_hw \<Rightarrow> u32 \<Rightarrow> 'w nvm \<Rightarrow> (status_code \<times> 'w nvm) option" where
  "nvm_erase_row hw row_address s =
     (if row_address > nvm_limit s then Some (STATUS_ERR_BAD_ADDRESS, s)
      else if row_address AND (ucast (page_size s) * of_nat NVMCTRL_ROW_PAGES - 1) \<noteq> 0
      then Some (STATUS_ERR_BAD_ADDRESS, s)
      else case nvm_is_ready hw s of (r, s) \<Rightarrow>
        if \<not> r then Some (STATUS_BUSY, s)
        else do {
          let s = clear_errors hw s;
          let s = upd_hw (hw_set_addr hw (nvm_element row_address)) s;
          s \<leftarrow> wait_ready hw (upd_hw (hw_ctrla hw (NVM_COMMAND_ERASE_ROW OR NVMCTRL_CTRLA_CMDEX_KEY)) s);
          Some (STATUS_OK, s) })"

subsection \<open>Updating a part of a page\<close>

text \<open>\<open>do { error_code = f(); } while (error_code == STATUS_BUSY)\<close>\<close>

partial_function (option) until_not_busy ::
    "('s \<Rightarrow> (status_code \<times> 's) option) \<Rightarrow> 's \<Rightarrow> (status_code \<times> 's) option" where
  "until_not_busy f s = Option.bind (f s) (\<lambda>(e, s'). if e = STATUS_BUSY then until_not_busy f s' else Some (e, s'))"

text \<open>The rows of \<open>row_buffer\<close> are filled in turn; an unwritten one is arbitrary and \<open>junk\<close> stands for it.\<close>

definition page_of_row :: "u32 \<Rightarrow> nat \<Rightarrow> 'w nvm \<Rightarrow> u32" where
  "page_of_row row i s = row + of_nat i * ucast (page_size s)"

fun read_row :: "'w nvm_hw \<Rightarrow> u8 list \<Rightarrow> u32 \<Rightarrow> nat list \<Rightarrow> 'w nvm \<Rightarrow> (status_code \<times> u8 list list \<times> 'w nvm) option" where
  "read_row hw junk row [] s = Some (STATUS_OK, [], s)"
| "read_row hw junk row (i # is) s = do {
     (e, b, s) \<leftarrow> until_not_busy
        (\<lambda>(b, s). nvm_read_buffer hw (page_of_row row i s) b (page_size s) s) (junk, s);
     (if e \<noteq> STATUS_OK then Some (e, [], s)
      else do {
        (e, bs, s) \<leftarrow> read_row hw junk row is s;
        Some (e, b # bs, s) }) }"

fun write_row :: "'w nvm_hw \<Rightarrow> u32 \<Rightarrow> nat \<Rightarrow> u8 list list \<Rightarrow> 'w nvm \<Rightarrow> (status_code \<times> 'w nvm) option" where
  "write_row hw row i [] s = Some (STATUS_OK, s)"
| "write_row hw row i (b # bs) s = do {
     (e, s) \<leftarrow> until_not_busy (\<lambda>s. nvm_write_buffer hw (page_of_row row i s) b (page_size s) s) s;
     (if e \<noteq> STATUS_OK then Some (e, s) else write_row hw row (i + 1) bs s) }"

text \<open>\<open>for (i = 0; i < length; i++) page[offset + i] = buffer[i];\<close>\<close>

fun patch_page :: "u8 list \<Rightarrow> nat \<Rightarrow> u8 list \<Rightarrow> nat \<Rightarrow> u8 list option" where
  "patch_page page off buffer 0 = Some page"
| "patch_page page off buffer (Suc n) =
     (case buffer of [] \<Rightarrow> None
      | b # buffer' \<Rightarrow> Option.bind (mem_write page off b) (\<lambda>page. patch_page page (off + 1) buffer' n))"

definition nvm_update_buffer ::
    "'w nvm_hw \<Rightarrow> u8 list \<Rightarrow> u32 \<Rightarrow> u8 list \<Rightarrow> u16 \<Rightarrow> u16 \<Rightarrow> 'w nvm \<Rightarrow> (status_code \<times> 'w nvm) option" where
  "nvm_update_buffer hw junk destination_address buffer offset len s =
     (if unat offset + unat len > unat (page_size s) then Some (STATUS_ERR_INVALID_ARG, s)
      else
        let row_bytes = ucast (page_size s) * of_nat NVMCTRL_ROW_PAGES;
            row_start_address = destination_address AND NOT (row_bytes - 1)
        in do {
          (e, row_buffer, s) \<leftarrow> read_row hw junk row_start_address [0..<NVMCTRL_ROW_PAGES] s;
          (if e \<noteq> STATUS_OK then Some (e, s)
           else if page_size s = 0 then None
           else do {
             let page_in_row = unat ((destination_address mod row_bytes) div ucast (page_size s));
             page \<leftarrow> mem_read row_buffer page_in_row;
             page \<leftarrow> patch_page page (unat offset) buffer (unat len);
             let row_buffer = row_buffer[page_in_row := page];
             let s = cpu_irq_enter_critical s;
             (e, s) \<leftarrow> until_not_busy (nvm_erase_row hw row_start_address) s;
             (if e \<noteq> STATUS_OK then map_option (\<lambda>s. (e, s)) (cpu_irq_leave_critical s)
              else do {
                (e, s) \<leftarrow> write_row hw row_start_address 0 row_buffer s;
                map_option (\<lambda>s. (e, s)) (cpu_irq_leave_critical s) }) }) })"

end
