(* ===== verification/Nvm_Props.thy ===== *)
theory Nvm_Props
  imports Nvm
begin

text \<open>
  What the flash controller driver does to the memory. The documented behaviour of the controller
  that the driver relies on is the predicate \<open>nvm_datasheet\<close>: an abstract view of the controller's
  state (memory, page buffer, address and control registers, locks), with the effect of each command
  on it. A programmed page is the bitwise conjunction of the old page and the buffer, a row erase
  sets the row to \<open>0xff\<close>, neither changes a locked address, and a busy controller becomes ready
  after finitely many polls. What it does with the memory while it is still busy is not visible,
  since accesses stall, so the view already shows the result.
\<close>

record nvm_view =
  v_mem :: "nat \<Rightarrow> u8"
  v_buf :: "nat \<Rightarrow> u8"
  v_addr :: u32
  v_ctrlb :: u32
  v_locked :: "nat \<Rightarrow> bool"
  v_ready :: bool

abbreviation PSZ :: nat where "PSZ \<equiv> 64"

definition array_size :: "'w nvm_hw \<Rightarrow> nat" where
  "array_size hw = PSZ * unat (ucast (hw_param hw) :: u16)"

definition ds_page :: "nvm_view \<Rightarrow> nat \<Rightarrow> nat \<Rightarrow> u8" where
  "ds_page v p a = (if a div PSZ = p \<and> \<not> v_locked v a then v_mem v a AND v_buf v (a mod PSZ) else v_mem v a)"

definition ds_erase :: "nvm_view \<Rightarrow> nat \<Rightarrow> nat \<Rightarrow> u8" where
  "ds_erase v r a = (if a div (4 * PSZ) = r \<and> \<not> v_locked v a then 0xff else v_mem v a)"

definition ds_buffer :: "nvm_view \<Rightarrow> nat \<Rightarrow> u16 \<Rightarrow> nat \<Rightarrow> u8" where
  "ds_buffer v a d = (v_buf v)(a mod PSZ := ucast d, Suc (a mod PSZ) := ucast (drop_bit 8 d))"

definition same_regs :: "nvm_view \<Rightarrow> nvm_view \<Rightarrow> bool" where
  "same_regs v v' \<longleftrightarrow> v_ctrlb v' = v_ctrlb v \<and> v_locked v' = v_locked v"

definition manw :: "nvm_view \<Rightarrow> bool" where
  "manw v \<longleftrightarrow> bit (v_ctrlb v) NVMCTRL_CTRLB_MANW_Pos"

definition ready_law :: "'w nvm_hw \<Rightarrow> ('w \<Rightarrow> nvm_view) \<Rightarrow> bool" where
  "ready_law hw view \<longleftrightarrow> (\<forall>w. case hw_ready hw w of (r, w') \<Rightarrow>
     view w' = (view w)\<lparr>v_ready := v_ready (view w')\<rparr> \<and> (r \<longrightarrow> v_ready (view w')) \<and> (v_ready (view w) \<longrightarrow> r))"

definition finish_law :: "'w nvm_hw \<Rightarrow> bool" where
  "finish_law hw \<longleftrightarrow> (\<forall>w. \<exists>n. fst (hw_ready hw (((\<lambda>w. snd (hw_ready hw w)) ^^ n) w)))"

definition register_law :: "'w nvm_hw \<Rightarrow> ('w \<Rightarrow> nvm_view) \<Rightarrow> bool" where
  "register_law hw view \<longleftrightarrow> (\<forall>w x y. hw_ctrlb hw w = v_ctrlb (view w)
     \<and> view (hw_set_ctrlb hw x w) = (view w)\<lparr>v_ctrlb := x\<rparr>
     \<and> view (hw_set_addr hw x w) = (view w)\<lparr>v_addr := x\<rparr>
     \<and> view (hw_set_status hw y w) = view w)"

definition load_law :: "'w nvm_hw \<Rightarrow> ('w \<Rightarrow> nvm_view) \<Rightarrow> bool" where
  "load_law hw view \<longleftrightarrow> (\<forall>w a. case hw_ld16 hw a w of (d, w') \<Rightarrow> view w' = view w \<and>
     (v_ready (view w) \<and> even (unat a) \<and> unat a < array_size hw \<longrightarrow>
        d = of_le16 [v_mem (view w) (unat a), v_mem (view w) (Suc (unat a))]))"

definition command_law :: "'w nvm_hw \<Rightarrow> ('w \<Rightarrow> nvm_view) \<Rightarrow> bool" where
  "command_law hw view \<longleftrightarrow> (\<forall>w. v_ready (view w) \<longrightarrow>
     (\<forall>w'. w' = hw_ctrla hw 0xa544 w \<longrightarrow> same_regs (view w) (view w') \<and>
        v_mem (view w') = v_mem (view w) \<and> v_buf (view w') = (\<lambda>_. 0xff)) \<and>
     (\<forall>w'. w' = hw_ctrla hw 0xa504 w \<and> 2 * unat (v_addr (view w)) < array_size hw \<longrightarrow>
        same_regs (view w) (view w') \<and> v_mem (view w') = ds_page (view w) (2 * unat (v_addr (view w)) div PSZ)) \<and>
     (\<forall>w'. w' = hw_ctrla hw 0xa502 w \<and> 2 * unat (v_addr (view w)) < array_size hw \<longrightarrow>
        same_regs (view w) (view w') \<and> v_mem (view w') = ds_erase (view w) (2 * unat (v_addr (view w)) div (4 * PSZ))))"

text \<open>
  Stores go to the page buffer, which must have been cleared there. Storing the last element of a
  page starts an automatic page write unless manual writing is on.
\<close>

definition store_law :: "'w nvm_hw \<Rightarrow> ('w \<Rightarrow> nvm_view) \<Rightarrow> bool" where
  "store_law hw view \<longleftrightarrow> (\<forall>w a d v. v = view w \<and> v_ready v \<and> even (unat a) \<and> unat a < array_size hw
       \<and> v_buf v (unat a mod PSZ) = 0xff \<and> v_buf v (Suc (unat a mod PSZ)) = 0xff \<longrightarrow>
     same_regs v (view (hw_st16 hw a d w)) \<and>
     (if unat a mod PSZ = PSZ - 2 \<and> \<not> manw v
      then v_mem (view (hw_st16 hw a d w)) = ds_page (v\<lparr>v_buf := ds_buffer v (unat a) d\<rparr>) (unat a div PSZ)
      else v_mem (view (hw_st16 hw a d w)) = v_mem v \<and> v_buf (view (hw_st16 hw a d w)) = ds_buffer v (unat a) d
           \<and> v_ready (view (hw_st16 hw a d w))))"

definition nvm_datasheet :: "'w nvm_hw \<Rightarrow> ('w \<Rightarrow> nvm_view) \<Rightarrow> bool" where
  "nvm_datasheet hw view \<longleftrightarrow> drop_bit 16 (hw_param hw) AND 0x7 = 3 \<and> ready_law hw view \<and> finish_law hw
     \<and> register_law hw view \<and> load_law hw view \<and> command_law hw view \<and> store_law hw view"


lemmas datasheet_defs = nvm_datasheet_def ready_law_def register_law_def load_law_def command_law_def
  store_law_def

subsection \<open>Polling\<close>

lemma ready_cases:
  assumes "nvm_datasheet hw view"
  obtains w' where "nvm_is_ready hw s = (True, s\<lparr>hw_st := w'\<rparr>)"
      and "view w' = (view (hw_st s))\<lparr>v_ready := True\<rparr>"
  | w' x where "nvm_is_ready hw s = (False, s\<lparr>hw_st := w'\<rparr>)" and "snd (hw_ready hw (hw_st s)) = w'"
      and "\<not> v_ready (view (hw_st s))"
      and "view w' = (view (hw_st s))\<lparr>v_ready := x\<rparr>"
proof (cases "hw_ready hw (hw_st s)")
  case (Pair r w')
  have law: "view w' = (view (hw_st s))\<lparr>v_ready := v_ready (view w')\<rparr>" "r \<longrightarrow> v_ready (view w')"
    "v_ready (view (hw_st s)) \<longrightarrow> r"
    using assms Pair by (auto simp: nvm_datasheet_def ready_law_def dest: spec [of _ "hw_st s"])
  have rdy: "nvm_is_ready hw s = (r, s\<lparr>hw_st := w'\<rparr>)" by (simp add: nvm_is_ready_def Pair)
  show ?thesis
  proof (cases r)
    case True
    then show ?thesis using that(1) [of w'] law rdy by simp
  next
    case False
    then show ?thesis using that(2) [OF _ _ _ law(1)] law rdy Pair by simp
  qed
qed

lemma wait_ready_after:
  assumes "nvm_datasheet hw view"
    and "fst (hw_ready hw (((\<lambda>w. snd (hw_ready hw w)) ^^ n) (hw_st s)))"
  shows "returns (wait_ready hw s) (\<lambda>s'. \<exists>w'. s' = s\<lparr>hw_st := w'\<rparr> \<and> view w' = (view (hw_st s))\<lparr>v_ready := True\<rparr>)"
  using assms(2)
proof (induction n arbitrary: s)
  case 0
  then have "fst (nvm_is_ready hw s)" by (cases "hw_ready hw (hw_st s)") (simp add: nvm_is_ready_def)
  with assms(1) show ?case by (cases rule: ready_cases [where s = s]) (auto simp: wait_ready.simps)
next
  case (Suc n)
  from assms(1) show ?case
  proof (cases rule: ready_cases [where s = s])
    case (1 w')
    then show ?thesis by (auto simp: wait_ready.simps)
  next
    case (2 w' x)
    then have "fst (hw_ready hw (((\<lambda>w. snd (hw_ready hw w)) ^^ n) (hw_st (s\<lparr>hw_st := w'\<rparr>))))"
      using Suc.prems by (simp add: funpow_Suc_right del: funpow.simps)
    from Suc.IH [OF this] show ?thesis by (simp add: wait_ready.simps [of hw s] 2)
  qed
qed


lemma wait_ready_returns:
  assumes "nvm_datasheet hw view"
  shows "returns (wait_ready hw s) (\<lambda>s'. \<exists>w'. s' = s\<lparr>hw_st := w'\<rparr> \<and> view w' = (view (hw_st s))\<lparr>v_ready := True\<rparr>)"
proof -
  obtain n where "fst (hw_ready hw (((\<lambda>w. snd (hw_ready hw w)) ^^ n) (hw_st s)))"
    using assms by (auto simp: nvm_datasheet_def finish_law_def)
  with assms show ?thesis by (rule wait_ready_after)
qed

subsection \<open>The copy loops\<close>

definition dev_ok :: "'w nvm_hw \<Rightarrow> 'w nvm \<Rightarrow> bool" where
  "dev_ok hw s \<longleftrightarrow> page_size s = 64 \<and> number_of_pages s = ucast (hw_param hw) \<and> \<not> manual_page_write s"

lemma array_size_small: "array_size hw \<le> 64 * 65535"
proof -
  have "unat (ucast (hw_param hw) :: u16) < 2 ^ LENGTH(16)" by (rule unsigned_less)
  then show ?thesis by (simp add: array_size_def)
qed

text \<open>What the page buffer holds at \<open>j\<close> after the driver has stored \<open>len\<close> bytes.\<close>

definition stored :: "u8 list \<Rightarrow> nat \<Rightarrow> nat \<Rightarrow> u8" where
  "stored b len j = (if j < len then b ! j else if j = len \<and> odd len then 0 else 0xff)"

definition filling :: "nvm_view \<Rightarrow> u8 list \<Rightarrow> nat \<Rightarrow> nat \<Rightarrow> nvm_view \<Rightarrow> bool" where
  "filling v b len e v' \<longleftrightarrow> v_ready v' \<and> v_mem v' = v_mem v \<and> same_regs v v'
     \<and> (\<forall>j. v_buf v' j = (if j < e then stored b len j else 0xff))"

definition element :: "u8 list \<Rightarrow> nat \<Rightarrow> nat \<Rightarrow> u16" where
  "element b len i = ucast (b ! i) OR (if i + 1 < len then push_bit 8 (ucast (b ! (i + 1))) else 0)"

lemma element_bytes:
  assumes "even i" "i < len"
  shows "ucast (element b len i) = stored b len i" "ucast (drop_bit 8 (element b len i)) = stored b len (Suc i)"
proof -
  show "ucast (element b len i) = stored b len i"
    using assms by (auto simp: element_def stored_def bit_simps intro!: bit_word_eqI)
  show "ucast (drop_bit 8 (element b len i)) = stored b len (Suc i)"
  proof (cases "Suc i < len")
    case True
    then show ?thesis by (auto simp: element_def stored_def bit_simps intro!: bit_word_eqI)
  next
    case False
    then have "len = Suc i" using assms by simp
    then show ?thesis using assms by (auto simp: element_def stored_def bit_simps intro!: bit_word_eqI)
  qed
qed

lemma store_words_step:
  assumes "i < len" "len \<le> length b"
  shows "store_words hw b len i a w = store_words hw b len (i + 2) (a + 1) (hw_st16 hw (2 * a) (element b len i) w)"
  using assms by (subst store_words.simps) (auto simp: element_def mem_read_def)


text \<open>The index of the 16-bit element at byte \<open>i\<close> of page \<open>p\<close>.\<close>

definition elt :: "nat \<Rightarrow> nat \<Rightarrow> u32" where
  "elt p i = of_nat ((p * PSZ + i) div 2)"

lemma element_address:
  assumes "nvm_datasheet hw view" "p * PSZ < array_size hw" "even i" "i < PSZ"
  shows "unat (2 * elt p i) = p * PSZ + i" "p * PSZ + i < array_size hw" "elt p i + 1 = elt p (i + 2)"
proof -
  from assms(2) have p: "p < unat (ucast (hw_param hw) :: u16)" by (simp add: array_size_def)
  then show lim: "p * PSZ + i < array_size hw" using assms(4) by (simp add: array_size_def)
  obtain k where k: "i = 2 * k" using assms(3) by (rule evenE)
  then have a: "elt p i = of_nat (p * 32 + k)" by (simp add: elt_def algebra_simps)
  have "of_nat (p * PSZ + i) = 2 * elt p i" unfolding a by (simp add: k algebra_simps)
  moreover have "p * PSZ + i < 2 ^ 32" using lim array_size_small [of hw] by simp
  ultimately show "unat (2 * elt p i) = p * PSZ + i" by (intro of_nat_inverse) simp_all
  show "elt p i + 1 = elt p (i + 2)" unfolding a by (simp add: elt_def k algebra_simps)
qed

lemma filling_store:
  assumes ds: "nvm_datasheet hw view" and p: "p * PSZ < array_size hw"
    and i: "even i" "i < len" "i < PSZ - 2" and f: "filling v b len i (view w)"
  shows "filling v b len (i + 2) (view (hw_st16 hw (2 * elt p i) (element b len i) w))"
proof -
  note addr = element_address [OF ds p i(1)]
  have u: "unat (2 * elt p i) = p * PSZ + i" "p * PSZ + i < array_size hw" using addr i by auto
  have "store_law hw view" using ds by (simp add: nvm_datasheet_def)
  then have "same_regs (view w) (view (hw_st16 hw (2 * elt p i) (element b len i) w)) \<and>
      v_mem (view (hw_st16 hw (2 * elt p i) (element b len i) w)) = v_mem (view w) \<and>
      v_buf (view (hw_st16 hw (2 * elt p i) (element b len i) w)) = ds_buffer (view w) (p * PSZ + i) (element b len i) \<and>
      v_ready (view (hw_st16 hw (2 * elt p i) (element b len i) w))"
    unfolding store_law_def using u i f by (fastforce simp: filling_def)
  moreover have "ds_buffer (view w) (p * PSZ + i) (element b len i) j = (if j < i + 2 then stored b len j else 0xff)" for j
    using f i element_bytes [OF i(1,2)] by (auto simp: ds_buffer_def filling_def less_Suc_eq)
  ultimately show ?thesis using f by (auto simp: filling_def same_regs_def)
qed


lemma filling_stores:
  assumes ds: "nvm_datasheet hw view" and p: "p * PSZ < array_size hw"
    and e: "even e" "e \<le> PSZ - 2" "e \<le> len + 1" and b: "len \<le> length b"
  shows "\<lbrakk>even i; i \<le> e; filling v b len i (view w)\<rbrakk> \<Longrightarrow>
    \<exists>w'. store_words hw b len i (elt p i) w = store_words hw b len e (elt p e) w'
      \<and> filling v b len e (view w')"
proof (induction "e - i" arbitrary: i w rule: less_induct)
  case less
  show ?case
  proof (cases "i = e")
    case True
    then show ?thesis using less.prems by blast
  next
    case False
    then have i: "i + 2 \<le> e" using less.prems e(1) by (auto elim!: evenE)
    then have len: "i < len" "i < PSZ - 2" using e by auto
    have "filling v b len (i + 2) (view (hw_st16 hw (2 * (elt p i)) (element b len i) w))"
      using filling_store [OF ds p less.prems(1) len less.prems(3)] .
    from less.hyps [OF _ _ _ this] i less.prems
    have "\<exists>w'. store_words hw b len (i + 2) (elt p (i + 2)) (hw_st16 hw (2 * (elt p i)) (element b len i) w) =
        store_words hw b len e (elt p e) w' \<and> filling v b len e (view w')"
      by simp
    moreover have "elt p i + 1 = elt p (i + 2)"
      using element_address(3) [OF ds p less.prems(1)] len by simp
    ultimately show ?thesis using store_words_step [OF len(1) b, of hw "elt p i" w] by simp
  qed
qed

text \<open>A partial page ends in the page buffer, a full page is written to the memory.\<close>

lemma store_words_partial:
  assumes "nvm_datasheet hw view" "p * PSZ < array_size hw" "len \<le> PSZ - 2" "len \<le> length b"
    and "filling v b len 0 (view w)"
  shows "returns (store_words hw b len 0 (elt p 0) w) (\<lambda>w'. filling v b len (len + len mod 2) (view w'))"
proof -
  have "even (len + len mod 2)" "len + len mod 2 \<le> PSZ - 2" "len + len mod 2 \<le> len + 1"
    using assms(3) by (auto simp: even_iff_mod_2_eq_zero) presburger+
  from filling_stores [OF assms(1,2) this assms(4), of 0 v w] assms(5)
  show ?thesis by (auto simp: store_words.simps [of hw b len "len + len mod 2"])
qed

lemma store_words_full:
  assumes ds: "nvm_datasheet hw view" and p: "p * PSZ < array_size hw" and b: "length b = PSZ"
    and f: "filling v b PSZ 0 (view w)" and m: "\<not> manw v"
  shows "returns (store_words hw b PSZ 0 (elt p 0) w)
    (\<lambda>w'. same_regs v (view w') \<and> v_mem (view w') = ds_page (v\<lparr>v_buf := (!) b\<rparr>) p)"
proof -
  obtain w1 where w1: "store_words hw b PSZ 0 (elt p 0) w = store_words hw b PSZ 62 (elt p 62) w1"
    and f1: "filling v b PSZ 62 (view w1)"
    using filling_stores [OF ds p, of 62 PSZ b 0 v w] b f by auto
  let ?w2 = "hw_st16 hw (2 * (elt p 62)) (element b PSZ 62) w1"
  have u: "unat (2 * (elt p 62)) = p * PSZ + 62" "p * PSZ + 62 < array_size hw"
    using element_address [OF ds p, of 62] by auto
  have "store_law hw view" using ds by (simp add: nvm_datasheet_def)
  then have "same_regs (view w1) (view ?w2) \<and>
      v_mem (view ?w2) = ds_page ((view w1)\<lparr>v_buf := ds_buffer (view w1) (p * PSZ + 62) (element b PSZ 62)\<rparr>) p"
    unfolding store_law_def using u f1 m by (fastforce simp: filling_def same_regs_def manw_def)
  moreover have "ds_buffer (view w1) (p * PSZ + 62) (element b PSZ 62) j = b ! j" if "j < PSZ" for j
    using that f1 element_bytes [of 62 PSZ b] by (auto simp: ds_buffer_def filling_def stored_def)
  ultimately have "same_regs v (view ?w2) \<and> v_mem (view ?w2) = ds_page (v\<lparr>v_buf := (!) b\<rparr>) p"
    using f1 by (auto simp: filling_def same_regs_def ds_page_def fun_eq_iff)
  moreover have "store_words hw b PSZ 62 (elt p 62) w1 = Some ?w2"
    using b by (simp add: store_words_step store_words.simps [of hw b PSZ PSZ])
  ultimately show ?thesis by (simp add: w1)
qed


lemma load_words_returns:
  assumes ds: "nvm_datasheet hw view" and p: "p * PSZ < array_size hw" and len: "len \<le> PSZ"
  shows "\<lbrakk>even i; len \<le> length b; v_ready (view w)\<rbrakk> \<Longrightarrow>
    returns (load_words hw b len i (elt p i) w) (\<lambda>(b', w'). view w' = view w \<and> length b' = length b \<and>
      (\<forall>j < length b. b' ! j = (if i \<le> j \<and> j < len then v_mem (view w) (p * PSZ + j) else b ! j)))"
proof (induction "len - i" arbitrary: i b w rule: less_induct)
  case less
  show ?case
  proof (cases "i < len")
    case False
    then show ?thesis by (auto simp: load_words.simps [of hw b len i])
  next
    case True
    then have "i < PSZ" using len by simp
    note addr = element_address [OF ds p less.prems(1) this]
    obtain d w1 where ld: "hw_ld16 hw (2 * elt p i) w = (d, w1)" by force
    have "load_law hw view" using ds by (simp add: nvm_datasheet_def)
    then have w1: "view w1 = view w"
      and d: "d = of_le16 [v_mem (view w) (p * PSZ + i), v_mem (view w) (Suc (p * PSZ + i))]"
      using ld less.prems addr unfolding load_law_def by (auto dest!: spec [of _ w] spec [of _ "2 * elt p i"])
    let ?m = "\<lambda>j. v_mem (view w) (p * PSZ + j)"
    have bytes: "ucast d = ?m i" "ucast (drop_bit 8 d) = ?m (Suc i)"
      by (auto simp: d of_le16_def bit_simps intro!: bit_word_eqI)
    define b1 where "b1 = (if i + 1 < len then (b[i := ?m i])[i + 1 := ?m (Suc i)] else b[i := ?m i])"
    have b1: "length b1 = length b" "j < length b \<Longrightarrow> b1 ! j = (if (j = i \<or> j = Suc i) \<and> j < len then ?m j else b ! j)" for j
      using True by (auto simp: b1_def nth_list_update)
    have "load_words hw b len i (elt p i) w = load_words hw b1 len (i + 2) (elt p (i + 2)) w1"
      using True less.prems by (subst load_words.simps) (simp add: ld bytes mem_write_def b1_def addr(3))
    moreover have "returns (load_words hw b1 len (i + 2) (elt p (i + 2)) w1) (\<lambda>(b', w'). view w' = view w1 \<and> length b' = length b1 \<and>
      (\<forall>j < length b1. b' ! j = (if i + 2 \<le> j \<and> j < len then v_mem (view w1) (p * PSZ + j) else b1 ! j)))"
      using less.hyps [of "i + 2" b1 w1] True less.prems by (simp add: b1 w1)
    ultimately show ?thesis by (auto simp: b1 w1 elim!: returns_mono)
  qed
qed

subsection \<open>The operations\<close>

lemma nvm_limit_unat: "dev_ok hw s \<Longrightarrow> unat (nvm_limit s) = array_size hw"
proof -
  assume "dev_ok hw s"
  moreover define n :: u16 where "n = ucast (hw_param hw)"
  ultimately have "array_size hw = 64 * unat n" "nvm_limit s = 64 * ucast n"
    by (simp_all only: dev_ok_def nvm_limit_def array_size_def n_def) simp
  then have "of_nat (array_size hw) = nvm_limit s" by simp
  then show ?thesis using array_size_small [of hw] by (intro of_nat_inverse) simp_all
qed

text \<open>The address of page \<open>p\<close> and of row \<open>r\<close>.\<close>

definition page_addr :: "nat \<Rightarrow> u32" where
  "page_addr p = of_nat (p * PSZ)"

definition row_addr :: "nat \<Rightarrow> u32" where
  "row_addr r = of_nat (r * (4 * PSZ))"

lemma unat_small: "n < array_size hw \<Longrightarrow> unat (of_nat n :: u32) = n"
  using array_size_small [of hw] by (intro of_nat_inverse) simp_all

lemma in_array: "dev_ok hw s \<Longrightarrow> unat a \<le> array_size hw \<Longrightarrow> \<not> a > nvm_limit s"
  by (simp add: word_less_nat_alt nvm_limit_unat)

lemma aligned_and: "of_nat (p * 2 ^ k) AND (mask k :: u32) = 0"
proof -
  have "(of_nat (p * 2 ^ k) :: u32) = push_bit k (of_nat p)" by (simp add: push_bit_eq_mult mult.commute)
  then show ?thesis by (auto simp: bit_simps intro!: bit_word_eqI)
qed

lemma page_aligned [simp]: "page_addr p AND 63 = 0" "row_addr r AND 255 = 0"
  using aligned_and [of p 6] aligned_and [of r 8] by (simp_all add: mask_eq_decr_exp page_addr_def row_addr_def)

lemma unat_page_addr: "p * PSZ < array_size hw \<Longrightarrow> unat (page_addr p) = p * PSZ"
  unfolding page_addr_def by (rule unat_small)

lemma unat_row_addr: "r * (4 * PSZ) < array_size hw \<Longrightarrow> unat (row_addr r) = r * (4 * PSZ)"
  unfolding row_addr_def by (rule unat_small)

lemma page_guard: "dev_ok hw s \<Longrightarrow> p * PSZ < array_size hw \<Longrightarrow> \<not> page_addr p > nvm_limit s"
  by (rule in_array [where hw = hw]) (simp_all add: unat_page_addr less_imp_le)

lemma row_guard: "dev_ok hw s \<Longrightarrow> r * (4 * PSZ) < array_size hw \<Longrightarrow> \<not> row_addr r > nvm_limit s"
  by (rule in_array [where hw = hw]) (simp_all add: unat_row_addr less_imp_le)

lemma elt_base:
  assumes "p * PSZ < array_size hw"
  shows "page_addr p div 2 = elt p 0"
proof -
  have "unat (page_addr p div 2) = p * PSZ div 2"
    using unat_page_addr [OF assms] by (simp only: unat_div_distrib unat_numeral) simp
  also have "\<dots> = unat (elt p 0)"
    using unat_small [of "p * PSZ div 2" hw] assms by (simp add: elt_def)
  finally show ?thesis by (simp only: word_unat_eq_iff)
qed

text \<open>The address register counts 16-bit elements.\<close>

lemma unat_nvm_element: "2 ^ 22 \<ge> unat a \<Longrightarrow> 4 dvd unat a \<Longrightarrow> 2 * unat (nvm_element a) = unat a"
proof -
  assume a: "2 ^ 22 \<ge> unat a" "4 dvd unat a"
  have "unat (a div 4) = unat a div 4" by (simp only: unat_div_distrib unat_numeral) simp
  moreover have "of_nat (2 * unat (a div 4)) = nvm_element a" by (simp add: nvm_element_def)
  ultimately have "of_nat (2 * (unat a div 4)) = nvm_element a" by (simp only:)
  then have "unat (nvm_element a) = 2 * (unat a div 4)"
    using a(1) by (intro of_nat_inverse) simp_all
  with a(2) show ?thesis by auto
qed

lemma upd_hw_at [simp]: "upd_hw f (s\<lparr>hw_st := w\<rparr>) = s\<lparr>hw_st := f w\<rparr>"
  by (simp add: upd_hw_def)

lemma clear_errors_view:
  "nvm_datasheet hw view \<Longrightarrow> \<exists>w. clear_errors hw s = s\<lparr>hw_st := w\<rparr> \<and> view w = view (hw_st s)"
  by (auto simp: clear_errors_def upd_hw_def nvm_datasheet_def register_law_def)

definition page_bytes :: "nvm_view \<Rightarrow> nat \<Rightarrow> u8 list" where
  "page_bytes v p = map (\<lambda>j. v_mem v (p * PSZ + j)) [0..<PSZ]"

text \<open>A call that finds the controller busy changes nothing but the state of readiness.\<close>

definition gave_up :: "'w nvm_hw \<Rightarrow> ('w \<Rightarrow> nvm_view) \<Rightarrow> 'w nvm \<Rightarrow> status_code \<Rightarrow> 'w nvm \<Rightarrow> bool" where
  "gave_up hw view s e s' \<longleftrightarrow> e = STATUS_BUSY \<and> \<not> fst (nvm_is_ready hw s) \<and> \<not> v_ready (view (hw_st s)) \<and>
     (\<exists>w x. s' = s\<lparr>hw_st := w\<rparr> \<and> view w = (view (hw_st s))\<lparr>v_ready := x\<rparr>)"

definition changed :: "('w \<Rightarrow> nvm_view) \<Rightarrow> (nat \<Rightarrow> u8) \<Rightarrow> 'w nvm \<Rightarrow> 'w nvm \<Rightarrow> bool" where
  "changed view m s s' \<longleftrightarrow>
     (\<exists>w. s' = s\<lparr>hw_st := w\<rparr> \<and> same_regs (view (hw_st s)) (view w) \<and> v_mem (view w) = m)"

lemma changedI:
  "same_regs (view (hw_st s)) (view w) \<Longrightarrow> v_mem (view w) = m \<Longrightarrow> changed view m s (s\<lparr>hw_st := w\<rparr>)"
  by (auto simp: changed_def)

lemma ds_upd [simp]:
  "ds_erase (v\<lparr>v_ready := x\<rparr>) r = ds_erase v r" "ds_erase (v\<lparr>v_addr := a\<rparr>) r = ds_erase v r"
  "ds_page (v\<lparr>v_ready := x\<rparr>) r = ds_page v r" "ds_page (v\<lparr>v_addr := a\<rparr>) r = ds_page v r"
  "ds_page (v\<lparr>v_ctrlb := c\<rparr>) r = ds_page v r"
  "ds_page (v\<lparr>v_ready := x, v_buf := b\<rparr>) r = ds_page (v\<lparr>v_buf := b\<rparr>) r"
  by (simp_all add: ds_erase_def ds_page_def fun_eq_iff)

lemma nvm_read_page:
  assumes ds: "nvm_datasheet hw view" and dev: "dev_ok hw s" and p: "p * PSZ < array_size hw" and b: "length b = PSZ"
  shows "returns (nvm_read_buffer hw (page_addr p) b 64 s) (\<lambda>(e, b', s').
    (e = STATUS_OK \<and> b' = page_bytes (view (hw_st s)) p
       \<and> (\<exists>w. s' = s\<lparr>hw_st := w\<rparr> \<and> view w = (view (hw_st s))\<lparr>v_ready := True\<rparr>))
    \<or> gave_up hw view s e s' \<and> b' = b)"
proof -
  have guards: "\<not> page_addr p > nvm_limit s" "page_size s = 64"
    using page_guard [OF dev p] dev by (simp_all add: dev_ok_def)
  from ds show ?thesis
  proof (cases rule: ready_cases [where s = s])
    case (1 w1)
    obtain w2 where w2: "clear_errors hw (s\<lparr>hw_st := w1\<rparr>) = s\<lparr>hw_st := w2\<rparr>" "view w2 = view w1"
      using clear_errors_view [OF ds, of "s\<lparr>hw_st := w1\<rparr>"] by auto
    have "returns (load_words hw b 64 0 (elt p 0) w2) (\<lambda>(b', w'). view w' = view w2 \<and> b' = page_bytes (view (hw_st s)) p)"
      using load_words_returns [OF ds p, of 64 0 b w2] b w2 1
      by (auto simp: page_bytes_def list_eq_iff_nth_eq elim!: returns_mono)
    then show ?thesis using guards 1 w2 unfolding nvm_read_buffer_def
      by (auto simp: elt_base [OF p] intro!: returns_bind elim!: returns_mono)
  next
    case (2 w1 x)
    then show ?thesis using guards by (auto simp: nvm_read_buffer_def gave_up_def)
  qed
qed


lemma command_erase:
  assumes "nvm_datasheet hw view" "v_ready (view w)" "2 * unat (v_addr (view w)) < array_size hw"
  shows "same_regs (view w) (view (hw_ctrla hw 0xa502 w))"
    "v_mem (view (hw_ctrla hw 0xa502 w)) = ds_erase (view w) (2 * unat (v_addr (view w)) div (4 * PSZ))"
  using assms unfolding nvm_datasheet_def command_law_def by blast+

lemma command_write_page:
  assumes "nvm_datasheet hw view" "v_ready (view w)" "2 * unat (v_addr (view w)) < array_size hw"
  shows "same_regs (view w) (view (hw_ctrla hw 0xa504 w))"
    "v_mem (view (hw_ctrla hw 0xa504 w)) = ds_page (view w) (2 * unat (v_addr (view w)) div PSZ)"
  using assms unfolding nvm_datasheet_def command_law_def by blast+

lemma command_clear:
  assumes "nvm_datasheet hw view" "v_ready (view w)"
  shows "same_regs (view w) (view (hw_ctrla hw 0xa544 w))"
    "v_mem (view (hw_ctrla hw 0xa544 w)) = v_mem (view w)" "v_buf (view (hw_ctrla hw 0xa544 w)) = (\<lambda>_. 0xff)"
  using assms unfolding nvm_datasheet_def command_law_def by blast+

lemma command_words:
  "NVM_COMMAND_ERASE_ROW OR NVMCTRL_CTRLA_CMDEX_KEY = 0xa502"
  "NVM_COMMAND_WRITE_PAGE OR NVMCTRL_CTRLA_CMDEX_KEY = 0xa504"
  "NVM_COMMAND_PAGE_BUFFER_CLEAR OR NVMCTRL_CTRLA_CMDEX_KEY = 0xa544"
  by (simp_all add: nvm_command_defs NVMCTRL_CTRLA_CMDEX_KEY_def)

lemma nvm_erase_row_returns:
  assumes ds: "nvm_datasheet hw view" and dev: "dev_ok hw s" and r: "r * (4 * PSZ) < array_size hw"
  shows "returns (nvm_erase_row hw (row_addr r) s) (\<lambda>(e, s').
    e = STATUS_OK \<and> changed view (ds_erase (view (hw_st s)) r) s s' \<and> v_ready (view (hw_st s')) \<or> gave_up hw view s e s')"
proof -
  have guards: "\<not> row_addr r > nvm_limit s" "page_size s = 64"
    using row_guard [OF dev r] dev by (simp_all add: dev_ok_def)
  have el: "2 * unat (nvm_element (row_addr r)) = r * (4 * PSZ)"
    using unat_row_addr [OF r] unat_nvm_element [of "row_addr r"] r array_size_small [of hw] by simp
  from ds show ?thesis
  proof (cases rule: ready_cases [where s = s])
    case (1 w1)
    obtain w2 where w2: "clear_errors hw (s\<lparr>hw_st := w1\<rparr>) = s\<lparr>hw_st := w2\<rparr>" "view w2 = view w1"
      using clear_errors_view [OF ds, of "s\<lparr>hw_st := w1\<rparr>"] by auto
    define w3 where "w3 = hw_set_addr hw (nvm_element (row_addr r)) w2"
    have w3: "view w3 = (view (hw_st s))\<lparr>v_ready := True, v_addr := nvm_element (row_addr r)\<rparr>"
      using ds w2 1 by (simp add: w3_def nvm_datasheet_def register_law_def)
    then have cmd: "same_regs (view w3) (view (hw_ctrla hw 0xa502 w3))"
      "v_mem (view (hw_ctrla hw 0xa502 w3)) = ds_erase (view w3) r"
      using command_erase [OF ds, of w3] el r by simp_all
    have "returns (wait_ready hw (s\<lparr>hw_st := hw_ctrla hw 0xa502 w3\<rparr>)) (\<lambda>s'.
        changed view (ds_erase (view (hw_st s)) r) s s' \<and> v_ready (view (hw_st s')))"
      using wait_ready_returns [OF ds, of "s\<lparr>hw_st := hw_ctrla hw 0xa502 w3\<rparr>"]
      by (rule returns_mono) (use cmd in \<open>auto simp: w3 same_regs_def intro!: changedI\<close>)
    then show ?thesis using guards 1 w2 unfolding nvm_erase_row_def
      by (auto simp: NVMCTRL_ROW_PAGES_def command_words upd_hw_def w3_def intro!: returns_bind elim!: returns_mono)
  next
    case (2 w1 x)
    then show ?thesis using guards by (auto simp: nvm_erase_row_def gave_up_def NVMCTRL_ROW_PAGES_def)
  qed
qed


text \<open>The common part of the two ways to write: the cleared page buffer and the start of the stores.\<close>

lemma write_begin:
  assumes ds: "nvm_datasheet hw view" and dev: "dev_ok hw s" and p: "p * PSZ < array_size hw" and len: "len \<le> 64"
    and K: "\<And>w. filling (view (hw_st s)) b (unat len) 0 (view w) \<Longrightarrow>
      returns (store_words hw b (unat len) 0 (elt p 0) w) (\<lambda>w'. returns
        (if unat len < NVMCTRL_PAGE_SIZE then nvm_execute_command hw NVM_COMMAND_WRITE_PAGE (page_addr p) 0 (s\<lparr>hw_st := w'\<rparr>)
         else Some (STATUS_OK, s\<lparr>hw_st := w'\<rparr>)) (\<lambda>(e, s'). Q e s'))"
  shows "returns (nvm_write_buffer hw (page_addr p) b len s) (\<lambda>(e, s'). Q e s' \<or> gave_up hw view s e s')"
proof -
  have guards: "\<not> page_addr p > nvm_limit s" "page_size s = 64" "\<not> len > page_size s" "\<not> manual_page_write s"
    using page_guard [OF dev p] dev len by (simp_all add: dev_ok_def not_less)
  from ds show ?thesis
  proof (cases rule: ready_cases [where s = s])
    case (1 w1)
    let ?w2 = "hw_ctrla hw 0xa544 w1"
    have cmd: "same_regs (view w1) (view ?w2)" "v_mem (view ?w2) = v_mem (view w1)" "v_buf (view ?w2) = (\<lambda>_. 0xff)"
      using command_clear [OF ds, of w1] 1 by simp_all
    have fill: "\<exists>w'. clear_errors hw (s\<lparr>hw_st := w\<rparr>) = s\<lparr>hw_st := w'\<rparr> \<and> filling (view (hw_st s)) b (unat len) 0 (view w')"
      if "view w = (view ?w2)\<lparr>v_ready := True\<rparr>" for w
      using clear_errors_view [OF ds, of "s\<lparr>hw_st := w\<rparr>"] cmd 1 that by (auto simp: filling_def same_regs_def)
    have "returns (wait_ready hw (s\<lparr>hw_st := ?w2\<rparr>)) (\<lambda>s1.
        \<exists>w'. clear_errors hw s1 = s\<lparr>hw_st := w'\<rparr> \<and> filling (view (hw_st s)) b (unat len) 0 (view w'))"
      using wait_ready_returns [OF ds, of "s\<lparr>hw_st := ?w2\<rparr>"] by (rule returns_mono) (use fill in auto)
    then show ?thesis using guards 1 unfolding nvm_write_buffer_def
      by (auto simp: command_words upd_hw_def elt_base [OF p] intro!: returns_bind elim!: returns_mono dest!: K)
        (auto simp: Let_def elim: returns_mono)
  next
    case (2 w1 x)
    then show ?thesis using guards by (auto simp: nvm_write_buffer_def gave_up_def)
  qed
qed

lemma nvm_write_page:
  assumes ds: "nvm_datasheet hw view" and dev: "dev_ok hw s" and p: "p * PSZ < array_size hw"
    and b: "length b = PSZ" and m: "\<not> manw (view (hw_st s))"
  shows "returns (nvm_write_buffer hw (page_addr p) b 64 s) (\<lambda>(e, s').
    (e = STATUS_OK \<and> changed view (ds_page ((view (hw_st s))\<lparr>v_buf := (!) b\<rparr>) p) s s') \<or> gave_up hw view s e s')"
proof (rule write_begin [OF ds dev p])
  fix w
  assume "filling (view (hw_st s)) b (unat (64 :: u16)) 0 (view w)"
  then have "returns (store_words hw b PSZ 0 (elt p 0) w)
      (\<lambda>w'. same_regs (view (hw_st s)) (view w') \<and> v_mem (view w') = ds_page ((view (hw_st s))\<lparr>v_buf := (!) b\<rparr>) p)"
    using store_words_full [OF ds p b _ m] by simp
  then show "returns (store_words hw b (unat (64 :: u16)) 0 (elt p 0) w) (\<lambda>w'. returns
        (if unat (64 :: u16) < NVMCTRL_PAGE_SIZE then nvm_execute_command hw NVM_COMMAND_WRITE_PAGE (page_addr p) 0 (s\<lparr>hw_st := w'\<rparr>)
         else Some (STATUS_OK, s\<lparr>hw_st := w'\<rparr>)) (\<lambda>(e, s').
        e = STATUS_OK \<and> changed view (ds_page ((view (hw_st s))\<lparr>v_buf := (!) b\<rparr>) p) s s'))"
    by (auto simp: NVMCTRL_PAGE_SIZE_def elim!: returns_mono intro!: changedI)
qed simp


text \<open>A partial page is written by an explicit command.\<close>

lemma execute_write_page:
  assumes ds: "nvm_datasheet hw view" and dev: "dev_ok hw s" and p: "p * PSZ < array_size hw"
    and rdy: "v_ready (view (hw_st s))"
  shows "returns (nvm_execute_command hw NVM_COMMAND_WRITE_PAGE (page_addr p) 0 s) (\<lambda>(e, s').
    e = STATUS_OK \<and> changed view (ds_page (view (hw_st s)) p) s s')"
proof -
  let ?v = "view (hw_st s)"
  have reg: "register_law hw view" using ds by (simp add: nvm_datasheet_def)
  have el: "2 * unat (nvm_element (page_addr p)) = p * PSZ"
    using unat_page_addr [OF p] unat_nvm_element [of "page_addr p"] p array_size_small [of hw] by simp
  have guard: "\<not> page_addr p > nvm_limit s" using page_guard [OF dev p] .
  define s1 where "s1 = clear_errors hw (upd_hw (hw_set_ctrlb hw (v_ctrlb ?v OR NVMCTRL_CTRLB_CACHEDIS)) s)"
  obtain w1 where w1: "s1 = s\<lparr>hw_st := w1\<rparr>" "view w1 = ?v\<lparr>v_ctrlb := v_ctrlb ?v OR NVMCTRL_CTRLB_CACHEDIS\<rparr>"
    using clear_errors_view [OF ds, of "upd_hw (hw_set_ctrlb hw (v_ctrlb ?v OR NVMCTRL_CTRLB_CACHEDIS)) s"] reg
    by (auto simp: s1_def register_law_def upd_hw_def)
  obtain w2 where w2: "nvm_is_ready hw s1 = (True, s\<lparr>hw_st := w2\<rparr>)" "view w2 = (view w1)\<lparr>v_ready := True\<rparr>"
    using rdy w1 by (cases rule: ready_cases [OF ds, where s = s1]) auto
  define w3 where "w3 = hw_set_addr hw (nvm_element (page_addr p)) w2"
  have w3: "view w3 = (view w2)\<lparr>v_addr := nvm_element (page_addr p)\<rparr>" using reg by (simp add: w3_def register_law_def)
  let ?w4 = "hw_ctrla hw 0xa504 w3"
  have cmd: "same_regs (view w3) (view ?w4)" "v_mem (view ?w4) = ds_page ?v p"
    using command_write_page [OF ds, of w3] w1 w2 w3 el p by simp_all
  have "returns (wait_ready hw (s\<lparr>hw_st := ?w4\<rparr>)) (\<lambda>s'.
      changed view (ds_page ?v p) s (upd_hw (hw_set_ctrlb hw (v_ctrlb ?v)) s'))"
    using wait_ready_returns [OF ds, of "s\<lparr>hw_st := ?w4\<rparr>"]
    by (rule returns_mono) (use cmd w1 w2 w3 reg in \<open>auto simp: upd_hw_def same_regs_def register_law_def intro!: changedI\<close>)
  moreover have "hw_ctrlb hw (hw_st s) = v_ctrlb ?v" using reg by (simp add: register_law_def)
  moreover have "NVM_COMMAND_WRITE_PAGE \<noteq> NVM_COMMAND_ERASE_AUX_ROW" "NVM_COMMAND_WRITE_PAGE \<noteq> NVM_COMMAND_WRITE_AUX_ROW"
    by (simp_all add: nvm_command_defs)
  ultimately show ?thesis using guard w2(1)
    by (simp add: nvm_execute_command_def Let_def s1_def [symmetric] command_words w3_def [symmetric])
qed


lemma nvm_write_partial:
  assumes ds: "nvm_datasheet hw view" and dev: "dev_ok hw s" and p: "p * PSZ < array_size hw"
    and len: "unat len \<le> PSZ - 2" "unat len \<le> length b"
  shows "returns (nvm_write_buffer hw (page_addr p) b len s) (\<lambda>(e, s').
    (e = STATUS_OK \<and> changed view (ds_page ((view (hw_st s))\<lparr>v_buf := stored b (unat len)\<rparr>) p) s s') \<or> gave_up hw view s e s')"
proof (rule write_begin [OF ds dev p])
  show "len \<le> 64" using len(1) by (simp add: word_le_nat_alt)
  fix w
  assume "filling (view (hw_st s)) b (unat len) 0 (view w)"
  note store_words_partial [OF ds p len this]
  moreover have "returns (nvm_execute_command hw NVM_COMMAND_WRITE_PAGE (page_addr p) 0 (s\<lparr>hw_st := w'\<rparr>)) (\<lambda>(e, s').
      e = STATUS_OK \<and> changed view (ds_page ((view (hw_st s))\<lparr>v_buf := stored b (unat len)\<rparr>) p) s s')"
    if f: "filling (view (hw_st s)) b (unat len) (unat len + unat len mod 2) (view w')" for w'
  proof -
    have "v_buf (view w') = stored b (unat len)"
      using f by (auto simp: filling_def stored_def fun_eq_iff odd_iff_mod_2_eq_one)
    then have "ds_page (view w') p = ds_page ((view (hw_st s))\<lparr>v_buf := stored b (unat len)\<rparr>) p"
      using f by (simp add: ds_page_def filling_def same_regs_def fun_eq_iff)
    then show ?thesis
      using execute_write_page [OF ds, of "s\<lparr>hw_st := w'\<rparr>" p] dev p f
      by (auto simp: dev_ok_def filling_def changed_def same_regs_def elim!: returns_mono)
  qed
  ultimately show "returns (store_words hw b (unat len) 0 (elt p 0) w) (\<lambda>w'. returns
        (if unat len < NVMCTRL_PAGE_SIZE then nvm_execute_command hw NVM_COMMAND_WRITE_PAGE (page_addr p) 0 (s\<lparr>hw_st := w'\<rparr>)
         else Some (STATUS_OK, s\<lparr>hw_st := w'\<rparr>)) (\<lambda>(e, s').
        e = STATUS_OK \<and> changed view (ds_page ((view (hw_st s))\<lparr>v_buf := stored b (unat len)\<rparr>) p) s s'))"
    using len(1) by (auto simp: NVMCTRL_PAGE_SIZE_def elim!: returns_mono)
qed

end
