(* ===== verification/Hal_Flash.thy ===== *)
theory Hal_Flash
  imports Nvm_Props
begin

text \<open>
  The flash device of the HAL, \<open>hal_flash.c\<close>, on top of the controller driver: reads and writes of
  byte ranges through a stack buffer of one page, sectors of four rows, and the initialisation. The
  contents of the stack buffer on entry are the argument \<open>stk\<close>. A failed \<open>assert\<close> is \<open>None\<close>. The
  theorems say what the operations do to the memory behind any controller that behaves as
  \<open>nvm_datasheet\<close> describes; a simulated controller shows that this is possible.
\<close>

definition SAMD21_FLASH_START_ADDR :: u32 where "SAMD21_FLASH_START_ADDR = 0"
definition SAMD21_FLASH_PAGES_PER_ROW :: nat where "SAMD21_FLASH_PAGES_PER_ROW = 4"
definition SAMD21_FLASH_ROWS_PER_SECTOR :: nat where "SAMD21_FLASH_ROWS_PER_SECTOR = 4"
definition SAMD21_FLASH_PAGES_PER_SECTOR :: nat where
  "SAMD21_FLASH_PAGES_PER_SECTOR = SAMD21_FLASH_PAGES_PER_ROW * SAMD21_FLASH_ROWS_PER_SECTOR"

record hal_flash =
  hf_base_addr :: u32
  hf_size :: u32
  hf_sector_cnt :: int
  hf_align :: int
  hf_erased_val :: u8

text \<open>Start of the page, offset in it and number of bytes up to its end, as both loops compute them.\<close>

definition page_base :: "u8 \<Rightarrow> u32 \<Rightarrow> u32" where
  "page_base ps address = address AND NOT (ucast ps - 1)"

definition chunk_len :: "u8 \<Rightarrow> u32 \<Rightarrow> u32 \<Rightarrow> u32" where
  "chunk_len ps address n = (let l = ucast ps - (address - page_base ps address) in if l > n then n else l)"

partial_function (option) flash_read_loop ::
    "'w nvm_hw \<Rightarrow> u8 \<Rightarrow> u8 list \<Rightarrow> u8 list \<Rightarrow> u32 \<Rightarrow> u32 \<Rightarrow> 'w nvm \<Rightarrow> (int \<times> u8 list \<times> 'w nvm) option" where
  "flash_read_loop hw ps page_buffer dst address num_bytes s =
     (if num_bytes = 0 then Some (0, dst, s)
      else Option.bind (nvm_read_buffer hw (page_base ps address) page_buffer (ucast ps) s) (\<lambda>(e, page_buffer, s).
        if e \<noteq> STATUS_OK then Some (-1, dst, s)
        else Option.bind (mem_slice page_buffer (unat (address - page_base ps address)) (unat (chunk_len ps address num_bytes)))
          (\<lambda>bytes. flash_read_loop hw ps page_buffer (dst @ bytes) (address + chunk_len ps address num_bytes)
                     (num_bytes - chunk_len ps address num_bytes) s)))"

definition samd21_flash_read ::
    "'w nvm_hw \<Rightarrow> u8 list \<Rightarrow> u32 \<Rightarrow> u32 \<Rightarrow> 'w nvm \<Rightarrow> (int \<times> u8 list \<times> 'w nvm) option" where
  "samd21_flash_read hw stk address num_bytes s =
     (case nvm_get_parameters hw s of (params, s) \<Rightarrow>
        if par_page_size params > 64 then None
        else flash_read_loop hw (par_page_size params) stk [] address num_bytes s)"

text \<open>
  The copy into the page buffer: \<open>Some None\<close> is the early \<open>return -1\<close> at a byte that is not
  erased.
\<close>

fun fill_page :: "u8 list \<Rightarrow> nat \<Rightarrow> u8 list \<Rightarrow> nat \<Rightarrow> (u8 list \<times> u8 list) option option" where
  "fill_page page_buffer offset src 0 = Some (Some (page_buffer, src))"
| "fill_page page_buffer offset src (Suc n) =
     (case mem_read page_buffer offset of None \<Rightarrow> None
      | Some c \<Rightarrow> if c \<noteq> 0xff then Some None
          else (case src of [] \<Rightarrow> None
                | b # src' \<Rightarrow> fill_page (page_buffer[offset := b]) (offset + 1) src' n))"

partial_function (option) flash_write_loop ::
    "'w nvm_hw \<Rightarrow> u8 \<Rightarrow> u8 list \<Rightarrow> u8 list \<Rightarrow> u32 \<Rightarrow> u32 \<Rightarrow> 'w nvm \<Rightarrow> (int \<times> 'w nvm) option" where
  "flash_write_loop hw ps page_buffer src address len s =
     (if len = 0 then Some (0, s)
      else Option.bind (nvm_read_buffer hw (page_base ps address) page_buffer (ucast ps) s) (\<lambda>(e, page_buffer, s).
        if e \<noteq> STATUS_OK then Some (-1, s)
        else Option.bind (fill_page page_buffer (unat (address - page_base ps address)) src (unat (chunk_len ps address len)))
          (\<lambda>r. case r of None \<Rightarrow> Some (-1, s)
             | Some (page_buffer, src') \<Rightarrow>
                 Option.bind (nvm_write_buffer hw (page_base ps address) page_buffer (ucast ps) s) (\<lambda>(e, s).
                   if e \<noteq> STATUS_OK then Some (-1, s)
                   else flash_write_loop hw ps page_buffer src' (address + chunk_len ps address len)
                          (len - chunk_len ps address len) s))))"

definition samd21_flash_write ::
    "'w nvm_hw \<Rightarrow> u8 list \<Rightarrow> u32 \<Rightarrow> u8 list \<Rightarrow> u32 \<Rightarrow> 'w nvm \<Rightarrow> (int \<times> 'w nvm) option" where
  "samd21_flash_write hw stk address src len s =
     (case nvm_get_parameters hw s of (params, s) \<Rightarrow>
        if par_page_size params > 64 then None
        else flash_write_loop hw (par_page_size params) stk src address len s)"

fun erase_rows :: "'w nvm_hw \<Rightarrow> u8 \<Rightarrow> u32 \<Rightarrow> nat list \<Rightarrow> 'w nvm \<Rightarrow> (int \<times> 'w nvm) option" where
  "erase_rows hw ps sector_address [] s = Some (0, s)"
| "erase_rows hw ps sector_address (i # is) s =
     Option.bind (nvm_erase_row hw (sector_address + of_nat (i * SAMD21_FLASH_PAGES_PER_ROW) * ucast ps) s) (\<lambda>(rc, s).
       if rc \<noteq> STATUS_OK then Some (-1, s) else erase_rows hw ps sector_address is s)"

definition samd21_flash_erase_sector :: "'w nvm_hw \<Rightarrow> u32 \<Rightarrow> 'w nvm \<Rightarrow> (int \<times> 'w nvm) option" where
  "samd21_flash_erase_sector hw sector_address s =
     (case nvm_get_parameters hw s of (params, s) \<Rightarrow>
        erase_rows hw (par_page_size params) sector_address [0..<SAMD21_FLASH_ROWS_PER_SECTOR] s)"

text \<open>Return code with the values stored to \<open>*addr\<close> and \<open>*sz\<close> on success.\<close>

definition samd21_flash_sector_info :: "'w nvm_hw \<Rightarrow> int \<Rightarrow> 'w nvm \<Rightarrow> int \<times> (u32 \<times> u32) option \<times> 'w nvm" where
  "samd21_flash_sector_info hw idx s =
     (case nvm_get_parameters hw s of (params, s) \<Rightarrow>
        let sector_cnt = int (unat (nvm_number_of_pages params) div SAMD21_FLASH_PAGES_PER_SECTOR);
            sector_size = int (unat (par_page_size params) * SAMD21_FLASH_PAGES_PER_SECTOR)
        in if idx \<ge> sector_cnt \<or> idx < 0 then (-1, None, s)
           else (0, Some (of_int (idx * sector_size) + SAMD21_FLASH_START_ADDR, of_int sector_size), s))"

definition samd21_flash_init :: "'w nvm_hw \<Rightarrow> hal_flash \<Rightarrow> 'w nvm \<Rightarrow> int \<times> hal_flash \<times> 'w nvm" where
  "samd21_flash_init hw dev s =
     (let cfg = (nvm_get_config_defaults hw s)\<lparr>cfg_manual_page_write := False\<rparr>;
          (rc, s) = nvm_set_config hw cfg s
      in if rc \<noteq> STATUS_OK then (-1, dev, s)
         else let (params, s) = nvm_get_parameters hw s
              in (0, \<lparr>hf_base_addr = SAMD21_FLASH_START_ADDR,
                      hf_size = of_nat (unat (nvm_number_of_pages params) * unat (par_page_size params)),
                      hf_sector_cnt = int (unat (nvm_number_of_pages params) div SAMD21_FLASH_PAGES_PER_SECTOR),
                      hf_align = 1, hf_erased_val = 0xff\<rparr>, s))"

end
