(* ===== verification/Flash_Props.thy ===== *)
theory Flash_Props
  imports Hal_Flash
begin

text \<open>
  Correctness of the flash device: reads return the memory, writes change exactly the bytes they
  are given and only where the flash was erased, sector erasure, the sector map, and what the driver
  does not notice (locked regions, a controller that is still busy with the previous page).
\<close>

lemma ds_param: "nvm_datasheet hw view \<Longrightarrow> drop_bit 16 (hw_param hw AND 0x70000) = 3"
proof -
  assume "nvm_datasheet hw view"
  moreover have "drop_bit 16 (hw_param hw AND 0x70000) = drop_bit 16 (hw_param hw) AND 0x7"
    by (simp add: drop_bit_and)
  ultimately show ?thesis by (simp add: nvm_datasheet_def)
qed

lemma get_parameters:
  assumes ds: "nvm_datasheet hw view"
  obtains par w where "nvm_get_parameters hw s = (par, s\<lparr>hw_st := w\<rparr>)" "par_page_size par = 64"
    "nvm_number_of_pages par = ucast (hw_param hw)" "view w = view (hw_st s)"
proof -
  obtain w1 where w1: "clear_errors hw s = s\<lparr>hw_st := w1\<rparr>" "view w1 = view (hw_st s)"
    using clear_errors_view [OF ds] by blast
  have ld: "view (snd (hw_ld16 hw a w)) = view w" for a w
    using ds by (auto simp: nvm_datasheet_def load_law_def split_beta)
  have np: "ucast (hw_param hw AND 0xffff) = (ucast (hw_param hw) :: u16)"
  proof (rule bit_word_eqI)
    fix n assume "n < LENGTH(16)"
    moreover have "bit (0xffff :: u32) n \<longleftrightarrow> n < 16"
      using bit_mask_iff [of 16 n, where 'a = u32] by (auto simp: mask_eq_decr_exp)
    ultimately show "bit (ucast (hw_param hw AND 0xffff) :: u16) n \<longleftrightarrow> bit (ucast (hw_param hw) :: u16) n"
      by (simp add: bit_simps)
  qed
  show thesis
    by (rule that [of "fst (nvm_get_parameters hw s)" "hw_st (snd (nvm_get_parameters hw s))"])
      (use ds_param [OF ds] w1 ld np in \<open>auto simp: nvm_get_parameters_def Let_def split_beta\<close>)
qed

lemma page_base_addr: "page_base 64 a = page_addr (unat a div 64)"
proof -
  have "page_addr (unat a div 64) = push_bit 6 (of_nat (unat a div 2 ^ 6))"
    by (simp add: page_addr_def push_bit_eq_mult mult.commute)
  also have "(of_nat (unat a div 2 ^ 6) :: u32) = drop_bit 6 a"
    by (metis drop_bit_eq_div of_nat_unat ucast_id unat_drop_bit_eq)
  finally have "page_addr (unat a div 64) = push_bit 6 (drop_bit 6 a)" .
  moreover have "page_base 64 a = a AND NOT (mask 6)" by (simp add: page_base_def mask_eq_decr_exp)
  ultimately show ?thesis by (auto simp: bit_simps intro!: bit_word_eqI)
qed

lemma offset_unat: "unat a < array_size hw \<Longrightarrow> unat (a - page_base 64 a) = unat a mod 64"
proof -
  assume a: "unat a < array_size hw"
  then have u: "unat (page_base 64 a) = unat a div 64 * 64"
    using unat_page_addr [of "unat a div 64" hw] by (simp add: page_base_addr)
  then have "page_base 64 a \<le> a" by (simp add: word_le_nat_alt)
  then show ?thesis using u by (simp add: unat_sub minus_div_mult_eq_mod)
qed

lemma chunk_unat:
  assumes "unat a < array_size hw"
  shows "unat (chunk_len 64 a n) = min (64 - unat a mod 64) (unat n)"
proof -
  have "unat (64 - (a - page_base 64 a)) = 64 - unat a mod 64"
    using offset_unat [OF assms] by (subst unat_sub) (simp_all add: word_le_nat_alt less_imp_le)
  then show ?thesis by (auto simp: chunk_len_def Let_def word_less_nat_alt min_def)
qed


text \<open>The bounds of one round of the loops.\<close>

lemma round_bounds:
  assumes "unat a + unat n \<le> array_size hw" "n \<noteq> 0"
  defines "c \<equiv> chunk_len 64 a n"
  shows "unat a div 64 * 64 < array_size hw" "0 < unat c" "unat c \<le> unat n" "unat a mod 64 + unat c \<le> 64"
    "unat (a + c) = unat a + unat c" "unat (n - c) = unat n - unat c"
    "page_base 64 a = page_addr (unat a div 64)" "unat (a - page_addr (unat a div 64)) = unat a mod 64"
proof -
  have n: "0 < unat n" using assms(2) by (simp add: unat_gt_0)
  then have a: "unat a < array_size hw" using assms(1) by simp
  show "unat a div 64 * 64 < array_size hw" using a by simp
  show c: "0 < unat c" "unat c \<le> unat n" "unat a mod 64 + unat c \<le> 64"
    using n by (auto simp: c_def chunk_unat [OF a])
  then show "unat (n - c) = unat n - unat c" by (simp add: unat_sub word_le_nat_alt)
  have "of_nat (unat a + unat c) = a + c" by simp
  then show "unat (a + c) = unat a + unat c"
    using c assms(1) array_size_small [of hw] by (intro of_nat_inverse) simp_all
  show "page_base 64 a = page_addr (unat a div 64)" by (rule page_base_addr)
  then show "unat (a - page_addr (unat a div 64)) = unat a mod 64" using offset_unat [OF a] by simp
qed

definition mem_bytes :: "nvm_view \<Rightarrow> nat \<Rightarrow> nat \<Rightarrow> u8 list" where
  "mem_bytes v a n = map (v_mem v) [a..<a + n]"

lemma mem_bytes_append: "mem_bytes v a (m + n) = mem_bytes v a m @ mem_bytes v (a + m) n"
  using upt_add_eq_append [of a "a + m" n] by (simp add: mem_bytes_def add.assoc)

lemma page_slice:
  assumes "o1 + c \<le> PSZ"
  shows "mem_slice (page_bytes v p) o1 c = Some (mem_bytes v (p * PSZ + o1) c)"
  using assms by (simp add: mem_slice_def page_bytes_def mem_bytes_def list_eq_iff_nth_eq add.assoc)

definition never_busy :: "'w nvm_hw \<Rightarrow> bool" where
  "never_busy hw \<longleftrightarrow> (\<forall>w. fst (hw_ready hw w))"

lemma gave_up_busy: "gave_up hw view s e s' \<Longrightarrow> \<not> never_busy hw"
  by (auto simp: gave_up_def never_busy_def nvm_is_ready_def split: prod.splits) (metis fst_conv)

lemma mem_bytes_ready [simp]: "mem_bytes (v\<lparr>v_ready := x\<rparr>) a n = mem_bytes v a n"
  by (simp add: mem_bytes_def)

text \<open>
  Reading leaves the memory alone; \<open>x\<close> is the readiness of the controller afterwards. A read gives up
  only at its first page: the controller that has answered once does nothing that would keep it busy.
\<close>

definition read_result :: "('w \<Rightarrow> nvm_view) \<Rightarrow> u8 list \<Rightarrow> 'w nvm \<Rightarrow> int \<Rightarrow> u8 list \<Rightarrow> 'w nvm \<Rightarrow> bool" where
  "read_result view bytes s rc dst s' \<longleftrightarrow> rc = 0 \<and> dst = bytes
     \<and> (\<exists>w x. s' = s\<lparr>hw_st := w\<rparr> \<and> view w = (view (hw_st s))\<lparr>v_ready := x\<rparr>)"

definition read_refused :: "('w \<Rightarrow> nvm_view) \<Rightarrow> u8 list \<Rightarrow> 'w nvm \<Rightarrow> int \<Rightarrow> u8 list \<Rightarrow> 'w nvm \<Rightarrow> bool" where
  "read_refused view dst0 s rc dst s' \<longleftrightarrow> rc = -1 \<and> dst = dst0 \<and> \<not> v_ready (view (hw_st s))
     \<and> (\<exists>w x. s' = s\<lparr>hw_st := w\<rparr> \<and> view w = (view (hw_st s))\<lparr>v_ready := x\<rparr>)"

lemma flash_read_loop_returns:
  assumes ds: "nvm_datasheet hw view"
  shows "\<lbrakk>dev_ok hw s; unat a + unat n \<le> array_size hw; length buf = PSZ\<rbrakk> \<Longrightarrow>
    returns (flash_read_loop hw 64 buf dst a n s) 
      (\<lambda>(rc, dst', s'). read_result view (dst @ mem_bytes (view (hw_st s)) (unat a) (unat n)) s rc dst' s'
         \<or> read_refused view dst s rc dst' s' \<and> \<not> fst (nvm_is_ready hw s))"
proof (induction "unat n" arbitrary: s buf dst a n rule: less_induct)
  case less
  show ?case
  proof (cases "n = 0")
    case True
    then show ?thesis
      by (auto simp: read_result_def flash_read_loop.simps mem_bytes_def intro!: exI [of _ "hw_st s"] exI [of _ "v_ready (view (hw_st s))"])
  next
    case False
    let ?v = "view (hw_st s)" and ?p = "unat a div 64" and ?c = "chunk_len 64 a n"
    note b = round_bounds [OF less.prems(2) False]
    have step: "returns (flash_read_loop hw 64 (page_bytes ?v ?p) (dst @ mem_bytes ?v (unat a) (unat ?c)) (a + ?c) (n - ?c) (s\<lparr>hw_st := w\<rparr>))
        (\<lambda>(rc, dst', s'). read_result view (dst @ mem_bytes ?v (unat a) (unat n)) s rc dst' s'
           \<or> read_refused view dst s rc dst' s' \<and> \<not> fst (nvm_is_ready hw s))"
      if w: "view w = ?v\<lparr>v_ready := True\<rparr>" for w
    proof -
      have m: "mem_bytes ?v (unat a) (unat n) = mem_bytes ?v (unat a) (unat ?c) @ mem_bytes ?v (unat a + unat ?c) (unat n - unat ?c)"
        using b by (simp flip: mem_bytes_append)
      show ?thesis
        using less.hyps [of "n - ?c" "s\<lparr>hw_st := w\<rparr>" "a + ?c" "page_bytes ?v ?p" "dst @ mem_bytes ?v (unat a) (unat ?c)"] less.prems b w
        by (auto simp: m read_result_def read_refused_def dev_ok_def page_bytes_def elim!: returns_mono)
    qed
    have refuse: "read_refused view dst s (-1) dst s' \<and> \<not> fst (nvm_is_ready hw s)" if "gave_up hw view s e s'" for e s'
      using that by (auto simp: gave_up_def read_refused_def)
    have ne: "e \<noteq> STATUS_OK" if "gave_up hw view s e s'" for e s' using that by (simp add: gave_up_def)
    have "mem_slice (page_bytes ?v ?p) (unat a mod 64) (unat ?c) = Some (mem_bytes ?v (unat a) (unat ?c))"
      using page_slice [OF b(4)] by simp
    then show ?thesis using False b
      by (subst flash_read_loop.simps)
        (auto intro!: returns_bind returns_mono [OF nvm_read_page [OF ds less.prems(1) b(1) less.prems(3)]] intro: step
          dest: ne refuse)
  qed
qed

subsection \<open>Writing\<close>

definition overlay :: "u8 list \<Rightarrow> nat \<Rightarrow> u8 list \<Rightarrow> u8 list" where
  "overlay pb o1 bs = take o1 pb @ bs @ drop (o1 + length bs) pb"

lemma overlay_nth:
  "o1 + length bs \<le> length pb \<Longrightarrow> j < length pb \<Longrightarrow>
     overlay pb o1 bs ! j = (if o1 \<le> j \<and> j < o1 + length bs then bs ! (j - o1) else pb ! j)"
  by (auto simp: overlay_def nth_append min_def not_less)

lemma overlay_Cons: "o1 < length pb \<Longrightarrow> overlay (pb[o1 := b]) (Suc o1) bs = overlay pb o1 (b # bs)"
  by (simp add: overlay_def take_Suc_update)

lemma fill_page_result:
  "o1 + n \<le> length pb \<Longrightarrow> n \<le> length src \<Longrightarrow> fill_page pb o1 src n =
     Some (if \<forall>j < n. pb ! (o1 + j) = 0xff then Some (overlay pb o1 (take n src), drop n src) else None)"
proof (induction n arbitrary: pb o1 src)
  case 0
  then show ?case by (simp add: overlay_def)
next
  case (Suc n)
  then obtain b src' where src: "src = b # src'" by (cases src) auto
  have "(\<forall>j < Suc n. pb ! (o1 + j) = 0xff) \<longleftrightarrow> pb ! o1 = 0xff \<and> (\<forall>j < n. pb ! (Suc o1 + j) = 0xff)"
    by (auto simp: less_Suc_eq_0_disj)
  then show ?case using Suc by (auto simp: src mem_read_def overlay_Cons)
qed

text \<open>The memory after \<open>bs\<close> has been written at \<open>a\<close>; locked addresses keep their contents.\<close>

definition written :: "nvm_view \<Rightarrow> nat \<Rightarrow> u8 list \<Rightarrow> nat \<Rightarrow> u8" where
  "written v a bs x = (if a \<le> x \<and> x < a + length bs \<and> \<not> v_locked v x then bs ! (x - a) else v_mem v x)"

definition erased :: "nvm_view \<Rightarrow> nat \<Rightarrow> nat \<Rightarrow> bool" where
  "erased v a n \<longleftrightarrow> (\<forall>j < n. v_mem v (a + j) = 0xff)"

lemma written_Nil [simp]: "written v a [] = v_mem v"
  by (auto simp: written_def fun_eq_iff)

lemma and_ff [simp]: "(0xff :: u8) AND x = x"
proof -
  have "(0xff :: u8) = - 1" by simp
  then show ?thesis by (simp only: and.left_neutral)
qed

lemma ds_page_written:
  assumes "o1 + length bs \<le> PSZ" "erased v (p * PSZ + o1) (length bs)"
  shows "ds_page (v\<lparr>v_buf := (!) (overlay (page_bytes v p) o1 bs)\<rparr>) p = written v (p * PSZ + o1) bs"
proof (rule ext)
  fix x
  have nth: "overlay (page_bytes v p) o1 bs ! (x mod PSZ) =
      (if o1 \<le> x mod PSZ \<and> x mod PSZ < o1 + length bs then bs ! (x mod PSZ - o1) else v_mem v (p * PSZ + x mod PSZ))"
    using overlay_nth [of o1 bs "page_bytes v p" "x mod PSZ"] assms(1) by (simp add: page_bytes_def)
  show "ds_page (v\<lparr>v_buf := (!) (overlay (page_bytes v p) o1 bs)\<rparr>) p x = written v (p * PSZ + o1) bs x"
  proof (cases "x div PSZ = p")
    case True
    then have x: "x = p * PSZ + x mod PSZ" by auto
    then have "v_mem v x = 0xff" if "o1 \<le> x mod PSZ" "x mod PSZ < o1 + length bs"
      using assms(2) that by (auto simp: erased_def dest: spec [of _ "x mod PSZ - o1"])
    moreover have "p * PSZ + o1 \<le> x \<longleftrightarrow> o1 \<le> x mod PSZ" "x < p * PSZ + o1 + length bs \<longleftrightarrow> x mod PSZ < o1 + length bs"
      "x - (p * PSZ + o1) = x mod PSZ - o1"
      using x by linarith+
    ultimately show ?thesis using True nth by (auto simp: ds_page_def written_def)
  next
    case False
    then have "\<not> (p * PSZ + o1 \<le> x \<and> x < p * PSZ + o1 + length bs)" using assms(1) by auto
    then show ?thesis using False by (auto simp: ds_page_def written_def)
  qed
qed

lemma written_append:
  "v_mem v' = written v a bs \<Longrightarrow> v_locked v' = v_locked v \<Longrightarrow>
     written v' (a + length bs) cs = written v a (bs @ cs)"
  by (auto simp: written_def fun_eq_iff nth_append)

lemma erased_append:
  "v_mem v' = written v a bs \<Longrightarrow> erased v' (a + length bs) n \<longleftrightarrow> erased v (a + length bs) n"
  by (auto simp: erased_def written_def)


lemma erased_split: "erased v a (m + n) \<longleftrightarrow> erased v a m \<and> erased v (a + m) n"
proof -
  have "v_mem v (a + j) = 0xff" if "erased v a m" "erased v (a + m) n" "j < m + n" for j
  proof (cases "j < m")
    case False
    then have "j - m < n" using that(3) by simp
    then have "v_mem v (a + m + (j - m)) = 0xff" using that(2) unfolding erased_def by blast
    then show ?thesis using False by simp
  qed (use that in \<open>simp add: erased_def\<close>)
  then show ?thesis by (auto simp: erased_def add.assoc)
qed

text \<open>
  The result of a write: a prefix of the data is in the memory and nothing else has changed. The
  prefix is everything if 0 is returned; -1 is returned only at a byte that was not erased or when the
  controller was found busy.
\<close>

definition write_result :: "'w nvm_hw \<Rightarrow> ('w \<Rightarrow> nvm_view) \<Rightarrow> nat \<Rightarrow> u8 list \<Rightarrow> 'w nvm \<Rightarrow> int \<Rightarrow> 'w nvm \<Rightarrow> bool" where
  "write_result hw view a src s rc s' \<longleftrightarrow> (\<exists>k \<le> length src. erased (view (hw_st s)) a k
     \<and> changed view (written (view (hw_st s)) a (take k src)) s s'
     \<and> (rc = 0 \<and> k = length src
        \<or> rc = -1 \<and> k < length src \<and> (never_busy hw \<longrightarrow> \<not> erased (view (hw_st s)) a (length src))))"

lemma write_result_stop:
  assumes "0 < length src" "same_regs (view (hw_st s)) (view w)" "v_mem (view w) = v_mem (view (hw_st s))"
    and "never_busy hw \<longrightarrow> \<not> erased (view (hw_st s)) a (length src)"
  shows "write_result hw view a src s (-1) (s\<lparr>hw_st := w\<rparr>)"
  unfolding write_result_def
  by (rule exI [of _ 0]) (use assms in \<open>auto simp: erased_def intro: changedI\<close>)

lemma write_result_step:
  assumes "erased (view (hw_st s)) a c" "changed view (written (view (hw_st s)) a (take c src)) s s1"
    and "write_result hw view (a + c) (drop c src) s1 rc s'" "c \<le> length src"
  shows "write_result hw view a src s rc s'"
proof -
  let ?v = "view (hw_st s)"
  obtain w1 where w1: "s1 = s\<lparr>hw_st := w1\<rparr>" "same_regs ?v (view w1)" "v_mem (view w1) = written ?v a (take c src)"
    using assms(2) by (auto simp: changed_def)
  obtain k where k: "k \<le> length src - c" "erased (view w1) (a + c) k"
      "changed view (written (view w1) (a + c) (take k (drop c src))) s1 s'"
      "rc = 0 \<and> k = length src - c \<or> rc = -1 \<and> k < length src - c \<and> (never_busy hw \<longrightarrow> \<not> erased (view w1) (a + c) (length src - c))"
    using assms(3) by (auto simp: write_result_def w1(1))
  have len: "length (take c src) = c" using assms(4) by simp
  have er: "erased (view w1) (a + c) n = erased ?v (a + c) n" for n
    using erased_append [OF w1(3)] len by simp
  have split_er: "erased ?v a (c + n) = erased ?v (a + c) n" for n
    using erased_split [of ?v a c n] assms(1) by simp
  have "written (view w1) (a + c) (take k (drop c src)) = written ?v a (take (c + k) src)"
    using written_append [OF w1(3), of "take k (drop c src)"] w1(2) len by (simp add: same_regs_def take_add)
  then have "changed view (written ?v a (take (c + k) src)) s s'"
    using k(3) w1(1,2) by (auto simp: changed_def same_regs_def)
  moreover have "erased ?v a (c + k)" using k(2) er split_er by simp
  moreover have "erased ?v a (length src) = erased ?v (a + c) (length src - c)"
    using split_er [of "length src - c"] assms(4) by simp
  then have "rc = 0 \<and> c + k = length src \<or> rc = -1 \<and> c + k < length src \<and> (never_busy hw \<longrightarrow> \<not> erased ?v a (length src))"
    using k(4) assms(4) unfolding er by linarith
  moreover have "c + k \<le> length src" using k(1) assms(4) by simp
  ultimately show ?thesis unfolding write_result_def by blast
qed


text \<open>One round of the loop after the page has been read.\<close>

lemma round_fill:
  assumes "unat a + length src \<le> array_size hw" "src \<noteq> []" "n = of_nat (length src)" "unat n = length src"
    and v: "v = view (hw_st s)"
  defines "p \<equiv> unat a div 64" and "c \<equiv> unat (chunk_len 64 a n)"
  shows "fill_page (page_bytes v p) (unat a mod 64) src c =
      Some (if erased v (unat a) c then Some (overlay (page_bytes v p) (unat a mod 64) (take c src), drop c src) else None)"
    "erased v (unat a) c \<Longrightarrow>
      ds_page (v\<lparr>v_buf := (!) (overlay (page_bytes v p) (unat a mod 64) (take c src))\<rparr>) p = written v (unat a) (take c src)"
proof -
  have n0: "n \<noteq> 0" using assms(2,4) by auto
  note b = round_bounds [of a n hw, OF _ n0]
  have c: "unat a mod 64 + c \<le> PSZ" "c \<le> length src" using b(3,4) assms(1,4) by (auto simp: c_def)
  have a: "p * PSZ + unat a mod 64 = unat a" by (simp add: p_def)
  have pb: "page_bytes v p ! (unat a mod 64 + j) = v_mem v (unat a + j)" if "j < c" for j
    using that c(1) a by (simp add: page_bytes_def add.assoc [symmetric])
  have "(\<forall>j < c. page_bytes v p ! (unat a mod 64 + j) = 0xff) \<longleftrightarrow> erased v (unat a) c"
    using pb by (auto simp: erased_def)
  then show "fill_page (page_bytes v p) (unat a mod 64) src c =
      Some (if erased v (unat a) c then Some (overlay (page_bytes v p) (unat a mod 64) (take c src), drop c src) else None)"
    using fill_page_result [of "unat a mod 64" c "page_bytes v p" src] c by (simp add: page_bytes_def)
  show "ds_page (v\<lparr>v_buf := (!) (overlay (page_bytes v p) (unat a mod 64) (take c src))\<rparr>) p = written v (unat a) (take c src)"
    if "erased v (unat a) c"
    using ds_page_written [of "unat a mod 64" "take c src" v p] c that a by (simp add: min_absorb2)
qed

lemma write_result_busy:
  assumes "gave_up hw view s e s1" "src \<noteq> []"
  shows "write_result hw view a src s (-1) s1"
  using assms gave_up_busy [OF assms(1)]
  by (auto simp: gave_up_def intro!: write_result_stop) (auto simp: same_regs_def)

lemma round_write:
  assumes ds: "nvm_datasheet hw view" and s: "dev_ok hw s" "\<not> manw (view (hw_st s))"
    and src: "unat a + length src \<le> array_size hw" "src \<noteq> []" "n = of_nat (length src)" "unat n = length src"
    and w: "view w = (view (hw_st s))\<lparr>v_ready := True\<rparr>"
  defines "p \<equiv> unat a div 64" and "c \<equiv> unat (chunk_len 64 a n)"
  defines "pb \<equiv> overlay (page_bytes (view (hw_st s)) p) (unat a mod 64) (take c src)"
  assumes e: "erased (view (hw_st s)) (unat a) c"
  shows "length pb = PSZ" "returns (nvm_write_buffer hw (page_addr p) pb 64 (s\<lparr>hw_st := w\<rparr>)) (\<lambda>(e, s1).
    e = STATUS_OK \<and> changed view (written (view (hw_st s)) (unat a) (take c src)) s s1)"
proof -
  have "n \<noteq> 0" using src by auto
  note b = round_bounds [of a n hw, OF src(1) [folded src(4)] this]
  show len: "length pb = PSZ" using b(3,4) src(4) by (simp add: pb_def c_def overlay_def page_bytes_def)
  have "dev_ok hw (s\<lparr>hw_st := w\<rparr>)" "\<not> manw (view w)" using s w by (simp_all add: dev_ok_def manw_def)
  moreover have "ds_page (view w\<lparr>v_buf := (!) pb\<rparr>) p = written (view (hw_st s)) (unat a) (take c src)"
    using round_fill(2) [OF src refl, of view s] e by (simp add: w pb_def p_def c_def)
  ultimately show "returns (nvm_write_buffer hw (page_addr p) pb 64 (s\<lparr>hw_st := w\<rparr>)) (\<lambda>(e, s1).
      e = STATUS_OK \<and> changed view (written (view (hw_st s)) (unat a) (take c src)) s s1)"
    using nvm_write_page [OF ds, of "s\<lparr>hw_st := w\<rparr>" p pb] b(1) w len
    by (auto simp: p_def changed_def same_regs_def gave_up_def elim!: returns_mono)
qed

lemma flash_write_loop_returns:
  assumes ds: "nvm_datasheet hw view"
  shows "\<lbrakk>dev_ok hw s; \<not> manw (view (hw_st s)); unat a + length src \<le> array_size hw; n = of_nat (length src);
      length buf = PSZ\<rbrakk> \<Longrightarrow>
    returns (flash_write_loop hw 64 buf src a n s) (\<lambda>(rc, s'). write_result hw view (unat a) src s rc s')"
proof (induction "length src" arbitrary: s buf a src n rule: less_induct)
  case less
  let ?v = "view (hw_st s)" and ?p = "unat a div 64" and ?c = "chunk_len 64 a n"
  have un: "unat n = length src"
    using less.prems(3,4) array_size_small [of hw] by (intro of_nat_inverse) simp_all
  show ?case
  proof (cases "src = []")
    case True
    then show ?thesis using less.prems(4)
      by (auto simp: flash_write_loop.simps write_result_def erased_def changed_def same_regs_def intro: exI [of _ "hw_st s"])
  next
    case False
    have n0: "n \<noteq> 0" using False un by auto
    note b = round_bounds [of a n hw, OF less.prems(3) [folded un] n0]
    note fill = round_fill [OF less.prems(3) False less.prems(4) un refl, of view s]
    note wr = round_write [OF ds less.prems(1-3) False less.prems(4) un]
    let ?pb = "overlay (page_bytes ?v ?p) (unat a mod 64) (take (unat ?c) src)"
    have bad: "write_result hw view (unat a) src s (-1) (s\<lparr>hw_st := w\<rparr>)"
      if "view w = ?v\<lparr>v_ready := True\<rparr>" "\<not> erased ?v (unat a) (unat ?c)" for w
      using that False erased_split [of ?v "unat a" "unat ?c" "length src - unat ?c"] b(3) un
      by (intro write_result_stop) (auto simp: same_regs_def)
    have rec: "returns (flash_write_loop hw 64 ?pb (drop (unat ?c) src) (a + ?c) (n - ?c) s1)
        (\<lambda>(rc, s'). write_result hw view (unat a) src s rc s')"
      if e: "erased ?v (unat a) (unat ?c)" and s1: "changed view (written ?v (unat a) (take (unat ?c) src)) s s1"
        and len: "length ?pb = PSZ" for s1
    proof -
      have "dev_ok hw s1" "\<not> manw (view (hw_st s1))"
        using s1 less.prems by (auto simp: changed_def dev_ok_def manw_def same_regs_def)
      moreover have "n - ?c = of_nat (length (drop (unat ?c) src))"
        using b(3) un less.prems(4) by (simp add: of_nat_diff)
      ultimately have "returns (flash_write_loop hw 64 ?pb (drop (unat ?c) src) (a + ?c) (n - ?c) s1)
          (\<lambda>(rc, s'). write_result hw view (unat a + unat ?c) (drop (unat ?c) src) s1 rc s')"
        using less.hyps [of "drop (unat ?c) src" s1 "a + ?c" "n - ?c" ?pb] b un less.prems(3) len by simp
      then show ?thesis by (rule returns_mono) (use write_result_step [OF e s1] b(3) un in auto)
    qed
    have go: "returns (nvm_write_buffer hw (page_addr ?p) ?pb 64 (s\<lparr>hw_st := w\<rparr>)) (\<lambda>x. returns (case x of (e, s) \<Rightarrow>
          if e \<noteq> STATUS_OK then Some (-1, s)
          else flash_write_loop hw 64 ?pb (drop (unat ?c) src) (a + ?c) (n - ?c) s)
        (\<lambda>(rc, s'). write_result hw view (unat a) src s rc s'))"
      if "view w = ?v\<lparr>v_ready := True\<rparr>" "erased ?v (unat a) (unat ?c)" for w
      using wr(2) [OF that] by (rule returns_mono) (use rec [OF that(2) _ wr(1) [OF that]] in auto)
    note rd = nvm_read_page [OF ds less.prems(1) b(1) less.prems(5)]
    have ne: "gave_up hw view s e s1 \<Longrightarrow> e \<noteq> STATUS_OK" for e s1 by (auto simp: gave_up_def)
    show ?thesis using n0 b(7,8) fill(1) ne False
      by (subst flash_write_loop.simps)
        (auto intro!: returns_bind returns_mono [OF rd] go intro: bad dest: write_result_busy)
  qed
qed

subsection \<open>Erasing\<close>

definition erased_mem :: "nvm_view \<Rightarrow> nat \<Rightarrow> nat \<Rightarrow> nat \<Rightarrow> u8" where
  "erased_mem v a n x = (if a \<le> x \<and> x < a + n \<and> \<not> v_locked v x then 0xff else v_mem v x)"

lemma ds_erase_row: "ds_erase v r = erased_mem v (r * (4 * PSZ)) (4 * PSZ)"
proof -
  have "x div (4 * PSZ) = r \<longleftrightarrow> r * (4 * PSZ) \<le> x \<and> x < r * (4 * PSZ) + 4 * PSZ" for x :: nat
    by (simp add: div_nat_eqI le_less_trans) (auto simp: div_nat_eqI)
  then show ?thesis by (auto simp: ds_erase_def erased_mem_def fun_eq_iff)
qed

lemma erase_rows_returns:
  assumes ds: "nvm_datasheet hw view"
  shows "\<lbrakk>dev_ok hw s; v_ready (view (hw_st s)); i \<le> 4; (r + 4) * (4 * PSZ) \<le> array_size hw\<rbrakk> \<Longrightarrow>
    returns (erase_rows hw 64 (row_addr r) [i..<4] s) (\<lambda>(rc, s'). rc = 0
      \<and> changed view (erased_mem (view (hw_st s)) ((r + i) * (4 * PSZ)) ((4 - i) * (4 * PSZ))) s s' \<and> v_ready (view (hw_st s')))"
proof (induction "4 - i" arbitrary: i s)
  case 0
  then show ?case
    by (auto simp: changed_def same_regs_def erased_mem_def fun_eq_iff intro!: exI [of _ "hw_st s"])
next
  case (Suc k)
  then have i: "[i..<4] = i # [Suc i..<4]" by (simp add: upt_conv_Cons)
  have "row_addr r + of_nat (i * SAMD21_FLASH_PAGES_PER_ROW) * ucast (64 :: u8) = row_addr (r + i)"
    by (simp add: row_addr_def SAMD21_FLASH_PAGES_PER_ROW_def distrib_right mult.assoc)
  moreover have row: "(r + i) * (4 * PSZ) < array_size hw" using Suc by simp
  moreover have "returns (erase_rows hw 64 (row_addr r) [Suc i..<4] s1) (\<lambda>(rc, s'). rc = 0
      \<and> changed view (erased_mem (view (hw_st s)) ((r + i) * (4 * PSZ)) ((4 - i) * (4 * PSZ))) s s' \<and> v_ready (view (hw_st s')))"
    if s1: "changed view (ds_erase (view (hw_st s)) (r + i)) s s1" "v_ready (view (hw_st s1))" for s1
  proof -
    have "dev_ok hw s1" using s1 Suc.prems by (auto simp: changed_def dev_ok_def)
    moreover have "erased_mem (view (hw_st s1)) ((r + Suc i) * (4 * PSZ)) ((4 - Suc i) * (4 * PSZ)) =
        erased_mem (view (hw_st s)) ((r + i) * (4 * PSZ)) ((4 - i) * (4 * PSZ))"
      using s1(1) Suc.hyps(2) by (auto simp: changed_def same_regs_def ds_erase_row erased_mem_def fun_eq_iff)
    ultimately show ?thesis using Suc.hyps(1) [of "Suc i" s1] Suc.hyps(2) Suc.prems s1
      by (auto simp: changed_def same_regs_def elim!: returns_mono)
  qed
  ultimately show ?case
    using nvm_erase_row_returns [OF ds Suc.prems(1), of "r + i"] Suc.prems(2)
    by (auto simp: i gave_up_def intro!: returns_bind elim!: returns_mono)
qed


subsection \<open>A simulated controller\<close>

text \<open>
  A controller of \<open>pages\<close> pages that behaves as documented; with \<open>slow\<close> it is busy for one poll
  after each page write and row erase.
\<close>

definition sim_hw :: "bool \<Rightarrow> u16 \<Rightarrow> nvm_view nvm_hw" where
  "sim_hw slow pages = \<lparr>
     hw_ready = (\<lambda>w. (\<not> slow \<or> v_ready w, w\<lparr>v_ready := True\<rparr>)),
     hw_ctrla = (\<lambda>c w.
       if c = 0xa544 then w\<lparr>v_buf := (\<lambda>_. 0xff)\<rparr>
       else if c = 0xa504 then w\<lparr>v_mem := ds_page w (2 * unat (v_addr w) div PSZ), v_ready := \<not> slow\<rparr>
       else if c = 0xa502 then w\<lparr>v_mem := ds_erase w (2 * unat (v_addr w) div (4 * PSZ)), v_ready := \<not> slow\<rparr>
       else w),
     hw_ctrlb = v_ctrlb, hw_set_ctrlb = (\<lambda>c w. w\<lparr>v_ctrlb := c\<rparr>),
     hw_status = (\<lambda>_. 0), hw_set_status = (\<lambda>_ w. w),
     hw_set_addr = (\<lambda>a w. w\<lparr>v_addr := a\<rparr>),
     hw_param = 0x30000 OR ucast pages, hw_lock = (\<lambda>_. 0xffff),
     hw_ld16 = (\<lambda>a w. (of_le16 [v_mem w (unat a), v_mem w (Suc (unat a))], w)),
     hw_st16 = (\<lambda>a d w. let w = w\<lparr>v_buf := ds_buffer w (unat a) d\<rparr>
       in if unat a mod PSZ = PSZ - 2 \<and> \<not> manw w
          then w\<lparr>v_mem := ds_page w (unat a div PSZ), v_ready := \<not> slow\<rparr> else w)\<rparr>"

lemma sim_param: "drop_bit 16 (0x30000 OR ucast (pages :: u16) :: u32) AND 7 = 3"
  "ucast (0x30000 OR ucast pages :: u32) = pages"
proof -
  have "drop_bit 16 (ucast pages :: u32) = 0" by (rule bit_word_eqI) (simp add: bit_simps)
  then show "drop_bit 16 (0x30000 OR ucast pages :: u32) AND 7 = 3" by (simp add: drop_bit_or)
  have "(0x30000 :: u32) = push_bit 16 3" by simp
  then have "\<not> bit (0x30000 :: u32) n" if "n < 16" for n
    using that by (simp only: bit_push_bit_iff) simp
  then show "ucast (0x30000 OR ucast pages :: u32) = pages"
    by (intro bit_word_eqI) (simp add: bit_simps)
qed

lemma sim_datasheet: "nvm_datasheet (sim_hw slow pages) (\<lambda>w. w)"
proof -
  let ?hw = "sim_hw slow pages"
  have "finish_law ?hw" unfolding finish_law_def
  proof
    fix w :: nvm_view
    show "\<exists>n. fst (hw_ready ?hw (((\<lambda>w. snd (hw_ready ?hw w)) ^^ n) w))"
      by (rule exI [of _ 1]) (simp add: sim_hw_def)
  qed
  moreover have "ready_law ?hw (\<lambda>w. w)" "register_law ?hw (\<lambda>w. w)" "load_law ?hw (\<lambda>w. w)"
    "command_law ?hw (\<lambda>w. w)"
    by (simp_all add: ready_law_def register_law_def load_law_def command_law_def sim_hw_def same_regs_def)
  moreover have "store_law ?hw (\<lambda>w. w)"
    unfolding store_law_def sim_hw_def by (auto simp: same_regs_def manw_def Let_def)
  moreover have "hw_param ?hw = 0x30000 OR ucast pages" by (simp add: sim_hw_def)
  ultimately show ?thesis unfolding nvm_datasheet_def by (simp only: sim_param)
qed

lemma sim_never_busy: "never_busy (sim_hw False pages)"
  by (simp add: never_busy_def sim_hw_def)

lemma sim_array: "array_size (sim_hw slow pages) = PSZ * unat pages"
  by (simp add: array_size_def sim_hw_def sim_param)

definition flash0 :: "u16 \<Rightarrow> (nat \<Rightarrow> u8) \<Rightarrow> nvm_view nvm" where
  "flash0 pages m = \<lparr>hw_st = \<lparr>v_mem = m, v_buf = (\<lambda>_. 0), v_addr = 0, v_ctrlb = 0, v_locked = (\<lambda>_. False), v_ready = True\<rparr>,
     page_size = 64, number_of_pages = pages, manual_page_write = False, apbb_mask = 0, cpu_irq_enabled = True,
     cpu_irq_critical_section_counter = 0, cpu_irq_prev_interrupt_state = False\<rparr>"


definition flash_ok :: "'w nvm_hw \<Rightarrow> ('w \<Rightarrow> nvm_view) \<Rightarrow> 'w nvm \<Rightarrow> bool" where
  "flash_ok hw view s \<longleftrightarrow> dev_ok hw s \<and> \<not> manw (view (hw_st s))"

lemma flash0_ok: "flash_ok (sim_hw slow pages) (\<lambda>w. w) (flash0 pages m)"
  by (simp add: flash_ok_def dev_ok_def flash0_def manw_def sim_hw_def sim_param)

lemma flash0_view: "v_mem (hw_st (flash0 pages m)) = m" "v_ready (hw_st (flash0 pages m))"
  "v_locked (hw_st (flash0 pages m)) = (\<lambda>_. False)"
  by (simp_all add: flash0_def)

lemma changed_ok: "changed view m s s' \<Longrightarrow> flash_ok hw view s \<Longrightarrow> flash_ok hw view s'"
  by (auto simp: changed_def flash_ok_def dev_ok_def manw_def same_regs_def)

lemma with_parameters:
  assumes "nvm_datasheet hw view" "flash_ok hw view s"
  obtains par s1 where "nvm_get_parameters hw s = (par, s1)" "par_page_size par = 64"
    "nvm_number_of_pages par = ucast (hw_param hw)" "flash_ok hw view s1" "view (hw_st s1) = view (hw_st s)"
    "\<And>m s'. changed view m s1 s' \<Longrightarrow> changed view m s s'"
    "\<And>x. read_result view x s1 = read_result view x s"
  using assms by (elim get_parameters [where s = s]) (auto simp: flash_ok_def dev_ok_def changed_def read_result_def fun_eq_iff)

subsection \<open>What the device does\<close>

text \<open>
  Reading the flash at any moment: whatever range of the array is asked for, the call returns. It
  returns 0 and exactly the bytes of the memory, page boundaries included, or -1 with nothing stored, and
  then the controller was busy when the read began. Memory and locks stay as they are.
\<close>

lemma flash_read_or_busy:
  assumes "nvm_datasheet hw view" "flash_ok hw view s" "unat address + unat n \<le> array_size hw" "length stk = 64"
  shows "\<exists>rc dst s' x. samd21_flash_read hw stk address n s = Some (rc, dst, s')
    \<and> view (hw_st s') = (view (hw_st s))\<lparr>v_ready := x\<rparr>
    \<and> (rc = 0 \<and> dst = map (v_mem (view (hw_st s))) [unat address..<unat address + unat n]
       \<or> rc = -1 \<and> dst = [] \<and> \<not> v_ready (view (hw_st s)) \<and> \<not> never_busy hw)"
proof -
  obtain par s1 where s1: "nvm_get_parameters hw s = (par, s1)" "par_page_size par = 64" "flash_ok hw view s1"
      "view (hw_st s1) = view (hw_st s)"
    using with_parameters [OF assms(1,2)] by metis
  have nb: "never_busy hw \<Longrightarrow> fst (nvm_is_ready hw s1)"
    by (auto simp: never_busy_def nvm_is_ready_def split: prod.splits) (metis fst_conv)
  have "returns (samd21_flash_read hw stk address n s) (\<lambda>(rc, dst, s').
      read_result view (mem_bytes (view (hw_st s)) (unat address) (unat n)) s1 rc dst s'
      \<or> read_refused view [] s1 rc dst s' \<and> \<not> fst (nvm_is_ready hw s1))"
    using flash_read_loop_returns [OF assms(1), of s1 address n stk "[]"] assms s1
    by (simp add: samd21_flash_read_def flash_ok_def)
  then show ?thesis using s1(4) nb
    by (fastforce simp: returns_def read_result_def read_refused_def mem_bytes_def)
qed

lemma flash_read_returns_memory:
  assumes "nvm_datasheet hw view" "flash_ok hw view s" "v_ready (view (hw_st s)) \<or> never_busy hw"
    and "unat address + unat n \<le> array_size hw" "length stk = 64"
  shows "\<exists>s' x. samd21_flash_read hw stk address n s = Some (0, map (v_mem (view (hw_st s))) [unat address..<unat address + unat n], s')
    \<and> view (hw_st s') = (view (hw_st s))\<lparr>v_ready := x\<rparr>"
  using flash_read_or_busy [OF assms(1,2,4,5)] assms(3) by blast

theorem flash_read_returns_memory_witness:
  "\<exists>s'. samd21_flash_read (sim_hw False 16) (replicate 64 0) 60 10 (flash0 16 of_nat)
     = Some (0, [60, 61, 62, 63, 64, 65, 66, 67, 68, 69], s')"
proof -
  have "map of_nat [60..<70] = ([60, 61, 62, 63, 64, 65, 66, 67, 68, 69] :: u8 list)"
    by (simp add: upt_rec)
  then show ?thesis
    using flash_read_returns_memory [OF sim_datasheet flash0_ok, of 16 of_nat False 60 10 "replicate 64 0"]
    by (auto simp: flash0_view sim_array)
qed


lemma flash_write_result:
  assumes "nvm_datasheet hw view" "flash_ok hw view s" "unat address + length src \<le> array_size hw" "length stk = 64"
  shows "\<exists>rc s'. samd21_flash_write hw stk address src (of_nat (length src)) s = Some (rc, s')
    \<and> write_result hw view (unat address) src s rc s' \<and> flash_ok hw view s'"
proof -
  obtain par s1 where s1: "nvm_get_parameters hw s = (par, s1)" "par_page_size par = 64" "flash_ok hw view s1"
      "view (hw_st s1) = view (hw_st s)" "\<And>m s'. changed view m s1 s' \<Longrightarrow> changed view m s s'"
    using with_parameters [OF assms(1,2)] by metis
  have "write_result hw view (unat address) src s rc s' \<and> flash_ok hw view s'"
    if "write_result hw view (unat address) src s1 rc s'" for rc s'
    using that s1(4,5) changed_ok [OF _ assms(2)] by (auto simp: write_result_def)
  moreover have "returns (samd21_flash_write hw stk address src (of_nat (length src)) s)
      (\<lambda>(rc, s'). write_result hw view (unat address) src s1 rc s')"
    using flash_write_loop_returns [OF assms(1), of s1 address src "of_nat (length src)" stk] assms s1
    by (simp add: samd21_flash_write_def flash_ok_def)
  ultimately show ?thesis by (auto simp: returns_def)
qed

text \<open>
  C13: Writing the flash, on every path: the call returns; it has written a prefix of the data, only
  over erased bytes, and no other byte of the memory has changed (locked ones keep their contents).
  With 0 the prefix is the whole data; -1 comes with a shorter one, and only because a byte in the range
  was not erased or the controller was found busy.
\<close>

theorem flash_write_exact:
  assumes "nvm_datasheet hw view" "flash_ok hw view s" "unat address + length src \<le> array_size hw" "length stk = 64"
  shows "\<exists>rc s' k. samd21_flash_write hw stk address src (of_nat (length src)) s = Some (rc, s') \<and> flash_ok hw view s'
    \<and> k \<le> length src \<and> (rc = 0 \<longleftrightarrow> k = length src) \<and> erased (view (hw_st s)) (unat address) k
    \<and> v_mem (view (hw_st s')) = written (view (hw_st s)) (unat address) (take k src)
    \<and> (rc = 0 \<or> rc = -1 \<and> (erased (view (hw_st s)) (unat address) (length src) \<longrightarrow> \<not> never_busy hw))"
  using flash_write_result [OF assms] by (fastforce simp: write_result_def changed_def)

theorem flash_write_exact_witness:
  "\<exists>s'. samd21_flash_write (sim_hw False 16) (replicate 64 0) 62 [1, 2, 3, 4] 4 (flash0 16 (\<lambda>_. 0xff)) = Some (0, s')
     \<and> map (v_mem (hw_st s')) [61, 62, 63, 64, 65, 66] = [0xff, 1, 2, 3, 4, 0xff]"
proof -
  let ?s = "flash0 16 (\<lambda>_. 0xff)" and ?src = "[1, 2, 3, 4] :: u8 list"
  have "unat (62 :: u32) + length ?src \<le> array_size (sim_hw False 16)" "length (replicate 64 0) = 64" by (simp_all add: sim_array)
  from flash_write_exact [OF sim_datasheet flash0_ok this, of "\<lambda>_. 0xff"]
  obtain rc s' k where w: "samd21_flash_write (sim_hw False 16) (replicate 64 0) 62 ?src (of_nat (length ?src)) ?s = Some (rc, s')"
      "rc = 0 \<longleftrightarrow> k = length ?src" "v_mem (hw_st s') = written (hw_st ?s) (unat (62 :: u32)) (take k ?src)"
      "rc = 0 \<or> rc = -1 \<and> (erased (hw_st ?s) (unat (62 :: u32)) (length ?src) \<longrightarrow> \<not> never_busy (sim_hw False 16))"
    by (elim exE conjE) (rule that)
  moreover have "erased (hw_st ?s) (unat (62 :: u32)) (length ?src)" by (simp add: erased_def flash0_view)
  ultimately have "rc = 0" "k = length ?src" using sim_never_busy [of 16] by blast+
  then show ?thesis using w(1,3) by (simp add: written_def flash0_view)
qed

text \<open>A write that stays in one page needs the controller only once, so it cannot be found busy half way.\<close>

lemma flash_write_in_page:
  assumes ds: "nvm_datasheet hw view" and ok: "flash_ok hw view s" "v_ready (view (hw_st s))"
    and fit: "unat address + length src \<le> array_size hw" "unat address mod 64 + length src \<le> 64"
    and stk: "length stk = 64" and er: "erased (view (hw_st s)) (unat address) (length src)"
  shows "\<exists>s'. samd21_flash_write hw stk address src (of_nat (length src)) s = Some (0, s') \<and> flash_ok hw view s'"
proof -
  obtain par s1 where s1: "nvm_get_parameters hw s = (par, s1)" "par_page_size par = 64" "flash_ok hw view s1"
      "view (hw_st s1) = view (hw_st s)" "\<And>m s'. changed view m s1 s' \<Longrightarrow> changed view m s s'"
    using with_parameters [OF ds ok(1)] by metis
  let ?p = "unat address div 64"
  obtain n :: u32 where n: "n = of_nat (length src)" by blast
  then have un: "unat n = length src"
    unfolding n using fit(1) array_size_small [of hw] by (intro of_nat_inverse) simp_all
  have "returns (flash_write_loop hw 64 stk src address n s1) (\<lambda>(rc, s'). rc = 0 \<and> flash_ok hw view s')"
  proof (cases "src = []")
    case True
    then show ?thesis using s1(3) n by (auto simp: flash_write_loop.simps)
  next
    case False
    have n0: "n \<noteq> 0" using False un by auto
    note b = round_bounds [of address n hw, OF fit(1) [folded un] n0]
    have "length src \<le> 64 - unat address mod 64" using fit(2) by linarith
    moreover have "unat address < array_size hw" using fit(1) False by (cases src) simp_all
    ultimately have "unat (chunk_len 64 address n) = length src"
      by (simp add: chunk_unat un min_absorb2)
    then have c: "chunk_len 64 address n = n" using un by (simp add: word_unat_eq_iff)
    have e1: "erased (view (hw_st s1)) (unat address) (length src)" using er s1(4) by simp
    have dev: "dev_ok hw s1" "\<not> manw (view (hw_st s1))" using s1(3) by (simp_all add: flash_ok_def)
    note fill = round_fill [OF fit(1) False n un refl, of view s1, unfolded c un]
    note wr = round_write [OF ds dev fit(1) False n un, unfolded c un, OF _ e1]
    have rd: "returns (nvm_read_buffer hw (page_addr ?p) stk 64 s1) (\<lambda>(e, b', s').
        e = STATUS_OK \<and> b' = page_bytes (view (hw_st s1)) ?p
        \<and> (\<exists>w. s' = s1\<lparr>hw_st := w\<rparr> \<and> view w = (view (hw_st s1))\<lparr>v_ready := True\<rparr>))"
      by (rule returns_mono [OF nvm_read_page [OF ds dev(1) b(1) stk]]) (use ok(2) s1(4) in \<open>auto simp: gave_up_def\<close>)
    have done1: "returns (nvm_write_buffer hw (page_addr ?p) pb 64 (s1\<lparr>hw_st := w\<rparr>)) (\<lambda>x. returns (case x of (e, s) \<Rightarrow>
          if e \<noteq> STATUS_OK then Some (-1, s) else flash_write_loop hw 64 pb [] (address + chunk_len 64 address n) (n - chunk_len 64 address n) s)
        (\<lambda>(rc, s'). rc = 0 \<and> flash_ok hw view s'))"
      if "view w = (view (hw_st s1))\<lparr>v_ready := True\<rparr>"
        and pb: "pb = overlay (page_bytes (view (hw_st s1)) ?p) (unat address mod 64) src" for w pb
      using wr(2) [OF that(1)] unfolding pb take_all [OF order_refl]
      by (rule returns_mono) (auto simp: flash_write_loop.simps c dest: changed_ok [OF _ s1(3)])
    show ?thesis using n0 b(7,8) fill(1) e1 c un
      by (subst flash_write_loop.simps) (auto intro!: returns_bind returns_mono [OF rd] intro: done1 [OF _ refl])
  qed
  then show ?thesis using s1(1,2) by (auto simp: samd21_flash_write_def returns_def n)
qed

text \<open>
  C19: Round trip, with a controller that is busy for any time after a page write: once a write over an
  unlocked range of the array has returned 0, a read of the range in any later state with the same memory
  (whatever was read or polled in between) returns. It returns 0 and exactly the data, or -1 with nothing
  stored, and then the controller was still busy when the read began; a read of a ready controller
  therefore always returns the data. That a write returns 0 exactly when all of it was stored is the
  claim on exact writes.
\<close>

theorem flash_write_then_read:
  assumes "nvm_datasheet hw view" "flash_ok hw view s" "unat address + length src \<le> array_size hw"
    and "length stk = 64" "length stk' = 64"
    and "\<forall>x. unat address \<le> x \<and> x < unat address + length src \<longrightarrow> \<not> v_locked (view (hw_st s)) x"
    and w: "samd21_flash_write hw stk address src (of_nat (length src)) s = Some (0, s1)"
    and later: "flash_ok hw view s2" "v_mem (view (hw_st s2)) = v_mem (view (hw_st s1))"
  shows "\<exists>rc dst s3. samd21_flash_read hw stk' address (of_nat (length src)) s2 = Some (rc, dst, s3)
    \<and> v_mem (view (hw_st s3)) = v_mem (view (hw_st s1))
    \<and> (rc = 0 \<and> dst = src \<or> rc = -1 \<and> dst = [] \<and> \<not> v_ready (view (hw_st s2)))"
proof -
  have s1: "v_mem (view (hw_st s1)) = written (view (hw_st s)) (unat address) src"
    using flash_write_result [OF assms(1-4)] w by (auto simp: write_result_def changed_def)
  have un: "unat (of_nat (length src) :: u32) = length src"
    using assms(3) array_size_small [of hw] by (intro of_nat_inverse) simp_all
  have "map (v_mem (view (hw_st s2))) [unat address..<unat address + length src] = src"
    by (rule nth_equalityI) (use assms(6) in \<open>simp_all add: later(2) s1 written_def\<close>)
  then show ?thesis
    using flash_read_or_busy [OF assms(1) later(1), of address "of_nat (length src)" stk'] assms(3,5) later(2) un by auto
qed

text \<open>
  With a controller that is busy after every page write: a write within a page returns 0, and after one
  poll, which finds the controller busy and lets it finish, a read returns the data.
\<close>

theorem flash_write_then_read_witness:
  "\<exists>s1 s2 s3. samd21_flash_write (sim_hw True 16) (replicate 64 0) 20 [1, 2, 3, 4] 4 (flash0 16 (\<lambda>_. 0xff)) = Some (0, s1)
     \<and> snd (nvm_is_ready (sim_hw True 16) s1) = s2
     \<and> samd21_flash_read (sim_hw True 16) (replicate 64 0) 20 4 s2 = Some (0, [1, 2, 3, 4], s3)"
proof -
  let ?hw = "sim_hw True 16" and ?s = "flash0 16 (\<lambda>_. 0xff)" and ?src = "[1, 2, 3, 4] :: u8 list" and ?b = "replicate 64 0 :: u8 list"
  have pre: "unat (20 :: u32) + length ?src \<le> array_size ?hw" "length ?b = 64" "erased (hw_st ?s) (unat (20 :: u32)) (length ?src)"
    by (simp_all add: sim_array erased_def flash0_view)
  obtain s1 where s1: "samd21_flash_write ?hw ?b 20 ?src (of_nat (length ?src)) ?s = Some (0, s1)" "flash_ok ?hw (\<lambda>w. w) s1"
    using flash_write_in_page [OF sim_datasheet flash0_ok, of 16 "\<lambda>_. 0xff" 20 ?src True ?b] pre by (auto simp: flash0_view)
  let ?s2 = "snd (nvm_is_ready ?hw s1)"
  have s2: "?s2 = s1\<lparr>hw_st := (hw_st s1)\<lparr>v_ready := True\<rparr>\<rparr>" by (simp add: nvm_is_ready_def sim_hw_def)
  have "flash_ok ?hw (\<lambda>w. w) ?s2" "v_mem (hw_st ?s2) = v_mem (hw_st s1)"
    using s1(2) by (auto simp: s2 flash_ok_def dev_ok_def manw_def)
  from flash_write_then_read [OF sim_datasheet flash0_ok pre(1,2,2) _ s1(1) this]
  show ?thesis using s1(1) by (auto simp: flash0_view s2)
qed

end
