(* ===== verification/Flash_Sectors.thy ===== *)
theory Flash_Sectors
  imports Flash_Props
begin

text \<open>
  Sectors and initialisation of the flash device, and the limits of the driver: writes to locked
  regions are reported as done, an odd number of bytes written to a page destroys the byte after them,
  and the controller driver accepts the first address after the array.
\<close>

lemma unat_sector: "n < 2 ^ 22 \<Longrightarrow> unat (of_nat n :: u32) = n"
  by (intro of_nat_inverse) simp_all

lemma array_sectors: "array_size hw div 1024 = unat (ucast (hw_param hw) :: u16) div 16"
  unfolding array_size_def using div_mult_mult1 [of 64 "unat (ucast (hw_param hw) :: u16)" 16] by simp

lemma sector_info_cases:
  assumes "nvm_datasheet hw view" "flash_ok hw view s"
  obtains s1 where "flash_ok hw view s1" "view (hw_st s1) = view (hw_st s)"
    "\<And>m s'. changed view m s1 s' \<Longrightarrow> changed view m s s'"
    "samd21_flash_sector_info hw idx s =
      (if idx \<ge> int (array_size hw div 1024) \<or> idx < 0 then (-1, None, s1) else (0, Some (of_int (idx * 1024), 1024), s1))"
proof -
  obtain par s1 where s1: "nvm_get_parameters hw s = (par, s1)" "par_page_size par = 64"
      "nvm_number_of_pages par = ucast (hw_param hw)" "flash_ok hw view s1" "view (hw_st s1) = view (hw_st s)"
      "\<And>m s'. changed view m s1 s' \<Longrightarrow> changed view m s s'"
    using with_parameters [OF assms] by metis
  have "samd21_flash_sector_info hw idx s =
      (if idx \<ge> int (array_size hw div 1024) \<or> idx < 0 then (-1, None, s1) else (0, Some (of_int (idx * 1024), 1024), s1))"
    using s1 by (simp add: array_sectors samd21_flash_sector_info_def Let_def SAMD21_FLASH_PAGES_PER_SECTOR_def SAMD21_FLASH_PAGES_PER_ROW_def
        SAMD21_FLASH_ROWS_PER_SECTOR_def SAMD21_FLASH_START_ADDR_def)
  then show thesis using that s1 by blast
qed

text \<open>
  C28: Sectors: a sector the device reports lies in the array, sectors follow one another without
  gap, an index outside the device is refused, and erasing the sector at the reported address sets
  exactly the reported bytes to \<open>0xff\<close> (locked ones excepted) and returns 0.
\<close>

theorem flash_erase_reported_sector:
  assumes "nvm_datasheet hw view" "flash_ok hw view s" "v_ready (view (hw_st s))"
    and "samd21_flash_sector_info hw idx s = (rc, info, s1)"
  shows "(rc = -1 \<and> info = None \<and> (idx < 0 \<or> int (array_size hw) < 1024 * (idx + 1)))
    \<or> (\<exists>addr s2. rc = 0 \<and> info = Some (addr, 1024) \<and> 0 \<le> idx \<and> unat addr = nat idx * 1024 \<and> unat addr + 1024 \<le> array_size hw
        \<and> samd21_flash_erase_sector hw addr s1 = Some (0, s2) \<and> flash_ok hw view s2
        \<and> v_mem (view (hw_st s2)) = (\<lambda>x. if unat addr \<le> x \<and> x < unat addr + 1024 \<and> \<not> v_locked (view (hw_st s)) x
            then 0xff else v_mem (view (hw_st s)) x))"
proof -
  obtain s1' where i: "flash_ok hw view s1'" "view (hw_st s1') = view (hw_st s)"
      "samd21_flash_sector_info hw idx s =
        (if idx \<ge> int (array_size hw div 1024) \<or> idx < 0 then (-1, None, s1') else (0, Some (of_int (idx * 1024), 1024), s1'))"
    using sector_info_cases [OF assms(1,2), of idx] by metis
  show ?thesis
  proof (cases "idx \<ge> int (array_size hw div 1024) \<or> idx < 0")
    case True
    then have "idx < 0 \<or> int (array_size hw) < 1024 * (idx + 1)" by (auto simp: zdiv_int)
    then show ?thesis using True i(3) assms(4) by simp
  next
    case False
    define r where "r = nat idx * 4"
    have idx: "idx = int (nat idx)" using False by simp
    have le: "nat idx * 1024 + 1024 \<le> array_size hw" using False by (simp add: zdiv_int) linarith
    have row: "of_int (idx * 1024) = row_addr r" unfolding row_addr_def r_def
      by (subst idx) (simp add: mult.assoc)
    have un: "unat (row_addr r) = nat idx * 1024"
      using unat_row_addr [of r hw] le by (simp add: r_def mult.assoc)
    obtain par s2 where s2: "nvm_get_parameters hw s1' = (par, s2)" "par_page_size par = 64" "flash_ok hw view s2"
        "view (hw_st s2) = view (hw_st s)"
      using with_parameters [OF assms(1) i(1)] i(2) by metis
    have "returns (samd21_flash_erase_sector hw (row_addr r) s1') (\<lambda>(rc, s'). rc = 0
        \<and> changed view (erased_mem (view (hw_st s)) (nat idx * 1024) 1024) s2 s')"
      using erase_rows_returns [OF assms(1), of s2 0 r] s2 assms(3) le
      by (auto simp: samd21_flash_erase_sector_def SAMD21_FLASH_ROWS_PER_SECTOR_def flash_ok_def r_def mult.assoc elim!: returns_mono)
    then obtain s3 where s3: "samd21_flash_erase_sector hw (row_addr r) s1' = Some (0, s3)"
        "changed view (erased_mem (view (hw_st s)) (nat idx * 1024) 1024) s2 s3"
      by (auto simp: returns_def)
    have "v_mem (view (hw_st s3)) = erased_mem (view (hw_st s)) (nat idx * 1024) 1024" "flash_ok hw view s3"
      using s3(2) changed_ok [OF s3(2) s2(3)] by (auto simp: changed_def)
    then show ?thesis using False i(3) assms(4) row un s3(1) le by (auto simp: erased_mem_def fun_eq_iff)
  qed
qed

theorem flash_erase_reported_sector_witness:
  "\<exists>s1 s2. samd21_flash_sector_info (sim_hw True 64) 3 (flash0 64 (\<lambda>_. 7)) = (0, Some (3072, 1024), s1)
     \<and> samd21_flash_erase_sector (sim_hw True 64) 3072 s1 = Some (0, s2)
     \<and> map (v_mem (hw_st s2)) [3071, 3072, 4095, 4096] = [7, 0xff, 0xff, 7]"
proof -
  let ?s = "flash0 64 (\<lambda>_. 7)" and ?hw = "sim_hw True 64"
  obtain rc info s1 where si: "samd21_flash_sector_info ?hw 3 ?s = (rc, info, s1)" by (metis prod_cases3)
  have rdy: "v_ready (hw_st ?s)" by (simp add: flash0_view)
  from flash_erase_reported_sector [OF sim_datasheet flash0_ok rdy si]
  obtain addr s2 where a: "rc = 0" "info = Some (addr, 1024)" "unat addr = 3072"
      "samd21_flash_erase_sector ?hw addr s1 = Some (0, s2)"
      "v_mem (hw_st s2) = (\<lambda>x. if unat addr \<le> x \<and> x < unat addr + 1024 \<and> \<not> v_locked (hw_st ?s) x then 0xff else v_mem (hw_st ?s) x)"
    by (auto simp: sim_array)
  have "addr = 3072" using a(3) by (simp add: word_unat_eq_iff)
  then show ?thesis using a si by (auto simp: flash0_view)
qed


subsection \<open>Initialisation\<close>

lemma ctrlb_automatic: "\<not> cfg_manual_page_write c \<Longrightarrow> \<not> bit (ctrlb_of c) NVMCTRL_CTRLB_MANW_Pos"
proof -
  have "\<not> bit (0x300 :: u32) 7" "\<not> bit (0x1e :: u32) 7" "\<not> bit (0x30000 :: u32) 7" by (simp_all add: bit_iff_odd)
  moreover assume "\<not> cfg_manual_page_write c"
  ultimately show ?thesis
    by (simp add: ctrlb_of_def NVMCTRL_CTRLB_MANW_Pos_def NVMCTRL_CTRLB_CACHEDIS_Pos_def bit_simps)
qed

text \<open>
  C29: Initialising the device: with a ready controller whose security bit is clear the call returns 0,
  turns automatic page writes on, leaves the memory as it is, and publishes the size of the array and its number of
  whole sectors; this establishes the state that reads, writes and erasures rely on.
\<close>

theorem flash_init_establishes:
  assumes "nvm_datasheet hw view" "v_ready (view (hw_st s))" "\<forall>w. \<not> bit (hw_status hw w) 8"
  shows "\<exists>d s'. samd21_flash_init hw dev s = (0, d, s') \<and> flash_ok hw view s' \<and> v_ready (view (hw_st s'))
    \<and> v_mem (view (hw_st s')) = v_mem (view (hw_st s)) \<and> unat (hf_size d) = array_size hw
    \<and> hf_sector_cnt d = int (array_size hw div 1024) \<and> hf_erased_val d = 0xff \<and> bit (apbb_mask s') 2"
proof -
  let ?cfg = "(nvm_get_config_defaults hw s)\<lparr>cfg_manual_page_write := False\<rparr>"
  let ?s0 = "system_apb_clock_set_mask PM_APBBMASK_NVMCTRL s"
  have "bit (4 :: u32) 2" by (simp add: bit_iff_odd)
  then have s0: "view (hw_st ?s0) = view (hw_st s)" "bit (apbb_mask ?s0) 2"
    by (simp_all add: system_apb_clock_set_mask_def PM_APBBMASK_NVMCTRL_def bit_simps)
  obtain w1 where w1: "clear_errors hw ?s0 = ?s0\<lparr>hw_st := w1\<rparr>" "view w1 = view (hw_st s)"
    using clear_errors_view [OF assms(1), of ?s0] s0 by auto
  obtain w2 where w2: "nvm_is_ready hw (?s0\<lparr>hw_st := w1\<rparr>) = (True, ?s0\<lparr>hw_st := w2\<rparr>)" "view w2 = (view (hw_st s))\<lparr>v_ready := True\<rparr>"
    using w1 assms(2) by (cases rule: ready_cases [OF assms(1), where s = "?s0\<lparr>hw_st := w1\<rparr>"]) auto
  define w3 where "w3 = hw_set_ctrlb hw (ctrlb_of ?cfg) w2"
  define s3 where "s3 = ?s0\<lparr>hw_st := w3, page_size := push_bit (unat (drop_bit 16 (hw_param hw) AND 0x7)) 8,
      number_of_pages := ucast (hw_param hw), manual_page_write := False\<rparr>"
  have w3: "view w3 = (view (hw_st s))\<lparr>v_ready := True, v_ctrlb := ctrlb_of ?cfg\<rparr>"
    using assms(1) w2 by (simp add: w3_def nvm_datasheet_def register_law_def)
  have "NVMCTRL_STATUS_SB = 2 ^ 8" by (simp add: NVMCTRL_STATUS_SB_def)
  then have "hw_status hw w3 AND NVMCTRL_STATUS_SB = 0"
    using assms(3) and_exp_eq_0_iff_not_bit [of "hw_status hw w3" 8] by metis
  then have cfg: "nvm_set_config hw ?cfg s = (STATUS_OK, s3)"
    using w1 w2 by (simp add: nvm_set_config_def Let_def s3_def w3_def)
  have ok: "flash_ok hw view s3"
    using assms(1) w3 ctrlb_automatic [of ?cfg] by (simp add: flash_ok_def dev_ok_def s3_def manw_def nvm_datasheet_def)
  obtain par w4 where p: "nvm_get_parameters hw s3 = (par, s3\<lparr>hw_st := w4\<rparr>)" "par_page_size par = 64"
      "nvm_number_of_pages par = ucast (hw_param hw)" "view w4 = view (hw_st s3)"
    by (rule get_parameters [OF assms(1)])
  have "flash_ok hw view (s3\<lparr>hw_st := w4\<rparr>)" using ok p(4) by (simp add: flash_ok_def dev_ok_def manw_def s3_def)
  moreover have "unat (of_nat (array_size hw) :: u32) = array_size hw" using array_size_small [of hw] by (intro unat_sector) simp
  moreover have "array_size hw = unat (nvm_number_of_pages par) * unat (par_page_size par)"
    using p by (simp add: array_size_def)
  ultimately show ?thesis
    using cfg p(1-3) w3 p(4) s0 array_sectors [of hw]
    by (simp add: samd21_flash_init_def Let_def s3_def SAMD21_FLASH_PAGES_PER_SECTOR_def SAMD21_FLASH_PAGES_PER_ROW_def
        SAMD21_FLASH_ROWS_PER_SECTOR_def)
qed


theorem flash_init_establishes_witness:
  "\<exists>d s'. samd21_flash_init (sim_hw False 4096) \<lparr>hf_base_addr = 0, hf_size = 0, hf_sector_cnt = 0, hf_align = 0, hf_erased_val = 0\<rparr>
       (flash0 0 (\<lambda>_. 7)) = (0, d, s') \<and> unat (hf_size d) = 262144 \<and> hf_sector_cnt d = 256"
proof -
  have "\<forall>w. \<not> bit (hw_status (sim_hw False 4096) w) 8" by (simp add: sim_hw_def)
  from flash_init_establishes [OF sim_datasheet _ this, of "flash0 0 (\<lambda>_. 7)"]
  show ?thesis by (fastforce simp: flash0_view sim_array)
qed

subsection \<open>Limits of the driver\<close>

text \<open>
  A write to a locked region is reported as done: the error flags of the controller are never
  looked at after a command, so the call returns 0 although not a byte of the memory has changed.
\<close>

theorem flash_write_locked_reports_success:
  assumes "nvm_datasheet hw view" "flash_ok hw view s" "never_busy hw" "unat address + length src \<le> array_size hw"
    and "length stk = 64" "erased (view (hw_st s)) (unat address) (length src)"
    and "\<forall>x. v_locked (view (hw_st s)) x"
  shows "\<exists>s'. samd21_flash_write hw stk address src (of_nat (length src)) s = Some (0, s')
    \<and> v_mem (view (hw_st s')) = v_mem (view (hw_st s))"
  using flash_write_result [OF assms(1,2,4,5)] assms(3,6,7)
  by (auto simp: write_result_def changed_def written_def fun_eq_iff)

theorem flash_write_locked_reports_success_witness:
  "\<exists>s'. samd21_flash_write (sim_hw False 16) (replicate 64 0) 0 [1]
      1 ((flash0 16 (\<lambda>_. 0xff))\<lparr>hw_st := (hw_st (flash0 16 (\<lambda>_. 0xff)))\<lparr>v_locked := (\<lambda>_. True)\<rparr>\<rparr>) = Some (0, s')
     \<and> v_mem (hw_st s') 0 = 0xff"
proof -
  let ?s = "(flash0 16 (\<lambda>_. 0xff))\<lparr>hw_st := (hw_st (flash0 16 (\<lambda>_. 0xff)))\<lparr>v_locked := (\<lambda>_. True)\<rparr>\<rparr>"
  have ok: "flash_ok (sim_hw False 16) (\<lambda>w. w) ?s"
    using flash0_ok [of False 16 "\<lambda>_. 0xff"] by (simp add: flash_ok_def dev_ok_def manw_def)
  show ?thesis
    using flash_write_locked_reports_success [OF sim_datasheet ok sim_never_busy, of 0 "[1]" "replicate 64 0"]
    by (auto simp: sim_array flash0_view erased_def)
qed

text \<open>
  \<open>nvm_write_buffer\<close> with an odd number of bytes, fewer than a page, programs 0 into the byte after
  the data, which its documentation says is left alone: the upper half of the last 16-bit element is
  stored as 0, not as \<open>0xff\<close>.
\<close>

theorem nvm_write_odd_clears_next:
  assumes "nvm_datasheet hw view" "dev_ok hw s" "v_ready (view (hw_st s))" "p * 64 < array_size hw"
    and "odd (unat len)" "unat len \<le> 62" "unat len \<le> length buffer" "\<not> v_locked (view (hw_st s)) (p * 64 + unat len)"
  shows "\<exists>s'. nvm_write_buffer hw (of_nat (p * 64)) buffer len s = Some (STATUS_OK, s')
    \<and> v_mem (view (hw_st s')) (p * 64 + unat len) = 0"
proof -
  have "returns (nvm_write_buffer hw (page_addr p) buffer len s) (\<lambda>(e, s').
      e = STATUS_OK \<and> changed view (ds_page ((view (hw_st s))\<lparr>v_buf := stored buffer (unat len)\<rparr>) p) s s')"
    using nvm_write_partial [OF assms(1,2) _ _ assms(7), of p] assms(3,4,6) by (auto simp: gave_up_def elim!: returns_mono)
  moreover have "ds_page ((view (hw_st s))\<lparr>v_buf := stored buffer (unat len)\<rparr>) p (p * 64 + unat len) = 0"
    using assms(5,6,8) by (simp add: ds_page_def stored_def)
  ultimately show ?thesis by (auto simp: returns_def changed_def page_addr_def)
qed

theorem nvm_write_odd_clears_next_witness:
  "\<exists>s'. nvm_write_buffer (sim_hw True 16) 64 [5, 6, 7] 3 (flash0 16 (\<lambda>_. 0xff)) = Some (STATUS_OK, s') \<and> v_mem (hw_st s') 67 = 0"
  using nvm_write_odd_clears_next [OF sim_datasheet, of True 16 "flash0 16 (\<lambda>_. 0xff)" 1 3 "[5, 6, 7]"] flash0_ok [of True 16 "\<lambda>_. 0xff"]
  by (simp add: flash_ok_def flash0_view sim_array)


text \<open>
  \<open>nvm_erase_row\<close> takes the first address after the array for valid, since it compares with
  \<open>>\<close>: it issues the erase command and reports success instead of \<open>STATUS_ERR_BAD_ADDRESS\<close>; one page further it
  refuses.
\<close>

theorem nvm_erase_row_accepts_end:
  assumes "nvm_datasheet hw view" "dev_ok hw s" "v_ready (view (hw_st s))" "4 dvd unat (number_of_pages s)"
  shows "\<exists>s'. nvm_erase_row hw (nvm_limit s) s = Some (STATUS_OK, s')"
    "nvm_erase_row hw (nvm_limit s + 64) s = Some (STATUS_ERR_BAD_ADDRESS, s)"
proof -
  obtain k where k: "unat (number_of_pages s) = 4 * k" using assms(4) by (rule dvdE)
  have ps: "page_size s = 64" using assms(2) by (simp add: dev_ok_def)
  have "(ucast (number_of_pages s) :: u32) = of_nat (4 * k)" by (simp flip: k)
  then have lim: "nvm_limit s = row_addr k" by (simp add: nvm_limit_def ps row_addr_def mult.commute)
  obtain w1 where w1: "nvm_is_ready hw s = (True, s\<lparr>hw_st := w1\<rparr>)"
    using assms(3) by (cases rule: ready_cases [OF assms(1), where s = s]) auto
  show "\<exists>s'. nvm_erase_row hw (nvm_limit s) s = Some (STATUS_OK, s')"
    using wait_ready_returns [OF assms(1)] w1 page_aligned(2) [of k]
    by (auto simp: nvm_erase_row_def ps NVMCTRL_ROW_PAGES_def Let_def returns_def lim)
      (metis (no_types, lifting) bind.bind_lunit)
  have "unat (nvm_limit s + 64) = array_size hw + 64"
    using nvm_limit_unat [OF assms(2)] array_size_small [of hw] by (subst unat_add_lem [THEN iffD1]) simp_all
  then have "nvm_limit s + 64 > nvm_limit s"
    using nvm_limit_unat [OF assms(2)] by (simp add: word_less_nat_alt)
  then show "nvm_erase_row hw (nvm_limit s + 64) s = Some (STATUS_ERR_BAD_ADDRESS, s)"
    by (simp add: nvm_erase_row_def)
qed

end
