(* ===== verification/Winc_Socket.thy ===== *)
theory Winc_Socket
  imports Socket
begin

text \<open>
  The socket provider of \<open>winc1500_socket.c\<close>: it offers the operations of the operating system's
  socket interface on top of \<open>socket.c\<close>, moves received data into chains of mbufs and reports events. Its
  state is the application state of the socket layer, and its callback is the application's callback
  there. The operating system is not code of the repository: its error numbers and address
  constants, the allocation of mbufs, the notifications to the application and the waiting on a
  semaphore (during which the driver's task runs) are fields of the record \<open>wenv\<close>. Mbufs
  live in an explicit store by address, 0 is \<open>NULL\<close>, and an access to a released one is the fault
  \<open>None\<close>. A \<open>struct mn_socket *\<close> is the index of the socket in \<open>winc1500_socks\<close>.
\<close>

record mn_sockaddr_in =
  msin_len :: u8
  msin_family :: u8
  msin_port :: u16
  msin_addr :: u32

definition zero_mn_addr :: mn_sockaddr_in where
  "zero_mn_addr = \<lparr>msin_len = 0, msin_family = 0, msin_port = 0, msin_addr = 0\<rparr>"

text \<open>An mbuf with the packet header and the user header of the first of a chain.\<close>

record mbuf =
  om_data :: u32
  om_len :: u16
  om_next :: u32
  omp_len :: u16
  omp_usrhdr :: mn_sockaddr_in

record winc1500_sock =
  ws_tgt :: mn_sockaddr_in
  ws_sem :: nat
  ws_idx :: u8
  ws_waiting :: bool
  ws_poll :: bool
  ws_closed :: bool
  ws_err :: u8
  ws_type :: u8
  ws_rx :: "u32 list"
  ws_tx :: u32

text \<open>The states of \<open>wi_state\<close> that the driver looks at.\<close>

datatype wifi_state = SCANNING | CONNECTING | WIFI_OTHER nat

text \<open>The state of the provider and, from \<open>wi_mtx\<close> on, of \<open>struct winc1500\<close> with its \<open>wifi_if\<close>; \<open>pool\<close> is the
  operating system's.\<close>

record 'p winc =
  winc1500_socks :: "winc1500_sock list"
  polling :: bool
  rx_buf :: u32
  cur_buf :: u32
  tx_buf :: "u8 list"
  wi_mtx :: int
  w_up :: bool
  w_plen :: u8
  w_addr :: u32
  w_scan_cnt :: u8
  w_scan_idx :: u8
  w_timer :: bool
  wi_state :: wifi_state
  wi_ssid :: "u8 list"
  wi_key :: "u8 list"
  mbufs :: "u32 \<Rightarrow> mbuf option"
  pool :: 'p

type_synonym ('w, 'p) wk = "('w, 'p winc) sk"

datatype mn_err = MN_EINVAL | MN_EADDRINUSE | MN_ENOBUFS | MN_EDESTADDRREQ | MN_ECONNABORTED
  | MN_ETIMEDOUT | MN_EUNKNOWN | MN_EAFNOSUPPORT | MN_EPROTONOSUPPORT | MN_EAGAIN | MN_EADDRNOTAVAIL

datatype mn_event = Readable nat int | Writable nat int | Newconn nat int

record ('w, 'p) wenv =
  wv_sock :: "'w env"
  mn_errno :: "mn_err \<Rightarrow> int"
  mn_sockaddr_size :: u8
  MN_AF_INET :: u8
  MN_PF_INET :: u8
  MN_SOCK_DGRAM :: u8
  MN_SOCK_STREAM :: u8
  MN_SO_LEVEL :: u8
  MN_MCAST_JOIN_GROUP :: u8
  MN_MCAST_LEAVE_GROUP :: u8
  MN_MCAST_IF :: u8
  msys_get :: "bool \<Rightarrow> int \<Rightarrow> 'p \<Rightarrow> (u32 \<times> u32) option \<times> 'p"
  mbuf_release :: "u32 \<Rightarrow> 'p \<Rightarrow> 'p"
  trailing_space :: "mbuf \<Rightarrow> u16"
  sem_pend :: "nat \<Rightarrow> ('w, 'p) wk \<Rightarrow> (bool \<times> ('w, 'p) wk) option"
  notify_app :: "mn_event \<Rightarrow> ('w, 'p) wk \<Rightarrow> ('w, 'p) wk option"

definition WINC1500_SOCK_RX_SIZE :: nat where "WINC1500_SOCK_RX_SIZE = 1500"
definition IP_ADD_MEMBERSHIP :: u8 where "IP_ADD_MEMBERSHIP = 1"
definition IP_DROP_MEMBERSHIP :: u8 where "IP_DROP_MEMBERSHIP = 2"
definition SOCK_ERR_INVALID_ADDRESS :: int where "SOCK_ERR_INVALID_ADDRESS = -1"
definition SOCK_ERR_ADDR_ALREADY_IN_USE :: int where "SOCK_ERR_ADDR_ALREADY_IN_USE = -2"
definition SOCK_ERR_MAX_TCP_SOCK :: int where "SOCK_ERR_MAX_TCP_SOCK = -3"
definition SOCK_ERR_MAX_UDP_SOCK :: int where "SOCK_ERR_MAX_UDP_SOCK = -4"
definition SOCK_ERR_MAX_LISTEN_SOCK :: int where "SOCK_ERR_MAX_LISTEN_SOCK = -7"
definition SOCK_ERR_ADDR_IS_REQUIRED :: int where "SOCK_ERR_ADDR_IS_REQUIRED = -11"
definition SOCK_ERR_CONN_ABORTED :: int where "SOCK_ERR_CONN_ABORTED = -12"
definition SOCK_ERR_TIMEOUT :: int where "SOCK_ERR_TIMEOUT = -13"

lemmas winc_err_defs = sock_err_defs SOCK_ERR_INVALID_ADDRESS_def SOCK_ERR_ADDR_ALREADY_IN_USE_def
  SOCK_ERR_MAX_TCP_SOCK_def SOCK_ERR_MAX_UDP_SOCK_def SOCK_ERR_MAX_LISTEN_SOCK_def
  SOCK_ERR_ADDR_IS_REQUIRED_def SOCK_ERR_CONN_ABORTED_def SOCK_ERR_TIMEOUT_def

subsection \<open>State access\<close>

definition get_ws :: "nat \<Rightarrow> ('w, 'p) wk \<Rightarrow> winc1500_sock option" where
  "get_ws i s = mem_read (winc1500_socks (app_st s)) i"

definition upd_app :: "('p winc \<Rightarrow> 'p winc) \<Rightarrow> ('w, 'p) wk \<Rightarrow> ('w, 'p) wk" where
  "upd_app f s = s\<lparr>app_st := f (app_st s)\<rparr>"

definition upd_ws :: "nat \<Rightarrow> (winc1500_sock \<Rightarrow> winc1500_sock) \<Rightarrow> ('w, 'p) wk \<Rightarrow> ('w, 'p) wk option" where
  "upd_ws i f s = do {
     x \<leftarrow> get_ws i s;
     Some (upd_app (\<lambda>a. a\<lparr>winc1500_socks := (winc1500_socks a)[i := f x]\<rparr>) s) }"

definition get_mb :: "u32 \<Rightarrow> ('w, 'p) wk \<Rightarrow> mbuf option" where
  "get_mb m s = mbufs (app_st s) m"

definition upd_mb :: "u32 \<Rightarrow> (mbuf \<Rightarrow> mbuf) \<Rightarrow> ('w, 'p) wk \<Rightarrow> ('w, 'p) wk option" where
  "upd_mb m f s = do {
     b \<leftarrow> get_mb m s;
     Some (upd_app (\<lambda>a. a\<lparr>mbufs := (mbufs a)(m \<mapsto> f b)\<rparr>) s) }"

definition os_mutex_pend :: "('w, 'p) wk \<Rightarrow> ('w, 'p) wk" where
  "os_mutex_pend = upd_app (\<lambda>a. a\<lparr>wi_mtx := wi_mtx a + 1\<rparr>)"

definition os_mutex_release :: "('w, 'p) wk \<Rightarrow> ('w, 'p) wk" where
  "os_mutex_release = upd_app (\<lambda>a. a\<lparr>wi_mtx := wi_mtx a - 1\<rparr>)"

text \<open>Allocation gives an empty mbuf that is the end of its chain; a released mbuf is gone.\<close>

definition os_msys_get :: "('w, 'p) wenv \<Rightarrow> bool \<Rightarrow> int \<Rightarrow> ('w, 'p) wk \<Rightarrow> u32 \<times> ('w, 'p) wk" where
  "os_msys_get v hdr n s =
     (case msys_get v hdr n (pool (app_st s)) of
        (None, p) \<Rightarrow> (0, upd_app (\<lambda>a. a\<lparr>pool := p\<rparr>) s)
      | (Some (m, d), p) \<Rightarrow>
          (m, upd_app (\<lambda>a. a\<lparr>pool := p,
             mbufs := (mbufs a)(m \<mapsto> \<lparr>om_data = d, om_len = 0, om_next = 0, omp_len = 0, omp_usrhdr = zero_mn_addr\<rparr>)\<rparr>) s))"

definition os_mbuf_free :: "('w, 'p) wenv \<Rightarrow> u32 \<Rightarrow> ('w, 'p) wk \<Rightarrow> ('w, 'p) wk option" where
  "os_mbuf_free v m s = do {
     b \<leftarrow> get_mb m s;
     Some (upd_app (\<lambda>a. a\<lparr>pool := mbuf_release v m (pool a), mbufs := (mbufs a)(m := None)\<rparr>) s) }"

partial_function (option) os_mbuf_free_chain :: "('w, 'p) wenv \<Rightarrow> u32 \<Rightarrow> ('w, 'p) wk \<Rightarrow> ('w, 'p) wk option" where
  "os_mbuf_free_chain v m s =
     (if m = 0 then Some s
      else Option.bind (get_mb m s) (\<lambda>b. Option.bind (os_mbuf_free v m s) (os_mbuf_free_chain v (om_next b))))"

subsection \<open>Conversions\<close>

definition winc1500_err_to_mn_err :: "('w, 'p) wenv \<Rightarrow> int \<Rightarrow> int" where
  "winc1500_err_to_mn_err v err =
     (if err = SOCK_ERR_NO_ERROR then 0
      else mn_errno v
        (if err = SOCK_ERR_INVALID_ADDRESS then MN_EINVAL
         else if err = SOCK_ERR_ADDR_ALREADY_IN_USE then MN_EADDRINUSE
         else if err = SOCK_ERR_MAX_TCP_SOCK \<or> err = SOCK_ERR_MAX_UDP_SOCK then MN_ENOBUFS
         else if err = SOCK_ERR_INVALID_ARG then MN_EINVAL
         else if err = SOCK_ERR_MAX_LISTEN_SOCK then MN_ENOBUFS
         else if err = SOCK_ERR_INVALID then MN_EINVAL
         else if err = SOCK_ERR_ADDR_IS_REQUIRED then MN_EDESTADDRREQ
         else if err = SOCK_ERR_CONN_ABORTED then MN_ECONNABORTED
         else if err = SOCK_ERR_TIMEOUT then MN_ETIMEDOUT
         else if err = SOCK_ERR_BUFFER_FULL then MN_ENOBUFS
         else MN_EUNKNOWN))"

definition winc1500_mn_addr_to_addr :: "('w, 'p) wenv \<Rightarrow> mn_sockaddr_in \<Rightarrow> int + sockaddr_in" where
  "winc1500_mn_addr_to_addr v msin =
     (if msin_len msin \<noteq> mn_sockaddr_size v \<or> msin_family msin \<noteq> MN_AF_INET v then Inl (mn_errno v MN_EINVAL)
      else Inr \<lparr>sin_family = AF_INET, sin_port = msin_port msin, s_addr = msin_addr msin\<rparr>)"

definition winc1500_addr_to_mn_addr :: "('w, 'p) wenv \<Rightarrow> sockaddr_in \<Rightarrow> mn_sockaddr_in" where
  "winc1500_addr_to_mn_addr v sin =
     \<lparr>msin_len = mn_sockaddr_size v, msin_family = MN_AF_INET v, msin_port = sin_port sin, msin_addr = s_addr sin\<rparr>"

subsection \<open>Waiting for a reply\<close>

definition winc1500_sock_wait :: "('w, 'p) wenv \<Rightarrow> nat \<Rightarrow> ('w, 'p) wk \<Rightarrow> (int \<times> ('w, 'p) wk) option" where
  "winc1500_sock_wait v i s = do {
     s \<leftarrow> upd_ws i (ws_waiting_update (\<lambda>_. True)) s;
     (timeout, s) \<leftarrow> sem_pend v i (os_mutex_release s);
     let s = os_mutex_pend s;
     s \<leftarrow> upd_ws i (ws_waiting_update (\<lambda>_. False)) s;
     (if timeout then Some (mn_errno v MN_ETIMEDOUT, s)
      else do {
        ws \<leftarrow> get_ws i s;
        s \<leftarrow> upd_ws i (ws_err_update (\<lambda>_. 0)) s;
        Some (winc1500_err_to_mn_err v (uint (ws_err ws)), s) }) }"

text \<open>The error is passed as a \<open>uint8_t\<close>.\<close>

definition winc1500_sock_wake :: "nat \<Rightarrow> int \<Rightarrow> ('w, 'p) wk \<Rightarrow> ('w, 'p) wk option" where
  "winc1500_sock_wake i err s = do {
     ws \<leftarrow> get_ws i s;
     (if ws_waiting ws then upd_ws i (\<lambda>x. x\<lparr>ws_err := of_int err, ws_sem := ws_sem x + 1\<rparr>) s else Some s) }"

subsection \<open>Operations of the socket interface\<close>

definition winc1500_sock_create :: "('w, 'p) wenv \<Rightarrow> u8 \<Rightarrow> u8 \<Rightarrow> ('w, 'p) wk \<Rightarrow> (int \<times> nat option \<times> ('w, 'p) wk) option" where
  "winc1500_sock_create v domain ty s =
     (if domain \<noteq> MN_PF_INET v then Some (mn_errno v MN_EAFNOSUPPORT, None, s)
      else if ty \<noteq> MN_SOCK_DGRAM v \<and> ty \<noteq> MN_SOCK_STREAM v \<and> ty \<noteq> 0
      then Some (mn_errno v MN_EPROTONOSUPPORT, None, s)
      else
        let ty = (if ty = MN_SOCK_DGRAM v then SOCK_DGRAM else if ty = MN_SOCK_STREAM v then SOCK_STREAM else ty)
        in do {
          (idx, s) \<leftarrow> socket (wv_sock v) AF_INET ty 0 (os_mutex_pend s);
          (if idx \<ge> 0
           then do {
             s \<leftarrow> upd_ws (nat idx) (\<lambda>x. x\<lparr>ws_sem := 0, ws_tgt := zero_mn_addr, ws_waiting := False, ws_err := 0, ws_type := ty\<rparr>) s;
             Some (0, Some (nat idx), os_mutex_release s) }
           else Some (mn_errno v MN_ENOBUFS, None, os_mutex_release s)) })"

fun free_queue :: "('w, 'p) wenv \<Rightarrow> u32 list \<Rightarrow> ('w, 'p) wk \<Rightarrow> ('w, 'p) wk option" where
  "free_queue v [] s = Some s"
| "free_queue v (m # ms) s = Option.bind (os_mbuf_free_chain v m s) (free_queue v ms)"

definition winc1500_sock_close :: "('w, 'p) wenv \<Rightarrow> nat \<Rightarrow> ('w, 'p) wk \<Rightarrow> (int \<times> ('w, 'p) wk) option" where
  "winc1500_sock_close v i s = do {
     ws \<leftarrow> get_ws i s;
     (_, s) \<leftarrow> close (wv_sock v) (uint (ws_idx ws)) (os_mutex_pend s);
     s \<leftarrow> upd_ws i (\<lambda>x. x\<lparr>ws_type := 0, ws_poll := False, ws_closed := False\<rparr>) s;
     s \<leftarrow> free_queue v (ws_rx ws) s;
     s \<leftarrow> upd_ws i (\<lambda>x. x\<lparr>ws_rx := []\<rparr>) s;
     s \<leftarrow> os_mbuf_free_chain v (ws_tx ws) s;
     s \<leftarrow> upd_ws i (\<lambda>x. x\<lparr>ws_tx := 0\<rparr>) s;
     Some (0, os_mutex_release s) }"

text \<open>\<open>rc == 0 ? wait for the reply : convert the error\<close>, then release the mutex.\<close>

definition finish_sync :: "('w, 'p) wenv \<Rightarrow> nat \<Rightarrow> int \<times> ('w, 'p) wk \<Rightarrow> (int \<times> ('w, 'p) wk) option" where
  "finish_sync v i = (\<lambda>(rc, s). do {
     (rc, s) \<leftarrow> (if rc = 0 then winc1500_sock_wait v i s else Some (winc1500_err_to_mn_err v rc, s));
     Some (rc, os_mutex_release s) })"

definition winc1500_sock_bind :: "('w, 'p) wenv \<Rightarrow> nat \<Rightarrow> mn_sockaddr_in \<Rightarrow> ('w, 'p) wk \<Rightarrow> (int \<times> ('w, 'p) wk) option" where
  "winc1500_sock_bind v i addr s =
     (case winc1500_mn_addr_to_addr v addr of
        Inl rc \<Rightarrow> Some (rc, s)
      | Inr sin \<Rightarrow> do {
          ws \<leftarrow> get_ws i s;
          r \<leftarrow> bind_sock (wv_sock v) (uint (ws_idx ws)) (Some sin) 8 (os_mutex_pend s);
          finish_sync v i r })"

definition winc1500_sock_connect :: "('w, 'p) wenv \<Rightarrow> nat \<Rightarrow> mn_sockaddr_in \<Rightarrow> ('w, 'p) wk \<Rightarrow> (int \<times> ('w, 'p) wk) option" where
  "winc1500_sock_connect v i addr s =
     (case winc1500_mn_addr_to_addr v addr of
        Inl rc \<Rightarrow> Some (rc, s)
      | Inr sin \<Rightarrow> do {
          ws \<leftarrow> get_ws i s;
          s \<leftarrow> upd_ws i (ws_tgt_update (\<lambda>_. addr)) s;
          let s = os_mutex_pend s;
          (rc, s) \<leftarrow> (if ws_type ws = SOCK_STREAM then connect (wv_sock v) (uint (ws_idx ws)) (Some sin) 8 s
                     else Some (SOCK_ERR_INVALID, s));
          s \<leftarrow> upd_ws i (ws_poll_update (\<lambda>_. True)) s;
          Some (winc1500_err_to_mn_err v rc, os_mutex_release s) })"

definition winc1500_sock_listen :: "('w, 'p) wenv \<Rightarrow> nat \<Rightarrow> u8 \<Rightarrow> ('w, 'p) wk \<Rightarrow> (int \<times> ('w, 'p) wk) option" where
  "winc1500_sock_listen v i qlen s = do {
     ws \<leftarrow> get_ws i s;
     r \<leftarrow> listen (wv_sock v) (uint (ws_idx ws)) qlen (os_mutex_pend s);
     finish_sync v i r }"


text \<open>
  Sending of a chain over a stream socket: the loop stops at the first mbuf that is not taken. The
  outer result is the number of \<open>send\<close>.
\<close>

partial_function (option) stream_tx_loop :: "('w, 'p) wenv \<Rightarrow> nat \<Rightarrow> ('w, 'p) wk \<Rightarrow> (int \<times> ('w, 'p) wk) option" where
  "stream_tx_loop v i s =
     Option.bind (get_ws i s) (\<lambda>ws.
       if ws_tx ws = 0 then Some (0, s)
       else Option.bind (get_mb (ws_tx ws) s) (\<lambda>m.
            Option.bind (send (wv_sock v) (uint (ws_idx ws)) (Some (user_mem s (om_data m))) (om_len m) s) (\<lambda>(rc, s).
              if rc = 0
              then Option.bind (upd_ws i (ws_tx_update (\<lambda>_. om_next m)) s) (\<lambda>s.
                   Option.bind (os_mbuf_free v (ws_tx ws) s) (stream_tx_loop v i))
              else Some (rc, s))))"

definition winc1500_stream_tx :: "('w, 'p) wenv \<Rightarrow> nat \<Rightarrow> bool \<Rightarrow> ('w, 'p) wk \<Rightarrow> (int \<times> ('w, 'p) wk) option" where
  "winc1500_stream_tx v i notify s = do {
     (rc, s) \<leftarrow> stream_tx_loop v i (os_mutex_pend s);
     let s = os_mutex_release s;
     let rc = (if rc \<noteq> 0 then (if rc = mn_errno v MN_ENOBUFS then 0 else winc1500_err_to_mn_err v rc) else rc);
     ws \<leftarrow> get_ws i s;
     s \<leftarrow> (if notify
          then (if ws_tx ws = 0 then notify_app v (Writable i 0) s
                else if rc \<noteq> 0 then notify_app v (Writable i rc) s else Some s)
          else Some s);
     Some (rc, s) }"

text \<open>Copy of a chain into \<open>tx_buf\<close>; \<open>Inl\<close> when it does not fit.\<close>

partial_function (option) copy_chain :: "u32 \<Rightarrow> nat \<Rightarrow> ('w, 'p) wk \<Rightarrow> ((unit + nat) \<times> ('w, 'p) wk) option" where
  "copy_chain o1 off s =
     (if o1 = 0 then Some (Inr off, s)
      else Option.bind (get_mb o1 s) (\<lambda>m.
        if off + unat (om_len m) > WINC1500_SOCK_RX_SIZE then Some (Inl (), s)
        else Option.bind (mem_slice (user_mem s (om_data m)) 0 (unat (om_len m))) (\<lambda>bytes.
          copy_chain (om_next m) (off + unat (om_len m))
            (upd_app (\<lambda>a. a\<lparr>tx_buf := take off (tx_buf a) @ bytes @ drop (off + unat (om_len m)) (tx_buf a)\<rparr>) s))))"

definition winc1500_sock_sendto :: "('w, 'p) wenv \<Rightarrow> nat \<Rightarrow> u32 \<Rightarrow> mn_sockaddr_in option \<Rightarrow> ('w, 'p) wk \<Rightarrow> (int \<times> ('w, 'p) wk) option" where
  "winc1500_sock_sendto v i m dst s = do {
     ws \<leftarrow> get_ws i s;
     (if ws_type ws = SOCK_STREAM
      then
        if dst \<noteq> None then Some (mn_errno v MN_EINVAL, s)
        else if ws_tx ws \<noteq> 0 then Some (mn_errno v MN_EAGAIN, s)
        else do {
          s \<leftarrow> upd_ws i (ws_tx_update (\<lambda>_. m)) s;
          winc1500_stream_tx v i False s }
      else do {
        addr \<leftarrow> dst;
        (case winc1500_mn_addr_to_addr v addr of
           Inl rc \<Rightarrow> Some (rc, s)
         | Inr sin \<Rightarrow> do {
             (r, s) \<leftarrow> copy_chain m 0 (os_mutex_pend s);
             (case r of
                Inl _ \<Rightarrow> Some (mn_errno v MN_EINVAL, os_mutex_release s)
              | Inr off \<Rightarrow> do {
                  (rc, s) \<leftarrow> sendto (wv_sock v) (uint (ws_idx ws)) (Some (tx_buf (app_st s))) (of_nat off) (Some sin) s;
                  let s = os_mutex_release s;
                  (if rc \<noteq> 0 then Some (winc1500_err_to_mn_err v rc, s)
                   else if ws_type ws = SOCK_DGRAM then map_option (\<lambda>s. (0, s)) (os_mbuf_free_chain v m s)
                   else Some (rc, s)) }) }) }) }"

text \<open>Return code, the chain and the address stored through \<open>addr\<close> when it is wanted.\<close>

definition winc1500_sock_recvfrom :: "('w, 'p) wenv \<Rightarrow> nat \<Rightarrow> bool \<Rightarrow> ('w, 'p) wk \<Rightarrow>
    (int \<times> u32 \<times> mn_sockaddr_in option \<times> ('w, 'p) wk) option" where
  "winc1500_sock_recvfrom v i want s = do {
     let s = os_mutex_pend s;
     ws \<leftarrow> get_ws i s;
     (case ws_rx ws of
        [] \<Rightarrow> Some (mn_errno v MN_EAGAIN, 0, None, os_mutex_release s)
      | m # ms \<Rightarrow> do {
          s \<leftarrow> upd_ws i (ws_rx_update (\<lambda>_. ms)) s;
          let s = os_mutex_release s;
          b \<leftarrow> get_mb m s;
          Some (0, m, if want then Some (if ws_type ws = SOCK_DGRAM then omp_usrhdr b else ws_tgt ws) else None, s) }) }"

text \<open>\<open>family\<close> and \<open>grp\<close>: the fields of the \<open>struct mn_mreq\<close>.\<close>

definition winc1500_sock_setsockopt :: "('w, 'p) wenv \<Rightarrow> nat \<Rightarrow> u8 \<Rightarrow> u8 \<Rightarrow> u8 \<Rightarrow> u32 \<Rightarrow> ('w, 'p) wk \<Rightarrow> (int \<times> ('w, 'p) wk) option" where
  "winc1500_sock_setsockopt v i level name family grp s =
     (if level = MN_SO_LEVEL v \<and> (name = MN_MCAST_JOIN_GROUP v \<or> name = MN_MCAST_LEAVE_GROUP v)
      then
        if family \<noteq> MN_AF_INET v then Some (mn_errno v MN_EINVAL, s)
        else do {
          ws \<leftarrow> get_ws i s;
          (rc, s) \<leftarrow> setsockopt (wv_sock v) (uint (ws_idx ws)) 1
            (if name = MN_MCAST_JOIN_GROUP v then IP_ADD_MEMBERSHIP else IP_DROP_MEMBERSHIP) (Some (le32 grp)) 4 (os_mutex_pend s);
          Some (if rc \<noteq> 0 then winc1500_err_to_mn_err v rc else 0, os_mutex_release s) }
      else if level = MN_SO_LEVEL v \<and> name = MN_MCAST_IF v then Some (0, s)
      else Some (mn_errno v MN_EPROTONOSUPPORT, s))"

definition winc1500_sock_getpeername :: "nat \<Rightarrow> ('w, 'p) wk \<Rightarrow> (int \<times> mn_sockaddr_in) option" where
  "winc1500_sock_getpeername i s = map_option (\<lambda>ws. (0, ws_tgt ws)) (get_ws i s)"

text \<open>\<open>mif_up\<close>: the flags \<open>MN_ITF_F_UP\<close> and \<open>MN_ITF_F_LINK\<close>; the multicast flag is always set.\<close>

record mn_itf =
  mif_name :: "u8 list"
  mif_idx :: u8
  mif_up :: bool


definition winc1500_itf_getnext :: "('w, 'p) wenv \<Rightarrow> mn_itf \<Rightarrow> ('w, 'p) wk \<Rightarrow> int \<times> mn_itf" where
  "winc1500_itf_getnext v mi s =
     (if mif_name mi \<noteq> [] then (mn_errno v MN_EADDRNOTAVAIL, mi)
      else (0, \<lparr>mif_name = [119, 110, 99], mif_idx = 1, mif_up = w_up (app_st s)\<rparr>))"

text \<open>Result and, on success, prefix length and address stored in \<open>*mia\<close>; \<open>family\<close> is its family on entry.\<close>

definition winc1500_itf_addr_getnext :: "('w, 'p) wenv \<Rightarrow> mn_itf \<Rightarrow> u8 \<Rightarrow> ('w, 'p) wk \<Rightarrow> int \<times> (u8 \<times> u32) option" where
  "winc1500_itf_addr_getnext v mi family s =
     (if mif_idx mi \<noteq> 1 \<or> \<not> w_up (app_st s) \<or> family \<noteq> 0 then (mn_errno v MN_EADDRNOTAVAIL, None)
      else (0, Some (w_plen (app_st s), w_addr (app_st s))))"

subsection \<open>Receiving\<close>

text \<open>Extension of the chain whose last mbuf is \<open>m\<close>; \<open>False\<close> when no mbuf is left.\<close>

partial_function (option) rx_alloc_loop :: "('w, 'p) wenv \<Rightarrow> u32 \<Rightarrow> int \<Rightarrow> ('w, 'p) wk \<Rightarrow> (bool \<times> ('w, 'p) wk) option" where
  "rx_alloc_loop v m need s =
     (if need > 0
      then (case os_msys_get v False need s of (n, s) \<Rightarrow>
        if n \<noteq> 0
        then Option.bind (upd_mb m (om_next_update (\<lambda>_. n)) s) (\<lambda>s.
             Option.bind (get_mb n s) (\<lambda>b. rx_alloc_loop v n (need - uint (trailing_space v b)) s))
        else Some (False, s))
      else Some (True, s))"

definition rx_alloc :: "('w, 'p) wenv \<Rightarrow> ('w, 'p) wk \<Rightarrow> (bool \<times> ('w, 'p) wk) option" where
  "rx_alloc v s =
     (if rx_buf (app_st s) \<noteq> 0 then Some (True, s)
      else case os_msys_get v True (int WINC1500_SOCK_RX_SIZE) s of (m, s) \<Rightarrow>
        if m = 0 then Some (False, s)
        else do {
          b \<leftarrow> get_mb m s;
          (ok, s) \<leftarrow> rx_alloc_loop v m (int WINC1500_SOCK_RX_SIZE - uint (trailing_space v b))
                     (upd_app (\<lambda>a. a\<lparr>rx_buf := m\<rparr>) s);
          (if ok then Some (True, s)
           else do {
             s \<leftarrow> os_mbuf_free_chain v m s;
             Some (False, upd_app (\<lambda>a. a\<lparr>rx_buf := 0\<rparr>) s) }) })"

text \<open>\<open>for ( ; idx < MAX_SOCKET; idx++)\<close> with \<open>continue\<close>: the first socket that wants polling.\<close>

fun first_polled :: "winc1500_sock list \<Rightarrow> nat \<Rightarrow> nat option" where
  "first_polled [] i = None"
| "first_polled (x # xs) i = (if ws_poll x then Some i else first_polled xs (i + 1))"

definition winc1500_sock_start_rx :: "('w, 'p) wenv \<Rightarrow> nat \<Rightarrow> bool \<Rightarrow> ('w, 'p) wk \<Rightarrow> (int \<times> ('w, 'p) wk) option" where
  "winc1500_sock_start_rx v idx cont s = do {
     (ok, s) \<leftarrow> rx_alloc v (upd_app (\<lambda>a. a\<lparr>polling := False\<rparr>) s);
     (if \<not> ok then Some (-1, hif_flow_ctrl True s)
      else
        let s = hif_flow_ctrl False s
        in case first_polled (drop idx (winc1500_socks (app_st s))) idx of
             None \<Rightarrow> Some (0, s)
           | Some i \<Rightarrow> do {
               m \<leftarrow> (if \<not> cont then Some (rx_buf (app_st s)) else map_option om_next (get_mb (cur_buf (app_st s)) s));
               b \<leftarrow> get_mb m s;
               (rc, s) \<leftarrow> recvfrom (wv_sock v) (int i) (om_data b) (trailing_space v b) 1 s;
               (if rc = 0 then Some (0, upd_app (\<lambda>a. a\<lparr>cur_buf := m, polling := True\<rparr>) s)
                else Some (-1, s)) }) }"

definition winc1500_socket_poll :: "('w, 'p) wenv \<Rightarrow> ('w, 'p) wk \<Rightarrow> ('w, 'p) wk option" where
  "winc1500_socket_poll v s =
     (if polling (app_st s) then Some s else map_option snd (winc1500_sock_start_rx v 0 False s))"


subsection \<open>The callback\<close>

text \<open>A chunk of \<open>len > 0\<close> bytes in \<open>cur_buf\<close>; the result is the flag \<open>cont\<close>.\<close>

definition rx_chunk :: "('w, 'p) wenv \<Rightarrow> nat \<Rightarrow> tstrSocketRecvMsg \<Rightarrow> ('w, 'p) wk \<Rightarrow> (bool \<times> ('w, 'p) wk) option" where
  "rx_chunk v i msg s =
     (let m = cur_buf (app_st s); rx = rx_buf (app_st s); len = of_int (s16BufferSize msg)
      in if m = 0 then None
         else do {
           ws \<leftarrow> get_ws i s;
           s \<leftarrow> upd_mb rx (\<lambda>b. b\<lparr>omp_len := omp_len b + len\<rparr>) s;
           s \<leftarrow> upd_mb m (\<lambda>b. b\<lparr>om_len := len\<rparr>) s;
           s \<leftarrow> (if ws_type ws = SOCK_DGRAM \<and> m = rx
                then upd_mb m (\<lambda>b. b\<lparr>omp_usrhdr := winc1500_addr_to_mn_addr v (strRemoteAddr msg)\<rparr>) s
                else Some s);
           (if u16RemainingSize msg \<noteq> 0 then Some (True, s)
            else do {
              b \<leftarrow> get_mb m s;
              s \<leftarrow> (if om_next b \<noteq> 0
                   then Option.bind (os_mbuf_free_chain v (om_next b) s) (upd_mb m (om_next_update (\<lambda>_. 0)))
                   else Some s);
              let s = upd_app (\<lambda>a. a\<lparr>rx_buf := 0\<rparr>) s;
              s \<leftarrow> upd_ws i (ws_rx_update (\<lambda>q. q @ [rx])) s;
              s \<leftarrow> notify_app v (Readable i 0) s;
              Some (False, s) }) })"

definition rx_message :: "('w, 'p) wenv \<Rightarrow> nat \<Rightarrow> tstrSocketRecvMsg \<Rightarrow> ('w, 'p) wk \<Rightarrow> ('w, 'p) wk option" where
  "rx_message v i msg s = do {
     (idx, cont, s) \<leftarrow>
       (if s16BufferSize msg = SOCK_ERR_TIMEOUT then Some (i + 1, False, s)
        else if s16BufferSize msg > 0 then map_option (\<lambda>(cont, s). (i, cont, s)) (rx_chunk v i msg s)
        else do {
          s \<leftarrow> upd_ws i (\<lambda>x. x\<lparr>ws_closed := True, ws_poll := False\<rparr>) s;
          s \<leftarrow> winc1500_sock_wake i (s16BufferSize msg) s;
          s \<leftarrow> notify_app v (Readable i (winc1500_err_to_mn_err v (s16BufferSize msg))) s;
          Some (i + 1, False, s) });
     map_option snd (winc1500_sock_start_rx v idx cont s) }"

text \<open>A negative socket number passes the assertion and is used as an index, which is a fault here.\<close>

definition winc1500_sock_cb :: "('w, 'p) wenv \<Rightarrow> int \<Rightarrow> sock_msg \<Rightarrow> ('w, 'p) wk \<Rightarrow> ('w, 'p) wk option" where
  "winc1500_sock_cb v idx msg s =
     (if \<not> idx < int MAX_SOCKET \<or> idx < 0 then None
      else let i = nat idx in
        case msg of
          SOCKET_MSG_BIND status \<Rightarrow> do {
            s \<leftarrow> winc1500_sock_wake i status s;
            upd_ws i (\<lambda>x. if ws_type x = SOCK_DGRAM then x\<lparr>ws_poll := True\<rparr> else x) s }
        | SOCKET_MSG_LISTEN status \<Rightarrow> winc1500_sock_wake i status s
        | SOCKET_MSG_ACCEPT sock addr \<Rightarrow>
            if sock < 0 then None
            else do {
              s \<leftarrow> upd_ws (nat sock) (\<lambda>x. x\<lparr>ws_tgt := winc1500_addr_to_mn_addr v addr, ws_sem := 0, ws_err := 0\<rparr>) s;
              ws \<leftarrow> get_ws i s;
              s \<leftarrow> upd_ws (nat sock) (\<lambda>x. x\<lparr>ws_type := ws_type ws, ws_poll := True\<rparr>) s;
              notify_app v (Newconn i sock) s }
        | SOCKET_MSG_CONNECT _ err \<Rightarrow> notify_app v (Writable i (winc1500_err_to_mn_err v err)) s
        | SOCKET_MSG_RECV m \<Rightarrow> rx_message v i m s
        | SOCKET_MSG_RECVFROM m \<Rightarrow> rx_message v i m s
        | SOCKET_MSG_SEND _ \<Rightarrow> do {
            ws \<leftarrow> get_ws i s;
            (if ws_type ws = SOCK_STREAM then map_option snd (winc1500_stream_tx v i True s) else Some s) }
        | SOCKET_MSG_SENDTO _ \<Rightarrow> Some s)"

definition winc1500_resolve_cb :: "u8 list \<Rightarrow> u32 \<Rightarrow> ('w, 'p) wk \<Rightarrow> ('w, 'p) wk option" where
  "winc1500_resolve_cb name addr s = Some s"

text \<open>The callbacks by address, as \<open>winc1500_socket_start\<close> registers them; no ping is ever requested.\<close>

definition winc_cbs :: "('w, 'p) wenv \<Rightarrow> ('w, 'p winc) sock_cbs" where
  "winc_cbs v = \<lparr>app_cb = \<lambda>_. winc1500_sock_cb v, resolve_cb = \<lambda>_. winc1500_resolve_cb, ping_cb = \<lambda>_ _ _ _ s. Some s\<rparr>"

definition winc1500_socket_start :: "u32 \<Rightarrow> u32 \<Rightarrow> u32 \<Rightarrow> ('w, 'p) wk \<Rightarrow> ('w, 'p) wk" where
  "winc1500_socket_start m2m_ip_cb_ptr sock_cb_ptr resolve_cb_ptr s =
     registerSocketCallback sock_cb_ptr resolve_cb_ptr (socketInit m2m_ip_cb_ptr s)"

text \<open>The result of the registration is the operating system's and not used by the caller.\<close>

definition winc1500_socket_init :: "('w, 'p) wk \<Rightarrow> ('w, 'p) wk" where
  "winc1500_socket_init = upd_app (\<lambda>a. a\<lparr>winc1500_socks :=
     map2 (\<lambda>i x. x\<lparr>ws_idx := of_nat i, ws_rx := []\<rparr>) [0..<length (winc1500_socks a)] (winc1500_socks a)\<rparr>)"

end
