(* ===== verification/Winc_Props.thy ===== *)
theory Winc_Props
  imports Winc_Socket Sock_Props
begin

text \<open>
  Properties of the socket provider: the invariant it keeps together with the socket layer, the
  balance of its mutex, sending of chains, queueing of received data, and error codes.
\<close>

subsection \<open>The invariant of the provider and the layer below it\<close>

text \<open>\<open>d\<close>: how often the mutex is held.\<close>

definition winc_inv :: "int \<Rightarrow> ('w, 'p) wk \<Rightarrow> bool" where
  "winc_inv d s \<longleftrightarrow> sock_inv s \<and> map ws_idx (winc1500_socks (app_st s)) = map of_nat [0..<MAX_SOCKET] \<and> wi_mtx (app_st s) = d"

interpretation winc: sk_inv "winc_inv d :: ('w, 'p) wk \<Rightarrow> bool" for d
proof
  show "winc_inv d s'" if "winc_inv d s" "gastrSockets s' = gastrSockets s" "app_st s' = app_st s"
    for s s' :: "('w, 'p) wk"
    using that by (simp add: winc_inv_def sock_inv_def)
  show "good x" if "winc_inv d s" "x \<in> set (gastrSockets s)" for s :: "('w, 'p) wk" and x
    using that table.S_good by (auto simp: winc_inv_def)
  show "winc_inv d (s\<lparr>gastrSockets := (gastrSockets s)[i := x]\<rparr>)" if "winc_inv d s" "good x"
    for s :: "('w, 'p) wk" and i x
    using that table.S_update by (auto simp: winc_inv_def)
  show "winc_inv d (s\<lparr>gastrSockets := replicate MAX_SOCKET zero_socket\<rparr>)" if "winc_inv d s" for s :: "('w, 'p) wk"
    using that table.S_zero by (auto simp: winc_inv_def)
qed

lemma winc_upd_app:
  "winc_inv d s \<Longrightarrow> map ws_idx (winc1500_socks (f (app_st s))) = map ws_idx (winc1500_socks (app_st s)) \<Longrightarrow>
     wi_mtx (f (app_st s)) = wi_mtx (app_st s) \<Longrightarrow> winc_inv d (upd_app f s)"
  by (simp add: winc_inv_def upd_app_def sock_inv_def)

lemma winc_pend: "winc_inv d s \<Longrightarrow> winc_inv (d + 1) (os_mutex_pend s)"
  and winc_release: "winc_inv d s \<Longrightarrow> winc_inv (d - 1) (os_mutex_release s)"
  by (simp_all add: winc_inv_def os_mutex_pend_def os_mutex_release_def upd_app_def sock_inv_def)

lemma winc_upd_ws: "winc_inv d s \<Longrightarrow> (\<And>x. ws_idx (f x) = ws_idx x) \<Longrightarrow> opt_in (winc_inv d) (upd_ws i f s)"
  by (auto simp: opt_in_def upd_ws_def get_ws_def mem_read_def bind_eq_Some_conv map_update list_update_same_conv
      intro!: winc_upd_app split: if_splits)

lemma winc_upd_mb: "winc_inv d s \<Longrightarrow> opt_in (winc_inv d) (upd_mb m f s)"
  and winc_free: "winc_inv d s \<Longrightarrow> opt_in (winc_inv d) (os_mbuf_free v m s)"
  by (auto simp: opt_in_def upd_mb_def os_mbuf_free_def bind_eq_Some_conv intro!: winc_upd_app)

lemma winc_msys_get: "winc_inv d s \<Longrightarrow> winc_inv d (snd (os_msys_get v hdr n s))"
  by (auto simp: os_msys_get_def intro!: winc_upd_app split: prod.split option.split)

lemma winc_free_chain_Some:
  assumes "os_mbuf_free_chain v m s = Some s'"
  shows "winc_inv d s \<longrightarrow> winc_inv d s'"
proof (rule os_mbuf_free_chain.raw_induct [OF _ assms], goal_cases)
  case (1 f v m s s')
  then show ?case
    using winc_free [of d s v m] by (auto simp: bind_eq_Some_conv split: if_splits)
qed

lemma winc_free_chain: "winc_inv d s \<Longrightarrow> opt_in (winc_inv d) (os_mbuf_free_chain v m s)"
  using winc_free_chain_Some unfolding opt_in_def by blast

lemma winc_free_queue: "winc_inv d s \<Longrightarrow> opt_in (winc_inv d) (free_queue v q s)"
  by (induction q arbitrary: s) (auto intro!: opt_in_seq winc_free_chain)

text \<open>For the loops: what holds of every result holds of this one.\<close>

lemma all_in_result: "r = Some y \<Longrightarrow> all_in S r \<Longrightarrow> S (snd y)"
  by (cases y) (simp add: all_in_def)

lemma all_inI: "(\<And>y. r = Some y \<Longrightarrow> S (snd y)) \<Longrightarrow> all_in S r"
  by (fastforce simp: all_in_def)

lemma all_in_bind_step:
  "all_in S r \<Longrightarrow> (\<And>c s. S s \<Longrightarrow> all_in T (k c s)) \<Longrightarrow> all_in T (Option.bind r (\<lambda>(c, s). k c s))"
  by (cases r) (auto simp: all_in_def)

lemma all_in_after: "opt_in S r \<Longrightarrow> (\<And>s. S s \<Longrightarrow> all_in T (k s)) \<Longrightarrow> all_in T (Option.bind r k)"
  by (cases r) simp_all

lemma winc_alloc_loop_Some:
  assumes "rx_alloc_loop v m need s = Some y"
  shows "winc_inv d s \<longrightarrow> winc_inv d (snd y)"
proof (rule rx_alloc_loop.raw_induct [OF _ assms], goal_cases)
  case (1 f v m need s y)
  show ?case
  proof (intro impI, rule all_in_result [OF 1(2)])
    assume "winc_inv d s"
    then have n: "winc_inv d s'" if "os_msys_get v False need s = (n, s')" for n s'
      using winc_msys_get [of d s v False need] that by simp
    have IH: "all_in (winc_inv d) (f a b c e)" if "winc_inv d e" for a b c e
      using 1(1) that by (intro all_inI) blast
    show "all_in (winc_inv d) (if need > 0
      then (case os_msys_get v False need s of (n, s) \<Rightarrow>
        if n \<noteq> 0
        then Option.bind (upd_mb m (om_next_update (\<lambda>_. n)) s) (\<lambda>s.
             Option.bind (get_mb n s) (\<lambda>b. f v n (need - uint (trailing_space v b)) s))
        else Some (False, s))
      else Some (True, s))"
      by (cases "os_msys_get v False need s")
        (simp add: \<open>winc_inv d s\<close> n, intro impI all_in_after [OF winc_upd_mb] all_in_bind IH, simp_all add: n)
  qed
qed

lemma winc_alloc_loop: "winc_inv d s \<Longrightarrow> all_in (winc_inv d) (rx_alloc_loop v m need s)"
  using winc_alloc_loop_Some by (intro all_inI) blast

lemma winc_send: "winc_inv d s \<Longrightarrow> send e sock buf len s = Some (rc, s1) \<Longrightarrow> winc_inv d s1"
  using all_inD [OF _ winc.inv_simple_requests(5)] by blast

lemma winc_tx_loop_Some:
  assumes "stream_tx_loop v i s = Some y"
  shows "winc_inv d s \<longrightarrow> winc_inv d (snd y)"
proof (rule stream_tx_loop.raw_induct [OF _ assms], goal_cases)
  case (1 f v i s y)
  show ?case
  proof (intro impI, rule all_in_result [OF 1(2)])
    assume s: "winc_inv d s"
    have IH: "all_in (winc_inv d) (f v i s)" if "winc_inv d s" for s
      using 1(1) that by (intro all_inI) blast
    show "all_in (winc_inv d) (Option.bind (get_ws i s) (\<lambda>ws.
       if ws_tx ws = 0 then Some (0, s)
       else Option.bind (get_mb (ws_tx ws) s) (\<lambda>m.
            Option.bind (send (wv_sock v) (uint (ws_idx ws)) (Some (user_mem s (om_data m))) (om_len m) s) (\<lambda>(rc, s).
              if rc = 0
              then Option.bind (upd_ws i (ws_tx_update (\<lambda>_. om_next m)) s) (\<lambda>s.
                   Option.bind (os_mbuf_free v (ws_tx ws) s) (f v i))
              else Some (rc, s)))))"
      by (intro all_in_bind all_in_if all_in_bind_pair winc.inv_simple_requests s
          all_in_after [OF winc_upd_ws] all_in_after [OF winc_free] IH) (simp_all add: s)
  qed
qed

lemma winc_tx_loop: "winc_inv d s \<Longrightarrow> all_in (winc_inv d) (stream_tx_loop v i s)"
  using winc_tx_loop_Some by (intro all_inI) blast

lemma winc_copy_chain_Some:
  assumes "copy_chain o1 off s = Some y"
  shows "winc_inv d s \<longrightarrow> winc_inv d (snd y)"
proof (rule copy_chain.raw_induct [OF _ assms], goal_cases)
  case (1 f o1 off s y)
  show ?case
  proof (intro impI, rule all_in_result [OF 1(2)])
    assume s: "winc_inv d s"
    have IH: "all_in (winc_inv d) (f a b s)" if "winc_inv d s" for a b s
      using 1(1) that by (intro all_inI) blast
    show "all_in (winc_inv d) (if o1 = 0 then Some (Inr off, s)
      else Option.bind (get_mb o1 s) (\<lambda>m.
        if off + unat (om_len m) > WINC1500_SOCK_RX_SIZE then Some (Inl (), s)
        else Option.bind (mem_slice (user_mem s (om_data m)) 0 (unat (om_len m))) (\<lambda>bytes.
          f (om_next m) (off + unat (om_len m))
            (upd_app (\<lambda>a. a\<lparr>tx_buf := take off (tx_buf a) @ bytes @ drop (off + unat (om_len m)) (tx_buf a)\<rparr>) s))))"
      by (intro all_in_if all_in_bind IH winc_upd_app s) (simp_all add: s)
  qed
qed

lemma winc_copy_chain: "winc_inv d s \<Longrightarrow> all_in (winc_inv d) (copy_chain o1 off s)"
  using winc_copy_chain_Some by (intro all_inI) blast

subsection \<open>The operations keep the invariant\<close>

text \<open>
  The operating system keeps the invariant while an application callback runs, and while a task waits
  on a semaphore and the others run.
\<close>

definition os_keeps :: "('w, 'p) wenv \<Rightarrow> bool" where
  "os_keeps v \<longleftrightarrow> (\<forall>d s. winc_inv d s \<longrightarrow>
     (\<forall>ev. opt_in (winc_inv d) (notify_app v ev s)) \<and> (\<forall>i. all_in (winc_inv d) (sem_pend v i s)))"

lemma os_notify: "os_keeps v \<Longrightarrow> winc_inv d s \<Longrightarrow> opt_in (winc_inv d) (notify_app v ev s)"
  and os_wait: "os_keeps v \<Longrightarrow> winc_inv d s \<Longrightarrow> all_in (winc_inv d) (sem_pend v i s)"
  by (simp_all add: os_keeps_def)

lemma winc_balance: "winc_inv d s \<Longrightarrow> winc_inv d (os_mutex_pend (os_mutex_release s))"
  using winc_pend [of "d - 1"] winc_release by fastforce

lemma winc_unlock: "winc_inv (d + 1) s \<Longrightarrow> winc_inv d (os_mutex_release s)"
  using winc_release by fastforce

lemmas sock_ops = winc.inv_simple_requests winc.inv_socket winc.inv_close

lemma winc_wait: "os_keeps v \<Longrightarrow> winc_inv (d + 1) s \<Longrightarrow> all_in (winc_inv (d + 1)) (winc1500_sock_wait v i s)"
  unfolding winc1500_sock_wait_def Let_def
proof (intro all_in_after [OF winc_upd_ws], assumption, simp)
  fix s :: "('a, 'b) wk"
  assume v: "os_keeps v" and s: "winc_inv (d + 1) s"
  have "all_in (winc_inv d) (sem_pend v i (os_mutex_release s))" using os_wait [OF v winc_unlock [OF s]] .
  then show "all_in (winc_inv (d + 1)) (do {
     (timeout, s) \<leftarrow> sem_pend v i (os_mutex_release s);
     s \<leftarrow> upd_ws i (ws_waiting_update (\<lambda>_. False)) (os_mutex_pend s);
     (if timeout then Some (mn_errno v MN_ETIMEDOUT, s)
      else do {
        ws \<leftarrow> get_ws i s;
        s \<leftarrow> upd_ws i (ws_err_update (\<lambda>_. 0)) s;
        Some (winc1500_err_to_mn_err v (uint (ws_err ws)), s) }) })"
    by (elim all_in_bind_step) 
      (intro all_in_after [OF winc_upd_ws] all_in_if all_in_bind; simp add: winc_pend)
qed

text \<open>Rules for one step of an operation at a time.\<close>

lemma all_in_get:
  "(\<And>x. all_in S (k x)) \<Longrightarrow> all_in S (Option.bind (get_ws i s) k)"
  "(\<And>x. all_in S (k' x)) \<Longrightarrow> all_in S (Option.bind (get_mb m s) k')"
  by (rule all_in_bind; simp)+

lemma opt_in_get:
  "(\<And>x. opt_in S (k x)) \<Longrightarrow> opt_in S (Option.bind (get_ws i s) k)"
  "(\<And>x. opt_in S (k' x)) \<Longrightarrow> opt_in S (Option.bind (get_mb m s) k')"
  by (rule opt_in_bind; simp)+

lemmas step_ws = all_in_after [OF winc_upd_ws] and step_free = all_in_after [OF winc_free_queue] all_in_after [OF winc_free_chain]
  and step_mb = all_in_after [OF winc_upd_mb]

lemma winc_create:
  assumes s: "winc_inv d s" and r: "winc1500_sock_create v domain ty s = Some (rc, i, s')"
  shows "winc_inv d s'"
proof -
  have *: "winc_inv d (os_mutex_release s1)" "upd_ws j (\<lambda>x. x\<lparr>ws_sem := 0, ws_tgt := zero_mn_addr, ws_waiting := False, ws_err := 0, ws_type := t\<rparr>) s1 = Some s2 \<Longrightarrow>
      winc_inv d (os_mutex_release s2)"
    if "socket (wv_sock v) AF_INET t 0 (os_mutex_pend s) = Some (idx, s1)" for t idx s1 s2 j
  proof -
    have s1: "winc_inv (d + 1) s1" using all_inD [OF that winc.inv_socket] winc_pend [OF s] .
    then show "winc_inv d (os_mutex_release s1)" by (rule winc_unlock)
    show "winc_inv d (os_mutex_release s2)"
      if "upd_ws j (\<lambda>x. x\<lparr>ws_sem := 0, ws_tgt := zero_mn_addr, ws_waiting := False, ws_err := 0, ws_type := t\<rparr>) s1 = Some s2"
      using opt_inD [OF that winc_upd_ws [OF s1]] by (simp add: winc_unlock)
  qed
  show ?thesis
    using r s * by (auto simp: winc1500_sock_create_def Let_def bind_eq_Some_conv simp del: One_nat_def split: if_splits)
qed

lemma winc_close:
  assumes s: "winc_inv d s"
  shows "all_in (winc_inv d) (winc1500_sock_close v i s)"
  unfolding winc1500_sock_close_def
  by (intro all_in_get all_in_bind_step [OF winc.inv_close [OF winc_pend [OF s]]] step_ws step_free)
    (auto intro: winc_unlock)

lemma winc_finish:
  "os_keeps v \<Longrightarrow> winc_inv (d + 1) s \<Longrightarrow> all_in (winc_inv d) (finish_sync v i (rc, s))"
  unfolding finish_sync_def prod.case
  by (rule all_in_bind_step [where S = "winc_inv (d + 1)"]) (auto intro: winc_wait winc_unlock)

lemma winc_sync:
  assumes v: "os_keeps v" and r: "all_in (winc_inv (d + 1)) r"
  shows "all_in (winc_inv d) (Option.bind r (finish_sync v i))"
  using r winc_finish [OF v] by (cases r) (auto simp: all_in_def)

lemma winc_bind: "os_keeps v \<Longrightarrow> winc_inv d s \<Longrightarrow> all_in (winc_inv d) (winc1500_sock_bind v i addr s)"
  unfolding winc1500_sock_bind_def
  by (auto split: sum.split intro!: all_in_get winc_sync sock_ops winc_pend simp del: bind_split)

lemma winc_listen: "os_keeps v \<Longrightarrow> winc_inv d s \<Longrightarrow> all_in (winc_inv d) (winc1500_sock_listen v i q s)"
  unfolding winc1500_sock_listen_def
  by (intro all_in_get winc_sync sock_ops winc_pend)

lemma winc_connect:
  assumes s: "winc_inv d s"
  shows "all_in (winc_inv d) (winc1500_sock_connect v i addr s)"
proof (cases "winc1500_mn_addr_to_addr v addr")
  case (Inr sin)
  have *: "all_in (winc_inv d) (do {
          (rc, s) \<leftarrow> (if c then connect (wv_sock v) j (Some sin) 8 (os_mutex_pend s) else Some (SOCK_ERR_INVALID, os_mutex_pend s));
          s \<leftarrow> upd_ws i (ws_poll_update (\<lambda>_. True)) s;
          Some (winc1500_err_to_mn_err v rc, os_mutex_release s) })" if "winc_inv d s" for c j s
    using that by (intro all_in_bind_step [where S = "winc_inv (d + 1)"] all_in_if sock_ops step_ws winc_pend)
      (auto intro: winc_pend winc_unlock)
  show ?thesis
    unfolding winc1500_sock_connect_def Let_def Inr sum.case
    by (intro all_in_get step_ws s *) (simp_all add: s)
qed (simp add: winc1500_sock_connect_def s)

lemma winc_stream_tx: "os_keeps v \<Longrightarrow> winc_inv d s \<Longrightarrow> all_in (winc_inv d) (winc1500_stream_tx v i n s)"
  unfolding winc1500_stream_tx_def Let_def
  by (rule all_in_bind_step [OF winc_tx_loop [OF winc_pend]], assumption)
    (intro all_in_get all_in_after [where S = "winc_inv d"], auto intro: os_notify winc_unlock)

lemma winc_sendto_send:
  assumes s: "winc_inv (d + 1) s"
  shows "all_in (winc_inv d) (case r of Inl _ \<Rightarrow> Some (mn_errno v MN_EINVAL, os_mutex_release s) | Inr off \<Rightarrow> do {
      (rc, s) \<leftarrow> sendto e j (Some (tx_buf (app_st s))) (of_nat off) (Some sin) s;
      (if rc \<noteq> 0 then Some (winc1500_err_to_mn_err v rc, os_mutex_release s)
       else if c then map_option (\<lambda>s. (0, s)) (os_mbuf_free_chain v m (os_mutex_release s))
       else Some (rc, os_mutex_release s)) })"
proof (cases r)
  case (Inr off)
  have *: "all_in (winc_inv d) (map_option (\<lambda>s. (0, s)) (os_mbuf_free_chain v m (os_mutex_release s)))" if "winc_inv (d + 1) s" for s
    using opt_inD [OF _ winc_free_chain [OF winc_unlock [OF that]]] by (auto simp: all_in_def)
  show ?thesis
    unfolding Inr sum.case
    by (rule all_in_bind_step [OF winc.inv_simple_requests(6) [OF s]]) (auto intro: winc_unlock *)
qed (simp add: winc_unlock [OF s])

lemma winc_sendto:
  assumes v: "os_keeps v" and s: "winc_inv d s"
  shows "all_in (winc_inv d) (winc1500_sock_sendto v i m dst s)"
proof -
  have *: "all_in (winc_inv d) (case winc1500_mn_addr_to_addr v addr of Inl rc \<Rightarrow> Some (rc, s) | Inr sin \<Rightarrow> do {
     (r, s) \<leftarrow> copy_chain m 0 (os_mutex_pend s);
     (case r of Inl _ \<Rightarrow> Some (mn_errno v MN_EINVAL, os_mutex_release s) | Inr off \<Rightarrow> do {
      (rc, s) \<leftarrow> sendto (wv_sock v) j (Some (tx_buf (app_st s))) (of_nat off) (Some sin) s;
      (if rc \<noteq> 0 then Some (winc1500_err_to_mn_err v rc, os_mutex_release s)
       else if c then map_option (\<lambda>s. (0, s)) (os_mbuf_free_chain v m (os_mutex_release s))
       else Some (rc, os_mutex_release s)) }) })" for addr j c
    by (cases "winc1500_mn_addr_to_addr v addr")
      (simp_all add: s, intro all_in_bind_step [OF winc_copy_chain [OF winc_pend [OF s]]] winc_sendto_send)
  have dst: "all_in (winc_inv d) (Option.bind dst (\<lambda>addr. k addr))" if "\<And>a. all_in (winc_inv d) (k a)" for k :: "mn_sockaddr_in \<Rightarrow> (int \<times> _) option"
    using that by (intro all_in_bind)
  show ?thesis
    unfolding winc1500_sock_sendto_def Let_def
    by (intro all_in_get all_in_if step_ws winc_stream_tx v dst *) (simp_all add: s)
qed

lemma winc_recvfrom:
  assumes s: "winc_inv d s" and r: "winc1500_sock_recvfrom v i want s = Some (rc, m, a, s')"
  shows "winc_inv d s'"
proof -
  have *: "winc_inv d (os_mutex_release s1)" if "upd_ws i (ws_rx_update (\<lambda>_. ms)) (os_mutex_pend s) = Some s1" for ms s1
    using opt_inD [OF that winc_upd_ws [OF winc_pend [OF s]]] by (simp add: winc_unlock)
  from r obtain ws where ws: "get_ws i (os_mutex_pend s) = Some ws"
    unfolding winc1500_sock_recvfrom_def Let_def by (elim bind_SomeE) simp
  show ?thesis
  proof (cases "ws_rx ws")
    case Nil
    with r ws show ?thesis by (auto simp: winc1500_sock_recvfrom_def intro: winc_unlock winc_pend s)
  next
    case (Cons m' ms)
    with r ws * show ?thesis by (auto simp: winc1500_sock_recvfrom_def bind_eq_Some_conv Let_def)
  qed
qed

lemma winc_setsockopt: "winc_inv d s \<Longrightarrow> all_in (winc_inv d) (winc1500_sock_setsockopt v i level name family grp s)"
  unfolding winc1500_sock_setsockopt_def
  by (intro all_in_if all_in_get all_in_bind_step [OF winc.inv_simple_requests(10) [OF winc_pend]])
    (auto intro: winc_unlock)

lemma winc_flow: "winc_inv d s \<Longrightarrow> winc_inv d (hif_flow_ctrl b s)"
  by (simp add: winc_inv_def hif_flow_ctrl_def sock_inv_def)

lemma winc_set:
  assumes "winc_inv d s"
  shows "winc_inv d (upd_app (\<lambda>a. a\<lparr>polling := b\<rparr>) s)" "winc_inv d (upd_app (\<lambda>a. a\<lparr>rx_buf := m\<rparr>) s)"
    "winc_inv d (upd_app (\<lambda>a. a\<lparr>cur_buf := m, polling := b\<rparr>) s)"
  by (intro winc_upd_app assms; simp)+

lemma all_in_case: "all_in S a \<Longrightarrow> (\<And>x. all_in S (b x)) \<Longrightarrow> all_in S (case r of None \<Rightarrow> a | Some x \<Rightarrow> b x)"
  by (cases r) simp_all

lemma winc_rx_alloc: "winc_inv d s \<Longrightarrow> all_in (winc_inv d) (rx_alloc v s)"
proof -
  assume s: "winc_inv d s"
  have *: "all_in (winc_inv d) (if m = 0 then Some (False, s)
        else do {
          b \<leftarrow> get_mb m s;
          (ok, s) \<leftarrow> rx_alloc_loop v m (int WINC1500_SOCK_RX_SIZE - uint (trailing_space v b))
                     (upd_app (\<lambda>a. a\<lparr>rx_buf := m\<rparr>) s);
          (if ok then Some (True, s)
           else do {
             s \<leftarrow> os_mbuf_free_chain v m s;
             Some (False, upd_app (\<lambda>a. a\<lparr>rx_buf := 0\<rparr>) s) }) })" if "winc_inv d s" for m s
    by (intro all_in_if all_in_get all_in_bind_step [OF winc_alloc_loop] winc_set that step_free) (auto intro: winc_set that)
  have "winc_inv d (snd (os_msys_get v True (int WINC1500_SOCK_RX_SIZE) s))" by (rule winc_msys_get [OF s])
  then show ?thesis
    using * s by (cases "os_msys_get v True (int WINC1500_SOCK_RX_SIZE) s") (simp add: rx_alloc_def)
qed

lemma winc_start_rx: "winc_inv d s \<Longrightarrow> all_in (winc_inv d) (winc1500_sock_start_rx v i cont s)"
proof (unfold winc1500_sock_start_rx_def Let_def, rule all_in_bind_step [OF winc_rx_alloc [OF winc_set(1)]], assumption)
  fix ok and s :: "('a, 'b) wk"
  assume s: "winc_inv d s"
  have start: "all_in (winc_inv d) (do {
     m \<leftarrow> r;
     b \<leftarrow> get_mb m (hif_flow_ctrl False s);
     (rc, s) \<leftarrow> recvfrom (wv_sock v) j (om_data b) (trailing_space v b) 1 (hif_flow_ctrl False s);
     (if rc = 0 then Some (0, upd_app (\<lambda>a. a\<lparr>cur_buf := m, polling := True\<rparr>) s) else Some (-1, s)) })" for r j
    by (cases r) (simp_all, intro all_in_get all_in_bind_step [OF winc.inv_simple_requests(8) [OF winc_flow [OF s]]],
        simp add: winc_set)
  show "all_in (winc_inv d) (if \<not> ok then Some (-1, hif_flow_ctrl True s)
      else case first_polled (drop i (winc1500_socks (app_st (hif_flow_ctrl False s)))) i of
             None \<Rightarrow> Some (0, hif_flow_ctrl False s)
           | Some i \<Rightarrow> do {
               m \<leftarrow> (if \<not> cont then Some (rx_buf (app_st (hif_flow_ctrl False s)))
                    else map_option om_next (get_mb (cur_buf (app_st (hif_flow_ctrl False s))) (hif_flow_ctrl False s)));
               b \<leftarrow> get_mb m (hif_flow_ctrl False s);
               (rc, s) \<leftarrow> recvfrom (wv_sock v) (int i) (om_data b) (trailing_space v b) 1 (hif_flow_ctrl False s);
               (if rc = 0 then Some (0, upd_app (\<lambda>a. a\<lparr>cur_buf := m, polling := True\<rparr>) s) else Some (-1, s)) })"
    by (intro all_in_if all_in_case start) (simp_all add: winc_flow s)
qed

lemma winc_poll: "winc_inv d s \<Longrightarrow> opt_in (winc_inv d) (winc1500_socket_poll v s)"
  using winc_start_rx [of d s v 0 False] by (auto simp: winc1500_socket_poll_def opt_in_def all_in_def)

subsection \<open>The callback keeps the invariant\<close>

lemma winc_wake: "winc_inv d s \<Longrightarrow> opt_in (winc_inv d) (winc1500_sock_wake i err s)"
  unfolding winc1500_sock_wake_def by (intro opt_in_get opt_in_if winc_upd_ws) simp_all

lemma winc_rx_chunk:
  assumes v: "os_keeps v" and s: "winc_inv d s"
  shows "all_in (winc_inv d) (rx_chunk v i msg s)"
proof -
  have last: "all_in (winc_inv d) (do {
        b \<leftarrow> get_mb m s;
        s \<leftarrow> (if om_next b \<noteq> 0
             then Option.bind (os_mbuf_free_chain v (om_next b) s) (upd_mb m (om_next_update (\<lambda>_. 0)))
             else Some s);
        s \<leftarrow> upd_ws i (ws_rx_update (\<lambda>q. q @ [rx])) (upd_app (\<lambda>a. a\<lparr>rx_buf := 0\<rparr>) s);
        s \<leftarrow> notify_app v (Readable i 0) s;
        Some (False, s) })" if s: "winc_inv d s" for m rx s
    by (intro all_in_get all_in_after [where S = "winc_inv d"] opt_in_if opt_in_seq [OF winc_free_chain]
        winc_upd_mb winc_upd_ws os_notify [OF v] winc_set) (simp_all add: s)
  show ?thesis
    unfolding rx_chunk_def Let_def
    by (intro all_in_if all_in_get step_mb all_in_after [where r = "if c then x else y" and S = "winc_inv d" for c x y]
        opt_in_if winc_upd_mb s last) (simp_all add: s)
qed

lemma winc_rx_message: "os_keeps v \<Longrightarrow> winc_inv d s \<Longrightarrow> opt_in (winc_inv d) (rx_message v i msg s)"
proof -
  assume v: "os_keeps v" and s: "winc_inv d s"
  have start: "opt_in (winc_inv d) (map_option snd (winc1500_sock_start_rx v idx cont s))" if "winc_inv d s" for idx cont s
    using winc_start_rx [OF that] by (auto simp: all_in_def opt_in_def)
  have closed: "opt_in (winc_inv d) (do {
          s \<leftarrow> upd_ws i (\<lambda>x. x\<lparr>ws_closed := True, ws_poll := False\<rparr>) s;
          s \<leftarrow> winc1500_sock_wake i c s;
          notify_app v (Readable i e) s })" for c e
    by (intro opt_in_seq [OF winc_upd_ws] opt_in_seq [OF winc_wake] os_notify [OF v] s) simp_all
  show ?thesis
    using start winc_rx_chunk [OF v s, of i msg] closed s
    by (auto simp: rx_message_def opt_in_def all_in_def bind_eq_Some_conv split: if_splits; blast)
qed

lemma winc_cb: "os_keeps v \<Longrightarrow> winc_inv d s \<Longrightarrow> opt_in (winc_inv d) (winc1500_sock_cb v sock msg s)"
proof -
  assume v: "os_keeps v" and s: "winc_inv d s"
  have tx: "opt_in (winc_inv d) (map_option snd (winc1500_stream_tx v i True s))" for i
    using winc_stream_tx [OF v s] by (auto simp: all_in_def opt_in_def)
  show ?thesis
    unfolding winc1500_sock_cb_def Let_def
    by (cases msg; simp only: sock_msg.case; intro opt_in_if opt_in_get opt_in_seq [OF winc_wake] opt_in_seq [OF winc_upd_ws]
        winc_upd_ws winc_wake os_notify winc_rx_message tx v s; simp add: s)
qed

lemma winc_cbs_keep: "os_keeps v \<Longrightarrow> cbs_keep (winc_inv d) (winc_cbs v)"
  by (simp add: cbs_keep_def winc_cbs_def winc_cb winc1500_resolve_cb_def)

subsection \<open>Steps of the provider\<close>

text \<open>
  Everything that can change the state: the calls of applications, the poll of the driver's task, and
  the replies of the firmware, which that task handles with the mutex held.
\<close>

inductive wk_step :: "('w, 'p) wenv \<Rightarrow> ('w, 'p) wk \<Rightarrow> ('w, 'p) wk \<Rightarrow> bool" for v where
  wst_create: "winc1500_sock_create v domain ty s = Some (rc, i, s') \<Longrightarrow> wk_step v s s'"
| wst_close: "winc1500_sock_close v i s = Some (rc, s') \<Longrightarrow> wk_step v s s'"
| wst_bind: "winc1500_sock_bind v i addr s = Some (rc, s') \<Longrightarrow> wk_step v s s'"
| wst_connect: "winc1500_sock_connect v i addr s = Some (rc, s') \<Longrightarrow> wk_step v s s'"
| wst_listen: "winc1500_sock_listen v i qlen s = Some (rc, s') \<Longrightarrow> wk_step v s s'"
| wst_sendto: "winc1500_sock_sendto v i m dst s = Some (rc, s') \<Longrightarrow> wk_step v s s'"
| wst_recvfrom: "winc1500_sock_recvfrom v i want s = Some (rc, m, a, s') \<Longrightarrow> wk_step v s s'"
| wst_setsockopt: "winc1500_sock_setsockopt v i level name family grp s = Some (rc, s') \<Longrightarrow> wk_step v s s'"
| wst_poll: "winc1500_socket_poll v s = Some s' \<Longrightarrow> wk_step v s s'"
| wst_reply: "m2m_ip_cb (wv_sock v) (winc_cbs v) op bufsize addr (os_mutex_pend s) = Some s' \<Longrightarrow>
    wk_step v s (os_mutex_release s')"
| wst_start: "wk_step v s (winc1500_socket_start p q r s)"

lemma wk_step_inv: "wk_step v s s' \<Longrightarrow> os_keeps v \<Longrightarrow> winc_inv d s \<Longrightarrow> winc_inv d s'"
proof (induction rule: wk_step.induct)
  case (wst_reply op bufsize addr s s')
  then show ?case
    using opt_inD [OF wst_reply(1) winc.inv_ip_cb] winc_cbs_keep winc_pend winc_unlock by blast
next
  case (wst_start s p q r)
  then show ?case by (simp add: winc1500_socket_start_def winc.inv_setup)
qed ((erule (1) winc_create [rotated] winc_recvfrom [rotated] |
    erule all_inD, rule winc_close winc_bind winc_connect winc_listen winc_sendto winc_setsockopt |
    erule opt_inD, rule winc_poll); assumption?)+

text \<open>
  Whatever applications call, whenever the driver polls and whatever the firmware replies
  after the start of the driver, the provider returns with its mutex released on every path,
  every socket of the provider keeps the number of its entry, and the table of the socket layer
  below stays well formed.
\<close>

theorem winc_mutex_balanced:
  assumes v: "os_keeps v"
    and s0: "gbSocketInit s0 = 0" "length (winc1500_socks (app_st s0)) = MAX_SOCKET" "wi_mtx (app_st s0) = 0"
    and steps: "(wk_step v)\<^sup>*\<^sup>* (winc1500_socket_start p q r (winc1500_socket_init s0)) s"
  shows "wi_mtx (app_st s) = 0 \<and> map ws_idx (winc1500_socks (app_st s)) = map of_nat [0..<MAX_SOCKET] \<and>
    length (gastrSockets s) = MAX_SOCKET \<and>
    (\<forall>x\<in>set (gastrSockets s). bIsUsed x = 0 \<or> bIsUsed x = 1 \<and> u16SessionID x \<noteq> 0)"
proof -
  let ?s = "winc1500_socket_start p q r (winc1500_socket_init s0)"
  have "map ws_idx (winc1500_socks (app_st (winc1500_socket_init s0))) = map of_nat [0..<MAX_SOCKET]"
    using s0(2) by (intro nth_equalityI) (simp_all add: winc1500_socket_init_def upd_app_def)
  then have "winc_inv 0 ?s"
    using s0 by (simp add: winc_inv_def winc1500_socket_start_def socketInit_def registerSocketCallback_def
        winc1500_socket_init_def upd_app_def hif_register_cb_def sock_inv_def list_all_iff good_def zero_socket_def)
  with steps have "winc_inv 0 s"
    by (induction rule: rtranclp_induct) (auto intro: wk_step_inv v)
  then show ?thesis by (simp add: winc_inv_def sock_inv_def list_all_iff good_def)
qed

subsection \<open>Concrete surroundings for the examples\<close>

text \<open>An operating system whose mbufs lie 2048 bytes apart and hold 1600 bytes each; nobody waits long.\<close>

definition os0 :: "'w env \<Rightarrow> ('w, u32) wenv" where
  "os0 e = \<lparr>wv_sock = e, mn_errno = (\<lambda>x. if x = MN_EAGAIN then 1 else if x = MN_ENOBUFS then 2 else if x = MN_EUNKNOWN then 3 else 4),
     mn_sockaddr_size = 8, MN_AF_INET = 4, MN_PF_INET = 4, MN_SOCK_DGRAM = 1, MN_SOCK_STREAM = 2, MN_SO_LEVEL = 0xfe,
     MN_MCAST_JOIN_GROUP = 1, MN_MCAST_LEAVE_GROUP = 2, MN_MCAST_IF = 3,
     msys_get = (\<lambda>hdr n p. (Some (p, p), p + 2048)), mbuf_release = (\<lambda>m p. p), trailing_space = (\<lambda>b. 1600 - om_len b),
     sem_pend = (\<lambda>i s. Some (True, s)), notify_app = (\<lambda>ev s. Some s)\<rparr>"

definition winc_sock0 :: winc1500_sock where
  "winc_sock0 = \<lparr>ws_tgt = zero_mn_addr, ws_sem = 0, ws_idx = 0, ws_waiting = False, ws_poll = False, ws_closed = False,
     ws_err = 0, ws_type = 0, ws_rx = [], ws_tx = 0\<rparr>"

definition winc0 :: "u32 winc" where
  "winc0 = \<lparr>winc1500_socks = replicate MAX_SOCKET winc_sock0, polling = False, rx_buf = 0, cur_buf = 0,
     tx_buf = replicate WINC1500_SOCK_RX_SIZE 0, wi_mtx = 0, w_up = False, w_plen = 0, w_addr = 0, w_scan_cnt = 0, w_scan_idx = 0,
     w_timer = False, wi_state = WIFI_OTHER 0, wi_ssid = [], wi_key = [], mbufs = Map.empty, pool = 4096\<rparr>"

lemma os0_keeps: "os_keeps (os0 e)"
  by (simp add: os_keeps_def os0_def)

theorem winc_mutex_balanced_witness:
  "\<exists>s. winc1500_sock_create (os0 (env0 (table_bus (\<lambda>_. 0) []))) 4 2
       (winc1500_socket_start 1 2 3 (winc1500_socket_init (sk0 (0 :: nat) winc0))) = Some (0, Some 0, s) \<and>
     wi_mtx (app_st s) = 0 \<and> map ws_idx (winc1500_socks (app_st s)) = map of_nat [0..<MAX_SOCKET]"
proof -
  let ?v = "os0 (env0 (table_bus (\<lambda>_. 0) []))" and ?i = "winc1500_socket_start 1 2 3 (winc1500_socket_init (sk0 (0 :: nat) winc0))"
  have i: "gastrSockets (os_mutex_pend ?i) = replicate MAX_SOCKET zero_socket" "gu16SessionID (os_mutex_pend ?i) = 0"
    "length (winc1500_socks (app_st ?i)) = MAX_SOCKET"
    by (simp_all add: winc1500_socket_start_def registerSocketCallback_def socketInit_def hif_register_cb_def
        winc1500_socket_init_def upd_app_def os_mutex_pend_def sk0_def winc0_def)
  from i(3) have ne: "winc1500_socks (app_st ?i) \<noteq> []" by (auto simp: sock_max_defs)
  have "\<exists>s. winc1500_sock_create ?v 4 2 ?i = Some (0, Some 0, s)"
    using socket_fresh [OF i(1,2), of "env0 (table_bus (\<lambda>_. 0) [])"] ne
    by (simp add: winc1500_sock_create_def Let_def os0_def SOCK_STREAM_def AF_INET_def upd_ws_def get_ws_def mem_read_def
        os_mutex_pend_def upd_app_def sock_max_defs)
  then obtain s where s: "winc1500_sock_create ?v 4 2 ?i = Some (0, Some 0, s)" by blast
  then have "(wk_step ?v)\<^sup>*\<^sup>* ?i s" by (intro r_into_rtranclp wst_create)
  from winc_mutex_balanced [OF os0_keeps _ _ _ this] s show ?thesis
    by (simp add: sk0_def winc0_def)
qed

end
