(* ===== verification/Winc_Tx.thy ===== *)
theory Winc_Tx
  imports Winc_Props Sock_Wire
begin

text \<open>
  Sending over a stream socket, from the chain of mbufs down to the writes on the bus, and what
  becomes of a chain that the chip does not take.
\<close>

subsection \<open>Requests return and only add to the log of the bus\<close>

text \<open>Every access returns, with some result; a block write needs its bytes.\<close>

definition answering :: "'w nm_bus \<Rightarrow> bool" where
  "answering bus \<longleftrightarrow> (\<forall>a w. \<exists>r v w'. b_rreg bus a w = Some (r, Some v, w')) \<and> (\<forall>a x w. b_wreg bus a x w \<noteq> None) \<and>
     (\<forall>a b n w. unat n \<le> length b \<longrightarrow> b_wblk bus a b n w \<noteq> None)"

lemma answeringE:
  assumes "answering bus"
  obtains r v w' where "b_rreg bus a w = Some (r, Some v, w')"
  using assms unfolding answering_def by blast

lemma answering_wreg:
  assumes "answering bus"
  obtains r w' where "b_wreg bus a x w = Some (r, w')"
  using assms unfolding answering_def by (metis not_None_eq surj_pair)

lemma answering_wblk:
  assumes "answering bus" "unat n \<le> length b"
  obtains r w' where "b_wblk bus a b n w = Some (r, w')"
  using assms unfolding answering_def by (metis not_None_eq surj_pair)

definition logs :: "access list \<Rightarrow> (int \<times> ('w \<times> access list, 'z) hif_scheme) option \<Rightarrow> bool" where
  "logs l r \<longleftrightarrow> returns r (\<lambda>(ret, h). \<exists>l'. snd (bus_st h) = l @ l')"

lemma logs_Some [simp]: "logs l (Some (ret, h)) \<longleftrightarrow> (\<exists>l'. snd (bus_st h) = l @ l')"
  by (simp add: logs_def)

lemma logs_on_ok: "logs l r \<Longrightarrow> (\<And>h. \<exists>l'. snd (bus_st h) = l @ l' \<Longrightarrow> logs l (k h)) \<Longrightarrow> logs l (on_ok r k)"
  by (auto simp: logs_def returns_def on_ok_def)

lemma logs_wr: "answering bus \<Longrightarrow> \<exists>l'. snd (bus_st h) = l @ l' \<Longrightarrow> logs l (wr_reg (logged bus) a x h)"
  by (cases "bus_st h"; rule answering_wreg [of bus a x "fst (bus_st h)"]) (auto simp: wr_reg_def logged_def)

lemma logs_wrb:
  assumes "answering bus" "\<exists>l'. snd (bus_st h) = l @ l'" "n \<le> length b"
  shows "logs l (wr_block (logged bus) a b n h)"
proof -
  obtain w k where w: "bus_st h = (w, k)" by (cases "bus_st h")
  have "unat (of_nat n :: u32) \<le> length b" using assms(3) by (simp add: unat_of_nat le_trans [OF mod_less_eq_dividend])
  then obtain r w' where "b_wblk bus a b (of_nat n) w = Some (r, w')" using answering_wblk [OF assms(1)] by blast
  with assms(2) show ?thesis by (auto simp: wr_block_def logged_def w)
qed

lemma logs_on_val:
  assumes "answering bus" "\<exists>l'. snd (bus_st h) = l @ l'" "\<And>v h. \<exists>l'. snd (bus_st h) = l @ l' \<Longrightarrow> logs l (k v h)"
  shows "logs l (on_val (rd_reg (logged bus) a h) k)"
proof -
  obtain w l1 where w: "bus_st h = (w, l1)" by (cases "bus_st h")
  obtain r v w' where "b_rreg bus a w = Some (r, Some v, w')" using answeringE [OF assms(1)] by blast
  with assms(2,3) show ?thesis by (auto simp: on_val_def rd_reg_def logged_def w)
qed

lemma if_logs: "(c \<Longrightarrow> logs l a) \<Longrightarrow> (\<not> c \<Longrightarrow> logs l b) \<Longrightarrow> logs l (if c then a else b)"
  by simp

lemma logs_sleep:
  assumes "answering bus" "\<exists>l'. snd (bus_st h) = l @ l'"
  shows "logs l (hif_chip_sleep (logged bus) h)"
proof -
  have *: "logs l (on_ok (wr_reg (logged bus) WAKE_REG SLEEP_VALUE h1) (\<lambda>h.
                on_val (rd_reg (logged bus) 0x1 h) (\<lambda>reg h.
                  if reg AND 0x2 \<noteq> 0 then wr_reg (logged bus) 0x1 (reg AND NOT (push_bit 1 1)) h
                  else Some (M2M_SUCCESS, h))))" if "\<exists>l'. snd (bus_st h1) = l @ l'" for h1
    using that assms(1) by (intro logs_on_ok logs_wr logs_on_val) (auto intro: logs_wr)
  show ?thesis
    unfolding hif_chip_sleep_def Let_def by (intro if_logs *) (simp_all add: assms(2))
qed

lemma logs_poll:
  assumes "answering bus"
  shows "\<exists>l'. snd (bus_st h) = l @ l' \<Longrightarrow> \<exists>d h'. dma_poll (logged bus) n h = Some (d, h') \<and> (\<exists>l'. snd (bus_st h') = l @ l')"
proof (induction n arbitrary: h)
  case (Suc n)
  have rd: "\<exists>r v h'. rd_reg (logged bus) a h = Some (r, Some v, h') \<and> (\<exists>l'. snd (bus_st h') = l @ l')"
    if "\<exists>l'. snd (bus_st h) = l @ l'" for a and h :: "('a \<times> access list, 'b) hif_scheme"
  proof -
    obtain w l1 where w: "bus_st h = (w, l1)" by (cases "bus_st h")
    obtain r v w' where "b_rreg bus a w = Some (r, Some v, w')" using answeringE [OF assms] by blast
    with that show ?thesis by (auto simp: rd_reg_def logged_def w)
  qed
  obtain r v h1 where 1: "rd_reg (logged bus) WIFI_HOST_RCV_CTRL_2 h = Some (r, Some v, h1)" "\<exists>l'. snd (bus_st h1) = l @ l'"
    using rd [OF Suc.prems] by blast
  obtain r2 v2 h2 where "rd_reg (logged bus) 0x150400 h1 = Some (r2, Some v2, h2)" "\<exists>l'. snd (bus_st h2) = l @ l'"
    using rd [OF 1(2)] by blast
  with 1 Suc.IH [OF 1(2)] show ?case by auto
qed simp

lemma hif_send_logs:
  assumes ans: "answering bus" and awake: "stays_awake h" and st: "length stack = 4"
    and c: "\<And>b. ctrl = Some b \<Longrightarrow> unat csz \<le> length b" and d: "\<And>b. data = Some b \<Longrightarrow> unat dsz \<le> length b"
  shows "logs (snd (bus_st h)) (hif_send (logged bus) junk stack gid op ctrl csz data dsz off h)"
proof -
  let ?S = "\<lambda>h'. \<exists>l'. snd (bus_st h') = snd (bus_st h) @ l'"
  have poll: "logs (snd (bus_st h)) (case dma_poll (logged bus) 1000 h1 of None \<Rightarrow> None
       | Some (d, h) \<Rightarrow> if d = 0 then Some (M2M_ERR_MEM_ALLOC, h) else k d h)"
    if "?S h1" "\<And>d h'. ?S h' \<Longrightarrow> logs (snd (bus_st h)) (k d h')" for h1 k
    using logs_poll [OF ans that(1), of 1000] that(2) by auto
  have opt: "logs (snd (bus_st h)) (case b of Some x \<Rightarrow> wr_block (logged bus) a x n h1 | None \<Rightarrow> Some (M2M_SUCCESS, h1))"
    if "?S h1" "\<And>x. b = Some x \<Longrightarrow> n \<le> length x" for a b n h1
    using that logs_wrb [OF ans that(1)] by (auto split: option.split)
  have hdr: "M2M_HIF_HDR_OFFSET \<le> length (hif_header stack gid op n)" for n
    by (simp add: hif_header_def M2M_HIF_HDR_OFFSET_def st)
  show ?thesis
    unfolding hif_send_def Let_def wake_awake [OF awake] on_ok_Some
    by (intro logs_on_ok poll logs_wr logs_wrb opt logs_sleep ans hdr) (auto dest: c d)
qed

lemma send_returns:
  assumes ans: "answering bus" and bus: "ev_bus e = logged bus" and awake: "stays_awake s" and st: "length (ev_stack e) = 4"
    and x: "get_sock sock s = Some x" "bIsUsed x = 1" "\<not> ssl_active x" "sock < int TCP_SOCK_MAX"
    and len: "unat len \<le> length data"
  shows "\<exists>rc s' l. send e sock (Some data) len s = Some (rc, s') \<and> snd (bus_st s') = snd (bus_st s) @ l"
proof (cases "len > SOCKET_BUFFER_MAX_LENGTH")
  case True
  then show ?thesis by (auto simp: send_def if_used_def)
next
  case False
  have "0 \<le> sock" using x(1) by (auto simp: get_sock_def split: if_splits)
  have "logs (snd (bus_st s)) (hif_send (logged bus) (ev_junk e) (ev_stack e) M2M_REQ_GROUP_IP op (Some c)
      (of_nat (length c)) (Some data) len off s)" for op c off
    by (rule hif_send_logs [OF ans awake st]) (use len in \<open>auto simp: unat_of_nat\<close>)
  then have req: "\<exists>rc s' l. SOCKET_REQUEST e op c (Some data) len off s = Some (rc, s') \<and> snd (bus_st s') = snd (bus_st s) @ l"
    for op c off
    by (auto simp: SOCKET_REQUEST_def bus logs_def returns_def)
  have "\<exists>rc s' l. request e err op c (Some data) len off s = Some (rc, s') \<and> snd (bus_st s') = snd (bus_st s) @ l"
    for err op c off
    using req [of op c off] by (auto simp: request_def simp del: map_option_eq_Some)
  with False \<open>0 \<le> sock\<close> x(1,2) show ?thesis
    by (simp only: send_def if_used_def) simp
qed

subsection \<open>Chains of mbufs\<close>

text \<open>From \<open>p\<close> the links lead through the mbufs \<open>ms\<close> to \<open>NULL\<close>, and the data of each is in memory.\<close>

fun chain :: "(u32 \<Rightarrow> mbuf option) \<Rightarrow> (u32 \<Rightarrow> u8 list) \<Rightarrow> u32 \<Rightarrow> u32 list \<Rightarrow> bool" where
  "chain h mem p [] \<longleftrightarrow> p = 0"
| "chain h mem p (m # ms) \<longleftrightarrow> p = m \<and> m \<noteq> 0 \<and>
     (case h m of None \<Rightarrow> False | Some b \<Rightarrow> unat (om_len b) \<le> length (mem (om_data b)) \<and> chain h mem (om_next b) ms)"

lemma chain_cong: "(\<And>m. m \<in> set ms \<Longrightarrow> h' m = h m) \<Longrightarrow> chain h' mem p ms = chain h mem p ms"
  by (induction ms arbitrary: p) (auto split: option.splits)

text \<open>What the bus sees of the mbufs \<open>ms\<close>, granted the addresses \<open>ds\<close>.\<close>

fun chain_writes :: "'w env \<Rightarrow> int \<Rightarrow> u16 \<Rightarrow> (u32 \<Rightarrow> u8 list) \<Rightarrow> (u32 \<Rightarrow> mbuf option) \<Rightarrow> u32 list \<Rightarrow> u32 list \<Rightarrow> access list" where
  "chain_writes e sock sid mem h (m # ms) (d # ds) =
     (case h m of None \<Rightarrow> [] | Some b \<Rightarrow> tcp_send_writes e sock sid (mem (om_data b)) (om_len b) d)
     @ chain_writes e sock sid mem h ms ds"
| "chain_writes e sock sid mem h _ _ = []"

lemma chain_writes_cong:
  "(\<And>m. m \<in> set ms \<Longrightarrow> h' m = h m) \<Longrightarrow> chain_writes e sock sid mem h' ms ds = chain_writes e sock sid mem h ms ds"
  by (induction e sock sid mem h ms ds rule: chain_writes.induct) auto

definition first_or_null :: "u32 list \<Rightarrow> u32" where
  "first_or_null ms = (case ms of [] \<Rightarrow> 0 | m # _ \<Rightarrow> m)"

lemma chain_first: "chain h mem p ms \<Longrightarrow> p = first_or_null ms"
  by (cases ms) (auto simp: first_or_null_def)

text \<open>
  The state \<open>t\<close> that successful sends of the mbufs \<open>ms\<close>, one after the other, lead to from \<open>s\<close>, whatever
  the provider keeps in its own part of the state between them.
\<close>

fun sent_each :: "'w env \<Rightarrow> int \<Rightarrow> (u32 \<Rightarrow> u8 list) \<Rightarrow> (u32 \<Rightarrow> mbuf option) \<Rightarrow> u32 list \<Rightarrow>
    ('w, 'p) wk \<Rightarrow> ('w, 'p) wk \<Rightarrow> bool" where
  "sent_each e sock mem h [] s t \<longleftrightarrow> (\<exists>f. t = upd_app f s)"
| "sent_each e sock mem h (m # ms) s t \<longleftrightarrow> (\<exists>f b s1. h m = Some b
     \<and> send e sock (Some (mem (om_data b))) (om_len b) (upd_app f s) = Some (0, s1) \<and> sent_each e sock mem h ms s1 t)"

lemma upd_app_upd_app [simp]: "upd_app f (upd_app g s) = upd_app (f \<circ> g) s"
  by (simp add: upd_app_def)

lemma sent_each_upd_app: "sent_each e sock mem h ms (upd_app f s) t \<Longrightarrow> sent_each e sock mem h ms s t"
  by (cases ms) (auto; blast)+

lemma sent_each_cong:
  "(\<And>m. m \<in> set ms \<Longrightarrow> h' m = h m) \<Longrightarrow> sent_each e sock mem h' ms s t = sent_each e sock mem h ms s t"
  by (induction ms arbitrary: s) auto

subsection \<open>The loop of \<open>winc1500_stream_tx\<close>\<close>

lemma upd_app_keeps [simp]:
  "stays_awake (upd_app f s) = stays_awake s" "get_sock sock (upd_app f s) = get_sock sock s"
  "user_mem (upd_app f s) = user_mem s" "bus_st (upd_app f s) = bus_st s" "app_st (upd_app f s) = f (app_st s)"
  by (simp_all add: upd_app_def stays_awake_def deep_sleep_mode_def get_sock_def)

text \<open>One mbuf that is taken: the head of the chain moves on and the mbuf is released.\<close>

lemma tx_taken:
  assumes ws: "get_ws i s = Some ws" and b: "mbufs (app_st s) m = Some b" and app: "app_st s1 = app_st s"
  shows "\<exists>f s2. upd_ws i (ws_tx_update (\<lambda>_. n)) s1 = Some s2 \<and> os_mbuf_free v m s2 = Some (upd_app f s1) \<and>
    get_ws i (upd_app f s1) = Some (ws\<lparr>ws_tx := n\<rparr>) \<and> mbufs (f (app_st s)) = (mbufs (app_st s))(m := None)"
proof -
  let ?f = "\<lambda>a. a\<lparr>winc1500_socks := (winc1500_socks a)[i := ws\<lparr>ws_tx := n\<rparr>], pool := mbuf_release v m (pool a),
     mbufs := (mbufs a)(m := None)\<rparr>"
  have "i < length (winc1500_socks (app_st s))" using ws by (simp add: get_ws_def mem_read_def split: if_splits)
  then show ?thesis
    using ws b app
    by (intro exI [of _ ?f]) (simp add: upd_ws_def get_ws_def os_mbuf_free_def get_mb_def mem_read_def upd_app_def)
qed

lemma tx_step:
  assumes bus: "ev_bus (wv_sock v) = logged bus" and x: "bIsUsed x = 1" "\<not> ssl_active x" "uint (ws_idx ws) < int TCP_SOCK_MAX"
    and s: "stays_awake s" "get_sock (uint (ws_idx ws)) s = Some x" "get_ws i s = Some ws"
    and m: "ws_tx ws = m" "m \<noteq> 0" "mbufs (app_st s) m = Some b"
    and r: "send (wv_sock v) (uint (ws_idx ws)) (Some (user_mem s (om_data b))) (om_len b) s = Some (0, s1)"
  obtains s3 d f where "s3 = upd_app f s1" "d \<noteq> 0" "stream_tx_loop v i s = stream_tx_loop v i s3" "stays_awake s3" "get_sock (uint (ws_idx ws)) s3 = Some x"
    "get_ws i s3 = Some (ws\<lparr>ws_tx := om_next b\<rparr>)" "user_mem s3 = user_mem s" "mbufs (app_st s3) = (mbufs (app_st s))(m := None)"
    "filter is_write (snd (bus_st s3)) = filter is_write (snd (bus_st s)) @
        tcp_send_writes (wv_sock v) (uint (ws_idx ws)) (u16SessionID x) (user_mem s (om_data b)) (om_len b) d"
proof -
  note keep = send_keeps [OF r]
  have ok: "send (wv_sock v) (uint (ws_idx ws)) (Some (user_mem s (om_data b))) (om_len b) s = Some (SOCK_ERR_NO_ERROR, s1)"
    using r by (simp add: SOCK_ERR_NO_ERROR_def)
  note sent = tcp_send_logged [OF s(1) bus s(2) x ok]
  obtain f s2 where s2: "upd_ws i (ws_tx_update (\<lambda>_. om_next b)) s1 = Some s2" "os_mbuf_free v m s2 = Some (upd_app f s1)"
    and s3: "get_ws i (upd_app f s1) = Some (ws\<lparr>ws_tx := om_next b\<rparr>)" "mbufs (f (app_st s)) = (mbufs (app_st s))(m := None)"
    using tx_taken [OF s(3) m(3), of s1 "om_next b" v] keep by blast
  have "stream_tx_loop v i s = stream_tx_loop v i (upd_app f s1)"
    using s(3) m r s2 by (simp add: stream_tx_loop.simps [of v i s] get_mb_def)
  moreover obtain d where "d \<noteq> 0" "filter is_write (snd (bus_st s1)) = filter is_write (snd (bus_st s)) @
      tcp_send_writes (wv_sock v) (uint (ws_idx ws)) (u16SessionID x) (user_mem s (om_data b)) (om_len b) d"
    using sent(1) by blast
  moreover have "stays_awake s1" "get_sock (uint (ws_idx ws)) s1 = Some x"
    using sent(2) keep s(2) by (simp_all add: get_sock_def)
  ultimately show ?thesis
    using that [of "upd_app f s1" f d] keep s3 by simp
qed

text \<open>
  The loop returns; it has sent a prefix of the chain, in order, released exactly its mbufs, and left
  the rest in \<open>ws_tx\<close>. It stops at the end of the chain, with 0, or at the first mbuf whose \<open>send\<close> is
  refused, with the error of that \<open>send\<close>.
\<close>

definition stops_at :: "('w, 'p) wenv \<Rightarrow> int \<Rightarrow> (u32 \<Rightarrow> u8 list) \<Rightarrow> (u32 \<Rightarrow> mbuf option) \<Rightarrow> u32 list \<Rightarrow>
    ('w, 'p) wk \<Rightarrow> int \<Rightarrow> ('w, 'p) wk \<Rightarrow> bool" where
  "stops_at v sock mem h rest t rc s' \<longleftrightarrow> (case rest of
     [] \<Rightarrow> rc = 0 \<and> bus_st s' = bus_st t
   | m # _ \<Rightarrow> \<exists>b t'. h m = Some b \<and> rc \<noteq> 0
       \<and> send (wv_sock v) sock (Some (mem (om_data b))) (om_len b) t = Some (rc, t') \<and> bus_st s' = bus_st t')"

lemma stops_at_cong: "(\<And>m. m \<in> set ms \<Longrightarrow> h' m = h m) \<Longrightarrow> stops_at v sock mem h' (drop k ms) t rc s' = stops_at v sock mem h (drop k ms) t rc s'"
proof (cases "drop k ms")
  case (Cons m rest)
  assume "\<And>m. m \<in> set ms \<Longrightarrow> h' m = h m"
  moreover have "m \<in> set ms" using in_set_dropD [of m k ms] Cons by simp
  ultimately show ?thesis using Cons by (simp add: stops_at_def)
qed (simp add: stops_at_def)

lemma stream_tx_sends:
  assumes ans: "answering bus" and bus: "ev_bus (wv_sock v) = logged bus" and st: "length (ev_stack (wv_sock v)) = 4"
    and x: "bIsUsed x = 1" "\<not> ssl_active x" "uint idx < int TCP_SOCK_MAX"
  shows "\<lbrakk>stays_awake s; get_sock (uint idx) s = Some x; get_ws i s = Some ws; ws_idx ws = idx;
    chain (mbufs (app_st s)) (user_mem s) (ws_tx ws) ms; distinct ms\<rbrakk> \<Longrightarrow>
    \<exists>rc s' k ds t. stream_tx_loop v i s = Some (rc, s') \<and> k \<le> length ms \<and> length ds = k \<and> 0 \<notin> set ds \<and>
      get_ws i s' = Some (ws\<lparr>ws_tx := first_or_null (drop k ms)\<rparr>) \<and>
      mbufs (app_st s') = (\<lambda>m. if m \<in> set (take k ms) then None else mbufs (app_st s) m) \<and>
      sent_each (wv_sock v) (uint idx) (user_mem s) (mbufs (app_st s)) (take k ms) s t \<and>
      filter is_write (snd (bus_st t)) = filter is_write (snd (bus_st s)) @
        chain_writes (wv_sock v) (uint idx) (u16SessionID x) (user_mem s) (mbufs (app_st s)) (take k ms) ds \<and>
      stops_at v (uint idx) (user_mem s) (mbufs (app_st s)) (drop k ms) t rc s'"
proof (induction ms arbitrary: s ws)
  case Nil
  then have "stream_tx_loop v i s = Some (0, s)" "ws\<lparr>ws_tx := 0\<rparr> = ws"
    by (simp_all add: stream_tx_loop.simps [of v i s])
  moreover have "\<exists>f. s = upd_app f s" by (rule exI [of _ "\<lambda>a. a"]) (simp add: upd_app_def)
  ultimately show ?case using Nil
    by (intro exI [of _ 0] exI [of _ s] exI [of _ "[]"]) (simp add: first_or_null_def stops_at_def)
next
  case (Cons m ms)
  obtain b where m: "ws_tx ws = m" "m \<noteq> 0" and b: "mbufs (app_st s) m = Some b" "unat (om_len b) \<le> length (user_mem s (om_data b))"
    and ms: "chain (mbufs (app_st s)) (user_mem s) (om_next b) ms"
    using Cons.prems(5) by (auto split: option.splits)
  have self: "s = upd_app (\<lambda>a. a) s" by (simp add: upd_app_def)
  obtain rc s1 l where r: "send (wv_sock v) (uint idx) (Some (user_mem s (om_data b))) (om_len b) s = Some (rc, s1)"
    and l: "snd (bus_st s1) = snd (bus_st s) @ l"
    using send_returns [OF ans bus Cons.prems(1) st Cons.prems(2) x b(2)] by blast
  show ?case
  proof (cases "rc = 0")
    case False
    have "stream_tx_loop v i s = Some (rc, s1)"
      using Cons.prems(3,4) m b(1) r False by (simp add: stream_tx_loop.simps [of v i s] get_mb_def)
    with False send_keeps [OF r] r b(1) Cons.prems(3,5) exI [of "\<lambda>f. s = upd_app f s", OF self] show ?thesis
      by (intro exI [of _ rc] exI [of _ s1] exI [of _ 0] exI [of _ "[]"] exI [of _ s])
        (cases ws, simp add: get_ws_def first_or_null_def stops_at_def)
  next
    case True
    note p = Cons.prems(1) Cons.prems(2) [folded Cons.prems(4)] Cons.prems(3)
    have r0: "send (wv_sock v) (uint (ws_idx ws)) (Some (user_mem s (om_data b))) (om_len b) s = Some (0, s1)"
      using r True Cons.prems(4) by simp
    obtain s3 d f where d: "s3 = upd_app f s1" "d \<noteq> 0"
      and s3: "stream_tx_loop v i s = stream_tx_loop v i s3" "stays_awake s3" "get_sock (uint idx) s3 = Some x"
      "get_ws i s3 = Some (ws\<lparr>ws_tx := om_next b\<rparr>)" "user_mem s3 = user_mem s" "mbufs (app_st s3) = (mbufs (app_st s))(m := None)"
      "filter is_write (snd (bus_st s3)) = filter is_write (snd (bus_st s)) @
        tcp_send_writes (wv_sock v) (uint idx) (u16SessionID x) (user_mem s (om_data b)) (om_len b) d"
      using tx_step [OF bus x(1,2) x(3) [folded Cons.prems(4)] p m b(1) r0, unfolded Cons.prems(4)] by metis
    have h: "((mbufs (app_st s))(m := None)) a = mbufs (app_st s) a" if "a \<in> set ms" for a
      using that Cons.prems(6) by auto
    have hk: "chain_writes e j sid mem ((mbufs (app_st s))(m := None)) (take k ms) ds = chain_writes e j sid mem (mbufs (app_st s)) (take k ms) ds"
      "sent_each e j mem ((mbufs (app_st s))(m := None)) (take k ms) z t = sent_each e j mem (mbufs (app_st s)) (take k ms) z t"
      "stops_at v j mem ((mbufs (app_st s))(m := None)) (drop k ms) t rc' s' = stops_at v j mem (mbufs (app_st s)) (drop k ms) t rc' s'"
      for e j sid mem k ds z t rc' s'
      by (rule chain_writes_cong sent_each_cong stops_at_cong; rule h; (erule in_set_takeD | assumption))+
    have c: "chain (mbufs (app_st s3)) (user_mem s3) (ws_tx (ws\<lparr>ws_tx := om_next b\<rparr>)) ms"
      using ms chain_cong [of ms "(mbufs (app_st s))(m := None)", OF h] by (simp add: s3)
    have i: "ws_idx (ws\<lparr>ws_tx := om_next b\<rparr>) = idx" "distinct ms"
      "(ws\<lparr>ws_tx := om_next b\<rparr>)\<lparr>ws_tx := z\<rparr> = ws\<lparr>ws_tx := z\<rparr>" for z
      using Cons.prems(4,6) by simp_all
    from Cons.IH [OF s3(2-4) i(1) c i(2), unfolded i(3) s3(5,6) hk]
    obtain rc' s' k ds t where IH: "stream_tx_loop v i s3 = Some (rc', s')" "k \<le> length ms" "length ds = k" "0 \<notin> set ds"
        "get_ws i s' = Some (ws\<lparr>ws_tx := first_or_null (drop k ms)\<rparr>)"
        "mbufs (app_st s') = (\<lambda>a. if a \<in> set (take k ms) then None else ((mbufs (app_st s))(m := None)) a)"
        "sent_each (wv_sock v) (uint idx) (user_mem s) (mbufs (app_st s)) (take k ms) s3 t"
        "filter is_write (snd (bus_st t)) = filter is_write (snd (bus_st s3)) @
          chain_writes (wv_sock v) (uint idx) (u16SessionID x) (user_mem s) (mbufs (app_st s)) (take k ms) ds"
        "stops_at v (uint idx) (user_mem s) (mbufs (app_st s)) (drop k ms) t rc' s'"
      by (elim exE conjE) (rule that)
    moreover have "mbufs (app_st s') = (\<lambda>a. if a \<in> set (take (Suc k) (m # ms)) then None else mbufs (app_st s) a)"
      using IH(6) by auto
    moreover have "sent_each (wv_sock v) (uint idx) (user_mem s) (mbufs (app_st s)) (take (Suc k) (m # ms)) s t"
      using r True b(1) sent_each_upd_app [OF IH(7) [unfolded d(1)]] by simp (metis self)
    ultimately show ?thesis
      using b(1) s3(1,7) d(2)
      by (intro exI [of _ rc'] exI [of _ s'] exI [of _ "Suc k"] exI [of _ "d # ds"] exI [of _ t]) simp
  qed
qed

lemma get_ws_upd_app: "get_ws i (upd_app f s) = mem_read (winc1500_socks (f (app_st s))) i"
  by (simp add: get_ws_def upd_app_def)

lemma mutex_keeps [simp]:
  "get_ws i (os_mutex_pend s) = get_ws i s" "get_ws i (os_mutex_release s) = get_ws i s"
  "mbufs (app_st (os_mutex_pend s)) = mbufs (app_st s)" "mbufs (app_st (os_mutex_release s)) = mbufs (app_st s)"
  "stays_awake (os_mutex_pend s) = stays_awake s" "get_sock sock (os_mutex_pend s) = get_sock sock s"
  "user_mem (os_mutex_pend s) = user_mem s" "bus_st (os_mutex_pend s) = bus_st s" "bus_st (os_mutex_release s) = bus_st s"
  by (simp_all add: os_mutex_pend_def os_mutex_release_def get_ws_upd_app get_ws_def [symmetric])

text \<open>Storing the chain in the socket.\<close>

lemma upd_ws_Some:
  assumes "get_ws i s = Some ws"
  shows "\<exists>g. upd_ws i f s = Some (upd_app g s) \<and> get_ws i (upd_app g s) = Some (f ws) \<and> mbufs (g (app_st s)) = mbufs (app_st s)"
proof -
  have "i < length (winc1500_socks (app_st s))" using assms by (simp add: get_ws_def mem_read_def split: if_splits)
  with assms show ?thesis
    by (intro exI [of _ "\<lambda>a. a\<lparr>winc1500_socks := (winc1500_socks a)[i := f ws]\<rparr>"])
      (simp add: upd_ws_def get_ws_def mem_read_def)
qed

text \<open>
  C8: Sending a chain of mbufs over an idle connected stream socket always returns. The first \<open>k\<close> mbufs
  have been sent, each by a \<open>send\<close> that succeeded (\<open>sent_each\<close>), and what the bus has seen of them is,
  mbuf by mbuf in the order of the chain, the writes of one \<open>send\<close> command of the socket's session with the
  bytes of that mbuf; exactly these mbufs have been released, each once; and the rest of the chain,
  untouched, is what the socket keeps for later. The loop stops at no other place than the end of the chain,
  with nothing more written and the result 0, or the first mbuf whose own \<open>send\<close>, issued in the state that
  the others led to, is refused: then the bus is as that \<open>send\<close> left it, and the result is its error
  as the HAL reports it.
\<close>

theorem winc_stream_on_bus:
  assumes ans: "answering bus" and bus: "ev_bus (wv_sock v) = logged bus" and st: "length (ev_stack (wv_sock v)) = 4"
    and awake: "stays_awake s" and ws: "get_ws i s = Some ws" "ws_type ws = SOCK_STREAM" "ws_tx ws = 0"
    and x: "get_sock (uint (ws_idx ws)) s = Some x" "bIsUsed x = 1" "\<not> ssl_active x" "uint (ws_idx ws) < int TCP_SOCK_MAX"
    and ms: "chain (mbufs (app_st s)) (user_mem s) m ms" "distinct ms"
  shows "\<exists>rc err s' k ds t. winc1500_sock_sendto v i m None s = Some (rc, s') \<and> k \<le> length ms \<and> length ds = k \<and> 0 \<notin> set ds \<and>
      get_ws i s' = Some (ws\<lparr>ws_tx := first_or_null (drop k ms)\<rparr>) \<and>
      mbufs (app_st s') = (\<lambda>m. if m \<in> set (take k ms) then None else mbufs (app_st s) m) \<and>
      sent_each (wv_sock v) (uint (ws_idx ws)) (user_mem s) (mbufs (app_st s)) (take k ms) s t \<and>
      filter is_write (snd (bus_st t)) = filter is_write (snd (bus_st s)) @
        chain_writes (wv_sock v) (uint (ws_idx ws)) (u16SessionID x) (user_mem s) (mbufs (app_st s)) (take k ms) ds \<and>
      stops_at v (uint (ws_idx ws)) (user_mem s) (mbufs (app_st s)) (drop k ms) t err s' \<and>
      rc = (if err = 0 \<or> err = mn_errno v MN_ENOBUFS then 0 else winc1500_err_to_mn_err v err)"
proof -
  obtain g where g: "upd_ws i (ws_tx_update (\<lambda>_. m)) s = Some (upd_app g s)"
      "get_ws i (upd_app g s) = Some (ws\<lparr>ws_tx := m\<rparr>)" "mbufs (g (app_st s)) = mbufs (app_st s)"
    using upd_ws_Some [OF ws(1), of "ws_tx_update (\<lambda>_. m)"] by auto
  let ?s = "os_mutex_pend (upd_app g s)"
  have p: "stays_awake ?s" "get_sock (uint (ws_idx ws)) ?s = Some x" "get_ws i ?s = Some (ws\<lparr>ws_tx := m\<rparr>)"
      "ws_idx (ws\<lparr>ws_tx := m\<rparr>) = ws_idx ws" "chain (mbufs (app_st ?s)) (user_mem ?s) (ws_tx (ws\<lparr>ws_tx := m\<rparr>)) ms"
    using awake x(1) g ms by simp_all
  have eqs: "mbufs (app_st ?s) = mbufs (app_st s)" "user_mem ?s = user_mem s" "bus_st ?s = bus_st s"
      "(ws\<lparr>ws_tx := m\<rparr>)\<lparr>ws_tx := z\<rparr> = ws\<lparr>ws_tx := z\<rparr>" for z
    using g(3) by simp_all
  from stream_tx_sends [OF ans bus st x(2-4) p ms(2), unfolded eqs]
  obtain rc s' k ds t where loop: "stream_tx_loop v i ?s = Some (rc, s')" and k: "k \<le> length ms" "length ds = k" "0 \<notin> set ds"
      "get_ws i s' = Some (ws\<lparr>ws_tx := first_or_null (drop k ms)\<rparr>)"
      "mbufs (app_st s') = (\<lambda>m. if m \<in> set (take k ms) then None else mbufs (app_st s) m)"
      "sent_each (wv_sock v) (uint (ws_idx ws)) (user_mem s) (mbufs (app_st s)) (take k ms) ?s t"
      "filter is_write (snd (bus_st t)) = filter is_write (snd (bus_st s)) @
        chain_writes (wv_sock v) (uint (ws_idx ws)) (u16SessionID x) (user_mem s) (mbufs (app_st s)) (take k ms) ds"
      "stops_at v (uint (ws_idx ws)) (user_mem s) (mbufs (app_st s)) (drop k ms) t rc s'"
    by (elim exE conjE) (rule that)
  have "winc1500_sock_sendto v i m None s = Some (if rc = 0 \<or> rc = mn_errno v MN_ENOBUFS then 0 else winc1500_err_to_mn_err v rc,
      os_mutex_release s')"
    using ws g(1) k(4) by (simp add: winc1500_sock_sendto_def winc1500_stream_tx_def loop)
  moreover have "sent_each (wv_sock v) (uint (ws_idx ws)) (user_mem s) (mbufs (app_st s)) (take k ms) s t"
    using k(6) by (auto simp: os_mutex_pend_def intro: sent_each_upd_app)
  moreover have "stops_at v (uint (ws_idx ws)) (user_mem s) (mbufs (app_st s)) (drop k ms) t rc (os_mutex_release s')"
    using k(8) by (cases "drop k ms") (simp_all add: stops_at_def del: drop_eq_Nil)
  ultimately show ?thesis using k(1-5,7)
    by (intro exI [of _ "if rc = 0 \<or> rc = mn_errno v MN_ENOBUFS then 0 else winc1500_err_to_mn_err v rc"] exI [of _ rc]
        exI [of _ "os_mutex_release s'"] exI [of _ k] exI [of _ ds] exI [of _ t]) simp
qed

text \<open>A chip that takes every access and has room for every request: each \<open>send\<close> succeeds.\<close>

lemma table_tcp_send:
  assumes bus: "ev_bus e = logged (table_bus (\<lambda>_. 0x30000) [])" and awake: "stays_awake s"
    and x: "get_sock sock s = Some x" "bIsUsed x = 1" and len: "\<not> SOCKET_BUFFER_MAX_LENGTH < len"
  shows "\<exists>s'. send e sock (Some data) len s = Some (0, s')"
proof -
  have "0 \<le> sock" using x(1) by (auto simp: get_sock_def split: if_splits)
  have "\<exists>s'. request e SOCK_ERR_BUFFER_FULL op c (Some data) len off s = Some (0, s')" for op c off
    using hif_send_table [OF awake, of "\<lambda>_. 0x30000" "[]" "ev_junk e" "ev_stack e" M2M_REQ_GROUP_IP op "Some c"
        "of_nat (length c)" "Some data" len off]
    by (auto simp: request_def SOCKET_REQUEST_def sock_err_defs code_defs bus)
  then show ?thesis using x len \<open>0 \<le> sock\<close>
    by (simp add: send_def if_used_def)
qed

text \<open>What the sends of a chain leave alone.\<close>

lemma sent_each_keeps:
  assumes bus: "ev_bus e = logged bus" and x: "bIsUsed x = 1" "\<not> ssl_active x" "sock < int TCP_SOCK_MAX"
  shows "sent_each e sock mem h ms s t \<Longrightarrow> stays_awake s \<Longrightarrow> get_sock sock s = Some x \<Longrightarrow> stays_awake t \<and> get_sock sock t = Some x"
proof (induction ms arbitrary: s)
  case (Cons m ms)
  obtain f b s1 where "h m = Some b" and s1: "send e sock (Some (mem (om_data b))) (om_len b) (upd_app f s) = Some (0, s1)" "sent_each e sock mem h ms s1 t"
    using Cons.prems(1) unfolding sent_each.simps by blast
  have "stays_awake s1"
    by (rule tcp_send_logged(2) [OF _ bus _ x]) (use Cons.prems(2,3) s1(1) in \<open>simp_all add: SOCK_ERR_NO_ERROR_def\<close>)
  moreover have "get_sock sock s1 = Some x" using send_keeps [OF s1(1)] Cons.prems(3) by (auto simp: get_sock_def upd_app_def split: if_splits)
  ultimately show ?case using Cons.IH [OF s1(2)] by blast
qed auto

text \<open>Socket 0, a connected stream socket in session 7, and a chain of two mbufs.\<close>

definition tx_mbufs :: "u32 \<Rightarrow> mbuf option" where
  "tx_mbufs = [0x1000 \<mapsto> \<lparr>om_data = 0x1010, om_len = 3, om_next = 0x1800, omp_len = 5, omp_usrhdr = zero_mn_addr\<rparr>,
     0x1800 \<mapsto> \<lparr>om_data = 0x1810, om_len = 2, om_next = 0, omp_len = 0, omp_usrhdr = zero_mn_addr\<rparr>]"

definition tx_winc :: "u32 winc" where
  "tx_winc = winc0\<lparr>winc1500_socks := (winc_sock0\<lparr>ws_type := SOCK_STREAM\<rparr>) # replicate 10 winc_sock0, mbufs := tx_mbufs\<rparr>"

definition tx_state :: "'w \<Rightarrow> ('w, u32) wk" where
  "tx_state w = (sk0 w tx_winc)\<lparr>gastrSockets := zero_socket\<lparr>bIsUsed := 1, u16SessionID := 7\<rparr> # replicate 10 zero_socket,
     user_mem := \<lambda>_. [1, 2, 3, 4]\<rparr>"

lemma answering_table: "answering (table_bus regs mem)"
  by (simp add: answering_def table_bus_def)

lemma tx_state_facts:
  "stays_awake (tx_state w)" "get_ws 0 (tx_state w) = Some (winc_sock0\<lparr>ws_type := SOCK_STREAM\<rparr>)"
  "get_sock 0 (tx_state w) = Some (zero_socket\<lparr>bIsUsed := 1, u16SessionID := 7\<rparr>)" "mbufs (app_st (tx_state w)) = tx_mbufs"
  "user_mem (tx_state w) = (\<lambda>_. [1, 2, 3, 4])" "bus_st (tx_state w) = w"
  by (simp_all add: tx_state_def tx_winc_def sk0_def stays_awake_def deep_sleep_mode_def M2M_PS_DEEP_AUTOMATIC_def
      M2M_PS_MANUAL_def get_ws_def get_sock_def mem_read_def)

lemma tx_chain: "chain tx_mbufs (\<lambda>_. [1, 2, 3, 4]) 0x1000 [0x1000, 0x1800]"
  by (simp add: tx_mbufs_def)

theorem winc_stream_on_bus_witness:
  "\<exists>s' ds. winc1500_sock_sendto (os0 (env0 (logged (table_bus (\<lambda>_. 0x30000) [])))) 0 0x1000 None (tx_state (0, [])) = Some (0, s')
     \<and> get_ws 0 s' = Some (winc_sock0\<lparr>ws_type := SOCK_STREAM, ws_tx := 0\<rparr>)
     \<and> mbufs (app_st s') 0x1000 = None \<and> mbufs (app_st s') 0x1800 = None \<and> length ds = 2
     \<and> filter is_write (snd (bus_st s')) = chain_writes (env0 (logged (table_bus (\<lambda>_. 0x30000) []))) 0 7 (\<lambda>_. [1, 2, 3, 4])
         tx_mbufs [0x1000, 0x1800] ds"
proof -
  let ?e = "env0 (logged (table_bus (\<lambda>_. 0x30000) []))" and ?s = "tx_state (0 :: nat, [] :: access list)"
  let ?v = "os0 ?e"
  let ?ws = "winc_sock0\<lparr>ws_type := SOCK_STREAM\<rparr>" and ?x = "zero_socket\<lparr>bIsUsed := 1, u16SessionID := 7\<rparr>"
  let ?ms = "[0x1000, 0x1800] :: u32 list"
  have ws: "ws_type ?ws = SOCK_STREAM" "ws_tx ?ws = 0" "uint (ws_idx winc_sock0) = 0" by (simp_all add: winc_sock0_def)
  have v: "ev_bus (wv_sock ?v) = logged (table_bus (\<lambda>_. 0x30000) [])" "length (ev_stack (wv_sock ?v)) = 4" "wv_sock ?v = ?e"
    by (simp_all add: os0_def env0_def)
  have x: "get_sock (uint (ws_idx ?ws)) ?s = Some ?x" "bIsUsed ?x = 1" "\<not> ssl_active ?x" "uint (ws_idx ?ws) < int TCP_SOCK_MAX"
    by (simp_all add: ws(3) tx_state_facts ssl_active_def zero_socket_def sock_max_defs)
  have ch: "chain (mbufs (app_st ?s)) (user_mem ?s) 0x1000 ?ms" "distinct ?ms"
    using tx_chain by (simp_all add: tx_state_facts)
  from winc_stream_on_bus [OF answering_table v(1,2) tx_state_facts(1,2) ws(1,2) x ch]
  obtain rc err s' k ds t where r: "winc1500_sock_sendto ?v 0 0x1000 None ?s = Some (rc, s')" "k \<le> length ?ms" "length ds = k" "0 \<notin> set ds"
      "get_ws 0 s' = Some (?ws\<lparr>ws_tx := first_or_null (drop k ?ms)\<rparr>)"
      "mbufs (app_st s') = (\<lambda>m. if m \<in> set (take k ?ms) then None else mbufs (app_st ?s) m)"
      "sent_each (wv_sock ?v) (uint (ws_idx ?ws)) (user_mem ?s) (mbufs (app_st ?s)) (take k ?ms) ?s t"
      "filter is_write (snd (bus_st t)) = filter is_write (snd (bus_st ?s)) @
        chain_writes (wv_sock ?v) (uint (ws_idx ?ws)) (u16SessionID ?x) (user_mem ?s) (mbufs (app_st ?s)) (take k ?ms) ds"
      "stops_at ?v (uint (ws_idx ?ws)) (user_mem ?s) (mbufs (app_st ?s)) (drop k ?ms) t err s'"
      "rc = (if err = 0 \<or> err = mn_errno ?v MN_ENOBUFS then 0 else winc1500_err_to_mn_err ?v err)"
    by (elim exE conjE) (rule that)
  have t: "stays_awake t" "get_sock (uint (ws_idx ?ws)) t = Some ?x"
    using sent_each_keeps [OF v(1) x(2-4) r(7) tx_state_facts(1) x(1)] by simp_all
  have sends: "\<exists>t'. send (wv_sock ?v) (uint (ws_idx ?ws)) (Some (user_mem ?s (om_data b))) (om_len b) t = Some (0, t')"
    if "om_len b < 10" for b
    by (rule table_tcp_send [OF v(1) t x(2)])
      (use that less_trans [OF that, of SOCKET_BUFFER_MAX_LENGTH] in \<open>simp add: SOCKET_BUFFER_MAX_LENGTH_def not_less less_imp_le\<close>)
  have "k = 2"
  proof (rule ccontr)
    assume "k \<noteq> 2"
    with r(2) have "k = 0 \<or> k = 1" by auto
    then obtain m rest where m: "drop k ?ms = m # rest" "m = 0x1000 \<or> m = 0x1800" by auto
    then obtain b where "mbufs (app_st ?s) m = Some b" "om_len b < 10" by (auto simp: tx_state_facts tx_mbufs_def)
    with r(9) m(1) sends [of b] show False by (auto simp: stops_at_def)
  qed
  with r show ?thesis
    by (intro exI [of _ s'] exI [of _ ds]) (auto simp: stops_at_def tx_state_facts first_or_null_def v(3) ws(3) zero_socket_def)
qed

subsection \<open>What a full chip and a refused request look like\<close>

text \<open>
  When the chip refuses the first mbuf, \<open>winc1500_sock_sendto\<close> returns an error although it has kept
  the chain to send it later: the test for a full chip compares the code of the socket layer, which is
  negative, with \<open>MN_ENOBUFS\<close>, which is positive. The caller, who was told that the call failed,
  and the provider now both own the chain, and the next call is answered with \<open>MN_EAGAIN\<close>.
\<close>

theorem winc_stream_full_is_error:
  fixes v :: "('w, 'p) wenv" and s :: "('w, 'p) wk"
  assumes pos: "mn_errno v MN_ENOBUFS > 0" and ws: "get_ws i s = Some ws" "ws_type ws = SOCK_STREAM" "ws_tx ws = 0"
    and m: "m \<noteq> 0" "mbufs (app_st s) m = Some b"
    and full: "\<And>a. map_option fst (send (wv_sock v) (uint (ws_idx ws)) (Some (user_mem s (om_data b))) (om_len b)
      (s\<lparr>app_st := a\<rparr>)) = Some SOCK_ERR_BUFFER_FULL"
  shows "\<exists>s'. winc1500_sock_sendto v i m None s = Some (mn_errno v MN_ENOBUFS, s') \<and>
    get_ws i s' = Some (ws\<lparr>ws_tx := m\<rparr>) \<and> mbufs (app_st s') m = Some b \<and>
    winc1500_sock_sendto v i n None s' = Some (mn_errno v MN_EAGAIN, s')"
proof -
  obtain g where g: "upd_ws i (ws_tx_update (\<lambda>_. m)) s = Some (upd_app g s)"
      "get_ws i (upd_app g s) = Some (ws\<lparr>ws_tx := m\<rparr>)" "mbufs (g (app_st s)) = mbufs (app_st s)"
    using upd_ws_Some [OF ws(1), of "ws_tx_update (\<lambda>_. m)"] by auto
  let ?s = "os_mutex_pend (upd_app g s)"
  obtain s1 where r: "send (wv_sock v) (uint (ws_idx ws)) (Some (user_mem s (om_data b))) (om_len b) ?s = Some (SOCK_ERR_BUFFER_FULL, s1)"
    using full [of "app_st ?s"] by (auto simp: upd_app_def os_mutex_pend_def)
  have s1: "get_ws i s1 = Some (ws\<lparr>ws_tx := m\<rparr>)" "mbufs (app_st s1) m = Some b"
    using send_keeps [OF r] g m by (simp_all add: get_ws_def os_mutex_pend_def)
  have "stream_tx_loop v i ?s = Some (SOCK_ERR_BUFFER_FULL, s1)"
    using g m r by (simp add: stream_tx_loop.simps [of v i ?s] get_mb_def SOCK_ERR_BUFFER_FULL_def)
  then have "winc1500_sock_sendto v i m None s = Some (mn_errno v MN_ENOBUFS, os_mutex_release s1)"
    using ws g(1) s1 pos by (simp add: winc1500_sock_sendto_def winc1500_stream_tx_def winc1500_err_to_mn_err_def winc_err_defs)
  with s1 ws m(1) show ?thesis
    by (intro exI [of _ "os_mutex_release s1"]) (simp add: winc1500_sock_sendto_def)
qed

theorem winc_stream_full_is_error_witness:
  "\<exists>s'. winc1500_sock_sendto (os0 (env0 ((table_bus (\<lambda>_. 0) [])\<lparr>b_wreg := \<lambda>a x w. Some (M2M_ERR_BUS_FAIL, w)\<rparr>)))
       0 0x1000 None (tx_state (0 :: nat)) = Some (2, s') \<and> get_ws 0 s' = Some (winc_sock0\<lparr>ws_type := SOCK_STREAM, ws_tx := 0x1000\<rparr>)"
proof -
  let ?e = "env0 ((table_bus (\<lambda>_. 0) [])\<lparr>b_wreg := \<lambda>a x w. Some (M2M_ERR_BUS_FAIL, w)\<rparr>)"
  let ?b = "\<lparr>om_data = 0x1010, om_len = 3, om_next = 0x1800, omp_len = 5, omp_usrhdr = zero_mn_addr\<rparr>"
  let ?ws = "winc_sock0\<lparr>ws_type := SOCK_STREAM\<rparr>"
  have b: "mbufs (app_st (tx_state (0 :: nat))) 0x1000 = Some ?b" by (simp add: tx_state_facts tx_mbufs_def)
  have ws: "ws_type ?ws = SOCK_STREAM" "ws_tx ?ws = 0" "uint (ws_idx winc_sock0) = 0" by (simp_all add: winc_sock0_def)
  have full: "map_option fst (send (wv_sock (os0 ?e)) (uint (ws_idx ?ws)) (Some (user_mem (tx_state (0 :: nat)) (om_data ?b))) (om_len ?b)
      (tx_state (0 :: nat)\<lparr>app_st := a\<rparr>)) = Some SOCK_ERR_BUFFER_FULL" for a :: "u32 winc"
  proof -
    let ?t = "tx_state (0 :: nat)\<lparr>app_st := a\<rparr>"
    have awake: "stays_awake ?t" and x: "get_sock 0 ?t = Some (zero_socket\<lparr>bIsUsed := 1, u16SessionID := 7\<rparr>)"
      using tx_state_facts(1,3) [of 0] by (simp_all add: stays_awake_def deep_sleep_mode_def get_sock_def)
    have "hif_send (ev_bus ?e) j st g op c cs d ds off ?t = Some (M2M_ERR_BUS_FAIL, ?t\<lparr>gu8ChipSleep := gu8ChipSleep ?t + 1\<rparr>)" for j st g op c cs d ds off
      unfolding hif_send_def wake_awake [OF awake] on_ok_Some Let_def
      by (simp add: on_ok_def wr_reg_def code_defs env0_def)
    then show ?thesis
      using x by (simp add: send_def if_used_def ws(3) os0_def request_def SOCKET_REQUEST_def SOCKET_BUFFER_MAX_LENGTH_def
          code_defs sock_err_defs)
  qed
  have "mn_errno (os0 ?e) MN_ENOBUFS = 2" by (simp add: os0_def)
  with winc_stream_full_is_error [OF _ tx_state_facts(2) ws(1,2) _ b full] show ?thesis by simp blast
qed

text \<open>
  The reply to a refused \<open>bind\<close> never reaches the application as what it is: the status passes
  through a \<open>uint8_t\<close>, so every negative one is read back as a number above 127 and the application gets
  \<open>MN_EUNKNOWN\<close>.
\<close>

theorem winc_bind_error_unknown:
  assumes addr: "winc1500_mn_addr_to_addr v addr = Inr sin" and ws: "get_ws i s = Some ws" and i: "i < MAX_SOCKET"
    and ok: "bind_sock (wv_sock v) (uint (ws_idx ws)) (Some sin) 8 (os_mutex_pend s) = Some (0, s1)" "app_st s1 = app_st (os_mutex_pend s)"
    and err: "- 128 \<le> err" "err < 0"
    and reply: "\<And>t. sem_pend v i t = map_option (\<lambda>t. (False, t)) (winc1500_sock_cb v (int i) (SOCKET_MSG_BIND err) t)"
  shows "\<exists>s'. winc1500_sock_bind v i addr s = Some (mn_errno v MN_EUNKNOWN, s')"
proof -
  have "uint (word_of_int err :: u8) = err + 256"
    using err by (simp add: uint_word_of_int) presburger
  then have unk: "winc1500_err_to_mn_err v (uint (word_of_int err :: u8)) = mn_errno v MN_EUNKNOWN"
    using err by (simp add: winc1500_err_to_mn_err_def winc_err_defs)
  have len: "i < length (winc1500_socks (app_st s))" using ws by (simp add: get_ws_def mem_read_def split: if_splits)
  have w: "get_ws i s1 = Some ws" using ws ok(2) by (simp add: get_ws_def os_mutex_pend_def upd_app_def)
  let ?w = "ws\<lparr>ws_waiting := True\<rparr>"
  let ?e = "?w\<lparr>ws_err := word_of_int err, ws_sem := ws_sem ws + 1\<rparr>"
  let ?p = "\<lambda>x :: winc1500_sock. if ws_type x = SOCK_DGRAM then x\<lparr>ws_poll := True\<rparr> else x"
  obtain g1 where g1: "upd_ws i (ws_waiting_update (\<lambda>_. True)) s1 = Some (upd_app g1 s1)" "get_ws i (upd_app g1 s1) = Some ?w"
    using upd_ws_Some [OF w] by blast
  let ?s2 = "os_mutex_release (upd_app g1 s1)"
  have "get_ws i ?s2 = Some ?w" using g1 by simp
  then obtain g2 where g2: "upd_ws i (\<lambda>x. x\<lparr>ws_err := of_int err, ws_sem := ws_sem x + 1\<rparr>) ?s2 = Some (upd_app g2 ?s2)"
      "get_ws i (upd_app g2 ?s2) = Some ?e"
    using upd_ws_Some [of i ?s2 ?w "\<lambda>x. x\<lparr>ws_err := of_int err, ws_sem := ws_sem x + 1\<rparr>"] by auto
  obtain g3 where g3: "upd_ws i ?p (upd_app g2 ?s2) = Some (upd_app g3 (upd_app g2 ?s2))"
      "get_ws i (upd_app g3 (upd_app g2 ?s2)) = Some (?p ?e)"
    using upd_ws_Some [OF g2(2), of ?p] by blast
  let ?s4 = "os_mutex_pend (upd_app g3 (upd_app g2 ?s2))"
  have pend: "sem_pend v i ?s2 = Some (False, upd_app g3 (upd_app g2 ?s2))"
    using i g1(2) g2(1) g3(1) by (simp add: reply winc1500_sock_cb_def winc1500_sock_wake_def)
  have "get_ws i ?s4 = Some (?p ?e)" using g3(2) by simp
  then obtain g4 where g4: "upd_ws i (ws_waiting_update (\<lambda>_. False)) ?s4 = Some (upd_app g4 ?s4)"
      "get_ws i (upd_app g4 ?s4) = Some (?p ?e\<lparr>ws_waiting := False\<rparr>)"
    using upd_ws_Some [of i ?s4 "?p ?e" "ws_waiting_update (\<lambda>_. False)"] by auto
  obtain g5 where g5: "upd_ws i (ws_err_update (\<lambda>_. 0)) (upd_app g4 ?s4) = Some (upd_app g5 (upd_app g4 ?s4))"
    using upd_ws_Some [OF g4(2)] by blast
  have "winc1500_sock_wait v i s1 = Some (mn_errno v MN_EUNKNOWN, upd_app g5 (upd_app g4 ?s4))"
    using g1(1) pend g4 g5 unk by (simp add: winc1500_sock_wait_def Let_def)
  then show ?thesis
    using addr ws ok by (simp add: winc1500_sock_bind_def finish_sync_def)
qed

definition refused_os :: "'w env \<Rightarrow> ('w, u32) wenv" where
  "refused_os e = (os0 e)\<lparr>sem_pend := \<lambda>i t. map_option (\<lambda>t. (False, t)) (winc1500_sock_cb (os0 e) (int i) (SOCKET_MSG_BIND (-2)) t)\<rparr>"

theorem winc_bind_error_unknown_witness:
  "\<exists>s'. winc1500_sock_bind (refused_os (env0 (logged (table_bus (\<lambda>_. 0x30000) [])))) 0
     \<lparr>msin_len = 8, msin_family = 4, msin_port = 80, msin_addr = 0\<rparr> (tx_state (0, [])) = Some (3, s')"
proof -
  let ?e = "env0 (logged (table_bus (\<lambda>_. 0x30000) []))" and ?s = "tx_state (0, [])"
  let ?sin = "\<lparr>sin_family = AF_INET, sin_port = 80, s_addr = 0\<rparr>" and ?ws = "winc_sock0\<lparr>ws_type := SOCK_STREAM\<rparr>"
  have addr: "winc1500_mn_addr_to_addr (refused_os ?e) \<lparr>msin_len = 8, msin_family = 4, msin_port = 80, msin_addr = 0\<rparr> = Inr ?sin"
    by (simp add: winc1500_mn_addr_to_addr_def refused_os_def os0_def)
  have awake: "stays_awake (os_mutex_pend ?s)" by (simp add: tx_state_facts)
  have "\<exists>s'. hif_send (ev_bus ?e) j st g op c cs d ds off (os_mutex_pend ?s) = Some (M2M_SUCCESS, s')" for j st g op c cs d ds off
    unfolding env0_def by simp (rule hif_send_table [OF awake], simp_all)
  then obtain s1 where r: "SOCKET_REQUEST ?e SOCKET_CMD_BIND (addr_bytes ?sin @ [of_int 0, ev_uninit ?e 9] @ le16 7) None 0 0 (os_mutex_pend ?s)
      = Some (M2M_SUCCESS, s1)"
    unfolding SOCKET_REQUEST_def by blast
  have "uint (ws_idx ?ws) = 0" "wv_sock (refused_os ?e) = ?e" by (simp_all add: winc_sock0_def refused_os_def os0_def)
  then have ok: "bind_sock (wv_sock (refused_os ?e)) (uint (ws_idx ?ws)) (Some ?sin) 8 (os_mutex_pend ?s) = Some (0, s1)"
    using r by (simp add: bind_sock_def if_used_def tx_state_facts request_def code_defs sock_err_defs)
  have reply: "sem_pend (refused_os ?e) i t = map_option (\<lambda>t. (False, t)) (winc1500_sock_cb (refused_os ?e) (int i) (SOCKET_MSG_BIND (-2)) t)" for i t
    by (simp add: refused_os_def winc1500_sock_cb_def)
  have "mn_errno (refused_os ?e) MN_EUNKNOWN = 3" by (simp add: refused_os_def os0_def)
  with winc_bind_error_unknown [OF addr tx_state_facts(2) _ ok request_keeps(3) [OF r] _ _ reply]
  show ?thesis by (simp add: sock_max_defs)
qed

end
