(* ===== verification/Nmasic.thy ===== *)
theory Nmasic
  imports M2m_Hif
begin

text \<open>
  Control of the chip, \<open>driver/nmasic.c\<close>, over an arbitrary bus: waking, reset, the boot handshake,
  identification, its GPIOs and its MAC address. (\<open>nm_clkless_wake\<close> is in \<open>M2m_Hif\<close>.) The static
  variables \<open>clk_status_reg_adr\<close> and \<open>chipid\<close> are part of the state of the host interface. \<open>junk\<close> is the
  value of a variable that nothing has been stored to. Loops without a bound may not return. Delays
  have no effect on the state.
\<close>

definition NMI_PERIPH_REG_BASE :: u32 where "NMI_PERIPH_REG_BASE = 0x1000"
definition NMI_GLB_RESET_0 :: u32 where "NMI_GLB_RESET_0 = NMI_PERIPH_REG_BASE + 0x400"
definition NMI_INTR_REG_BASE :: u32 where "NMI_INTR_REG_BASE = NMI_PERIPH_REG_BASE + 0xa00"
definition NMI_PIN_MUX_0 :: u32 where "NMI_PIN_MUX_0 = NMI_PERIPH_REG_BASE + 0x408"
definition NMI_INTR_ENABLE :: u32 where "NMI_INTR_ENABLE = NMI_INTR_REG_BASE"
definition rNMI_GP_REG_1 :: u32 where "rNMI_GP_REG_1 = 0x14A0"
definition rNMI_GP_REG_2 :: u32 where "rNMI_GP_REG_2 = 0xc0008"
definition BOOTROM_REG :: u32 where "BOOTROM_REG = 0xc000c"
definition NMI_REV_REG :: u32 where "NMI_REV_REG = 0x207ac"
definition NMI_REV_REG_ATE :: u32 where "NMI_REV_REG_ATE = 0x1048"
definition M2M_WAIT_FOR_HOST_REG :: u32 where "M2M_WAIT_FOR_HOST_REG = 0x207bc"
definition M2M_FINISH_INIT_STATE :: u32 where "M2M_FINISH_INIT_STATE = 0x02532636"
definition M2M_FINISH_BOOT_ROM :: u32 where "M2M_FINISH_BOOT_ROM = 0x10add09e"
definition M2M_START_FIRMWARE :: u32 where "M2M_START_FIRMWARE = 0xef522f61"
definition M2M_ATE_FW_START_VALUE :: u32 where "M2M_ATE_FW_START_VALUE = 0x3C1CD57D"
definition M2M_ATE_FW_IS_UP_VALUE :: u32 where "M2M_ATE_FW_IS_UP_VALUE = 0xD75DC1C3"
definition REV_2B0 :: u32 where "REV_2B0 = 0x2B0"
definition REV_3A0 :: u32 where "REV_3A0 = 0x3A0"
definition REV :: "u32 \<Rightarrow> u32" where "REV v = v AND 0xfff"
definition EFUSED_MAC :: "u32 \<Rightarrow> bool" where "EFUSED_MAC v \<longleftrightarrow> v AND 0xffff0000 \<noteq> 0"
definition rHAVE_USE_PMU_BIT :: u32 where "rHAVE_USE_PMU_BIT = 2"
definition rHAVE_ETHERNET_MODE_BIT :: u32 where "rHAVE_ETHERNET_MODE_BIT = 0x80"
definition TIMEOUT :: u32 where "TIMEOUT = 0xffffffff"
definition M2M_ERR_INIT :: int where "M2M_ERR_INIT = -5"
definition M2M_WIFI_MODE_NORMAL :: u8 where "M2M_WIFI_MODE_NORMAL = 1"
definition M2M_WIFI_MODE_ATE_HIGH :: u8 where "M2M_WIFI_MODE_ATE_HIGH = 2"
definition M2M_WIFI_MODE_ATE_LOW :: u8 where "M2M_WIFI_MODE_ATE_LOW = 3"
definition M2M_WIFI_MODE_ETHERNET :: u8 where "M2M_WIFI_MODE_ETHERNET = 4"
definition M2M_WIFI_MODE_MAX :: u8 where "M2M_WIFI_MODE_MAX = 5"

subsection \<open>Register accesses\<close>

text \<open>\<open>ret += call()\<close> for a \<open>sint8\<close>.\<close>

definition add_s8 :: "int \<Rightarrow> int \<Rightarrow> int" where
  "add_s8 a b = sint (of_int (a + b) :: u8)"

text \<open>A write whose result is ignored, and a read into a variable that held \<open>old\<close>.\<close>

definition put_reg :: "'w nm_bus \<Rightarrow> u32 \<Rightarrow> u32 \<Rightarrow> ('w, 'z) hif_scheme \<Rightarrow> ('w, 'z) hif_scheme option" where
  "put_reg bus a v h = map_option snd (wr_reg bus a v h)"

definition get_reg :: "'w nm_bus \<Rightarrow> u32 \<Rightarrow> u32 \<Rightarrow> ('w, 'z) hif_scheme \<Rightarrow> (int \<times> u32 \<times> ('w, 'z) hif_scheme) option" where
  "get_reg bus old a h = map_option (\<lambda>(ret, v, h). (ret, keep old v, h)) (rd_reg bus a h)"

text \<open>\<open>nm_read_reg\<close>.\<close>

definition fetch_reg :: "'w nm_bus \<Rightarrow> u32 \<Rightarrow> u32 \<Rightarrow> ('w, 'z) hif_scheme \<Rightarrow> (u32 \<times> ('w, 'z) hif_scheme) option" where
  "fetch_reg bus junk a h = map_option snd (get_reg bus junk a h)"

subsection \<open>Identification\<close>

definition nmi_get_chipid :: "'w nm_bus \<Rightarrow> u32 \<Rightarrow> ('w, 'z) hif_scheme \<Rightarrow> (u32 \<times> ('w, 'z) hif_scheme) option" where
  "nmi_get_chipid bus junk h =
     (if nmi_chipid h = 0
      then do {
        (ret, c, h) \<leftarrow> get_reg bus 0 0x1000 h;
        (if ret \<noteq> M2M_SUCCESS then Some (0, h\<lparr>nmi_chipid := 0\<rparr>)
         else do {
           (ret, rf, h) \<leftarrow> get_reg bus junk 0x13f4 h;
           (if ret \<noteq> M2M_SUCCESS then Some (0, h\<lparr>nmi_chipid := 0\<rparr>)
            else do {
              (ret, c, h) \<leftarrow>
                (if c = 0x1002a0 then Some (M2M_SUCCESS, if rf = 1 then c else 0x1002a1, h)
                 else if c = 0x1002b0
                 then Some (M2M_SUCCESS, if rf = 3 then c else if rf = 4 then 0x1002b1 else 0x1002b2, h)
                 else if c = 0x1000F0 then get_reg bus c 0x3B0000 h
                 else Some (M2M_SUCCESS, c, h));
              (if ret \<noteq> M2M_SUCCESS then Some (0, h\<lparr>nmi_chipid := 0\<rparr>)
               else let c = (c AND NOT 0x0f0000) OR 0x050000
                    in Some (c, h\<lparr>nmi_chipid := c\<rparr>)) }) }) }
      else Some (nmi_chipid h, h))"

definition nmi_get_rfrevid :: "'w nm_bus \<Rightarrow> u32 \<Rightarrow> ('w, 'z) hif_scheme \<Rightarrow> (u32 \<times> ('w, 'z) hif_scheme) option" where
  "nmi_get_rfrevid bus junk h = do {
     (ret, rf, h) \<leftarrow> get_reg bus junk 0x13f4 h;
     Some (if ret \<noteq> M2M_SUCCESS then 0 else rf, h) }"

definition check_3000_id :: "'w nm_bus \<Rightarrow> u32 \<Rightarrow> ('w, 'z) hif_scheme \<Rightarrow> (bool \<times> ('w, 'z) hif_scheme) option" where
  "check_3000_id bus junk h = do {
     (c, h) \<leftarrow> nmi_get_chipid bus junk h;
     Some (c AND 0xf00000 = 0x300000, h) }"

subsection \<open>Clocks, waking and reset\<close>

partial_function (option) apply_conf_loop :: "'w nm_bus \<Rightarrow> u32 \<Rightarrow> ('w, 'z) hif_scheme \<Rightarrow> ('w, 'z) hif_scheme option" where
  "apply_conf_loop bus v h =
     Option.bind (put_reg bus rNMI_GP_REG_1 v h) (\<lambda>h.
       if v \<noteq> 0
       then Option.bind (get_reg bus 0 rNMI_GP_REG_1 h) (\<lambda>(ret, reg, h).
              if ret = M2M_SUCCESS \<and> reg = v then Some h else apply_conf_loop bus v h)
       else Some h)"

definition chip_apply_conf :: "'w nm_bus \<Rightarrow> u32 \<Rightarrow> ('w, 'z) hif_scheme \<Rightarrow> (int \<times> ('w, 'z) hif_scheme) option" where
  "chip_apply_conf bus u32Conf h = map_option (\<lambda>h. (M2M_SUCCESS, h)) (apply_conf_loop bus u32Conf h)"

definition chip_idle :: "'w nm_bus \<Rightarrow> ('w, 'z) hif_scheme \<Rightarrow> ('w, 'z) hif_scheme option" where
  "chip_idle bus h = do {
     (_, reg, h) \<leftarrow> get_reg bus 0 0x1 h;
     (if reg AND 0x2 \<noteq> 0 then put_reg bus 0x1 (reg AND NOT (push_bit 1 1)) h else Some h) }"

definition enable_rf_blocks :: "'w nm_bus \<Rightarrow> ('w, 'z) hif_scheme \<Rightarrow> ('w, 'z) hif_scheme option" where
  "enable_rf_blocks bus h = do {
     h \<leftarrow> put_reg bus 0x6 0xdb h;
     h \<leftarrow> put_reg bus 0x7 0x6 h;
     h \<leftarrow> put_reg bus 0x1480 0 h;
     h \<leftarrow> put_reg bus 0x1484 0 h;
     h \<leftarrow> put_reg bus 0x6 0 h;
     put_reg bus 0x7 0 h }"

definition restore_pmu_settings_after_global_reset :: "'w nm_bus \<Rightarrow> u32 \<Rightarrow> ('w, 'z) hif_scheme \<Rightarrow> ('w, 'z) hif_scheme option" where
  "restore_pmu_settings_after_global_reset bus junk h = do {
     (c, h) \<leftarrow> nmi_get_chipid bus junk h;
     (if REV c \<ge> REV_2B0 then put_reg bus 0x1e48 0xb78469ce h else Some h) }"

definition nmi_update_pll :: "'w nm_bus \<Rightarrow> u32 \<Rightarrow> ('w, 'z) hif_scheme \<Rightarrow> ('w, 'z) hif_scheme option" where
  "nmi_update_pll bus junk h = do {
     (pll, h) \<leftarrow> fetch_reg bus junk 0x1428 h;
     let pll = pll AND NOT 1;
     h \<leftarrow> put_reg bus 0x1428 pll h;
     put_reg bus 0x1428 (pll OR 1) h }"

definition nmi_set_sys_clk_src_to_xo :: "'w nm_bus \<Rightarrow> u32 \<Rightarrow> ('w, 'z) hif_scheme \<Rightarrow> ('w, 'z) hif_scheme option" where
  "nmi_set_sys_clk_src_to_xo bus junk h = do {
     (v, h) \<leftarrow> fetch_reg bus junk 0x141c h;
     h \<leftarrow> put_reg bus 0x141c (v OR push_bit 2 1) h;
     nmi_update_pll bus junk h }"

definition chip_wake :: "'w nm_bus \<Rightarrow> u32 \<Rightarrow> ('w, 'z) hif_scheme \<Rightarrow> (int \<times> ('w, 'z) hif_scheme) option" where
  "chip_wake bus junk h = do {
     (ret, h) \<leftarrow> nm_clkless_wake bus junk h;
     (if ret \<noteq> M2M_SUCCESS then Some (ret, h)
      else do {
        (c3000, h) \<leftarrow> check_3000_id bus junk h;
        (if \<not> c3000 then map_option (\<lambda>h. (ret, h)) (enable_rf_blocks bus h) else Some (ret, h)) }) }"

definition chip_reset :: "'w nm_bus \<Rightarrow> u32 \<Rightarrow> ('w, 'z) hif_scheme \<Rightarrow> (int \<times> ('w, 'z) hif_scheme) option" where
  "chip_reset bus junk h = do {
     h \<leftarrow> nmi_set_sys_clk_src_to_xo bus junk h;
     (r, h) \<leftarrow> wr_reg bus NMI_GLB_RESET_0 0 h;
     h \<leftarrow> restore_pmu_settings_after_global_reset bus junk h;
     Some (add_s8 M2M_SUCCESS r, h) }"

definition clear_state_regs :: "'w nm_bus \<Rightarrow> ('w, 'z) hif_scheme \<Rightarrow> ('w, 'z) hif_scheme option" where
  "clear_state_regs bus h = do {
     h \<leftarrow> put_reg bus BOOTROM_REG 0 h;
     h \<leftarrow> put_reg bus NMI_STATE_REG 0 h;
     put_reg bus NMI_REV_REG 0 h }"

definition chip_reset_and_cpu_halt :: "'w nm_bus \<Rightarrow> u32 \<Rightarrow> ('w, 'z) hif_scheme \<Rightarrow> (int \<times> ('w, 'z) hif_scheme) option" where
  "chip_reset_and_cpu_halt bus junk h = do {
     (ret, h) \<leftarrow> chip_wake bus junk h;
     (if ret \<noteq> M2M_SUCCESS then Some (ret, h)
      else do {
        (c3000, h) \<leftarrow> check_3000_id bus junk h;
        (if c3000 then Some (ret, h)
         else do {
           (_, h) \<leftarrow> chip_reset bus junk h;
           (_, reg, h) \<leftarrow> get_reg bus 0 0x1118 h;
           (ret, h) \<leftarrow> wr_reg bus 0x1118 (reg OR push_bit 0 1) h;
           (r, reg, h) \<leftarrow> get_reg bus (reg OR push_bit 0 1) NMI_GLB_RESET_0 h;
           let ret = add_s8 ret r;
           (ret, h) \<leftarrow>
             (if reg AND push_bit 10 1 = push_bit 10 1
              then do {
                (r1, h) \<leftarrow> wr_reg bus NMI_GLB_RESET_0 (reg AND NOT (push_bit 10 1)) h;
                (r2, _, h) \<leftarrow> get_reg bus 0 NMI_GLB_RESET_0 h;
                Some (add_s8 (add_s8 ret r1) r2, h) }
              else Some (ret, h));
           h \<leftarrow> clear_state_regs bus h;
           h \<leftarrow> put_reg bus NMI_PIN_MUX_0 0x11111000 h;
           Some (ret, h) }) }) }"

definition cpu_start :: "'w nm_bus \<Rightarrow> u32 \<Rightarrow> ('w, 'z) hif_scheme \<Rightarrow> (int \<times> ('w, 'z) hif_scheme) option" where
  "cpu_start bus junk h = do {
     h \<leftarrow> clear_state_regs bus h;
     (_, reg, h) \<leftarrow> get_reg bus junk 0x1118 h;
     let reg = reg OR push_bit 0 1;
     (_, h) \<leftarrow> wr_reg bus 0x1118 reg h;
     (ret, h) \<leftarrow> wr_reg bus 0x150014 1 h;
     (r, reg, h) \<leftarrow> get_reg bus reg NMI_GLB_RESET_0 h;
     let ret = add_s8 ret r;
     (ret, reg, h) \<leftarrow>
       (if reg AND push_bit 10 1 = push_bit 10 1
        then do {
          (r, h) \<leftarrow> wr_reg bus NMI_GLB_RESET_0 (reg AND NOT (push_bit 10 1)) h;
          Some (add_s8 ret r, reg AND NOT (push_bit 10 1), h) }
        else Some (ret, reg, h));
     (r, h) \<leftarrow> wr_reg bus NMI_GLB_RESET_0 (reg OR push_bit 10 1) h;
     Some (add_s8 ret r, h) }"

text \<open>\<open>if (M2M_SUCCESS != ret) return M2M_ERR_BUS_FAIL;\<close>\<close>

definition or_bus_fail :: "(int \<times> 'h) option \<Rightarrow> ('h \<Rightarrow> (int \<times> 'h) option) \<Rightarrow> (int \<times> 'h) option" where
  "or_bus_fail r k = do { (ret, h) \<leftarrow> r; (if ret \<noteq> M2M_SUCCESS then Some (M2M_ERR_BUS_FAIL, h) else k h) }"

definition set_bit_of :: "'w nm_bus \<Rightarrow> u32 \<Rightarrow> nat \<Rightarrow> u32 \<Rightarrow> ('w, 'z) hif_scheme \<Rightarrow> (int \<times> ('w, 'z) hif_scheme) option" where
  "set_bit_of bus junk n a h = do {
     (ret, reg, h) \<leftarrow> get_reg bus junk a h;
     or_bus_fail (Some (ret, h)) (\<lambda>h. wr_reg bus a (reg OR push_bit n 1) h) }"

definition enable_interrupts :: "'w nm_bus \<Rightarrow> u32 \<Rightarrow> ('w, 'z) hif_scheme \<Rightarrow> (int \<times> ('w, 'z) hif_scheme) option" where
  "enable_interrupts bus junk h =
     or_bus_fail (set_bit_of bus junk 8 NMI_PIN_MUX_0 h) (\<lambda>h.
     or_bus_fail (set_bit_of bus junk 16 NMI_INTR_ENABLE h) (\<lambda>h. Some (M2M_SUCCESS, h)))"


subsection \<open>Waiting for the boot ROM and the firmware\<close>

partial_function (option) efuse_loop :: "'w nm_bus \<Rightarrow> u32 \<Rightarrow> ('w, 'z) hif_scheme \<Rightarrow> ('w, 'z) hif_scheme option" where
  "efuse_loop bus junk h =
     Option.bind (fetch_reg bus junk 0x1014 h) (\<lambda>(reg, h).
       if reg AND 0x80000000 \<noteq> 0 then Some h else efuse_loop bus junk h)"

text \<open>\<open>True\<close>: the boot ROM has finished; \<open>False\<close>: \<open>++cnt > TIMEOUT\<close>.\<close>

partial_function (option) bootrom_loop ::
    "'w nm_bus \<Rightarrow> u32 \<Rightarrow> u32 \<Rightarrow> u32 \<Rightarrow> ('w, 'z) hif_scheme \<Rightarrow> (bool \<times> ('w, 'z) hif_scheme) option" where
  "bootrom_loop bus junk reg cnt h =
     (if reg = M2M_FINISH_BOOT_ROM then Some (True, h)
      else Option.bind (fetch_reg bus junk BOOTROM_REG h) (\<lambda>(reg, h).
             if cnt + 1 > TIMEOUT then Some (False, h) else bootrom_loop bus junk reg (cnt + 1) h))"

definition wait_for_bootrom :: "'w nm_bus \<Rightarrow> u32 \<Rightarrow> u8 \<Rightarrow> ('w, 'z) hif_scheme \<Rightarrow> (int \<times> ('w, 'z) hif_scheme) option" where
  "wait_for_bootrom bus junk arg h = do {
     h \<leftarrow> efuse_loop bus junk h;
     (reg, h) \<leftarrow> fetch_reg bus junk M2M_WAIT_FOR_HOST_REG h;
     (booted, h) \<leftarrow> (if reg AND 1 = 0 then bootrom_loop bus junk 0 0 h else Some (True, h));
     (if \<not> booted then Some (M2M_ERR_INIT, h)
      else do {
        h \<leftarrow>
          (if arg = M2M_WIFI_MODE_ATE_HIGH
           then do { h \<leftarrow> put_reg bus NMI_REV_REG M2M_ATE_FW_START_VALUE h;
                     put_reg bus NMI_STATE_REG (push_bit 20 1) h }
           else if arg = M2M_WIFI_MODE_ATE_LOW
           then do { h \<leftarrow> put_reg bus NMI_REV_REG M2M_ATE_FW_START_VALUE h;
                     put_reg bus NMI_STATE_REG 0 h }
           else Some h);
        let gp = (if arg = M2M_WIFI_MODE_ETHERNET then rHAVE_ETHERNET_MODE_BIT else 0);
        (c, h) \<leftarrow> nmi_get_chipid bus junk h;
        (_, h) \<leftarrow> chip_apply_conf bus (if REV c = REV_3A0 then gp OR rHAVE_USE_PMU_BIT else gp) h;
        h \<leftarrow> put_reg bus BOOTROM_REG M2M_START_FIRMWARE h;
        Some (M2M_SUCCESS, h) }) }"

partial_function (option) firmware_loop ::
    "'w nm_bus \<Rightarrow> u32 \<Rightarrow> u32 \<Rightarrow> u32 \<Rightarrow> u32 \<Rightarrow> u32 \<Rightarrow> ('w, 'z) hif_scheme \<Rightarrow> (bool \<times> ('w, 'z) hif_scheme) option" where
  "firmware_loop bus junk a want reg cnt h =
     (if reg = want then Some (True, h)
      else Option.bind (fetch_reg bus junk a h) (\<lambda>(reg, h).
             if cnt + 1 \<ge> TIMEOUT then Some (False, h) else firmware_loop bus junk a want reg (cnt + 1) h))"

definition wait_for_firmware_start :: "'w nm_bus \<Rightarrow> u32 \<Rightarrow> u8 \<Rightarrow> ('w, 'z) hif_scheme \<Rightarrow> (int \<times> ('w, 'z) hif_scheme) option" where
  "wait_for_firmware_start bus junk arg h = do {
     let ate = (arg = M2M_WIFI_MODE_ATE_HIGH \<or> arg = M2M_WIFI_MODE_ATE_LOW);
     let regAddress = (if ate then NMI_REV_REG else NMI_STATE_REG);
     let checkValue = (if ate then M2M_ATE_FW_IS_UP_VALUE else M2M_FINISH_INIT_STATE);
     (up, h) \<leftarrow> firmware_loop bus junk regAddress checkValue 0 0 h;
     (if \<not> up then Some (M2M_ERR_INIT, h)
      else if checkValue = M2M_FINISH_INIT_STATE
      then map_option (\<lambda>h. (M2M_SUCCESS, h)) (put_reg bus NMI_STATE_REG 0 h)
      else Some (M2M_SUCCESS, h)) }"

subsection \<open>De-initialisation\<close>

text \<open>The retries with \<open>timeout\<close> left; \<open>ret\<close> is the result of the last access.\<close>

fun deinit_loop :: "'w nm_bus \<Rightarrow> u32 \<Rightarrow> int \<Rightarrow> nat \<Rightarrow> ('w, 'z) hif_scheme \<Rightarrow> (int \<times> ('w, 'z) hif_scheme) option" where
  "deinit_loop bus reg ret 0 h = Some (ret, h)"
| "deinit_loop bus reg ret (Suc timeout) h = do {
     (ret, reg, h) \<leftarrow> get_reg bus reg NMI_GLB_RESET_0 h;
     (if ret \<noteq> M2M_SUCCESS then Some (ret, h)
      else if reg AND push_bit 10 1 \<noteq> 0
      then do {
        let reg = reg AND NOT (push_bit 10 1);
        (ret, h) \<leftarrow> wr_reg bus NMI_GLB_RESET_0 reg h;
        deinit_loop bus reg ret timeout h }
      else Some (ret, h)) }"

definition chip_deinit :: "'w nm_bus \<Rightarrow> ('w, 'z) hif_scheme \<Rightarrow> (int \<times> ('w, 'z) hif_scheme) option" where
  "chip_deinit bus h = do {
     (_, reg, h) \<leftarrow> get_reg bus 0 NMI_GLB_RESET_0 h;
     let reg = reg AND NOT (push_bit 10 1);
     (ret, h) \<leftarrow> wr_reg bus NMI_GLB_RESET_0 reg h;
     (if ret \<noteq> M2M_SUCCESS then Some (ret, h) else deinit_loop bus reg ret 10 h) }"

subsection \<open>GPIOs\<close>

text \<open>A shift by 32 or more is undefined.\<close>

definition bit32 :: "u8 \<Rightarrow> u32 option" where
  "bit32 gpio = (if gpio < 32 then Some (push_bit (unat gpio) 1) else None)"

text \<open>\<open>if(val) val32 |= m; else val32 &= ~m;\<close>\<close>

definition with_bit :: "bool \<Rightarrow> u32 \<Rightarrow> u32 \<Rightarrow> u32" where
  "with_bit b m v = (if b then v OR m else v AND NOT m)"

definition set_gpio_dir :: "'w nm_bus \<Rightarrow> u8 \<Rightarrow> u8 \<Rightarrow> ('w, 'z) hif_scheme \<Rightarrow> (int \<times> ('w, 'z) hif_scheme) option" where
  "set_gpio_dir bus gpio dir h = on_val (rd_reg bus 0x20108 h) (\<lambda>v h.
     Option.bind (bit32 gpio) (\<lambda>m. wr_reg bus 0x20108 (with_bit (dir \<noteq> 0) m v) h))"

definition set_gpio_val :: "'w nm_bus \<Rightarrow> u8 \<Rightarrow> u8 \<Rightarrow> ('w, 'z) hif_scheme \<Rightarrow> (int \<times> ('w, 'z) hif_scheme) option" where
  "set_gpio_val bus gpio val h = on_val (rd_reg bus 0x20100 h) (\<lambda>v h.
     Option.bind (bit32 gpio) (\<lambda>m. wr_reg bus 0x20100 (with_bit (val \<noteq> 0) m v) h))"

text \<open>The second component is the value stored through \<open>val\<close>, if any.\<close>

definition get_gpio_val :: "'w nm_bus \<Rightarrow> u8 \<Rightarrow> ('w, 'z) hif_scheme \<Rightarrow> (int \<times> u8 option \<times> ('w, 'z) hif_scheme) option" where
  "get_gpio_val bus gpio h = do {
     (ret, v, h) \<leftarrow> rd_reg bus 0x20104 h;
     (if ret \<noteq> M2M_SUCCESS then Some (ret, None, h)
      else do {
        v \<leftarrow> v;
        (if gpio < 32 then Some (ret, Some (ucast (drop_bit (unat gpio) v AND 1)), h) else None) }) }"

definition pullup_ctrl :: "'w nm_bus \<Rightarrow> u32 \<Rightarrow> u8 \<Rightarrow> ('w, 'z) hif_scheme \<Rightarrow> (int \<times> ('w, 'z) hif_scheme) option" where
  "pullup_ctrl bus pinmask enable h = on_val (rd_reg bus 0x142c h) (\<lambda>v h.
     wr_reg bus 0x142c (with_bit (enable = 0) pinmask v) h)"

subsection \<open>The MAC address\<close>

text \<open>
  The two words of \<open>tstrGpRegs\<close> are read through the pointer in \<open>rNMI_GP_REG_2\<close>. \<open>mac\<close> is what the six
  bytes of the local variable held. The second component is what is copied to \<open>pu8MacAddr\<close>, the third
  the flag \<open>*pu8IsValid\<close>.
\<close>

definition gp_regs :: "'w nm_bus \<Rightarrow> ('w, 'z) hif_scheme \<Rightarrow> (int \<times> u8 list \<times> ('w, 'z) hif_scheme) option" where
  "gp_regs bus h = do {
     (ret, v, h) \<leftarrow> rd_reg bus rNMI_GP_REG_2 h;
     (if ret \<noteq> M2M_SUCCESS then Some (ret, replicate 8 0, h)
      else do { a \<leftarrow> v; rd_block bus (a OR 0x30000) (replicate 8 0) 8 h }) }"

definition nmi_get_otp_mac_address ::
    "'w nm_bus \<Rightarrow> u8 list \<Rightarrow> ('w, 'z) hif_scheme \<Rightarrow> (int \<times> u8 list option \<times> u8 \<times> ('w, 'z) hif_scheme) option" where
  "nmi_get_otp_mac_address bus mac h = do {
     (ret, gp, h) \<leftarrow> gp_regs bus h;
     (if ret \<noteq> M2M_SUCCESS then Some (ret, None, 0, h)
      else if \<not> EFUSED_MAC (of_le32 gp) then Some (ret, Some (replicate 6 0), 0, h)
      else do {
        (ret, mac, h) \<leftarrow> rd_block bus (drop_bit 16 (of_le32 gp) OR 0x30000) mac 6 h;
        Some (ret, Some mac, 1, h) }) }"

definition nmi_get_mac_address ::
    "'w nm_bus \<Rightarrow> u8 list \<Rightarrow> ('w, 'z) hif_scheme \<Rightarrow> (int \<times> u8 list option \<times> ('w, 'z) hif_scheme) option" where
  "nmi_get_mac_address bus mac h = do {
     (ret, gp, h) \<leftarrow> gp_regs bus h;
     (if ret \<noteq> M2M_SUCCESS then Some (ret, None, h)
      else do {
        (ret, mac, h) \<leftarrow> rd_block bus ((of_le32 gp AND 0xffff) OR 0x30000) mac 6 h;
        Some (ret, Some mac, h) }) }"

end
