(* ===== verification/Nmdrv.thy ===== *)
theory Nmdrv
  imports Nmasic
begin

text \<open>
  Bring-up of the WINC1500: the bus set-up of \<open>winc1500_spi.c\<close> and \<open>winc1500_bsp.c\<close>, and the driver
  \<open>driver/nmdrv.c\<close> (start, stop, firmware versions) over an arbitrary bus. The set-up of the bus is a
  record of operations, \<open>spi_ctl\<close> is the one of the source.
\<close>

subsection \<open>Board and bus set-up\<close>

datatype winc_pin = WINC1500_PIN_RESET | WINC1500_PIN_ENABLE | WINC1500_PIN_WAKE

text \<open>The pins and the SPI port of the hardware layer.\<close>

record 'w winc_port =
  gpio_init_ssn :: "'w \<Rightarrow> int \<times> 'w"
  hal_spi_config :: "'w \<Rightarrow> int \<times> 'w"
  hal_spi_enable :: "'w \<Rightarrow> int \<times> 'w"
  pin_write :: "winc_pin \<Rightarrow> bool \<Rightarrow> 'w \<Rightarrow> 'w"
  has_enable :: bool

record 'w winc_board =
  winc1500_spi_inited :: bool
  port_st :: 'w

definition on_port :: "('w \<Rightarrow> int \<times> 'w) \<Rightarrow> 'w winc_board \<Rightarrow> int \<times> 'w winc_board" where
  "on_port f b = (case f (port_st b) of (rc, w) \<Rightarrow> (rc, b\<lparr>port_st := w\<rparr>))"

definition nm_bsp_reset :: "'w winc_port \<Rightarrow> 'w \<Rightarrow> 'w" where
  "nm_bsp_reset p w =
     (let w = (if has_enable p then pin_write p WINC1500_PIN_ENABLE False w else w);
          w = pin_write p WINC1500_PIN_RESET False w;
          w = (if has_enable p then pin_write p WINC1500_PIN_ENABLE True w else w)
      in pin_write p WINC1500_PIN_RESET True w)"

definition bus_reset :: "'w winc_port \<Rightarrow> 'w winc_board \<Rightarrow> int \<times> 'w winc_board" where
  "bus_reset p b = (M2M_SUCCESS, b\<lparr>port_st := nm_bsp_reset p (port_st b)\<rparr>)"

definition nm_bus_init :: "'w winc_port \<Rightarrow> 'w winc_board \<Rightarrow> int \<times> 'w winc_board" where
  "nm_bus_init p b =
     (if \<not> winc1500_spi_inited b
      then case on_port (gpio_init_ssn p) b of (rc, b) \<Rightarrow>
        if rc \<noteq> 0 then (M2M_ERR_BUS_FAIL, b)
        else case on_port (hal_spi_config p) b of (rc, b) \<Rightarrow>
          if rc \<noteq> 0 then (M2M_ERR_BUS_FAIL, b)
          else case on_port (hal_spi_enable p) (b\<lparr>winc1500_spi_inited := True\<rparr>) of (rc, b) \<Rightarrow>
            if rc \<noteq> 0 then (M2M_ERR_BUS_FAIL, b) else bus_reset p b
      else bus_reset p b)"

definition nm_bus_deinit :: "'w winc_board \<Rightarrow> int \<times> 'w winc_board" where
  "nm_bus_deinit b = (M2M_SUCCESS, b)"

definition nm_bus_iface_init :: "'w winc_port \<Rightarrow> 'w winc_board \<Rightarrow> int \<times> 'w winc_board" where
  "nm_bus_iface_init p b = nm_bus_init p b"

definition nm_bus_iface_deinit :: "'w winc_board \<Rightarrow> int \<times> 'w winc_board" where
  "nm_bus_iface_deinit b = nm_bus_deinit b"

text \<open>The control operations of a bus, and those of the SPI bus.\<close>

record 'w bus_ctl =
  c_init :: "'w \<Rightarrow> (int \<times> 'w) option"
  c_deinit :: "'w \<Rightarrow> (int \<times> 'w) option"
  c_spi_init :: "'w \<Rightarrow> (int \<times> 'w) option"
  c_spi_deinit :: "'w \<Rightarrow> (int \<times> 'w) option"

definition on_board :: "('b \<Rightarrow> int \<times> 'b) \<Rightarrow> 'b nmspi \<Rightarrow> int \<times> 'b nmspi" where
  "on_board f s = (case f (chip s) of (rc, b) \<Rightarrow> (rc, s\<lparr>chip := b\<rparr>))"

definition spi_ctl :: "'w winc_port \<Rightarrow> 'w winc_board spi_dev \<Rightarrow> u32 \<Rightarrow> 'w winc_board nmspi bus_ctl" where
  "spi_ctl p dev junk = \<lparr>c_init = Some \<circ> on_board (nm_bus_iface_init p), c_deinit = Some \<circ> on_board nm_bus_iface_deinit,
     c_spi_init = nm_spi_init dev junk, c_spi_deinit = Some \<circ> nm_spi_deinit\<rparr>"

definition ctl :: "('w \<Rightarrow> (int \<times> 'w) option) \<Rightarrow> ('w, 'z) hif_scheme \<Rightarrow> (int \<times> ('w, 'z) hif_scheme) option" where
  "ctl f h = map_option (\<lambda>(ret, w). (ret, h\<lparr>bus_st := w\<rparr>)) (f (bus_st h))"

subsection \<open>Versions\<close>

text \<open>\<open>tstrM2mRev\<close> by its bytes: chip 0, firmware version 4 to 6, driver version 7 to 9, then the build date.\<close>

definition sizeof_tstrM2mRev :: nat where "sizeof_tstrM2mRev = 32"

definition M2M_ERR_FW_VER_MISMATCH :: int where "M2M_ERR_FW_VER_MISMATCH = -13"

definition M2M_GET_MAJOR :: "u16 \<Rightarrow> u8" where "M2M_GET_MAJOR v = ucast (drop_bit 8 v)"
definition M2M_GET_MINOR :: "u16 \<Rightarrow> u8" where "M2M_GET_MINOR v = ucast (drop_bit 4 v) AND 0x0f"
definition M2M_GET_PATCH :: "u16 \<Rightarrow> u8" where "M2M_GET_PATCH v = ucast v AND 0x0f"
definition M2M_GET_FW_VER :: "u32 \<Rightarrow> u16" where "M2M_GET_FW_VER w = ucast w"
definition M2M_GET_DRV_VER :: "u32 \<Rightarrow> u16" where "M2M_GET_DRV_VER w = ucast (drop_bit 16 w)"

definition M2M_MAKE_VERSION :: "u8 \<Rightarrow> u8 \<Rightarrow> u8 \<Rightarrow> u16" where
  "M2M_MAKE_VERSION ma mi pa = push_bit 8 (ucast ma) OR push_bit 4 (ucast (mi AND 0x0f)) OR ucast (pa AND 0x0f)"

definition curr_drv_ver :: u16 where "curr_drv_ver = M2M_MAKE_VERSION 19 3 0"

definition version_at :: "u8 list \<Rightarrow> nat \<Rightarrow> u16" where
  "version_at rv i = M2M_MAKE_VERSION (rv ! i) (rv ! (i + 1)) (rv ! (i + 2))"

text \<open>The two comparisons; the second result stands when both fail.\<close>

definition check_versions :: "u8 list \<Rightarrow> int \<Rightarrow> int" where
  "check_versions rv ret =
     (let ret = (if curr_drv_ver < version_at rv 7 then M2M_ERR_FW_VER_MISMATCH else ret)
      in if curr_drv_ver > version_at rv 4 then M2M_ERR_FW_VER_MISMATCH else ret)"

definition rev_bytes :: "u32 \<Rightarrow> u32 \<Rightarrow> u8 list \<Rightarrow> u8 list" where
  "rev_bytes c reg rv = le32 c
     @ [M2M_GET_MAJOR (M2M_GET_FW_VER reg), M2M_GET_MINOR (M2M_GET_FW_VER reg), M2M_GET_PATCH (M2M_GET_FW_VER reg),
        M2M_GET_MAJOR (M2M_GET_DRV_VER reg), M2M_GET_MINOR (M2M_GET_DRV_VER reg), M2M_GET_PATCH (M2M_GET_DRV_VER reg)]
     @ drop 10 rv"

definition nm_get_firmware_info ::
    "'w nm_bus \<Rightarrow> u32 \<Rightarrow> u8 list \<Rightarrow> ('w, 'z) hif_scheme \<Rightarrow> (int \<times> u8 list \<times> ('w, 'z) hif_scheme) option" where
  "nm_get_firmware_info bus junk rv h = do {
     (ret, reg, h) \<leftarrow> get_reg bus 0 NMI_REV_REG h;
     (ret, reg, h) \<leftarrow> (if reg = M2M_ATE_FW_IS_UP_VALUE then get_reg bus reg NMI_REV_REG_ATE h else Some (ret, reg, h));
     (c, h) \<leftarrow> nmi_get_chipid bus junk h;
     let rv = rev_bytes c reg rv;
     Some (check_versions rv ret, rv, h) }"

text \<open>The part the two readers of the flash share; \<open>half\<close> picks the address out of \<open>u32Firmware_Ota_rev\<close>.\<close>

definition read_rev ::
    "'w nm_bus \<Rightarrow> (u32 \<Rightarrow> u32) \<Rightarrow> ('w, 'z) hif_scheme \<Rightarrow> (int \<times> u8 list \<times> ('w, 'z) hif_scheme) option" where
  "read_rev bus half h = do {
     let rv = replicate sizeof_tstrM2mRev 0;
     (ret, reg, h) \<leftarrow> get_reg bus 0 rNMI_GP_REG_2 h;
     (if ret \<noteq> M2M_SUCCESS then Some (ret, rv, h)
      else if reg = 0 then Some (M2M_ERR_FAIL, rv, h)
      else do {
        (ret, gp, h) \<leftarrow> rd_block bus (reg OR 0x30000) (replicate 8 0) 8 h;
        (if ret \<noteq> M2M_SUCCESS then Some (ret, rv, h)
         else let a = half (of_le32 (drop 4 gp)) in
           if a = 0 then Some (M2M_ERR_FAIL, rv, h)
           else do {
             (ret, rv, h) \<leftarrow> rd_block bus (a OR 0x30000) rv sizeof_tstrM2mRev h;
             Some (if ret \<noteq> M2M_SUCCESS then ret
                   else if version_at rv 4 = 0 \<or> version_at rv 7 = 0 then M2M_ERR_FAIL
                   else check_versions rv ret, rv, h) }) }) }"

text \<open>A null pointer is \<open>None\<close>.\<close>

definition nm_get_firmware_full_info ::
    "'w nm_bus \<Rightarrow> u8 list option \<Rightarrow> ('w, 'z) hif_scheme \<Rightarrow> (int \<times> u8 list option \<times> ('w, 'z) hif_scheme) option" where
  "nm_get_firmware_full_info bus rv h =
     (case rv of None \<Rightarrow> Some (M2M_SUCCESS, None, h)
      | Some _ \<Rightarrow> map_option (\<lambda>(ret, rv, h). (ret, Some rv, h)) (read_rev bus (\<lambda>w. w AND 0xffff) h))"

definition nm_get_ota_firmware_info ::
    "'w nm_bus \<Rightarrow> u8 list option \<Rightarrow> ('w, 'z) hif_scheme \<Rightarrow> (int \<times> u8 list option \<times> ('w, 'z) hif_scheme) option" where
  "nm_get_ota_firmware_info bus rv h =
     (case rv of None \<Rightarrow> Some (M2M_ERR_INVALID_ARG, None, h)
      | Some _ \<Rightarrow> map_option (\<lambda>(ret, rv, h). (ret, Some rv, h)) (read_rev bus (drop_bit 16) h))"

subsection \<open>Start and stop\<close>

definition nm_drv_init_download_mode ::
    "'w nm_bus \<Rightarrow> 'w bus_ctl \<Rightarrow> u32 \<Rightarrow> ('w, 'z) hif_scheme \<Rightarrow> (int \<times> ('w, 'z) hif_scheme) option" where
  "nm_drv_init_download_mode bus c junk h =
     on_ok (ctl (c_init c) h) (\<lambda>h. do {
       (_, h) \<leftarrow> chip_reset_and_cpu_halt bus junk h;
       (_, h) \<leftarrow> ctl (c_spi_init c) h;
       (_, h) \<leftarrow> nmi_get_chipid bus junk h;
       h \<leftarrow> put_reg bus 0x20300 0 h;
       Some (M2M_SUCCESS, h) })"

definition drv_mode :: "u8 option \<Rightarrow> u8" where
  "drv_mode arg = (case arg of None \<Rightarrow> M2M_WIFI_MODE_NORMAL
     | Some m \<Rightarrow> if m < M2M_WIFI_MODE_NORMAL \<or> m \<ge> M2M_WIFI_MODE_MAX then M2M_WIFI_MODE_NORMAL else m)"

text \<open>\<open>if (M2M_SUCCESS != ret) goto ERR2;\<close> where \<open>ERR2\<close> closes the bus.\<close>

definition or_close ::
    "'w bus_ctl \<Rightarrow> (int \<times> ('w, 'z) hif_scheme) option \<Rightarrow> (('w, 'z) hif_scheme \<Rightarrow> (int \<times> ('w, 'z) hif_scheme) option)
     \<Rightarrow> (int \<times> ('w, 'z) hif_scheme) option" where
  "or_close c r k = do { (ret, h) \<leftarrow> r;
     (if ret \<noteq> M2M_SUCCESS then map_option (\<lambda>(_, h). (ret, h)) (ctl (c_deinit c) h) else k h) }"

definition nm_drv_init ::
    "'w nm_bus \<Rightarrow> 'w bus_ctl \<Rightarrow> u32 \<Rightarrow> u8 option \<Rightarrow> ('w, 'z) hif_scheme \<Rightarrow> (int \<times> ('w, 'z) hif_scheme) option" where
  "nm_drv_init bus c junk arg h =
     (let mode = drv_mode arg in
      on_ok (ctl (c_init c) h) (\<lambda>h. do {
        (_, h) \<leftarrow> nmi_get_chipid bus junk h;
        (_, h) \<leftarrow> ctl (c_spi_init c) h;
        or_close c (wait_for_bootrom bus junk mode h) (\<lambda>h.
        or_close c (wait_for_firmware_start bus junk mode h) (\<lambda>h.
          if mode = M2M_WIFI_MODE_ATE_HIGH \<or> mode = M2M_WIFI_MODE_ATE_LOW then Some (M2M_SUCCESS, h)
          else or_close c (enable_interrupts bus junk h) (\<lambda>h. Some (M2M_SUCCESS, h)))) }))"

definition nm_drv_deinit :: "'w nm_bus \<Rightarrow> 'w bus_ctl \<Rightarrow> ('w, 'z) hif_scheme \<Rightarrow> (int \<times> ('w, 'z) hif_scheme) option" where
  "nm_drv_deinit bus c h =
     on_ok (chip_deinit bus h) (\<lambda>h.
     on_ok (ctl (c_deinit c) h) (\<lambda>h. do {
       (_, h) \<leftarrow> ctl (c_spi_deinit c) h;
       Some (M2M_SUCCESS, h) }))"

end
