(* ===== verification/M2m_Wifi.thy ===== *)
theory M2m_Wifi
  imports Nmdrv Socket
begin

text \<open>
  The Wi-Fi requests and responses of \<open>driver/m2m_wifi.c\<close>, built without \<open>ETH_MODE\<close>, \<open>CONF_MGMT\<close> and
  \<open>_PS_SERVER_\<close>. Structs that go to the firmware are their bytes in memory order, unassigned bytes come from
  \<open>ev_uninit\<close>. The three static variables are fields of the driver state. Buffers of the caller are
  the bytes that can be read at the pointer (\<open>None\<close>: the null pointer); reading past them is a fault.
\<close>

definition M2M_WIFI_REQ_SET_MAC_ADDRESS :: u8 where "M2M_WIFI_REQ_SET_MAC_ADDRESS = 2"
definition M2M_WIFI_REQ_CURRENT_RSSI :: u8 where "M2M_WIFI_REQ_CURRENT_RSSI = 3"
definition M2M_WIFI_RESP_CURRENT_RSSI :: u8 where "M2M_WIFI_RESP_CURRENT_RSSI = 4"
definition M2M_WIFI_REQ_GET_CONN_INFO :: u8 where "M2M_WIFI_REQ_GET_CONN_INFO = 5"
definition M2M_WIFI_RESP_CONN_INFO :: u8 where "M2M_WIFI_RESP_CONN_INFO = 6"
definition M2M_WIFI_REQ_SET_DEVICE_NAME :: u8 where "M2M_WIFI_REQ_SET_DEVICE_NAME = 7"
definition M2M_WIFI_REQ_START_PROVISION_MODE :: u8 where "M2M_WIFI_REQ_START_PROVISION_MODE = 8"
definition M2M_WIFI_RESP_PROVISION_INFO :: u8 where "M2M_WIFI_RESP_PROVISION_INFO = 9"
definition M2M_WIFI_REQ_STOP_PROVISION_MODE :: u8 where "M2M_WIFI_REQ_STOP_PROVISION_MODE = 10"
definition M2M_WIFI_REQ_SET_SYS_TIME :: u8 where "M2M_WIFI_REQ_SET_SYS_TIME = 11"
definition M2M_WIFI_REQ_ENABLE_SNTP_CLIENT :: u8 where "M2M_WIFI_REQ_ENABLE_SNTP_CLIENT = 12"
definition M2M_WIFI_REQ_DISABLE_SNTP_CLIENT :: u8 where "M2M_WIFI_REQ_DISABLE_SNTP_CLIENT = 13"
definition M2M_WIFI_REQ_CUST_INFO_ELEMENT :: u8 where "M2M_WIFI_REQ_CUST_INFO_ELEMENT = 15"
definition M2M_WIFI_REQ_SCAN :: u8 where "M2M_WIFI_REQ_SCAN = 16"
definition M2M_WIFI_RESP_SCAN_DONE :: u8 where "M2M_WIFI_RESP_SCAN_DONE = 17"
definition M2M_WIFI_REQ_SCAN_RESULT :: u8 where "M2M_WIFI_REQ_SCAN_RESULT = 18"
definition M2M_WIFI_RESP_SCAN_RESULT :: u8 where "M2M_WIFI_RESP_SCAN_RESULT = 19"
definition M2M_WIFI_REQ_SET_SCAN_OPTION :: u8 where "M2M_WIFI_REQ_SET_SCAN_OPTION = 20"
definition M2M_WIFI_REQ_SET_SCAN_REGION :: u8 where "M2M_WIFI_REQ_SET_SCAN_REGION = 21"
definition M2M_WIFI_REQ_SET_POWER_PROFILE :: u8 where "M2M_WIFI_REQ_SET_POWER_PROFILE = 22"
definition M2M_WIFI_REQ_SET_TX_POWER :: u8 where "M2M_WIFI_REQ_SET_TX_POWER = 23"
definition M2M_WIFI_REQ_SET_BATTERY_VOLTAGE :: u8 where "M2M_WIFI_REQ_SET_BATTERY_VOLTAGE = 24"
definition M2M_WIFI_REQ_SET_ENABLE_LOGS :: u8 where "M2M_WIFI_REQ_SET_ENABLE_LOGS = 25"
definition M2M_WIFI_REQ_GET_SYS_TIME :: u8 where "M2M_WIFI_REQ_GET_SYS_TIME = 26"
definition M2M_WIFI_RESP_GET_SYS_TIME :: u8 where "M2M_WIFI_RESP_GET_SYS_TIME = 27"
definition M2M_WIFI_REQ_SEND_ETHERNET_PACKET :: u8 where "M2M_WIFI_REQ_SEND_ETHERNET_PACKET = 28"
definition M2M_WIFI_REQ_GET_PRNG :: u8 where "M2M_WIFI_REQ_GET_PRNG = 31"
definition M2M_WIFI_RESP_GET_PRNG :: u8 where "M2M_WIFI_RESP_GET_PRNG = 32"
definition M2M_WIFI_RESP_MEMORY_RECOVER :: u8 where "M2M_WIFI_RESP_MEMORY_RECOVER = 14"
definition M2M_WIFI_REQ_CONNECT :: u8 where "M2M_WIFI_REQ_CONNECT = 40"
definition M2M_WIFI_REQ_DEFAULT_CONNECT :: u8 where "M2M_WIFI_REQ_DEFAULT_CONNECT = 41"
definition M2M_WIFI_RESP_DEFAULT_CONNECT :: u8 where "M2M_WIFI_RESP_DEFAULT_CONNECT = 42"
definition M2M_WIFI_REQ_DISCONNECT :: u8 where "M2M_WIFI_REQ_DISCONNECT = 43"
definition M2M_WIFI_RESP_CON_STATE_CHANGED :: u8 where "M2M_WIFI_RESP_CON_STATE_CHANGED = 44"
definition M2M_WIFI_REQ_SLEEP :: u8 where "M2M_WIFI_REQ_SLEEP = 45"
definition M2M_WIFI_REQ_WPS :: u8 where "M2M_WIFI_REQ_WPS = 47"
definition M2M_WIFI_REQ_DISABLE_WPS :: u8 where "M2M_WIFI_REQ_DISABLE_WPS = 49"
definition M2M_WIFI_REQ_DHCP_CONF :: u8 where "M2M_WIFI_REQ_DHCP_CONF = 50"
definition M2M_WIFI_RESP_IP_CONFLICT :: u8 where "M2M_WIFI_RESP_IP_CONFLICT = 52"
definition M2M_WIFI_REQ_LSN_INT :: u8 where "M2M_WIFI_REQ_LSN_INT = 57"
definition M2M_WIFI_REQ_DOZE :: u8 where "M2M_WIFI_REQ_DOZE = 58"
definition M2M_WIFI_REQ_ENABLE_AP :: u8 where "M2M_WIFI_REQ_ENABLE_AP = 70"
definition M2M_WIFI_REQ_DISABLE_AP :: u8 where "M2M_WIFI_REQ_DISABLE_AP = 71"
definition M2M_WIFI_REQ_ENABLE_P2P :: u8 where "M2M_WIFI_REQ_ENABLE_P2P = 91"
definition M2M_WIFI_REQ_DISABLE_P2P :: u8 where "M2M_WIFI_REQ_DISABLE_P2P = 92"
definition M2M_WIFI_RESP_CLIENT_INFO :: u8 where "M2M_WIFI_RESP_CLIENT_INFO = 101"
definition M2M_IP_REQ_STATIC_IP_CONF :: u8 where "M2M_IP_REQ_STATIC_IP_CONF = 10"
definition M2M_IP_REQ_ENABLE_DHCP :: u8 where "M2M_IP_REQ_ENABLE_DHCP = 11"
definition M2M_IP_REQ_DISABLE_DHCP :: u8 where "M2M_IP_REQ_DISABLE_DHCP = 12"

lemmas wifi_resp_defs = M2M_WIFI_RESP_CON_STATE_CHANGED_def M2M_WIFI_RESP_GET_SYS_TIME_def M2M_WIFI_RESP_CONN_INFO_def
  M2M_WIFI_RESP_MEMORY_RECOVER_def M2M_WIFI_REQ_DHCP_CONF_def M2M_WIFI_REQ_WPS_def M2M_WIFI_RESP_IP_CONFLICT_def
  M2M_WIFI_RESP_SCAN_DONE_def M2M_WIFI_RESP_SCAN_RESULT_def M2M_WIFI_RESP_CURRENT_RSSI_def
  M2M_WIFI_RESP_CLIENT_INFO_def M2M_WIFI_RESP_PROVISION_INFO_def M2M_WIFI_RESP_DEFAULT_CONNECT_def
  M2M_WIFI_RESP_GET_PRNG_def

definition M2M_WIFI_SEC_OPEN :: u8 where "M2M_WIFI_SEC_OPEN = 1"
definition M2M_WIFI_SEC_WPA_PSK :: u8 where "M2M_WIFI_SEC_WPA_PSK = 2"
definition M2M_WIFI_SEC_WEP :: u8 where "M2M_WIFI_SEC_WEP = 3"
definition M2M_WIFI_SEC_802_1X :: u8 where "M2M_WIFI_SEC_802_1X = 4"
definition M2M_WIFI_CH_1 :: u8 where "M2M_WIFI_CH_1 = 0"
definition M2M_WIFI_CH_6 :: u8 where "M2M_WIFI_CH_6 = 5"
definition M2M_WIFI_CH_11 :: u8 where "M2M_WIFI_CH_11 = 10"
definition M2M_WIFI_CH_14 :: u8 where "M2M_WIFI_CH_14 = 13"
definition M2M_WIFI_CH_ALL :: u8 where "M2M_WIFI_CH_ALL = 255"
definition M2M_MAX_SSID_LEN :: nat where "M2M_MAX_SSID_LEN = 33"
definition M2M_MAX_PSK_LEN :: nat where "M2M_MAX_PSK_LEN = 65"
definition M2M_DEVICE_NAME_MAX :: nat where "M2M_DEVICE_NAME_MAX = 48"
definition M2M_CUST_IE_LEN_MAX :: int where "M2M_CUST_IE_LEN_MAX = 252"
definition M2M_BUFFER_MAX_SIZE :: nat where "M2M_BUFFER_MAX_SIZE = 1596"
definition M2M_SCAN_DEFAULT_NUM_PROBE :: u8 where "M2M_SCAN_DEFAULT_NUM_PROBE = 2"
definition WEP_40_KEY_STRING_SIZE :: u8 where "WEP_40_KEY_STRING_SIZE = 10"
definition WEP_104_KEY_STRING_SIZE :: u8 where "WEP_104_KEY_STRING_SIZE = 26"
definition WEP_KEY_MAX_INDEX :: u8 where "WEP_KEY_MAX_INDEX = 4"
definition WPS_PIN_TRIGGER :: u8 where "WPS_PIN_TRIGGER = 0"
definition M2M_ERR_SCAN_IN_PROGRESS :: int where "M2M_ERR_SCAN_IN_PROGRESS = -14"

subsection \<open>Sending\<close>

text \<open>The bytes \<open>i\<close> to \<open>n - 1\<close> of a struct that are not assigned.\<close>

definition unset :: "'w env \<Rightarrow> nat \<Rightarrow> nat \<Rightarrow> u8 list" where
  "unset e i n = map (ev_uninit e) [i..<n]"

definition wifi_req :: "'w env \<Rightarrow> u8 \<Rightarrow> u8 list \<Rightarrow> ('w, 'z) hif_scheme \<Rightarrow> (int \<times> ('w, 'z) hif_scheme) option" where
  "wifi_req e op ctrl h =
     hif_send (ev_bus e) (ev_junk e) (ev_stack e) M2M_REQ_GROUP_WIFI op (Some ctrl) (of_nat (length ctrl)) None 0 0 h"

definition plain_req :: "'w env \<Rightarrow> u8 \<Rightarrow> u8 \<Rightarrow> ('w, 'z) hif_scheme \<Rightarrow> (int \<times> ('w, 'z) hif_scheme) option" where
  "plain_req e gid op h = hif_send (ev_bus e) (ev_junk e) (ev_stack e) gid op None 0 None 0 0 h"

subsection \<open>Validation\<close>

text \<open>\<open>tstrM2MAPConfig\<close>: SSID 0 to 32, channel 33, key index 34, key size 35, WEP key 36 to 62, security 63,
  hidden 64, DHCP server 65 to 68, padding to 72.\<close>

definition m2m_validate_ap_parameters :: "u8 list option \<Rightarrow> int option" where
  "m2m_validate_ap_parameters cfg =
     (case cfg of None \<Rightarrow> Some M2M_ERR_FAIL
      | Some c \<Rightarrow> do {
          n \<leftarrow> m2m_strlen c;
          (if n = 0 \<or> unat n \<ge> M2M_MAX_SSID_LEN then Some M2M_ERR_FAIL
           else if length c < 72 then None
           else if c ! 33 > M2M_WIFI_CH_14 \<or> c ! 33 < M2M_WIFI_CH_1 then Some M2M_ERR_FAIL
           else if c ! 65 = 0 \<and> c ! 66 = 0 \<and> c ! 67 = 0 then Some M2M_ERR_FAIL
           else if c ! 63 = M2M_WIFI_SEC_OPEN then Some M2M_SUCCESS
           else if c ! 63 = M2M_WIFI_SEC_WEP
           then if c ! 34 = 0 \<or> c ! 34 > WEP_KEY_MAX_INDEX then Some M2M_ERR_FAIL
                else if c ! 35 \<noteq> WEP_40_KEY_STRING_SIZE \<and> c ! 35 \<noteq> WEP_104_KEY_STRING_SIZE then Some M2M_ERR_FAIL
                else do {
                  k \<leftarrow> m2m_strlen (drop 36 c);
                  Some (if k = 0 \<or> k > ucast WEP_104_KEY_STRING_SIZE then M2M_ERR_FAIL else M2M_SUCCESS) }
           else Some M2M_ERR_FAIL) })"

text \<open>\<open>tstrM2MScanOption\<close>: slots, slot time, probes, signed threshold. The null pointer is reported and then
  read.\<close>

definition m2m_validate_scan_options :: "u8 list option \<Rightarrow> int option" where
  "m2m_validate_scan_options opt = do {
     p \<leftarrow> opt;
     slots \<leftarrow> mem_read p 0; time \<leftarrow> mem_read p 1; probes \<leftarrow> mem_read p 2; rssi \<leftarrow> mem_read p 3;
     Some (if slots < 1 \<or> time < 1 \<or> probes > M2M_SCAN_DEFAULT_NUM_PROBE \<or> sint rssi < -99 \<or> sint rssi \<ge> 0
           then M2M_ERR_FAIL else M2M_SUCCESS) }"

subsection \<open>Start and stop\<close>

text \<open>\<open>cb\<close>: the callback of \<open>param\<close>; \<open>m2m_hif_cb\<close>, \<open>m2m_wifi_cb_ptr\<close>: the addresses of the functions; \<open>rv\<close>: what
  \<open>strtmp\<close> holds.\<close>

definition m2m_wifi_init ::
    "'w env \<Rightarrow> 'w bus_ctl \<Rightarrow> u32 \<Rightarrow> u32 \<Rightarrow> u8 list \<Rightarrow> u32 option \<Rightarrow> ('w, 'z) hif_scheme \<Rightarrow> (int \<times> ('w, 'z) hif_scheme) option" where
  "m2m_wifi_init e c m2m_hif_cb m2m_wifi_cb_ptr rv param h =
     (case param of None \<Rightarrow> Some (M2M_ERR_FAIL, h)
      | Some cb \<Rightarrow>
          on_ok (nm_drv_init (ev_bus e) c (ev_junk e) (Some M2M_WIFI_MODE_NORMAL)
                   (h\<lparr>gpfAppWifiCb := cb, gu8scanInProgress := 0\<rparr>)) (\<lambda>h.
            case hif_init m2m_hif_cb h of (ret, h) \<Rightarrow>
              if ret \<noteq> M2M_SUCCESS then map_option (\<lambda>(_, h). (ret, h)) (nm_drv_deinit (ev_bus e) c h)
              else map_option (\<lambda>(ret, _, h). (ret, h))
                     (nm_get_firmware_info (ev_bus e) (ev_junk e) rv
                        (snd (hif_register_cb M2M_REQ_GROUP_WIFI m2m_wifi_cb_ptr h)))))"

definition m2m_wifi_deinit :: "'w env \<Rightarrow> 'w bus_ctl \<Rightarrow> ('w, 'z) hif_scheme \<Rightarrow> (int \<times> ('w, 'z) hif_scheme) option" where
  "m2m_wifi_deinit e c h = do {
     (_, h) \<leftarrow> hif_deinit (ev_bus e) (ev_junk e) h;
     (_, h) \<leftarrow> nm_drv_deinit (ev_bus e) c h;
     Some (M2M_SUCCESS, h) }"

definition m2m_wifi_download_mode :: "'w env \<Rightarrow> 'w bus_ctl \<Rightarrow> ('w, 'z) hif_scheme \<Rightarrow> (int \<times> ('w, 'z) hif_scheme) option" where
  "m2m_wifi_download_mode e c h =
     on_ok (nm_drv_init_download_mode (ev_bus e) c (ev_junk e) h)
       (\<lambda>h. map_option (\<lambda>(_, h). (M2M_SUCCESS, h)) (enable_interrupts (ev_bus e) (ev_junk e) h))"

definition m2m_wifi_handle_events ::
    "'w env \<Rightarrow> ('w, 'z) hif_cb \<Rightarrow> ('w, 'z) hif_scheme \<Rightarrow> (int \<times> ('w, 'z) hif_scheme) option" where
  "m2m_wifi_handle_events e cb h = hif_handle_isr (ev_bus e) (ev_junk e) cb h"

subsection \<open>Connecting\<close>

text \<open>\<open>tstrM2mWifiConnect\<close>: the credentials (a union of 65 bytes) 0 to 64, security 65, channel 68 and 69, SSID 70
  to 102, the flag 103; 108 bytes.\<close>

definition poke :: "nat \<Rightarrow> u8 list \<Rightarrow> u8 list \<Rightarrow> u8 list" where
  "poke i bs b = take i b @ bs @ drop (i + length bs) b"

definition hex_digit :: "u8 \<Rightarrow> bool" where
  "hex_digit c \<longleftrightarrow> \<not> (c < 0x30 \<or> (c > 0x39 \<and> c < 0x41) \<or> (c > 0x46 \<and> c < 0x61) \<or> c > 0x66)"

text \<open>The check of a key of 64 characters; \<open>Some False\<close>: \<open>Invalid Key\<close>.\<close>

definition key_usable :: "u8 \<Rightarrow> u8 list option \<Rightarrow> bool option" where
  "key_usable sec auth =
     (if sec = M2M_WIFI_SEC_OPEN then Some True
      else case auth of None \<Rightarrow> Some False
        | Some k \<Rightarrow>
            if sec = M2M_WIFI_SEC_WPA_PSK
            then map_option (\<lambda>n. unat n = M2M_MAX_PSK_LEN - 1 \<longrightarrow> list_all hex_digit (take (M2M_MAX_PSK_LEN - 1) k)) (m2m_strlen k)
            else Some True)"

text \<open>The union filled in; the inner \<open>None\<close> is a rejected argument. The byte behind a WEP key goes to the
  byte behind the array when the key has the maximal size; it is still inside the union.\<close>

definition wep_auth :: "u8 list \<Rightarrow> u8 list \<Rightarrow> u8 list option option" where
  "wep_auth p un = do {
     ix \<leftarrow> mem_read p 0;
     (if ix - 1 \<ge> WEP_KEY_MAX_INDEX then Some None
      else do {
        sz \<leftarrow> mem_read p 1;
        (if sz - 1 \<noteq> WEP_40_KEY_STRING_SIZE \<and> sz - 1 \<noteq> WEP_104_KEY_STRING_SIZE then Some None
         else do {
           key \<leftarrow> m2m_memcpy (take 27 (drop 2 un)) (drop 2 p) (unat sz);
           Some (Some (poke (2 + unat sz) [0] (poke 2 key (poke 0 [ix - 1, sz - 1] un)))) }) }) }"

definition psk_auth :: "u8 list \<Rightarrow> u8 list \<Rightarrow> u8 list option option" where
  "psk_auth p un = do {
     n \<leftarrow> m2m_strlen p;
     (if n = 0 \<or> unat n \<ge> M2M_MAX_PSK_LEN then Some None
      else map_option Some (m2m_memcpy un p (unat n + 1))) }"

definition auth_bytes :: "u8 \<Rightarrow> u8 list option \<Rightarrow> u8 list \<Rightarrow> u8 list option option" where
  "auth_bytes sec auth un =
     (if sec = M2M_WIFI_SEC_OPEN then Some (Some un)
      else do {
        p \<leftarrow> auth;
        (if sec = M2M_WIFI_SEC_WEP then wep_auth p un
         else if sec = M2M_WIFI_SEC_WPA_PSK then psk_auth p un
         else if sec = M2M_WIFI_SEC_802_1X then map_option Some (m2m_memcpy un p 62)
         else Some None) })"

definition connect_bytes :: "'w env \<Rightarrow> u8 list \<Rightarrow> u8 \<Rightarrow> u16 \<Rightarrow> u8 list \<Rightarrow> u8 \<Rightarrow> u8 \<Rightarrow> u8 list" where
  "connect_bytes e un sec ch ssid len nosave =
     un @ [sec] @ unset e 66 68 @ le16 ch @ poke 0 (take (unat len) ssid @ [0]) (unset e 70 103)
        @ [if nosave \<noteq> 0 then 1 else 0] @ unset e 104 108"

definition m2m_wifi_connect_sc ::
    "'w env \<Rightarrow> u8 list \<Rightarrow> u8 \<Rightarrow> u8 \<Rightarrow> u8 list option \<Rightarrow> u16 \<Rightarrow> u8 \<Rightarrow> ('w, 'z) hif_scheme \<Rightarrow> (int \<times> ('w, 'z) hif_scheme) option" where
  "m2m_wifi_connect_sc e ssid len sec auth ch nosave h = do {
     ok \<leftarrow> key_usable sec auth;
     (if \<not> ok then Some (M2M_ERR_FAIL, h)
      else if len = 0 \<or> unat len \<ge> M2M_MAX_SSID_LEN then Some (M2M_ERR_FAIL, h)
      else if ch > ucast M2M_WIFI_CH_14 \<and> ch \<noteq> ucast M2M_WIFI_CH_ALL then Some (M2M_ERR_FAIL, h)
      else if length ssid < unat len then None
      else do {
        un \<leftarrow> auth_bytes sec auth (unset e 0 65);
        (case un of None \<Rightarrow> Some (M2M_ERR_FAIL, h)
         | Some un \<Rightarrow> wifi_req e M2M_WIFI_REQ_CONNECT (connect_bytes e un sec ch ssid len nosave) h) }) }"

definition m2m_wifi_connect ::
    "'w env \<Rightarrow> u8 list \<Rightarrow> u8 \<Rightarrow> u8 \<Rightarrow> u8 list option \<Rightarrow> u16 \<Rightarrow> ('w, 'z) hif_scheme \<Rightarrow> (int \<times> ('w, 'z) hif_scheme) option" where
  "m2m_wifi_connect e ssid len sec auth ch h = m2m_wifi_connect_sc e ssid len sec auth ch 0 h"

definition m2m_wifi_default_connect :: "'w env \<Rightarrow> ('w, 'z) hif_scheme \<Rightarrow> (int \<times> ('w, 'z) hif_scheme) option" where
  "m2m_wifi_default_connect e h = plain_req e M2M_REQ_GROUP_WIFI M2M_WIFI_REQ_DEFAULT_CONNECT h"

definition m2m_wifi_disconnect :: "'w env \<Rightarrow> ('w, 'z) hif_scheme \<Rightarrow> (int \<times> ('w, 'z) hif_scheme) option" where
  "m2m_wifi_disconnect e h = plain_req e M2M_REQ_GROUP_WIFI M2M_WIFI_REQ_DISCONNECT h"

subsection \<open>Addresses and options\<close>

definition m2m_wifi_set_mac_address :: "'w env \<Rightarrow> u8 list \<Rightarrow> ('w, 'z) hif_scheme \<Rightarrow> (int \<times> ('w, 'z) hif_scheme) option" where
  "m2m_wifi_set_mac_address e mac h = do {
     b \<leftarrow> m2m_memcpy (unset e 0 6) mac 6;
     wifi_req e M2M_WIFI_REQ_SET_MAC_ADDRESS (b @ unset e 6 8) h }"

record m2m_ip_config =
  u32StaticIP :: u32
  u32Gateway :: u32
  u32DNS :: u32
  u32SubnetMask :: u32

definition ip_config_bytes :: "m2m_ip_config \<Rightarrow> u8 list" where
  "ip_config_bytes c = le32 (u32StaticIP c) @ le32 (u32Gateway c) @ le32 (u32DNS c) @ le32 (u32SubnetMask c)"

definition ip_config_of :: "u8 list \<Rightarrow> m2m_ip_config" where
  "ip_config_of b = \<lparr>u32StaticIP = of_le32 b, u32Gateway = of_le32 (drop 4 b), u32DNS = of_le32 (drop 8 b),
     u32SubnetMask = of_le32 (drop 12 b)\<rparr>"

definition m2m_wifi_set_static_ip :: "'w env \<Rightarrow> m2m_ip_config \<Rightarrow> ('w, 'z) hif_scheme \<Rightarrow> (int \<times> ('w, 'z) hif_scheme) option" where
  "m2m_wifi_set_static_ip e c h =
     hif_send (ev_bus e) (ev_junk e) (ev_stack e) M2M_REQ_GROUP_IP M2M_IP_REQ_STATIC_IP_CONF
       (Some (ip_config_bytes c)) 16 None 0 0 h"

definition m2m_wifi_enable_dhcp :: "'w env \<Rightarrow> u8 \<Rightarrow> ('w, 'z) hif_scheme \<Rightarrow> (int \<times> ('w, 'z) hif_scheme) option" where
  "m2m_wifi_enable_dhcp e en h =
     plain_req e M2M_REQ_GROUP_IP (if en \<noteq> 0 then M2M_IP_REQ_ENABLE_DHCP else M2M_IP_REQ_DISABLE_DHCP) h"

definition m2m_wifi_set_lsn_int :: "'w env \<Rightarrow> u8 list \<Rightarrow> ('w, 'z) hif_scheme \<Rightarrow> (int \<times> ('w, 'z) hif_scheme) option" where
  "m2m_wifi_set_lsn_int e lsn h =
     hif_send (ev_bus e) (ev_junk e) (ev_stack e) M2M_REQ_GROUP_WIFI M2M_WIFI_REQ_LSN_INT (Some lsn) 4 None 0 0 h"

definition m2m_wifi_set_cust_InfoElement ::
    "'w env \<Rightarrow> u8 list option \<Rightarrow> ('w, 'z) hif_scheme \<Rightarrow> (int \<times> ('w, 'z) hif_scheme) option" where
  "m2m_wifi_set_cust_InfoElement e ie h =
     (case ie of None \<Rightarrow> Some (M2M_ERR_FAIL, h)
      | Some b \<Rightarrow> do {
          n \<leftarrow> mem_read b 0;
          (if uint n + 1 < M2M_CUST_IE_LEN_MAX
           then hif_send (ev_bus e) (ev_junk e) (ev_stack e) M2M_REQ_GROUP_WIFI
                  (M2M_WIFI_REQ_CUST_INFO_ELEMENT OR M2M_REQ_DATA_PKT) (Some b) (ucast n + 1) None 0 0 h
           else Some (M2M_ERR_FAIL, h)) })"

definition m2m_wifi_set_scan_options :: "'w env \<Rightarrow> u8 list option \<Rightarrow> ('w, 'z) hif_scheme \<Rightarrow> (int \<times> ('w, 'z) hif_scheme) option" where
  "m2m_wifi_set_scan_options e opt h = do {
     r \<leftarrow> m2m_validate_scan_options opt;
     (if r = M2M_SUCCESS then do { p \<leftarrow> opt; wifi_req e M2M_WIFI_REQ_SET_SCAN_OPTION (take 4 p) h }
      else Some (M2M_ERR_FAIL, h)) }"

definition m2m_wifi_set_scan_region :: "'w env \<Rightarrow> u16 \<Rightarrow> ('w, 'z) hif_scheme \<Rightarrow> (int \<times> ('w, 'z) hif_scheme) option" where
  "m2m_wifi_set_scan_region e r h = wifi_req e M2M_WIFI_REQ_SET_SCAN_REGION (le16 r @ unset e 2 4) h"

subsection \<open>Scanning\<close>

definition m2m_wifi_request_scan :: "'w env \<Rightarrow> u8 \<Rightarrow> ('w, 'z) hif_scheme \<Rightarrow> (int \<times> ('w, 'z) hif_scheme) option" where
  "m2m_wifi_request_scan e ch h =
     (if gu8scanInProgress h = 0
      then if (ch \<ge> M2M_WIFI_CH_1 \<and> ch \<le> M2M_WIFI_CH_14) \<or> ch = M2M_WIFI_CH_ALL
           then map_option (\<lambda>(ret, h). (ret, if ret = M2M_SUCCESS then h\<lparr>gu8scanInProgress := 1\<rparr> else h))
                  (wifi_req e M2M_WIFI_REQ_SCAN (ch # unset e 1 4) h)
           else Some (M2M_ERR_INVALID_ARG, h)
      else Some (M2M_ERR_SCAN_IN_PROGRESS, h))"

definition m2m_wifi_req_scan_result :: "'w env \<Rightarrow> u8 \<Rightarrow> ('w, 'z) hif_scheme \<Rightarrow> (int \<times> ('w, 'z) hif_scheme) option" where
  "m2m_wifi_req_scan_result e index h = wifi_req e M2M_WIFI_REQ_SCAN_RESULT (index # unset e 1 4) h"

definition m2m_wifi_get_num_ap_found :: "('w, 'z) hif_scheme \<Rightarrow> u8" where
  "m2m_wifi_get_num_ap_found h = gu8ChNum h"

definition m2m_wifi_wps :: "'w env \<Rightarrow> u8 \<Rightarrow> u8 list \<Rightarrow> ('w, 'z) hif_scheme \<Rightarrow> (int \<times> ('w, 'z) hif_scheme) option" where
  "m2m_wifi_wps e trig pin h = do {
     p \<leftarrow> (if trig = WPS_PIN_TRIGGER then m2m_memcpy (unset e 1 9) pin 8 else Some (unset e 1 9));
     wifi_req e M2M_WIFI_REQ_WPS (trig # p @ unset e 9 12) (h\<lparr>gu8scanInProgress := 0\<rparr>) }"

definition m2m_wifi_wps_disable :: "'w env \<Rightarrow> ('w, 'z) hif_scheme \<Rightarrow> (int \<times> ('w, 'z) hif_scheme) option" where
  "m2m_wifi_wps_disable e h = plain_req e M2M_REQ_GROUP_WIFI M2M_WIFI_REQ_DISABLE_WPS h"

subsection \<open>Other modes\<close>

definition m2m_wifi_p2p :: "'w env \<Rightarrow> u8 \<Rightarrow> ('w, 'z) hif_scheme \<Rightarrow> (int \<times> ('w, 'z) hif_scheme) option" where
  "m2m_wifi_p2p e ch h =
     (if ch = M2M_WIFI_CH_1 \<or> ch = M2M_WIFI_CH_6 \<or> ch = M2M_WIFI_CH_11
      then wifi_req e M2M_WIFI_REQ_ENABLE_P2P (ch # unset e 1 4) h else Some (M2M_ERR_FAIL, h))"

definition m2m_wifi_p2p_disconnect :: "'w env \<Rightarrow> ('w, 'z) hif_scheme \<Rightarrow> (int \<times> ('w, 'z) hif_scheme) option" where
  "m2m_wifi_p2p_disconnect e h = plain_req e M2M_REQ_GROUP_WIFI M2M_WIFI_REQ_DISABLE_P2P h"

definition m2m_wifi_enable_ap :: "'w env \<Rightarrow> u8 list option \<Rightarrow> ('w, 'z) hif_scheme \<Rightarrow> (int \<times> ('w, 'z) hif_scheme) option" where
  "m2m_wifi_enable_ap e cfg h = do {
     r \<leftarrow> m2m_validate_ap_parameters cfg;
     (if r = M2M_SUCCESS then do { c \<leftarrow> cfg; wifi_req e M2M_WIFI_REQ_ENABLE_AP (take 72 c) h }
      else Some (M2M_ERR_FAIL, h)) }"

definition m2m_wifi_disable_ap :: "'w env \<Rightarrow> ('w, 'z) hif_scheme \<Rightarrow> (int \<times> ('w, 'z) hif_scheme) option" where
  "m2m_wifi_disable_ap e h = plain_req e M2M_REQ_GROUP_WIFI M2M_WIFI_REQ_DISABLE_AP h"

text \<open>The name of the server is read before it is compared with the null pointer, and 64 bytes of it
  are copied whatever its length.\<close>

definition m2m_wifi_start_provision_mode ::
    "'w env \<Rightarrow> u8 list option \<Rightarrow> u8 list option \<Rightarrow> u8 \<Rightarrow> ('w, 'z) hif_scheme \<Rightarrow> (int \<times> ('w, 'z) hif_scheme) option" where
  "m2m_wifi_start_provision_mode e cfg domain redirect h =
     (case cfg of None \<Rightarrow> Some (M2M_ERR_FAIL, h)
      | Some c \<Rightarrow> do {
          r \<leftarrow> m2m_validate_ap_parameters cfg;
          (if r \<noteq> M2M_SUCCESS then Some (M2M_ERR_FAIL, h)
           else do {
             d \<leftarrow> domain;
             n \<leftarrow> m2m_strlen d;
             (if n = 0 then Some (M2M_ERR_FAIL, h)
              else do {
                name \<leftarrow> m2m_memcpy (unset e 72 136) d 64;
                wifi_req e (M2M_WIFI_REQ_START_PROVISION_MODE OR M2M_REQ_DATA_PKT)
                  (take 72 c @ name @ [redirect] @ unset e 137 140) (h\<lparr>gu8scanInProgress := 0\<rparr>) }) }) })"

definition m2m_wifi_stop_provision_mode :: "'w env \<Rightarrow> ('w, 'z) hif_scheme \<Rightarrow> (int \<times> ('w, 'z) hif_scheme) option" where
  "m2m_wifi_stop_provision_mode e h = plain_req e M2M_REQ_GROUP_WIFI M2M_WIFI_REQ_STOP_PROVISION_MODE h"

definition m2m_wifi_req_curr_rssi :: "'w env \<Rightarrow> ('w, 'z) hif_scheme \<Rightarrow> (int \<times> ('w, 'z) hif_scheme) option" where
  "m2m_wifi_req_curr_rssi e h = plain_req e M2M_REQ_GROUP_WIFI M2M_WIFI_REQ_CURRENT_RSSI h"

definition m2m_wifi_get_connection_info :: "'w env \<Rightarrow> ('w, 'z) hif_scheme \<Rightarrow> (int \<times> ('w, 'z) hif_scheme) option" where
  "m2m_wifi_get_connection_info e h = plain_req e M2M_REQ_GROUP_WIFI M2M_WIFI_REQ_GET_CONN_INFO h"

definition m2m_wifi_send_ethernet_pkt ::
    "'w env \<Rightarrow> u8 list option \<Rightarrow> u16 \<Rightarrow> ('w, 'z) hif_scheme \<Rightarrow> (int \<times> ('w, 'z) hif_scheme) option" where
  "m2m_wifi_send_ethernet_pkt e pkt sz h =
     (if pkt \<noteq> None \<and> sz > 0
      then hif_send (ev_bus e) (ev_junk e) (ev_stack e) M2M_REQ_GROUP_WIFI
             (M2M_WIFI_REQ_SEND_ETHERNET_PACKET OR M2M_REQ_DATA_PKT) (Some (le16 sz @ le16 14)) 4 pkt sz
             (34 - of_nat M2M_HIF_HDR_OFFSET) h
      else Some (-1, h))"

subsection \<open>Identification through the host interface\<close>

definition m2m_wifi_get_otp_mac_address ::
    "'w env \<Rightarrow> u8 list \<Rightarrow> ('w, 'z) hif_scheme \<Rightarrow> (int \<times> u8 list option \<times> u8 option \<times> ('w, 'z) hif_scheme) option" where
  "m2m_wifi_get_otp_mac_address e mac h = do {
     (ret, h) \<leftarrow> hif_chip_wake (ev_bus e) (ev_junk e) h;
     (if ret \<noteq> M2M_SUCCESS then Some (ret, None, None, h)
      else do {
        (ret, m, valid, h) \<leftarrow> nmi_get_otp_mac_address (ev_bus e) mac h;
        (if ret \<noteq> M2M_SUCCESS then Some (ret, m, Some valid, h)
         else do { (ret, h) \<leftarrow> hif_chip_sleep (ev_bus e) h; Some (ret, m, Some valid, h) }) }) }"

definition m2m_wifi_get_mac_address ::
    "'w env \<Rightarrow> u8 list \<Rightarrow> ('w, 'z) hif_scheme \<Rightarrow> (int \<times> u8 list option \<times> ('w, 'z) hif_scheme) option" where
  "m2m_wifi_get_mac_address e mac h = do {
     (ret, h) \<leftarrow> hif_chip_wake (ev_bus e) (ev_junk e) h;
     (if ret \<noteq> M2M_SUCCESS then Some (ret, None, h)
      else do {
        (ret, m, h) \<leftarrow> nmi_get_mac_address (ev_bus e) mac h;
        (if ret \<noteq> M2M_SUCCESS then Some (ret, m, h)
         else do { (ret, h) \<leftarrow> hif_chip_sleep (ev_bus e) h; Some (ret, m, h) }) }) }"

definition m2m_wifi_get_firmware_version ::
    "'w env \<Rightarrow> u8 list option \<Rightarrow> ('w, 'z) hif_scheme \<Rightarrow> (int \<times> u8 list option \<times> ('w, 'z) hif_scheme) option" where
  "m2m_wifi_get_firmware_version e rv h = do {
     (ret, h) \<leftarrow> hif_chip_wake (ev_bus e) (ev_junk e) h;
     (if ret \<noteq> M2M_SUCCESS then Some (ret, rv, h)
      else do {
        (ret, rv, h) \<leftarrow> nm_get_firmware_full_info (ev_bus e) rv h;
        (_, h) \<leftarrow> hif_chip_sleep (ev_bus e) h;
        Some (ret, rv, h) }) }"

subsection \<open>Power, names and time\<close>

definition m2m_wifi_get_sleep_mode :: "('w, 'z) hif_scheme \<Rightarrow> u8" where
  "m2m_wifi_get_sleep_mode h = hif_get_sleep_mode h"

definition m2m_wifi_set_sleep_mode :: "'w env \<Rightarrow> u8 \<Rightarrow> u8 \<Rightarrow> ('w, 'z) hif_scheme \<Rightarrow> (int \<times> ('w, 'z) hif_scheme) option" where
  "m2m_wifi_set_sleep_mode e ty bcast h = do {
     (ret, h) \<leftarrow> wifi_req e M2M_WIFI_REQ_SLEEP ([ty, bcast] @ unset e 2 4) h;
     Some (ret, hif_set_sleep_mode ty h) }"

definition m2m_wifi_request_sleep :: "'w env \<Rightarrow> u32 \<Rightarrow> ('w, 'z) hif_scheme \<Rightarrow> (int \<times> ('w, 'z) hif_scheme) option" where
  "m2m_wifi_request_sleep e t h =
     (if hif_get_sleep_mode h = M2M_PS_MANUAL then wifi_req e M2M_WIFI_REQ_DOZE (le32 t) h
      else Some (M2M_SUCCESS, h))"

text \<open>The struct has 48 bytes; one byte more than the length is copied.\<close>

definition m2m_wifi_set_device_name :: "'w env \<Rightarrow> u8 list \<Rightarrow> u8 \<Rightarrow> ('w, 'z) hif_scheme \<Rightarrow> (int \<times> ('w, 'z) hif_scheme) option" where
  "m2m_wifi_set_device_name e name len h = do {
     let n = (if unat len \<ge> M2M_DEVICE_NAME_MAX then of_nat M2M_DEVICE_NAME_MAX else len) + 1;
     b \<leftarrow> m2m_memcpy (unset e 0 M2M_DEVICE_NAME_MAX) name (unat n);
     wifi_req e M2M_WIFI_REQ_SET_DEVICE_NAME b h }"

text \<open>\<open>sizeof(tstrSystemTime)\<close> is 8, twice the size of the variable that is sent.\<close>

definition m2m_wifi_set_sytem_time :: "'w env \<Rightarrow> u32 \<Rightarrow> ('w, 'z) hif_scheme \<Rightarrow> (int \<times> ('w, 'z) hif_scheme) option" where
  "m2m_wifi_set_sytem_time e t h = wifi_req e M2M_WIFI_REQ_SET_SYS_TIME (le32 t @ unset e 4 8) h"

definition m2m_wifi_get_sytem_time :: "'w env \<Rightarrow> ('w, 'z) hif_scheme \<Rightarrow> (int \<times> ('w, 'z) hif_scheme) option" where
  "m2m_wifi_get_sytem_time e h = plain_req e M2M_REQ_GROUP_WIFI M2M_WIFI_REQ_GET_SYS_TIME h"

definition m2m_wifi_enable_sntp :: "'w env \<Rightarrow> u8 \<Rightarrow> ('w, 'z) hif_scheme \<Rightarrow> (int \<times> ('w, 'z) hif_scheme) option" where
  "m2m_wifi_enable_sntp e en h =
     plain_req e M2M_REQ_GROUP_WIFI (if en \<noteq> 0 then M2M_WIFI_REQ_ENABLE_SNTP_CLIENT else M2M_WIFI_REQ_DISABLE_SNTP_CLIENT) h"

definition m2m_wifi_set_power_profile :: "'w env \<Rightarrow> u8 \<Rightarrow> ('w, 'z) hif_scheme \<Rightarrow> (int \<times> ('w, 'z) hif_scheme) option" where
  "m2m_wifi_set_power_profile e m h = wifi_req e M2M_WIFI_REQ_SET_POWER_PROFILE (m # unset e 1 4) h"

definition m2m_wifi_set_tx_power :: "'w env \<Rightarrow> u8 \<Rightarrow> ('w, 'z) hif_scheme \<Rightarrow> (int \<times> ('w, 'z) hif_scheme) option" where
  "m2m_wifi_set_tx_power e l h = wifi_req e M2M_WIFI_REQ_SET_TX_POWER (l # unset e 1 4) h"

definition m2m_wifi_enable_firmware_logs :: "'w env \<Rightarrow> u8 \<Rightarrow> ('w, 'z) hif_scheme \<Rightarrow> (int \<times> ('w, 'z) hif_scheme) option" where
  "m2m_wifi_enable_firmware_logs e en h = wifi_req e M2M_WIFI_REQ_SET_ENABLE_LOGS (en # unset e 1 4) h"

definition m2m_wifi_set_battery_voltage :: "'w env \<Rightarrow> u16 \<Rightarrow> ('w, 'z) hif_scheme \<Rightarrow> (int \<times> ('w, 'z) hif_scheme) option" where
  "m2m_wifi_set_battery_voltage e v h = wifi_req e M2M_WIFI_REQ_SET_BATTERY_VOLTAGE (le16 v @ [0, 0]) h"

text \<open>\<open>tstrPrng\<close>: pointer, size, padding; \<open>buf\<close> is the address of the caller's buffer.\<close>

definition m2m_wifi_prng_get_random_bytes ::
    "'w env \<Rightarrow> u32 \<Rightarrow> u16 \<Rightarrow> ('w, 'z) hif_scheme \<Rightarrow> (int \<times> ('w, 'z) hif_scheme) option" where
  "m2m_wifi_prng_get_random_bytes e buf sz h =
     (if unat sz < M2M_BUFFER_MAX_SIZE - 8 \<and> buf \<noteq> 0
      then wifi_req e (M2M_WIFI_REQ_GET_PRNG OR M2M_REQ_DATA_PKT) (le32 buf @ le16 sz @ [0, 0]) h
      else Some (M2M_ERR_FAIL, h))"

subsection \<open>Responses\<close>

text \<open>The application's callback: its address, the message, the bytes of the struct (\<open>None\<close>: the null pointer).\<close>

type_synonym ('w, 'a) wifi_cb = "u32 \<Rightarrow> u8 \<Rightarrow> u8 list option \<Rightarrow> ('w, 'a) sk \<Rightarrow> ('w, 'a) sk option"

definition app_wifi :: "('w, 'a) wifi_cb \<Rightarrow> u8 \<Rightarrow> u8 list option \<Rightarrow> ('w, 'a) sk \<Rightarrow> ('w, 'a) sk option" where
  "app_wifi cb op msg s = (if gpfAppWifiCb s \<noteq> 0 then cb (gpfAppWifiCb s) op msg s else Some s)"

text \<open>\<open>if (hif_receive(...) == M2M_SUCCESS) ...\<close> into a local struct.\<close>

definition received ::
    "'w env \<Rightarrow> u32 \<Rightarrow> u8 list \<Rightarrow> u16 \<Rightarrow> bool \<Rightarrow> (u8 list \<Rightarrow> ('w, 'a) sk \<Rightarrow> ('w, 'a) sk option) \<Rightarrow> ('w, 'a) sk \<Rightarrow> ('w, 'a) sk option" where
  "received e addr buf n isDone k s = do {
     (ret, b, s) \<leftarrow> hif_receive (ev_bus e) addr (Some buf) n isDone s;
     (if ret \<noteq> M2M_SUCCESS then Some s else do { b \<leftarrow> b; k b s }) }"

definition receive_app ::
    "'w env \<Rightarrow> ('w, 'a) wifi_cb \<Rightarrow> u8 \<Rightarrow> u32 \<Rightarrow> u8 list \<Rightarrow> u16 \<Rightarrow> bool \<Rightarrow> ('w, 'a) sk \<Rightarrow> ('w, 'a) sk option" where
  "receive_app e cb op addr buf n isDone s = received e addr buf n isDone (\<lambda>b. app_wifi cb op (Some b)) s"

text \<open>The bytes are stored at the pointer that came with the message.\<close>

definition prng_response :: "'w env \<Rightarrow> ('w, 'a) wifi_cb \<Rightarrow> u32 \<Rightarrow> ('w, 'a) sk \<Rightarrow> ('w, 'a) sk option" where
  "prng_response e cb addr s =
     received e addr (unset e 0 8) 8 False (\<lambda>b s. do {
       let p = of_le32 b;
       (ret, m, s) \<leftarrow> hif_receive (ev_bus e) (addr + 8) (if p = 0 then None else Some (user_mem s p)) (of_le16 (drop 4 b)) True s;
       let s = (case m of Some m \<Rightarrow> s\<lparr>user_mem := (user_mem s)(p := m)\<rparr> | None \<Rightarrow> s);
       (if ret = M2M_SUCCESS then app_wifi cb M2M_WIFI_RESP_GET_PRNG (Some b) s else Some s) }) s"

definition m2m_wifi_cb :: "'w env \<Rightarrow> ('w, 'a) wifi_cb \<Rightarrow> u8 \<Rightarrow> u16 \<Rightarrow> u32 \<Rightarrow> ('w, 'a) sk \<Rightarrow> ('w, 'a) sk option" where
  "m2m_wifi_cb e cb op sz addr s =
     (if op = M2M_WIFI_RESP_CON_STATE_CHANGED then receive_app e cb op addr (unset e 0 4) 4 False s
      else if op = M2M_WIFI_RESP_GET_SYS_TIME then receive_app e cb op addr (unset e 0 8) 8 False s
      else if op = M2M_WIFI_RESP_CONN_INFO then receive_app e cb op addr (unset e 0 48) 48 True s
      else if op = M2M_WIFI_RESP_MEMORY_RECOVER then Some s
      else if op = M2M_WIFI_REQ_DHCP_CONF then receive_app e cb op addr (unset e 0 16) 16 False s
      else if op = M2M_WIFI_REQ_WPS then receive_app e cb op addr (replicate 100 0) 100 False s
      else if op = M2M_WIFI_RESP_IP_CONFLICT then received e addr (unset e 0 4) 4 False (\<lambda>b. app_wifi cb op None) s
      else if op = M2M_WIFI_RESP_SCAN_DONE
      then received e addr (unset e 0 4) 4 False (\<lambda>b s. do {
             n \<leftarrow> mem_read b 0;
             app_wifi cb op (Some b) (s\<lparr>gu8ChNum := n\<rparr>) }) (s\<lparr>gu8scanInProgress := 0\<rparr>)
      else if op = M2M_WIFI_RESP_SCAN_RESULT then receive_app e cb op addr (unset e 0 44) 44 False s
      else if op = M2M_WIFI_RESP_CURRENT_RSSI then receive_app e cb op addr (unset e 0 8) 4 False s
      else if op = M2M_WIFI_RESP_CLIENT_INFO then receive_app e cb op addr (unset e 0 8) 4 False s
      else if op = M2M_WIFI_RESP_PROVISION_INFO then receive_app e cb op addr (unset e 0 100) 100 True s
      else if op = M2M_WIFI_RESP_DEFAULT_CONNECT then receive_app e cb op addr (unset e 0 4) 4 True s
      else if op = M2M_WIFI_RESP_GET_PRNG then prng_response e cb addr s
      else Some s)"

end
