(* ===== verification/Wifi_Props.thy ===== *)
theory Wifi_Props
  imports Winc_Tx M2m_Wifi
begin

text \<open>
  Properties of the Wi-Fi requests: which arguments of \<open>m2m_wifi_connect\<close> are accepted, what is then written to the
  chip, one scan at a time, and the name that is copied past the end of its struct.
\<close>

subsection \<open>Copies\<close>

lemma memcpy_Some: "n \<le> length dst \<Longrightarrow> n \<le> length src \<Longrightarrow> m2m_memcpy dst src n = Some (take n src @ drop n dst)"
  by (induction dst src n rule: m2m_memcpy.induct) auto

lemma memcpy_too_long: "length dst < n \<Longrightarrow> m2m_memcpy dst src n = None"
  by (induction dst src n rule: m2m_memcpy.induct) auto

lemma length_unset [simp]: "length (unset e i n) = n - i"
  by (simp add: unset_def)

lemma length_poke: "i + length bs \<le> length b \<Longrightarrow> length (poke i bs b) = length b"
  by (simp add: poke_def)

subsection \<open>Connecting with a pre-shared key\<close>

text \<open>The documented conditions: an SSID of 1 to 32 bytes, a channel of the list or all, a passphrase of 1 to 64
  characters, hexadecimal when it has 64.\<close>

definition psk_valid :: "u8 list \<Rightarrow> u8 \<Rightarrow> u16 \<Rightarrow> bool" where
  "psk_valid key len ch \<longleftrightarrow> 1 \<le> unat len \<and> unat len \<le> 32 \<and> (ch \<le> 13 \<or> ch = 255) \<and>
     1 \<le> length key \<and> length key \<le> 64 \<and> (length key = 64 \<longrightarrow> list_all hex_digit key)"

lemma psk_auth_string:
  assumes "0 \<notin> set key" "length key < 65536"
  shows "psk_auth (key @ 0 # r) un =
    (if key = [] \<or> 65 \<le> length key then Some None
     else map_option Some (m2m_memcpy un (key @ 0 # r) (length key + 1)))"
proof -
  have "unat (of_nat (length key) :: u16) = length key" using assms(2) by (simp add: unat_of_nat)
  moreover from this have "(of_nat (length key) :: u16) = 0 \<longleftrightarrow> key = []" by (metis length_0_conv unat_eq_0 unat_0 of_nat_0)
  ultimately show ?thesis
    using assms by (simp add: psk_auth_def m2m_strlen_string M2M_MAX_PSK_LEN_def)
qed

text \<open>\<open>m2m_wifi_connect_sc\<close> with a pre-shared key sends the connection request exactly when the documented
  conditions hold, with the key and its terminator at the head of the credentials; otherwise it fails and
  touches nothing.\<close>

theorem wifi_connect_psk:
  assumes key: "0 \<notin> set key" "length key < 65536" and ssid: "unat len \<le> length ssid"
  shows "m2m_wifi_connect_sc e ssid len M2M_WIFI_SEC_WPA_PSK (Some (key @ 0 # r)) ch nosave h =
    (if psk_valid key len ch
     then wifi_req e M2M_WIFI_REQ_CONNECT
            (connect_bytes e (key @ 0 # drop (length key + 1) (unset e 0 65)) M2M_WIFI_SEC_WPA_PSK ch ssid len nosave) h
     else Some (M2M_ERR_FAIL, h))"
proof -
  have n: "unat (of_nat (length key) :: u16) = length key" using key(2) by (simp add: unat_of_nat)
  have usable: "key_usable M2M_WIFI_SEC_WPA_PSK (Some (key @ 0 # r)) = Some (length key = 64 \<longrightarrow> list_all hex_digit key)"
    by (auto simp: key_usable_def M2M_WIFI_SEC_WPA_PSK_def M2M_WIFI_SEC_OPEN_def m2m_strlen_string key(1) n M2M_MAX_PSK_LEN_def)
  have auth: "auth_bytes M2M_WIFI_SEC_WPA_PSK (Some (key @ 0 # r)) (unset e 0 65) =
      (if key = [] \<or> 65 \<le> length key then Some None
       else Some (Some (key @ 0 # drop (length key + 1) (unset e 0 65))))"
    unfolding auth_bytes_def
    by (simp add: M2M_WIFI_SEC_WPA_PSK_def M2M_WIFI_SEC_OPEN_def M2M_WIFI_SEC_WEP_def psk_auth_string key memcpy_Some)
  have len: "len = 0 \<or> M2M_MAX_SSID_LEN \<le> unat len \<longleftrightarrow> \<not> (1 \<le> unat len \<and> unat len \<le> 32)"
    by (auto simp: M2M_MAX_SSID_LEN_def unat_eq_zero Suc_le_eq)
  have ch: "ucast M2M_WIFI_CH_14 < ch \<and> ch \<noteq> ucast M2M_WIFI_CH_ALL \<longleftrightarrow> \<not> (ch \<le> 13 \<or> ch = 255)"
    by (auto simp: M2M_WIFI_CH_14_def M2M_WIFI_CH_ALL_def not_le)
  show ?thesis
    unfolding m2m_wifi_connect_sc_def usable len ch auth psk_valid_def
    using ssid by (auto simp: Suc_le_eq not_less)
qed

definition key0 :: "u8 list" where "key0 = replicate 8 0x61"

lemma key0_props: "0 \<notin> set key0" "length key0 = 8"
  by (simp_all add: key0_def)

theorem wifi_connect_psk_witness:
  "m2m_wifi_connect_sc (env0 (table_bus (\<lambda>_. 0) [])) [0x41, 0] 1 M2M_WIFI_SEC_WPA_PSK (Some (key0 @ 0 # [])) 14 0 (hif0 0)
     = Some (M2M_ERR_FAIL, hif0 0) \<and> psk_valid key0 1 13"
  by (subst wifi_connect_psk) (simp_all add: key0_props psk_valid_def)

subsection \<open>What is sent\<close>

text \<open>The firmware's reading of the struct: passphrase, security, channel, SSID, flag.\<close>

definition connect_fields :: "u8 list \<Rightarrow> u8 list \<times> u8 \<times> u16 \<times> u8 list \<times> u8" where
  "connect_fields b = (takeWhile (\<lambda>c. c \<noteq> 0) (take 65 b), b ! 65, of_le16 (drop 68 b),
     takeWhile (\<lambda>c. c \<noteq> 0) (take 33 (drop 70 b)), b ! 103)"

lemma takeWhile_string: "0 \<notin> set s \<Longrightarrow> takeWhile (\<lambda>c. c \<noteq> (0 :: u8)) (s @ 0 # r) = s"
  by (induction s) auto

lemma of_le16_head: "of_le16 (le16 ch @ x) = ch"
  using of_le16_le16 [of ch] by (simp add: of_le16_def le16_def)

lemma connect_layout:
  assumes "length un = 65" "length p = 2" "length nm = 33"
  shows "connect_fields (un @ sec # p @ le16 ch @ nm @ fl # t) =
    (takeWhile (\<lambda>c. c \<noteq> 0) un, sec, ch, takeWhile (\<lambda>c. c \<noteq> 0) nm, fl)"
proof -
  let ?b = "un @ sec # p @ le16 ch @ nm @ fl # t"
  have 1: "?b = (un @ sec # p) @ le16 ch @ nm @ fl # t" and 2: "?b = (un @ sec # p @ le16 ch) @ nm @ fl # t"
    and 3: "?b = (un @ sec # p @ le16 ch @ nm) @ fl # t" by simp_all
  have "drop 68 ?b = le16 ch @ nm @ fl # t" unfolding 1 using assms by simp
  moreover have "drop 70 ?b = nm @ fl # t" unfolding 2 using assms by simp
  moreover have "?b ! 103 = fl" unfolding 3 using assms by (subst nth_append) simp
  ultimately show ?thesis using assms by (simp add: connect_fields_def of_le16_head nth_append)
qed

lemma connect_roundtrip:
  assumes key: "0 \<notin> set key" "length key \<le> 64" and ssid: "0 \<notin> set (take (unat len) ssid)" "unat len \<le> length ssid" "unat len \<le> 32"
  shows "connect_fields (connect_bytes e (key @ 0 # drop (length key + 1) (unset e 0 65)) sec ch ssid len nosave) =
      (key, sec, ch, take (unat len) ssid, if nosave \<noteq> 0 then 1 else 0)"
    and "length (connect_bytes e (key @ 0 # drop (length key + 1) (unset e 0 65)) sec ch ssid len nosave) = 108"
proof -
  let ?un = "key @ 0 # drop (length key + 1) (unset e 0 65)"
  let ?name = "poke 0 (take (unat len) ssid @ [0]) (unset e 70 103)"
  have un: "length ?un = 65" using key(2) by simp
  have name: "length ?name = 33" "?name = take (unat len) ssid @ 0 # drop (unat len + 1) (unset e 70 103)"
    using ssid by (simp_all add: poke_def min_def)
  have pad: "length (unset e 66 68) = 2" by simp
  have b: "connect_bytes e ?un sec ch ssid len nosave =
      ?un @ sec # unset e 66 68 @ le16 ch @ ?name @ (if nosave \<noteq> 0 then 1 else 0) # unset e 104 108"
    by (simp add: connect_bytes_def)
  show "connect_fields (connect_bytes e ?un sec ch ssid len nosave) =
      (key, sec, ch, take (unat len) ssid, if nosave \<noteq> 0 then 1 else 0)"
    unfolding b connect_layout [OF un pad name(1)]
    unfolding name(2) takeWhile_string [OF key(1)] takeWhile_string [OF ssid(1)] ..
  show "length (connect_bytes e ?un sec ch ssid len nosave) = 108"
    unfolding b using un name(1) by simp
qed

text \<open>C9: A successful connection request with a pre-shared key has written one struct of 108 bytes to the chip, in
  which the firmware finds the passphrase, the security type, the channel and the SSID of the call.\<close>

theorem wifi_connect_on_bus:
  assumes awake: "stays_awake h" and bus: "ev_bus e = logged bus"
    and key: "0 \<notin> set key" "length key \<le> 64" and ssid: "0 \<notin> set (take (unat len) ssid)" "unat len \<le> length ssid"
    and ok: "m2m_wifi_connect_sc e ssid len M2M_WIFI_SEC_WPA_PSK (Some (key @ 0 # r)) ch nosave h = Some (M2M_SUCCESS, h')"
  shows "\<exists>b dma. length b = 108 \<and>
    connect_fields b = (key, M2M_WIFI_SEC_WPA_PSK, ch, take (unat len) ssid, if nosave \<noteq> 0 then 1 else 0) \<and>
    filter is_write (snd (bus_st h')) = filter is_write (snd (bus_st h)) @
      hif_send_writes (ev_stack e) M2M_REQ_GROUP_WIFI M2M_WIFI_REQ_CONNECT (Some b) 108 None 0 0 dma"
proof -
  let ?b = "connect_bytes e (key @ 0 # drop (length key + 1) (unset e 0 65)) M2M_WIFI_SEC_WPA_PSK ch ssid len nosave"
  have fail: "M2M_ERR_FAIL \<noteq> M2M_SUCCESS" by (simp add: M2M_ERR_FAIL_def M2M_SUCCESS_def)
  have "psk_valid key len ch" and sent: "wifi_req e M2M_WIFI_REQ_CONNECT ?b h = Some (M2M_SUCCESS, h')"
    using ok wifi_connect_psk [OF key(1) _ ssid(2), of e r ch nosave h] key(2) fail by (auto split: if_splits)
  then have len: "unat len \<le> 32" by (simp add: psk_valid_def)
  note b = connect_roundtrip [OF key ssid len, of e M2M_WIFI_SEC_WPA_PSK ch nosave]
  have "of_nat (length ?b) = (108 :: u16)" unfolding b(2) by simp
  with hif_send_logged [OF awake _ sent [unfolded wifi_req_def bus]] b show ?thesis by auto
qed

lemma wifi_req_table:
  "\<exists>h'. wifi_req (env0 (logged (table_bus (\<lambda>_. 0x30000) []))) op b (hif0 (0, [])) = Some (M2M_SUCCESS, h')"
  unfolding wifi_req_def env0_def by simp (rule hif_send_table [OF hif0_awake], simp_all)

theorem wifi_connect_on_bus_witness:
  "\<exists>h' b dma. m2m_wifi_connect_sc (env0 (logged (table_bus (\<lambda>_. 0x30000) []))) [0x41, 0x42] 2 M2M_WIFI_SEC_WPA_PSK
       (Some (key0 @ 0 # [])) 11 1 (hif0 (0, [])) = Some (M2M_SUCCESS, h') \<and>
     connect_fields b = (key0, M2M_WIFI_SEC_WPA_PSK, 11, [0x41, 0x42], 1) \<and>
     filter is_write (snd (bus_st h')) =
       hif_send_writes [0, 0, 0, 0] M2M_REQ_GROUP_WIFI M2M_WIFI_REQ_CONNECT (Some b) 108 None 0 0 dma"
proof -
  let ?e = "env0 (logged (table_bus (\<lambda>_. 0x30000) []))" and ?h = "hif0 (0 :: nat, [])"
  obtain h' where ok: "m2m_wifi_connect_sc ?e [0x41, 0x42] 2 M2M_WIFI_SEC_WPA_PSK (Some (key0 @ 0 # [])) 11 1 ?h
      = Some (M2M_SUCCESS, h')"
    using wifi_req_table wifi_connect_psk [of key0 2 "[0x41, 0x42]" ?e "[]" 11 1 ?h]
    by (auto simp: key0_props psk_valid_def)
  have "\<exists>b dma. length b = 108 \<and> connect_fields b = (key0, M2M_WIFI_SEC_WPA_PSK, 11, [0x41, 0x42], 1) \<and>
      filter is_write (snd (bus_st h')) = filter is_write (snd (bus_st ?h)) @
        hif_send_writes [0, 0, 0, 0] M2M_REQ_GROUP_WIFI M2M_WIFI_REQ_CONNECT (Some b) 108 None 0 0 dma"
    using wifi_connect_on_bus [OF hif0_awake _ _ _ _ _ ok, of "table_bus (\<lambda>_. 0x30000) []"] by (simp add: key0_props env0_def)
  with ok show ?thesis by (auto simp: hif0_def)
qed

subsection \<open>One scan at a time\<close>

text \<open>While a scan is in progress no second one is requested: after a successful request every further one fails
  without touching the bus, until the response that the scan is done has arrived.\<close>

theorem scan_exclusive:
  assumes "m2m_wifi_request_scan e ch h = Some (M2M_SUCCESS, h')"
  shows "m2m_wifi_request_scan e ch' h' = Some (M2M_ERR_SCAN_IN_PROGRESS, h')"
  using assms
  by (auto simp: m2m_wifi_request_scan_def M2M_ERR_SCAN_IN_PROGRESS_def M2M_ERR_INVALID_ARG_def M2M_SUCCESS_def split: if_splits)

theorem scan_exclusive_witness:
  "\<exists>h'. m2m_wifi_request_scan (env0 (logged (table_bus (\<lambda>_. 0x30000) []))) M2M_WIFI_CH_ALL (hif0 (0, [])) = Some (M2M_SUCCESS, h') \<and>
     m2m_wifi_request_scan (env0 (logged (table_bus (\<lambda>_. 0x30000) []))) 3 h' = Some (M2M_ERR_SCAN_IN_PROGRESS, h')"
proof -
  let ?e = "env0 (logged (table_bus (\<lambda>_. 0x30000) []))" and ?h = "hif0 (0 :: nat, [])"
  obtain h' where ok: "m2m_wifi_request_scan ?e M2M_WIFI_CH_ALL ?h = Some (M2M_SUCCESS, h')"
  proof -
    have "gu8scanInProgress ?h = 0" by (simp add: hif0_def)
    then show ?thesis
      using that wifi_req_table [of M2M_WIFI_REQ_SCAN] by (fastforce simp: m2m_wifi_request_scan_def)
  qed
  with scan_exclusive [OF ok] show ?thesis by blast
qed

subsection \<open>The device name\<close>

text \<open>\<open>m2m_wifi_set_device_name\<close> copies one byte more than the length: a name of fewer than 48 bytes is sent
  with the byte behind it, one of 48 bytes or more is written past the end of the struct.\<close>

theorem device_name:
  assumes "unat len < length name"
  shows "m2m_wifi_set_device_name e name len h =
    (if unat len < 48
     then wifi_req e M2M_WIFI_REQ_SET_DEVICE_NAME (take (unat len + 1) name @ unset e (unat len + 1) 48) h
     else None)"
proof (cases "unat len < 48")
  case True
  have "drop (unat len + 1) (unset e 0 48) = unset e (unat len + 1) 48" by (simp add: unset_def drop_map)
  moreover have "unat (len + 1) = unat len + 1" using True by (simp add: unat_word_ariths)
  ultimately show ?thesis
    using True assms by (simp add: m2m_wifi_set_device_name_def M2M_DEVICE_NAME_MAX_def memcpy_Some)
next
  case False
  then show ?thesis by (simp add: m2m_wifi_set_device_name_def M2M_DEVICE_NAME_MAX_def memcpy_too_long)
qed

theorem device_name_witness:
  "m2m_wifi_set_device_name (env0 (table_bus (\<lambda>_. 0) [])) (replicate 64 0x41) 48 (hif0 0) = None"
  using device_name [of 48 "replicate 64 0x41" "env0 (table_bus (\<lambda>_. 0) [])" "hif0 0"] by simp

end
