(* ===== verification/Winc1500.thy ===== *)
theory Winc1500
  imports M2m_Wifi Winc_Socket
begin

text \<open>
  The Wi-Fi driver of \<open>winc1500.c\<close>: it starts and stops the chip, turns the messages of the firmware into reports
  to the Wi-Fi manager, polls the chip from a timer, and offers scanning and connecting. The manager is
  not code of the repository: its functions, and the sizes of its \<open>struct wifi_ap\<close>, are fields of \<open>wmgr\<close>.
\<close>

record wifi_ap =
  wa_ssid :: "u8 list"
  wa_bssid :: "u8 list"
  wa_rssi :: int
  wa_key_type :: u8
  wa_channel :: u8

record ('w, 'p) wmgr =
  wg_env :: "('w, 'p) wenv"
  wg_ctl :: "'w bus_ctl"
  wifi_if_register :: "('w, 'p) wk \<Rightarrow> int \<times> ('w, 'p) wk"
  wifi_scan_done :: "int \<Rightarrow> ('w, 'p) wk \<Rightarrow> ('w, 'p) wk option"
  wifi_scan_result :: "wifi_ap \<Rightarrow> ('w, 'p) wk \<Rightarrow> ('w, 'p) wk option"
  wifi_connect_done :: "int \<Rightarrow> ('w, 'p) wk \<Rightarrow> ('w, 'p) wk option"
  wifi_disconnected :: "int \<Rightarrow> ('w, 'p) wk \<Rightarrow> ('w, 'p) wk option"
  wifi_dhcp_done :: "u8 list \<Rightarrow> ('w, 'p) wk \<Rightarrow> ('w, 'p) wk option"
  wa_ssid_size :: nat
  wa_bssid_size :: nat
  wg_pin_init :: "winc_pin \<Rightarrow> ('w, 'p) wk \<Rightarrow> int \<times> ('w, 'p) wk"
  wg_has_enable :: bool
  wg_has_wake :: bool
  m2m_hif_cb_ptr :: u32
  m2m_wifi_cb_ptr :: u32
  m2m_ip_cb_ptr :: u32
  winc1500_callback_ptr :: u32
  winc1500_sock_cb_ptr :: u32
  winc1500_resolve_cb_ptr :: u32
  wg_strtmp :: "u8 list"

abbreviation wg_sock :: "('w, 'p) wmgr \<Rightarrow> 'w env" where
  "wg_sock g \<equiv> wv_sock (wg_env g)"

definition NORTH_AMERICA :: u16 where "NORTH_AMERICA = 0x7FF"
definition M2M_WIFI_DISCONNECTED :: u8 where "M2M_WIFI_DISCONNECTED = 0"
definition M2M_WIFI_CONNECTED :: u8 where "M2M_WIFI_CONNECTED = 1"

subsection \<open>Reports to the manager\<close>

text \<open>\<open>ffs\<close> and \<open>ntohl\<close> of the little-endian machine; \<open>w_plen\<close> is a field of six bits.\<close>

definition ffs :: "u32 \<Rightarrow> nat" where
  "ffs w = (case List.find (bit w) [0..<32] of None \<Rightarrow> 0 | Some i \<Rightarrow> Suc i)"

definition ntohl :: "u32 \<Rightarrow> u32" where
  "ntohl w = of_le32 (rev (le32 w))"

definition prefix_len :: "u32 \<Rightarrow> u8" where
  "prefix_len m = (if m \<noteq> 0 then (33 - of_nat (ffs (ntohl m))) AND 0x3f else 0)"

text \<open>\<open>tstrM2mWifiscanResult\<close>: index 0, signal 1, security 2, channel 3, BSSID from 4, SSID from 10; 44 bytes.\<close>

definition scan_ap :: "('w, 'p) wmgr \<Rightarrow> u8 list \<Rightarrow> wifi_ap option" where
  "scan_ap g b =
     (if length b < 10 + wa_ssid_size g \<or> length b < 4 + wa_bssid_size g then None
      else Some \<lparr>wa_ssid = take (wa_ssid_size g) (drop 10 b), wa_bssid = take (wa_bssid_size g) (drop 4 b),
                 wa_rssi = sint (b ! 1), wa_key_type = b ! 2, wa_channel = b ! 3\<rparr>)"

text \<open>A request for a result; its failure ends the scan.\<close>

definition next_result :: "('w, 'p) wmgr \<Rightarrow> u8 \<Rightarrow> ('w, 'p) wk \<Rightarrow> ('w, 'p) wk option" where
  "next_result g idx s = do {
     (rc, s) \<leftarrow> m2m_wifi_req_scan_result (wg_sock g) idx s;
     (if rc \<noteq> 0 then wifi_scan_done g (-1) s else Some s) }"

definition on_scan_done :: "('w, 'p) wmgr \<Rightarrow> u8 list \<Rightarrow> ('w, 'p) wk \<Rightarrow> ('w, 'p) wk option" where
  "on_scan_done g b s =
     (if wi_state (app_st s) \<noteq> SCANNING then Some s
      else do {
        n \<leftarrow> mem_read b 0;
        let s = upd_app (\<lambda>a. a\<lparr>w_scan_cnt := n\<rparr>) s;
        (if n > 0 then next_result g 0 (upd_app (\<lambda>a. a\<lparr>w_scan_idx := 0\<rparr>) s) else Some s) })"

definition on_scan_result :: "('w, 'p) wmgr \<Rightarrow> u8 list \<Rightarrow> ('w, 'p) wk \<Rightarrow> ('w, 'p) wk option" where
  "on_scan_result g b s =
     (if wi_state (app_st s) \<noteq> SCANNING then Some s
      else do {
        ap \<leftarrow> scan_ap g b;
        s \<leftarrow> wifi_scan_result g ap s;
        let s = upd_app (\<lambda>a. a\<lparr>w_scan_idx := w_scan_idx a + 1\<rparr>) s;
        (if w_scan_idx (app_st s) < w_scan_cnt (app_st s) then next_result g (w_scan_idx (app_st s)) s
         else wifi_scan_done g 0 s) })"

definition on_state_changed :: "('w, 'p) wmgr \<Rightarrow> u8 list \<Rightarrow> ('w, 'p) wk \<Rightarrow> ('w, 'p) wk option" where
  "on_state_changed g b s = do {
     st \<leftarrow> mem_read b 0;
     err \<leftarrow> mem_read b 1;
     (if st = M2M_WIFI_CONNECTED
      then (if wi_state (app_st s) \<noteq> CONNECTING then Some s else wifi_connect_done g 0 s)
      else if st = M2M_WIFI_DISCONNECTED
      then let s = upd_app (\<lambda>a. a\<lparr>w_up := False\<rparr>) s
           in if wi_state (app_st s) = CONNECTING then wifi_connect_done g (uint err) s
              else wifi_disconnected g (uint err) s
      else Some s) }"

definition on_dhcp :: "('w, 'p) wmgr \<Rightarrow> u8 list \<Rightarrow> ('w, 'p) wk \<Rightarrow> ('w, 'p) wk option" where
  "on_dhcp g b s =
     (if length b < 16 then None
      else let c = ip_config_of b
           in wifi_dhcp_done g (take 4 b) (upd_app (\<lambda>a. a\<lparr>w_up := True, w_addr := u32StaticIP c,
                w_plen := prefix_len (u32SubnetMask c)\<rparr>) s))"

definition winc1500_callback :: "('w, 'p) wmgr \<Rightarrow> u8 \<Rightarrow> u8 list option \<Rightarrow> ('w, 'p) wk \<Rightarrow> ('w, 'p) wk option" where
  "winc1500_callback g msg_type msg s =
     (if msg_type = M2M_WIFI_RESP_SCAN_DONE then do { b \<leftarrow> msg; on_scan_done g b s }
      else if msg_type = M2M_WIFI_RESP_SCAN_RESULT then do { b \<leftarrow> msg; on_scan_result g b s }
      else if msg_type = M2M_WIFI_RESP_CON_STATE_CHANGED then do { b \<leftarrow> msg; on_state_changed g b s }
      else if msg_type = M2M_WIFI_REQ_DHCP_CONF then do { b \<leftarrow> msg; on_dhcp g b s }
      else Some s)"

subsection \<open>The poll\<close>

text \<open>The callbacks that the host interface calls, by address; the one of the group HIF is empty.\<close>

definition driver_cb :: "('w, 'p) wmgr \<Rightarrow> u32 \<Rightarrow> u8 \<Rightarrow> u16 \<Rightarrow> u32 \<Rightarrow> ('w, 'p) wk \<Rightarrow> ('w, 'p) wk option" where
  "driver_cb g f op sz addr s =
     (if f = m2m_wifi_cb_ptr g then m2m_wifi_cb (wg_sock g) (\<lambda>_. winc1500_callback g) op sz addr s
      else if f = m2m_ip_cb_ptr g then m2m_ip_cb (wg_sock g) (winc_cbs (wg_env g)) op sz addr s
      else Some s)"

definition winc1500_events :: "('w, 'p) wmgr \<Rightarrow> ('w, 'p) wk \<Rightarrow> ('w, 'p) wk option" where
  "winc1500_events g s = do {
     (_, s) \<leftarrow> m2m_wifi_handle_events (wg_sock g) (driver_cb g) (os_mutex_pend s);
     s \<leftarrow> winc1500_socket_poll (wg_env g) (os_mutex_release s);
     Some (upd_app (\<lambda>a. a\<lparr>w_timer := True\<rparr>) s) }"

subsection \<open>Operations of the interface\<close>

definition winc1500_start :: "('w, 'p) wmgr \<Rightarrow> ('w, 'p) wk \<Rightarrow> (int \<times> ('w, 'p) wk) option" where
  "winc1500_start g s = do {
     (rc, s) \<leftarrow> m2m_wifi_init (wg_sock g) (wg_ctl g) (m2m_hif_cb_ptr g) (m2m_wifi_cb_ptr g) (wg_strtmp g)
                 (Some (winc1500_callback_ptr g)) s;
     let s = (if rc = 0 then upd_app (\<lambda>a. a\<lparr>w_timer := True\<rparr>) s else s);
     Some (rc, winc1500_socket_start (m2m_ip_cb_ptr g) (winc1500_sock_cb_ptr g) (winc1500_resolve_cb_ptr g) s) }"

definition winc1500_stop :: "('w, 'p) wmgr \<Rightarrow> ('w, 'p) wk \<Rightarrow> ('w, 'p) wk option" where
  "winc1500_stop g s =
     map_option snd (m2m_wifi_deinit (wg_sock g) (wg_ctl g) (upd_app (\<lambda>a. a\<lparr>w_up := False\<rparr>) s))"

definition winc1500_scan_start :: "('w, 'p) wmgr \<Rightarrow> ('w, 'p) wk \<Rightarrow> (int \<times> ('w, 'p) wk) option" where
  "winc1500_scan_start g s =
     on_ok (m2m_wifi_set_scan_region (wg_sock g) NORTH_AMERICA s)
       (\<lambda>s. m2m_wifi_request_scan (wg_sock g) M2M_WIFI_CH_ALL s)"

text \<open>\<open>strlen\<close>, whose result is cut to eight bits.\<close>

definition c_strlen :: "u8 list \<Rightarrow> nat option" where
  "c_strlen b = (if 0 \<in> set b then Some (length (takeWhile (\<lambda>c. c \<noteq> 0) b)) else None)"

definition winc1500_connect :: "('w, 'p) wmgr \<Rightarrow> u8 \<Rightarrow> ('w, 'p) wk \<Rightarrow> (int \<times> ('w, 'p) wk) option" where
  "winc1500_connect g key_type s = do {
     n \<leftarrow> c_strlen (wi_ssid (app_st s));
     m2m_wifi_connect (wg_sock g) (wi_ssid (app_st s)) (of_nat n) key_type (Some (wi_key (app_st s)))
       (ucast M2M_WIFI_CH_ALL) s }"

definition winc1500_disconnect :: "('w, 'p) wmgr \<Rightarrow> ('w, 'p) wk \<Rightarrow> ('w, 'p) wk option" where
  "winc1500_disconnect g s =
     map_option snd (m2m_wifi_disconnect (wg_sock g) (upd_app (\<lambda>a. a\<lparr>w_up := False\<rparr>) s))"

text \<open>A pin that cannot be set up fails the assertion.\<close>

definition pin_init :: "('w, 'p) wmgr \<Rightarrow> winc_pin \<Rightarrow> ('w, 'p) wk \<Rightarrow> ('w, 'p) wk option" where
  "pin_init g p s = (case wg_pin_init g p s of (rc, s) \<Rightarrow> if rc = 0 then Some s else None)"

definition winc1500_init :: "('w, 'p) wmgr \<Rightarrow> ('w, 'p) wk \<Rightarrow> (int \<times> ('w, 'p) wk) option" where
  "winc1500_init g s =
     (case wifi_if_register g s of (rc, s) \<Rightarrow>
       if rc \<noteq> 0 then Some (-1, s)
       else do {
         s \<leftarrow> pin_init g WINC1500_PIN_RESET (upd_app (\<lambda>a. a\<lparr>w_timer := False\<rparr>) s);
         s \<leftarrow> (if wg_has_enable g then pin_init g WINC1500_PIN_ENABLE s else Some s);
         s \<leftarrow> (if wg_has_wake g then pin_init g WINC1500_PIN_WAKE s else Some s);
         Some (0, winc1500_socket_init s) })"

end
