(* ===== verification/Winc1500_Props.thy ===== *)
theory Winc1500_Props
  imports Wifi_Props Winc1500
begin

text \<open>
  Properties of the Wi-Fi driver: the protocol of a scan with the Wi-Fi manager, the prefix length computed
  from a network mask, and the mutex around the poll. The manager is a locale: what it has been told is a
  list of reports, and the end of a scan takes it out of the state \<open>SCANNING\<close>.
\<close>

datatype report = Result wifi_ap | ScanDone int

locale wifi_manager =
  fixes g :: "('w \<times> access list, 'p) wmgr"
    and reports :: "'p \<Rightarrow> report list"
  assumes scan_done: "\<exists>p st. st \<noteq> SCANNING \<and> reports p = reports (pool (app_st s)) @ [ScanDone rc] \<and>
      wifi_scan_done g rc s = Some (upd_app (\<lambda>a. a\<lparr>pool := p, wi_state := st\<rparr>) s)"
    and scan_result: "\<exists>p. reports p = reports (pool (app_st s)) @ [Result ap] \<and>
      wifi_scan_result g ap s = Some (upd_app (\<lambda>a. a\<lparr>pool := p\<rparr>) s)"

subsection \<open>Messages of the firmware\<close>

text \<open>
  The firmware's side of a scan. It looks at what the driver has written since its last answer: a header
  of the Wi-Fi group with the code of the request for a result, the index behind the header, and the
  register write that hands both over. It answers such a request with the network of that index, and it
  does nothing else.
\<close>

definition asked :: "access list \<Rightarrow> u8 option" where
  "asked l = (case rev (filter is_write l) of
     WReg r v # WBlk c ctrl # WBlk a hdr # _ \<Rightarrow>
       if r = WIFI_HOST_RCV_CTRL_3 \<and> v = push_bit 2 a OR 2 \<and> c = a + 8 \<and> ctrl \<noteq> []
          \<and> take 2 hdr = [M2M_REQ_GROUP_WIFI, M2M_WIFI_REQ_SCAN_RESULT]
       then Some (hd ctrl) else None
   | _ \<Rightarrow> None)"

fun scan_rounds :: "('w \<times> access list, 'p) wmgr \<Rightarrow> u8 list list \<Rightarrow> nat \<Rightarrow> nat \<Rightarrow> ('w \<times> access list, 'p) wk \<Rightarrow>
    ('w \<times> access list, 'p) wk option" where
  "scan_rounds g bs 0 pos s = Some s"
| "scan_rounds g bs (Suc n) pos s =
     (case asked (drop pos (snd (bus_st s))) of
        None \<Rightarrow> Some s
      | Some i \<Rightarrow>
          if unat i < length bs
          then Option.bind (winc1500_callback g M2M_WIFI_RESP_SCAN_RESULT (Some (bs ! unat i)) s)
                 (scan_rounds g bs n (length (snd (bus_st s))))
          else Some s)"

text \<open>The whole scan: the response with the number \<open>n\<close> of networks, and as many rounds.\<close>

definition scan_run :: "('w \<times> access list, 'p) wmgr \<Rightarrow> u8 list list \<Rightarrow> u8 \<Rightarrow> u8 list \<Rightarrow> ('w \<times> access list, 'p) wk \<Rightarrow>
    ('w \<times> access list, 'p) wk option" where
  "scan_run g bs n d s =
     Option.bind (winc1500_callback g M2M_WIFI_RESP_SCAN_DONE (Some (n # d)) s)
       (scan_rounds g bs (length bs) (length (snd (bus_st s))))"

lemma callback_scan [simp]:
  "winc1500_callback g M2M_WIFI_RESP_SCAN_RESULT (Some b) s = on_scan_result g b s"
  "winc1500_callback g M2M_WIFI_RESP_SCAN_DONE (Some b) s = on_scan_done g b s"
  by (simp_all add: winc1500_callback_def wifi_resp_defs)

lemma rounds_idle: "wi_state (app_st s) \<noteq> SCANNING \<Longrightarrow> scan_rounds g bs n pos s = Some s"
  by (induction n arbitrary: pos) (simp_all add: on_scan_result_def split: option.splits)

text \<open>The writes of the requests for the results \<open>i\<close>, \<open>i + 1\<close>, ..., granted the addresses \<open>ds\<close>.\<close>

fun scan_writes :: "'w env \<Rightarrow> nat \<Rightarrow> u32 list \<Rightarrow> access list" where
  "scan_writes e i [] = []"
| "scan_writes e i (d # ds) = hif_send_writes (ev_stack e) M2M_REQ_GROUP_WIFI M2M_WIFI_REQ_SCAN_RESULT
     (Some (of_nat i # unset e 1 4)) 4 None 0 0 d @ scan_writes e (Suc i) ds"

lemma asked_writes:
  assumes "filter is_write l = scan_writes e i [d]"
  shows "asked l = Some (of_nat i)"
  by (simp add: asked_def assms hif_send_writes_def hif_header_def Let_def M2M_WIFI_REQ_SCAN_RESULT_def)

lemma stays_awake_upd_app [simp]: "stays_awake (upd_app f s) = stays_awake s" "app_st (upd_app f s) = f (app_st s)"
  by (simp_all add: upd_app_def stays_awake_def deep_sleep_mode_def)

lemma scan_request:
  assumes ans: "answering bus" and bus: "ev_bus e = logged bus" and st: "length (ev_stack e) = 4" and awake: "stays_awake s"
  obtains rc s' l where "m2m_wifi_req_scan_result e (of_nat i) s = Some (rc, s')" "app_st s' = app_st (s :: ('w \<times> access list, 'a) sk)"
    "snd (bus_st s') = snd (bus_st s) @ l"
    "rc = 0 \<Longrightarrow> stays_awake s'" "rc = 0 \<Longrightarrow> \<exists>d. filter is_write l = scan_writes e i [d]"
proof -
  let ?c = "of_nat i # unset e 1 4"
  have c: "length ?c = 4" by (simp add: unset_def)
  have "logs (snd (bus_st s)) (wifi_req e M2M_WIFI_REQ_SCAN_RESULT ?c s)"
    unfolding wifi_req_def bus by (rule hif_send_logs [OF ans awake st]) simp_all
  then obtain rc s' l where r: "wifi_req e M2M_WIFI_REQ_SCAN_RESULT ?c s = Some (rc, s')" and l: "snd (bus_st s') = snd (bus_st s) @ l"
    by (auto simp: logs_def returns_def)
  have app: "app_st s' = app_st s"
    using hif_send_more [of s "ev_bus e" "ev_junk e" "ev_stack e" M2M_REQ_GROUP_WIFI M2M_WIFI_REQ_SCAN_RESULT "Some ?c"
        "of_nat (length ?c)" None 0 0] r [unfolded wifi_req_def] sk_more(3)
    by (fastforce simp: all_in_def)
  have ok: "stays_awake s'" "\<exists>d. filter is_write l = scan_writes e i [d]" if "rc = 0"
    using hif_send_logged [OF awake _ r [unfolded wifi_req_def bus that M2M_SUCCESS_def [symmetric]]] awake l c
    by (auto simp: stays_awake_def deep_sleep_mode_def)
  show ?thesis
    by (rule that [OF _ app l]) (use r ok in \<open>simp_all add: m2m_wifi_req_scan_result_def\<close>)
qed

text \<open>
  How a scan of \<open>n\<close> networks can end, from a state \<open>t\<close> in which \<open>k\<close> results have been reported: all of
  them, or the request for the next one has been refused.
\<close>

definition scan_ends :: "('w, 'p) wmgr \<Rightarrow> nat \<Rightarrow> nat \<Rightarrow> ('w, 'p) wk \<Rightarrow> int \<Rightarrow> ('w, 'p) wk \<Rightarrow> bool" where
  "scan_ends g n k t rc s' \<longleftrightarrow> k = n \<and> rc = 0 \<and> bus_st s' = bus_st t
     \<or> k < n \<and> rc = -1 \<and> stays_awake t \<and> (\<exists>e t'. m2m_wifi_req_scan_result (wg_sock g) (of_nat k) t = Some (e, t') \<and> e \<noteq> 0
          \<and> bus_st s' = bus_st t')"

context wifi_manager
begin

abbreviation told :: "('w \<times> access list, 'p) wk \<Rightarrow> report list" where
  "told s \<equiv> reports (pool (app_st s))"

abbreviation wlog :: "('w \<times> access list, 'p) wk \<Rightarrow> access list" where
  "wlog s \<equiv> filter is_write (snd (bus_st s))"

lemma done_cases:
  obtains s' where "wifi_scan_done g rc s = Some s'" "told s' = told s @ [ScanDone rc]" "wi_state (app_st s') \<noteq> SCANNING"
    "bus_st s' = bus_st s"
  using scan_done [where s = s and rc = rc] that by (auto simp: upd_app_def)

text \<open>After a request the driver waits for the next result, or the scan has been reported as failed.\<close>

lemma next_result_cases:
  assumes "answering bus" "ev_bus (wg_sock g) = logged bus" "length (ev_stack (wg_sock g)) = 4" "stays_awake s" "i < n"
  obtains (granted) s' l d where "next_result g (of_nat i) s = Some s'" "app_st s' = app_st s" "stays_awake s'"
      "snd (bus_st s') = snd (bus_st s) @ l" "filter is_write l = scan_writes (wg_sock g) i [d]"
  | (refused) s' where "next_result g (of_nat i) s = Some s'" "told s' = told s @ [ScanDone (-1)]" "wi_state (app_st s') \<noteq> SCANNING"
      "scan_ends g n i s (-1) s'"
proof -
  obtain rc s1 l where r: "m2m_wifi_req_scan_result (wg_sock g) (of_nat i) s = Some (rc, s1)" "app_st s1 = app_st s"
    "snd (bus_st s1) = snd (bus_st s) @ l" "rc = 0 \<Longrightarrow> stays_awake s1"
    "rc = 0 \<Longrightarrow> \<exists>d. filter is_write l = scan_writes (wg_sock g) i [d]"
    by (rule scan_request [OF assms(1-4), where i = i]) (rule that)
  show thesis
  proof (cases "rc = 0")
    case True
    then obtain d where d: "filter is_write l = scan_writes (wg_sock g) i [d]" using r(5) by blast
    show thesis by (rule granted [of s1 l d]) (use r True d in \<open>simp_all add: next_result_def\<close>)
  next
    case False
    obtain s' where s': "wifi_scan_done g (-1) s1 = Some s'" "told s' = told s1 @ [ScanDone (-1)]" "wi_state (app_st s') \<noteq> SCANNING"
      "bus_st s' = bus_st s1"
      by (rule done_cases)
    show thesis
      by (rule refused [of s']) (use r(1,2) s' False assms(4,5) in \<open>auto simp: next_result_def scan_ends_def\<close>)
  qed
qed

text \<open>The rounds from result \<open>i\<close> on, whose request the chip has seen.\<close>

lemma rounds_results:
  assumes bus: "answering bus" "ev_bus (wg_sock g) = logged bus" "length (ev_stack (wg_sock g)) = 4"
    and bs: "length bs = unat n" "list_all2 (\<lambda>b ap. scan_ap g b = Some ap) bs aps"
  shows "\<lbrakk>stays_awake s; wi_state (app_st s) = SCANNING; m + i = length bs; 0 < m; w_scan_cnt (app_st s) = n;
    w_scan_idx (app_st s) = of_nat i; asked (drop pos (snd (bus_st s))) = Some (of_nat i)\<rbrakk> \<Longrightarrow>
    \<exists>s' k rc ds t. scan_rounds g bs m pos s = Some s' \<and> i < k \<and> k \<le> length bs \<and> length ds = k - Suc i \<and>
      told s' = told s @ map Result (take (k - i) (drop i aps)) @ [ScanDone rc] \<and> wi_state (app_st s') \<noteq> SCANNING \<and>
      told t = told s @ map Result (take (k - i) (drop i aps)) \<and>
      wlog t = wlog s @ scan_writes (wg_sock g) (Suc i) ds \<and> scan_ends g (length bs) k t rc s'"
proof (induction m arbitrary: s i pos)
  case (Suc m)
  let ?t = "wg_sock g"
  have lim: "length bs < 256" using bs(1) unsigned_less [of n, where 'a = nat] by simp
  have i: "i < length bs" "unat (of_nat i :: u8) = i" using Suc.prems(3) lim by (simp_all add: unat_of_nat)
  then have "unat (of_nat (Suc i) :: u8) = Suc i" using lim by (intro of_nat_inverse) simp_all
  then have i1: "unat (1 + of_nat i :: u8) = Suc i" by simp
  obtain ap rest where ap: "drop i aps = ap # rest" "scan_ap g (bs ! i) = Some ap" "rest = drop (Suc i) aps"
    by (rule that [of "aps ! i" "drop (Suc i) aps"])
      (use i(1) list_all2_lengthD [OF bs(2)] list_all2_nthD [OF bs(2) i(1)] in \<open>simp_all add: Cons_nth_drop_Suc\<close>)
  obtain p where p: "reports p = told s @ [Result ap]" "wifi_scan_result g ap s = Some (upd_app (\<lambda>a. a\<lparr>pool := p\<rparr>) s)"
    using scan_result by blast
  let ?s = "upd_app (\<lambda>a. a\<lparr>w_scan_idx := of_nat (Suc i)\<rparr>) (upd_app (\<lambda>a. a\<lparr>pool := p\<rparr>) s)"
  have step: "on_scan_result g (bs ! i) s = (if Suc i < length bs then next_result g (of_nat (Suc i)) ?s else wifi_scan_done g 0 ?s)"
  proof -
    have "of_nat (Suc i) < n \<longleftrightarrow> Suc i < length bs" using i1 bs(1) by (simp add: word_less_nat_alt)
    moreover have "on_scan_result g (bs ! i) s =
        (if w_scan_idx (app_st s) + 1 < n then next_result g (w_scan_idx (app_st s) + 1)
           (upd_app (\<lambda>a. a\<lparr>w_scan_idx := w_scan_idx (app_st s) + 1\<rparr>) (upd_app (\<lambda>a. a\<lparr>pool := p\<rparr>) s))
         else wifi_scan_done g 0 (upd_app (\<lambda>a. a\<lparr>w_scan_idx := w_scan_idx (app_st s) + 1\<rparr>) (upd_app (\<lambda>a. a\<lparr>pool := p\<rparr>) s)))"
      by (simp add: on_scan_result_def upd_app_def Suc.prems(2,5) ap(2) p(2))
    moreover have "w_scan_idx (app_st s) + 1 = of_nat (Suc i)" by (simp add: Suc.prems(6))
    ultimately show ?thesis by metis
  qed
  have round: "scan_rounds g bs (Suc m) pos s = Option.bind (on_scan_result g (bs ! i) s) (scan_rounds g bs m (length (snd (bus_st s))))"
    using Suc.prems(7) i by simp
  have told_s: "told ?s = told s @ [Result ap]" "bus_st ?s = bus_st s" "stays_awake ?s"
    using p(1) Suc.prems(1) by simp_all
  show ?case
  proof (cases "m = 0")
    case True
    then have last: "\<not> Suc i < length bs" "Suc i = length bs" "length bs - i = 1" using Suc.prems(3) by simp_all
    obtain s' where s': "wifi_scan_done g 0 ?s = Some s'" "told s' = told ?s @ [ScanDone 0]" "wi_state (app_st s') \<noteq> SCANNING"
      "bus_st s' = bus_st ?s" by (rule done_cases)
    show ?thesis
      using True last step round s' told_s ap
      by (intro exI [of _ s'] exI [of _ "Suc i"] exI [of _ 0] exI [of _ "[]"] exI [of _ ?s]) (simp add: scan_ends_def)
  next
    case False
    then have lt: "Suc i < length bs" using Suc.prems(3) by simp
    from bus told_s(3) lt show ?thesis
    proof (cases rule: next_result_cases)
      case (granted s1 l d)
      have "asked (drop (length (snd (bus_st s))) (snd (bus_st s1))) = Some (of_nat (Suc i))"
        using granted(4) told_s(2) asked_writes [OF granted(5)] by simp
      then have "\<exists>s' k rc ds t. scan_rounds g bs m (length (snd (bus_st s))) s1 = Some s' \<and> Suc i < k \<and> k \<le> length bs \<and>
          length ds = k - Suc (Suc i) \<and>
          told s' = told s1 @ map Result (take (k - Suc i) (drop (Suc i) aps)) @ [ScanDone rc] \<and> wi_state (app_st s') \<noteq> SCANNING \<and>
          told t = told s1 @ map Result (take (k - Suc i) (drop (Suc i) aps)) \<and>
          wlog t = wlog s1 @ scan_writes ?t (Suc (Suc i)) ds \<and> scan_ends g (length bs) k t rc s'"
        using Suc.prems(2,3,5) False granted(2,3) by (intro Suc.IH) simp_all
      then obtain s' k rc ds t where IH: "scan_rounds g bs m (length (snd (bus_st s))) s1 = Some s'" "Suc i < k" "k \<le> length bs"
          "length ds = k - Suc (Suc i)" "told s' = told s1 @ map Result (take (k - Suc i) (drop (Suc i) aps)) @ [ScanDone rc]"
          "wi_state (app_st s') \<noteq> SCANNING" "told t = told s1 @ map Result (take (k - Suc i) (drop (Suc i) aps))"
          "wlog t = wlog s1 @ scan_writes ?t (Suc (Suc i)) ds" "scan_ends g (length bs) k t rc s'"
        by blast
      have "take (k - i) (drop i aps) = ap # take (k - Suc i) (drop (Suc i) aps)"
        using ap(1,3) IH(2) by (simp add: take_Cons' Suc_diff_Suc [symmetric])
      then show ?thesis
        using IH granted step lt round told_s
        by (intro exI [of _ s'] exI [of _ k] exI [of _ rc] exI [of _ "d # ds"] exI [of _ t]) simp
    next
      case (refused s1)
      then show ?thesis
        using step lt round told_s ap
        by (intro exI [of _ s1] exI [of _ "Suc i"] exI [of _ "-1"] exI [of _ "[]"] exI [of _ ?s]) (simp add: rounds_idle)
    qed
  qed
qed simp

lemma scan_completes:
  assumes bus: "answering bus" "ev_bus (wg_sock g) = logged bus" "length (ev_stack (wg_sock g)) = 4"
    and s: "stays_awake s" "wi_state (app_st s) = SCANNING"
    and n: "unat n = length bs" "bs \<noteq> []" and aps: "list_all2 (\<lambda>b ap. scan_ap g b = Some ap) bs aps"
  shows "\<exists>s' k rc ds t. scan_run g bs n d s = Some s' \<and> length ds = k \<and>
    told s' = told s @ map Result (take k aps) @ [ScanDone rc] \<and> wi_state (app_st s') \<noteq> SCANNING \<and>
    told t = told s @ map Result (take k aps) \<and> wlog t = wlog s @ scan_writes (wg_sock g) 0 ds \<and> scan_ends g (length bs) k t rc s'"
proof -
  let ?s = "upd_app (\<lambda>a. a\<lparr>w_scan_idx := 0\<rparr>) (upd_app (\<lambda>a. a\<lparr>w_scan_cnt := n\<rparr>) s)"
  have pos: "0 < length bs" using n(2) by simp
  then have "n > 0" using n(1) by (auto simp: word_greater_zero_iff)
  then have start: "on_scan_done g (n # d) s = next_result g (of_nat 0) ?s"
    by (simp add: on_scan_done_def s(2) mem_read_def)
  have aw: "stays_awake ?s" using s(1) by simp
  from bus aw pos show ?thesis
  proof (cases rule: next_result_cases)
    case (granted s1 l d1)
    have "asked (drop (length (snd (bus_st s))) (snd (bus_st s1))) = Some (of_nat 0)"
      using granted(4) asked_writes [OF granted(5)] by simp
    then have "\<exists>s' k rc ds t. scan_rounds g bs (length bs) (length (snd (bus_st s))) s1 = Some s' \<and> 0 < k \<and> k \<le> length bs \<and>
        length ds = k - Suc 0 \<and>
        told s' = told s1 @ map Result (take (k - 0) (drop 0 aps)) @ [ScanDone rc] \<and> wi_state (app_st s') \<noteq> SCANNING \<and>
        told t = told s1 @ map Result (take (k - 0) (drop 0 aps)) \<and>
        wlog t = wlog s1 @ scan_writes (wg_sock g) (Suc 0) ds \<and> scan_ends g (length bs) k t rc s'"
      using s(2) pos granted(2,3) n(1) by (intro rounds_results [OF bus _ aps]) simp_all
    then obtain s' k rc ds t where R: "scan_rounds g bs (length bs) (length (snd (bus_st s))) s1 = Some s'" "0 < k" "k \<le> length bs"
        "length ds = k - Suc 0" "told s' = told s1 @ map Result (take k aps) @ [ScanDone rc]" "wi_state (app_st s') \<noteq> SCANNING"
        "told t = told s1 @ map Result (take k aps)" "wlog t = wlog s1 @ scan_writes (wg_sock g) (Suc 0) ds"
        "scan_ends g (length bs) k t rc s'"
      by auto
    with granted start show ?thesis
      by (intro exI [of _ s'] exI [of _ k] exI [of _ rc] exI [of _ "d1 # ds"] exI [of _ t]) (simp add: scan_run_def)
  next
    case (refused s1)
    with start show ?thesis
      by (intro exI [of _ s1] exI [of _ 0] exI [of _ "-1"] exI [of _ "[]"] exI [of _ ?s]) (simp add: scan_run_def rounds_idle)
  qed
qed

end

subsection \<open>A scan and its reports\<close>

text \<open>A manager that keeps what it is told.\<close>

definition recorder :: "('w, report list) wmgr \<Rightarrow> ('w, report list) wmgr" where
  "recorder g = g\<lparr>wifi_scan_done := \<lambda>rc s. Some (upd_app (\<lambda>a. a\<lparr>pool := pool a @ [ScanDone rc], wi_state := WIFI_OTHER 0\<rparr>) s),
     wifi_scan_result := \<lambda>ap s. Some (upd_app (\<lambda>a. a\<lparr>pool := pool a @ [Result ap]\<rparr>) s)\<rparr>"

lemma recorder_simps [simp]: "wg_env (recorder g) = wg_env g" "scan_ap (recorder g) = scan_ap g"
  by (simp_all add: recorder_def scan_ap_def fun_eq_iff)

interpretation recorder: wifi_manager "recorder g" "\<lambda>p. p" for g :: "('w \<times> access list, report list) wmgr"
proof unfold_locales
  fix s :: "('w \<times> access list, report list) wk" and rc ap
  show "\<exists>p st. st \<noteq> SCANNING \<and> p = pool (app_st s) @ [ScanDone rc] \<and>
      wifi_scan_done (recorder g) rc s = Some (upd_app (\<lambda>a. a\<lparr>pool := p, wi_state := st\<rparr>) s)"
    by (rule exI, rule exI [of _ "WIFI_OTHER 0"]) (simp add: recorder_def upd_app_def)
  show "\<exists>p. p = pool (app_st s) @ [Result ap] \<and>
      wifi_scan_result (recorder g) ap s = Some (upd_app (\<lambda>a. a\<lparr>pool := p\<rparr>) s)"
    by (simp add: recorder_def upd_app_def)
qed

text \<open>
  C10: A scan that has found at least one network, with a chip that answers each request for a result with
  the network of the index it finds in the bytes of the request. The driver asks for the results
  0, 1, 2, ... in this order and each once, and the manager gets the networks of the chip in order and
  then one end of the scan. The scan ends with 0 after all of them, and no request is left over; it ends
  with -1 at no other place than the first request that the transport refuses, with the networks before it
  reported. (A scan that found none is never reported as done: \<open>winc_empty_scan_hangs\<close>.)
\<close>

theorem winc_scan_completes:
  fixes s :: "('w \<times> access list, report list) wk"
  assumes "answering bus" "ev_bus (wg_sock g) = logged bus" "length (ev_stack (wg_sock g)) = 4"
    and "stays_awake s" "wi_state (app_st s) = SCANNING"
    and "unat n = length bs" "bs \<noteq> []" "list_all2 (\<lambda>b ap. scan_ap g b = Some ap) bs aps"
  shows "\<exists>s' k rc ds (t :: ('w \<times> access list, report list) wk). scan_run (recorder g) bs n d s = Some s' \<and> length ds = k \<and>
    pool (app_st s') = pool (app_st s) @ map Result (take k aps) @ [ScanDone rc] \<and> wi_state (app_st s') \<noteq> SCANNING \<and>
    pool (app_st t) = pool (app_st s) @ map Result (take k aps) \<and>
    filter is_write (snd (bus_st t)) = filter is_write (snd (bus_st s)) @ scan_writes (wg_sock g) 0 ds \<and>
    (k = length bs \<and> rc = 0 \<and> bus_st s' = bus_st t
     \<or> k < length bs \<and> rc = -1 \<and> stays_awake t \<and> (\<exists>e t'. m2m_wifi_req_scan_result (wg_sock g) (of_nat k) t = Some (e, t') \<and> e \<noteq> 0
          \<and> bus_st s' = bus_st t'))"
  using recorder.scan_completes [of bus g s n bs aps d] assms by (simp add: scan_ends_def)

text \<open>A scan that finds no network is never reported as done: the driver stays in the state \<open>SCANNING\<close>.\<close>

theorem winc_empty_scan_hangs:
  assumes "wi_state (app_st s) = SCANNING"
  shows "winc1500_callback g M2M_WIFI_RESP_SCAN_DONE (Some (0 # d)) s = Some (upd_app (\<lambda>a. a\<lparr>w_scan_cnt := 0\<rparr>) s)"
  using assms by (simp add: on_scan_done_def mem_read_def)

subsection \<open>Concrete surroundings\<close>

definition mgr0 :: "'w env \<Rightarrow> ('w, report list) wmgr" where
  "mgr0 e = recorder \<lparr>wg_env = \<lparr>wv_sock = e, mn_errno = \<lambda>_. 1, mn_sockaddr_size = 8, MN_AF_INET = 4, MN_PF_INET = 4,
       MN_SOCK_DGRAM = 1, MN_SOCK_STREAM = 2, MN_SO_LEVEL = 0xfe, MN_MCAST_JOIN_GROUP = 1, MN_MCAST_LEAVE_GROUP = 2,
       MN_MCAST_IF = 3, msys_get = \<lambda>_ _ p. (None, p), mbuf_release = \<lambda>_ p. p, trailing_space = \<lambda>_. 0,
       sem_pend = \<lambda>_ s. Some (True, s), notify_app = \<lambda>_. Some\<rparr>,
     wg_ctl = \<lparr>c_init = \<lambda>w. Some (0, w), c_deinit = \<lambda>w. Some (0, w), c_spi_init = \<lambda>w. Some (0, w), c_spi_deinit = \<lambda>w. Some (0, w)\<rparr>,
     wifi_if_register = \<lambda>s. (0, s), wifi_scan_done = \<lambda>_. Some, wifi_scan_result = \<lambda>_. Some, wifi_connect_done = \<lambda>_. Some,
     wifi_disconnected = \<lambda>_. Some, wifi_dhcp_done = \<lambda>_. Some, wa_ssid_size = 33, wa_bssid_size = 6,
     wg_pin_init = \<lambda>_ s. (0, s), wg_has_enable = True, wg_has_wake = True, m2m_hif_cb_ptr = 1, m2m_wifi_cb_ptr = 2,
     m2m_ip_cb_ptr = 3, winc1500_callback_ptr = 4, winc1500_sock_cb_ptr = 5, winc1500_resolve_cb_ptr = 6,
     wg_strtmp = replicate 32 0\<rparr>"

definition scanning0 :: "report list winc" where
  "scanning0 = \<lparr>winc1500_socks = replicate MAX_SOCKET winc_sock0, polling = False, rx_buf = 0, cur_buf = 0,
     tx_buf = replicate WINC1500_SOCK_RX_SIZE 0, wi_mtx = 0, w_up = False, w_plen = 0, w_addr = 0, w_scan_cnt = 0, w_scan_idx = 0,
     w_timer = False, wi_state = SCANNING, wi_ssid = [], wi_key = [], mbufs = Map.empty, pool = []\<rparr>"

lemma sk0_awake: "stays_awake (sk0 w a)"
  by (simp add: stays_awake_def sk0_def deep_sleep_mode_def M2M_PS_DEEP_AUTOMATIC_def M2M_PS_MANUAL_def)

theorem winc_scan_completes_witness:
  "\<exists>s' ds. scan_run (mgr0 (env0 (logged (table_bus (\<lambda>_. 0x30000) [])))) [replicate 44 1, replicate 44 2] 2 [0, 0, 0]
       (sk0 (0, []) scanning0) = Some s' \<and>
     pool (app_st s') = [Result \<lparr>wa_ssid = replicate 33 1, wa_bssid = replicate 6 1, wa_rssi = 1, wa_key_type = 1, wa_channel = 1\<rparr>,
       Result \<lparr>wa_ssid = replicate 33 2, wa_bssid = replicate 6 2, wa_rssi = 2, wa_key_type = 2, wa_channel = 2\<rparr>, ScanDone 0] \<and>
     length ds = 2 \<and>
     filter is_write (snd (bus_st s')) = scan_writes (env0 (logged (table_bus (\<lambda>_. 0x30000) []))) 0 ds"
proof -
  let ?e = "env0 (logged (table_bus (\<lambda>_. 0x30000) []))" and ?s = "sk0 (0 :: nat, [] :: access list) scanning0"
  let ?bs = "[replicate 44 1, replicate 44 2] :: u8 list list"
  let ?aps = "[\<lparr>wa_ssid = replicate 33 1, wa_bssid = replicate 6 1, wa_rssi = 1, wa_key_type = 1, wa_channel = 1\<rparr>,
       \<lparr>wa_ssid = replicate 33 2, wa_bssid = replicate 6 2, wa_rssi = 2, wa_key_type = 2, wa_channel = 2\<rparr>]"
  let ?g = "mgr0 ?e"
  have g: "recorder ?g = ?g" "wg_sock ?g = ?e" by (simp_all add: mgr0_def recorder_def)
  have ev: "ev_bus (wg_sock ?g) = logged (table_bus (\<lambda>_. 0x30000) [])" "length (ev_stack (wg_sock ?g)) = 4"
    by (simp_all only: g) (simp_all add: env0_def)
  have s: "wi_state (app_st ?s) = SCANNING" "pool (app_st ?s) = []" "bus_st ?s = (0, [])" by (simp_all add: sk0_def scanning0_def)
  have n: "unat (2 :: u8) = length ?bs" "?bs \<noteq> []" by simp_all
  have aps: "list_all2 (\<lambda>b ap. scan_ap ?g b = Some ap) ?bs ?aps"
    by (simp add: scan_ap_def mgr0_def recorder_def)
  have ok: "e = 0" if "m2m_wifi_req_scan_result (wg_sock ?g) i t = Some (e, t')" "stays_awake t"
    for i e t and t' :: "(nat \<times> access list, report list) wk"
    using that(1) hif_send_table [OF that(2), of "\<lambda>_. 0x30000" "[]", simplified]
    unfolding m2m_wifi_req_scan_result_def wifi_req_def M2M_SUCCESS_def ev(1) by (metis option.inject prod.inject)
  from winc_scan_completes [OF answering_table ev sk0_awake s(1) n aps, of "[0, 0, 0]"]
  obtain s' k rc ds and t :: "(nat \<times> access list, report list) wk" where r: "scan_run (recorder ?g) ?bs 2 [0, 0, 0] ?s = Some s'" "length ds = k"
      "pool (app_st s') = pool (app_st ?s) @ map Result (take k ?aps) @ [ScanDone rc]"
      "filter is_write (snd (bus_st t)) = filter is_write (snd (bus_st ?s)) @ scan_writes (wg_sock ?g) 0 ds"
      "k = length ?bs \<and> rc = 0 \<and> bus_st s' = bus_st t \<or> k < length ?bs \<and> rc = -1 \<and> stays_awake t \<and>
        (\<exists>e t'. m2m_wifi_req_scan_result (wg_sock ?g) (of_nat k) t = Some (e, t') \<and> e \<noteq> 0 \<and> bus_st s' = bus_st t')"
    by (elim exE conjE) (rule that)
  have "k = 2 \<and> rc = 0 \<and> bus_st s' = bus_st t" using r(5) ok by auto
  then show ?thesis
    using r(1-4) by (intro exI [of _ s'] exI [of _ ds]) (simp add: g s numeral_2_eq_2)
qed

theorem winc_empty_scan_hangs_witness:
  "\<exists>s. winc1500_callback (mgr0 (env0 (table_bus (\<lambda>_. 0) []))) M2M_WIFI_RESP_SCAN_DONE (Some [0, 0, 0, 0]) (sk0 0 scanning0) = Some s \<and>
     wi_state (app_st s) = SCANNING \<and> pool (app_st s) = []"
  using winc_empty_scan_hangs [of "sk0 0 scanning0" "mgr0 (env0 (table_bus (\<lambda>_. 0) []))" "[0, 0, 0]"]
  by (simp add: sk0_def scanning0_def)

subsection \<open>The network mask\<close>

text \<open>The mask of \<open>n\<close> leading ones, as a number of the host.\<close>

definition netmask :: "nat \<Rightarrow> u32" where
  "netmask n = NOT (mask (32 - n))"

lemma le32_of_rev: "le32 (of_le32 (rev (le32 w))) = rev (le32 w)"
proof -
  obtain a b c d where "rev (le32 w) = [a, b, c, d]" by (simp add: le32_def)
  then show ?thesis by (simp add: of_le32_def le32_def) (auto intro!: bit_word_eqI simp: bit_simps)
qed

lemma ntohl_ntohl: "ntohl (ntohl w) = w"
  by (simp add: ntohl_def le32_of_rev)

lemma ntohl_0: "ntohl 0 = 0"
  by (simp add: ntohl_def le32_def of_le32_def)

lemma ffs_netmask:
  assumes "0 < n" "n \<le> 32"
  shows "ffs (netmask n) = 33 - n"
proof -
  have b: "bit (netmask n) i \<longleftrightarrow> 32 - n \<le> i" if "i < 32" for i
    using that by (simp add: netmask_def bit_simps not_less)
  have "List.find (bit (netmask n)) [0..<32] = Some (32 - n)"
    unfolding List.find_Some_iff using assms by (intro exI [of _ "32 - n"]) (auto simp: b)
  then show ?thesis using assms by (simp add: ffs_def Suc_diff_le)
qed

lemma prefix_len_netmask:
  assumes "n \<le> 32"
  shows "prefix_len (ntohl (netmask n)) = of_nat n"
proof (cases "n = 0")
  case True
  then show ?thesis by (simp add: prefix_len_def netmask_def ntohl_def le32_def of_le32_def mask_eq_decr_exp)
next
  case False
  have ne: "netmask n \<noteq> 0"
  proof
    assume "netmask n = 0"
    moreover have "List.find (bit (0 :: u32)) xs = None" for xs by (simp add: find_None_iff)
    ultimately have "ffs (netmask n) = 0" by (simp only: ffs_def option.case)
    with ffs_netmask [of n] False assms show False by simp
  qed
  then have "ntohl (netmask n) \<noteq> 0" using ntohl_ntohl [of "netmask n"] ntohl_0 by metis
  moreover have "33 - of_nat (33 - n) = (of_nat n :: u8)" using assms by (simp add: of_nat_diff)
  moreover have "(of_nat n :: u8) AND 0x3f = of_nat n"
  proof -
    have "unat (take_bit 6 (of_nat n :: u8)) = unat (of_nat n :: u8)"
      using assms by (simp only: unsigned_take_bit_eq) (simp add: unat_of_nat take_bit_nat_eq_self)
    then have "take_bit 6 (of_nat n :: u8) = of_nat n" by (simp only: word_unat_eq_iff)
    then show ?thesis by (simp add: take_bit_eq_mask mask_eq_decr_exp)
  qed
  ultimately show ?thesis using ffs_netmask [of n] False assms by (simp add: prefix_len_def ntohl_ntohl)
qed

text \<open>A lease of the DHCP client brings the interface up: the address is kept, the mask of \<open>n\<close> leading ones
  (which arrives in network order) gives the prefix length \<open>n\<close>, for all \<open>n\<close> up to 32, and the manager is told.\<close>

theorem winc_dhcp_prefix:
  assumes "n \<le> 32"
  shows "winc1500_callback g M2M_WIFI_REQ_DHCP_CONF (Some (le32 ip @ le32 gw @ le32 dns @ rev (le32 (netmask n)))) s =
    wifi_dhcp_done g (le32 ip) (upd_app (\<lambda>a. a\<lparr>w_up := True, w_addr := ip, w_plen := of_nat n\<rparr>) s)"
proof -
  have m: "rev (le32 (netmask n)) = le32 (ntohl (netmask n))"
    by (simp add: ntohl_def le32_of_rev)
  have "of_le32 (le32 w @ x) = w" for w x
    using of_le32_le32 [of w] by (simp add: of_le32_def le32_def)
  moreover have "of_le32 (le32 w) = w" for w by simp
  ultimately have "ip_config_of (le32 ip @ le32 gw @ le32 dns @ le32 w) =
      \<lparr>u32StaticIP = ip, u32Gateway = gw, u32DNS = dns, u32SubnetMask = w\<rparr>" for w
    by (simp add: ip_config_of_def)
  then show ?thesis
    by (simp add: winc1500_callback_def wifi_resp_defs on_dhcp_def m prefix_len_netmask assms)
qed

theorem winc_dhcp_prefix_witness:
  "\<exists>s. winc1500_callback (mgr0 (env0 (table_bus (\<lambda>_. 0) []))) M2M_WIFI_REQ_DHCP_CONF
       (Some (le32 0x0a00a8c0 @ le32 0x0100a8c0 @ le32 0 @ [0xff, 0xff, 0xff, 0])) (sk0 0 scanning0) = Some s \<and>
     w_up (app_st s) \<and> w_plen (app_st s) = 24"
proof -
  have "rev (le32 (netmask 24)) = [0xff, 0xff, 0xff, 0]"
    by (simp add: netmask_def le32_def mask_eq_decr_exp)
  with winc_dhcp_prefix [of 24 "mgr0 (env0 (table_bus (\<lambda>_. 0) []))" "0x0a00a8c0" "0x0100a8c0" 0 "sk0 0 scanning0"]
  show ?thesis by (simp add: mgr0_def recorder_def)
qed

end
