(* ===== verification/Chip_Props.thy ===== *)
theory Chip_Props
  imports Winc_Tx Nmdrv
begin

text \<open>
  Properties of the control of the chip (\<open>nmasic.c\<close>), of its bring-up (\<open>nmdrv.c\<close>) and of the set-up of the bus.
\<close>

subsection \<open>Waiting for the chip\<close>

lemma bootrom_loop_True: "bootrom_loop bus junk reg cnt h = Some (b, h') \<Longrightarrow> b"
proof -
  assume loop: "bootrom_loop bus junk reg cnt h = Some (b, h')"
  have "fst (b, h')"
  proof (rule bootrom_loop.raw_induct [OF _ loop], goal_cases)
    case (1 loop bus junk reg cnt h y)
    have "TIMEOUT = - 1" by (simp add: TIMEOUT_def)
    then have never: "\<not> cnt + 1 > TIMEOUT"
      using word_order.extremum [of "cnt + 1"] by (simp only: linorder_not_less)
    from 1(2) show ?case
      by (cases "fetch_reg bus junk BOOTROM_REG h") (auto simp: never split: if_splits dest: 1(1))
  qed
  then show ?thesis by simp
qed

text \<open>Waiting for the boot ROM has no time-out: the counter is compared with the largest number of its type,
  so \<open>wait_for_bootrom\<close> succeeds whenever it returns.\<close>

theorem bootrom_never_times_out:
  assumes "wait_for_bootrom bus junk arg h = Some (ret, h')"
  shows "ret = M2M_SUCCESS"
proof -
  have booted: "(if c then bootrom_loop bus junk 0 0 h1 else Some (True, h1)) = Some (b, h2) \<Longrightarrow> b" for c h1 b h2
    by (auto split: if_splits dest: bootrom_loop_True)
  from assms show ?thesis
    unfolding wait_for_bootrom_def by (auto elim!: bind_SomeE split: if_splits dest: booted)
qed

theorem bootrom_never_times_out_witness:
  "(\<exists>h'. wait_for_bootrom (table_bus (\<lambda>_. 0x80000001) []) 0 1 (hif0 0) = Some (M2M_SUCCESS, h')) \<and>
     M2M_SUCCESS \<noteq> M2M_ERR_INIT"
proof -
  obtain ret h' where r: "wait_for_bootrom (table_bus (\<lambda>_. 0x80000001) []) 0 1 (hif0 (0 :: nat)) = Some (ret, h')"
    by (simp add: wait_for_bootrom_def efuse_loop.simps fetch_reg_def get_reg_def put_reg_def rd_reg_def wr_reg_def
        table_bus_def keep_def nmi_get_chipid_def hif0_def chip_apply_conf_def apply_conf_loop.simps REV_def REV_3A0_def
        M2M_WIFI_MODE_ATE_HIGH_def M2M_WIFI_MODE_ATE_LOW_def M2M_WIFI_MODE_ETHERNET_def)
  with bootrom_never_times_out [OF r] show ?thesis
    by (simp add: M2M_ERR_INIT_def M2M_SUCCESS_def)
qed

subsection \<open>Stopping the chip\<close>

text \<open>One access to a table of registers: the access is logged and the clock of the table advances.\<close>

definition tick :: "access \<Rightarrow> (nat \<times> access list, 'z) hif_scheme \<Rightarrow> (nat \<times> access list, 'z) hif_scheme" where
  "tick a h = h\<lparr>bus_st := (Suc (fst (bus_st h)), snd (bus_st h) @ [a])\<rparr>"

lemma get_table: "get_reg (logged (table_bus regs mem)) old a h = Some (M2M_SUCCESS, regs a, tick (RReg a (Some (regs a))) h)"
  by (cases "bus_st h") (simp add: get_reg_def rd_reg_def logged_def table_bus_def keep_def tick_def)

lemma wr_table: "wr_reg (logged (table_bus regs mem)) a v h = Some (M2M_SUCCESS, tick (WReg a v) h)"
  by (cases "bus_st h") (simp add: wr_reg_def logged_def table_bus_def tick_def)

lemma tick_log [simp]: "snd (bus_st (tick a h)) = snd (bus_st h) @ [a]"
  by (simp add: tick_def)

definition clears :: "u32 \<Rightarrow> u32" where
  "clears reg = reg AND NOT (push_bit 10 1)"

definition writes_of :: "('w \<times> access list, 'z) hif_scheme \<Rightarrow> access list" where
  "writes_of h = filter is_write (snd (bus_st h))"

lemma writes_tick [simp]: "writes_of (tick (WReg a v) h) = writes_of h @ [WReg a v]" "writes_of (tick (RReg a x) h) = writes_of h"
  by (simp_all add: writes_of_def)

lemma deinit_loop_stuck:
  assumes stuck: "bit (regs NMI_GLB_RESET_0) 10"
  shows "\<exists>h'. deinit_loop (logged (table_bus regs mem)) reg M2M_SUCCESS n h = Some (M2M_SUCCESS, h') \<and>
    writes_of h' = writes_of h @ replicate n (WReg NMI_GLB_RESET_0 (clears (regs NMI_GLB_RESET_0)))"
proof (induction n arbitrary: reg h)
  case (Suc n)
  let ?r = "regs NMI_GLB_RESET_0"
  have b: "?r AND push_bit 10 1 \<noteq> 0"
    using stuck by (metis and_exp_eq_0_iff_not_bit push_bit_of_1)
  have "deinit_loop (logged (table_bus regs mem)) reg M2M_SUCCESS (Suc n) h =
    deinit_loop (logged (table_bus regs mem)) (clears ?r) M2M_SUCCESS n
      (tick (WReg NMI_GLB_RESET_0 (clears ?r)) (tick (RReg NMI_GLB_RESET_0 (Some ?r)) h))"
    by (simp only: deinit_loop.simps get_table wr_table bind.bind_lunit prod.case Let_def clears_def b if_True if_False simp_thms)
  with Suc [of "clears ?r" "tick (WReg NMI_GLB_RESET_0 (clears ?r)) (tick (RReg NMI_GLB_RESET_0 (Some ?r)) h)"]
  show ?case by simp
qed simp

text \<open>\<open>chip_deinit\<close> gives up after ten repetitions: on a chip whose reset bit stays set it writes the cleared
  value eleven times and still reports success.\<close>

theorem chip_deinit_stuck:
  assumes "bit (regs NMI_GLB_RESET_0) 10"
  shows "\<exists>h'. chip_deinit (logged (table_bus regs mem)) h = Some (M2M_SUCCESS, h') \<and>
    writes_of h' = writes_of h @ replicate 11 (WReg NMI_GLB_RESET_0 (clears (regs NMI_GLB_RESET_0)))"
proof -
  let ?r = "regs NMI_GLB_RESET_0"
  have "chip_deinit (logged (table_bus regs mem)) h =
    deinit_loop (logged (table_bus regs mem)) (clears ?r) M2M_SUCCESS 10
      (tick (WReg NMI_GLB_RESET_0 (clears ?r)) (tick (RReg NMI_GLB_RESET_0 (Some ?r)) h))"
    by (simp only: chip_deinit_def get_table wr_table bind.bind_lunit prod.case Let_def clears_def if_True if_False simp_thms)
  with deinit_loop_stuck [where regs = regs and mem = mem and n = 10, OF assms]
  show ?thesis by (fastforce simp: numeral_eq_Suc)
qed

theorem chip_deinit_stuck_witness:
  "\<exists>h'. chip_deinit (logged (table_bus (\<lambda>_. 0x400) [])) (hif0 (0, [])) = Some (M2M_SUCCESS, h') \<and>
     writes_of h' = replicate 11 (WReg NMI_GLB_RESET_0 0)"
  using chip_deinit_stuck [of "\<lambda>_. 0x400" "[]" "hif0 (0, [])"]
  by (simp add: hif0_def clears_def writes_of_def bit_simps)

subsection \<open>Versions\<close>

definition version_le :: "u8 \<times> u8 \<times> u8 \<Rightarrow> u8 \<times> u8 \<times> u8 \<Rightarrow> bool" where
  "version_le v w = (case v of (a, b, c) \<Rightarrow> case w of (a', b', c') \<Rightarrow>
     a < a' \<or> (a = a' \<and> (b < b' \<or> (b = b' \<and> c \<le> c'))))"

definition nibble :: "u8 \<Rightarrow> bool" where
  "nibble x \<longleftrightarrow> x < 16"

lemma unat_make_version:
  assumes "nibble mi" "nibble pa"
  shows "unat (M2M_MAKE_VERSION ma mi pa) = 256 * unat ma + 16 * unat mi + unat pa"
proof -
  have lt: "unat mi < 16" "unat pa < 16" using assms unfolding nibble_def word_less_nat_alt by simp_all
  have b8: "unat ma < 256" using unsigned_less [of ma, where 'a = nat] by simp
  have tb: "take_bit 4 mi = mi" "take_bit 4 pa = pa"
    using lt by (simp_all add: word_unat_eq_iff unsigned_take_bit_eq take_bit_nat_eq_self)
  then have id: "mi AND 15 = mi" "pa AND 15 = pa"
    by (simp_all add: take_bit_eq_mask mask_eq_decr_exp)
  have "M2M_MAKE_VERSION ma mi pa = push_bit 8 (ucast ma) + push_bit 4 (ucast mi) + ucast pa"
  proof -
    have hi: "\<not> bit mi n" "\<not> bit pa n" if "4 \<le> n" for n
      using tb that by (metis bit_take_bit_iff linorder_not_le)+
    have "push_bit 8 (ucast ma :: u16) OR push_bit 4 (ucast mi) = push_bit 8 (ucast ma) + push_bit 4 (ucast mi)"
      by (rule disjunctive_add_eq_or [symmetric], rule bit_word_eqI, auto simp: bit_simps hi)
    moreover have "(push_bit 8 (ucast ma :: u16) OR push_bit 4 (ucast mi)) OR ucast pa
        = (push_bit 8 (ucast ma) OR push_bit 4 (ucast mi)) + ucast pa"
      by (rule disjunctive_add_eq_or [symmetric], rule bit_word_eqI, auto simp: bit_simps hi)
    ultimately show ?thesis by (simp add: M2M_MAKE_VERSION_def id or.assoc [symmetric] del: or.assoc)
  qed
  moreover have "unat (ucast x :: u16) = unat x" for x :: u8
    using unsigned_less [of x, where 'a = nat] by (simp add: unsigned_ucast_eq take_bit_nat_eq_self)
  ultimately show ?thesis
    using lt b8 by (simp add: unat_word_ariths push_bit_eq_mult)
qed

text \<open>The sixteen-bit encoding of versions is compared like the versions.\<close>

lemma make_version_le:
  assumes "nibble b" "nibble c" "nibble b'" "nibble c'"
  shows "M2M_MAKE_VERSION a b c \<le> M2M_MAKE_VERSION a' b' c' \<longleftrightarrow> version_le (a, b, c) (a', b', c')"
proof -
  have "unat b < 16" "unat c < 16" "unat b' < 16" "unat c' < 16"
    using assms unfolding nibble_def word_less_nat_alt by simp_all
  then show ?thesis
    using assms by (auto simp: word_le_nat_alt unat_make_version version_le_def word_less_nat_alt word_unat_eq_iff)
qed

lemma nibble_and [simp]: "nibble (x AND 0xf)"
proof -
  have "x AND 0xf = take_bit 4 x" by (simp add: take_bit_eq_mask mask_eq_decr_exp)
  moreover have "unat (take_bit 4 x) < 16"
    using take_bit_nat_less_exp [of 4 "unat x"] by (simp only: unsigned_take_bit_eq) simp
  ultimately show ?thesis unfolding nibble_def word_less_nat_alt by simp
qed

lemma nibbles [simp]: "nibble (M2M_GET_MINOR v)" "nibble (M2M_GET_PATCH v)" "nibble 0" "nibble 3"
  by (simp_all add: M2M_GET_MINOR_def M2M_GET_PATCH_def) (simp_all add: nibble_def)

text \<open>The versions that the firmware reports: its own, and the oldest driver it works with.\<close>

definition fw_version :: "u32 \<Rightarrow> u8 \<times> u8 \<times> u8" where
  "fw_version reg = (let v = M2M_GET_FW_VER reg in (M2M_GET_MAJOR v, M2M_GET_MINOR v, M2M_GET_PATCH v))"

definition drv_version :: "u32 \<Rightarrow> u8 \<times> u8 \<times> u8" where
  "drv_version reg = (let v = M2M_GET_DRV_VER reg in (M2M_GET_MAJOR v, M2M_GET_MINOR v, M2M_GET_PATCH v))"

lemma check_versions_rev_bytes:
  "check_versions (rev_bytes c reg rv) ret =
     (if version_le (drv_version reg) (19, 3, 0) \<and> version_le (19, 3, 0) (fw_version reg) then ret else M2M_ERR_FW_VER_MISMATCH)"
proof -
  have at: "version_at (rev_bytes c reg rv) 4 = (case fw_version reg of (a, b, d) \<Rightarrow> M2M_MAKE_VERSION a b d)"
    "version_at (rev_bytes c reg rv) 7 = (case drv_version reg of (a, b, d) \<Rightarrow> M2M_MAKE_VERSION a b d)"
    by (simp_all add: version_at_def rev_bytes_def le32_def fw_version_def drv_version_def Let_def)
  show ?thesis
    unfolding check_versions_def at Let_def linorder_not_le [symmetric] curr_drv_ver_def
    by (auto simp: fw_version_def drv_version_def Let_def make_version_le)
qed

text \<open>C11: The check of the versions when the chip is started: \<open>nm_get_firmware_info\<close> succeeds exactly when the oldest
  driver the firmware works with is at most 19.3.0 and the firmware is at least 19.3.0, in the order of
  major, minor and patch number.\<close>

theorem firmware_version_check:
  assumes "get_reg bus 0 NMI_REV_REG h = Some (M2M_SUCCESS, reg, h1)" "reg \<noteq> M2M_ATE_FW_IS_UP_VALUE"
    and "nmi_get_chipid bus junk h1 = Some (c, h2)"
  shows "nm_get_firmware_info bus junk rv h =
    Some (if version_le (drv_version reg) (19, 3, 0) \<and> version_le (19, 3, 0) (fw_version reg)
          then M2M_SUCCESS else M2M_ERR_FW_VER_MISMATCH, rev_bytes c reg rv, h2)"
  using assms by (simp add: nm_get_firmware_info_def check_versions_rev_bytes)

theorem firmware_version_check_witness:
  "(\<exists>rv h2. nm_get_firmware_info (table_bus (\<lambda>_. 0x13301341) []) 0 (replicate 32 0) (hif0 0) = Some (M2M_SUCCESS, rv, h2)) \<and>
   version_le (drv_version 0x13301341) (19, 3, 0) \<and> version_le (19, 3, 0) (fw_version 0x13301341)"
proof -
  let ?bus = "table_bus (\<lambda>_. 0x13301341) []" and ?h = "hif0 (0 :: nat)"
  have 1: "get_reg ?bus 0 NMI_REV_REG ?h = Some (M2M_SUCCESS, 0x13301341, ?h\<lparr>bus_st := 1\<rparr>)"
    by (simp add: get_reg_def rd_reg_def table_bus_def hif0_def keep_def)
  obtain c h2 where 2: "nmi_get_chipid ?bus 0 (?h\<lparr>bus_st := 1\<rparr>) = Some (c, h2)"
    by (simp add: nmi_get_chipid_def get_reg_def rd_reg_def table_bus_def hif0_def keep_def)
  have v: "version_le (drv_version 0x13301341) (19, 3, 0)" "version_le (19, 3, 0) (fw_version 0x13301341)" by code_simp+
  have "(0x13301341 :: u32) \<noteq> M2M_ATE_FW_IS_UP_VALUE" by (simp add: M2M_ATE_FW_IS_UP_VALUE_def)
  from firmware_version_check [OF 1 this 2, of "replicate 32 0"] v show ?thesis by auto
qed

text \<open>A bus on which no read succeeds: the error of the bus is reported as a wrong version.\<close>

theorem version_check_hides_bus_error:
  assumes "\<And>a w. b_rreg bus a w = Some (M2M_ERR_BUS_FAIL, None, w)"
  shows "\<exists>rv'. nm_get_firmware_info bus junk rv h = Some (M2M_ERR_FW_VER_MISMATCH, rv', h\<lparr>nmi_chipid := nmi_chipid h\<rparr>)"
proof -
  have rd: "get_reg bus old a h = Some (M2M_ERR_BUS_FAIL, old, h)" for old a and h :: "('a, 'b) hif_scheme"
    by (simp add: get_reg_def rd_reg_def assms keep_def)
  have ne: "M2M_ERR_BUS_FAIL \<noteq> M2M_SUCCESS" by (simp add: M2M_ERR_BUS_FAIL_def M2M_SUCCESS_def)
  have "nmi_get_chipid bus junk h = Some (nmi_chipid h, h)"
    by (cases "nmi_chipid h = 0") (simp_all add: nmi_get_chipid_def rd ne)
  moreover have "\<not> version_le (19, 3, 0) (fw_version 0)" by code_simp
  moreover have "(0 :: u32) \<noteq> M2M_ATE_FW_IS_UP_VALUE" by (simp add: M2M_ATE_FW_IS_UP_VALUE_def)
  ultimately show ?thesis by (simp add: nm_get_firmware_info_def rd check_versions_rev_bytes)
qed

subsection \<open>The chip's number\<close>

text \<open>The number of the chip is read once: a number other than 0 is remembered, and later calls return it
  whatever the bus does.\<close>

theorem chip_id_cached:
  assumes "nmi_get_chipid bus junk h = Some (c, h')" "c \<noteq> 0"
  shows "nmi_get_chipid bus' junk' h' = Some (c, h')"
proof -
  have "nmi_chipid h' = c"
    using assms unfolding nmi_get_chipid_def Let_def
    by (auto elim!: bind_SomeE split: if_splits)
  with assms(2) show ?thesis by (simp add: nmi_get_chipid_def)
qed

theorem chip_id_cached_witness:
  "\<exists>h'. nmi_get_chipid (table_bus (\<lambda>a. if a = 0x13f4 then 4 else 0x1002b0) []) 0 (hif0 0) = Some (0x1502b1, h') \<and>
     nmi_get_chipid (table_bus (\<lambda>_. 0) []) 9 h' = Some (0x1502b1, h')"
proof -
  let ?bus = "table_bus (\<lambda>a. if a = 0x13f4 then 4 else 0x1002b0) []"
  obtain h' where 1: "nmi_get_chipid ?bus 0 (hif0 (0 :: nat)) = Some (0x1502b1, h')"
    by (simp add: nmi_get_chipid_def get_reg_def rd_reg_def table_bus_def hif0_def keep_def Let_def)
  from chip_id_cached [OF 1, of "table_bus (\<lambda>_. 0) []" 9] 1 show ?thesis by auto
qed

subsection \<open>The set-up of the bus\<close>

text \<open>A failure to enable the SPI port is forgotten: the flag is set before the port is enabled, so the next
  \<open>nm_bus_init\<close> succeeds after a mere reset of the chip, with the port still disabled.\<close>

theorem spi_enable_failure_forgotten:
  assumes fresh: "\<not> winc1500_spi_inited b"
    and "gpio_init_ssn p (port_st b) = (0, w1)" "hal_spi_config p w1 = (0, w2)" "hal_spi_enable p w2 = (rc, w3)" "rc \<noteq> 0"
  shows "\<exists>b'. nm_bus_init p b = (M2M_ERR_BUS_FAIL, b') \<and>
    nm_bus_init p b' = (M2M_SUCCESS, b'\<lparr>port_st := nm_bsp_reset p w3\<rparr>)"
  using assms by (simp add: nm_bus_init_def on_port_def bus_reset_def)

text \<open>A port that counts its operations and refuses to be enabled.\<close>

definition dead_port :: "nat winc_port" where
  "dead_port = \<lparr>gpio_init_ssn = \<lambda>w. (0, w + 1), hal_spi_config = \<lambda>w. (0, w + 1), hal_spi_enable = \<lambda>w. (5, w + 100),
     pin_write = \<lambda>_ _ w. w + 1, has_enable = True\<rparr>"

theorem spi_enable_failure_forgotten_witness:
  "nm_bus_init dead_port \<lparr>winc1500_spi_inited = False, port_st = 0\<rparr>
     = (M2M_ERR_BUS_FAIL, \<lparr>winc1500_spi_inited = True, port_st = 102\<rparr>) \<and>
   nm_bus_init dead_port \<lparr>winc1500_spi_inited = True, port_st = 102\<rparr>
     = (M2M_SUCCESS, \<lparr>winc1500_spi_inited = True, port_st = 106\<rparr>)"
proof -
  let ?b = "\<lparr>winc1500_spi_inited = False, port_st = 0 :: nat\<rparr>"
  have 1: "nm_bus_init dead_port ?b = (M2M_ERR_BUS_FAIL, \<lparr>winc1500_spi_inited = True, port_st = 102\<rparr>)"
    by (simp add: dead_port_def nm_bus_init_def on_port_def)
  have "\<exists>b'. nm_bus_init dead_port ?b = (M2M_ERR_BUS_FAIL, b') \<and>
      nm_bus_init dead_port b' = (M2M_SUCCESS, b'\<lparr>port_st := nm_bsp_reset dead_port 102\<rparr>)"
    by (rule spi_enable_failure_forgotten [of ?b dead_port 1 2 5]) (simp_all add: dead_port_def)
  with 1 show ?thesis by (auto simp: nm_bsp_reset_def dead_port_def)
qed

subsection \<open>GPIOs of the chip\<close>

text \<open>A chip whose registers keep what is written to them.\<close>

definition ram_bus :: "(u32 \<Rightarrow> u32) nm_bus" where
  "ram_bus = \<lparr>b_rreg = (\<lambda>a w. Some (M2M_SUCCESS, Some (w a), w)), b_wreg = (\<lambda>a v w. Some (M2M_SUCCESS, w(a := v))),
     b_rblk = (\<lambda>a buf n w. Some (M2M_ERR_BUS_FAIL, buf, w)), b_wblk = (\<lambda>a b n w. Some (M2M_SUCCESS, w))\<rparr>"

lemma bit_with_bit: "n < 32 \<Longrightarrow> bit (with_bit b (push_bit g 1) v) n \<longleftrightarrow> (if n = g then b else bit v n)"
  "n < 32 \<Longrightarrow> bit (with_bit b (2 ^ g) v) n \<longleftrightarrow> (if n = g then b else bit v n)"
  for v :: u32
  by (auto simp: with_bit_def bit_simps)

lemma ram_update:
  "on_val (rd_reg ram_bus a h) (\<lambda>v h. wr_reg ram_bus a (f v) h) = Some (M2M_SUCCESS, h\<lparr>bus_st := (bus_st h)(a := f (bus_st h a))\<rparr>)"
  by (simp add: on_val_def rd_reg_def wr_reg_def ram_bus_def)

text \<open>Setting a GPIO of the chip changes its bit of the output register and nothing else.\<close>

theorem gpio_write_bit:
  assumes "gpio < 32"
  shows "\<exists>h'. set_gpio_val ram_bus gpio val h = Some (M2M_SUCCESS, h') \<and>
    (\<forall>n. n < 32 \<longrightarrow> (bit (bus_st h' 0x20100) n \<longleftrightarrow> (if n = unat gpio then val \<noteq> 0 else bit (bus_st h 0x20100) n))) \<and>
    (\<forall>a. a \<noteq> 0x20100 \<longrightarrow> bus_st h' a = bus_st h a)"
  using assms by (simp add: set_gpio_val_def bit32_def ram_update bit_with_bit)

theorem gpio_write_bit_witness:
  "\<exists>h'. set_gpio_val ram_bus 3 1 (hif0 (\<lambda>_. 0)) = Some (M2M_SUCCESS, h') \<and> bit (bus_st h' 0x20100) 3 \<and> bus_st h' 0x20104 = 0"
proof -
  from gpio_write_bit [of 3 1 "hif0 (\<lambda>_. 0)"] obtain h' where
    h: "set_gpio_val ram_bus 3 1 (hif0 (\<lambda>_. 0)) = Some (M2M_SUCCESS, h')"
    "\<forall>n. n < 32 \<longrightarrow> (bit (bus_st h' 0x20100) n \<longleftrightarrow> (if n = unat (3 :: u8) then (1 :: u8) \<noteq> 0 else bit (0 :: u32) n))"
    "\<forall>a. a \<noteq> 0x20100 \<longrightarrow> bus_st h' a = 0"
    by (auto simp: hif0_def)
  from h(2) [rule_format, of 3] h(3) have "bit (bus_st h' 0x20100) 3" "bus_st h' 0x20104 = 0" by simp_all
  with h(1) show ?thesis by blast
qed

subsection \<open>The address in the fuses\<close>

text \<open>When the second block cannot be read, the bytes of the local variable are handed out as a valid address.\<close>

theorem otp_mac_valid_after_failure:
  assumes "gp_regs bus h = Some (M2M_SUCCESS, gp, h1)" "EFUSED_MAC (of_le32 gp)"
    and "rd_block bus (drop_bit 16 (of_le32 gp) OR 0x30000) junk 6 h1 = Some (M2M_ERR_BUS_FAIL, junk, h2)"
  shows "nmi_get_otp_mac_address bus junk h = Some (M2M_ERR_BUS_FAIL, Some junk, 1, h2)"
  using assms by (simp add: nmi_get_otp_mac_address_def)

end
