(* ===== verification/Driver_Props.thy ===== *)
theory Driver_Props
  imports Winc1500_Props Chip_Props
begin

text \<open>
  The whole driver: bring-up, requests and the handling of events leave the sockets and the application's state to
  the callbacks, so the invariant of the socket provider holds in every state that the driver reaches.
\<close>

subsection \<open>The chip's control changes the driver's own fields only\<close>

named_theorems more_keeps \<open>the part of the state behind the fields of the host interface does not change\<close>

lemma put_reg_more [more_keeps]: "put_reg bus a v h = Some h' \<Longrightarrow> hif.more h' = hif.more h"
  by (auto simp: put_reg_def dest: access_more(2))

lemma wr_reg_keeps [more_keeps]: "wr_reg bus a v h = Some (r, h') \<Longrightarrow> hif.more h' = hif.more h"
  by (rule access_more(2))

lemma get_reg_more [more_keeps]: "get_reg bus old a h = Some (r, v, h') \<Longrightarrow> hif.more h' = hif.more h"
  by (auto simp: get_reg_def dest: access_more(1))

lemma fetch_reg_more [more_keeps]: "fetch_reg bus junk a h = Some (v, h') \<Longrightarrow> hif.more h' = hif.more h"
  by (auto simp: fetch_reg_def dest: get_reg_more)

lemma ctl_more [more_keeps]: "ctl f h = Some (r, h') \<Longrightarrow> hif.more h' = hif.more h"
  by (auto simp: ctl_def)

lemma chipid_more [more_keeps]: "nmi_get_chipid bus junk h = Some (c, h') \<Longrightarrow> hif.more h' = hif.more h"
  by (auto simp: nmi_get_chipid_def Let_def elim!: bind_SomeE dest!: get_reg_more split: if_splits)

lemma check_3000_more [more_keeps]: "check_3000_id bus junk h = Some (c, h') \<Longrightarrow> hif.more h' = hif.more h"
  by (auto simp: check_3000_id_def elim!: bind_SomeE dest: more_keeps)

lemma clkless_more [more_keeps]: "nm_clkless_wake bus junk h = Some (r, h') \<Longrightarrow> hif.more h' = hif.more h"
  using more_clkless_wake [of h bus junk] by (simp add: all_in_def)

lemma apply_conf_loop_more: "apply_conf_loop bus v h = Some h' \<Longrightarrow> hif.more h' = hif.more h"
proof -
  assume loop: "apply_conf_loop bus v h = Some h'"
  show ?thesis
  proof (rule apply_conf_loop.raw_induct [OF _ loop], goal_cases)
    case (1 f bus v h y)
    from 1(2) show ?case
      by (auto elim!: bind_SomeE dest!: more_keeps 1(1) split: if_splits)
  qed
qed

lemma chip_apply_conf_more [more_keeps]: "chip_apply_conf bus v h = Some (r, h') \<Longrightarrow> hif.more h' = hif.more h"
  by (auto simp: chip_apply_conf_def dest: apply_conf_loop_more)

lemma small_more [more_keeps]:
  "enable_rf_blocks bus h = Some h' \<Longrightarrow> hif.more h' = hif.more h"
  "restore_pmu_settings_after_global_reset bus junk h = Some h' \<Longrightarrow> hif.more h' = hif.more h"
  "nmi_set_sys_clk_src_to_xo bus junk h = Some h' \<Longrightarrow> hif.more h' = hif.more h"
  "clear_state_regs bus h = Some h' \<Longrightarrow> hif.more h' = hif.more h"
  by (auto simp: enable_rf_blocks_def restore_pmu_settings_after_global_reset_def nmi_set_sys_clk_src_to_xo_def
      nmi_update_pll_def clear_state_regs_def Let_def elim!: bind_SomeE dest!: more_keeps split: if_splits)

lemma chip_wake_more [more_keeps]: "chip_wake bus junk h = Some (r, h') \<Longrightarrow> hif.more h' = hif.more h"
  by (auto simp: chip_wake_def elim!: bind_SomeE dest!: more_keeps split: if_splits)

lemma chip_reset_more [more_keeps]: "chip_reset bus junk h = Some (r, h') \<Longrightarrow> hif.more h' = hif.more h"
  by (auto simp: chip_reset_def elim!: bind_SomeE dest!: more_keeps)

lemma efuse_loop_more [more_keeps]: "efuse_loop bus junk h = Some h' \<Longrightarrow> hif.more h' = hif.more h"
proof -
  assume loop: "efuse_loop bus junk h = Some h'"
  show ?thesis
  proof (rule efuse_loop.raw_induct [OF _ loop], goal_cases)
    case (1 f bus junk h y)
    from 1(2) show ?case by (auto elim!: bind_SomeE dest!: more_keeps 1(1) split: if_splits)
  qed
qed

lemma bootrom_loop_more [more_keeps]: "bootrom_loop bus junk reg cnt h = Some (b, h') \<Longrightarrow> hif.more h' = hif.more h"
proof -
  assume loop: "bootrom_loop bus junk reg cnt h = Some (b, h')"
  have "hif.more (snd (b, h')) = hif.more h"
  proof (rule bootrom_loop.raw_induct [OF _ loop], goal_cases)
    case (1 f bus junk reg cnt h y)
    from 1(2) show ?case by (auto elim!: bind_SomeE dest!: more_keeps 1(1) split: if_splits)
  qed
  then show ?thesis by simp
qed

lemma firmware_loop_more [more_keeps]: "firmware_loop bus junk a want reg cnt h = Some (b, h') \<Longrightarrow> hif.more h' = hif.more h"
proof -
  assume loop: "firmware_loop bus junk a want reg cnt h = Some (b, h')"
  have "hif.more (snd (b, h')) = hif.more h"
  proof (rule firmware_loop.raw_induct [OF _ loop], goal_cases)
    case (1 f bus junk a want reg cnt h y)
    from 1(2) show ?case by (auto elim!: bind_SomeE dest!: more_keeps 1(1) split: if_splits)
  qed
  then show ?thesis by simp
qed

lemma bootrom_more [more_keeps]: "wait_for_bootrom bus junk arg h = Some (r, h') \<Longrightarrow> hif.more h' = hif.more h"
  by (auto simp: wait_for_bootrom_def Let_def elim!: bind_SomeE dest!: more_keeps split: if_splits)

lemma firmware_more [more_keeps]: "wait_for_firmware_start bus junk arg h = Some (r, h') \<Longrightarrow> hif.more h' = hif.more h"
  by (auto simp: wait_for_firmware_start_def Let_def elim!: bind_SomeE dest!: more_keeps split: if_splits)

lemma deinit_loop_more: "deinit_loop bus reg ret n h = Some (r, h') \<Longrightarrow> hif.more h' = hif.more h"
proof (induction n arbitrary: reg ret h)
  case (Suc n)
  from Suc.prems show ?case
    by (auto simp: Let_def elim!: bind_SomeE dest!: more_keeps Suc.IH split: if_splits)
qed simp

lemma chip_deinit_more [more_keeps]: "chip_deinit bus h = Some (r, h') \<Longrightarrow> hif.more h' = hif.more h"
  by (auto simp: chip_deinit_def Let_def elim!: bind_SomeE dest!: more_keeps deinit_loop_more split: if_splits)

lemma on_ok_SomeE:
  assumes "on_ok r k = Some (x, h')"
  obtains ret h where "r = Some (ret, h)" "ret \<noteq> M2M_SUCCESS" "h' = h" | h where "r = Some (M2M_SUCCESS, h)" "k h = Some (x, h')"
  using assms by (auto simp: on_ok_def split: option.splits if_splits)

lemma on_val_SomeE:
  assumes "on_val r k = Some (x, h')"
  obtains ret v h where "r = Some (ret, v, h)" "h' = h" | v h where "r = Some (M2M_SUCCESS, Some v, h)" "k v h = Some (x, h')"
  using assms by (auto simp: on_val_def split: option.splits if_splits)

lemma or_bus_fail_SomeE:
  assumes "or_bus_fail r k = Some (x, h')"
  obtains ret h where "r = Some (ret, h)" "h' = h" | h where "r = Some (M2M_SUCCESS, h)" "k h = Some (x, h')"
  using assms by (auto simp: or_bus_fail_def elim!: bind_SomeE split: if_splits)

lemma set_bit_more [more_keeps]: "set_bit_of bus junk n a h = Some (r, h') \<Longrightarrow> hif.more h' = hif.more h"
  by (auto simp: set_bit_of_def elim!: bind_SomeE or_bus_fail_SomeE dest!: more_keeps)

lemma enable_interrupts_more [more_keeps]: "enable_interrupts bus junk h = Some (r, h') \<Longrightarrow> hif.more h' = hif.more h"
  by (auto simp: enable_interrupts_def elim!: or_bus_fail_SomeE dest!: more_keeps)

lemma or_close_more:
  assumes "or_close c r k = Some (x, h')" "\<And>ret h. r = Some (ret, h) \<Longrightarrow> hif.more h = z"
    "\<And>h. hif.more h = z \<Longrightarrow> k h = Some (x, h') \<Longrightarrow> hif.more h' = z"
  shows "hif.more h' = z"
  using assms by (auto simp: or_close_def elim!: bind_SomeE dest: ctl_more split: if_splits)

lemma nm_drv_init_more [more_keeps]:
  assumes "nm_drv_init bus c junk arg h = Some (r, h')"
  shows "hif.more h' = hif.more h"
  using assms unfolding nm_drv_init_def Let_def
  by (auto elim!: on_ok_SomeE bind_SomeE or_close_more dest!: more_keeps split: if_splits)

lemma nm_drv_deinit_more [more_keeps]: "nm_drv_deinit bus c h = Some (r, h') \<Longrightarrow> hif.more h' = hif.more h"
  by (auto simp: nm_drv_deinit_def elim!: on_ok_SomeE bind_SomeE dest!: more_keeps)

lemma firmware_info_more [more_keeps]: "nm_get_firmware_info bus junk rv h = Some (r, b, h') \<Longrightarrow> hif.more h' = hif.more h"
  by (auto simp: nm_get_firmware_info_def Let_def elim!: bind_SomeE dest!: more_keeps split: if_splits)

lemma hif_send_keeps [more_keeps]:
  "hif_send bus junk stack gid op ctrl csz data dsz off h = Some (r, h') \<Longrightarrow> hif.more h' = hif.more h"
  using hif_send_more [of h bus junk stack gid op ctrl csz data dsz off] by (simp add: all_in_def)

lemma wifi_req_more [more_keeps]: "wifi_req e op b h = Some (r, h') \<Longrightarrow> hif.more h' = hif.more h"
  "plain_req e gid op h = Some (r, h') \<Longrightarrow> hif.more h' = hif.more h"
  unfolding wifi_req_def plain_req_def by (erule hif_send_keeps)+

lemma hif_setup_more [more_keeps]:
  "hif_init p h = (r, h') \<Longrightarrow> hif.more h' = hif.more h"
  "hif_deinit bus junk h = Some (r, h') \<Longrightarrow> hif.more h' = hif.more h"
  using more_wake [of h bus junk]
  by (auto simp: hif_init_def Let_def hif_register_cb_def hif_deinit_def all_in_def elim!: bind_SomeE)

lemma register_more [simp]: "hif.more (snd (hif_register_cb grp f h)) = hif.more h"
  by (simp add: hif_register_cb_def)

lemma m2m_init_more [more_keeps]:
  "m2m_wifi_init e c p q rv param h = Some (r, h') \<Longrightarrow> hif.more h' = hif.more h"
  "m2m_wifi_deinit e c h = Some (r, h') \<Longrightarrow> hif.more h' = hif.more h"
  unfolding m2m_wifi_init_def m2m_wifi_deinit_def
  by (auto elim!: on_ok_SomeE bind_SomeE dest!: more_keeps split: option.splits prod.splits if_splits)

lemma m2m_scan_more [more_keeps]:
  "m2m_wifi_req_scan_result e i h = Some (r, h') \<Longrightarrow> hif.more h' = hif.more h"
  "m2m_wifi_request_scan e ch h = Some (r, h') \<Longrightarrow> hif.more h' = hif.more h"
  "m2m_wifi_set_scan_region e x h = Some (r, h') \<Longrightarrow> hif.more h' = hif.more h"
  "m2m_wifi_disconnect e h = Some (r, h') \<Longrightarrow> hif.more h' = hif.more h"
  by (auto simp: m2m_wifi_req_scan_result_def m2m_wifi_request_scan_def m2m_wifi_set_scan_region_def m2m_wifi_disconnect_def
      dest!: more_keeps split: if_splits)

lemma m2m_connect_more [more_keeps]: "m2m_wifi_connect e ssid len sec auth ch h = Some (r, h') \<Longrightarrow> hif.more h' = hif.more h"
  by (auto simp: m2m_wifi_connect_def m2m_wifi_connect_sc_def elim!: bind_SomeE dest!: more_keeps split: if_splits option.splits)

subsection \<open>The handling of events\<close>

lemma clear_irq_more [simp]:
  "hif.more (h\<lparr>irq_on := b\<rparr>) = hif.more h" "hif.more (h\<lparr>gu8HifSizeDone := b\<rparr>) = hif.more h"
  by simp_all

lemma set_rx_done_keeps [more_keeps]: "hif_set_rx_done bus h = Some (r, h') \<Longrightarrow> hif.more h' = hif.more h"
  using hif_set_rx_done_more [of h bus] by (simp add: all_in_def)

lemma all_in_case3:
  "(\<And>a b s. r = Some (a, b, s) \<Longrightarrow> all_in S (k a b s)) \<Longrightarrow> all_in S (case r of None \<Rightarrow> None | Some (a, b, s) \<Rightarrow> k a b s)"
  by (simp split: option.split)

context sk_inv
begin

lemma S_more: "S s \<Longrightarrow> hif.more s' = hif.more s \<Longrightarrow> S s'"
  using S_frame sk_more(1,3) by metis

lemma inv_keeps: "S s \<Longrightarrow> (\<And>r s'. f = Some (r, s') \<Longrightarrow> hif.more s' = hif.more s) \<Longrightarrow> all_in S f"
  by (auto simp: all_in_def intro: S_more)

lemma inv_on_val:
  assumes "S s" "\<And>v s. S s \<Longrightarrow> all_in S (k v s)"
  shows "all_in S (on_val (rd_reg bus a s) k)"
proof (rule all_inI)
  fix y assume y: "on_val (rd_reg bus a s) k = Some y"
  obtain x s' where [simp]: "y = (x, s')" by (cases y)
  from y [simplified] show "S (snd y)"
  proof (rule on_val_SomeE)
    show "S (snd y)" if "rd_reg bus a s = Some (ret, v, h)" "s' = h" for ret v h
      using S_more [OF assms(1) access_more(1)] that by simp
    show "S (snd y)" if "rd_reg bus a s = Some (M2M_SUCCESS, Some v, h)" "k v h = Some (x, s')" for v h
      using all_inD [OF that(2) assms(2)] S_more [OF assms(1) access_more(1) [OF that(1)]] by simp
  qed
qed

lemma inv_wr: "S s \<Longrightarrow> all_in S (wr_reg bus a v s)"
  by (erule inv_keeps) (rule access_more(2))

lemma inv_wake: "S s \<Longrightarrow> all_in S (hif_chip_wake bus junk s)"
  by (rule inv_keeps) (use more_wake [of s bus junk] in \<open>auto simp: all_in_def\<close>)

lemma inv_sleep: "S s \<Longrightarrow> all_in S (hif_chip_sleep bus s)"
  by (rule inv_keeps) (use more_sleep [of s bus] in \<open>auto simp: all_in_def\<close>)

lemma inv_rx_done: "S s \<Longrightarrow> all_in S (hif_set_rx_done bus s)"
  by (rule inv_keeps) (use hif_set_rx_done_more [of s bus] in \<open>auto simp: all_in_def\<close>)

lemma S_flags [simp]: "S (s\<lparr>irq_on := b\<rparr>) = S s" "S (s\<lparr>gu8HifSizeDone := b\<rparr>) = S s" "S (s\<lparr>gu8Interrupt := n\<rparr>) = S s"
  "S (s\<lparr>gu8ChNum := n\<rparr>) = S s" "S (s\<lparr>gu8scanInProgress := n\<rparr>) = S s" "S (s\<lparr>user_mem := m\<rparr>) = S s"
  by (rule S_same; simp)+

lemma inv_dispatch:
  assumes cb: "\<And>f op sz a s. S s \<Longrightarrow> opt_in S (cb f op sz a s)" and S: "S s"
  shows "all_in S (hif_dispatch bus cb address hdr s)"
proof (cases "group_cb (hdr ! 0) s")
  case (Some f)
  have fin: "all_in S (if \<not> gu8HifSizeDone s1 then hif_set_rx_done bus s1 else Some (M2M_SUCCESS, s1))" if "S s1" for s1
    using that inv_rx_done by simp
  show ?thesis
    unfolding hif_dispatch_def Some option.case
  proof (rule all_in_after [where S = S])
    show "opt_in S (if f = 0 then Some s else cb f (hdr ! 1) (of_le16 (drop 2 hdr) - of_nat M2M_HIF_HDR_OFFSET)
        (address + of_nat M2M_HIF_HDR_OFFSET) s)"
      using cb S by simp
  qed (rule fin)
qed (simp add: hif_dispatch_def S)

lemma inv_isr_body:
  assumes cb: "\<And>f op sz a s. S s \<Longrightarrow> opt_in S (cb f op sz a s)" and S: "S s"
  shows "all_in S (hif_isr_body bus cb s)"
proof -
  have disp: "all_in S (case hif_dispatch bus cb address hdr s1 of None \<Rightarrow> None
      | Some (ret, h') \<Rightarrow> if group_cb (hdr ! 0) s1 = None then Some (ret, h') else Some (M2M_SUCCESS, h'))" if "S s1" for address hdr s1
    using inv_dispatch [where cb = cb and bus = bus and address = address and hdr = hdr, OF cb that] by (auto simp: all_in_def split: option.splits if_splits)
  have blk: "S s2" if "S s1" "rd_block bus a b n s1 = Some (r, x, s2)" for s1 s2 a b n r x
    using that access_more(4) S_more by metis
  have reg: "S s2" if "S s1" "rd_reg bus a s1 = Some (r, v, s2)" for s1 s2 a r v
    using that access_more(1) S_more by metis
  have tail: "all_in S (case rd_reg bus WIFI_HOST_RCV_CTRL_1 s1 of None \<Rightarrow> None
      | Some (ret, v, h) \<Rightarrow> if ret \<noteq> M2M_SUCCESS then Some (ret, h\<lparr>irq_on := True\<rparr>) else kont v h)"
    if "S s1" "\<And>v h. S h \<Longrightarrow> all_in S (kont v h)" for s1 kont
    by (rule all_in_case3) (use that(2) reg [OF that(1)] in \<open>simp del: not_None_eq\<close>)
  have inner: "all_in S (case rd_block bus address b n s1 of None \<Rightarrow> None
      | Some (ret, hdr, h) \<Rightarrow> if ret \<noteq> M2M_SUCCESS then Some (ret, h\<lparr>irq_on := True\<rparr>)
         else if bad hdr then Some (M2M_ERR_BUS_FAIL, h\<lparr>irq_on := True\<rparr>)
         else case hif_dispatch bus cb address hdr h of None \<Rightarrow> None
              | Some (ret, h') \<Rightarrow> if group_cb (hdr ! 0) h = None then Some (ret, h') else Some (M2M_SUCCESS, h'))"
    if "S s1" for s1 address b n bad
    by (rule all_in_case3) (use disp blk [OF that] in \<open>simp del: not_None_eq\<close>)
  show ?thesis
    unfolding hif_isr_body_def Let_def
    by (intro inv_on_val all_in_if all_in_on_ok inv_wr S tail inner) simp_all
qed

lemma inv_isr:
  assumes cb: "\<And>f op sz a s. S s \<Longrightarrow> opt_in S (cb f op sz a s)" and S: "S s"
  shows "all_in S (hif_isr bus junk cb s)"
  unfolding hif_isr_def by (intro all_in_on_ok inv_wake inv_isr_body inv_sleep cb S)

definition cb_keeps :: "(u32 \<Rightarrow> u8 \<Rightarrow> u16 \<Rightarrow> u32 \<Rightarrow> ('w, 'a) sk \<Rightarrow> ('w, 'a) sk option) \<Rightarrow> bool" where
  "cb_keeps cb \<longleftrightarrow> (\<forall>f op sz a s. S s \<longrightarrow> opt_in S (cb f op sz a s))"

lemma inv_retry:
  assumes "isr_retry bus junk cb s = Some s'"
  shows "S s \<longrightarrow> cb_keeps cb \<longrightarrow> S s'"
proof (rule isr_retry.raw_induct [OF _ assms], goal_cases)
  case (1 f bus junk cb s y)
  show ?case
  proof (intro impI)
    assume S: "S s" and cb: "cb_keeps cb"
    from 1(2) obtain ret s1 where r: "hif_isr bus junk cb s = Some (ret, s1)" "(if ret = M2M_SUCCESS then Some s1 else f bus junk cb s1) = Some y"
      by (elim bind_SomeE) auto
    have "S s1" using all_inD [OF r(1) inv_isr [OF _ S]] cb by (simp add: cb_keeps_def)
    with r(2) 1(1) cb show "S y" by (auto split: if_splits)
  qed
qed

lemma inv_handle_isr:
  assumes "hif_handle_isr bus junk cb s = Some y"
  shows "S s \<longrightarrow> cb_keeps cb \<longrightarrow> S (snd y)"
proof (rule hif_handle_isr.raw_induct [OF _ assms], goal_cases)
  case (1 f bus junk cb s y)
  show ?case
  proof (intro impI)
    assume S: "S s" and cb: "cb_keeps cb"
    show "S (snd y)"
    proof (cases "gu8Interrupt s \<noteq> 0 \<and> \<not> gu8FlowCtrl s")
      case True
      with 1(2) obtain s1 where r: "isr_retry bus junk cb (s\<lparr>gu8Interrupt := gu8Interrupt s - 1\<rparr>) = Some s1" "f bus junk cb s1 = Some y"
        by (auto elim: bind_SomeE)
      have "S s1" using inv_retry [OF r(1)] S cb by simp
      with 1(1) [OF r(2)] cb show ?thesis by blast
    next
      case False
      with 1(2) S show ?thesis by auto
    qed
  qed
qed

lemma inv_received:
  assumes "S s" "\<And>b s. S s \<Longrightarrow> opt_in S (k b s)"
  shows "opt_in S (received e addr buf n d k s)"
  unfolding received_def
  by (rule opt_in_bind) (use assms inv_receive in \<open>auto intro!: opt_in_bind\<close>)

lemma inv_app_wifi: "S s \<Longrightarrow> (\<And>f op msg s. S s \<Longrightarrow> opt_in S (cb f op msg s)) \<Longrightarrow> opt_in S (app_wifi cb op msg s)"
  by (simp add: app_wifi_def)

lemma inv_prng:
  assumes S: "S s" and cb: "\<And>f op msg s. S s \<Longrightarrow> opt_in S (cb f op msg s)"
  shows "opt_in S (prng_response e cb addr s)"
  unfolding prng_response_def
proof (rule inv_received [OF S], unfold Let_def, rule opt_in_bind)
  fix b s1 x
  assume s1: "S s1" and r: "hif_receive (ev_bus e) (addr + 8) (if of_le32 b = 0 then None else Some (user_mem s1 (of_le32 b)))
      (of_le16 (drop 4 b)) True s1 = Some x"
  obtain ret m s2 where x: "x = (ret, m, s2)" by (cases x)
  have "S s2" using inv_receive [OF s1 r [unfolded x]] .
  then show "opt_in S (case x of (ret, m, s) \<Rightarrow>
      if ret = M2M_SUCCESS then app_wifi cb M2M_WIFI_RESP_GET_PRNG (Some b)
        (case m of None \<Rightarrow> s | Some m \<Rightarrow> s\<lparr>user_mem := (user_mem s)(of_le32 b := m)\<rparr>)
      else Some (case m of None \<Rightarrow> s | Some m \<Rightarrow> s\<lparr>user_mem := (user_mem s)(of_le32 b := m)\<rparr>))"
    by (cases m) (auto simp: x intro: inv_app_wifi cb)
qed

lemma inv_wifi_cb:
  assumes S: "S s" and cb: "\<And>f op msg s. S s \<Longrightarrow> opt_in S (cb f op msg s)"
  shows "opt_in S (m2m_wifi_cb e cb op sz addr s)"
proof -
  have rcv: "opt_in S (receive_app e cb op addr buf n d s)" for buf n d
    unfolding receive_app_def by (intro inv_received S inv_app_wifi cb)
  have fin: "opt_in S (received e addr buf n d (\<lambda>b s. Option.bind (mem_read b 0) (\<lambda>n. app_wifi cb op (Some b) (s\<lparr>gu8ChNum := n\<rparr>)))
      (s\<lparr>gu8scanInProgress := 0\<rparr>))" for buf n d
    by (intro inv_received opt_in_bind inv_app_wifi cb) (simp_all add: S)
  show ?thesis
    unfolding m2m_wifi_cb_def
    by (intro opt_in_if rcv fin inv_received S inv_app_wifi cb inv_prng) (simp_all add: S)
qed

end

subsection \<open>The invariant of the driver\<close>

text \<open>The Wi-Fi manager keeps the invariant of the provider, in particular the mutex, while it is told something.\<close>

definition mgr_keeps :: "('w, 'p) wmgr \<Rightarrow> bool" where
  "mgr_keeps g \<longleftrightarrow> (\<forall>d s. winc_inv d s \<longrightarrow>
     (\<forall>rc. opt_in (winc_inv d) (wifi_scan_done g rc s)) \<and> (\<forall>ap. opt_in (winc_inv d) (wifi_scan_result g ap s)) \<and>
     (\<forall>rc. opt_in (winc_inv d) (wifi_connect_done g rc s)) \<and> (\<forall>rc. opt_in (winc_inv d) (wifi_disconnected g rc s)) \<and>
     (\<forall>ip. opt_in (winc_inv d) (wifi_dhcp_done g ip s)))"

lemma mgr_keepsD:
  assumes "mgr_keeps g" "winc_inv d s"
  shows "opt_in (winc_inv d) (wifi_scan_done g rc s)" "opt_in (winc_inv d) (wifi_scan_result g ap s)"
    "opt_in (winc_inv d) (wifi_connect_done g rc s)" "opt_in (winc_inv d) (wifi_disconnected g rc s)"
    "opt_in (winc_inv d) (wifi_dhcp_done g ip s)"
  using assms unfolding mgr_keeps_def by blast+

lemma winc_scalar:
  assumes "winc_inv d s"
  shows "winc_inv d (upd_app (\<lambda>a. a\<lparr>w_scan_cnt := n\<rparr>) s)" "winc_inv d (upd_app (\<lambda>a. a\<lparr>w_scan_idx := n\<rparr>) s)"
    "winc_inv d (upd_app (\<lambda>a. a\<lparr>w_scan_idx := w_scan_idx a + 1\<rparr>) s)"
    "winc_inv d (upd_app (\<lambda>a. a\<lparr>w_up := b\<rparr>) s)" "winc_inv d (upd_app (\<lambda>a. a\<lparr>w_timer := b\<rparr>) s)"
    "winc_inv d (upd_app (\<lambda>a. a\<lparr>w_up := b, w_addr := x, w_plen := n\<rparr>) s)"
  using assms by (auto intro: winc_upd_app)

lemma winc_more: "winc_inv d s \<Longrightarrow> hif.more s' = hif.more s \<Longrightarrow> winc_inv d s'"
  for s s' :: "('w, 'p) wk"
  by (erule (1) winc.S_more)

lemma winc_next_result:
  assumes g: "mgr_keeps g" and S: "winc_inv d s"
  shows "opt_in (winc_inv d) (next_result g i s)"
  unfolding next_result_def
proof (rule opt_in_bind)
  fix x
  assume r: "m2m_wifi_req_scan_result (wg_sock g) i s = Some x"
  obtain rc s1 where x: "x = (rc, s1)" by (cases x)
  have "winc_inv d s1" using winc_more [OF S m2m_scan_more(1)] r x by simp
  then show "opt_in (winc_inv d) (case x of (rc, s) \<Rightarrow> if rc \<noteq> 0 then wifi_scan_done g (-1) s else Some s)"
    using mgr_keepsD(1) [OF g] by (simp add: x)
qed

lemma winc_callback:
  assumes g: "mgr_keeps g" and S: "winc_inv d s"
  shows "opt_in (winc_inv d) (winc1500_callback g op msg s)"
proof -
  have done1: "opt_in (winc_inv d) (on_scan_done g b s)" for b
    unfolding on_scan_done_def Let_def
    by (intro opt_in_if opt_in_bind winc_next_result [OF g] winc_scalar) (simp_all add: S winc_scalar)
  have res: "opt_in (winc_inv d) (on_scan_result g b s)" for b
    unfolding on_scan_result_def Let_def
    by (intro opt_in_if opt_in_bind winc_next_result [OF g] mgr_keepsD [OF g] winc_scalar S)
       (auto simp: S dest: opt_inD [OF _ mgr_keepsD(2) [OF g S]])
  have st: "opt_in (winc_inv d) (on_state_changed g b s)" for b
    unfolding on_state_changed_def Let_def
    by (intro opt_in_if opt_in_bind mgr_keepsD [OF g] winc_scalar S) (simp_all add: S)
  have dhcp: "opt_in (winc_inv d) (on_dhcp g b s)" for b
    unfolding on_dhcp_def Let_def by (intro opt_in_if mgr_keepsD [OF g] winc_scalar S) simp
  show ?thesis
    unfolding winc1500_callback_def by (intro opt_in_if opt_in_bind done1 res st dhcp) (simp add: S)
qed

lemma driver_cb_keeps:
  assumes g: "mgr_keeps g" and v: "os_keeps (wg_env g)"
  shows "winc.cb_keeps d (driver_cb g)"
  unfolding winc.cb_keeps_def driver_cb_def
  by (intro allI impI opt_in_if winc.inv_wifi_cb winc_callback [OF g] winc.inv_ip_cb winc_cbs_keep [OF v]) simp_all

lemma winc_events:
  assumes g: "mgr_keeps g" and v: "os_keeps (wg_env g)" and S: "winc_inv d s" and r: "winc1500_events g s = Some s'"
  shows "winc_inv d s'"
proof -
  from r obtain ret s1 s2 where 1: "m2m_wifi_handle_events (wg_sock g) (driver_cb g) (os_mutex_pend s) = Some (ret, s1)"
    and 2: "winc1500_socket_poll (wg_env g) (os_mutex_release s1) = Some s2" and 3: "s' = upd_app (\<lambda>a. a\<lparr>w_timer := True\<rparr>) s2"
    unfolding winc1500_events_def by (elim bind_SomeE) (auto elim!: bind_SomeE)
  have "winc_inv (d + 1) s1"
    using winc.inv_handle_isr [OF 1 [unfolded m2m_wifi_handle_events_def], of "d + 1"] winc_pend [OF S] driver_cb_keeps [OF g v] by simp
  then have "winc_inv d s2" using opt_inD [OF 2 winc_poll] winc_unlock by blast
  then show ?thesis by (simp add: 3 winc_scalar(5))
qed

subsection \<open>Reachable states\<close>

text \<open>What can happen once the driver is registered: calls of the socket interface, the calls of the Wi-Fi manager,
  the poll of the timer, and pin interrupts.\<close>

inductive drv_step :: "('w, 'p) wmgr \<Rightarrow> ('w, 'p) wk \<Rightarrow> ('w, 'p) wk \<Rightarrow> bool" for g where
  ds_socket: "wk_step (wg_env g) s s' \<Longrightarrow> drv_step g s s'"
| ds_events: "winc1500_events g s = Some s' \<Longrightarrow> drv_step g s s'"
| ds_start: "winc1500_start g s = Some (rc, s') \<Longrightarrow> drv_step g s s'"
| ds_stop: "winc1500_stop g s = Some s' \<Longrightarrow> drv_step g s s'"
| ds_scan: "winc1500_scan_start g s = Some (rc, s') \<Longrightarrow> drv_step g s s'"
| ds_connect: "winc1500_connect g key_type s = Some (rc, s') \<Longrightarrow> drv_step g s s'"
| ds_disconnect: "winc1500_disconnect g s = Some s' \<Longrightarrow> drv_step g s s'"
| ds_isr: "drv_step g s (isr s)"

lemma drv_step_inv:
  assumes "drv_step g s s'" "mgr_keeps g" "os_keeps (wg_env g)" "winc_inv d s"
  shows "winc_inv d s'"
  using assms
proof cases
  case ds_socket
  then show ?thesis using wk_step_inv assms by blast
next
  case ds_events
  then show ?thesis using winc_events assms by blast
next
  case (ds_start rc)
  then obtain rc1 s1 where r: "m2m_wifi_init (wg_sock g) (wg_ctl g) (m2m_hif_cb_ptr g) (m2m_wifi_cb_ptr g) (wg_strtmp g)
      (Some (winc1500_callback_ptr g)) s = Some (rc1, s1)" and s': "s' = winc1500_socket_start (m2m_ip_cb_ptr g)
      (winc1500_sock_cb_ptr g) (winc1500_resolve_cb_ptr g) (if rc1 = 0 then upd_app (\<lambda>a. a\<lparr>w_timer := True\<rparr>) s1 else s1)"
    by (auto simp: winc1500_start_def Let_def elim!: bind_SomeE)
  have "winc_inv d s1" using winc_more [OF assms(4) m2m_init_more(1) [OF r]] .
  then show ?thesis by (simp add: s' winc1500_socket_start_def winc.inv_setup winc_scalar(5))
next
  case ds_stop
  then obtain rc where r: "m2m_wifi_deinit (wg_sock g) (wg_ctl g) (upd_app (\<lambda>a. a\<lparr>w_up := False\<rparr>) s) = Some (rc, s')"
    by (auto simp: winc1500_stop_def)
  show ?thesis using winc_more [OF winc_scalar(4) [OF assms(4)] m2m_init_more(2) [OF r]] .
next
  case (ds_scan rc)
  then have "hif.more s' = hif.more s"
    unfolding winc1500_scan_start_def by (elim on_ok_SomeE) (auto dest!: m2m_scan_more)
  then show ?thesis by (rule winc_more [OF assms(4)])
next
  case (ds_connect key_type rc)
  then have "hif.more s' = hif.more s"
    unfolding winc1500_connect_def by (elim bind_SomeE) (rule m2m_connect_more)
  then show ?thesis by (rule winc_more [OF assms(4)])
next
  case ds_disconnect
  then obtain rc where r: "m2m_wifi_disconnect (wg_sock g) (upd_app (\<lambda>a. a\<lparr>w_up := False\<rparr>) s) = Some (rc, s')"
    by (auto simp: winc1500_disconnect_def)
  show ?thesis using winc_more [OF winc_scalar(4) [OF assms(4)] m2m_scan_more(4) [OF r]] .
next
  case ds_isr
  then show ?thesis using winc_more [OF assms(4), of "isr s"] by (simp add: isr_def)
qed

text \<open>C1: The driver as a whole: whatever sequence of socket calls, requests of the Wi-Fi manager, polls and interrupts
  follows the registration of the driver, and whatever the chip sends, the mutex is free again after each step,
  every socket of the provider keeps its number and the table of the socket layer stays well formed.\<close>

theorem winc_driver_invariant:
  assumes keeps: "mgr_keeps g" "os_keeps (wg_env g)"
    and s0: "length (gastrSockets s0) = MAX_SOCKET" "\<forall>x\<in>set (gastrSockets s0). x = zero_socket"
      "length (winc1500_socks (app_st s0)) = MAX_SOCKET" "wi_mtx (app_st s0) = 0"
    and steps: "(drv_step g)\<^sup>*\<^sup>* (winc1500_socket_init s0) s"
  shows "wi_mtx (app_st s) = 0 \<and> map ws_idx (winc1500_socks (app_st s)) = map of_nat [0..<MAX_SOCKET] \<and>
    length (gastrSockets s) = MAX_SOCKET \<and>
    (\<forall>x\<in>set (gastrSockets s). bIsUsed x = 0 \<or> bIsUsed x = 1 \<and> u16SessionID x \<noteq> 0)"
proof -
  have "map ws_idx (winc1500_socks (app_st (winc1500_socket_init s0))) = map of_nat [0..<MAX_SOCKET]"
    using s0(3) by (intro nth_equalityI) (simp_all add: winc1500_socket_init_def upd_app_def)
  then have "winc_inv 0 (winc1500_socket_init s0)"
    using s0 by (auto simp: winc_inv_def winc1500_socket_init_def upd_app_def sock_inv_def list_all_iff good_def zero_socket_def)
  with steps have "winc_inv 0 s"
    by (induction rule: rtranclp_induct) (auto intro: drv_step_inv keeps)
  then show ?thesis by (simp add: winc_inv_def sock_inv_def list_all_iff good_def)
qed

theorem winc_driver_invariant_witness:
  "\<exists>s. winc1500_disconnect (mgr0 (env0 (logged (table_bus (\<lambda>_. 0x30000) []))))
       (winc1500_socket_init ((sk0 (0, []) scanning0)\<lparr>gastrSockets := replicate MAX_SOCKET zero_socket\<rparr>)) = Some s \<and>
     wi_mtx (app_st s) = 0 \<and> map ws_idx (winc1500_socks (app_st s)) = map of_nat [0..<MAX_SOCKET]"
proof -
  let ?g = "mgr0 (env0 (logged (table_bus (\<lambda>_. 0x30000) [])))"
  let ?s0 = "(sk0 (0 :: nat, []) scanning0)\<lparr>gastrSockets := replicate MAX_SOCKET zero_socket\<rparr>"
  have inv: "winc_inv d (upd_app f s)" if "winc_inv d s" "\<And>a. winc1500_socks (f a) = winc1500_socks a" "\<And>a. wi_mtx (f a) = wi_mtx a"
    for d f and s :: "(nat \<times> access list, report list) wk"
    using that by (simp add: winc_inv_def upd_app_def sock_inv_def)
  have keeps: "mgr_keeps ?g" "os_keeps (wg_env ?g)"
    by (auto simp: mgr_keeps_def os_keeps_def mgr0_def recorder_def intro!: inv)
  have awake: "stays_awake (upd_app (\<lambda>a. a\<lparr>w_up := False\<rparr>) (winc1500_socket_init ?s0))"
    by (simp add: winc1500_socket_init_def upd_app_def stays_awake_def deep_sleep_mode_def sk0_def
        M2M_PS_DEEP_AUTOMATIC_def M2M_PS_MANUAL_def)
  have env: "ev_bus (wg_sock ?g) = logged (table_bus (\<lambda>_. 0x30000) [])"
    by (simp add: mgr0_def recorder_def env0_def)
  obtain s where s: "winc1500_disconnect ?g (winc1500_socket_init ?s0) = Some s"
    using hif_send_table [OF awake, of "\<lambda>_. 0x30000" "[]"]
    by (fastforce simp: winc1500_disconnect_def m2m_wifi_disconnect_def plain_req_def env)
  have "(drv_step ?g)\<^sup>*\<^sup>* (winc1500_socket_init ?s0) s" by (intro r_into_rtranclp ds_disconnect s)
  from winc_driver_invariant [OF keeps _ _ _ _ this] s show ?thesis
    by (simp add: sk0_def scanning0_def)
qed

end
