(* ===== verification/Sercom.thy ===== *)
theory Sercom
  imports Status_Codes
begin

text \<open>
  The clock arithmetic of \<open>sam0/drivers/sercom/sercom.c\<close>: the 64 bit division by shifts and the divisors for
  synchronous (SPI) and asynchronous (USART) transfers, on words of the widths of the source; and the choice of
  the clock generator that all the instances share.
\<close>

type_synonym u64 = "64 word"

definition BAUD_INT_MAX :: u32 where "BAUD_INT_MAX = 8192"
definition BAUD_FP_MAX :: nat where "BAUD_FP_MAX = 8"

datatype async_mode = SERCOM_ASYNC_OPERATION_MODE_ARITHMETIC | SERCOM_ASYNC_OPERATION_MODE_FRACTIONAL
datatype sample_num = SERCOM_ASYNC_SAMPLE_NUM_3 | SERCOM_ASYNC_SAMPLE_NUM_8 | SERCOM_ASYNC_SAMPLE_NUM_16

definition samples :: "sample_num \<Rightarrow> u32" where
  "samples s = (case s of SERCOM_ASYNC_SAMPLE_NUM_3 \<Rightarrow> 3 | SERCOM_ASYNC_SAMPLE_NUM_8 \<Rightarrow> 8 | SERCOM_ASYNC_SAMPLE_NUM_16 \<Rightarrow> 16)"

subsection \<open>Division\<close>

fun long_division_loop :: "nat \<Rightarrow> u64 \<Rightarrow> u64 \<Rightarrow> u64 \<Rightarrow> u64 \<Rightarrow> u64" where
  "long_division_loop 0 n d q r = q"
| "long_division_loop (Suc i) n d q r =
     (let bit_shift = push_bit i 1;
          r = push_bit 1 r;
          r = (if n AND bit_shift \<noteq> 0 then r OR 1 else r)
      in if r \<ge> d then long_division_loop i n d (q OR bit_shift) (r - d)
         else long_division_loop i n d q r)"

definition long_division :: "u64 \<Rightarrow> u64 \<Rightarrow> u64" where
  "long_division n d = long_division_loop 64 n d 0 0"

subsection \<open>Synchronous transfers\<close>

text \<open>The loop never ends for the rate 0.\<close>

partial_function (option) sync_baud_loop :: "u32 \<Rightarrow> u32 \<Rightarrow> u16 \<Rightarrow> u16 option" where
  "sync_baud_loop baudrate clock_value baud =
     (if clock_value \<ge> baudrate then sync_baud_loop baudrate (clock_value - baudrate) (baud + 1) else Some baud)"

text \<open>The last argument is what the caller's variable holds.\<close>

definition sercom_get_sync_baud_val :: "u32 \<Rightarrow> u32 \<Rightarrow> u16 \<Rightarrow> (status_code \<times> u16) option" where
  "sercom_get_sync_baud_val baudrate external_clock baudvalue =
     (if baudrate > external_clock div 2 then Some (STATUS_ERR_BAUDRATE_UNAVAILABLE, baudvalue)
      else do {
        n \<leftarrow> sync_baud_loop baudrate (external_clock div 2) 0;
        let baud = n - 1;
        Some (if baud > 0xff then (STATUS_ERR_BAUDRATE_UNAVAILABLE, baudvalue) else (STATUS_OK, baud)) })"

subsection \<open>Asynchronous transfers\<close>

function frac_baud_loop :: "u64 \<Rightarrow> u64 \<Rightarrow> nat \<Rightarrow> u32 \<Rightarrow> nat \<times> u32" where
  "frac_baud_loop temp1 temp2 baud_fp baud_int =
     (if baud_fp < BAUD_FP_MAX
      then let baud_int = (ucast (long_division temp1 temp2) - of_nat baud_fp) div of_nat BAUD_FP_MAX
           in if baud_int < BAUD_INT_MAX then (baud_fp, baud_int) else frac_baud_loop temp1 temp2 (baud_fp + 1) baud_int
      else (baud_fp, baud_int))"
  by auto

termination
  by (relation "measure (\<lambda>(_, _, fp, _). BAUD_FP_MAX - fp)") auto

declare frac_baud_loop.simps [simp del]

definition sercom_get_async_baud_val ::
    "u32 \<Rightarrow> u32 \<Rightarrow> async_mode \<Rightarrow> sample_num \<Rightarrow> u16 \<Rightarrow> status_code \<times> u16" where
  "sercom_get_async_baud_val baudrate peripheral_clock mode num baudval =
     (if baudrate * samples num > peripheral_clock then (STATUS_ERR_BAUDRATE_UNAVAILABLE, baudval)
      else case mode of
        SERCOM_ASYNC_OPERATION_MODE_ARITHMETIC \<Rightarrow>
          let temp1 = push_bit 32 (ucast (samples num) * ucast baudrate) :: u64;
              ratio = long_division temp1 (ucast peripheral_clock);
              scale = push_bit 32 1 - ratio
          in (STATUS_OK, ucast (drop_bit 32 (65536 * scale)))
      | SERCOM_ASYNC_OPERATION_MODE_FRACTIONAL \<Rightarrow>
          (case frac_baud_loop (of_nat BAUD_FP_MAX * ucast peripheral_clock) (ucast baudrate * ucast (samples num)) 0 0 of
             (baud_fp, baud_int) \<Rightarrow>
               if baud_fp = BAUD_FP_MAX then (STATUS_ERR_BAUDRATE_UNAVAILABLE, baudval)
               else (STATUS_OK, ucast (baud_int OR push_bit 13 (of_nat baud_fp)))))"

subsection \<open>The shared clock generator\<close>

text \<open>\<open>set_chan\<close> selects a generator for the slow clock of the instances and enables it.\<close>

record sercom_conf =
  generator_is_set :: bool
  generator_source :: nat

definition sercom_set_gclk_generator ::
    "(nat \<Rightarrow> 'w \<Rightarrow> 'w) \<Rightarrow> nat \<Rightarrow> bool \<Rightarrow> sercom_conf \<times> 'w \<Rightarrow> status_code \<times> sercom_conf \<times> 'w" where
  "sercom_set_gclk_generator set_chan gen force_change s =
     (case s of (c, w) \<Rightarrow>
        if \<not> generator_is_set c \<or> force_change
        then (STATUS_OK, \<lparr>generator_is_set = True, generator_source = gen\<rparr>, set_chan gen w)
        else if gen = generator_source c then (STATUS_OK, c, w)
        else (STATUS_ERR_ALREADY_INITIALIZED, c, w))"

subsection \<open>The division is the division\<close>

lemma u64_bound: "unat (w :: u64) < 2 ^ 64"
  using unsigned_less [of w] by simp

lemma u32_bound: "unat (w :: u32) < 2 ^ 32"
  using unsigned_less [of w] by simp

lemma unat_ucast64 [simp]: "unat (ucast w :: u64) = unat w" for w :: u32
  using u32_bound [of w] by (simp add: unsigned_ucast_eq take_bit_nat_eq_self)

lemma unat_drop32: "unat (drop_bit 32 w) = unat w div 2 ^ 32" for w :: u64
  by (simp add: drop_bit_eq_div unat_div)

lemma and_exp_ne_0: "n AND push_bit i 1 \<noteq> 0 \<longleftrightarrow> bit n i" for n :: u64
  by (simp add: push_bit_eq_mult bit_iff_and_push_bit_not_eq_0)

lemma shift_in:
  fixes r :: u64
  assumes "unat r < 2 ^ 63"
  shows "unat (if c then push_bit 1 r OR 1 else push_bit 1 r) = 2 * unat r + of_bool c"
proof -
  have p: "unat (push_bit 1 r) = 2 * unat r"
    using assms by (simp add: push_bit_eq_mult unat_word_ariths)
  have "even (push_bit 1 r)" by (simp add: push_bit_eq_mult)
  then have "push_bit 1 r OR 1 = push_bit 1 r + 1" by (simp add: or_one_eq)
  moreover have "unat (push_bit 1 r + 1) = 2 * unat r + 1"
    using assms p by (simp add: unat_word_ariths)
  ultimately show ?thesis using p by simp
qed

lemma bit_unat: "bit (unat w) i \<longleftrightarrow> bit w i" for w :: u64
  by (simp add: bit_unsigned_iff)

lemma set_low_bit:
  fixes q :: u64
  assumes "unat q = 2 ^ Suc i * k" "i < 64"
  shows "unat (q OR push_bit i 1) = 2 ^ i * (2 * k + 1)"
proof -
  have q: "\<not> bit q i"
    unfolding bit_unat [symmetric] assms(1) by (simp add: bit_iff_odd)
  have "unat (push_bit i 1 :: u64) = 2 ^ i"
    using assms(2) by (intro bit_eqI) (auto simp: bit_simps)
  then have "unat (q OR push_bit i 1) = unat q OR 2 ^ i"
    by (simp add: unsigned_or_eq)
  also have "\<dots> = unat q + 2 ^ i"
    by (rule disjunctive_add_eq_or [symmetric]) (rule bit_eqI, auto simp: bit_simps q)
  finally show ?thesis using assms(1) by (simp add: algebra_simps)
qed

text \<open>After the bits from \<open>i\<close> on, the quotient and the rest are those of the upper part of the dividend.\<close>

lemma long_division_loop:
  fixes n d q r :: u64
  assumes d: "0 < d" "unat d \<le> 2 ^ 63"
    and "i \<le> 64" "unat q = 2 ^ i * (unat n div 2 ^ i div unat d)" "unat r = unat n div 2 ^ i mod unat d"
  shows "unat (long_division_loop i n d q r) = unat n div unat d"
  using assms(3-)
proof (induction i arbitrary: q r)
  case 0
  then show ?case by simp
next
  case (Suc i)
  let ?N = "unat n div 2 ^ i" and ?D = "unat d" and ?c = "bit n i"
  have D: "0 < ?D" using d by (simp add: word_gt_0_no unat_gt_0)
  have c: "?c \<longleftrightarrow> odd ?N"
    by (simp add: bit_unat [symmetric] bit_iff_odd)
  have N: "?N = 2 * (unat n div 2 ^ Suc i) + of_bool ?c"
    using div_mult_mod_eq [of ?N 2] by (simp add: c div_mult2_eq [symmetric] mult.commute odd_iff_mod_2_eq_one)
  let ?r = "if ?c then push_bit 1 r OR 1 else push_bit 1 r"
  have "unat r < 2 ^ 63"
    using Suc.prems(3) mod_less_divisor [OF D, of "unat n div 2 ^ Suc i"] d(2) by linarith
  then have r: "unat ?r = 2 * unat r + of_bool ?c" by (rule shift_in)
  let ?n = "unat n div 2 ^ Suc i"
  have split: "?N = ?D * (2 * (?n div ?D)) + unat ?r"
    using N r Suc.prems(3) mult_div_mod_eq [of ?D ?n] unfolding mult.left_commute [of ?D 2] by linarith
  have small: "unat ?r < 2 * ?D"
    using r Suc.prems(3) mod_less_divisor [OF D, of ?n] by simp
  have step: "long_division_loop (Suc i) n d q r =
      (if ?r \<ge> d then long_division_loop i n d (q OR push_bit i 1) (?r - d) else long_division_loop i n d q ?r)"
    by (simp only: long_division_loop.simps Let_def and_exp_ne_0)
  show ?case
  proof (cases "?r \<ge> d")
    case True
    then have sub: "unat (?r - d) = unat ?r - ?D" by (simp add: unat_sub_if' word_le_nat_alt)
    have "?N = ?D * (2 * (?n div ?D) + 1) + unat (?r - d)"
      using split True by (simp add: sub word_le_nat_alt algebra_simps)
    moreover have "unat (?r - d) < ?D" using small sub D by simp
    ultimately have "?N div ?D = 2 * (?n div ?D) + 1" "?N mod ?D = unat (?r - d)"
      using D by (simp_all add: div_nat_eqI mod_nat_eqI)
    with Suc.prems set_low_bit [OF Suc.prems(2)] True show ?thesis
      unfolding step by (simp add: Suc.IH)
  next
    case False
    then have "unat ?r < ?D" by (simp add: word_le_nat_alt)
    with split have "?N div ?D = 2 * (?n div ?D)" "?N mod ?D = unat ?r" using D by simp_all
    with Suc.prems False show ?thesis unfolding step by (simp add: Suc.IH)
  qed
qed

text \<open>C26: The 64 bit division of the baud rate computation by shifting and subtracting is the division, for every
  divisor for which the shifted rest fits into its variable.\<close>

theorem long_division_is_div:
  assumes "0 < d" "d \<le> 2 ^ 63"
  shows "long_division n d = n div d"
proof -
  have "unat d \<le> 2 ^ 63" using assms(2) by (simp add: word_le_nat_alt)
  then have "unat (long_division n d) = unat n div unat d"
    unfolding long_division_def using assms(1) u64_bound [of n]
    by (intro long_division_loop) simp_all
  then show ?thesis by (simp add: word_unat_eq_iff unat_div)
qed

theorem long_division_is_div_witness: "long_division 1000000007 12345 = 1000000007 div 12345"
  by (rule long_division_is_div) simp_all

subsection \<open>Synchronous rates\<close>

lemma sync_baud_loop_result:
  assumes "0 < f"
  shows "sync_baud_loop f clk n = Some (n + of_nat (unat clk div unat f))"
proof (induction "unat clk" arbitrary: clk n rule: less_induct)
  case less
  have F: "0 < unat f" using assms by (simp add: word_gt_0_no unat_gt_0)
  show ?case
  proof (cases "f \<le> clk")
    case True
    then have sub: "unat (clk - f) = unat clk - unat f" and le: "unat f \<le> unat clk"
      by (simp_all add: unat_sub_if' word_le_nat_alt)
    have "unat clk div unat f = unat (clk - f) div unat f + 1"
      using le F by (simp add: sub le_div_geq)
    then show ?thesis
      using less [of "clk - f" "n + 1"] sub le F True
      by (subst sync_baud_loop.simps) simp
  next
    case False
    then show ?thesis
      by (subst sync_baud_loop.simps) (simp add: word_le_nat_alt)
  qed
qed

text \<open>The divisor of a synchronous transfer is the largest one for which the rate is at least the wanted one,
  as long as the quotient fits into the 16 bit counter, and rates that need more than 256 are refused.\<close>

theorem sync_baud_largest:
  assumes "0 < f" "unat clk div 2 div unat f \<le> 65536"
  shows "sercom_get_sync_baud_val f clk old = Some (STATUS_ERR_BAUDRATE_UNAVAILABLE, old) \<and>
      unat clk div 2 div unat f \<notin> {1..256} \<or>
    (\<exists>b \<le> 255. sercom_get_sync_baud_val f clk old = Some (STATUS_OK, b) \<and>
      unat f * (unat b + 1) \<le> unat clk div 2 \<and> unat clk div 2 < unat f * (unat b + 2))"
proof -
  let ?q = "unat clk div 2 div unat f" and ?b = "of_nat (unat clk div 2 div unat f) - 1 :: u16"
  have F: "0 < unat f" using assms(1) by (simp add: word_gt_0_no unat_gt_0)
  have low: "f > clk div 2 \<longleftrightarrow> ?q = 0"
    using F by (auto simp: word_less_nat_alt unat_div div_eq_0_iff)
  have bounds: "unat f * ?q \<le> unat clk div 2" "unat clk div 2 < unat f * (?q + 1)"
    using F dividend_less_times_div [of "unat f" "unat clk div 2"] by simp_all
  have res: "sercom_get_sync_baud_val f clk old = Some (if ?q = 0 then (STATUS_ERR_BAUDRATE_UNAVAILABLE, old)
      else if ?b > 0xff then (STATUS_ERR_BAUDRATE_UNAVAILABLE, old) else (STATUS_OK, ?b))"
    using assms(1) by (simp add: sercom_get_sync_baud_val_def sync_baud_loop_result low unat_div Let_def)
  show ?thesis
  proof (cases ?q)
    case 0
    then show ?thesis by (simp add: res)
  next
    case (Suc k)
    then have b: "unat (of_nat k :: u16) = k"
      using assms(2) by (simp add: unsigned_of_nat take_bit_nat_eq_self)
    show ?thesis
    proof (cases "k \<le> 255")
      case True
      with Suc bounds show ?thesis
        unfolding res by (intro disjI2 exI [of _ ?b]) (simp add: b word_le_nat_alt word_less_nat_alt)
    next
      case False
      with Suc show ?thesis unfolding res by (simp add: b word_less_nat_alt)
    qed
  qed
qed

theorem sync_baud_wraps: "sercom_get_sync_baud_val 366 48000000 old = Some (STATUS_OK, 36)"
  by (simp add: sercom_get_sync_baud_val_def sync_baud_loop_result)

subsection \<open>Asynchronous rates\<close>

lemma div_bounds_int:
  fixes n d :: nat
  assumes "0 < d"
  shows "int (n div d) * int d \<le> int n" "int n < (int (n div d) + 1) * int d"
proof -
  have "int (n div d) * int d + int (n mod d) = int n" by (simp flip: of_nat_mult of_nat_add)
  moreover have "int (n mod d) < int d" using assms by simp
  ultimately show "int (n div d) * int d \<le> int n" "int n < (int (n div d) + 1) * int d"
    unfolding distrib_right by linarith+
qed

lemma baud_bounds:
  fixes r b c x :: int
  assumes "r * c \<le> x * 2 ^ 32" "x * 2 ^ 32 < (r + 1) * c" "0 < c"
    and "b * 2 ^ 32 \<le> 65536 * (2 ^ 32 - r)" "65536 * (2 ^ 32 - r) < (b + 1) * 2 ^ 32"
  shows "(65536 - b) * c - 65536 * x < c \<and> - c < 65536 * ((65536 - b) * c - 65536 * x)"
proof -
  have "65536 * r * c \<le> (65536 - b) * 2 ^ 32 * c" "(65536 - b) * 2 ^ 32 * c < (65536 * r + 2 ^ 32) * c"
    using assms(3-) by (auto intro!: mult_right_mono mult_strict_right_mono)
  then show ?thesis using assms(1-3) by (simp add: algebra_simps)
qed

text \<open>C15: In the arithmetic mode every rate that the clock can reach gets a divisor, and it is the nearest one that is not too
  slow, up to the rounding of the 32 fraction bits: the rate of the hardware, \<open>clock / samples * (1 - baud / 65536)\<close>,
  exceeds the wanted one by less than one step of the divisor, and falls short of it by less than the 65536th part of a step.\<close>

theorem async_baud_accurate:
  assumes "0 < f" "unat f * unat (samples num) \<le> unat clk"
  shows "\<exists>b. sercom_get_async_baud_val f clk SERCOM_ASYNC_OPERATION_MODE_ARITHMETIC num old = (STATUS_OK, b) \<and>
    (65536 - int (unat b)) * int (unat clk) - 65536 * int (unat f * unat (samples num)) < int (unat clk) \<and>
    - int (unat clk) < 65536 * ((65536 - int (unat b)) * int (unat clk) - 65536 * int (unat f * unat (samples num)))"
proof -
  let ?F = "unat f" and ?S = "unat (samples num)" and ?C = "unat clk"
  have F: "0 < ?F" using assms(1) by (simp add: word_gt_0_no unat_gt_0)
  have S: "0 < ?S" "?S \<le> 16" by (cases num; simp add: samples_def)+
  have C: "0 < ?C" "?C < 2 ^ 32" using F S assms(2) u32_bound [of clk] by (auto intro: gr0I)
  have C0: "0 < int ?C" using C(1) by (simp only: of_nat_0_less_iff)
  have fit: "\<not> f * samples num > clk"
    using assms(2) C(2) by (simp add: word_le_nat_alt unat_word_ariths not_less)
  let ?t = "push_bit 32 (ucast (samples num) * ucast f) :: u64"
  have small: "?F * ?S < 2 ^ 32" using assms(2) C(2) by simp
  have t: "unat ?t = ?F * ?S * 2 ^ 32"
    using small by (simp add: push_bit_eq_mult unat_word_ariths mult.commute)
  let ?r = "long_division ?t (ucast clk)"
  have r: "unat ?r = ?F * ?S * 2 ^ 32 div ?C"
    using t C by (simp add: long_division_is_div word_le_nat_alt unat_div word_less_nat_alt)
  have r_le: "0 < unat ?r" "unat ?r \<le> 2 ^ 32"
  proof -
    have "?C \<le> ?F * ?S * 2 ^ 32" using F S C(2) mult_le_mono [of 1 "?F * ?S" ?C "2 ^ 32"] by simp
    then show "0 < unat ?r" using C r by (simp add: div_greater_zero_iff)
    have "?F * ?S * 2 ^ 32 div ?C \<le> ?C * 2 ^ 32 div ?C" using assms(2) by (intro div_le_mono) simp
    then show "unat ?r \<le> 2 ^ 32" using C r by simp
  qed
  let ?b = "drop_bit 32 (65536 * (push_bit 32 1 - ?r))"
  have s: "unat (65536 * (push_bit 32 1 - ?r)) = 65536 * (2 ^ 32 - unat ?r)"
    using r_le by (simp add: push_bit_eq_mult unat_word_ariths unat_sub_if' word_le_nat_alt)
  then have b: "unat ?b = 65536 * (2 ^ 32 - unat ?r) div 2 ^ 32"
    by (simp only: unat_drop32)
  moreover have "65536 * (2 ^ 32 - unat ?r) div 2 ^ 32 < 65536"
    using r_le by (simp add: div_less_iff_less_mult)
  ultimately have u: "unat (ucast ?b :: u16) = 65536 * (2 ^ 32 - unat ?r) div 2 ^ 32"
    by (simp add: unsigned_ucast_eq take_bit_nat_eq_self)
  let ?x = "65536 * (2 ^ 32 - unat ?r)"
  have "int (unat ?r) * int ?C \<le> int (?F * ?S) * 2 ^ 32" "int (?F * ?S) * 2 ^ 32 < (int (unat ?r) + 1) * int ?C"
    using div_bounds_int [OF C(1), of "?F * ?S * 2 ^ 32"] unfolding r by simp_all
  moreover have "int ?x = 65536 * (2 ^ 32 - int (unat ?r))" using r_le by (simp add: of_nat_diff)
  then have "int (?x div 2 ^ 32) * 2 ^ 32 \<le> 65536 * (2 ^ 32 - int (unat ?r))"
    "65536 * (2 ^ 32 - int (unat ?r)) < (int (?x div 2 ^ 32) + 1) * 2 ^ 32"
    using div_bounds_int [of "2 ^ 32" ?x] by simp_all
  ultimately have "(65536 - int (?x div 2 ^ 32)) * int ?C - 65536 * int (?F * ?S) < int ?C \<and>
      - int ?C < 65536 * ((65536 - int (?x div 2 ^ 32)) * int ?C - 65536 * int (?F * ?S))"
    using C0 by (intro baud_bounds) simp_all
  then have "(65536 - int (unat (ucast ?b :: u16))) * int ?C - 65536 * int (?F * ?S) < int ?C \<and>
      - int ?C < 65536 * ((65536 - int (unat (ucast ?b :: u16))) * int ?C - 65536 * int (?F * ?S))"
    unfolding u .
  moreover have "sercom_get_async_baud_val f clk SERCOM_ASYNC_OPERATION_MODE_ARITHMETIC num old = (STATUS_OK, ucast ?b)"
    using fit by (simp add: sercom_get_async_baud_val_def Let_def)
  ultimately show ?thesis by blast
qed

theorem async_baud_accurate_witness:
  "sercom_get_async_baud_val 115200 48000000 SERCOM_ASYNC_OPERATION_MODE_ARITHMETIC SERCOM_ASYNC_SAMPLE_NUM_16 0 = (STATUS_OK, 63019)"
proof -
  obtain b :: u16 where b: "sercom_get_async_baud_val 115200 48000000 SERCOM_ASYNC_OPERATION_MODE_ARITHMETIC SERCOM_ASYNC_SAMPLE_NUM_16 0 =
      (STATUS_OK, b)" "(65536 - int (unat b)) * 48000000 - 65536 * (115200 * 16) < 48000000"
      "- 48000000 < 65536 * ((65536 - int (unat b)) * 48000000 - 65536 * (115200 * 16))"
    using async_baud_accurate [of 115200 SERCOM_ASYNC_SAMPLE_NUM_16 48000000 0] by (auto simp: samples_def)
  have lo: "63018 < y" if "(65536 - y) * 48000000 - 65536 * (115200 * 16) < 48000000" for y :: int
    using that by simp
  have hi: "y < 63020" if "- 48000000 < 65536 * ((65536 - y) * 48000000 - 65536 * (115200 * 16))" for y :: int
    using that by simp
  have "int (unat b) = 63019" using lo [OF b(2)] hi [OF b(3)] by linarith
  then have "uint b = uint (63019 :: u16)" by simp
  then have "b = 63019" by (simp only: unsigned_word_eqI)
  with b(1) show ?thesis by simp
qed

theorem sync_baud_largest_witness:
  "\<exists>b. sercom_get_sync_baud_val 8000000 48000000 0 = Some (STATUS_OK, b) \<and> 8000000 * (unat b + 1) \<le> 24000000"
  using sync_baud_largest [of 8000000 48000000 0] by auto

text \<open>In the fractional mode the search takes the first fraction, which is 0, as soon as the integer part fits, so
  the divisor is rounded down to a whole number and the fraction of the hardware is never used.\<close>

theorem frac_baud_drops_fraction:
  assumes "0 < f" "unat f * unat (samples num) \<le> unat clk" "unat clk div (unat f * unat (samples num)) < 8192"
  shows "sercom_get_async_baud_val f clk SERCOM_ASYNC_OPERATION_MODE_FRACTIONAL num old =
    (STATUS_OK, of_nat (unat clk div (unat f * unat (samples num))))"
proof -
  let ?F = "unat f" and ?S = "unat (samples num)" and ?C = "unat clk"
  have F: "0 < ?F * ?S" "?S \<le> 16" using assms(1) by (cases num; simp add: samples_def word_gt_0_no unat_gt_0)+
  have C: "?C < 2 ^ 32" using u32_bound [of clk] by simp
  have fit: "\<not> f * samples num > clk"
    using assms(2) C by (simp add: word_le_nat_alt unat_word_ariths not_less)
  let ?n = "of_nat BAUD_FP_MAX * ucast clk :: u64" and ?d = "ucast f * ucast (samples num) :: u64"
  have n: "unat ?n = 8 * ?C" using C by (simp add: BAUD_FP_MAX_def unat_word_ariths)
  have d: "unat ?d = ?F * ?S" using assms(2) C by (simp add: unat_word_ariths)
  have "?d \<noteq> 0" "?d \<le> 2 ^ 63" using d F assms(2) C by (auto simp: word_le_nat_alt)
  then have q: "unat (long_division ?n ?d) = 8 * ?C div (?F * ?S)"
    using n d by (simp add: long_division_is_div word_gt_0 unat_div)
  have e: "8 * ?C div (?F * ?S) div 8 = ?C div (?F * ?S)"
    by (simp add: div_mult2_eq [symmetric] mult.commute)
  then have "8 * ?C div (?F * ?S) < 65536" using assms(3) by linarith
  with q have u: "unat (ucast (long_division ?n ?d) :: u32) = 8 * ?C div (?F * ?S)"
    by (simp add: unsigned_ucast_eq take_bit_nat_eq_self)
  then have w: "ucast (long_division ?n ?d) div 8 = (of_nat (?C div (?F * ?S)) :: u32)"
    using assms(3) by (simp add: word_unat_eq_iff unat_div e unsigned_of_nat take_bit_nat_eq_self)
  moreover have "of_nat (?C div (?F * ?S)) < BAUD_INT_MAX"
    using assms(3) by (simp add: BAUD_INT_MAX_def word_less_nat_alt unsigned_of_nat take_bit_nat_eq_self)
  ultimately have "frac_baud_loop ?n ?d 0 0 = (0, of_nat (?C div (?F * ?S)))"
    by (subst frac_baud_loop.simps) (simp add: BAUD_FP_MAX_def)
  moreover have "ucast (of_nat (?C div (?F * ?S)) :: u32) = (of_nat (?C div (?F * ?S)) :: u16)"
    using assms(3) by (simp add: word_unat_eq_iff unsigned_ucast_eq unsigned_of_nat take_bit_nat_eq_self)
  ultimately show ?thesis
    using fit by (simp add: sercom_get_async_baud_val_def BAUD_FP_MAX_def)
qed

theorem frac_baud_drops_fraction_witness:
  "sercom_get_async_baud_val 115200 48000000 SERCOM_ASYNC_OPERATION_MODE_FRACTIONAL SERCOM_ASYNC_SAMPLE_NUM_16 0 = (STATUS_OK, 26)"
  using frac_baud_drops_fraction [of 115200 SERCOM_ASYNC_SAMPLE_NUM_16 48000000 0] by (simp add: samples_def)

text \<open>The first generator stays: another one is refused unless it is forced.\<close>

lemma gclk_generator_once:
  assumes "sercom_set_gclk_generator set_chan gen force s = (STATUS_OK, s')" "gen' \<noteq> gen"
  shows "sercom_set_gclk_generator set_chan gen' False s' = (STATUS_ERR_ALREADY_INITIALIZED, s')"
  using assms by (auto simp: sercom_set_gclk_generator_def split: prod.splits if_splits)

end
