(* ===== verification/Usart.thy ===== *)
theory Usart
  imports Sercom
begin

text \<open>
  The jobs and the interrupt handler of the USART driver, \<open>sam0/drivers/sercom/usart/usart_interrupt.c\<close>, for the SAMD21. A module is a record that its user
  extends. The registers that the driver alone changes are fields of it; what the hardware shows during an
  interrupt is an argument, so nothing is assumed about its order of events, and the writes to the data, status
  and flag registers are kept in a list. Buffers belong to the user of the driver: a pointer is an object of
  theirs and an offset, and \<open>usart_env\<close> reads and writes it. The polls of the synchronisation register
  have no effect and are left out.
\<close>

definition USART_FLAG_DRE :: u8 where "USART_FLAG_DRE = push_bit 0 1"
definition USART_FLAG_TXC :: u8 where "USART_FLAG_TXC = push_bit 1 1"
definition USART_FLAG_RXC :: u8 where "USART_FLAG_RXC = push_bit 2 1"
definition USART_FLAG_RXS :: u8 where "USART_FLAG_RXS = push_bit 3 1"
definition USART_FLAG_CTSIC :: u8 where "USART_FLAG_CTSIC = push_bit 4 1"
definition USART_FLAG_RXBRK :: u8 where "USART_FLAG_RXBRK = push_bit 5 1"
definition USART_STATUS_PERR :: u8 where "USART_STATUS_PERR = push_bit 0 1"
definition USART_STATUS_FERR :: u8 where "USART_STATUS_FERR = push_bit 1 1"
definition USART_STATUS_BUFOVF :: u8 where "USART_STATUS_BUFOVF = push_bit 2 1"
definition USART_STATUS_CTS :: u8 where "USART_STATUS_CTS = push_bit 3 1"
definition USART_STATUS_ISF :: u8 where "USART_STATUS_ISF = push_bit 4 1"
definition USART_STATUS_COLL :: u8 where "USART_STATUS_COLL = push_bit 5 1"
definition USART_STATUS_MASK :: u8 where "USART_STATUS_MASK = 0x3f"
definition USART_DATA_MASK :: u16 where "USART_DATA_MASK = 0x1ff"

definition USART_CALLBACK_BUFFER_TRANSMITTED :: nat where "USART_CALLBACK_BUFFER_TRANSMITTED = 0"
definition USART_CALLBACK_BUFFER_RECEIVED :: nat where "USART_CALLBACK_BUFFER_RECEIVED = 1"
definition USART_CALLBACK_ERROR :: nat where "USART_CALLBACK_ERROR = 2"
definition USART_CALLBACK_BREAK_RECEIVED :: nat where "USART_CALLBACK_BREAK_RECEIVED = 3"
definition USART_CALLBACK_CTS_INPUT_CHANGE :: nat where "USART_CALLBACK_CTS_INPUT_CHANGE = 4"
definition USART_CALLBACK_START_RECEIVED :: nat where "USART_CALLBACK_START_RECEIVED = 5"
definition USART_CALLBACK_N :: nat where "USART_CALLBACK_N = 6"

subsection \<open>State\<close>

datatype character_size = USART_CHARACTER_SIZE_5BIT | USART_CHARACTER_SIZE_6BIT | USART_CHARACTER_SIZE_7BIT
  | USART_CHARACTER_SIZE_8BIT | USART_CHARACTER_SIZE_9BIT

definition chsize :: "character_size \<Rightarrow> u32" where
  "chsize c = (case c of USART_CHARACTER_SIZE_5BIT \<Rightarrow> 5 | USART_CHARACTER_SIZE_6BIT \<Rightarrow> 6 | USART_CHARACTER_SIZE_7BIT \<Rightarrow> 7
     | USART_CHARACTER_SIZE_8BIT \<Rightarrow> 0 | USART_CHARACTER_SIZE_9BIT \<Rightarrow> 1)"

datatype usart_write = DataReg u16 | StatusReg u8 | FlagReg u8

record 'p usart_module =
  character_size :: character_size
  receiver_enabled :: bool
  transmitter_enabled :: bool
  lin_slave_enabled :: bool
  start_frame_detection_enabled :: bool
  callback :: "u32 list"
  rx_buffer_ptr :: "('p \<times> nat) option"
  tx_buffer_ptr :: "('p \<times> nat) option"
  remaining_rx_buffer_length :: u16
  remaining_tx_buffer_length :: u16
  callback_reg_mask :: u8
  callback_enable_mask :: u8
  rx_status :: status_code
  tx_status :: status_code
  intenset :: u8
  ctrla :: u32
  ctrlb :: u32
  baud_reg :: u16
  rxpl :: u8
  irq_enabled :: bool
  reg_log :: "usart_write list"

text \<open>The buffers, and the functions behind the addresses in \<open>callback\<close>; \<open>None\<close> is undefined behaviour.\<close>

record ('p, 's) usart_env =
  um_load :: "'p \<times> nat \<Rightarrow> 's \<Rightarrow> u8 option"
  um_store :: "'p \<times> nat \<Rightarrow> u8 \<Rightarrow> 's \<Rightarrow> 's option"
  um_call :: "u32 \<Rightarrow> 's \<Rightarrow> 's option"

text \<open>What the hardware shows during an interrupt.\<close>

record usart_irq =
  i_flags :: u8
  i_status :: u8
  i_data :: u16

definition irq_set :: "u8 \<Rightarrow> ('p, 'z) usart_module_scheme \<Rightarrow> ('p, 'z) usart_module_scheme" where
  "irq_set f u = u\<lparr>intenset := intenset u OR f\<rparr>"

definition irq_clr :: "u8 \<Rightarrow> ('p, 'z) usart_module_scheme \<Rightarrow> ('p, 'z) usart_module_scheme" where
  "irq_clr f u = u\<lparr>intenset := intenset u AND NOT f\<rparr>"

definition put_usart :: "usart_write \<Rightarrow> ('p, 'z) usart_module_scheme \<Rightarrow> ('p, 'z) usart_module_scheme" where
  "put_usart x u = u\<lparr>reg_log := reg_log u @ [x]\<rparr>"

subsection \<open>Callbacks\<close>

definition usart_register_callback :: "u32 \<Rightarrow> nat \<Rightarrow> ('p, 'z) usart_module_scheme \<Rightarrow> ('p, 'z) usart_module_scheme" where
  "usart_register_callback f ty u =
     u\<lparr>callback := (callback u)[ty := f], callback_reg_mask := callback_reg_mask u OR push_bit ty 1\<rparr>"

definition usart_unregister_callback :: "nat \<Rightarrow> ('p, 'z) usart_module_scheme \<Rightarrow> ('p, 'z) usart_module_scheme" where
  "usart_unregister_callback ty u =
     u\<lparr>callback := (callback u)[ty := 0], callback_reg_mask := callback_reg_mask u AND NOT (push_bit ty 1)\<rparr>"

definition usart_enable_callback :: "nat \<Rightarrow> ('p, 'z) usart_module_scheme \<Rightarrow> ('p, 'z) usart_module_scheme" where
  "usart_enable_callback ty u = u\<lparr>callback_enable_mask := callback_enable_mask u OR push_bit ty 1\<rparr>"

definition usart_disable_callback :: "nat \<Rightarrow> ('p, 'z) usart_module_scheme \<Rightarrow> ('p, 'z) usart_module_scheme" where
  "usart_disable_callback ty u = u\<lparr>callback_enable_mask := callback_enable_mask u AND NOT (push_bit ty 1)\<rparr>"

subsection \<open>Jobs\<close>

definition usart_start_write ::
    "'p \<times> nat \<Rightarrow> u16 \<Rightarrow> ('p, 'z) usart_module_scheme \<Rightarrow> status_code \<times> ('p, 'z) usart_module_scheme" where
  "usart_start_write tx_data len u =
     (if remaining_tx_buffer_length u > 0 then (STATUS_BUSY, u)
      else (STATUS_OK, irq_set USART_FLAG_DRE
              (u\<lparr>remaining_tx_buffer_length := len, tx_buffer_ptr := Some tx_data, tx_status := STATUS_BUSY\<rparr>)))"

definition usart_start_read ::
    "'p \<times> nat \<Rightarrow> u16 \<Rightarrow> ('p, 'z) usart_module_scheme \<Rightarrow> status_code \<times> ('p, 'z) usart_module_scheme" where
  "usart_start_read rx_data len u =
     (if remaining_rx_buffer_length u > 0 then (STATUS_BUSY, u)
      else let u = irq_set USART_FLAG_RXC
                     (u\<lparr>remaining_rx_buffer_length := len, rx_buffer_ptr := Some rx_data, rx_status := STATUS_BUSY\<rparr>);
               u = (if lin_slave_enabled u then irq_set USART_FLAG_RXBRK u else u);
               u = (if start_frame_detection_enabled u then irq_set USART_FLAG_RXS u else u)
           in (STATUS_OK, u))"

definition usart_write_job ::
    "'p \<times> nat \<Rightarrow> ('p, 'z) usart_module_scheme \<Rightarrow> status_code \<times> ('p, 'z) usart_module_scheme" where
  "usart_write_job tx_data u = (if \<not> transmitter_enabled u then (STATUS_ERR_DENIED, u) else usart_start_write tx_data 1 u)"

definition usart_read_job ::
    "'p \<times> nat \<Rightarrow> ('p, 'z) usart_module_scheme \<Rightarrow> status_code \<times> ('p, 'z) usart_module_scheme" where
  "usart_read_job rx_data u = usart_start_read rx_data 1 u"

definition usart_write_buffer_job ::
    "'p \<times> nat \<Rightarrow> u16 \<Rightarrow> ('p, 'z) usart_module_scheme \<Rightarrow> status_code \<times> ('p, 'z) usart_module_scheme" where
  "usart_write_buffer_job tx_data len u =
     (if len = 0 then (STATUS_ERR_INVALID_ARG, u)
      else if \<not> transmitter_enabled u then (STATUS_ERR_DENIED, u)
      else usart_start_write tx_data len u)"

definition usart_read_buffer_job ::
    "'p \<times> nat \<Rightarrow> u16 \<Rightarrow> ('p, 'z) usart_module_scheme \<Rightarrow> status_code \<times> ('p, 'z) usart_module_scheme" where
  "usart_read_buffer_job rx_data len u =
     (if len = 0 then (STATUS_ERR_INVALID_ARG, u)
      else if \<not> receiver_enabled u then (STATUS_ERR_DENIED, u)
      else usart_start_read rx_data len u)"

datatype usart_transceiver = USART_TRANSCEIVER_RX | USART_TRANSCEIVER_TX

definition usart_abort_job :: "usart_transceiver \<Rightarrow> ('p, 'z) usart_module_scheme \<Rightarrow> ('p, 'z) usart_module_scheme" where
  "usart_abort_job t u = (case t of
       USART_TRANSCEIVER_RX \<Rightarrow> put_usart (FlagReg USART_FLAG_RXC) u\<lparr>remaining_rx_buffer_length := 0\<rparr>
     | USART_TRANSCEIVER_TX \<Rightarrow> put_usart (FlagReg USART_FLAG_TXC) u\<lparr>remaining_tx_buffer_length := 0\<rparr>)"

definition usart_get_job_status :: "usart_transceiver \<Rightarrow> ('p, 'z) usart_module_scheme \<Rightarrow> status_code" where
  "usart_get_job_status t u = (case t of USART_TRANSCEIVER_RX \<Rightarrow> rx_status u | USART_TRANSCEIVER_TX \<Rightarrow> tx_status u)"

subsection \<open>The interrupt handler\<close>

definition ptr_next :: "'p \<times> nat \<Rightarrow> 'p \<times> nat" where
  "ptr_next p = (fst p, snd p + 1)"

text \<open>\<open>callback_status\<close> was computed on entry; a callback runs when its bit is set.\<close>

definition run_callback ::
    "('p, ('p, 'z) usart_module_scheme) usart_env \<Rightarrow> u8 \<Rightarrow> nat \<Rightarrow> ('p, 'z) usart_module_scheme \<Rightarrow> ('p, 'z) usart_module_scheme option" where
  "run_callback e callback_status ty u =
     (if callback_status AND push_bit ty 1 \<noteq> 0 then um_call e (callback u ! ty) u else Some u)"

definition handle_dre ::
    "('p, ('p, 'z) usart_module_scheme) usart_env \<Rightarrow> ('p, 'z) usart_module_scheme \<Rightarrow> ('p, 'z) usart_module_scheme option" where
  "handle_dre e u =
     (if remaining_tx_buffer_length u = 0 then Some (irq_clr USART_FLAG_DRE u)
      else do {
        p \<leftarrow> tx_buffer_ptr u;
        lo \<leftarrow> um_load e p u;
        let u = u\<lparr>tx_buffer_ptr := Some (ptr_next p)\<rparr>;
        (dat, u) \<leftarrow>
          (if character_size u = USART_CHARACTER_SIZE_9BIT
           then do {
             hi \<leftarrow> um_load e (ptr_next p) u;
             Some (ucast lo OR push_bit 8 (ucast hi), u\<lparr>tx_buffer_ptr := Some (ptr_next (ptr_next p))\<rparr>) }
           else Some (ucast lo, u));
        let u = put_usart (DataReg (dat AND USART_DATA_MASK)) u;
        let u = u\<lparr>remaining_tx_buffer_length := remaining_tx_buffer_length u - 1\<rparr>;
        Some (if remaining_tx_buffer_length u = 0 then irq_set USART_FLAG_TXC (irq_clr USART_FLAG_DRE u) else u) })"

definition handle_txc ::
    "('p, ('p, 'z) usart_module_scheme) usart_env \<Rightarrow> u8 \<Rightarrow> ('p, 'z) usart_module_scheme \<Rightarrow> ('p, 'z) usart_module_scheme option" where
  "handle_txc e callback_status u =
     run_callback e callback_status USART_CALLBACK_BUFFER_TRANSMITTED
       ((irq_clr USART_FLAG_TXC u)\<lparr>tx_status := STATUS_OK\<rparr>)"

text \<open>The first error found is recorded; writing the status register back clears every flag that was set.\<close>

definition rx_error ::
    "u8 \<Rightarrow> u8 \<Rightarrow> ('p, 'z) usart_module_scheme \<Rightarrow> ('p, 'z) usart_module_scheme" where
  "rx_error status error_code u =
     (let err = (\<lambda>st f. put_usart (StatusReg (status OR f)) u\<lparr>rx_status := st\<rparr>)
      in if error_code AND USART_STATUS_FERR \<noteq> 0 then err STATUS_ERR_BAD_FORMAT USART_STATUS_FERR
         else if error_code AND USART_STATUS_BUFOVF \<noteq> 0 then err STATUS_ERR_OVERFLOW USART_STATUS_BUFOVF
         else if error_code AND USART_STATUS_PERR \<noteq> 0 then err STATUS_ERR_BAD_DATA USART_STATUS_PERR
         else if error_code AND USART_STATUS_ISF \<noteq> 0 then err STATUS_ERR_PROTOCOL USART_STATUS_ISF
         else if error_code AND USART_STATUS_COLL \<noteq> 0 then err STATUS_ERR_PACKET_COLLISION USART_STATUS_COLL
         else u)"

definition rx_character ::
    "('p, ('p, 'z) usart_module_scheme) usart_env \<Rightarrow> u16 \<Rightarrow> ('p, 'z) usart_module_scheme \<Rightarrow> ('p, 'z) usart_module_scheme option" where
  "rx_character e received_data u = do {
     p \<leftarrow> rx_buffer_ptr u;
     u \<leftarrow> um_store e p (ucast received_data) u;
     let u = u\<lparr>rx_buffer_ptr := Some (ptr_next p)\<rparr>;
     (if character_size u = USART_CHARACTER_SIZE_9BIT
      then do {
        u \<leftarrow> um_store e (ptr_next p) (ucast (drop_bit 8 received_data)) u;
        Some (u\<lparr>rx_buffer_ptr := Some (ptr_next (ptr_next p))\<rparr>) }
      else Some u) }"

definition handle_rxc ::
    "('p, ('p, 'z) usart_module_scheme) usart_env \<Rightarrow> u8 \<Rightarrow> usart_irq \<Rightarrow> ('p, 'z) usart_module_scheme \<Rightarrow> ('p, 'z) usart_module_scheme option" where
  "handle_rxc e callback_status i u =
     (if remaining_rx_buffer_length u = 0 then Some (irq_clr USART_FLAG_RXC u)
      else
        let error_code = i_status i AND USART_STATUS_MASK AND NOT USART_STATUS_CTS
        in if error_code \<noteq> 0 then run_callback e callback_status USART_CALLBACK_ERROR (rx_error (i_status i) error_code u)
           else do {
             u \<leftarrow> rx_character e (i_data i AND USART_DATA_MASK) u;
             let u = u\<lparr>remaining_rx_buffer_length := remaining_rx_buffer_length u - 1\<rparr>;
             (if remaining_rx_buffer_length u = 0
              then run_callback e callback_status USART_CALLBACK_BUFFER_RECEIVED
                     ((irq_clr USART_FLAG_RXC u)\<lparr>rx_status := STATUS_OK\<rparr>)
              else Some u) })"

definition handle_other ::
    "('p, ('p, 'z) usart_module_scheme) usart_env \<Rightarrow> u8 \<Rightarrow> u8 \<Rightarrow> nat \<Rightarrow> ('p, 'z) usart_module_scheme \<Rightarrow> ('p, 'z) usart_module_scheme option" where
  "handle_other e callback_status flag ty u =
     run_callback e callback_status ty (put_usart (FlagReg flag) (irq_clr flag u))"

definition usart_interrupt_handler ::
    "('p, ('p, 'z) usart_module_scheme) usart_env \<Rightarrow> usart_irq \<Rightarrow> ('p, 'z) usart_module_scheme \<Rightarrow> ('p, 'z) usart_module_scheme option" where
  "usart_interrupt_handler e i u =
     (let interrupt_status = i_flags i AND intenset u;
          callback_status = callback_reg_mask u AND callback_enable_mask u;
          on = (\<lambda>f h u. if interrupt_status AND f \<noteq> 0 then h u else Some u)
      in do {
        u \<leftarrow> on USART_FLAG_DRE (handle_dre e) u;
        u \<leftarrow> on USART_FLAG_TXC (handle_txc e callback_status) u;
        u \<leftarrow> on USART_FLAG_RXC (handle_rxc e callback_status i) u;
        u \<leftarrow> on USART_FLAG_CTSIC (handle_other e callback_status USART_FLAG_CTSIC USART_CALLBACK_CTS_INPUT_CHANGE) u;
        u \<leftarrow> on USART_FLAG_RXBRK (handle_other e callback_status USART_FLAG_RXBRK USART_CALLBACK_BREAK_RECEIVED) u;
        on USART_FLAG_RXS (handle_other e callback_status USART_FLAG_RXS USART_CALLBACK_START_RECEIVED) u })"

end
