(* ===== verification/Usart_Config.thy ===== *)
theory Usart_Config
  imports Usart
begin

text \<open>
  Setting up and enabling a USART (\<open>usart.c\<close>, \<open>usart.h\<close>): the control registers computed from a configuration, and
  the blocking write. The index of the instance, the frequencies of the clocks and the presence of a
  debugger are arguments; the clocks and pins that the functions switch on belong to other drivers and are not part
  of the state.
\<close>

definition CTRLA_SWRST :: u32 where "CTRLA_SWRST = push_bit 0 1"
definition CTRLA_ENABLE :: u32 where "CTRLA_ENABLE = push_bit 1 1"
definition CTRLA_RUNSTDBY :: u32 where "CTRLA_RUNSTDBY = push_bit 7 1"
definition CTRLA_MODE :: "u32 \<Rightarrow> u32" where "CTRLA_MODE v = push_bit 2 v AND push_bit 2 7"
definition CTRLA_FORM :: "u32 \<Rightarrow> u32" where "CTRLA_FORM v = push_bit 24 v AND push_bit 24 0xf"
definition SERCOM0_GCLK_ID_CORE :: nat where "SERCOM0_GCLK_ID_CORE = 20"

datatype usart_transfer_mode = USART_TRANSFER_SYNCHRONOUSLY | USART_TRANSFER_ASYNCHRONOUSLY
datatype usart_parity = USART_PARITY_ODD | USART_PARITY_EVEN | USART_PARITY_NONE
datatype usart_sample_rate = USART_SAMPLE_RATE_16X_ARITHMETIC | USART_SAMPLE_RATE_16X_FRACTIONAL
  | USART_SAMPLE_RATE_8X_ARITHMETIC | USART_SAMPLE_RATE_8X_FRACTIONAL | USART_SAMPLE_RATE_3X_ARITHMETIC

definition transfer_bits :: "usart_transfer_mode \<Rightarrow> u32" where
  "transfer_bits m = (case m of USART_TRANSFER_SYNCHRONOUSLY \<Rightarrow> push_bit 28 1 | USART_TRANSFER_ASYNCHRONOUSLY \<Rightarrow> 0)"

definition parity_bits :: "usart_parity \<Rightarrow> u32" where
  "parity_bits p = (case p of USART_PARITY_ODD \<Rightarrow> push_bit 13 1 | USART_PARITY_EVEN \<Rightarrow> 0 | USART_PARITY_NONE \<Rightarrow> 0xff)"

definition sample_bits :: "usart_sample_rate \<Rightarrow> u32" where
  "sample_bits r = push_bit 13 (case r of USART_SAMPLE_RATE_16X_ARITHMETIC \<Rightarrow> 0 | USART_SAMPLE_RATE_16X_FRACTIONAL \<Rightarrow> 1
     | USART_SAMPLE_RATE_8X_ARITHMETIC \<Rightarrow> 2 | USART_SAMPLE_RATE_8X_FRACTIONAL \<Rightarrow> 3 | USART_SAMPLE_RATE_3X_ARITHMETIC \<Rightarrow> 4)"

definition USART_DATAORDER_LSB :: u32 where "USART_DATAORDER_LSB = push_bit 30 1"
definition USART_STOPBITS_1 :: u32 where "USART_STOPBITS_1 = 0"
definition USART_STOPBITS_2 :: u32 where "USART_STOPBITS_2 = push_bit 6 1"
definition USART_RX_1_TX_2_XCK_3 :: u32 where "USART_RX_1_TX_2_XCK_3 = push_bit 20 1 OR push_bit 16 1"

record usart_config =
  cfg_data_order :: u32
  cfg_transfer_mode :: usart_transfer_mode
  cfg_parity :: usart_parity
  cfg_stopbits :: u32
  cfg_character_size :: character_size
  cfg_mux_setting :: u32
  cfg_sample_rate :: usart_sample_rate
  cfg_sample_adjustment :: u32
  cfg_immediate_overflow :: bool
  cfg_encoding_format :: bool
  cfg_receive_pulse_length :: u8
  cfg_lin_slave :: bool
  cfg_start_frame_detection :: bool
  cfg_collision_detection :: bool
  cfg_baudrate :: u32
  cfg_receiver :: bool
  cfg_transmitter :: bool
  cfg_clock_polarity_inverted :: bool
  cfg_use_external_clock :: bool
  cfg_ext_clock_freq :: u32
  cfg_run_in_standby :: bool

definition usart_get_config_defaults :: usart_config where
  "usart_get_config_defaults =
     \<lparr>cfg_data_order = USART_DATAORDER_LSB, cfg_transfer_mode = USART_TRANSFER_ASYNCHRONOUSLY, cfg_parity = USART_PARITY_NONE,
      cfg_stopbits = USART_STOPBITS_1, cfg_character_size = USART_CHARACTER_SIZE_8BIT, cfg_mux_setting = USART_RX_1_TX_2_XCK_3,
      cfg_sample_rate = USART_SAMPLE_RATE_16X_ARITHMETIC, cfg_sample_adjustment = 0, cfg_immediate_overflow = False,
      cfg_encoding_format = False, cfg_receive_pulse_length = 19, cfg_lin_slave = False, cfg_start_frame_detection = False,
      cfg_collision_detection = False, cfg_baudrate = 9600, cfg_receiver = True, cfg_transmitter = True,
      cfg_clock_polarity_inverted = False, cfg_use_external_clock = False, cfg_ext_clock_freq = 0, cfg_run_in_standby = False\<rparr>"

record usart_par =
  gclk_chan_hz :: "nat \<Rightarrow> u32"
  debugger_present :: bool

definition sample_mode :: "usart_sample_rate \<Rightarrow> async_mode \<times> sample_num" where
  "sample_mode r = (case r of
       USART_SAMPLE_RATE_16X_ARITHMETIC \<Rightarrow> (SERCOM_ASYNC_OPERATION_MODE_ARITHMETIC, SERCOM_ASYNC_SAMPLE_NUM_16)
     | USART_SAMPLE_RATE_8X_ARITHMETIC \<Rightarrow> (SERCOM_ASYNC_OPERATION_MODE_ARITHMETIC, SERCOM_ASYNC_SAMPLE_NUM_8)
     | USART_SAMPLE_RATE_3X_ARITHMETIC \<Rightarrow> (SERCOM_ASYNC_OPERATION_MODE_ARITHMETIC, SERCOM_ASYNC_SAMPLE_NUM_3)
     | USART_SAMPLE_RATE_16X_FRACTIONAL \<Rightarrow> (SERCOM_ASYNC_OPERATION_MODE_FRACTIONAL, SERCOM_ASYNC_SAMPLE_NUM_16)
     | USART_SAMPLE_RATE_8X_FRACTIONAL \<Rightarrow> (SERCOM_ASYNC_OPERATION_MODE_FRACTIONAL, SERCOM_ASYNC_SAMPLE_NUM_8))"

definition flag_at :: "nat \<Rightarrow> bool \<Rightarrow> u32" where
  "flag_at n b = push_bit n (of_bool b)"

definition usart_baud :: "usart_par \<Rightarrow> nat \<Rightarrow> usart_config \<Rightarrow> (status_code \<times> u16) option" where
  "usart_baud p gclk_index config =
     (case cfg_transfer_mode config of
        USART_TRANSFER_SYNCHRONOUSLY \<Rightarrow>
          if cfg_use_external_clock config then Some (STATUS_OK, 0)
          else sercom_get_sync_baud_val (cfg_baudrate config) (gclk_chan_hz p gclk_index) 0
      | USART_TRANSFER_ASYNCHRONOUSLY \<Rightarrow>
          (case sample_mode (cfg_sample_rate config) of (mode, num) \<Rightarrow>
             Some (sercom_get_async_baud_val (cfg_baudrate config)
                     (if cfg_use_external_clock config then cfg_ext_clock_freq config else gclk_chan_hz p gclk_index) mode num 0)))"

definition usart_ctrla :: "usart_par \<Rightarrow> usart_config \<Rightarrow> u32" where
  "usart_ctrla p config =
     cfg_data_order config OR cfg_mux_setting config OR cfg_sample_adjustment config OR sample_bits (cfg_sample_rate config)
       OR flag_at 8 (cfg_immediate_overflow config) OR flag_at 29 (cfg_clock_polarity_inverted config)
       OR transfer_bits (cfg_transfer_mode config)
       OR CTRLA_MODE (if cfg_use_external_clock config then 0 else 1)
       OR CTRLA_FORM (if cfg_parity config \<noteq> USART_PARITY_NONE then 1 else if cfg_lin_slave config then 4 else 0)
       OR (if cfg_run_in_standby config \<or> debugger_present p then CTRLA_RUNSTDBY else 0)"

definition usart_ctrlb :: "usart_config \<Rightarrow> u32" where
  "usart_ctrlb config =
     flag_at 10 (cfg_encoding_format config) OR flag_at 9 (cfg_start_frame_detection config)
       OR flag_at 8 (cfg_collision_detection config) OR flag_at 17 (cfg_receiver config) OR flag_at 16 (cfg_transmitter config)
       OR chsize (cfg_character_size config)
       OR (if cfg_parity config \<noteq> USART_PARITY_NONE then parity_bits (cfg_parity config) else 0)"

definition usart_set_config ::
    "usart_par \<Rightarrow> nat \<Rightarrow> usart_config \<Rightarrow> ('p, 'z) usart_module_scheme \<Rightarrow> (status_code \<times> ('p, 'z) usart_module_scheme) option" where
  "usart_set_config p sercom_index config u = do {
     (st, baud) \<leftarrow> usart_baud p (sercom_index + SERCOM0_GCLK_ID_CORE) config;
     Some (if st \<noteq> STATUS_OK then (st, u)
           else let u = (if cfg_encoding_format config then u\<lparr>rxpl := cfg_receive_pulse_length config\<rparr> else u)
                in (STATUS_OK, u\<lparr>baud_reg := baud, ctrlb := usart_ctrlb config, ctrla := usart_ctrla p config\<rparr>)) }"

definition usart_init ::
    "usart_par \<Rightarrow> nat \<Rightarrow> usart_config \<Rightarrow> ('p, 'z) usart_module_scheme \<Rightarrow> (status_code \<times> ('p, 'z) usart_module_scheme) option" where
  "usart_init p sercom_index config u =
     (if ctrla u AND CTRLA_SWRST \<noteq> 0 then Some (STATUS_BUSY, u)
      else if ctrla u AND CTRLA_ENABLE \<noteq> 0 then Some (STATUS_ERR_DENIED, u)
      else do {
        (st, u) \<leftarrow> usart_set_config p sercom_index config
          (u\<lparr>character_size := cfg_character_size config, receiver_enabled := cfg_receiver config,
             transmitter_enabled := cfg_transmitter config, lin_slave_enabled := cfg_lin_slave config,
             start_frame_detection_enabled := cfg_start_frame_detection config\<rparr>);
        Some (if st \<noteq> STATUS_OK then (st, u)
              else (STATUS_OK, u\<lparr>callback := replicate USART_CALLBACK_N 0, tx_buffer_ptr := None, rx_buffer_ptr := None,
                     remaining_tx_buffer_length := 0, remaining_rx_buffer_length := 0, callback_reg_mask := 0,
                     callback_enable_mask := 0, rx_status := STATUS_OK, tx_status := STATUS_OK\<rparr>)) })"

definition usart_enable :: "('p, 'z) usart_module_scheme \<Rightarrow> ('p, 'z) usart_module_scheme" where
  "usart_enable u = u\<lparr>irq_enabled := True, ctrla := ctrla u OR CTRLA_ENABLE\<rparr>"

definition usart_disable :: "('p, 'z) usart_module_scheme \<Rightarrow> ('p, 'z) usart_module_scheme" where
  "usart_disable u = u\<lparr>irq_enabled := False, ctrla := ctrla u AND NOT CTRLA_ENABLE\<rparr>"

subsection \<open>The blocking write\<close>

text \<open>The interrupts that come in while a function waits; the processor takes them while they are enabled.\<close>

fun usart_irqs ::
    "('p, ('p, 'z) usart_module_scheme) usart_env \<Rightarrow> usart_irq list \<Rightarrow> ('p, 'z) usart_module_scheme \<Rightarrow> ('p, 'z) usart_module_scheme option" where
  "usart_irqs e [] u = Some u"
| "usart_irqs e (i # is) u =
     (if irq_enabled u then usart_interrupt_handler e i u \<bind> usart_irqs e is else usart_irqs e is u)"

text \<open>\<open>is\<close>: the interrupts taken until the flag of the completed transmission is seen.\<close>

definition usart_write_wait ::
    "('p, ('p, 'z) usart_module_scheme) usart_env \<Rightarrow> usart_irq list \<Rightarrow> u16 \<Rightarrow> ('p, 'z) usart_module_scheme
     \<Rightarrow> (status_code \<times> ('p, 'z) usart_module_scheme) option" where
  "usart_write_wait e is tx_data u =
     (if \<not> transmitter_enabled u then Some (STATUS_ERR_DENIED, u)
      else if remaining_tx_buffer_length u > 0 then Some (STATUS_BUSY, u)
      else map_option (Pair STATUS_OK) (usart_irqs e is (put_usart (DataReg tx_data) u)))"

end
