(* ===== verification/Hal_Uart.thy ===== *)
theory Hal_Uart
  imports Usart_Config
begin

text \<open>
  The UARTs of the hardware layer, \<open>hal_uart.c\<close>, on top of the USART driver. \<open>struct hal_uart\<close> has the driver's module
  at its top, which is the extension of the record here; its two buffers are the objects that the driver's
  pointers point to. The functions of the client are given by \<open>uart_client\<close>: they may change the whole
  port. \<open>u_app\<close> is what they work on.
\<close>

definition UART_CNT :: int where "UART_CNT = 6"
definition TX_BUFFER_SIZE :: nat where "TX_BUFFER_SIZE = 8"

record samd21_uart_config =
  suc_sercom :: nat
  suc_mux_setting :: u32
  suc_sample_rate :: usart_sample_rate
  suc_sample_adjustment :: u32

datatype uart_buf = TxData | RxData

record 'a hal_uart = "uart_buf usart_module" +
  u_open :: bool
  tx_on :: bool
  rxdata :: "u8 list"
  txdata :: "u8 list"
  u_rx_func :: u32
  u_tx_func :: u32
  u_tx_done :: u32
  u_func_arg :: u32
  u_cfg :: "samd21_uart_config option"
  u_app :: 'a

record 'a uart_client =
  c_tx_char :: "u32 \<Rightarrow> u32 \<Rightarrow> 'a hal_uart \<Rightarrow> (int \<times> 'a hal_uart) option"
  c_tx_done :: "u32 \<Rightarrow> u32 \<Rightarrow> 'a hal_uart \<Rightarrow> 'a hal_uart option"
  c_rx_char :: "u32 \<Rightarrow> u32 \<Rightarrow> u8 \<Rightarrow> 'a hal_uart \<Rightarrow> 'a hal_uart option"

definition uart_load :: "uart_buf \<times> nat \<Rightarrow> 'a hal_uart \<Rightarrow> u8 option" where
  "uart_load p u = (case p of (TxData, i) \<Rightarrow> mem_read (txdata u) i | (RxData, i) \<Rightarrow> mem_read (rxdata u) i)"

definition uart_store :: "uart_buf \<times> nat \<Rightarrow> u8 \<Rightarrow> 'a hal_uart \<Rightarrow> 'a hal_uart option" where
  "uart_store p b u = (case p of
       (TxData, i) \<Rightarrow> map_option (\<lambda>m. u\<lparr>txdata := m\<rparr>) (mem_write (txdata u) i b)
     | (RxData, i) \<Rightarrow> map_option (\<lambda>m. u\<lparr>rxdata := m\<rparr>) (mem_write (rxdata u) i b))"

subsection \<open>Callbacks of the driver\<close>

text \<open>Slot \<open>i\<close> is filled when \<open>TX_BUFFER_SIZE - i\<close> are left.\<close>

fun fill_tx_loop :: "'a uart_client \<Rightarrow> nat \<Rightarrow> 'a hal_uart \<Rightarrow> (nat \<times> 'a hal_uart) option" where
  "fill_tx_loop c 0 u = Some (TX_BUFFER_SIZE, u)"
| "fill_tx_loop c (Suc k) u = do {
     (val, u) \<leftarrow> c_tx_char c (u_tx_func u) (u_func_arg u) u;
     (if val < 0 then Some (TX_BUFFER_SIZE - Suc k, u)
      else do {
        m \<leftarrow> mem_write (txdata u) (TX_BUFFER_SIZE - Suc k) (word_of_int val);
        fill_tx_loop c k (u\<lparr>txdata := m\<rparr>) }) }"

definition fill_tx_buf :: "'a uart_client \<Rightarrow> 'a hal_uart \<Rightarrow> (nat \<times> 'a hal_uart) option" where
  "fill_tx_buf c u = fill_tx_loop c TX_BUFFER_SIZE u"

definition usart_callback_txdone :: "'a uart_client \<Rightarrow> 'a hal_uart \<Rightarrow> 'a hal_uart option" where
  "usart_callback_txdone c u =
     (if \<not> u_open u then Some u
      else do {
        (sz, u) \<leftarrow> fill_tx_buf c u;
        (if sz > 0 then Some (snd (usart_write_buffer_job (TxData, 0) (of_nat sz) (u\<lparr>tx_on := True\<rparr>)))
         else let u = u\<lparr>tx_on := False\<rparr>
              in if u_tx_done u \<noteq> 0 then c_tx_done c (u_tx_done u) (u_func_arg u) u else Some u) })"

definition usart_callback_rx :: "'a uart_client \<Rightarrow> 'a hal_uart \<Rightarrow> 'a hal_uart option" where
  "usart_callback_rx c u =
     (if \<not> u_open u then Some u
      else do {
        u \<leftarrow> (if u_rx_func u \<noteq> 0
              then do { b \<leftarrow> mem_read (rxdata u) 0; c_rx_char c (u_rx_func u) (u_func_arg u) b u }
              else Some u);
        Some (snd (usart_read_job (RxData, 0) u)) })"

text \<open>The addresses of the two callbacks, and the environment they give the driver.\<close>

definition txdone_ptr :: u32 where "txdone_ptr = 1"
definition rx_ptr :: u32 where "rx_ptr = 2"

definition uart_env :: "'a uart_client \<Rightarrow> (uart_buf, 'a hal_uart) usart_env" where
  "uart_env c = \<lparr>um_load = uart_load, um_store = uart_store,
     um_call = (\<lambda>f u. if f = txdone_ptr then usart_callback_txdone c u
                       else if f = rx_ptr then usart_callback_rx c u else None)\<rparr>"

definition uart_irq :: "'a uart_client \<Rightarrow> usart_irq \<Rightarrow> 'a hal_uart \<Rightarrow> 'a hal_uart option" where
  "uart_irq c i u = usart_irqs (uart_env c) [i] u"

subsection \<open>Operations on a port\<close>

definition port_start_rx :: "'a hal_uart \<Rightarrow> 'a hal_uart" where
  "port_start_rx u = (if \<not> u_open u then u else snd (usart_read_job (RxData, 0) u))"

definition port_start_tx :: "'a uart_client \<Rightarrow> 'a hal_uart \<Rightarrow> 'a hal_uart option" where
  "port_start_tx c u =
     (if \<not> u_open u \<or> tx_on u then Some u
      else if u_tx_func u \<noteq> 0
      then do {
        (sz, u) \<leftarrow> fill_tx_buf c u;
        Some (if sz > 0 then snd (usart_write_buffer_job (TxData, 0) (of_nat sz) (u\<lparr>tx_on := True\<rparr>)) else u) }
      else Some u)"

text \<open>\<open>pre\<close> and \<open>mid\<close>: the interrupts before the driver looks at the port and during its wait.\<close>

definition port_blocking_tx :: "'a uart_client \<Rightarrow> usart_irq list \<Rightarrow> usart_irq list \<Rightarrow> u8 \<Rightarrow> 'a hal_uart \<Rightarrow> 'a hal_uart option" where
  "port_blocking_tx c pre mid dat u =
     (if \<not> u_open u then Some u
      else do {
        u \<leftarrow> usart_irqs (uart_env c) pre (usart_disable_callback USART_CALLBACK_BUFFER_TRANSMITTED u);
        (_, u) \<leftarrow> usart_write_wait (uart_env c) mid (ucast dat) u;
        Some (usart_enable_callback USART_CALLBACK_BUFFER_TRANSMITTED u) })"

text \<open>The arguments of \<open>hal_uart_config\<close> that are enums come as numbers; \<open>None\<close>: a value that is refused.\<close>

datatype hal_uart_parity = HAL_UART_PARITY_NONE | HAL_UART_PARITY_ODD | HAL_UART_PARITY_EVEN | UART_PARITY_OTHER
datatype hal_uart_flow_ctl = HAL_UART_FLOW_CTL_NONE | HAL_UART_FLOW_CTL_RTS_CTS | UART_FLOW_OTHER

definition uart_databits :: "u8 \<Rightarrow> character_size option" where
  "uart_databits n =
     (if n = 5 then Some USART_CHARACTER_SIZE_5BIT else if n = 6 then Some USART_CHARACTER_SIZE_6BIT
      else if n = 7 then Some USART_CHARACTER_SIZE_7BIT else if n = 8 then Some USART_CHARACTER_SIZE_8BIT
      else if n = 9 then Some USART_CHARACTER_SIZE_9BIT else None)"

definition uart_parity :: "hal_uart_parity \<Rightarrow> usart_parity option" where
  "uart_parity p = (case p of HAL_UART_PARITY_NONE \<Rightarrow> Some USART_PARITY_NONE | HAL_UART_PARITY_ODD \<Rightarrow> Some USART_PARITY_ODD
     | HAL_UART_PARITY_EVEN \<Rightarrow> Some USART_PARITY_EVEN | UART_PARITY_OTHER \<Rightarrow> None)"

definition uart_stopbits :: "u8 \<Rightarrow> u32 option" where
  "uart_stopbits n = (if n = 1 then Some USART_STOPBITS_1 else if n = 2 then Some USART_STOPBITS_2 else None)"

definition uart_usart_config ::
    "samd21_uart_config \<Rightarrow> u32 \<Rightarrow> u8 \<Rightarrow> u8 \<Rightarrow> hal_uart_parity \<Rightarrow> hal_uart_flow_ctl \<Rightarrow> usart_config option" where
  "uart_usart_config cfg baudrate databits stopbits parity flow_ctl = do {
     size \<leftarrow> uart_databits databits;
     par \<leftarrow> uart_parity parity;
     stop \<leftarrow> uart_stopbits stopbits;
     (if flow_ctl = UART_FLOW_OTHER then None
      else Some (usart_get_config_defaults\<lparr>cfg_baudrate := baudrate, cfg_transfer_mode := USART_TRANSFER_ASYNCHRONOUSLY,
             cfg_character_size := size, cfg_parity := par, cfg_stopbits := stop, cfg_mux_setting := suc_mux_setting cfg,
             cfg_sample_adjustment := suc_sample_adjustment cfg, cfg_sample_rate := suc_sample_rate cfg\<rparr>)) }"

text \<open>\<open>CTRLA.SWRST\<close> is set and polled a hundred times; \<open>finished\<close>: the reset, which clears the registers, was seen.\<close>

definition port_reset :: "bool \<Rightarrow> 'a hal_uart \<Rightarrow> 'a hal_uart" where
  "port_reset finished u =
     (if finished then u\<lparr>ctrla := 0, ctrlb := 0, baud_reg := 0, rxpl := 0, intenset := 0\<rparr>
      else u\<lparr>ctrla := ctrla u AND NOT CTRLA_ENABLE OR CTRLA_SWRST\<rparr>)"

definition port_config ::
    "usart_par \<Rightarrow> bool \<Rightarrow> u32 \<Rightarrow> u8 \<Rightarrow> u8 \<Rightarrow> hal_uart_parity \<Rightarrow> hal_uart_flow_ctl \<Rightarrow> 'a hal_uart \<Rightarrow> (int \<times> 'a hal_uart) option" where
  "port_config p finished baudrate databits stopbits parity flow_ctl u =
     (if u_open u then Some (-1, u)
      else case u_cfg u of None \<Rightarrow> Some (-1, u)
       | Some cfg \<Rightarrow>
           (case uart_usart_config cfg baudrate databits stopbits parity flow_ctl of None \<Rightarrow> Some (-1, u)
            | Some config \<Rightarrow> do {
                (st, u) \<leftarrow> usart_init p (suc_sercom cfg) config (port_reset finished u);
                Some (if st \<noteq> STATUS_OK then (-1, u)
                      else let u = usart_register_callback txdone_ptr USART_CALLBACK_BUFFER_TRANSMITTED u;
                               u = usart_register_callback rx_ptr USART_CALLBACK_BUFFER_RECEIVED u;
                               u = usart_enable_callback USART_CALLBACK_BUFFER_TRANSMITTED u;
                               u = usart_enable_callback USART_CALLBACK_BUFFER_RECEIVED u
                           in (0, port_start_rx ((usart_enable u)\<lparr>u_open := True\<rparr>))) }))"

definition port_close :: "'a hal_uart \<Rightarrow> 'a hal_uart" where
  "port_close u =
     usart_disable (usart_disable_callback USART_CALLBACK_BUFFER_RECEIVED
       (usart_disable_callback USART_CALLBACK_BUFFER_TRANSMITTED u))"

subsection \<open>The interface\<close>

text \<open>The functions take the number of a port; they differ in whether they check it. An access outside the array
  of ports is \<open>None\<close>; computing the address alone is not an access.\<close>

definition on_uart :: "int \<Rightarrow> ('a hal_uart \<Rightarrow> ('r \<times> 'a hal_uart) option) \<Rightarrow> 'a hal_uart list \<Rightarrow> ('r \<times> 'a hal_uart list) option" where
  "on_uart port f us =
     (if port < 0 \<or> nat port \<ge> length us then None
      else map_option (\<lambda>(r, u). (r, us[nat port := u])) (f (us ! nat port)))"

definition void :: "'s \<Rightarrow> unit \<times> 's" where
  "void s = ((), s)"

definition hal_uart_init :: "int \<Rightarrow> samd21_uart_config option \<Rightarrow> 'a hal_uart list \<Rightarrow> (int \<times> 'a hal_uart list) option" where
  "hal_uart_init port arg us =
     (if port \<ge> UART_CNT then Some (-1, us) else on_uart port (\<lambda>u. Some (0, u\<lparr>u_cfg := arg\<rparr>)) us)"

definition hal_uart_init_cbs ::
    "int \<Rightarrow> u32 \<Rightarrow> u32 \<Rightarrow> u32 \<Rightarrow> u32 \<Rightarrow> 'a hal_uart list \<Rightarrow> (int \<times> 'a hal_uart list) option" where
  "hal_uart_init_cbs port tx_func tx_done rx_func arg us =
     (if port \<ge> UART_CNT then Some (-1, us)
      else on_uart port (\<lambda>u. Some (if u_open u then (-1, u)
             else (0, u\<lparr>u_rx_func := rx_func, u_tx_func := tx_func, u_tx_done := tx_done, u_func_arg := arg\<rparr>))) us)"

definition hal_uart_start_rx :: "int \<Rightarrow> 'a hal_uart list \<Rightarrow> (unit \<times> 'a hal_uart list) option" where
  "hal_uart_start_rx port us =
     (if port \<ge> UART_CNT then Some ((), us) else on_uart port (\<lambda>u. Some (void (port_start_rx u))) us)"

definition hal_uart_start_tx :: "'a uart_client \<Rightarrow> int \<Rightarrow> 'a hal_uart list \<Rightarrow> (unit \<times> 'a hal_uart list) option" where
  "hal_uart_start_tx c port us =
     (if port \<ge> UART_CNT then Some ((), us) else on_uart port (\<lambda>u. map_option void (port_start_tx c u)) us)"

definition hal_uart_blocking_tx ::
    "'a uart_client \<Rightarrow> usart_irq list \<Rightarrow> usart_irq list \<Rightarrow> int \<Rightarrow> u8 \<Rightarrow> 'a hal_uart list \<Rightarrow> (unit \<times> 'a hal_uart list) option" where
  "hal_uart_blocking_tx c pre mid port dat us = on_uart port (\<lambda>u. map_option void (port_blocking_tx c pre mid dat u)) us"

definition hal_uart_config ::
    "usart_par \<Rightarrow> bool \<Rightarrow> int \<Rightarrow> u32 \<Rightarrow> u8 \<Rightarrow> u8 \<Rightarrow> hal_uart_parity \<Rightarrow> hal_uart_flow_ctl \<Rightarrow> 'a hal_uart list \<Rightarrow> (int \<times> 'a hal_uart list) option" where
  "hal_uart_config p finished port baudrate databits stopbits parity flow_ctl us =
     on_uart port (port_config p finished baudrate databits stopbits parity flow_ctl) us"

definition hal_uart_close :: "int \<Rightarrow> 'a hal_uart list \<Rightarrow> (int \<times> 'a hal_uart list) option" where
  "hal_uart_close port us = on_uart port (\<lambda>u. Some (0, port_close u)) us"

end
