(* ===== verification/Uart_Props.thy ===== *)
theory Uart_Props
  imports Hal_Uart Espduino
begin

text \<open>
  The UART of the hardware layer as a pair of byte streams: whatever the hardware shows at its interrupts, the
  bytes that the client queued leave the port once and in order, and every character received without an error
  reaches the client. The contract of the client is a locale, and the bridge driver of \<open>espduino.c\<close> fulfils it.
\<close>

subsection \<open>The contract of a client\<close>

text \<open>\<open>queue\<close>: the bytes it still wants to send, \<open>heard\<close>: those it was given. Its functions change nothing else.\<close>

locale uart_stream =
  fixes c :: "'a uart_client" and ok :: "'a \<Rightarrow> bool" and queue :: "'a \<Rightarrow> u8 list" and heard :: "'a \<Rightarrow> u8 list"
  assumes tx_char: "ok (u_app u) \<Longrightarrow> \<exists>v a. c_tx_char c f x u = Some (v, u\<lparr>u_app := a\<rparr>) \<and> ok a \<and> heard a = heard (u_app u) \<and>
      (case queue (u_app u) of [] \<Rightarrow> v < 0 \<and> queue a = [] | b # bs \<Rightarrow> v = uint b \<and> queue a = bs)"
    and rx_char: "ok (u_app u) \<Longrightarrow> \<exists>a. c_rx_char c f x b u = Some (u\<lparr>u_app := a\<rparr>) \<and> ok a \<and>
      queue a = queue (u_app u) \<and> heard a = heard (u_app u) @ [b]"
    and tx_done: "ok (u_app u) \<Longrightarrow> \<exists>a. c_tx_done c f x u = Some (u\<lparr>u_app := a\<rparr>) \<and> ok a \<and>
      queue a = queue (u_app u) \<and> heard a = heard (u_app u)"

subsection \<open>The port between two interrupts\<close>

definition port_open :: "'a hal_uart \<Rightarrow> bool" where
  "port_open u \<longleftrightarrow> u_open u \<and> irq_enabled u \<and> transmitter_enabled u \<and> character_size u \<noteq> USART_CHARACTER_SIZE_9BIT \<and>
     \<not> lin_slave_enabled u \<and> \<not> start_frame_detection_enabled u \<and>
     length (txdata u) = 8 \<and> length (rxdata u) = 2 \<and> u_tx_func u \<noteq> 0 \<and> u_rx_func u \<noteq> 0 \<and>
     callback u = [txdone_ptr, rx_ptr, 0, 0, 0, 0] \<and> callback_reg_mask u = 3 \<and> callback_enable_mask u = 3"

definition sending :: "'a hal_uart \<Rightarrow> bool" where
  "sending u \<longleftrightarrow> remaining_tx_buffer_length u \<noteq> 0"

definition tx_inv :: "'a hal_uart \<Rightarrow> bool" where
  "tx_inv u \<longleftrightarrow> (sending u \<longrightarrow> tx_on u \<and>
     (\<exists>i. tx_buffer_ptr u = Some (TxData, i) \<and> i + unat (remaining_tx_buffer_length u) \<le> 8))"

definition flags_inv :: "'a hal_uart \<Rightarrow> bool" where
  "flags_inv u \<longleftrightarrow> intenset u = (if sending u then 5 else if tx_on u then 6 else 4) \<and>
     remaining_rx_buffer_length u = 1 \<and> rx_buffer_ptr u = Some (RxData, 0)"

definition port_inv :: "'a hal_uart \<Rightarrow> bool" where
  "port_inv u \<longleftrightarrow> port_open u \<and> tx_inv u \<and> flags_inv u"

text \<open>The bytes written to the data register, and those of the buffer still to be written.\<close>

definition wire :: "'a hal_uart \<Rightarrow> u8 list" where
  "wire u = concat (map (\<lambda>x. case x of DataReg w \<Rightarrow> [ucast w] | _ \<Rightarrow> []) (reg_log u))"

definition unsent :: "'a hal_uart \<Rightarrow> u8 list" where
  "unsent u = (case tx_buffer_ptr u of Some (TxData, i) \<Rightarrow> take (unat (remaining_tx_buffer_length u)) (drop i (txdata u)) | _ \<Rightarrow> [])"

definition stream :: "'a hal_uart \<Rightarrow> u8 list" where
  "stream u = wire u @ (if sending u then unsent u else [])"

lemmas port_defs = port_inv_def port_open_def tx_inv_def flags_inv_def

subsection \<open>Writing the buffer out\<close>

lemma data_mask: "USART_DATA_MASK = mask 9"
  by (simp add: USART_DATA_MASK_def mask_eq_exp_minus_1)

lemma ucast_low [simp]: "ucast (ucast b AND USART_DATA_MASK) = b" for b :: u8
  by (rule bit_eqI) (auto simp: data_mask bit_simps)

lemma handle_dre_sends:
  assumes "port_inv u" "sending u"
  shows "\<exists>u'. handle_dre (uart_env c) u = Some u' \<and> port_inv u' \<and> stream u' = stream u \<and> u_app u' = u_app u \<and>
    tx_on u' \<and> length (wire u') = Suc (length (wire u))"
proof -
  obtain i where i: "tx_buffer_ptr u = Some (TxData, i)" "i + unat (remaining_tx_buffer_length u) \<le> 8"
    using assms by (auto simp: port_defs)
  have n: "remaining_tx_buffer_length u \<noteq> 0" using assms(2) by (simp add: sending_def)
  then have pos: "0 < unat (remaining_tx_buffer_length u)" by (simp add: unat_gt_0)
  let ?u = "u\<lparr>tx_buffer_ptr := Some (TxData, i + 1), reg_log := reg_log u @ [DataReg (ucast (txdata u ! i) AND USART_DATA_MASK)],
     remaining_tx_buffer_length := remaining_tx_buffer_length u - 1, 
     intenset := (if remaining_tx_buffer_length u = 1 then 6 else 5)\<rparr>"
  have "handle_dre (uart_env c) u = Some ?u"
    using assms i n pos
    by (auto simp: handle_dre_def uart_env_def uart_load_def mem_simps port_defs ptr_next_def put_usart_def irq_set_def irq_clr_def
        USART_FLAG_DRE_def USART_FLAG_TXC_def)
  moreover have "unat (remaining_tx_buffer_length u - 1) = unat (remaining_tx_buffer_length u) - 1"
    using n by (simp add: unat_minus_one)
  then have "port_inv ?u"
    using assms i pos n by (auto simp: port_defs sending_def)
  moreover have "take (unat (remaining_tx_buffer_length u)) (drop i (txdata u)) =
      txdata u ! i # take (unat (remaining_tx_buffer_length u) - 1) (drop (i + 1) (txdata u))"
    using assms(1) i pos by (subst Cons_nth_drop_Suc [symmetric]) (auto simp: port_defs take_Cons')
  then have "stream ?u = stream u"
    using assms i n by (auto simp: stream_def wire_def unsent_def sending_def unat_minus_one)
  moreover have "u_app ?u = u_app u" "tx_on ?u" "length (wire ?u) = Suc (length (wire u))"
    using assms by (simp_all add: wire_def port_defs)
  ultimately show ?thesis by (intro exI [of _ ?u] conjI)
qed

subsection \<open>What an interrupt asks for\<close>

text \<open>The character that an interrupt brings, if it has no error.\<close>

definition rx_error_code :: "usart_irq \<Rightarrow> u8" where
  "rx_error_code i = i_status i AND USART_STATUS_MASK AND NOT USART_STATUS_CTS"

definition arrives :: "usart_irq \<Rightarrow> u8 list" where
  "arrives i = (if i_flags i AND USART_FLAG_RXC \<noteq> 0 \<and> rx_error_code i = 0 then [ucast (i_data i AND USART_DATA_MASK)] else [])"

lemma status_bits:
  assumes "port_inv u"
  shows "(i_flags i AND intenset u) AND USART_FLAG_DRE \<noteq> 0 \<Longrightarrow> sending u"
    and "(i_flags i AND intenset u) AND USART_FLAG_TXC \<noteq> 0 \<Longrightarrow> \<not> sending u \<and> tx_on u"
    and "(i_flags i AND intenset u) AND USART_FLAG_RXC = i_flags i AND USART_FLAG_RXC"
    and "(i_flags i AND intenset u) AND USART_FLAG_CTSIC = 0" "(i_flags i AND intenset u) AND USART_FLAG_RXBRK = 0"
      "(i_flags i AND intenset u) AND USART_FLAG_RXS = 0"
  using assms
  by (auto simp: port_defs and.assoc USART_FLAG_DRE_def USART_FLAG_TXC_def USART_FLAG_RXC_def USART_FLAG_CTSIC_def
      USART_FLAG_RXBRK_def USART_FLAG_RXS_def split: if_splits)

definition ready :: usart_irq where
  "ready = \<lparr>i_flags = 3, i_status = 0, i_data = 0\<rparr>"

subsection \<open>The receiving half\<close>

definition listening :: "'a hal_uart \<Rightarrow> bool" where
  "listening u \<longleftrightarrow> port_open u \<and> intenset u \<in> {4, 5, 6} \<and> remaining_rx_buffer_length u = 1 \<and> rx_buffer_ptr u = Some (RxData, 0)"

text \<open>A step of the receiver leaves the transmitter alone.\<close>

definition rx_only :: "'a hal_uart \<Rightarrow> 'a hal_uart \<Rightarrow> bool" where
  "rx_only u u' \<longleftrightarrow> (port_open u \<longrightarrow> port_open u') \<and> intenset u' = intenset u \<and> tx_on u' = tx_on u \<and>
     remaining_tx_buffer_length u' = remaining_tx_buffer_length u \<and> tx_buffer_ptr u' = tx_buffer_ptr u \<and> txdata u' = txdata u \<and>
     wire u' = wire u \<and> remaining_rx_buffer_length u' = remaining_rx_buffer_length u \<and> rx_buffer_ptr u' = rx_buffer_ptr u"

lemma inv_listening: "port_inv u \<Longrightarrow> listening u"
  by (simp add: listening_def port_defs)

lemma rx_only_inv:
  assumes "rx_only u u'"
  shows "port_inv u \<Longrightarrow> port_inv u'" "stream u' = stream u" "sending u' = sending u" "listening u \<Longrightarrow> listening u'"
  using assms
  by (auto simp: rx_only_def port_inv_def tx_inv_def flags_inv_def sending_def stream_def unsent_def listening_def
      split: option.split prod.split uart_buf.split)

subsection \<open>Filling the buffer\<close>

text \<open>A port that has nothing left to write.\<close>

definition idle :: "'a hal_uart \<Rightarrow> bool" where
  "idle u \<longleftrightarrow> port_open u \<and> \<not> sending u \<and> intenset u = 4 \<and> remaining_rx_buffer_length u = 1 \<and> rx_buffer_ptr u = Some (RxData, 0)"

lemma idle_stream: "idle u \<Longrightarrow> stream u = wire u"
  by (simp add: idle_def stream_def)

lemma idle_inv: "idle u \<Longrightarrow> \<not> tx_on u \<Longrightarrow> port_inv u"
  by (simp add: idle_def port_defs)

lemma app_upd [simp]:
  "port_inv (u\<lparr>u_app := a\<rparr>) \<longleftrightarrow> port_inv u" "stream (u\<lparr>u_app := a\<rparr>) = stream u" "tx_on (u\<lparr>u_app := a\<rparr>) = tx_on u"
  by (simp_all add: port_defs stream_def wire_def unsent_def sending_def split: option.split prod.split uart_buf.split)

lemma write_job_starts:
  assumes "idle u" "0 < n" "n \<le> 8"
  shows "\<exists>u'. snd (usart_write_buffer_job (TxData, 0) (of_nat n) (u\<lparr>tx_on := True\<rparr>)) = u' \<and> port_inv u' \<and>
    stream u' = wire u @ take n (txdata u) \<and> u_app u' = u_app u \<and> wire u' = wire u \<and> sending u'"
proof -
  have n: "unat (of_nat n :: u16) = n" using assms(3) by (simp add: unsigned_of_nat take_bit_nat_eq_self)
  then have "(of_nat n :: u16) \<noteq> 0" using assms(2) by (metis less_numeral_extra(3) unsigned_0)
  then show ?thesis
    using assms n
    by (auto simp: usart_write_buffer_job_def usart_start_write_def idle_def port_defs sending_def irq_set_def USART_FLAG_DRE_def
        stream_def unsent_def wire_def)
qed

text \<open>What happens to a port: interrupts with whatever the hardware shows, calls of the start functions, and more bytes in
  the client's queue. \<open>ws\<close>: the bytes the client queued, \<open>rs\<close>: the characters that arrived.\<close>

inductive uart_run ::
    "'a uart_client \<Rightarrow> ('a \<Rightarrow> bool) \<Rightarrow> ('a \<Rightarrow> u8 list) \<Rightarrow> ('a \<Rightarrow> u8 list) \<Rightarrow> 'a hal_uart \<Rightarrow> u8 list \<Rightarrow> u8 list \<Rightarrow> 'a hal_uart \<Rightarrow> bool"
  for c ok queue heard u0 where
  start: "uart_run c ok queue heard u0 [] [] u0"
| irq: "uart_run c ok queue heard u0 ws rs u \<Longrightarrow> uart_irq c i u = Some u' \<Longrightarrow> uart_run c ok queue heard u0 ws (rs @ arrives i) u'"
| kick: "uart_run c ok queue heard u0 ws rs u \<Longrightarrow> port_start_tx c u = Some u' \<Longrightarrow> uart_run c ok queue heard u0 ws rs u'"
| listen: "uart_run c ok queue heard u0 ws rs u \<Longrightarrow> uart_run c ok queue heard u0 ws rs (port_start_rx u)"
| enqueue: "uart_run c ok queue heard u0 ws rs u \<Longrightarrow> ok a \<Longrightarrow> queue a = queue (u_app u) @ bs \<Longrightarrow> heard a = heard (u_app u) \<Longrightarrow>
    uart_run c ok queue heard u0 (ws @ bs) rs (u\<lparr>u_app := a\<rparr>)"

context uart_stream
begin

lemma fill_tx_loop:
  assumes "ok (u_app u)" "length (txdata u) = TX_BUFFER_SIZE" "k \<le> TX_BUFFER_SIZE"
  shows "\<exists>a m. fill_tx_loop c k u = Some (TX_BUFFER_SIZE - k + min k (length (queue (u_app u))), u\<lparr>txdata := m, u_app := a\<rparr>) \<and>
    ok a \<and> heard a = heard (u_app u) \<and> queue a = drop k (queue (u_app u)) \<and> length m = TX_BUFFER_SIZE \<and>
    take (TX_BUFFER_SIZE - k + min k (length (queue (u_app u)))) m =
      take (TX_BUFFER_SIZE - k) (txdata u) @ take k (queue (u_app u))"
  using assms
proof (induction k arbitrary: u)
  case 0
  then show ?case by (intro exI [of _ "u_app u"] exI [of _ "txdata u"]) simp
next
  case (Suc k)
  let ?i = "TX_BUFFER_SIZE - Suc k"
  obtain v a where step: "c_tx_char c (u_tx_func u) (u_func_arg u) u = Some (v, u\<lparr>u_app := a\<rparr>)"
    and a: "ok a" "heard a = heard (u_app u)"
    and q: "case queue (u_app u) of [] \<Rightarrow> v < 0 \<and> queue a = [] | b # bs \<Rightarrow> v = uint b \<and> queue a = bs"
    using tx_char [OF Suc.prems(1)] by blast
  show ?case
  proof (cases "queue (u_app u)")
    case Nil
    with step a q Suc.prems show ?thesis
      by (intro exI [of _ a] exI [of _ "txdata u"]) simp
  next
    case (Cons b bs)
    let ?u = "u\<lparr>u_app := a, txdata := (txdata u)[?i := b]\<rparr>"
    have i: "?i < length (txdata u)" "TX_BUFFER_SIZE - k = Suc ?i" using Suc.prems by auto
    have run: "fill_tx_loop c (Suc k) u = fill_tx_loop c k ?u"
      using step q Cons i(1) by (simp add: mem_simps)
    obtain a' m where IH: "fill_tx_loop c k ?u = Some (TX_BUFFER_SIZE - k + min k (length (queue a)), ?u\<lparr>txdata := m, u_app := a'\<rparr>)"
      "ok a'" "heard a' = heard a" "queue a' = drop k (queue a)" "length m = TX_BUFFER_SIZE"
      "take (TX_BUFFER_SIZE - k + min k (length (queue a))) m = take (TX_BUFFER_SIZE - k) (txdata ?u) @ take k (queue a)"
      using Suc.IH [of ?u] Suc.prems a by auto
    show ?thesis
      using IH q Cons a i unfolding run
      by (intro exI [of _ a'] exI [of _ m]) (simp add: take_Suc_update)
  qed
qed

lemma fill_tx_buf:
  assumes "ok (u_app u)" "idle u"
  shows "\<exists>a m. fill_tx_buf c u = Some (length (take 8 (queue (u_app u))), u\<lparr>txdata := m, u_app := a\<rparr>) \<and>
    ok a \<and> heard a = heard (u_app u) \<and> queue a = drop 8 (queue (u_app u)) \<and> length m = 8 \<and>
    take (length (take 8 (queue (u_app u)))) m = take 8 (queue (u_app u))"
  using fill_tx_loop [OF assms(1), of TX_BUFFER_SIZE] assms(2)
  by (simp add: fill_tx_buf_def TX_BUFFER_SIZE_def idle_def port_open_def min.commute)

definition total :: "'a hal_uart \<Rightarrow> u8 list" where
  "total u = stream u @ queue (u_app u)"

lemma port_idle_upd [simp]: "idle (u\<lparr>u_app := a\<rparr>) \<longleftrightarrow> idle u" "length m = 8 \<Longrightarrow> length (txdata u) = 8 \<Longrightarrow> idle (u\<lparr>txdata := m\<rparr>) \<longleftrightarrow> idle u"
  "idle (u\<lparr>tx_on := b\<rparr>) \<longleftrightarrow> idle u"
  by (simp_all add: idle_def port_open_def sending_def)

lemma refill:
  assumes "ok (u_app u)" "idle u"
  shows "\<exists>sz u1. fill_tx_buf c u = Some (sz, u1) \<and> (sz = 0 \<longleftrightarrow> queue (u_app u) = []) \<and> idle u1 \<and> ok (u_app u1) \<and>
    heard (u_app u1) = heard (u_app u) \<and> wire u1 = wire u \<and> tx_on u1 = tx_on u \<and> sz \<le> 8 \<and>
    take sz (txdata u1) @ queue (u_app u1) = queue (u_app u)"
proof -
  obtain a m where r: "fill_tx_buf c u = Some (length (take 8 (queue (u_app u))), u\<lparr>txdata := m, u_app := a\<rparr>)"
    "ok a" "heard a = heard (u_app u)" "queue a = drop 8 (queue (u_app u))" "length m = 8"
    "take (length (take 8 (queue (u_app u)))) m = take 8 (queue (u_app u))"
    using fill_tx_buf [OF assms] by blast
  have "length (txdata u) = 8" using assms(2) by (simp add: idle_def port_open_def)
  with r assms(2) show ?thesis
    by (intro exI [of _ "length (take 8 (queue (u_app u)))"] exI [of _ "u\<lparr>txdata := m, u_app := a\<rparr>"])
      (cases "queue (u_app u)"; simp add: wire_def)
qed

lemma txdone_refills:
  assumes "ok (u_app u)" "idle u"
  shows "\<exists>u'. usart_callback_txdone c u = Some u' \<and> port_inv u' \<and> ok (u_app u') \<and> total u' = total u \<and>
    heard (u_app u') = heard (u_app u) \<and> wire u' = wire u \<and> (if tx_on u' then sending u' else queue (u_app u') = [])"
proof -
  obtain sz u1 where r: "fill_tx_buf c u = Some (sz, u1)" "sz = 0 \<longleftrightarrow> queue (u_app u) = []" "idle u1" "ok (u_app u1)"
    "heard (u_app u1) = heard (u_app u)" "wire u1 = wire u" "sz \<le> 8" "take sz (txdata u1) @ queue (u_app u1) = queue (u_app u)"
    using refill [OF assms] by blast
  have opn: "u_open u" using assms(2) by (simp add: idle_def port_open_def)
  show ?thesis
  proof (cases "sz = 0")
    case True
    let ?u = "u1\<lparr>tx_on := False\<rparr>"
    have u: "port_inv ?u" using r(3) by (intro idle_inv) simp_all
    have "stream ?u = stream u" using r(3,6) assms(2) by (simp add: idle_stream wire_def)
    with r(2,8) True have t: "total ?u = total u" by (simp add: total_def)
    have run: "usart_callback_txdone c u =
        (if u_tx_done u1 \<noteq> 0 then c_tx_done c (u_tx_done u1) (u_func_arg u1) ?u else Some ?u)"
      using opn True by (simp add: usart_callback_txdone_def r(1))
    obtain a where "c_tx_done c (u_tx_done u1) (u_func_arg u1) ?u = Some (?u\<lparr>u_app := a\<rparr>)" "ok a"
      "queue a = queue (u_app u1)" "heard a = heard (u_app u1)"
      using tx_done [of ?u "u_tx_done u1" "u_func_arg u1"] r(4) by auto
    moreover have "wire (v\<lparr>u_app := a\<rparr>) = wire v" for v :: "'a hal_uart" by (simp add: wire_def)
    moreover have "wire ?u = wire u" "queue (u_app u1) = []" using r(2,6,8) True by (simp_all add: wire_def)
    ultimately show ?thesis using u t r(4,5) unfolding run by (cases "u_tx_done u1 = 0") (auto simp: total_def)
  next
    case False
    then obtain u' where "snd (usart_write_buffer_job (TxData, 0) (of_nat sz) (u1\<lparr>tx_on := True\<rparr>)) = u'"
      "port_inv u'" "stream u' = wire u1 @ take sz (txdata u1)" "u_app u' = u_app u1" "wire u' = wire u1" "sending u'"
      using write_job_starts [of u1 sz] r by auto
    moreover have "tx_on u'" using calculation by (simp add: port_defs)
    ultimately show ?thesis using r False opn assms(2) by (auto simp: usart_callback_txdone_def total_def idle_stream)
  qed
qed

lemma start_tx_keeps:
  assumes "ok (u_app u)" "port_inv u"
  shows "\<exists>u'. port_start_tx c u = Some u' \<and> port_inv u' \<and> ok (u_app u') \<and> total u' = total u \<and>
    heard (u_app u') = heard (u_app u) \<and> wire u' = wire u \<and> (tx_on u' \<or> wire u' = total u')"
proof (cases "tx_on u")
  case True
  then show ?thesis using assms by (auto simp: port_start_tx_def)
next
  case False
  then have idle: "idle u" using assms(2) by (auto simp: idle_def port_defs)
  obtain sz u1 where r: "fill_tx_buf c u = Some (sz, u1)" "sz = 0 \<longleftrightarrow> queue (u_app u) = []" "idle u1" "ok (u_app u1)"
    "heard (u_app u1) = heard (u_app u)" "wire u1 = wire u" "tx_on u1 = tx_on u" "sz \<le> 8"
    "take sz (txdata u1) @ queue (u_app u1) = queue (u_app u)"
    using refill [OF assms(1) idle] by blast
  have opn: "u_open u" "u_tx_func u \<noteq> 0" using assms(2) by (simp_all add: port_defs)
  show ?thesis
  proof (cases "sz = 0")
    case True
    have "port_inv u1" "stream u1 = wire u1" using r(3,7) False by (simp_all add: idle_inv idle_stream)
    with r opn False idle True show ?thesis by (auto simp: port_start_tx_def total_def idle_stream)
  next
    case nz: False
    then obtain u' where "snd (usart_write_buffer_job (TxData, 0) (of_nat sz) (u1\<lparr>tx_on := True\<rparr>)) = u'"
      "port_inv u'" "stream u' = wire u1 @ take sz (txdata u1)" "u_app u' = u_app u1" "sending u'" "wire u' = wire u1"
      using write_job_starts [of u1 sz] r by auto
    moreover from this have "tx_on u'" by (simp add: port_defs)
    ultimately show ?thesis using r opn False nz idle by (auto simp: port_start_tx_def total_def idle_stream)
  qed
qed

text \<open>A character without an error reaches the client, and the next one is awaited.\<close>

lemma handle_rxc_listens:
  assumes "ok (u_app u)" "listening u"
  shows "\<exists>u'. handle_rxc (uart_env c) 3 i u = Some u' \<and> rx_only u u' \<and> ok (u_app u') \<and> queue (u_app u') = queue (u_app u) \<and>
    heard (u_app u') = heard (u_app u) @ (if rx_error_code i = 0 then [ucast (i_data i AND USART_DATA_MASK)] else [])"
proof (cases "rx_error_code i = 0")
  case True
  let ?b = "ucast (i_data i AND USART_DATA_MASK) :: u8"
  let ?u = "u\<lparr>rxdata := (rxdata u)[0 := ?b], rx_buffer_ptr := Some (RxData, 1), remaining_rx_buffer_length := 0,
     intenset := intenset u AND NOT 4, rx_status := STATUS_OK\<rparr>"
  have run: "handle_rxc (uart_env c) 3 i u = usart_callback_rx c ?u"
    using assms(2) True
    by (simp add: handle_rxc_def rx_error_code_def rx_character_def uart_env_def uart_store_def mem_simps listening_def port_open_def
        Let_def run_callback_def USART_CALLBACK_BUFFER_RECEIVED_def irq_clr_def USART_FLAG_RXC_def ptr_next_def txdone_ptr_def
        rx_ptr_def)
  obtain a where a: "c_rx_char c (u_rx_func u) (u_func_arg u) ?b ?u = Some (?u\<lparr>u_app := a\<rparr>)" "ok a"
    "queue a = queue (u_app u)" "heard a = heard (u_app u) @ [?b]"
    using rx_char [of ?u "u_rx_func u" "u_func_arg u" ?b] assms(1) by auto
  let ?v = "u\<lparr>rxdata := (rxdata u)[0 := ?b], u_app := a, rx_status := STATUS_BUSY\<rparr>"
  have fl: "intenset u AND NOT 4 OR 4 = intenset u" using assms(2) by (auto simp: listening_def)
  have "usart_callback_rx c ?u = Some ?v"
    using a(1) assms(2) fl
    by (simp add: usart_callback_rx_def mem_simps port_open_def listening_def usart_read_job_def usart_start_read_def
        irq_set_def USART_FLAG_RXC_def)
  moreover have "rx_only u ?v" using assms(2) by (simp add: rx_only_def port_open_def wire_def)
  ultimately show ?thesis using run a True by simp
next
  case False
  then have "handle_rxc (uart_env c) 3 i u = Some (rx_error (i_status i) (rx_error_code i) u)"
    using assms(2)
    by (simp add: handle_rxc_def rx_error_code_def listening_def Let_def run_callback_def USART_CALLBACK_ERROR_def)
  moreover have "rx_only u (rx_error st e u)" "u_app (rx_error st e u) = u_app u" for st e
    by (auto simp: rx_error_def put_usart_def Let_def rx_only_def port_open_def wire_def)
  ultimately show ?thesis using False assms(1) by simp
qed

subsection \<open>The interrupt\<close>

lemma handle_txc_refills:
  assumes "ok (u_app u)" "port_inv u" "\<not> sending u" "tx_on u"
  shows "\<exists>u'. handle_txc (uart_env c) 3 u = Some u' \<and> port_inv u' \<and> ok (u_app u') \<and> total u' = total u \<and>
    heard (u_app u') = heard (u_app u) \<and> wire u' = wire u \<and> (if tx_on u' then sending u' else queue (u_app u') = [])"
proof -
  let ?u = "u\<lparr>intenset := 4, tx_status := STATUS_OK\<rparr>"
  have "handle_txc (uart_env c) 3 u = usart_callback_txdone c ?u"
    using assms(2-4)
    by (simp add: handle_txc_def run_callback_def uart_env_def USART_CALLBACK_BUFFER_TRANSMITTED_def irq_clr_def USART_FLAG_TXC_def port_defs)
  moreover have "idle ?u" using assms(2,3) by (simp add: idle_def port_defs sending_def)
  moreover have "total ?u = total u" using assms(3) by (simp add: total_def stream_def wire_def sending_def)
  moreover have "wire ?u = wire u" by (simp add: wire_def)
  ultimately show ?thesis using txdone_refills [of ?u] assms(1) by simp
qed

lemma irq_keeps:
  assumes "ok (u_app u)" "port_inv u"
  shows "\<exists>u'. uart_irq c i u = Some u' \<and> port_inv u' \<and> ok (u_app u') \<and> total u' = total u \<and>
    heard (u_app u') = heard (u_app u) @ arrives i \<and> length (wire u) \<le> length (wire u')"
proof -
  let ?s = "i_flags i AND intenset u"
  have on: "irq_enabled u" and cb: "callback_reg_mask u AND callback_enable_mask u = 3" using assms(2) by (simp_all add: port_defs)
  obtain u1 where 1: "(if ?s AND USART_FLAG_DRE \<noteq> 0 then handle_dre (uart_env c) u else Some u) = Some u1"
    "port_inv u1" "u_app u1 = u_app u" "total u1 = total u" "?s AND USART_FLAG_TXC \<noteq> 0 \<Longrightarrow> u1 = u"
    "length (wire u) \<le> length (wire u1)"
  proof (cases "?s AND USART_FLAG_DRE \<noteq> 0")
    case True
    then have "sending u" "?s AND USART_FLAG_TXC = 0" using status_bits(1,2) [OF assms(2), of i] by blast+
    moreover from handle_dre_sends [OF assms(2) this(1), of c] obtain u' where "handle_dre (uart_env c) u = Some u'" "port_inv u'"
      "stream u' = stream u" "u_app u' = u_app u" "length (wire u') = Suc (length (wire u))" by blast
    ultimately show thesis using True by (intro that [of u']) (simp_all add: total_def)
  next
    case False
    then show thesis using assms(2) by (intro that [of u]) simp_all
  qed
  obtain u2 where 2: "(if ?s AND USART_FLAG_TXC \<noteq> 0 then handle_txc (uart_env c) 3 u1 else Some u1) = Some u2"
    "port_inv u2" "ok (u_app u2)" "total u2 = total u" "heard (u_app u2) = heard (u_app u)"
    "wire u2 = wire u1"
    using handle_txc_refills [OF assms] status_bits(2) [OF assms(2), of i] 1 assms(1)
    by (cases "?s AND USART_FLAG_TXC \<noteq> 0") auto
  obtain u3 where 3: "(if i_flags i AND USART_FLAG_RXC \<noteq> 0 then handle_rxc (uart_env c) 3 i u2 else Some u2) = Some u3"
    "port_inv u3" "ok (u_app u3)" "total u3 = total u" "heard (u_app u3) = heard (u_app u) @ arrives i"
    "wire u3 = wire u2"
  proof (cases "i_flags i AND USART_FLAG_RXC \<noteq> 0")
    case True
    obtain v where v: "handle_rxc (uart_env c) 3 i u2 = Some v" "rx_only u2 v" "ok (u_app v)" "queue (u_app v) = queue (u_app u2)"
      "heard (u_app v) = heard (u_app u2) @ arrives i"
      using handle_rxc_listens [OF 2(3) inv_listening [OF 2(2)], of i] True by (auto simp: arrives_def)
    have "port_inv v" "stream v = stream u2" using rx_only_inv [OF v(2)] 2(2) by simp_all
    with v 2 True show thesis by (intro that [of v]) (simp_all add: total_def rx_only_def)
  next
    case False
    with 2 show thesis by (intro that [of u2]) (simp_all add: arrives_def)
  qed
  have "uart_irq c i u = Some u3"
    using 1(1) 2(1) 3(1) on
    by (simp add: uart_irq_def usart_interrupt_handler_def Let_def cb status_bits(3-) [OF assms(2)])
  moreover have "length (wire u) \<le> length (wire u3)" using 1(6) 2(6) 3(6) by simp
  ultimately show ?thesis using 3 by blast
qed

lemma port_start_rx_same: "port_inv u \<Longrightarrow> port_start_rx u = u"
  by (simp add: port_start_rx_def usart_read_job_def usart_start_read_def port_defs)

lemma run_keeps:
  assumes "uart_run c ok queue heard u0 ws rs u" "port_inv u0" "ok (u_app u0)"
  shows "port_inv u \<and> ok (u_app u) \<and> total u = total u0 @ ws \<and> heard (u_app u) = heard (u_app u0) @ rs \<and>
    length (wire u0) \<le> length (wire u)"
  using assms
proof (induction rule: uart_run.induct)
  case (irq ws rs u i u')
  then show ?case using irq_keeps [of u i] by fastforce
next
  case (kick ws rs u u')
  then show ?case using start_tx_keeps [of u] by auto
qed (auto simp: port_start_rx_same total_def wire_def)

text \<open>The transmitter is ready and done at every interrupt: each one makes progress until the queue is empty.\<close>

definition left :: "'a hal_uart \<Rightarrow> nat" where
  "left u = 2 * (length (total u) - length (wire u)) + of_bool (tx_on u \<and> \<not> sending u)"

lemma ready_irq:
  assumes "ok (u_app u)" "port_inv u" "tx_on u"
  shows "\<exists>u'. uart_irq c ready u = Some u' \<and> port_inv u' \<and> ok (u_app u') \<and> total u' = total u \<and>
    left u' < left u \<and> (tx_on u' \<or> wire u' = total u')"
proof (cases "sending u")
  case True
  then obtain u' where u': "handle_dre (uart_env c) u = Some u'" "port_inv u'" "stream u' = stream u" "u_app u' = u_app u"
    "tx_on u'" "length (wire u') = Suc (length (wire u))"
    using handle_dre_sends [OF assms(2)] by blast
  then have "uart_irq c ready u = Some u'"
    using assms(2) True
    by (simp add: uart_irq_def usart_interrupt_handler_def ready_def port_defs USART_FLAG_DRE_def USART_FLAG_TXC_def
        USART_FLAG_RXC_def USART_FLAG_CTSIC_def USART_FLAG_RXBRK_def USART_FLAG_RXS_def)
  moreover have "length (wire u') \<le> length (total u')" by (simp add: total_def stream_def)
  ultimately show ?thesis using u' assms(1) by (auto simp: total_def left_def of_bool_def)
next
  case False
  then obtain u' where u': "handle_txc (uart_env c) 3 u = Some u'" "port_inv u'" "ok (u_app u')" "total u' = total u" "wire u' = wire u"
    "if tx_on u' then sending u' else queue (u_app u') = []"
    using handle_txc_refills [OF assms(1,2) _ assms(3)] by blast
  then have "uart_irq c ready u = Some u'"
    using assms(2,3) False
    by (simp add: uart_irq_def usart_interrupt_handler_def ready_def port_defs USART_FLAG_DRE_def USART_FLAG_TXC_def
        USART_FLAG_RXC_def USART_FLAG_CTSIC_def USART_FLAG_RXBRK_def USART_FLAG_RXS_def)
  moreover have "\<not> tx_on u' \<Longrightarrow> wire u' = total u'"
    using u'(2,6) by (auto simp: total_def stream_def port_defs)
  ultimately show ?thesis using u' assms(3) False by (auto simp: left_def split: if_splits)
qed

lemma ready_idle:
  assumes "port_inv u" "\<not> tx_on u"
  shows "uart_irq c ready u = Some u"
  using assms
  by (auto simp: uart_irq_def usart_interrupt_handler_def ready_def port_defs USART_FLAG_DRE_def USART_FLAG_TXC_def
        USART_FLAG_RXC_def USART_FLAG_CTSIC_def USART_FLAG_RXBRK_def USART_FLAG_RXS_def)

lemma irqs_Cons: "port_inv u \<Longrightarrow> usart_irqs (uart_env c) (i # is) u = uart_irq c i u \<bind> usart_irqs (uart_env c) is"
  by (cases "usart_interrupt_handler (uart_env c) i u") (simp_all add: uart_irq_def port_defs)

lemma sending_unsent: "port_inv u \<Longrightarrow> sending u \<Longrightarrow> unsent u \<noteq> []"
  using unat_gt_0 [of "remaining_tx_buffer_length u"] by (auto simp: port_defs unsent_def sending_def)

lemma drains:
  assumes "ok (u_app u)" "port_inv u" "tx_on u \<or> wire u = total u" "left u \<le> n"
  shows "\<exists>u'. usart_irqs (uart_env c) (replicate n ready) u = Some u' \<and> \<not> tx_on u' \<and> wire u' = total u \<and> port_inv u'"
  using assms
proof (induction n arbitrary: u)
  case 0
  then have "tx_on u \<Longrightarrow> sending u" "length (total u) \<le> length (wire u)" by (auto simp: left_def)
  moreover from this have "\<not> sending u" using sending_unsent [OF 0(2)] by (auto simp: total_def stream_def)
  ultimately show ?case using 0 by (auto simp: total_def stream_def)
next
  case (Suc n)
  show ?case
  proof (cases "tx_on u")
    case True
    obtain u' where u': "uart_irq c ready u = Some u'" "port_inv u'" "ok (u_app u')" "total u' = total u" "left u' < left u"
      "tx_on u' \<or> wire u' = total u'"
      using ready_irq [OF Suc.prems(1,2) True] by blast
    with Suc.IH [of u'] Suc.prems irqs_Cons [of u] show ?thesis by auto
  next
    case False
    then have "left u \<le> n" using Suc.prems(3) by (simp add: left_def)
    with Suc.IH [of u] Suc.prems False irqs_Cons [of u] ready_idle [of u] show ?thesis by simp
  qed
qed

text \<open>A port that waits for an interrupt it has switched off never writes again.\<close>

definition stuck :: "'a hal_uart \<Rightarrow> bool" where
  "stuck u \<longleftrightarrow> idle u \<and> tx_on u"

lemma stuck_irq:
  assumes "ok (u_app u)" "stuck u" "uart_irq c i u = Some u'"
  shows "stuck u' \<and> wire u' = wire u \<and> ok (u_app u')"
proof -
  have u: "listening u" "intenset u = 4" "callback_reg_mask u AND callback_enable_mask u = 3" "irq_enabled u"
    using assms(2) by (simp_all add: stuck_def idle_def listening_def port_open_def)
  obtain v where v: "handle_rxc (uart_env c) 3 i u = Some v" "rx_only u v" "ok (u_app v)"
    using handle_rxc_listens [OF assms(1) u(1), of i] by blast
  have "u' = v \<or> u' = u"
    using assms(3) u(2-) v(1)
    by (auto simp: uart_irq_def usart_interrupt_handler_def Let_def and.assoc USART_FLAG_DRE_def USART_FLAG_TXC_def
        USART_FLAG_RXC_def USART_FLAG_CTSIC_def USART_FLAG_RXBRK_def USART_FLAG_RXS_def split: if_splits)
  moreover have "stuck v" using assms(2) v(2) by (simp add: stuck_def idle_def rx_only_def sending_def)
  ultimately show ?thesis using assms(1,2) v by (auto simp: rx_only_def)
qed

lemma stuck_run:
  assumes "uart_run c ok queue heard u0 ws rs u" "stuck u0" "ok (u_app u0)"
  shows "stuck u \<and> wire u = wire u0 \<and> ok (u_app u)"
  using assms
proof (induction rule: uart_run.induct)
  case (irq ws rs u i u')
  then show ?case using stuck_irq [of u i u'] by auto
next
  case (listen ws rs u)
  then have "port_start_rx u = u"
    by (simp add: port_start_rx_def usart_read_job_def usart_start_read_def stuck_def idle_def)
  with listen show ?case by simp
next
  case (kick ws rs u u')
  then show ?case by (auto simp: port_start_tx_def stuck_def)
qed (simp_all add: stuck_def wire_def)

text \<open>The race: the last character of a buffer is on its way, its interrupt comes during a blocking write.\<close>

lemma blocking_loses_completion:
  assumes "port_inv u" "tx_on u" "\<not> sending u"
  shows "\<exists>u'. port_blocking_tx c [] [\<lparr>i_flags = USART_FLAG_TXC, i_status = st, i_data = d\<rparr>] b u = Some u' \<and> stuck u' \<and>
    u_app u' = u_app u"
  using assms
  by (simp add: port_blocking_tx_def usart_write_wait_def port_inv_def port_open_def tx_inv_def flags_inv_def sending_def stuck_def idle_def
      usart_disable_callback_def usart_enable_callback_def put_usart_def usart_interrupt_handler_def handle_txc_def run_callback_def
      irq_clr_def USART_CALLBACK_BUFFER_TRANSMITTED_def USART_FLAG_DRE_def USART_FLAG_TXC_def USART_FLAG_RXC_def
      USART_FLAG_CTSIC_def USART_FLAG_RXBRK_def USART_FLAG_RXS_def)

end

subsection \<open>Opening a port\<close>

lemma config_opens:
  assumes "port_config p finished baudrate databits stopbits parity flow_ctl u = Some (0, u')"
    and "databits \<noteq> 9" "\<not> tx_on u" "length (txdata u) = 8" "length (rxdata u) = 2" "u_tx_func u \<noteq> 0" "u_rx_func u \<noteq> 0"
  shows "port_inv u' \<and> stream u' = wire u \<and> u_app u' = u_app u \<and> wire u' = wire u"
proof -
  obtain cfg config where cfg: "\<not> u_open u" "u_cfg u = Some cfg"
    "uart_usart_config cfg baudrate databits stopbits parity flow_ctl = Some config"
    using assms(1) by (auto simp: port_config_def split: if_splits option.splits)
  have config: "cfg_character_size config \<noteq> USART_CHARACTER_SIZE_9BIT" "cfg_transmitter config" "\<not> cfg_lin_slave config"
    "\<not> cfg_start_frame_detection config"
    using cfg(3) assms(2)
    by (auto simp: uart_usart_config_def uart_databits_def usart_get_config_defaults_def bind_eq_Some_conv split: if_splits)
  obtain st v where init: "usart_init p (suc_sercom cfg) config (port_reset finished u) = Some (st, v)" "st = STATUS_OK"
    and u': "u' = port_start_rx ((usart_enable (usart_enable_callback USART_CALLBACK_BUFFER_RECEIVED
       (usart_enable_callback USART_CALLBACK_BUFFER_TRANSMITTED (usart_register_callback rx_ptr USART_CALLBACK_BUFFER_RECEIVED
         (usart_register_callback txdone_ptr USART_CALLBACK_BUFFER_TRANSMITTED v)))))\<lparr>u_open := True\<rparr>)"
    using assms(1) cfg by (auto simp: port_config_def bind_eq_Some_conv Let_def split: if_splits)
  have fin: finished
    using init by (auto simp: usart_init_def port_reset_def CTRLA_SWRST_def CTRLA_ENABLE_def split: if_splits)
  have v: "intenset v = 0" "callback v = replicate USART_CALLBACK_N 0" "callback_reg_mask v = 0" "callback_enable_mask v = 0"
    "remaining_tx_buffer_length v = 0" "remaining_rx_buffer_length v = 0" "transmitter_enabled v" "\<not> lin_slave_enabled v"
    "\<not> start_frame_detection_enabled v" "character_size v \<noteq> USART_CHARACTER_SIZE_9BIT" "txdata v = txdata u" "rxdata v = rxdata u"
    "u_tx_func v = u_tx_func u" "u_rx_func v = u_rx_func u" "reg_log v = reg_log u" "u_app v = u_app u" "tx_on v = tx_on u"
    using init fin config
    by (auto simp: usart_init_def usart_set_config_def port_reset_def bind_eq_Some_conv Let_def split: if_splits)
  have "(replicate 6 0)[0 := 1, Suc 0 := 2] = [1, 2, 0, 0, 0, 0 :: u32]" by (simp add: numeral_eq_Suc)
  with v assms(3-7) show ?thesis
    unfolding u'
    by (simp add: port_start_rx_def usart_enable_def usart_enable_callback_def usart_register_callback_def usart_read_job_def
        usart_start_read_def irq_set_def port_defs sending_def stream_def wire_def USART_CALLBACK_N_def USART_FLAG_RXC_def
        USART_CALLBACK_BUFFER_TRANSMITTED_def USART_CALLBACK_BUFFER_RECEIVED_def txdone_ptr_def rx_ptr_def)
qed

subsection \<open>The bridge driver as a client\<close>

text \<open>\<open>espduino.c\<close> registers \<open>espduino_uart_tx\<close> and \<open>espduino_uart_rx\<close>; the second component keeps what was received.\<close>

definition esp_client :: "(espduino \<times> u8 list) uart_client" where
  "esp_client = \<lparr>
     c_tx_char = (\<lambda>f x u. case u_app u of (e, h) \<Rightarrow> map_option (\<lambda>(v, e). (v, u\<lparr>u_app := (e, h)\<rparr>)) (espduino_uart_tx e)),
     c_tx_done = (\<lambda>f x. Some),
     c_rx_char = (\<lambda>f x b u. case u_app u of (e, h) \<Rightarrow>
        map_option (\<lambda>(_, e). u\<lparr>u_app := (e, h @ [b])\<rparr>) (espduino_uart_rx b e))\<rparr>"

definition esp_ok :: "espduino \<times> u8 list \<Rightarrow> bool" where
  "esp_ok a \<longleftrightarrow> rb_inv (e_rx (fst a)) \<and> rb_inv (e_tx (fst a))"

definition esp_queue :: "espduino \<times> u8 list \<Rightarrow> u8 list" where
  "esp_queue a = rb_list (e_tx (fst a))"

lemma esp_tx_char:
  assumes "esp_ok (e, h)"
  shows "\<exists>v e'. espduino_uart_tx e = Some (v, e') \<and> esp_ok (e', h) \<and>
      (case esp_queue (e, h) of [] \<Rightarrow> v < 0 \<and> esp_queue (e', h) = [] | b # bs \<Rightarrow> v = uint b \<and> esp_queue (e', h) = bs)"
proof -
  have inv: "rb_inv (e_rx e)" "rb_inv (e_tx e)" using assms by (simp_all add: esp_ok_def)
  show ?thesis
  proof (cases rule: rb.get_cases [OF inv(2)])
    case (1 b q)
    then show ?thesis
      using inv by (intro exI [of _ "uint b"] exI [of _ "e\<lparr>e_tx := q\<rparr>"]) (simp add: espduino_uart_tx_def esp_ok_def esp_queue_def)
  next
    case 2
    then show ?thesis
      using inv by (intro exI [of _ "-1"] exI [of _ e]) (simp add: espduino_uart_tx_def esp_ok_def esp_queue_def)
  qed
qed

lemma esp_rx_char:
  assumes "esp_ok (e, h)"
  shows "\<exists>v e'. espduino_uart_rx b e = Some (v, e') \<and> esp_ok (e', h @ [b]) \<and> esp_queue (e', h @ [b]) = esp_queue (e, h)"
proof -
  have inv: "rb_inv (e_rx e)" "rb_inv (e_tx e)" using assms by (simp_all add: esp_ok_def)
  show ?thesis
    by (rule rb.put_cases [OF inv(1), of b]) (use inv in \<open>simp_all add: espduino_uart_rx_def esp_ok_def esp_queue_def\<close>)
qed

interpretation esp: uart_stream esp_client esp_ok esp_queue snd
proof (unfold_locales, goal_cases)
  case (1 u f x)
  then show ?case
    using esp_tx_char [of "fst (u_app u)" "snd (u_app u)"] by (auto simp: esp_client_def split: prod.splits)
next
  case (2 u f x b)
  then show ?case
    using esp_rx_char [of "fst (u_app u)" "snd (u_app u)" b] by (auto simp: esp_client_def split: prod.splits)
next
  case (3 u f x)
  then show ?case by (intro exI [of _ "u_app u"]) (simp add: esp_client_def)
qed

subsection \<open>Properties\<close>

text \<open>A port that the bridge driver has initialised and not yet opened.\<close>

definition closed_port :: "(espduino \<times> u8 list) hal_uart \<Rightarrow> bool" where
  "closed_port u \<longleftrightarrow> \<not> tx_on u \<and> length (txdata u) = 8 \<and> length (rxdata u) = 2 \<and> u_tx_func u \<noteq> 0 \<and> u_rx_func u \<noteq> 0 \<and> esp_ok (u_app u)"

text \<open>C3: from the moment \<open>hal_uart_config\<close> has opened the port, for any sequence of interrupts with any flags, status and
  data, of calls of \<open>hal_uart_start_tx\<close> and \<open>hal_uart_start_rx\<close>, and of bytes the bridge driver queues: the bytes written
  to the data register, those waiting in the buffer and those still in the driver's ring are exactly the ones queued, in order;
  the driver was given exactly the characters that arrived without an error, in order; and every interrupt returns.\<close>

theorem uart_stream_exact:
  assumes "port_config p finished baudrate databits stopbits parity flow_ctl u = Some (0, u0)" "closed_port u" "databits \<noteq> 9"
    and "uart_run esp_client esp_ok esp_queue snd u0 ws rs v"
  shows "wire v @ (if sending v then unsent v else []) @ esp_queue (u_app v) = wire u @ esp_queue (u_app u) @ ws \<and>
    snd (u_app v) = snd (u_app u) @ rs \<and> (\<exists>v'. uart_irq esp_client i v = Some v')"
proof (intro conjI)
  have u0: "port_inv u0" "stream u0 = wire u" "u_app u0 = u_app u" and ok: "esp_ok (u_app u0)"
    using config_opens [OF assms(1,3)] assms(2) by (simp_all add: closed_port_def)
  note v = esp.run_keeps [OF assms(4) u0(1) ok]
  show "wire v @ (if sending v then unsent v else []) @ esp_queue (u_app v) = wire u @ esp_queue (u_app u) @ ws"
    using v u0 by (simp add: esp.total_def stream_def)
  show "snd (u_app v) = snd (u_app u) @ rs" using v u0 by simp
  show "\<exists>v'. uart_irq esp_client i v = Some v'" using esp.irq_keeps [of v i] v by blast
qed

text \<open>C14: after any run of interrupts, of calls of \<open>hal_uart_start_tx\<close> and \<open>hal_uart_start_rx\<close> and of bytes the
  bridge driver queues (a blocking write is no part of it and can stop the port for good), after a call of \<open>hal_uart_start_tx\<close> the transmitter
  that is ready at every interrupt empties the buffer and the ring within two interrupts a byte and one more, and
  the port is idle again.\<close>

theorem uart_drains:
  assumes "port_config p finished baudrate databits stopbits parity flow_ctl u = Some (0, u0)" "closed_port u" "databits \<noteq> 9"
    and "uart_run esp_client esp_ok esp_queue snd u0 ws rs v"
    and "2 * length (esp_queue (u_app u) @ ws) < n"
  shows "\<exists>v1 v2. port_start_tx esp_client v = Some v1 \<and> usart_irqs (uart_env esp_client) (replicate n ready) v1 = Some v2 \<and>
     wire v2 = wire u @ esp_queue (u_app u) @ ws \<and> \<not> tx_on v2"
proof -
  have u0: "port_inv u0" "stream u0 = wire u" "u_app u0 = u_app u" "wire u0 = wire u" and ok: "esp_ok (u_app u0)"
    using config_opens [OF assms(1,3)] assms(2) by (simp_all add: closed_port_def)
  then have v: "port_inv v" "esp_ok (u_app v)" "esp.total v = wire u @ esp_queue (u_app u) @ ws"
    "length (wire u) \<le> length (wire v)"
    using esp.run_keeps [OF assms(4) u0(1) ok] by (simp_all add: esp.total_def)
  obtain v1 where v1: "port_start_tx esp_client v = Some v1" "port_inv v1" "esp_ok (u_app v1)" "esp.total v1 = esp.total v"
    "tx_on v1 \<or> wire v1 = esp.total v1" "wire v1 = wire v"
    using esp.start_tx_keeps [OF v(2,1)] by blast
  have "esp.left v1 \<le> n"
    using assms(5) v(3,4) v1(4,6) by (auto simp: esp.left_def of_bool_def)
  with esp.drains [OF v1(3,2,5)] v(3) v1(1,4) show ?thesis by auto
qed

text \<open>C37: a blocking write during which the last character of a buffer completes takes the completion away from the
  port: the interrupt comes while its callback is disabled, so the port stays marked as transmitting, and whatever happens
  afterwards (interrupts, calls of the start functions, more bytes queued) no byte of the queue is written again.\<close>

theorem uart_blocking_tx_stalls:
  assumes "port_inv u" "tx_on u" "\<not> sending u" "esp_ok (u_app u)"
  shows "\<exists>u'. port_blocking_tx esp_client [] [\<lparr>i_flags = USART_FLAG_TXC, i_status = st, i_data = d\<rparr>] b u = Some u' \<and>
    (\<forall>ws rs v. uart_run esp_client esp_ok esp_queue snd u' ws rs v \<longrightarrow> wire v = wire u' \<and> tx_on v)"
proof -
  obtain u' where u': "port_blocking_tx esp_client [] [\<lparr>i_flags = USART_FLAG_TXC, i_status = st, i_data = d\<rparr>] b u = Some u'"
    "esp.stuck u'" "u_app u' = u_app u"
    using esp.blocking_loses_completion [OF assms(1-3)] by blast
  have "wire v = wire u' \<and> tx_on v" if "uart_run esp_client esp_ok esp_queue snd u' ws rs v" for ws rs v
    using esp.stuck_run [OF that u'(2)] assms(4) u'(3) by (simp add: esp.stuck_def)
  with u'(1) show ?thesis by blast
qed

text \<open>the number of stop bits that the caller asks for is accepted and never reaches the hardware: a port
  configured with two stop bits is, register for register, the port configured with one.\<close>

theorem uart_stopbits_ignored:
  "port_config p finished baudrate databits 2 parity flow_ctl u = port_config p finished baudrate databits 1 parity flow_ctl u"
proof -
  have init: "usart_init p n (c\<lparr>cfg_stopbits := b\<rparr>) v = usart_init p n c v" for n c b and v :: "'a hal_uart"
  proof -
    have "usart_baud p m (c\<lparr>cfg_stopbits := b\<rparr>) = usart_baud p m c" for m
      by (simp add: usart_baud_def cong: prod.case_cong usart_transfer_mode.case_cong if_cong)
    moreover have "usart_ctrla p (c\<lparr>cfg_stopbits := b\<rparr>) = usart_ctrla p c" by (simp add: usart_ctrla_def)
    moreover have "usart_ctrlb (c\<lparr>cfg_stopbits := b\<rparr>) = usart_ctrlb c" by (simp add: usart_ctrlb_def)
    ultimately show ?thesis 
      by (simp add: usart_init_def usart_set_config_def cong: prod.case_cong if_cong)
  qed
  have config: "uart_usart_config c baudrate databits 2 parity flow_ctl =
      map_option (\<lambda>x. x\<lparr>cfg_stopbits := USART_STOPBITS_2\<rparr>) (uart_usart_config c baudrate databits 1 parity flow_ctl)" for c
    by (cases "uart_databits databits"; cases "uart_parity parity")
      (simp_all add: uart_usart_config_def uart_stopbits_def)
  show ?thesis
    by (simp add: port_config_def config init split: option.split)
qed

subsection \<open>Instances\<close>

definition ring_of :: "u8 list \<Rightarrow> RINGBUF" where
  "ring_of bs = \<lparr>rb_mem = bs @ replicate 8 0, p_r = 0, p_w = length bs, fill_cnt = int (length bs), rb_size = int (length bs) + 8\<rparr>"

definition sample_esp :: "u8 list \<Rightarrow> espduino" where
  "sample_esp bs = \<lparr>e_uart = True, e_is_return = 0, e_cur_cmd = 0, e_cur_cb = 0, e_return_value = 0, e_rx = ring_of [], e_tx = ring_of bs,
     e_proto = \<lparr>pr_buf = [], bufSize = 0, dataLen = 0, isEsc = 0, isBegin = 0\<rparr>, e_wire = [], e_sched = [], e_calls = []\<rparr>"

definition sample_port :: "u8 list \<Rightarrow> (espduino \<times> u8 list) hal_uart" where
  "sample_port bs = \<lparr>character_size = USART_CHARACTER_SIZE_5BIT, receiver_enabled = False, transmitter_enabled = False,
     lin_slave_enabled = False, start_frame_detection_enabled = False, callback = [], rx_buffer_ptr = None, tx_buffer_ptr = None,
     remaining_rx_buffer_length = 0, remaining_tx_buffer_length = 0, callback_reg_mask = 0, callback_enable_mask = 0,
     rx_status = STATUS_OK, tx_status = STATUS_OK, intenset = 0, ctrla = 0, ctrlb = 0, baud_reg = 0, rxpl = 0, irq_enabled = False,
     reg_log = [], u_open = False, tx_on = False, rxdata = replicate 2 0, txdata = replicate 8 0, u_rx_func = 1, u_tx_func = 2,
     u_tx_done = 0, u_func_arg = 0,
     u_cfg = Some \<lparr>suc_sercom = 0, suc_mux_setting = 0, suc_sample_rate = USART_SAMPLE_RATE_16X_FRACTIONAL, suc_sample_adjustment = 0\<rparr>,
     u_app = (sample_esp bs, [])\<rparr>"

definition sample_par :: usart_par where
  "sample_par = \<lparr>gclk_chan_hz = (\<lambda>_. 48000000), debugger_present = False\<rparr>"

lemma sample_ring: "rb_inv (ring_of bs)" "rb_list (ring_of bs) = bs"
  by (auto simp: rb_inv_def ring_of_def rb_list_def nat_add_distrib nth_append intro: nth_equalityI)

lemma sample_closed: "closed_port (sample_port bs)" "wire (sample_port bs) = []" "esp_queue (u_app (sample_port bs)) = bs"
  "snd (u_app (sample_port bs)) = []"
  by (simp_all add: closed_port_def sample_port_def wire_def esp_queue_def esp_ok_def sample_esp_def sample_ring)

lemma sample_opens:
  "\<exists>u. port_config sample_par True 115200 8 1 HAL_UART_PARITY_NONE HAL_UART_FLOW_CTL_NONE (sample_port bs) = Some (0, u)"
  by (simp add: port_config_def sample_port_def uart_usart_config_def uart_databits_def uart_parity_def uart_stopbits_def
      usart_get_config_defaults_def usart_init_def port_reset_def usart_set_config_def usart_baud_def sample_mode_def sample_par_def
      frac_baud_drops_fraction samples_def Let_def)

lemma sample_run:
  "\<exists>u0 v. port_config sample_par True 115200 8 1 HAL_UART_PARITY_NONE HAL_UART_FLOW_CTL_NONE (sample_port bs) = Some (0, u0) \<and>
     uart_run esp_client esp_ok esp_queue snd u0 [] [0x5A] v"
proof -
  obtain u0 where u0: "port_config sample_par True 115200 8 1 HAL_UART_PARITY_NONE HAL_UART_FLOW_CTL_NONE (sample_port bs) = Some (0, u0)"
    using sample_opens by blast
  have inv: "port_inv u0" "esp_ok (u_app u0)"
    using config_opens [OF u0] sample_closed(1) [of bs] by (simp_all add: closed_port_def)
  obtain u1 where u1: "port_start_tx esp_client u0 = Some u1" "port_inv u1" "esp_ok (u_app u1)"
    using esp.start_tx_keeps [OF inv(2,1)] by blast
  let ?i = "\<lparr>i_flags = 7, i_status = 0, i_data = 0x5A\<rparr>"
  obtain v where "uart_irq esp_client ?i u1 = Some v" using esp.irq_keeps [OF u1(3,2), of ?i] by blast
  from uart_run.irq [OF uart_run.kick [OF uart_run.start u1(1)] this]
  have "uart_run esp_client esp_ok esp_queue snd u0 [] [0x5A] v"
    by (simp add: arrives_def rx_error_code_def USART_FLAG_RXC_def USART_DATA_MASK_def)
  with u0 show ?thesis by blast
qed

theorem uart_stream_exact_witness:
  "\<exists>v. wire v @ (if sending v then unsent v else []) @ esp_queue (u_app v) = [0x41, 0x42] \<and> snd (u_app v) = [0x5A] \<and>
     (\<exists>v'. uart_irq esp_client ready v = Some v')"
proof -
  obtain u0 v where r: "port_config sample_par True 115200 8 1 HAL_UART_PARITY_NONE HAL_UART_FLOW_CTL_NONE (sample_port [0x41, 0x42]) = Some (0, u0)"
    "uart_run esp_client esp_ok esp_queue snd u0 [] [0x5A] v"
    using sample_run by blast
  from uart_stream_exact [OF r(1) sample_closed(1) _ r(2), of ready] show ?thesis
    by (intro exI [of _ v]) (simp add: sample_closed)
qed

theorem uart_drains_witness:
  "\<exists>v1 v2. usart_irqs (uart_env esp_client) (replicate 5 ready) v1 = Some v2 \<and> wire v2 = [0x41, 0x42] \<and> \<not> tx_on v2"
proof -
  obtain u0 v where r: "port_config sample_par True 115200 8 1 HAL_UART_PARITY_NONE HAL_UART_FLOW_CTL_NONE (sample_port [0x41, 0x42]) = Some (0, u0)"
    "uart_run esp_client esp_ok esp_queue snd u0 [] [0x5A] v"
    using sample_run by blast
  from uart_drains [OF r(1) sample_closed(1) _ r(2), of 5] show ?thesis
    by (auto simp add: sample_closed)
qed

text \<open>The last character of a buffer is on its way, and the ring holds two more.\<close>

definition busy_port :: "(espduino \<times> u8 list) hal_uart" where
  "busy_port = (sample_port [0x41, 0x42])\<lparr>character_size := USART_CHARACTER_SIZE_8BIT, transmitter_enabled := True,
     callback := [txdone_ptr, rx_ptr, 0, 0, 0, 0], rx_buffer_ptr := Some (RxData, 0), remaining_rx_buffer_length := 1,
     callback_reg_mask := 3, callback_enable_mask := 3, intenset := 6, irq_enabled := True, u_open := True, tx_on := True\<rparr>"

theorem uart_blocking_tx_stalls_witness:
  "\<exists>u'. port_blocking_tx esp_client [] [\<lparr>i_flags = USART_FLAG_TXC, i_status = 0, i_data = 0\<rparr>] 0x43 busy_port = Some u' \<and> tx_on u'"
proof -
  have "port_inv busy_port" "tx_on busy_port" "\<not> sending busy_port" "esp_ok (u_app busy_port)"
    using sample_closed(1) [of "[0x41, 0x42]"]
    by (simp_all add: busy_port_def sample_port_def port_defs sending_def closed_port_def)
  from uart_blocking_tx_stalls [OF this] show ?thesis by (meson uart_run.start)
qed

end
