(* ===== verification/Port.thy ===== *)
theory Port
  imports Status_Codes
begin

text \<open>
  The pins of the chip: \<open>sam0/drivers/port\<close> and \<open>sam0/drivers/system/pinmux\<close>. A group of 32 pins is a record of its
  registers. \<open>OUTSET\<close>, \<open>OUTCLR\<close>, \<open>DIRSET\<close>, \<open>DIRCLR\<close> and \<open>WRCONFIG\<close> are written and change other registers, as
  the definitions of the same name do; what the input register shows depends on the board and is an argument of
  the functions that read it. The number of a pin is the \<open>uint8_t\<close> of the driver; a number behind the two groups of the
  chip is a fault (\<open>None\<close>).
\<close>

definition PORT_WRCONFIG_PMUXEN :: u32 where "PORT_WRCONFIG_PMUXEN = push_bit 16 1"
definition PORT_WRCONFIG_INEN :: u32 where "PORT_WRCONFIG_INEN = push_bit 17 1"
definition PORT_WRCONFIG_PULLEN :: u32 where "PORT_WRCONFIG_PULLEN = push_bit 18 1"
definition PORT_WRCONFIG_DRVSTR :: u32 where "PORT_WRCONFIG_DRVSTR = push_bit 22 1"
definition PORT_WRCONFIG_PMUX_Pos :: nat where "PORT_WRCONFIG_PMUX_Pos = 24"
definition PORT_WRCONFIG_WRPMUX :: u32 where "PORT_WRCONFIG_WRPMUX = push_bit 28 1"
definition PORT_WRCONFIG_WRPINCFG :: u32 where "PORT_WRCONFIG_WRPINCFG = push_bit 30 1"
definition PORT_WRCONFIG_HWSEL :: u32 where "PORT_WRCONFIG_HWSEL = push_bit 31 1"
definition SYSTEM_PINMUX_GPIO :: u8 where "SYSTEM_PINMUX_GPIO = push_bit 7 1"

datatype pin_dir = SYSTEM_PINMUX_PIN_DIR_INPUT | SYSTEM_PINMUX_PIN_DIR_OUTPUT | SYSTEM_PINMUX_PIN_DIR_OUTPUT_WITH_READBACK
datatype pin_pull = SYSTEM_PINMUX_PIN_PULL_NONE | SYSTEM_PINMUX_PIN_PULL_UP | SYSTEM_PINMUX_PIN_PULL_DOWN

record pinmux_config =
  mux_position :: u8
  direction :: pin_dir
  input_pull :: pin_pull
  powersave :: bool

definition system_pinmux_get_config_defaults :: pinmux_config where
  "system_pinmux_get_config_defaults = \<lparr>mux_position = SYSTEM_PINMUX_GPIO, direction = SYSTEM_PINMUX_PIN_DIR_INPUT,
     input_pull = SYSTEM_PINMUX_PIN_PULL_UP, powersave = False\<rparr>"

subsection \<open>Registers\<close>

record pincfg =
  pmuxen :: bool
  inen :: bool
  pullen :: bool
  drvstr :: bool
  pmux :: u8

record port_group =
  DIR :: u32
  OUT :: u32
  CTRL :: u32
  PINCFG :: "pincfg list"

definition DIRSET :: "u32 \<Rightarrow> port_group \<Rightarrow> port_group" where "DIRSET m g = g\<lparr>DIR := DIR g OR m\<rparr>"
definition DIRCLR :: "u32 \<Rightarrow> port_group \<Rightarrow> port_group" where "DIRCLR m g = g\<lparr>DIR := DIR g AND NOT m\<rparr>"
definition OUTSET :: "u32 \<Rightarrow> port_group \<Rightarrow> port_group" where "OUTSET m g = g\<lparr>OUT := OUT g OR m\<rparr>"
definition OUTCLR :: "u32 \<Rightarrow> port_group \<Rightarrow> port_group" where "OUTCLR m g = g\<lparr>OUT := OUT g AND NOT m\<rparr>"
definition OUTTGL :: "u32 \<Rightarrow> port_group \<Rightarrow> port_group" where "OUTTGL m g = g\<lparr>OUT := OUT g XOR m\<rparr>"

text \<open>\<open>WRCONFIG\<close> configures the pins of one half of the group whose bits are set in the lower half of the value.\<close>

definition wr_selected :: "u32 \<Rightarrow> nat \<Rightarrow> bool" where
  "wr_selected v i \<longleftrightarrow> bit v (i mod 16) \<and> (i div 16 = (if v AND PORT_WRCONFIG_HWSEL \<noteq> 0 then 1 else 0))"

definition WRCONFIG :: "u32 \<Rightarrow> port_group \<Rightarrow> port_group" where
  "WRCONFIG v g = g\<lparr>PINCFG := map (\<lambda>i.
      if wr_selected v i then
        (let c = PINCFG g ! i;
             c = (if v AND PORT_WRCONFIG_WRPINCFG \<noteq> 0
                  then c\<lparr>pmuxen := v AND PORT_WRCONFIG_PMUXEN \<noteq> 0, inen := v AND PORT_WRCONFIG_INEN \<noteq> 0,
                         pullen := v AND PORT_WRCONFIG_PULLEN \<noteq> 0, drvstr := v AND PORT_WRCONFIG_DRVSTR \<noteq> 0\<rparr> else c)
         in if v AND PORT_WRCONFIG_WRPMUX \<noteq> 0 then c\<lparr>pmux := ucast (drop_bit PORT_WRCONFIG_PMUX_Pos v) AND 0xf\<rparr> else c)
      else PINCFG g ! i) [0..<32]\<rparr>"

subsection \<open>Configuring pins\<close>

definition pin_cfg_bits :: "pinmux_config \<Rightarrow> u32" where
  "pin_cfg_bits c =
     (let v = (if mux_position c \<noteq> SYSTEM_PINMUX_GPIO
               then PORT_WRCONFIG_PMUXEN OR push_bit PORT_WRCONFIG_PMUX_Pos (ucast (mux_position c)) else 0);
          v = (if direction c = SYSTEM_PINMUX_PIN_DIR_INPUT \<or> direction c = SYSTEM_PINMUX_PIN_DIR_OUTPUT_WITH_READBACK
               then v OR PORT_WRCONFIG_INEN OR (if input_pull c \<noteq> SYSTEM_PINMUX_PIN_PULL_NONE then PORT_WRCONFIG_PULLEN else 0)
               else v)
      in if direction c = SYSTEM_PINMUX_PIN_DIR_OUTPUT \<or> direction c = SYSTEM_PINMUX_PIN_DIR_OUTPUT_WITH_READBACK
         then v AND NOT PORT_WRCONFIG_PULLEN else v)"

text \<open>The two writes to \<open>WRCONFIG\<close>, for the lower and the upper half of the group.\<close>

definition write_pincfg :: "u32 \<Rightarrow> u32 \<Rightarrow> port_group \<Rightarrow> port_group" where
  "write_pincfg pin_mask pin_cfg g =
     WRCONFIG (drop_bit 16 pin_mask OR pin_cfg OR PORT_WRCONFIG_WRPMUX OR PORT_WRCONFIG_WRPINCFG OR PORT_WRCONFIG_HWSEL)
       (WRCONFIG ((pin_mask AND 0xffff) OR pin_cfg OR PORT_WRCONFIG_WRPMUX OR PORT_WRCONFIG_WRPINCFG) g)"

definition system_pinmux_config :: "u32 \<Rightarrow> pinmux_config \<Rightarrow> port_group \<Rightarrow> port_group" where
  "system_pinmux_config pin_mask c g =
     (let pin_cfg = (if powersave c then 0 else pin_cfg_bits c);
          g = (if powersave c then DIRCLR pin_mask g
               else if direction c = SYSTEM_PINMUX_PIN_DIR_INPUT \<or> direction c = SYSTEM_PINMUX_PIN_DIR_OUTPUT_WITH_READBACK
               then DIRCLR pin_mask g else g);
          g = write_pincfg pin_mask pin_cfg g
      in if powersave c then g
         else let g = (if pin_cfg AND PORT_WRCONFIG_PULLEN \<noteq> 0
                       then if input_pull c = SYSTEM_PINMUX_PIN_PULL_UP then OUTSET pin_mask g else OUTCLR pin_mask g else g)
              in if direction c = SYSTEM_PINMUX_PIN_DIR_OUTPUT \<or> direction c = SYSTEM_PINMUX_PIN_DIR_OUTPUT_WITH_READBACK
                 then DIRSET pin_mask g else g)"

definition on_group :: "u8 \<Rightarrow> (port_group \<Rightarrow> port_group) \<Rightarrow> port_group list \<Rightarrow> port_group list option" where
  "on_group gpio_pin f gs =
     (let i = unat gpio_pin div 32
      in if unat gpio_pin div 128 = 0 \<and> i < length gs then Some (gs[i := f (gs ! i)]) else None)"

definition one_bit :: "nat \<Rightarrow> u32" where
  "one_bit i = push_bit i 1"

definition pin_bit :: "u8 \<Rightarrow> u32" where
  "pin_bit gpio_pin = one_bit (unat gpio_pin mod 32)"

definition system_pinmux_pin_set_config :: "u8 \<Rightarrow> pinmux_config \<Rightarrow> port_group list \<Rightarrow> port_group list option" where
  "system_pinmux_pin_set_config gpio_pin c = on_group gpio_pin (system_pinmux_config (pin_bit gpio_pin) c)"

record port_config =
  pc_direction :: pin_dir
  pc_input_pull :: pin_pull
  pc_powersave :: bool

definition port_pin_set_config :: "u8 \<Rightarrow> port_config \<Rightarrow> port_group list \<Rightarrow> port_group list option" where
  "port_pin_set_config gpio_pin c =
     system_pinmux_pin_set_config gpio_pin
       (system_pinmux_get_config_defaults\<lparr>mux_position := SYSTEM_PINMUX_GPIO, direction := pc_direction c,
          input_pull := pc_input_pull c, powersave := pc_powersave c\<rparr>)"

definition port_get_config_defaults :: port_config where
  "port_get_config_defaults = \<lparr>pc_direction = SYSTEM_PINMUX_PIN_DIR_INPUT, pc_input_pull = SYSTEM_PINMUX_PIN_PULL_UP,
     pc_powersave = False\<rparr>"

subsection \<open>Groups of pins\<close>

definition system_pinmux_group_set_config :: "u32 \<Rightarrow> pinmux_config \<Rightarrow> port_group \<Rightarrow> port_group" where
  "system_pinmux_group_set_config pmask c g =
     fold (\<lambda>i g. if pmask AND one_bit i \<noteq> 0 then system_pinmux_config (one_bit i) c g else g) [0..<32] g"

definition port_group_set_config :: "u32 \<Rightarrow> port_config \<Rightarrow> port_group \<Rightarrow> port_group" where
  "port_group_set_config pmask c =
     system_pinmux_group_set_config pmask
       (system_pinmux_get_config_defaults\<lparr>mux_position := SYSTEM_PINMUX_GPIO, direction := pc_direction c,
          input_pull := pc_input_pull c, powersave := pc_powersave c\<rparr>)"

definition port_group_get_input_level :: "(port_group \<Rightarrow> u32) \<Rightarrow> u32 \<Rightarrow> port_group \<Rightarrow> u32" where
  "port_group_get_input_level levels pmask g = levels g AND pmask"

definition port_group_get_output_level :: "u32 \<Rightarrow> port_group \<Rightarrow> u32" where
  "port_group_get_output_level pmask g = OUT g AND pmask"

definition port_group_set_output_level :: "u32 \<Rightarrow> u32 \<Rightarrow> port_group \<Rightarrow> port_group" where
  "port_group_set_output_level pmask level_mask g = OUTCLR (pmask AND NOT level_mask) (OUTSET (pmask AND level_mask) g)"

definition port_group_toggle_output_level :: "u32 \<Rightarrow> port_group \<Rightarrow> port_group" where
  "port_group_toggle_output_level pmask g = OUTTGL pmask g"

subsection \<open>Position, sampling and strength\<close>

datatype pin_sample = SYSTEM_PINMUX_PIN_SAMPLE_CONTINUOUS | SYSTEM_PINMUX_PIN_SAMPLE_ONDEMAND
datatype pin_strength = SYSTEM_PINMUX_PIN_STRENGTH_NORMAL | SYSTEM_PINMUX_PIN_STRENGTH_HIGH

definition system_pinmux_pin_get_mux_position :: "u8 \<Rightarrow> port_group list \<Rightarrow> u8 option" where
  "system_pinmux_pin_get_mux_position gpio_pin gs =
     (let i = unat gpio_pin div 32; k = unat gpio_pin mod 32
      in if unat gpio_pin div 128 = 0 \<and> i < length gs
         then Some (if pmuxen (PINCFG (gs ! i) ! k) then pmux (PINCFG (gs ! i) ! k) else SYSTEM_PINMUX_GPIO) else None)"

definition system_pinmux_group_set_input_sample_mode :: "u32 \<Rightarrow> pin_sample \<Rightarrow> port_group \<Rightarrow> port_group" where
  "system_pinmux_group_set_input_sample_mode pmask mode g =
     g\<lparr>CTRL := (if mode = SYSTEM_PINMUX_PIN_SAMPLE_ONDEMAND then CTRL g OR pmask else CTRL g AND NOT pmask)\<rparr>"

definition system_pinmux_pin_set_input_sample_mode :: "u8 \<Rightarrow> pin_sample \<Rightarrow> port_group list \<Rightarrow> port_group list option" where
  "system_pinmux_pin_set_input_sample_mode gpio_pin mode =
     on_group gpio_pin (\<lambda>g. g\<lparr>CTRL := (if mode = SYSTEM_PINMUX_PIN_SAMPLE_ONDEMAND then CTRL g OR pin_bit gpio_pin
                                     else CTRL g AND NOT (pin_bit gpio_pin))\<rparr>)"

definition set_strength :: "pin_strength \<Rightarrow> nat \<Rightarrow> port_group \<Rightarrow> port_group" where
  "set_strength mode i g = g\<lparr>PINCFG := (PINCFG g)[i := (PINCFG g ! i)\<lparr>drvstr := (mode = SYSTEM_PINMUX_PIN_STRENGTH_HIGH)\<rparr>]\<rparr>"

definition system_pinmux_pin_set_output_strength :: "u8 \<Rightarrow> pin_strength \<Rightarrow> port_group list \<Rightarrow> port_group list option" where
  "system_pinmux_pin_set_output_strength gpio_pin mode = on_group gpio_pin (set_strength mode (unat gpio_pin mod 32))"

definition system_pinmux_group_set_output_strength :: "u32 \<Rightarrow> pin_strength \<Rightarrow> port_group \<Rightarrow> port_group" where
  "system_pinmux_group_set_output_strength pmask mode g =
     fold (\<lambda>i g. if pmask AND one_bit i \<noteq> 0 then set_strength mode i g else g) [0..<32] g"

subsection \<open>Levels\<close>

text \<open>\<open>levels\<close>: what the input register of a group shows, given its number and its registers.\<close>

definition port_pin_get_input_level :: "(nat \<Rightarrow> port_group \<Rightarrow> u32) \<Rightarrow> u8 \<Rightarrow> port_group list \<Rightarrow> bool option" where
  "port_pin_get_input_level levels gpio_pin gs =
     (let i = unat gpio_pin div 32
      in if unat gpio_pin div 128 = 0 \<and> i < length gs then Some (levels i (gs ! i) AND pin_bit gpio_pin \<noteq> 0) else None)"

definition port_pin_get_output_level :: "u8 \<Rightarrow> port_group list \<Rightarrow> bool option" where
  "port_pin_get_output_level gpio_pin gs =
     (let i = unat gpio_pin div 32
      in if unat gpio_pin div 128 = 0 \<and> i < length gs then Some (OUT (gs ! i) AND pin_bit gpio_pin \<noteq> 0) else None)"

definition port_pin_set_output_level :: "u8 \<Rightarrow> bool \<Rightarrow> port_group list \<Rightarrow> port_group list option" where
  "port_pin_set_output_level gpio_pin level =
     on_group gpio_pin (if level then OUTSET (pin_bit gpio_pin) else OUTCLR (pin_bit gpio_pin))"

definition port_pin_toggle_output_level :: "u8 \<Rightarrow> port_group list \<Rightarrow> port_group list option" where
  "port_pin_toggle_output_level gpio_pin = on_group gpio_pin (OUTTGL (pin_bit gpio_pin))"

subsection \<open>What a configuration changes\<close>

lemmas wrconfig_defs = PORT_WRCONFIG_PMUXEN_def PORT_WRCONFIG_INEN_def PORT_WRCONFIG_PULLEN_def PORT_WRCONFIG_DRVSTR_def PORT_WRCONFIG_PMUX_Pos_def
  PORT_WRCONFIG_WRPMUX_def PORT_WRCONFIG_WRPINCFG_def PORT_WRCONFIG_HWSEL_def

lemma and_pin_ne_0: "v AND push_bit i 1 \<noteq> 0 \<longleftrightarrow> bit v i" for v :: u32
  by (simp add: push_bit_eq_mult bit_iff_and_push_bit_not_eq_0)

lemma bit_pin: "bit (push_bit k 1 :: u32) j \<longleftrightarrow> j = k \<and> k < 32"
  by (auto simp: bit_simps bit_1_iff)

lemma bit_one_bit [simp]: "bit (one_bit k) j \<longleftrightarrow> j = k \<and> k < 32"
  by (simp only: one_bit_def bit_pin)

lemma and_one_bit: "v AND one_bit i \<noteq> 0 \<longleftrightarrow> bit v i"
  by (simp only: one_bit_def and_pin_ne_0)

lemma bit_ffff: "bit (0xffff :: u32) j \<longleftrightarrow> j < 16"
  using bit_mask_iff [of 16 j, where 'a = u32] by (auto simp: mask_eq_exp_minus_1)

lemma wr_bits:
  "bit PORT_WRCONFIG_PMUXEN j \<longleftrightarrow> j = 16" "bit PORT_WRCONFIG_INEN j \<longleftrightarrow> j = 17" "bit PORT_WRCONFIG_PULLEN j \<longleftrightarrow> j = 18"
  "bit PORT_WRCONFIG_DRVSTR j \<longleftrightarrow> j = 22"
  "bit PORT_WRCONFIG_WRPMUX j \<longleftrightarrow> j = 28" "bit PORT_WRCONFIG_WRPINCFG j \<longleftrightarrow> j = 30" "bit PORT_WRCONFIG_HWSEL j \<longleftrightarrow> j = 31"
  unfolding wrconfig_defs bit_pin by simp_all

lemma wr_tests:
  "v AND PORT_WRCONFIG_PMUXEN \<noteq> 0 \<longleftrightarrow> bit v 16" "v AND PORT_WRCONFIG_INEN \<noteq> 0 \<longleftrightarrow> bit v 17"
  "v AND PORT_WRCONFIG_PULLEN \<noteq> 0 \<longleftrightarrow> bit v 18" "v AND PORT_WRCONFIG_DRVSTR \<noteq> 0 \<longleftrightarrow> bit v 22"
  "v AND PORT_WRCONFIG_WRPMUX \<noteq> 0 \<longleftrightarrow> bit v 28"
  "v AND PORT_WRCONFIG_WRPINCFG \<noteq> 0 \<longleftrightarrow> bit v 30" "v AND PORT_WRCONFIG_HWSEL \<noteq> 0 \<longleftrightarrow> bit v 31"
  unfolding wrconfig_defs and_pin_ne_0 by simp_all

definition group_ok :: "port_group \<Rightarrow> bool" where
  "group_ok g \<longleftrightarrow> length (PINCFG g) = 32"

lemma WRCONFIG_keeps [simp]: "DIR (WRCONFIG v g) = DIR g" "OUT (WRCONFIG v g) = OUT g" "group_ok (WRCONFIG v g)"
  by (simp_all add: WRCONFIG_def group_ok_def)

lemma group_regs [simp]:
  "PINCFG (DIRSET m g) = PINCFG g" "PINCFG (DIRCLR m g) = PINCFG g" "PINCFG (OUTSET m g) = PINCFG g" "PINCFG (OUTCLR m g) = PINCFG g"
  "OUT (DIRSET m g) = OUT g" "OUT (DIRCLR m g) = OUT g" "DIR (OUTSET m g) = DIR g" "DIR (OUTCLR m g) = DIR g"
  "OUT (OUTSET m g) = OUT g OR m" "OUT (OUTCLR m g) = OUT g AND NOT m" "DIR (DIRSET m g) = DIR g OR m" "DIR (DIRCLR m g) = DIR g AND NOT m"
  "group_ok (DIRSET m g) = group_ok g" "group_ok (DIRCLR m g) = group_ok g" "group_ok (OUTSET m g) = group_ok g"
  "group_ok (OUTCLR m g) = group_ok g"
  by (simp_all add: DIRSET_def DIRCLR_def OUTSET_def OUTCLR_def group_ok_def)

text \<open>The two writes for one pin reach exactly that pin.\<close>

definition cfg_only :: "u32 \<Rightarrow> bool" where
  "cfg_only v \<longleftrightarrow> (\<forall>i < 16. \<not> bit v i) \<and> \<not> bit v 31"

lemma wr_halves:
  assumes "cfg_only v" "k < 32" "i < 32"
  shows "wr_selected ((one_bit k AND 0xffff) OR v OR PORT_WRCONFIG_WRPMUX OR PORT_WRCONFIG_WRPINCFG) i \<longleftrightarrow> i = k \<and> k < 16"
    and "wr_selected (drop_bit 16 (one_bit k) OR v OR PORT_WRCONFIG_WRPMUX OR PORT_WRCONFIG_WRPINCFG OR PORT_WRCONFIG_HWSEL) i
      \<longleftrightarrow> i = k \<and> 16 \<le> k"
proof -
  have half: "i < 16 \<and> i mod 16 = i \<and> i div 16 = 0 \<or> 16 \<le> i \<and> i mod 16 = i - 16 \<and> i div 16 = 1"
    using assms(3) by presburger
  have v: "\<not> bit v (i mod 16)" "\<not> bit v 31" using assms(1) by (simp_all add: cfg_only_def)
  show "wr_selected ((one_bit k AND 0xffff) OR v OR PORT_WRCONFIG_WRPMUX OR PORT_WRCONFIG_WRPINCFG) i \<longleftrightarrow> i = k \<and> k < 16"
    unfolding wr_selected_def wr_tests bit_or_iff bit_and_iff bit_one_bit bit_ffff wr_bits
    using half assms(2,3) v by (elim disjE) auto
  show "wr_selected (drop_bit 16 (one_bit k) OR v OR PORT_WRCONFIG_WRPMUX OR PORT_WRCONFIG_WRPINCFG OR PORT_WRCONFIG_HWSEL) i
      \<longleftrightarrow> i = k \<and> 16 \<le> k"
    unfolding wr_selected_def wr_tests bit_or_iff bit_and_iff bit_drop_bit_eq o_def bit_one_bit wr_bits
    using half assms(2,3) v by (elim disjE) auto
qed

definition cfg_of :: "u32 \<Rightarrow> pincfg" where
  "cfg_of v = \<lparr>pmuxen = bit v 16, inen = bit v 17, pullen = bit v 18, drvstr = bit v 22,
     pmux = ucast (drop_bit PORT_WRCONFIG_PMUX_Pos v) AND 0xf\<rparr>"

lemma WRCONFIG_nth:
  assumes "i < 32" "bit v 28" "bit v 30"
  shows "PINCFG (WRCONFIG v g) ! i = (if wr_selected v i then cfg_of v else PINCFG g ! i)"
  using assms unfolding WRCONFIG_def wr_tests cfg_of_def by (cases "PINCFG g ! i") (simp add: Let_def)

lemma cfg_of_frame:
  assumes "\<And>j. 16 \<le> j \<Longrightarrow> \<not> bit a j"
  shows "cfg_of (a OR v OR PORT_WRCONFIG_WRPMUX OR PORT_WRCONFIG_WRPINCFG) = cfg_of v"
    and "cfg_of (a OR v OR PORT_WRCONFIG_WRPMUX OR PORT_WRCONFIG_WRPINCFG OR PORT_WRCONFIG_HWSEL) = cfg_of v"
proof -
  have low: "bit (0xf :: u8) j \<longleftrightarrow> j < 4" for j
    using bit_mask_iff [of 4 j, where 'a = u8] by (auto simp: mask_eq_exp_minus_1)
  have nib: "bit (ucast (drop_bit 24 w) AND 0xf :: u8) j \<longleftrightarrow> j < 4 \<and> bit w (24 + j)" for w :: u32 and j
    unfolding bit_and_iff low bit_ucast_iff bit_drop_bit_eq o_def by auto
  have eq: "cfg_of w = cfg_of v" if same: "\<And>j. 16 \<le> j \<Longrightarrow> j < 28 \<Longrightarrow> bit w j = bit v j" for w
  proof -
    have "ucast (drop_bit 24 w) AND 0xf = (ucast (drop_bit 24 v) AND 0xf :: u8)"
      by (rule bit_eqI) (unfold nib, use same in auto)
    moreover have "bit w 16 = bit v 16" "bit w 17 = bit v 17" "bit w 18 = bit v 18" "bit w 22 = bit v 22" using same by simp_all
    ultimately show ?thesis by (simp only: cfg_of_def PORT_WRCONFIG_PMUX_Pos_def)
  qed
  have "bit (a OR v OR PORT_WRCONFIG_WRPMUX OR PORT_WRCONFIG_WRPINCFG) j = bit v j"
    "bit (a OR v OR PORT_WRCONFIG_WRPMUX OR PORT_WRCONFIG_WRPINCFG OR PORT_WRCONFIG_HWSEL) j = bit v j" if "16 \<le> j" "j < 28" for j
    unfolding bit_or_iff wr_bits using that assms by auto
  then show "cfg_of (a OR v OR PORT_WRCONFIG_WRPMUX OR PORT_WRCONFIG_WRPINCFG) = cfg_of v"
    "cfg_of (a OR v OR PORT_WRCONFIG_WRPMUX OR PORT_WRCONFIG_WRPINCFG OR PORT_WRCONFIG_HWSEL) = cfg_of v"
    by (blast intro: eq)+
qed

text \<open>The bits of a configuration: those of a pin multiplexed to one of the functions fit into their field.\<close>

definition mux_ok :: "pinmux_config \<Rightarrow> bool" where
  "mux_ok c \<longleftrightarrow> mux_position c = SYSTEM_PINMUX_GPIO \<or> mux_position c < 16"

lemma bit_u8_small: "w < 16 \<Longrightarrow> 4 \<le> j \<Longrightarrow> \<not> bit w j" for w :: u8
proof -
  assume w: "w < 16" and j: "4 \<le> j"
  have "unat w < 2 ^ 4" using w by (simp add: word_less_nat_alt)
  then have "take_bit 4 (unat w) = unat w" by (simp add: take_bit_nat_eq_self)
  then have "\<not> bit (unat w) j" using j by (metis bit_take_bit_iff not_less)
  then show ?thesis by (simp add: bit_unsigned_iff)
qed

lemma cfg_bits_only: "mux_ok c \<Longrightarrow> cfg_only (pin_cfg_bits c)"
  by (auto simp: cfg_only_def pin_cfg_bits_def Let_def mux_ok_def bit_or_iff bit_and_iff bit_not_iff bit_push_bit_iff
      bit_unsigned_iff wr_bits PORT_WRCONFIG_PMUX_Pos_def bit_u8_small)

lemma length_PINCFG [simp]: "length (PINCFG (WRCONFIG v g)) = 32"
  by (simp add: WRCONFIG_def)

lemma write_pincfg_pins:
  assumes "group_ok g" "cfg_only v" "k < 32"
  shows "PINCFG (write_pincfg (one_bit k) v g) = (PINCFG g)[k := cfg_of v]"
proof (rule nth_equalityI)
  let ?a = "(one_bit k AND 0xffff) OR v OR PORT_WRCONFIG_WRPMUX OR PORT_WRCONFIG_WRPINCFG"
  let ?b = "drop_bit 16 (one_bit k) OR v OR PORT_WRCONFIG_WRPMUX OR PORT_WRCONFIG_WRPINCFG OR PORT_WRCONFIG_HWSEL"
  fix i assume "i < length (PINCFG (write_pincfg (one_bit k) v g))"
  then have i: "i < 32" by (simp add: write_pincfg_def)
  have on: "bit ?a 28" "bit ?a 30" "bit ?b 28" "bit ?b 30" by (simp_all add: bit_or_iff wr_bits)
  have "\<not> bit (one_bit k AND 0xffff) j" "\<not> bit (drop_bit 16 (one_bit k)) j" if "16 \<le> j" for j
    unfolding bit_and_iff bit_ffff bit_drop_bit_eq o_def bit_one_bit using that assms(3) by auto
  then have cfg: "cfg_of ?a = cfg_of v" "cfg_of ?b = cfg_of v"
    using cfg_of_frame(1) [of "one_bit k AND 0xffff"] cfg_of_frame(2) [of "drop_bit 16 (one_bit k)"] by blast+
  have "PINCFG (write_pincfg (one_bit k) v g) ! i =
      (if wr_selected ?b i then cfg_of v else if wr_selected ?a i then cfg_of v else PINCFG g ! i)"
    unfolding write_pincfg_def WRCONFIG_nth [OF i on(3,4)] WRCONFIG_nth [OF i on(1,2)] cfg ..
  also have "\<dots> = (if i = k then cfg_of v else PINCFG g ! i)"
    unfolding wr_halves [OF assms(2,3) i] by auto
  finally show "PINCFG (write_pincfg (one_bit k) v g) ! i = (PINCFG g)[k := cfg_of v] ! i"
    using assms(1) i by (simp add: group_ok_def nth_list_update)
qed (use assms in \<open>simp add: group_ok_def write_pincfg_def\<close>)

lemma write_pincfg_keeps [simp]:
  "DIR (write_pincfg m v g) = DIR g" "OUT (write_pincfg m v g) = OUT g" "group_ok (write_pincfg m v g)"
  by (simp_all add: write_pincfg_def)

text \<open>Configuring a pin changes the configuration, the direction and, for an input with a pull, the output level of that pin.\<close>

lemma pinmux_config_pin:
  assumes "group_ok g" "mux_ok c" "k < 32"
  shows "PINCFG (system_pinmux_config (one_bit k) c g) = (PINCFG g)[k := cfg_of (if powersave c then 0 else pin_cfg_bits c)]"
    and "group_ok (system_pinmux_config (one_bit k) c g)"
    and "i \<noteq> k \<Longrightarrow> bit (DIR (system_pinmux_config (one_bit k) c g)) i = bit (DIR g) i \<and>
      bit (OUT (system_pinmux_config (one_bit k) c g)) i = bit (OUT g) i"
    and "\<not> powersave c \<Longrightarrow> bit (DIR (system_pinmux_config (one_bit k) c g)) k = (direction c \<noteq> SYSTEM_PINMUX_PIN_DIR_INPUT)"
    and "direction c \<noteq> SYSTEM_PINMUX_PIN_DIR_INPUT \<Longrightarrow> OUT (system_pinmux_config (one_bit k) c g) = OUT g"
proof -
  define v where "v = (if powersave c then 0 else pin_cfg_bits c)"
  have v: "cfg_only v" using cfg_bits_only [OF assms(2)] by (simp add: v_def cfg_only_def)
  have pull: "direction c \<noteq> SYSTEM_PINMUX_PIN_DIR_INPUT \<Longrightarrow> v AND PORT_WRCONFIG_PULLEN = 0"
    using wr_tests(3) [of v]
    by (cases "direction c") (auto simp: v_def pin_cfg_bits_def Let_def bit_or_iff bit_and_iff bit_not_iff bit_push_bit_iff
      bit_unsigned_iff wr_bits PORT_WRCONFIG_PMUX_Pos_def)
  define g1 where "g1 = (if powersave c \<or> direction c \<noteq> SYSTEM_PINMUX_PIN_DIR_OUTPUT then DIRCLR (one_bit k) g else g)"
  define g2 where "g2 = write_pincfg (one_bit k) v g1"
  have run: "system_pinmux_config (one_bit k) c g = (if powersave c then g2 else
      let g = (if v AND PORT_WRCONFIG_PULLEN \<noteq> 0
               then if input_pull c = SYSTEM_PINMUX_PIN_PULL_UP then OUTSET (one_bit k) g2 else OUTCLR (one_bit k) g2 else g2)
      in if direction c \<noteq> SYSTEM_PINMUX_PIN_DIR_INPUT then DIRSET (one_bit k) g else g)"
    by (cases "direction c") (simp_all add: system_pinmux_config_def g2_def g1_def v_def Let_def)
  have g1: "group_ok g1" "PINCFG g1 = PINCFG g" "OUT g1 = OUT g" "i \<noteq> k \<Longrightarrow> bit (DIR g1) i = bit (DIR g) i" for i
    using assms(1) by (auto simp: g1_def bit_and_iff bit_not_iff dest: bit_imp_le_length)
  have p: "PINCFG g2 = (PINCFG g)[k := cfg_of v]" "group_ok g2" "OUT g2 = OUT g" "DIR g2 = DIR g1"
    using write_pincfg_pins [OF g1(1) v assms(3)] g1 by (simp_all add: g2_def)
  show "PINCFG (system_pinmux_config (one_bit k) c g) = (PINCFG g)[k := cfg_of v]"
    "group_ok (system_pinmux_config (one_bit k) c g)"
    unfolding run using p by (simp_all add: Let_def)
  show "bit (DIR (system_pinmux_config (one_bit k) c g)) i = bit (DIR g) i \<and>
      bit (OUT (system_pinmux_config (one_bit k) c g)) i = bit (OUT g) i" if "i \<noteq> k"
    unfolding run using p g1 that by (auto simp: Let_def bit_or_iff bit_and_iff bit_not_iff dest: bit_imp_le_length)
  show "bit (DIR (system_pinmux_config (one_bit k) c g)) k = (direction c \<noteq> SYSTEM_PINMUX_PIN_DIR_INPUT)" if "\<not> powersave c"
    unfolding run using p assms(3) that by (auto simp: Let_def bit_or_iff bit_and_iff bit_not_iff g1_def)
  show "OUT (system_pinmux_config (one_bit k) c g) = OUT g" if "direction c \<noteq> SYSTEM_PINMUX_PIN_DIR_INPUT"
    unfolding run using p pull [OF that] by (simp add: Let_def)
qed

text \<open>Configuring a group configures each pin of its mask and leaves the others.\<close>

lemma group_config_upto:
  fixes pmask :: u32 and n :: nat
  assumes "group_ok g" "mux_ok c" "n \<le> 32"
  defines "h \<equiv> fold (\<lambda>i g. if pmask AND one_bit i \<noteq> 0 then system_pinmux_config (one_bit i) c g else g) [0..<n] g"
  shows "group_ok h \<and> (\<forall>i < 32. PINCFG h ! i = (if i < n \<and> bit pmask i then cfg_of (if powersave c then 0 else pin_cfg_bits c)
    else PINCFG g ! i))"
  using assms(3) unfolding h_def
proof (induction n)
  case 0
  then show ?case using assms(1) by simp
next
  case (Suc n)
  let ?h = "fold (\<lambda>i g. if pmask AND one_bit i \<noteq> 0 then system_pinmux_config (one_bit i) c g else g) [0..<n] g"
  have IH: "group_ok ?h" "\<forall>i < 32. PINCFG ?h ! i = (if i < n \<and> bit pmask i then cfg_of (if powersave c then 0 else pin_cfg_bits c)
    else PINCFG g ! i)" using Suc by simp_all
  have n: "n < 32" using Suc.prems by simp
  have len: "length (PINCFG ?h) = 32" using IH(1) by (simp add: group_ok_def)
  show ?case
    using IH pinmux_config_pin(1,2) [OF IH(1) assms(2) n] len n
    by (auto simp: and_one_bit nth_list_update less_Suc_eq)
qed

lemma group_set_config_pins:
  assumes "group_ok g" "mux_ok c" "i < 32"
  shows "PINCFG (system_pinmux_group_set_config pmask c g) ! i =
    (if bit pmask i then cfg_of (if powersave c then 0 else pin_cfg_bits c) else PINCFG g ! i)"
  using group_config_upto [OF assms(1,2), of 32 pmask] assms(3) by (simp add: system_pinmux_group_set_config_def)

text \<open>The position a pin was configured to is the one read back.\<close>

lemma pmux_bits:
  assumes "mux_position c < 16"
  shows "cfg_of (pin_cfg_bits c) = \<lparr>pmuxen = True, inen = (direction c \<noteq> SYSTEM_PINMUX_PIN_DIR_OUTPUT),
    pullen = (direction c = SYSTEM_PINMUX_PIN_DIR_INPUT \<and> input_pull c \<noteq> SYSTEM_PINMUX_PIN_PULL_NONE), drvstr = False,
    pmux = mux_position c\<rparr>"
proof -
  have gpio: "mux_position c \<noteq> SYSTEM_PINMUX_GPIO" using assms by (auto simp: SYSTEM_PINMUX_GPIO_def)
  have low: "bit (0xf :: u8) j \<longleftrightarrow> j < 4" for j
    using bit_mask_iff [of 4 j, where 'a = u8] by (auto simp: mask_eq_exp_minus_1)
  have b: "bit (pin_cfg_bits c) j \<longleftrightarrow> j = 16 \<or> 24 \<le> j \<and> j < 32 \<and> bit (mux_position c) (j - 24) \<or>
      j = 17 \<and> direction c \<noteq> SYSTEM_PINMUX_PIN_DIR_OUTPUT \<or>
      j = 18 \<and> direction c = SYSTEM_PINMUX_PIN_DIR_INPUT \<and> input_pull c \<noteq> SYSTEM_PINMUX_PIN_PULL_NONE" for j
    using gpio by (cases "direction c") (auto simp: pin_cfg_bits_def Let_def bit_or_iff bit_and_iff bit_not_iff bit_push_bit_iff
      bit_unsigned_iff wr_bits PORT_WRCONFIG_PMUX_Pos_def dest: bit_imp_le_length)
  have "ucast (drop_bit 24 (pin_cfg_bits c)) AND 0xf = mux_position c"
  proof (rule bit_eqI)
    fix n
    show "bit (ucast (drop_bit 24 (pin_cfg_bits c)) AND 0xf :: u8) n = bit (mux_position c) n"
      unfolding bit_and_iff low bit_ucast_iff bit_drop_bit_eq o_def b
      using bit_u8_small [OF assms, of n] by (cases "n < 4") auto
  qed
  then show ?thesis by (simp add: cfg_of_def b PORT_WRCONFIG_PMUX_Pos_def)
qed

lemma mux_position_roundtrip:
  assumes "\<forall>g \<in> set gs. group_ok g" "mux_position c < 16" "\<not> powersave c"
    "system_pinmux_pin_set_config pin c gs = Some gs'"
  shows "system_pinmux_pin_get_mux_position pin gs' = Some (mux_position c)"
proof -
  let ?i = "unat pin div 32" and ?k = "unat pin mod 32"
  have in_gs: "unat pin div 128 = 0" "?i < length gs"
    and gs': "gs' = gs[?i := system_pinmux_config (one_bit ?k) c (gs ! ?i)]"
    using assms(4) by (auto simp: system_pinmux_pin_set_config_def on_group_def Let_def pin_bit_def split: if_splits)
  have ok: "group_ok (gs ! ?i)" using assms(1) in_gs by simp
  have "mux_ok c" using assms(2) by (simp add: mux_ok_def)
  from pinmux_config_pin(1) [OF ok this, of ?k] assms(3)
  have "PINCFG (system_pinmux_config (one_bit ?k) c (gs ! ?i)) = (PINCFG (gs ! ?i))[?k := cfg_of (pin_cfg_bits c)]" by simp
  then show ?thesis
    using in_gs ok by (simp add: gs' system_pinmux_pin_get_mux_position_def Let_def group_ok_def pmux_bits [OF assms(2)])
qed

end
