(* ===== verification/Extint.thy ===== *)
theory Extint
  imports Port
begin

text \<open>
  The external interrupt controller, \<open>sam0/drivers/extint\<close>: one controller with 16 channels, configured four bits a
  channel. Its state extends the groups of pins with the registers of the controller and the callback table. Writing
  \<open>INTFLAG\<close> clears the flags written as ones. The address of a callback is a \<open>u32\<close>, 0 the null pointer.
\<close>

definition EIC_NUMBER_OF_INTERRUPTS :: nat where "EIC_NUMBER_OF_INTERRUPTS = 16"
definition EIC_CONFIG_SENSE0_Msk :: u32 where "EIC_CONFIG_SENSE0_Msk = 7"
definition EIC_CONFIG_FILTEN0 :: u32 where "EIC_CONFIG_FILTEN0 = push_bit 3 1"

definition EIC_CTRL_ENABLE :: u8 where "EIC_CTRL_ENABLE = push_bit 1 1"
definition EIC_NMICTRL_NMIFILTEN :: u8 where "EIC_NMICTRL_NMIFILTEN = push_bit 3 1"
definition EIC_NMIFLAG_NMI :: u8 where "EIC_NMIFLAG_NMI = push_bit 0 1"

datatype extint_detect = EXTINT_DETECT_NONE | EXTINT_DETECT_RISING | EXTINT_DETECT_FALLING | EXTINT_DETECT_BOTH
  | EXTINT_DETECT_HIGH | EXTINT_DETECT_LOW

definition detect_num :: "extint_detect \<Rightarrow> u32" where
  "detect_num d = (case d of EXTINT_DETECT_NONE \<Rightarrow> 0 | EXTINT_DETECT_RISING \<Rightarrow> 1 | EXTINT_DETECT_FALLING \<Rightarrow> 2
     | EXTINT_DETECT_BOTH \<Rightarrow> 3 | EXTINT_DETECT_HIGH \<Rightarrow> 4 | EXTINT_DETECT_LOW \<Rightarrow> 5)"

record extint_chan_conf =
  gpio_pin :: u32
  gpio_pin_mux :: u32
  gpio_pin_pull :: pin_pull
  wake_if_sleeping :: bool
  filter_input_signal :: bool
  detection_criteria :: extint_detect

record extint_nmi_conf =
  nmi_pin :: u32
  nmi_pin_mux :: u32
  nmi_pin_pull :: pin_pull
  nmi_filter :: bool
  nmi_criteria :: extint_detect

text \<open>What the driver asks of the clock driver and of the interrupt controller of the core.\<close>

datatype eic_clk = EicApbMask | EicChanSetConfig | EicChanEnable | EicChanDisable | EicIrqEnable

record pin_hw =
  groups :: "port_group list"
  EIC_CONFIG :: "u32 list"
  EIC_WAKEUP :: u32
  EIC_INTEN :: u32
  EIC_INTFLAG :: u32
  EIC_CTRL :: u8
  EIC_EVCTRL :: u32
  EIC_NMICTRL :: u8
  EIC_NMIFLAG :: u8
  eic_clks :: "eic_clk list"
  callbacks :: "u32 list"

definition extint_chan_get_config_defaults :: extint_chan_conf where
  "extint_chan_get_config_defaults = \<lparr>gpio_pin = 0, gpio_pin_mux = 0, gpio_pin_pull = SYSTEM_PINMUX_PIN_PULL_UP,
     wake_if_sleeping = True, filter_input_signal = False, detection_criteria = EXTINT_DETECT_FALLING\<rparr>"

text \<open>The controller of a channel: there is one, behind its 32 channels is the null pointer.\<close>

definition on_eic :: "u8 \<Rightarrow> ('z pin_hw_scheme \<Rightarrow> 'z pin_hw_scheme) \<Rightarrow> 'z pin_hw_scheme \<Rightarrow> 'z pin_hw_scheme option" where
  "on_eic channel f s = (if unat channel div 32 < 1 then Some (f s) else None)"

definition extint_chan_set_config :: "u8 \<Rightarrow> extint_chan_conf \<Rightarrow> 'z pin_hw_scheme \<Rightarrow> 'z pin_hw_scheme option" where
  "extint_chan_set_config channel c s = do {
     gs \<leftarrow> system_pinmux_pin_set_config (ucast (gpio_pin c))
       (system_pinmux_get_config_defaults\<lparr>mux_position := ucast (gpio_pin_mux c), direction := SYSTEM_PINMUX_PIN_DIR_INPUT,
          input_pull := gpio_pin_pull c\<rparr>) (groups s);
     let config_pos = 4 * (unat channel mod 8);
     let new_config = detect_num (detection_criteria c) OR (if filter_input_signal c then EIC_CONFIG_FILTEN0 else 0);
     old \<leftarrow> mem_read (EIC_CONFIG s) (unat channel div 8);
     regs \<leftarrow> mem_write (EIC_CONFIG s) (unat channel div 8)
       (old AND NOT (push_bit config_pos (EIC_CONFIG_SENSE0_Msk OR EIC_CONFIG_FILTEN0)) OR push_bit config_pos new_config);
     on_eic channel (\<lambda>s. s\<lparr>groups := gs, EIC_CONFIG := regs,
         EIC_WAKEUP := (if wake_if_sleeping c then EIC_WAKEUP s OR one_bit (unat channel)
                        else EIC_WAKEUP s AND NOT (one_bit (unat channel)))\<rparr>) s }"

definition extint_chan_is_detected :: "u8 \<Rightarrow> 'z pin_hw_scheme \<Rightarrow> bool option" where
  "extint_chan_is_detected channel s =
     (if unat channel div 32 < 1 then Some (EIC_INTFLAG s AND one_bit (unat channel mod 32) \<noteq> 0) else None)"

definition extint_chan_clear_detected :: "u8 \<Rightarrow> 'z pin_hw_scheme \<Rightarrow> 'z pin_hw_scheme option" where
  "extint_chan_clear_detected channel =
     on_eic channel (\<lambda>s. s\<lparr>EIC_INTFLAG := EIC_INTFLAG s AND NOT (one_bit (unat channel mod 32))\<rparr>)"

definition extint_chan_enable_callback :: "u8 \<Rightarrow> 'z pin_hw_scheme \<Rightarrow> 'z pin_hw_scheme option" where
  "extint_chan_enable_callback channel = on_eic channel (\<lambda>s. s\<lparr>EIC_INTEN := EIC_INTEN s OR one_bit (unat channel)\<rparr>)"

definition extint_chan_disable_callback :: "u8 \<Rightarrow> 'z pin_hw_scheme \<Rightarrow> 'z pin_hw_scheme option" where
  "extint_chan_disable_callback channel = on_eic channel (\<lambda>s. s\<lparr>EIC_INTEN := EIC_INTEN s AND NOT (one_bit (unat channel))\<rparr>)"

definition extint_register_callback :: "u32 \<Rightarrow> u8 \<Rightarrow> 'z pin_hw_scheme \<Rightarrow> (status_code \<times> 'z pin_hw_scheme) option" where
  "extint_register_callback f channel s = do {
     cur \<leftarrow> mem_read (callbacks s) (unat channel);
     (if cur = 0 then map_option (\<lambda>t. (STATUS_OK, s\<lparr>callbacks := t\<rparr>)) (mem_write (callbacks s) (unat channel) f)
      else if cur = f then Some (STATUS_OK, s) else Some (STATUS_ERR_ALREADY_INITIALIZED, s)) }"

definition extint_unregister_callback :: "u32 \<Rightarrow> u8 \<Rightarrow> 'z pin_hw_scheme \<Rightarrow> (status_code \<times> 'z pin_hw_scheme) option" where
  "extint_unregister_callback f channel s = do {
     cur \<leftarrow> mem_read (callbacks s) (unat channel);
     (if cur = f then map_option (\<lambda>t. (STATUS_OK, s\<lparr>callbacks := t\<rparr>)) (mem_write (callbacks s) (unat channel) 0)
      else Some (STATUS_ERR_BAD_ADDRESS, s)) }"

subsection \<open>Set-up\<close>

text \<open>A software reset: the registers of the controller get their reset values.\<close>

definition eic_swrst :: "'z pin_hw_scheme \<Rightarrow> 'z pin_hw_scheme" where
  "eic_swrst s = s\<lparr>EIC_CONFIG := [0, 0], EIC_WAKEUP := 0, EIC_INTEN := 0, EIC_INTFLAG := 0, EIC_CTRL := 0, EIC_EVCTRL := 0,
     EIC_NMICTRL := 0, EIC_NMIFLAG := 0\<rparr>"

definition eic_clk_call :: "eic_clk \<Rightarrow> 'z pin_hw_scheme \<Rightarrow> 'z pin_hw_scheme" where
  "eic_clk_call c s = s\<lparr>eic_clks := eic_clks s @ [c]\<rparr>"

definition extint_enable :: "'z pin_hw_scheme \<Rightarrow> 'z pin_hw_scheme" where
  "extint_enable s = s\<lparr>EIC_CTRL := EIC_CTRL s OR EIC_CTRL_ENABLE\<rparr>"

definition extint_disable :: "'z pin_hw_scheme \<Rightarrow> 'z pin_hw_scheme" where
  "extint_disable s = s\<lparr>EIC_CTRL := EIC_CTRL s AND NOT EIC_CTRL_ENABLE\<rparr>"

definition system_extint_init :: "'z pin_hw_scheme \<Rightarrow> 'z pin_hw_scheme" where
  "system_extint_init s =
     (let s = eic_clk_call EicChanEnable (eic_clk_call EicChanSetConfig (eic_clk_call EicApbMask s));
          s = eic_swrst s;
          s = s\<lparr>callbacks := replicate EIC_NUMBER_OF_INTERRUPTS 0\<rparr>
      in extint_enable (eic_clk_call EicIrqEnable s))"

definition extint_nmi_get_config_defaults :: extint_nmi_conf where
  "extint_nmi_get_config_defaults = \<lparr>nmi_pin = 0, nmi_pin_mux = 0, nmi_pin_pull = SYSTEM_PINMUX_PIN_PULL_UP, nmi_filter = False,
     nmi_criteria = EXTINT_DETECT_FALLING\<rparr>"

definition extint_nmi_set_config :: "u8 \<Rightarrow> extint_nmi_conf \<Rightarrow> 'z pin_hw_scheme \<Rightarrow> (status_code \<times> 'z pin_hw_scheme) option" where
  "extint_nmi_set_config nmi_channel c s = do {
     gs \<leftarrow> system_pinmux_pin_set_config (ucast (nmi_pin c))
       (system_pinmux_get_config_defaults\<lparr>mux_position := ucast (nmi_pin_mux c), direction := SYSTEM_PINMUX_PIN_DIR_INPUT,
          input_pull := nmi_pin_pull c\<rparr>) (groups s);
     let new_config = detect_num (nmi_criteria c) OR (if nmi_filter c then ucast EIC_NMICTRL_NMIFILTEN else 0);
     let s = eic_clk_call EicChanDisable (extint_disable (s\<lparr>groups := gs\<rparr>));
     s \<leftarrow> on_eic nmi_channel (\<lambda>s. s\<lparr>EIC_NMICTRL := ucast new_config\<rparr>) s;
     Some (STATUS_OK, extint_enable (eic_clk_call EicChanEnable s)) }"

text \<open>The controller of a channel of the non-maskable interrupt.\<close>

definition on_nmi :: "u8 \<Rightarrow> ('z pin_hw_scheme \<Rightarrow> 'b) \<Rightarrow> 'z pin_hw_scheme \<Rightarrow> 'b option" where
  "on_nmi nmi_channel f s = (if unat nmi_channel < 1 then Some (f s) else None)"

definition extint_nmi_is_detected :: "u8 \<Rightarrow> 'z pin_hw_scheme \<Rightarrow> bool option" where
  "extint_nmi_is_detected nmi_channel = on_nmi nmi_channel (\<lambda>s. EIC_NMIFLAG s AND EIC_NMIFLAG_NMI \<noteq> 0)"

definition extint_nmi_clear_detected :: "u8 \<Rightarrow> 'z pin_hw_scheme \<Rightarrow> 'z pin_hw_scheme option" where
  "extint_nmi_clear_detected nmi_channel = on_nmi nmi_channel (\<lambda>s. s\<lparr>EIC_NMIFLAG := EIC_NMIFLAG s AND NOT EIC_NMIFLAG_NMI\<rparr>)"

text \<open>The flags of an event structure as a mask; \<open>events\<close> are the 32 flags.\<close>

definition event_mask :: "bool list \<Rightarrow> u32" where
  "event_mask events = fold (\<lambda>j m. if events ! j then m OR one_bit j else m) [0..<32] 0"

definition extint_enable_events :: "bool list \<Rightarrow> 'z pin_hw_scheme \<Rightarrow> 'z pin_hw_scheme" where
  "extint_enable_events events s = s\<lparr>EIC_EVCTRL := EIC_EVCTRL s OR event_mask events\<rparr>"

definition extint_disable_events :: "bool list \<Rightarrow> 'z pin_hw_scheme \<Rightarrow> 'z pin_hw_scheme" where
  "extint_disable_events events s = s\<lparr>EIC_EVCTRL := EIC_EVCTRL s AND NOT (event_mask events)\<rparr>"

lemma bit_event_mask: "bit (event_mask events) i \<longleftrightarrow> i < 32 \<and> events ! i"
proof -
  have "bit (fold (\<lambda>j m. if events ! j then m OR one_bit j else m) [0..<n] 0) i \<longleftrightarrow> i < n \<and> i < 32 \<and> events ! i" for n
    by (induction n) (auto simp: bit_or_iff less_Suc_eq)
  from this [of 32] show ?thesis by (simp only: event_mask_def) auto
qed

text \<open>The handler of the driver goes through the channels from \<open>n\<close> on; \<open>call\<close> runs a callback.\<close>

function EIC_Handler ::
    "(u32 \<Rightarrow> 'z pin_hw_scheme \<Rightarrow> 'z pin_hw_scheme option) \<Rightarrow> nat \<Rightarrow> 'z pin_hw_scheme \<Rightarrow> 'z pin_hw_scheme option" where
  "EIC_Handler call n s =
     (if n < EIC_NUMBER_OF_INTERRUPTS
      then do {
        det \<leftarrow> extint_chan_is_detected (of_nat n) s;
        s \<leftarrow> (if det then do {
                 s \<leftarrow> extint_chan_clear_detected (of_nat n) s;
                 f \<leftarrow> mem_read (callbacks s) n;
                 (if f \<noteq> 0 then call f s else Some s) }
               else Some s);
        EIC_Handler call (n + 1) s }
      else Some s)"
  by auto

termination
  by (relation "measure (\<lambda>(_, n, _). EIC_NUMBER_OF_INTERRUPTS - n)") auto

declare EIC_Handler.simps [simp del]

end
