(* ===== verification/Hal_Gpio.thy ===== *)
theory Hal_Gpio
  imports Extint "HOL-Library.Signed_Division"
begin

text \<open>
  Digital pins and their interrupts, \<open>hal_gpio.c\<close>, on top of the port and interrupt drivers. The number of a pin is the
  \<open>int\<close> of the interface: the drivers cut it to eight bits. An assertion that fails, an access outside a table and a
  pin behind the groups are \<open>None\<close>. The two enumerations of the interface come as datatypes; \<open>hal_gpio_init_in\<close> passes
  the pull of the interface on as the one of the driver, which is right because both number the pulls alike. \<open>levels\<close> is
  what the input registers show, \<open>call\<close> runs the function of a client, and \<open>g_app\<close> is what such functions work on.
\<close>

definition GPIO_MAX_PORT :: int where "GPIO_MAX_PORT = 1"

definition GPIO_PORT :: "int \<Rightarrow> int" where "GPIO_PORT pin = pin sdiv 32"
definition GPIO_PIN :: "int \<Rightarrow> int" where "GPIO_PIN pin = pin smod 32"

definition valid_pins :: "u32 list" where
  "valid_pins = [0xdbffffff, 0xc0000f0c]"

definition hal_gpio_pin_exti_tbl :: "int list" where
  "hal_gpio_pin_exti_tbl =
    [0, 1, 2, 3, 4, 5, 6, 7, -1, 9, 10, 11, 12, 13, 14, 15,
     0, 1, 2, 3, 4, 5, 6, 7, 12, 13, -1, 15, 8, -1, 10, 11,
     0, 1, 2, 3, 4, 5, 6, 7, 8, 9, 10, 11, 12, 13, 14, 15,
     0, 1, -1, -1, -1, -1, 6, 7, -1, -1, -1, -1, -1, -1, 14, 15]"

text \<open>\<open>valid_pins[port]\<close>; a negative index is as much outside as a large one.\<close>

definition valid_mask :: "int \<Rightarrow> u32 option" where
  "valid_mask port = (if port < 0 then None else mem_read valid_pins (nat port))"

record 'a gpio = pin_hw +
  irq_func :: "u32 list"
  irq_arg :: "u32 list"
  irq_vector :: bool
  g_app :: 'a

datatype hal_gpio_pull = HAL_GPIO_PULL_NONE | HAL_GPIO_PULL_UP | HAL_GPIO_PULL_DOWN | GPIO_PULL_OTHER
datatype hal_gpio_irq_trig = HAL_GPIO_TRIG_NONE | HAL_GPIO_TRIG_RISING | HAL_GPIO_TRIG_FALLING | HAL_GPIO_TRIG_BOTH
  | HAL_GPIO_TRIG_LOW | HAL_GPIO_TRIG_HIGH | GPIO_TRIG_OTHER

subsection \<open>Pins\<close>

definition hal_gpio_write :: "int \<Rightarrow> int \<Rightarrow> 'z pin_hw_scheme \<Rightarrow> 'z pin_hw_scheme option" where
  "hal_gpio_write pin val s =
     map_option (\<lambda>gs. s\<lparr>groups := gs\<rparr>) (port_pin_set_output_level (word_of_int pin) (val \<noteq> 0) (groups s))"

text \<open>The check of the initialisations: \<open>None\<close> when it reads outside the table.\<close>

definition gpio_refused :: "int \<Rightarrow> bool option" where
  "gpio_refused pin =
     (if GPIO_PORT pin > GPIO_MAX_PORT then Some True
      else map_option (\<lambda>m. word_of_int (GPIO_PIN pin) AND m = 0) (valid_mask (GPIO_PORT pin)))"

definition hal_gpio_init_out :: "int \<Rightarrow> int \<Rightarrow> 'z pin_hw_scheme \<Rightarrow> (int \<times> 'z pin_hw_scheme) option" where
  "hal_gpio_init_out pin val s = do {
     refused \<leftarrow> gpio_refused pin;
     (if refused then Some (-1, s)
      else do {
        gs \<leftarrow> port_pin_set_config (word_of_int pin)
          \<lparr>pc_direction = SYSTEM_PINMUX_PIN_DIR_OUTPUT_WITH_READBACK, pc_input_pull = SYSTEM_PINMUX_PIN_PULL_NONE,
           pc_powersave = False\<rparr> (groups s);
        s \<leftarrow> hal_gpio_write pin val (s\<lparr>groups := gs\<rparr>);
        Some (0, s) }) }"

definition gpio_pull :: "hal_gpio_pull \<Rightarrow> pin_pull option" where
  "gpio_pull p = (case p of HAL_GPIO_PULL_NONE \<Rightarrow> Some SYSTEM_PINMUX_PIN_PULL_NONE | HAL_GPIO_PULL_UP \<Rightarrow> Some SYSTEM_PINMUX_PIN_PULL_UP
     | HAL_GPIO_PULL_DOWN \<Rightarrow> Some SYSTEM_PINMUX_PIN_PULL_DOWN | GPIO_PULL_OTHER \<Rightarrow> None)"

definition hal_gpio_init_in :: "int \<Rightarrow> hal_gpio_pull \<Rightarrow> 'z pin_hw_scheme \<Rightarrow> (int \<times> 'z pin_hw_scheme) option" where
  "hal_gpio_init_in pin pull s = do {
     refused \<leftarrow> gpio_refused pin;
     (if refused then Some (-1, s)
      else case gpio_pull pull of None \<Rightarrow> Some (-1, s)
       | Some p \<Rightarrow> do {
           gs \<leftarrow> port_pin_set_config (word_of_int pin)
             \<lparr>pc_direction = SYSTEM_PINMUX_PIN_DIR_INPUT, pc_input_pull = p, pc_powersave = False\<rparr> (groups s);
           Some (0, s\<lparr>groups := gs\<rparr>) }) }"

definition hal_gpio_read :: "(nat \<Rightarrow> port_group \<Rightarrow> u32) \<Rightarrow> int \<Rightarrow> 'z pin_hw_scheme \<Rightarrow> int option" where
  "hal_gpio_read levels pin s =
     (if GPIO_PORT pin > GPIO_MAX_PORT \<or> GPIO_PIN pin < 0 then None
      else do {
        m \<leftarrow> valid_mask (GPIO_PORT pin);
        (if one_bit (nat (GPIO_PIN pin)) AND m = 0 then None
         else map_option of_bool (port_pin_get_input_level levels (word_of_int pin) (groups s))) })"

definition hal_gpio_toggle :: "(nat \<Rightarrow> port_group \<Rightarrow> u32) \<Rightarrow> int \<Rightarrow> 'z pin_hw_scheme \<Rightarrow> (int \<times> 'z pin_hw_scheme) option" where
  "hal_gpio_toggle levels pin s = do {
     v \<leftarrow> hal_gpio_read levels pin s;
     s \<leftarrow> hal_gpio_write pin (of_bool (v = 0)) s;
     v \<leftarrow> hal_gpio_read levels pin s;
     Some (v, s) }"

subsection \<open>Interrupts\<close>

text \<open>The handler installed for the controller, from channel \<open>i\<close> on.\<close>

function hal_gpio_irq ::
    "(u32 \<Rightarrow> u32 \<Rightarrow> 'a gpio \<Rightarrow> 'a gpio option) \<Rightarrow> nat \<Rightarrow> 'a gpio \<Rightarrow> 'a gpio option" where
  "hal_gpio_irq call i s =
     (if i < EIC_NUMBER_OF_INTERRUPTS
      then do {
        det \<leftarrow> extint_chan_is_detected (of_nat i) s;
        s \<leftarrow> (if det then do {
                 s \<leftarrow> extint_chan_clear_detected (of_nat i) s;
                 f \<leftarrow> mem_read (irq_func s) i;
                 x \<leftarrow> mem_read (irq_arg s) i;
                 (if f \<noteq> 0 then call f x s else Some s) }
               else Some s);
        hal_gpio_irq call (i + 1) s }
      else Some s)"
  by auto

termination
  by (relation "measure (\<lambda>(_, i, _). EIC_NUMBER_OF_INTERRUPTS - i)") auto

declare hal_gpio_irq.simps [simp del]

definition hal_gpio_irq_eic :: "int \<Rightarrow> int option" where
  "hal_gpio_irq_eic pin = do {
     m \<leftarrow> valid_mask (GPIO_PORT pin);
     (if word_of_int (GPIO_PIN pin) AND m = 0 then Some (-1)
      else if pin < 0 then None else mem_read hal_gpio_pin_exti_tbl (nat pin)) }"

definition gpio_trig :: "hal_gpio_irq_trig \<Rightarrow> extint_detect option" where
  "gpio_trig t = (case t of HAL_GPIO_TRIG_RISING \<Rightarrow> Some EXTINT_DETECT_RISING | HAL_GPIO_TRIG_FALLING \<Rightarrow> Some EXTINT_DETECT_FALLING
     | HAL_GPIO_TRIG_BOTH \<Rightarrow> Some EXTINT_DETECT_BOTH | HAL_GPIO_TRIG_LOW \<Rightarrow> Some EXTINT_DETECT_LOW
     | HAL_GPIO_TRIG_HIGH \<Rightarrow> Some EXTINT_DETECT_HIGH | HAL_GPIO_TRIG_NONE \<Rightarrow> None | GPIO_TRIG_OTHER \<Rightarrow> None)"

definition hal_gpio_irq_init ::
    "int \<Rightarrow> u32 \<Rightarrow> u32 \<Rightarrow> hal_gpio_irq_trig \<Rightarrow> hal_gpio_pull \<Rightarrow> 'a gpio \<Rightarrow> (int \<times> 'a gpio) option" where
  "hal_gpio_irq_init pin handler arg trig pull s =
     (let s = s\<lparr>irq_vector := True\<rparr>
      in case (gpio_trig trig, gpio_pull pull) of
           (Some d, Some p) \<Rightarrow> do {
             eic \<leftarrow> hal_gpio_irq_eic pin;
             (if eic < 0 then Some (-1, s)
              else do {
                f \<leftarrow> mem_read (irq_func s) (nat eic);
                (if f \<noteq> 0 then Some (-1, s)
                 else do {
                   fs \<leftarrow> mem_write (irq_func s) (nat eic) handler;
                   xs \<leftarrow> mem_write (irq_arg s) (nat eic) arg;
                   s \<leftarrow> extint_chan_set_config (word_of_int eic)
                     (extint_chan_get_config_defaults\<lparr>detection_criteria := d, gpio_pin_pull := p, gpio_pin := word_of_int pin,
                        gpio_pin_mux := 0\<rparr>) (s\<lparr>irq_func := fs, irq_arg := xs\<rparr>);
                   Some (0, s) }) }) }
         | _ \<Rightarrow> Some (-1, s))"

definition hal_gpio_irq_enable :: "int \<Rightarrow> 'a gpio \<Rightarrow> 'a gpio option" where
  "hal_gpio_irq_enable pin s = do {
     eic \<leftarrow> hal_gpio_irq_eic pin;
     (if eic < 0 then Some s else extint_chan_enable_callback (word_of_int eic) s) }"

definition hal_gpio_irq_disable :: "int \<Rightarrow> 'a gpio \<Rightarrow> 'a gpio option" where
  "hal_gpio_irq_disable pin s = do {
     eic \<leftarrow> hal_gpio_irq_eic pin;
     (if eic < 0 then Some s else extint_chan_disable_callback (word_of_int eic) s) }"

definition hal_gpio_irq_release :: "int \<Rightarrow> 'a gpio \<Rightarrow> 'a gpio option" where
  "hal_gpio_irq_release pin s = do {
     eic \<leftarrow> hal_gpio_irq_eic pin;
     (if eic < 0 then Some s
      else do {
        s \<leftarrow> hal_gpio_irq_disable pin s;
        fs \<leftarrow> mem_write (irq_func s) (nat eic) 0;
        Some (s\<lparr>irq_func := fs\<rparr>) }) }"

end
