(* ===== verification/Gpio_Props.thy ===== *)
theory Gpio_Props
  imports Hal_Gpio
begin

text \<open>
  What the pins do: an initialised output can be toggled and read back without touching another pin, an interrupt of the
  controller calls the handlers of the channels that detected something, and which pins the initialisation accepts.
\<close>

subsection \<open>Which pins\<close>

definition listed :: "int \<Rightarrow> bool" where
  "listed pin \<longleftrightarrow> bit (valid_pins ! nat (pin div 32)) (nat (pin mod 32))"

lemma pin_split:
  assumes "0 \<le> pin" "pin < 64"
  shows "GPIO_PORT pin = pin div 32" "GPIO_PIN pin = pin mod 32" "0 \<le> pin div 32" "pin div 32 \<le> 1"
  using assms by (cases "pin = 0", auto simp: GPIO_PORT_def GPIO_PIN_def signed_divide_int_eq_divide_int signed_modulo_int_eq_modulo_int sgn_if)

lemma all_pins: "list_all (\<lambda>p. gpio_refused p = Some (p = 0 \<or> 32 \<le> p \<and> p mod 16 < 4)) [0..63]"
  by code_simp

lemma refused_pin:
  assumes "0 \<le> pin" "pin < 64"
  shows "gpio_refused pin = Some (pin = 0 \<or> 32 \<le> pin \<and> pin mod 16 < 4)"
  using all_pins assms by (simp add: list_all_iff)

subsection \<open>Levels\<close>

text \<open>An input register shows the output level of the pins whose two buffers are on.\<close>

definition reads_back :: "(nat \<Rightarrow> port_group \<Rightarrow> u32) \<Rightarrow> bool" where
  "reads_back levels \<longleftrightarrow> (\<forall>i g k. bit (DIR g) k \<and> inen (PINCFG g ! k) \<longrightarrow> bit (levels i g) k = bit (OUT g) k)"

definition driven :: "nat \<Rightarrow> port_group \<Rightarrow> bool" where
  "driven k g \<longleftrightarrow> group_ok g \<and> bit (DIR g) k \<and> inen (PINCFG g ! k)"

definition pins_ok :: "'z pin_hw_scheme \<Rightarrow> bool" where
  "pins_ok s \<longleftrightarrow> length (groups s) = 2 \<and> (\<forall>g \<in> set (groups s). group_ok g)"

text \<open>The output level of pin \<open>k\<close> of group \<open>i\<close>, and the place of a pin.\<close>

definition out_level :: "'z pin_hw_scheme \<Rightarrow> nat \<times> nat \<Rightarrow> bool" where
  "out_level s p = bit (OUT (groups s ! fst p)) (snd p)"

definition place :: "int \<Rightarrow> nat \<times> nat" where
  "place pin = (nat (pin div 32), nat (pin mod 32))"

lemma pin_u8:
  assumes "0 \<le> pin" "pin < 64"
  shows "unat (word_of_int pin :: u8) div 32 = fst (place pin)" "unat (word_of_int pin :: u8) div 128 = 0"
    "pin_bit (word_of_int pin) = one_bit (snd (place pin))" "fst (place pin) < 2" "snd (place pin) < 32"
proof -
  have u: "unat (word_of_int pin :: u8) = nat pin" using assms by (simp add: unsigned_of_int take_bit_int_eq_self)
  show "unat (word_of_int pin :: u8) div 32 = fst (place pin)" "unat (word_of_int pin :: u8) div 128 = 0"
    "pin_bit (word_of_int pin) = one_bit (snd (place pin))" "fst (place pin) < 2" "snd (place pin) < 32"
    using assms by (simp_all add: u pin_bit_def place_def nat_div_distrib nat_mod_distrib nat_less_iff)
qed

lemma write_pin:
  assumes "0 \<le> pin" "pin < 64" "pins_ok s"
  shows "hal_gpio_write pin v s = Some (s\<lparr>groups := (groups s)[fst (place pin) :=
    (if v \<noteq> 0 then OUTSET else OUTCLR) (one_bit (snd (place pin))) (groups s ! fst (place pin))]\<rparr>)"
  using assms(3) pin_u8 [OF assms(1,2)]
  by (simp add: hal_gpio_write_def port_pin_set_output_level_def on_group_def pins_ok_def Let_def)

lemma read_pin:
  assumes "0 \<le> pin" "pin < 64" "pins_ok s" "listed pin" "reads_back levels" "driven (snd (place pin)) (groups s ! fst (place pin))"
  shows "hal_gpio_read levels pin s = Some (of_bool (out_level s (place pin)))"
proof -
  have mask: "valid_mask (pin div 32) = Some (valid_pins ! nat (pin div 32))"
    using pin_split [OF assms(1,2)] by (simp add: valid_mask_def mem_read_def valid_pins_def)
  have ne: "one_bit (nat (pin mod 32)) AND valid_pins ! nat (pin div 32) \<noteq> 0"
    using assms(4) and_one_bit by (metis and.commute listed_def)
  show ?thesis
    using assms(3,5,6) mask ne pin_split [OF assms(1,2)] pin_u8 [OF assms(1,2)]
    by (simp add: hal_gpio_read_def GPIO_MAX_PORT_def port_pin_get_input_level_def Let_def pins_ok_def and_one_bit reads_back_def
        driven_def out_level_def)
qed

lemma driven_out [simp]: "driven k (OUTSET m g) = driven k g" "driven k (OUTCLR m g) = driven k g"
  by (simp_all add: driven_def)

lemma pins_ok_upd: "pins_ok s \<Longrightarrow> group_ok g \<Longrightarrow> pins_ok (s\<lparr>groups := (groups s)[i := g]\<rparr>)"
  by (auto simp: pins_ok_def dest!: set_update_subset_insert [THEN subsetD])

lemma write_pin_level:
  assumes "0 \<le> pin" "pin < 64" "pins_ok s" "driven (snd (place pin)) (groups s ! fst (place pin))"
  shows "\<exists>s'. hal_gpio_write pin v s = Some s' \<and> pins_ok s' \<and> driven (snd (place pin)) (groups s' ! fst (place pin)) \<and>
    (\<forall>p. out_level s' p = (if p = place pin then v \<noteq> 0 else out_level s p))"
proof -
  let ?i = "fst (place pin)" and ?k = "snd (place pin)"
  let ?g = "(if v \<noteq> 0 then OUTSET else OUTCLR) (one_bit ?k) (groups s ! ?i)"
  have i: "?i < length (groups s)" "?k < 32" using pin_u8 [OF assms(1,2)] assms(3) by (simp_all add: pins_ok_def)
  have d: "driven ?k ?g" using assms(4) by simp
  have lev: "bit (OUT ?g) j = (if j = ?k then v \<noteq> 0 else bit (OUT (groups s ! ?i)) j)" for j
    using i(2) by (auto simp: bit_or_iff bit_and_iff bit_not_iff dest: bit_imp_le_length)
  show ?thesis
    unfolding write_pin [OF assms(1-3)]
    using i d lev pins_ok_upd [OF assms(3)] by (auto simp: out_level_def nth_list_update driven_def prod_eq_iff)
qed

lemma init_pin:
  assumes "0 \<le> pin" "pin < 64" "pins_ok s" "hal_gpio_init_out pin val s = Some (0, s')"
  shows "pins_ok s' \<and> driven (snd (place pin)) (groups s' ! fst (place pin)) \<and>
    (\<forall>p. out_level s' p = (if p = place pin then val \<noteq> 0 else out_level s p))"
proof -
  let ?i = "fst (place pin)" and ?k = "snd (place pin)"
  let ?c = "system_pinmux_get_config_defaults\<lparr>mux_position := SYSTEM_PINMUX_GPIO, direction := SYSTEM_PINMUX_PIN_DIR_OUTPUT_WITH_READBACK,
      input_pull := SYSTEM_PINMUX_PIN_PULL_NONE, powersave := False\<rparr>"
  let ?g = "system_pinmux_config (one_bit ?k) ?c (groups s ! ?i)"
  let ?s = "s\<lparr>groups := (groups s)[?i := ?g]\<rparr>"
  have i: "?i < length (groups s)" "?k < 32" "group_ok (groups s ! ?i)" using pin_u8 [OF assms(1,2)] assms(3) by (simp_all add: pins_ok_def)
  have c: "mux_ok ?c" "inen (cfg_of (pin_cfg_bits ?c))"
    by (simp_all add: mux_ok_def cfg_of_def pin_cfg_bits_def bit_or_iff bit_and_iff bit_not_iff wr_bits)
  note g = pinmux_config_pin [OF i(3) c(1) i(2)]
  have d: "driven ?k ?g" using g(1,2,4) c(2) i by (simp add: driven_def group_ok_def)
  have "hal_gpio_write pin val ?s = Some s'"
    using assms(3,4) pin_u8 [OF assms(1,2)]
    by (auto simp: hal_gpio_init_out_def port_pin_set_config_def system_pinmux_pin_set_config_def on_group_def pins_ok_def
        bind_eq_Some_conv Let_def split: if_splits)
  moreover have "pins_ok ?s" using pins_ok_upd [OF assms(3)] g(2) by simp
  moreover have "driven ?k (groups ?s ! ?i)" using d i(1) by simp
  moreover have "out_level ?s p = out_level s p" for p
    using i(1) g(5) by (cases "fst p = ?i") (simp_all add: out_level_def)
  ultimately show ?thesis using write_pin_level [OF assms(1,2), of ?s val] by simp
qed

text \<open>C16: An output that was initialised reads back the level it was given, every toggle inverts it and returns the new
  level, and no other output changes; provided the input register shows the level of the pins that are driven.\<close>

theorem gpio_toggle_flips:
  assumes "0 \<le> pin" "pin < 64" "listed pin" "pins_ok s" "reads_back levels" "hal_gpio_init_out pin val s = Some (0, s')"
  shows "hal_gpio_read levels pin s' = Some (of_bool (val \<noteq> 0)) \<and>
    (\<exists>s1 s2. hal_gpio_toggle levels pin s' = Some (of_bool (val = 0), s1) \<and> hal_gpio_toggle levels pin s1 = Some (of_bool (val \<noteq> 0), s2) \<and>
       (\<forall>p. p \<noteq> place pin \<longrightarrow> out_level s2 p = out_level s p))"
proof -
  note init = init_pin [OF assms(1,2,4,6)]
  have toggle: "\<exists>t'. hal_gpio_toggle levels pin t = Some (of_bool (\<not> out_level t (place pin)), t') \<and> pins_ok t' \<and>
      driven (snd (place pin)) (groups t' ! fst (place pin)) \<and>
      (\<forall>p. out_level t' p = (if p = place pin then \<not> out_level t p else out_level t p))"
    if t: "pins_ok t" "driven (snd (place pin)) (groups t ! fst (place pin))" for t
  proof -
    obtain t' where t': "hal_gpio_write pin (of_bool (\<not> out_level t (place pin))) t = Some t'" "pins_ok t'"
      "driven (snd (place pin)) (groups t' ! fst (place pin))"
      "\<forall>p. out_level t' p = (if p = place pin then \<not> out_level t (place pin) else out_level t p)"
      using write_pin_level [OF assms(1,2) t, of "of_bool (\<not> out_level t (place pin))"] by auto
    have "hal_gpio_toggle levels pin t = Some (of_bool (\<not> out_level t (place pin)), t')"
      using read_pin [OF assms(1,2) t(1) assms(3,5) t(2)] read_pin [OF assms(1,2) t'(2) assms(3,5) t'(3)] t'(1,4)
      by (simp add: hal_gpio_toggle_def)
    with t' show ?thesis by auto
  qed
  obtain s1 where s1: "hal_gpio_toggle levels pin s' = Some (of_bool (val = 0), s1)" "pins_ok s1"
    "driven (snd (place pin)) (groups s1 ! fst (place pin))" "\<forall>p. out_level s1 p = (if p = place pin then val = 0 else out_level s p)"
  proof -
    obtain t' where t': "hal_gpio_toggle levels pin s' = Some (of_bool (\<not> out_level s' (place pin)), t')" "pins_ok t'"
      "driven (snd (place pin)) (groups t' ! fst (place pin))"
      "\<forall>p. out_level t' p = (if p = place pin then \<not> out_level s' p else out_level s' p)"
      using toggle [of s'] init by blast
    have "out_level s' p = (if p = place pin then val \<noteq> 0 else out_level s p)" for p using init by blast
    with t' show thesis by (intro that [of t']) (simp_all del: split_paired_All)
  qed
  moreover obtain s2 where "hal_gpio_toggle levels pin s1 = Some (of_bool (val \<noteq> 0), s2)"
    "\<forall>p. p \<noteq> place pin \<longrightarrow> out_level s2 p = out_level s p"
    using toggle [OF s1(2,3)] s1(4) by auto
  moreover have "hal_gpio_read levels pin s' = Some (of_bool (val \<noteq> 0))"
  proof -
    have "out_level s' (place pin) = (val \<noteq> 0)" using init by metis
    with init show ?thesis using read_pin [OF assms(1,2) _ assms(3,5), of s'] by simp
  qed
  ultimately show ?thesis by blast
qed

lemma all_listed: "list_all (\<lambda>p. (listed p \<and> (p = 0 \<or> 32 \<le> p \<and> p mod 16 < 4)) = (p = 0 \<or> p = 34 \<or> p = 35)) [0..63]"
  by code_simp

text \<open>C38: The check of \<open>hal_gpio_init_out\<close> and \<open>hal_gpio_init_in\<close> tests the number of the pin instead of its bit: of the pins in
  the table it refuses exactly PA0, PB2 and PB3, and it accepts pins that are not in the table (PA26, PA29, and those of PB4
  to PB15 and PB20 to PB31 that are missing there), although reading the level of such a pin fails an assertion.\<close>

theorem gpio_wrong_check:
  assumes "0 \<le> pin" "pin < 64"
  shows "gpio_refused pin = Some (pin = 0 \<or> 32 \<le> pin \<and> pin mod 16 < 4) \<and>
    (listed pin \<and> gpio_refused pin = Some True \<longleftrightarrow> pin = 0 \<or> pin = 34 \<or> pin = 35) \<and>
    (hal_gpio_read levels pin s = None \<or> listed pin)"
proof -
  have "(listed pin \<and> (pin = 0 \<or> 32 \<le> pin \<and> pin mod 16 < 4)) = (pin = 0 \<or> pin = 34 \<or> pin = 35)"
    using all_listed assms by (simp add: list_all_iff)
  moreover have "hal_gpio_read levels pin s = None" if "\<not> listed pin"
  proof -
    have "one_bit (nat (pin mod 32)) AND valid_pins ! nat (pin div 32) = 0"
      using that and_one_bit by (metis and.commute listed_def)
    then show ?thesis
      using pin_split [OF assms] by (simp add: hal_gpio_read_def valid_mask_def mem_read_def valid_pins_def)
  qed
  ultimately show ?thesis using refused_pin [OF assms] by auto
qed

subsection \<open>Dispatch\<close>

text \<open>The channels from \<open>i\<close> on that detected something and have a handler, with its argument.\<close>

definition due :: "nat \<Rightarrow> 'a gpio \<Rightarrow> (u32 \<times> u32) list" where
  "due i s = map (\<lambda>j. (irq_func s ! j, irq_arg s ! j)) (filter (\<lambda>j. bit (EIC_INTFLAG s) j \<and> irq_func s ! j \<noteq> 0) [i..<16])"

text \<open>The flags of the channels from \<open>i\<close> on are cleared.\<close>

definition ack :: "nat \<Rightarrow> u32 \<Rightarrow> u32" where
  "ack i w = w AND NOT (mask 16 AND NOT (mask i))"

lemma bit_ack: "bit (ack i w) j \<longleftrightarrow> bit w j \<and> \<not> (i \<le> j \<and> j < 16)"
  by (auto simp: ack_def bit_and_iff bit_or_iff bit_not_iff bit_mask_iff not_le dest: bit_imp_le_length)

lemma irq_dispatch:
  assumes "\<And>f x s. call f x s = Some (s\<lparr>g_app := act (f, x) (g_app s)\<rparr>)"
    and "length (irq_func s) = 16" "length (irq_arg s) = 16" "i \<le> 16"
  shows "hal_gpio_irq call i s = Some (s\<lparr>EIC_INTFLAG := ack i (EIC_INTFLAG s), g_app := fold act (due i s) (g_app s)\<rparr>)"
  using assms(2-4)
proof (induction "16 - i" arbitrary: i s)
  case 0
  then have "i = 16" by simp
  moreover have "ack 16 w = w" for w by (rule bit_eqI) (auto simp: bit_ack)
  ultimately show ?case by (simp add: hal_gpio_irq.simps EIC_NUMBER_OF_INTERRUPTS_def due_def)
next
  case (Suc n)
  then have i: "i < 16" "n = 16 - (i + 1)" by simp_all
  have n: "unat (of_nat i :: u8) = i" using i(1) by (simp add: unsigned_of_nat take_bit_nat_eq_self)
  let ?w = "EIC_INTFLAG s"
  let ?s = "s\<lparr>EIC_INTFLAG := ?w AND NOT (one_bit i)\<rparr>"
  let ?t = "if bit ?w i then if irq_func s ! i \<noteq> 0 then ?s\<lparr>g_app := act (irq_func s ! i, irq_arg s ! i) (g_app s)\<rparr> else ?s else s"
  have step: "hal_gpio_irq call i s = hal_gpio_irq call (i + 1) ?t"
    using i(1) n Suc.prems assms(1)
    by (subst hal_gpio_irq.simps)
      (simp add: EIC_NUMBER_OF_INTERRUPTS_def extint_chan_is_detected_def extint_chan_clear_detected_def on_eic_def and_one_bit mem_read_def)
  have flags: "ack (i + 1) (EIC_INTFLAG ?t) = ack i ?w"
    using i(1) by (intro bit_eqI) (auto simp: bit_ack bit_and_iff bit_not_iff Suc_le_eq not_less dest: le_antisym)
  have "due i s = (if bit ?w i \<and> irq_func s ! i \<noteq> 0 then [(irq_func s ! i, irq_arg s ! i)] else []) @ due (i + 1) s"
    using i(1) by (simp add: due_def upt_conv_Cons)
  moreover have "due (i + 1) ?t = due (i + 1) s"
    unfolding due_def by (intro arg_cong2 [of _ _ _ _ map] filter_cong refl ext) (auto simp: bit_and_iff bit_not_iff)
  ultimately have app: "fold act (due (i + 1) ?t) (g_app ?t) = fold act (due i s) (g_app s)" by auto
  have "hal_gpio_irq call (i + 1) ?t = Some (?t\<lparr>EIC_INTFLAG := ack (i + 1) (EIC_INTFLAG ?t),
      g_app := fold act (due (i + 1) ?t) (g_app ?t)\<rparr>)"
    using Suc.hyps(1) [OF i(2), of ?t] Suc.prems i(1) by (simp split del: if_split) (simp split: if_splits)
  with step flags app show ?case by simp
qed

lemma exti_tbl: "list_all (\<lambda>e. e = -1 \<or> 0 \<le> e \<and> e < 16) hal_gpio_pin_exti_tbl"
  by code_simp

lemma eic_range:
  assumes "hal_gpio_irq_eic pin = Some e" "0 \<le> e"
  shows "e < 16"
proof -
  have "e \<in> set hal_gpio_pin_exti_tbl"
    using assms by (auto simp: hal_gpio_irq_eic_def bind_eq_Some_conv mem_read_def split: if_splits)
  with exti_tbl assms(2) show ?thesis by (auto simp: list_all_iff)
qed

lemma set_config_keeps:
  fixes s :: "'a gpio"
  assumes "extint_chan_set_config ch c s = Some s'"
  shows "irq_func s' = irq_func s" "irq_arg s' = irq_arg s" "irq_vector s' = irq_vector s" "g_app s' = g_app s"
  using assms by (auto simp: extint_chan_set_config_def on_eic_def bind_eq_Some_conv Let_def split: if_splits)

lemma irq_init_registers:
  assumes "hal_gpio_irq_init pin handler arg trig pull s = Some (0, s')" "length (irq_func s) = 16" "length (irq_arg s) = 16"
  shows "\<exists>e. hal_gpio_irq_eic pin = Some (int e) \<and> e < 16 \<and> irq_func s ! e = 0 \<and> irq_func s' = (irq_func s)[e := handler] \<and>
    irq_arg s' = (irq_arg s)[e := arg] \<and> irq_vector s' \<and> g_app s' = g_app s"
proof -
  obtain d p where dp: "gpio_trig trig = Some d" "gpio_pull pull = Some p"
    using assms(1) by (cases "gpio_trig trig"; cases "gpio_pull pull") (auto simp: hal_gpio_irq_init_def Let_def)
  obtain e where e: "hal_gpio_irq_eic pin = Some e" "0 \<le> e" "irq_func s ! nat e = 0" "nat e < 16"
    using assms dp by (auto simp: hal_gpio_irq_init_def bind_eq_Some_conv mem_read_def mem_write_def Let_def split: if_splits)
  moreover obtain c where "extint_chan_set_config (word_of_int e) c
      (s\<lparr>irq_vector := True, irq_func := (irq_func s)[nat e := handler], irq_arg := (irq_arg s)[nat e := arg]\<rparr>) = Some s'"
    using assms dp e by (auto simp: hal_gpio_irq_init_def bind_eq_Some_conv mem_read_def mem_write_def Let_def split: if_splits)
  note set_config_keeps [OF this]
  ultimately show ?thesis by (intro exI [of _ "nat e"]) simp
qed

text \<open>C17: A handler that was registered for a pin is called, with its argument, whenever the controller reports the channel of
  the pin, among the handlers of the other reported channels and in the order of the channels; the reported flags are cleared;
  and the channel, which up to four pins share, cannot be registered again before it is released.\<close>

theorem gpio_irq_dispatch:
  assumes "\<And>f x s. call f x s = Some (s\<lparr>g_app := act (f, x) (g_app s)\<rparr>)"
    and "length (irq_func s) = 16" "length (irq_arg s) = 16" "handler \<noteq> 0"
    and "hal_gpio_irq_init pin handler arg trig pull s = Some (0, s')"
  shows "\<exists>e. hal_gpio_irq_eic pin = Some (int e) \<and> irq_func s ! e = 0 \<and>
    (\<forall>w. hal_gpio_irq call 0 (s'\<lparr>EIC_INTFLAG := w\<rparr>) =
        Some (s'\<lparr>EIC_INTFLAG := ack 0 w, g_app := fold act (due 0 (s'\<lparr>EIC_INTFLAG := w\<rparr>)) (g_app s)\<rparr>) \<and>
      (bit w e \<longrightarrow> (handler, arg) \<in> set (due 0 (s'\<lparr>EIC_INTFLAG := w\<rparr>)))) \<and>
    (\<forall>pin' h x t p. hal_gpio_irq_eic pin' = Some (int e) \<longrightarrow> hal_gpio_irq_init pin' h x t p s' = Some (-1, s'))"
proof -
  obtain e where e: "hal_gpio_irq_eic pin = Some (int e)" "e < 16" "irq_func s ! e = 0" "irq_func s' = (irq_func s)[e := handler]"
    "irq_arg s' = (irq_arg s)[e := arg]" "irq_vector s'" "g_app s' = g_app s"
    using irq_init_registers [OF assms(5,2,3)] by blast
  have run: "hal_gpio_irq call 0 (s'\<lparr>EIC_INTFLAG := w\<rparr>) =
      Some (s'\<lparr>EIC_INTFLAG := ack 0 w, g_app := fold act (due 0 (s'\<lparr>EIC_INTFLAG := w\<rparr>)) (g_app s)\<rparr>)" for w
    using irq_dispatch [of call act "s'\<lparr>EIC_INTFLAG := w\<rparr>" 0, OF assms(1)] assms(2,3) e by simp
  have "(handler, arg) \<in> set (due 0 (s'\<lparr>EIC_INTFLAG := w\<rparr>))" if "bit w e" for w
    using that e(2,4,5) assms(2-4) by (auto simp: due_def intro!: image_eqI [of _ _ e])
  moreover have "hal_gpio_irq_init pin' h x t p s' = Some (-1, s')" if "hal_gpio_irq_eic pin' = Some (int e)" for pin' h x t p
    using that e assms(2,4)
    by (cases s') (auto simp: hal_gpio_irq_init_def mem_read_def bind_eq_Some_conv Let_def split: option.splits)
  ultimately show ?thesis using e(1,3) run by blast
qed

subsection \<open>Instances\<close>

definition sample_pins :: "(u32 \<times> u32) list gpio" where
  "sample_pins = \<lparr>groups = replicate 2 \<lparr>DIR = 0, OUT = 0, CTRL = 0,
       PINCFG = replicate 32 \<lparr>pmuxen = False, inen = False, pullen = False, drvstr = False, pmux = 0\<rparr>\<rparr>,
     EIC_CONFIG = [0, 0], EIC_WAKEUP = 0, EIC_INTEN = 0, EIC_INTFLAG = 0, EIC_CTRL = 2, EIC_EVCTRL = 0, EIC_NMICTRL = 0,
     EIC_NMIFLAG = 0, eic_clks = [], callbacks = replicate 16 0,
     irq_func = replicate 16 0, irq_arg = replicate 16 0, irq_vector = False, g_app = []\<rparr>"

definition sample_call :: "u32 \<Rightarrow> u32 \<Rightarrow> (u32 \<times> u32) list gpio \<Rightarrow> (u32 \<times> u32) list gpio option" where
  "sample_call f x s = Some (s\<lparr>g_app := g_app s @ [(f, x)]\<rparr>)"

theorem gpio_toggle_flips_witness:
  "\<exists>s s'. hal_gpio_init_out 27 1 sample_pins = Some (0, s) \<and> hal_gpio_toggle (\<lambda>i g. OUT g) 27 s = Some (0, s')"
proof -
  have "pins_ok sample_pins" "listed 27" "reads_back (\<lambda>i g. OUT g)"
    by (simp_all add: pins_ok_def sample_pins_def group_ok_def listed_def valid_pins_def reads_back_def bit_simps)
  moreover have "\<exists>s. hal_gpio_init_out 27 1 sample_pins = Some (0, s)"
    using refused_pin [of 27]
    by (simp add: hal_gpio_init_out_def port_pin_set_config_def system_pinmux_pin_set_config_def on_group_def sample_pins_def
        hal_gpio_write_def port_pin_set_output_level_def Let_def)
  ultimately show ?thesis using gpio_toggle_flips [of 27 sample_pins "\<lambda>i g. OUT g" 1] by fastforce
qed

theorem gpio_wrong_check_witness:
  "gpio_refused 0 = Some True \<and> listed 0 \<and> gpio_refused 26 = Some False \<and> hal_gpio_read (\<lambda>i g. OUT g) 26 sample_pins = None"
proof -
  have "\<not> listed 26" by (simp add: listed_def valid_pins_def)
  then show ?thesis
    using gpio_wrong_check [of 0] gpio_wrong_check [of 26 "\<lambda>i g. OUT g" sample_pins] by auto
qed

theorem gpio_irq_dispatch_witness:
  "\<exists>s s'. hal_gpio_irq_init 18 7 9 HAL_GPIO_TRIG_RISING HAL_GPIO_PULL_UP sample_pins = Some (0, s) \<and>
     hal_gpio_irq sample_call 0 (s\<lparr>EIC_INTFLAG := 4\<rparr>) = Some s' \<and> (7, 9) \<in> set (due 0 (s\<lparr>EIC_INTFLAG := 4\<rparr>))"
proof -
  have eic: "hal_gpio_irq_eic 18 = Some 2" by code_simp
  obtain s where s: "hal_gpio_irq_init 18 7 9 HAL_GPIO_TRIG_RISING HAL_GPIO_PULL_UP sample_pins = Some (0, s)"
    using eic
    by (auto simp: hal_gpio_irq_init_def gpio_trig_def gpio_pull_def sample_pins_def mem_simps extint_chan_set_config_def
        system_pinmux_pin_set_config_def on_group_def on_eic_def Let_def)
  have "bit (4 :: u32) 2" by simp
  with gpio_irq_dispatch [of sample_call "\<lambda>p xs. xs @ [p]" sample_pins 7 18 9, OF _ _ _ _ s] s eic show ?thesis
    by (auto simp: sample_call_def sample_pins_def)
qed

end
