(* ===== verification/Hal_Watchdog.thy ===== *)
theory Hal_Watchdog
  imports Status_Codes
begin

text \<open>
  The watchdog: \<open>hal_watchdog.c\<close> on the driver \<open>sam0/drivers/wdt/wdt.c\<close>, as compiled for the SAMD21. The state has the
  global configuration and the registers of the timer. The clock generator and the channel of the watchdog belong to the
  clock driver: the calls to it are kept in a list. The polls of the synchronisation flag have no effect and are left out.
\<close>

definition WDT_CTRL_ENABLE :: u8 where "WDT_CTRL_ENABLE = push_bit 1 1"
definition WDT_CTRL_WEN :: u8 where "WDT_CTRL_WEN = push_bit 2 1"
definition WDT_CTRL_ALWAYSON :: u8 where "WDT_CTRL_ALWAYSON = push_bit 7 1"
definition WDT_CONFIG_WINDOW_Pos :: nat where "WDT_CONFIG_WINDOW_Pos = 4"
definition WDT_CLEAR_CLEAR_KEY :: u8 where "WDT_CLEAR_CLEAR_KEY = 0xa5"

text \<open>The periods are numbered; period \<open>p\<close> from 1 on is \<open>8 * 2 ^ (p - 1)\<close> clocks.\<close>

definition WDT_PERIOD_NONE :: nat where "WDT_PERIOD_NONE = 0"
definition WDT_PERIOD_8CLK :: nat where "WDT_PERIOD_8CLK = 1"
definition WDT_PERIOD_16384CLK :: nat where "WDT_PERIOD_16384CLK = 12"

record wdt_conf =
  always_on :: bool
  enable :: bool
  clock_source :: nat
  timeout_period :: nat
  window_period :: nat
  early_warning_period :: nat

datatype wdt_clk = ApbSetMask | GenSetConfig nat u32 | GenEnable nat | ChanSetConfig nat | ChanEnable | ChanLock

record watchdog =
  g_wdt_config :: wdt_conf
  wdt_ctrl :: u8
  wdt_config :: u8
  wdt_ewctrl :: u8
  wdt_clear :: "u8 list"
  wdt_clks :: "wdt_clk list"

definition wdt_get_config_defaults :: wdt_conf where
  "wdt_get_config_defaults = \<lparr>always_on = False, enable = True, clock_source = 4, timeout_period = WDT_PERIOD_16384CLK,
     window_period = WDT_PERIOD_NONE, early_warning_period = WDT_PERIOD_NONE\<rparr>"

definition wdt_is_locked :: "watchdog \<Rightarrow> bool" where
  "wdt_is_locked w \<longleftrightarrow> wdt_ctrl w AND WDT_CTRL_ALWAYSON \<noteq> 0"

definition clk :: "wdt_clk \<Rightarrow> watchdog \<Rightarrow> watchdog" where
  "clk c w = w\<lparr>wdt_clks := wdt_clks w @ [c]\<rparr>"

definition wdt_set_config :: "wdt_conf \<Rightarrow> watchdog \<Rightarrow> status_code \<times> watchdog" where
  "wdt_set_config c w =
     (let w = clk ApbSetMask w in
      if wdt_is_locked w then (STATUS_ERR_IO, w)
      else if timeout_period c = WDT_PERIOD_NONE then (STATUS_ERR_INVALID_ARG, w)
      else if timeout_period c < window_period c \<or> timeout_period c < early_warning_period c then (STATUS_ERR_INVALID_ARG, w)
      else let w = w\<lparr>wdt_ctrl := wdt_ctrl w AND NOT WDT_CTRL_ENABLE\<rparr>
           in if \<not> enable c then (STATUS_OK, w)
              else let w = clk ChanEnable (clk (ChanSetConfig (clock_source c)) w);
                       w = (if always_on c then clk ChanLock w else w);
                       per = of_nat (timeout_period c - 1) :: u8;
                       w = (if window_period c \<noteq> WDT_PERIOD_NONE
                            then w\<lparr>wdt_ctrl := wdt_ctrl w OR WDT_CTRL_WEN,
                                   wdt_config := per OR push_bit WDT_CONFIG_WINDOW_Pos (of_nat (window_period c - 1))\<rparr>
                            else w\<lparr>wdt_ctrl := wdt_ctrl w AND NOT WDT_CTRL_WEN, wdt_config := per\<rparr>);
                       w = (if early_warning_period c \<noteq> WDT_PERIOD_NONE
                            then w\<lparr>wdt_ewctrl := of_nat (early_warning_period c - 1)\<rparr> else w)
                   in (STATUS_OK, w\<lparr>wdt_ctrl := wdt_ctrl w OR (if always_on c then WDT_CTRL_ALWAYSON else WDT_CTRL_ENABLE)\<rparr>))"

definition wdt_reset_count :: "watchdog \<Rightarrow> watchdog" where
  "wdt_reset_count w = w\<lparr>wdt_clear := wdt_clear w @ [WDT_CLEAR_CLEAR_KEY]\<rparr>"

subsection \<open>The interface\<close>

definition watchdog_clocks :: "u32 \<Rightarrow> u32" where
  "watchdog_clocks expire_msecs = (let clocks = 32768 div 2048 in ((clocks * expire_msecs) div 1000) * 2)"

text \<open>\<open>None\<close>: no period of the timer is long enough.\<close>

function find_period :: "u32 \<Rightarrow> u16 \<Rightarrow> nat \<Rightarrow> nat option" where
  "find_period clocks temp to_period =
     (if clocks \<le> ucast temp then Some to_period
      else if to_period + 1 > WDT_PERIOD_16384CLK then None
      else find_period clocks (push_bit 1 temp) (to_period + 1))"
  by auto

termination
  by (relation "measure (\<lambda>(_, _, p). WDT_PERIOD_16384CLK - p)") auto

declare find_period.simps [simp del]

definition hal_watchdog_init :: "u32 \<Rightarrow> watchdog \<Rightarrow> int \<times> watchdog" where
  "hal_watchdog_init expire_msecs w =
     (let w = w\<lparr>g_wdt_config := wdt_get_config_defaults\<lparr>enable := False\<rparr>\<rparr>
      in case find_period (watchdog_clocks expire_msecs) 8 WDT_PERIOD_8CLK of
           None \<Rightarrow> (-1, w)
         | Some to_period \<Rightarrow>
             let w = w\<lparr>g_wdt_config := (g_wdt_config w)\<lparr>timeout_period := to_period\<rparr>\<rparr>;
                 gen = clock_source (g_wdt_config w);
                 w = clk (GenEnable gen) (clk (GenSetConfig gen 2048) w)
             in (case wdt_set_config (g_wdt_config w) w of (rc, w) \<Rightarrow> (status_num rc, w)))"

definition hal_watchdog_enable :: "watchdog \<Rightarrow> watchdog" where
  "hal_watchdog_enable w =
     (let w = w\<lparr>g_wdt_config := (g_wdt_config w)\<lparr>enable := True\<rparr>\<rparr> in snd (wdt_set_config (g_wdt_config w) w))"

definition hal_watchdog_tickle :: "watchdog \<Rightarrow> watchdog" where
  "hal_watchdog_tickle = wdt_reset_count"

subsection \<open>The period\<close>

text \<open>The clocks until the watchdog expires, as the period register has them.\<close>

definition expiry_clocks :: "watchdog \<Rightarrow> nat" where
  "expiry_clocks w = 8 * 2 ^ unat (wdt_config w AND 0xf)"

lemma unat_clocks: "unat (watchdog_clocks ms) = 2 * (16 * (unat ms mod 2 ^ 28) div 1000)"
proof -
  have "unat (16 * ms) = 16 * (unat ms mod 2 ^ 28)"
    using mult_mod_right [of 16 "unat ms" "2 ^ 28"] by (simp add: unat_word_ariths)
  moreover have "16 * (unat ms mod 2 ^ 28) div 1000 < 2 ^ 31"
    using mod_less_divisor [of "2 ^ 28" "unat ms"] by (simp add: div_less_iff_less_mult)
  ultimately show ?thesis by (simp add: watchdog_clocks_def unat_word_ariths unat_div mult.commute)
qed

lemma find_period_spec:
  assumes "1 \<le> p" "p \<le> 12" "unat temp = 8 * 2 ^ (p - 1)" "p = 1 \<or> 4 * 2 ^ (p - 1) < unat clocks"
  shows "case find_period clocks temp p of None \<Rightarrow> 16384 < unat clocks
     | Some q \<Rightarrow> 1 \<le> q \<and> q \<le> 12 \<and> unat clocks \<le> 8 * 2 ^ (q - 1) \<and> (q = 1 \<or> 4 * 2 ^ (q - 1) < unat clocks)"
  using assms
proof (induction clocks temp p rule: find_period.induct)
  case (1 clocks temp p)
  obtain m where p: "p = Suc m" "m \<le> 11" using 1(2,3) by (cases p) auto
  have t: "unat temp = 8 * 2 ^ m" "unat (ucast temp :: u32) = 8 * 2 ^ m" 
    proof -
    show "unat temp = 8 * 2 ^ m" using 1(4) p by simp
    have "(2 :: nat) ^ m \<le> 2 ^ 11" using p(2) by (intro power_increasing) auto
    then have "8 * 2 ^ m < (2 :: nat) ^ 32" by simp
    with \<open>unat temp = 8 * 2 ^ m\<close> show "unat (ucast temp :: u32) = 8 * 2 ^ m"
      by (simp add: unsigned_ucast_eq take_bit_nat_eq_self)
  qed
  show ?case
  proof (cases "clocks \<le> ucast temp")
    case True
    then have "unat clocks \<le> 8 * 2 ^ m" using t by (simp add: word_le_nat_alt)
    moreover have "find_period clocks temp p = Some p" using True by (simp add: find_period.simps [of clocks temp p])
    ultimately show ?thesis using 1(5) p by simp
  next
    case False
    then have big: "8 * 2 ^ m < unat clocks" using t by (simp add: word_le_nat_alt)
    show ?thesis
    proof (cases "m = 11")
      case True
      then have "find_period clocks temp p = None"
        using False p by (subst find_period.simps) (simp add: WDT_PERIOD_16384CLK_def)
      with True big show ?thesis by simp
    next
      case m: False
      then have "(2 :: nat) ^ m \<le> 2 ^ 10" using p(2) by (intro power_increasing) auto
      then have "unat (push_bit 1 temp) = 8 * 2 ^ (p + 1 - 1)"
        using t p by (simp add: push_bit_eq_mult unat_word_ariths)
      moreover have "find_period clocks temp p = find_period clocks (push_bit 1 temp) (p + 1)"
        using False m p by (subst find_period.simps) (simp add: WDT_PERIOD_16384CLK_def)
      ultimately show ?thesis
        using 1(1) [OF False] m p big by (simp add: WDT_PERIOD_16384CLK_def)
    qed
  qed
qed

lemma low_bits: "m < 16 \<Longrightarrow> unat ((of_nat m :: u8) AND 0xf) = m"
proof -
  assume m: "m < 16"
  have "(of_nat m :: u8) AND 0xf = take_bit 4 (of_nat m)" by (simp add: take_bit_eq_mask mask_eq_exp_minus_1)
  then show ?thesis using m by (simp add: unsigned_take_bit_eq unsigned_of_nat take_bit_nat_eq_self)
qed

lemma init_enabled:
  assumes "\<not> wdt_is_locked w" "find_period (watchdog_clocks ms) 8 WDT_PERIOD_8CLK = Some (Suc m)" "m \<le> 11"
    "hal_watchdog_init ms w = (rc, w')"
  shows "rc = 0" "expiry_clocks (hal_watchdog_enable w') = 8 * 2 ^ m" "wdt_ctrl (hal_watchdog_enable w') AND WDT_CTRL_ENABLE \<noteq> 0"
proof -
  have "(wdt_ctrl w AND NOT WDT_CTRL_ENABLE) AND WDT_CTRL_ALWAYSON = (wdt_ctrl w AND WDT_CTRL_ALWAYSON) AND NOT WDT_CTRL_ENABLE"
    by (simp add: ac_simps)
  also have "wdt_ctrl w AND WDT_CTRL_ALWAYSON = 0" using assms(1) by (simp add: wdt_is_locked_def)
  finally have lock: "(wdt_ctrl w AND NOT WDT_CTRL_ENABLE) AND WDT_CTRL_ALWAYSON = 0" by simp
  have init: "rc = 0" "wdt_ctrl w' = wdt_ctrl w AND NOT WDT_CTRL_ENABLE"
    "g_wdt_config w' = wdt_get_config_defaults\<lparr>enable := False, timeout_period := Suc m\<rparr>"
    using assms(1,2,4)
    by (auto simp: hal_watchdog_init_def Let_def clk_def wdt_set_config_def wdt_is_locked_def wdt_get_config_defaults_def
        WDT_PERIOD_NONE_def)
  have "wdt_config (hal_watchdog_enable w') = of_nat m"
    "\<exists>x. wdt_ctrl (hal_watchdog_enable w') = x OR WDT_CTRL_ENABLE"
    using init lock
    by (auto simp: hal_watchdog_enable_def Let_def clk_def wdt_set_config_def wdt_is_locked_def wdt_get_config_defaults_def
        WDT_PERIOD_NONE_def)
  moreover have "(x OR WDT_CTRL_ENABLE) AND WDT_CTRL_ENABLE = WDT_CTRL_ENABLE" for x by (simp add: bit_eq_iff bit_simps)
  ultimately show "rc = 0" "expiry_clocks (hal_watchdog_enable w') = 8 * 2 ^ m" "wdt_ctrl (hal_watchdog_enable w') AND WDT_CTRL_ENABLE \<noteq> 0"
    using init(1) assms(3) by (auto simp: expiry_clocks_def low_bits WDT_CTRL_ENABLE_def)
qed

text \<open>C18: For every request and an unlocked watchdog: the code takes the request modulo 2^28 milliseconds (three days; its product
  with the clock is of 32 bits), refuses what is above 8192 clocks of 16 Hz, that is 512 seconds, although its comment
  gives a range of 2048 seconds, and otherwise the watchdog, once enabled, expires after at least the time taken, and after less
  than four times its clocks unless the shortest period was taken. A request below 2^28 is taken as it is.\<close>

theorem watchdog_period:
  assumes "r = unat ms mod 2 ^ 28" "\<not> wdt_is_locked w" "hal_watchdog_init ms w = (rc, w')"
  shows "(rc = 0 \<longleftrightarrow> 16 * r div 1000 \<le> 8192) \<and>
    (rc = 0 \<longrightarrow> 16 * r \<le> 1000 * expiry_clocks (hal_watchdog_enable w') \<and>
       wdt_ctrl (hal_watchdog_enable w') AND WDT_CTRL_ENABLE \<noteq> 0 \<and>
       (expiry_clocks (hal_watchdog_enable w') = 8 \<or> expiry_clocks (hal_watchdog_enable w') < 4 * (16 * r div 1000))) \<and>
    (unat ms < 2 ^ 28 \<longrightarrow> r = unat ms)"
proof -
  let ?c = "watchdog_clocks ms"
  have c: "unat ?c = 2 * (16 * r div 1000)" unfolding assms(1) by (rule unat_clocks)
  note spec = find_period_spec [of 1 8 ?c]
  show ?thesis
  proof (cases "find_period ?c 8 WDT_PERIOD_8CLK")
    case None
    then have "rc = -1" using assms(3) by (simp add: hal_watchdog_init_def Let_def)
    moreover have "16384 < unat ?c" using spec None by (simp add: WDT_PERIOD_8CLK_def)
    ultimately show ?thesis using c assms(1) by simp
  next
    case (Some q)
    then have q: "1 \<le> q" "q \<le> 12" "unat ?c \<le> 8 * 2 ^ (q - 1)" "q = 1 \<or> 4 * 2 ^ (q - 1) < unat ?c"
      using spec by (simp_all add: WDT_PERIOD_8CLK_def)
    obtain m where m: "q = Suc m" "m \<le> 11" using q by (cases q) auto
    note on = init_enabled [OF assms(2) Some [unfolded m(1)] m(2) assms(3)]
    have "16 * r < 1000 * (16 * r div 1000 + 1)" by simp
    moreover have "(1 :: nat) \<le> 2 ^ m" by simp
    moreover have "16 * r div 1000 \<le> 4 * 2 ^ m" using q(3) c m(1) by simp
    moreover have "(2 :: nat) ^ m \<le> 2 ^ 11" using m(2) by (intro power_increasing) auto
    moreover have "2 ^ m = (1 :: nat) \<or> 2 * 2 ^ m < 16 * r div 1000" using q(4) c m(1) by auto
    ultimately show ?thesis using on assms(1) by auto
  qed
qed

text \<open>The multiplication wraps: a request of 2^28 milliseconds is accepted with the shortest period, half a second.\<close>

theorem watchdog_wraps:
  assumes "\<not> wdt_is_locked w" "hal_watchdog_init (2 ^ 28) w = (rc, w')"
  shows "rc = 0 \<and> expiry_clocks (hal_watchdog_enable w') = 8"
proof -
  have "watchdog_clocks (2 ^ 28) = 0" by (simp add: watchdog_clocks_def)
  then have "find_period (watchdog_clocks (2 ^ 28)) 8 WDT_PERIOD_8CLK = Some (Suc 0)"
    by (simp add: find_period.simps WDT_PERIOD_8CLK_def)
  from init_enabled [OF assms(1) this _ assms(2)] show ?thesis by simp
qed

definition sample_watchdog :: watchdog where
  "sample_watchdog = \<lparr>g_wdt_config = wdt_get_config_defaults, wdt_ctrl = 0, wdt_config = 0, wdt_ewctrl = 0, wdt_clear = [], wdt_clks = []\<rparr>"

theorem watchdog_period_witness:
  "\<exists>w. hal_watchdog_init 5000 sample_watchdog = (0, w) \<and> 80 \<le> expiry_clocks (hal_watchdog_enable w)"
proof -
  obtain rc w where w: "hal_watchdog_init 5000 sample_watchdog = (rc, w)" by (cases "hal_watchdog_init 5000 sample_watchdog")
  have "\<not> wdt_is_locked sample_watchdog" by (simp add: wdt_is_locked_def sample_watchdog_def)
  from watchdog_period [OF refl this w] w show ?thesis by auto
qed

theorem watchdog_wraps_witness:
  "\<exists>w. hal_watchdog_init (2 ^ 28) sample_watchdog = (0, w) \<and> expiry_clocks (hal_watchdog_enable w) = 8"
proof -
  obtain rc w where w: "hal_watchdog_init (2 ^ 28) sample_watchdog = (rc, w)" by (cases "hal_watchdog_init (2 ^ 28) sample_watchdog")
  have "\<not> wdt_is_locked sample_watchdog" by (simp add: wdt_is_locked_def sample_watchdog_def)
  from watchdog_wraps [OF this w] w show ?thesis by auto
qed

end
