(* ===== verification/Spi.thy ===== *)
theory Spi
  imports Port Sercom
begin

text \<open>
  The SPI driver of the serial modules, \<open>sam0/drivers/sercom/spi\<close>, as compiled for the SAMD21 (callbacks, master and
  slave enabled): \<open>spi.c\<close>, \<open>spi_interrupt.c\<close> and the inline functions of their headers. The flags, the status and the
  data register belong to the hardware and what is connected to it: they are the parameter \<open>spi_chip\<close>, functions on an
  arbitrary state, so a read of the flags may let time pass. The other registers are fields. Memory is
  a map from addresses to bytes, so buffers may overlap; 0 is the null pointer. \<open>None\<close> is a wait that never ends or an
  access to an address that is not memory. The waits for synchronisation have no effect and are left out.
\<close>

definition SPI_FLAG_DRE :: u8 where "SPI_FLAG_DRE = push_bit 0 1"
definition SPI_FLAG_TXC :: u8 where "SPI_FLAG_TXC = push_bit 1 1"
definition SPI_FLAG_RXC :: u8 where "SPI_FLAG_RXC = push_bit 2 1"
definition SPI_FLAG_SSL :: u8 where "SPI_FLAG_SSL = push_bit 3 1"
definition SPI_FLAG_ERROR :: u8 where "SPI_FLAG_ERROR = push_bit 7 1"
definition SPI_STATUS_BUFOVF :: u16 where "SPI_STATUS_BUFOVF = push_bit 2 1"
definition SPI_DATA_MASK :: u16 where "SPI_DATA_MASK = 0x1ff"
definition SPI_CTRLA_SWRST :: u32 where "SPI_CTRLA_SWRST = push_bit 0 1"
definition SPI_CTRLA_ENABLE :: u32 where "SPI_CTRLA_ENABLE = push_bit 1 1"
definition SPI_CTRLA_MODE :: "u32 \<Rightarrow> u32" where "SPI_CTRLA_MODE v = push_bit 2 v AND push_bit 2 7"
definition SPI_CTRLA_RUNSTDBY :: u32 where "SPI_CTRLA_RUNSTDBY = push_bit 7 1"
definition SPI_CTRLA_DOPO_Pos :: nat where "SPI_CTRLA_DOPO_Pos = 16"
definition SPI_CTRLA_DIPO_Pos :: nat where "SPI_CTRLA_DIPO_Pos = 20"
definition SPI_CTRLA_CPHA :: u32 where "SPI_CTRLA_CPHA = push_bit 28 1"
definition SPI_CTRLA_CPOL :: u32 where "SPI_CTRLA_CPOL = push_bit 29 1"
definition SPI_CTRLA_DORD :: u32 where "SPI_CTRLA_DORD = push_bit 30 1"
definition SPI_CTRLB_PLOADEN :: u32 where "SPI_CTRLB_PLOADEN = push_bit 6 1"
definition SPI_CTRLB_SSDE :: u32 where "SPI_CTRLB_SSDE = push_bit 9 1"
definition SPI_CTRLB_MSSEN :: u32 where "SPI_CTRLB_MSSEN = push_bit 13 1"
definition SPI_CTRLB_RXEN :: u32 where "SPI_CTRLB_RXEN = push_bit 17 1"
definition SPI_ADDR_ADDRMASK_Pos :: nat where "SPI_ADDR_ADDRMASK_Pos = 16"

definition PINMUX_DEFAULT :: u32 where "PINMUX_DEFAULT = 0"
definition PINMUX_UNUSED :: u32 where "PINMUX_UNUSED = 0xffffffff"
definition SPI_TIMEOUT :: nat where "SPI_TIMEOUT = 10000"
definition SPI_DUMMY_NONE :: u16 where "SPI_DUMMY_NONE = 0xffff"

definition SPI_CALLBACK_BUFFER_TRANSMITTED :: nat where "SPI_CALLBACK_BUFFER_TRANSMITTED = 0"
definition SPI_CALLBACK_BUFFER_RECEIVED :: nat where "SPI_CALLBACK_BUFFER_RECEIVED = 1"
definition SPI_CALLBACK_BUFFER_TRANSCEIVED :: nat where "SPI_CALLBACK_BUFFER_TRANSCEIVED = 2"
definition SPI_CALLBACK_ERROR :: nat where "SPI_CALLBACK_ERROR = 3"
definition SPI_CALLBACK_SLAVE_TRANSMISSION_COMPLETE :: nat where "SPI_CALLBACK_SLAVE_TRANSMISSION_COMPLETE = 4"
definition SPI_CALLBACK_SLAVE_SELECT_LOW :: nat where "SPI_CALLBACK_SLAVE_SELECT_LOW = 5"
definition SPI_CALLBACK_COMBINED_ERROR :: nat where "SPI_CALLBACK_COMBINED_ERROR = 6"
definition SPI_CALLBACK_N :: nat where "SPI_CALLBACK_N = 7"

subsection \<open>State\<close>

datatype spi_mode = SPI_MODE_MASTER | SPI_MODE_SLAVE
datatype spi_character_size = SPI_CHARACTER_SIZE_8BIT | SPI_CHARACTER_SIZE_9BIT
datatype spi_direction = SPI_DIRECTION_READ | SPI_DIRECTION_WRITE | SPI_DIRECTION_BOTH | SPI_DIRECTION_IDLE

definition size_bits :: "spi_character_size \<Rightarrow> u32" where
  "size_bits c = (case c of SPI_CHARACTER_SIZE_8BIT \<Rightarrow> 0 | SPI_CHARACTER_SIZE_9BIT \<Rightarrow> 1)"

text \<open>The hardware: a read of the flag register, clearing flags, reads and writes of the data register, the status and
  clearing the overflow.\<close>

record 'h spi_chip =
  sc_flags :: "'h \<Rightarrow> u8 \<times> 'h"
  sc_clear :: "u8 \<Rightarrow> 'h \<Rightarrow> 'h"
  sc_read :: "'h \<Rightarrow> u16 \<times> 'h"
  sc_write :: "u16 \<Rightarrow> 'h \<Rightarrow> 'h"
  sc_status :: "'h \<Rightarrow> u16"
  sc_ovf_clear :: "'h \<Rightarrow> 'h"

text \<open>What the driver asks of the clock driver.\<close>

datatype spi_clk = SpiApbMask nat | SpiChanSetConfig nat nat | SpiChanEnable nat | SpiSlowClock nat

record 'h spi_module =
  s_hw :: 'h
  s_mem :: "u32 \<Rightarrow> u8 option"
  s_pins :: "port_group list"
  s_gclk :: sercom_conf
  s_clks :: "spi_clk list"
  s_ctrla :: u32
  s_ctrlb :: u32
  s_baud :: u8
  s_addr :: u32
  s_inten :: u8
  s_irq :: bool
  s_locked :: bool
  s_mode :: spi_mode
  s_size :: spi_character_size
  s_receiver :: bool
  s_hw_ss :: bool
  s_dir :: spi_direction
  s_callback :: "u32 list"
  s_rx :: u32
  s_tx :: u32
  s_dummy :: u16
  s_total :: u16
  s_left_tx :: u16
  s_left_rx :: u16
  s_registered :: u8
  s_enabled :: u8
  s_status :: status_code

definition spi_flag :: "'h spi_chip \<Rightarrow> u8 \<Rightarrow> ('h, 'z) spi_module_scheme \<Rightarrow> bool \<times> ('h, 'z) spi_module_scheme" where
  "spi_flag c f s = (case sc_flags c (s_hw s) of (fl, h) \<Rightarrow> (fl AND f \<noteq> 0, s\<lparr>s_hw := h\<rparr>))"

definition spi_is_write_complete :: "'h spi_chip \<Rightarrow> ('h, 'z) spi_module_scheme \<Rightarrow> bool \<times> ('h, 'z) spi_module_scheme" where
  "spi_is_write_complete c = spi_flag c SPI_FLAG_TXC"

definition spi_is_ready_to_write :: "'h spi_chip \<Rightarrow> ('h, 'z) spi_module_scheme \<Rightarrow> bool \<times> ('h, 'z) spi_module_scheme" where
  "spi_is_ready_to_write c = spi_flag c SPI_FLAG_DRE"

definition spi_is_ready_to_read :: "'h spi_chip \<Rightarrow> ('h, 'z) spi_module_scheme \<Rightarrow> bool \<times> ('h, 'z) spi_module_scheme" where
  "spi_is_ready_to_read c = spi_flag c SPI_FLAG_RXC"

definition spi_clear_tx_complete_flag :: "'h spi_chip \<Rightarrow> ('h, 'z) spi_module_scheme \<Rightarrow> ('h, 'z) spi_module_scheme" where
  "spi_clear_tx_complete_flag c s = s\<lparr>s_hw := sc_clear c SPI_FLAG_TXC (s_hw s)\<rparr>"

definition spi_store :: "u32 \<Rightarrow> u8 \<Rightarrow> ('h, 'z) spi_module_scheme \<Rightarrow> ('h, 'z) spi_module_scheme option" where
  "spi_store a b s = (if s_mem s a = None then None else Some (s\<lparr>s_mem := (s_mem s)(a \<mapsto> b)\<rparr>))"

subsection \<open>Characters\<close>

definition spi_write :: "'h spi_chip \<Rightarrow> u16 \<Rightarrow> ('h, 'z) spi_module_scheme \<Rightarrow> status_code \<times> ('h, 'z) spi_module_scheme" where
  "spi_write c tx_data s =
     (case spi_is_ready_to_write c s of (ready, s) \<Rightarrow>
        if \<not> ready then (STATUS_BUSY, s)
        else (STATUS_OK, s\<lparr>s_hw := sc_write c (tx_data AND SPI_DATA_MASK) (s_hw s)\<rparr>))"

text \<open>\<open>rx_data\<close> is what the variable of the caller holds.\<close>

definition spi_read ::
    "'h spi_chip \<Rightarrow> u16 \<Rightarrow> ('h, 'z) spi_module_scheme \<Rightarrow> status_code \<times> u16 \<times> ('h, 'z) spi_module_scheme" where
  "spi_read c rx_data s =
     (case spi_is_ready_to_read c s of (ready, s) \<Rightarrow>
        if \<not> ready then (STATUS_ERR_IO, rx_data, s)
        else let overflow = sc_status c (s_hw s) AND SPI_STATUS_BUFOVF \<noteq> 0;
                 s = (if overflow then s\<lparr>s_hw := sc_ovf_clear c (s_hw s)\<rparr> else s)
             in case sc_read c (s_hw s) of (dat, h) \<Rightarrow>
                  (if overflow then STATUS_ERR_OVERFLOW else STATUS_OK,
                   if s_size s = SPI_CHARACTER_SIZE_9BIT then dat AND SPI_DATA_MASK else ucast (ucast dat :: u8),
                   s\<lparr>s_hw := h\<rparr>))"

text \<open>Waiting for a flag: without end, and for a number of polls.\<close>

partial_function (option) spi_wait ::
    "'h spi_chip \<Rightarrow> u8 \<Rightarrow> ('h, 'z) spi_module_scheme \<Rightarrow> ('h, 'z) spi_module_scheme option" where
  "spi_wait c f s = (case spi_flag c f s of (hit, s) \<Rightarrow> if hit then Some s else spi_wait c f s)"

fun spi_poll :: "'h spi_chip \<Rightarrow> u8 \<Rightarrow> nat \<Rightarrow> ('h, 'z) spi_module_scheme \<Rightarrow> bool \<times> ('h, 'z) spi_module_scheme" where
  "spi_poll c f 0 s = (False, s)"
| "spi_poll c f (Suc n) s = (case spi_flag c f s of (hit, s) \<Rightarrow> if hit then (True, s) else spi_poll c f n s)"

definition spi_transceive_wait ::
    "'h spi_chip \<Rightarrow> u16 \<Rightarrow> u16 \<Rightarrow> ('h, 'z) spi_module_scheme \<Rightarrow> (status_code \<times> u16 \<times> ('h, 'z) spi_module_scheme) option" where
  "spi_transceive_wait c tx_data rx_data s =
     (if \<not> s_receiver s then Some (STATUS_ERR_DENIED, rx_data, s)
      else if s_status s = STATUS_BUSY then Some (STATUS_BUSY, rx_data, s)
      else case (if s_mode s = SPI_MODE_SLAVE then spi_poll c SPI_FLAG_DRE (SPI_TIMEOUT + 1) s else (True, s)) of (ready, s) \<Rightarrow>
        if \<not> ready then Some (STATUS_ERR_TIMEOUT, rx_data, s)
        else do {
          s \<leftarrow> spi_wait c SPI_FLAG_DRE s;
          let s = snd (spi_write c tx_data s);
          (case (if s_mode s = SPI_MODE_SLAVE then spi_poll c SPI_FLAG_RXC (SPI_TIMEOUT + 1) s else (True, s)) of (ready, s) \<Rightarrow>
             if \<not> ready then Some (STATUS_ERR_TIMEOUT, rx_data, s)
             else do {
               s \<leftarrow> spi_wait c SPI_FLAG_RXC s;
               Some (spi_read c rx_data s) }) })"

subsection \<open>Buffers\<close>

text \<open>The next character of a buffer and the position behind it.\<close>

definition load_char :: "u32 \<Rightarrow> u16 \<Rightarrow> ('h, 'z) spi_module_scheme \<Rightarrow> (u16 \<times> u16) option" where
  "load_char tx_data tx_pos s = do {
     lo \<leftarrow> s_mem s (tx_data + ucast tx_pos);
     (if s_size s = SPI_CHARACTER_SIZE_9BIT
      then do {
        hi \<leftarrow> s_mem s (tx_data + ucast (tx_pos + 1));
        Some (ucast lo OR push_bit 8 (ucast hi), tx_pos + 2) }
      else Some (ucast lo, tx_pos + 1)) }"

definition store_char :: "u32 \<Rightarrow> u16 \<Rightarrow> u16 \<Rightarrow> ('h, 'z) spi_module_scheme \<Rightarrow> (u16 \<times> ('h, 'z) spi_module_scheme) option" where
  "store_char rx_data rx_pos dat s = do {
     s \<leftarrow> spi_store (rx_data + ucast rx_pos) (ucast dat) s;
     (if s_size s = SPI_CHARACTER_SIZE_9BIT
      then do {
        s \<leftarrow> spi_store (rx_data + ucast (rx_pos + 1)) (ucast (drop_bit 8 dat)) s;
        Some (rx_pos + 2, s) }
      else Some (rx_pos + 1, s)) }"

text \<open>What a pass through the loop goes on with: \<open>length\<close>, the two positions and \<open>rx_length\<close>.\<close>

record tb =
  tb_length :: u16
  tb_tx_pos :: u16
  tb_rx_pos :: u16
  tb_rx_length :: u16

text \<open>The checks of the slave around a write; \<open>Some st\<close>: the function returns \<open>st\<close>.\<close>

definition slave_check ::
    "'h spi_chip \<Rightarrow> u8 \<Rightarrow> ('h, 'z) spi_module_scheme \<Rightarrow> status_code option \<times> ('h, 'z) spi_module_scheme" where
  "slave_check c f s =
     (case spi_is_write_complete c s of (complete, s) \<Rightarrow>
        if complete then (Some STATUS_ABORTED, spi_clear_tx_complete_flag c s)
        else case spi_flag c f s of (ready, s) \<Rightarrow> (if ready then None else Some STATUS_ERR_TIMEOUT, s))"

fun slave_fill ::
    "'h spi_chip \<Rightarrow> u32 \<Rightarrow> nat \<Rightarrow> tb \<times> ('h, 'z) spi_module_scheme \<Rightarrow> (tb \<times> ('h, 'z) spi_module_scheme) option" where
  "slave_fill c tx_data 0 (t, s) = Some (t, s)"
| "slave_fill c tx_data (Suc n) (t, s) =
     (case spi_is_ready_to_write c s of (ready, s) \<Rightarrow> do {
        (t, s) \<leftarrow> (if ready
                  then do {
                    (dat, pos) \<leftarrow> load_char tx_data (tb_tx_pos t) s;
                    Some (t\<lparr>tb_tx_pos := pos, tb_length := tb_length t - 1\<rparr>, snd (spi_write c dat s)) }
                  else Some (t, s));
        (case spi_is_ready_to_read c s of (ready, s) \<Rightarrow> if ready then Some (t, s) else slave_fill c tx_data n (t, s)) })"

text \<open>Receiving a character; \<open>Inl\<close>: the function returns.\<close>

definition receive_char ::
    "'h spi_chip \<Rightarrow> u32 \<Rightarrow> tb \<times> ('h, 'z) spi_module_scheme
     \<Rightarrow> (status_code \<times> ('h, 'z) spi_module_scheme + tb \<times> ('h, 'z) spi_module_scheme) option" where
  "receive_char c rx_data ts =
     (case ts of (t, s) \<Rightarrow>
        let t = t\<lparr>tb_rx_length := tb_rx_length t - 1\<rparr>
        in case spi_read c 0 s of (st, dat, s) \<Rightarrow>
             if st \<noteq> STATUS_OK then Some (Inl (st, s))
             else map_option (\<lambda>(pos, s). Inr (t\<lparr>tb_rx_pos := pos\<rparr>, s)) (store_char rx_data (tb_rx_pos t) dat s))"

text \<open>One pass through the loop over the buffer.\<close>

definition tb_pass ::
    "'h spi_chip \<Rightarrow> u32 \<Rightarrow> u32 \<Rightarrow> tb \<times> ('h, 'z) spi_module_scheme
     \<Rightarrow> (status_code \<times> ('h, 'z) spi_module_scheme + tb \<times> ('h, 'z) spi_module_scheme) option" where
  "tb_pass c tx_data rx_data ts =
     (case ts of (t, s) \<Rightarrow>
        let t = t\<lparr>tb_length := tb_length t - 1\<rparr>
        in case (if s_mode s = SPI_MODE_SLAVE then slave_check c SPI_FLAG_DRE (snd (spi_poll c SPI_FLAG_DRE (SPI_TIMEOUT + 1) s))
                 else (None, s)) of
             (Some st, s) \<Rightarrow> Some (Inl (st, s))
           | (None, s) \<Rightarrow> do {
               s \<leftarrow> spi_wait c SPI_FLAG_DRE s;
               (dat, pos) \<leftarrow> load_char tx_data (tb_tx_pos t) s;
               let t = t\<lparr>tb_tx_pos := pos\<rparr>;
               let s = snd (spi_write c dat s);
               (t, s) \<leftarrow> (if s_mode s = SPI_MODE_SLAVE then slave_fill c tx_data (SPI_TIMEOUT + 1) (t, s) else Some (t, s));
               (case (if s_mode s = SPI_MODE_SLAVE then slave_check c SPI_FLAG_RXC s else (None, s)) of
                  (Some st, s) \<Rightarrow> Some (Inl (st, s))
                | (None, s) \<Rightarrow> do {
                    s \<leftarrow> spi_wait c SPI_FLAG_RXC s;
                    receive_char c rx_data (t, s) }) })"

partial_function (option) tb_loop ::
    "'h spi_chip \<Rightarrow> u32 \<Rightarrow> u32 \<Rightarrow> tb \<times> ('h, 'z) spi_module_scheme
     \<Rightarrow> (status_code \<times> ('h, 'z) spi_module_scheme + tb \<times> ('h, 'z) spi_module_scheme) option" where
  "tb_loop c tx_data rx_data ts =
     (if tb_length (fst ts) = 0 then Some (Inr ts)
      else do {
        r \<leftarrow> tb_pass c tx_data rx_data ts;
        (case r of Inl e \<Rightarrow> Some (Inl e) | Inr ts \<Rightarrow> tb_loop c tx_data rx_data ts) })"

text \<open>What the slave still has to receive at the end.\<close>

function tb_rest ::
    "'h spi_chip \<Rightarrow> u32 \<Rightarrow> tb \<Rightarrow> ('h, 'z) spi_module_scheme \<Rightarrow> (status_code \<times> ('h, 'z) spi_module_scheme) option" where
  "tb_rest c rx_data t s =
     (if tb_rx_length t = 0 then Some (STATUS_OK, s)
      else case spi_is_ready_to_read c (snd (spi_poll c SPI_FLAG_RXC (SPI_TIMEOUT + 1) s)) of (ready, s) \<Rightarrow>
        if \<not> ready then Some (STATUS_ERR_TIMEOUT, s)
        else (case spi_read c 0 s of (st, dat, s) \<Rightarrow>
          if st \<noteq> STATUS_OK then Some (st, s)
          else (case store_char rx_data (tb_rx_pos t) dat s of None \<Rightarrow> None
             | Some (pos, s) \<Rightarrow> tb_rest c rx_data (t\<lparr>tb_rx_length := tb_rx_length t - 1, tb_rx_pos := pos\<rparr>) s)))"
  by auto

termination
  by (relation "measure (\<lambda>(_, _, t, _). unat (tb_rx_length t))") (auto simp: measure_unat)

declare tb_rest.simps [simp del]

definition spi_transceive_buffer_wait ::
    "'h spi_chip \<Rightarrow> u32 \<Rightarrow> u32 \<Rightarrow> u16 \<Rightarrow> ('h, 'z) spi_module_scheme \<Rightarrow> (status_code \<times> ('h, 'z) spi_module_scheme) option" where
  "spi_transceive_buffer_wait c tx_data rx_data len s =
     (if s_status s = STATUS_BUSY then Some (STATUS_BUSY, s)
      else if len = 0 then Some (STATUS_ERR_INVALID_ARG, s)
      else if \<not> s_receiver s then Some (STATUS_ERR_DENIED, s)
      else
        let s = (if s_mode s = SPI_MODE_SLAVE
                 then (case spi_is_write_complete c s of (complete, s) \<Rightarrow> if complete then spi_clear_tx_complete_flag c s else s)
                 else s)
        in do {
          r \<leftarrow> tb_loop c tx_data rx_data (\<lparr>tb_length = len, tb_tx_pos = 0, tb_rx_pos = 0, tb_rx_length = len\<rparr>, s);
          (case r of Inl e \<Rightarrow> Some e
           | Inr (t, s) \<Rightarrow> do {
               s \<leftarrow> (if s_mode s = SPI_MODE_MASTER then spi_wait c SPI_FLAG_TXC s else Some s);
               (if s_mode s = SPI_MODE_SLAVE then tb_rest c rx_data t s else Some (STATUS_OK, s)) }) })"

end
