(* ===== verification/Spi_Config.thy ===== *)
theory Spi_Config
  imports Spi
begin

text \<open>
  Setting up an SPI module (\<open>spi.c\<close>, \<open>spi.h\<close>): defaults, initialisation, enabling, the baud rate and the slave select
  pin. \<open>spi_par\<close> gives the frequencies of the clocks, the presence of a debugger and the default pads of the instances, a
  table of the chip. The calls to the clock driver are recorded.
\<close>

datatype spi_data_order = SPI_DATA_ORDER_LSB | SPI_DATA_ORDER_MSB
datatype spi_transfer_mode = SPI_TRANSFER_MODE_0 | SPI_TRANSFER_MODE_1 | SPI_TRANSFER_MODE_2 | SPI_TRANSFER_MODE_3

definition order_bits :: "spi_data_order \<Rightarrow> u32" where
  "order_bits d = (case d of SPI_DATA_ORDER_LSB \<Rightarrow> SPI_CTRLA_DORD | SPI_DATA_ORDER_MSB \<Rightarrow> 0)"

definition mode_bits :: "spi_transfer_mode \<Rightarrow> u32" where
  "mode_bits m = (case m of SPI_TRANSFER_MODE_0 \<Rightarrow> 0 | SPI_TRANSFER_MODE_1 \<Rightarrow> SPI_CTRLA_CPHA
     | SPI_TRANSFER_MODE_2 \<Rightarrow> SPI_CTRLA_CPOL | SPI_TRANSFER_MODE_3 \<Rightarrow> SPI_CTRLA_CPHA OR SPI_CTRLA_CPOL)"

definition SPI_SIGNAL_MUX_SETTING_D :: u32 where
  "SPI_SIGNAL_MUX_SETTING_D = push_bit SPI_CTRLA_DOPO_Pos 0 OR push_bit SPI_CTRLA_DIPO_Pos 3"

definition SPI_FRAME_FORMAT_SPI_FRAME :: u32 where "SPI_FRAME_FORMAT_SPI_FRAME = 0"

text \<open>\<open>cf_rate\<close> is the baud rate of a master and the frame format of a slave, which share their bytes.\<close>

record spi_config =
  cf_mode :: spi_mode
  cf_order :: spi_data_order
  cf_transfer :: spi_transfer_mode
  cf_mux :: u32
  cf_size :: spi_character_size
  cf_standby :: bool
  cf_receiver :: bool
  cf_ss_detect :: bool
  cf_hw_ss :: bool
  cf_rate :: u32
  cf_addr_mode :: u32
  cf_address :: u8
  cf_addr_mask :: u8
  cf_preload :: bool
  cf_generator :: nat
  cf_pads :: "u32 list"

definition spi_get_config_defaults :: spi_config where
  "spi_get_config_defaults = \<lparr>cf_mode = SPI_MODE_MASTER, cf_order = SPI_DATA_ORDER_MSB, cf_transfer = SPI_TRANSFER_MODE_0,
     cf_mux = SPI_SIGNAL_MUX_SETTING_D, cf_size = SPI_CHARACTER_SIZE_8BIT, cf_standby = False, cf_receiver = True,
     cf_ss_detect = True, cf_hw_ss = False, cf_rate = 100000, cf_addr_mode = 0, cf_address = 0, cf_addr_mask = 0,
     cf_preload = False, cf_generator = 0, cf_pads = replicate 4 PINMUX_DEFAULT\<rparr>"

record spi_par =
  sp_clock_hz :: "nat \<Rightarrow> u32"
  sp_debugger :: bool
  sp_default_pad :: "nat \<Rightarrow> nat \<Rightarrow> u32"

definition SERCOM0_CORE :: nat where "SERCOM0_CORE = 20"
definition PM_SERCOM0_Pos :: nat where "PM_SERCOM0_Pos = 2"

subsection \<open>Enabling\<close>

definition spi_enable :: "('h, 'z) spi_module_scheme \<Rightarrow> ('h, 'z) spi_module_scheme" where
  "spi_enable s = s\<lparr>s_irq := True, s_ctrla := s_ctrla s OR SPI_CTRLA_ENABLE\<rparr>"

definition spi_disable :: "('h, 'z) spi_module_scheme \<Rightarrow> ('h, 'z) spi_module_scheme" where
  "spi_disable s = s\<lparr>s_irq := False, s_ctrla := s_ctrla s AND NOT SPI_CTRLA_ENABLE\<rparr>"

definition spi_reset :: "('h, 'z) spi_module_scheme \<Rightarrow> ('h, 'z) spi_module_scheme" where
  "spi_reset s = (let s = spi_disable s in s\<lparr>s_ctrla := s_ctrla s OR SPI_CTRLA_SWRST\<rparr>)"

definition spi_lock :: "('h, 'z) spi_module_scheme \<Rightarrow> status_code \<times> ('h, 'z) spi_module_scheme" where
  "spi_lock s = (if s_locked s then (STATUS_BUSY, s) else (STATUS_OK, s\<lparr>s_locked := True\<rparr>))"

definition spi_unlock :: "('h, 'z) spi_module_scheme \<Rightarrow> ('h, 'z) spi_module_scheme" where
  "spi_unlock s = s\<lparr>s_locked := False\<rparr>"

definition spi_set_baudrate ::
    "spi_par \<Rightarrow> nat \<Rightarrow> u32 \<Rightarrow> ('h, 'z) spi_module_scheme \<Rightarrow> (status_code \<times> ('h, 'z) spi_module_scheme) option" where
  "spi_set_baudrate p sercom_index baudrate s = do {
     let s = spi_disable s;
     (st, baud) \<leftarrow> sercom_get_sync_baud_val baudrate (sp_clock_hz p (sercom_index + SERCOM0_CORE)) 0;
     Some (if st \<noteq> STATUS_OK then (STATUS_ERR_INVALID_ARG, s)
           else (STATUS_OK, spi_enable (s\<lparr>s_baud := ucast baud\<rparr>))) }"

subsection \<open>Initialisation\<close>

text \<open>The four pads from \<open>pad\<close> on.\<close>

fun spi_pads :: "spi_par \<Rightarrow> nat \<Rightarrow> pinmux_config \<Rightarrow> nat \<Rightarrow> u32 list \<Rightarrow> port_group list \<Rightarrow> port_group list option" where
  "spi_pads p sercom_index conf pad [] gs = Some gs"
| "spi_pads p sercom_index conf pad (m # ms) gs =
     (let current_pinmux = (if m = PINMUX_DEFAULT then sp_default_pad p sercom_index pad else m)
      in if current_pinmux \<noteq> PINMUX_UNUSED
         then system_pinmux_pin_set_config (ucast (drop_bit 16 current_pinmux))
                (conf\<lparr>mux_position := ucast (current_pinmux AND 0xffff)\<rparr>) gs \<bind> spi_pads p sercom_index conf (pad + 1) ms
         else spi_pads p sercom_index conf (pad + 1) ms gs)"

definition spi_ctrla :: "spi_par \<Rightarrow> spi_config \<Rightarrow> u32" where
  "spi_ctrla p c = (if cf_mode c = SPI_MODE_SLAVE then cf_rate c else 0) OR order_bits (cf_order c) OR mode_bits (cf_transfer c)
     OR cf_mux c OR (if cf_standby c \<or> sp_debugger p then SPI_CTRLA_RUNSTDBY else 0)"

definition spi_ctrlb :: "spi_config \<Rightarrow> u32" where
  "spi_ctrlb c =
     (if cf_mode c = SPI_MODE_SLAVE then cf_addr_mode c OR (if cf_preload c then SPI_CTRLB_PLOADEN else 0) else 0)
     OR size_bits (cf_size c) OR (if cf_receiver c then SPI_CTRLB_RXEN else 0)
     OR (if cf_ss_detect c then SPI_CTRLB_SSDE else 0) OR (if cf_hw_ss c then SPI_CTRLB_MSSEN else 0)"

definition spi_set_config ::
    "spi_par \<Rightarrow> nat \<Rightarrow> spi_config \<Rightarrow> ('h, 'z) spi_module_scheme \<Rightarrow> (status_code \<times> ('h, 'z) spi_module_scheme) option" where
  "spi_set_config p sercom_index c s = do {
     let conf = system_pinmux_get_config_defaults\<lparr>direction := SYSTEM_PINMUX_PIN_DIR_INPUT\<rparr>;
     let conf = (if cf_mode c = SPI_MODE_SLAVE then conf\<lparr>input_pull := SYSTEM_PINMUX_PIN_PULL_NONE\<rparr> else conf);
     gs \<leftarrow> spi_pads p sercom_index conf 0 (cf_pads c) (s_pins s);
     let s = s\<lparr>s_pins := gs, s_mode := cf_mode c, s_size := cf_size c, s_receiver := cf_receiver c, s_hw_ss := cf_hw_ss c\<rparr>;
     (st, baud) \<leftarrow> (if cf_mode c = SPI_MODE_MASTER
                   then sercom_get_sync_baud_val (cf_rate c) (sp_clock_hz p (sercom_index + SERCOM0_CORE)) 0
                   else Some (STATUS_OK, 0));
     Some (if st \<noteq> STATUS_OK then (STATUS_ERR_INVALID_ARG, s)
           else let s = (if cf_mode c = SPI_MODE_MASTER then s\<lparr>s_baud := ucast baud\<rparr>
                         else s\<lparr>s_addr := s_addr s OR ucast (cf_address c) OR push_bit SPI_ADDR_ADDRMASK_Pos (ucast (cf_addr_mask c))\<rparr>)
                in (STATUS_OK, s\<lparr>s_ctrla := s_ctrla s OR spi_ctrla p c, s_ctrlb := s_ctrlb s OR spi_ctrlb c\<rparr>)) }"

definition spi_init ::
    "spi_par \<Rightarrow> nat \<Rightarrow> spi_config \<Rightarrow> ('h, 'z) spi_module_scheme \<Rightarrow> (status_code \<times> ('h, 'z) spi_module_scheme) option" where
  "spi_init p sercom_index c s =
     (if s_ctrla s AND SPI_CTRLA_ENABLE \<noteq> 0 then Some (STATUS_ERR_DENIED, s)
      else if s_ctrla s AND SPI_CTRLA_SWRST \<noteq> 0 then Some (STATUS_BUSY, s)
      else
        let gclk_index = sercom_index + SERCOM0_CORE;
            s = s\<lparr>s_clks := s_clks s @ [SpiApbMask (sercom_index + PM_SERCOM0_Pos), SpiChanSetConfig gclk_index (cf_generator c),
                    SpiChanEnable gclk_index]\<rparr>;
            s = (case sercom_set_gclk_generator (\<lambda>g w. w @ [SpiSlowClock g]) (cf_generator c) False (s_gclk s, s_clks s) of
                   (_, g, w) \<Rightarrow> s\<lparr>s_gclk := g, s_clks := w\<rparr>);
            s = s\<lparr>s_ctrla := s_ctrla s OR SPI_CTRLA_MODE (if cf_mode c = SPI_MODE_MASTER then 3 else 2)\<rparr>;
            s = s\<lparr>s_callback := replicate SPI_CALLBACK_N 0, s_tx := 0, s_rx := 0, s_dummy := SPI_DUMMY_NONE, s_total := 0,
                  s_left_rx := 0, s_left_tx := 0, s_registered := 0, s_enabled := 0, s_status := STATUS_OK,
                  s_dir := SPI_DIRECTION_IDLE, s_locked := False\<rparr>
        in spi_set_config p sercom_index c s)"

subsection \<open>Selecting a slave\<close>

record spi_slave_inst =
  ss_pin :: u8
  address_enabled :: bool
  address :: u8

definition spi_slave_inst_get_config_defaults :: spi_slave_inst where
  "spi_slave_inst_get_config_defaults = \<lparr>ss_pin = 10, address_enabled = False, address = 0\<rparr>"

definition spi_attach_slave ::
    "spi_slave_inst \<Rightarrow> ('h, 'z) spi_module_scheme \<Rightarrow> (spi_slave_inst \<times> ('h, 'z) spi_module_scheme) option" where
  "spi_attach_slave config s = do {
     gs \<leftarrow> port_pin_set_config (ss_pin config) (port_get_config_defaults\<lparr>pc_direction := SYSTEM_PINMUX_PIN_DIR_OUTPUT\<rparr>) (s_pins s);
     gs \<leftarrow> port_pin_set_output_level (ss_pin config) True gs;
     Some (config, s\<lparr>s_pins := gs\<rparr>) }"

definition spi_level :: "u8 \<Rightarrow> bool \<Rightarrow> ('h, 'z) spi_module_scheme \<Rightarrow> ('h, 'z) spi_module_scheme option" where
  "spi_level pin level s = map_option (\<lambda>gs. s\<lparr>s_pins := gs\<rparr>) (port_pin_set_output_level pin level (s_pins s))"

definition spi_select_slave ::
    "'h spi_chip \<Rightarrow> spi_slave_inst \<Rightarrow> bool \<Rightarrow> ('h, 'z) spi_module_scheme \<Rightarrow> (status_code \<times> ('h, 'z) spi_module_scheme) option" where
  "spi_select_slave c slave select s =
     (if s_mode s \<noteq> SPI_MODE_MASTER then Some (STATUS_ERR_UNSUPPORTED_DEV, s)
      else if s_hw_ss s then Some (STATUS_OK, s)
      else if \<not> select then map_option (Pair STATUS_OK) (spi_level (ss_pin slave) True s)
      else if \<not> address_enabled slave then map_option (Pair STATUS_OK) (spi_level (ss_pin slave) False s)
      else case spi_is_ready_to_write c s of (ready, s) \<Rightarrow>
        if \<not> ready then map_option (Pair STATUS_BUSY) (spi_level (ss_pin slave) True s)
        else do {
          s \<leftarrow> spi_level (ss_pin slave) False s;
          let s = snd (spi_write c (ucast (address slave)) s);
          s \<leftarrow> (if \<not> s_receiver s
                then map_option (\<lambda>s. snd (snd (spi_read c 0 s))) (spi_wait c SPI_FLAG_RXC s) else Some s);
          Some (STATUS_OK, s) })"

end
