(* ===== verification/Spi_Job.thy ===== *)
theory Spi_Job
  imports Spi_Config
begin

text \<open>
  Transfers driven by interrupts, \<open>spi_interrupt.c\<close>. \<open>call\<close> runs the function behind an address of the callback table with
  the kind of the event and the count. Every read of a register of the hardware goes to the parameter \<open>spi_chip\<close>.

  The \<open>Assert\<close>s of the file, \<open>Assert(rx_data)\<close> of the two transfers included, are no branches of the model: \<open>Assert\<close> is
  defined in \<open>compiler.h\<close> as an empty macro unless \<open>_ASSERT_ENABLE_\<close> is set, and nothing in the repository sets it.
  The \<open>assert\<close>s of the HAL, a function of the C library, are faults.
\<close>

definition spi_irq_set :: "u8 \<Rightarrow> ('h, 'z) spi_module_scheme \<Rightarrow> ('h, 'z) spi_module_scheme" where
  "spi_irq_set f s = s\<lparr>s_inten := s_inten s OR f\<rparr>"

definition spi_transceive_buffer ::
    "'h spi_chip \<Rightarrow> u32 \<Rightarrow> u32 \<Rightarrow> u16 \<Rightarrow> ('h, 'z) spi_module_scheme \<Rightarrow> ('h, 'z) spi_module_scheme" where
  "spi_transceive_buffer c tx_data rx_data len s =
     (let s = s\<lparr>s_total := len, s_rx := rx_data, s_tx := tx_data, s_status := STATUS_BUSY,
                s_left_rx := (if rx_data \<noteq> 0 then len else 0), s_left_tx := (if tx_data \<noteq> 0 then len else 0),
                s_dir := SPI_DIRECTION_BOTH\<rparr>;
          s = spi_irq_set (SPI_FLAG_DRE OR SPI_FLAG_RXC) s
      in if s_mode s = SPI_MODE_SLAVE then spi_irq_set SPI_FLAG_TXC (spi_clear_tx_complete_flag c s) else s)"

definition spi_xfer_count :: "('h, 'z) spi_module_scheme \<Rightarrow> u16" where
  "spi_xfer_count s = s_total s - s_left_rx s"

definition spi_call_cb ::
    "(u32 \<Rightarrow> nat \<Rightarrow> u16 \<Rightarrow> ('h, 'z) spi_module_scheme \<Rightarrow> ('h, 'z) spi_module_scheme option) \<Rightarrow> nat \<Rightarrow> u16
     \<Rightarrow> ('h, 'z) spi_module_scheme \<Rightarrow> ('h, 'z) spi_module_scheme option" where
  "spi_call_cb call ty xfer_count s =
     (if s_enabled s AND s_registered s AND push_bit ty 1 \<noteq> 0
      then do { f \<leftarrow> mem_read (s_callback s) ty; call f ty xfer_count s } else Some s)"

definition spi_set_dummy :: "'h spi_chip \<Rightarrow> u16 \<Rightarrow> ('h, 'z) spi_module_scheme \<Rightarrow> ('h, 'z) spi_module_scheme" where
  "spi_set_dummy c dummy s =
     (let s = s\<lparr>s_dummy := dummy\<rparr>
      in if dummy \<noteq> SPI_DUMMY_NONE
         then (spi_irq_set SPI_FLAG_DRE s)\<lparr>s_hw := sc_write c (dummy AND SPI_DATA_MASK) (s_hw s)\<rparr>
         else spi_irq_set 0 s)"

definition spi_disable_ints :: "u8 \<Rightarrow> ('h, 'z) spi_module_scheme \<Rightarrow> ('h, 'z) spi_module_scheme" where
  "spi_disable_ints flags s =
     (let flags = (if s_dummy s \<noteq> SPI_DUMMY_NONE then flags AND NOT SPI_FLAG_DRE else flags)
      in s\<lparr>s_inten := s_inten s AND NOT flags\<rparr>)"

definition spi_register_callback :: "u32 \<Rightarrow> nat \<Rightarrow> ('h, 'z) spi_module_scheme \<Rightarrow> ('h, 'z) spi_module_scheme option" where
  "spi_register_callback f ty s =
     map_option (\<lambda>t. s\<lparr>s_callback := t, s_registered := s_registered s OR push_bit ty 1\<rparr>) (mem_write (s_callback s) ty f)"

definition spi_unregister_callback :: "nat \<Rightarrow> ('h, 'z) spi_module_scheme \<Rightarrow> ('h, 'z) spi_module_scheme option" where
  "spi_unregister_callback ty s =
     map_option (\<lambda>t. s\<lparr>s_callback := t, s_registered := s_registered s AND NOT (push_bit ty 1)\<rparr>) (mem_write (s_callback s) ty 0)"

definition spi_enable_callback :: "nat \<Rightarrow> ('h, 'z) spi_module_scheme \<Rightarrow> ('h, 'z) spi_module_scheme" where
  "spi_enable_callback ty s = s\<lparr>s_enabled := s_enabled s OR push_bit ty 1\<rparr>"

definition spi_disable_callback :: "nat \<Rightarrow> ('h, 'z) spi_module_scheme \<Rightarrow> ('h, 'z) spi_module_scheme" where
  "spi_disable_callback ty s = s\<lparr>s_enabled := s_enabled s AND NOT (push_bit ty 1)\<rparr>"

definition spi_get_job_status :: "('h, 'z) spi_module_scheme \<Rightarrow> status_code" where
  "spi_get_job_status = s_status"

definition spi_transceive_buffer_job ::
    "'h spi_chip \<Rightarrow> u32 \<Rightarrow> u32 \<Rightarrow> u16 \<Rightarrow> ('h, 'z) spi_module_scheme \<Rightarrow> status_code \<times> ('h, 'z) spi_module_scheme" where
  "spi_transceive_buffer_job c tx_data rx_data len s =
     (if len = 0 then (STATUS_ERR_INVALID_ARG, s)
      else if \<not> s_receiver s then (STATUS_ERR_DENIED, s)
      else if s_status s = STATUS_BUSY then (STATUS_BUSY, s)
      else (STATUS_OK, spi_transceive_buffer c tx_data rx_data len s))"

definition spi_abort_job :: "('h, 'z) spi_module_scheme \<Rightarrow> u16 \<times> ('h, 'z) spi_module_scheme" where
  "spi_abort_job s =
     (spi_xfer_count s,
      (spi_disable_ints (SPI_FLAG_RXC OR SPI_FLAG_DRE OR SPI_FLAG_TXC) s)\<lparr>s_status := STATUS_ABORTED, s_left_tx := 0, s_left_rx := 0,
        s_dir := SPI_DIRECTION_IDLE\<rparr>)"

subsection \<open>The interrupt handler\<close>

text \<open>A character from the buffer to the data register and back; the flag tells whether it was the last one.\<close>

definition spi_job_write :: "'h spi_chip \<Rightarrow> ('h, 'z) spi_module_scheme \<Rightarrow> (bool \<times> ('h, 'z) spi_module_scheme) option" where
  "spi_job_write c s = do {
     (done, dat, s) \<leftarrow> (if s_tx s \<noteq> 0
        then do {
          (dat, n) \<leftarrow> load_char (s_tx s) 0 s;
          let s = s\<lparr>s_tx := s_tx s + ucast n, s_left_tx := s_left_tx s - 1\<rparr>;
          Some (s_left_tx s = 0, dat, s) }
        else Some (False, s_dummy s, s));
     Some (done, s\<lparr>s_hw := sc_write c (dat AND SPI_DATA_MASK) (s_hw s)\<rparr>) }"

definition spi_job_read :: "'h spi_chip \<Rightarrow> ('h, 'z) spi_module_scheme \<Rightarrow> (bool \<times> ('h, 'z) spi_module_scheme) option" where
  "spi_job_read c s =
     (case sc_read c (s_hw s) of (dat, h) \<Rightarrow>
        let s = s\<lparr>s_hw := h\<rparr>
        in if s_rx s \<noteq> 0
           then do {
             (n, s) \<leftarrow> store_char (s_rx s) 0 (dat AND SPI_DATA_MASK) s;
             let s = s\<lparr>s_rx := s_rx s + ucast n, s_left_rx := s_left_rx s - 1\<rparr>;
             Some (s_left_rx s = 0, s) }
           else Some (False, s))"

definition job_dre :: "'h spi_chip \<Rightarrow> ('h, 'z) spi_module_scheme \<Rightarrow> ('h, 'z) spi_module_scheme option" where
  "job_dre c s = do {
     s \<leftarrow> (if s_mode s = SPI_MODE_MASTER \<and> s_dir s = SPI_DIRECTION_READ
          then do {
            (done, s) \<leftarrow> spi_job_write c s;
            Some (if done then spi_disable_ints SPI_FLAG_DRE s else s) }
          else Some s);
     (if s_dir s \<noteq> SPI_DIRECTION_READ
      then do {
        (done, s) \<leftarrow> spi_job_write c s;
        Some (if done
              then let s = spi_disable_ints SPI_FLAG_DRE s
                   in if s_dir s = SPI_DIRECTION_WRITE \<and> \<not> s_receiver s then spi_irq_set SPI_FLAG_TXC s else s
              else s) }
      else Some s) }"

definition job_rxc ::
    "'h spi_chip \<Rightarrow> (u32 \<Rightarrow> nat \<Rightarrow> u16 \<Rightarrow> ('h, 'z) spi_module_scheme \<Rightarrow> ('h, 'z) spi_module_scheme option) \<Rightarrow> u16
     \<Rightarrow> ('h, 'z) spi_module_scheme \<Rightarrow> ('h, 'z) spi_module_scheme option" where
  "job_rxc c call xfer_count s =
     (if sc_status c (s_hw s) AND SPI_STATUS_BUFOVF \<noteq> 0
      then do {
        s \<leftarrow> (if s_dir s \<noteq> SPI_DIRECTION_WRITE
             then spi_call_cb call SPI_CALLBACK_ERROR xfer_count
                    (spi_disable_ints (SPI_FLAG_RXC OR SPI_FLAG_DRE) (s\<lparr>s_status := STATUS_ERR_OVERFLOW, s_dir := SPI_DIRECTION_IDLE\<rparr>))
             else Some s);
        let s = s\<lparr>s_hw := snd (sc_read c (s_hw s))\<rparr>;
        Some (s\<lparr>s_hw := sc_ovf_clear c (s_hw s)\<rparr>) }
      else if s_dir s = SPI_DIRECTION_WRITE
      then do {
        (done, s) \<leftarrow> spi_job_read c s;
        (if done
         then spi_call_cb call SPI_CALLBACK_BUFFER_TRANSMITTED xfer_count
                ((spi_disable_ints SPI_FLAG_RXC s)\<lparr>s_status := STATUS_OK, s_dir := SPI_DIRECTION_IDLE\<rparr>)
         else Some s) }
      else do {
        (done, s) \<leftarrow> spi_job_read c s;
        (if done
         then let s = spi_disable_ints SPI_FLAG_RXC (s\<lparr>s_status := STATUS_OK\<rparr>)
              in if s_dir s = SPI_DIRECTION_BOTH then spi_call_cb call SPI_CALLBACK_BUFFER_TRANSCEIVED xfer_count s
                 else if s_dir s = SPI_DIRECTION_READ then spi_call_cb call SPI_CALLBACK_BUFFER_RECEIVED xfer_count s
                 else Some s
         else Some s) })"

definition job_txc ::
    "'h spi_chip \<Rightarrow> (u32 \<Rightarrow> nat \<Rightarrow> u16 \<Rightarrow> ('h, 'z) spi_module_scheme \<Rightarrow> ('h, 'z) spi_module_scheme option) \<Rightarrow> u16
     \<Rightarrow> ('h, 'z) spi_module_scheme \<Rightarrow> ('h, 'z) spi_module_scheme option" where
  "job_txc c call xfer_count s = do {
     s \<leftarrow> (if s_mode s = SPI_MODE_SLAVE
          then spi_call_cb call SPI_CALLBACK_SLAVE_TRANSMISSION_COMPLETE xfer_count
                 ((spi_clear_tx_complete_flag c (spi_disable_ints (SPI_FLAG_TXC OR SPI_FLAG_RXC OR SPI_FLAG_DRE) s))
                   \<lparr>s_dir := SPI_DIRECTION_IDLE, s_left_tx := 0, s_left_rx := 0, s_status := STATUS_OK\<rparr>)
          else Some s);
     (if s_mode s = SPI_MODE_MASTER \<and> s_dir s = SPI_DIRECTION_WRITE \<and> \<not> s_receiver s
      then spi_call_cb call SPI_CALLBACK_BUFFER_TRANSMITTED xfer_count
             ((spi_disable_ints SPI_FLAG_TXC s)\<lparr>s_dir := SPI_DIRECTION_IDLE, s_status := STATUS_OK\<rparr>)
      else Some s) }"

text \<open>A slave select and a combined error: the interrupt is switched off, its flag cleared and the callback called.\<close>

definition job_other ::
    "'h spi_chip \<Rightarrow> (u32 \<Rightarrow> nat \<Rightarrow> u16 \<Rightarrow> ('h, 'z) spi_module_scheme \<Rightarrow> ('h, 'z) spi_module_scheme option) \<Rightarrow> u16
     \<Rightarrow> u8 \<Rightarrow> nat \<Rightarrow> ('h, 'z) spi_module_scheme \<Rightarrow> ('h, 'z) spi_module_scheme option" where
  "job_other c call xfer_count flag ty s =
     (let s = spi_disable_ints flag s in spi_call_cb call ty xfer_count (s\<lparr>s_hw := sc_clear c flag (s_hw s)\<rparr>))"

definition spi_interrupt_handler ::
    "'h spi_chip \<Rightarrow> (u32 \<Rightarrow> nat \<Rightarrow> u16 \<Rightarrow> ('h, 'z) spi_module_scheme \<Rightarrow> ('h, 'z) spi_module_scheme option)
     \<Rightarrow> ('h, 'z) spi_module_scheme \<Rightarrow> ('h, 'z) spi_module_scheme option" where
  "spi_interrupt_handler c call s =
     (let xfer_count = spi_xfer_count s
      in case sc_flags c (s_hw s) of (fl, h) \<Rightarrow>
        let s = s\<lparr>s_hw := h\<rparr>; interrupt_status = fl AND s_inten s
        in do {
          s \<leftarrow> (if interrupt_status AND SPI_FLAG_DRE \<noteq> 0 then job_dre c s else Some s);
          s \<leftarrow> (if interrupt_status AND SPI_FLAG_RXC \<noteq> 0 then job_rxc c call xfer_count s else Some s);
          s \<leftarrow> (if interrupt_status AND SPI_FLAG_TXC \<noteq> 0 then job_txc c call xfer_count s else Some s);
          s \<leftarrow> (if interrupt_status AND SPI_FLAG_SSL \<noteq> 0 \<and> s_mode s = SPI_MODE_SLAVE
               then job_other c call xfer_count SPI_FLAG_SSL SPI_CALLBACK_SLAVE_SELECT_LOW s else Some s);
          (if interrupt_status AND SPI_FLAG_ERROR \<noteq> 0
           then job_other c call xfer_count SPI_FLAG_ERROR SPI_CALLBACK_COMBINED_ERROR s else Some s) })"

end
