(* ===== verification/Hal_Spi.thy ===== *)
theory Hal_Spi
  imports Spi_Job
begin

text \<open>
  The SPI ports of the hardware layer, \<open>hal_spi.c\<close>. A port extends the module of the driver, which \<open>struct samd21_hal_spi\<close>
  has at its top; the table of ports has a hole (\<open>None\<close>) for each one that is not configured. The operations on a
  port come first, then the functions of the interface, which take its number. \<open>cl\<close> runs the callback of a client;
  \<open>h_app\<close> is what it works on.
\<close>

definition HAL_EINVAL :: int where "HAL_EINVAL = 22"
definition EIO :: int where "EIO = 5"
definition EACCES :: int where "EACCES = 13"
definition EALREADY :: int where "EALREADY = 114"

definition SAMD21_SPI_FLAG_MASTER :: u8 where "SAMD21_SPI_FLAG_MASTER = 1"
definition SAMD21_SPI_FLAG_ENABLED :: u8 where "SAMD21_SPI_FLAG_ENABLED = 2"
definition SAMD21_SPI_FLAG_XFER :: u8 where "SAMD21_SPI_FLAG_XFER = 4"
definition HAL_SAMD21_SPI_MAX :: int where "HAL_SAMD21_SPI_MAX = 6"

record samd21_spi_port_config =
  dipo :: u8
  dopo :: u8
  pad_pinmux :: "u32 list"

record ('h, 'a) hal_spi = "'h spi_module" +
  h_sercom :: "nat option"
  h_cfg :: "samd21_spi_port_config option"
  h_flags :: u8
  h_cb :: u32
  h_cb_arg :: u32
  h_app :: 'a

text \<open>The settings: the enumerations of the interface, whose other values are refused.\<close>

datatype hal_word_size = HAL_SPI_WORD_SIZE_8BIT | HAL_SPI_WORD_SIZE_9BIT | SPI_WORD_SIZE_OTHER
datatype hal_data_order = HAL_SPI_MSB_FIRST | HAL_SPI_LSB_FIRST | SPI_ORDER_OTHER
datatype hal_data_mode = HAL_SPI_MODE0 | HAL_SPI_MODE1 | HAL_SPI_MODE2 | HAL_SPI_MODE3 | SPI_DATA_MODE_OTHER
datatype hal_spi_type = HAL_SPI_TYPE_MASTER | HAL_SPI_TYPE_SLAVE | SPI_TYPE_OTHER

record hal_spi_settings =
  hs_mode :: hal_data_mode
  hs_order :: hal_data_order
  hs_size :: hal_word_size
  hs_baudrate :: u32

definition samd21_hal_spi_rc_from_status :: "status_code \<Rightarrow> int" where
  "samd21_hal_spi_rc_from_status st = (if st = STATUS_OK then 0 else if st = STATUS_ERR_INVALID_ARG then HAL_EINVAL else EIO)"

definition has_flag :: "u8 \<Rightarrow> ('h, 'a) hal_spi \<Rightarrow> bool" where
  "has_flag f s \<longleftrightarrow> h_flags s AND f \<noteq> 0"

definition set_flag :: "u8 \<Rightarrow> ('h, 'a) hal_spi \<Rightarrow> ('h, 'a) hal_spi" where
  "set_flag f s = s\<lparr>h_flags := h_flags s OR f\<rparr>"

definition clr_flag :: "u8 \<Rightarrow> ('h, 'a) hal_spi \<Rightarrow> ('h, 'a) hal_spi" where
  "clr_flag f s = s\<lparr>h_flags := h_flags s AND NOT f\<rparr>"

subsection \<open>Operations on a port\<close>

text \<open>\<open>memset\<close> clears the software state; the registers, the pins and the memory stay.\<close>

definition spi_memset :: "('h, 'a) hal_spi \<Rightarrow> ('h, 'a) hal_spi" where
  "spi_memset s = s\<lparr>s_locked := False, s_mode := SPI_MODE_SLAVE, s_size := SPI_CHARACTER_SIZE_8BIT, s_receiver := False, s_hw_ss := False,
     s_dir := SPI_DIRECTION_READ, s_callback := replicate SPI_CALLBACK_N 0, s_rx := 0, s_tx := 0, s_dummy := 0, s_total := 0,
     s_left_tx := 0, s_left_rx := 0, s_registered := 0, s_enabled := 0, s_status := STATUS_OK, h_sercom := None, h_cfg := None,
     h_flags := 0, h_cb := 0, h_cb_arg := 0\<rparr>"

definition port_spi_init :: "int \<Rightarrow> samd21_spi_port_config \<Rightarrow> hal_spi_type \<Rightarrow> ('h, 'a) hal_spi \<Rightarrow> int \<times> ('h, 'a) hal_spi" where
  "port_spi_init spi_num cfg ty s =
     (let s = (spi_memset s)\<lparr>h_sercom := (if 0 \<le> spi_num \<and> spi_num < 6 then Some (nat spi_num) else None)\<rparr>
      in if h_sercom s = None then (HAL_EINVAL, s)
         else case ty of
           HAL_SPI_TYPE_MASTER \<Rightarrow> (0, (set_flag SAMD21_SPI_FLAG_MASTER s)\<lparr>h_cfg := Some cfg\<rparr>)
         | HAL_SPI_TYPE_SLAVE \<Rightarrow> (0, s\<lparr>h_cfg := Some cfg\<rparr>)
         | SPI_TYPE_OTHER \<Rightarrow> (HAL_EINVAL, s))"

definition spi_size_of :: "hal_word_size \<Rightarrow> spi_character_size option" where
  "spi_size_of w = (case w of HAL_SPI_WORD_SIZE_8BIT \<Rightarrow> Some SPI_CHARACTER_SIZE_8BIT
     | HAL_SPI_WORD_SIZE_9BIT \<Rightarrow> Some SPI_CHARACTER_SIZE_9BIT | SPI_WORD_SIZE_OTHER \<Rightarrow> None)"

definition spi_order_of :: "hal_data_order \<Rightarrow> spi_data_order option" where
  "spi_order_of d = (case d of HAL_SPI_LSB_FIRST \<Rightarrow> Some SPI_DATA_ORDER_LSB | HAL_SPI_MSB_FIRST \<Rightarrow> Some SPI_DATA_ORDER_MSB
     | SPI_ORDER_OTHER \<Rightarrow> None)"

definition spi_mode_of :: "hal_data_mode \<Rightarrow> spi_transfer_mode option" where
  "spi_mode_of m = (case m of HAL_SPI_MODE0 \<Rightarrow> Some SPI_TRANSFER_MODE_0 | HAL_SPI_MODE1 \<Rightarrow> Some SPI_TRANSFER_MODE_1
     | HAL_SPI_MODE2 \<Rightarrow> Some SPI_TRANSFER_MODE_2 | HAL_SPI_MODE3 \<Rightarrow> Some SPI_TRANSFER_MODE_3 | SPI_DATA_MODE_OTHER \<Rightarrow> None)"

text \<open>The outer \<open>None\<close>: the configuration of the port is the null pointer; the inner one: \<open>HAL_EINVAL\<close>.\<close>

definition spi_config_of :: "hal_spi_settings \<Rightarrow> ('h, 'a) hal_spi \<Rightarrow> spi_config option option" where
  "spi_config_of st s = do {
     pc \<leftarrow> h_cfg s;
     Some (do {
       size \<leftarrow> spi_size_of (hs_size st);
       order \<leftarrow> spi_order_of (hs_order st);
       mode \<leftarrow> spi_mode_of (hs_mode st);
       let c = spi_get_config_defaults\<lparr>cf_pads := pad_pinmux pc,
         cf_mux := push_bit SPI_CTRLA_DOPO_Pos (ucast (dopo pc)) OR push_bit SPI_CTRLA_DIPO_Pos (ucast (dipo pc)),
         cf_size := size, cf_order := order, cf_transfer := mode\<rparr>;
       Some (if has_flag SAMD21_SPI_FLAG_MASTER s then c\<lparr>cf_mode := SPI_MODE_MASTER, cf_rate := hs_baudrate st\<rparr>
             else c\<lparr>cf_mode := SPI_MODE_SLAVE, cf_rate := SPI_FRAME_FORMAT_SPI_FRAME, cf_preload := True\<rparr>) }) }"

definition samd21_spi_config :: "spi_par \<Rightarrow> hal_spi_settings \<Rightarrow> ('h, 'a) hal_spi \<Rightarrow> (int \<times> ('h, 'a) hal_spi) option" where
  "samd21_spi_config p st s = do {
     c \<leftarrow> spi_config_of st s;
     (case c of None \<Rightarrow> Some (HAL_EINVAL, s)
      | Some c \<Rightarrow> do {
          n \<leftarrow> h_sercom s;
          (rc, s) \<leftarrow> spi_init p n c s;
          Some (if rc \<noteq> STATUS_OK then EIO else 0, s) }) }"

definition port_spi_config :: "spi_par \<Rightarrow> hal_spi_settings \<Rightarrow> ('h, 'a) hal_spi \<Rightarrow> (int \<times> ('h, 'a) hal_spi) option" where
  "port_spi_config p st s = (if has_flag SAMD21_SPI_FLAG_ENABLED s then Some (EACCES, s) else samd21_spi_config p st s)"

text \<open>The driver works on the registers behind the pointer to the hardware.\<close>

definition with_hw :: "(('h, 'a) hal_spi \<Rightarrow> 'r) \<Rightarrow> ('h, 'a) hal_spi \<Rightarrow> 'r option" where
  "with_hw f s = (if h_sercom s = None then None else Some (f s))"

definition port_spi_enable :: "('h, 'a) hal_spi \<Rightarrow> (int \<times> ('h, 'a) hal_spi) option" where
  "port_spi_enable = with_hw (\<lambda>s. (0, set_flag SAMD21_SPI_FLAG_ENABLED (spi_enable s)))"

definition port_spi_disable :: "('h, 'a) hal_spi \<Rightarrow> (int \<times> ('h, 'a) hal_spi) option" where
  "port_spi_disable = with_hw (\<lambda>s. (0, clr_flag SAMD21_SPI_FLAG_ENABLED (spi_disable s)))"

text \<open>\<open>rx\<close>: the variable of the function before the call.\<close>

definition port_spi_tx_val :: "'h spi_chip \<Rightarrow> u16 \<Rightarrow> u16 \<Rightarrow> ('h, 'a) hal_spi \<Rightarrow> (u16 \<times> ('h, 'a) hal_spi) option" where
  "port_spi_tx_val c rx tx s =
     (if has_flag SAMD21_SPI_FLAG_XFER s then None
      else do {
        (status, rx, s) \<leftarrow> spi_transceive_wait c tx rx s;
        (if status = STATUS_OK then Some (rx, s) else None) })"

definition samd21_hal_spi_cb ::
    "(u32 \<Rightarrow> u32 \<Rightarrow> u16 \<Rightarrow> ('h, 'a) hal_spi \<Rightarrow> ('h, 'a) hal_spi option) \<Rightarrow> u16 \<Rightarrow> ('h, 'a) hal_spi \<Rightarrow> ('h, 'a) hal_spi option" where
  "samd21_hal_spi_cb cl xfr_count s =
     (if has_flag SAMD21_SPI_FLAG_XFER s
      then let s = clr_flag SAMD21_SPI_FLAG_XFER s
           in if h_cb s = 0 then None else cl (h_cb s) (h_cb_arg s) xfr_count s
      else Some s)"

definition hal_cb_ptr :: u32 where "hal_cb_ptr = 1"

definition spi_callbacks ::
    "(u32 \<Rightarrow> u32 \<Rightarrow> u16 \<Rightarrow> ('h, 'a) hal_spi \<Rightarrow> ('h, 'a) hal_spi option)
     \<Rightarrow> u32 \<Rightarrow> nat \<Rightarrow> u16 \<Rightarrow> ('h, 'a) hal_spi \<Rightarrow> ('h, 'a) hal_spi option" where
  "spi_callbacks cl f ty n s = (if f = hal_cb_ptr then samd21_hal_spi_cb cl n s else None)"

text \<open>The loop over the kinds of callbacks.\<close>

definition set_cb_kind :: "u32 \<Rightarrow> nat \<Rightarrow> ('h, 'a) hal_spi option \<Rightarrow> ('h, 'a) hal_spi option" where
  "set_cb_kind txrx_cb ty s =
     (if txrx_cb = 0 then map_option (spi_disable_callback ty) s
      else map_option (spi_enable_callback ty) (s \<bind> spi_register_callback hal_cb_ptr ty))"

definition port_spi_set_txrx_cb :: "u32 \<Rightarrow> u32 \<Rightarrow> ('h, 'a) hal_spi \<Rightarrow> (int \<times> ('h, 'a) hal_spi) option" where
  "port_spi_set_txrx_cb txrx_cb arg s =
     (if has_flag SAMD21_SPI_FLAG_XFER s then Some (EACCES, s)
      else map_option (\<lambda>s. (0, s\<lparr>h_cb := txrx_cb, h_cb_arg := arg\<rparr>)) (fold (set_cb_kind txrx_cb) [0..<SPI_CALLBACK_N] (Some s)))"

definition txrx_blocking ::
    "'h spi_chip \<Rightarrow> u32 \<Rightarrow> u32 \<Rightarrow> u16 \<Rightarrow> ('h, 'a) hal_spi \<Rightarrow> (int \<times> ('h, 'a) hal_spi) option" where
  "txrx_blocking c txbuf rxbuf len s =
     map_option (\<lambda>(status, s). (samd21_hal_spi_rc_from_status status, clr_flag SAMD21_SPI_FLAG_XFER s))
       (spi_transceive_buffer_wait c txbuf rxbuf len (set_flag SAMD21_SPI_FLAG_XFER s))"

definition txrx_nonblocking ::
    "'h spi_chip \<Rightarrow> u32 \<Rightarrow> u32 \<Rightarrow> u16 \<Rightarrow> ('h, 'a) hal_spi \<Rightarrow> int \<times> ('h, 'a) hal_spi" where
  "txrx_nonblocking c txbuf rxbuf len s =
     (case spi_transceive_buffer_job c txbuf rxbuf len (set_flag SAMD21_SPI_FLAG_XFER s) of
        (status, s) \<Rightarrow> (samd21_hal_spi_rc_from_status status, s))"

definition port_spi_txrx :: "'h spi_chip \<Rightarrow> u32 \<Rightarrow> u32 \<Rightarrow> int \<Rightarrow> ('h, 'a) hal_spi \<Rightarrow> (int \<times> ('h, 'a) hal_spi) option" where
  "port_spi_txrx c txbuf rxbuf len s =
     (if len \<le> 0 \<or> len > 0xffff then Some (HAL_EINVAL, s)
      else if has_flag SAMD21_SPI_FLAG_XFER s then Some (EALREADY, s)
      else if has_flag SAMD21_SPI_FLAG_MASTER s \<and> txbuf = 0 then Some (HAL_EINVAL, s)
      else if \<not> has_flag SAMD21_SPI_FLAG_MASTER s \<and> txbuf = 0 \<and> rxbuf = 0 then Some (HAL_EINVAL, s)
      else if h_cb s = 0 then txrx_blocking c txbuf rxbuf (word_of_int len) s
      else Some (txrx_nonblocking c txbuf rxbuf (word_of_int len) s))"

definition port_spi_set_def_tx_val :: "'h spi_chip \<Rightarrow> u16 \<Rightarrow> ('h, 'a) hal_spi \<Rightarrow> (int \<times> ('h, 'a) hal_spi) option" where
  "port_spi_set_def_tx_val c val = with_hw (\<lambda>s. (0, spi_set_dummy c val s))"

definition port_spi_abort :: "('h, 'a) hal_spi \<Rightarrow> (int \<times> ('h, 'a) hal_spi) option" where
  "port_spi_abort = with_hw (\<lambda>s. (0, clr_flag SAMD21_SPI_FLAG_XFER (snd (spi_abort_job s))))"

subsection \<open>The interface\<close>

text \<open>Finding a port: outside the table (a negative number), and a null pointer.\<close>

definition samd21_hal_spi_resolve :: "int \<Rightarrow> ('h, 'a) hal_spi option list \<Rightarrow> ('h, 'a) hal_spi option option" where
  "samd21_hal_spi_resolve spi_num ps =
     (if spi_num \<ge> HAL_SAMD21_SPI_MAX then Some None
      else if spi_num < 0 then None else mem_read ps (nat spi_num))"

text \<open>All ports share the memory, the pins and the clocks.\<close>

definition share :: "('h, 'a) hal_spi \<Rightarrow> ('h, 'a) hal_spi \<Rightarrow> ('h, 'a) hal_spi" where
  "share s t = t\<lparr>s_mem := s_mem s, s_pins := s_pins s, s_gclk := s_gclk s, s_clks := s_clks s\<rparr>"

definition on_spi ::
    "int \<Rightarrow> (('h, 'a) hal_spi \<Rightarrow> ('r \<times> ('h, 'a) hal_spi) option) \<Rightarrow> 'r \<Rightarrow> ('h, 'a) hal_spi option list
     \<Rightarrow> ('r \<times> ('h, 'a) hal_spi option list) option" where
  "on_spi spi_num f null ps = do {
     port \<leftarrow> samd21_hal_spi_resolve spi_num ps;
     (case port of None \<Rightarrow> Some (null, ps)
      | Some s \<Rightarrow> map_option (\<lambda>(r, s). (r, (map (map_option (share s)) ps)[nat spi_num := Some s])) (f s)) }"

definition hal_spi_init ::
    "int \<Rightarrow> samd21_spi_port_config option \<Rightarrow> hal_spi_type \<Rightarrow> ('h, 'a) hal_spi option list \<Rightarrow> (int \<times> ('h, 'a) hal_spi option list) option" where
  "hal_spi_init spi_num cfg ty ps =
     (case cfg of None \<Rightarrow> Some (HAL_EINVAL, ps) | Some cfg \<Rightarrow> on_spi spi_num (\<lambda>s. Some (port_spi_init spi_num cfg ty s)) HAL_EINVAL ps)"

definition hal_spi_config ::
    "spi_par \<Rightarrow> int \<Rightarrow> hal_spi_settings \<Rightarrow> ('h, 'a) hal_spi option list \<Rightarrow> (int \<times> ('h, 'a) hal_spi option list) option" where
  "hal_spi_config p spi_num settings = on_spi spi_num (port_spi_config p settings) HAL_EINVAL"

definition hal_spi_enable :: "int \<Rightarrow> ('h, 'a) hal_spi option list \<Rightarrow> (int \<times> ('h, 'a) hal_spi option list) option" where
  "hal_spi_enable spi_num = on_spi spi_num port_spi_enable HAL_EINVAL"

definition hal_spi_disable :: "int \<Rightarrow> ('h, 'a) hal_spi option list \<Rightarrow> (int \<times> ('h, 'a) hal_spi option list) option" where
  "hal_spi_disable spi_num = on_spi spi_num port_spi_disable HAL_EINVAL"

definition hal_spi_tx_val ::
    "'h spi_chip \<Rightarrow> u16 \<Rightarrow> int \<Rightarrow> u16 \<Rightarrow> ('h, 'a) hal_spi option list \<Rightarrow> (u16 \<times> ('h, 'a) hal_spi option list) option" where
  "hal_spi_tx_val c rx spi_num tx ps =
     (case samd21_hal_spi_resolve spi_num ps of
        Some (Some _) \<Rightarrow> on_spi spi_num (port_spi_tx_val c rx tx) rx ps | _ \<Rightarrow> None)"

definition hal_spi_set_txrx_cb ::
    "int \<Rightarrow> u32 \<Rightarrow> u32 \<Rightarrow> ('h, 'a) hal_spi option list \<Rightarrow> (int \<times> ('h, 'a) hal_spi option list) option" where
  "hal_spi_set_txrx_cb spi_num txrx_cb arg = on_spi spi_num (port_spi_set_txrx_cb txrx_cb arg) HAL_EINVAL"

definition hal_spi_txrx ::
    "'h spi_chip \<Rightarrow> int \<Rightarrow> u32 \<Rightarrow> u32 \<Rightarrow> int \<Rightarrow> ('h, 'a) hal_spi option list \<Rightarrow> (int \<times> ('h, 'a) hal_spi option list) option" where
  "hal_spi_txrx c spi_num txbuf rxbuf len = on_spi spi_num (port_spi_txrx c txbuf rxbuf len) HAL_EINVAL"

definition hal_spi_slave_set_def_tx_val ::
    "'h spi_chip \<Rightarrow> int \<Rightarrow> u16 \<Rightarrow> ('h, 'a) hal_spi option list \<Rightarrow> (int \<times> ('h, 'a) hal_spi option list) option" where
  "hal_spi_slave_set_def_tx_val c spi_num val = on_spi spi_num (port_spi_set_def_tx_val c val) HAL_EINVAL"

definition hal_spi_abort :: "int \<Rightarrow> ('h, 'a) hal_spi option list \<Rightarrow> (int \<times> ('h, 'a) hal_spi option list) option" where
  "hal_spi_abort spi_num = on_spi spi_num port_spi_abort HAL_EINVAL"

end
