(* ===== verification/Spi_Wire.thy ===== *)
theory Spi_Wire
  imports Hal_Spi Nm_Bus
begin

text \<open>
  A master with a slave connected to it: the shift register, the register behind it and the two received characters that a
  serial module of the chip has. \<open>exch\<close> is what the slave answers to a byte and \<open>delay\<close> the number of reads of the
  flags that a transfer takes. On this hardware the blocking transfer exchanges a buffer byte by byte with the slave,
  whatever the slave and the delays are, and the transport of the Wi-Fi chip on top of it talks to the slave.
\<close>

record 'w wire =
  w_slave :: 'w
  w_shift :: "(nat \<times> u8) option"
  w_hold :: "u8 option"
  w_recv :: "u8 list"
  w_ovf :: bool
  w_txc :: bool

definition w_tick :: "(u8 \<Rightarrow> 'w \<Rightarrow> u8 \<times> 'w) \<Rightarrow> ('w \<Rightarrow> nat) \<Rightarrow> 'w wire \<Rightarrow> 'w wire" where
  "w_tick exch delay h =
     (case w_shift h of
        None \<Rightarrow> h
      | Some (Suc n, d) \<Rightarrow> h\<lparr>w_shift := Some (n, d)\<rparr>
      | Some (0, d) \<Rightarrow>
          (case exch d (w_slave h) of (r, w) \<Rightarrow>
             h\<lparr>w_slave := w, w_recv := (if length (w_recv h) < 2 then w_recv h @ [r] else w_recv h),
               w_ovf := (w_ovf h \<or> length (w_recv h) \<ge> 2), w_shift := map_option (Pair (delay w)) (w_hold h), w_hold := None,
               w_txc := (w_hold h = None)\<rparr>))"

definition w_flags :: "'w wire \<Rightarrow> u8" where
  "w_flags h = (if w_hold h = None then SPI_FLAG_DRE else 0) OR (if w_txc h then SPI_FLAG_TXC else 0)
     OR (if w_recv h \<noteq> [] then SPI_FLAG_RXC else 0)"

definition spi_wire :: "(u8 \<Rightarrow> 'w \<Rightarrow> u8 \<times> 'w) \<Rightarrow> ('w \<Rightarrow> nat) \<Rightarrow> 'w wire spi_chip" where
  "spi_wire exch delay = \<lparr>
     sc_flags = (\<lambda>h. let h = w_tick exch delay h in (w_flags h, h)),
     sc_clear = (\<lambda>f h. if f AND SPI_FLAG_TXC \<noteq> 0 then h\<lparr>w_txc := False\<rparr> else h),
     sc_read = (\<lambda>h. case w_recv h of [] \<Rightarrow> (0, h) | r # rs \<Rightarrow> (ucast r, h\<lparr>w_recv := rs\<rparr>)),
     sc_write = (\<lambda>d h. let h = h\<lparr>w_txc := False\<rparr>
                       in if w_shift h = None then h\<lparr>w_shift := Some (delay (w_slave h), ucast d)\<rparr> else h\<lparr>w_hold := Some (ucast d)\<rparr>),
     sc_status = (\<lambda>h. if w_ovf h then SPI_STATUS_BUFOVF else 0),
     sc_ovf_clear = (\<lambda>h. h\<lparr>w_ovf := False\<rparr>)\<rparr>"

lemmas spi_flag_defs = SPI_FLAG_DRE_def SPI_FLAG_TXC_def SPI_FLAG_RXC_def SPI_FLAG_SSL_def SPI_FLAG_ERROR_def

lemma w_flags_simps [simp]:
  "w_flags h AND SPI_FLAG_DRE \<noteq> 0 \<longleftrightarrow> w_hold h = None"
  "w_flags h AND SPI_FLAG_TXC \<noteq> 0 \<longleftrightarrow> w_txc h"
  "w_flags h AND SPI_FLAG_RXC \<noteq> 0 \<longleftrightarrow> w_recv h \<noteq> []"
  by (auto simp: w_flags_def spi_flag_defs)

lemma flag_wire:
  "spi_flag (spi_wire exch delay) f s =
     (w_flags (w_tick exch delay (s_hw s)) AND f \<noteq> 0, s\<lparr>s_hw := w_tick exch delay (s_hw s)\<rparr>)"
  by (simp add: spi_flag_def spi_wire_def Let_def)

subsection \<open>Bytes in memory\<close>

fun mem_has :: "(u32 \<Rightarrow> u8 option) \<Rightarrow> u32 \<Rightarrow> u8 list \<Rightarrow> bool" where
  "mem_has m a [] = True"
| "mem_has m a (b # bs) = (m a = Some b \<and> mem_has m (a + 1) bs)"

fun mem_put :: "(u32 \<Rightarrow> u8 option) \<Rightarrow> u32 \<Rightarrow> u8 list \<Rightarrow> (u32 \<Rightarrow> u8 option)" where
  "mem_put m a [] = m"
| "mem_put m a (b # bs) = mem_put (m(a \<mapsto> b)) (a + 1) bs"

definition writable :: "(u32 \<Rightarrow> u8 option) \<Rightarrow> u32 \<Rightarrow> nat \<Rightarrow> bool" where
  "writable m a n \<longleftrightarrow> (\<forall>i < n. m (a + of_nat i) \<noteq> None)"

text \<open>A byte that is still to be sent is not overwritten: the buffers are the same or apart, or overlap in the right direction.\<close>

definition no_clobber :: "u32 \<Rightarrow> u32 \<Rightarrow> nat \<Rightarrow> bool" where
  "no_clobber t r n \<longleftrightarrow> (\<forall>i < n. \<forall>j < i. t + of_nat i \<noteq> r + of_nat j)"

lemma mem_has_iff: "mem_has m a bs \<longleftrightarrow> (\<forall>i < length bs. m (a + of_nat i) = Some (bs ! i))"
proof (induction bs arbitrary: a)
  case (Cons b bs)
  then show ?case by (auto simp: less_Suc_eq_0_disj add.assoc)
qed simp

lemma writable_Suc: "writable m a (Suc n) \<longleftrightarrow> m a \<noteq> None \<and> writable m (a + 1) n"
  by (auto simp: writable_def less_Suc_eq_0_disj add.assoc)

lemma writable_upd [simp]: "writable m a n \<Longrightarrow> writable (m(x \<mapsto> v)) a n"
  by (simp add: writable_def)

lemma no_clobber_Suc:
  assumes "no_clobber t r (Suc n)"
  shows "no_clobber (t + 1) (r + 1) n" "\<forall>i < n. t + 1 + of_nat i \<noteq> r"
proof -
  have *: "t + of_nat (Suc i) \<noteq> r + of_nat j" if "i < n" "j < Suc i" for i j
    using assms that by (auto simp: no_clobber_def simp del: of_nat_Suc)
  show "no_clobber (t + 1) (r + 1) n"
    unfolding no_clobber_def
  proof (intro allI impI)
    fix i j assume "i < n" "j < i"
    with * [of i "Suc j"] show "t + 1 + of_nat i \<noteq> r + 1 + of_nat j" by (simp add: ac_simps)
  qed
  show "\<forall>i < n. t + 1 + of_nat i \<noteq> r" using * [of _ 0] by (simp add: ac_simps)
qed

lemma no_clobber_same: "n \<le> 2 ^ 32 \<Longrightarrow> no_clobber a a n"
  by (auto simp: no_clobber_def of_nat_eq_iff take_bit_nat_eq_self word_of_nat_eq_iff)

subsection \<open>The exchange\<close>

fun exchange :: "(u8 \<Rightarrow> 'w \<Rightarrow> u8 \<times> 'w) \<Rightarrow> u8 list \<Rightarrow> 'w \<Rightarrow> u8 list \<times> 'w" where
  "exchange exch [] w = ([], w)"
| "exchange exch (b # bs) w = (case exch b w of (r, w) \<Rightarrow> case exchange exch bs w of (rs, w) \<Rightarrow> (r # rs, w))"

lemma exchange_Cons [simp]:
  "exchange exch (b # bs) w = (fst (exch b w) # fst (exchange exch bs (snd (exch b w))), snd (exchange exch bs (snd (exch b w))))"
  by (simp add: case_prod_unfold)

declare exchange.simps(2) [simp del]

lemma length_exchange [simp]: "length (fst (exchange exch bs w)) = length bs"
  by (induction bs arbitrary: w) simp_all

text \<open>Nothing is under way.\<close>

definition spi_idle :: "'w \<Rightarrow> bool \<Rightarrow> 'w wire" where
  "spi_idle w t = \<lparr>w_slave = w, w_shift = None, w_hold = None, w_recv = [], w_ovf = False, w_txc = t\<rparr>"

lemma idle_simps [simp]:
  "w_slave (spi_idle w t) = w" "w_shift (spi_idle w t) = None" "w_hold (spi_idle w t) = None" "w_recv (spi_idle w t) = []" "\<not> w_ovf (spi_idle w t)"
  "w_txc (spi_idle w t) = t" "w_tick exch delay (spi_idle w t) = spi_idle w t"
  by (simp_all add: spi_idle_def w_tick_def)

lemma wait_now:
  "w_flags (w_tick exch delay (s_hw s)) AND f \<noteq> 0 \<Longrightarrow>
    spi_wait (spi_wire exch delay) f s = Some (s\<lparr>s_hw := w_tick exch delay (s_hw s)\<rparr>)"
  by (subst spi_wait.simps) (simp add: flag_wire)

text \<open>The wait for the answer to a byte ends after its delay.\<close>

lemma wait_answer:
  assumes "s_hw s = (spi_idle w t)\<lparr>w_shift := Some (n, d)\<rparr>"
  shows "spi_wait (spi_wire exch delay) SPI_FLAG_RXC s =
    Some (s\<lparr>s_hw := (spi_idle (snd (exch d w)) True)\<lparr>w_recv := [fst (exch d w)]\<rparr>\<rparr>)"
  using assms
proof (induction n arbitrary: s)
  case 0
  have "w_tick exch delay (s_hw s) = (spi_idle (snd (exch d w)) True)\<lparr>w_recv := [fst (exch d w)]\<rparr>"
    by (simp add: 0 w_tick_def spi_idle_def split: prod.splits)
  then show ?case by (subst wait_now) simp_all
next
  case (Suc n)
  have tick: "w_tick exch delay (s_hw s) = (spi_idle w t)\<lparr>w_shift := Some (n, d)\<rparr>"
    by (simp add: Suc.prems w_tick_def spi_idle_def)
  then have "spi_wait (spi_wire exch delay) SPI_FLAG_RXC s =
      spi_wait (spi_wire exch delay) SPI_FLAG_RXC (s\<lparr>s_hw := (spi_idle w t)\<lparr>w_shift := Some (n, d)\<rparr>\<rparr>)"
    by (subst spi_wait.simps) (simp add: flag_wire)
  with Suc.IH [of "s\<lparr>s_hw := (spi_idle w t)\<lparr>w_shift := Some (n, d)\<rparr>\<rparr>"] show ?case by simp
qed

lemma u16_ne_0: "0 < n \<Longrightarrow> n < 65536 \<Longrightarrow> (of_nat n :: u16) \<noteq> 0"
  by (simp add: word_of_nat_eq_0_iff nat_dvd_not_less)

lemma ucast_pos: "k < 65536 \<Longrightarrow> (ucast (of_nat k :: u16) :: u32) = of_nat k"
  by (simp add: word_eq_iff_unsigned unsigned_ucast_eq unsigned_of_nat take_bit_nat_eq_self)

definition master8 :: "('h, 'z) spi_module_scheme \<Rightarrow> bool" where
  "master8 s \<longleftrightarrow> s_mode s = SPI_MODE_MASTER \<and> s_size s = SPI_CHARACTER_SIZE_8BIT"

lemma bit_data_mask: "bit SPI_DATA_MASK n \<longleftrightarrow> n < 9"
  using bit_mask_iff [of 9 n, where 'a = u16] by (auto simp: SPI_DATA_MASK_def mask_eq_exp_minus_1)

lemma mask8: "(ucast (ucast (b :: u8) AND SPI_DATA_MASK :: u16) :: u8) = b"
  by (rule bit_word_eqI) (simp add: bit_ucast_iff bit_and_iff bit_data_mask)

lemma ucast_up_down8: "(ucast (ucast (b :: u8) :: u16) :: u8) = b"
  by (rule bit_word_eqI) (simp add: bit_ucast_iff)

lemma write_idle:
  assumes "s_hw s = spi_idle w t"
  shows "snd (spi_write (spi_wire exch delay) (ucast b) s) = s\<lparr>s_hw := (spi_idle w False)\<lparr>w_shift := Some (delay w, b)\<rparr>\<rparr>"
  using assms by (simp add: spi_write_def spi_is_ready_to_write_def flag_wire mask8) (simp add: spi_wire_def Let_def spi_idle_def mask8)

lemma read_answer:
  assumes "s_hw s = (spi_idle w t)\<lparr>w_recv := [r]\<rparr>" "s_size s = SPI_CHARACTER_SIZE_8BIT"
  shows "spi_read (spi_wire exch delay) x s = (STATUS_OK, ucast r, s\<lparr>s_hw := spi_idle w t\<rparr>)"
proof -
  have tick: "w_tick exch delay ((spi_idle w t)\<lparr>w_recv := [r]\<rparr>) = (spi_idle w t)\<lparr>w_recv := [r]\<rparr>"
    by (simp add: w_tick_def spi_idle_def)
  show ?thesis
    using assms by (simp add: spi_read_def spi_is_ready_to_read_def flag_wire tick) (simp add: spi_wire_def spi_idle_def ucast_up_down8)
qed

text \<open>A pass through the loop of the blocking transfer.\<close>

lemma pass_wire:
  assumes "master8 s" "s_hw s = spi_idle w t" "s_mem s (tx + of_nat k) = Some b" "s_mem s (rx + of_nat k) \<noteq> None" "k < 65535"
    "tb_tx_pos u = of_nat k" "tb_rx_pos u = of_nat k"
  shows "tb_pass (spi_wire exch delay) tx rx (u, s) =
    Some (Inr (u\<lparr>tb_length := tb_length u - 1, tb_tx_pos := of_nat (Suc k), tb_rx_pos := of_nat (Suc k), tb_rx_length := tb_rx_length u - 1\<rparr>,
      s\<lparr>s_hw := spi_idle (snd (exch b w)) True, s_mem := (s_mem s)(rx + of_nat k \<mapsto> fst (exch b w))\<rparr>))"
proof -
  let ?c = "spi_wire exch delay"
  have pos: "(ucast (of_nat k :: u16) :: u32) = of_nat k" using assms(5) by (simp add: ucast_pos)
  have wait: "spi_wait ?c SPI_FLAG_DRE s = Some s"
    using assms(2) by (subst wait_now) simp_all
  have load: "load_char tx (of_nat k) s = Some (ucast b, of_nat k + 1)"
    using assms(1,3) by (simp add: load_char_def master8_def pos)
  let ?s1 = "s\<lparr>s_hw := (spi_idle w False)\<lparr>w_shift := Some (delay w, b)\<rparr>\<rparr>"
  have wr: "snd (spi_write ?c (ucast b) s) = ?s1" by (rule write_idle [OF assms(2)])
  let ?s2 = "s\<lparr>s_hw := (spi_idle (snd (exch b w)) True)\<lparr>w_recv := [fst (exch b w)]\<rparr>\<rparr>"
  have answer: "spi_wait ?c SPI_FLAG_RXC ?s1 = Some ?s2"
    by (subst wait_answer [where w = w and t = False and n = "delay w" and d = b]) simp_all
  have read: "spi_read ?c 0 ?s2 = (STATUS_OK, ucast (fst (exch b w)), s\<lparr>s_hw := spi_idle (snd (exch b w)) True\<rparr>)"
    using assms(1) by (subst read_answer [where w = "snd (exch b w)" and t = True]) (simp_all add: master8_def)
  show ?thesis
    using assms(1,4,6,7)
    by (auto simp: tb_pass_def Let_def master8_def wait load wr answer receive_char_def read store_char_def spi_store_def pos
        ucast_up_down8 add.commute)
qed

lemma loop_wire:
  assumes "master8 s" "s_hw s = spi_idle w t" "mem_has (s_mem s) (tx + of_nat k) bs" "writable (s_mem s) (rx + of_nat k) (length bs)"
    "no_clobber (tx + of_nat k) (rx + of_nat k) (length bs)" "k + length bs \<le> 65535"
    "u = \<lparr>tb_length = of_nat (length bs), tb_tx_pos = of_nat k, tb_rx_pos = of_nat k, tb_rx_length = of_nat (length bs)\<rparr>"
  shows "\<exists>u'. tb_loop (spi_wire exch delay) tx rx (u, s) =
    Some (Inr (u', s\<lparr>s_hw := spi_idle (snd (exchange exch bs w)) (t \<or> bs \<noteq> []),
                     s_mem := mem_put (s_mem s) (rx + of_nat k) (fst (exchange exch bs w))\<rparr>))"
  using assms
proof (induction bs arbitrary: s w t k u)
  case Nil
  then show ?case by (subst tb_loop.simps) simp
next
  case (Cons b bs)
  let ?s = "s\<lparr>s_hw := spi_idle (snd (exch b w)) True, s_mem := (s_mem s)(rx + of_nat k \<mapsto> fst (exch b w))\<rparr>"
  let ?u = "\<lparr>tb_length = of_nat (length bs), tb_tx_pos = of_nat (Suc k), tb_rx_pos = of_nat (Suc k), tb_rx_length = of_nat (length bs)\<rparr>"
  have len: "tb_length u \<noteq> 0"
    using Cons.prems(6,7) u16_ne_0 [of "Suc (length bs)"] by simp
  have pass: "tb_pass (spi_wire exch delay) tx rx (u, s) = Some (Inr (?u, ?s))"
    using Cons.prems by (subst pass_wire [where b = b and k = k and w = w and t = t]) (simp_all add: writable_Suc)
  have next_addr: "tx + of_nat k + 1 = tx + of_nat (Suc k)" "rx + of_nat k + 1 = rx + of_nat (Suc k)" by simp_all
  have apart: "\<forall>i < length bs. tx + of_nat (Suc k) + of_nat i \<noteq> rx + of_nat k"
    using no_clobber_Suc(2) [of "tx + of_nat k" "rx + of_nat k" "length bs"] Cons.prems(5) by (simp add: ac_simps)
  have "mem_has (s_mem s) (tx + of_nat (Suc k)) bs" using Cons.prems(3) by (simp add: ac_simps)
  then have has: "mem_has (s_mem ?s) (tx + of_nat (Suc k)) bs" using apart by (auto simp: mem_has_iff)
  have wr: "writable (s_mem ?s) (rx + of_nat (Suc k)) (length bs)"
  proof -
    have "writable (s_mem s) (rx + of_nat k + 1) (length bs)" using Cons.prems(4) by (simp add: writable_Suc)
    then show ?thesis unfolding next_addr(2) by simp
  qed
  have nc: "no_clobber (tx + of_nat (Suc k)) (rx + of_nat (Suc k)) (length bs)"
    using no_clobber_Suc(1) [of "tx + of_nat k" "rx + of_nat k" "length bs"] Cons.prems(5) next_addr by simp
  have m8: "master8 ?s" using Cons.prems(1) by (simp add: master8_def)
  obtain u' where "tb_loop (spi_wire exch delay) tx rx (?u, ?s) =
      Some (Inr (u', ?s\<lparr>s_hw := spi_idle (snd (exchange exch bs (snd (exch b w)))) (True \<or> bs \<noteq> []),
        s_mem := mem_put (s_mem ?s) (rx + of_nat (Suc k)) (fst (exchange exch bs (snd (exch b w))))\<rparr>))"
    using Cons.IH [OF m8 _ has wr nc, of "snd (exch b w)" True ?u] Cons.prems(6) by (auto simp: fun_upd_def)
  then show ?case
    using len pass next_addr(2) by (subst tb_loop.simps) (auto simp: ac_simps)
qed


subsection \<open>The blocking transfer of the hardware layer\<close>

text \<open>A port that can transfer: an initialised and configured master without a callback.\<close>

definition spi_ready :: "('h, 'a) hal_spi \<Rightarrow> bool" where
  "spi_ready s \<longleftrightarrow> master8 s \<and> s_receiver s \<and> s_status s \<noteq> STATUS_BUSY \<and> has_flag SAMD21_SPI_FLAG_MASTER s \<and>
     \<not> has_flag SAMD21_SPI_FLAG_XFER s \<and> h_cb s = 0"

lemma flag_back:
  assumes "f AND x = (0 :: u8)"
  shows "(f OR x) AND NOT x = f"
proof (rule bit_word_eqI)
  fix n assume "n < LENGTH(8)"
  moreover have "\<not> (bit f n \<and> bit x n)" using assms by (metis bit_and_iff bit_0_eq bot_apply bot_bool_def)
  ultimately show "bit ((f OR x) AND NOT x) n = bit f n" by (auto simp: bit_simps)
qed

lemma txrx_wire:
  assumes "spi_ready s" "s_hw s = spi_idle w t" "bs \<noteq> []" "length bs \<le> 65535" "tx \<noteq> 0"
    "mem_has (s_mem s) tx bs" "writable (s_mem s) rx (length bs)" "no_clobber tx rx (length bs)"
  shows "port_spi_txrx (spi_wire exch delay) tx rx (int (length bs)) s =
    Some (0, s\<lparr>s_hw := spi_idle (snd (exchange exch bs w)) True, s_mem := mem_put (s_mem s) rx (fst (exchange exch bs w))\<rparr>)"
proof -
  let ?s = "set_flag SAMD21_SPI_FLAG_XFER s"
  let ?u = "\<lparr>tb_length = of_nat (length bs), tb_tx_pos = 0, tb_rx_pos = 0, tb_rx_length = of_nat (length bs)\<rparr> :: tb"
  let ?s2 = "?s\<lparr>s_hw := spi_idle (snd (exchange exch bs w)) True, s_mem := mem_put (s_mem s) rx (fst (exchange exch bs w))\<rparr>"
  have pre: "master8 ?s" "s_hw ?s = spi_idle w t" "s_mem ?s = s_mem s" "s_status ?s = s_status s" "s_receiver ?s = s_receiver s"
    "s_mode ?s = SPI_MODE_MASTER"
    using assms(1,2) by (auto simp: spi_ready_def master8_def set_flag_def)
  obtain u' where loop: "tb_loop (spi_wire exch delay) tx rx (?u, ?s) = Some (Inr (u', ?s2))"
    using loop_wire [OF pre(1,2), of tx 0 bs rx ?u] assms(3-8) pre(3) by auto
  have fin: "spi_wait (spi_wire exch delay) SPI_FLAG_TXC ?s2 = Some ?s2" by (subst wait_now) simp_all
  have len: "(word_of_int (int (length bs)) :: u16) = of_nat (length bs)" "(of_nat (length bs) :: u16) \<noteq> 0"
    using u16_ne_0 [of "length bs"] assms(3,4) by simp_all
  have "spi_transceive_buffer_wait (spi_wire exch delay) tx rx (of_nat (length bs)) ?s = Some (STATUS_OK, ?s2)"
    using pre assms(1) len(2) loop fin by (simp add: spi_transceive_buffer_wait_def spi_ready_def)
  moreover have "clr_flag SAMD21_SPI_FLAG_XFER ?s2 =
      s\<lparr>s_hw := spi_idle (snd (exchange exch bs w)) True, s_mem := mem_put (s_mem s) rx (fst (exchange exch bs w))\<rparr>"
    using assms(1) by (simp add: clr_flag_def set_flag_def flag_back spi_ready_def has_flag_def)
  ultimately show ?thesis
    using assms(1,3,4,5) len
    by (simp add: port_spi_txrx_def txrx_blocking_def samd21_hal_spi_rc_from_status_def spi_ready_def)
qed

end
