(* ===== verification/Spi_Run.thy ===== *)
theory Spi_Run
  imports Spi_Wire
begin

text \<open>
  A transfer driven by interrupts on the hardware of \<open>Spi_Wire\<close>. Between two runs of the handler any time passes. The state
  of a running transfer is determined by the number of characters that were written and read, the hardware and the memory.
\<close>

text \<open>The handler is run after so many ticks each; \<open>cl\<close> is the function of the client.\<close>

fun spi_run ::
    "(u8 \<Rightarrow> 'w \<Rightarrow> u8 \<times> 'w) \<Rightarrow> ('w \<Rightarrow> nat) \<Rightarrow> (u32 \<Rightarrow> u32 \<Rightarrow> u16 \<Rightarrow> ('w wire, 'a) hal_spi \<Rightarrow> ('w wire, 'a) hal_spi option)
     \<Rightarrow> nat list \<Rightarrow> ('w wire, 'a) hal_spi \<Rightarrow> ('w wire, 'a) hal_spi option" where
  "spi_run exch delay cl [] s = Some s"
| "spi_run exch delay cl (k # ks) s =
     spi_interrupt_handler (spi_wire exch delay) (spi_callbacks cl) (s\<lparr>s_hw := (w_tick exch delay ^^ k) (s_hw s)\<rparr>)
       \<bind> spi_run exch delay cl ks"

subsection \<open>The hardware during a transfer\<close>

text \<open>\<open>bs\<close> are the characters to send, \<open>w0\<close> the slave at the start; \<open>out\<close> were written and \<open>inn\<close> read.\<close>

definition wire_ok :: "(u8 \<Rightarrow> 'w \<Rightarrow> u8 \<times> 'w) \<Rightarrow> u8 list \<Rightarrow> 'w \<Rightarrow> nat \<Rightarrow> nat \<Rightarrow> 'w wire \<Rightarrow> bool" where
  "wire_ok exch bs w0 out inn h \<longleftrightarrow>
     \<not> w_ovf h \<and> inn + length (w_recv h) \<le> out \<and> out \<le> length bs \<and>
     w_recv h = take (length (w_recv h)) (drop inn (fst (exchange exch bs w0))) \<and>
     w_slave h = snd (exchange exch (take (inn + length (w_recv h)) bs) w0) \<and>
     (case w_shift h of
        None \<Rightarrow> w_hold h = None \<and> out = inn + length (w_recv h)
      | Some (n, d) \<Rightarrow> inn + length (w_recv h) < out \<and> d = bs ! (inn + length (w_recv h)) \<and>
          (case w_hold h of
             None \<Rightarrow> out = inn + length (w_recv h) + 1
           | Some d' \<Rightarrow> out = inn + length (w_recv h) + 2 \<and> d' = bs ! (inn + length (w_recv h) + 1)))"

lemma exchange_snoc:
  "e < length bs \<Longrightarrow>
    fst (exch (bs ! e) (snd (exchange exch (take e bs) w))) = fst (exchange exch bs w) ! e \<and>
    snd (exch (bs ! e) (snd (exchange exch (take e bs) w))) = snd (exchange exch (take (Suc e) bs) w)"
proof (induction bs arbitrary: e w)
  case (Cons b bs)
  then show ?case by (cases e) simp_all
qed simp

lemma take_drop_Suc: "i + k < length xs \<Longrightarrow> take k (drop i xs) @ [xs ! (i + k)] = take (Suc k) (drop i xs)"
  by (simp add: take_Suc_conv_app_nth)

lemma tick_ok:
  assumes "wire_ok exch bs w0 out inn h" "out \<le> inn + 2"
  shows "wire_ok exch bs w0 out inn (w_tick exch delay h)"
proof (cases "w_shift h")
  case None
  then show ?thesis using assms by (simp add: w_tick_def)
next
  case (Some p)
  obtain n d where p: "p = (n, d)" by (cases p)
  show ?thesis
  proof (cases n)
    case (Suc m)
    then show ?thesis using assms Some p by (auto simp: w_tick_def wire_ok_def split: option.splits)
  next
    case 0
    let ?e = "inn + length (w_recv h)"
    have e: "?e < out" "out \<le> length bs" "d = bs ! ?e" "length (w_recv h) < 2"
      using assms Some p by (auto simp: wire_ok_def)
    have ex: "fst (exch (bs ! ?e) (snd (exchange exch (take ?e bs) w0))) = fst (exchange exch bs w0) ! ?e"
      "snd (exch (bs ! ?e) (snd (exchange exch (take ?e bs) w0))) = snd (exchange exch (take (Suc ?e) bs) w0)"
      using exchange_snoc [of ?e bs exch w0] e by auto
    have r: "w_recv h @ [fst (exchange exch bs w0) ! ?e] = take (Suc (length (w_recv h))) (drop inn (fst (exchange exch bs w0)))"
      using assms(1) e take_drop_Suc [of inn "length (w_recv h)" "fst (exchange exch bs w0)"] by (simp add: wire_ok_def)
    have tick: "w_tick exch delay h = h\<lparr>w_slave := snd (exch d (w_slave h)), w_recv := w_recv h @ [fst (exch d (w_slave h))],
        w_ovf := w_ovf h, w_shift := map_option (Pair (delay (snd (exch d (w_slave h))))) (w_hold h), w_hold := None,
        w_txc := (w_hold h = None)\<rparr>"
      using Some p 0 e(4) by (simp add: w_tick_def split: prod.splits)
    show ?thesis
      using assms(1) Some p e
      by (cases "w_hold h") (simp_all add: tick wire_ok_def ex r)
  qed
qed

lemma ticks_ok:
  "wire_ok exch bs w0 out inn h \<Longrightarrow> out \<le> inn + 2 \<Longrightarrow> wire_ok exch bs w0 out inn ((w_tick exch delay ^^ k) h)"
  by (induction k) (simp_all add: tick_ok)

text \<open>Writing the next character and reading one.\<close>

lemma write_ok:
  assumes "wire_ok exch bs w0 out inn h" "w_hold h = None" "out < length bs"
  shows "wire_ok exch bs w0 (Suc out) inn (sc_write (spi_wire exch delay) (ucast (bs ! out) AND SPI_DATA_MASK) h)"
  using assms by (cases "w_shift h") (auto simp: wire_ok_def spi_wire_def Let_def mask8)

lemma read_ok:
  assumes "wire_ok exch bs w0 out inn h" "w_recv h \<noteq> []"
  shows "sc_read (spi_wire exch delay) h = (ucast (fst (exchange exch bs w0) ! inn), h\<lparr>w_recv := tl (w_recv h)\<rparr>)"
    and "wire_ok exch bs w0 out (Suc inn) (h\<lparr>w_recv := tl (w_recv h)\<rparr>)" "inn < out"
proof -
  obtain r rs where r: "w_recv h = r # rs" using assms(2) by (cases "w_recv h") auto
  have len: "inn < length (fst (exchange exch bs w0))" "inn < out" using assms(1) r by (auto simp: wire_ok_def)
  then have d: "drop inn (fst (exchange exch bs w0)) = fst (exchange exch bs w0) ! inn # drop (Suc inn) (fst (exchange exch bs w0))"
    by (simp add: Cons_nth_drop_Suc)
  have rs: "r = fst (exchange exch bs w0) ! inn" "rs = take (length rs) (drop (Suc inn) (fst (exchange exch bs w0)))"
    using assms(1) r d by (auto simp: wire_ok_def)
  show "sc_read (spi_wire exch delay) h = (ucast (fst (exchange exch bs w0) ! inn), h\<lparr>w_recv := tl (w_recv h)\<rparr>)"
    using r rs(1) by (simp add: spi_wire_def)
  show "wire_ok exch bs w0 out (Suc inn) (h\<lparr>w_recv := tl (w_recv h)\<rparr>)"
  proof -
    have "\<not> w_ovf h" "inn + length (r # rs) \<le> out" "out \<le> length bs"
      "w_slave h = snd (exchange exch (take (inn + length (r # rs)) bs) w0)"
      and tail: "case w_shift h of
        None \<Rightarrow> w_hold h = None \<and> out = inn + length (r # rs)
      | Some (n, d) \<Rightarrow> inn + length (r # rs) < out \<and> d = bs ! (inn + length (r # rs)) \<and>
          (case w_hold h of
             None \<Rightarrow> out = inn + length (r # rs) + 1
           | Some d' \<Rightarrow> out = inn + length (r # rs) + 2 \<and> d' = bs ! (inn + length (r # rs) + 1))"
      using assms(1) unfolding wire_ok_def r by blast+
    then show ?thesis
      unfolding wire_ok_def r list.sel using rs(2)
      by (cases "w_shift h"; cases "w_hold h") (simp_all split: prod.splits)
  qed
  show "inn < out" by (rule len(2))
qed


subsection \<open>The driver during a transfer\<close>

definition job_ints :: "nat \<Rightarrow> nat \<Rightarrow> nat \<Rightarrow> u8" where
  "job_ints n out inn = (if inn < n then (if out < n then SPI_FLAG_DRE OR SPI_FLAG_RXC else SPI_FLAG_RXC) else 0)"

text \<open>The port \<open>s0\<close> in a transfer of \<open>n\<close> characters; \<open>a\<close> is what the client makes of the completion.\<close>

definition job_state ::
    "nat \<Rightarrow> u32 \<Rightarrow> u32 \<Rightarrow> 'a \<Rightarrow> ('w wire, 'a) hal_spi \<Rightarrow> nat \<Rightarrow> nat \<Rightarrow> 'w wire \<Rightarrow> (u32 \<Rightarrow> u8 option) \<Rightarrow> ('w wire, 'a) hal_spi" where
  "job_state n tx rx a s0 out inn h m =
     s0\<lparr>s_hw := h, s_mem := m, s_inten := job_ints n out inn, s_dir := SPI_DIRECTION_BOTH, s_rx := rx + of_nat inn,
        s_tx := tx + of_nat out, s_total := of_nat n, s_left_tx := of_nat (n - out), s_left_rx := of_nat (n - inn),
        s_status := (if inn < n then STATUS_BUSY else STATUS_OK),
        h_flags := (if inn < n then h_flags s0 OR SAMD21_SPI_FLAG_XFER else h_flags s0),
        h_app := (if inn < n then h_app s0 else a)\<rparr>"

definition app_client ::
    "(u32 \<Rightarrow> u32 \<Rightarrow> u16 \<Rightarrow> 'a \<Rightarrow> 'a) \<Rightarrow> u32 \<Rightarrow> u32 \<Rightarrow> u16 \<Rightarrow> ('w wire, 'a) hal_spi \<Rightarrow> ('w wire, 'a) hal_spi option" where
  "app_client act f x n s = Some (s\<lparr>h_app := act f x n (h_app s)\<rparr>)"

text \<open>A configured master with a callback, no transfer and no interrupt enabled.\<close>

definition job_ready :: "('h, 'a) hal_spi \<Rightarrow> bool" where
  "job_ready s \<longleftrightarrow> master8 s \<and> s_receiver s \<and> s_status s \<noteq> STATUS_BUSY \<and> has_flag SAMD21_SPI_FLAG_MASTER s \<and>
     \<not> has_flag SAMD21_SPI_FLAG_XFER s \<and> h_cb s \<noteq> 0 \<and> s_dummy s = SPI_DUMMY_NONE \<and> s_inten s = 0 \<and>
     length (s_callback s) = SPI_CALLBACK_N \<and> s_callback s ! SPI_CALLBACK_BUFFER_TRANSCEIVED = hal_cb_ptr \<and>
     s_enabled s AND s_registered s AND push_bit SPI_CALLBACK_BUFFER_TRANSCEIVED 1 \<noteq> 0"

lemma u16_eq_0: "n < 65536 \<Longrightarrow> (of_nat n :: u16) = 0 \<longleftrightarrow> n = 0"
  using u16_ne_0 [of n] by auto

lemma left_Suc: "i < n \<Longrightarrow> (of_nat (n - i) :: u16) - 1 = of_nat (n - Suc i)"
proof -
  assume "i < n"
  then have "n - i = Suc (n - Suc i)" by simp
  then show ?thesis by simp
qed

lemma ints_write: "out < n \<Longrightarrow> inn \<le> out \<Longrightarrow>
    (if n - Suc out = 0 then job_ints n out inn AND NOT SPI_FLAG_DRE else job_ints n out inn) = job_ints n (Suc out) inn"
  by (auto simp: job_ints_def spi_flag_defs)

lemma ints_read: "inn < out \<Longrightarrow> out \<le> n \<Longrightarrow>
    (if n - Suc inn = 0 then job_ints n out inn AND NOT SPI_FLAG_RXC else job_ints n out inn) = job_ints n out (Suc inn)"
  by (auto simp: job_ints_def spi_flag_defs)

lemma disable_ints_none: "s_dummy s = SPI_DUMMY_NONE \<Longrightarrow> spi_disable_ints f s = s\<lparr>s_inten := s_inten s AND NOT f\<rparr>"
  by (simp add: spi_disable_ints_def)

lemma hal_cb:
  assumes "has_flag SAMD21_SPI_FLAG_XFER s" "h_cb s \<noteq> 0"
  shows "samd21_hal_spi_cb (app_client act) k s =
    Some ((clr_flag SAMD21_SPI_FLAG_XFER s)\<lparr>h_app := act (h_cb s) (h_cb_arg s) k (h_app s)\<rparr>)"
  using assms by (simp add: samd21_hal_spi_cb_def app_client_def Let_def clr_flag_def)

lemma job_sel [simp]:
  "h_cb (job_state n tx rx a s0 out inn h m) = h_cb s0" "h_cb_arg (job_state n tx rx a s0 out inn h m) = h_cb_arg s0"
  "s_callback (job_state n tx rx a s0 out inn h m) = s_callback s0" "s_enabled (job_state n tx rx a s0 out inn h m) = s_enabled s0"
  "s_registered (job_state n tx rx a s0 out inn h m) = s_registered s0" "s_dummy (job_state n tx rx a s0 out inn h m) = s_dummy s0"
  "s_mode (job_state n tx rx a s0 out inn h m) = s_mode s0" "s_dir (job_state n tx rx a s0 out inn h m) = SPI_DIRECTION_BOTH"
  "s_hw (job_state n tx rx a s0 out inn h m) = h" "s_inten (job_state n tx rx a s0 out inn h m) = job_ints n out inn"
  "inn < n \<Longrightarrow> h_app (job_state n tx rx a s0 out inn h m) = h_app s0"
  by (simp_all add: job_state_def)

lemma dre_step:
  assumes "job_ready s0" "out < n" "inn \<le> out" "n \<le> 65535" "m (tx + of_nat out) = Some b" "tx + of_nat out \<noteq> 0"
  shows "job_dre c (job_state n tx rx a s0 out inn h m) =
    Some (job_state n tx rx a s0 (Suc out) inn (sc_write c (ucast b AND SPI_DATA_MASK) h) m)"
proof -
  have m8: "s_mode s0 = SPI_MODE_MASTER" "s_size s0 = SPI_CHARACTER_SIZE_8BIT" "s_dummy s0 = SPI_DUMMY_NONE"
    using assms(1) by (simp_all add: job_ready_def master8_def)
  have left: "(of_nat (n - out) :: u16) - 1 = of_nat (n - Suc out)" using assms(2) by (rule left_Suc)
  have last: "(of_nat (n - Suc out) :: u16) = 0 \<longleftrightarrow> n - Suc out = 0" using assms(4) by (intro u16_eq_0) simp
  let ?s = "job_state n tx rx a s0 out inn h m"
  have "spi_job_write c ?s = Some (n - Suc out = 0, ?s\<lparr>s_tx := tx + of_nat (Suc out), s_left_tx := of_nat (n - Suc out),
      s_hw := sc_write c (ucast b AND SPI_DATA_MASK) h\<rparr>)"
    using assms(5,6) m8 left last by (simp add: spi_job_write_def load_char_def job_state_def Let_def ac_simps)
  moreover have "(if n - Suc out = 0 then job_ints n out inn AND NOT SPI_FLAG_DRE else job_ints n out inn) = job_ints n (Suc out) inn"
    by (rule ints_write [OF assms(2,3)])
  ultimately show ?thesis
    using m8 by (auto simp: job_dre_def Let_def disable_ints_none) (simp_all add: job_state_def)
qed

lemma rxc_step:
  assumes "job_ready s0" "inn < out" "out \<le> n" "n \<le> 65535" "\<not> w_ovf h" "sc_read (spi_wire exch delay) h = (ucast r, h')"
    "m (rx + of_nat inn) \<noteq> None" "rx + of_nat inn \<noteq> 0"
    "a = act (h_cb s0) (h_cb_arg s0) (of_nat (n - 1)) (h_app s0)"
  shows "job_rxc (spi_wire exch delay) (spi_callbacks (app_client act)) (of_nat inn) (job_state n tx rx a s0 out inn h m) =
    Some (job_state n tx rx a s0 out (Suc inn) h' (m(rx + of_nat inn \<mapsto> r)))"
proof -
  let ?c = "spi_wire exch delay" and ?s = "job_state n tx rx a s0 out inn h m"
  have m8: "s_mode s0 = SPI_MODE_MASTER" "s_size s0 = SPI_CHARACTER_SIZE_8BIT" "s_dummy s0 = SPI_DUMMY_NONE"
    using assms(1) by (simp_all add: job_ready_def master8_def)
  have left: "(of_nat (n - inn) :: u16) - 1 = of_nat (n - Suc inn)" using assms(2,3) by (intro left_Suc) simp
  have last: "(of_nat (n - Suc inn) :: u16) = 0 \<longleftrightarrow> n - Suc inn = 0" using assms(4) by (intro u16_eq_0) simp
  have dat: "(ucast (ucast r AND SPI_DATA_MASK :: u16) :: u8) = r" by (rule mask8)
  have ok: "sc_status ?c h AND SPI_STATUS_BUFOVF = 0" using assms(5) by (simp add: spi_wire_def)
  let ?t = "?s\<lparr>s_rx := rx + of_nat (Suc inn), s_left_rx := of_nat (n - Suc inn), s_hw := h', s_mem := m(rx + of_nat inn \<mapsto> r)\<rparr>"
  have read: "spi_job_read ?c ?s = Some (n - Suc inn = 0, ?t)"
    using assms(6-8) m8 left last dat
    by (auto simp: spi_job_read_def store_char_def spi_store_def job_state_def Let_def ac_simps)
  show ?thesis
  proof (cases "n - Suc inn = 0")
    case False
    then show ?thesis
      using read ok assms(2,3) ints_read [OF assms(2,3)] by (auto simp: job_rxc_def job_state_def)
  next
    case True
    then have n: "n = Suc inn" "out = n" using assms(2,3) by auto
    let ?u = "?t\<lparr>s_status := STATUS_OK, s_inten := 0\<rparr>"
    have ints: "spi_disable_ints SPI_FLAG_RXC (?t\<lparr>s_status := STATUS_OK\<rparr>) = ?u"
      using m8 n by (simp add: spi_disable_ints_def job_state_def job_ints_def)
    have cb: "mem_read (s_callback s0) SPI_CALLBACK_BUFFER_TRANSCEIVED = Some hal_cb_ptr"
      "s_enabled s0 AND s_registered s0 AND push_bit SPI_CALLBACK_BUFFER_TRANSCEIVED 1 \<noteq> 0"
      using assms(1) by (simp_all add: job_ready_def mem_read_def SPI_CALLBACK_BUFFER_TRANSCEIVED_def SPI_CALLBACK_N_def)
    have flag: "h_flags s0 AND SAMD21_SPI_FLAG_XFER = 0" "h_cb s0 \<noteq> 0"
      using assms(1) by (simp_all add: job_ready_def has_flag_def)
    have x: "has_flag SAMD21_SPI_FLAG_XFER ?u"
    proof -
      have "(h_flags s0 OR SAMD21_SPI_FLAG_XFER) AND SAMD21_SPI_FLAG_XFER = SAMD21_SPI_FLAG_XFER"
        by (simp add: bit_eq_iff bit_simps)
      then show ?thesis using n by (simp add: has_flag_def job_state_def) (simp add: SAMD21_SPI_FLAG_XFER_def)
    qed
    have "spi_call_cb (spi_callbacks (app_client act)) SPI_CALLBACK_BUFFER_TRANSCEIVED (of_nat inn) ?u =
        samd21_hal_spi_cb (app_client act) (of_nat inn) ?u"
      using cb by (simp add: spi_call_cb_def spi_callbacks_def)
    also have "\<dots> = Some ((clr_flag SAMD21_SPI_FLAG_XFER ?u)\<lparr>h_app := a\<rparr>)"
      using hal_cb [OF x, of act "of_nat inn"] flag(2) n assms(9) by simp
    finally have "spi_call_cb (spi_callbacks (app_client act)) SPI_CALLBACK_BUFFER_TRANSCEIVED (of_nat inn) ?u =
        Some ((clr_flag SAMD21_SPI_FLAG_XFER ?u)\<lparr>h_app := a\<rparr>)" .
    then show ?thesis
      using read ok ints n flag_back [OF flag(1)] by (simp add: job_rxc_def Let_def) (simp add: job_state_def clr_flag_def job_ints_def)
  qed
qed


subsection \<open>A run of the handler\<close>

definition mem_ok :: "(u8 \<Rightarrow> 'w \<Rightarrow> u8 \<times> 'w) \<Rightarrow> u8 list \<Rightarrow> 'w \<Rightarrow> u32 \<Rightarrow> u32 \<Rightarrow> nat \<Rightarrow> nat \<Rightarrow> (u32 \<Rightarrow> u8 option) \<Rightarrow> bool" where
  "mem_ok exch bs w0 tx rx out inn m \<longleftrightarrow>
     (\<forall>i. out \<le> i \<and> i < length bs \<longrightarrow> m (tx + of_nat i) = Some (bs ! i)) \<and>
     (\<forall>i < inn. m (rx + of_nat i) = Some (fst (exchange exch bs w0) ! i)) \<and> writable m rx (length bs)"

text \<open>A buffer that does not run over the end of the address space.\<close>

definition buf_ok :: "u32 \<Rightarrow> nat \<Rightarrow> bool" where
  "buf_ok a n \<longleftrightarrow> a \<noteq> 0 \<and> unat a + n \<le> 2 ^ 32"

lemma buf_ok_addr: "buf_ok a n \<Longrightarrow> i < n \<Longrightarrow> unat (a + of_nat i) = unat a + i"
  by (simp add: buf_ok_def unat_word_ariths unsigned_of_nat take_bit_nat_eq_self)

lemma buf_ok_ne_0: "buf_ok a n \<Longrightarrow> i < n \<Longrightarrow> a + of_nat i \<noteq> 0"
  using buf_ok_addr [of a n i] by (auto simp: buf_ok_def unat_eq_0)

lemma mem_ok_write: "mem_ok exch bs w0 tx rx out inn m \<Longrightarrow> mem_ok exch bs w0 tx rx (Suc out) inn m"
  by (simp add: mem_ok_def)

lemma mem_ok_read:
  assumes "mem_ok exch bs w0 tx rx out inn m" "inn < out" "out \<le> length bs" "buf_ok rx (length bs)" "no_clobber tx rx (length bs)"
  shows "mem_ok exch bs w0 tx rx out (Suc inn) (m(rx + of_nat inn \<mapsto> fst (exchange exch bs w0) ! inn))"
proof -
  have tx: "tx + of_nat i \<noteq> rx + of_nat inn" if "out \<le> i" "i < length bs" for i
    using assms(2,5) that by (auto simp: no_clobber_def)
  have rx: "rx + of_nat i \<noteq> rx + of_nat inn" if "i < inn" for i
    using buf_ok_addr [OF assms(4), of i] buf_ok_addr [OF assms(4), of inn] assms(2,3) that
    by (metis add_left_cancel less_trans nat_neq_iff order_less_le_trans)
  show ?thesis
    using assms(1) tx rx by (auto simp: mem_ok_def less_Suc_eq)
qed

lemma irq_bits:
  "(w_flags h AND job_ints n out inn) AND SPI_FLAG_DRE \<noteq> 0 \<longleftrightarrow> w_hold h = None \<and> inn < n \<and> out < n"
  "(w_flags h AND job_ints n out inn) AND SPI_FLAG_RXC \<noteq> 0 \<longleftrightarrow> w_recv h \<noteq> [] \<and> inn < n"
  "(w_flags h AND job_ints n out inn) AND SPI_FLAG_TXC = 0"
  "(w_flags h AND job_ints n out inn) AND SPI_FLAG_ERROR = 0"
  by (auto simp: w_flags_def job_ints_def spi_flag_defs)

text \<open>What is left to do, given that a transfer takes at most \<open>D\<close> ticks.\<close>

definition work :: "nat \<Rightarrow> nat \<Rightarrow> nat \<Rightarrow> 'w wire \<Rightarrow> nat" where
  "work D n inn h = (n - (inn + length (w_recv h))) * (D + 3) + (case w_shift h of None \<Rightarrow> D + 2 | Some (c, _) \<Rightarrow> c + 1) + (n - inn)"

lemma work_tick:
  assumes "wire_ok exch bs w0 out inn h" "out \<le> inn + 2" "\<forall>w. delay w \<le> D"
  shows "work D (length bs) inn (w_tick exch delay h) + (if w_shift h = None then 0 else 1) \<le> work D (length bs) inn h"
proof (cases "w_shift h")
  case None
  then show ?thesis by (simp add: w_tick_def)
next
  case (Some p)
  obtain c d where p: "p = (c, d)" by (cases p)
  let ?e = "inn + length (w_recv h)"
  have e: "?e < length bs" "length (w_recv h) < 2" using assms(1,2) Some p by (auto simp: wire_ok_def)
  then obtain k where k: "length bs - ?e = Suc k" "length bs - Suc ?e = k" by (metis Suc_diff_Suc)
  show ?thesis
  proof (cases c)
    case 0
    let ?h = "w_tick exch delay h"
    have "length (w_recv ?h) = Suc (length (w_recv h))" "case w_shift ?h of None \<Rightarrow> True | Some (c, _) \<Rightarrow> c \<le> D"
      using Some p 0 e(2) assms(3) by (auto simp: w_tick_def split: prod.splits option.splits)
    then show ?thesis
      using Some p k by (cases "w_shift ?h") (auto simp: work_def)
  next
    case (Suc m)
    then show ?thesis using Some p by (simp add: w_tick_def work_def)
  qed
qed

lemma work_write:
  assumes "\<forall>w. delay w \<le> D" "wire_ok exch bs w0 out inn h"
  shows "work D n inn (sc_write (spi_wire exch delay) d h) + (if w_shift h = None then 1 else 0) \<le> work D n inn h"
  using assms by (cases "w_shift h") (auto simp: spi_wire_def Let_def work_def)

lemma work_read:
  assumes "w_recv h \<noteq> []" "inn < n"
  shows "work D n (Suc inn) (h\<lparr>w_recv := tl (w_recv h)\<rparr>) < work D n inn h"
  using assms by (cases "w_recv h") (auto simp: work_def split: option.splits)

lemma handler_step:
  fixes s0 :: "('w wire, 'a) hal_spi"
  assumes ready: "job_ready s0" and n: "n = length bs" "n \<le> 65535" "inn < n"
    and ok: "wire_ok exch bs w0 out inn h" "out \<le> inn + 2" "mem_ok exch bs w0 tx rx out inn m"
    and mem: "buf_ok tx n" "buf_ok rx n" "no_clobber tx rx n"
    and a: "a = act (h_cb s0) (h_cb_arg s0) (of_nat (n - 1)) (h_app s0)"
  shows "\<exists>out' inn' h' m'. spi_interrupt_handler (spi_wire exch delay) (spi_callbacks (app_client act)) (job_state n tx rx a s0 out inn h m) =
      Some (job_state n tx rx a s0 out' inn' h' m') \<and> wire_ok exch bs w0 out' inn' h' \<and> out' \<le> inn' + 2 \<and> inn' \<le> n \<and>
      mem_ok exch bs w0 tx rx out' inn' m' \<and> ((\<forall>w. delay w \<le> D) \<longrightarrow> work D n inn' h' < work D n inn h)"
proof -
  let ?c = "spi_wire exch delay" and ?call = "spi_callbacks (app_client act) :: u32 \<Rightarrow> nat \<Rightarrow> u16 \<Rightarrow> ('w wire, 'a) hal_spi \<Rightarrow> _"
  let ?S = "job_state n tx rx a s0"
  let ?h1 = "w_tick exch delay h"
  have ok1: "wire_ok exch bs w0 out inn ?h1" by (rule tick_ok [OF ok(1,2)])
  have count: "spi_xfer_count (?S out inn h m) = of_nat inn"
    using n(3) by (simp add: spi_xfer_count_def job_state_def)
  have le: "out \<le> n" "inn \<le> out" using ok(1) n(1) by (auto simp: wire_ok_def)
  define w1 where "w1 \<longleftrightarrow> w_hold ?h1 = None \<and> out < n"
  define out1 where "out1 = (if w1 then Suc out else out)"
  define h2 where "h2 = (if w1 then sc_write ?c (ucast (bs ! out) AND SPI_DATA_MASK) ?h1 else ?h1)"
  have recv: "w_recv h2 = w_recv ?h1" by (simp add: h2_def spi_wire_def Let_def)
  have step1: "(if w1 then job_dre ?c (?S out inn ?h1 m) else Some (?S out inn ?h1 m)) = Some (?S out1 inn h2 m)"
    using dre_step [OF ready _ le(2) n(2), of m tx "bs ! out" ?c rx a ?h1] ok(3) n(1) buf_ok_ne_0 [OF mem(1)]
    by (auto simp: out1_def h2_def w1_def mem_ok_def)
  have ok2: "wire_ok exch bs w0 out1 inn h2" "mem_ok exch bs w0 tx rx out1 inn m" "out1 \<le> n"
    using ok1 write_ok [of exch bs w0 out inn ?h1 delay] ok(3) mem_ok_write [OF ok(3)] le n(1)
    by (auto simp: out1_def h2_def w1_def)
  define inn1 where "inn1 = (if w_recv ?h1 \<noteq> [] then Suc inn else inn)"
  define h3 where "h3 = (if w_recv ?h1 \<noteq> [] then h2\<lparr>w_recv := tl (w_recv h2)\<rparr> else h2)"
  define m1 where "m1 = (if w_recv ?h1 \<noteq> [] then m(rx + of_nat inn \<mapsto> fst (exchange exch bs w0) ! inn) else m)"
  have step2: "(if w_recv ?h1 \<noteq> [] then job_rxc ?c ?call (of_nat inn) (?S out1 inn h2 m) else Some (?S out1 inn h2 m)) =
      Some (?S out1 inn1 h3 m1)"
  proof (cases "w_recv ?h1 = []")
    case False
    have wr: "m (rx + of_nat inn) \<noteq> None" using ok(3) n by (auto simp: mem_ok_def writable_def)
    have novf: "\<not> w_ovf h2" using ok2(1) by (simp add: wire_ok_def)
    have rec: "w_recv h2 \<noteq> []" using False recv by simp
    have "job_rxc ?c ?call (of_nat inn) (?S out1 inn h2 m) =
        Some (?S out1 (Suc inn) (h2\<lparr>w_recv := tl (w_recv h2)\<rparr>) (m(rx + of_nat inn \<mapsto> fst (exchange exch bs w0) ! inn)))"
      by (rule rxc_step) (fact ready read_ok(3) [OF ok2(1) rec] ok2(3) n(2) novf read_ok(1) [OF ok2(1) rec] wr
          buf_ok_ne_0 [OF mem(2) n(3)] a)+
    then show ?thesis using False by (simp add: inn1_def h3_def m1_def)
  qed (simp add: inn1_def h3_def m1_def)
  have ok3: "wire_ok exch bs w0 out1 inn1 h3" "mem_ok exch bs w0 tx rx out1 inn1 m1" "inn1 \<le> n"
    using ok2 read_ok(2,3) [OF ok2(1)] mem_ok_read [OF ok2(2) read_ok(3) [OF ok2(1)]] mem n recv
    by (auto simp: inn1_def h3_def m1_def)
  have bound: "out1 \<le> inn1 + 2"
    using ok1 ok(2) by (cases "w_shift ?h1") (auto simp: out1_def inn1_def w1_def wire_ok_def)
  have handler: "spi_interrupt_handler ?c ?call (?S out inn h m) = Some (?S out1 inn1 h3 m1)"
  proof -
    have flags: "sc_flags ?c h = (w_flags ?h1, ?h1)" by (simp add: spi_wire_def Let_def)
    have upd: "(?S out inn h m)\<lparr>s_hw := ?h1\<rparr> = ?S out inn ?h1 m" by (simp add: job_state_def)
    have bits: "(w_flags ?h1 AND job_ints n out inn) AND SPI_FLAG_DRE \<noteq> 0 \<longleftrightarrow> w1"
      "(w_flags ?h1 AND job_ints n out inn) AND SPI_FLAG_RXC \<noteq> 0 \<longleftrightarrow> w_recv ?h1 \<noteq> []"
      using irq_bits(1,2) [of ?h1 n out inn] n(3) by (auto simp: w1_def)
    have "s_mode s0 = SPI_MODE_MASTER" using ready by (simp add: job_ready_def master8_def)
    then show ?thesis
      unfolding spi_interrupt_handler_def Let_def count job_sel flags prod.case upd bits irq_bits(3,4) step1 bind.bind_lunit step2
      by simp
  qed
  have "work D n inn1 h3 < work D n inn h" if D: "\<forall>w. delay w \<le> D"
  proof -
    have t: "work D n inn ?h1 + (if w_shift h = None then 0 else 1) \<le> work D n inn h"
      using work_tick [OF ok(1,2) D] n(1) by simp
    have w: "work D n inn h2 + (if w1 \<and> w_shift ?h1 = None then 1 else 0) \<le> work D n inn ?h1"
      using work_write [OF D ok1, of n "ucast (bs ! out) AND SPI_DATA_MASK"] by (auto simp: h2_def)
    have r: "work D n inn1 h3 + (if w_recv ?h1 \<noteq> [] then 1 else 0) \<le> work D n inn h2"
      using work_read [of h2 inn n D] n(3) recv by (auto simp: inn1_def h3_def)
    have "w_shift h \<noteq> None \<or> w1 \<and> w_shift ?h1 = None \<or> w_recv ?h1 \<noteq> []"
    proof (cases "w_shift h")
      case None
      then have "?h1 = h" "w_hold h = None" "out = inn + length (w_recv h)" using ok(1) by (simp_all add: w_tick_def wire_ok_def)
      then show ?thesis using n le None by (cases "out < n") (auto simp: w1_def)
    qed simp
    then show ?thesis using t w r by (auto split: if_splits)
  qed
  with handler ok3 bound show ?thesis by blast
qed


subsection \<open>Any number of runs\<close>

lemma handler_done:
  assumes "job_ready s0"
  shows "spi_interrupt_handler (spi_wire exch delay) call (job_state n tx rx a s0 out n h m) =
    Some (job_state n tx rx a s0 out n (w_tick exch delay h) m)"
proof -
  have upd: "(job_state n tx rx a s0 out n h m)\<lparr>s_hw := h'\<rparr> = job_state n tx rx a s0 out n h' m" for h'
    by (simp add: job_state_def)
  show ?thesis by (simp add: spi_interrupt_handler_def Let_def spi_wire_def upd job_ints_def)
qed

lemma work_ticks:
  "wire_ok exch bs w0 out inn h \<Longrightarrow> out \<le> inn + 2 \<Longrightarrow> \<forall>w. delay w \<le> D \<Longrightarrow>
    work D (length bs) inn ((w_tick exch delay ^^ k) h) \<le> work D (length bs) inn h"
proof (induction k)
  case (Suc k)
  have "work D (length bs) inn (w_tick exch delay ((w_tick exch delay ^^ k) h)) \<le> work D (length bs) inn ((w_tick exch delay ^^ k) h)"
    using work_tick [OF ticks_ok [OF Suc.prems(1,2), of k delay] Suc.prems(2,3)] by (simp split: if_splits)
  also have "\<dots> \<le> work D (length bs) inn h" by (rule Suc.IH [OF Suc.prems])
  finally show ?case by simp
qed simp

lemma run_done:
  assumes "job_ready s0" "wire_ok exch bs w0 out n h" "out \<le> n + 2"
  shows "\<exists>h'. spi_run exch delay cl ks (job_state n tx rx a s0 out n h m) = Some (job_state n tx rx a s0 out n h' m) \<and>
    wire_ok exch bs w0 out n h'"
  using assms(2)
proof (induction ks arbitrary: h)
  case (Cons k ks)
  have "wire_ok exch bs w0 out n (w_tick exch delay ((w_tick exch delay ^^ k) h))"
    by (rule tick_ok [OF ticks_ok [OF Cons.prems assms(3)] assms(3)])
  moreover have "(job_state n tx rx a s0 out n h m)\<lparr>s_hw := h'\<rparr> = job_state n tx rx a s0 out n h' m" for h'
    by (simp add: job_state_def)
  ultimately show ?case using Cons.IH handler_done [OF assms(1), where n = n] by simp
qed auto

lemma run_job:
  fixes s0 :: "('w wire, 'a) hal_spi"
  assumes ready: "job_ready s0" and n: "n = length bs" "n \<le> 65535"
    and mem: "buf_ok tx n" "buf_ok rx n" "no_clobber tx rx n"
    and a: "a = act (h_cb s0) (h_cb_arg s0) (of_nat (n - 1)) (h_app s0)"
    and ok: "wire_ok exch bs w0 out inn h" "out \<le> inn + 2" "inn \<le> n" "mem_ok exch bs w0 tx rx out inn m"
  shows "\<exists>out' inn' h' m'. spi_run exch delay (app_client act) ks (job_state n tx rx a s0 out inn h m) =
      Some (job_state n tx rx a s0 out' inn' h' m') \<and> wire_ok exch bs w0 out' inn' h' \<and> inn' \<le> n \<and>
      mem_ok exch bs w0 tx rx out' inn' m' \<and>
      ((\<forall>w. delay w \<le> D) \<longrightarrow> inn' = n \<or> work D n inn' h' + length ks \<le> work D n inn h)"
  using ok
proof (induction ks arbitrary: out inn h m)
  case Nil
  then show ?case by auto
next
  case (Cons k ks)
  let ?S = "job_state n tx rx a s0"
  let ?H = "spi_interrupt_handler (spi_wire exch delay) (spi_callbacks (app_client act)) :: ('w wire, 'a) hal_spi \<Rightarrow> _"
  let ?h = "(w_tick exch delay ^^ k) h"
  have okt: "wire_ok exch bs w0 out inn ?h" by (rule ticks_ok [OF Cons.prems(1,2)])
  have upd: "(?S out inn h m)\<lparr>s_hw := ?h\<rparr> = ?S out inn ?h m" by (simp add: job_state_def)
  show ?case
  proof (cases "inn = n")
    case True
    obtain h' where "spi_run exch delay (app_client act) (k # ks) (?S out n h m) = Some (?S out n h' m)" "wire_ok exch bs w0 out n h'"
      using run_done [OF ready, of exch bs w0 out n h] Cons.prems(1,2) True by blast
    then show ?thesis using True Cons.prems(4) by auto
  next
    case False
    then have lt: "inn < n" using Cons.prems(3) by simp
    have "\<exists>out' inn' h' m'. ?H (?S out inn ?h m) = Some (?S out' inn' h' m') \<and> wire_ok exch bs w0 out' inn' h' \<and> out' \<le> inn' + 2 \<and>
        inn' \<le> n \<and> mem_ok exch bs w0 tx rx out' inn' m' \<and> ((\<forall>w. delay w \<le> D) \<longrightarrow> work D n inn' h' < work D n inn ?h)"
      by (rule handler_step) (fact ready n lt okt Cons.prems(2,4) mem a)+
    then obtain out1 inn1 h1 m1 where
      H: "?H (?S out inn ?h m) = Some (?S out1 inn1 h1 m1)" and
      ok1: "wire_ok exch bs w0 out1 inn1 h1" "out1 \<le> inn1 + 2" "inn1 \<le> n" "mem_ok exch bs w0 tx rx out1 inn1 m1" and
      less: "(\<forall>w. delay w \<le> D) \<longrightarrow> work D n inn1 h1 < work D n inn ?h" by blast
    have "(\<forall>w. delay w \<le> D) \<longrightarrow> work D n inn ?h \<le> work D n inn h"
      using work_ticks [OF Cons.prems(1,2)] n(1) by blast
    then show ?thesis using Cons.IH [OF ok1] H less upd by fastforce
  qed
qed

lemma job_starts:
  assumes "job_ready s0" "0 < n" "n \<le> 65535" "tx \<noteq> 0" "rx \<noteq> 0"
  shows "port_spi_txrx c tx rx (int n) s0 = Some (0, job_state n tx rx a s0 0 0 (s_hw s0) (s_mem s0))"
proof -
  have "(of_nat n :: u16) \<noteq> 0" using u16_ne_0 [of n] assms(2,3) by simp
  then have "txrx_nonblocking c tx rx (of_nat n) s0 = (0, job_state n tx rx a s0 0 0 (s_hw s0) (s_mem s0))"
    using assms
    by (simp add: txrx_nonblocking_def spi_transceive_buffer_job_def spi_transceive_buffer_def set_flag_def job_ready_def
        master8_def samd21_hal_spi_rc_from_status_def Let_def spi_irq_set_def job_state_def job_ints_def)
  then show ?thesis using assms by (simp add: port_spi_txrx_def job_ready_def)
qed

end
