(* ===== verification/Spi_Props.thy ===== *)
theory Spi_Props
  imports Spi_Run
begin

text \<open>
  What the SPI ports do on the hardware of \<open>Spi_Wire\<close>: the blocking transfer, the transfers driven by interrupts for every
  schedule of the interrupts, the transport of the Wi-Fi chip on a port, and three defects.
\<close>

subsection \<open>The transport of the Wi-Fi chip\<close>

text \<open>The device of \<open>winc1500_spi.c\<close> on a port: \<open>tx_var\<close> and \<open>rx_var\<close> are the addresses of the two local variables of
  \<open>nm_spi_rw\<close>, \<open>select\<close> what the slave does when it is selected. The device on the slave itself is the reference.\<close>

definition hal_spi_dev ::
    "(u8 \<Rightarrow> 'w \<Rightarrow> u8 \<times> 'w) \<Rightarrow> ('w \<Rightarrow> nat) \<Rightarrow> (bool \<Rightarrow> 'w \<Rightarrow> 'w) \<Rightarrow> u32 \<Rightarrow> u32 \<Rightarrow> ('w wire, 'a) hal_spi spi_dev" where
  "hal_spi_dev exch delay select tx_var rx_var = \<lparr>
     txrx = (\<lambda>b s. case port_spi_txrx (spi_wire exch delay) tx_var rx_var 1 (s\<lparr>s_mem := (s_mem s)(tx_var \<mapsto> b)\<rparr>) of
                Some (rc, s) \<Rightarrow> (rc, (case s_mem s rx_var of Some r \<Rightarrow> r | None \<Rightarrow> 0), s)
              | None \<Rightarrow> (M2M_ERR_BUS_FAIL, 0, s)),
     ssn = (\<lambda>b s. s\<lparr>s_hw := (s_hw s)\<lparr>w_slave := select b (w_slave (s_hw s))\<rparr>\<rparr>)\<rparr>"

definition slave_dev :: "(u8 \<Rightarrow> 'w \<Rightarrow> u8 \<times> 'w) \<Rightarrow> (bool \<Rightarrow> 'w \<Rightarrow> 'w) \<Rightarrow> 'w spi_dev" where
  "slave_dev exch select = \<lparr>txrx = (\<lambda>b w. (0, fst (exch b w), snd (exch b w))), ssn = select\<rparr>"

text \<open>The port stands for the slave: it can transfer, nothing is under way and the slave is in state \<open>w\<close>.\<close>

definition port_of :: "u32 \<Rightarrow> u32 \<Rightarrow> 'w \<Rightarrow> ('w wire, 'a) hal_spi \<Rightarrow> bool" where
  "port_of tx_var rx_var w s \<longleftrightarrow> spi_ready s \<and> (\<exists>t. s_hw s = spi_idle w t) \<and> s_mem s rx_var \<noteq> None \<and> tx_var \<noteq> 0 \<and> tx_var \<noteq> rx_var"

lemma txrx_sim:
  assumes "port_of tx_var rx_var w s"
  shows "\<exists>s'. txrx (hal_spi_dev exch delay select tx_var rx_var) b s = (0, fst (exch b w), s') \<and>
    port_of tx_var rx_var (snd (exch b w)) s'"
proof -
  let ?s = "s\<lparr>s_mem := (s_mem s)(tx_var \<mapsto> b)\<rparr>"
  obtain t where s: "spi_ready ?s" "s_hw ?s = spi_idle w t" "s_mem ?s rx_var \<noteq> None" "tx_var \<noteq> 0" "tx_var \<noteq> rx_var"
    using assms by (auto simp: port_of_def spi_ready_def master8_def has_flag_def)
  have "port_spi_txrx (spi_wire exch delay) tx_var rx_var (int (length [b])) ?s =
      Some (0, ?s\<lparr>s_hw := spi_idle (snd (exchange exch [b] w)) True, s_mem := mem_put (s_mem ?s) rx_var (fst (exchange exch [b] w))\<rparr>)"
    using s by (intro txrx_wire [where t = t]) (auto simp: writable_def no_clobber_def)
  with s show ?thesis
    by (auto simp: hal_spi_dev_def port_of_def spi_ready_def master8_def has_flag_def)
qed

lemma rw_loop_sim:
  assumes "port_of tx_var rx_var w s"
  shows "\<exists>s'. rw_loop (hal_spi_dev exch delay select tx_var rx_var) bs s = (M2M_SUCCESS, fst (exchange exch bs w), s') \<and>
      port_of tx_var rx_var (snd (exchange exch bs w)) s'"
  using assms
proof (induction bs arbitrary: w s)
  case (Cons b bs)
  from txrx_sim [OF Cons.prems, of exch delay select b] obtain s1
    where s1: "txrx (hal_spi_dev exch delay select tx_var rx_var) b s = (0, fst (exch b w), s1)"
      "port_of tx_var rx_var (snd (exch b w)) s1" by blast
  from Cons.IH [OF s1(2)] s1(1) show ?case by auto
qed simp

lemma rw_loop_slave: "rw_loop (slave_dev exch select) bs w = (M2M_SUCCESS, fst (exchange exch bs w), snd (exchange exch bs w))"
  by (induction bs arbitrary: w) (simp_all add: slave_dev_def case_prod_unfold)

lemma ssn_sim:
  assumes "port_of tx_var rx_var w s"
  shows "port_of tx_var rx_var (select b w) (ssn (hal_spi_dev exch delay select tx_var rx_var) b s)"
proof -
  obtain t where t: "s_hw s = spi_idle w t" using assms by (auto simp: port_of_def)
  have upd: "(spi_idle w t)\<lparr>w_slave := select b w\<rparr> = spi_idle (select b w) t" for t by (simp add: spi_idle_def)
  show ?thesis using assms t by (auto simp: upd port_of_def hal_spi_dev_def spi_ready_def master8_def has_flag_def)
qed

text \<open>C6: The byte exchange of the Wi-Fi chip's transport, run on a port of the hardware layer with any slave and any delays,
  returns what the same exchange on the slave itself returns and leaves the slave in the same state: the device of the
  transport, on which everything above it rests, is implemented by the port.\<close>

theorem winc_transport_on_spi:
  assumes "port_of tx_var rx_var w s"
  shows "\<exists>rxs w' s'. nm_spi_rw (slave_dev exch select) mosi sz w = (M2M_SUCCESS, rxs, w') \<and>
    nm_spi_rw (hal_spi_dev exch delay select tx_var rx_var) mosi sz s = (M2M_SUCCESS, rxs, s') \<and> port_of tx_var rx_var w' s'"
proof -
  let ?dev = "hal_spi_dev exch delay select tx_var rx_var :: ('a wire, 'b) hal_spi spi_dev"
  let ?bs = "case mosi of Some m \<Rightarrow> take sz m | None \<Rightarrow> replicate sz 0"
  have low: "port_of tx_var rx_var (select False w) (ssn ?dev False s)" by (rule ssn_sim [OF assms])
  obtain s1 where s1: "rw_loop ?dev ?bs (ssn ?dev False s) = (M2M_SUCCESS, fst (exchange exch ?bs (select False w)), s1)"
      "port_of tx_var rx_var (snd (exchange exch ?bs (select False w))) s1"
    using rw_loop_sim [OF low] by blast
  have ssn: "ssn (slave_dev exch select) = select" by (simp add: slave_dev_def)
  have "nm_spi_rw (slave_dev exch select) mosi sz w =
      (M2M_SUCCESS, fst (exchange exch ?bs (select False w)), select True (snd (exchange exch ?bs (select False w))))"
    by (simp add: nm_spi_rw_def rw_loop_slave ssn case_prod_unfold Let_def)
  moreover have "nm_spi_rw ?dev mosi sz s = (M2M_SUCCESS, fst (exchange exch ?bs (select False w)), ssn ?dev True s1)"
    by (simp add: nm_spi_rw_def s1(1))
  ultimately show ?thesis using ssn_sim [OF s1(2), of select True exch delay] by blast
qed


subsection \<open>Transfers driven by interrupts\<close>

text \<open>C7: A transfer that was started on a master port with a callback: whatever time passes between the runs of the handler, no run
  faults; as long as the transfer is under way the client is not called, and when it is over the client was called once,
  the receive buffer holds the answers of the slave to the bytes of the transmit buffer, in order, and the slave has seen
  exactly these bytes. If a byte takes at most \<open>D\<close> ticks it is over after so many runs. The count that the client is
  given is one less than the number of characters.\<close>

theorem spi_job_exchanges:
  fixes s0 :: "('w wire, 'a) hal_spi"
  assumes "job_ready s0" "s_hw s0 = spi_idle w t" "bs \<noteq> []" "length bs \<le> 65535" "mem_has (s_mem s0) tx bs"
    "writable (s_mem s0) rx (length bs)" "buf_ok tx (length bs)" "buf_ok rx (length bs)" "no_clobber tx rx (length bs)"
  shows "\<exists>s1. port_spi_txrx (spi_wire exch delay) tx rx (int (length bs)) s0 = Some (0, s1) \<and>
    (\<exists>s2. spi_run exch delay (app_client act) ks s1 = Some s2 \<and>
      (if has_flag SAMD21_SPI_FLAG_XFER s2 then h_app s2 = h_app s0
       else h_app s2 = act (h_cb s0) (h_cb_arg s0) (of_nat (length bs - 1)) (h_app s0) \<and>
         mem_has (s_mem s2) rx (fst (exchange exch bs w)) \<and> w_slave (s_hw s2) = snd (exchange exch bs w)) \<and>
      ((\<forall>w. delay w \<le> D) \<and> length bs * (D + 4) + D + 2 < length ks \<longrightarrow> \<not> has_flag SAMD21_SPI_FLAG_XFER s2))"
proof -
  let ?n = "length bs"
  define a where "a = act (h_cb s0) (h_cb_arg s0) (of_nat (?n - 1)) (h_app s0)"
  let ?S = "job_state ?n tx rx a s0"
  have start: "port_spi_txrx (spi_wire exch delay) tx rx (int ?n) s0 = Some (0, ?S 0 0 (s_hw s0) (s_mem s0))"
    using assms by (intro job_starts) (auto simp: buf_ok_def)
  have ok0: "wire_ok exch bs w 0 0 (s_hw s0)" using assms(2) by (simp add: wire_ok_def)
  have mem0: "mem_ok exch bs w tx rx 0 0 (s_mem s0)" using assms(5,6) by (auto simp: mem_ok_def mem_has_iff)
  have "\<exists>out' inn' h' m'. spi_run exch delay (app_client act) ks (?S 0 0 (s_hw s0) (s_mem s0)) = Some (?S out' inn' h' m') \<and>
      wire_ok exch bs w out' inn' h' \<and> inn' \<le> ?n \<and> mem_ok exch bs w tx rx out' inn' m' \<and>
      ((\<forall>w. delay w \<le> D) \<longrightarrow> inn' = ?n \<or> work D ?n inn' h' + length ks \<le> work D ?n 0 (s_hw s0))"
    by (rule run_job) (fact assms(1) refl assms(4,7,8,9) a_def ok0 mem0 | simp)+
  then obtain out inn h m where run: "spi_run exch delay (app_client act) ks (?S 0 0 (s_hw s0) (s_mem s0)) = Some (?S out inn h m)"
    and fin: "wire_ok exch bs w out inn h" "inn \<le> ?n" "mem_ok exch bs w tx rx out inn m"
    and live: "(\<forall>w. delay w \<le> D) \<longrightarrow> inn = ?n \<or> work D ?n inn h + length ks \<le> work D ?n 0 (s_hw s0)" by blast
  have flag: "has_flag SAMD21_SPI_FLAG_XFER (?S out inn h m) \<longleftrightarrow> inn < ?n"
  proof -
    have "(h_flags s0 OR SAMD21_SPI_FLAG_XFER) AND SAMD21_SPI_FLAG_XFER \<noteq> 0"
      using bit_and_iff [of "h_flags s0 OR SAMD21_SPI_FLAG_XFER" SAMD21_SPI_FLAG_XFER 2]
      by (auto simp: bit_or_iff SAMD21_SPI_FLAG_XFER_def)
    then show ?thesis using assms(1) by (auto simp: job_state_def has_flag_def job_ready_def)
  qed
  have "work D ?n 0 (s_hw s0) = ?n * (D + 4) + D + 2" using assms(2) by (simp add: work_def algebra_simps)
  then have ends: "(\<forall>w. delay w \<le> D) \<and> ?n * (D + 4) + D + 2 < length ks \<longrightarrow> inn = ?n" using live by auto
  have "inn = ?n \<Longrightarrow> mem_has m rx (fst (exchange exch bs w)) \<and> w_slave h = snd (exchange exch bs w)"
    using fin by (auto simp: mem_ok_def mem_has_iff wire_ok_def)
  moreover have "h_app (?S out inn h m) = (if inn < ?n then h_app s0 else a)" "s_mem (?S out inn h m) = m"
    by (simp_all add: job_state_def)
  ultimately have "(if has_flag SAMD21_SPI_FLAG_XFER (?S out inn h m) then h_app (?S out inn h m) = h_app s0
      else h_app (?S out inn h m) = a \<and> mem_has (s_mem (?S out inn h m)) rx (fst (exchange exch bs w)) \<and>
        w_slave (s_hw (?S out inn h m)) = snd (exchange exch bs w))"
    using flag fin(2) by auto
  with start run flag ends show ?thesis unfolding a_def by auto
qed

subsection \<open>A transfer that never ends\<close>

text \<open>Runs of the handler on any hardware, which changes in any way between them.\<close>

fun irq_runs ::
    "'h spi_chip \<Rightarrow> (u32 \<Rightarrow> nat \<Rightarrow> u16 \<Rightarrow> ('h, 'a) hal_spi \<Rightarrow> ('h, 'a) hal_spi option) \<Rightarrow> ('h \<Rightarrow> 'h) list
     \<Rightarrow> ('h, 'a) hal_spi \<Rightarrow> ('h, 'a) hal_spi option" where
  "irq_runs c call [] s = Some s"
| "irq_runs c call (t # ts) s = spi_interrupt_handler c call (s\<lparr>s_hw := t (s_hw s)\<rparr>) \<bind> irq_runs c call ts"

definition no_end :: "('h, 'a) hal_spi \<Rightarrow> bool" where
  "no_end s \<longleftrightarrow> has_flag SAMD21_SPI_FLAG_XFER s \<and> s_rx s = 0 \<and> s_mode s = SPI_MODE_MASTER \<and> s_dir s = SPI_DIRECTION_BOTH \<and>
     s_inten s AND 0xfa = 0"

lemma inten_bits:
  assumes "(i :: u8) AND 0xfa = 0"
  shows "(f AND i) AND SPI_FLAG_TXC = 0" "(f AND i) AND SPI_FLAG_ERROR = 0" "(i AND NOT x) AND 0xfa = 0"
proof -
  have "i AND SPI_FLAG_TXC = (i AND 0xfa) AND SPI_FLAG_TXC" "i AND SPI_FLAG_ERROR = (i AND 0xfa) AND SPI_FLAG_ERROR"
    by (simp_all add: spi_flag_defs and.assoc)
  with assms show "(f AND i) AND SPI_FLAG_TXC = 0" "(f AND i) AND SPI_FLAG_ERROR = 0" by (simp_all add: and.assoc)
  have "(i AND NOT x) AND 0xfa = (i AND 0xfa) AND NOT x" by (simp only: ac_simps)
  with assms show "(i AND NOT x) AND 0xfa = 0" by simp
qed

lemma no_end_disable: "no_end s \<Longrightarrow> no_end (spi_disable_ints f s)"
  by (simp add: no_end_def spi_disable_ints_def Let_def has_flag_def inten_bits(3))

lemma no_end_dre:
  assumes "no_end s" "job_dre c s = Some s'"
  shows "no_end s' \<and> h_app s' = h_app s"
proof -
  have wr: "no_end s1 \<and> h_app s1 = h_app s" if "spi_job_write c s = Some (d, s1)" for d s1
    using that assms(1)
    by (auto simp: spi_job_write_def no_end_def has_flag_def Let_def bind_eq_Some_conv split: if_splits)
  have dir: "s_dir (spi_disable_ints f x) = s_dir x" "h_app (spi_disable_ints f x) = h_app x" for f and x :: "('a, 'b) hal_spi"
    by (simp_all add: spi_disable_ints_def Let_def)
  show ?thesis
  proof (cases "spi_job_write c s")
    case None
    then show ?thesis using assms by (simp add: job_dre_def no_end_def)
  next
    case (Some p)
    obtain d s1 where p: "p = (d, s1)" by (cases p)
    then have "s' = (if d then spi_disable_ints SPI_FLAG_DRE s1 else s1)"
      using assms wr Some by (auto simp: job_dre_def no_end_def Let_def dir)
    then show ?thesis using wr Some p no_end_disable [of s1] dir by auto
  qed
qed

lemma no_end_rxc:
  assumes "no_end s" "\<And>h. sc_status c h AND SPI_STATUS_BUFOVF = 0" "job_rxc c call n s = Some s'"
  shows "no_end s' \<and> h_app s' = h_app s"
  using assms
  by (auto simp: job_rxc_def spi_job_read_def no_end_def has_flag_def bind_eq_Some_conv Let_def split: prod.splits if_splits)

lemma no_end_handler:
  assumes "no_end s" "\<And>h. sc_status c h AND SPI_STATUS_BUFOVF = 0" "spi_interrupt_handler c call s = Some s'"
  shows "no_end s' \<and> h_app s' = h_app s"
proof -
  obtain fl h where fl: "sc_flags c (s_hw s) = (fl, h)" by (cases "sc_flags c (s_hw s)")
  let ?s = "s\<lparr>s_hw := h\<rparr>"
  have s: "no_end ?s" using assms(1) by (simp add: no_end_def has_flag_def)
  have i: "s_inten s AND 0xfa = 0" using assms(1) by (simp add: no_end_def)
  obtain s1 s2 where "(if (fl AND s_inten s) AND SPI_FLAG_DRE \<noteq> 0 then job_dre c ?s else Some ?s) = Some s1"
    "(if (fl AND s_inten s) AND SPI_FLAG_RXC \<noteq> 0 then job_rxc c call (spi_xfer_count s) s1 else Some s1) = Some s2"
    "(if (fl AND s_inten s) AND SPI_FLAG_SSL \<noteq> 0 \<and> s_mode s2 = SPI_MODE_SLAVE
      then job_other c call (spi_xfer_count s) SPI_FLAG_SSL SPI_CALLBACK_SLAVE_SELECT_LOW s2 else Some s2) = Some s'"
    using assms(3) fl inten_bits(1,2) [OF i, of fl]
    by (auto simp: spi_interrupt_handler_def Let_def bind_eq_Some_conv)
  moreover from this have "no_end s1 \<and> h_app s1 = h_app s"
    using no_end_dre [OF s] s by (auto split: if_splits)
  moreover from this calculation have "no_end s2 \<and> h_app s2 = h_app s"
    using no_end_rxc [of s1 c call] assms(2) by (auto split: if_splits)
  ultimately show ?thesis by (auto simp: no_end_def split: if_splits)
qed

text \<open>C39: The interface allows a transfer of a master without a receive buffer. With a callback such a transfer never
  ends on any hardware that reports no overflow: the client is never called and every further transfer is refused. (The
  driver below has \<open>Assert(rx_data)\<close>, but \<open>Assert\<close> is an empty macro in this build.)\<close>

theorem spi_null_rx_never_completes:
  assumes "job_ready s0" "0 < n" "n \<le> 65535" "tx \<noteq> 0" "\<And>h. sc_status c h AND SPI_STATUS_BUFOVF = 0"
    "port_spi_txrx c tx 0 (int n) s0 = Some (rc, s1)" "irq_runs c call ts s1 = Some s2"
  shows "rc = 0 \<and> h_app s2 = h_app s0 \<and> port_spi_txrx c tx' rx' 1 s2 = Some (EALREADY, s2)"
proof -
  have ne: "(of_nat n :: u16) \<noteq> 0" using u16_ne_0 [of n] assms(2,3) by simp
  have "rc = 0 \<and> s1 = spi_transceive_buffer c tx 0 (of_nat n) (set_flag SAMD21_SPI_FLAG_XFER s0)"
    using assms(1-4,6) ne
    by (auto simp: port_spi_txrx_def job_ready_def txrx_nonblocking_def spi_transceive_buffer_job_def set_flag_def
        samd21_hal_spi_rc_from_status_def)
  moreover have "(h_flags s0 OR SAMD21_SPI_FLAG_XFER) AND SAMD21_SPI_FLAG_XFER \<noteq> 0"
    using bit_and_iff [of "h_flags s0 OR SAMD21_SPI_FLAG_XFER" SAMD21_SPI_FLAG_XFER 2]
    by (auto simp: bit_or_iff SAMD21_SPI_FLAG_XFER_def)
  ultimately have s1: "rc = 0" "no_end s1" "h_app s1 = h_app s0"
    using assms(1)
    by (auto simp: spi_transceive_buffer_def set_flag_def Let_def no_end_def has_flag_def job_ready_def master8_def
        spi_irq_set_def spi_flag_defs)
  have "no_end s \<Longrightarrow> irq_runs c call ts s = Some s2 \<Longrightarrow> no_end s2 \<and> h_app s2 = h_app s" for s
  proof (induction ts arbitrary: s)
    case (Cons t ts)
    have "no_end (s\<lparr>s_hw := t (s_hw s)\<rparr>)" using Cons.prems(1) by (simp add: no_end_def has_flag_def)
    with Cons no_end_handler [OF this assms(5), of call] show ?case by (fastforce simp: bind_eq_Some_conv)
  qed simp
  from this [OF s1(2) assms(7)] s1 show ?thesis by (simp add: port_spi_txrx_def no_end_def)
qed


subsection \<open>Configuring again\<close>

lemma set_config_ors:
  assumes "spi_set_config p n c s = Some (STATUS_OK, s')"
  shows "s_ctrla s' = s_ctrla s OR spi_ctrla p c \<and> s_ctrlb s' = s_ctrlb s OR spi_ctrlb c \<and> s_size s' = cf_size c"
  using assms by (clarsimp simp: spi_set_config_def Let_def bind_eq_Some_conv simp del: bind_assoc split: if_splits)

lemma init_ors:
  assumes "spi_init p n c s = Some (STATUS_OK, s')"
  shows "s_ctrla s' = s_ctrla s OR SPI_CTRLA_MODE (if cf_mode c = SPI_MODE_MASTER then 3 else 2) OR spi_ctrla p c \<and>
    s_ctrlb s' = s_ctrlb s OR spi_ctrlb c \<and> s_size s' = cf_size c"
proof -
  obtain s1 where s1: "spi_set_config p n c s1 = Some (STATUS_OK, s')"
    "s_ctrla s1 = s_ctrla s OR SPI_CTRLA_MODE (if cf_mode c = SPI_MODE_MASTER then 3 else 2)" "s_ctrlb s1 = s_ctrlb s"
    using assms by (cases "sercom_set_gclk_generator (\<lambda>g w. w @ [SpiSlowClock g]) (cf_generator c) False
        (s_gclk s, s_clks s @ [SpiApbMask (n + PM_SERCOM0_Pos), SpiChanSetConfig (n + SERCOM0_CORE) (cf_generator c),
          SpiChanEnable (n + SERCOM0_CORE)])")
      (simp add: spi_init_def Let_def split: if_split_asm)
  from set_config_ors [OF s1(1)] s1(2,3) show ?thesis by (simp add: or.assoc)
qed

lemma config_ors:
  fixes s :: "('h, 'a) hal_spi"
  assumes "port_spi_config p st s = Some (0, s')"
  obtains c where "spi_config_of st s = Some (Some c)"
    "s_ctrla s' = s_ctrla s OR SPI_CTRLA_MODE (if cf_mode c = SPI_MODE_MASTER then 3 else 2) OR spi_ctrla p c"
    "s_ctrlb s' = s_ctrlb s OR spi_ctrlb c" "s_size s' = cf_size c"
proof -
  have "samd21_spi_config p st s = Some (0, s')"
    using assms by (simp add: port_spi_config_def EACCES_def split: if_split_asm)
  then obtain c where c: "spi_config_of st s = Some c"
    and r: "(case c of None \<Rightarrow> Some (HAL_EINVAL, s)
      | Some c \<Rightarrow> h_sercom s \<bind> (\<lambda>n. spi_init p n c s \<bind> (\<lambda>(rc, s). Some (if rc \<noteq> STATUS_OK then EIO else 0, s)))) = Some (0, s')"
    unfolding samd21_spi_config_def bind_eq_Some_conv by blast
  then obtain c1 n rc where c1: "c = Some c1" and init: "spi_init p n c1 s = Some (rc, s')" "rc = STATUS_OK"
    by (cases c) (auto simp: HAL_EINVAL_def EIO_def bind_eq_Some_conv split: if_split_asm)
  from init_ors [OF init(1) [unfolded init(2)]] that [of c1] c show ?thesis unfolding c1 by blast
qed

lemma config_of_fields:
  assumes "spi_config_of st s = Some (Some c)"
  shows "spi_size_of (hs_size st) = Some (cf_size c) \<and> spi_mode_of (hs_mode st) = Some (cf_transfer c)"
proof -
  obtain pc size order mode where "h_cfg s = Some pc" "spi_size_of (hs_size st) = Some size" "spi_order_of (hs_order st) = Some order"
      "spi_mode_of (hs_mode st) = Some mode"
    using assms unfolding spi_config_of_def by (auto simp del: bind_assoc simp: bind_eq_Some_conv Let_def)
  with assms show ?thesis by (cases "has_flag SAMD21_SPI_FLAG_MASTER s") (auto simp: spi_config_of_def Let_def)
qed

lemma enable_disable_ors:
  assumes "port_spi_enable s1 = Some (0, s2)" "port_spi_disable s2 = Some (0, s3)"
  shows "s_ctrla s3 = (s_ctrla s1 OR SPI_CTRLA_ENABLE) AND NOT SPI_CTRLA_ENABLE \<and> s_ctrlb s3 = s_ctrlb s1"
  using assms
  by (clarsimp simp: port_spi_enable_def port_spi_disable_def with_hw_def set_flag_def clr_flag_def spi_enable_def spi_disable_def
      split: if_split_asm)

lemma mode3_bits: "bit (SPI_CTRLA_CPHA OR SPI_CTRLA_CPOL) j \<longleftrightarrow> j = 28 \<or> j = 29"
  by (auto simp: SPI_CTRLA_CPHA_def SPI_CTRLA_CPOL_def bit_or_iff bit_pin simp del: push_bit_of_1)

lemma enable_bit: "bit SPI_CTRLA_ENABLE j \<longleftrightarrow> j = 1"
  by (simp only: SPI_CTRLA_ENABLE_def bit_pin) auto

text \<open>C40: The configuration is written with an or: a port that was configured for mode 3 and nine bits, enabled, disabled and
  then configured with success for anything else still has mode 3 and nine bits in its registers, while the driver
  goes by the new character size.\<close>

theorem spi_reconfiguration_keeps_bits:
  assumes "hs_mode st1 = HAL_SPI_MODE3" "hs_size st1 = HAL_SPI_WORD_SIZE_9BIT" "port_spi_config p st1 s = Some (0, s1)"
    "port_spi_enable s1 = Some (0, s2)" "port_spi_disable s2 = Some (0, s3)" "port_spi_config p st2 s3 = Some (0, s4)"
  shows "s_ctrla s4 AND (SPI_CTRLA_CPHA OR SPI_CTRLA_CPOL) = SPI_CTRLA_CPHA OR SPI_CTRLA_CPOL \<and> s_ctrlb s4 AND 1 = 1 \<and>
    spi_size_of (hs_size st2) = Some (s_size s4)"
proof -
  obtain c1 where c1: "spi_config_of st1 s = Some (Some c1)"
      "s_ctrla s1 = s_ctrla s OR SPI_CTRLA_MODE (if cf_mode c1 = SPI_MODE_MASTER then 3 else 2) OR spi_ctrla p c1"
      "s_ctrlb s1 = s_ctrlb s OR spi_ctrlb c1"
    using config_ors [OF assms(3)] by metis
  obtain c2 where c2: "spi_config_of st2 s3 = Some (Some c2)"
      "s_ctrla s4 = s_ctrla s3 OR SPI_CTRLA_MODE (if cf_mode c2 = SPI_MODE_MASTER then 3 else 2) OR spi_ctrla p c2"
      "s_ctrlb s4 = s_ctrlb s3 OR spi_ctrlb c2" "s_size s4 = cf_size c2"
    using config_ors [OF assms(6)] by metis
  note s3 = enable_disable_ors [OF assms(4,5)]
  have mode: "cf_transfer c1 = SPI_TRANSFER_MODE_3" "cf_size c1 = SPI_CHARACTER_SIZE_9BIT"
    using config_of_fields [OF c1(1)] assms(1,2) by (simp_all add: spi_mode_of_def spi_size_of_def)
  have a1: "j = 28 \<or> j = 29 \<Longrightarrow> bit (spi_ctrla p c1) j" for j
    using mode3_bits [of j] by (simp add: spi_ctrla_def mode mode_bits_def bit_or_iff)
  have "j = 28 \<or> j = 29 \<Longrightarrow> bit (s_ctrla s4) j" for j
    using a1 [of j] by (auto simp: c2(2) s3 c1(2) bit_or_iff bit_and_iff bit_not_iff enable_bit)
  then have "s_ctrla s4 AND (SPI_CTRLA_CPHA OR SPI_CTRLA_CPOL) = SPI_CTRLA_CPHA OR SPI_CTRLA_CPOL"
    by (intro bit_word_eqI) (auto simp: bit_and_iff mode3_bits)
  moreover have "bit (s_ctrlb s4) 0"
    by (simp add: c2(3) s3 c1(3) bit_or_iff spi_ctrlb_def mode(2) size_bits_def)
  then have "s_ctrlb s4 AND 1 = 1" by (simp add: and_one_eq bit_0 odd_iff_mod_2_eq_one)
  moreover have "spi_size_of (hs_size st2) = Some (s_size s4)"
    using config_of_fields [OF c2(1)] c2(4) by simp
  ultimately show ?thesis by simp
qed

subsection \<open>Other defects\<close>

text \<open>A transfer that could not be started leaves the flag set: the port refuses every transfer until it is aborted.\<close>

lemma txrx_failure_blocks_port:
  assumes "port_spi_txrx c tx rx n s = Some (rc, s')" "rc = EIO" "h_cb s \<noteq> 0"
  shows "port_spi_txrx c tx' rx' 1 s' = Some (EALREADY, s')"
proof -
  have "(f OR SAMD21_SPI_FLAG_XFER) AND SAMD21_SPI_FLAG_XFER \<noteq> 0" for f
    using bit_and_iff [of "f OR SAMD21_SPI_FLAG_XFER" SAMD21_SPI_FLAG_XFER 2]
    by (auto simp: bit_or_iff SAMD21_SPI_FLAG_XFER_def)
  then have "has_flag SAMD21_SPI_FLAG_XFER s'"
    using assms
    by (auto simp: port_spi_txrx_def txrx_nonblocking_def spi_transceive_buffer_job_def set_flag_def has_flag_def HAL_EINVAL_def EIO_def
        EALREADY_def samd21_hal_spi_rc_from_status_def split: if_splits)
  then show ?thesis by (simp add: port_spi_txrx_def)
qed

text \<open>A slave that may write a second time before it reads takes the byte behind a buffer of one, and the count wraps.\<close>

lemma slave_fill_runs_over:
  assumes "sc_flags c (s_hw s) = (SPI_FLAG_DRE OR SPI_FLAG_RXC, s_hw s)"
    "sc_flags c (sc_write c (ucast b AND SPI_DATA_MASK) (s_hw s)) = (SPI_FLAG_RXC, sc_write c (ucast b AND SPI_DATA_MASK) (s_hw s))"
    "s_size s = SPI_CHARACTER_SIZE_8BIT" "s_mem s (tx + ucast (tb_tx_pos u)) = Some b" "tb_length u = 0"
  shows "\<exists>u' s'. slave_fill c tx (Suc k) (u, s) = Some (u', s') \<and> tb_length u' = 0xffff \<and>
    s_hw s' = sc_write c (ucast b AND SPI_DATA_MASK) (s_hw s)"
proof -
  have "spi_flag c f s = ((SPI_FLAG_DRE OR SPI_FLAG_RXC) AND f \<noteq> 0, s)" for f using assms(1) by (simp add: spi_flag_def)
  then show ?thesis
    using assms
    by (auto simp: spi_is_ready_to_write_def spi_is_ready_to_read_def load_char_def spi_write_def spi_flag_def spi_flag_defs)
qed

subsection \<open>Witnesses\<close>

definition sample_spi :: "'h \<Rightarrow> (u32 \<Rightarrow> u8 option) \<Rightarrow> u32 \<Rightarrow> ('h, u16 list) hal_spi" where
  "sample_spi h m cb = \<lparr>s_hw = h, s_mem = m,
     s_pins = replicate 2 \<lparr>DIR = 0, OUT = 0, CTRL = 0,
       PINCFG = replicate 32 \<lparr>pmuxen = False, inen = False, pullen = False, drvstr = False, pmux = 0\<rparr>\<rparr>,
     s_gclk = \<lparr>generator_is_set = False, generator_source = 0\<rparr>, s_clks = [], s_ctrla = 0, s_ctrlb = 0, s_baud = 0, s_addr = 0,
     s_inten = 0, s_irq = True, s_locked = False, s_mode = SPI_MODE_MASTER, s_size = SPI_CHARACTER_SIZE_8BIT, s_receiver = True,
     s_hw_ss = False, s_dir = SPI_DIRECTION_IDLE, s_callback = replicate SPI_CALLBACK_N hal_cb_ptr, s_rx = 0, s_tx = 0,
     s_dummy = SPI_DUMMY_NONE, s_total = 0, s_left_tx = 0, s_left_rx = 0, s_registered = 0x7f, s_enabled = 0x7f, s_status = STATUS_OK,
     h_sercom = Some 0, h_cfg = Some \<lparr>dipo = 0, dopo = 1, pad_pinmux = replicate 4 0xffffffff\<rparr>, h_flags = SAMD21_SPI_FLAG_MASTER,
     h_cb = cb, h_cb_arg = 0, h_app = []\<rparr>"

text \<open>A slave that adds one to every byte.\<close>

definition adder :: "u8 \<Rightarrow> nat \<Rightarrow> u8 \<times> nat" where
  "adder b w = (b + 1, w + 1)"

lemma sample_ready: "spi_ready (sample_spi h m 0)" "job_ready (sample_spi h m 7)"
  by (simp_all add: sample_spi_def spi_ready_def job_ready_def master8_def has_flag_def SAMD21_SPI_FLAG_MASTER_def
      SAMD21_SPI_FLAG_XFER_def SPI_CALLBACK_N_def SPI_CALLBACK_BUFFER_TRANSCEIVED_def)

theorem winc_transport_on_spi_witness:
  "\<exists>s'. nm_spi_rw (hal_spi_dev adder (\<lambda>_. 3) (\<lambda>_ w. w) 100 200) (Some [1, 2]) 2 (sample_spi (spi_idle 0 False) [200 \<mapsto> 0] 0) =
    (M2M_SUCCESS, [2, 3], s')"
proof -
  have "port_of 100 200 0 (sample_spi (spi_idle 0 False) [200 \<mapsto> 0] 0)"
    using sample_ready(1) by (auto simp: port_of_def) (auto simp: sample_spi_def)
  from winc_transport_on_spi [OF this, of adder "\<lambda>_ w. w" "Some [1, 2]" 2 "\<lambda>_. 3"] show ?thesis
    by (auto simp: nm_spi_rw_def slave_dev_def adder_def)
qed

definition sample_mem :: "u32 \<Rightarrow> u8 option" where
  "sample_mem = [1000 \<mapsto> 1, 1001 \<mapsto> 2, 1002 \<mapsto> 3]"

theorem spi_job_exchanges_witness:
  "\<exists>s1 s2. port_spi_txrx (spi_wire adder (\<lambda>_. 1)) 1000 1000 3 (sample_spi (spi_idle 0 False) sample_mem 7) = Some (0, s1) \<and>
    spi_run adder (\<lambda>_. 1) (app_client (\<lambda>f x n a. a @ [n])) (replicate 19 1) s1 = Some s2 \<and>
    h_app s2 = [2] \<and> mem_has (s_mem s2) 1000 [2, 3, 4]"
proof -
  let ?s = "sample_spi (spi_idle 0 False) sample_mem 7" and ?bs = "[1, 2, 3 :: u8]"
  have s: "s_hw ?s = spi_idle 0 False" "mem_has (s_mem ?s) 1000 ?bs" "writable (s_mem ?s) 1000 (length ?bs)" "h_app ?s = []"
    by (simp_all add: sample_spi_def sample_mem_def writable_def less_Suc_eq numeral_3_eq_3)
  have b: "buf_ok 1000 (length ?bs)" "no_clobber 1000 1000 (length ?bs)"
    by (simp_all add: buf_ok_def no_clobber_same)
  have n: "?bs \<noteq> []" "length ?bs \<le> 65535" "(of_nat (length ?bs - 1) :: u16) = 2" "fst (exchange adder ?bs 0) = [2, 3, 4]"
    "int (length ?bs) = 3"
    by (simp_all add: adder_def)
  note ex = spi_job_exchanges [OF sample_ready(2) s(1) n(1,2) s(2,3) b(1) b(1) b(2), of adder "\<lambda>_. 1" "\<lambda>f x n a. a @ [n]"
      "replicate 19 1" 1, unfolded n s(4)]
  have "(\<forall>w :: nat. (1 :: nat) \<le> 1) \<and> length ?bs * (1 + 4) + 1 + 2 < length (replicate 19 (1 :: nat))" by simp
  with ex show ?thesis by (auto simp del: mem_has.simps replicate.simps)
qed

text \<open>The same hardware with the overflow of the receiver masked.\<close>

definition deaf_wire :: "nat wire spi_chip" where
  "deaf_wire = (spi_wire adder (\<lambda>_. 1))\<lparr>sc_status := \<lambda>_. 0\<rparr>"

theorem spi_null_rx_never_completes_witness:
  "\<exists>s1 s2. port_spi_txrx deaf_wire 1000 0 2 (sample_spi (spi_idle 0 False) sample_mem 7) = Some (0, s1) \<and>
    irq_runs deaf_wire (\<lambda>_ _ _ _. None) [id, id, id] s1 = Some s2 \<and> h_app s2 = [] \<and>
    port_spi_txrx deaf_wire 1000 1000 1 s2 = Some (EALREADY, s2)"
proof -
  let ?s = "sample_spi (spi_idle 0 False) sample_mem 7 :: (nat wire, u16 list) hal_spi"
  have "case port_spi_txrx deaf_wire 1000 0 2 ?s of
      Some (rc, s1) \<Rightarrow> \<not> Option.is_none (irq_runs deaf_wire (\<lambda>_ _ _ _. None) [id, id, id] s1) | None \<Rightarrow> False"
    by code_simp
  then obtain rc s1 s2 where r: "port_spi_txrx deaf_wire 1000 0 (int 2) ?s = Some (rc, s1)"
    "irq_runs deaf_wire (\<lambda>_ _ _ _. None) [id, id, id] s1 = Some s2"
    by (auto simp: Option.is_none_def split: option.splits)
  have "sc_status deaf_wire h AND SPI_STATUS_BUFOVF = 0" for h by (simp add: deaf_wire_def)
  from spi_null_rx_never_completes [OF sample_ready(2) _ _ _ this r, of 1000 1000] have
    "rc = 0 \<and> h_app s2 = h_app ?s \<and> port_spi_txrx deaf_wire 1000 1000 1 s2 = Some (EALREADY, s2)" by simp
  moreover have "h_app ?s = []" by (simp add: sample_spi_def)
  ultimately show ?thesis using r by (intro exI [of _ s1] exI [of _ s2]) simp
qed

definition sample_spi_par :: spi_par where
  "sample_spi_par = \<lparr>sp_clock_hz = \<lambda>_. 48000000, sp_debugger = False, sp_default_pad = \<lambda>_ _. 0\<rparr>"

definition sample_settings :: "hal_data_mode \<Rightarrow> hal_word_size \<Rightarrow> hal_spi_settings" where
  "sample_settings m w = \<lparr>hs_mode = m, hs_order = HAL_SPI_MSB_FIRST, hs_size = w, hs_baudrate = 1000000\<rparr>"

lemma unused_pads: "spi_pads p n c k (replicate 4 0xffffffff) gs = Some gs"
proof -
  have "replicate 4 (0xffffffff :: u32) = [0xffffffff, 0xffffffff, 0xffffffff, 0xffffffff]"
    by (simp only: eval_nat_numeral replicate.simps BitM.simps)
  then show ?thesis by (simp add: PINMUX_DEFAULT_def PINMUX_UNUSED_def)
qed

theorem spi_reconfiguration_keeps_bits_witness:
  "\<exists>s1 s2 s3 s4 :: (nat wire, u16 list) hal_spi.
    port_spi_config sample_spi_par (sample_settings HAL_SPI_MODE3 HAL_SPI_WORD_SIZE_9BIT) (sample_spi (spi_idle 0 False) sample_mem 0) = Some (0, s1) \<and>
    port_spi_enable s1 = Some (0, s2) \<and> port_spi_disable s2 = Some (0, s3) \<and>
    port_spi_config sample_spi_par (sample_settings HAL_SPI_MODE0 HAL_SPI_WORD_SIZE_8BIT) s3 = Some (0, s4) \<and>
    s_ctrlb s4 AND 1 = 1 \<and> s_size s4 = SPI_CHARACTER_SIZE_8BIT"
proof -
  let ?s = "sample_spi (spi_idle 0 False) sample_mem 0 :: (nat wire, u16 list) hal_spi"
  let ?st1 = "sample_settings HAL_SPI_MODE3 HAL_SPI_WORD_SIZE_9BIT" and ?st2 = "sample_settings HAL_SPI_MODE0 HAL_SPI_WORD_SIZE_8BIT"
  have baud: "sercom_get_sync_baud_val 1000000 48000000 0 = Some (STATUS_OK, 23)"
    by (simp add: sercom_get_sync_baud_val_def sync_baud_loop_result)
  note defs = port_spi_config_def samd21_spi_config_def spi_config_of_def spi_init_def spi_set_config_def sample_settings_def
    sample_spi_par_def spi_get_config_defaults_def spi_size_of_def spi_order_of_def spi_mode_of_def has_flag_def set_flag_def clr_flag_def
    port_spi_enable_def port_spi_disable_def with_hw_def spi_enable_def spi_disable_def baud sercom_set_gclk_generator_def
    SAMD21_SPI_FLAG_ENABLED_def SAMD21_SPI_FLAG_MASTER_def SPI_CTRLA_ENABLE_def SPI_CTRLA_SWRST_def
    SPI_CTRLA_MODE_def spi_ctrla_def order_bits_def mode_bits_def SPI_CTRLA_CPHA_def SPI_CTRLA_CPOL_def SPI_CTRLA_DOPO_Pos_def
  have "\<exists>s1. port_spi_config sample_spi_par ?st1 ?s = Some (0, s1) \<and> (\<exists>s2. port_spi_enable s1 = Some (0, s2) \<and>
      (\<exists>s3. port_spi_disable s2 = Some (0, s3) \<and> (\<exists>s4. port_spi_config sample_spi_par ?st2 s3 = Some (0, s4))))"
    by (simp add: defs sample_spi_def unused_pads)
  then obtain s1 s2 s3 s4 where r: "port_spi_config sample_spi_par ?st1 ?s = Some (0, s1)" "port_spi_enable s1 = Some (0, s2)"
      "port_spi_disable s2 = Some (0, s3)" "port_spi_config sample_spi_par ?st2 s3 = Some (0, s4)" by blast
  with spi_reconfiguration_keeps_bits [OF _ _ r] show ?thesis
    by (auto simp: sample_settings_def spi_size_of_def)
qed

end
