(* ===== verification/I2c.thy ===== *)
theory I2c
  imports Spi_Config
begin

text \<open>
  The I2C master of the serial modules, \<open>sam0/drivers/sercom/i2c\<close>, as compiled for the SAMD21, which is without
  callbacks: \<open>i2c_sam0/i2c_master.c\<close> and \<open>i2c_master.h\<close>. The flags, the status, the address, the data and the command
  register belong to the bus: they are the parameter \<open>i2c_chip\<close>, functions on an arbitrary state. The other registers
  are fields. \<open>None\<close> is an access to an address that is not memory, a division by zero or a signed sum that overflows. The clocks, the
  default pads and the record of the calls to the clock driver are those of \<open>Spi_Config\<close>. The waits for
  synchronisation have no effect and are left out.
\<close>

definition I2CM_CTRLA_SWRST :: u32 where "I2CM_CTRLA_SWRST = push_bit 0 1"
definition I2CM_CTRLA_ENABLE :: u32 where "I2CM_CTRLA_ENABLE = push_bit 1 1"
definition I2CM_CTRLA_MODE :: "u32 \<Rightarrow> u32" where "I2CM_CTRLA_MODE v = push_bit 2 7 AND push_bit 2 v"
definition I2CM_CTRLA_RUNSTDBY :: u32 where "I2CM_CTRLA_RUNSTDBY = push_bit 7 1"
definition I2CM_CTRLA_SDAHOLD :: "u32 \<Rightarrow> u32" where "I2CM_CTRLA_SDAHOLD v = push_bit 20 3 AND push_bit 20 v"
definition I2CM_CTRLA_MEXTTOEN :: u32 where "I2CM_CTRLA_MEXTTOEN = push_bit 22 1"
definition I2CM_CTRLA_SEXTTOEN :: u32 where "I2CM_CTRLA_SEXTTOEN = push_bit 23 1"
definition I2CM_CTRLA_SPEED :: "u32 \<Rightarrow> u32" where "I2CM_CTRLA_SPEED v = push_bit 24 3 AND push_bit 24 v"
definition I2CM_CTRLA_SCLSM :: u32 where "I2CM_CTRLA_SCLSM = push_bit 27 1"
definition I2CM_CTRLA_INACTOUT :: "u32 \<Rightarrow> u32" where "I2CM_CTRLA_INACTOUT v = push_bit 28 3 AND push_bit 28 v"
definition I2CM_CTRLA_LOWTOUTEN :: u32 where "I2CM_CTRLA_LOWTOUTEN = push_bit 30 1"
definition I2CM_CTRLB_SMEN :: u32 where "I2CM_CTRLB_SMEN = push_bit 8 1"
definition I2CM_CTRLB_CMD :: "u32 \<Rightarrow> u32" where "I2CM_CTRLB_CMD v = push_bit 16 3 AND push_bit 16 v"
definition I2CM_CTRLB_ACKACT :: u32 where "I2CM_CTRLB_ACKACT = push_bit 18 1"
definition I2CM_BAUD_BAUD :: "u32 \<Rightarrow> u32" where "I2CM_BAUD_BAUD v = 0xff AND v"
definition I2CM_BAUD_HSBAUD :: "u32 \<Rightarrow> u32" where "I2CM_BAUD_HSBAUD v = push_bit 16 0xff AND push_bit 16 v"
definition I2CM_INTFLAG_MB :: u8 where "I2CM_INTFLAG_MB = push_bit 0 1"
definition I2CM_INTFLAG_SB :: u8 where "I2CM_INTFLAG_SB = push_bit 1 1"
definition I2CM_STATUS_ARBLOST :: u16 where "I2CM_STATUS_ARBLOST = push_bit 1 1"
definition I2CM_STATUS_RXNACK :: u16 where "I2CM_STATUS_RXNACK = push_bit 2 1"
definition I2CM_STATUS_BUSSTATE :: "u16 \<Rightarrow> u16" where "I2CM_STATUS_BUSSTATE v = push_bit 4 3 AND push_bit 4 v"
definition I2CM_ADDR_HS_Pos :: nat where "I2CM_ADDR_HS_Pos = 14"
definition I2CM_ADDR_TENBITEN :: u32 where "I2CM_ADDR_TENBITEN = push_bit 15 1"
definition I2C_TRANSFER_WRITE :: u32 where "I2C_TRANSFER_WRITE = 0"
definition I2C_TRANSFER_READ :: u32 where "I2C_TRANSFER_READ = 1"

subsection \<open>State\<close>

text \<open>The hardware: reading and clearing the flags, reading and writing the status, writing the address, which starts a
  transfer, reading and writing the data, and the second control register.\<close>

record 'h i2c_chip =
  ic_flags :: "'h \<Rightarrow> u8 \<times> 'h"
  ic_clear :: "u8 \<Rightarrow> 'h \<Rightarrow> 'h"
  ic_status :: "'h \<Rightarrow> u16 \<times> 'h"
  ic_set_status :: "u16 \<Rightarrow> 'h \<Rightarrow> 'h"
  ic_addr :: "u32 \<Rightarrow> 'h \<Rightarrow> 'h"
  ic_data :: "'h \<Rightarrow> u8 \<times> 'h"
  ic_send :: "u8 \<Rightarrow> 'h \<Rightarrow> 'h"
  ic_ctrlb :: "'h \<Rightarrow> u32"
  ic_set_ctrlb :: "u32 \<Rightarrow> 'h \<Rightarrow> 'h"

record 'h i2c_module =
  i_hw :: 'h
  i_mem :: "u32 \<Rightarrow> u8 option"
  i_pins :: "port_group list"
  i_gclk :: sercom_conf
  i_clks :: "spi_clk list"
  i_ctrla :: u32
  i_baud :: u32
  i_locked :: bool
  unknown_bus_state_timeout :: u16
  buffer_timeout :: u16
  send_stop :: bool
  send_nack :: bool

record i2c_packet =
  pk_address :: u16
  pk_length :: u16
  pk_data :: u32
  ten_bit_address :: bool
  high_speed :: bool
  hs_master_code :: u8

definition i2c_flag :: "'h i2c_chip \<Rightarrow> u8 \<Rightarrow> ('h, 'z) i2c_module_scheme \<Rightarrow> bool \<times> ('h, 'z) i2c_module_scheme" where
  "i2c_flag c f s = (case ic_flags c (i_hw s) of (fl, h) \<Rightarrow> (fl AND f \<noteq> 0, s\<lparr>i_hw := h\<rparr>))"

definition i2c_stat :: "'h i2c_chip \<Rightarrow> u16 \<Rightarrow> ('h, 'z) i2c_module_scheme \<Rightarrow> bool \<times> ('h, 'z) i2c_module_scheme" where
  "i2c_stat c f s = (case ic_status c (i_hw s) of (st, h) \<Rightarrow> (st AND f \<noteq> 0, s\<lparr>i_hw := h\<rparr>))"

definition i2c_start :: "'h i2c_chip \<Rightarrow> u32 \<Rightarrow> ('h, 'z) i2c_module_scheme \<Rightarrow> ('h, 'z) i2c_module_scheme" where
  "i2c_start c a s = s\<lparr>i_hw := ic_addr c a (i_hw s)\<rparr>"

definition ctrlb_set :: "'h i2c_chip \<Rightarrow> u32 \<Rightarrow> ('h, 'z) i2c_module_scheme \<Rightarrow> ('h, 'z) i2c_module_scheme" where
  "ctrlb_set c v s = s\<lparr>i_hw := ic_set_ctrlb c (ic_ctrlb c (i_hw s) OR v) (i_hw s)\<rparr>"

definition ctrlb_clr :: "'h i2c_chip \<Rightarrow> u32 \<Rightarrow> ('h, 'z) i2c_module_scheme \<Rightarrow> ('h, 'z) i2c_module_scheme" where
  "ctrlb_clr c v s = s\<lparr>i_hw := ic_set_ctrlb c (ic_ctrlb c (i_hw s) AND NOT v) (i_hw s)\<rparr>"

definition i2c_store :: "u32 \<Rightarrow> u8 \<Rightarrow> ('h, 'z) i2c_module_scheme \<Rightarrow> ('h, 'z) i2c_module_scheme option" where
  "i2c_store a b s = (if i_mem s a = None then None else Some (s\<lparr>i_mem := (i_mem s)(a \<mapsto> b)\<rparr>))"

subsection \<open>Waiting\<close>

text \<open>The loops with the number of passes that are left; the counter is increased before it is compared.\<close>

fun i2c_bus_loop :: "'h i2c_chip \<Rightarrow> nat \<Rightarrow> ('h, 'z) i2c_module_scheme \<Rightarrow> status_code \<times> ('h, 'z) i2c_module_scheme" where
  "i2c_bus_loop c 0 s = (STATUS_ERR_TIMEOUT, s)"
| "i2c_bus_loop c (Suc n) s =
     (case i2c_flag c I2CM_INTFLAG_MB s of (mb, s) \<Rightarrow>
        if mb then (STATUS_OK, s)
        else case i2c_flag c I2CM_INTFLAG_SB s of (sb, s) \<Rightarrow>
          if sb then (STATUS_OK, s) else i2c_bus_loop c n s)"

definition i2c_master_wait_for_bus ::
    "'h i2c_chip \<Rightarrow> ('h, 'z) i2c_module_scheme \<Rightarrow> status_code \<times> ('h, 'z) i2c_module_scheme" where
  "i2c_master_wait_for_bus c s = i2c_bus_loop c (max 1 (unat (buffer_timeout s))) s"

fun i2c_idle_loop :: "'h i2c_chip \<Rightarrow> nat \<Rightarrow> ('h, 'z) i2c_module_scheme \<Rightarrow> ('h, 'z) i2c_module_scheme" where
  "i2c_idle_loop c 0 s = s\<lparr>i_hw := ic_set_status c (I2CM_STATUS_BUSSTATE 1) (i_hw s)\<rparr>"
| "i2c_idle_loop c (Suc n) s =
     (case i2c_stat c (I2CM_STATUS_BUSSTATE 1) s of (known, s) \<Rightarrow> if known then s else i2c_idle_loop c n s)"

definition i2c_master_address_response ::
    "'h i2c_chip \<Rightarrow> ('h, 'z) i2c_module_scheme \<Rightarrow> status_code \<times> ('h, 'z) i2c_module_scheme" where
  "i2c_master_address_response c s =
     (case i2c_flag c I2CM_INTFLAG_SB s of (sb, s) \<Rightarrow>
        if sb
        then let s = s\<lparr>i_hw := ic_clear c I2CM_INTFLAG_SB (i_hw s)\<rparr>
             in case i2c_stat c I2CM_STATUS_ARBLOST s of (lost, s) \<Rightarrow>
                  (if lost then STATUS_ERR_PACKET_COLLISION else STATUS_OK, s)
        else case i2c_stat c I2CM_STATUS_RXNACK s of (nack, s) \<Rightarrow>
          if nack then (STATUS_ERR_BAD_ADDRESS, ctrlb_set c (I2CM_CTRLB_CMD 3) s) else (STATUS_OK, s))"

definition i2c_master_send_hs_master_code ::
    "'h i2c_chip \<Rightarrow> u8 \<Rightarrow> ('h, 'z) i2c_module_scheme \<Rightarrow> status_code \<times> ('h, 'z) i2c_module_scheme" where
  "i2c_master_send_hs_master_code c code s =
     (case i2c_master_wait_for_bus c (i2c_start c (ucast code) (ctrlb_set c I2CM_CTRLB_ACKACT s)) of (st, s) \<Rightarrow>
        (st, s\<lparr>i_hw := ic_clear c I2CM_INTFLAG_MB (i_hw s)\<rparr>))"

subsection \<open>Reading a packet\<close>

text \<open>The loop over the bytes; \<open>Inl\<close>: the function returns; \<open>Inr\<close>: the status and the counter behind the loop.\<close>

fun i2c_read_loop ::
    "'h i2c_chip \<Rightarrow> u32 \<Rightarrow> bool \<Rightarrow> nat \<Rightarrow> u16 \<Rightarrow> ('h, 'z) i2c_module_scheme
     \<Rightarrow> (status_code \<times> ('h, 'z) i2c_module_scheme + status_code \<times> u16 \<times> ('h, 'z) i2c_module_scheme) option" where
  "i2c_read_loop c dat sclsm 0 counter s = Some (Inr (STATUS_OK, counter, s))"
| "i2c_read_loop c dat sclsm (Suc n) counter s =
     (case i2c_stat c (I2CM_STATUS_BUSSTATE 2) s of (owner, s) \<Rightarrow>
        if \<not> owner then Some (Inl (STATUS_ERR_PACKET_COLLISION, s))
        else if send_nack s \<and> (\<not> sclsm \<and> n = 0 \<or> sclsm \<and> n = 1)
        then i2c_read_loop c dat sclsm n counter (ctrlb_set c I2CM_CTRLB_ACKACT s)
        else case ic_data c (i_hw s) of (b, h) \<Rightarrow> do {
          s \<leftarrow> i2c_store (dat + ucast counter) b (s\<lparr>i_hw := h\<rparr>);
          (case i2c_master_wait_for_bus c s of (st, s) \<Rightarrow>
             if st \<noteq> STATUS_OK then Some (Inr (st, counter + 1, s)) else i2c_read_loop c dat sclsm n (counter + 1) s) })"

definition i2c_hs :: "i2c_packet \<Rightarrow> u32" where
  "i2c_hs packet = push_bit I2CM_ADDR_HS_Pos (if high_speed packet then 1 else 0)"

text \<open>Addressing the slave; \<open>Inl\<close>: the function returns.\<close>

definition i2c_read_address ::
    "'h i2c_chip \<Rightarrow> i2c_packet \<Rightarrow> ('h, 'z) i2c_module_scheme
     \<Rightarrow> status_code \<times> ('h, 'z) i2c_module_scheme + ('h, 'z) i2c_module_scheme" where
  "i2c_read_address c packet s =
     (if ten_bit_address packet
      then case i2c_master_wait_for_bus c
               (i2c_start c (push_bit 1 (ucast (pk_address packet)) OR i2c_hs packet OR I2CM_ADDR_TENBITEN) s) of (st, s) \<Rightarrow>
        let s = ctrlb_clr c I2CM_CTRLB_ACKACT s
        in case (if st = STATUS_OK then i2c_master_address_response c s else (st, s)) of (st, s) \<Rightarrow>
          if st = STATUS_OK
          then Inr (i2c_start c (push_bit 1 (drop_bit 8 (ucast (pk_address packet)) OR 0x78) OR i2c_hs packet OR I2C_TRANSFER_READ) s)
          else Inl (st, s)
      else Inr (i2c_start c (push_bit 1 (ucast (pk_address packet)) OR I2C_TRANSFER_READ OR i2c_hs packet) s))"

definition i2c_master_read_packet ::
    "'h i2c_chip \<Rightarrow> i2c_packet \<Rightarrow> ('h, 'z) i2c_module_scheme \<Rightarrow> (status_code \<times> ('h, 'z) i2c_module_scheme) option" where
  "i2c_master_read_packet c packet s =
     (let sclsm = i_ctrla s AND I2CM_CTRLA_SCLSM \<noteq> 0;
          s = (if high_speed packet then snd (i2c_master_send_hs_master_code c (hs_master_code packet) s) else s);
          s = ctrlb_clr c I2CM_CTRLB_ACKACT s
      in case i2c_read_address c packet s of
           Inl e \<Rightarrow> Some e
         | Inr s \<Rightarrow>
             (case i2c_master_wait_for_bus c s of (st, s) \<Rightarrow>
               let s = ctrlb_clr c I2CM_CTRLB_ACKACT s
               in case (if st = STATUS_OK then i2c_master_address_response c s else (st, s)) of (st, s) \<Rightarrow>
                 if st \<noteq> STATUS_OK then Some (st, s)
                 else do {
                   r \<leftarrow> i2c_read_loop c (pk_data packet) sclsm (unat (pk_length packet)) 0 s;
                   (case r of Inl e \<Rightarrow> Some e
                    | Inr (st, counter, s) \<Rightarrow>
                        let s = (if send_stop s then ctrlb_set c (I2CM_CTRLB_CMD 3) s else s)
                        in case ic_data c (i_hw s) of (b, h) \<Rightarrow>
                             map_option (Pair st) (i2c_store (pk_data packet + ucast counter) b (s\<lparr>i_hw := h\<rparr>))) }))"

definition i2c_master_read_packet_wait ::
    "'h i2c_chip \<Rightarrow> i2c_packet \<Rightarrow> ('h, 'z) i2c_module_scheme \<Rightarrow> (status_code \<times> ('h, 'z) i2c_module_scheme) option" where
  "i2c_master_read_packet_wait c packet s = i2c_master_read_packet c packet (s\<lparr>send_stop := True, send_nack := True\<rparr>)"

definition i2c_master_read_packet_wait_no_stop ::
    "'h i2c_chip \<Rightarrow> i2c_packet \<Rightarrow> ('h, 'z) i2c_module_scheme \<Rightarrow> (status_code \<times> ('h, 'z) i2c_module_scheme) option" where
  "i2c_master_read_packet_wait_no_stop c packet s = i2c_master_read_packet c packet (s\<lparr>send_stop := False, send_nack := True\<rparr>)"

definition i2c_master_read_packet_wait_no_nack ::
    "'h i2c_chip \<Rightarrow> i2c_packet \<Rightarrow> ('h, 'z) i2c_module_scheme \<Rightarrow> (status_code \<times> ('h, 'z) i2c_module_scheme) option" where
  "i2c_master_read_packet_wait_no_nack c packet s = i2c_master_read_packet c packet (s\<lparr>send_stop := False, send_nack := False\<rparr>)"

subsection \<open>Writing a packet\<close>

fun i2c_write_loop ::
    "'h i2c_chip \<Rightarrow> u32 \<Rightarrow> nat \<Rightarrow> u16 \<Rightarrow> ('h, 'z) i2c_module_scheme
     \<Rightarrow> (status_code \<times> ('h, 'z) i2c_module_scheme + status_code \<times> ('h, 'z) i2c_module_scheme) option" where
  "i2c_write_loop c dat 0 counter s = Some (Inr (STATUS_OK, s))"
| "i2c_write_loop c dat (Suc n) counter s =
     (case i2c_stat c (I2CM_STATUS_BUSSTATE 2) s of (owner, s) \<Rightarrow>
        if \<not> owner then Some (Inl (STATUS_ERR_PACKET_COLLISION, s))
        else do {
          b \<leftarrow> i_mem s (dat + ucast counter);
          (case i2c_master_wait_for_bus c (s\<lparr>i_hw := ic_send c b (i_hw s)\<rparr>) of (st, s) \<Rightarrow>
             if st \<noteq> STATUS_OK then Some (Inr (st, s))
             else case i2c_stat c I2CM_STATUS_RXNACK s of (nack, s) \<Rightarrow>
               if nack then Some (Inr (STATUS_ERR_OVERFLOW, s)) else i2c_write_loop c dat n (counter + 1) s) })"

definition i2c_master_write_packet ::
    "'h i2c_chip \<Rightarrow> i2c_packet \<Rightarrow> ('h, 'z) i2c_module_scheme \<Rightarrow> (status_code \<times> ('h, 'z) i2c_module_scheme) option" where
  "i2c_master_write_packet c packet s =
     (let s = (if high_speed packet then snd (i2c_master_send_hs_master_code c (hs_master_code packet) s) else s);
          s = ctrlb_clr c I2CM_CTRLB_ACKACT s;
          s = i2c_start c (push_bit 1 (ucast (pk_address packet)) OR I2C_TRANSFER_WRITE OR i2c_hs packet
                OR (if ten_bit_address packet then I2CM_ADDR_TENBITEN else 0)) s
      in case i2c_master_wait_for_bus c s of (st, s) \<Rightarrow>
           case (if st = STATUS_OK then i2c_master_address_response c s else (st, s)) of (st, s) \<Rightarrow>
             if st \<noteq> STATUS_OK then Some (st, s)
             else do {
               r \<leftarrow> i2c_write_loop c (pk_data packet) (unat (pk_length packet)) 0 s;
               (case r of Inl e \<Rightarrow> Some e
                | Inr (st, s) \<Rightarrow> Some (st, if send_stop s then ctrlb_set c (I2CM_CTRLB_CMD 3) s else s)) })"

definition i2c_master_write_packet_wait ::
    "'h i2c_chip \<Rightarrow> i2c_packet \<Rightarrow> ('h, 'z) i2c_module_scheme \<Rightarrow> (status_code \<times> ('h, 'z) i2c_module_scheme) option" where
  "i2c_master_write_packet_wait c packet s = i2c_master_write_packet c packet (s\<lparr>send_stop := True, send_nack := True\<rparr>)"

definition i2c_master_write_packet_wait_no_stop ::
    "'h i2c_chip \<Rightarrow> i2c_packet \<Rightarrow> ('h, 'z) i2c_module_scheme \<Rightarrow> (status_code \<times> ('h, 'z) i2c_module_scheme) option" where
  "i2c_master_write_packet_wait_no_stop c packet s = i2c_master_write_packet c packet (s\<lparr>send_stop := False, send_nack := True\<rparr>)"

subsection \<open>Single steps\<close>

definition i2c_master_send_stop :: "'h i2c_chip \<Rightarrow> ('h, 'z) i2c_module_scheme \<Rightarrow> ('h, 'z) i2c_module_scheme" where
  "i2c_master_send_stop c = ctrlb_set c (I2CM_CTRLB_CMD 3)"

definition i2c_master_send_nack :: "'h i2c_chip \<Rightarrow> ('h, 'z) i2c_module_scheme \<Rightarrow> ('h, 'z) i2c_module_scheme" where
  "i2c_master_send_nack c = ctrlb_set c I2CM_CTRLB_ACKACT"

definition i2c_master_read_byte ::
    "'h i2c_chip \<Rightarrow> ('h, 'z) i2c_module_scheme \<Rightarrow> u8 \<times> status_code \<times> ('h, 'z) i2c_module_scheme" where
  "i2c_master_read_byte c s =
     (let s = ctrlb_clr c I2CM_CTRLB_ACKACT s
      in case ic_data c (i_hw s) of (b, h) \<Rightarrow> (b, i2c_master_wait_for_bus c (s\<lparr>i_hw := h\<rparr>)))"

definition i2c_master_write_byte ::
    "'h i2c_chip \<Rightarrow> u8 \<Rightarrow> ('h, 'z) i2c_module_scheme \<Rightarrow> status_code \<times> ('h, 'z) i2c_module_scheme" where
  "i2c_master_write_byte c b s = i2c_master_wait_for_bus c (s\<lparr>i_hw := ic_send c b (i_hw s)\<rparr>)"

end
