(* ===== verification/I2c_Config.thy ===== *)
theory I2c_Config
  imports I2c "HOL-Library.Signed_Division"
begin

text \<open>Setting up the I2C master: the defaults, the rates, initialisation and enabling (\<open>i2c_master.c\<close>, \<open>i2c_master.h\<close>).\<close>

datatype i2c_start_hold_time = I2C_MASTER_START_HOLD_TIME_DISABLED | I2C_MASTER_START_HOLD_TIME_50NS_100NS
  | I2C_MASTER_START_HOLD_TIME_300NS_600NS | I2C_MASTER_START_HOLD_TIME_400NS_800NS
datatype i2c_inactive_timeout = I2C_MASTER_INACTIVE_TIMEOUT_DISABLED | I2C_MASTER_INACTIVE_TIMEOUT_55US
  | I2C_MASTER_INACTIVE_TIMEOUT_105US | I2C_MASTER_INACTIVE_TIMEOUT_205US
datatype i2c_transfer_speed = I2C_MASTER_SPEED_STANDARD_AND_FAST | I2C_MASTER_SPEED_FAST_MODE_PLUS | I2C_MASTER_SPEED_HIGH_SPEED

fun hold_bits :: "i2c_start_hold_time \<Rightarrow> u32" where
  "hold_bits I2C_MASTER_START_HOLD_TIME_DISABLED = I2CM_CTRLA_SDAHOLD 0"
| "hold_bits I2C_MASTER_START_HOLD_TIME_50NS_100NS = I2CM_CTRLA_SDAHOLD 1"
| "hold_bits I2C_MASTER_START_HOLD_TIME_300NS_600NS = I2CM_CTRLA_SDAHOLD 2"
| "hold_bits I2C_MASTER_START_HOLD_TIME_400NS_800NS = I2CM_CTRLA_SDAHOLD 3"

fun inactive_bits :: "i2c_inactive_timeout \<Rightarrow> u32" where
  "inactive_bits I2C_MASTER_INACTIVE_TIMEOUT_DISABLED = I2CM_CTRLA_INACTOUT 0"
| "inactive_bits I2C_MASTER_INACTIVE_TIMEOUT_55US = I2CM_CTRLA_INACTOUT 1"
| "inactive_bits I2C_MASTER_INACTIVE_TIMEOUT_105US = I2CM_CTRLA_INACTOUT 2"
| "inactive_bits I2C_MASTER_INACTIVE_TIMEOUT_205US = I2CM_CTRLA_INACTOUT 3"

fun speed_bits :: "i2c_transfer_speed \<Rightarrow> u32" where
  "speed_bits I2C_MASTER_SPEED_STANDARD_AND_FAST = I2CM_CTRLA_SPEED 0"
| "speed_bits I2C_MASTER_SPEED_FAST_MODE_PLUS = I2CM_CTRLA_SPEED 1"
| "speed_bits I2C_MASTER_SPEED_HIGH_SPEED = I2CM_CTRLA_SPEED 2"

definition I2C_MASTER_BAUD_RATE_100KHZ :: u32 where "I2C_MASTER_BAUD_RATE_100KHZ = 100"
definition I2C_MASTER_BAUD_RATE_3400KHZ :: u32 where "I2C_MASTER_BAUD_RATE_3400KHZ = 3400"

record i2c_config =
  baud_rate :: u32
  baud_rate_high_speed :: u32
  transfer_speed :: i2c_transfer_speed
  generator_source :: nat
  start_hold_time :: i2c_start_hold_time
  cfg_unknown_timeout :: u16
  cfg_buffer_timeout :: u16
  run_in_standby :: bool
  pinmux_pad0 :: u32
  pinmux_pad1 :: u32
  scl_low_timeout :: bool
  inactive_timeout :: i2c_inactive_timeout
  scl_stretch_only_after_ack_bit :: bool
  slave_scl_low_extend_timeout :: bool
  master_scl_low_extend_timeout :: bool
  sda_scl_rise_time_ns :: u16

definition i2c_master_get_config_defaults :: i2c_config where
  "i2c_master_get_config_defaults = \<lparr>baud_rate = I2C_MASTER_BAUD_RATE_100KHZ, baud_rate_high_speed = I2C_MASTER_BAUD_RATE_3400KHZ,
     transfer_speed = I2C_MASTER_SPEED_STANDARD_AND_FAST, generator_source = 0,
     start_hold_time = I2C_MASTER_START_HOLD_TIME_300NS_600NS, cfg_unknown_timeout = 65535, cfg_buffer_timeout = 65535,
     run_in_standby = False, pinmux_pad0 = PINMUX_DEFAULT, pinmux_pad1 = PINMUX_DEFAULT, scl_low_timeout = False,
     inactive_timeout = I2C_MASTER_INACTIVE_TIMEOUT_DISABLED, scl_stretch_only_after_ack_bit = False,
     slave_scl_low_extend_timeout = False, master_scl_low_extend_timeout = False, sda_scl_rise_time_ns = 215\<rparr>"

definition i2c_master_lock :: "('h, 'z) i2c_module_scheme \<Rightarrow> status_code \<times> ('h, 'z) i2c_module_scheme" where
  "i2c_master_lock s = (if i_locked s then (STATUS_BUSY, s) else (STATUS_OK, s\<lparr>i_locked := True\<rparr>))"

definition i2c_master_unlock :: "('h, 'z) i2c_module_scheme \<Rightarrow> ('h, 'z) i2c_module_scheme" where
  "i2c_master_unlock s = s\<lparr>i_locked := False\<rparr>"

definition i2c_master_enable :: "'h i2c_chip \<Rightarrow> ('h, 'z) i2c_module_scheme \<Rightarrow> ('h, 'z) i2c_module_scheme" where
  "i2c_master_enable c s =
     i2c_idle_loop c (max 1 (unat (unknown_bus_state_timeout s))) (s\<lparr>i_ctrla := i_ctrla s OR I2CM_CTRLA_ENABLE\<rparr>)"

definition i2c_master_disable :: "('h, 'z) i2c_module_scheme \<Rightarrow> ('h, 'z) i2c_module_scheme" where
  "i2c_master_disable s = s\<lparr>i_ctrla := i_ctrla s AND NOT I2CM_CTRLA_ENABLE\<rparr>"

definition i2c_master_reset :: "('h, 'z) i2c_module_scheme \<Rightarrow> ('h, 'z) i2c_module_scheme" where
  "i2c_master_reset s = (i2c_master_disable s)\<lparr>i_ctrla := I2CM_CTRLA_SWRST\<rparr>"

subsection \<open>The rates\<close>

text \<open>The two divisors; the products and differences are of 32 bits and only then taken as signed; a signed sum
  that overflows is a fault.\<close>

definition i2c_baud :: "u32 \<Rightarrow> u32 \<Rightarrow> u16 \<Rightarrow> int option" where
  "i2c_baud fgclk rate rise =
     (let fscl = 1000 * rate; trise = ucast rise;
          numerator = sint (fgclk - fscl * (10 + fgclk * trise div 1000000000));
          denominator = sint (2 * fscl)
      in if denominator = 0 \<or> numerator + denominator \<ge> 2 ^ 31 \<or> numerator + denominator - 1 < - (2 ^ 31) then None
         else Some ((numerator + denominator - 1) sdiv denominator))"

definition i2c_baud_hs :: "u32 \<Rightarrow> u32 \<Rightarrow> int option" where
  "i2c_baud_hs fgclk rate =
     (if 2000 * rate = 0 then None else Some (sint ((fgclk + 2000 * rate - 1) div (2000 * rate) - 1)))"

definition i2c_rates :: "u32 \<Rightarrow> i2c_config \<Rightarrow> (status_code \<times> u32) option" where
  "i2c_rates fgclk cfg = do {
     baud \<leftarrow> i2c_baud fgclk (baud_rate cfg) (sda_scl_rise_time_ns cfg);
     (if baud > 255 \<or> baud < 0 then Some (STATUS_ERR_BAUDRATE_UNAVAILABLE, 0)
      else do {
        hs \<leftarrow> i2c_baud_hs fgclk (baud_rate_high_speed cfg);
        Some (if hs > 255 \<or> hs < 0 then (STATUS_ERR_BAUDRATE_UNAVAILABLE, 0)
              else (STATUS_OK, I2CM_BAUD_BAUD (word_of_int baud) OR I2CM_BAUD_HSBAUD (word_of_int hs))) }) }"

subsection \<open>Initialisation\<close>

definition i2c_pad :: "spi_par \<Rightarrow> nat \<Rightarrow> nat \<Rightarrow> u32 \<Rightarrow> port_group list \<Rightarrow> port_group list option" where
  "i2c_pad p sercom_index pad m gs =
     (let m = (if m = PINMUX_DEFAULT then sp_default_pad p sercom_index pad else m)
      in system_pinmux_pin_set_config (ucast (drop_bit 16 m)) (system_pinmux_get_config_defaults
           \<lparr>mux_position := ucast (m AND 0xffff), direction := SYSTEM_PINMUX_PIN_DIR_OUTPUT_WITH_READBACK\<rparr>) gs)"

definition i2c_ctrla :: "spi_par \<Rightarrow> i2c_config \<Rightarrow> u32" where
  "i2c_ctrla p cfg =
     (if run_in_standby cfg \<or> sp_debugger p then I2CM_CTRLA_RUNSTDBY else 0) OR hold_bits (start_hold_time cfg)
     OR speed_bits (transfer_speed cfg) OR (if scl_low_timeout cfg then I2CM_CTRLA_LOWTOUTEN else 0)
     OR inactive_bits (inactive_timeout cfg)
     OR (if scl_stretch_only_after_ack_bit cfg \<or> transfer_speed cfg = I2C_MASTER_SPEED_HIGH_SPEED then I2CM_CTRLA_SCLSM else 0)
     OR (if slave_scl_low_extend_timeout cfg then I2CM_CTRLA_SEXTTOEN else 0)
     OR (if master_scl_low_extend_timeout cfg then I2CM_CTRLA_MEXTTOEN else 0)"

definition i2c_master_set_config ::
    "'h i2c_chip \<Rightarrow> spi_par \<Rightarrow> nat \<Rightarrow> i2c_config \<Rightarrow> ('h, 'z) i2c_module_scheme \<Rightarrow> (status_code \<times> ('h, 'z) i2c_module_scheme) option" where
  "i2c_master_set_config c p sercom_index cfg s = do {
     gs \<leftarrow> i2c_pad p sercom_index 0 (pinmux_pad0 cfg) (i_pins s);
     gs \<leftarrow> i2c_pad p sercom_index 1 (pinmux_pad1 cfg) gs;
     let s = s\<lparr>i_pins := gs, unknown_bus_state_timeout := cfg_unknown_timeout cfg, buffer_timeout := cfg_buffer_timeout cfg,
               i_ctrla := i_ctrla s OR i2c_ctrla p cfg, i_hw := ic_set_ctrlb c I2CM_CTRLB_SMEN (i_hw s)\<rparr>;
     (st, baud) \<leftarrow> i2c_rates (sp_clock_hz p (SERCOM0_CORE + sercom_index)) cfg;
     Some (st, if st = STATUS_OK then s\<lparr>i_baud := baud\<rparr> else s) }"

definition i2c_master_init ::
    "'h i2c_chip \<Rightarrow> spi_par \<Rightarrow> nat \<Rightarrow> i2c_config \<Rightarrow> ('h, 'z) i2c_module_scheme \<Rightarrow> (status_code \<times> ('h, 'z) i2c_module_scheme) option" where
  "i2c_master_init c p sercom_index cfg s =
     (let gclk_index = sercom_index + SERCOM0_CORE;
          s = s\<lparr>i_clks := i_clks s @ [SpiApbMask (sercom_index + PM_SERCOM0_Pos), SpiChanSetConfig gclk_index (generator_source cfg),
                  SpiChanEnable gclk_index]\<rparr>;
          s = (case sercom_set_gclk_generator (\<lambda>g w. w @ [SpiSlowClock g]) (generator_source cfg) False (i_gclk s, i_clks s) of
                 (_, g, w) \<Rightarrow> s\<lparr>i_gclk := g, i_clks := w\<rparr>)
      in if i_ctrla s AND I2CM_CTRLA_ENABLE \<noteq> 0 then Some (STATUS_ERR_DENIED, s)
         else if i_ctrla s AND I2CM_CTRLA_SWRST \<noteq> 0 then Some (STATUS_BUSY, s)
         else i2c_master_set_config c p sercom_index cfg (s\<lparr>i_ctrla := I2CM_CTRLA_MODE 5\<rparr>))"

end
