(* ===== verification/Hal_I2c.thy ===== *)
theory Hal_I2c
  imports I2c_Config
begin

text \<open>
  The I2C ports of the hardware layer, \<open>hal_i2c.c\<close>. A port extends the module of the driver; the table of ports has a
  hole (\<open>None\<close>) for each one that is not configured. The results are the numbers of the status codes and \<open>EINVAL\<close>.
  The operations on a port come first, then the functions of the interface. The time-outs of the interface are not
  used by the code.
\<close>

definition I2C_EINVAL :: int where "I2C_EINVAL = 22"
definition HAL_SAMD21_I2C_MAX :: u8 where "HAL_SAMD21_I2C_MAX = 6"

record samd21_i2c_config =
  pad0_pinmux :: u32
  pad1_pinmux :: u32

record 'h hal_i2c = "'h i2c_module" +
  i2c_sercom :: "nat option"
  pconfig :: "samd21_i2c_config option"

text \<open>\<open>struct hal_i2c_master_data\<close> of the interface.\<close>

record hal_i2c_master_data =
  hd_address :: u8
  hd_len :: u16
  hd_buffer :: u32

definition i2c_packet_of :: "u16 \<Rightarrow> u16 \<Rightarrow> u32 \<Rightarrow> i2c_packet" where
  "i2c_packet_of a n buf = \<lparr>pk_address = a, pk_length = n, pk_data = buf, ten_bit_address = False, high_speed = False, hs_master_code = 0\<rparr>"

definition i2c_packet_for :: "hal_i2c_master_data \<Rightarrow> i2c_packet" where
  "i2c_packet_for d = i2c_packet_of (ucast (hd_address d)) (hd_len d) (hd_buffer d)"

subsection \<open>Operations on a port\<close>

definition port_i2c_init ::
    "'h i2c_chip \<Rightarrow> spi_par \<Rightarrow> u8 \<Rightarrow> samd21_i2c_config option \<Rightarrow> 'h hal_i2c \<Rightarrow> (int \<times> 'h hal_i2c) option" where
  "port_i2c_init c p i2c_num usercfg s = do {
     pc \<leftarrow> usercfg;
     let s = s\<lparr>i2c_sercom := (if i2c_num < 6 then Some (unat i2c_num) else None)\<rparr>;
     (if i2c_sercom s = None then Some (I2C_EINVAL, s)
      else do {
        (status, s) \<leftarrow> i2c_master_init c p (unat i2c_num)
          (i2c_master_get_config_defaults\<lparr>pinmux_pad0 := pad0_pinmux pc, pinmux_pad1 := pad1_pinmux pc\<rparr>) (s\<lparr>pconfig := Some pc\<rparr>);
        Some (if status \<noteq> STATUS_OK then (status_num status, s) else (0, i2c_master_enable c s)) }) }"

text \<open>The driver works on the registers behind the pointer to the hardware.\<close>

definition port_i2c_op ::
    "('h hal_i2c \<Rightarrow> (status_code \<times> 'h hal_i2c) option) \<Rightarrow> 'h hal_i2c \<Rightarrow> (int \<times> 'h hal_i2c) option" where
  "port_i2c_op f s =
     (if i2c_sercom s = None then None
      else map_option (\<lambda>(status, s). (if status \<noteq> STATUS_OK then status_num status else 0, s)) (f s))"

definition port_i2c_write :: "'h i2c_chip \<Rightarrow> hal_i2c_master_data \<Rightarrow> bool \<Rightarrow> 'h hal_i2c \<Rightarrow> (int \<times> 'h hal_i2c) option" where
  "port_i2c_write c d last_op =
     port_i2c_op (if last_op then i2c_master_write_packet_wait c (i2c_packet_for d)
                  else i2c_master_write_packet_wait_no_stop c (i2c_packet_for d))"

definition port_i2c_read :: "'h i2c_chip \<Rightarrow> hal_i2c_master_data \<Rightarrow> bool \<Rightarrow> 'h hal_i2c \<Rightarrow> (int \<times> 'h hal_i2c) option" where
  "port_i2c_read c d last_op =
     port_i2c_op (if last_op then i2c_master_read_packet_wait c (i2c_packet_for d)
                  else i2c_master_read_packet_wait_no_stop c (i2c_packet_for d))"

text \<open>\<open>buf\<close> is the address of the local variable of the function.\<close>

definition port_i2c_probe :: "'h i2c_chip \<Rightarrow> u32 \<Rightarrow> u8 \<Rightarrow> 'h hal_i2c \<Rightarrow> (int \<times> 'h hal_i2c) option" where
  "port_i2c_probe c buf addr = port_i2c_op (i2c_master_read_packet_wait c (i2c_packet_of (ucast addr) 0 buf))"

subsection \<open>The interface\<close>

text \<open>All ports share the memory, the pins and the clocks.\<close>

definition i2c_share :: "'h hal_i2c \<Rightarrow> 'h hal_i2c \<Rightarrow> 'h hal_i2c" where
  "i2c_share s t = t\<lparr>i_mem := i_mem s, i_pins := i_pins s, i_gclk := i_gclk s, i_clks := i_clks s\<rparr>"

definition on_i2c ::
    "u8 \<Rightarrow> ('h hal_i2c \<Rightarrow> (int \<times> 'h hal_i2c) option) \<Rightarrow> 'h hal_i2c option list \<Rightarrow> (int \<times> 'h hal_i2c option list) option" where
  "on_i2c i2c_num f ps =
     (if i2c_num \<ge> HAL_SAMD21_I2C_MAX then Some (I2C_EINVAL, ps)
      else do {
        port \<leftarrow> mem_read ps (unat i2c_num);
        (case port of None \<Rightarrow> Some (I2C_EINVAL, ps)
         | Some s \<Rightarrow> map_option (\<lambda>(rc, s). (rc, (map (map_option (i2c_share s)) ps)[unat i2c_num := Some s])) (f s)) })"

definition hal_i2c_init ::
    "'h i2c_chip \<Rightarrow> spi_par \<Rightarrow> u8 \<Rightarrow> samd21_i2c_config option \<Rightarrow> 'h hal_i2c option list \<Rightarrow> (int \<times> 'h hal_i2c option list) option" where
  "hal_i2c_init c p i2c_num usercfg = on_i2c i2c_num (port_i2c_init c p i2c_num usercfg)"

definition hal_i2c_master_write ::
    "'h i2c_chip \<Rightarrow> u8 \<Rightarrow> hal_i2c_master_data \<Rightarrow> bool \<Rightarrow> 'h hal_i2c option list \<Rightarrow> (int \<times> 'h hal_i2c option list) option" where
  "hal_i2c_master_write c i2c_num ppkt last_op = on_i2c i2c_num (port_i2c_write c ppkt last_op)"

definition hal_i2c_master_read ::
    "'h i2c_chip \<Rightarrow> u8 \<Rightarrow> hal_i2c_master_data \<Rightarrow> bool \<Rightarrow> 'h hal_i2c option list \<Rightarrow> (int \<times> 'h hal_i2c option list) option" where
  "hal_i2c_master_read c i2c_num ppkt last_op = on_i2c i2c_num (port_i2c_read c ppkt last_op)"

definition hal_i2c_master_probe ::
    "'h i2c_chip \<Rightarrow> u32 \<Rightarrow> u8 \<Rightarrow> u8 \<Rightarrow> 'h hal_i2c option list \<Rightarrow> (int \<times> 'h hal_i2c option list) option" where
  "hal_i2c_master_probe c buf i2c_num addr = on_i2c i2c_num (port_i2c_probe c buf addr)"

end
