(* ===== verification/I2c_Bus.thy ===== *)
theory I2c_Bus
  imports Hal_I2c Spi_Wire
begin

text \<open>
  A bus with one slave, on which the master is alone: the hardware that \<open>i2c_master.c\<close> talks to, in smart mode. The slave
  is any function of an address, of a byte put, of a byte to be got and of its acknowledgement, and of the stop; a
  transfer may take any number of reads of the flags below the time-out. What the driver does on it is compared with
  the operations on the slave itself.
\<close>

record 'w i2c_slave =
  sl_start :: "u8 \<Rightarrow> 'w \<Rightarrow> bool \<times> 'w"
  sl_put :: "u8 \<Rightarrow> 'w \<Rightarrow> bool \<times> 'w"
  sl_get :: "'w \<Rightarrow> u8 \<times> 'w"
  sl_ack :: "bool \<Rightarrow> 'w \<Rightarrow> 'w"
  sl_stop :: "'w \<Rightarrow> 'w"
  sl_delay :: "'w \<Rightarrow> nat"

datatype i2c_event = EvMaster bool | EvSlave u8

record 'w i2c_line =
  l_slave :: 'w
  l_next :: "(nat \<times> i2c_event) option"
  l_mb :: bool
  l_sb :: bool
  l_nack :: bool
  l_byte :: u8
  l_holds :: bool
  l_owner :: bool
  l_ctrlb :: u32

definition l_fire :: "i2c_event \<Rightarrow> 'w i2c_line \<Rightarrow> 'w i2c_line" where
  "l_fire e l =
     (case e of EvMaster nack \<Rightarrow> l\<lparr>l_next := None, l_mb := True, l_nack := nack\<rparr>
      | EvSlave b \<Rightarrow> l\<lparr>l_next := None, l_sb := True, l_nack := False, l_byte := b, l_holds := True\<rparr>)"

definition l_tick :: "'w i2c_line \<Rightarrow> 'w i2c_line" where
  "l_tick l =
     (case l_next l of None \<Rightarrow> l | Some (Suc n, e) \<Rightarrow> l\<lparr>l_next := Some (n, e)\<rparr> | Some (0, e) \<Rightarrow> l_fire e l)"

definition l_flags :: "'w i2c_line \<Rightarrow> u8" where
  "l_flags l = (if l_mb l then I2CM_INTFLAG_MB else 0) OR (if l_sb l then I2CM_INTFLAG_SB else 0)"

text \<open>The slave sends its next byte.\<close>

definition l_receive :: "'w i2c_slave \<Rightarrow> 'w i2c_line \<Rightarrow> 'w i2c_line" where
  "l_receive d l =
     (case sl_get d (l_slave l) of (b, w) \<Rightarrow> l\<lparr>l_slave := w, l_next := Some (sl_delay d w, EvSlave b), l_sb := False, l_holds := False\<rparr>)"

text \<open>The byte that is held is answered: an acknowledgement asks for the next one.\<close>

definition l_answer :: "'w i2c_slave \<Rightarrow> bool \<Rightarrow> 'w i2c_line \<Rightarrow> 'w i2c_line" where
  "l_answer d ack l = l\<lparr>l_slave := sl_ack d ack (l_slave l), l_sb := False, l_holds := False\<rparr>"

definition i2c_line :: "'w i2c_slave \<Rightarrow> 'w i2c_line i2c_chip" where
  "i2c_line d = \<lparr>
     ic_flags = (\<lambda>l. let l = l_tick l in (l_flags l, l)),
     ic_clear = (\<lambda>f l. l\<lparr>l_mb := (l_mb l \<and> f AND I2CM_INTFLAG_MB = 0), l_sb := (l_sb l \<and> f AND I2CM_INTFLAG_SB = 0)\<rparr>),
     ic_status = (\<lambda>l. ((if l_nack l then I2CM_STATUS_RXNACK else 0) OR I2CM_STATUS_BUSSTATE (if l_owner l then 2 else 1), l)),
     ic_set_status = (\<lambda>v l. l),
     ic_addr = (\<lambda>a l. case sl_start d (ucast a) (l_slave l) of (ack, w) \<Rightarrow>
        let l = l\<lparr>l_slave := w, l_mb := False, l_sb := False, l_holds := False, l_owner := True\<rparr>
        in if ack \<and> bit a 0 then l_receive d l else l\<lparr>l_next := Some (sl_delay d w, EvMaster (\<not> ack))\<rparr>),
     ic_data = (\<lambda>l. (l_byte l,
        if l_holds l \<and> l_ctrlb l AND I2CM_CTRLB_SMEN \<noteq> 0
        then if l_ctrlb l AND I2CM_CTRLB_ACKACT = 0 then l_receive d (l_answer d True l) else l_answer d False l else l)),
     ic_send = (\<lambda>b l. case sl_put d b (l_slave l) of (ack, w) \<Rightarrow>
        l\<lparr>l_slave := w, l_mb := False, l_next := Some (sl_delay d w, EvMaster (\<not> ack))\<rparr>),
     ic_ctrlb = l_ctrlb,
     ic_set_ctrlb = (\<lambda>v l. let l = l\<lparr>l_ctrlb := v AND NOT (I2CM_CTRLB_CMD 3)\<rparr>
        in if v AND I2CM_CTRLB_CMD 3 = I2CM_CTRLB_CMD 3
           then let l = (if l_holds l then l_answer d (v AND I2CM_CTRLB_ACKACT = 0) l else l)
                in l\<lparr>l_slave := sl_stop d (l_slave l), l_next := None, l_mb := False, l_sb := False, l_owner := False\<rparr>
           else l)\<rparr>"

subsection \<open>The reference\<close>

fun put_all :: "'w i2c_slave \<Rightarrow> u8 list \<Rightarrow> 'w \<Rightarrow> bool \<times> 'w" where
  "put_all d [] w = (True, w)"
| "put_all d (b # bs) w = (case sl_put d b w of (ack, w) \<Rightarrow> if ack then put_all d bs w else (False, w))"

text \<open>The byte \<open>b\<close> that was got and \<open>n\<close> more.\<close>

fun get_more :: "'w i2c_slave \<Rightarrow> nat \<Rightarrow> u8 \<Rightarrow> 'w \<Rightarrow> u8 list \<times> 'w" where
  "get_more d 0 b w = ([b], w)"
| "get_more d (Suc n) b w =
     (case sl_get d (sl_ack d True w) of (b', w) \<Rightarrow> case get_more d n b' w of (bs, w) \<Rightarrow> (b # bs, w))"

definition i2c_write_ref :: "'w i2c_slave \<Rightarrow> u8 \<Rightarrow> u8 list \<Rightarrow> bool \<Rightarrow> 'w \<Rightarrow> status_code \<times> 'w" where
  "i2c_write_ref d a bs stop w =
     (case sl_start d (push_bit 1 a) w of (ack, w) \<Rightarrow>
        if \<not> ack then (STATUS_ERR_BAD_ADDRESS, sl_stop d w)
        else case put_all d bs w of (all, w) \<Rightarrow>
          (if all then STATUS_OK else STATUS_ERR_OVERFLOW, if stop then sl_stop d w else w))"

definition i2c_read_ref :: "'w i2c_slave \<Rightarrow> u8 \<Rightarrow> nat \<Rightarrow> bool \<Rightarrow> 'w \<Rightarrow> status_code \<times> u8 list \<times> 'w" where
  "i2c_read_ref d a n stop w =
     (case sl_start d (push_bit 1 a OR 1) w of (ack, w) \<Rightarrow>
        if \<not> ack then (STATUS_ERR_BAD_ADDRESS, [], sl_stop d w)
        else case sl_get d w of (b, w) \<Rightarrow> case get_more d (n - 1) b w of (bs, w) \<Rightarrow>
          (STATUS_OK, bs, (if stop then sl_stop d else id) (sl_ack d False w)))"

subsection \<open>Waiting\<close>

lemma l_flags_simps [simp]:
  "l_flags l AND I2CM_INTFLAG_MB \<noteq> 0 \<longleftrightarrow> l_mb l" "l_flags l AND I2CM_INTFLAG_SB \<noteq> 0 \<longleftrightarrow> l_sb l"
  by (auto simp: l_flags_def I2CM_INTFLAG_MB_def I2CM_INTFLAG_SB_def)

lemma i2c_flag_line:
  "i2c_flag (i2c_line d) I2CM_INTFLAG_MB s = (l_mb (l_tick (i_hw s)), s\<lparr>i_hw := l_tick (i_hw s)\<rparr>)"
  "i2c_flag (i2c_line d) I2CM_INTFLAG_SB s = (l_sb (l_tick (i_hw s)), s\<lparr>i_hw := l_tick (i_hw s)\<rparr>)"
  by (simp_all add: i2c_flag_def i2c_line_def Let_def)

lemma i2c_stat_line:
  "i2c_stat (i2c_line d) (I2CM_STATUS_BUSSTATE 2) s = (l_owner (i_hw s), s)"
  "i2c_stat (i2c_line d) I2CM_STATUS_RXNACK s = (l_nack (i_hw s), s)"
  "i2c_stat (i2c_line d) I2CM_STATUS_ARBLOST s = (False, s)"
  by (auto simp: i2c_stat_def i2c_line_def I2CM_STATUS_BUSSTATE_def I2CM_STATUS_RXNACK_def I2CM_STATUS_ARBLOST_def)

lemma fire_flags [simp]:
  "l_mb (l_fire (EvMaster k) l)" "l_mb (l_fire (EvSlave b) l) = l_mb l" "l_sb (l_fire (EvSlave b) l)"
  "l_sb (l_fire (EvMaster k) l) = l_sb l" "l_next (l_fire e l) = None" "l_fire e (l\<lparr>l_next := x\<rparr>) = l_fire e l"
  by (auto simp: l_fire_def split: i2c_event.splits)

lemma bus_loop_line:
  assumes "l_next (i_hw s) = Some (k, e)" "\<not> l_mb (i_hw s)" "\<not> l_sb (i_hw s)" "k < n"
  shows "i2c_bus_loop (i2c_line d) n s = (STATUS_OK, s\<lparr>i_hw := l_fire e (i_hw s)\<rparr>)"
  using assms
proof (induction n arbitrary: k s)
  case (Suc n)
  show ?case
  proof (cases k)
    case 0
    then have t: "l_tick (i_hw s) = l_fire e (i_hw s)" "l_tick (l_fire e (i_hw s)) = l_fire e (i_hw s)"
      using Suc.prems(1) by (simp_all add: l_tick_def)
    show ?thesis using Suc.prems(2) t by (cases e) (simp_all add: i2c_flag_line)
  next
    case (Suc k')
    note k = this
    let ?s = "s\<lparr>i_hw := (i_hw s)\<lparr>l_next := Some (k', e)\<rparr>\<rparr>"
    have t: "l_tick (i_hw s) = (i_hw s)\<lparr>l_next := Some (k', e)\<rparr>"
      using Suc.prems(1) k by (simp add: l_tick_def)
    show ?thesis
    proof (cases k')
      case 0
      then have t2: "l_tick ((i_hw s)\<lparr>l_next := Some (k', e)\<rparr>) = l_fire e (i_hw s)" by (simp add: l_tick_def)
      have t3: "l_tick (l_fire e (i_hw s)) = l_fire e (i_hw s)" by (simp add: l_tick_def)
      obtain m where "n = Suc m" using Suc.prems(4) k by (cases n) auto
      then show ?thesis using Suc.prems(2,3) t t2 t3 by (cases e) (simp_all add: i2c_flag_line)
    next
      case (Suc k'')
      then have t2: "l_tick ((i_hw s)\<lparr>l_next := Some (k', e)\<rparr>) = (i_hw s)\<lparr>l_next := Some (k'', e)\<rparr>" by (simp add: l_tick_def)
      have "i2c_bus_loop (i2c_line d) n (s\<lparr>i_hw := (i_hw s)\<lparr>l_next := Some (k'', e)\<rparr>\<rparr>) =
          (STATUS_OK, s\<lparr>i_hw := l_fire e (i_hw s)\<rparr>)"
        using Suc.IH [of "s\<lparr>i_hw := (i_hw s)\<lparr>l_next := Some (k'', e)\<rparr>\<rparr>" k''] Suc.prems k Suc by simp
      then show ?thesis using Suc.prems(2,3) t t2 by (simp add: i2c_flag_line)
    qed
  qed
qed simp

text \<open>Everything the slave does ends before the time-out.\<close>

definition in_time :: "'w i2c_slave \<Rightarrow> ('h, 'z) i2c_module_scheme \<Rightarrow> bool" where
  "in_time d s \<longleftrightarrow> (\<forall>w. sl_delay d w < max 1 (unat (buffer_timeout s)))"

lemma in_time_upd [simp]:
  "in_time d (s\<lparr>i_hw := h\<rparr>) = in_time d s" "in_time d (s\<lparr>i_mem := m\<rparr>) = in_time d s"
  "in_time d (s\<lparr>send_stop := b\<rparr>) = in_time d s" "in_time d (s\<lparr>send_nack := b\<rparr>) = in_time d s"
  by (simp_all add: in_time_def)

lemma wait_line:
  assumes "in_time d s" "l_next (i_hw s) = Some (sl_delay d w, e)" "\<not> l_mb (i_hw s)" "\<not> l_sb (i_hw s)"
  shows "i2c_master_wait_for_bus (i2c_line d) s = (STATUS_OK, s\<lparr>i_hw := l_fire e (i_hw s)\<rparr>)"
  unfolding i2c_master_wait_for_bus_def using assms by (intro bus_loop_line) (auto simp: in_time_def)

subsection \<open>The command register\<close>

text \<open>Between two transfers: nothing is expected, no byte is held and only the acknowledge action may differ.\<close>

definition line_ready :: "'w \<Rightarrow> 'w i2c_line \<Rightarrow> bool" where
  "line_ready w l \<longleftrightarrow> l_slave l = w \<and> l_next l = None \<and> \<not> l_holds l \<and> l_ctrlb l AND NOT I2CM_CTRLB_ACKACT = I2CM_CTRLB_SMEN"

lemma ctrlb_values:
  "I2CM_CTRLB_SMEN AND I2CM_CTRLB_CMD 3 \<noteq> I2CM_CTRLB_CMD 3" "I2CM_CTRLB_SMEN AND I2CM_CTRLB_ACKACT = 0"
  "I2CM_CTRLB_SMEN AND I2CM_CTRLB_SMEN \<noteq> 0" "I2CM_CTRLB_SMEN AND NOT (I2CM_CTRLB_CMD 3) = I2CM_CTRLB_SMEN"
  "(I2CM_CTRLB_SMEN OR I2CM_CTRLB_ACKACT) AND I2CM_CTRLB_CMD 3 \<noteq> I2CM_CTRLB_CMD 3"
  "(I2CM_CTRLB_SMEN OR I2CM_CTRLB_ACKACT) AND I2CM_CTRLB_ACKACT \<noteq> 0"
  "(I2CM_CTRLB_SMEN OR I2CM_CTRLB_ACKACT) AND I2CM_CTRLB_SMEN \<noteq> 0"
  "(I2CM_CTRLB_SMEN OR I2CM_CTRLB_ACKACT) AND NOT (I2CM_CTRLB_CMD 3) = I2CM_CTRLB_SMEN OR I2CM_CTRLB_ACKACT"
  "(I2CM_CTRLB_SMEN OR I2CM_CTRLB_ACKACT) AND NOT I2CM_CTRLB_ACKACT = I2CM_CTRLB_SMEN"
  "I2CM_CTRLB_SMEN AND NOT I2CM_CTRLB_ACKACT = I2CM_CTRLB_SMEN"
  "(I2CM_CTRLB_SMEN OR I2CM_CTRLB_CMD 3) AND I2CM_CTRLB_CMD 3 = I2CM_CTRLB_CMD 3"
  "(I2CM_CTRLB_SMEN OR I2CM_CTRLB_CMD 3) AND I2CM_CTRLB_ACKACT = 0"
  "(I2CM_CTRLB_SMEN OR I2CM_CTRLB_CMD 3) AND NOT (I2CM_CTRLB_CMD 3) = I2CM_CTRLB_SMEN"
  "((I2CM_CTRLB_SMEN OR I2CM_CTRLB_ACKACT) OR I2CM_CTRLB_CMD 3) AND I2CM_CTRLB_CMD 3 = I2CM_CTRLB_CMD 3"
  "((I2CM_CTRLB_SMEN OR I2CM_CTRLB_ACKACT) OR I2CM_CTRLB_CMD 3) AND I2CM_CTRLB_ACKACT \<noteq> 0"
  "((I2CM_CTRLB_SMEN OR I2CM_CTRLB_ACKACT) OR I2CM_CTRLB_CMD 3) AND NOT (I2CM_CTRLB_CMD 3) = I2CM_CTRLB_SMEN OR I2CM_CTRLB_ACKACT"
  by (simp_all add: I2CM_CTRLB_SMEN_def I2CM_CTRLB_CMD_def I2CM_CTRLB_ACKACT_def)

lemma clr_ack_line:
  assumes "l_ctrlb (i_hw s) AND NOT I2CM_CTRLB_ACKACT = I2CM_CTRLB_SMEN"
  shows "ctrlb_clr (i2c_line d) I2CM_CTRLB_ACKACT s = s\<lparr>i_hw := (i_hw s)\<lparr>l_ctrlb := I2CM_CTRLB_SMEN\<rparr>\<rparr>"
  using assms by (simp add: ctrlb_clr_def i2c_line_def Let_def ctrlb_values)

lemma set_ack_line:
  assumes "l_ctrlb (i_hw s) = I2CM_CTRLB_SMEN"
  shows "ctrlb_set (i2c_line d) I2CM_CTRLB_ACKACT s = s\<lparr>i_hw := (i_hw s)\<lparr>l_ctrlb := I2CM_CTRLB_SMEN OR I2CM_CTRLB_ACKACT\<rparr>\<rparr>"
  using assms by (simp add: ctrlb_set_def i2c_line_def Let_def ctrlb_values)

definition l_stopped :: "'w i2c_slave \<Rightarrow> 'w i2c_line \<Rightarrow> 'w i2c_line" where
  "l_stopped d l =
     (let l = (if l_holds l then l_answer d (l_ctrlb l AND I2CM_CTRLB_ACKACT = 0) l else l)
      in l\<lparr>l_slave := sl_stop d (l_slave l), l_next := None, l_mb := False, l_sb := False, l_owner := False\<rparr>)"

lemma stop_line:
  assumes "l_ctrlb (i_hw s) = I2CM_CTRLB_SMEN \<or> l_ctrlb (i_hw s) = I2CM_CTRLB_SMEN OR I2CM_CTRLB_ACKACT"
  shows "ctrlb_set (i2c_line d) (I2CM_CTRLB_CMD 3) s = s\<lparr>i_hw := l_stopped d (i_hw s)\<rparr>"
proof -
  have "I2CM_CTRLB_ACKACT \<noteq> 0" by (simp add: I2CM_CTRLB_ACKACT_def)
  with assms show ?thesis
    by (cases "i_hw s") (auto simp: ctrlb_set_def i2c_line_def Let_def ctrlb_values l_stopped_def l_answer_def)
qed

subsection \<open>Addressing\<close>

lemma response_line:
  "l_next (i_hw s) = None \<Longrightarrow> i2c_master_address_response (i2c_line d) s =
     (if l_sb (i_hw s) then (STATUS_OK, s\<lparr>i_hw := (i_hw s)\<lparr>l_sb := False\<rparr>\<rparr>)
      else if l_nack (i_hw s) then (STATUS_ERR_BAD_ADDRESS, ctrlb_set (i2c_line d) (I2CM_CTRLB_CMD 3) s) else (STATUS_OK, s))"
  by (auto simp: i2c_master_address_response_def i2c_flag_line i2c_stat_line l_tick_def Let_def)
     (auto simp: i2c_line_def I2CM_INTFLAG_MB_def I2CM_INTFLAG_SB_def)

subsection \<open>Writing\<close>

text \<open>The buffer of a packet holds the bytes \<open>bs\<close>.\<close>

definition i2c_holds :: "(u32 \<Rightarrow> u8 option) \<Rightarrow> u32 \<Rightarrow> u8 list \<Rightarrow> bool" where
  "i2c_holds m a bs \<longleftrightarrow> (\<forall>i < length bs. m (a + of_nat i) = Some (bs ! i))"

lemma i2c_holds_Cons: "i2c_holds m a (b # bs) \<longleftrightarrow> m a = Some b \<and> i2c_holds m (a + 1) bs"
  unfolding i2c_holds_def by (auto simp: All_less_Suc2 add.assoc)

text \<open>The master owns the bus and has got its last byte through.\<close>

definition line_sent :: "'w i2c_slave \<Rightarrow> 'w \<Rightarrow> 'w i2c_line \<Rightarrow> bool" where
  "line_sent d w l \<longleftrightarrow> l_slave l = w \<and> l_next l = None \<and> \<not> l_holds l \<and> \<not> l_sb l \<and> l_owner l \<and> l_ctrlb l = I2CM_CTRLB_SMEN"

lemma send_line:
  assumes "line_sent d w (i_hw s)" "in_time d s" "sl_put d b w = (ack, w1)"
  shows "\<exists>l. i2c_master_wait_for_bus (i2c_line d) (s\<lparr>i_hw := ic_send (i2c_line d) b (i_hw s)\<rparr>) = (STATUS_OK, s\<lparr>i_hw := l\<rparr>) \<and>
     line_sent d w1 l \<and> l_nack l = (\<not> ack)"
proof -
  let ?l = "ic_send (i2c_line d) b (i_hw s)"
  have l: "l_next ?l = Some (sl_delay d w1, EvMaster (\<not> ack))" "\<not> l_mb ?l" "\<not> l_sb ?l" "l_slave ?l = w1" "\<not> l_holds ?l"
    "l_owner ?l" "l_ctrlb ?l = I2CM_CTRLB_SMEN"
    using assms(1,3) by (simp_all add: i2c_line_def line_sent_def)
  have "i2c_master_wait_for_bus (i2c_line d) (s\<lparr>i_hw := ?l\<rparr>) = (STATUS_OK, s\<lparr>i_hw := l_fire (EvMaster (\<not> ack)) ?l\<rparr>)"
    using wait_line [of d "s\<lparr>i_hw := ?l\<rparr>" w1 "EvMaster (\<not> ack)"] assms(2) l(1-3) by simp
  then show ?thesis using l by (auto simp: line_sent_def l_fire_def)
qed

lemma counter_next:
  assumes "unat (counter :: u16) + 1 < 65536"
  shows "ucast (counter + 1) = (ucast counter + 1 :: u32)" "unat (counter + 1) = unat counter + 1"
proof -
  show u: "unat (counter + 1) = unat counter + 1" using assms by (simp add: unat_word_ariths)
  then have "of_nat (unat (counter + 1)) = (of_nat (unat counter) + 1 :: u32)" by simp
  then show "ucast (counter + 1) = (ucast counter + 1 :: u32)" by simp
qed

lemma write_loop_line:
  "\<lbrakk>line_sent d w (i_hw s); in_time d s; i2c_holds (i_mem s) (dat + ucast counter) bs; unat counter + length bs \<le> 65535\<rbrakk> \<Longrightarrow>
   \<exists>l. i2c_write_loop (i2c_line d) dat (length bs) counter s =
     Some (Inr (if fst (put_all d bs w) then STATUS_OK else STATUS_ERR_OVERFLOW, s\<lparr>i_hw := l\<rparr>)) \<and> line_sent d (snd (put_all d bs w)) l"
proof (induction bs arbitrary: w s counter)
  case Nil
  then show ?case by (intro exI [of _ "i_hw s"]) simp
next
  case (Cons b bs)
  obtain ack w1 where put: "sl_put d b w = (ack, w1)" by (cases "sl_put d b w")
  obtain l where l: "i2c_master_wait_for_bus (i2c_line d) (s\<lparr>i_hw := ic_send (i2c_line d) b (i_hw s)\<rparr>) = (STATUS_OK, s\<lparr>i_hw := l\<rparr>)"
      "line_sent d w1 l" "l_nack l = (\<not> ack)"
    using send_line [OF Cons.prems(1,2) put] by blast
  have own: "l_owner (i_hw s)" and mem: "i_mem s (dat + ucast counter) = Some b" "i2c_holds (i_mem s) (dat + ucast counter + 1) bs"
    using Cons.prems(1,3) by (simp_all add: line_sent_def i2c_holds_Cons)
  have cnt: "ucast (counter + 1) = (ucast counter + 1 :: u32)" "unat (counter + 1) = unat counter + 1"
    using counter_next [of counter] Cons.prems(4) by simp_all
  show ?case
  proof (cases ack)
    case False
    then show ?thesis using l own mem(1) put by (intro exI [of _ l]) (simp add: i2c_stat_line)
  next
    case True
    have "i2c_holds (i_mem (s\<lparr>i_hw := l\<rparr>)) (dat + ucast (counter + 1)) bs" using mem(2) cnt(1) by (simp add: add.assoc)
    from Cons.IH [of w1 "s\<lparr>i_hw := l\<rparr>" "counter + 1", OF _ _ this] obtain l' where
      "i2c_write_loop (i2c_line d) dat (length bs) (counter + 1) (s\<lparr>i_hw := l\<rparr>) =
         Some (Inr (if fst (put_all d bs w1) then STATUS_OK else STATUS_ERR_OVERFLOW, s\<lparr>i_hw := l'\<rparr>))"
      "line_sent d (snd (put_all d bs w1)) l'"
      using l(2) Cons.prems(2,4) cnt(2) by auto
    then show ?thesis using l own mem(1) put True by (intro exI [of _ l']) (simp add: i2c_stat_line)
  qed
qed

text \<open>The start of a transfer to a 7 bit address.\<close>

lemma addr_bits: "ucast (push_bit n (ucast (a :: u8) :: u32)) = push_bit n a" "0 < n \<Longrightarrow> \<not> bit (push_bit n (ucast a :: u32)) 0"
  "ucast (ucast a :: u16) = (ucast a :: u32)"
proof -
  show "ucast (ucast a :: u16) = (ucast a :: u32)"
  proof (rule bit_word_eqI)
    fix n
    have "bit a n \<Longrightarrow> n < 8" using bit_imp_le_length [of a n] by simp
    then show "bit (ucast (ucast a :: u16) :: u32) n \<longleftrightarrow> bit (ucast a :: u32) n" by (auto simp: bit_simps)
  qed
qed (auto simp: bit_simps intro!: bit_word_eqI)

lemma start_write_line:
  assumes "line_ready w (i_hw s)" "in_time d s" "sl_start d (ucast A) w = (ack, w1)" "\<not> bit A 0"
  shows "\<exists>l. i2c_master_wait_for_bus (i2c_line d) (i2c_start (i2c_line d) A (ctrlb_clr (i2c_line d) I2CM_CTRLB_ACKACT s)) =
     (STATUS_OK, s\<lparr>i_hw := l\<rparr>) \<and> line_sent d w1 l \<and> l_nack l = (\<not> ack)"
proof -
  let ?h = "(i_hw s)\<lparr>l_ctrlb := I2CM_CTRLB_SMEN\<rparr>"
  have c: "ctrlb_clr (i2c_line d) I2CM_CTRLB_ACKACT s = s\<lparr>i_hw := ?h\<rparr>"
    by (rule clr_ack_line) (use assms(1) in \<open>simp add: line_ready_def\<close>)
  let ?l = "ic_addr (i2c_line d) A ?h"
  have w: "l_slave ?h = w" using assms(1) by (simp add: line_ready_def)
  have l: "l_next ?l = Some (sl_delay d w1, EvMaster (\<not> ack))" "\<not> l_mb ?l" "\<not> l_sb ?l" "l_slave ?l = w1"
    "\<not> l_holds ?l" "l_owner ?l" "l_ctrlb ?l = I2CM_CTRLB_SMEN"
    using assms(3,4) w by (simp_all add: i2c_line_def Let_def)
  have "i2c_start (i2c_line d) A (s\<lparr>i_hw := ?h\<rparr>) = s\<lparr>i_hw := ?l\<rparr>" by (simp add: i2c_start_def)
  moreover have "i2c_master_wait_for_bus (i2c_line d) (s\<lparr>i_hw := ?l\<rparr>) = (STATUS_OK, s\<lparr>i_hw := l_fire (EvMaster (\<not> ack)) ?l\<rparr>)"
    using wait_line [of d "s\<lparr>i_hw := ?l\<rparr>" w1 "EvMaster (\<not> ack)"] assms(2) l(1-3) by simp
  ultimately show ?thesis using l unfolding c
    by (intro exI [of _ "l_fire (EvMaster (\<not> ack)) ?l"]) (auto simp: line_sent_def l_fire_def)
qed

lemma line_sent_ready: "line_sent d w l \<Longrightarrow> line_ready w l"
  by (simp add: line_sent_def line_ready_def ctrlb_values)

lemma stopped_sent: "line_sent d w l \<Longrightarrow> line_ready (sl_stop d w) (l_stopped d l)"
  by (simp add: line_sent_def line_ready_def l_stopped_def ctrlb_values)

theorem i2c_write_on_line:
  assumes "line_ready w (i_hw s)" "in_time d s" "i2c_holds (i_mem s) (pk_data pk) bs" "unat (pk_length pk) = length bs"
    and pk: "pk_address pk = ucast a" "\<not> ten_bit_address pk" "\<not> high_speed pk"
    and r: "i2c_write_ref d a bs (send_stop s) w = (st, w')"
  shows "\<exists>l. i2c_master_write_packet (i2c_line d) pk s = Some (st, s\<lparr>i_hw := l\<rparr>) \<and> line_ready w' l"
proof -
  obtain A :: u32 where A: "A = push_bit 1 (ucast a)" by blast
  obtain ack w1 where st: "sl_start d (push_bit 1 a) w = (ack, w1)" by (cases "sl_start d (push_bit 1 a) w")
  have bits: "ucast A = push_bit 1 a" "\<not> bit A 0" unfolding A by (rule addr_bits, rule addr_bits(2), simp)
  obtain l where l: "i2c_master_wait_for_bus (i2c_line d)
        (i2c_start (i2c_line d) A (ctrlb_clr (i2c_line d) I2CM_CTRLB_ACKACT s)) = (STATUS_OK, s\<lparr>i_hw := l\<rparr>)"
      "line_sent d w1 l" "l_nack l = (\<not> ack)"
    using start_write_line [OF assms(1,2) _ bits(2)] st bits(1) by metis
  have addr: "push_bit 1 (ucast (pk_address pk)) OR I2C_TRANSFER_WRITE OR i2c_hs pk OR
      (if ten_bit_address pk then I2CM_ADDR_TENBITEN else 0) = A"
    using pk by (simp add: I2C_TRANSFER_WRITE_def i2c_hs_def addr_bits A)
  note def = i2c_master_write_packet_def [of "i2c_line d" pk s, unfolded Let_def addr]
  have resp: "i2c_master_address_response (i2c_line d) (s\<lparr>i_hw := l\<rparr>) =
      (if ack then (STATUS_OK, s\<lparr>i_hw := l\<rparr>) else (STATUS_ERR_BAD_ADDRESS, s\<lparr>i_hw := l_stopped d l\<rparr>))"
    using l(2,3) stop_line [of "s\<lparr>i_hw := l\<rparr>" d] by (simp add: response_line line_sent_def)
  show ?thesis
  proof (cases ack)
    case False
    then show ?thesis using r st l resp stopped_sent [OF l(2)]
      by (intro exI [of _ "l_stopped d l"]) (simp add: def pk(3) i2c_write_ref_def)
  next
    case True
    have "in_time d (s\<lparr>i_hw := l\<rparr>)" using assms(2) by simp
    moreover have "unat (pk_length pk) < 65536" using unsigned_less [of "pk_length pk", where 'a = nat] by simp
    ultimately obtain l2 where l2: "i2c_write_loop (i2c_line d) (pk_data pk) (length bs) 0 (s\<lparr>i_hw := l\<rparr>) =
        Some (Inr (if fst (put_all d bs w1) then STATUS_OK else STATUS_ERR_OVERFLOW, s\<lparr>i_hw := l2\<rparr>))"
        "line_sent d (snd (put_all d bs w1)) l2"
      using write_loop_line [of d w1 "s\<lparr>i_hw := l\<rparr>" "pk_data pk" 0 bs] l(2) assms(3,4) by auto
    obtain all w2 where put: "put_all d bs w1 = (all, w2)" by (cases "put_all d bs w1")
    have stop: "ctrlb_set (i2c_line d) (I2CM_CTRLB_CMD 3) (s\<lparr>i_hw := l2\<rparr>) = s\<lparr>i_hw := l_stopped d l2\<rparr>"
      using stop_line [of "s\<lparr>i_hw := l2\<rparr>" d] l2(2) by (simp add: line_sent_def)
    show ?thesis
      using r st l(1) resp True l2 put stop stopped_sent [OF l2(2)] line_sent_ready [OF l2(2)]
      by (intro exI [of _ "if send_stop s then l_stopped d l2 else l2"])
        (auto simp: def pk(3) i2c_write_ref_def assms(4))
  qed
qed

subsection \<open>Reading\<close>

text \<open>The slave has sent a byte, which is held until it is answered.\<close>

definition line_got :: "'w \<Rightarrow> u8 \<Rightarrow> 'w i2c_line \<Rightarrow> bool" where
  "line_got w b l \<longleftrightarrow> l_slave l = w \<and> l_byte l = b \<and> l_next l = None \<and> l_holds l \<and> l_owner l \<and> \<not> l_mb l"

text \<open>Memory with the bytes stored from an address on.\<close>

fun stored_from :: "(u32 \<Rightarrow> u8 option) \<Rightarrow> u32 \<Rightarrow> u8 list \<Rightarrow> u32 \<Rightarrow> u8 option" where
  "stored_from m a [] = m"
| "stored_from m a (b # bs) = stored_from (m(a \<mapsto> b)) (a + 1) bs"

definition i2c_room :: "(u32 \<Rightarrow> u8 option) \<Rightarrow> u32 \<Rightarrow> nat \<Rightarrow> bool" where
  "i2c_room m a n \<longleftrightarrow> (\<forall>i < n. m (a + of_nat i) \<noteq> None)"

lemma i2c_room_Suc: "i2c_room m a (Suc n) \<longleftrightarrow> m a \<noteq> None \<and> i2c_room m (a + 1) n"
  unfolding i2c_room_def by (auto simp: All_less_Suc2 add.assoc)

lemma i2c_room_upd: "i2c_room m a n \<Longrightarrow> i2c_room (m(x \<mapsto> b)) a n"
  by (auto simp: i2c_room_def)

lemma stored_from_snoc: "stored_from m a (bs @ [b]) = (stored_from m a bs)(a + of_nat (length bs) \<mapsto> b)"
  by (induction bs arbitrary: m a) (simp_all add: add.assoc)

lemma stored_from_dom: "m x \<noteq> None \<Longrightarrow> stored_from m a bs x \<noteq> None"
  by (induction bs arbitrary: m a) auto

lemma start_read_line:
  assumes "line_ready w (i_hw s)" "in_time d s" "sl_start d (ucast A) w = (ack, w1)" "bit A 0" "sl_get d w1 = (b, w2)"
  shows "\<exists>l. i2c_master_wait_for_bus (i2c_line d) (i2c_start (i2c_line d) A (ctrlb_clr (i2c_line d) I2CM_CTRLB_ACKACT s)) =
     (STATUS_OK, s\<lparr>i_hw := l\<rparr>) \<and> (if ack then line_got w2 b l \<and> l_sb l \<and> l_ctrlb l = I2CM_CTRLB_SMEN else line_sent d w1 l \<and> l_nack l)"
proof -
  let ?h = "(i_hw s)\<lparr>l_ctrlb := I2CM_CTRLB_SMEN\<rparr>"
  have c: "ctrlb_clr (i2c_line d) I2CM_CTRLB_ACKACT s = s\<lparr>i_hw := ?h\<rparr>"
    by (rule clr_ack_line) (use assms(1) in \<open>simp add: line_ready_def\<close>)
  let ?l = "ic_addr (i2c_line d) A ?h"
  let ?e = "if ack then EvSlave b else EvMaster True" and ?w = "if ack then w2 else w1"
  have w: "l_slave ?h = w" using assms(1) by (simp add: line_ready_def)
  have l: "l_next ?l = Some (sl_delay d ?w, ?e)" "\<not> l_mb ?l" "\<not> l_sb ?l" "l_slave ?l = ?w"
    "\<not> l_holds ?l" "l_owner ?l" "l_ctrlb ?l = I2CM_CTRLB_SMEN"
    using assms(3-5) w by (simp_all add: i2c_line_def Let_def l_receive_def)
  have "i2c_start (i2c_line d) A (s\<lparr>i_hw := ?h\<rparr>) = s\<lparr>i_hw := ?l\<rparr>" by (simp add: i2c_start_def)
  moreover have "i2c_master_wait_for_bus (i2c_line d) (s\<lparr>i_hw := ?l\<rparr>) = (STATUS_OK, s\<lparr>i_hw := l_fire ?e ?l\<rparr>)"
    using wait_line [of d "s\<lparr>i_hw := ?l\<rparr>" ?w ?e] assms(2) l(1-3) by simp
  ultimately show ?thesis using l unfolding c
    by (intro exI [of _ "l_fire ?e ?l"]) (cases ack; auto simp: line_sent_def line_got_def l_fire_def)
qed

lemma next_byte_line:
  assumes "line_got w b (i_hw s)" "l_ctrlb (i_hw s) = I2CM_CTRLB_SMEN" "in_time d s" "sl_get d (sl_ack d True w) = (b', w')"
  shows "\<exists>l1 l2. ic_data (i2c_line d) (i_hw s) = (b, l1) \<and>
    i2c_master_wait_for_bus (i2c_line d) (s\<lparr>i_hw := l1, i_mem := m\<rparr>) = (STATUS_OK, s\<lparr>i_hw := l2, i_mem := m\<rparr>) \<and>
    line_got w' b' l2 \<and> l_ctrlb l2 = I2CM_CTRLB_SMEN"
proof -
  let ?l = "snd (ic_data (i2c_line d) (i_hw s))"
  have v: "I2CM_CTRLB_SMEN \<noteq> 0" by (simp add: I2CM_CTRLB_SMEN_def)
  have l: "ic_data (i2c_line d) (i_hw s) = (b, ?l)" "l_next ?l = Some (sl_delay d w', EvSlave b')" "\<not> l_mb ?l" "\<not> l_sb ?l" "l_slave ?l = w'"
    "l_owner ?l" "l_ctrlb ?l = I2CM_CTRLB_SMEN"
    using assms(1,2,4) v by (simp_all add: i2c_line_def line_got_def ctrlb_values l_receive_def l_answer_def)
  have "i2c_master_wait_for_bus (i2c_line d) (s\<lparr>i_hw := ?l, i_mem := m\<rparr>) =
      (STATUS_OK, s\<lparr>i_hw := l_fire (EvSlave b') ?l, i_mem := m\<rparr>)"
    using wait_line [of d "s\<lparr>i_hw := ?l, i_mem := m\<rparr>" w' "EvSlave b'"] assms(3) l(2-4) by simp
  with l show ?thesis by (intro exI [of _ ?l] exI [of _ "l_fire (EvSlave b') ?l"]) (simp add: line_got_def l_fire_def)
qed

lemma read_loop_line:
  "\<lbrakk>line_got w b (i_hw s); l_ctrlb (i_hw s) = I2CM_CTRLB_SMEN; in_time d s; send_nack s; i2c_room (i_mem s) (dat + ucast counter) k;
    unat counter + k \<le> 65535; get_more d k b w = (bs, w')\<rbrakk> \<Longrightarrow>
   \<exists>l. i2c_read_loop (i2c_line d) dat False (Suc k) counter s = Some (Inr (STATUS_OK, counter + of_nat k,
      s\<lparr>i_hw := l, i_mem := stored_from (i_mem s) (dat + ucast counter) (butlast bs)\<rparr>)) \<and>
     line_got w' (last bs) l \<and> l_ctrlb l = I2CM_CTRLB_SMEN OR I2CM_CTRLB_ACKACT \<and> length bs = Suc k"
proof (induction k arbitrary: w b s counter bs)
  case 0
  let ?l = "(i_hw s)\<lparr>l_ctrlb := I2CM_CTRLB_SMEN OR I2CM_CTRLB_ACKACT\<rparr>"
  from 0 show ?case
    by (intro exI [of _ ?l]) (auto simp: i2c_stat_line line_got_def set_ack_line)
next
  case (Suc k)
  obtain b' w1 where g: "sl_get d (sl_ack d True w) = (b', w1)" by (cases "sl_get d (sl_ack d True w)")
  obtain bs' where bs: "bs = b # bs'" "get_more d k b' w1 = (bs', w')"
    using Suc.prems(7) g by (auto split: prod.splits)
  let ?a = "dat + ucast counter"
  let ?m = "(i_mem s)(?a \<mapsto> b)"
  obtain l1 l2 where l: "ic_data (i2c_line d) (i_hw s) = (b, l1)"
      "i2c_master_wait_for_bus (i2c_line d) (s\<lparr>i_hw := l1, i_mem := ?m\<rparr>) = (STATUS_OK, s\<lparr>i_hw := l2, i_mem := ?m\<rparr>)"
      "line_got w1 b' l2" "l_ctrlb l2 = I2CM_CTRLB_SMEN"
    using next_byte_line [OF Suc.prems(1-3) g, of ?m] by blast
  have own: "l_owner (i_hw s)" and room: "i_mem s ?a \<noteq> None" "i2c_room ?m (?a + 1) k"
    using Suc.prems(1,5) by (auto simp: line_got_def i2c_room_Suc intro: i2c_room_upd)
  have cnt: "ucast (counter + 1) = (ucast counter + 1 :: u32)" "unat (counter + 1) = unat counter + 1"
    using counter_next [of counter] Suc.prems(6) by simp_all
  have a1: "dat + ucast (counter + 1) = ?a + 1" using cnt(1) by (simp add: add.assoc)
  let ?s = "s\<lparr>i_hw := l2, i_mem := ?m\<rparr>"
  have "\<exists>l. i2c_read_loop (i2c_line d) dat False (Suc k) (counter + 1) ?s = Some (Inr (STATUS_OK, counter + 1 + of_nat k,
      ?s\<lparr>i_hw := l, i_mem := stored_from (i_mem ?s) (dat + ucast (counter + 1)) (butlast bs')\<rparr>)) \<and>
     line_got w' (last bs') l \<and> l_ctrlb l = I2CM_CTRLB_SMEN OR I2CM_CTRLB_ACKACT \<and> length bs' = Suc k"
    by (rule Suc.IH [OF _ _ _ _ _ _ bs(2)]) (use l(3,4) Suc.prems(3,4,6) room(2) cnt(2) in \<open>simp_all add: a1 del: fun_upd_apply\<close>)
  then obtain l where IH: "i2c_read_loop (i2c_line d) dat False (Suc k) (counter + 1) ?s = Some (Inr (STATUS_OK, counter + 1 + of_nat k,
      ?s\<lparr>i_hw := l, i_mem := stored_from ?m (?a + 1) (butlast bs')\<rparr>))"
     "line_got w' (last bs') l" "l_ctrlb l = I2CM_CTRLB_SMEN OR I2CM_CTRLB_ACKACT" "length bs' = Suc k"
    unfolding a1 by auto
  have step: "i2c_read_loop (i2c_line d) dat False (Suc (Suc k)) counter s = i2c_read_loop (i2c_line d) dat False (Suc k) (counter + 1) ?s"
  proof -
    obtain y where "i_mem s ?a = Some y" using room(1) by auto
    then show ?thesis using own l(1,2) unfolding i2c_read_loop.simps(2) [of "i2c_line d" dat False "Suc k" counter s]
      by (simp add: i2c_stat_line i2c_store_def del: i2c_read_loop.simps)
  qed
  have ne: "bs' \<noteq> []" using IH(4) by auto
  show ?case unfolding step IH(1) using IH(2-4) ne
    by (intro exI [of _ l]) (simp add: bs(1) add.assoc)
qed

lemma clr_ack_same:
  "l_ctrlb (i_hw s) = I2CM_CTRLB_SMEN \<Longrightarrow> ctrlb_clr (i2c_line d) I2CM_CTRLB_ACKACT s = s"
  using clr_ack_line [of s d] by (cases s; cases "i_hw s") (simp add: ctrlb_values)

text \<open>The end of a read: the byte that is still held is refused and stored.\<close>

lemma finish_read_line:
  assumes "line_got w b (i_hw s)" "l_ctrlb (i_hw s) = I2CM_CTRLB_SMEN OR I2CM_CTRLB_ACKACT"
  shows "\<exists>l. ic_data (i2c_line d) (i_hw (if stop then ctrlb_set (i2c_line d) (I2CM_CTRLB_CMD 3) s else s)) = (b, l) \<and>
    line_ready ((if stop then sl_stop d else id) (sl_ack d False w)) l"
proof -
  have v: "I2CM_CTRLB_SMEN \<noteq> 0" "I2CM_CTRLB_ACKACT \<noteq> 0" by (simp_all add: I2CM_CTRLB_SMEN_def I2CM_CTRLB_ACKACT_def)
  show ?thesis
  proof (cases stop)
    case True
    have "ctrlb_set (i2c_line d) (I2CM_CTRLB_CMD 3) s = s\<lparr>i_hw := l_stopped d (i_hw s)\<rparr>" by (rule stop_line) (use assms(2) in simp)
    then show ?thesis using assms v True
      by (simp add: i2c_line_def line_got_def line_ready_def l_stopped_def l_answer_def ctrlb_values)
  next
    case False
    then show ?thesis using assms v
      by (simp add: i2c_line_def line_got_def line_ready_def l_answer_def ctrlb_values)
  qed
qed

theorem i2c_read_on_line:
  assumes "line_ready w (i_hw s)" "in_time d s" "send_nack s" "i_ctrla s AND I2CM_CTRLA_SCLSM = 0"
    and room: "i2c_room (i_mem s) (pk_data pk) n" "unat (pk_length pk) = n" "0 < n"
    and pk: "pk_address pk = ucast a" "\<not> ten_bit_address pk" "\<not> high_speed pk"
    and r: "i2c_read_ref d a n (send_stop s) w = (st, bs, w')"
  shows "\<exists>l. i2c_master_read_packet (i2c_line d) pk s = Some (st, s\<lparr>i_hw := l, i_mem := stored_from (i_mem s) (pk_data pk) bs\<rparr>) \<and>
    line_ready w' l"
proof -
  obtain A :: u32 where A: "A = push_bit 1 (ucast a) OR 1" by blast
  obtain ack w1 where st: "sl_start d (push_bit 1 a OR 1) w = (ack, w1)" by (cases "sl_start d (push_bit 1 a OR 1) w")
  obtain b w2 where get: "sl_get d w1 = (b, w2)" by (cases "sl_get d w1")
  have bits: "ucast A = push_bit 1 a OR 1" "bit A 0" unfolding A using addr_bits(1) [of 1 a] by (simp_all add: unsigned_or_eq bit_simps)
  obtain l where l: "i2c_master_wait_for_bus (i2c_line d)
        (i2c_start (i2c_line d) A (ctrlb_clr (i2c_line d) I2CM_CTRLB_ACKACT s)) = (STATUS_OK, s\<lparr>i_hw := l\<rparr>)"
      "if ack then line_got w2 b l \<and> l_sb l \<and> l_ctrlb l = I2CM_CTRLB_SMEN else line_sent d w1 l \<and> l_nack l"
    using start_read_line [OF assms(1,2) _ bits(2) get, unfolded bits(1), OF st] by blast
  have addr: "i2c_read_address (i2c_line d) pk t = Inr (i2c_start (i2c_line d) A t)" for t
    using pk by (simp add: i2c_read_address_def I2C_TRANSFER_READ_def i2c_hs_def addr_bits A)
  have clr: "ctrlb_clr (i2c_line d) I2CM_CTRLB_ACKACT (s\<lparr>i_hw := l\<rparr>) = s\<lparr>i_hw := l\<rparr>"
    using l(2) by (intro clr_ack_same) (auto simp: line_sent_def split: if_splits)
  note def = i2c_master_read_packet_def [of "i2c_line d" pk s, unfolded Let_def addr]
  show ?thesis
  proof (cases ack)
    case False
    then have l1: "line_sent d w1 l" "l_nack l" using l(2) by simp_all
    have "i2c_master_address_response (i2c_line d) (s\<lparr>i_hw := l\<rparr>) = (STATUS_ERR_BAD_ADDRESS, s\<lparr>i_hw := l_stopped d l\<rparr>)"
      using l1 stop_line [of "s\<lparr>i_hw := l\<rparr>" d] by (simp add: response_line line_sent_def)
    then show ?thesis using r st l(1) False stopped_sent [OF l1(1)] clr
      by (intro exI [of _ "l_stopped d l"]) (auto simp: def pk(3) i2c_read_ref_def)
  next
    case True
    then have l1: "line_got w2 b l" "l_sb l" "l_ctrlb l = I2CM_CTRLB_SMEN" using l(2) by simp_all
    let ?s = "s\<lparr>i_hw := l\<lparr>l_sb := False\<rparr>\<rparr>"
    have resp: "i2c_master_address_response (i2c_line d) (s\<lparr>i_hw := l\<rparr>) = (STATUS_OK, ?s)"
      using l1 by (simp add: response_line line_got_def)
    obtain bs1 w3 where more: "get_more d (n - 1) b w2 = (bs1, w3)" by (cases "get_more d (n - 1) b w2")
    have n: "n \<le> 65535" "Suc (n - 1) = n" using room(2,3) unsigned_less [of "pk_length pk", where 'a = nat] by simp_all
    have "i2c_room (i_mem ?s) (pk_data pk + ucast (0 :: u16)) (n - 1)" using room(1) by (auto simp: i2c_room_def)
    from read_loop_line [OF _ _ _ _ this _ more] obtain l2 where
      l2: "i2c_read_loop (i2c_line d) (pk_data pk) False n 0 ?s = Some (Inr (STATUS_OK, of_nat (n - 1),
         ?s\<lparr>i_hw := l2, i_mem := stored_from (i_mem s) (pk_data pk) (butlast bs1)\<rparr>))"
       "line_got w3 (last bs1) l2" "l_ctrlb l2 = I2CM_CTRLB_SMEN OR I2CM_CTRLB_ACKACT" "length bs1 = n"
      using l1 assms(2,3) n by (auto simp: line_got_def)
    let ?t = "s\<lparr>i_hw := l2, i_mem := stored_from (i_mem s) (pk_data pk) (butlast bs1)\<rparr>"
    obtain l3 where l3: "ic_data (i2c_line d) (i_hw (if send_stop s then ctrlb_set (i2c_line d) (I2CM_CTRLB_CMD 3) ?t else ?t)) = (last bs1, l3)"
      "line_ready ((if send_stop s then sl_stop d else id) (sl_ack d False w3)) l3"
      using finish_read_line [of w3 "last bs1" ?t d "send_stop s"] l2 by auto
    let ?c = "of_nat (n - 1) :: u16"
    have "unat ?c = n - 1" using n(1) by (intro of_nat_inverse) simp_all
    then have "of_nat (unat ?c) = (of_nat (n - 1) :: u32)" by simp
    then have c: "ucast ?c = (of_nat (n - 1) :: u32)" by simp
    have "bs1 = butlast bs1 @ [last bs1]" using l2(4) room(3) by (cases bs1) simp_all
    then have fin: "stored_from (i_mem s) (pk_data pk) bs1 =
        (stored_from (i_mem s) (pk_data pk) (butlast bs1))(pk_data pk + ucast ?c \<mapsto> last bs1)"
      using stored_from_snoc [of "i_mem s" "pk_data pk" "butlast bs1" "last bs1"] l2(4) c by simp
    have dom: "stored_from (i_mem s) (pk_data pk) (butlast bs1) (pk_data pk + ucast ?c) \<noteq> None"
      unfolding c by (rule stored_from_dom) (use room(1,3) in \<open>unfold i2c_room_def, meson diff_less zero_less_one\<close>)
    let ?u = "if send_stop s then ctrlb_set (i2c_line d) (I2CM_CTRLB_CMD 3) ?t else ?t"
    have u: "i_mem ?u = stored_from (i_mem s) (pk_data pk) (butlast bs1)" "?u\<lparr>i_hw := h, i_mem := m\<rparr> = s\<lparr>i_hw := h, i_mem := m\<rparr>" for h m
      by (simp_all add: ctrlb_set_def)
    have "i2c_master_read_packet (i2c_line d) pk s =
        map_option (Pair STATUS_OK) (i2c_store (pk_data pk + ucast ?c) (last bs1) (?u\<lparr>i_hw := l3\<rparr>))"
      using l(1) clr resp l2(1) l3(1) room(2) assms(4) by (simp add: def pk(3))
    also have "\<dots> = Some (STATUS_OK, s\<lparr>i_hw := l3, i_mem := stored_from (i_mem s) (pk_data pk) bs1\<rparr>)"
      using dom u fin by (simp add: i2c_store_def)
    finally show ?thesis using r st get more l3(2) True
      by (intro exI [of _ l3]) (simp add: i2c_read_ref_def)
  qed
qed

end
