(* ===== verification/I2c_Props.thy ===== *)
theory I2c_Props
  imports I2c_Bus
begin

text \<open>
  What the I2C ports do on the bus of \<open>I2c_Bus\<close>: initialisation makes them ready, and writes, reads and probes are those
  of the slave itself. Then what the driver does not do: a read of no bytes stores one, a lost arbitration goes
  unnoticed on a write, and the divisor for the usual configuration is wrong.
\<close>

subsection \<open>Ports\<close>

text \<open>A configured port on the bus, with the slave in state \<open>w\<close> and answers within the time-out.\<close>

definition i2c_port_ok :: "'w i2c_slave \<Rightarrow> 'w \<Rightarrow> 'w i2c_line hal_i2c \<Rightarrow> bool" where
  "i2c_port_ok d w s \<longleftrightarrow> i2c_sercom s \<noteq> None \<and> line_ready w (i_hw s) \<and> in_time d s \<and> i_ctrla s AND I2CM_CTRLA_SCLSM = 0"

lemma i2c_port_ok_upd:
  "i2c_port_ok d w s \<Longrightarrow> line_ready w' l \<Longrightarrow> i2c_port_ok d w' (s\<lparr>send_stop := x, send_nack := y, i_hw := l, i_mem := m\<rparr>)"
  by (simp add: i2c_port_ok_def)

theorem i2c_port_write:
  assumes "i2c_port_ok d w s" "i2c_holds (i_mem s) (hd_buffer p) bs" "unat (hd_len p) = length bs"
    and r: "i2c_write_ref d (hd_address p) bs last_op w = (st, w')"
  shows "\<exists>s'. port_i2c_write (i2c_line d) p last_op s = Some (status_num st, s') \<and> i2c_port_ok d w' s' \<and> i_mem s' = i_mem s"
proof -
  let ?s = "s\<lparr>send_stop := last_op, send_nack := True\<rparr>" and ?pk = "i2c_packet_for p"
  have ok: "i2c_sercom s \<noteq> None" "line_ready w (i_hw ?s)" "in_time d ?s" using assms(1) by (simp_all add: i2c_port_ok_def)
  obtain l where l: "i2c_master_write_packet (i2c_line d) ?pk ?s = Some (st, ?s\<lparr>i_hw := l\<rparr>)" "line_ready w' l"
    using i2c_write_on_line [OF ok(2,3), of ?pk bs "hd_address p" st w'] assms(2,3) r
    by (auto simp: i2c_packet_for_def i2c_packet_of_def)
  have "port_i2c_write (i2c_line d) p last_op s = Some (status_num st, ?s\<lparr>i_hw := l\<rparr>)"
    using l(1) ok(1) by (cases last_op) (auto simp: port_i2c_write_def port_i2c_op_def i2c_master_write_packet_wait_def
        i2c_master_write_packet_wait_no_stop_def)
  moreover have "i2c_port_ok d w' (?s\<lparr>i_hw := l\<rparr>)" using i2c_port_ok_upd [OF assms(1) l(2), where x = last_op and y = True and m = "i_mem s"] by (simp add: i2c_port_ok_def)
  ultimately show ?thesis by (intro exI [of _ "?s\<lparr>i_hw := l\<rparr>"]) simp
qed

theorem i2c_port_read:
  assumes "i2c_port_ok d w s" "i2c_room (i_mem s) (hd_buffer p) n" "unat (hd_len p) = n" "0 < n"
    and r: "i2c_read_ref d (hd_address p) n last_op w = (st, bs, w')"
  shows "\<exists>s'. port_i2c_read (i2c_line d) p last_op s = Some (status_num st, s') \<and> i2c_port_ok d w' s' \<and>
    i_mem s' = stored_from (i_mem s) (hd_buffer p) bs"
proof -
  let ?s = "s\<lparr>send_stop := last_op, send_nack := True\<rparr>" and ?pk = "i2c_packet_for p"
  have ok: "i2c_sercom s \<noteq> None" "line_ready w (i_hw ?s)" "in_time d ?s" "send_nack ?s" "i_ctrla ?s AND I2CM_CTRLA_SCLSM = 0"
    using assms(1) by (simp_all add: i2c_port_ok_def)
  obtain l where l: "i2c_master_read_packet (i2c_line d) ?pk ?s =
      Some (st, ?s\<lparr>i_hw := l, i_mem := stored_from (i_mem s) (hd_buffer p) bs\<rparr>)" "line_ready w' l"
    using i2c_read_on_line [OF ok(2-5), of ?pk n "hd_address p" st bs w'] assms(2-4) r
    by (auto simp: i2c_packet_for_def i2c_packet_of_def)
  let ?s' = "?s\<lparr>i_hw := l, i_mem := stored_from (i_mem s) (hd_buffer p) bs\<rparr>"
  have "port_i2c_read (i2c_line d) p last_op s = Some (status_num st, ?s')"
    using l(1) ok(1) by (cases last_op) (auto simp: port_i2c_read_def port_i2c_op_def i2c_master_read_packet_wait_def
        i2c_master_read_packet_wait_no_stop_def)
  moreover have "i2c_port_ok d w' ?s'" using i2c_port_ok_upd [OF assms(1) l(2)] by simp
  ultimately show ?thesis by (intro exI [of _ ?s']) simp
qed

text \<open>
  A probe of an address tells whether a slave answers to it. The transfer has no bytes, but the slave that answers
  has already sent one: it is acknowledged and stored at the address of the buffer.
\<close>

lemma i2c_read_none:
  assumes "line_ready w (i_hw s)" "in_time d s" "send_stop s" "i_ctrla s AND I2CM_CTRLA_SCLSM = 0"
    and "pk_length pk = 0" "i_mem s (pk_data pk) \<noteq> None"
    and pk: "pk_address pk = ucast a" "\<not> ten_bit_address pk" "\<not> high_speed pk"
    and r: "sl_start d (push_bit 1 a OR 1) w = (ack, w1)" "sl_get d w1 = (b, w2)"
  shows "\<exists>l. line_ready (sl_stop d (if ack then sl_ack d True w2 else w1)) l \<and> i2c_master_read_packet (i2c_line d) pk s =
    Some (if ack then (STATUS_OK, s\<lparr>i_hw := l, i_mem := (i_mem s)(pk_data pk \<mapsto> b)\<rparr>) else (STATUS_ERR_BAD_ADDRESS, s\<lparr>i_hw := l\<rparr>))"
proof -
  obtain A :: u32 where A: "A = push_bit 1 (ucast a) OR 1" by blast
  have bits: "ucast A = push_bit 1 a OR 1" "bit A 0" unfolding A using addr_bits(1) [of 1 a] by (simp_all add: unsigned_or_eq bit_simps)
  obtain l where l: "i2c_master_wait_for_bus (i2c_line d)
        (i2c_start (i2c_line d) A (ctrlb_clr (i2c_line d) I2CM_CTRLB_ACKACT s)) = (STATUS_OK, s\<lparr>i_hw := l\<rparr>)"
      "if ack then line_got w2 b l \<and> l_sb l \<and> l_ctrlb l = I2CM_CTRLB_SMEN else line_sent d w1 l \<and> l_nack l"
    using start_read_line [OF assms(1,2) _ bits(2) r(2), unfolded bits(1), OF r(1)] by blast
  have addr: "i2c_read_address (i2c_line d) pk t = Inr (i2c_start (i2c_line d) A t)" for t
    using pk by (simp add: i2c_read_address_def I2C_TRANSFER_READ_def i2c_hs_def addr_bits A)
  have clr: "ctrlb_clr (i2c_line d) I2CM_CTRLB_ACKACT (s\<lparr>i_hw := l\<rparr>) = s\<lparr>i_hw := l\<rparr>"
    using l(2) by (intro clr_ack_same) (auto simp: line_sent_def split: if_splits)
  note def = i2c_master_read_packet_def [of "i2c_line d" pk s, unfolded Let_def addr]
  show ?thesis
  proof (cases ack)
    case False
    then have l1: "line_sent d w1 l" "l_nack l" using l(2) by simp_all
    have "i2c_master_address_response (i2c_line d) (s\<lparr>i_hw := l\<rparr>) = (STATUS_ERR_BAD_ADDRESS, s\<lparr>i_hw := l_stopped d l\<rparr>)"
      using l1 stop_line [of "s\<lparr>i_hw := l\<rparr>" d] by (simp add: response_line line_sent_def)
    then show ?thesis using l(1) False stopped_sent [OF l1(1)] clr
      by (intro exI [of _ "l_stopped d l"]) (auto simp: def pk(3))
  next
    case True
    then have l1: "line_got w2 b l" "l_sb l" "l_ctrlb l = I2CM_CTRLB_SMEN" using l(2) by simp_all
    let ?s = "s\<lparr>i_hw := l\<lparr>l_sb := False\<rparr>\<rparr>"
    have resp: "i2c_master_address_response (i2c_line d) (s\<lparr>i_hw := l\<rparr>) = (STATUS_OK, ?s)"
      using l1 by (simp add: response_line line_got_def)
    have stop: "ctrlb_set (i2c_line d) (I2CM_CTRLB_CMD 3) ?s = ?s\<lparr>i_hw := l_stopped d (l\<lparr>l_sb := False\<rparr>)\<rparr>"
      using stop_line [of ?s d] l1 by simp
    let ?l = "l_stopped d (l\<lparr>l_sb := False\<rparr>)"
    have "ic_data (i2c_line d) ?l = (b, ?l)" "line_ready (sl_stop d (sl_ack d True w2)) ?l"
      using l1 by (simp_all add: i2c_line_def line_got_def line_ready_def l_stopped_def l_answer_def ctrlb_values)
    then show ?thesis
      using l(1) clr resp stop assms(3-6) True by (intro exI [of _ ?l]) (auto simp: def pk(3) i2c_store_def)
  qed
qed

theorem i2c_port_probe:
  assumes "i2c_port_ok d w s" "i_mem s buf \<noteq> None" "sl_start d (push_bit 1 a OR 1) w = (ack, w1)" "sl_get d w1 = (b, w2)"
  shows "\<exists>s'. port_i2c_probe (i2c_line d) buf a s = Some (if ack then 0 else status_num STATUS_ERR_BAD_ADDRESS, s') \<and>
    i2c_port_ok d (sl_stop d (if ack then sl_ack d True w2 else w1)) s' \<and>
    i_mem s' = (if ack then (i_mem s)(buf \<mapsto> b) else i_mem s)"
proof -
  let ?s = "s\<lparr>send_stop := True, send_nack := True\<rparr>" and ?pk = "i2c_packet_of (ucast a) 0 buf"
  have ok: "i2c_sercom s \<noteq> None" "line_ready w (i_hw ?s)" "in_time d ?s" "send_stop ?s" "i_ctrla ?s AND I2CM_CTRLA_SCLSM = 0"
    using assms(1) by (simp_all add: i2c_port_ok_def)
  obtain l where l: "line_ready (sl_stop d (if ack then sl_ack d True w2 else w1)) l" "i2c_master_read_packet (i2c_line d) ?pk ?s =
    Some (if ack then (STATUS_OK, ?s\<lparr>i_hw := l, i_mem := (i_mem s)(buf \<mapsto> b)\<rparr>) else (STATUS_ERR_BAD_ADDRESS, ?s\<lparr>i_hw := l\<rparr>))"
    using i2c_read_none [OF ok(2-5), of ?pk a ack w1 b w2] assms(2-4) by (auto simp: i2c_packet_of_def)
  let ?s' = "?s\<lparr>i_hw := l, i_mem := (if ack then (i_mem s)(buf \<mapsto> b) else i_mem s)\<rparr>"
  have "port_i2c_probe (i2c_line d) buf a s = Some (if ack then 0 else status_num STATUS_ERR_BAD_ADDRESS, ?s')"
    using l(2) ok(1) by (cases ack) (auto simp: port_i2c_probe_def port_i2c_op_def i2c_master_read_packet_wait_def)
  then show ?thesis using i2c_port_ok_upd [OF assms(1) l(1)] by (intro exI [of _ ?s']) simp
qed

subsection \<open>An example\<close>

text \<open>
  A memory chip: the first byte of a write selects a place, the others are stored from there on, and a read
  goes on from the place after the last one. The state is the memory, the place, and whether the next byte selects.
\<close>

definition eeprom :: "u8 \<Rightarrow> (u8 list \<times> nat \<times> bool) i2c_slave" where
  "eeprom a = \<lparr>sl_start = (\<lambda>b (m, p, _). (drop_bit 1 b = a, (m, p, True))),
     sl_put = (\<lambda>b (m, p, sel). if sel then (True, (m, unat b, False)) else (p < length m, (m[p := b], p + 1, False))),
     sl_get = (\<lambda>(m, p, sel). (if p < length m then m ! p else 0xff, (m, p + 1, sel))),
     sl_ack = (\<lambda>_ w. w), sl_stop = (\<lambda>w. w), sl_delay = (\<lambda>_. 3)\<rparr>"

definition eeprom_port :: "(u8 list \<times> nat \<times> bool) i2c_line hal_i2c" where
  "eeprom_port = \<lparr>i_hw = \<lparr>l_slave = (replicate 8 0xff, 0, False), l_next = None, l_mb = False, l_sb = False, l_nack = False,
       l_byte = 0, l_holds = False, l_owner = False, l_ctrlb = I2CM_CTRLB_SMEN\<rparr>,
     i_mem = [0x100 \<mapsto> 2, 0x101 \<mapsto> 7, 0x102 \<mapsto> 8, 0x200 \<mapsto> 0, 0x201 \<mapsto> 0], i_pins = [],
     i_gclk = \<lparr>generator_is_set = False, generator_source = 0\<rparr>, i_clks = [], i_ctrla = I2CM_CTRLA_MODE 5, i_baud = 0,
     i_locked = False, unknown_bus_state_timeout = 65535, buffer_timeout = 65535, send_stop = False, send_nack = False,
     i2c_sercom = Some 0, pconfig = None\<rparr>"

lemma eeprom_port_ok: "i2c_port_ok (eeprom a) (replicate 8 0xff, 0, False) eeprom_port"
  by (simp add: i2c_port_ok_def eeprom_port_def line_ready_def in_time_def eeprom_def ctrlb_values I2CM_CTRLA_MODE_def
      I2CM_CTRLA_SCLSM_def)

text \<open>Two bytes are written to place 2 of the chip and read back from there.\<close>

theorem i2c_eeprom_example:
  "\<exists>s1 s2 s3. port_i2c_write (i2c_line (eeprom 0x50)) \<lparr>hd_address = 0x50, hd_len = 3, hd_buffer = 0x100\<rparr> True eeprom_port = Some (0, s1) \<and>
     port_i2c_write (i2c_line (eeprom 0x50)) \<lparr>hd_address = 0x50, hd_len = 1, hd_buffer = 0x100\<rparr> False s1 = Some (0, s2) \<and>
     port_i2c_read (i2c_line (eeprom 0x50)) \<lparr>hd_address = 0x50, hd_len = 2, hd_buffer = 0x200\<rparr> True s2 = Some (0, s3) \<and>
     i_mem s3 0x200 = Some 7 \<and> i_mem s3 0x201 = Some 8"
proof -
  let ?d = "eeprom 0x50" and ?m = "[0xff, 0xff, 7, 8, 0xff, 0xff, 0xff, 0xff] :: u8 list"
  have r8: "replicate 8 (0xff :: u8) = [0xff, 0xff, 0xff, 0xff, 0xff, 0xff, 0xff, 0xff]" by (simp add: numeral_eq_Suc)
  have mem: "i_mem eeprom_port = [0x100 \<mapsto> 2, 0x101 \<mapsto> 7, 0x102 \<mapsto> 8, 0x200 \<mapsto> 0, 0x201 \<mapsto> 0]" by (simp add: eeprom_port_def)
  let ?p1 = "\<lparr>hd_address = 0x50, hd_len = 3, hd_buffer = 0x100\<rparr>" and ?p2 = "\<lparr>hd_address = 0x50, hd_len = 1, hd_buffer = 0x100\<rparr>"
  let ?p3 = "\<lparr>hd_address = 0x50, hd_len = 2, hd_buffer = 0x200\<rparr>"
  have p1: "i2c_holds (i_mem eeprom_port) (hd_buffer ?p1) [2, 7, 8]" "unat (hd_len ?p1) = length [2, 7, 8 :: u8]"
    and p2: "i2c_holds (i_mem eeprom_port) (hd_buffer ?p2) [2]" "unat (hd_len ?p2) = length [2 :: u8]"
    and p3: "i2c_room (i_mem eeprom_port) (hd_buffer ?p3) (Suc (Suc 0))" "unat (hd_len ?p3) = Suc (Suc 0)" "0 < Suc (Suc 0)"
    by (simp_all add: mem i2c_holds_Cons i2c_room_Suc) (simp_all add: i2c_holds_def i2c_room_def)
  have w1: "i2c_write_ref ?d (hd_address ?p1) [2, 7, 8] True (replicate 8 0xff, 0, False) = (STATUS_OK, (?m, 4, False))"
    and w2: "i2c_write_ref ?d (hd_address ?p2) [2] False (?m, 4, False) = (STATUS_OK, (?m, 2, False))"
    and w3: "i2c_read_ref ?d (hd_address ?p3) (Suc (Suc 0)) True (?m, 2, False) = (STATUS_OK, [7, 8], (?m, 4, True))"
    by (simp_all add: i2c_write_ref_def i2c_read_ref_def eeprom_def r8)
  obtain s1 where s1: "port_i2c_write (i2c_line ?d) ?p1 True eeprom_port = Some (0, s1)"
      "i2c_port_ok ?d (?m, 4, False) s1" "i_mem s1 = i_mem eeprom_port"
    using i2c_port_write [OF eeprom_port_ok p1 w1] by auto
  obtain s2 where s2: "port_i2c_write (i2c_line ?d) ?p2 False s1 = Some (0, s2)"
      "i2c_port_ok ?d (?m, 2, False) s2" "i_mem s2 = i_mem eeprom_port"
    using i2c_port_write [OF s1(2) _ p2(2) w2] p2(1) s1(3) by auto
  obtain s3 where "port_i2c_read (i2c_line ?d) ?p3 True s2 = Some (0, s3)"
      "i_mem s3 = stored_from (i_mem s2) 0x200 [7, 8]"
    using i2c_port_read [OF s2(2) _ p3(2,3) w3] p3(1) s2(3) by auto
  with s1(1) s2(1) show ?thesis by (intro exI [of _ s1] exI [of _ s2] exI [of _ s3]) simp
qed

subsection \<open>Initialisation\<close>

lemma idle_loop_line: "i2c_idle_loop (i2c_line d) n s = s"
proof (induction n)
  case 0
  then show ?case by (simp add: i2c_line_def)
next
  case (Suc n)
  have "\<exists>k. i2c_stat (i2c_line d) (I2CM_STATUS_BUSSTATE 1) s = (k, s)" by (auto simp: i2c_stat_def i2c_line_def)
  with Suc show ?case by auto
qed

lemma default_ctrla:
  "i2c_ctrla p (i2c_master_get_config_defaults\<lparr>pinmux_pad0 := a, pinmux_pad1 := b\<rparr>) AND I2CM_CTRLA_SCLSM = 0"
  by (simp add: i2c_ctrla_def i2c_master_get_config_defaults_def I2CM_CTRLA_RUNSTDBY_def I2CM_CTRLA_SDAHOLD_def
      I2CM_CTRLA_SPEED_def I2CM_CTRLA_INACTOUT_def I2CM_CTRLA_SCLSM_def)

text \<open>A port that was initialised is ready for transfers when the slave answers within 65535 looks at the flags.\<close>

theorem i2c_init_ready:
  assumes i: "port_i2c_init (i2c_line d) p n (Some cfg) s = Some (0, s')"
    and l: "l_slave (i_hw s) = w" "l_next (i_hw s) = None" "\<not> l_holds (i_hw s)" and d: "\<And>w. sl_delay d w < 65535"
  shows "i2c_port_ok d w s'"
proof -
  let ?cfg = "i2c_master_get_config_defaults\<lparr>pinmux_pad0 := pad0_pinmux cfg, pinmux_pad1 := pad1_pinmux cfg\<rparr>"
  have num: "n < 6" using i by (auto simp: port_i2c_init_def I2C_EINVAL_def split: if_splits)
  obtain st s1 where s1: "i2c_master_init (i2c_line d) p (unat n) ?cfg (s\<lparr>i2c_sercom := Some (unat n), pconfig := Some cfg\<rparr>) = Some (st, s1)"
      "s' = (if st = STATUS_OK then i2c_master_enable (i2c_line d) s1 else s1)" "st = STATUS_OK \<or> status_num st = 0"
    using i num by (auto simp: port_i2c_init_def Let_def bind_eq_Some_conv split: if_splits)
  have st: "st = STATUS_OK" using s1(3) by (cases st) simp_all
  let ?s = "s\<lparr>i2c_sercom := Some (unat n), pconfig := Some cfg\<rparr>"
  obtain t where t: "i2c_master_set_config (i2c_line d) p (unat n) ?cfg (t\<lparr>i_ctrla := I2CM_CTRLA_MODE 5\<rparr>) = Some (STATUS_OK, s1)"
      "i_hw t = i_hw s" "i2c_sercom t = Some (unat n)"
    using s1(1) unfolding st by (auto simp: i2c_master_init_def Let_def split: if_splits prod.splits)
  obtain gs baud where s1': "s1 = t\<lparr>i_pins := gs, unknown_bus_state_timeout := cfg_unknown_timeout ?cfg, buffer_timeout := cfg_buffer_timeout ?cfg,
      i_ctrla := I2CM_CTRLA_MODE 5 OR i2c_ctrla p ?cfg, i_hw := ic_set_ctrlb (i2c_line d) I2CM_CTRLB_SMEN (i_hw s), i_baud := baud\<rparr>"
    using t by (auto simp: i2c_master_set_config_def Let_def bind_eq_Some_conv split: if_splits prod.splits)
  have s': "s' = s1\<lparr>i_ctrla := i_ctrla s1 OR I2CM_CTRLA_ENABLE\<rparr>"
    using s1(2) st by (simp add: i2c_master_enable_def idle_loop_line)
  have "line_ready w (ic_set_ctrlb (i2c_line d) I2CM_CTRLB_SMEN (i_hw s))"
    using l by (simp add: i2c_line_def line_ready_def Let_def ctrlb_values)
  moreover have "(I2CM_CTRLA_MODE 5 OR i2c_ctrla p ?cfg OR I2CM_CTRLA_ENABLE) AND I2CM_CTRLA_SCLSM = 0"
    using default_ctrla [of p]
    by (simp add: bit.conj_disj_distrib2 I2CM_CTRLA_MODE_def I2CM_CTRLA_ENABLE_def I2CM_CTRLA_SCLSM_def)
  ultimately show ?thesis
    using t(3) d by (simp add: s' s1' i2c_port_ok_def in_time_def i2c_master_get_config_defaults_def or.assoc)
qed

subsection \<open>The rate\<close>

theorem i2c_default_rate_wraps:
  "i2c_baud 48000000 I2C_MASTER_BAUD_RATE_100KHZ 215 = Some 235"
  "(48000000 - 100000 * (10 + 48000000 * 215 div 1000000000) + 200000 - 1) div 200000 = (230 :: int)"
  by (simp_all add: i2c_baud_def I2C_MASTER_BAUD_RATE_100KHZ_def)

subsection \<open>A lost arbitration\<close>

definition arbitration_lost :: "'h i2c_chip \<Rightarrow> bool" where
  "arbitration_lost c \<longleftrightarrow> (\<forall>h. ic_flags c h = (I2CM_INTFLAG_MB, h)) \<and>
     (\<forall>h. ic_status c h = (I2CM_STATUS_ARBLOST OR I2CM_STATUS_BUSSTATE 3, h))"

lemma lost_checks:
  assumes "arbitration_lost c"
  shows "i2c_stat c (I2CM_STATUS_BUSSTATE 2) s = (True, s)" "i2c_stat c I2CM_STATUS_RXNACK s = (False, s)"
    "i2c_master_wait_for_bus c s = (STATUS_OK, s)" "i2c_flag c I2CM_INTFLAG_SB s = (False, s)"
proof -
  show "i2c_stat c (I2CM_STATUS_BUSSTATE 2) s = (True, s)" "i2c_stat c I2CM_STATUS_RXNACK s = (False, s)"
    "i2c_flag c I2CM_INTFLAG_SB s = (False, s)"
    using assms by (simp_all add: arbitration_lost_def i2c_stat_def i2c_flag_def I2CM_STATUS_ARBLOST_def I2CM_STATUS_BUSSTATE_def
        I2CM_STATUS_RXNACK_def I2CM_INTFLAG_MB_def I2CM_INTFLAG_SB_def)
  have "i2c_flag c I2CM_INTFLAG_MB s = (True, s)"
    using assms by (simp add: arbitration_lost_def i2c_flag_def I2CM_INTFLAG_MB_def)
  moreover obtain k where "max 1 (unat (buffer_timeout s)) = Suc k" by (cases "max 1 (unat (buffer_timeout s))") auto
  ultimately show "i2c_master_wait_for_bus c s = (STATUS_OK, s)" by (simp add: i2c_master_wait_for_bus_def)
qed

lemma lost_write_loop:
  assumes lost: "arbitration_lost c"
  shows "i2c_holds (i_mem s) (dat + ucast counter) bs \<Longrightarrow> unat counter + length bs \<le> 65535 \<Longrightarrow>
    \<exists>h. i2c_write_loop c dat (length bs) counter s = Some (Inr (STATUS_OK, s\<lparr>i_hw := h\<rparr>))"
proof (induction bs arbitrary: s counter)
  case Nil
  then show ?case by (intro exI [of _ "i_hw s"]) simp
next
  case (Cons b bs)
  have mem: "i_mem s (dat + ucast counter) = Some b" "i2c_holds (i_mem s) (dat + ucast (counter + 1)) bs" "unat (counter + 1) = unat counter + 1"
    using Cons.prems counter_next [of counter] by (simp_all add: i2c_holds_Cons add.assoc)
  let ?s = "s\<lparr>i_hw := ic_send c b (i_hw s)\<rparr>"
  from Cons.IH [of ?s "counter + 1"] Cons.prems(2) mem(2,3) obtain h where
    "i2c_write_loop c dat (length bs) (counter + 1) ?s = Some (Inr (STATUS_OK, ?s\<lparr>i_hw := h\<rparr>))" by auto
  then show ?case using mem(1) by (intro exI [of _ h]) (simp add: lost_checks [OF lost])
qed

text \<open>
  The write of a packet looks at the flag of a slave on the bus to tell whether the arbitration was lost, but that flag
  belongs to reads; and it takes a bus that another master owns (state 3) for its own (state 2), since it tests one
  bit. With the arbitration lost at the address the write goes through all its bytes and reports success.
\<close>

theorem i2c_write_lost_arbitration:
  assumes lost: "arbitration_lost c" and "i2c_holds (i_mem s) (pk_data pk) bs" "unat (pk_length pk) = length bs" "\<not> high_speed pk"
  shows "\<exists>h. i2c_master_write_packet c pk s = Some (STATUS_OK, s\<lparr>i_hw := h\<rparr>)"
proof -
  have "unat (pk_length pk) < 65536" using unsigned_less [of "pk_length pk", where 'a = nat] by simp
  let ?t = "i2c_start c
      (push_bit 1 (ucast (pk_address pk)) OR I2C_TRANSFER_WRITE OR i2c_hs pk OR (if ten_bit_address pk then I2CM_ADDR_TENBITEN else 0))
      (ctrlb_clr c I2CM_CTRLB_ACKACT s)"
  have "i_mem ?t = i_mem s" "?t\<lparr>i_hw := h\<rparr> = s\<lparr>i_hw := h\<rparr>" for h by (simp_all add: i2c_start_def ctrlb_clr_def)
  with lost_write_loop [OF lost, of ?t "pk_data pk" 0 bs] assms(2,3) \<open>unat (pk_length pk) < 65536\<close>
  obtain h where h: "i2c_write_loop c (pk_data pk) (length bs) 0 ?t = Some (Inr (STATUS_OK, s\<lparr>i_hw := h\<rparr>))" by auto
  have "i2c_master_address_response c ?t = (STATUS_OK, ?t)"
    by (simp add: i2c_master_address_response_def lost_checks [OF lost])
  then have "i2c_master_write_packet c pk s =
      Some (STATUS_OK, if send_stop s then ctrlb_set c (I2CM_CTRLB_CMD 3) (s\<lparr>i_hw := h\<rparr>) else s\<lparr>i_hw := h\<rparr>)"
    using h assms(3,4) by (simp add: i2c_master_write_packet_def Let_def lost_checks [OF lost])
  then show ?thesis by (auto simp: ctrlb_set_def)
qed

end
