(* ===== verification/Spec2Isabelle.thy ===== *)
theory Spec2Isabelle
  imports Esp_Rest Hal_Timer_Config Nm_Props Sock_Data Sock_Wire Flash_Sectors Winc_Tx Driver_Props Uart_Props Gpio_Props Hal_Watchdog Spi_Props I2c_Props
begin

text \<open>
  Verification of the Arduino Zero support package for Mynewt: the drivers of the SAMD21 microcontroller
  (\<open>hw/mcu/atmel/samd21xx\<close>), the driver of the WINC1500 Wi-Fi chip (\<open>libs/winc1500\<close>) and the bridge to an
  ESP8266 on a serial line (\<open>libs/espduino\<close>). Paths below are relative to \<open>src/\<close>; in the first two
  groups \<open>sam0\<close> is \<open>hw/mcu/atmel/samd21xx/src/sam0\<close>.

  \<^bold>\<open>The parts and how they interact.\<close> Applications use the hardware layer (\<open>hal_*.c\<close>), which sits on the chip
  vendor's drivers (\<open>sam0/drivers\<close>). The Wi-Fi driver talks to its chip through \<open>hal_spi\<close>: byte exchange
  (\<open>winc1500_spi.c\<close>), command protocol (\<open>nmspi.c\<close>), registers and blocks (\<open>nmbus.c\<close>), packets by group
  (\<open>m2m_hif.c\<close>), then sockets (\<open>socket.c\<close>) and Wi-Fi requests (\<open>m2m_wifi.c\<close>), and on top of both the provider of
  the operating system's sockets (\<open>winc1500_socket.c\<close>) and the Wi-Fi interface (\<open>winc1500.c\<close>). Events travel the
  other way through callbacks: the interrupt of the chip is counted, a poll runs \<open>hif_isr\<close>, which dispatches to the
  callbacks of the Wi-Fi and socket layers, which call the provider, which notifies the application. The bridge
  driver (\<open>espduino.c\<close>) queues bytes in ring buffers (\<open>ringbuf.c\<close>) that the UART (\<open>hal_uart.c\<close>) empties and fills
  from its interrupt, and frames packets with a CRC (\<open>crc16.c\<close>); a REST client (\<open>rest.c\<close>) uses it.

  \<^bold>\<open>Theories and sources.\<close> A definition has the name of the C function it translates (a number or
  a prefix is added where the name is taken), a record the name of its struct.

  \<^item> \<open>Prelude\<close>: integer types, memory images, checked array accesses, shared lemmas. \<open>Status_Codes\<close>:
    \<open>sam0/utils/status_codes.h\<close>.
  \<^item> \<open>Ringbuf\<close> (\<open>ringbuf.c\<close>), \<open>Crc16\<close> (\<open>crc16.c\<close>), \<open>Espduino\<close> (\<open>espduino.c\<close>), \<open>Esp_Rest\<close> (\<open>rest.c\<close>); lemmas on
    the transmit and the receive side in \<open>Esp_Tx\<close> and \<open>Esp_Rx\<close>, the properties in \<open>Esp_Props\<close>.
  \<^item> \<open>Hal_Timer\<close> (\<open>hal_timer.c\<close>): the model; \<open>Hal_Timer_Clock\<close> the 32 bit clock built from the 16 bit counter,
    \<open>Hal_Timer_Queue\<close> the queue and its interrupt, \<open>Hal_Timer_Config\<close> the prescaler.
  \<^item> \<open>Nm_Spi\<close> (\<open>nmspi.c\<close> and the byte exchange of \<open>winc1500_spi.c\<close>), \<open>Nm_Crc7\<close> (its CRC table), \<open>Nm_Bus\<close>
    (\<open>nmbus.c\<close>), \<open>Nm_Props\<close>; \<open>Nm_Common\<close> (\<open>nm_common.c\<close>).
  \<^item> \<open>M2m_Hif\<close> (\<open>m2m_hif.c\<close>) with \<open>Hif_Props\<close>; \<open>Nmasic\<close> (\<open>nmasic.c\<close>) and \<open>Nmdrv\<close> (\<open>nmdrv.c\<close>, the reset of
    \<open>winc1500_bsp.c\<close>) with \<open>Chip_Props\<close>; \<open>Socket\<close> (\<open>socket.c\<close>) with \<open>Sock_Props\<close>, \<open>Sock_Data\<close> and \<open>Sock_Wire\<close>; \<open>M2m_Wifi\<close>
    (\<open>m2m_wifi.c\<close>) with \<open>Wifi_Props\<close>; \<open>Winc_Socket\<close> (\<open>winc1500_socket.c\<close>) with \<open>Winc_Props\<close> and \<open>Winc_Tx\<close>; \<open>Winc1500\<close>
    (\<open>winc1500.c\<close>) with \<open>Winc1500_Props\<close>; \<open>Driver_Props\<close> for the driver as a whole.
  \<^item> \<open>Nvm\<close> (\<open>sam0/drivers/nvm\<close>) with \<open>Nvm_Props\<close>, \<open>Hal_Flash\<close> (\<open>hal_flash.c\<close>) with \<open>Flash_Props\<close> and \<open>Flash_Sectors\<close>.
  \<^item> \<open>Sercom\<close> (\<open>sercom.c\<close>), \<open>Usart\<close> and \<open>Usart_Config\<close> (\<open>usart_interrupt.c\<close>, \<open>usart.c\<close>), \<open>Hal_Uart\<close> (\<open>hal_uart.c\<close>) with
    \<open>Uart_Props\<close>; \<open>Spi\<close>, \<open>Spi_Config\<close> and \<open>Spi_Job\<close> (\<open>spi.c\<close>, \<open>spi_interrupt.c\<close>), \<open>Hal_Spi\<close> (\<open>hal_spi.c\<close>), the hardware
    \<open>Spi_Wire\<close>, the running transfer \<open>Spi_Run\<close>, and \<open>Spi_Props\<close>.
  \<^item> \<open>I2c\<close> and \<open>I2c_Config\<close> (\<open>i2c_master.c\<close>, \<open>i2c_master.h\<close>), \<open>Hal_I2c\<close> (\<open>hal_i2c.c\<close>), the bus with a slave \<open>I2c_Bus\<close>, and
    \<open>I2c_Props\<close>: a port does on the bus what the operations on the slave itself do; what a lost arbitration does.
  \<^item> \<open>Port\<close> (\<open>sam0/drivers/port\<close>, \<open>sam0/drivers/system/pinmux\<close>), \<open>Extint\<close> (\<open>sam0/drivers/extint\<close>), \<open>Hal_Gpio\<close>
    (\<open>hal_gpio.c\<close>) with \<open>Gpio_Props\<close>; \<open>Hal_Watchdog\<close> (\<open>hal_watchdog.c\<close>, \<open>sam0/drivers/wdt/wdt.c\<close>).
  \<^item> This theory: a \<open>send\<close> of an application followed down to the register and block writes on the bus.

  \<^bold>\<open>State, errors and loops.\<close> The globals and structs of a component are a record; a component that is built into
  another, or whose callbacks run inside it, extends its record (the socket layer extends the host interface, the
  provider is the application part of the socket layer, a port of the HAL extends the module of its driver).
  Integers have the width of the source and wrap as there. Result codes are results; \<open>None\<close> is a fault, that is
  an access outside an object, a failed \<open>assert\<close> or a run that does not return. Loops over counters and lists are
  recursive functions; those that wait for hardware or for a peer are partial functions in the option
  monad, with \<open>None\<close> for a wait without end, and where a property says that something is done it also proves that the
  call returns. Loops that the source bounds (1000 polls for the address of a packet, 10 tries for an answer, the retries of
  the chip control) count exactly as the source does, so there is no fuel to choose. The waiting
  loops of the bridge driver run over a list, the readings of the clock and the bytes that arrive between them, and
  the scan of the Wi-Fi driver over as many rounds as it announced networks, which is enough for its end to be proved.

  \<^bold>\<open>What surrounds the code\<close> is a parameter. The bus of the Wi-Fi chip (\<open>nm_bus\<close>, and below it \<open>spi_dev\<close>) is a record of
  operations on a state nothing is assumed about; the trace properties hold for every bus, \<open>logged\<close> adds a record of the
  accesses to any of them. The flash controller (\<open>nvm_hw\<close>) behaves as \<open>nvm_datasheet\<close> says, with any time spent
  busy; \<open>sim_hw\<close> is such a controller. The hardware of the UART shows arbitrary flags, status and data at each
  interrupt. The SPI hardware is \<open>spi_chip\<close>, an arbitrary one in the model, with any slave and any delays in
  \<open>Spi_Wire\<close>. The ticks that pass between two accesses of the timer driver are a schedule. The operating system (mbufs,
  semaphores, error numbers: \<open>wenv\<close>), the Wi-Fi manager (\<open>wmgr\<close>), the callbacks of clients, the levels at the pins and the
  frequencies of the clocks are fields or arguments, with what is relied on named in the theorem and
  a concrete instance in its witness.

  \<^bold>\<open>Interfaces.\<close> The contracts between the parts are locales, interpreted on the model of the code: the queue that the
  bridge driver relies on (\<open>bounded_fifo\<close>, provided by the ring buffer), the clock that the timer queue reads
  (\<open>tick_source\<close>, provided by the extended counter), the client of a UART (\<open>uart_stream\<close>, provided by the bridge driver),
  what the callbacks of the socket layer keep (\<open>sk_inv\<close>, provided by the socket table alone and by the provider on
  top of it), and the Wi-Fi manager (\<open>wifi_manager\<close>, whose code is not here: a recorder of what it is told).

  \<^bold>\<open>What the lemmas show.\<close> Invariants and safety: the socket table, the mutex and the wake counter over everything the
  driver does; the windows and lengths of received packets; the exact effect of flash writes and erasures; the queue of timers
  and its interrupt. Functional behaviour and traces: what each request writes to the bus, byte by byte; one frame per
  request on the serial line; the streams of a UART for every order of events; an SPI transfer against every slave.
  Round trips: a request of the bridge through its own receive side, flash, pins. Equivalences: both CRCs and the long
  division with their mathematical definitions, the ring buffer with a bounded queue. Progress: deadlines, the
  end of transfers and scans, the draining of the UART. Where the code does not do what it is meant to, there is
  a theorem that says what it does.

  \<^bold>\<open>Not modelled.\<close> The vendor's drivers that nothing above uses (converters, comparators, DMA, events, I2S, RTC, TC and
  TCC beyond what the timers read and write, vectored SPI, the slave side of I2C), the set-up of clocks and
  interrupts, which only stores constants to registers (the calls to it are recorded in the state), the fuses in the
  user row of the flash, start-up code and the tables of the boards, firmware update and the cryptography
  helper of the Wi-Fi chip, its I2C and UART transports, which are not compiled, and the test applications.
  Polls of synchronisation flags and delays have no effect on the state and are left out.
\<close>

subsection \<open>From a socket to the bus\<close>

text \<open>
  C12: A successful \<open>send\<close> on a plain TCP socket makes exactly these writes on the bus, whatever the
  bus is: the request with its total length, the header at the address granted by the chip,
  the command with the session number of the socket behind it, the bytes of the application
  88 bytes after the granted address, and the hand-over. The socket table does not change.
\<close>

theorem tcp_send_on_bus:
  assumes awake: "stays_awake s" and bus: "ev_bus e = logged bus"
    and x: "get_sock sock s = Some x" "bIsUsed x = 1" "\<not> ssl_active x" "sock < int TCP_SOCK_MAX"
    and ok: "send e sock (Some data) len s = Some (SOCK_ERR_NO_ERROR, s')"
  shows "\<exists>dma. dma \<noteq> 0 \<and> gastrSockets s' = gastrSockets s \<and>
    filter is_write (snd (bus_st s')) = filter is_write (snd (bus_st s)) @
      [WReg NMI_STATE_REG (ucast M2M_REQ_GROUP_IP OR push_bit 8 (ucast (SOCKET_CMD_SEND OR M2M_REQ_DATA_PKT))
         OR push_bit 16 (ucast (8 + (80 + len)))),
       WReg WIFI_HOST_RCV_CTRL_2 2,
       WBlk dma (take 8 (hif_header (ev_stack e) M2M_REQ_GROUP_IP (SOCKET_CMD_SEND OR M2M_REQ_DATA_PKT) (8 + (80 + len)))),
       WBlk (dma + 8) (tcp_send_cmd e sock len (u16SessionID x)),
       WBlk (dma + 8 + 80) (take (unat len) data),
       WReg WIFI_HOST_RCV_CTRL_3 (push_bit 2 dma OR 2)]"
  using tcp_send_logged(1) [OF awake bus x ok] send_keeps [OF ok] by (simp add: tcp_send_writes_def)

text \<open>Socket 0 in session 7, on a chip that accepts everything.\<close>

definition tcp_state :: "(nat \<times> access list, unit) sk" where
  "tcp_state = (sk0 (0, []) ())\<lparr>gastrSockets := zero_socket\<lparr>bIsUsed := 1, u16SessionID := 7\<rparr> # replicate 10 zero_socket\<rparr>"

lemma in_writes: "filter is_write xs = ys @ [a, b, c, d, w, f] \<Longrightarrow> w \<in> set xs"
  by (metis filter_is_subset in_set_conv_decomp append.assoc append_Cons append_Nil subsetD)

theorem tcp_send_on_bus_witness:
  "\<exists>s' dma. send (env0 (logged (table_bus (\<lambda>_. 0x30000) []))) 0 (Some [1, 2, 3]) 3 tcp_state = Some (SOCK_ERR_NO_ERROR, s') \<and>
     WBlk (dma + 8 + 80) [1, 2, 3] \<in> set (snd (bus_st s'))"
proof -
  let ?e = "env0 (logged (table_bus (\<lambda>_. 0x30000) []))"
  let ?x = "zero_socket\<lparr>bIsUsed := 1, u16SessionID := 7\<rparr>"
  have awake: "stays_awake tcp_state"
    by (simp add: tcp_state_def sk0_def stays_awake_def deep_sleep_mode_def M2M_PS_DEEP_AUTOMATIC_def M2M_PS_MANUAL_def)
  have x: "get_sock 0 tcp_state = Some ?x"
    by (simp add: get_sock_def mem_read_def tcp_state_def)
  have ssl: "\<not> ssl_active ?x" by (simp add: ssl_active_def zero_socket_def)
  have ok: "\<exists>s'. hif_send (ev_bus ?e) j st g op c cs d ds off tcp_state = Some (M2M_SUCCESS, s')" for j st g op c cs d ds off
    unfolding env0_def by simp (rule hif_send_table [OF awake], simp_all)
  obtain s' where s': "send ?e 0 (Some [1, 2, 3]) 3 tcp_state = Some (SOCK_ERR_NO_ERROR, s')"
    using ok [of "ev_junk ?e" "ev_stack ?e" M2M_REQ_GROUP_IP _ "Some _" _ "Some [1, 2, 3]" 3]
    by (fastforce simp: send_def if_used_def x request_def SOCKET_REQUEST_def SOCKET_BUFFER_MAX_LENGTH_def code_defs sock_err_defs)
  have bus: "ev_bus ?e = logged (table_bus (\<lambda>_. 0x30000) [])" by (simp add: env0_def)
  have used: "bIsUsed ?x = 1" "(0 :: int) < int TCP_SOCK_MAX" by (simp_all add: sock_max_defs)
  have "\<exists>dma. WBlk (dma + 8 + 80) (take (unat (3 :: u16)) [1, 2, 3]) \<in> set (snd (bus_st s'))"
    using tcp_send_on_bus [OF awake bus x used(1) ssl used(2) s'] by (elim exE conjE) (drule in_writes, blast)
  moreover have "take (unat (3 :: u16)) [1, 2, 3] = [1, 2, 3 :: u8]" by simp
  ultimately show ?thesis using s' by auto
qed

end
